(* ===== verification/Prelude.thy ===== *)
theory Prelude
  imports
    Main
    "HOL-Library.Word"
    "HOL-Library.AList"
    "HOL-Library.Multiset"
    "HOL-Library.List_Lexorder"
    "HOL-Library.Char_ord"
begin

text \<open>
  Vocabulary shared by every component of the model.

  Integers of the C++ code are words of their width (\<open>std::uint32_t\<close> is \<^typ>\<open>32 word\<close>,
  \<open>std::uint64_t\<close> and \<open>std::size_t\<close> are \<^typ>\<open>64 word\<close>), so wrap-around is the program's.
  A \<open>std::string\<close> is a \<^typ>\<open>string\<close>: a \<^typ>\<open>char\<close> is one byte.  A
  \<open>std::unordered_map\<close> is an association list with distinct keys that is read with
  \<^const>\<open>map_of\<close> and written with \<^const>\<open>AList.update\<close>; its \<open>size()\<close> is the length of
  the list.

  The theory holds the text routines that several translation units of the program define
  for themselves with the same body (hex codec, decimal numbers, tab separated fields,
  bounded tokens) and the lemmas about them that the components share: every printed number
  and every hex encoding reads back, and neither contains a separator.
\<close>

unbundle bit_operations_syntax

type_synonym u8 = "8 word"
type_synonym u32 = "32 word"
type_synonym u64 = "64 word"
type_synonym 'v smap = "(string \<times> 'v) list"

named_theorems journal_text \<open>facts that keep separators out of journal fields\<close>
named_theorems codec \<open>read-back equations of printers and parsers\<close>

abbreviation TAB :: char where "TAB \<equiv> CHR 0x09"
abbreviation NL :: char where "NL \<equiv> CHR 0x0A"

section \<open>Maps\<close>

abbreviation contains :: "'v smap \<Rightarrow> string \<Rightarrow> bool" where
  "contains m k \<equiv> map_of m k \<noteq> None"

text \<open>The validators of the code collect messages: a failed check appends one.\<close>

definition err :: "bool \<Rightarrow> string \<Rightarrow> string list" where
  "err c msg = (if c then [msg] else [])"

lemma err_Nil [simp]: "err c m = [] \<longleftrightarrow> \<not> c"
  by (simp add: err_def)

lemma err_False [simp]: "err False m = []"
  by (simp add: err_def)

lemma map_of_update [simp]: "map_of (AList.update k v m) = (map_of m)(k \<mapsto> v)"
  by (rule update_conv')

lemma u32_not_2_le_1 [simp]: "\<not> (2 :: u32) \<le> 1"
  by (simp add: word_le_nat_alt)

lemma unat_u32_less [simp]: "unat (x :: u32) < 4294967296"
  using unsigned_less [of x] by simp

lemma unat_ucast_u32 [simp]: "unat (ucast (x :: u32) :: u64) = unat x"
proof -
  have "unat x < 18446744073709551616" using unat_u32_less [of x] by linarith
  then show ?thesis by (simp add: unsigned_ucast_eq take_bit_eq_mod)
qed

lemma map_le_Some: "f \<subseteq>\<^sub>m g \<Longrightarrow> f k = Some v \<Longrightarrow> g k = Some v"
  by (auto simp: map_le_def dom_def)

lemma unat_word_Suc: "(d :: 'a::len word) < k \<Longrightarrow> unat (d + 1) = Suc (unat d)"
proof -
  assume less: "d < k"
  have "1 + d \<noteq> 0"
  proof
    assume "1 + d = 0"
    then have "d = - 1" by (simp add: eq_neg_iff_add_eq_0 add.commute)
    with less show False by simp
  qed
  then show ?thesis using unatSuc [of d] by (simp add: add.commute)
qed

lemma unat_word_Suc_le: "unat ((d :: 'a::len word) + 1) \<le> Suc (unat d)"
  using unatSuc [of d] by (cases "1 + d = 0") (simp_all add: add.commute)

lemma unat_Suc_less: "(d :: u32) < k \<Longrightarrow> unat (d + 1) = Suc (unat d)"
  by (rule unat_word_Suc)

text \<open>A counter on its way to a bound: the measure of every \<open>for\<close> loop of the code.\<close>

lemma word_loop_measure: "(i :: 'a::len word) < n \<Longrightarrow> unat n - unat (i + 1) < unat n - unat i"
  by (simp add: unat_word_Suc word_less_nat_alt)

lemma word_add_1_le: "(i :: 'a::len word) < n \<Longrightarrow> i + 1 \<le> n"
  by (simp add: unat_word_Suc word_less_nat_alt word_le_nat_alt)

lemma unat_u64_less: "unat (x :: u64) < 18446744073709551616"
  using unsigned_less [of x] by simp

lemma unat_max_minus: "unat ((- 1 :: u64) - b) = 18446744073709551615 - unat b"
proof -
  have "unat (- 1 - b) = unat (- 1 :: u64) - unat b" by (rule unat_sub) simp
  also have "\<dots> = 18446744073709551615 - unat b"
    by (simp add: unsigned_minus_1_eq_mask mask_eq_exp_minus_1)
  finally show ?thesis .
qed

section \<open>Decimal numbers\<close>

definition digit_char :: "nat \<Rightarrow> char" where
  "digit_char d = char_of (48 + d)"

definition is_digit :: "char \<Rightarrow> bool" where
  "is_digit c \<longleftrightarrow> 48 \<le> (of_char c :: nat) \<and> (of_char c :: nat) \<le> 57"

definition digit_val :: "char \<Rightarrow> nat" where
  "digit_val c = of_char c - 48"

fun nat_digits :: "nat \<Rightarrow> string" where
  "nat_digits n = (if n < 10 then [digit_char n] else nat_digits (n div 10) @ [digit_char (n mod 10)])"

declare nat_digits.simps [simp del]

definition digits_val :: "string \<Rightarrow> nat" where
  "digits_val s = foldl (\<lambda>n c. 10 * n + digit_val c) 0 s"

text \<open>\<open>operator<<\<close> for an unsigned integer.\<close>

definition show_u :: "'a::len word \<Rightarrow> string" where
  "show_u w = nat_digits (unat w)"

text \<open>
  \<open>parse_unsigned<T>\<close>: \<open>std::from_chars\<close> must consume the whole, non-empty text and the value
  must fit into \<open>T\<close>; a sign is not a digit.
\<close>

definition parse_unsigned :: "string \<Rightarrow> 'a::len word option" where
  "parse_unsigned text =
     (if text = [] \<or> \<not> list_all is_digit text then None
      else if digits_val text < 2 ^ LENGTH('a) then Some (of_nat (digits_val text))
      else None)"

lemma digit_char_inverse [simp]: "d < 10 \<Longrightarrow> digit_val (digit_char d) = d"
  by (simp add: digit_char_def digit_val_def)

lemma digit_char_is_digit [simp]: "d < 10 \<Longrightarrow> is_digit (digit_char d)"
  by (simp add: digit_char_def is_digit_def)

lemma nat_digits_not_Nil [simp]: "nat_digits n \<noteq> []"
  by (subst nat_digits.simps) simp

lemma nat_digits_are_digits: "list_all is_digit (nat_digits n)"
proof (induction n rule: nat_digits.induct)
  case (1 n)
  then show ?case by (subst nat_digits.simps) simp
qed

lemma digits_val_snoc: "digits_val (s @ [c]) = 10 * digits_val s + digit_val c"
  by (simp add: digits_val_def)

lemma digits_val_nat_digits [simp]: "digits_val (nat_digits n) = n"
proof (induction n rule: nat_digits.induct)
  case (1 n)
  show ?case
  proof (cases "n < 10")
    case True
    then show ?thesis by (subst nat_digits.simps) (simp add: digits_val_def)
  next
    case False
    with "1.IH" show ?thesis
      by (subst nat_digits.simps) (simp add: digits_val_snoc)
  qed
qed

lemma parse_show_u [codec, simp]: "parse_unsigned (show_u w) = Some (w :: 'a::len word)"
  using nat_digits_are_digits [of "unat w"]
  by (simp add: parse_unsigned_def show_u_def)

lemma show_u_inj [simp]: "show_u x = show_u y \<longleftrightarrow> x = (y :: 'a::len word)"
  using parse_show_u [of x] parse_show_u [of y] by (metis option.inject)

lemma is_digit_no_sep: "is_digit c \<Longrightarrow> c \<noteq> TAB \<and> c \<noteq> NL"
  by (auto simp: is_digit_def)

lemma show_u_no_sep [journal_text, simp]: "TAB \<notin> set (show_u w)" "NL \<notin> set (show_u w)"
  using nat_digits_are_digits [of "unat w"]
  by (auto simp: show_u_def list_all_iff dest: is_digit_no_sep)

lemma nat_digits_inj: "nat_digits a = nat_digits b \<longleftrightarrow> a = b"
  by (metis digits_val_nat_digits)

lemma nat_digits_no_colon: "CHR '':'' \<notin> set (nat_digits n)" "CHR ''-'' \<notin> set (nat_digits n)" "NL \<notin> set (nat_digits n)"
  using nat_digits_are_digits [of n] by (auto simp: list_all_iff is_digit_def)

text \<open>A signed number in decimal.\<close>

definition show_int :: "int \<Rightarrow> string" where
  "show_int n = (if n < 0 then CHR ''-'' # nat_digits (nat (- n)) else nat_digits (nat n))"

lemma show_int_inj: "show_int a = show_int b \<longleftrightarrow> a = b"
proof
  assume e: "show_int a = show_int b"
  have neq: "CHR ''-'' # nat_digits m \<noteq> nat_digits n" for m n
    using nat_digits_no_colon(2) [of n] by (metis list.set_intros(1))
  show "a = b"
    using e neq neq [symmetric] by (auto simp: show_int_def nat_digits_inj split: if_splits)
qed simp

lemma show_u_not_Nil [simp]: "show_u w \<noteq> []"
  by (simp add: show_u_def)

section \<open>Hex codec\<close>

text \<open>\<open>hex_value\<close> and the table \<open>kHex\<close>; the code's \<open>-1\<close> is \<^const>\<open>None\<close>.\<close>

definition hex_digit :: "nat \<Rightarrow> char" where
  "hex_digit n = (if n < 10 then char_of (48 + n) else char_of (87 + n))"

definition hex_value :: "char \<Rightarrow> nat option" where
  "hex_value ch = (let c = (of_char ch :: nat) in
     if 48 \<le> c \<and> c \<le> 57 then Some (c - 48)
     else if 97 \<le> c \<and> c \<le> 102 then Some (10 + (c - 97))
     else if 65 \<le> c \<and> c \<le> 70 then Some (10 + (c - 65))
     else None)"

fun hex_encode :: "string \<Rightarrow> string" where
  "hex_encode [] = []"
| "hex_encode (ch # rest) =
     hex_digit (of_char ch div 16) # hex_digit (of_char ch mod 16) # hex_encode rest"

fun hex_decode :: "string \<Rightarrow> string option" where
  "hex_decode [] = Some []"
| "hex_decode [_] = None"
| "hex_decode (a # b # rest) =
     (case (hex_value a, hex_value b) of
        (Some hi, Some lo) \<Rightarrow> map_option ((#) (char_of (16 * hi + lo))) (hex_decode rest)
      | _ \<Rightarrow> None)"

definition is_lower_hex :: "char \<Rightarrow> bool" where
  "is_lower_hex c \<longleftrightarrow> (let n = (of_char c :: nat) in 48 \<le> n \<and> n \<le> 57 \<or> 97 \<le> n \<and> n \<le> 102)"

lemma hex_value_digit [simp]: "n < 16 \<Longrightarrow> hex_value (hex_digit n) = Some n"
  by (auto simp: hex_value_def hex_digit_def)

lemma hex_digit_lower [simp]: "n < 16 \<Longrightarrow> is_lower_hex (hex_digit n)"
  by (auto simp: is_lower_hex_def hex_digit_def)

lemma hex_decode_encode [codec, simp]: "hex_decode (hex_encode s) = Some s"
proof (induction s)
  case Nil
  then show ?case by simp
next
  case (Cons c s)
  have "(of_char c :: nat) div 16 < 16" using nat_of_char_less_256 [of c] by (simp add: less_mult_imp_div_less)
  then show ?case using Cons by simp
qed

lemma hex_encode_lower: "list_all is_lower_hex (hex_encode s)"
proof (induction s)
  case Nil
  then show ?case by simp
next
  case (Cons c s)
  have "(of_char c :: nat) div 16 < 16" using nat_of_char_less_256 [of c] by (simp add: less_mult_imp_div_less)
  then show ?case using Cons by simp
qed

lemma lower_hex_no_sep: "is_lower_hex c \<Longrightarrow> c \<noteq> TAB \<and> c \<noteq> NL"
  by (auto simp: is_lower_hex_def)

lemma hex_encode_no_sep [journal_text, simp]: "TAB \<notin> set (hex_encode s)" "NL \<notin> set (hex_encode s)"
  using hex_encode_lower [of s] by (auto simp: list_all_iff dest: lower_hex_no_sep)

section \<open>Tab separated fields and lines\<close>

text \<open>\<open>split_tabs\<close>: cut at every tab, empty fields included.\<close>

function split_tabs :: "string \<Rightarrow> string list" where
  "split_tabs line =
     (case dropWhile (\<lambda>c. c \<noteq> TAB) line of
        [] \<Rightarrow> [line]
      | _ # rest \<Rightarrow> takeWhile (\<lambda>c. c \<noteq> TAB) line # split_tabs rest)"
  by pat_completeness auto
termination
proof (relation "measure length")
  show "wf (measure length)" by simp
next
  fix line :: string and c rest
  assume "dropWhile (\<lambda>c. c \<noteq> TAB) line = c # rest"
  then have "length (c # rest) \<le> length line"
    using length_dropWhile_le [of "\<lambda>c. c \<noteq> TAB" line] by simp
  then show "(rest, line) \<in> measure length" by simp
qed

declare split_tabs.simps [simp del]

text \<open>\<open>substr(0, rfind('\t'))\<close>: everything before the last tab; None when there is none.\<close>

definition before_last_tab :: "string \<Rightarrow> string option" where
  "before_last_tab line =
     (case dropWhile (\<lambda>c. c \<noteq> TAB) (rev line) of [] \<Rightarrow> None | _ # rest \<Rightarrow> Some (rev rest))"

text \<open>
  The lines a \<open>std::getline\<close> loop reads: the text is cut at every newline, and what follows
  the last newline is a line only if it is not empty.
\<close>

function getlines :: "string \<Rightarrow> string list" where
  "getlines text =
     (case dropWhile (\<lambda>c. c \<noteq> NL) text of
        [] \<Rightarrow> (if text = [] then [] else [text])
      | _ # rest \<Rightarrow> takeWhile (\<lambda>c. c \<noteq> NL) text # getlines rest)"
  by pat_completeness auto
termination
proof (relation "measure length")
  show "wf (measure length)" by simp
next
  fix s :: string and c rest
  assume "dropWhile (\<lambda>c. c \<noteq> NL) s = c # rest"
  then have "length (c # rest) \<le> length s"
    using length_dropWhile_le [of "\<lambda>c. c \<noteq> NL" s] by simp
  then show "(rest, s) \<in> measure length" by simp
qed

declare getlines.simps [simp del]

definition tab_join :: "string list \<Rightarrow> string" where
  "tab_join fs = concat (map (\<lambda>f. TAB # f) fs)"

lemma dropWhile_neq_none: "c \<notin> set xs \<Longrightarrow> dropWhile (\<lambda>x. x \<noteq> c) (xs @ c # ys) = c # ys"
  by (induction xs) auto

lemma takeWhile_neq_none: "c \<notin> set xs \<Longrightarrow> takeWhile (\<lambda>x. x \<noteq> c) (xs @ c # ys) = xs"
  by (induction xs) auto

lemma dropWhile_neq_ConsD: "dropWhile (\<lambda>x. x \<noteq> c) xs = d # ys \<Longrightarrow> d = c"
  by (induction xs) (auto split: if_splits)

lemma split_at_first:
  assumes "dropWhile (\<lambda>x. x \<noteq> c) xs = d # ys"
  shows "xs = takeWhile (\<lambda>x. x \<noteq> c) xs @ c # ys" "c \<notin> set (takeWhile (\<lambda>x. x \<noteq> c) xs)"
  using takeWhile_dropWhile_id [of "\<lambda>x. x \<noteq> c" xs] assms dropWhile_neq_ConsD [OF assms]
  by (auto dest: set_takeWhileD)

lemma dropWhile_neq_all: "c \<notin> set xs \<Longrightarrow> dropWhile (\<lambda>x. x \<noteq> c) xs = []"
  by (induction xs) auto

lemma split_tabs_no_tab: "TAB \<notin> set f \<Longrightarrow> split_tabs f = [f]"
  by (subst split_tabs.simps) (simp add: dropWhile_neq_all)

lemma split_tabs_Cons: "TAB \<notin> set f \<Longrightarrow> split_tabs (f @ TAB # rest) = f # split_tabs rest"
  by (subst split_tabs.simps) (simp add: dropWhile_neq_none takeWhile_neq_none)

lemma split_tabs_join [codec]:
  "\<forall>f \<in> set (f # fs). TAB \<notin> set f \<Longrightarrow> split_tabs (f @ tab_join fs) = f # fs"
proof (induction fs arbitrary: f)
  case Nil
  then show ?case by (simp add: tab_join_def split_tabs_no_tab)
next
  case (Cons g gs)
  then have "split_tabs (g @ tab_join gs) = g # gs" by simp
  with Cons.prems show ?case by (simp add: tab_join_def split_tabs_Cons)
qed

lemma split_tabs_not_Nil [simp]: "split_tabs s \<noteq> []"
  by (subst split_tabs.simps) (simp split: list.splits)

text \<open>Splitting loses nothing: joining the fields with tabs restores the line.\<close>

lemma split_tabs_restores: "hd (split_tabs s) @ tab_join (tl (split_tabs s)) = s"
proof (induction s rule: split_tabs.induct)
  case (1 s)
  show ?case
  proof (cases "dropWhile (\<lambda>c. c \<noteq> TAB) s")
    case Nil
    then have "TAB \<notin> set s" by (auto simp: dropWhile_eq_Nil_conv)
    then show ?thesis by (simp add: split_tabs_no_tab tab_join_def)
  next
    case (Cons c rest)
    note split = split_at_first [OF Cons]
    have IH: "hd (split_tabs rest) @ tab_join (tl (split_tabs rest)) = rest"
      using "1.IH" Cons by blast
    have "split_tabs s = takeWhile (\<lambda>c. c \<noteq> TAB) s # split_tabs rest"
      by (subst split_tabs.simps) (simp add: Cons)
    then have "hd (split_tabs s) @ tab_join (tl (split_tabs s)) =
        takeWhile (\<lambda>c. c \<noteq> TAB) s @ tab_join (split_tabs rest)"
      by simp
    also have "tab_join (split_tabs rest) = TAB # rest"
      using IH by (cases "split_tabs rest") (simp_all add: tab_join_def)
    also have "takeWhile (\<lambda>c. c \<noteq> TAB) s @ TAB # rest = s"
      using split(1) by simp
    finally show ?thesis .
  qed
qed

lemma split_tabs_inject: "split_tabs s = split_tabs t \<longleftrightarrow> s = t"
  by (metis split_tabs_restores)

lemma before_last_tab_snoc:
  "TAB \<notin> set f \<Longrightarrow> before_last_tab (s @ TAB # f) = Some s"
  by (simp add: before_last_tab_def dropWhile_neq_none)

lemma before_last_tab_SomeD:
  assumes "before_last_tab line = Some s"
  shows "\<exists>f. TAB \<notin> set f \<and> line = s @ TAB # f"
proof -
  from assms obtain c rest where d: "dropWhile (\<lambda>c. c \<noteq> TAB) (rev line) = c # rest" and s: "s = rev rest"
    by (auto simp: before_last_tab_def split: list.splits)
  note split = split_at_first [OF d]
  have "rev (rev line) = s @ TAB # rev (takeWhile (\<lambda>c. c \<noteq> TAB) (rev line))"
    using arg_cong [OF split(1), of rev] s by simp
  with split(2) show ?thesis
    by (intro exI [of _ "rev (takeWhile (\<lambda>c. c \<noteq> TAB) (rev line))"]) simp
qed

lemma split_tabs_snoc: "TAB \<notin> set f \<Longrightarrow> split_tabs (s @ TAB # f) = split_tabs s @ [f]"
proof (induction s rule: split_tabs.induct)
  case (1 s)
  show ?case
  proof (cases "dropWhile (\<lambda>c. c \<noteq> TAB) s")
    case Nil
    then have n: "TAB \<notin> set s" by (auto simp: dropWhile_eq_Nil_conv)
    then show ?thesis using 1 by (simp add: split_tabs_Cons split_tabs_no_tab)
  next
    case (Cons c rest)
    obtain g where g: "s = g @ TAB # rest" "TAB \<notin> set g"
      using split_at_first [OF Cons] by blast
    have "split_tabs (rest @ TAB # f) = split_tabs rest @ [f]" using 1 Cons by blast
    then show ?thesis using g(2) unfolding g(1) by (simp add: split_tabs_Cons)
  qed
qed

lemma getlines_Nil [simp]: "getlines [] = []"
  by (subst getlines.simps) simp

lemma getlines_Cons: "NL \<notin> set l \<Longrightarrow> getlines (l @ NL # rest) = l # getlines rest"
  by (subst getlines.simps) (simp add: dropWhile_neq_none takeWhile_neq_none)

lemma getlines_concat [codec]:
  "\<forall>l \<in> set ls. NL \<notin> set l \<Longrightarrow> getlines (concat (map (\<lambda>l. l @ [NL]) ls)) = ls"
  by (induction ls) (simp_all add: getlines_Cons)

section \<open>Sorted lists without repetition\<close>

lemma distinct_remdups_adj_sorted: "sorted (xs :: 'a::linorder list) \<Longrightarrow> distinct (remdups_adj xs)"
  by (induction xs rule: remdups_adj.induct) auto

lemma strict_sorted_unique: "sorted_wrt (<) (remdups_adj (sort (xs :: 'a::linorder list)))"
proof -
  have "sorted (remdups_adj (sort xs))" "distinct (remdups_adj (sort xs))"
    by (simp_all add: sorted_remdups_adj distinct_remdups_adj_sorted)
  then show ?thesis by (simp add: strict_sorted_iff)
qed

section \<open>Bounded tokens\<close>

text \<open>\<open>valid_token\<close>: 1 to \<open>max_bytes\<close> bytes of a fixed alphabet without separators.\<close>

definition token_char :: "char \<Rightarrow> bool" where
  "token_char ch \<longleftrightarrow> (let c = (of_char ch :: nat) in
     97 \<le> c \<and> c \<le> 122 \<or> 65 \<le> c \<and> c \<le> 90 \<or> 48 \<le> c \<and> c \<le> 57 \<or>
     ch = CHR ''-'' \<or> ch = CHR ''_'' \<or> ch = CHR ''.'' \<or> ch = CHR '':'' \<or> ch = CHR ''/'')"

definition valid_token :: "string \<Rightarrow> nat \<Rightarrow> bool" where
  "valid_token value max_bytes \<longleftrightarrow>
     value \<noteq> [] \<and> length value \<le> max_bytes \<and> list_all token_char value"

lemma valid_token_no_sep:
  assumes "valid_token s n"
  shows "NL \<notin> set s" "TAB \<notin> set s"
  using assms by (auto simp: valid_token_def list_all_iff token_char_def)

lemma valid_token_not_Nil: "valid_token s n \<Longrightarrow> s \<noteq> []"
  by (simp add: valid_token_def)

end
