(* ===== verification/Sha256.thy ===== *)
theory Sha256
  imports Prelude
begin

text \<open>
  The program's own SHA-256 (\<open>src/sha256.cpp\<close>): the streaming state \<open>Sha256State\<close> with its
  64-byte block buffer, \<open>update\<close>, \<open>finish\<close> and \<open>transform\<close>, and the entry points
  \<open>sha256\<close>, \<open>sha256_file\<close> and \<open>is_sha256\<close>.

  The theory shows that the buffered computation is the textbook one (\<open>sha256_ref\<close>: pad the
  whole message, cut it into 64-byte blocks, compress them in turn), that how a message is
  cut into \<open>update\<close> calls does not matter, and that a digest is 64 lower-case hex digits.

  The block array keeps its stale bytes as in C++: only the first \<open>block_size\<close> entries are
  pending.  A file read is the list of chunks the stream delivers and whether it ended at
  the end of the file.
\<close>

section \<open>The compression function\<close>

definition kRoundConstants :: "u32 list" where
  "kRoundConstants = [
    0x428A2F98, 0x71374491, 0xB5C0FBCF, 0xE9B5DBA5,
    0x3956C25B, 0x59F111F1, 0x923F82A4, 0xAB1C5ED5,
    0xD807AA98, 0x12835B01, 0x243185BE, 0x550C7DC3,
    0x72BE5D74, 0x80DEB1FE, 0x9BDC06A7, 0xC19BF174,
    0xE49B69C1, 0xEFBE4786, 0x0FC19DC6, 0x240CA1CC,
    0x2DE92C6F, 0x4A7484AA, 0x5CB0A9DC, 0x76F988DA,
    0x983E5152, 0xA831C66D, 0xB00327C8, 0xBF597FC7,
    0xC6E00BF3, 0xD5A79147, 0x06CA6351, 0x14292967,
    0x27B70A85, 0x2E1B2138, 0x4D2C6DFC, 0x53380D13,
    0x650A7354, 0x766A0ABB, 0x81C2C92E, 0x92722C85,
    0xA2BFE8A1, 0xA81A664B, 0xC24B8B70, 0xC76C51A3,
    0xD192E819, 0xD6990624, 0xF40E3585, 0x106AA070,
    0x19A4C116, 0x1E376C08, 0x2748774C, 0x34B0BCB5,
    0x391C0CB3, 0x4ED8AA4A, 0x5B9CCA4F, 0x682E6FF3,
    0x748F82EE, 0x78A5636F, 0x84C87814, 0x8CC70208,
    0x90BEFFFA, 0xA4506CEB, 0xBEF9A3F7, 0xC67178F2]"

definition sha256_iv :: "u32 list" where
  "sha256_iv = [
    0x6a09e667, 0xbb67ae85, 0x3c6ef372, 0xa54ff53a,
    0x510e527f, 0x9b05688c, 0x1f83d9ab, 0x5be0cd19]"

text \<open>\<open>std::rotr\<close> on 32 bits.\<close>

definition rotr :: "nat \<Rightarrow> u32 \<Rightarrow> u32" where
  "rotr n x = drop_bit n x OR push_bit (32 - n) x"

text \<open>The first loop of \<open>transform\<close>: sixteen big-endian words of the block.\<close>

definition schedule_word :: "u8 list \<Rightarrow> nat \<Rightarrow> u32" where
  "schedule_word chunk i =
     (let ofs = i * 4 in
      push_bit 24 (ucast (chunk ! ofs)) OR push_bit 16 (ucast (chunk ! (ofs + 1))) OR
      push_bit 8 (ucast (chunk ! (ofs + 2))) OR ucast (chunk ! (ofs + 3)))"

text \<open>One pass of the second loop: \<open>schedule[i]\<close> from its predecessors.\<close>

definition extend_schedule :: "nat \<Rightarrow> u32 list \<Rightarrow> u32 list" where
  "extend_schedule i w =
     (let s0 = rotr 7 (w ! (i - 15)) XOR rotr 18 (w ! (i - 15)) XOR drop_bit 3 (w ! (i - 15));
          s1 = rotr 17 (w ! (i - 2)) XOR rotr 19 (w ! (i - 2)) XOR drop_bit 10 (w ! (i - 2))
      in w[i := w ! (i - 16) + s0 + w ! (i - 7) + s1])"

definition schedule :: "u8 list \<Rightarrow> u32 list" where
  "schedule chunk =
     fold extend_schedule [16..<64] (map (schedule_word chunk) [0..<16] @ replicate 48 0)"

text \<open>One pass of the third loop over the eight working variables \<open>a\<close> to \<open>h\<close>.\<close>

fun sha_round :: "u32 \<times> u32 \<Rightarrow> u32 list \<Rightarrow> u32 list" where
  "sha_round (k, w) [a, b, c, d, e, f, g, h] =
     (let sigma1 = rotr 6 e XOR rotr 11 e XOR rotr 25 e;
          choice = (e AND f) XOR ((NOT e) AND g);
          temp1 = h + sigma1 + choice + k + w;
          sigma0 = rotr 2 a XOR rotr 13 a XOR rotr 22 a;
          majority = (a AND b) XOR (a AND c) XOR (b AND c);
          temp2 = sigma0 + majority
      in [temp1 + temp2, a, b, c, d + temp1, e, f, g])"
| "sha_round _ st = st"

definition transform :: "u8 list \<Rightarrow> u32 list \<Rightarrow> u32 list" where
  "transform chunk st =
     map2 (+) st (fold sha_round (zip kRoundConstants (schedule chunk)) st)"

section \<open>The streaming state\<close>

record sha256_state =
  sh_state :: "u32 list"
  sh_block :: "u8 list"
  sh_block_size :: nat
  sh_total_bytes :: u64

definition sha_init :: sha256_state where
  "sha_init = \<lparr>sh_state = sha256_iv, sh_block = replicate 64 0, sh_block_size = 0,
     sh_total_bytes = 0\<rparr>"

text \<open>The body of the loop of \<open>update\<close>: fill the block, compress it when it is full.\<close>

definition sha_absorb :: "u8 list \<Rightarrow> nat \<Rightarrow> sha256_state \<Rightarrow> sha256_state" where
  "sha_absorb data n s =
     (let block = take (sh_block_size s) (sh_block s) @ take n data @
            drop (sh_block_size s + n) (sh_block s);
          size = sh_block_size s + n
      in if size = 64
         then s\<lparr>sh_block := block, sh_block_size := 0, sh_state := transform block (sh_state s)\<rparr>
         else s\<lparr>sh_block := block, sh_block_size := size\<rparr>)"

text \<open>
  The \<open>while (size > 0)\<close> loop.  \<open>block_size\<close> stays below 64 in every state the class reaches
  (\<open>sha_inv\<close>, kept by every operation), so the second disjunct of the exit test is never
  the reason to stop; it makes the recursion total.
\<close>

function sha_update_loop :: "u8 list \<Rightarrow> sha256_state \<Rightarrow> sha256_state" where
  "sha_update_loop data s =
     (if data = [] \<or> 64 \<le> sh_block_size s then s
      else let n = min (length data) (64 - sh_block_size s)
           in sha_update_loop (drop n data) (sha_absorb data n s))"
  by pat_completeness auto
termination
  by (relation "measure (\<lambda>(data, s). length data)") auto

declare sha_update_loop.simps [simp del]

definition sha_update :: "u8 list \<Rightarrow> sha256_state \<Rightarrow> sha256_state" where
  "sha_update data s =
     sha_update_loop data (s\<lparr>sh_total_bytes := sh_total_bytes s + of_nat (length data)\<rparr>)"

text \<open>\<open>setw(8)\<close>, \<open>setfill('0')\<close>, \<open>hex\<close>: eight lower-case digits.\<close>

definition hex_word :: "u32 \<Rightarrow> string" where
  "hex_word w = map (\<lambda>i. hex_digit (unat (drop_bit (4 * i) w AND 15))) (rev [0..<8])"

definition length_bytes :: "u64 \<Rightarrow> u8 list" where
  "length_bytes bit_length = map (\<lambda>i. ucast (drop_bit (8 * i) bit_length AND 0xff)) (rev [0..<8])"

definition sha_finish :: "sha256_state \<Rightarrow> string" where
  "sha_finish s =
     (let bit_length = sh_total_bytes s * 8;
          pad_size = (if sh_block_size s < 56 then 56 - sh_block_size s
                      else 120 - sh_block_size s);
          s1 = sha_update (take pad_size (0x80 # replicate 127 0)) s;
          s2 = sha_update (length_bytes bit_length) s1
      in concat (map hex_word (sh_state s2)))"

definition bytes_of :: "string \<Rightarrow> u8 list" where
  "bytes_of s = map of_char s"

definition sha256 :: "string \<Rightarrow> string" where
  "sha256 data = sha_finish (sha_update (bytes_of data) sha_init)"

text \<open>None: the stream does not open, or it stops before the end of the file.\<close>

fun sha256_file :: "(string list \<times> bool) option \<Rightarrow> string option" where
  "sha256_file None = None"
| "sha256_file (Some (chunks, eof)) =
     (let s = fold (\<lambda>chunk s. if chunk \<noteq> [] then sha_update (bytes_of chunk) s else s) chunks sha_init
      in if \<not> eof then None else Some (sha_finish s))"

definition is_xdigit :: "char \<Rightarrow> bool" where
  "is_xdigit ch \<longleftrightarrow> hex_value ch \<noteq> None"

definition is_sha256 :: "string \<Rightarrow> bool" where
  "is_sha256 v \<longleftrightarrow> length v = 64 \<and> list_all is_xdigit v"

section \<open>The shape of a digest\<close>

definition sha_inv :: "sha256_state \<Rightarrow> bool" where
  "sha_inv s \<longleftrightarrow> length (sh_state s) = 8 \<and> length (sh_block s) = 64 \<and> sh_block_size s < 64"

lemma length_sha_round: "length (sha_round kw st) = length st"
  by (cases "(kw, st)" rule: sha_round.cases) (simp_all add: Let_def)

lemma length_fold_round: "length (fold sha_round kws st) = length st"
  by (induction kws arbitrary: st) (simp_all add: length_sha_round)

lemma length_transform [simp]: "length (transform chunk st) = length st"
  by (simp add: transform_def length_fold_round)

lemma sha_inv_init [simp]: "sha_inv sha_init"
  by (simp add: sha_inv_def sha_init_def sha256_iv_def)

lemma sha_inv_absorb:
  "sha_inv s \<Longrightarrow> n \<le> length data \<Longrightarrow> n \<le> 64 - sh_block_size s \<Longrightarrow> sha_inv (sha_absorb data n s)"
  by (auto simp: sha_inv_def sha_absorb_def Let_def)

lemma sha_inv_loop: "sha_inv s \<Longrightarrow> sha_inv (sha_update_loop data s)"
proof (induction data s rule: sha_update_loop.induct)
  case (1 data s)
  show ?case
  proof (cases "data = []")
    case False
    let ?n = "min (length data) (64 - sh_block_size s)"
    have lt: "\<not> 64 \<le> sh_block_size s" using "1.prems" by (simp add: sha_inv_def)
    have "sha_inv (sha_absorb data ?n s)" using "1.prems" by (rule sha_inv_absorb) simp_all
    then have "sha_inv (sha_update_loop (drop ?n data) (sha_absorb data ?n s))"
      using "1.IH" False lt by simp
    then show ?thesis using False lt by (simp add: sha_update_loop.simps [of data s] Let_def)
  qed (use "1.prems" in \<open>simp add: sha_update_loop.simps\<close>)
qed

lemma sha_inv_total [simp]: "sha_inv (s\<lparr>sh_total_bytes := n\<rparr>) = sha_inv s"
  by (simp add: sha_inv_def)

lemma sha_inv_update: "sha_inv s \<Longrightarrow> sha_inv (sha_update data s)"
  by (simp add: sha_update_def sha_inv_loop)

lemma hex_word_shape: "length (hex_word w) = 8" "list_all is_lower_hex (hex_word w)"
proof -
  have "unat (drop_bit (4 * i) w AND 15) < 16" for i
    using word_and_le1 [of "drop_bit (4 * i) w" 15] by (simp add: word_le_nat_alt)
  then show "length (hex_word w) = 8" "list_all is_lower_hex (hex_word w)"
    by (auto simp: hex_word_def list_all_iff)
qed

lemma hex_words_shape:
  "length (concat (map hex_word ws)) = 8 * length ws"
  "list_all is_lower_hex (concat (map hex_word ws))"
  by (induction ws) (simp_all add: hex_word_shape)

lemma sha_finish_shape:
  assumes "sha_inv s"
  shows "length (sha_finish s) = 64" "list_all is_lower_hex (sha_finish s)"
  using assms
  by (simp_all add: sha_finish_def Let_def hex_words_shape sha_inv_update [unfolded sha_inv_def]
      sha_inv_def)

lemma length_sha256 [simp]: "length (sha256 x) = 64"
  by (simp add: sha256_def sha_finish_shape sha_inv_update)

lemma sha256_lower_hex: "list_all is_lower_hex (sha256 x)"
  by (simp add: sha256_def sha_finish_shape sha_inv_update)

lemma lower_hex_xdigit: "is_lower_hex c \<Longrightarrow> is_xdigit c"
  by (auto simp: is_lower_hex_def is_xdigit_def hex_value_def Let_def)

lemma is_sha256_sha256 [simp]: "is_sha256 (sha256 x)"
  using sha256_lower_hex [of x]
  by (auto simp: is_sha256_def list_all_iff intro: lower_hex_xdigit)

lemma sha256_not_Nil [simp]: "sha256 x \<noteq> []"
  by (metis length_sha256 list.size(3) zero_neq_numeral)

lemma sha256_no_sep [journal_text, simp]: "TAB \<notin> set (sha256 x)" "NL \<notin> set (sha256 x)"
  using sha256_lower_hex [of x] by (auto simp: list_all_iff dest: lower_hex_no_sep)

section \<open>The textbook computation\<close>

text \<open>Compress every complete 64-byte block of the input; what is left over is returned.\<close>

function compress_blocks :: "u32 list \<Rightarrow> u8 list \<Rightarrow> u32 list \<times> u8 list" where
  "compress_blocks st buf =
     (if length buf < 64 then (st, buf)
      else compress_blocks (transform (take 64 buf) st) (drop 64 buf))"
  by pat_completeness auto
termination
  by (relation "measure (\<lambda>(st, buf). length buf)") auto

declare compress_blocks.simps [simp del]

definition sha256_pad :: "u8 list \<Rightarrow> u8 list" where
  "sha256_pad m =
     (let r = length m mod 64; zeros = (if r < 56 then 55 - r else 119 - r)
      in m @ 0x80 # replicate zeros 0 @ length_bytes (of_nat (length m) * 8))"

definition sha256_ref :: "string \<Rightarrow> string" where
  "sha256_ref data =
     concat (map hex_word (fst (compress_blocks sha256_iv (sha256_pad (bytes_of data)))))"

text \<open>What a state stands for: the chaining value and the pending bytes.\<close>

definition sha_view :: "sha256_state \<Rightarrow> u32 list \<times> u8 list" where
  "sha_view s = (sh_state s, take (sh_block_size s) (sh_block s))"

lemma compress_short: "length buf < 64 \<Longrightarrow> compress_blocks st buf = (st, buf)"
  by (simp add: compress_blocks.simps)

lemma compress_full:
  "length b = 64 \<Longrightarrow> compress_blocks st (b @ rest) = compress_blocks (transform b st) rest"
  by (subst compress_blocks.simps) simp

lemma compress_append:
  "compress_blocks st (x @ y) =
     compress_blocks (fst (compress_blocks st x)) (snd (compress_blocks st x) @ y)"
proof (induction st x rule: compress_blocks.induct)
  case (1 st buf)
  show ?case
  proof (cases "length buf < 64")
    case True
    then show ?thesis by (simp add: compress_short)
  next
    case False
    have "compress_blocks st ((take 64 buf @ drop 64 buf) @ y) =
        compress_blocks (transform (take 64 buf) st) (drop 64 buf @ y)"
      unfolding append_assoc using False by (intro compress_full) simp
    with 1 False show ?thesis by (simp add: compress_blocks.simps [of st buf])
  qed
qed

lemma compress_rest: "length (snd (compress_blocks st buf)) = length buf mod 64"
proof (induction st buf rule: compress_blocks.induct)
  case (1 st buf)
  then show ?case
    by (simp add: compress_blocks.simps [of st buf] le_mod_geq)
qed

lemma view_absorb_partial:
  assumes "sha_inv s" "n \<le> length data" "n < 64 - sh_block_size s"
  shows "sha_view (sha_absorb data n s) = (sh_state s, snd (sha_view s) @ take n data)"
proof -
  have "sh_block_size s + n \<noteq> 64" using assms(3) by simp
  then show ?thesis using assms by (simp add: sha_view_def sha_absorb_def sha_inv_def Let_def)
qed

lemma view_absorb_full:
  assumes "sha_inv s" "n \<le> length data" "n = 64 - sh_block_size s"
  shows "sha_view (sha_absorb data n s) = (transform (snd (sha_view s) @ take n data) (sh_state s), [])"
  using assms by (simp add: sha_view_def sha_absorb_def sha_inv_def Let_def)

lemma view_loop:
  "sha_inv s \<Longrightarrow>
   sha_view (sha_update_loop data s) = compress_blocks (fst (sha_view s)) (snd (sha_view s) @ data)"
proof (induction data s rule: sha_update_loop.induct)
  case (1 data s)
  let ?n = "min (length data) (64 - sh_block_size s)"
  let ?s = "sha_absorb data ?n s"
  have fv: "fst (sha_view s) = sh_state s" by (simp add: sha_view_def)
  have lt: "sh_block_size s < 64" and pend: "length (snd (sha_view s)) = sh_block_size s"
    using "1.prems" by (simp_all add: sha_inv_def sha_view_def)
  show ?case
  proof (cases "data = []")
    case True
    then show ?thesis using pend lt
      by (simp add: sha_update_loop.simps compress_short sha_view_def)
  next
    case False
    have inv: "sha_inv ?s" using "1.prems" by (rule sha_inv_absorb) simp_all
    have unfold: "sha_update_loop data s = sha_update_loop (drop ?n data) ?s"
      using False lt by (simp add: sha_update_loop.simps [of data s] Let_def)
    have IH: "sha_view (sha_update_loop (drop ?n data) ?s) =
        compress_blocks (fst (sha_view ?s)) (snd (sha_view ?s) @ drop ?n data)"
      using "1.IH" False lt inv by simp
    show ?thesis
    proof (cases "length data < 64 - sh_block_size s")
      case True
      then have v: "sha_view ?s = (sh_state s, snd (sha_view s) @ take ?n data)"
        using view_absorb_partial [OF "1.prems", of ?n data] by simp
      show ?thesis by (simp only: unfold IH v fv fst_conv snd_conv) simp
    next
      case False
      then have n: "?n = 64 - sh_block_size s" by simp
      then have v: "sha_view ?s = (transform (snd (sha_view s) @ take ?n data) (sh_state s), [])"
        using view_absorb_full [OF "1.prems", of ?n data] by simp
      have "compress_blocks (sh_state s) ((snd (sha_view s) @ take ?n data) @ drop ?n data) =
          compress_blocks (transform (snd (sha_view s) @ take ?n data) (sh_state s)) (drop ?n data)"
        using n pend lt False by (intro compress_full) simp
      then show ?thesis by (simp add: unfold IH v fv)
    qed
  qed
qed

lemma view_update:
  "sha_inv s \<Longrightarrow>
   sha_view (sha_update data s) = compress_blocks (fst (sha_view s)) (snd (sha_view s) @ data)"
  using view_loop [of "s\<lparr>sh_total_bytes := sh_total_bytes s + of_nat (length data)\<rparr>" data]
  by (simp add: sha_update_def sha_view_def)

lemma total_absorb [simp]: "sh_total_bytes (sha_absorb data n s) = sh_total_bytes s"
  by (simp add: sha_absorb_def Let_def)

lemma total_loop: "sh_total_bytes (sha_update_loop data s) = sh_total_bytes s"
proof (induction data s rule: sha_update_loop.induct)
  case (1 data s)
  then show ?case by (simp add: sha_update_loop.simps [of data s] Let_def)
qed

lemma total_update: "sh_total_bytes (sha_update data s) = sh_total_bytes s + of_nat (length data)"
  by (simp add: sha_update_def total_loop)

text \<open>\<open>finish\<close> sees a state only through its view and its byte count.\<close>

definition sha_same :: "sha256_state \<Rightarrow> sha256_state \<Rightarrow> bool" where
  "sha_same s t \<longleftrightarrow> sha_inv s \<and> sha_inv t \<and> sha_view s = sha_view t \<and>
     sh_total_bytes s = sh_total_bytes t"

lemma sha_same_update: "sha_same s t \<Longrightarrow> sha_same (sha_update d s) (sha_update d t)"
  by (simp add: sha_same_def sha_inv_update view_update total_update)

lemma sha_same_append: "sha_inv s \<Longrightarrow> sha_same (sha_update b (sha_update a s)) (sha_update (a @ b) s)"
  using compress_append [of "fst (sha_view s)" "snd (sha_view s) @ a" b]
  by (simp add: sha_same_def sha_inv_update view_update total_update)

lemma length_pending: "sha_inv s \<Longrightarrow> length (snd (sha_view s)) = sh_block_size s"
  by (simp add: sha_inv_def sha_view_def)

lemma finish_view:
  assumes "sha_inv s"
  shows "sha_finish s =
    (let p = sh_block_size s; pad = take (if p < 56 then 56 - p else 120 - p) (0x80 # replicate 127 0)
     in concat (map hex_word (fst (compress_blocks (fst (sha_view s))
          (snd (sha_view s) @ pad @ length_bytes (sh_total_bytes s * 8))))))"
proof -
  let ?p = "sh_block_size s"
  let ?pad = "take (if ?p < 56 then 56 - ?p else 120 - ?p) (0x80 # replicate 127 (0::u8))"
  let ?len = "length_bytes (sh_total_bytes s * 8)"
  have st: "sh_state t = fst (sha_view t)" for t by (simp add: sha_view_def)
  have inv: "sha_inv (sha_update ?pad s)" using assms by (rule sha_inv_update)
  have "sha_view (sha_update ?len (sha_update ?pad s)) =
      compress_blocks (fst (sha_view s)) ((snd (sha_view s) @ ?pad) @ ?len)"
    by (simp only: view_update [OF inv] view_update [OF assms]
        compress_append [of "fst (sha_view s)" "snd (sha_view s) @ ?pad" ?len])
  then show ?thesis by (simp only: sha_finish_def Let_def st append.assoc)
qed

lemma finish_same:
  assumes "sha_same s t"
  shows "sha_finish s = sha_finish t"
proof -
  from assms have "sha_inv s" "sha_inv t" "sha_view s = sha_view t"
    "sh_total_bytes s = sh_total_bytes t" by (simp_all add: sha_same_def)
  moreover from this have "sh_block_size s = sh_block_size t"
    using length_pending [of s] length_pending [of t] by simp
  ultimately show ?thesis by (simp add: finish_view)
qed

lemma sha_init_view: "sha_view sha_init = (sha256_iv, [])" "sh_total_bytes sha_init = 0"
  by (simp_all add: sha_init_def sha_view_def)

section \<open>Properties\<close>

text \<open>
  C40. The buffered implementation computes the textbook function: for every message the
  digest of \<open>sha256\<close> is that of padding the whole message (one \<open>0x80\<close> byte, zeros up to 56
  modulo 64, the bit length in eight big-endian bytes) and compressing its 64-byte blocks
  in order from the initial value.
\<close>

theorem sha256_is_reference: "sha256 m = sha256_ref m"
proof -
  let ?d = "bytes_of m"
  let ?s = "sha_update ?d sha_init"
  let ?r = "length ?d mod 64"
  have inv: "sha_inv ?s" by (simp add: sha_inv_update)
  have view: "sha_view ?s = compress_blocks sha256_iv ?d"
    by (simp add: view_update sha_init_view)
  have r: "sh_block_size ?s = ?r"
    using length_pending [OF inv] by (simp add: view compress_rest)
  have lt: "?r < 64" by simp
  have pad: "take (if ?r < 56 then 56 - ?r else 120 - ?r) (0x80 # replicate 127 (0::u8)) =
      0x80 # replicate (if ?r < 56 then 55 - ?r else 119 - ?r) 0"
    using lt by (auto simp: take_Cons' min_def)
  show ?thesis
    using compress_append [of sha256_iv ?d]
    by (simp add: sha256_def sha256_ref_def sha256_pad_def finish_view [OF inv] Let_def r pad view
        total_update sha_init_view del: take_Cons_numeral)
qed

lemma fold_update_same:
  "sha_inv s \<Longrightarrow>
   sha_same (fold (\<lambda>chunk s. if chunk \<noteq> [] then sha_update (bytes_of chunk) s else s) chunks s)
     (sha_update (bytes_of (concat chunks)) s)"
proof (induction chunks arbitrary: s)
  case Nil
  then show ?case
    by (simp add: bytes_of_def sha_same_def sha_update_def sha_update_loop.simps)
next
  case (Cons c cs)
  show ?case
  proof (cases "c = []")
    case True
    then show ?thesis using Cons by simp
  next
    case False
    let ?s = "sha_update (bytes_of c) s"
    have "sha_same (fold (\<lambda>chunk s. if chunk \<noteq> [] then sha_update (bytes_of chunk) s else s) cs ?s)
        (sha_update (bytes_of (concat cs)) ?s)"
      using Cons by (simp add: sha_inv_update)
    moreover have "sha_same (sha_update (bytes_of (concat cs)) ?s)
        (sha_update (bytes_of c @ bytes_of (concat cs)) s)"
      using Cons.prems by (rule sha_same_append)
    ultimately show ?thesis using False by (simp add: sha_same_def bytes_of_def)
  qed
qed

text \<open>
  Hashing a file is hashing its contents, however the stream cuts them into reads: when
  the stream opens and ends at the end of the file, \<open>sha256_file\<close> is \<open>sha256\<close> of the
  concatenated chunks; otherwise there is no digest.
\<close>

theorem sha256_file_chunks:
  "sha256_file (Some (chunks, eof)) = (if eof then Some (sha256 (concat chunks)) else None)"
  using finish_same [OF fold_update_same [OF sha_inv_init, of chunks]]
  by (simp add: sha256_def)

section \<open>Collisions\<close>

text \<open>Two different texts with one digest; what a property about identities names as its exception.\<close>

definition sha256_collision :: "string \<Rightarrow> string \<Rightarrow> bool" where
  "sha256_collision x y \<longleftrightarrow> x \<noteq> y \<and> sha256 x = sha256 y"

end
