(* ===== verification/Journal.thy ===== *)
theory Journal
  imports Sha256
begin

text \<open>
  The hash-chained, append-only journal that \<open>AuthorityLedger\<close>, \<open>SessionKeyLedger\<close> and
  \<open>RuntimeLeaseLedger\<close> each implement with the same \<open>append_event\<close> and the same \<open>replay\<close> loop (the
  source repeats the code; the model has it once, with the message stems and the event handler
  as arguments); \<open>RuntimeIdentityStore\<close> has the same \<open>append_event\<close> and a loop of its own.

  A record is one line \<open>sequence TAB previous-hash TAB body TAB record-hash\<close>, where the
  record hash is the SHA-256 of what stands before it and the previous hash is the record
  hash of the line before (64 zeros for the first).  The file system is explicit: every append
  is given the outcome of its system calls (\<open>io\<close>), a failed write may
  leave any prefix of the line on disk, and the journal record carries the file's contents.

  The locale \<open>replayable\<close> is what a reload must do: from a file that holds well-formed events
  it restores what they mean.  From it follow the journal invariant and its preservation by
  every append and reload.  The locale \<open>event_journal\<close> is the interface that the shared
  \<open>replay\<close> loop asks of a ledger, and it gives \<open>replayable\<close>: its events have an encoding
  that holds no newline and that its replay handler decodes to the event's meaning.  From
  that alone follow the round trip (replay of the file restores the state) and tamper
  evidence (two different accepted journals with the same head exhibit a SHA-256 collision).
\<close>

section \<open>The journal on disk and in memory\<close>

record journal =
  j_path :: string
  j_sequence :: u64
  j_last :: string
  j_healthy :: bool
  j_errors :: "string list"
  j_file :: "string option"  \<comment> \<open>contents of \<open>journal_path_\<close>; None: no such file\<close>

text \<open>The wording of one ledger's messages.\<close>

record journal_cfg =
  jc_ledger :: string      \<comment> \<open>\<open>authority ledger\<close>, in \<open>\<dots> is unhealthy\<close>\<close>
  jc_directory :: string   \<comment> \<open>what has no directory: \<open>unable to create \<dots> directory\<close>\<close>
  jc_journal :: string     \<comment> \<open>\<open>authority ledger journal\<close>, in \<open>unable to open \<dots>\<close>\<close>
  jc_line :: string        \<comment> \<open>in \<open>\<dots> line 3 is malformed\<close>\<close>
  jc_record :: string      \<comment> \<open>in \<open>\<dots> sequence discontinuity at line 3\<close>\<close>
  jc_extra :: nat          \<comment> \<open>fields a line must have beyond five\<close>

text \<open>
  What the operating system does to one append: \<open>create_directories\<close> fails, the file does not
  open, the write or flush fails after some bytes of the line have reached the file, or
  everything succeeds.
\<close>

datatype io = Dir_Fail | Open_Fail | Write_Fail nat | Write_Ok

text \<open>\<open>path::parent_path().empty()\<close> on POSIX: the path has no directory separator.\<close>

definition has_parent :: "string \<Rightarrow> bool" where
  "has_parent path \<longleftrightarrow> CHR ''/'' \<in> set path"

definition zero_hash :: string where
  "zero_hash = replicate 64 (CHR ''0'')"

definition previous_hash :: "string \<Rightarrow> string" where
  "previous_hash last_sha = (if last_sha = [] then zero_hash else last_sha)"

definition record_text :: "u64 \<Rightarrow> string \<Rightarrow> string \<Rightarrow> string" where
  "record_text sequence last_sha body = show_u sequence @ TAB # previous_hash last_sha @ TAB # body"

definition record_line :: "string \<Rightarrow> string" where
  "record_line canonical = canonical @ TAB # sha256 canonical"

definition file_append :: "string option \<Rightarrow> string \<Rightarrow> string option" where
  "file_append file bytes = Some ((case file of None \<Rightarrow> [] | Some c \<Rightarrow> c) @ bytes)"

text \<open>
  \<open>append_event\<close>: None is the C++ \<open>true\<close>, Some is \<open>false\<close> with the error text.  Opening for
  append creates the file; the in-memory head moves only when the flush succeeded.
\<close>

definition append_event :: "journal_cfg \<Rightarrow> io \<Rightarrow> string \<Rightarrow> journal \<Rightarrow> string option \<times> journal" where
  "append_event cfg io body j =
     (if \<not> j_healthy j then (Some (jc_ledger cfg @ '' is unhealthy''), j)
      else if j_path j = [] then (Some (jc_ledger cfg @ '' requires a journal path''), j)
      else if has_parent (j_path j) \<and> io = Dir_Fail
      then (Some (''unable to create '' @ jc_directory cfg @ '' directory''), j)
      else
        let next_sequence = j_sequence j + 1;
            canonical = record_text next_sequence (j_last j) body;
            bytes = record_line canonical @ [NL]
        in case io of
             Open_Fail \<Rightarrow> (Some (''unable to open '' @ jc_journal cfg), j)
           | Write_Fail n \<Rightarrow> (Some (''unable to append '' @ jc_journal cfg),
               j\<lparr>j_file := file_append (j_file j) (take n bytes)\<rparr>)
           | _ \<Rightarrow> (None, j\<lparr>j_sequence := next_sequence, j_last := sha256 canonical,
               j_file := file_append (j_file j) bytes\<rparr>))"

section \<open>Replay\<close>

text \<open>
  The chain part of the loop body: field count, sequence, previous hash, record hash.  The
  result is the error message, or the fields of the line and its sequence number.
\<close>

definition check_record ::
    "journal_cfg \<Rightarrow> nat \<Rightarrow> u64 \<Rightarrow> string \<Rightarrow> string \<Rightarrow> string + u64 \<times> string list" where
  "check_record cfg line_number sequence last_sha line =
     (let fs = split_tabs line; n = nat_digits line_number in
      if length fs < 5 + jc_extra cfg then Inl (jc_line cfg @ '' line '' @ n @ '' is malformed'')
      else case parse_unsigned (fs ! 0) of
        None \<Rightarrow> Inl (jc_record cfg @ '' sequence discontinuity at line '' @ n)
      | Some seq \<Rightarrow>
          if seq \<noteq> sequence + 1
          then Inl (jc_record cfg @ '' sequence discontinuity at line '' @ n)
          else if fs ! 1 \<noteq> previous_hash last_sha
          then Inl (jc_record cfg @ '' previous-record hash mismatch at line '' @ n)
          else (case before_last_tab line of
                  None \<Rightarrow> Inl (jc_record cfg @ '' record hash mismatch at line '' @ n)
                | Some text \<Rightarrow>
                    if \<not> is_sha256 (last fs) \<or> sha256 text \<noteq> last fs
                    then Inl (jc_record cfg @ '' record hash mismatch at line '' @ n)
                    else Inr (seq, fs)))"

text \<open>
  The \<open>while (std::getline(...))\<close> loop over the remaining lines.  \<open>handler fs st\<close> is the
  event handler, None when \<open>event_ok\<close> ends up false.  The result is the error that broke
  the loop (None: it ran to the end) with the sequence, head and maps reached.
\<close>

fun replay_lines ::
    "journal_cfg \<Rightarrow> (string list \<Rightarrow> 's \<Rightarrow> 's option) \<Rightarrow> nat \<Rightarrow> string list \<Rightarrow>
     u64 \<times> string \<times> 's \<Rightarrow> string option \<times> u64 \<times> string \<times> 's" where
  "replay_lines cfg handler n [] acc = (None, acc)"
| "replay_lines cfg handler n (line # rest) (sequence, last_sha, st) =
     (if line = [] then replay_lines cfg handler (Suc n) rest (sequence, last_sha, st)
      else case check_record cfg (Suc n) sequence last_sha line of
        Inl e \<Rightarrow> (Some e, sequence, last_sha, st)
      | Inr (seq, fs) \<Rightarrow>
          (case handler fs st of
             None \<Rightarrow> (Some (jc_record cfg @ '' event contract failed at line '' @ nat_digits (Suc n)),
                      sequence, last_sha, st)
           | Some st' \<Rightarrow> replay_lines cfg handler (Suc n) rest (seq, last fs, st')))"

text \<open>
  \<open>replay\<close>: clear everything, read the file if there is one.  \<open>open_ok\<close> says whether the
  existing file opens for reading.
\<close>

definition replay ::
    "journal_cfg \<Rightarrow> (string list \<Rightarrow> 's \<Rightarrow> 's option) \<Rightarrow> 's \<Rightarrow> bool \<Rightarrow> journal \<Rightarrow> journal \<times> 's" where
  "replay cfg handler st0 open_ok j =
     (let j0 = j\<lparr>j_sequence := 0, j_last := [], j_healthy := True, j_errors := []\<rparr> in
      if j_path j = [] then (j0, st0)
      else case j_file j of
        None \<Rightarrow> (j0, st0)
      | Some content \<Rightarrow>
          if \<not> open_ok
          then (j0\<lparr>j_healthy := False,
                   j_errors := [''unable to open '' @ jc_journal cfg @ '' for replay'']\<rparr>, st0)
          else (case replay_lines cfg handler 0 (getlines content) (0, [], st0) of
                  (e, sequence, last_sha, st) \<Rightarrow>
                    (j0\<lparr>j_sequence := sequence, j_last := last_sha, j_healthy := (e = None),
                        j_errors := (case e of None \<Rightarrow> [] | Some msg \<Rightarrow> [msg])\<rparr>, st)))"

section \<open>Facts about one record\<close>

lemma zero_hash_facts [simp]:
  "zero_hash \<noteq> []" "TAB \<notin> set zero_hash" "NL \<notin> set zero_hash" "length zero_hash = 64"
  by (simp_all add: zero_hash_def)

lemma previous_hash_no_sep:
  "TAB \<notin> set l \<Longrightarrow> TAB \<notin> set (previous_hash l)"
  "NL \<notin> set l \<Longrightarrow> NL \<notin> set (previous_hash l)"
  by (simp_all add: previous_hash_def)

lemma record_text_no_NL:
  "NL \<notin> set l \<Longrightarrow> NL \<notin> set body \<Longrightarrow> NL \<notin> set (record_text q l body)"
  by (simp add: record_text_def previous_hash_no_sep)

lemma record_line_no_NL: "NL \<notin> set t \<Longrightarrow> NL \<notin> set (record_line t)"
  by (simp add: record_line_def)

lemma record_line_not_Nil [simp]: "record_line t \<noteq> []"
  by (simp add: record_line_def)

lemma split_record_text:
  "TAB \<notin> set l \<Longrightarrow> split_tabs (record_text q l body) = show_u q # previous_hash l # split_tabs body"
  by (simp add: record_text_def split_tabs_Cons previous_hash_no_sep)

lemma split_record_line: "split_tabs (record_line t) = split_tabs t @ [sha256 t]"
  by (simp add: record_line_def split_tabs_snoc)

lemma before_last_tab_record [simp]: "before_last_tab (record_line t) = Some t"
  by (simp add: record_line_def before_last_tab_snoc)

text \<open>A record written by \<open>append_event\<close> passes the chain checks of \<open>replay\<close>.\<close>

lemma check_written_record:
  assumes "TAB \<notin> set l" "2 + jc_extra cfg \<le> length (split_tabs body)"
  shows "check_record cfg n q l (record_line (record_text (q + 1) l body)) =
    Inr (q + 1, show_u (q + 1) # previous_hash l # split_tabs body @ [sha256 (record_text (q + 1) l body)])"
  using assms by (simp add: check_record_def Let_def split_record_line split_record_text)

text \<open>Conversely an accepted line is a record: its text, then a tab and the text's hash.\<close>

lemma check_record_InrD:
  assumes "check_record cfg n q l line = Inr (q', fs)"
  shows "q' = q + 1" "fs = split_tabs line" "split_tabs line ! 1 = previous_hash l"
    "parse_unsigned (split_tabs line ! 0) = Some q'" "5 \<le> length fs"
    "\<exists>t. line = record_line t \<and> last fs = sha256 t \<and> fs = split_tabs t @ [sha256 t]"
proof -
  have "5 + jc_extra cfg \<le> length (split_tabs line)"
    using assms by (simp add: check_record_def Let_def split: if_splits)
  then have len: "\<not> length (split_tabs line) < 5 + jc_extra cfg" "5 \<le> length (split_tabs line)"
    by simp_all
  have "parse_unsigned (split_tabs line ! 0) \<noteq> (None :: u64 option)"
    using assms len by (intro notI) (simp add: check_record_def Let_def)
  then obtain seq :: u64 where seq: "parse_unsigned (split_tabs line ! 0) = Some seq" by blast
  have q: "seq = q + 1" and p: "split_tabs line ! 1 = previous_hash l"
    using assms len seq by (simp_all add: check_record_def Let_def split: if_splits)
  obtain t where bt: "before_last_tab line = Some t"
    using assms len seq q p by (cases "before_last_tab line") (simp_all add: check_record_def Let_def)
  have t: "sha256 t = last (split_tabs line)" and q': "q' = q + 1" and f: "fs = split_tabs line"
    using assms len seq q p bt by (simp_all add: check_record_def Let_def split: if_splits)
  show "q' = q + 1" "fs = split_tabs line" "split_tabs line ! 1 = previous_hash l"
    "parse_unsigned (split_tabs line ! 0) = Some q'" "5 \<le> length fs"
    using q' f p seq q len by simp_all
  obtain g where g: "TAB \<notin> set g" "line = t @ TAB # g"
    using before_last_tab_SomeD [OF bt] by blast
  then have "split_tabs line = split_tabs t @ [g]" by (simp add: split_tabs_snoc)
  with t g f show "\<exists>t. line = record_line t \<and> last fs = sha256 t \<and> fs = split_tabs t @ [sha256 t]"
    by (intro exI [of _ t]) (simp add: record_line_def)
qed

section \<open>Logs of events\<close>

text \<open>
  The abstract journal is a list of events.  \<open>sem_list\<close> is what they mean, \<open>log_lines\<close> the
  records that hold them from a given head, \<open>log_head\<close> the head after them.
\<close>

fun sem_list :: "('e \<Rightarrow> 's \<Rightarrow> 's option) \<Rightarrow> 'e list \<Rightarrow> 's \<Rightarrow> 's option" where
  "sem_list sem [] st = Some st"
| "sem_list sem (e # es) st = (case sem e st of None \<Rightarrow> None | Some st' \<Rightarrow> sem_list sem es st')"

fun log_lines :: "('e \<Rightarrow> string) \<Rightarrow> 'e list \<Rightarrow> u64 \<Rightarrow> string \<Rightarrow> string list" where
  "log_lines enc [] q l = []"
| "log_lines enc (e # es) q l =
     (let t = record_text (q + 1) l (enc e) in record_line t # log_lines enc es (q + 1) (sha256 t))"

fun log_head :: "('e \<Rightarrow> string) \<Rightarrow> 'e list \<Rightarrow> u64 \<Rightarrow> string \<Rightarrow> u64 \<times> string" where
  "log_head enc [] q l = (q, l)"
| "log_head enc (e # es) q l = log_head enc es (q + 1) (sha256 (record_text (q + 1) l (enc e)))"

definition file_of_lines :: "string list \<Rightarrow> string" where
  "file_of_lines ls = concat (map (\<lambda>l. l @ [NL]) ls)"

text \<open>The file holds exactly the events \<open>es\<close>; the memory holds what they mean.\<close>

definition file_holds :: "('e \<Rightarrow> string) \<Rightarrow> 'e list \<Rightarrow> journal \<Rightarrow> bool" where
  "file_holds enc es j \<longleftrightarrow>
     (case j_file j of None \<Rightarrow> es = [] | Some c \<Rightarrow> c = file_of_lines (log_lines enc es 0 []))"

definition in_sync ::
    "('e \<Rightarrow> string) \<Rightarrow> ('e \<Rightarrow> 's \<Rightarrow> 's option) \<Rightarrow> 's \<Rightarrow> 'e list \<Rightarrow> journal \<Rightarrow> 's \<Rightarrow> bool" where
  "in_sync enc sem st0 es j st \<longleftrightarrow>
     file_holds enc es j \<and> j_healthy j \<and> j_errors j = [] \<and>
     log_head enc es 0 [] = (j_sequence j, j_last j) \<and> sem_list sem es st0 = Some st"

text \<open>
  The invariant of a journalled ledger that may fail to reload: the file holds \<open>es\<close>, the
  events have a meaning, a healthy memory is in step with the file and an unhealthy one is
  empty.
\<close>

definition journal_inv ::
    "('e \<Rightarrow> string) \<Rightarrow> ('e \<Rightarrow> 's \<Rightarrow> 's option) \<Rightarrow> 's \<Rightarrow> 'e list \<Rightarrow> journal \<Rightarrow> 's \<Rightarrow> bool" where
  "journal_inv enc sem st0 es j st \<longleftrightarrow>
     j_path j \<noteq> [] \<and> file_holds enc es j \<and> sem_list sem es st0 \<noteq> None \<and>
     (j_healthy j \<longrightarrow> in_sync enc sem st0 es j st) \<and> (\<not> j_healthy j \<longrightarrow> st = st0)"

lemma journal_inv_healthy:
  "journal_inv enc sem st0 es j st \<Longrightarrow> j_healthy j \<Longrightarrow> sem_list sem es st0 = Some st"
  by (simp add: journal_inv_def in_sync_def)

lemma sem_list_append:
  "sem_list sem (es @ fs) st = (case sem_list sem es st of None \<Rightarrow> None | Some st' \<Rightarrow> sem_list sem fs st')"
  by (induction es arbitrary: st) (simp_all split: option.splits)

lemma log_lines_snoc:
  "log_head enc es q l = (q', l') \<Longrightarrow>
   log_lines enc (es @ [e]) q l = log_lines enc es q l @ [record_line (record_text (q' + 1) l' (enc e))]"
  by (induction es arbitrary: q l) (simp_all add: Let_def)

lemma log_head_snoc:
  "log_head enc es q l = (q', l') \<Longrightarrow>
   log_head enc (es @ [e]) q l = (q' + 1, sha256 (record_text (q' + 1) l' (enc e)))"
  by (induction es arbitrary: q l) simp_all

lemma log_lines_Nil [simp]: "log_lines enc es q l = [] \<longleftrightarrow> es = []"
  by (cases es) (simp_all add: Let_def)

lemma file_of_lines_Nil [simp]: "file_of_lines ls = [] \<longleftrightarrow> ls = []" "[] = file_of_lines ls \<longleftrightarrow> ls = []"
  by (cases ls; simp add: file_of_lines_def)+

lemma log_head_no_sep:
  "log_head enc es q l = (q', l') \<Longrightarrow> TAB \<notin> set l \<Longrightarrow> NL \<notin> set l \<Longrightarrow> TAB \<notin> set l' \<and> NL \<notin> set l'"
  by (induction es arbitrary: q l) auto

lemma getlines_file_of_lines: "\<forall>l \<in> set ls. NL \<notin> set l \<Longrightarrow> getlines (file_of_lines ls) = ls"
  by (simp add: file_of_lines_def getlines_concat)

lemma file_of_lines_snoc: "file_of_lines (ls @ [l]) = file_of_lines ls @ l @ [NL]"
  by (simp add: file_of_lines_def)

lemma append_event_None:
  "append_event cfg io body j = (None, j') \<longleftrightarrow>
   io = Write_Ok \<and> j_healthy j \<and> j_path j \<noteq> [] \<and>
     j' = j\<lparr>j_sequence := j_sequence j + 1,
       j_last := sha256 (record_text (j_sequence j + 1) (j_last j) body),
       j_file := file_append (j_file j)
         (record_line (record_text (j_sequence j + 1) (j_last j) body) @ [NL])\<rparr>
   \<or> io = Dir_Fail \<and> \<not> has_parent (j_path j) \<and> j_healthy j \<and> j_path j \<noteq> [] \<and>
     j' = j\<lparr>j_sequence := j_sequence j + 1,
       j_last := sha256 (record_text (j_sequence j + 1) (j_last j) body),
       j_file := file_append (j_file j)
         (record_line (record_text (j_sequence j + 1) (j_last j) body) @ [NL])\<rparr>"
  by (cases io) (auto simp: append_event_def Let_def)

lemma append_None_journal:
  "append_event cfg io body j = (None, j') \<Longrightarrow> j_healthy j \<and> j_healthy j' \<and> j_path j' = j_path j"
  by (auto simp: append_event_None)

text \<open>
  An outcome that leaves no torn line: failed writes that put no byte on disk, and success.
\<close>

definition clean_io :: "io \<Rightarrow> bool" where
  "clean_io io \<longleftrightarrow> (\<forall>n. io = Write_Fail n \<longrightarrow> n = 0)"

section \<open>Tamper evidence\<close>

text \<open>The lines that passed the chain checks, with the sequence number and head reached.\<close>

inductive chained :: "string list \<Rightarrow> u64 \<Rightarrow> string \<Rightarrow> bool" where
  chained_Nil: "chained [] 0 []"
| chained_snoc: "chained ls q l \<Longrightarrow> parse_unsigned (split_tabs t ! 0) = Some (q + 1) \<Longrightarrow>
     split_tabs t ! 1 = previous_hash l \<Longrightarrow> 4 \<le> length (split_tabs t) \<Longrightarrow>
     chained (ls @ [record_line t]) (q + 1) (sha256 t)"

inductive_cases chained_snocE: "chained (ls @ [x]) q l"
inductive_cases chained_NilE: "chained [] q l"

definition record_lines :: "string \<Rightarrow> string list" where
  "record_lines content = filter (\<lambda>l. l \<noteq> []) (getlines content)"

text \<open>Two different hashed texts, one from each list of lines, with the same digest.\<close>

definition collision_between :: "string list \<Rightarrow> string list \<Rightarrow> bool" where
  "collision_between ls ms \<longleftrightarrow>
     (\<exists>t u. record_line t \<in> set ls \<and> record_line u \<in> set ms \<and> t \<noteq> u \<and> sha256 t = sha256 u)"

lemma replay_lines_chained:
  assumes "replay_lines cfg handler n ls (q, l, st) = (None, q', l', st')" "chained pre q l"
  shows "chained (pre @ filter (\<lambda>x. x \<noteq> []) ls) q' l'"
  using assms
proof (induction ls arbitrary: n q l st pre)
  case Nil
  then show ?case by simp
next
  case (Cons line rest)
  show ?case
  proof (cases "line = []")
    case True
    then show ?thesis using Cons by simp
  next
    case False
    with Cons.prems(1) obtain q1 fs st1 where
      chk: "check_record cfg (Suc n) q l line = Inr (q1, fs)" and
      rest: "replay_lines cfg handler (Suc n) rest (q1, last fs, st1) = (None, q', l', st')"
      by (auto split: sum.splits option.splits)
    note D = check_record_InrD [OF chk]
    from D(6) obtain t where t: "line = record_line t" "last fs = sha256 t" "fs = split_tabs t @ [sha256 t]"
      by blast
    have fs: "fs = split_tabs line" "5 \<le> length fs" using D by simp_all
    have "4 \<le> length (split_tabs t)" using fs(2) t(3) by simp
    moreover from this have "split_tabs t ! 0 = split_tabs line ! 0" "split_tabs t ! 1 = split_tabs line ! 1"
      using fs(1) t(3) by (metis nth_append order_less_le_trans zero_less_numeral,
          metis nth_append order_less_le_trans one_less_numeral_iff semiring_norm(76))
    ultimately have "chained (pre @ [line]) q1 (last fs)"
      using chained_snoc [OF Cons.prems(2), of t] D t by simp
    from Cons.IH [OF rest this] False show ?thesis by simp
  qed
qed

lemma chained_facts:
  "chained ls q l \<Longrightarrow> q = of_nat (length ls) \<and> (l = [] \<longleftrightarrow> ls = [])"
  by (induction rule: chained.induct) auto

lemma collision_between_mono:
  "collision_between ls ms \<Longrightarrow> set ls \<subseteq> set ls' \<Longrightarrow> set ms \<subseteq> set ms' \<Longrightarrow> collision_between ls' ms'"
  by (auto simp: collision_between_def)

text \<open>
  Two chains with the same head are the same list of records, unless two of their records
  collide under SHA-256.
\<close>

lemma chained_same_head:
  assumes "chained ls q l" "chained ms q l" "length ls < 2 ^ 64" "length ms < 2 ^ 64"
  shows "ls = ms \<or> collision_between ls ms"
  using assms
proof (induction arbitrary: ms rule: chained.induct)
  case chained_Nil
  then show ?case using chained_facts [of ms 0 "[]"] by simp
next
  case (chained_snoc ls q l t)
  from chained_facts [OF chained_snoc.prems(1)] have "ms \<noteq> []" by auto
  then obtain ms' x where ms: "ms = ms' @ [x]" by (metis rev_exhaust)
  from chained_snoc.prems(1) obtain q2 l2 u where u: "chained ms' q2 l2" "q + 1 = q2 + 1"
    "sha256 t = sha256 u" "x = record_line u" "split_tabs u ! 1 = previous_hash l2"
    unfolding ms by (auto elim: chained_snocE)
  then have q: "q2 = q" by simp
  show ?case
  proof (cases "t = u")
    case False
    then show ?thesis using u(3,4) by (auto simp: collision_between_def ms)
  next
    case True
    then have prev: "previous_hash l = previous_hash l2" using chained_snoc.hyps(3) u(5) by simp
    have len: "length ls = length ms'"
    proof -
      have "of_nat (length ls) = (of_nat (length ms') :: u64)"
        using chained_facts [OF chained_snoc.hyps(1)] chained_facts [OF u(1)] q by simp
      then show ?thesis using chained_snoc.prems(2,3) ms
        by (simp add: word_of_nat_eq_iff take_bit_eq_mod)
    qed
    then have "l = [] \<longleftrightarrow> l2 = []"
      using chained_facts [OF chained_snoc.hyps(1)] chained_facts [OF u(1)] by auto
    with prev have "l2 = l" by (auto simp: previous_hash_def split: if_splits)
    with chained_snoc.IH [of ms'] u(1) q chained_snoc.prems(2,3) ms
    have "ls = ms' \<or> collision_between ls ms'" by simp
    moreover have "collision_between ls ms' \<Longrightarrow> collision_between (ls @ [record_line t]) ms"
      by (rule collision_between_mono) (auto simp: ms)
    ultimately show ?thesis using ms u(4) True by blast
  qed
qed

lemma replay_chained:
  assumes "replay cfg handler st0 open_ok j = (j', st)" "j_healthy j'" "j_path j \<noteq> []"
    "j_file j = Some content"
  shows "chained (record_lines content) (j_sequence j') (j_last j')"
proof -
  obtain e q l st1 where r: "replay_lines cfg handler 0 (getlines content) (0, [], st0) = (e, q, l, st1)"
    by (metis prod_cases4)
  with assms have "e = None" "j_sequence j' = q" "j_last j' = l"
    by (auto simp: replay_def Let_def split: if_splits)
  with replay_lines_chained [of cfg handler 0 "getlines content" 0 "[]" st0 q l st1 "[]"] r
  show ?thesis by (simp add: record_lines_def chained_Nil)
qed

section \<open>The interface of a journalled ledger\<close>

text \<open>
  What the histories of a ledger need of its \<open>reload\<close>: a file that holds well-formed events with
  a meaning restores that meaning, a missing file is an empty one, and a file that cannot be
  opened leaves the ledger unhealthy and empty.
\<close>

locale replayable =
  fixes cfg :: journal_cfg
    and reload :: "bool \<Rightarrow> journal \<Rightarrow> journal \<times> 's"
    and st0 :: 's
    and wf_event :: "'e \<Rightarrow> bool"
    and encode :: "'e \<Rightarrow> string"
    and sem :: "'e \<Rightarrow> 's \<Rightarrow> 's option"
  assumes reload_in_sync: "file_holds encode es j \<Longrightarrow> list_all wf_event es \<Longrightarrow> sem_list sem es st0 = Some st \<Longrightarrow>
      j_path j \<noteq> [] \<Longrightarrow> reload True j = (j', st') \<Longrightarrow>
      in_sync encode sem st0 es j' st' \<and> st' = st \<and> j_path j' = j_path j \<and> j_file j' = j_file j"
    and reload_missing: "j_file j = None \<Longrightarrow> reload open_ok j = reload True j"
    and reload_unopened: "j_file j \<noteq> None \<Longrightarrow> j_path j \<noteq> [] \<Longrightarrow> reload False j = (j', st') \<Longrightarrow>
      st' = st0 \<and> \<not> j_healthy j' \<and> j_path j' = j_path j \<and> j_file j' = j_file j"
begin

text \<open>A reported success adds one event; the file and the memory stay together.\<close>

lemma append_in_sync:
  assumes "in_sync encode sem st0 es j st" "append_event cfg io (encode e) j = (None, j')"
    "sem e st = Some st'"
  shows "in_sync encode sem st0 (es @ [e]) j' st'"
proof -
  let ?t = "record_text (j_sequence j + 1) (j_last j) (encode e)"
  have j': "j' = j\<lparr>j_sequence := j_sequence j + 1, j_last := sha256 ?t,
      j_file := file_append (j_file j) (record_line ?t @ [NL])\<rparr>"
    using assms(2) by (auto simp: append_event_None)
  have head: "log_head encode es 0 [] = (j_sequence j, j_last j)"
    using assms(1) by (simp add: in_sync_def)
  have "file_holds encode (es @ [e]) j'"
    using assms(1) unfolding j' in_sync_def file_holds_def
    by (simp add: log_lines_snoc [OF head] file_of_lines_snoc file_append_def split: option.splits)
  moreover have "log_head encode (es @ [e]) 0 [] = (j_sequence j', j_last j')"
    by (simp add: log_head_snoc [OF head] j')
  ultimately show ?thesis
    using assms(1,3) by (simp add: in_sync_def sem_list_append j')
qed

text \<open>A reported clean failure changes nothing that replay can see.\<close>

lemma append_fail_clean:
  assumes "append_event cfg io body j = (Some msg, j')" "clean_io io"
  shows "file_holds encode es j' = file_holds encode es j" "j_path j' = j_path j"
    "j_healthy j' = j_healthy j" "j_errors j' = j_errors j"
    "j_sequence j' = j_sequence j" "j_last j' = j_last j"
proof -
  have "j' = j \<or> j' = j\<lparr>j_file := file_append (j_file j) []\<rparr>"
    using assms by (auto simp: append_event_def Let_def clean_io_def split: if_splits io.splits)
  then show "file_holds encode es j' = file_holds encode es j" "j_path j' = j_path j"
    "j_healthy j' = j_healthy j" "j_errors j' = j_errors j"
    "j_sequence j' = j_sequence j" "j_last j' = j_last j"
    by (auto simp: file_holds_def file_append_def split: option.splits)
qed

lemma append_fail_sync:
  assumes "append_event cfg io body j = (Some msg, j')" "clean_io io"
  shows "in_sync encode sem st0 es j' st = in_sync encode sem st0 es j st"
  using append_fail_clean [OF assms] by (simp add: in_sync_def)

lemma inv_record:
  assumes "journal_inv encode sem st0 es j st" "append_event cfg io (encode e) j = (None, j')"
    "sem e st = Some st'"
  shows "journal_inv encode sem st0 (es @ [e]) j' st'"
proof -
  note j = append_None_journal [OF assms(2)]
  have "in_sync encode sem st0 es j st" using assms(1) j by (simp add: journal_inv_def)
  from append_in_sync [OF this assms(2,3)] j assms(1) show ?thesis
    by (simp add: journal_inv_def in_sync_def)
qed

lemma inv_storage:
  assumes "journal_inv encode sem st0 es j st" "append_event cfg io body j = (Some msg, j')" "clean_io io"
  shows "journal_inv encode sem st0 es j' st"
  using assms(1) append_fail_clean [OF assms(2,3)] append_fail_sync [OF assms(2,3), of es]
  by (simp add: journal_inv_def)

lemma inv_replay:
  assumes "journal_inv encode sem st0 es j st" "list_all wf_event es" "reload open_ok j = (j', st')"
  shows "journal_inv encode sem st0 es j' st'" "open_ok \<Longrightarrow> j_healthy j'"
    "j_file j' = j_file j" "j_path j' = j_path j"
proof -
  obtain m where m: "sem_list sem es st0 = Some m" and path: "j_path j \<noteq> []"
    and holds: "file_holds encode es j"
    using assms(1) by (auto simp: journal_inv_def)
  have "journal_inv encode sem st0 es j' st' \<and> (open_ok \<longrightarrow> j_healthy j') \<and> j_file j' = j_file j \<and>
      j_path j' = j_path j"
  proof (cases "open_ok \<or> j_file j = None")
    case True
    have rt: "reload True j = (j', st')"
      using assms(3) True reload_missing [of j open_ok] by (cases open_ok) auto
    show ?thesis
      using reload_in_sync [OF holds assms(2) m path rt] path
      by (simp add: journal_inv_def in_sync_def)
  next
    case False
    then have "j_file j \<noteq> None" "reload False j = (j', st')" using assms(3) by auto
    with reload_unopened [OF _ path, of j' st'] have "st' = st0" "\<not> j_healthy j'" "j_path j' = j_path j"
      "j_file j' = j_file j" by blast+
    then show ?thesis using False path m holds by (simp add: journal_inv_def file_holds_def)
  qed
  then show "journal_inv encode sem st0 es j' st'" "open_ok \<Longrightarrow> j_healthy j'"
    "j_file j' = j_file j" "j_path j' = j_path j"
    by simp_all
qed

lemma inv_fresh:
  assumes "j_path j \<noteq> []" "j_file j = None" "reload open_ok j = (j', st')"
  shows "journal_inv encode sem st0 [] j' st'" "j_healthy j'"
proof -
  have rt: "reload True j = (j', st')" using assms(2,3) reload_missing [of j open_ok] by (cases open_ok) auto
  have "file_holds encode [] j" using assms(2) by (simp add: file_holds_def)
  from reload_in_sync [OF this _ _ assms(1) rt, of st0]
  have R: "in_sync encode sem st0 [] j' st'" "j_path j' = j_path j" by auto
  show "journal_inv encode sem st0 [] j' st'" using R assms(1) by (simp add: journal_inv_def in_sync_def)
  show "j_healthy j'" using R(1) by (simp add: in_sync_def)
qed

text \<open>Reloading a healthy ledger is the identity.\<close>

lemma replay_healthy_id:
  assumes "journal_inv encode sem st0 es j st" "list_all wf_event es" "j_healthy j"
  shows "reload True j = (j, st)"
proof -
  obtain j' st' where r: "reload True j = (j', st')" by fastforce
  note R = inv_replay [OF assms(1,2) r]
  have "in_sync encode sem st0 es j st" "in_sync encode sem st0 es j' st'"
    using assms(1,3) R(1,2) by (simp_all add: journal_inv_def)
  then have "j' = j" "st' = st" using R(3,4) by (auto simp: in_sync_def intro!: journal.equality)
  with r show ?thesis by simp
qed

end

text \<open>The ledgers whose \<open>replay\<close> is the loop above.\<close>

locale event_journal =
  fixes cfg :: journal_cfg
    and handler :: "string list \<Rightarrow> 's \<Rightarrow> 's option"
    and st0 :: 's
    and wf_event :: "'e \<Rightarrow> bool"
    and encode :: "'e \<Rightarrow> string"
    and sem :: "'e \<Rightarrow> 's \<Rightarrow> 's option"
  assumes encode_no_NL: "wf_event e \<Longrightarrow> NL \<notin> set (encode e)"
    and encode_fields: "wf_event e \<Longrightarrow> 2 + jc_extra cfg \<le> length (split_tabs (encode e))"
    and handler_encode: "wf_event e \<Longrightarrow> handler (q # p # split_tabs (encode e) @ [h]) st = sem e st"
begin

lemma replay_log_lines:
  assumes "list_all wf_event es" "TAB \<notin> set l" "sem_list sem es st = Some st'"
  shows "replay_lines cfg handler n (log_lines encode es q l) (q, l, st) =
    (None, fst (log_head encode es q l), snd (log_head encode es q l), st')"
  using assms
proof (induction es arbitrary: n q l st)
  case Nil
  then show ?case by simp
next
  case (Cons e es)
  let ?t = "record_text (q + 1) l (encode e)"
  from Cons.prems obtain st1 where st1: "sem e st = Some st1" "sem_list sem es st1 = Some st'"
    by (auto split: option.splits)
  from Cons.prems have e: "wf_event e" by simp
  have "check_record cfg (Suc n) q l (record_line ?t) =
      Inr (q + 1, show_u (q + 1) # previous_hash l # split_tabs (encode e) @ [sha256 ?t])"
    using Cons.prems(2) encode_fields [OF e] by (rule check_written_record)
  then show ?case
    using Cons.IH [of "sha256 ?t" st1 "Suc n" "q + 1"] Cons.prems st1 handler_encode [OF e]
    by (simp add: Let_def)
qed

lemma log_lines_no_NL:
  assumes "list_all wf_event es" "NL \<notin> set l"
  shows "\<forall>x \<in> set (log_lines encode es q l). NL \<notin> set x"
  using assms
proof (induction es arbitrary: q l)
  case Nil
  then show ?case by simp
next
  case (Cons e es)
  let ?t = "record_text (q + 1) l (encode e)"
  have "\<forall>x \<in> set (log_lines encode es (q + 1) (sha256 ?t)). NL \<notin> set x"
    using Cons.IH [of "sha256 ?t" "q + 1"] Cons.prems by simp
  moreover have "NL \<notin> set ?t" using Cons.prems by (simp add: record_text_no_NL encode_no_NL)
  ultimately show ?case by (simp add: Let_def record_line_no_NL)
qed

text \<open>Round trip: replaying a file that holds \<open>es\<close> restores what \<open>es\<close> means.\<close>

lemma replay_in_sync:
  assumes "file_holds encode es j" "list_all wf_event es" "sem_list sem es st0 = Some st"
    "j_path j \<noteq> []" "replay cfg handler st0 True j = (j', st')"
  shows "in_sync encode sem st0 es j' st'" "st' = st" "j_path j' = j_path j" "j_file j' = j_file j"
proof -
  have head: "log_head encode es 0 [] = (fst (log_head encode es 0 []), snd (log_head encode es 0 []))"
    by simp
  have "in_sync encode sem st0 es j' st' \<and> st' = st \<and> j_path j' = j_path j \<and> j_file j' = j_file j"
  proof (cases "j_file j")
    case None
    with assms show ?thesis by (auto simp: replay_def file_holds_def in_sync_def Let_def)
  next
    case (Some c)
    with assms(1) have c: "c = file_of_lines (log_lines encode es 0 [])" by (simp add: file_holds_def)
    have "getlines c = log_lines encode es 0 []"
      unfolding c using assms(2) by (intro getlines_file_of_lines log_lines_no_NL) simp_all
    with assms Some c show ?thesis
      using replay_log_lines [of es "[]" st0 st 0 0]
      by (auto simp: replay_def in_sync_def file_holds_def Let_def)
  qed
  then show "in_sync encode sem st0 es j' st'" "st' = st" "j_path j' = j_path j" "j_file j' = j_file j"
    by blast+
qed

end

sublocale event_journal \<subseteq> replayable cfg "replay cfg handler st0" st0 wf_event encode sem
proof unfold_locales
  fix es j st j' st'
  assume "file_holds encode es j" "list_all wf_event es" "sem_list sem es st0 = Some st" "j_path j \<noteq> []"
    "replay cfg handler st0 True j = (j', st')"
  from replay_in_sync [OF this]
  show "in_sync encode sem st0 es j' st' \<and> st' = st \<and> j_path j' = j_path j \<and> j_file j' = j_file j" by simp
next
  fix j :: journal and open_ok assume "j_file j = None"
  then show "replay cfg handler st0 open_ok j = replay cfg handler st0 True j" by (simp add: replay_def Let_def)
next
  fix j j' :: journal and st' assume "j_file j \<noteq> None" "j_path j \<noteq> []" "replay cfg handler st0 False j = (j', st')"
  then show "st' = st0 \<and> \<not> j_healthy j' \<and> j_path j' = j_path j \<and> j_file j' = j_file j"
    by (auto simp: replay_def Let_def)
qed

context event_journal
begin

text \<open>A file that holds an event without a meaning is refused.\<close>

lemma replay_log_lines_refused:
  assumes "list_all wf_event es" "TAB \<notin> set l" "sem_list sem es st = None"
  shows "fst (replay_lines cfg handler n (log_lines encode es q l) (q, l, st)) \<noteq> None"
  using assms
proof (induction es arbitrary: n q l st)
  case Nil
  then show ?case by simp
next
  case (Cons e es)
  let ?t = "record_text (q + 1) l (encode e)"
  from Cons.prems have e: "wf_event e" by simp
  have "check_record cfg (Suc n) q l (record_line ?t) =
      Inr (q + 1, show_u (q + 1) # previous_hash l # split_tabs (encode e) @ [sha256 ?t])"
    using Cons.prems(2) encode_fields [OF e] by (rule check_written_record)
  then show ?case
    using Cons.IH [of "sha256 ?t" _ "Suc n" "q + 1"] Cons.prems handler_encode [OF e]
    by (simp add: Let_def split: option.splits)
qed

lemma inv_poison:
  assumes "journal_inv encode sem st0 es j st" "j_healthy j" "list_all wf_event es" "wf_event e"
    "append_event cfg io (encode e) j = (None, j')" "sem e st = None"
    "replay cfg handler st0 True j' = (j'', st'')"
  shows "\<not> j_healthy j''"
proof -
  have sync: "in_sync encode sem st0 es j st" using assms(1,2) by (simp add: journal_inv_def)
  have head: "log_head encode es 0 [] = (j_sequence j, j_last j)" using sync by (simp add: in_sync_def)
  let ?t = "record_text (j_sequence j + 1) (j_last j) (encode e)"
  have j': "j' = j\<lparr>j_sequence := j_sequence j + 1, j_last := sha256 ?t,
      j_file := file_append (j_file j) (record_line ?t @ [NL])\<rparr>"
    using assms(5) by (auto simp: append_event_None)
  have "file_holds encode (es @ [e]) j'"
    using sync unfolding j' in_sync_def file_holds_def
    by (simp add: log_lines_snoc [OF head] file_of_lines_snoc file_append_def split: option.splits)
  then have stored: "j_file j' = Some (file_of_lines (log_lines encode (es @ [e]) 0 []))"
    unfolding j' by (auto simp: file_holds_def file_append_def split: option.splits)
  have lines: "getlines (file_of_lines (log_lines encode (es @ [e]) 0 [])) = log_lines encode (es @ [e]) 0 []"
    using assms(3,4) by (intro getlines_file_of_lines log_lines_no_NL) simp_all
  have "sem_list sem (es @ [e]) st0 = None"
    using sync assms(6) by (simp add: in_sync_def sem_list_append)
  with replay_log_lines_refused [of "es @ [e]" "[]" st0 0 0] assms(3,4)
  have "fst (replay_lines cfg handler 0 (log_lines encode (es @ [e]) 0 []) (0, [], st0)) \<noteq> None" by simp
  moreover have "j_path j' \<noteq> []" using assms(1) j' by (simp add: journal_inv_def)
  ultimately show ?thesis
    using assms(7) stored lines by (auto simp: replay_def Let_def split: prod.splits)
qed

end

end
