(* ===== verification/Authority_Receipt.thy ===== *)
theory Authority_Receipt
  imports Sha256
begin

text \<open>
  Authority receipts (\<open>include/guff/authority_receipt.hpp\<close>, \<open>src/authority_receipt.cpp\<close>): the
  signed envelope, its validation, its canonical bytes, issuing and verifying a receipt, and
  the two attenuation tests on scopes and capability sets.

  \<open>AuthoritySigner\<close> and \<open>AuthorityVerifier\<close> are abstract classes whose implementations live
  outside the library; they are records of functions here, arguments of whatever uses them.
\<close>

section \<open>Data\<close>

datatype authority_purpose = Recovery | DestructiveExecution | PersistentSymbiosis | CapabilityGrant

datatype authority_receipt_status =
  ARS_Valid | ARS_Invalid | ARS_SignerUnknown | ARS_SignatureRejected | ARS_PurposeMismatch
| ARS_SubjectMismatch

record authority_envelope =
  schema_version :: u32
  purpose :: authority_purpose
  subject_id :: string
  actor_reference :: string
  signer_id :: string
  signer_key_id :: string
  issued_at_utc :: string
  issued_at_unix_ms :: u64
  expires_at_unix_ms :: u64
  max_uses :: u32
  nonce :: string
  scope_sha256 :: string
  parent_receipt_id :: string
  delegation_depth :: u32
  max_delegation_depth :: u32
  scope_path :: string
  capabilities :: "string list"

record authority_receipt =
  envelope :: authority_envelope
  algorithm :: string
  envelope_sha256 :: string
  signature :: string
  receipt_id :: string

record authority_signer =
  sig_signer_id :: string
  sig_algorithm :: string
  sig_sign :: "string \<Rightarrow> string option"

record authority_verifier =
  ver_knows :: "string \<Rightarrow> string \<Rightarrow> bool"
  ver_verify :: "string \<Rightarrow> string \<Rightarrow> string \<Rightarrow> string \<Rightarrow> bool"

record authority_verification_result =
  avr_status :: authority_receipt_status
  avr_errors :: "string list"

definition avr_ok :: "authority_verification_result \<Rightarrow> bool" where
  "avr_ok r \<longleftrightarrow> avr_status r = ARS_Valid"

text \<open>\<open>static_cast<unsigned>(purpose)\<close>\<close>

fun purpose_code :: "authority_purpose \<Rightarrow> u32" where
  "purpose_code Recovery = 0"
| "purpose_code DestructiveExecution = 1"
| "purpose_code PersistentSymbiosis = 2"
| "purpose_code CapabilityGrant = 3"

section \<open>Validation\<close>

definition kReceiptPrefix :: string where
  "kReceiptPrefix = ''guff:authority:sha256:''"

text \<open>\<open>value.starts_with(prefix) && is_sha256(value.substr(prefix.size()))\<close>\<close>

definition prefixed_sha256 :: "string \<Rightarrow> string \<Rightarrow> bool" where
  "prefixed_sha256 pre v \<longleftrightarrow> take (length pre) v = pre \<and> is_sha256 (drop (length pre) v)"

definition valid_receipt_id :: "string \<Rightarrow> bool" where
  "valid_receipt_id v \<longleftrightarrow> prefixed_sha256 kReceiptPrefix v"

definition canonical_capabilities :: "string list \<Rightarrow> string list" where
  "canonical_capabilities caps = sort caps"

text \<open>\<open>std::adjacent_find\<close>: two neighbours are equal.\<close>

fun has_adjacent_equal :: "string list \<Rightarrow> bool" where
  "has_adjacent_equal (x # y # rest) \<longleftrightarrow> x = y \<or> has_adjacent_equal (y # rest)"
| "has_adjacent_equal _ \<longleftrightarrow> False"

definition validate_envelope :: "authority_envelope \<Rightarrow> string list" where
  "validate_envelope e =
     err (schema_version e \<noteq> 1 \<and> schema_version e \<noteq> 2 \<and> schema_version e \<noteq> 3)
       ''unsupported authority envelope schema'' @
     err (\<not> valid_token (subject_id e) 256) ''subject_id must be a bounded token'' @
     err (actor_reference e = [] \<or> 256 < length (actor_reference e))
       ''actor_reference must be 1-256 bytes'' @
     err (\<not> valid_token (signer_id e) 128) ''signer_id must be a bounded token'' @
     err (issued_at_utc e = [] \<or> 128 < length (issued_at_utc e)) ''issued_at_utc must be 1-128 bytes'' @
     err (\<not> valid_token (nonce e) 128) ''nonce must be a bounded token'' @
     err (\<not> is_sha256 (scope_sha256 e)) ''scope_sha256 must be SHA-256'' @
     (if 2 \<le> schema_version e then
        err (\<not> valid_token (signer_key_id e) 128) ''schema v2+ signer_key_id must be a bounded token'' @
        err (issued_at_unix_ms e = 0) ''schema v2+ issued_at_unix_ms must be non-zero'' @
        err (expires_at_unix_ms e \<le> issued_at_unix_ms e)
          ''schema v2+ expiry must be later than issue time'' @
        err (max_uses e = 0 \<or> 1024 < max_uses e) ''schema v2+ max_uses must be in [1,1024]''
      else []) @
     (if schema_version e = 3 then
        err (\<not> valid_token (scope_path e) 512)
          ''schema v3 scope_path must be a bounded hierarchical token'' @
        err (scope_sha256 e \<noteq> sha256 (scope_path e))
          ''schema v3 scope_sha256 must equal SHA-256(scope_path)'' @
        err (capabilities e = [] \<or> 32 < length (capabilities e))
          ''schema v3 capabilities must contain 1-32 entries'' @
        err (list_ex (\<lambda>c. \<not> valid_token c 128) (capabilities e))
          ''schema v3 capability must be a bounded token'' @
        err (has_adjacent_equal (canonical_capabilities (capabilities e)))
          ''schema v3 capabilities must be unique'' @
        err (8 < max_delegation_depth e) ''schema v3 max_delegation_depth must be <= 8'' @
        err (max_delegation_depth e < delegation_depth e)
          ''schema v3 delegation depth exceeds signed maximum'' @
        (if delegation_depth e = 0 then
           err (parent_receipt_id e \<noteq> []) ''schema v3 root receipt cannot name a parent receipt''
         else
           err (\<not> valid_receipt_id (parent_receipt_id e))
             ''schema v3 delegated receipt requires a canonical parent receipt id'')
      else [])"

section \<open>Attenuation tests\<close>

definition authority_scope_contains :: "string \<Rightarrow> string \<Rightarrow> bool" where
  "authority_scope_contains parent child =
     (if parent = [] \<or> child = [] then False
      else if parent = child then True
      else if take (length parent) child \<noteq> parent then False
      else if length child \<le> length parent then False
      else if last parent = CHR ''/'' then True
      else child ! length parent = CHR ''/'')"

text \<open>\<open>std::includes\<close> on two sorted ranges.\<close>

fun std_includes :: "string list \<Rightarrow> string list \<Rightarrow> bool" where
  "std_includes _ [] = True"
| "std_includes [] (_ # _) = False"
| "std_includes (x # xs) (y # ys) =
     (if y < x then False
      else if x < y then std_includes xs (y # ys)
      else std_includes xs ys)"

definition authority_capabilities_contain :: "string list \<Rightarrow> string list \<Rightarrow> bool" where
  "authority_capabilities_contain parent child =
     (if parent = [] \<or> child = [] then False
      else std_includes (canonical_capabilities parent) (canonical_capabilities child))"

section \<open>Canonical bytes and content identity\<close>

definition canonical_authority_envelope :: "authority_envelope \<Rightarrow> string" where
  "canonical_authority_envelope e =
     show_u (schema_version e) @ [NL] @ show_u (purpose_code (purpose e)) @ [NL] @
     subject_id e @ [NL] @ actor_reference e @ [NL] @ signer_id e @ [NL] @
     (if 2 \<le> schema_version e then signer_key_id e @ [NL] else []) @
     issued_at_utc e @ [NL] @
     (if 2 \<le> schema_version e
      then show_u (issued_at_unix_ms e) @ [NL] @ show_u (expires_at_unix_ms e) @ [NL] @
           show_u (max_uses e) @ [NL]
      else []) @
     nonce e @ [NL] @ scope_sha256 e @
     (if schema_version e = 3
      then [NL] @ parent_receipt_id e @ [NL] @ show_u (delegation_depth e) @
           [NL] @ show_u (max_delegation_depth e) @ [NL] @ scope_path e @
           (let caps = canonical_capabilities (capabilities e) in
            [NL] @ show_u (of_nat (length caps) :: u64) @ concat (map (\<lambda>c. NL # c) caps))
      else [])"

definition authority_envelope_sha256 :: "authority_envelope \<Rightarrow> string" where
  "authority_envelope_sha256 e = sha256 (canonical_authority_envelope e)"

definition authority_receipt_id :: "authority_envelope \<Rightarrow> string \<Rightarrow> string \<Rightarrow> string" where
  "authority_receipt_id e alg sg =
     kReceiptPrefix @ sha256 (authority_envelope_sha256 e @ [NL] @ alg @ [NL] @ sg)"

section \<open>Issue and verify\<close>

text \<open>The signature must be present, non-empty and at most 2048 bytes.\<close>

definition bounded_signature :: "string option \<Rightarrow> bool" where
  "bounded_signature s = (case s of None \<Rightarrow> False | Some t \<Rightarrow> t \<noteq> [] \<and> length t \<le> 2048)"

definition issue_authority_receipt ::
    "authority_envelope \<Rightarrow> authority_signer \<Rightarrow> string list + authority_receipt" where
  "issue_authority_receipt e signer =
     (let validation = validate_envelope e @
            err (sig_signer_id signer \<noteq> signer_id e) ''signer_id does not match signer implementation'' @
            err (\<not> valid_token (sig_algorithm signer) 64) ''signer algorithm must be a bounded token''
      in if validation \<noteq> [] then Inl validation
         else
           let canonical = canonical_authority_envelope e; sg = sig_sign signer canonical in
           if \<not> bounded_signature sg then Inl [''signer failed to produce a bounded signature'']
           else Inr \<lparr>envelope = e, algorithm = sig_algorithm signer,
                     envelope_sha256 = sha256 canonical, signature = the sg,
                     receipt_id = authority_receipt_id e (sig_algorithm signer) (the sg)\<rparr>)"

definition verify_authority_receipt ::
    "authority_receipt \<Rightarrow> authority_verifier \<Rightarrow> authority_purpose \<Rightarrow> string \<Rightarrow>
     authority_verification_result" where
  "verify_authority_receipt r v expected_purpose expected_subject =
     (let e = envelope r; errors = validate_envelope e;
          canonical = canonical_authority_envelope e
      in if errors \<noteq> [] then \<lparr>avr_status = ARS_Invalid, avr_errors = errors\<rparr>
      else if purpose e \<noteq> expected_purpose
      then \<lparr>avr_status = ARS_PurposeMismatch,
            avr_errors = [''authority purpose does not match requested operation'']\<rparr>
      else if subject_id e \<noteq> expected_subject
      then \<lparr>avr_status = ARS_SubjectMismatch,
            avr_errors = [''authority subject does not match requested operation'']\<rparr>
      else if \<not> valid_token (algorithm r) 64 \<or> signature r = [] \<or> 2048 < length (signature r)
      then \<lparr>avr_status = ARS_Invalid,
            avr_errors = [''authority receipt algorithm/signature is malformed'']\<rparr>
      else if envelope_sha256 r \<noteq> sha256 canonical \<or>
              receipt_id r \<noteq> authority_receipt_id e (algorithm r) (signature r)
      then \<lparr>avr_status = ARS_Invalid, avr_errors = [''authority receipt content identity mismatch'']\<rparr>
      else if \<not> ver_knows v (signer_id e) (algorithm r)
      then \<lparr>avr_status = ARS_SignerUnknown, avr_errors = [''authority signer is not trusted by verifier'']\<rparr>
      else if \<not> ver_verify v (signer_id e) (algorithm r) canonical (signature r)
      then \<lparr>avr_status = ARS_SignatureRejected, avr_errors = [''authority receipt signature rejected'']\<rparr>
      else \<lparr>avr_status = ARS_Valid, avr_errors = []\<rparr>)"

fun purpose_to_string :: "authority_purpose \<Rightarrow> string" where
  "purpose_to_string Recovery = ''RECOVERY''"
| "purpose_to_string DestructiveExecution = ''DESTRUCTIVE_EXECUTION''"
| "purpose_to_string PersistentSymbiosis = ''PERSISTENT_SYMBIOSIS''"
| "purpose_to_string CapabilityGrant = ''CAPABILITY_GRANT''"

fun receipt_status_to_string :: "authority_receipt_status \<Rightarrow> string" where
  "receipt_status_to_string ARS_Valid = ''VALID''"
| "receipt_status_to_string ARS_Invalid = ''INVALID''"
| "receipt_status_to_string ARS_SignerUnknown = ''SIGNER_UNKNOWN''"
| "receipt_status_to_string ARS_SignatureRejected = ''SIGNATURE_REJECTED''"
| "receipt_status_to_string ARS_PurposeMismatch = ''PURPOSE_MISMATCH''"
| "receipt_status_to_string ARS_SubjectMismatch = ''SUBJECT_MISMATCH''"

section \<open>Facts\<close>

lemma prefixed_sha256_mk [simp]: "prefixed_sha256 pre (pre @ sha256 x)"
  by (simp add: prefixed_sha256_def)

lemma valid_receipt_id_mk [simp]: "valid_receipt_id (authority_receipt_id e a s)"
  by (simp add: valid_receipt_id_def authority_receipt_id_def)

lemma purpose_code_inj [simp]: "purpose_code p = purpose_code q \<longleftrightarrow> p = q"
  by (cases p; cases q) simp_all

text \<open>What \<open>verify_authority_receipt\<close> has checked when it answers \<open>Valid\<close>.\<close>

lemma verify_ok_iff:
  "avr_ok (verify_authority_receipt r v p subj) \<longleftrightarrow>
     validate_envelope (envelope r) = [] \<and> purpose (envelope r) = p \<and> subject_id (envelope r) = subj \<and>
     valid_token (algorithm r) 64 \<and> signature r \<noteq> [] \<and> length (signature r) \<le> 2048 \<and>
     envelope_sha256 r = authority_envelope_sha256 (envelope r) \<and>
     receipt_id r = authority_receipt_id (envelope r) (algorithm r) (signature r) \<and>
     ver_knows v (signer_id (envelope r)) (algorithm r) \<and>
     ver_verify v (signer_id (envelope r)) (algorithm r)
       (canonical_authority_envelope (envelope r)) (signature r)"
  by (auto simp: verify_authority_receipt_def avr_ok_def Let_def authority_envelope_sha256_def)

lemma verify_ok_receipt_id: "avr_ok (verify_authority_receipt r v p subj) \<Longrightarrow> valid_receipt_id (receipt_id r)"
  by (simp add: verify_ok_iff)

text \<open>The tokens of a validated envelope hold no separator.\<close>

lemma validated_tokens:
  assumes "validate_envelope e = []"
  shows "valid_token (subject_id e) 256" "valid_token (signer_id e) 128" "valid_token (nonce e) 128"
    "is_sha256 (scope_sha256 e)"
    "2 \<le> schema_version e \<Longrightarrow> valid_token (signer_key_id e) 128"
    "2 \<le> schema_version e \<Longrightarrow> issued_at_unix_ms e \<noteq> 0"
    "2 \<le> schema_version e \<Longrightarrow> issued_at_unix_ms e < expires_at_unix_ms e"
    "2 \<le> schema_version e \<Longrightarrow> max_uses e \<noteq> 0 \<and> max_uses e \<le> 1024"
    "schema_version e = 1 \<or> schema_version e = 2 \<or> schema_version e = 3"
  using assms by (auto simp: validate_envelope_def split: if_splits)

lemma validated_v3:
  assumes "validate_envelope e = []" "schema_version e = 3"
  shows "valid_token (scope_path e) 512" "scope_sha256 e = sha256 (scope_path e)"
    "list_all (\<lambda>c. valid_token c 128) (capabilities e)" "capabilities e \<noteq> []"
    "\<not> has_adjacent_equal (canonical_capabilities (capabilities e))"
    "max_delegation_depth e \<le> 8" "delegation_depth e \<le> max_delegation_depth e"
    "if delegation_depth e = 0 then parent_receipt_id e = [] else valid_receipt_id (parent_receipt_id e)"
  using assms by (auto simp: validate_envelope_def list_ex_iff list_all_iff split: if_splits)

lemma is_xdigit_no_sep: "is_xdigit c \<Longrightarrow> c \<noteq> NL \<and> c \<noteq> TAB"
  by (auto simp: is_xdigit_def hex_value_def)

lemma is_sha256_no_sep: "is_sha256 s \<Longrightarrow> NL \<notin> set s" "is_sha256 s \<Longrightarrow> TAB \<notin> set s"
  by (auto simp: is_sha256_def list_all_iff dest: is_xdigit_no_sep)

lemma valid_receipt_id_no_sep: 
  assumes "valid_receipt_id s"
  shows "NL \<notin> set s" "TAB \<notin> set s"
proof -
  have "s = kReceiptPrefix @ drop (length kReceiptPrefix) s"
    using assms by (metis append_take_drop_id prefixed_sha256_def valid_receipt_id_def)
  moreover have "is_sha256 (drop (length kReceiptPrefix) s)"
    using assms by (simp add: prefixed_sha256_def valid_receipt_id_def)
  moreover have "NL \<notin> set kReceiptPrefix" "TAB \<notin> set kReceiptPrefix"
    by (simp_all add: kReceiptPrefix_def)
  ultimately show "NL \<notin> set s" "TAB \<notin> set s"
    using is_sha256_no_sep by (metis Un_iff set_append)+
qed

lemma adjacent_equal_sorted: "sorted xs \<Longrightarrow> has_adjacent_equal xs \<longleftrightarrow> \<not> distinct xs"
  by (induction xs rule: has_adjacent_equal.induct) auto

section \<open>Scopes and capability sets\<close>

lemma scope_contains_refl: "s \<noteq> [] \<Longrightarrow> authority_scope_contains s s"
  by (simp add: authority_scope_contains_def)

lemma scope_contains_iff_append:
  "authority_scope_contains p c \<longleftrightarrow>
     p \<noteq> [] \<and> (\<exists>r. c = p @ r \<and> (r = [] \<or> last p = CHR ''/'' \<or> hd r = CHR ''/''))"
proof
  assume L: "authority_scope_contains p c"
  show "p \<noteq> [] \<and> (\<exists>r. c = p @ r \<and> (r = [] \<or> last p = CHR ''/'' \<or> hd r = CHR ''/''))"
  proof (cases "p = c")
    case False
    with L have "take (length p) c = p" "length p < length c"
      "last p = CHR ''/'' \<or> c ! length p = CHR ''/''" "p \<noteq> []"
      by (auto simp: authority_scope_contains_def split: if_splits)
    moreover from this obtain r where r: "c = p @ r" by (metis append_take_drop_id)
    ultimately have "r \<noteq> []" "last p = CHR ''/'' \<or> hd r = CHR ''/''" "p \<noteq> []"
      by (cases r; simp add: nth_append)+
    with r show ?thesis by blast
  qed (use L in \<open>auto simp: authority_scope_contains_def split: if_splits\<close>)
next
  assume "p \<noteq> [] \<and> (\<exists>r. c = p @ r \<and> (r = [] \<or> last p = CHR ''/'' \<or> hd r = CHR ''/''))"
  then obtain r where r: "p \<noteq> []" "c = p @ r" "r = [] \<or> last p = CHR ''/'' \<or> hd r = CHR ''/''" by blast
  then show "authority_scope_contains p c"
    by (cases r) (auto simp: authority_scope_contains_def)
qed

text \<open>
  Scope containment is containment of slash-separated paths: a scope contains itself and
  every extension that starts a new segment, and nothing else; in particular no sibling
  whose name merely starts with the same characters.
\<close>

theorem scope_contains_iff:
  "authority_scope_contains parent child \<longleftrightarrow>
     parent \<noteq> [] \<and> (child = parent \<or>
       (\<exists>c rest. child = parent @ c # rest \<and> (last parent = CHR ''/'' \<or> c = CHR ''/'')))"
proof -
  have "(\<exists>r. child = parent @ r \<and> (r = [] \<or> last parent = CHR ''/'' \<or> hd r = CHR ''/'')) \<longleftrightarrow>
      child = parent \<or> (\<exists>c rest. child = parent @ c # rest \<and> (last parent = CHR ''/'' \<or> c = CHR ''/''))"
    by (metis append_Nil2 list.distinct(1) list.exhaust_sel list.sel(1))
  then show ?thesis by (simp only: scope_contains_iff_append)
qed

lemma scope_contains_trans:
  assumes "authority_scope_contains a b" "authority_scope_contains b c"
  shows "authority_scope_contains a c"
proof -
  from assms(1) obtain r where a: "a \<noteq> []" "b = a @ r" "r = [] \<or> last a = CHR ''/'' \<or> hd r = CHR ''/''"
    unfolding scope_contains_iff_append by blast
  from assms(2) obtain t where c: "c = b @ t" "t = [] \<or> last b = CHR ''/'' \<or> hd t = CHR ''/''"
    unfolding scope_contains_iff_append by blast
  have "r @ t = [] \<or> last a = CHR ''/'' \<or> hd (r @ t) = CHR ''/''"
    using a c by (cases r) auto
  then show ?thesis unfolding scope_contains_iff_append using a c by (metis append.assoc)
qed

lemma scope_contains_antisym:
  "authority_scope_contains a b \<Longrightarrow> authority_scope_contains b a \<Longrightarrow> a = b"
  by (auto simp: scope_contains_iff_append)

lemma subset_add_notin: "x \<notin># A \<Longrightarrow> A \<subseteq># add_mset x B \<longleftrightarrow> A \<subseteq># B"
  unfolding subseteq_mset_def by (metis count_add_mset le0 not_in_iff)

lemma std_includes_mset:
  "sorted xs \<Longrightarrow> sorted ys \<Longrightarrow> std_includes xs ys \<longleftrightarrow> mset ys \<subseteq># mset xs"
proof (induction xs ys rule: std_includes.induct)
  case (3 x xs y ys)
  show ?case
  proof (cases x y rule: linorder_cases)
    case less
    then have "x \<notin># mset (y # ys)" using 3(4) by auto
    then have "mset (y # ys) \<subseteq># mset (x # xs) \<longleftrightarrow> mset (y # ys) \<subseteq># mset xs"
      unfolding mset.simps(2) [of x xs] by (rule subset_add_notin)
    moreover have "\<not> y < x" using less by simp
    ultimately show ?thesis using 3 less by simp
  next
    case equal
    then show ?thesis using 3 by simp
  next
    case greater
    have "y \<notin> set (x # xs)" using 3(3) greater by auto
    then have "\<not> mset (y # ys) \<subseteq># mset (x # xs)"
      by (metis list.set_intros(1) mset_subset_eqD set_mset_mset)
    then show ?thesis using greater by simp
  qed
qed simp_all

text \<open>
  The capability test is multiset inclusion: \<open>std::includes\<close> on the two sorted copies
  accepts a non-empty child list exactly when every capability occurs in the parent at
  least as often, whatever the order of the lists.
\<close>

theorem capabilities_contain_iff:
  "authority_capabilities_contain parent child \<longleftrightarrow>
     parent \<noteq> [] \<and> child \<noteq> [] \<and> mset child \<subseteq># mset parent"
  using std_includes_mset [of "sort parent" "sort child"]
  by (simp add: authority_capabilities_contain_def canonical_capabilities_def)

lemma capabilities_contain_mset:
  "authority_capabilities_contain p c \<Longrightarrow> mset c \<subseteq># mset p \<and> c \<noteq> [] \<and> p \<noteq> []"
  using std_includes_mset [of "sort p" "sort c"]
  by (simp add: authority_capabilities_contain_def canonical_capabilities_def split: if_splits)

lemma capabilities_contain_trans:
  assumes "authority_capabilities_contain a b" "authority_capabilities_contain b c"
  shows "authority_capabilities_contain a c"
  using capabilities_contain_mset [OF assms(1)] capabilities_contain_mset [OF assms(2)]
    std_includes_mset [of "sort a" "sort c"] subset_mset.order_trans
  by (auto simp: authority_capabilities_contain_def canonical_capabilities_def)

section \<open>What a signature binds\<close>

text \<open>The fields of the canonical text, in order: it is these lines joined by newlines.\<close>

definition envelope_fields :: "authority_envelope \<Rightarrow> string list" where
  "envelope_fields e =
     [show_u (schema_version e), show_u (purpose_code (purpose e)), subject_id e, actor_reference e,
      signer_id e] @
     (if 2 \<le> schema_version e then [signer_key_id e] else []) @ [issued_at_utc e] @
     (if 2 \<le> schema_version e
      then [show_u (issued_at_unix_ms e), show_u (expires_at_unix_ms e), show_u (max_uses e)] else []) @
     [nonce e, scope_sha256 e] @
     (if schema_version e = 3
      then [parent_receipt_id e, show_u (delegation_depth e), show_u (max_delegation_depth e),
            scope_path e, show_u (of_nat (length (canonical_capabilities (capabilities e))) :: u64)] @
           canonical_capabilities (capabilities e)
      else [])"

text \<open>The fields a schema does not sign are blanked, the capability list is put in order.\<close>

definition signed_part :: "authority_envelope \<Rightarrow> authority_envelope" where
  "signed_part e =
     (let e1 = (if 2 \<le> schema_version e then e
                else e\<lparr>signer_key_id := [], issued_at_unix_ms := 0, expires_at_unix_ms := 0,
                       max_uses := 0\<rparr>)
      in if schema_version e = 3
         then e1\<lparr>capabilities := canonical_capabilities (capabilities e)\<rparr>
         else e1\<lparr>parent_receipt_id := [], delegation_depth := 0, max_delegation_depth := 0,
                  scope_path := [], capabilities := []\<rparr>)"

lemma concat_sep_lines: "concat (map (\<lambda>c. NL # c) xs) @ [NL] = NL # concat (map (\<lambda>l. l @ [NL]) xs)"
  by (induction xs) simp_all

lemma canonical_lines:
  "canonical_authority_envelope e @ [NL] = concat (map (\<lambda>l. l @ [NL]) (envelope_fields e))"
  by (simp add: canonical_authority_envelope_def envelope_fields_def Let_def concat_sep_lines)

lemma envelope_fields_no_NL:
  assumes "validate_envelope e = []" "NL \<notin> set (actor_reference e)" "NL \<notin> set (issued_at_utc e)"
  shows "\<forall>f \<in> set (envelope_fields e). NL \<notin> set f"
proof -
  note tok = validated_tokens [OF assms(1)]
  have base: "NL \<notin> set (subject_id e)" "NL \<notin> set (signer_id e)" "NL \<notin> set (nonce e)"
    "NL \<notin> set (scope_sha256 e)" "2 \<le> schema_version e \<Longrightarrow> NL \<notin> set (signer_key_id e)"
    using tok(1-5) by (auto dest: valid_token_no_sep is_sha256_no_sep)
  have v3: "NL \<notin> set (parent_receipt_id e)" "NL \<notin> set (scope_path e)"
    "\<forall>c \<in> set (capabilities e). NL \<notin> set c" if "schema_version e = 3"
  proof -
    note v = validated_v3 [OF assms(1) that]
    show "NL \<notin> set (parent_receipt_id e)" using v(8)
      by (cases "delegation_depth e = 0") (simp_all add: valid_receipt_id_no_sep)
    show "NL \<notin> set (scope_path e)" using v(1) by (rule valid_token_no_sep)
    show "\<forall>c \<in> set (capabilities e). NL \<notin> set c"
      using v(3) by (auto simp: list_all_iff dest: valid_token_no_sep)
  qed
  show ?thesis using base v3 assms(2,3)
    by (auto simp: envelope_fields_def canonical_capabilities_def)
qed

lemma canonical_signed_part: "canonical_authority_envelope (signed_part e) = canonical_authority_envelope e"
  by (simp add: canonical_authority_envelope_def signed_part_def Let_def canonical_capabilities_def
      sorted_sort_id)

lemma fields_signed_part:
  assumes "envelope_fields e = envelope_fields e'"
    "schema_version e = 1 \<or> schema_version e = 2 \<or> schema_version e = 3"
    "schema_version e' = 1 \<or> schema_version e' = 2 \<or> schema_version e' = 3"
  shows "signed_part e = signed_part e'"
proof -
  have v: "schema_version e = schema_version e'"
    using assms(1) by (simp add: envelope_fields_def)
  from assms(2) show ?thesis
  proof (elim disjE)
    assume s: "schema_version e = 1"
    with assms(1) v show ?thesis
      by (intro authority_envelope.equality) (simp_all add: envelope_fields_def signed_part_def)
  next
    assume s: "schema_version e = 2"
    with assms(1) v show ?thesis
      by (intro authority_envelope.equality) (simp_all add: envelope_fields_def signed_part_def)
  next
    assume s: "schema_version e = 3"
    with assms(1) v show ?thesis
      by (intro authority_envelope.equality) (simp_all add: envelope_fields_def signed_part_def)
  qed
qed

text \<open>
  On envelopes whose two free-text fields (\<open>actor_reference\<close>, \<open>issued_at_utc\<close>) hold no
  newline, the canonical bytes determine every field the schema signs: two validated
  envelopes have the same canonical text exactly when they agree on all of them, the
  capability set up to order.  A signature over the text then binds purpose, subject, actor,
  signer, key, times, uses, nonce, scope and lineage.
\<close>

theorem canonical_binds_signed_fields:
  assumes "validate_envelope e = []" "validate_envelope e' = []"
    and "NL \<notin> set (actor_reference e)" "NL \<notin> set (issued_at_utc e)"
    and "NL \<notin> set (actor_reference e')" "NL \<notin> set (issued_at_utc e')"
  shows "canonical_authority_envelope e = canonical_authority_envelope e' \<longleftrightarrow> signed_part e = signed_part e'"
proof
  assume eq: "canonical_authority_envelope e = canonical_authority_envelope e'"
  have "getlines (canonical_authority_envelope e @ [NL]) = envelope_fields e"
    unfolding canonical_lines using assms by (intro getlines_concat envelope_fields_no_NL)
  moreover have "getlines (canonical_authority_envelope e' @ [NL]) = envelope_fields e'"
    unfolding canonical_lines using assms by (intro getlines_concat envelope_fields_no_NL)
  ultimately have "envelope_fields e = envelope_fields e'" using eq by simp
  then show "signed_part e = signed_part e'"
    using validated_tokens(9) assms(1,2) by (intro fields_signed_part)
next
  assume "signed_part e = signed_part e'"
  then show "canonical_authority_envelope e = canonical_authority_envelope e'"
    by (metis canonical_signed_part)
qed

definition sample_envelope :: authority_envelope where
  "sample_envelope = \<lparr>schema_version = 2, purpose = CapabilityGrant, subject_id = ''subject'',
     actor_reference = ''alice'', signer_id = ''root'', signer_key_id = ''key1'',
     issued_at_utc = ''2026-01-01T00:00:00Z'', issued_at_unix_ms = 1000, expires_at_unix_ms = 2000,
     max_uses = 3, nonce = ''n1'', scope_sha256 = sha256 ''/repo'', parent_receipt_id = [],
     delegation_depth = 0, max_delegation_depth = 0, scope_path = [], capabilities = []\<rparr>"

lemma sample_envelope_valid: "validate_envelope sample_envelope = []"
  by (simp add: validate_envelope_def sample_envelope_def valid_token_def token_char_def)

theorem canonical_binds_signed_fields_witness:
  "canonical_authority_envelope sample_envelope \<noteq>
     canonical_authority_envelope (sample_envelope\<lparr>subject_id := ''other''\<rparr>)"
proof -
  have "validate_envelope (sample_envelope\<lparr>subject_id := ''other''\<rparr>) = []"
    by (simp add: validate_envelope_def sample_envelope_def valid_token_def token_char_def)
  moreover have "signed_part sample_envelope \<noteq> signed_part (sample_envelope\<lparr>subject_id := ''other''\<rparr>)"
    by (simp add: signed_part_def sample_envelope_def)
  ultimately show ?thesis
    using canonical_binds_signed_fields [OF sample_envelope_valid, of "sample_envelope\<lparr>subject_id := ''other''\<rparr>"]
    by (simp add: sample_envelope_def)
qed

text \<open>
  Without that side condition the binding fails: there are two validated schema-2
  envelopes of different signers and different keys with the same canonical text, so one
  signature, and one receipt id, serves both (a newline inside \<open>actor_reference\<close> or
  \<open>issued_at_utc\<close> moves the field boundaries).
\<close>

theorem canonical_text_is_ambiguous:
  "\<exists>e e'. validate_envelope e = [] \<and> validate_envelope e' = [] \<and>
     schema_version e = 2 \<and> schema_version e' = 2 \<and>
     signer_id e \<noteq> signer_id e' \<and> signer_key_id e \<noteq> signer_key_id e' \<and>
     canonical_authority_envelope e = canonical_authority_envelope e' \<and>
     (\<forall>alg sg. authority_receipt_id e alg sg = authority_receipt_id e' alg sg)"
proof -
  define e where "e = sample_envelope\<lparr>actor_reference := ''alice'' @ [NL] @ ''guest'',
    signer_id := ''root'', signer_key_id := ''key1'', issued_at_utc := ''now''\<rparr>"
  define e' where "e' = sample_envelope\<lparr>actor_reference := ''alice'', signer_id := ''guest'',
    signer_key_id := ''root'', issued_at_utc := ''key1'' @ [NL] @ ''now''\<rparr>"
  have c: "canonical_authority_envelope e = canonical_authority_envelope e'"
    by (simp add: canonical_authority_envelope_def e_def e'_def sample_envelope_def)
  have "validate_envelope e = []" "validate_envelope e' = []"
    by (simp_all add: validate_envelope_def e_def e'_def sample_envelope_def valid_token_def token_char_def)
  moreover have "schema_version e = 2" "schema_version e' = 2" "signer_id e \<noteq> signer_id e'"
    "signer_key_id e \<noteq> signer_key_id e'"
    by (simp_all add: e_def e'_def sample_envelope_def)
  moreover have "authority_receipt_id e alg sg = authority_receipt_id e' alg sg" for alg sg
    by (simp add: authority_receipt_id_def authority_envelope_sha256_def c)
  ultimately show ?thesis using c by blast
qed

section \<open>Issue and verify\<close>

text \<open>
  A receipt that the signer issues is one the verifier accepts for its own purpose and
  subject, whenever the verifier knows the signer and accepts its signature over the
  canonical bytes of the envelope; and issuing never changes the envelope.
\<close>

theorem issued_receipt_verifies:
  assumes "issue_authority_receipt e signer = Inr r"
    and "ver_knows v (signer_id e) (sig_algorithm signer)"
    and "ver_verify v (signer_id e) (sig_algorithm signer) (canonical_authority_envelope e) (signature r)"
  shows "envelope r = e \<and> avr_ok (verify_authority_receipt r v (purpose e) (subject_id e))"
proof -
  have valid: "validate_envelope e = []" "valid_token (sig_algorithm signer) 64"
    "bounded_signature (sig_sign signer (canonical_authority_envelope e))"
    using assms(1) by (auto simp: issue_authority_receipt_def Let_def split: if_splits)
  have r: "r = \<lparr>envelope = e, algorithm = sig_algorithm signer,
      envelope_sha256 = sha256 (canonical_authority_envelope e),
      signature = the (sig_sign signer (canonical_authority_envelope e)),
      receipt_id = authority_receipt_id e (sig_algorithm signer)
        (the (sig_sign signer (canonical_authority_envelope e)))\<rparr>"
    using assms(1) by (simp add: issue_authority_receipt_def Let_def split: if_splits)
  have "envelope r = e" by (simp add: r)
  moreover have "avr_ok (verify_authority_receipt r v (purpose e) (subject_id e))"
    using valid assms(2,3) unfolding verify_ok_iff r
    by (auto simp: authority_envelope_sha256_def bounded_signature_def split: option.splits)
  ultimately show ?thesis by simp
qed

definition sample_signer :: authority_signer where
  "sample_signer = \<lparr>sig_signer_id = ''root'', sig_algorithm = ''test'', sig_sign = (\<lambda>m. Some (sha256 m))\<rparr>"

definition sample_verifier :: authority_verifier where
  "sample_verifier = \<lparr>ver_knows = (\<lambda>s a. s = ''root'' \<and> a = ''test''),
     ver_verify = (\<lambda>s a m sg. sg = sha256 m)\<rparr>"

definition sample_receipt :: "authority_envelope \<Rightarrow> authority_receipt" where
  "sample_receipt e = \<lparr>envelope = e, algorithm = ''test'',
     envelope_sha256 = sha256 (canonical_authority_envelope e),
     signature = sha256 (canonical_authority_envelope e),
     receipt_id = authority_receipt_id e ''test'' (sha256 (canonical_authority_envelope e))\<rparr>"

lemma issue_sample:
  assumes "validate_envelope e = []" "signer_id e = ''root''"
  shows "issue_authority_receipt e sample_signer = Inr (sample_receipt e)"
  using assms
  by (simp add: issue_authority_receipt_def sample_signer_def sample_receipt_def bounded_signature_def
      valid_token_def token_char_def Let_def)

lemma verify_sample:
  assumes "validate_envelope e = []" "signer_id e = ''root''"
  shows "verify_authority_receipt (sample_receipt e) sample_verifier (purpose e) (subject_id e) =
    \<lparr>avr_status = ARS_Valid, avr_errors = []\<rparr>"
  using assms
  by (simp add: verify_authority_receipt_def sample_verifier_def sample_receipt_def
      valid_token_def token_char_def)

theorem issued_receipt_verifies_witness:
  "envelope (sample_receipt sample_envelope) = sample_envelope \<and>
   avr_ok (verify_authority_receipt (sample_receipt sample_envelope) sample_verifier
     CapabilityGrant ''subject'')"
  using issued_receipt_verifies [OF issue_sample [OF sample_envelope_valid], of sample_verifier]
  by (simp add: sample_envelope_def sample_verifier_def sample_signer_def sample_receipt_def)

end
