(* ===== verification/Authority_Ledger.thy ===== *)
theory Authority_Ledger
  imports Journal Authority_Receipt "HOL-Library.Monad_Syntax"
begin

text \<open>
  \<open>AuthorityLedger\<close> (\<open>include/guff/authority_ledger.hpp\<close>, \<open>src/authority_ledger.cpp\<close>): the
  durable record of trusted signer keys, receipt uses, revocations, nonces and delegations.

  The object's maps are \<open>authority_maps\<close>, its journal members and the file are the
  \<open>journal\<close>; an operation takes the clock reading and the outcome of its file system calls
  and returns its result with the new ledger.  The events of the journal are a datatype:
  \<open>encode_event\<close> is the body text the operations write, \<open>decode_event\<close> and \<open>sem_event\<close> are the
  two halves of the event handler of \<open>replay\<close> (read the fields; check the event contract and
  update the maps).

  The interpretation \<open>auth\<close> of \<open>event_journal\<close> shows that the encoding and the handler agree,
  which gives the round trip of the journal for this ledger.
\<close>

section \<open>State\<close>

datatype authority_ledger_status =
  ALS_Allowed | ALS_Invalid | ALS_Duplicate | ALS_NotFound | ALS_SignerUnknown | ALS_KeyInactive
| ALS_ReceiptExpired | ALS_ReceiptRevoked | ALS_NonceReplay | ALS_UseLimitReached
| ALS_DelegationRejected | ALS_StorageError | ALS_Corrupt

record trusted_signer_key =
  tk_signer_id :: string
  tk_key_id :: string
  tk_algorithm :: string
  tk_valid_from :: u64
  tk_valid_until :: u64
  tk_revoked_at :: u64

record authority_ledger_result =
  alr_status :: authority_ledger_status
  alr_receipt_id :: string
  alr_use_count :: u64
  alr_errors :: "string list"

record authority_maps =
  am_keys :: "trusted_signer_key smap"
  am_receipt_uses :: "u64 smap"
  am_delegated_uses :: "u64 smap"
  am_revoked :: "u64 smap"
  am_nonces :: "string smap"
  am_parent :: "string smap"

record authority_ledger =
  al_journal :: journal
  al_maps :: authority_maps

record authority_ledger_inspection =
  ali_healthy :: bool
  ali_records :: u64
  ali_trusted_keys :: nat
  ali_consumed_receipts :: nat
  ali_revoked_receipts :: nat
  ali_delegated_receipts :: nat
  ali_errors :: "string list"

definition alr_ok :: "authority_ledger_result \<Rightarrow> bool" where
  "alr_ok r \<longleftrightarrow> alr_status r = ALS_Allowed"

definition empty_maps :: authority_maps where
  "empty_maps = \<lparr>am_keys = [], am_receipt_uses = [], am_delegated_uses = [], am_revoked = [],
     am_nonces = [], am_parent = []\<rparr>"

definition authority_cfg :: journal_cfg where
  "authority_cfg = \<lparr>jc_ledger = ''authority ledger'', jc_directory = ''authority ledger'',
     jc_journal = ''authority ledger journal'', jc_line = ''authority ledger'', jc_record = ''authority ledger'', jc_extra = 0\<rparr>"

definition key_map_id :: "string \<Rightarrow> string \<Rightarrow> string" where
  "key_map_id signer key = signer @ NL # key"

definition nonce_key :: "string \<Rightarrow> string \<Rightarrow> string \<Rightarrow> string" where
  "nonce_key signer key n = signer @ NL # key @ NL # n"

definition find_key :: "authority_maps \<Rightarrow> string \<Rightarrow> string \<Rightarrow> trusted_signer_key option" where
  "find_key m signer key = map_of (am_keys m) (key_map_id signer key)"

definition use_count :: "authority_maps \<Rightarrow> string \<Rightarrow> u64" where
  "use_count m rid = (case map_of (am_receipt_uses m) rid of None \<Rightarrow> 0 | Some n \<Rightarrow> n)"

definition delegated_uses :: "authority_maps \<Rightarrow> string \<Rightarrow> u64" where
  "delegated_uses m rid = (case map_of (am_delegated_uses m) rid of None \<Rightarrow> 0 | Some n \<Rightarrow> n)"

definition receipt_revoked :: "authority_maps \<Rightarrow> string \<Rightarrow> bool" where
  "receipt_revoked m rid \<longleftrightarrow> contains (am_revoked m) rid"

definition delegation_registered :: "authority_maps \<Rightarrow> string \<Rightarrow> bool" where
  "delegation_registered m rid \<longleftrightarrow> contains (am_parent m) rid"

definition delegation_parent :: "authority_maps \<Rightarrow> string \<Rightarrow> string option" where
  "delegation_parent m rid = map_of (am_parent m) rid"

text \<open>\<open>revoked != end() && now >= revoked->second\<close>\<close>

definition revoked_at :: "authority_maps \<Rightarrow> string \<Rightarrow> u64 \<Rightarrow> bool" where
  "revoked_at m rid now = (case map_of (am_revoked m) rid of None \<Rightarrow> False | Some t \<Rightarrow> t \<le> now)"

text \<open>
  \<open>ancestor_revoked\<close>: climb the registered lineage, at most nine links; Some is \<open>true\<close> with the
  name put into \<open>revoked_ancestor\<close>.  The first argument counts the iterations left.
\<close>

fun climb_revoked :: "nat \<Rightarrow> authority_maps \<Rightarrow> u64 \<Rightarrow> string \<Rightarrow> string option" where
  "climb_revoked 0 m now current = Some ''delegation-lineage-cycle-or-depth-overflow''"
| "climb_revoked (Suc n) m now current =
     (case map_of (am_parent m) current of
        None \<Rightarrow> None
      | Some p \<Rightarrow> if revoked_at m p now then Some p else climb_revoked n m now p)"

definition ancestor_revoked :: "authority_maps \<Rightarrow> string \<Rightarrow> u64 \<Rightarrow> string option" where
  "ancestor_revoked m rid now = climb_revoked 9 m now rid"

section \<open>Events\<close>

datatype authority_event =
  Ev_Trust string string string u64 u64
| Ev_Retire string string u64
| Ev_RevokeKey string string u64
| Ev_RevokeReceipt string u64
| Ev_Use string string string string u64 u64
| Ev_Delegate string string string string string string u64 u64 u64

fun encode_event :: "authority_event \<Rightarrow> string" where
  "encode_event (Ev_Trust signer key alg valid_from valid_until) =
     ''K'' @ tab_join [hex_encode signer, hex_encode key, hex_encode alg, show_u valid_from,
       show_u valid_until]"
| "encode_event (Ev_Retire signer key at) =
     ''T'' @ tab_join [hex_encode signer, hex_encode key, show_u at]"
| "encode_event (Ev_RevokeKey signer key at) =
     ''R'' @ tab_join [hex_encode signer, hex_encode key, show_u at]"
| "encode_event (Ev_RevokeReceipt rid at) = ''X'' @ tab_join [hex_encode rid, show_u at]"
| "encode_event (Ev_Use rid signer key n use_index at) =
     ''U'' @ tab_join [hex_encode rid, hex_encode signer, hex_encode key, hex_encode n,
       show_u use_index, show_u at]"
| "encode_event (Ev_Delegate parent child signer key pn cn use_index reserved at) =
     ''D'' @ tab_join [hex_encode parent, hex_encode child, hex_encode signer, hex_encode key,
       hex_encode pn, hex_encode cn, show_u use_index, show_u reserved, show_u at]"

text \<open>The fields of a journal line (sequence, previous hash, type, \<dots>, record hash) as an event.\<close>

definition decode_event :: "string list \<Rightarrow> authority_event option" where
  "decode_event fs =
     (if fs ! 2 = ''K'' \<and> length fs = 9 then do {
        signer \<leftarrow> hex_decode (fs ! 3); key \<leftarrow> hex_decode (fs ! 4); alg \<leftarrow> hex_decode (fs ! 5);
        valid_from \<leftarrow> parse_unsigned (fs ! 6); valid_until \<leftarrow> parse_unsigned (fs ! 7);
        Some (Ev_Trust signer key alg valid_from valid_until) }
      else if (fs ! 2 = ''T'' \<or> fs ! 2 = ''R'') \<and> length fs = 7 then do {
        signer \<leftarrow> hex_decode (fs ! 3); key \<leftarrow> hex_decode (fs ! 4); at \<leftarrow> parse_unsigned (fs ! 5);
        Some (if fs ! 2 = ''T'' then Ev_Retire signer key at else Ev_RevokeKey signer key at) }
      else if fs ! 2 = ''X'' \<and> length fs = 6 then do {
        rid \<leftarrow> hex_decode (fs ! 3); at \<leftarrow> parse_unsigned (fs ! 4);
        Some (Ev_RevokeReceipt rid at) }
      else if fs ! 2 = ''U'' \<and> length fs = 10 then do {
        rid \<leftarrow> hex_decode (fs ! 3); signer \<leftarrow> hex_decode (fs ! 4); key \<leftarrow> hex_decode (fs ! 5);
        n \<leftarrow> hex_decode (fs ! 6); use_index \<leftarrow> parse_unsigned (fs ! 7); at \<leftarrow> parse_unsigned (fs ! 8);
        Some (Ev_Use rid signer key n use_index at) }
      else if fs ! 2 = ''D'' \<and> length fs = 13 then do {
        parent \<leftarrow> hex_decode (fs ! 3); child \<leftarrow> hex_decode (fs ! 4); signer \<leftarrow> hex_decode (fs ! 5);
        key \<leftarrow> hex_decode (fs ! 6); pn \<leftarrow> hex_decode (fs ! 7); cn \<leftarrow> hex_decode (fs ! 8);
        use_index \<leftarrow> parse_unsigned (fs ! 9); reserved \<leftarrow> parse_unsigned (fs ! 10);
        at \<leftarrow> parse_unsigned (fs ! 11);
        Some (Ev_Delegate parent child signer key pn cn use_index reserved at) }
      else None)"

text \<open>A nonce may be used by \<open>rid\<close> when it is free or already bound to \<open>rid\<close>.\<close>

definition nonce_free_for :: "authority_maps \<Rightarrow> string \<Rightarrow> string \<Rightarrow> bool" where
  "nonce_free_for m nk rid = (case map_of (am_nonces m) nk of None \<Rightarrow> True | Some r \<Rightarrow> r = rid)"

text \<open>The event contract of \<open>replay\<close> and its effect on the maps; None: contract failed.\<close>

fun sem_event :: "authority_event \<Rightarrow> authority_maps \<Rightarrow> authority_maps option" where
  "sem_event (Ev_Trust signer key alg valid_from valid_until) m =
     (let kid = key_map_id signer key in
      if valid_from \<noteq> 0 \<and> \<not> contains (am_keys m) kid
      then Some (m\<lparr>am_keys := AList.update kid
        \<lparr>tk_signer_id = signer, tk_key_id = key, tk_algorithm = alg, tk_valid_from = valid_from,
         tk_valid_until = valid_until, tk_revoked_at = 0\<rparr> (am_keys m)\<rparr>)
      else None)"
| "sem_event (Ev_Retire signer key at) m =
     (let kid = key_map_id signer key in
      case map_of (am_keys m) kid of
        None \<Rightarrow> None
      | Some k \<Rightarrow> if at \<noteq> 0
          then Some (m\<lparr>am_keys := AList.update kid (k\<lparr>tk_valid_until := at\<rparr>) (am_keys m)\<rparr>) else None)"
| "sem_event (Ev_RevokeKey signer key at) m =
     (let kid = key_map_id signer key in
      case map_of (am_keys m) kid of
        None \<Rightarrow> None
      | Some k \<Rightarrow> if at \<noteq> 0
          then Some (m\<lparr>am_keys := AList.update kid (k\<lparr>tk_revoked_at := at\<rparr>) (am_keys m)\<rparr>) else None)"
| "sem_event (Ev_RevokeReceipt rid at) m =
     (if valid_receipt_id rid \<and> at \<noteq> 0 \<and> \<not> contains (am_revoked m) rid
      then Some (m\<lparr>am_revoked := AList.update rid at (am_revoked m)\<rparr>) else None)"
| "sem_event (Ev_Use rid signer key n use_index at) m =
     (let nk = nonce_key signer key n in
      if valid_receipt_id rid \<and> use_index \<noteq> 0 \<and> at \<noteq> 0 \<and> use_index = use_count m rid + 1 \<and>
         nonce_free_for m nk rid
      then Some (m\<lparr>am_nonces := AList.update nk rid (am_nonces m),
                   am_receipt_uses := AList.update rid use_index (am_receipt_uses m)\<rparr>)
      else None)"
| "sem_event (Ev_Delegate parent child signer key pn cn use_index reserved at) m =
     (let pk = nonce_key signer key pn; ck = nonce_key signer key cn in
      if valid_receipt_id parent \<and> valid_receipt_id child \<and> use_index \<noteq> 0 \<and> reserved \<noteq> 0 \<and> at \<noteq> 0 \<and>
         \<not> contains (am_parent m) child \<and> use_index = use_count m parent + 1 \<and>
         nonce_free_for m pk parent \<and> nonce_free_for m ck child \<and>
         delegated_uses m parent \<le> (- 1) - reserved
      then Some (m\<lparr>am_receipt_uses := AList.update parent use_index (am_receipt_uses m),
                   am_delegated_uses := AList.update parent (delegated_uses m parent + reserved)
                     (am_delegated_uses m),
                   am_nonces := AList.update ck child (AList.update pk parent (am_nonces m)),
                   am_parent := AList.update child parent (am_parent m)\<rparr>)
      else None)"

definition authority_handler :: "string list \<Rightarrow> authority_maps \<Rightarrow> authority_maps option" where
  "authority_handler fs m = (case decode_event fs of None \<Rightarrow> None | Some e \<Rightarrow> sem_event e m)"

section \<open>Operations\<close>

text \<open>
  The common tail of the mutators: append the event; on failure report \<open>StorageError\<close> with the
  append's message, on success update the maps and report \<open>ok\<close>.
\<close>

definition al_commit ::
    "io \<Rightarrow> authority_event \<Rightarrow> (authority_maps \<Rightarrow> authority_maps) \<Rightarrow> authority_ledger_result \<Rightarrow>
     authority_ledger_result \<Rightarrow> authority_ledger \<Rightarrow> authority_ledger_result \<times> authority_ledger" where
  "al_commit io ev upd r ok L =
     (case append_event authority_cfg io (encode_event ev) (al_journal L) of
        (Some error, j) \<Rightarrow>
          (r\<lparr>alr_status := ALS_StorageError, alr_errors := [error]\<rparr>, L\<lparr>al_journal := j\<rparr>)
      | (None, j) \<Rightarrow> (ok, L\<lparr>al_journal := j, al_maps := upd (al_maps L)\<rparr>))"

text \<open>\<open>AuthorityLedgerResult result; result.receipt_id = rid\<close>\<close>

definition al_result :: "string \<Rightarrow> authority_ledger_result" where
  "al_result rid = \<lparr>alr_status = ALS_Invalid, alr_receipt_id = rid, alr_use_count = 0, alr_errors = []\<rparr>"

definition al_fail :: "string \<Rightarrow> authority_ledger_status \<Rightarrow> string \<Rightarrow> authority_ledger_result" where
  "al_fail rid st msg = (al_result rid)\<lparr>alr_status := st, alr_errors := [msg]\<rparr>"

definition al_allowed :: "string \<Rightarrow> u64 \<Rightarrow> authority_ledger_result" where
  "al_allowed rid n = (al_result rid)\<lparr>alr_status := ALS_Allowed, alr_use_count := n\<rparr>"

definition al_corrupt :: "string \<Rightarrow> authority_ledger \<Rightarrow> authority_ledger_result" where
  "al_corrupt rid L = (al_result rid)\<lparr>alr_status := ALS_Corrupt, alr_errors := j_errors (al_journal L)\<rparr>"

definition trust_key ::
    "io \<Rightarrow> trusted_signer_key \<Rightarrow> authority_ledger \<Rightarrow> authority_ledger_result \<times> authority_ledger" where
  "trust_key io key L =
     (let kid = key_map_id (tk_signer_id key) (tk_key_id key) in
      if \<not> j_healthy (al_journal L) then (al_corrupt [] L, L)
      else if \<not> valid_token (tk_signer_id key) 128 \<or> \<not> valid_token (tk_key_id key) 128 \<or>
              \<not> valid_token (tk_algorithm key) 64 \<or> tk_valid_from key = 0 \<or>
              (tk_valid_until key \<noteq> 0 \<and> tk_valid_until key \<le> tk_valid_from key) \<or>
              tk_revoked_at key \<noteq> 0
      then (al_fail [] ALS_Invalid ''trusted signer key metadata is invalid'', L)
      else if contains (am_keys (al_maps L)) kid
      then (al_fail [] ALS_Duplicate ''signer key already exists'', L)
      else al_commit io
        (Ev_Trust (tk_signer_id key) (tk_key_id key) (tk_algorithm key) (tk_valid_from key)
          (tk_valid_until key))
        (\<lambda>m. m\<lparr>am_keys := AList.update kid key (am_keys m)\<rparr>)
        (al_result []) (al_allowed [] 0) L)"

definition retire_key ::
    "io \<Rightarrow> string \<Rightarrow> string \<Rightarrow> u64 \<Rightarrow> authority_ledger \<Rightarrow>
     authority_ledger_result \<times> authority_ledger" where
  "retire_key io signer key retired_at L =
     (let kid = key_map_id signer key in
      case map_of (am_keys (al_maps L)) kid of
        None \<Rightarrow> (al_fail [] ALS_NotFound ''signer key not found'', L)
      | Some k \<Rightarrow>
          if retired_at \<le> tk_valid_from k \<or>
             (tk_valid_until k \<noteq> 0 \<and> tk_valid_until k < retired_at)
          then (al_fail [] ALS_Invalid ''key retirement time is outside the issuance window'', L)
          else al_commit io (Ev_Retire signer key retired_at)
            (\<lambda>m. m\<lparr>am_keys := AList.update kid (k\<lparr>tk_valid_until := retired_at\<rparr>) (am_keys m)\<rparr>)
            (al_result []) (al_allowed [] 0) L)"

definition revoke_key ::
    "io \<Rightarrow> string \<Rightarrow> string \<Rightarrow> u64 \<Rightarrow> authority_ledger \<Rightarrow>
     authority_ledger_result \<times> authority_ledger" where
  "revoke_key io signer key at L =
     (let kid = key_map_id signer key in
      case map_of (am_keys (al_maps L)) kid of
        None \<Rightarrow> (al_fail [] ALS_NotFound ''signer key not found'', L)
      | Some k \<Rightarrow>
          if at = 0 \<or> tk_revoked_at k \<noteq> 0
          then (al_fail [] ALS_Invalid ''key revocation time is invalid or key already revoked'', L)
          else al_commit io (Ev_RevokeKey signer key at)
            (\<lambda>m. m\<lparr>am_keys := AList.update kid (k\<lparr>tk_revoked_at := at\<rparr>) (am_keys m)\<rparr>)
            (al_result []) (al_allowed [] 0) L)"

definition revoke_receipt ::
    "io \<Rightarrow> string \<Rightarrow> u64 \<Rightarrow> authority_ledger \<Rightarrow> authority_ledger_result \<times> authority_ledger" where
  "revoke_receipt io rid at L =
     (if \<not> valid_receipt_id rid \<or> at = 0
      then (al_fail rid ALS_Invalid ''receipt revocation request is invalid'', L)
      else if contains (am_revoked (al_maps L)) rid
      then (al_fail rid ALS_Duplicate ''receipt already revoked'', L)
      else al_commit io (Ev_RevokeReceipt rid at)
        (\<lambda>m. m\<lparr>am_revoked := AList.update rid at (am_revoked m)\<rparr>)
        (al_result rid) (al_allowed rid 0) L)"

definition strict_delegation_attenuation :: "authority_envelope \<Rightarrow> authority_envelope \<Rightarrow> bool" where
  "strict_delegation_attenuation parent child \<longleftrightarrow>
     scope_path child \<noteq> scope_path parent \<or>
     length (capabilities child) < length (capabilities parent) \<or>
     expires_at_unix_ms child < expires_at_unix_ms parent \<or>
     max_uses child < max_uses parent \<or>
     max_delegation_depth child < max_delegation_depth parent"

definition register_delegation ::
    "authority_verifier \<Rightarrow> u64 \<Rightarrow> io \<Rightarrow> authority_receipt \<Rightarrow> authority_receipt \<Rightarrow> authority_ledger \<Rightarrow>
     authority_ledger_result \<times> authority_ledger" where
  "register_delegation v now io parent child L =
     (let m = al_maps L; p = envelope parent; c = envelope child; rid = receipt_id child;
          pv = verify_authority_receipt parent v (purpose p) (subject_id p);
          cv = verify_authority_receipt child v (purpose c) (subject_id c);
          pk = nonce_key (signer_id p) (signer_key_id p) (nonce p);
          ck = nonce_key (signer_id c) (signer_key_id c) (nonce c);
          used = use_count m (receipt_id parent);
          reserved = delegated_uses m (receipt_id parent);
          needed = 1 + (ucast (max_uses c) :: u64);
          p_max = (ucast (max_uses p) :: u64)
      in
      if \<not> j_healthy (al_journal L) then (al_corrupt rid L, L)
      else if schema_version p \<noteq> 3 \<or> schema_version c \<noteq> 3
      then (al_fail rid ALS_DelegationRejected
             ''delegation requires schema v3 parent and child receipts'', L)
      else if \<not> avr_ok pv \<or> \<not> avr_ok cv
      then ((al_result rid)\<lparr>alr_status := ALS_DelegationRejected,
              alr_errors := (if \<not> avr_ok pv then avr_errors pv else avr_errors cv)\<rparr>, L)
      else if parent_receipt_id c \<noteq> receipt_id parent \<or>
              delegation_depth c \<noteq> delegation_depth p + 1 \<or>
              max_delegation_depth p \<le> delegation_depth p \<or>
              max_delegation_depth c < delegation_depth c \<or>
              max_delegation_depth p < max_delegation_depth c
      then (al_fail rid ALS_DelegationRejected ''delegation lineage/depth contract is invalid'', L)
      else if purpose p \<noteq> purpose c \<or> subject_id p \<noteq> subject_id c \<or> signer_id p \<noteq> signer_id c \<or>
              signer_key_id p \<noteq> signer_key_id c \<or> algorithm parent \<noteq> algorithm child
      then (al_fail rid ALS_DelegationRejected
             ''delegation cannot change purpose, subject, signer key, or algorithm'', L)
      else if \<not> authority_scope_contains (scope_path p) (scope_path c) \<or>
              \<not> authority_capabilities_contain (capabilities p) (capabilities c)
      then (al_fail rid ALS_DelegationRejected
             ''delegated scope/capabilities would amplify parent authority'', L)
      else if issued_at_unix_ms c < issued_at_unix_ms p \<or>
              expires_at_unix_ms p < expires_at_unix_ms c \<or>
              expires_at_unix_ms c \<le> issued_at_unix_ms c \<or>
              \<not> strict_delegation_attenuation p c
      then (al_fail rid ALS_DelegationRejected
             ''delegation must be strictly attenuated in scope, capability, lifetime, uses, or delegation depth'', L)
      else if contains (am_parent m) rid \<or> use_count m rid \<noteq> 0
      then (al_fail rid ALS_Duplicate ''delegated child receipt is already registered or consumed'', L)
      else if parent_receipt_id p \<noteq> [] \<and>
              map_of (am_parent m) (receipt_id parent) \<noteq> Some (parent_receipt_id p)
      then (al_fail rid ALS_DelegationRejected
             ''delegated parent is not registered in authority lineage'', L)
      else (case find_key m (signer_id p) (signer_key_id p) of
        None \<Rightarrow> (al_fail rid ALS_SignerUnknown ''delegation signer key is not trusted'', L)
      | Some key \<Rightarrow>
      if tk_algorithm key \<noteq> algorithm parent
      then (al_fail rid ALS_SignerUnknown ''delegation signer key is not trusted'', L)
      else if now < issued_at_unix_ms p \<or> now < issued_at_unix_ms c \<or>
              issued_at_unix_ms p < tk_valid_from key \<or>
              (tk_valid_until key \<noteq> 0 \<and> tk_valid_until key \<le> issued_at_unix_ms p) \<or>
              (tk_valid_until key \<noteq> 0 \<and> tk_valid_until key \<le> issued_at_unix_ms c) \<or>
              (tk_revoked_at key \<noteq> 0 \<and> tk_revoked_at key \<le> now)
      then (al_fail rid ALS_KeyInactive
             ''delegation signer key is inactive for parent/child issuance'', L)
      else if expires_at_unix_ms p \<le> now \<or> expires_at_unix_ms c \<le> now
      then (al_fail rid ALS_ReceiptExpired ''parent or child authority has expired'', L)
      else if receipt_revoked m (receipt_id parent) \<or> receipt_revoked m rid \<or>
              ancestor_revoked m (receipt_id parent) now \<noteq> None
      then (al_fail rid ALS_ReceiptRevoked
             ''parent, child, or delegation ancestor has been revoked'', L)
      else if \<not> nonce_free_for m pk (receipt_id parent) \<or> \<not> nonce_free_for m ck rid
      then (al_fail rid ALS_NonceReplay
             ''delegation parent or child nonce is bound to a different receipt'', L)
      else if p_max < used \<or> p_max < reserved \<or> p_max < needed \<or> p_max - needed < used + reserved
      then ((al_fail rid ALS_UseLimitReached
              ''parent has insufficient uncommitted use budget for delegation'')\<lparr>alr_use_count := used\<rparr>, L)
      else al_commit io
        (Ev_Delegate (receipt_id parent) rid (signer_id p) (signer_key_id p) (nonce p) (nonce c)
          (used + 1) (ucast (max_uses c)) now)
        (\<lambda>m. m\<lparr>am_receipt_uses := AList.update (receipt_id parent) (used + 1) (am_receipt_uses m),
               am_delegated_uses := AList.update (receipt_id parent) (reserved + ucast (max_uses c))
                 (am_delegated_uses m),
               am_nonces := AList.update ck rid (AList.update pk (receipt_id parent) (am_nonces m)),
               am_parent := AList.update rid (receipt_id parent) (am_parent m)\<rparr>)
        (al_result rid) (al_allowed rid (used + 1)) L))"

definition authorize_and_consume ::
    "authority_verifier \<Rightarrow> u64 \<Rightarrow> io \<Rightarrow> authority_receipt \<Rightarrow> authority_purpose \<Rightarrow> string \<Rightarrow> string \<Rightarrow>
     authority_ledger \<Rightarrow> authority_ledger_result \<times> authority_ledger" where
  "authorize_and_consume v now io r expected_purpose expected_subject expected_scope L =
     (let m = al_maps L; e = envelope r; rid = receipt_id r;
          ver = verify_authority_receipt r v expected_purpose expected_subject;
          nk = nonce_key (signer_id e) (signer_key_id e) (nonce e);
          current = use_count m rid;
          reserved = delegated_uses m rid;
          limit = (ucast (max_uses e) :: u64)
      in
      if \<not> j_healthy (al_journal L) then (al_corrupt rid L, L)
      else if \<not> avr_ok ver
      then ((al_result rid)\<lparr>
              alr_status := (if avr_status ver = ARS_SignerUnknown then ALS_SignerUnknown else ALS_Invalid),
              alr_errors := avr_errors ver\<rparr>, L)
      else if \<not> is_sha256 expected_scope \<or> scope_sha256 e \<noteq> expected_scope
      then (al_fail rid ALS_Invalid ''authority receipt scope does not match requested operation'', L)
      else if schema_version e \<noteq> 2 \<and> schema_version e \<noteq> 3
      then (al_fail rid ALS_Invalid
             ''privileged authority consumption requires receipt schema v2 or v3'', L)
      else if schema_version e = 3 \<and> parent_receipt_id e \<noteq> [] \<and>
              map_of (am_parent m) rid \<noteq> Some (parent_receipt_id e)
      then (al_fail rid ALS_DelegationRejected
             ''delegated receipt is not registered in authority lineage'', L)
      else (case find_key m (signer_id e) (signer_key_id e) of
        None \<Rightarrow> (al_fail rid ALS_SignerUnknown
                  ''receipt signer key is not trusted by the authority ledger'', L)
      | Some key \<Rightarrow>
      if tk_algorithm key \<noteq> algorithm r
      then (al_fail rid ALS_SignerUnknown
             ''receipt signer key is not trusted by the authority ledger'', L)
      else if now < issued_at_unix_ms e
      then (al_fail rid ALS_KeyInactive ''authority receipt is not valid yet'', L)
      else if issued_at_unix_ms e < tk_valid_from key \<or>
              (tk_valid_until key \<noteq> 0 \<and> tk_valid_until key \<le> issued_at_unix_ms e)
      then (al_fail rid ALS_KeyInactive
             ''receipt was issued outside the signer key issuance window'', L)
      else if tk_revoked_at key \<noteq> 0 \<and> tk_revoked_at key \<le> now
      then (al_fail rid ALS_KeyInactive ''receipt signer key has been revoked'', L)
      else if expires_at_unix_ms e \<le> now
      then (al_fail rid ALS_ReceiptExpired ''authority receipt has expired'', L)
      else if revoked_at m rid now
      then (al_fail rid ALS_ReceiptRevoked ''authority receipt has been revoked'', L)
      else (case ancestor_revoked m rid now of
        Some a \<Rightarrow> (al_fail rid ALS_ReceiptRevoked
                    (''delegation ancestor has been revoked: '' @ a), L)
      | None \<Rightarrow>
      if \<not> nonce_free_for m nk rid
      then (al_fail rid ALS_NonceReplay
             ''signer key nonce is already bound to a different receipt'', L)
      else if limit < current \<or> limit < reserved \<or> limit \<le> current + reserved
      then ((al_fail rid ALS_UseLimitReached
              ''authority receipt uncommitted use limit reached'')\<lparr>alr_use_count := current\<rparr>, L)
      else al_commit io (Ev_Use rid (signer_id e) (signer_key_id e) (nonce e) (current + 1) now)
        (\<lambda>m. m\<lparr>am_nonces := AList.update nk rid (am_nonces m),
               am_receipt_uses := AList.update rid (current + 1) (am_receipt_uses m)\<rparr>)
        (al_result rid) (al_allowed rid (current + 1)) L)))"

definition al_replay :: "bool \<Rightarrow> authority_ledger \<Rightarrow> bool \<times> authority_ledger" where
  "al_replay open_ok L =
     (case replay authority_cfg authority_handler empty_maps open_ok (al_journal L) of
        (j, m) \<Rightarrow> (j_healthy j, L\<lparr>al_journal := j, al_maps := m\<rparr>))"

text \<open>The constructor: default members, then \<open>replay\<close>.\<close>

definition al_construct :: "string \<Rightarrow> string option \<Rightarrow> bool \<Rightarrow> authority_ledger" where
  "al_construct path file open_ok =
     snd (al_replay open_ok
       \<lparr>al_journal = \<lparr>j_path = path, j_sequence = 0, j_last = [], j_healthy = True, j_errors = [],
          j_file = file\<rparr>, al_maps = empty_maps\<rparr>)"

definition al_inspect :: "authority_ledger \<Rightarrow> authority_ledger_inspection" where
  "al_inspect L =
     \<lparr>ali_healthy = j_healthy (al_journal L), ali_records = j_sequence (al_journal L),
      ali_trusted_keys = length (am_keys (al_maps L)),
      ali_consumed_receipts = length (am_receipt_uses (al_maps L)),
      ali_revoked_receipts = length (am_revoked (al_maps L)),
      ali_delegated_receipts = length (am_parent (al_maps L)),
      ali_errors = j_errors (al_journal L)\<rparr>"

fun ledger_status_to_string :: "authority_ledger_status \<Rightarrow> string" where
  "ledger_status_to_string ALS_Allowed = ''ALLOWED''"
| "ledger_status_to_string ALS_Invalid = ''INVALID''"
| "ledger_status_to_string ALS_Duplicate = ''DUPLICATE''"
| "ledger_status_to_string ALS_NotFound = ''NOT_FOUND''"
| "ledger_status_to_string ALS_SignerUnknown = ''SIGNER_UNKNOWN''"
| "ledger_status_to_string ALS_KeyInactive = ''KEY_INACTIVE''"
| "ledger_status_to_string ALS_ReceiptExpired = ''RECEIPT_EXPIRED''"
| "ledger_status_to_string ALS_ReceiptRevoked = ''RECEIPT_REVOKED''"
| "ledger_status_to_string ALS_NonceReplay = ''NONCE_REPLAY''"
| "ledger_status_to_string ALS_UseLimitReached = ''USE_LIMIT_REACHED''"
| "ledger_status_to_string ALS_DelegationRejected = ''DELEGATION_REJECTED''"
| "ledger_status_to_string ALS_StorageError = ''STORAGE_ERROR''"
| "ledger_status_to_string ALS_Corrupt = ''CORRUPT''"

section \<open>The journal interface\<close>

lemma tab_join_no_NL: "\<forall>f \<in> set fs. NL \<notin> set f \<Longrightarrow> NL \<notin> set (tab_join fs)"
  by (induction fs) (auto simp: tab_join_def)

lemma encode_event_fields:
  "split_tabs (encode_event e) = (case e of
     Ev_Trust s k a f u \<Rightarrow> [''K'', hex_encode s, hex_encode k, hex_encode a, show_u f, show_u u]
   | Ev_Retire s k t \<Rightarrow> [''T'', hex_encode s, hex_encode k, show_u t]
   | Ev_RevokeKey s k t \<Rightarrow> [''R'', hex_encode s, hex_encode k, show_u t]
   | Ev_RevokeReceipt r t \<Rightarrow> [''X'', hex_encode r, show_u t]
   | Ev_Use r s k n i t \<Rightarrow>
       [''U'', hex_encode r, hex_encode s, hex_encode k, hex_encode n, show_u i, show_u t]
   | Ev_Delegate p c s k pn cn i d t \<Rightarrow>
       [''D'', hex_encode p, hex_encode c, hex_encode s, hex_encode k, hex_encode pn, hex_encode cn,
        show_u i, show_u d, show_u t])"
  by (cases e) (simp_all add: split_tabs_join del: append.simps)

interpretation auth: event_journal authority_cfg authority_handler empty_maps "\<lambda>_. True"
  encode_event sem_event
proof unfold_locales
  fix e show "NL \<notin> set (encode_event e)"
    by (cases e) (simp_all add: tab_join_no_NL)
next
  fix e show "2 + jc_extra authority_cfg \<le> length (split_tabs (encode_event e))"
    by (cases e) (simp_all add: encode_event_fields authority_cfg_def del: encode_event.simps)
next
  fix q p e h st
  show "authority_handler (q # p # split_tabs (encode_event e) @ [h]) st = sem_event e st"
    by (cases e) (simp_all add: encode_event_fields authority_handler_def decode_event_def
        del: sem_event.simps encode_event.simps)
qed

end
