(* ===== verification/Authority_Ledger_Calls.thy ===== *)
theory Authority_Ledger_Calls
  imports Authority_Ledger
begin

text \<open>
  One call on an \<open>AuthorityLedger\<close>.  \<open>authorize_ready\<close> and \<open>register_ready\<close> state in one
  condition what the guard chains of \<open>authorize_and_consume\<close> and \<open>register_delegation\<close>
  test.  The theory shows that a call whose condition fails is refused with the ledger
  untouched, that one whose condition holds comes down to a single append, and that the
  maps are then updated exactly as the recorded event is read back by \<open>replay\<close>.
  \<open>authority_op\<close> and \<open>al_call\<close> put the operations of the class under one type.
\<close>

section \<open>What a successful operation has checked\<close>

lemma alr_ok_results [simp]:
  "alr_ok (al_fail rid st msg) \<longleftrightarrow> st = ALS_Allowed"
  "alr_ok ((al_fail rid st msg)\<lparr>alr_use_count := n\<rparr>) \<longleftrightarrow> st = ALS_Allowed"
  "alr_ok (al_allowed rid n)"
  "\<not> alr_ok (al_corrupt rid L)"
  "alr_ok ((al_result rid)\<lparr>alr_status := st, alr_errors := es\<rparr>) \<longleftrightarrow> st = ALS_Allowed"
  by (simp_all add: alr_ok_def al_fail_def al_allowed_def al_corrupt_def)

lemma al_commit_ok:
  assumes "al_commit io ev upd (al_result rid) ok L = (res, L')" "alr_ok res"
  shows "\<exists>j. append_event authority_cfg io (encode_event ev) (al_journal L) = (None, j) \<and>
    L' = L\<lparr>al_journal := j, al_maps := upd (al_maps L)\<rparr> \<and> res = ok"
  using assms by (auto simp: al_commit_def split: prod.splits option.splits)

lemma al_commit_fail:
  assumes "al_commit io ev upd (al_result rid) ok L = (res, L')" "\<not> alr_ok res" "alr_ok ok"
  shows "\<exists>j msg. append_event authority_cfg io (encode_event ev) (al_journal L) = (Some msg, j) \<and>
    L' = L\<lparr>al_journal := j\<rparr>"
  using assms by (auto simp: al_commit_def split: prod.splits option.splits)

text \<open>The event and the map update of a successful \<open>authorize_and_consume\<close>.\<close>

definition use_event :: "u64 \<Rightarrow> authority_receipt \<Rightarrow> authority_maps \<Rightarrow> authority_event" where
  "use_event now r m = Ev_Use (receipt_id r) (signer_id (envelope r)) (signer_key_id (envelope r))
     (nonce (envelope r)) (use_count m (receipt_id r) + 1) now"

definition receipt_nonce_key :: "authority_receipt \<Rightarrow> string" where
  "receipt_nonce_key r =
     nonce_key (signer_id (envelope r)) (signer_key_id (envelope r)) (nonce (envelope r))"

definition receipt_limit :: "authority_receipt \<Rightarrow> u64" where
  "receipt_limit r = ucast (max_uses (envelope r))"

text \<open>The key is trusted for the receipt and active at \<open>now\<close>.\<close>

definition key_active :: "trusted_signer_key \<Rightarrow> authority_receipt \<Rightarrow> u64 \<Rightarrow> bool" where
  "key_active key r now \<longleftrightarrow>
     tk_algorithm key = algorithm r \<and> tk_valid_from key \<le> issued_at_unix_ms (envelope r) \<and>
     (tk_valid_until key = 0 \<or> issued_at_unix_ms (envelope r) < tk_valid_until key) \<and>
     (tk_revoked_at key = 0 \<or> now < tk_revoked_at key)"

definition authorize_ready ::
    "authority_verifier \<Rightarrow> u64 \<Rightarrow> authority_receipt \<Rightarrow> authority_purpose \<Rightarrow> string \<Rightarrow> string \<Rightarrow>
     authority_ledger \<Rightarrow> bool" where
  "authorize_ready v now r p subj scope L \<longleftrightarrow>
     (let m = al_maps L; e = envelope r; rid = receipt_id r in
      j_healthy (al_journal L) \<and> avr_ok (verify_authority_receipt r v p subj) \<and>
      is_sha256 scope \<and> scope_sha256 e = scope \<and> (schema_version e = 2 \<or> schema_version e = 3) \<and>
      (schema_version e = 3 \<and> parent_receipt_id e \<noteq> [] \<longrightarrow>
         map_of (am_parent m) rid = Some (parent_receipt_id e)) \<and>
      (\<exists>key. find_key m (signer_id e) (signer_key_id e) = Some key \<and> key_active key r now) \<and>
      issued_at_unix_ms e \<le> now \<and> now < expires_at_unix_ms e \<and>
      \<not> revoked_at m rid now \<and> ancestor_revoked m rid now = None \<and>
      nonce_free_for m (receipt_nonce_key r) rid \<and>
      use_count m rid \<le> receipt_limit r \<and> delegated_uses m rid \<le> receipt_limit r \<and>
      use_count m rid + delegated_uses m rid < receipt_limit r)"


definition consume :: "u64 \<Rightarrow> io \<Rightarrow> authority_receipt \<Rightarrow> authority_ledger \<Rightarrow>
    authority_ledger_result \<times> authority_ledger" where
  "consume now io r L =
     (let n = use_count (al_maps L) (receipt_id r) + 1 in
      al_commit io (use_event now r (al_maps L))
        (\<lambda>m. m\<lparr>am_nonces := AList.update (receipt_nonce_key r) (receipt_id r) (am_nonces m),
               am_receipt_uses := AList.update (receipt_id r) n (am_receipt_uses m)\<rparr>)
        (al_result (receipt_id r)) (al_allowed (receipt_id r) n) L)"

named_theorems skip_guard \<open>a guard chain whose guards are all false\<close>

lemma skip_if [skip_guard]: "\<not> c \<Longrightarrow> X = Y \<Longrightarrow> (if c then f else X) = Y"
  by simp

lemma skip_Some [skip_guard]: "x = Some k \<Longrightarrow> F k = Y \<Longrightarrow> (case x of None \<Rightarrow> f | Some k \<Rightarrow> F k) = Y"
  by simp

lemma skip_None [skip_guard]: "x = None \<Longrightarrow> X = Y \<Longrightarrow> (case x of None \<Rightarrow> X | Some k \<Rightarrow> f k) = Y"
  by simp

lemma authorize_ready_commits:
  assumes "authorize_ready v now r p subj scope L"
  shows "authorize_and_consume v now io r p subj scope L = consume now io r L"
  using assms
  unfolding authorize_and_consume_def authorize_ready_def key_active_def consume_def use_event_def
    receipt_nonce_key_def receipt_limit_def Let_def
  by (elim exE conjE, intro skip_guard) (simp_all add: not_less not_le, auto)

definition delegate_event :: "u64 \<Rightarrow> authority_receipt \<Rightarrow> authority_receipt \<Rightarrow> authority_maps \<Rightarrow> authority_event" where
  "delegate_event now parent child m =
     Ev_Delegate (receipt_id parent) (receipt_id child) (signer_id (envelope parent))
       (signer_key_id (envelope parent)) (nonce (envelope parent)) (nonce (envelope child))
       (use_count m (receipt_id parent) + 1) (receipt_limit child) now"

text \<open>The child envelope asks for no more than the parent envelope allows, and for less somewhere.\<close>

definition attenuates :: "authority_envelope \<Rightarrow> authority_envelope \<Rightarrow> bool" where
  "attenuates p c \<longleftrightarrow>
     purpose c = purpose p \<and> subject_id c = subject_id p \<and> signer_id c = signer_id p \<and>
     signer_key_id c = signer_key_id p \<and>
     authority_scope_contains (scope_path p) (scope_path c) \<and>
     authority_capabilities_contain (capabilities p) (capabilities c) \<and>
     issued_at_unix_ms p \<le> issued_at_unix_ms c \<and> expires_at_unix_ms c \<le> expires_at_unix_ms p \<and>
     max_delegation_depth c \<le> max_delegation_depth p \<and> delegation_depth c = delegation_depth p + 1 \<and>
     delegation_depth p < max_delegation_depth p \<and> strict_delegation_attenuation p c"

definition register_ready ::
    "authority_verifier \<Rightarrow> u64 \<Rightarrow> authority_receipt \<Rightarrow> authority_receipt \<Rightarrow> authority_ledger \<Rightarrow> bool" where
  "register_ready v now parent child L \<longleftrightarrow>
     (let m = al_maps L; p = envelope parent; c = envelope child;
          used = use_count m (receipt_id parent); reserved = delegated_uses m (receipt_id parent) in
      j_healthy (al_journal L) \<and> schema_version p = 3 \<and> schema_version c = 3 \<and>
      avr_ok (verify_authority_receipt parent v (purpose p) (subject_id p)) \<and>
      avr_ok (verify_authority_receipt child v (purpose c) (subject_id c)) \<and>
      parent_receipt_id c = receipt_id parent \<and> attenuates p c \<and>
      delegation_depth c \<le> max_delegation_depth c \<and> algorithm child = algorithm parent \<and>
      issued_at_unix_ms c < expires_at_unix_ms c \<and>
      \<not> contains (am_parent m) (receipt_id child) \<and> use_count m (receipt_id child) = 0 \<and>
      (parent_receipt_id p \<noteq> [] \<longrightarrow> map_of (am_parent m) (receipt_id parent) = Some (parent_receipt_id p)) \<and>
      (\<exists>key. find_key m (signer_id p) (signer_key_id p) = Some key \<and> key_active key parent now \<and>
         (tk_valid_until key = 0 \<or> issued_at_unix_ms c < tk_valid_until key)) \<and>
      issued_at_unix_ms p \<le> now \<and> issued_at_unix_ms c \<le> now \<and>
      now < expires_at_unix_ms p \<and> now < expires_at_unix_ms c \<and>
      \<not> receipt_revoked m (receipt_id parent) \<and> \<not> receipt_revoked m (receipt_id child) \<and>
      ancestor_revoked m (receipt_id parent) now = None \<and>
      nonce_free_for m (receipt_nonce_key parent) (receipt_id parent) \<and>
      nonce_free_for m (receipt_nonce_key child) (receipt_id child) \<and>
      used \<le> receipt_limit parent \<and> reserved \<le> receipt_limit parent \<and>
      1 + receipt_limit child \<le> receipt_limit parent \<and>
      used + reserved \<le> receipt_limit parent - (1 + receipt_limit child))"

definition reserve ::
    "u64 \<Rightarrow> io \<Rightarrow> authority_receipt \<Rightarrow> authority_receipt \<Rightarrow> authority_ledger \<Rightarrow>
     authority_ledger_result \<times> authority_ledger" where
  "reserve now io parent child L =
     (let m = al_maps L; n = use_count m (receipt_id parent) + 1;
          reserved = delegated_uses m (receipt_id parent) + receipt_limit child in
      al_commit io (delegate_event now parent child m)
        (\<lambda>m. m\<lparr>am_receipt_uses := AList.update (receipt_id parent) n (am_receipt_uses m),
               am_delegated_uses := AList.update (receipt_id parent) reserved (am_delegated_uses m),
               am_nonces := AList.update (receipt_nonce_key child) (receipt_id child)
                 (AList.update (receipt_nonce_key parent) (receipt_id parent) (am_nonces m)),
               am_parent := AList.update (receipt_id child) (receipt_id parent) (am_parent m)\<rparr>)
        (al_result (receipt_id child)) (al_allowed (receipt_id child) n) L)"

lemma register_ready_commits:
  assumes "register_ready v now parent child L"
  shows "register_delegation v now io parent child L = reserve now io parent child L"
  using assms
  unfolding register_delegation_def register_ready_def attenuates_def key_active_def reserve_def
    delegate_event_def receipt_nonce_key_def receipt_limit_def Let_def
  by (elim exE conjE, intro skip_guard) (simp_all add: not_less not_le, auto)

section \<open>Calls\<close>

datatype authority_op =
  Op_Trust io trusted_signer_key
| Op_Retire io string string u64
| Op_Revoke_Key io string string u64
| Op_Revoke_Receipt io string u64
| Op_Register authority_verifier u64 io authority_receipt authority_receipt
| Op_Authorize authority_verifier u64 io authority_receipt authority_purpose string string
| Op_Replay bool

text \<open>One call: does it report success, and the ledger afterwards.\<close>

fun al_call :: "authority_op \<Rightarrow> authority_ledger \<Rightarrow> bool \<times> authority_ledger" where
  "al_call (Op_Trust io key) L = map_prod alr_ok id (trust_key io key L)"
| "al_call (Op_Retire io s k t) L = map_prod alr_ok id (retire_key io s k t L)"
| "al_call (Op_Revoke_Key io s k t) L = map_prod alr_ok id (revoke_key io s k t L)"
| "al_call (Op_Revoke_Receipt io rid t) L = map_prod alr_ok id (revoke_receipt io rid t L)"
| "al_call (Op_Register v now io p c) L = map_prod alr_ok id (register_delegation v now io p c L)"
| "al_call (Op_Authorize v now io r p subj scope) L =
     map_prod alr_ok id (authorize_and_consume v now io r p subj scope L)"
| "al_call (Op_Replay open_ok) L = al_replay open_ok L"

fun op_io :: "authority_op \<Rightarrow> io" where
  "op_io (Op_Trust io key) = io"
| "op_io (Op_Retire io s k t) = io"
| "op_io (Op_Revoke_Key io s k t) = io"
| "op_io (Op_Revoke_Receipt io rid t) = io"
| "op_io (Op_Register v now io p c) = io"
| "op_io (Op_Authorize v now io r p subj scope) = io"
| "op_io (Op_Replay open_ok) = Write_Ok"

text \<open>The event a successful call records.\<close>

fun op_event :: "authority_op \<Rightarrow> authority_maps \<Rightarrow> authority_event option" where
  "op_event (Op_Trust io key) m = Some (Ev_Trust (tk_signer_id key) (tk_key_id key) (tk_algorithm key)
     (tk_valid_from key) (tk_valid_until key))"
| "op_event (Op_Retire io s k t) m = Some (Ev_Retire s k t)"
| "op_event (Op_Revoke_Key io s k t) m = Some (Ev_RevokeKey s k t)"
| "op_event (Op_Revoke_Receipt io rid t) m = Some (Ev_RevokeReceipt rid t)"
| "op_event (Op_Register v now io p c) m = Some (delegate_event now p c m)"
| "op_event (Op_Authorize v now io r p subj scope) m = Some (use_event now r m)"
| "op_event (Op_Replay open_ok) m = None"

text \<open>
  Every mutating call either returns a refusal with the ledger untouched, or appends one
  event and applies to the maps exactly what that event means.
\<close>

definition refused :: "authority_ledger \<Rightarrow> authority_ledger_result \<times> authority_ledger \<Rightarrow> bool" where
  "refused L x \<longleftrightarrow> alr_status (fst x) \<noteq> ALS_Allowed \<and> alr_status (fst x) \<noteq> ALS_StorageError \<and> snd x = L"

definition commits :: "io \<Rightarrow> authority_event \<Rightarrow> authority_ledger \<Rightarrow>
    authority_ledger_result \<times> authority_ledger \<Rightarrow> bool" where
  "commits io ev L x \<longleftrightarrow> (\<exists>upd rid n. x = al_commit io ev upd (al_result rid) (al_allowed rid n) L \<and>
     sem_event ev (al_maps L) = Some (upd (al_maps L)))"

definition answers :: "io \<Rightarrow> authority_event \<Rightarrow> authority_ledger \<Rightarrow>
    authority_ledger_result \<times> authority_ledger \<Rightarrow> bool" where
  "answers io ev L x \<longleftrightarrow> refused L x \<or> commits io ev L x"

lemma refused_results [simp]:
  "st \<noteq> ALS_Allowed \<Longrightarrow> st \<noteq> ALS_StorageError \<Longrightarrow> refused L (al_fail rid st msg, L)"
  "st \<noteq> ALS_Allowed \<Longrightarrow> st \<noteq> ALS_StorageError \<Longrightarrow> refused L ((al_fail rid st msg)\<lparr>alr_use_count := n\<rparr>, L)"
  "st \<noteq> ALS_Allowed \<Longrightarrow> st \<noteq> ALS_StorageError \<Longrightarrow>
     refused L ((al_result rid)\<lparr>alr_status := st, alr_errors := es\<rparr>, L)"
  "refused L (al_corrupt rid L, L)"
  by (simp_all add: refused_def al_fail_def al_corrupt_def)

lemma answers_if:
  "(c \<Longrightarrow> answers io ev L X) \<Longrightarrow> (\<not> c \<Longrightarrow> answers io ev L Y) \<Longrightarrow> answers io ev L (if c then X else Y)"
  by simp

lemma answers_case:
  "(x = None \<Longrightarrow> answers io ev L X) \<Longrightarrow> (\<And>k. x = Some k \<Longrightarrow> answers io ev L (F k)) \<Longrightarrow>
   answers io ev L (case x of None \<Rightarrow> X | Some k \<Rightarrow> F k)"
  by (cases x) simp_all

lemma commits_commit:
  "sem_event ev (al_maps L) = Some (upd (al_maps L)) \<Longrightarrow>
   commits io ev L (al_commit io ev upd (al_result rid) (al_allowed rid n) L)"
  by (auto simp: commits_def)

lemma answers_commit:
  "sem_event ev (al_maps L) = Some (upd (al_maps L)) \<Longrightarrow>
   answers io ev L (al_commit io ev upd (al_result rid) (al_allowed rid n) L)"
  by (auto simp: answers_def commits_def)

lemma answers_refused: "refused L (f, L) \<Longrightarrow> answers io ev L (f, L)"
  by (simp add: answers_def)

lemmas answer_chain = answers_if answers_case answers_commit answers_refused

lemma trust_key_answers:
  "answers io (Ev_Trust (tk_signer_id key) (tk_key_id key) (tk_algorithm key) (tk_valid_from key)
     (tk_valid_until key)) L (trust_key io key L)"
  unfolding trust_key_def Let_def
  by (cases key, hypsubst, unfold trusted_signer_key.select_convs, intro answer_chain)
    (auto simp: Let_def)

lemma retire_key_answers: "answers io (Ev_Retire s k t) L (retire_key io s k t L)"
  unfolding retire_key_def Let_def
  by (intro answer_chain) (auto simp: Let_def)

lemma revoke_key_answers: "answers io (Ev_RevokeKey s k t) L (revoke_key io s k t L)"
  unfolding revoke_key_def Let_def
  by (intro answer_chain) (auto simp: Let_def)

lemma revoke_receipt_answers: "answers io (Ev_RevokeReceipt rid t) L (revoke_receipt io rid t L)"
  unfolding revoke_receipt_def Let_def
  by (intro answer_chain) (auto simp: Let_def)


lemma refused_if: "(c \<Longrightarrow> refused L X) \<Longrightarrow> (\<not> c \<Longrightarrow> refused L Y) \<Longrightarrow> refused L (if c then X else Y)"
  by simp

lemma refused_case:
  "(x = None \<Longrightarrow> refused L X) \<Longrightarrow> (\<And>k. x = Some k \<Longrightarrow> refused L (F k)) \<Longrightarrow>
   refused L (case x of None \<Rightarrow> X | Some k \<Rightarrow> F k)"
  by (cases x) simp_all

lemma not_ready: "\<not> R \<Longrightarrow> R \<Longrightarrow> refused L (al_commit io ev upd r0 ok L)"
  by blast

lemma authorize_refused:
  assumes "\<not> authorize_ready v now r p subj scope L"
  shows "refused L (authorize_and_consume v now io r p subj scope L)"
  unfolding authorize_and_consume_def Let_def
  by (intro refused_if refused_case not_ready [OF assms])
    (simp_all, clarsimp simp: not_less not_le authorize_ready_def key_active_def Let_def receipt_nonce_key_def
      receipt_limit_def)

lemma register_refused:
  assumes "\<not> register_ready v now p c L"
  shows "refused L (register_delegation v now io p c L)"
  unfolding register_delegation_def Let_def
  by (intro refused_if refused_case not_ready [OF assms])
    (simp_all, clarsimp simp: not_less not_le register_ready_def attenuates_def key_active_def Let_def
      receipt_nonce_key_def receipt_limit_def)

lemma receipt_limit_less [simp]: "receipt_limit r < 4294967296"
  by (simp add: receipt_limit_def word_less_nat_alt)

lemma unat_add_bounded:
  assumes "(a :: u64) \<le> n" "b \<le> n" "n < 4294967296"
  shows "unat (a + b) = unat a + unat b"
  using assms by (simp add: word_le_nat_alt word_less_nat_alt unat_word_ariths)

lemma Suc_bounded: "(a :: u64) \<le> n \<Longrightarrow> n < 4294967296 \<Longrightarrow> unat (a + 1) = unat a + 1"
  using unat_add_bounded by (simp add: word_le_nat_alt word_less_nat_alt unat_word_ariths)

lemma Suc_bounded_nonzero: "(a :: u64) \<le> n \<Longrightarrow> n < 4294967296 \<Longrightarrow> a + 1 \<noteq> 0"
  using Suc_bounded [of a n] by (metis add_is_0 one_neq_zero unat_0)

lemma reserve_fits:
  assumes "(a :: u64) \<le> n" "b \<le> n" "n < 4294967296"
  shows "a \<le> (- 1) - b"
proof -
  have "unat (- 1 - b) = unat (- 1 :: u64) - unat b" by (rule unat_sub) simp
  also have "\<dots> = 18446744073709551615 - unat b"
    by (simp add: unsigned_minus_1_eq_mask mask_eq_exp_minus_1)
  finally show ?thesis using assms by (simp add: word_le_nat_alt word_less_nat_alt)
qed

lemma consume_commits:
  assumes "authorize_ready v now r p subj scope L"
  shows "commits io (use_event now r (al_maps L)) L (consume now io r L)"
proof -
  let ?e = "envelope r"
  have ver: "avr_ok (verify_authority_receipt r v p subj)"
    and now: "issued_at_unix_ms ?e \<le> now" and s: "schema_version ?e = 2 \<or> schema_version ?e = 3"
    and lim: "use_count (al_maps L) (receipt_id r) \<le> receipt_limit r"
    and nonce: "nonce_free_for (al_maps L) (receipt_nonce_key r) (receipt_id r)"
    using assms by (simp_all add: authorize_ready_def Let_def)
  have "2 \<le> schema_version ?e" using s by auto
  then have "issued_at_unix_ms ?e \<noteq> 0" using ver by (simp add: verify_ok_iff validated_tokens)
  then have "now \<noteq> 0" using now by auto
  moreover have "use_count (al_maps L) (receipt_id r) + 1 \<noteq> 0"
    using Suc_bounded_nonzero [OF lim] by simp
  ultimately show ?thesis
    using verify_ok_receipt_id [OF ver] nonce
    unfolding consume_def Let_def
    by (intro commits_commit) (simp add: use_event_def receipt_nonce_key_def Let_def)
qed

lemma reserve_commits:
  assumes "register_ready v now p c L"
  shows "commits io (delegate_event now p c (al_maps L)) L (reserve now io p c L)"
proof -
  let ?m = "al_maps L" and ?p = "envelope p" and ?c = "envelope c"
  have vp: "avr_ok (verify_authority_receipt p v (purpose ?p) (subject_id ?p))"
    and now: "issued_at_unix_ms ?p \<le> now" and s: "schema_version ?p = 3" "schema_version ?c = 3"
    and lim: "use_count ?m (receipt_id p) \<le> receipt_limit p" "delegated_uses ?m (receipt_id p) \<le> receipt_limit p"
      "1 + receipt_limit c \<le> receipt_limit p"
    and nonces: "nonce_free_for ?m (receipt_nonce_key p) (receipt_id p)"
      "nonce_free_for ?m (receipt_nonce_key c) (receipt_id c)"
    and new: "\<not> contains (am_parent ?m) (receipt_id c)"
    and key: "signer_id ?c = signer_id ?p" "signer_key_id ?c = signer_key_id ?p"
    using assms by (simp_all add: register_ready_def attenuates_def Let_def)
  have vc: "avr_ok (verify_authority_receipt c v (purpose ?c) (subject_id ?c))"
    using assms unfolding register_ready_def Let_def by blast
  have "issued_at_unix_ms ?p \<noteq> 0" using vp s by (simp add: verify_ok_iff validated_tokens)
  then have "now \<noteq> 0" using now by auto
  moreover have "use_count ?m (receipt_id p) + 1 \<noteq> 0"
    using Suc_bounded_nonzero [OF lim(1)] by simp
  moreover have "max_uses ?c \<noteq> 0" using vc s by (simp add: verify_ok_iff validated_tokens)
  then have "receipt_limit c \<noteq> 0" by (simp add: receipt_limit_def unsigned_ucast_eq flip: unat_0_iff)
  moreover have "delegated_uses ?m (receipt_id p) \<le> (- 1) - receipt_limit c"
  proof (rule reserve_fits [OF _ _ receipt_limit_less])
    show "delegated_uses ?m (receipt_id p) \<le> receipt_limit p" by (rule lim)
    show "receipt_limit c \<le> receipt_limit p"
      using lim(3) Suc_bounded [of "receipt_limit c" "receipt_limit c"]
      by (simp add: word_le_nat_alt add.commute)
  qed
  ultimately show ?thesis
    using verify_ok_receipt_id [OF vp] verify_ok_receipt_id [OF vc] nonces new key
    unfolding reserve_def Let_def
    by (intro commits_commit) (simp add: delegate_event_def receipt_nonce_key_def Let_def)
qed


section \<open>Every call is a refusal, a recorded event or a failed append\<close>

lemma authorize_answers:
  "answers io (use_event now r (al_maps L)) L (authorize_and_consume v now io r p subj scope L)"
  using authorize_refused authorize_ready_commits consume_commits
  by (metis answers_def)

lemma register_answers:
  "answers io (delegate_event now p c (al_maps L)) L (register_delegation v now io p c L)"
  using register_refused register_ready_commits reserve_commits
  by (metis answers_def)

lemma answers_cases:
  assumes "answers io ev L (res, L')"
  shows "\<not> alr_ok res \<and> L' = L
    \<or> (\<exists>j m. append_event authority_cfg io (encode_event ev) (al_journal L) = (None, j) \<and> alr_ok res \<and>
        sem_event ev (al_maps L) = Some m \<and> L' = L\<lparr>al_journal := j, al_maps := m\<rparr>)
    \<or> (\<exists>j msg. append_event authority_cfg io (encode_event ev) (al_journal L) = (Some msg, j) \<and>
        \<not> alr_ok res \<and> L' = L\<lparr>al_journal := j\<rparr>)"
proof (cases "refused L (res, L')")
  case True
  then show ?thesis by (simp add: refused_def alr_ok_def)
next
  case False
  with assms obtain upd rid n where
    eq: "(res, L') = al_commit io ev upd (al_result rid) (al_allowed rid n) L" and
    sem: "sem_event ev (al_maps L) = Some (upd (al_maps L))"
    by (auto simp: answers_def commits_def)
  show ?thesis
    using eq sem by (auto simp: al_commit_def alr_ok_def al_allowed_def split: prod.splits option.splits)
qed

lemma answers_call:
  "answers io ev L x \<Longrightarrow> map_prod alr_ok id x = (ok, L') \<Longrightarrow> \<exists>res. answers io ev L (res, L') \<and> ok = alr_ok res"
  by (cases x) auto

lemma al_call_answers:
  assumes "al_call op L = (ok, L')" "op_event op (al_maps L) = Some ev"
  shows "\<exists>res. answers (op_io op) ev L (res, L') \<and> ok = alr_ok res"
  using assms
  by (cases op) (auto intro: answers_call trust_key_answers retire_key_answers revoke_key_answers
      revoke_receipt_answers register_answers authorize_answers)

lemma al_call_cases:
  assumes "al_call op L = (ok, L')" "op_event op (al_maps L) = Some ev"
  obtains (refused) "\<not> ok" "L' = L"
  | (recorded) j m where "append_event authority_cfg (op_io op) (encode_event ev) (al_journal L) = (None, j)"
      "ok" "sem_event ev (al_maps L) = Some m" "L' = L\<lparr>al_journal := j, al_maps := m\<rparr>"
  | (storage) j msg where
      "append_event authority_cfg (op_io op) (encode_event ev) (al_journal L) = (Some msg, j)"
      "\<not> ok" "L' = L\<lparr>al_journal := j\<rparr>"
proof -
  obtain res where "answers (op_io op) ev L (res, L')" "ok = alr_ok res"
    using al_call_answers [OF assms] by blast
  with answers_cases [OF this(1)] show thesis using that by blast
qed

end
