(* ===== verification/Authority_Ledger_Runs.thy ===== *)
theory Authority_Ledger_Runs
  imports Authority_Ledger_Calls
begin

text \<open>
  Histories of an \<open>AuthorityLedger\<close>.

  \<open>al_run\<close> is any sequence of calls on a ledger constructed over an absent journal file, each
  call at its own clock reading and with its own file system outcome (every outcome but a
  torn write, see \<open>clean_io\<close>).  A run carries the events its successful calls recorded.
  \<open>al_run_inv\<close> says that the file holds those events and the memory holds what they mean, so
  that questions about histories become questions about lists of events; \<open>run_event\<close> gives
  back, for each event, the call that recorded it and the ledger it was made on.
\<close>

section \<open>Runs\<close>

definition recorded_events :: "authority_op \<Rightarrow> authority_maps \<Rightarrow> authority_event list" where
  "recorded_events op m = (case op_event op m of None \<Rightarrow> [] | Some e \<Rightarrow> [e])"

inductive al_run :: "string \<Rightarrow> authority_op list \<Rightarrow> authority_event list \<Rightarrow> authority_ledger \<Rightarrow> bool"
  for path :: string where
  run_start: "path \<noteq> [] \<Longrightarrow> al_run path [] [] (al_construct path None True)"
| run_ok: "al_run path ops es L \<Longrightarrow> clean_io (op_io op) \<Longrightarrow> al_call op L = (True, L') \<Longrightarrow>
     al_run path (ops @ [op]) (es @ recorded_events op (al_maps L)) L'"
| run_failed: "al_run path ops es L \<Longrightarrow> clean_io (op_io op) \<Longrightarrow> al_call op L = (False, L') \<Longrightarrow>
     al_run path (ops @ [op]) es L'"

text \<open>The simulation relation between a ledger and the list of its events.\<close>

definition ledger_inv :: "authority_event list \<Rightarrow> authority_ledger \<Rightarrow> bool" where
  "ledger_inv es L \<longleftrightarrow> journal_inv encode_event sem_event empty_maps es (al_journal L) (al_maps L)"

lemma ledger_inv_healthy:
  "ledger_inv es L \<Longrightarrow> j_healthy (al_journal L) \<Longrightarrow> sem_list sem_event es empty_maps = Some (al_maps L)"
  by (simp add: ledger_inv_def journal_inv_healthy)

lemma ledger_inv_replay:
  assumes "ledger_inv es L" "al_replay open_ok L = (ok, L')"
  shows "ledger_inv es L'" "open_ok \<Longrightarrow> ok" "ok = j_healthy (al_journal L')"
proof -
  obtain j st where r: "replay authority_cfg authority_handler empty_maps open_ok (al_journal L) = (j, st)"
    by fastforce
  then have L': "L' = L\<lparr>al_journal := j, al_maps := st\<rparr>" "ok = j_healthy j"
    using assms(2) by (simp_all add: al_replay_def)
  have wf: "list_all (\<lambda>_. True) es" by (simp add: list_all_iff)
  show "ledger_inv es L'" "open_ok \<Longrightarrow> ok" "ok = j_healthy (al_journal L')"
    using auth.inv_replay [OF assms(1) [unfolded ledger_inv_def] wf r] by (simp_all add: L' ledger_inv_def)
qed

lemma ledger_inv_start: "path \<noteq> [] \<Longrightarrow> ledger_inv [] (al_construct path None True)"
  using auth.inv_fresh [of "\<lparr>j_path = path, j_sequence = 0, j_last = [], j_healthy = True, j_errors = [],
      j_file = None\<rparr>" True]
  by (simp add: al_construct_def al_replay_def ledger_inv_def split: prod.splits)

lemma al_inv_call:
  assumes "ledger_inv es L" "clean_io (op_io op)" "al_call op L = (ok, L')"
  shows "ledger_inv (if ok then es @ recorded_events op (al_maps L) else es) L'"
proof (cases "op_event op (al_maps L)")
  case None
  then obtain open_ok where "op = Op_Replay open_ok" by (cases op) auto
  then show ?thesis using ledger_inv_replay(1) [OF assms(1)] assms(3) by (simp add: recorded_events_def)
next
  case (Some ev)
  show ?thesis
  proof (cases rule: al_call_cases [OF assms(3) Some])
    case 1
    then show ?thesis using assms(1) by simp
  next
    case (2 j m)
    then show ?thesis using auth.inv_record assms(1) Some by (simp add: recorded_events_def ledger_inv_def)
  next
    case (3 j msg)
    then show ?thesis using auth.inv_storage [OF _ _ assms(2)] assms(1) by (simp add: ledger_inv_def)
  qed
qed

lemma al_run_inv: "al_run path ops es L \<Longrightarrow> ledger_inv es L"
  by (induction rule: al_run.induct) (auto dest: ledger_inv_start al_inv_call)

text \<open>A successful recording call finds the ledger healthy.\<close>

lemma recorded_healthy:
  assumes "al_call op L = (True, L')" "op_event op (al_maps L) = Some ev"
  shows "j_healthy (al_journal L) \<and> sem_event ev (al_maps L) = Some (al_maps L')"
  using assms by (auto elim!: al_call_cases dest: append_None_journal)

text \<open>Every event of a run was recorded by a successful call of that run.\<close>

lemma run_event:
  assumes "al_run path ops es L" "es = pre @ e # post"
  shows "\<exists>ops0 op L0 L1. al_run path ops0 pre L0 \<and> op \<in> set ops \<and> op_event op (al_maps L0) = Some e \<and>
    al_call op L0 = (True, L1) \<and> sem_list sem_event pre empty_maps = Some (al_maps L0)"
  using assms
proof (induction arbitrary: post rule: al_run.induct)
  case run_start
  then show ?case by simp
next
  case (run_ok ops es L op L')
  show ?case
  proof (cases post rule: rev_cases)
    case Nil
    show ?thesis
    proof (cases "op_event op (al_maps L)")
      case None
      with run_ok show ?thesis by (auto simp: recorded_events_def)
    next
      case (Some ev)
      with run_ok.prems Nil have "es = pre" "ev = e" by (auto simp: recorded_events_def)
      with run_ok Some show ?thesis
        using recorded_healthy ledger_inv_healthy al_run_inv by (metis in_set_conv_decomp)
    qed
  next
    case (snoc post' x)
    show ?thesis
    proof (cases "op_event op (al_maps L)")
      case None
      with run_ok show ?thesis by (auto simp: recorded_events_def)
    next
      case (Some ev)
      with run_ok.prems snoc have "es = pre @ e # post'" by (auto simp: recorded_events_def)
      with run_ok.IH show ?thesis by fastforce
    qed
  qed
next
  case (run_failed ops es L op L')
  then show ?case by fastforce
qed

end
