(* ===== verification/Authority_Ledger_Samples.thy ===== *)
theory Authority_Ledger_Samples
  imports Authority_Ledger_Runs
begin

text \<open>
  Concrete histories: a trusted key, a schema 2 receipt that is consumed, and a schema 3
  receipt that delegates to a child and is then revoked.  The properties of the ledger are
  instantiated on them.
\<close>

definition sample_key :: trusted_signer_key where
  "sample_key = \<lparr>tk_signer_id = ''root'', tk_key_id = ''key1'', tk_algorithm = ''test'',
     tk_valid_from = 1, tk_valid_until = 0, tk_revoked_at = 0\<rparr>"

definition parent_envelope :: authority_envelope where
  "parent_envelope = sample_envelope\<lparr>schema_version := 3, purpose := DestructiveExecution, max_uses := 5,
     nonce := ''n3'', max_delegation_depth := 2, scope_path := ''/repo'', capabilities := [''read'', ''write'']\<rparr>"

definition parent_receipt :: authority_receipt where
  "parent_receipt = sample_receipt parent_envelope"

definition child_envelope :: authority_envelope where
  "child_envelope = parent_envelope\<lparr>max_uses := 2, nonce := ''n4'', parent_receipt_id := receipt_id parent_receipt,
     delegation_depth := 1, scope_path := ''/repo/src'', scope_sha256 := sha256 ''/repo/src'',
     capabilities := [''read'']\<rparr>"

definition child_receipt :: authority_receipt where
  "child_receipt = sample_receipt child_envelope"

abbreviation used_receipt :: authority_receipt where
  "used_receipt \<equiv> sample_receipt sample_envelope"

lemma parent_receipt_id_valid: "valid_receipt_id (receipt_id (sample_receipt e))"
  by (simp add: sample_receipt_def)

lemma sorted_capabilities [simp]: "sort [''read'', ''write''] = [''read'', ''write'']"
  by (simp add: less_char_def)

lemma parent_envelope_valid: "validate_envelope parent_envelope = []"
  by (simp add: validate_envelope_def parent_envelope_def sample_envelope_def valid_token_def token_char_def
      canonical_capabilities_def del: sort_key_simps)

lemma child_envelope_valid: "validate_envelope child_envelope = []"
  by (simp add: validate_envelope_def child_envelope_def parent_envelope_def sample_envelope_def
      valid_token_def token_char_def canonical_capabilities_def parent_receipt_def parent_receipt_id_valid)

lemma envelope_sample [simp]: "envelope (sample_receipt e) = e" "algorithm (sample_receipt e) = ''test''"
  by (simp_all add: sample_receipt_def)

lemma verify_samples:
  "verify_authority_receipt used_receipt sample_verifier CapabilityGrant ''subject'' = \<lparr>avr_status = ARS_Valid, avr_errors = []\<rparr>"
  "verify_authority_receipt parent_receipt sample_verifier DestructiveExecution ''subject'' = \<lparr>avr_status = ARS_Valid, avr_errors = []\<rparr>"
  "verify_authority_receipt child_receipt sample_verifier DestructiveExecution ''subject'' = \<lparr>avr_status = ARS_Valid, avr_errors = []\<rparr>"
  using verify_sample [OF sample_envelope_valid] verify_sample [OF parent_envelope_valid]
    verify_sample [OF child_envelope_valid]
  by (simp_all add: sample_envelope_def parent_envelope_def child_envelope_def parent_receipt_def child_receipt_def)

definition trusted_maps :: authority_maps where
  "trusted_maps = empty_maps\<lparr>am_keys := [(key_map_id ''root'' ''key1'', sample_key)]\<rparr>"

lemma sample_envelope_fields [simp]:
  "schema_version sample_envelope = 2"
  "purpose sample_envelope = CapabilityGrant"
  "subject_id sample_envelope = ''subject''"
  "signer_id sample_envelope = ''root''"
  "signer_key_id sample_envelope = ''key1''"
  "issued_at_unix_ms sample_envelope = 1000"
  "expires_at_unix_ms sample_envelope = 2000"
  "max_uses sample_envelope = 3"
  "nonce sample_envelope = ''n1''"
  "scope_sha256 sample_envelope = sha256 ''/repo''"
  "parent_receipt_id sample_envelope = []"
  "delegation_depth sample_envelope = 0"
  "max_delegation_depth sample_envelope = 0"
  "scope_path sample_envelope = []"
  "capabilities sample_envelope = []"
  by (simp_all add: sample_envelope_def)

lemma parent_envelope_fields [simp]:
  "schema_version parent_envelope = 3"
  "purpose parent_envelope = DestructiveExecution"
  "subject_id parent_envelope = ''subject''"
  "signer_id parent_envelope = ''root''"
  "signer_key_id parent_envelope = ''key1''"
  "issued_at_unix_ms parent_envelope = 1000"
  "expires_at_unix_ms parent_envelope = 2000"
  "max_uses parent_envelope = 5"
  "nonce parent_envelope = ''n3''"
  "scope_sha256 parent_envelope = sha256 ''/repo''"
  "parent_receipt_id parent_envelope = []"
  "delegation_depth parent_envelope = 0"
  "max_delegation_depth parent_envelope = 2"
  "scope_path parent_envelope = ''/repo''"
  "capabilities parent_envelope = [''read'', ''write'']"
  by (simp_all add: parent_envelope_def sample_envelope_def)

lemma child_envelope_fields [simp]:
  "schema_version child_envelope = 3"
  "purpose child_envelope = DestructiveExecution"
  "subject_id child_envelope = ''subject''"
  "signer_id child_envelope = ''root''"
  "signer_key_id child_envelope = ''key1''"
  "issued_at_unix_ms child_envelope = 1000"
  "expires_at_unix_ms child_envelope = 2000"
  "max_uses child_envelope = 2"
  "nonce child_envelope = ''n4''"
  "scope_sha256 child_envelope = sha256 ''/repo/src''"
  "parent_receipt_id child_envelope = receipt_id parent_receipt"
  "delegation_depth child_envelope = 1"
  "max_delegation_depth child_envelope = 2"
  "scope_path child_envelope = ''/repo/src''"
  "capabilities child_envelope = [''read'']"
  by (simp_all add: child_envelope_def parent_envelope_def sample_envelope_def)

lemma sample_key_fields [simp]:
  "tk_signer_id sample_key = ''root''" "tk_key_id sample_key = ''key1''" "tk_algorithm sample_key = ''test''"
  "tk_valid_from sample_key = 1" "tk_valid_until sample_key = 0" "tk_revoked_at sample_key = 0"
  by (simp_all add: sample_key_def)

lemma trusted_maps_fields [simp]:
  "am_keys trusted_maps = [(key_map_id ''root'' ''key1'', sample_key)]"
  "am_receipt_uses trusted_maps = []" "am_delegated_uses trusted_maps = []" "am_revoked trusted_maps = []"
  "am_nonces trusted_maps = []" "am_parent trusted_maps = []"
  by (simp_all add: trusted_maps_def empty_maps_def)

lemma sample_receipts [simp]:
  "envelope parent_receipt = parent_envelope" "algorithm parent_receipt = ''test''"
  "envelope child_receipt = child_envelope" "algorithm child_receipt = ''test''"
  by (simp_all add: parent_receipt_def child_receipt_def)

section \<open>Steps that succeed\<close>

lemma commit_writes:
  assumes "j_healthy (al_journal L)" "j_path (al_journal L) \<noteq> []"
  shows "\<exists>j. al_commit Write_Ok ev upd r ok L = (ok, L\<lparr>al_journal := j, al_maps := upd (al_maps L)\<rparr>) \<and>
    j_healthy j \<and> j_path j = j_path (al_journal L)"
proof -
  obtain j where "append_event authority_cfg Write_Ok (encode_event ev) (al_journal L) = (None, j)"
    using assms by (simp add: append_event_def Let_def)
  moreover from append_None_journal [OF this] have "j_healthy j" "j_path j = j_path (al_journal L)" by simp_all
  ultimately show ?thesis by (auto simp: al_commit_def)
qed

text \<open>\<open>live path ops es L m\<close>: the run is at a healthy ledger with maps \<open>m\<close>.\<close>

definition live :: "authority_op list \<Rightarrow> authority_event list \<Rightarrow> authority_maps \<Rightarrow> authority_ledger \<Rightarrow> bool" where
  "live ops es m L \<longleftrightarrow> al_run ''journal'' ops es L \<and> al_maps L = m \<and> j_healthy (al_journal L) \<and>
     j_path (al_journal L) = ''journal''"

lemma live_start: "live [] [] empty_maps (al_construct ''journal'' None True)"
  unfolding live_def
  by (intro conjI run_start) (simp_all add: al_construct_def al_replay_def replay_def Let_def)

lemma live_step:
  assumes "live ops es m L" "op_io op = Write_Ok" "op_event op m = Some ev"
    "al_call op L = map_prod alr_ok id (al_commit Write_Ok ev upd (al_result rid) (al_allowed rid n) L)"
  shows "\<exists>L'. al_call op L = (True, L') \<and> live (ops @ [op]) (es @ [ev]) (upd m) L'"
proof -
  obtain j where j: "al_commit Write_Ok ev upd (al_result rid) (al_allowed rid n) L =
      (al_allowed rid n, L\<lparr>al_journal := j, al_maps := upd (al_maps L)\<rparr>)" "j_healthy j" "j_path j = ''journal''"
    using commit_writes [of L ev upd "al_result rid" "al_allowed rid n"] assms(1) by (auto simp: live_def)
  have call: "al_call op L = (True, L\<lparr>al_journal := j, al_maps := upd (al_maps L)\<rparr>)"
    using assms(4) j(1) by simp
  have "al_run ''journal'' ops es L" "clean_io (op_io op)" using assms(1,2) by (simp_all add: live_def clean_io_def)
  from run_ok [OF this call] assms(1,3) j show ?thesis
    by (intro exI [of _ "L\<lparr>al_journal := j, al_maps := upd (al_maps L)\<rparr>"])
      (simp add: live_def call recorded_events_def)
qed

section \<open>The histories\<close>

abbreviation op_trust :: authority_op where "op_trust \<equiv> Op_Trust Write_Ok sample_key"
abbreviation op_use :: authority_op where
  "op_use \<equiv> Op_Authorize sample_verifier 1500 Write_Ok used_receipt CapabilityGrant ''subject'' (sha256 ''/repo'')"
abbreviation op_delegate :: authority_op where
  "op_delegate \<equiv> Op_Register sample_verifier 1500 Write_Ok parent_receipt child_receipt"
abbreviation op_revoke :: authority_op where
  "op_revoke \<equiv> Op_Revoke_Receipt Write_Ok (receipt_id parent_receipt) 1600"
abbreviation op_revoke_key :: authority_op where
  "op_revoke_key \<equiv> Op_Revoke_Key Write_Ok ''root'' ''key1'' 1600"

definition ev_trust :: authority_event where "ev_trust = Ev_Trust ''root'' ''key1'' ''test'' 1 0"
definition ev_use :: authority_event where
  "ev_use = Ev_Use (receipt_id used_receipt) ''root'' ''key1'' ''n1'' 1 1500"
definition ev_delegate :: authority_event where
  "ev_delegate = Ev_Delegate (receipt_id parent_receipt) (receipt_id child_receipt) ''root'' ''key1'' ''n3'' ''n4'' 1 2 1500"
definition ev_revoke :: authority_event where
  "ev_revoke = Ev_RevokeReceipt (receipt_id parent_receipt) 1600"
definition ev_revoke_key :: authority_event where
  "ev_revoke_key = Ev_RevokeKey ''root'' ''key1'' 1600"

lemma sample_trusted: "\<exists>L. live [op_trust] [ev_trust] trusted_maps L"
proof -
  have "\<exists>L'. al_call op_trust (al_construct ''journal'' None True) = (True, L') \<and>
      live ([] @ [op_trust]) ([] @ [ev_trust])
        ((\<lambda>m. m\<lparr>am_keys := AList.update (key_map_id ''root'' ''key1'') sample_key (am_keys m)\<rparr>) empty_maps) L'"
    using live_start
    by (rule live_step [where rid = "[]" and n = 0])
      (simp_all add: ev_trust_def sample_key_def trust_key_def valid_token_def token_char_def
        al_construct_def al_replay_def replay_def Let_def empty_maps_def)
  then show ?thesis by (auto simp: trusted_maps_def empty_maps_def)
qed


lemma find_sample_key: "find_key trusted_maps ''root'' ''key1'' = Some sample_key"
  by (simp add: find_key_def trusted_maps_def)

lemma root_not_revoked: "map_of (am_parent m) rid = None \<Longrightarrow> ancestor_revoked m rid now = None"
  by (simp add: ancestor_revoked_def eval_nat_numeral)

lemma sample_used:
  "\<exists>L m L1. live [op_trust] [ev_trust] trusted_maps L1 \<and> al_call op_use L1 = (True, L) \<and>
     live [op_trust, op_use] [ev_trust, ev_use] m L"
proof -
  obtain L where L: "live [op_trust] [ev_trust] trusted_maps L" using sample_trusted by blast
  then have "authorize_ready sample_verifier 1500 used_receipt CapabilityGrant ''subject'' (sha256 ''/repo'') L"
    by (simp add: authorize_ready_def live_def Let_def verify_samples avr_ok_def find_sample_key key_active_def
        revoked_at_def root_not_revoked nonce_free_for_def use_count_def delegated_uses_def receipt_limit_def)
  then have "al_call op_use L = map_prod alr_ok id (consume 1500 Write_Ok used_receipt L)"
    by (simp add: authorize_ready_commits)
  then have "\<exists>L'. al_call op_use L = (True, L') \<and> live ([op_trust] @ [op_use]) ([ev_trust] @ [ev_use]) 
      ((\<lambda>m. m\<lparr>am_nonces := AList.update (receipt_nonce_key used_receipt) (receipt_id used_receipt) (am_nonces m),
               am_receipt_uses := AList.update (receipt_id used_receipt) (use_count (al_maps L) (receipt_id used_receipt) + 1)
                 (am_receipt_uses m)\<rparr>) trusted_maps) L'"
    using L
    by (intro live_step)
      (simp_all add: consume_def Let_def use_event_def ev_use_def live_def use_count_def)
  with L show ?thesis by auto
qed

text \<open>The delegation, with any valid nonce for the child.\<close>

definition child_with :: "string \<Rightarrow> authority_receipt" where
  "child_with n = sample_receipt (child_envelope\<lparr>nonce := n\<rparr>)"

abbreviation op_delegate_with :: "string \<Rightarrow> authority_op" where
  "op_delegate_with n \<equiv> Op_Register sample_verifier 1500 Write_Ok parent_receipt (child_with n)"

definition ev_delegate_with :: "string \<Rightarrow> authority_event" where
  "ev_delegate_with n = Ev_Delegate (receipt_id parent_receipt) (receipt_id (child_with n)) ''root'' ''key1'' ''n3'' n 1 2 1500"

lemma child_with_n4: "child_with ''n4'' = child_receipt" "ev_delegate_with ''n4'' = ev_delegate"
proof -
  have same: "child_envelope\<lparr>nonce := ''n4''\<rparr> = child_envelope" by (rule authority_envelope.equality) simp_all
  show "child_with ''n4'' = child_receipt" "ev_delegate_with ''n4'' = ev_delegate"
    unfolding child_with_def child_receipt_def ev_delegate_with_def ev_delegate_def same by (rule refl)+
qed

lemma verify_child_with:
  assumes "valid_token n 128"
  shows "verify_authority_receipt (child_with n) sample_verifier DestructiveExecution ''subject'' =
    \<lparr>avr_status = ARS_Valid, avr_errors = []\<rparr>"
proof -
  have "validate_envelope (child_envelope\<lparr>nonce := n\<rparr>) = []"
    using child_envelope_valid assms by (simp add: validate_envelope_def)
  from verify_sample [OF this] show ?thesis by (simp add: child_with_def)
qed

lemma sample_delegated_with:
  assumes n: "valid_token n 128"
  shows "\<exists>L m L1. live [op_trust] [ev_trust] trusted_maps L1 \<and> al_call (op_delegate_with n) L1 = (True, L) \<and>
     live [op_trust, op_delegate_with n] [ev_trust, ev_delegate_with n] m L \<and> am_revoked m = [] \<and>
     am_keys m = am_keys trusted_maps"
proof -
  let ?child = "child_with n"
  have envelope: "envelope ?child = child_envelope\<lparr>nonce := n\<rparr>" "algorithm ?child = ''test''"
    by (simp_all add: child_with_def)
  obtain L where L: "live [op_trust] [ev_trust] trusted_maps L" using sample_trusted by blast
  have "attenuates parent_envelope (child_envelope\<lparr>nonce := n\<rparr>)"
    by (simp add: attenuates_def authority_scope_contains_def authority_capabilities_contain_def
        canonical_capabilities_def strict_delegation_attenuation_def)
  with L have "register_ready sample_verifier 1500 parent_receipt ?child L"
    by (simp add: register_ready_def live_def Let_def verify_samples verify_child_with [OF n] envelope avr_ok_def
        find_sample_key key_active_def receipt_revoked_def root_not_revoked
        nonce_free_for_def use_count_def delegated_uses_def receipt_limit_def)
  then have call: "al_call (op_delegate_with n) L = map_prod alr_ok id (reserve 1500 Write_Ok parent_receipt ?child L)"
    by (simp add: register_ready_commits)
  let ?upd = "\<lambda>m. m
    \<lparr>am_receipt_uses := AList.update (receipt_id parent_receipt) (use_count (al_maps L) (receipt_id parent_receipt) + 1)
       (am_receipt_uses m),
     am_delegated_uses := AList.update (receipt_id parent_receipt)
       (delegated_uses (al_maps L) (receipt_id parent_receipt) + receipt_limit ?child) (am_delegated_uses m),
     am_nonces := AList.update (receipt_nonce_key ?child) (receipt_id ?child)
       (AList.update (receipt_nonce_key parent_receipt) (receipt_id parent_receipt) (am_nonces m)),
     am_parent := AList.update (receipt_id ?child) (receipt_id parent_receipt) (am_parent m)\<rparr>"
  have "\<exists>L'. al_call (op_delegate_with n) L = (True, L') \<and>
      live ([op_trust] @ [op_delegate_with n]) ([ev_trust] @ [ev_delegate_with n]) (?upd trusted_maps) L'"
    using L call
    by (intro live_step)
      (simp_all add: reserve_def Let_def delegate_event_def ev_delegate_with_def envelope live_def use_count_def
        receipt_limit_def)
  then obtain L' where "al_call (op_delegate_with n) L = (True, L')"
    "live ([op_trust] @ [op_delegate_with n]) ([ev_trust] @ [ev_delegate_with n]) (?upd trusted_maps) L'"
    by blast
  with L show ?thesis by (intro exI [of _ L'] exI [of _ "?upd trusted_maps"] exI [of _ L]) simp
qed

lemma sample_delegated:
  "\<exists>L m L1. live [op_trust] [ev_trust] trusted_maps L1 \<and> al_call op_delegate L1 = (True, L) \<and>
     live [op_trust, op_delegate] [ev_trust, ev_delegate] m L \<and> am_revoked m = [] \<and>
     am_keys m = am_keys trusted_maps"
  using sample_delegated_with [of "''n4''"] unfolding child_with_n4
  by (simp add: valid_token_def token_char_def)

lemma sample_revoked:
  "\<exists>L m. live [op_trust, op_delegate, op_revoke] [ev_trust, ev_delegate, ev_revoke] m L"
proof -
  obtain L m where L: "live [op_trust, op_delegate] [ev_trust, ev_delegate] m L" "am_revoked m = []"
    using sample_delegated by blast
  have "\<exists>L'. al_call op_revoke L = (True, L') \<and>
      live ([op_trust, op_delegate] @ [op_revoke]) ([ev_trust, ev_delegate] @ [ev_revoke])
        ((\<lambda>m. m\<lparr>am_revoked := AList.update (receipt_id parent_receipt) 1600 (am_revoked m)\<rparr>) m) L'"
    using L
    by (intro live_step)
      (simp_all add: revoke_receipt_def ev_revoke_def live_def parent_receipt_def parent_receipt_id_valid)
  then show ?thesis by auto
qed

lemma sample_key_revoked:
  "\<exists>L m. live [op_trust, op_delegate, op_revoke_key] [ev_trust, ev_delegate, ev_revoke_key] m L"
proof -
  obtain L m where L: "live [op_trust, op_delegate] [ev_trust, ev_delegate] m L" "am_keys m = am_keys trusted_maps"
    using sample_delegated by blast
  have "\<exists>L'. al_call op_revoke_key L = (True, L') \<and>
      live ([op_trust, op_delegate] @ [op_revoke_key]) ([ev_trust, ev_delegate] @ [ev_revoke_key])
        ((\<lambda>m. m\<lparr>am_keys := AList.update (key_map_id ''root'' ''key1'') (sample_key\<lparr>tk_revoked_at := 1600\<rparr>)
           (am_keys m)\<rparr>) m) L'"
    using L
    by (intro live_step)
      (simp_all add: revoke_key_def ev_revoke_key_def live_def Let_def)
  then show ?thesis by auto
qed

lemma live_run: "live ops es m L \<Longrightarrow> al_run ''journal'' ops es L"
  by (simp add: live_def)

end
