(* ===== verification/Line_Journal.thy ===== *)
theory Line_Journal
  imports Journal Authority_Receipt
begin

text \<open>
  Journals that are read line by line into a state and written by appending lines, when every
  accepted line has a fixed number of fields and ends with a SHA-256: the policy registry and
  the session journal.  What is shown here holds for any such reader: a file that is accepted
  before and after bytes were added to it continues the earlier scan, and a torn write leaves
  nothing or a whole record.
\<close>

section \<open>Reading\<close>

text \<open>Whether the path can be looked at and the file opened.\<close>

datatype read_io = Read_Ok | Read_Inspect_Fail | Read_Open_Fail

definition strip_cr :: "string \<Rightarrow> string" where
  "strip_cr line = (if line \<noteq> [] \<and> last line = CHR 0x0D then butlast line else line)"

definition file_bytes :: "string option \<Rightarrow> string" where
  "file_bytes file = (case file of None \<Rightarrow> [] | Some c \<Rightarrow> c)"

definition file_lines :: "string option \<Rightarrow> string list" where
  "file_lines file = (case file of None \<Rightarrow> [] | Some c \<Rightarrow> getlines c)"

definition terminated :: "string option \<Rightarrow> bool" where
  "terminated file \<longleftrightarrow> file_bytes file = [] \<or> last (file_bytes file) = NL"

lemma file_append_bytes: "file_append file x = Some (file_bytes file @ x)"
  by (simp add: file_append_def file_bytes_def)

lemma file_lines_bytes: "file_lines file = getlines (file_bytes file)"
  by (simp add: file_lines_def file_bytes_def split: option.split)

lemma file_bytes_append [simp]: "file_bytes (file_append file x) = file_bytes file @ x"
  by (simp add: file_append_def file_bytes_def)

section \<open>Empty fields\<close>

definition dash :: "string \<Rightarrow> string" where
  "dash s = (if s = [] then ''-'' else s)"

definition undash :: "string \<Rightarrow> string" where
  "undash s = (if s = ''-'' then [] else s)"

text \<open>The fields that are written as they are hold no separator and cannot be taken for a dash.\<close>

definition plain_field :: "string \<Rightarrow> bool" where
  "plain_field s \<longleftrightarrow> TAB \<notin> set s \<and> NL \<notin> set s \<and> s \<noteq> ''-''"

lemma plain_Nil [simp]: "plain_field []"
  by (simp add: plain_field_def)

lemma plain_sha [intro]: "is_sha256 s \<Longrightarrow> plain_field s"
  by (auto simp: plain_field_def is_sha256_no_sep) (simp add: is_sha256_def)

lemma plain_prefixed:
  assumes "prefixed_sha256 pre v" "TAB \<notin> set pre" "NL \<notin> set pre"
  shows "plain_field v"
proof -
  have v: "v = pre @ drop (length pre) v" "is_sha256 (drop (length pre) v)"
    using assms(1) by (simp_all add: prefixed_sha256_def) (metis append_take_drop_id)
  have "length (drop (length pre) v) = 64" using v(2) by (simp add: is_sha256_def)
  then have "v \<noteq> ''-''" by auto
  moreover have "set v = set pre \<union> set (drop (length pre) v)" using v(1) by (metis set_append)
  ultimately show ?thesis using assms(2,3) is_sha256_no_sep [OF v(2)] by (simp add: plain_field_def)
qed

lemma plain_dash: "plain_field s \<Longrightarrow> TAB \<notin> set (dash s) \<and> NL \<notin> set (dash s) \<and> undash (dash s) = s"
  by (auto simp: plain_field_def dash_def undash_def)

lemma prefixed_length: "prefixed_sha256 pre v \<Longrightarrow> length v \<le> length pre + 64"
  by (auto simp: prefixed_sha256_def is_sha256_def)

lemma prefixed_not_Nil: "prefixed_sha256 pre v \<Longrightarrow> v \<noteq> []"
  by (auto simp: prefixed_sha256_def is_sha256_def)

lemma is_sha256_zero_hash [simp]: "is_sha256 zero_hash"
  by (simp add: is_sha256_def zero_hash_def is_xdigit_def hex_value_def list_all_iff)

section \<open>Lengths of printed fields\<close>

lemma length_nat_digits: "n < 10 ^ Suc k \<Longrightarrow> length (nat_digits n) \<le> Suc k"
proof (induction k arbitrary: n)
  case 0
  then show ?case by (subst nat_digits.simps) simp
next
  case (Suc k)
  have "n div 10 < 10 ^ Suc k" using Suc.prems by (simp add: less_mult_imp_div_less)
  from Suc.IH [OF this] show ?case by (subst nat_digits.simps) simp
qed

lemma length_show_u64: "length (show_u (w :: u64)) \<le> 20"
  using length_nat_digits [of "unat w" 19] unat_u64_less [of w] by (simp add: show_u_def)

lemma length_show_u32: "length (show_u (w :: u32)) \<le> 20"
  using length_nat_digits [of "unat w" 19] unat_u32_less [of w] by (simp add: show_u_def)

lemma length_hex [simp]: "length (hex_encode s) = 2 * length s"
  by (induction s) simp_all

lemma length_dash: "length (dash s) \<le> Suc (length s)"
  by (simp add: dash_def)

section \<open>Growing files\<close>

lemma getlines_append_terminated: "f = [] \<or> last f = NL \<Longrightarrow> getlines (f @ x) = getlines f @ getlines x"
proof (induction f rule: getlines.induct)
  case (1 f)
  show ?case
  proof (cases "dropWhile (\<lambda>c. c \<noteq> NL) f")
    case Nil
    then have "NL \<notin> set f" by (auto simp: dropWhile_eq_Nil_conv)
    with "1.prems" have "f = []" using last_in_set by fastforce
    then show ?thesis by simp
  next
    case (Cons c rest)
    obtain g where g: "f = g @ NL # rest" "NL \<notin> set g" using split_at_first [OF Cons] by blast
    have "rest = [] \<or> last rest = NL" using "1.prems" g(1) by (auto split: if_splits)
    with "1.IH" Cons have "getlines (rest @ x) = getlines rest @ getlines x" by blast
    with g(2) show ?thesis by (simp add: g(1) getlines_Cons)
  qed
qed

lemma unterminated:
  assumes "f \<noteq> []" "last f \<noteq> NL"
  obtains g l where "f = g @ l" "g = [] \<or> last g = NL" "l \<noteq> []" "NL \<notin> set l"
proof (cases "NL \<in> set f")
  case True
  then obtain g l where "f = g @ NL # l" "NL \<notin> set l" by (meson split_list_last)
  with assms show ?thesis by (intro that [of "g @ [NL]" l]) auto
next
  case False
  with assms show ?thesis by (intro that [of "[]" f]) auto
qed

lemma getlines_single: "NL \<notin> set l \<Longrightarrow> l \<noteq> [] \<Longrightarrow> getlines l = [l]"
  by (subst getlines.simps) (simp add: dropWhile_neq_all)

lemma getlines_first: "l \<noteq> [] \<Longrightarrow> NL \<notin> set l \<Longrightarrow> \<exists>y rest. getlines (l @ x) = (l @ y) # rest \<and>
    (y = x \<and> rest = [] \<and> NL \<notin> set x \<or> (\<exists>z. x = y @ NL # z \<and> rest = getlines z))"
proof (cases "NL \<in> set x")
  case True
  assume l: "NL \<notin> set l"
  from True obtain a b where "x = a @ NL # b" "NL \<notin> set a" by (meson split_list_first)
  then show ?thesis using l getlines_Cons [of "l @ a" b] by auto
next
  case False
  assume "l \<noteq> []" "NL \<notin> set l"
  with False show ?thesis by (simp add: getlines_single)
qed

section \<open>The shape of an accepted line\<close>

lemma split_tabs_last_extend:
  assumes "length (split_tabs (l @ y)) = length (split_tabs l)"
  shows "last (split_tabs (l @ y)) = last (split_tabs l) @ y"
  using assms
proof (induction l rule: split_tabs.induct)
  case (1 l)
  show ?case
  proof (cases "dropWhile (\<lambda>c. c \<noteq> TAB) l")
    case Nil
    then have n: "TAB \<notin> set l" by (auto simp: dropWhile_eq_Nil_conv)
    have "TAB \<notin> set y"
    proof
      assume "TAB \<in> set y"
      then obtain a b where y: "y = a @ TAB # b" "TAB \<notin> set a" by (meson split_list_first)
      then have "split_tabs (l @ y) = (l @ a) # split_tabs b"
        using n split_tabs_Cons [of "l @ a" b] by simp
      with "1.prems" n show False by (simp add: split_tabs_no_tab)
    qed
    with n show ?thesis by (simp add: split_tabs_no_tab)
  next
    case (Cons c rest)
    obtain g where g: "l = g @ TAB # rest" "TAB \<notin> set g" using split_at_first [OF Cons] by blast
    have s: "split_tabs l = g # split_tabs rest" "split_tabs (l @ y) = g # split_tabs (rest @ y)"
      using g(2) by (simp_all add: g(1) split_tabs_Cons)
    with "1.prems" have "length (split_tabs (rest @ y)) = length (split_tabs rest)" by simp
    with "1.IH" Cons have "last (split_tabs (rest @ y)) = last (split_tabs rest) @ y" by blast
    with s show ?thesis by simp
  qed
qed

definition shaped :: "nat \<Rightarrow> string \<Rightarrow> bool" where
  "shaped w l \<longleftrightarrow> 2 \<le> w \<and> length (split_tabs l) = w \<and> is_sha256 (last (split_tabs l))"

lemma shaped_extend: "shaped w l \<Longrightarrow> shaped w (l @ y) \<Longrightarrow> y = []"
  using split_tabs_last_extend [of l y] by (simp add: shaped_def is_sha256_def)

lemma shaped_no_cr:
  assumes "shaped w l"
  shows "l \<noteq> []" "last l \<noteq> CHR 0x0D"
proof -
  have r: "hd (split_tabs l) @ tab_join (tl (split_tabs l)) = l" by (rule split_tabs_restores)
  have len: "2 \<le> length (split_tabs l)" and sha: "is_sha256 (last (split_tabs l))"
    using assms by (simp_all add: shaped_def)
  obtain f fs' where c: "split_tabs l = f # fs'" using len by (cases "split_tabs l") auto
  with len have "fs' \<noteq> []" by auto
  note c = c this
  have "tab_join fs' = tab_join (butlast fs') @ TAB # last fs'"
    using append_butlast_last_id [OF c(2)] by (metis (no_types) concat.simps concat_append list.simps(8,9) map_append
      self_append_conv tab_join_def)
  with r c have l: "l = (f @ tab_join (butlast fs')) @ TAB # last (split_tabs l)" by simp
  have ne: "last (split_tabs l) \<noteq> []" using sha by (auto simp: is_sha256_def)
  with sha have "is_xdigit (last (last (split_tabs l)))" by (simp add: is_sha256_def list_all_iff)
  with ne l show "l \<noteq> []" "last l \<noteq> CHR 0x0D"
    by (auto simp: is_xdigit_def hex_value_def dest: arg_cong [of _ _ last])
qed

lemma strip_shaped: "shaped w l \<Longrightarrow> strip_cr l = l"
  using shaped_no_cr(2) by (simp add: strip_cr_def)

text \<open>
  A line that was accepted and has been extended is accepted again only as itself, possibly
  with a carriage return.
\<close>

lemma strip_cr_prefix: "\<exists>y. l = strip_cr l @ y \<and> (y = [] \<or> y = [CHR 0x0D])"
  by (cases "l = [] \<or> last l \<noteq> CHR 0x0D") (auto simp: strip_cr_def intro: append_butlast_last_id [symmetric])

lemma accepted_extension:
  assumes "shaped w (strip_cr l)" "shaped w (strip_cr (l @ y))"
  shows "strip_cr (l @ y) = strip_cr l" "set y \<subseteq> {CHR 0x0D}"
proof -
  let ?CR = "CHR 0x0D"
  obtain a where a: "l = strip_cr l @ a" "a = [] \<or> a = [?CR]" using strip_cr_prefix by blast
  obtain b where b: "l @ y = strip_cr (l @ y) @ b" "b = [] \<or> b = [?CR]" using strip_cr_prefix by blast
  have e: "strip_cr l @ (a @ y) = strip_cr (l @ y) @ b" using a(1) b(1) by (metis append_assoc)
  then consider (longer) z where "strip_cr (l @ y) = strip_cr l @ z" | (shorter) z where "strip_cr l = strip_cr (l @ y) @ z"
    unfolding append_eq_append_conv2 by metis
  then have eq: "strip_cr (l @ y) = strip_cr l"
  proof cases
    case longer
    with shaped_extend assms show ?thesis by (metis append_Nil2)
  next
    case shorter
    with shaped_extend assms show ?thesis by (metis append_Nil2)
  qed
  with e have "a @ y = b" by simp
  with b(2) have "set (a @ y) \<subseteq> {?CR}" by auto
  then show "set y \<subseteq> {?CR}" by simp
  show "strip_cr (l @ y) = strip_cr l" by (rule eq)
qed

section \<open>Scanning\<close>

fun run_lines :: "(string \<Rightarrow> 's \<Rightarrow> 's option) \<Rightarrow> string list \<Rightarrow> 's \<Rightarrow> 's option" where
  "run_lines step [] s = Some s"
| "run_lines step (l # ls) s = (case step l s of None \<Rightarrow> None | Some t \<Rightarrow> run_lines step ls t)"

lemma run_lines_append: "run_lines step (xs @ ys) s = Option.bind (run_lines step xs s) (run_lines step ys)"
  by (induction xs arbitrary: s) (simp_all split: option.split)

text \<open>A predicate that is kept by every accepted line holds of every scan that is not broken off.\<close>

locale line_invariant =
  fixes step :: "string \<Rightarrow> 's \<Rightarrow> 's option" and start :: 's and I :: "'s \<Rightarrow> bool"
  assumes I_start: "I start"
    and I_step: "I s \<Longrightarrow> step l s = Some t \<Longrightarrow> I t"
begin

lemma kept: "I s \<Longrightarrow> run_lines step ls s = Some t \<Longrightarrow> I t"
  by (induction ls arbitrary: s) (auto split: option.splits dest: I_step)

lemma everywhere: "run_lines step ls start = Some t \<Longrightarrow> I t"
  using I_start by (rule kept)

end

text \<open>
  When a file is accepted before and after bytes were added to it, the second scan is the first
  one continued; only an unterminated last line may have been completed.
\<close>

definition continued :: "string \<Rightarrow> string \<Rightarrow> string list \<Rightarrow> bool" where
  "continued f x ls \<longleftrightarrow> (f = [] \<or> last f = NL) \<and> ls = getlines x \<or>
     (\<exists>y. set y \<subseteq> {CHR 0x0D} \<and> (x = y \<and> ls = [] \<or> (\<exists>z. x = y @ NL # z \<and> ls = getlines z)))"

lemma continued_line:
  assumes "continued f (l @ NL # y) ls" "NL \<notin> set l" "l \<noteq> []" "hd l \<noteq> CHR 0x0D"
  shows "ls = l # getlines y"
proof -
  obtain c rest where p: "l = c # rest" "c \<noteq> CHR 0x0D" "c \<noteq> NL" using assms(2-4) by (cases l) auto
  from assms(1) consider "ls = getlines (l @ NL # y)" | z where "set z \<subseteq> {CHR 0x0D}"
      "(l @ NL # y = z \<and> ls = []) \<or> (\<exists>w. l @ NL # y = z @ NL # w \<and> ls = getlines w)"
    unfolding continued_def by blast
  then show ?thesis
  proof cases
    case 1
    with assms(2) show ?thesis by (simp add: getlines_Cons)
  next
    case 2
    with p show ?thesis by (cases z) auto
  qed
qed

lemma continued_torn:
  assumes "continued f (take n (l @ [NL])) ls" "NL \<notin> set l" "l \<noteq> []" "hd l \<noteq> CHR 0x0D"
  shows "ls = [] \<or> (\<exists>k y. ls = [k] \<and> l = k @ y)"
proof -
  let ?x = "take n (l @ [NL])"
  obtain c rest where p: "l = c # rest" "c \<noteq> CHR 0x0D" "c \<noteq> NL" using assms(2-4) by (cases l) auto
  have start: "?x = [] \<or> (\<exists>w. ?x = c # w)" using p by (cases n) auto
  have "ls = getlines ?x"
  proof -
    { fix z assume z: "set z \<subseteq> {CHR 0x0D}" "?x = z \<and> ls = [] \<or> (\<exists>w. ?x = z @ NL # w \<and> ls = getlines w)"
      with start p have "z = []" by (cases z) auto
      with z(2) start p have "?x = [] \<and> ls = []" by auto
      then have "ls = getlines ?x" by (metis getlines_Nil) }
    with assms(1) show ?thesis unfolding continued_def by blast
  qed
  moreover have "getlines ?x = [] \<or> (\<exists>k y. getlines ?x = [k] \<and> l = k @ y)"
  proof (cases "n \<le> length l")
    case True
    have e: "?x = take n l" using True by simp
    have "NL \<notin> set (take n l)" using assms(2) by (meson in_set_takeD)
    then show ?thesis unfolding e
      by (cases "take n l = []") (auto simp: getlines_single intro: append_take_drop_id [symmetric])
  next
    case False
    then have "?x = l @ [NL]" by simp
    with getlines_Cons [OF assms(2), of "[]"] show ?thesis by simp
  qed
  ultimately show ?thesis by simp
qed

locale line_scan =
  fixes step :: "string \<Rightarrow> 's \<Rightarrow> 's option" and start :: 's and width :: nat
  assumes step_shaped: "step l s = Some t \<Longrightarrow> shaped width (strip_cr l)"
    and step_strip: "strip_cr l = strip_cr k \<Longrightarrow> step l s = step k s"
begin

lemma scan_grows:
  assumes "run_lines step (getlines f) start = Some s" "run_lines step (getlines (f @ x)) start = Some t"
  shows "\<exists>ls. continued f x ls \<and> run_lines step ls s = Some t"
proof (cases "f = [] \<or> last f = NL")
  case True
  with assms getlines_append_terminated [OF True, of x] show ?thesis
    by (auto simp: continued_def run_lines_append bind_eq_Some_conv)
next
  case False
  then obtain g l where g: "f = g @ l" "g = [] \<or> last g = NL" "l \<noteq> []" "NL \<notin> set l"
    using unterminated [of f] by blast
  obtain y rest where y: "getlines (l @ x) = (l @ y) # rest"
    "y = x \<and> rest = [] \<and> NL \<notin> set x \<or> (\<exists>z. x = y @ NL # z \<and> rest = getlines z)"
    using getlines_first [OF g(3,4), of x] by blast
  from assms(1) obtain u where u: "run_lines step (getlines g) start = Some u" "run_lines step [l] u = Some s"
    by (auto simp: g(1) getlines_append_terminated [OF g(2)] getlines_single [OF g(4,3)] run_lines_append bind_eq_Some_conv)
  from assms(2) u(1) have t: "run_lines step ((l @ y) # rest) u = Some t"
    by (simp add: g(1) getlines_append_terminated [OF g(2)] y(1) run_lines_append del: run_lines.simps)
  have "shaped width (strip_cr l)" "shaped width (strip_cr (l @ y))"
    using u(2) t by (auto dest: step_shaped split: option.splits)
  note e = accepted_extension [OF this]
  from t step_strip [OF e(1)] u(2) have "run_lines step rest s = Some t" by (auto split: option.splits)
  moreover have "continued f x rest" using y(2) e(2) unfolding continued_def by blast
  ultimately show ?thesis by blast
qed

text \<open>A written line that lies in an accepted file has been applied to the state before it.\<close>

lemma written_line:
  assumes "run_lines step (file_lines file) start = Some s"
    and "run_lines step (file_lines (file_append (file_append file (l @ [NL])) y)) start = Some t"
    and "NL \<notin> set l" "l \<noteq> []" "hd l \<noteq> CHR 0x0D"
  obtains u where "step l s = Some u" "run_lines step (getlines y) u = Some t"
proof -
  have "run_lines step (getlines (file_bytes file @ (l @ NL # y))) start = Some t"
    using assms(2) by (simp add: file_lines_bytes)
  from scan_grows [OF assms(1) [unfolded file_lines_bytes] this] obtain ls where
    "continued (file_bytes file) (l @ NL # y) ls" "run_lines step ls s = Some t" by blast
  with continued_line [OF this(1) assms(3-5)] that show thesis by (auto split: option.splits)
qed

text \<open>A line written behind a last line that lacks its newline spoils the file for good.\<close>

lemma spoiled_line:
  assumes "run_lines step (file_lines file) start = Some s" "\<not> terminated file" "NL \<notin> set l" "l \<noteq> []" "hd l \<noteq> CHR 0x0D"
  shows "run_lines step (file_lines (file_append (file_append file (l @ [NL])) y)) start = None"
proof -
  let ?f = "file_bytes file"
  have "?f \<noteq> [] \<and> last ?f \<noteq> NL" using assms(2) by (simp add: terminated_def)
  then obtain g k where g: "?f = g @ k" "g = [] \<or> last g = NL" "k \<noteq> []" "NL \<notin> set k"
    using unterminated [of ?f] by blast
  have bytes: "file_bytes (file_append (file_append file (l @ [NL])) y) = g @ ((k @ l) @ NL # y)"
    using g(1) by simp
  have lines: "file_lines (file_append (file_append file (l @ [NL])) y) = getlines g @ (k @ l) # getlines y"
    unfolding file_lines_bytes bytes getlines_append_terminated [OF g(2)] by (subst getlines_Cons) (use assms(3) g(4) in auto)
  from assms(1) obtain u where u: "run_lines step (getlines g) start = Some u" "step k u = Some s"
    by (auto simp: file_lines_bytes g(1) getlines_append_terminated [OF g(2)] getlines_single [OF g(4,3)] run_lines_append
        bind_eq_Some_conv split: option.splits)
  have "step (k @ l) u = None"
  proof (rule ccontr)
    assume "step (k @ l) u \<noteq> None"
    then have "shaped width (strip_cr (k @ l))" by (auto dest: step_shaped)
    from accepted_extension(2) [OF step_shaped [OF u(2)] this] assms(4,5) show False by (cases l) auto
  qed
  with u(1) show ?thesis by (simp add: lines run_lines_append)
qed

text \<open>A torn write leaves nothing that is accepted, or the whole line.\<close>

lemma torn_line:
  assumes "run_lines step (file_lines file) start = Some s"
    and "run_lines step (file_lines (file_append file (take n (l @ [NL])))) start = Some t"
    and "NL \<notin> set l" "hd l \<noteq> CHR 0x0D" "shaped width l"
  shows "t = s \<or> step l s = Some t"
proof -
  have ne: "l \<noteq> []" using shaped_no_cr(1) [OF assms(5)] .
  have "run_lines step (getlines (file_bytes file @ take n (l @ [NL]))) start = Some t"
    using assms(2) unfolding file_lines_bytes file_bytes_append .
  from scan_grows [OF assms(1) [unfolded file_lines_bytes] this] obtain ls where
    ls: "continued (file_bytes file) (take n (l @ [NL])) ls" "run_lines step ls s = Some t" by blast
  from continued_torn [OF ls(1) assms(3) ne assms(4)] ls(2) consider "t = s" | k y where "l = k @ y" "step k s = Some t"
    by (auto split: option.splits)
  then show ?thesis
  proof cases
    case 2
    obtain b where b: "k = strip_cr k @ b" using strip_cr_prefix by blast
    have e: "l = strip_cr k @ (b @ y)" using 2(1) b by (metis append_assoc)
    with shaped_extend [OF step_shaped [OF 2(2)]] assms(5) have "b @ y = []" by metis
    with e 2 b show ?thesis by simp
  qed simp
qed

lemma accepted_line:
  assumes "run_lines step (file_lines file) start = Some s" "terminated file" "NL \<notin> set l" "step l s = Some t"
  shows "run_lines step (file_lines (file_append file (l @ [NL]))) start = Some t"
    "terminated (file_append file (l @ [NL]))"
proof -
  have "file_lines (file_append file (l @ [NL])) = file_lines file @ [l]"
    using assms(2) getlines_append_terminated [of "file_bytes file" "l @ [NL]"] getlines_Cons [OF assms(3), of "[]"]
    by (simp add: file_lines_bytes terminated_def)
  with assms(1,4) show "run_lines step (file_lines (file_append file (l @ [NL]))) start = Some t"
    by (simp add: run_lines_append)
  show "terminated (file_append file (l @ [NL]))" by (simp add: terminated_def)
qed

end

end
