(* ===== verification/Authority_Receipt_Text.thy ===== *)
theory Authority_Receipt_Text
  imports Line_Journal
begin

text \<open>
  What the canonical text of an authority envelope (\<open>src/authority_receipt.cpp\<close>) still binds
  when its two free-text fields hold newlines.  Signer, key and subject can then be read in
  two ways (\<open>canonical_text_is_ambiguous\<close>); the budget cannot: the last lines of the text
  hold bounded tokens and numbers only, and read from the end they determine \<open>max_uses\<close>.
  Two genuine receipts with the same id are therefore signed for the same number of uses,
  unless their texts are a collision of SHA-256.
\<close>

section \<open>Reading the text from its end\<close>

definition envelope_tail :: "authority_envelope \<Rightarrow> string list" where
  "envelope_tail e =
     [show_u (issued_at_unix_ms e), show_u (expires_at_unix_ms e), show_u (max_uses e), nonce e,
      scope_sha256 e] @
     (if schema_version e = 3
      then [parent_receipt_id e, show_u (delegation_depth e), show_u (max_delegation_depth e),
            scope_path e, show_u (of_nat (length (canonical_capabilities (capabilities e))) :: u64)] @
           canonical_capabilities (capabilities e)
      else [])"

lemma getlines_lines:
  "getlines (concat (map (\<lambda>l. l @ [NL]) xs) @ y) = getlines (concat (map (\<lambda>l. l @ [NL]) xs)) @ getlines y"
proof (rule getlines_append_terminated)
  show "concat (map (\<lambda>l. l @ [NL]) xs) = [] \<or> last (concat (map (\<lambda>l. l @ [NL]) xs)) = NL"
    by (induction xs) auto
qed

lemma envelope_tail_no_NL:
  assumes "validate_envelope e = []" "schema_version e = 2 \<or> schema_version e = 3"
  shows "\<forall>f \<in> set (envelope_tail e). NL \<notin> set f"
proof -
  have v3: "NL \<notin> set (parent_receipt_id e)" "NL \<notin> set (scope_path e)"
    "\<forall>c \<in> set (capabilities e). NL \<notin> set c" if "schema_version e = 3"
  proof -
    note v = validated_v3 [OF assms(1) that]
    show "NL \<notin> set (parent_receipt_id e)" using v(8)
      by (cases "delegation_depth e = 0") (simp_all add: valid_receipt_id_no_sep)
    show "NL \<notin> set (scope_path e)" using v(1) by (rule valid_token_no_sep)
    show "\<forall>c \<in> set (capabilities e). NL \<notin> set c"
      using v(3) by (auto simp: list_all_iff dest: valid_token_no_sep)
  qed
  moreover have "NL \<notin> set (nonce e)" "NL \<notin> set (scope_sha256 e)"
    using validated_tokens(3,4) [OF assms(1)] by (auto dest: valid_token_no_sep is_sha256_no_sep)
  ultimately show ?thesis by (auto simp: envelope_tail_def canonical_capabilities_def)
qed

lemma canonical_ends_in_tail:
  assumes "validate_envelope e = []" "schema_version e = 2 \<or> schema_version e = 3"
  shows "\<exists>pre. getlines (canonical_authority_envelope e @ [NL]) = pre @ envelope_tail e"
proof -
  have "2 \<le> schema_version e" using assms(2) by auto
  then have "\<exists>h. envelope_fields e = h @ envelope_tail e"
    by (intro exI [of _ "take 7 (envelope_fields e)"]) (simp add: envelope_fields_def envelope_tail_def)
  then obtain h where "envelope_fields e = h @ envelope_tail e" ..
  then show ?thesis
    unfolding canonical_lines
    by (auto simp: getlines_lines getlines_concat [OF envelope_tail_no_NL [OF assms]])
qed

section \<open>The schema is the first byte\<close>

lemma show_small: "show_u (1 :: u32) = ''1''" "show_u (2 :: u32) = ''2''" "show_u (3 :: u32) = ''3''"
  by (simp_all add: show_u_def nat_digits.simps digit_char_def char_of_def bit_0 bit_Suc)

lemma canonical_schema:
  assumes "validate_envelope e = []" "validate_envelope e' = []"
    "canonical_authority_envelope e = canonical_authority_envelope e'"
  shows "schema_version e = schema_version e'"
proof -
  have "hd (canonical_authority_envelope f) = hd (show_u (schema_version f))" for f
    by (simp add: canonical_authority_envelope_def)
  then have "hd (show_u (schema_version e)) = hd (show_u (schema_version e'))" using assms(3) by metis
  then show ?thesis
    using validated_tokens(9) [OF assms(1)] validated_tokens(9) [OF assms(2)] by (auto simp: show_small)
qed

section \<open>Numbers, digests and receipt ids are not mistaken for each other\<close>

lemma hd_show_u: "\<exists>c cs. show_u w = c # cs \<and> is_digit c"
  using nat_digits_are_digits [of "unat w"] show_u_not_Nil [of w]
  by (cases "show_u w") (simp_all add: show_u_def)

lemma parent_id_shape:
  assumes "validate_envelope e = []" "schema_version e = 3"
  shows "parent_receipt_id e = [] \<or> (\<exists>cs. parent_receipt_id e = CHR ''g'' # cs)"
proof -
  have "\<exists>cs. parent_receipt_id e = CHR ''g'' # cs" if "valid_receipt_id (parent_receipt_id e)"
  proof -
    have "parent_receipt_id e = kReceiptPrefix @ drop (length kReceiptPrefix) (parent_receipt_id e)"
      using that by (metis append_take_drop_id prefixed_sha256_def valid_receipt_id_def)
    then have "parent_receipt_id e = CHR ''g'' # drop 1 kReceiptPrefix @ drop (length kReceiptPrefix) (parent_receipt_id e)"
      by (simp add: kReceiptPrefix_def)
    then show ?thesis by blast
  qed
  with validated_v3(8) [OF assms] show ?thesis by (cases "delegation_depth e = 0") auto
qed

lemma parent_id_not_number:
  assumes "validate_envelope e = []" "schema_version e = 3"
  shows "parent_receipt_id e \<noteq> show_u w"
  using parent_id_shape [OF assms] hd_show_u [of w] by (auto simp: is_digit_def)

lemma digest_not_number: "is_sha256 s \<Longrightarrow> s \<noteq> show_u (w :: u32)"
  using length_show_u32 [of w] by (auto simp: is_sha256_def)

section \<open>The budget is bound\<close>

abbreviation caps_of :: "authority_envelope \<Rightarrow> string list" where
  "caps_of e \<equiv> canonical_capabilities (capabilities e)"

lemma tail_nth:
  assumes "schema_version e = 3" "z = rev (envelope_tail e) @ x"
  shows "z ! (length (caps_of e) + 2) = show_u (max_delegation_depth e)"
    "z ! (length (caps_of e) + 3) = show_u (delegation_depth e)"
    "z ! (length (caps_of e) + 4) = parent_receipt_id e"
    "z ! (length (caps_of e) + 5) = scope_sha256 e"
    "z ! (length (caps_of e)) = show_u (of_nat (length (caps_of e)) :: u64)"
    "z ! (length (caps_of e) + 7) = show_u (max_uses e)"
    "i < length (caps_of e) \<Longrightarrow> z ! i = rev (caps_of e) ! i"
  using assms by (simp_all add: envelope_tail_def nth_append)

lemma caps_order:
  assumes "validate_envelope e = []" "schema_version e = 3" "Suc i < length (caps_of e)"
  shows "rev (caps_of e) ! Suc i \<le> rev (caps_of e) ! i" "rev (caps_of e) ! Suc i \<noteq> []"
proof -
  let ?c = "caps_of e" let ?n = "length ?c"
  have "sorted ?c" by (simp add: canonical_capabilities_def)
  then have "?c ! (?n - Suc (Suc i)) \<le> ?c ! (?n - Suc i)" using assms(3) by (intro sorted_nth_mono) auto
  then show "rev ?c ! Suc i \<le> rev ?c ! i" using assms(3) by (simp add: rev_nth)
  have "rev ?c ! Suc i \<in> set ?c" using assms(3) by (metis length_rev nth_mem set_rev)
  then have "rev ?c ! Suc i \<in> set (capabilities e)" by (simp add: canonical_capabilities_def)
  then show "rev ?c ! Suc i \<noteq> []"
    using validated_v3(3) [OF assms(1,2)] by (auto simp: list_all_iff valid_token_def)
qed

lemma letter_above_digit: "is_digit d \<Longrightarrow> \<not> CHR ''g'' # x \<le> d # y"
  by (auto simp: is_digit_def less_char_def)

text \<open>Two tails that end the same text list the same number of capabilities.\<close>

lemma tails_not_longer:
  assumes v: "validate_envelope e = []" "schema_version e = 3"
    and v': "validate_envelope e' = []" "schema_version e' = 3"
    and z: "z = rev (envelope_tail e) @ x" "z = rev (envelope_tail e') @ x'"
  shows "\<not> length (caps_of e) < length (caps_of e')"
proof
  let ?k = "length (caps_of e)" let ?k' = "length (caps_of e')"
  note nth = tail_nth [OF v(2) z(1)] and nth' = tail_nth [OF v'(2) z(2)]
  have parent: "z ! (?k + 4) \<noteq> show_u w" for w :: "'w::len word"
    unfolding nth(3) by (rule parent_id_not_number [OF v])
  assume "?k < ?k'"
  then consider "?k' = ?k + 1" | "?k' = ?k + 2" | "?k' = ?k + 3" | "?k' = ?k + 4" | "?k + 4 < ?k'"
    by linarith
  then show False
  proof cases
    case 1
    then show False using nth'(2) parent [of "delegation_depth e'"] by (simp add: eval_nat_numeral)
  next
    case 2
    then show False using nth'(1) parent [of "max_delegation_depth e'"] by (simp add: eval_nat_numeral)
  next
    case 3
    then have "scope_sha256 e = show_u (max_delegation_depth e')"
      using nth(4) nth'(1) by (simp add: eval_nat_numeral)
    then show False using digest_not_number validated_tokens(4) [OF v(1)] by metis
  next
    case 4
    then show False using nth'(5) parent [of "of_nat (length (caps_of e')) :: u64"] by (simp add: eval_nat_numeral)
  next
    case 5
    then have i: "Suc (?k + 3) < ?k'" by simp
    have "parent_receipt_id e = rev (caps_of e') ! Suc (?k + 3)"
      "show_u (delegation_depth e) = rev (caps_of e') ! (?k + 3)"
      using nth(2,3) nth'(7) [of "?k + 4"] nth'(7) [of "?k + 3"] 5 by (simp_all add: eval_nat_numeral)
    then have "parent_receipt_id e \<le> show_u (delegation_depth e)" "parent_receipt_id e \<noteq> []"
      using caps_order [OF v' i] by metis+
    with parent_id_shape [OF v] hd_show_u [of "delegation_depth e"] letter_above_digit show False by metis
  qed
qed

lemma tail_max_uses:
  assumes "validate_envelope e = []" "validate_envelope e' = []"
    and s: "schema_version e = schema_version e'" "schema_version e = 2 \<or> schema_version e = 3"
    and "x @ envelope_tail e = x' @ envelope_tail e'"
  shows "max_uses e = max_uses e'"
proof (cases "schema_version e = 3")
  case True
  let ?z = "rev (envelope_tail e) @ rev x"
  have z: "?z = rev (envelope_tail e') @ rev x'" using arg_cong [OF assms(5), of rev] by simp
  have "length (caps_of e) = length (caps_of e')"
    using tails_not_longer [OF assms(1) True assms(2) _ refl z] tails_not_longer [OF assms(2) _ assms(1) True z refl]
      True s(1) by (metis linorder_neqE_nat)
  then show ?thesis
    using tail_nth(6) [OF True refl, of "rev x"] tail_nth(6) [OF _ z] True s(1) by simp
next
  case False
  with s have "length (envelope_tail e) = length (envelope_tail e')" by (simp add: envelope_tail_def)
  with assms(5) have "envelope_tail e = envelope_tail e'" by simp
  then show ?thesis by (simp add: envelope_tail_def)
qed

lemma canonical_binds_max_uses:
  assumes "validate_envelope e = []" "validate_envelope e' = []"
    and "canonical_authority_envelope e = canonical_authority_envelope e'"
    and "schema_version e = 2 \<or> schema_version e = 3"
  shows "max_uses e = max_uses e'"
proof -
  have s: "schema_version e = schema_version e'" using canonical_schema assms(1-3) .
  obtain x where x: "getlines (canonical_authority_envelope e @ [NL]) = x @ envelope_tail e"
    using canonical_ends_in_tail [OF assms(1,4)] by blast
  obtain x' where x': "getlines (canonical_authority_envelope e' @ [NL]) = x' @ envelope_tail e'"
    using canonical_ends_in_tail [OF assms(2)] assms(4) s by auto
  show ?thesis using tail_max_uses [OF assms(1,2) s assms(4), of x x'] x x' assms(3) by simp
qed

section \<open>Genuine receipts with one id\<close>

text \<open>
  A genuine receipt: a valid envelope under the id that its content hashes to.  Every receipt
  that verifies is genuine.
\<close>

definition genuine_receipt :: "authority_receipt \<Rightarrow> bool" where
  "genuine_receipt r \<longleftrightarrow> validate_envelope (envelope r) = [] \<and>
     receipt_id r = authority_receipt_id (envelope r) (algorithm r) (signature r)"

lemma verified_is_genuine: "avr_ok (verify_authority_receipt r v p subj) \<Longrightarrow> genuine_receipt r"
  by (simp add: verify_ok_iff genuine_receipt_def)

text \<open>The text whose SHA-256 is the receipt id.\<close>

definition receipt_id_text :: "authority_receipt \<Rightarrow> string" where
  "receipt_id_text r = authority_envelope_sha256 (envelope r) @ [NL] @ algorithm r @ [NL] @ signature r"

definition receipts_collide :: "authority_receipt \<Rightarrow> authority_receipt \<Rightarrow> bool" where
  "receipts_collide r q \<longleftrightarrow>
     sha256_collision (canonical_authority_envelope (envelope r)) (canonical_authority_envelope (envelope q)) \<or>
     sha256_collision (receipt_id_text r) (receipt_id_text q)"

lemma genuine_same_text:
  assumes "genuine_receipt r" "genuine_receipt q" "receipt_id r = receipt_id q" "\<not> receipts_collide r q"
  shows "canonical_authority_envelope (envelope r) = canonical_authority_envelope (envelope q)"
proof -
  have "sha256 (receipt_id_text r) = sha256 (receipt_id_text q)"
    using assms(1-3) by (simp add: genuine_receipt_def authority_receipt_id_def receipt_id_text_def)
  then have "receipt_id_text r = receipt_id_text q"
    using assms(4) by (auto simp: receipts_collide_def sha256_collision_def)
  then have "authority_envelope_sha256 (envelope r) = authority_envelope_sha256 (envelope q)"
    by (simp add: receipt_id_text_def authority_envelope_sha256_def)
  then show ?thesis
    using assms(4) by (auto simp: receipts_collide_def sha256_collision_def authority_envelope_sha256_def)
qed

end
