(* ===== verification/Authority_Ledger_Safety.thy ===== *)
theory Authority_Ledger_Safety
  imports Authority_Ledger_Samples Authority_Receipt_Text
begin

text \<open>
  What an \<open>AuthorityLedger\<close> guarantees over its whole history: revocations, key revocations,
  nonce bindings and lineage are permanent, no receipt is used more often than it was signed
  for, and a receipt together with everything delegated from it stays within the root's
  budget.  The lemmas before each property are about lists of events; the properties carry
  them over to all runs.
\<close>

section \<open>Counting uses in the log\<close>

fun event_uses :: "string \<Rightarrow> authority_event \<Rightarrow> nat" where
  "event_uses rid (Ev_Use r s k n i t) = (if r = rid then 1 else 0)"
| "event_uses rid (Ev_Delegate p c s k pn cn i d t) = (if p = rid then 1 else 0)"
| "event_uses rid _ = 0"

fun event_reserved :: "string \<Rightarrow> authority_event \<Rightarrow> nat" where
  "event_reserved rid (Ev_Delegate p c s k pn cn i d t) = (if p = rid then unat d else 0)"
| "event_reserved rid _ = 0"

fun event_children :: "string \<Rightarrow> authority_event \<Rightarrow> string list" where
  "event_children rid (Ev_Delegate p c s k pn cn i d t) = (if p = rid then [c] else [])"
| "event_children rid _ = []"

definition uses_in :: "authority_event list \<Rightarrow> string \<Rightarrow> nat" where
  "uses_in es rid = sum_list (map (event_uses rid) es)"

definition reserved_in :: "authority_event list \<Rightarrow> string \<Rightarrow> nat" where
  "reserved_in es rid = sum_list (map (event_reserved rid) es)"

definition children :: "authority_event list \<Rightarrow> string \<Rightarrow> string list" where
  "children es rid = concat (map (event_children rid) es)"

text \<open>Child and parent of each recorded delegation.\<close>

fun event_link :: "authority_event \<Rightarrow> (string \<times> string) set" where
  "event_link (Ev_Delegate p c s k pn cn i d t) = {(c, p)}"
| "event_link _ = {}"

definition lineage :: "authority_event list \<Rightarrow> (string \<times> string) set" where
  "lineage es = \<Union> (event_link ` set es)"

text \<open>Uses of a receipt and, to a given depth, of everything delegated from it.\<close>

fun family_uses :: "authority_event list \<Rightarrow> nat \<Rightarrow> string \<Rightarrow> nat" where
  "family_uses es 0 rid = 0"
| "family_uses es (Suc n) rid = uses_in es rid + sum_list (map (family_uses es n) (children es rid))"

lemma count_snoc [simp]:
  "uses_in (es @ [e]) rid = uses_in es rid + event_uses rid e"
  "reserved_in (es @ [e]) rid = reserved_in es rid + event_reserved rid e"
  "children (es @ [e]) rid = children es rid @ event_children rid e"
  "uses_in [] rid = 0" "reserved_in [] rid = 0" "children [] rid = []"
  by (simp_all add: uses_in_def reserved_in_def children_def)

lemma unat_Suc_nonzero: "(x :: u64) + 1 \<noteq> 0 \<Longrightarrow> unat (x + 1) = Suc (unat x)"
  by (metis add.commute unatSuc)

lemma sem_event_uses:
  "sem_event e m = Some m' \<Longrightarrow> unat (use_count m' rid) = unat (use_count m rid) + event_uses rid e"
  by (cases e) (auto simp: use_count_def Let_def unat_Suc_nonzero split: if_splits option.splits)

lemma unat_plus_bounded: "(a :: u64) \<le> (- 1) - b \<Longrightarrow> unat (a + b) = unat a + unat b"
  using unat_u64_less [of b] by (simp add: word_le_nat_alt unat_max_minus unat_word_ariths)

lemma sem_event_reserved:
  "sem_event e m = Some m' \<Longrightarrow>
   unat (delegated_uses m' rid) = unat (delegated_uses m rid) + event_reserved rid e"
  by (cases e) (auto simp: delegated_uses_def Let_def unat_plus_bounded split: if_splits option.splits)

text \<open>The counters of the maps are the counts of the log; neither wraps.\<close>

lemma sem_list_counts:
  "sem_list sem_event es empty_maps = Some m \<Longrightarrow>
   unat (use_count m rid) = uses_in es rid \<and> unat (delegated_uses m rid) = reserved_in es rid"
proof (induction es arbitrary: m rule: rev_induct)
  case Nil
  then show ?case by (auto simp: empty_maps_def use_count_def delegated_uses_def)
next
  case (snoc e es)
  then show ?case
    by (auto simp: sem_list_append sem_event_uses sem_event_reserved split: option.splits)
qed

section \<open>What the maps never forget\<close>

lemma sem_event_grows:
  assumes "sem_event e m = Some m'"
  shows "map_of (am_revoked m) \<subseteq>\<^sub>m map_of (am_revoked m')"
    "map_of (am_nonces m) \<subseteq>\<^sub>m map_of (am_nonces m')"
    "map_of (am_parent m) \<subseteq>\<^sub>m map_of (am_parent m')"
  using assms
  by (cases e; auto simp: map_le_def Let_def nonce_free_for_def split: if_splits option.splits)+

lemma sem_list_grows:
  "sem_list sem_event es m = Some m' \<Longrightarrow>
   map_of (am_revoked m) \<subseteq>\<^sub>m map_of (am_revoked m') \<and> map_of (am_nonces m) \<subseteq>\<^sub>m map_of (am_nonces m') \<and>
   map_of (am_parent m) \<subseteq>\<^sub>m map_of (am_parent m')"
proof (induction es arbitrary: m)
  case Nil
  then show ?case by simp
next
  case (Cons e es)
  then show ?case by (auto split: option.splits dest: sem_event_grows map_le_trans)
qed

lemma sem_list_split:
  "sem_list sem (pre @ e # post) st = Some st' \<Longrightarrow>
   \<exists>s1 s2. sem_list sem pre st = Some s1 \<and> sem e s1 = Some s2 \<and> sem_list sem post s2 = Some st'"
  by (auto simp: sem_list_append split: option.splits)

lemma logged_event:
  assumes "sem_list sem_event es m0 = Some m" "e \<in> set es"
  obtains m1 m2 where "sem_event e m1 = Some m2"
    "map_of (am_revoked m2) \<subseteq>\<^sub>m map_of (am_revoked m)"
    "map_of (am_nonces m2) \<subseteq>\<^sub>m map_of (am_nonces m)"
    "map_of (am_parent m2) \<subseteq>\<^sub>m map_of (am_parent m)"
proof -
  obtain pre post where "es = pre @ e # post" using assms(2) by (meson split_list)
  with sem_list_split [of sem_event pre e post m0 m] assms(1) obtain m1 m2 where
    "sem_event e m1 = Some m2" "sem_list sem_event post m2 = Some m" by auto
  with sem_list_grows [of post m2 m] that show thesis by blast
qed

lemma logged_revocation:
  assumes "sem_list sem_event es m0 = Some m" "Ev_RevokeReceipt rid t \<in> set es"
  shows "map_of (am_revoked m) rid = Some t"
  by (rule logged_event [OF assms]) (auto split: if_splits intro: map_le_Some)

lemma logged_parent:
  assumes "sem_list sem_event es m0 = Some m" "(c, p) \<in> lineage es"
  shows "map_of (am_parent m) c = Some p"
proof -
  obtain e where e: "e \<in> set es" "(c, p) \<in> event_link e" using assms(2) by (auto simp: lineage_def)
  show ?thesis
    by (rule logged_event [OF assms(1) e(1)])
      (use e(2) in \<open>cases e; auto simp: Let_def split: if_splits intro: map_le_Some\<close>)
qed

lemma logged_nonce:
  assumes "sem_list sem_event es m0 = Some m" "Ev_Use rid s k n i t \<in> set es"
  shows "map_of (am_nonces m) (nonce_key s k n) = Some rid"
  by (rule logged_event [OF assms]) (auto simp: Let_def split: if_splits intro: map_le_Some)

text \<open>A registered parent comes from the log.\<close>

lemma parent_logged:
  "sem_list sem_event es empty_maps = Some m \<Longrightarrow> map_of (am_parent m) c = Some p \<Longrightarrow> (c, p) \<in> lineage es"
proof (induction es arbitrary: m rule: rev_induct)
  case Nil
  then show ?case by (auto simp: empty_maps_def)
next
  case (snoc e es)
  then obtain m1 where m1: "sem_list sem_event es empty_maps = Some m1" "sem_event e m1 = Some m"
    by (auto simp: sem_list_append split: option.splits)
  have "(c, p) \<in> lineage es \<Longrightarrow> (c, p) \<in> lineage (es @ [e])" by (auto simp: lineage_def)
  moreover have "map_of (am_parent m1) c = Some p \<or> (c, p) \<in> lineage (es @ [e])"
    using m1(2) snoc.prems(2)
    by (cases e) (auto simp: Let_def lineage_def split: if_splits option.splits)
  ultimately show ?case using snoc.IH m1(1) by blast
qed

section \<open>Revocation\<close>

lemma climb_revoked_None:
  assumes "climb_revoked n m now c = None" "(c, a) \<in> {(c, p). map_of (am_parent m) c = Some p}\<^sup>+"
  shows "\<not> revoked_at m a now"
  using assms
proof (induction n arbitrary: c)
  case 0
  then show ?case by simp
next
  case (Suc n)
  then obtain p where p: "map_of (am_parent m) c = Some p" "\<not> revoked_at m p now" "climb_revoked n m now p = None"
    by (auto split: option.splits if_splits elim: converse_tranclE)
  from Suc.prems(2) show ?case
    by (rule converse_tranclE) (use p Suc.IH in auto)
qed

lemma lineage_maps:
  "sem_list sem_event es m0 = Some m \<Longrightarrow> lineage es \<subseteq> {(c, p). map_of (am_parent m) c = Some p}"
  by (auto dest: logged_parent)


text \<open>An authorised use or a registration is impossible below a recorded revocation.\<close>

lemma revoked_not_ready:
  assumes "al_run path ops es L" "Ev_RevokeReceipt a t \<in> set es" "t \<le> now" "(receipt_id r, a) \<in> (lineage es)\<^sup>*"
  shows "\<not> authorize_ready v now r p subj scope L" "\<not> register_ready v now r c L"
proof -
  have "\<not> (j_healthy (al_journal L) \<and> \<not> revoked_at (al_maps L) (receipt_id r) now \<and>
      ancestor_revoked (al_maps L) (receipt_id r) now = None)"
  proof
    assume h: "j_healthy (al_journal L) \<and> \<not> revoked_at (al_maps L) (receipt_id r) now \<and>
      ancestor_revoked (al_maps L) (receipt_id r) now = None"
    have m: "sem_list sem_event es empty_maps = Some (al_maps L)"
      using ledger_inv_healthy al_run_inv [OF assms(1)] h by blast
    have rev: "revoked_at (al_maps L) a now"
      using logged_revocation [OF m assms(2)] assms(3) by (simp add: revoked_at_def)
    from assms(4) h rev have "(receipt_id r, a) \<in> (lineage es)\<^sup>+" by (auto dest: rtranclD)
    then have "(receipt_id r, a) \<in> {(c, p). map_of (am_parent (al_maps L)) c = Some p}\<^sup>+"
      by (rule trancl_mono) (rule lineage_maps [OF m])
    with climb_revoked_None h rev show False by (metis ancestor_revoked_def)
  qed
  moreover have "receipt_revoked (al_maps L) (receipt_id r)" if "revoked_at (al_maps L) (receipt_id r) now"
    using that by (auto simp: revoked_at_def receipt_revoked_def split: option.splits)
  ultimately show "\<not> authorize_ready v now r p subj scope L" "\<not> register_ready v now r c L"
    by (auto simp: authorize_ready_def register_ready_def Let_def)
qed

text \<open>
  C3. Revocation is permanent and reaches every descendant.  In any history, once the
  revocation of a receipt has been recorded with time \<open>t\<close>, no call at a clock reading of \<open>t\<close>
  or later consumes that receipt or one delegated from it, directly or through other
  receipts, and none delegates from it: the call is refused and the ledger is untouched.
  Reloading the journal in between changes nothing.
\<close>

theorem revocation_is_permanent:
  assumes "al_run path ops es L" and "Ev_RevokeReceipt a t \<in> set es" and "t \<le> now"
    and "(receipt_id r, a) \<in> (lineage es)\<^sup>*"
  shows "refused L (authorize_and_consume v now io r p subj scope L) \<and>
    refused L (register_delegation v now io r c L)"
  using revoked_not_ready [OF assms] authorize_refused register_refused by blast

theorem revocation_is_permanent_witness:
  "\<exists>L es. al_run ''journal'' [op_trust, op_delegate, op_revoke] es L \<and>
     refused L (authorize_and_consume sample_verifier 1700 Write_Ok child_receipt DestructiveExecution
       ''subject'' (sha256 ''/repo/src'') L)"
proof -
  obtain L m where "live [op_trust, op_delegate, op_revoke] [ev_trust, ev_delegate, ev_revoke] m L"
    using sample_revoked by blast
  then have run: "al_run ''journal'' [op_trust, op_delegate, op_revoke] [ev_trust, ev_delegate, ev_revoke] L"
    by (rule live_run)
  have rev: "Ev_RevokeReceipt (receipt_id parent_receipt) 1600 \<in> set [ev_trust, ev_delegate, ev_revoke]"
    by (simp add: ev_revoke_def)
  have "(receipt_id child_receipt, receipt_id parent_receipt) \<in> lineage [ev_trust, ev_delegate, ev_revoke]"
    by (simp add: lineage_def ev_delegate_def ev_trust_def ev_revoke_def)
  then have "(receipt_id child_receipt, receipt_id parent_receipt) \<in> (lineage [ev_trust, ev_delegate, ev_revoke])\<^sup>*"
    by (rule r_into_rtrancl)
  from revocation_is_permanent [OF run rev _ this, of 1700] run show ?thesis by auto
qed

section \<open>Signer keys\<close>

definition key_revoked_at :: "authority_maps \<Rightarrow> string \<Rightarrow> string \<Rightarrow> u64 \<Rightarrow> bool" where
  "key_revoked_at m s k t \<longleftrightarrow> t \<noteq> 0 \<and> (\<exists>key. find_key m s k = Some key \<and> tk_revoked_at key = t)"

lemma sem_keeps_key_revoked:
  assumes "sem_event e m = Some m'" "key_revoked_at m s k t"
    "\<And>s' k' t'. e = Ev_RevokeKey s' k' t' \<Longrightarrow> key_map_id s' k' \<noteq> key_map_id s k"
  shows "key_revoked_at m' s k t"
  using assms
  by (cases e) (auto simp: key_revoked_at_def find_key_def Let_def split: if_splits option.splits)

lemma op_event_revoke_key:
  assumes "op_event op m = Some (Ev_RevokeKey s k t)"
  shows "\<exists>io. op = Op_Revoke_Key io s k t"
  using assms by (cases op) (auto simp: delegate_event_def use_event_def)

lemma revoke_key_ok:
  assumes "al_call (Op_Revoke_Key io s k t) L = (True, L')"
  shows "t \<noteq> 0 \<and> (\<exists>key. find_key (al_maps L) s k = Some key \<and> tk_revoked_at key = 0) \<and>
    key_revoked_at (al_maps L') s k t"
  using assms
  by (auto simp: revoke_key_def Let_def find_key_def key_revoked_at_def al_commit_def map_prod_def
      alr_ok_def al_fail_def split: option.splits if_splits prod.splits)

lemma run_key_revoked:
  "al_run path ops es L \<Longrightarrow> Ev_RevokeKey s k t \<in> set es \<Longrightarrow> sem_list sem_event es empty_maps = Some m \<Longrightarrow>
   key_revoked_at m s k t"
proof (induction arbitrary: m rule: al_run.induct)
  case run_start
  then show ?case by simp
next
  case (run_ok ops es L op L')
  show ?case
  proof (cases "op_event op (al_maps L)")
    case None
    with run_ok show ?thesis by (simp add: recorded_events_def)
  next
    case (Some ev)
    from recorded_healthy [OF run_ok.hyps(3) Some] have
      L: "sem_list sem_event es empty_maps = Some (al_maps L)" "sem_event ev (al_maps L) = Some (al_maps L')"
      using ledger_inv_healthy al_run_inv [OF run_ok.hyps(1)] by auto
    have m: "m = al_maps L'"
      using run_ok.prems(2) L Some by (simp add: recorded_events_def sem_list_append)
    consider "ev = Ev_RevokeKey s k t" | "Ev_RevokeKey s k t \<in> set es"
      using run_ok.prems(1) Some by (auto simp: recorded_events_def)
    then show ?thesis
    proof cases
      case 1
      then show ?thesis using op_event_revoke_key Some revoke_key_ok run_ok.hyps(3) m by blast
    next
      case 2
      then have old: "key_revoked_at (al_maps L) s k t" using run_ok.IH L(1) by blast
      show ?thesis unfolding m
      proof (rule sem_keeps_key_revoked [OF L(2) old])
        fix s' k' t' assume ev: "ev = Ev_RevokeKey s' k' t'"
        then obtain key where "find_key (al_maps L) s' k' = Some key" "tk_revoked_at key = 0"
          using op_event_revoke_key Some revoke_key_ok run_ok.hyps(3) by blast
        with old show "key_map_id s' k' \<noteq> key_map_id s k"
          by (auto simp: key_revoked_at_def find_key_def)
      qed
    qed
  qed
next
  case (run_failed ops es L op L')
  then show ?case by blast
qed

text \<open>
  Key revocation is permanent: once a signer key's revocation at \<open>t\<close> has been recorded, no
  receipt naming that key is consumed, and none is a delegation parent, at \<open>t\<close> or later,
  whatever was called in between (the key cannot be revoked again with a later time, trusted
  anew, or brought back by retiring it or by reloading the journal).
\<close>

theorem key_revocation_is_permanent:
  assumes "al_run path ops es L" and "Ev_RevokeKey (signer_id (envelope r)) (signer_key_id (envelope r)) t \<in> set es"
    and "t \<le> now"
  shows "refused L (authorize_and_consume v now io r p subj scope L) \<and>
    refused L (register_delegation v now io r c L)"
proof -
  have "\<not> (\<exists>key. j_healthy (al_journal L) \<and>
      find_key (al_maps L) (signer_id (envelope r)) (signer_key_id (envelope r)) = Some key \<and> key_active key r now)"
  proof (intro notI, elim exE conjE)
    fix key assume h: "j_healthy (al_journal L)"
      and key: "find_key (al_maps L) (signer_id (envelope r)) (signer_key_id (envelope r)) = Some key"
        "key_active key r now"
    have "key_revoked_at (al_maps L) (signer_id (envelope r)) (signer_key_id (envelope r)) t"
      using run_key_revoked [OF assms(1,2)] ledger_inv_healthy [OF al_run_inv [OF assms(1)] h] by blast
    with key assms(3) show False by (auto simp: key_revoked_at_def key_active_def)
  qed
  then have "\<not> authorize_ready v now r p subj scope L" "\<not> register_ready v now r c L"
    by (auto simp: authorize_ready_def register_ready_def Let_def)
  then show ?thesis using authorize_refused register_refused by blast
qed


theorem key_revocation_is_permanent_witness:
  "\<exists>L es. al_run ''journal'' [op_trust, op_delegate, op_revoke_key] es L \<and>
     refused L (authorize_and_consume sample_verifier 1700 Write_Ok child_receipt DestructiveExecution
       ''subject'' (sha256 ''/repo/src'') L)"
proof -
  obtain L m where "live [op_trust, op_delegate, op_revoke_key] [ev_trust, ev_delegate, ev_revoke_key] m L"
    using sample_key_revoked by blast
  then have run: "al_run ''journal'' [op_trust, op_delegate, op_revoke_key] [ev_trust, ev_delegate, ev_revoke_key] L"
    by (rule live_run)
  then show ?thesis
    using key_revocation_is_permanent [OF run, of child_receipt 1600 1700] by (auto simp: ev_revoke_key_def)
qed

section \<open>Nonces\<close>

text \<open>
  A nonce belongs to one receipt for ever.  If two recorded uses carry the same signer,
  key and nonce they are uses of the same receipt; and a receipt whose nonce has been used by
  another receipt is refused.
\<close>

theorem nonce_binds_one_receipt:
  assumes "al_run path ops es L" and "Ev_Use rid s k n i t \<in> set es"
  shows "(\<forall>rid' i' t'. Ev_Use rid' s k n i' t' \<in> set es \<longrightarrow> rid' = rid) \<and>
    (signer_id (envelope r) = s \<and> signer_key_id (envelope r) = k \<and> nonce (envelope r) = n \<and>
       receipt_id r \<noteq> rid \<longrightarrow> refused L (authorize_and_consume v now io r p subj scope L))"
proof -
  obtain m where m: "sem_list sem_event es empty_maps = Some m"
    using al_run_inv [OF assms(1)] by (auto simp: ledger_inv_def journal_inv_def)
  have "rid' = rid" if "Ev_Use rid' s k n i' t' \<in> set es" for rid' i' t'
    using logged_nonce [OF m assms(2)] logged_nonce [OF m that] by simp
  moreover have "\<not> authorize_ready v now r p subj scope L"
    if "signer_id (envelope r) = s" "signer_key_id (envelope r) = k" "nonce (envelope r) = n" "receipt_id r \<noteq> rid"
  proof
    assume ready: "authorize_ready v now r p subj scope L"
    then have "al_maps L = m"
      using ledger_inv_healthy [OF al_run_inv [OF assms(1)]] m by (simp add: authorize_ready_def Let_def)
    with ready logged_nonce [OF m assms(2)] that show False
      by (simp add: authorize_ready_def Let_def nonce_free_for_def receipt_nonce_key_def)
  qed
  ultimately show ?thesis using authorize_refused by blast
qed

theorem nonce_binds_one_receipt_witness:
  "\<exists>L. al_run ''journal'' [op_trust, op_use] [ev_trust, ev_use] L \<and>
     refused L (authorize_and_consume sample_verifier 1500 Write_Ok
       (used_receipt\<lparr>receipt_id := ''other''\<rparr>) CapabilityGrant ''subject'' (sha256 ''/repo'') L)"
proof -
  obtain L m where "live [op_trust, op_use] [ev_trust, ev_use] m L" using sample_used by blast
  then have run: "al_run ''journal'' [op_trust, op_use] [ev_trust, ev_use] L" by (rule live_run)
  have "receipt_id used_receipt \<noteq> ''other''"
    by (simp add: sample_receipt_def authority_receipt_id_def kReceiptPrefix_def)
  then show ?thesis
    using nonce_binds_one_receipt [OF run, of "receipt_id used_receipt" "''root''" "''key1''" "''n1''" 1 1500
        "used_receipt\<lparr>receipt_id := ''other''\<rparr>"] run
    by (auto simp: ev_use_def)
qed

section \<open>Use budgets\<close>

lemma receipt_limit_unat [simp]: "unat (receipt_limit r) = unat (max_uses (envelope r))"
  by (simp add: receipt_limit_def)

lemma unat_add_u32_bounded:
  assumes "(a :: u64) \<le> receipt_limit r" "b \<le> receipt_limit q"
  shows "unat (a + b) = unat a + unat b"
proof -
  have "unat a + unat b < 18446744073709551616"
    using assms unat_u32_less [of "max_uses (envelope r)"] unat_u32_less [of "max_uses (envelope q)"]
    unfolding word_le_nat_alt receipt_limit_unat by linarith
  then show ?thesis by (simp add: unat_word_ariths)
qed

lemma ready_budget:
  assumes "al_run path ops es L" "authorize_ready v now r p subj scope L"
  shows "uses_in es (receipt_id r) + reserved_in es (receipt_id r) < unat (max_uses (envelope r))"
    "unat (use_count (al_maps L) (receipt_id r) + 1) = uses_in es (receipt_id r) + 1"
proof -
  let ?m = "al_maps L" and ?rid = "receipt_id r"
  have "sem_list sem_event es empty_maps = Some ?m"
    using ledger_inv_healthy al_run_inv [OF assms(1)] assms(2) by (simp add: authorize_ready_def Let_def)
  from sem_list_counts [OF this, of ?rid] have
    c: "unat (use_count ?m ?rid) = uses_in es ?rid" "unat (delegated_uses ?m ?rid) = reserved_in es ?rid"
    by simp_all
  have lim: "use_count ?m ?rid \<le> receipt_limit r" "delegated_uses ?m ?rid \<le> receipt_limit r"
    "use_count ?m ?rid + delegated_uses ?m ?rid < receipt_limit r"
    using assms(2) by (simp_all add: authorize_ready_def Let_def)
  show "uses_in es ?rid + reserved_in es ?rid < unat (max_uses (envelope r))"
    using lim(3) unat_add_u32_bounded [OF lim(1,2)] c by (simp add: word_less_nat_alt)
  show "unat (use_count ?m ?rid + 1) = uses_in es ?rid + 1"
    using Suc_bounded [OF lim(1)] c by simp
qed

lemma register_budget:
  assumes "al_run path ops es L" "register_ready v now p c L"
  shows "uses_in es (receipt_id p) + 1 + reserved_in es (receipt_id p) + unat (max_uses (envelope c))
    \<le> unat (max_uses (envelope p))"
proof -
  let ?m = "al_maps L" and ?rid = "receipt_id p"
  have "sem_list sem_event es empty_maps = Some ?m"
    using ledger_inv_healthy al_run_inv [OF assms(1)] assms(2) by (simp add: register_ready_def Let_def)
  from sem_list_counts [OF this, of ?rid] have
    c: "unat (use_count ?m ?rid) = uses_in es ?rid" "unat (delegated_uses ?m ?rid) = reserved_in es ?rid"
    by simp_all
  have lim: "use_count ?m ?rid \<le> receipt_limit p" "delegated_uses ?m ?rid \<le> receipt_limit p"
    "1 + receipt_limit c \<le> receipt_limit p"
    "use_count ?m ?rid + delegated_uses ?m ?rid \<le> receipt_limit p - (1 + receipt_limit c)"
    using assms(2) by (simp_all add: register_ready_def Let_def)
  have "unat (1 + receipt_limit c) = 1 + unat (receipt_limit c)"
    using Suc_bounded [OF order_refl receipt_limit_less] by (simp add: add.commute)
  with lim(3,4) unat_add_u32_bounded [OF lim(1,2)] c show ?thesis
    by (simp add: word_le_nat_alt unat_sub)
qed

text \<open>
  Use budget.  When \<open>authorize_and_consume\<close> reports success, the uses of the receipt
  recorded so far (its own and one for each delegation from it) and the uses it has reserved
  for its children stay strictly below the signed \<open>max_uses\<close>, so the use it has just recorded
  still fits; and the reported count is the number of uses in the log.
\<close>

theorem use_budget:
  assumes "al_run path ops es L"
    and "authorize_and_consume v now io r p subj scope L = (res, L')" and "alr_ok res"
  shows "uses_in es (receipt_id r) + reserved_in es (receipt_id r) < unat (max_uses (envelope r)) \<and>
    unat (alr_use_count res) = uses_in es (receipt_id r) + 1"
proof -
  have ready: "authorize_ready v now r p subj scope L"
    using authorize_refused [of v now r p subj scope L io] assms(2,3) by (auto simp: refused_def alr_ok_def)
  have "consume now io r L = (res, L')" using authorize_ready_commits [OF ready] assms(2) by metis
  then have "res = al_allowed (receipt_id r) (use_count (al_maps L) (receipt_id r) + 1)"
    using assms(3) by (auto simp: consume_def Let_def dest: al_commit_ok)
  then show ?thesis using ready_budget [OF assms(1) ready] by (simp add: al_allowed_def al_result_def)
qed

theorem use_budget_witness:
  "\<exists>L res L'. authorize_and_consume sample_verifier 1500 Write_Ok used_receipt CapabilityGrant ''subject''
      (sha256 ''/repo'') L = (res, L') \<and> alr_ok res \<and> unat (alr_use_count res) = 1"
proof -
  obtain L L' where L: "live [op_trust] [ev_trust] trusted_maps L" "al_call op_use L = (True, L')"
    using sample_used by blast
  then obtain res where res: "authorize_and_consume sample_verifier 1500 Write_Ok used_receipt CapabilityGrant ''subject''
      (sha256 ''/repo'') L = (res, L')" "alr_ok res" by (auto simp: map_prod_def split: prod.splits)
  from use_budget [OF live_run [OF L(1)] res] res show ?thesis
    by (auto simp: uses_in_def ev_trust_def)
qed

section \<open>Families of receipts\<close>

fun op_receipts :: "authority_op \<Rightarrow> authority_receipt list" where
  "op_receipts (Op_Register v now io p c) = [p, c]"
| "op_receipts (Op_Authorize v now io r p subj scope) = [r]"
| "op_receipts _ = []"

definition presented :: "authority_op list \<Rightarrow> authority_receipt set" where
  "presented ops = (\<Union>op \<in> set ops. set (op_receipts op))"

text \<open>Two different receipts of the history have the same id (their ids are SHA-256 values).\<close>

definition id_clash :: "authority_op list \<Rightarrow> bool" where
  "id_clash ops \<longleftrightarrow> (\<exists>r \<in> presented ops. \<exists>q \<in> presented ops. receipt_id r = receipt_id q \<and> r \<noteq> q)"

text \<open>The log keeps every id within the budget \<open>B\<close>: its uses and what its children reserve.\<close>

definition budget_log :: "(string \<Rightarrow> nat) \<Rightarrow> authority_event list \<Rightarrow> bool" where
  "budget_log B es \<longleftrightarrow>
     (\<forall>rid. uses_in es rid + sum_list (map B (children es rid)) \<le> B rid) \<and>
     (\<forall>rid. reserved_in es rid = sum_list (map B (children es rid)))"

text \<open>The log is one of receipts \<open>R\<close>: depths as they were signed.\<close>

definition depth_log :: "(string \<Rightarrow> authority_receipt) \<Rightarrow> authority_event list \<Rightarrow> bool" where
  "depth_log R es \<longleftrightarrow>
     (\<forall>(c, p) \<in> lineage es. unat (delegation_depth (envelope (R c))) =
        Suc (unat (delegation_depth (envelope (R p)))) \<and> unat (delegation_depth (envelope (R c))) \<le> 8)"

lemma op_event_cases:
  assumes "op_event op m = Some ev"
  obtains (use) v now io r p subj scope where "op = Op_Authorize v now io r p subj scope" "ev = use_event now r m"
  | (delegate) v now io p c where "op = Op_Register v now io p c" "ev = delegate_event now p c m"
  | (other) "\<And>rid. event_uses rid ev = 0" "\<And>rid. event_reserved rid ev = 0" "\<And>rid. event_children rid ev = []"
      "event_link ev = {}"
  using assms by (cases op) auto

lemma authorize_call_ready:
  "al_call (Op_Authorize v now io r p subj scope) L = (True, L') \<Longrightarrow> authorize_ready v now r p subj scope L"
  using authorize_refused [of v now r p subj scope L io]
  by (auto simp: refused_def alr_ok_def map_prod_def split: prod.splits)

lemma register_call_ready:
  "al_call (Op_Register v now io p c) L = (True, L') \<Longrightarrow> register_ready v now p c L"
  using register_refused [of v now p c L io]
  by (auto simp: refused_def alr_ok_def map_prod_def split: prod.splits)

lemma budget_snoc_other:
  assumes "budget_log B es" "\<And>rid. event_uses rid ev = 0" "\<And>rid. event_reserved rid ev = 0"
    "\<And>rid. event_children rid ev = []"
  shows "budget_log B (es @ [ev])"
  using assms by (simp add: budget_log_def)

lemma budget_snoc_use:
  assumes "budget_log B es" "al_run path ops es L" "authorize_ready v now r p subj scope L"
    "B (receipt_id r) = unat (max_uses (envelope r))"
  shows "budget_log B (es @ [use_event now r m])"
  using assms(1) ready_budget(1) [OF assms(2,3)] assms(4)
  by (auto simp: budget_log_def use_event_def)

lemma budget_snoc_delegate:
  assumes "budget_log B es" "al_run path ops es L" "register_ready v now p c L"
    "B (receipt_id p) = unat (max_uses (envelope p))" "B (receipt_id c) = unat (max_uses (envelope c))"
  shows "budget_log B (es @ [delegate_event now p c m])"
  using assms(1,4,5) register_budget [OF assms(2,3)]
  by (auto simp: budget_log_def delegate_event_def)

lemma depth_snoc_delegate:
  assumes "depth_log R es" "register_ready v now p c L" "R (receipt_id p) = p" "R (receipt_id c) = c"
  shows "depth_log R (es @ [delegate_event now p c m])"
proof -
  let ?p = "envelope p" and ?c = "envelope c"
  have "avr_ok (verify_authority_receipt c v (purpose ?c) (subject_id ?c))" "schema_version ?c = 3"
    and depth: "delegation_depth ?c = delegation_depth ?p + 1" "delegation_depth ?p < max_delegation_depth ?p"
      "delegation_depth ?c \<le> max_delegation_depth ?c"
    using assms(2) unfolding register_ready_def attenuates_def Let_def by blast+
  then have "max_delegation_depth ?c \<le> 8" by (simp add: verify_ok_iff validated_v3)
  with depth have "unat (delegation_depth ?c) \<le> 8" by (simp add: word_le_nat_alt)
  moreover have "unat (delegation_depth ?c) = Suc (unat (delegation_depth ?p))"
    using depth(1,2) unat_Suc_less by simp
  ultimately show ?thesis
    using assms(1,3,4) by (auto simp: depth_log_def lineage_def delegate_event_def)
qed

text \<open>What the guards have checked of the receipts of a recorded event.\<close>

lemma authorize_genuine:
  "authorize_ready v now r p subj scope L \<Longrightarrow>
   genuine_receipt r \<and> (schema_version (envelope r) = 2 \<or> schema_version (envelope r) = 3)"
  by (auto simp: authorize_ready_def Let_def dest: verified_is_genuine)

lemma register_genuine:
  "register_ready v now p c L \<Longrightarrow>
   genuine_receipt p \<and> schema_version (envelope p) = 3 \<and> genuine_receipt c \<and> schema_version (envelope c) = 3"
  by (auto simp: register_ready_def Let_def dest: verified_is_genuine)

lemma presented_snoc [simp]: "presented (ops @ [op]) = presented ops \<union> set (op_receipts op)"
  by (auto simp: presented_def)

text \<open>The receipts of a history that can be recorded: genuine ones of the schemas with a budget.\<close>

definition budgeted :: "authority_op list \<Rightarrow> authority_receipt set" where
  "budgeted ops = {r \<in> presented ops. genuine_receipt r \<and>
     (schema_version (envelope r) = 2 \<or> schema_version (envelope r) = 3)}"

lemma budgeted_snoc: "budgeted (ops @ [op]) = budgeted ops \<union> budgeted [op]"
  by (auto simp: budgeted_def presented_def)

lemma run_budget_log:
  assumes "al_run path ops es L" "\<forall>r \<in> budgeted ops. B (receipt_id r) = unat (max_uses (envelope r))"
  shows "budget_log B es"
  using assms
proof (induction rule: al_run.induct)
  case run_start
  then show ?case by (simp add: budget_log_def)
next
  case (run_ok ops es L op L')
  have IH: "budget_log B es" using run_ok.IH run_ok.prems by (simp add: budgeted_snoc)
  have B: "\<forall>r \<in> budgeted [op]. B (receipt_id r) = unat (max_uses (envelope r))"
    using run_ok.prems by (simp add: budgeted_snoc)
  show ?case
  proof (cases "op_event op (al_maps L)")
    case None
    with IH show ?thesis by (simp add: recorded_events_def)
  next
    case (Some ev)
    show ?thesis
    proof (cases rule: op_event_cases [OF Some])
      case (1 v now io r p subj scope)
      with run_ok.hyps(3) have ready: "authorize_ready v now r p subj scope L"
        by (simp only: authorize_call_ready)
      then have "r \<in> budgeted [op]" using authorize_genuine 1 by (simp add: budgeted_def presented_def)
      with budget_snoc_use [OF IH run_ok.hyps(1) ready] B 1 Some show ?thesis
        by (simp add: recorded_events_def)
    next
      case (2 v now io p c)
      with run_ok.hyps(3) have ready: "register_ready v now p c L"
        by (simp only: register_call_ready)
      then have "p \<in> budgeted [op]" "c \<in> budgeted [op]"
        using register_genuine 2 by (simp_all add: budgeted_def presented_def)
      with budget_snoc_delegate [OF IH run_ok.hyps(1) ready] B 2 Some show ?thesis
        by (simp add: recorded_events_def)
    next
      case 3
      then show ?thesis using budget_snoc_other [OF IH] Some by (simp add: recorded_events_def)
    qed
  qed
next
  case (run_failed ops es L op L')
  then show ?case by (simp add: budgeted_snoc)
qed

lemma run_depth_log:
  assumes "al_run path ops es L" "\<forall>r \<in> presented ops. R (receipt_id r) = r"
  shows "depth_log R es"
  using assms
proof (induction rule: al_run.induct)
  case run_start
  then show ?case by (simp add: depth_log_def lineage_def)
next
  case (run_ok ops es L op L')
  have IH: "depth_log R es" using run_ok.IH run_ok.prems by simp
  show ?case
  proof (cases "op_event op (al_maps L)")
    case None
    with IH show ?thesis by (simp add: recorded_events_def)
  next
    case (Some ev)
    show ?thesis
    proof (cases rule: op_event_cases [OF Some])
      case (1 v now io r p subj scope)
      with IH Some show ?thesis by (simp add: recorded_events_def depth_log_def lineage_def use_event_def)
    next
      case (2 v now io p c)
      with run_ok.hyps(3) have "register_ready v now p c L"
        by (simp only: register_call_ready)
      from depth_snoc_delegate [OF IH this] run_ok.prems 2 Some show ?thesis
        by (simp add: recorded_events_def)
    next
      case 3
      with IH Some show ?thesis by (simp add: recorded_events_def depth_log_def lineage_def)
    qed
  qed
next
  case (run_failed ops es L op L')
  then show ?case by simp
qed

lemma receipt_of_id:
  assumes "\<not> id_clash ops"
  shows "\<exists>R. \<forall>r \<in> presented ops. R (receipt_id r) = r"
proof (intro exI ballI)
  fix r assume "r \<in> presented ops"
  with assms show "(\<lambda>rid. SOME q. q \<in> presented ops \<and> receipt_id q = rid) (receipt_id r) = r"
    by (auto simp: id_clash_def intro!: some_equality)
qed

text \<open>
  Two genuine receipts of the history whose texts are a collision of SHA-256: their canonical
  envelopes, or the texts whose digests are their ids.
\<close>

definition genuine_collision :: "authority_op list \<Rightarrow> bool" where
  "genuine_collision ops \<longleftrightarrow> (\<exists>r \<in> presented ops. \<exists>q \<in> presented ops.
     genuine_receipt r \<and> genuine_receipt q \<and> receipts_collide r q)"

lemma same_id_same_budget:
  assumes "\<not> genuine_collision ops" "r \<in> presented ops" "genuine_receipt r" "q \<in> budgeted ops"
    "receipt_id r = receipt_id q"
  shows "max_uses (envelope r) = max_uses (envelope q)"
proof -
  have q: "q \<in> presented ops" "genuine_receipt q"
    "schema_version (envelope q) = 2 \<or> schema_version (envelope q) = 3"
    using assms(4) by (simp_all add: budgeted_def)
  with assms have "\<not> receipts_collide r q" by (auto simp: genuine_collision_def)
  then have "canonical_authority_envelope (envelope r) = canonical_authority_envelope (envelope q)"
    using assms(3,5) q(2) by (intro genuine_same_text)
  then show ?thesis
    using canonical_binds_max_uses [of "envelope q" "envelope r"] q assms(3) by (simp add: genuine_receipt_def)
qed

text \<open>The budget of an id: the uses its recordable receipts are signed for, none if there are none.\<close>

lemma budget_of_id:
  assumes "\<not> genuine_collision ops"
  shows "\<exists>B. (\<forall>r \<in> budgeted ops. B (receipt_id r) = unat (max_uses (envelope r))) \<and>
    (\<forall>r \<in> presented ops. genuine_receipt r \<longrightarrow> B (receipt_id r) \<le> unat (max_uses (envelope r)))"
proof -
  define B where "B = (\<lambda>rid. if \<exists>q \<in> budgeted ops. receipt_id q = rid
    then unat (max_uses (envelope (SOME q. q \<in> budgeted ops \<and> receipt_id q = rid))) else 0)"
  have pick: "(SOME q. q \<in> budgeted ops \<and> receipt_id q = rid) \<in> budgeted ops \<and>
      receipt_id (SOME q. q \<in> budgeted ops \<and> receipt_id q = rid) = rid"
    if "\<exists>q \<in> budgeted ops. receipt_id q = rid" for rid
    using that by (intro someI_ex [where P = "\<lambda>q. q \<in> budgeted ops \<and> receipt_id q = rid"]) blast
  have exact: "B (receipt_id r) = unat (max_uses (envelope r))"
    if "r \<in> presented ops" "genuine_receipt r" "\<exists>q \<in> budgeted ops. receipt_id q = receipt_id r" for r
    using same_id_same_budget [OF assms that(1,2)] pick [OF that(3)] that(3) by (metis B_def)
  then have "\<forall>r \<in> budgeted ops. B (receipt_id r) = unat (max_uses (envelope r))"
    by (auto simp: budgeted_def)
  moreover have "\<forall>r \<in> presented ops. genuine_receipt r \<longrightarrow> B (receipt_id r) \<le> unat (max_uses (envelope r))"
  proof (intro ballI impI)
    fix r assume "r \<in> presented ops" "genuine_receipt r"
    with exact show "B (receipt_id r) \<le> unat (max_uses (envelope r))"
      by (cases "\<exists>q \<in> budgeted ops. receipt_id q = receipt_id r") (auto simp: B_def)
  qed
  ultimately show ?thesis by blast
qed

lemma family_within:
  assumes "budget_log B es"
  shows "family_uses es n rid \<le> B rid"
proof (induction n arbitrary: rid)
  case 0
  then show ?case by simp
next
  case (Suc n)
  have "sum_list (map (family_uses es n) (children es rid)) \<le> sum_list (map B (children es rid))"
    using Suc.IH by (intro sum_list_mono) simp
  then show ?case using assms unfolding budget_log_def family_uses.simps
    by (meson add_left_mono order_trans)
qed

text \<open>
  C2. Delegation never creates authority.  In any history without a torn write, the recorded uses of a genuine
  receipt (a valid envelope under the id its content hashes to) and of everything delegated
  from it, to any depth, together stay within the number of uses its own envelope was signed
  for.  The only exception is a SHA-256 collision between two genuine receipts presented in
  that history: two different canonical envelopes with one digest, or two different id texts
  with one digest.  Receipts that are not genuine and newlines in the free-text fields make
  none: the budget is bound even where the rest of the text is ambiguous.
\<close>

theorem family_stays_within_budget:
  assumes "al_run path ops es L" and "r \<in> presented ops" and "genuine_receipt r"
  shows "family_uses es n (receipt_id r) \<le> unat (max_uses (envelope r)) \<or> genuine_collision ops"
proof (cases "genuine_collision ops")
  case False
  then obtain B where B: "\<forall>r \<in> budgeted ops. B (receipt_id r) = unat (max_uses (envelope r))"
    "B (receipt_id r) \<le> unat (max_uses (envelope r))"
    using budget_of_id assms(2,3) by blast
  from family_within [OF run_budget_log [OF assms(1) B(1)], of n "receipt_id r"] B(2)
  show ?thesis by simp
qed simp

theorem family_stays_within_budget_witness:
  "\<exists>L. al_run ''journal'' [op_trust, op_delegate] [ev_trust, ev_delegate] L \<and>
     (family_uses [ev_trust, ev_delegate] 9 (receipt_id parent_receipt) \<le> 5 \<or>
      genuine_collision [op_trust, op_delegate])"
proof -
  obtain L m where "live [op_trust, op_delegate] [ev_trust, ev_delegate] m L" using sample_delegated by blast
  then have run: "al_run ''journal'' [op_trust, op_delegate] [ev_trust, ev_delegate] L" by (rule live_run)
  have "parent_receipt \<in> presented [op_trust, op_delegate]" by (simp add: presented_def)
  moreover have "genuine_receipt parent_receipt"
    using parent_envelope_valid by (simp add: genuine_receipt_def parent_receipt_def sample_receipt_def)
  ultimately show ?thesis using family_stays_within_budget [OF run, of parent_receipt 9] run by auto
qed

section \<open>The climb through the lineage\<close>

lemma climb_finds_revoked:
  assumes "climb_revoked n m now c = Some a" "dep c < n \<or> n \<noteq> 0 \<and> map_of (am_parent m) c = None"
    "\<And>c p. map_of (am_parent m) c = Some p \<Longrightarrow> dep c = Suc (dep p)"
  shows "revoked_at m a now \<and> (c, a) \<in> {(c, p). map_of (am_parent m) c = Some p}\<^sup>+"
  using assms
proof (induction n arbitrary: c)
  case 0
  then show ?case by simp
next
  case (Suc n)
  obtain p where p: "map_of (am_parent m) c = Some p" using Suc.prems(1) by (auto split: option.splits)
  show ?case
  proof (cases "revoked_at m p now")
    case True
    then show ?thesis using Suc.prems(1) p by auto
  next
    case False
    then have "climb_revoked n m now p = Some a" using Suc.prems(1) p by simp
    moreover have "dep p < n" using Suc.prems(2) Suc.prems(3) [OF p] p by simp
    ultimately have "revoked_at m a now \<and> (p, a) \<in> {(c, p). map_of (am_parent m) c = Some p}\<^sup>+"
      using Suc.IH Suc.prems(3) by blast
    then show ?thesis using p by (auto intro: trancl_into_trancl2)
  qed
qed

text \<open>
  The nine iterations of \<open>ancestor_revoked\<close> are enough.  In any history, unless two of
  its receipts share an id, on a healthy ledger the climb answers "revoked" exactly when a proper
  ancestor of the receipt is revoked at that time: it never reports a lineage overflow, and
  never overlooks an ancestor.
\<close>

theorem ancestor_revoked_exact:
  assumes "al_run path ops es L" and "j_healthy (al_journal L)"
  shows "(ancestor_revoked (al_maps L) rid now \<noteq> None \<longleftrightarrow>
    (\<exists>a. (rid, a) \<in> (lineage es)\<^sup>+ \<and> revoked_at (al_maps L) a now)) \<or> id_clash ops"
proof (cases "id_clash ops")
  case False
  let ?m = "al_maps L"
  obtain R where R: "\<forall>r \<in> presented ops. R (receipt_id r) = r"
    using receipt_of_id [OF False] by blast
  have log: "depth_log R es" by (rule run_depth_log [OF assms(1) R])
  have m: "sem_list sem_event es empty_maps = Some ?m"
    using ledger_inv_healthy [OF al_run_inv [OF assms(1)] assms(2)] .
  have lin: "lineage es = {(c, p). map_of (am_parent ?m) c = Some p}"
    using lineage_maps [OF m] parent_logged [OF m] by auto
  define dep where "dep c = unat (delegation_depth (envelope (R c)))" for c
  have dep: "dep c = Suc (dep p)" "dep c \<le> 8" if "map_of (am_parent ?m) c = Some p" for c p
    using log that parent_logged [OF m that] by (auto simp: depth_log_def dep_def)
  have "dep rid < 9 \<or> (9 :: nat) \<noteq> 0 \<and> map_of (am_parent ?m) rid = None"
    using dep(2) [of rid] by (cases "map_of (am_parent ?m) rid") force+
  then have "climb_revoked 9 ?m now rid = Some a \<Longrightarrow> revoked_at ?m a now \<and> (rid, a) \<in> (lineage es)\<^sup>+" for a
    unfolding lin using dep(1) by (intro climb_finds_revoked [where dep = dep])
  moreover have "climb_revoked 9 ?m now rid = None \<Longrightarrow> (rid, a) \<in> (lineage es)\<^sup>+ \<Longrightarrow> \<not> revoked_at ?m a now" for a
    unfolding lin by (rule climb_revoked_None)
  ultimately show ?thesis unfolding ancestor_revoked_def by (cases "climb_revoked 9 ?m now rid") auto
qed simp

theorem ancestor_revoked_exact_witness:
  "\<exists>L. al_run ''journal'' [op_trust, op_delegate, op_revoke] [ev_trust, ev_delegate, ev_revoke] L \<and>
     (ancestor_revoked (al_maps L) (receipt_id child_receipt) 1700 \<noteq> None \<or>
      id_clash [op_trust, op_delegate, op_revoke])"
proof -
  let ?es = "[ev_trust, ev_delegate, ev_revoke]"
  obtain L m where L: "live [op_trust, op_delegate, op_revoke] ?es m L" using sample_revoked by blast
  then have run: "al_run ''journal'' [op_trust, op_delegate, op_revoke] ?es L" by (rule live_run)
  have "j_healthy (al_journal L)" using L by (simp add: live_def)
  moreover have "(receipt_id child_receipt, receipt_id parent_receipt) \<in> (lineage ?es)\<^sup>+"
    by (rule r_into_trancl) (simp add: lineage_def ev_delegate_def ev_trust_def ev_revoke_def)
  moreover have "revoked_at (al_maps L) (receipt_id parent_receipt) 1700"
    using logged_revocation [OF ledger_inv_healthy [OF al_run_inv [OF run] \<open>j_healthy (al_journal L)\<close>],
        of "receipt_id parent_receipt" 1600]
    by (simp add: ev_revoke_def revoked_at_def)
  ultimately show ?thesis
    using ancestor_revoked_exact [OF run, of "receipt_id child_receipt" 1700] run by blast
qed

section \<open>Attenuation along the lineage\<close>

definition link_attenuated :: "(string \<Rightarrow> authority_receipt) \<Rightarrow> string \<times> string \<Rightarrow> bool" where
  "link_attenuated R l \<longleftrightarrow> (case l of (c, p) \<Rightarrow>
     attenuates (envelope (R p)) (envelope (R c)) \<and> max_uses (envelope (R c)) < max_uses (envelope (R p)))"

lemma register_attenuates:
  assumes "register_ready v now p c L"
  shows "attenuates (envelope p) (envelope c) \<and> max_uses (envelope c) < max_uses (envelope p)"
proof -
  have "attenuates (envelope p) (envelope c)" "1 + receipt_limit c \<le> receipt_limit p"
    using assms unfolding register_ready_def Let_def by blast+
  moreover have "unat (1 + receipt_limit c) = 1 + unat (max_uses (envelope c))"
    using Suc_bounded [of "receipt_limit c" "receipt_limit c"] by (simp add: add.commute)
  ultimately show ?thesis by (simp add: word_less_nat_alt word_le_nat_alt)
qed

lemma run_link_attenuated:
  assumes "al_run path ops es L" "\<forall>r \<in> presented ops. R (receipt_id r) = r" "(c, p) \<in> lineage es"
  shows "link_attenuated R (c, p)"
proof -
  obtain e where e: "e \<in> set es" "(c, p) \<in> event_link e" using assms(3) by (auto simp: lineage_def)
  then obtain pre post where "es = pre @ e # post" by (meson split_list)
  from run_event [OF assms(1) this] obtain ops0 op L0 L1 where
    op: "op \<in> set ops" "op_event op (al_maps L0) = Some e" "al_call op L0 = (True, L1)" by blast
  show ?thesis
  proof (cases rule: op_event_cases [OF op(2)])
    case (2 v now io q d)
    with op(1) have "q \<in> presented ops" "d \<in> presented ops" by (force simp: presented_def)+
    moreover have "register_ready v now q d L0" using op(3) 2 by (simp only: register_call_ready)
    ultimately show ?thesis
      using register_attenuates [of v now q d L0] e(2) 2 assms(2)
      by (simp add: link_attenuated_def delegate_event_def)
  qed (use e(2) in \<open>simp_all add: use_event_def\<close>)
qed

text \<open>What a receipt lets its holder do, as an order: less scope, fewer capabilities, uses and time.\<close>

definition no_more_than :: "authority_envelope \<Rightarrow> authority_envelope \<Rightarrow> bool" where
  "no_more_than c p \<longleftrightarrow>
     purpose c = purpose p \<and> subject_id c = subject_id p \<and> signer_id c = signer_id p \<and>
     signer_key_id c = signer_key_id p \<and> authority_scope_contains (scope_path p) (scope_path c) \<and>
     authority_capabilities_contain (capabilities p) (capabilities c) \<and>
     expires_at_unix_ms c \<le> expires_at_unix_ms p \<and> max_uses c < max_uses p"

lemma no_more_than_trans: "no_more_than a b \<Longrightarrow> no_more_than b c \<Longrightarrow> no_more_than a c"
  unfolding no_more_than_def
  by (auto intro: scope_contains_trans capabilities_contain_trans)

text \<open>
  Attenuation is transitive.  In any history, unless two of its receipts share an id, every
  registered descendant of a receipt, at any distance, has the same purpose, subject and
  signer key, a scope contained in the ancestor's, no capability the ancestor lacks, no later
  expiry and strictly fewer uses.
\<close>

theorem descendants_are_attenuated:
  assumes "al_run path ops es L"
    and "c \<in> presented ops" and "a \<in> presented ops" and "(receipt_id c, receipt_id a) \<in> (lineage es)\<^sup>+"
  shows "no_more_than (envelope c) (envelope a) \<or> id_clash ops"
proof (cases "id_clash ops")
  case False
  then obtain R where R: "\<forall>r \<in> presented ops. R (receipt_id r) = r"
    using receipt_of_id by blast
  have step: "no_more_than (envelope (R x)) (envelope (R y))" if "(x, y) \<in> lineage es" for x y
    using run_link_attenuated [OF assms(1) R that]
    by (simp add: link_attenuated_def no_more_than_def attenuates_def)
  have "no_more_than (envelope (R (receipt_id c))) (envelope (R (receipt_id a)))"
    using assms(4) by (induction rule: trancl_induct) (blast intro: step no_more_than_trans)+
  then show ?thesis using R assms(2,3) by simp
qed simp

theorem descendants_are_attenuated_witness:
  "\<exists>L. al_run ''journal'' [op_trust, op_delegate] [ev_trust, ev_delegate] L \<and>
     (no_more_than child_envelope parent_envelope \<or> id_clash [op_trust, op_delegate])"
proof -
  obtain L m where "live [op_trust, op_delegate] [ev_trust, ev_delegate] m L" using sample_delegated by blast
  then have run: "al_run ''journal'' [op_trust, op_delegate] [ev_trust, ev_delegate] L" by (rule live_run)
  have "child_receipt \<in> presented [op_trust, op_delegate]" "parent_receipt \<in> presented [op_trust, op_delegate]"
    by (simp_all add: presented_def)
  moreover have "(receipt_id child_receipt, receipt_id parent_receipt) \<in> (lineage [ev_trust, ev_delegate])\<^sup>+"
    by (rule r_into_trancl) (simp add: lineage_def ev_delegate_def ev_trust_def)
  ultimately show ?thesis using descendants_are_attenuated [OF run, of child_receipt parent_receipt] run by auto
qed

section \<open>The authorisation decision\<close>

lemma append_on_success:
  assumes "append_event cfg io body j = (None, j')"
  shows "j' = j\<lparr>j_sequence := j_sequence j + 1, j_last := sha256 (record_text (j_sequence j + 1) (j_last j) body),
    j_file := file_append (j_file j) (record_line (record_text (j_sequence j + 1) (j_last j) body) @ [NL])\<rparr>"
  using assms by (auto simp: append_event_def Let_def split: if_splits io.splits)

lemma append_on_failure:
  assumes "append_event cfg io body j = (Some e, j')"
  shows "j' = j \<or> (\<exists>n. io = Write_Fail n \<and> j' = j\<lparr>j_file := file_append (j_file j)
    (take n (record_line (record_text (j_sequence j + 1) (j_last j) body) @ [NL]))\<rparr>)"
  using assms by (auto simp: append_event_def Let_def split: if_splits io.splits)

text \<open>
  C1. The decision.  \<open>authorize_and_consume\<close> succeeds exactly when the receipt verifies for
  the purpose and subject, the scope matches, the schema is 2 or 3, a delegated receipt is
  registered under its signed parent, the signer key is trusted and active, the receipt is
  within its validity and neither it nor an ancestor is revoked, its nonce is free or its
  own, uncommitted uses are left, and the journal accepts the record.  On success the journal
  has grown by exactly one line, the record of this use event under the next sequence number
  and the previous head, and the maps are those the replay of that event gives, with one use
  more for the receipt.  Otherwise the maps do not change; when the condition fails the call is
  refused and the whole ledger, journal and file included, is as it was; when only the append
  fails, the journal is as it was except that a torn write has left the bytes it wrote of that
  one line in the file.
\<close>

theorem authorize_decision:
  assumes "authorize_and_consume v now io r p subj scope L = (res, L')"
  shows "let ev = use_event now r (al_maps L); j = al_journal L;
           text = record_text (j_sequence j + 1) (j_last j) (encode_event ev);
           line = record_line text @ [NL] in
    (alr_ok res \<longleftrightarrow> authorize_ready v now r p subj scope L \<and>
      fst (append_event authority_cfg io (encode_event ev) j) = None) \<and>
    (alr_ok res \<longrightarrow> sem_event ev (al_maps L) = Some (al_maps L') \<and>
      use_count (al_maps L') (receipt_id r) = use_count (al_maps L) (receipt_id r) + 1 \<and>
      al_journal L' = j\<lparr>j_sequence := j_sequence j + 1, j_last := sha256 text,
        j_file := file_append (j_file j) line\<rparr>) \<and>
    (\<not> alr_ok res \<longrightarrow> al_maps L' = al_maps L) \<and>
    (\<not> authorize_ready v now r p subj scope L \<longrightarrow> refused L (res, L')) \<and>
    (authorize_ready v now r p subj scope L \<and> \<not> alr_ok res \<longrightarrow>
      al_journal L' = j \<or>
      (\<exists>n. io = Write_Fail n \<and> al_journal L' = j\<lparr>j_file := file_append (j_file j) (take n line)\<rparr>))"
proof (cases "authorize_ready v now r p subj scope L")
  case True
  let ?ev = "use_event now r (al_maps L)"
  have c: "commits io ?ev L (res, L')"
    using consume_commits [OF True] authorize_ready_commits [OF True] assms by metis
  have count: "use_count m' (receipt_id r) = use_count (al_maps L) (receipt_id r) + 1"
    if "sem_event ?ev (al_maps L) = Some m'" for m'
    using that by (auto simp: use_event_def use_count_def Let_def update_conv' split: if_splits option.splits)
  obtain e j' where a: "append_event authority_cfg io (encode_event ?ev) (al_journal L) = (e, j')"
    by fastforce
  show ?thesis
  proof (cases e)
    case None
    with a c True append_on_success [OF a [unfolded None]] count show ?thesis
      by (auto simp: commits_def al_commit_def alr_ok_def al_allowed_def al_result_def Let_def)
  next
    case (Some msg)
    with a c True append_on_failure [OF a [unfolded Some]] show ?thesis
      by (auto simp: commits_def al_commit_def alr_ok_def al_allowed_def al_result_def Let_def)
  qed
next
  case False
  with authorize_refused [OF False, of io] assms show ?thesis
    by (auto simp: refused_def alr_ok_def Let_def)
qed

theorem authorize_decision_witness:
  "\<exists>L L' res. authorize_and_consume sample_verifier 1500 Write_Ok used_receipt CapabilityGrant ''subject''
      (sha256 ''/repo'') L = (res, L') \<and>
    authorize_ready sample_verifier 1500 used_receipt CapabilityGrant ''subject'' (sha256 ''/repo'') L"
proof -
  obtain L L' where L: "al_call op_use L = (True, L')" using sample_used by blast
  then obtain res where res: "authorize_and_consume sample_verifier 1500 Write_Ok used_receipt CapabilityGrant
      ''subject'' (sha256 ''/repo'') L = (res, L')" "alr_ok res" by (auto simp: map_prod_def split: prod.splits)
  from authorize_decision [OF res(1), unfolded Let_def] res show ?thesis by blast
qed

end
