(* ===== verification/Authority_Ledger_Journal.thy ===== *)
theory Authority_Ledger_Journal
  imports Authority_Ledger_Samples
begin

text \<open>
  The durable side of an \<open>AuthorityLedger\<close>: reloading the journal restores the ledger, two
  journals with one head are one history, and the one file system outcome that breaks this
  (a write that fails after part of the line has reached the file).
\<close>

section \<open>Reloading\<close>

text \<open>
  C4. Round trip.  In any history, reloading the journal succeeds and restores exactly the
  maps that the recorded events mean; on a healthy ledger it is the identity on the whole
  object (sequence number, head, error list and maps).
\<close>

theorem replay_restores_ledger:
  assumes "al_run path ops es L"
  shows "fst (al_replay True L) \<and> sem_list sem_event es empty_maps = Some (al_maps (snd (al_replay True L))) \<and>
    (j_healthy (al_journal L) \<longrightarrow> snd (al_replay True L) = L)"
proof -
  have inv: "ledger_inv es L" using assms by (rule al_run_inv)
  obtain ok L' where r: "al_replay True L = (ok, L')" by (cases "al_replay True L")
  note R = ledger_inv_replay [OF inv r]
  have "sem_list sem_event es empty_maps = Some (al_maps L')"
    using ledger_inv_healthy [OF R(1)] R(2,3) by simp
  moreover have "L' = L" if "j_healthy (al_journal L)"
    using auth.replay_healthy_id [of es "al_journal L" "al_maps L"] inv that r
    by (simp add: ledger_inv_def al_replay_def list_all_iff)
  ultimately show ?thesis using R(2) r by simp
qed

theorem replay_restores_ledger_witness:
  "\<exists>L. al_run ''journal'' [op_trust, op_delegate, op_revoke] [ev_trust, ev_delegate, ev_revoke] L \<and>
     snd (al_replay True L) = L"
proof -
  obtain L m where L: "live [op_trust, op_delegate, op_revoke] [ev_trust, ev_delegate, ev_revoke] m L"
    using sample_revoked by blast
  from replay_restores_ledger [OF live_run [OF L]] live_run [OF L] L show ?thesis by (auto simp: live_def)
qed

section \<open>Tampering\<close>

abbreviation fresh_journal :: "string \<Rightarrow> string option \<Rightarrow> journal" where
  "fresh_journal path file \<equiv> \<lparr>j_path = path, j_sequence = 0, j_last = [], j_healthy = True, j_errors = [],
     j_file = file\<rparr>"

lemma construct_fresh:
  "al_construct path file ok = (case replay authority_cfg authority_handler empty_maps ok (fresh_journal path file) of
     (j, m) \<Rightarrow> \<lparr>al_journal = j, al_maps = m\<rparr>)"
  by (simp add: al_construct_def al_replay_def split: prod.splits)

lemma replay_lines_filter:
  assumes "replay_lines cfg handler n ls acc = (None, x)"
  shows "replay_lines cfg handler n' (filter (\<lambda>l. l \<noteq> []) ls) acc = (None, x)"
  using assms
proof (induction cfg handler n ls acc arbitrary: n' rule: replay_lines.induct)
  case (1 cfg handler n acc)
  then show ?case by simp
next
  case (2 cfg handler n line rest sequence last_sha st)
  show ?case
  proof (cases "line = []")
    case True
    then show ?thesis using 2 by simp
  next
    case False
    with 2(3) obtain q fs st' where
      "check_record cfg (Suc n) sequence last_sha line = Inr (q, fs)" "handler fs st = Some st'"
      "replay_lines cfg handler (Suc n) rest (q, last fs, st') = (None, x)"
      by (auto split: sum.splits option.splits)
    moreover from this(1) have "check_record cfg (Suc n') sequence last_sha line = Inr (q, fs)"
      by (auto simp: check_record_def Let_def split: if_splits option.splits)
    ultimately show ?thesis using 2(2) False by simp
  qed
qed

lemma construct_healthy:
  assumes "j_healthy (al_journal (al_construct path (Some content) True))" "path \<noteq> []"
  shows "chained (record_lines content) (j_sequence (al_journal (al_construct path (Some content) True)))
      (j_last (al_journal (al_construct path (Some content) True)))"
    "replay_lines authority_cfg authority_handler 0 (record_lines content) (0, [], empty_maps) =
      (None, j_sequence (al_journal (al_construct path (Some content) True)),
       j_last (al_journal (al_construct path (Some content) True)),
       al_maps (al_construct path (Some content) True))"
proof -
  obtain j m where r: "replay authority_cfg authority_handler empty_maps True (fresh_journal path (Some content)) = (j, m)"
    by fastforce
  then have L: "al_construct path (Some content) True = \<lparr>al_journal = j, al_maps = m\<rparr>"
    by (simp add: construct_fresh)
  show "chained (record_lines content) (j_sequence (al_journal (al_construct path (Some content) True)))
      (j_last (al_journal (al_construct path (Some content) True)))"
    using replay_chained [OF r] assms by (simp add: L)
  obtain e q l st where
    c: "replay_lines authority_cfg authority_handler 0 (getlines content) (0, [], empty_maps) = (e, q, l, st)"
    by (metis prod_cases4)
  with r assms have "e = None" "j_sequence j = q" "j_last j = l" "m = st"
    by (auto simp: replay_def Let_def L)
  with replay_lines_filter c show "replay_lines authority_cfg authority_handler 0 (record_lines content) (0, [], empty_maps) =
      (None, j_sequence (al_journal (al_construct path (Some content) True)),
       j_last (al_journal (al_construct path (Some content) True)),
       al_maps (al_construct path (Some content) True))"
    by (simp add: L record_lines_def)
qed

text \<open>
  C27. Tamper evidence.  If two journal files both load as healthy and end in the same
  sequence number and head hash, then they hold the same records and give the same ledger, or
  a SHA-256 collision can be read off them.  So whoever keeps the head detects any edit,
  removal, reordering or insertion of records.
\<close>

theorem journal_head_commits_to_history:
  assumes "L = al_construct path (Some c) True" and "L' = al_construct path' (Some c') True"
    and "path \<noteq> []" and "path' \<noteq> []"
    and "j_healthy (al_journal L)" and "j_healthy (al_journal L')"
    and "j_sequence (al_journal L) = j_sequence (al_journal L')" and "j_last (al_journal L) = j_last (al_journal L')"
    and "length (record_lines c) < 2 ^ 64" and "length (record_lines c') < 2 ^ 64"
  shows "record_lines c = record_lines c' \<and> al_maps L = al_maps L' \<or>
    collision_between (record_lines c) (record_lines c')"
proof -
  note A = construct_healthy [of path c, folded assms(1), OF assms(5,3)]
  note B = construct_healthy [of path' c', folded assms(2), OF assms(6,4)]
  have "record_lines c = record_lines c' \<or> collision_between (record_lines c) (record_lines c')"
    using chained_same_head [OF A(1) _ assms(9,10)] B(1) assms(7,8) by simp
  moreover have "al_maps L = al_maps L'" if "record_lines c = record_lines c'"
    using A(2) B(2) that by simp
  ultimately show ?thesis by blast
qed

text \<open>The file that \<open>revoke_receipt\<close> on a fresh ledger writes.\<close>

definition revocation_line :: "string \<Rightarrow> u64 \<Rightarrow> string" where
  "revocation_line rid t = record_line (record_text 1 [] (encode_event (Ev_RevokeReceipt rid t)))"

lemma revocation_file_loads:
  assumes "valid_receipt_id rid" "t \<noteq> 0" "path \<noteq> []"
  shows "j_healthy (al_journal (al_construct path (Some (file_of_lines [revocation_line rid t])) True))"
proof -
  have "log_lines encode_event [Ev_RevokeReceipt rid t] 0 [] = [revocation_line rid t]"
    by (simp add: revocation_line_def Let_def)
  then have holds: "file_holds encode_event [Ev_RevokeReceipt rid t] (fresh_journal path (Some (file_of_lines [revocation_line rid t])))"
    by (simp add: file_holds_def)
  obtain m where m: "sem_list sem_event [Ev_RevokeReceipt rid t] empty_maps = Some m"
    using assms by (simp add: empty_maps_def)
  obtain j st where r: "replay authority_cfg authority_handler empty_maps True
      (fresh_journal path (Some (file_of_lines [revocation_line rid t]))) = (j, st)" by fastforce
  have "in_sync encode_event sem_event empty_maps [Ev_RevokeReceipt rid t] j st"
    using auth.replay_in_sync(1) [OF holds _ m _ r] assms(3) by simp
  then show ?thesis by (simp add: construct_fresh r in_sync_def)
qed

theorem journal_head_commits_to_history_witness:
  "\<exists>c. al_maps (al_construct ''a'' (Some c) True) = al_maps (al_construct ''b'' (Some c) True) \<and>
      j_healthy (al_journal (al_construct ''a'' (Some c) True)) \<and> length (record_lines c) = 1 \<or>
    collision_between (record_lines c) (record_lines c)"
proof -
  let ?c = "file_of_lines [revocation_line (receipt_id used_receipt) 5]"
  have healthy: "j_healthy (al_journal (al_construct ''a'' (Some ?c) True))"
    "j_healthy (al_journal (al_construct ''b'' (Some ?c) True))"
    by (simp_all add: revocation_file_loads parent_receipt_id_valid)
  have "getlines ?c = [revocation_line (receipt_id used_receipt) 5]"
    by (rule getlines_file_of_lines)
      (simp add: revocation_line_def record_line_no_NL record_text_no_NL auth.encode_no_NL del: encode_event.simps)
  then have one: "length (record_lines ?c) = 1"
    by (simp add: record_lines_def revocation_line_def)
  have eqs: "j_sequence (al_journal (al_construct ''a'' (Some ?c) True)) =
      j_sequence (al_journal (al_construct ''b'' (Some ?c) True))"
    "j_last (al_journal (al_construct ''a'' (Some ?c) True)) =
      j_last (al_journal (al_construct ''b'' (Some ?c) True))"
    using construct_healthy(2) [OF healthy(1)] construct_healthy(2) [OF healthy(2)] by simp_all
  have "length (record_lines ?c) < 2 ^ 64" using one by simp
  with journal_head_commits_to_history [OF refl refl _ _ healthy eqs] healthy one show ?thesis
    by (intro exI [of _ ?c]) auto
qed

section \<open>Torn writes\<close>

lemma show_u_1: "show_u (1 :: u64) = ''1''"
  by (simp add: show_u_def nat_digits.simps digit_char_def char_of_def bit_0)

lemma parse_11: "parse_unsigned ''11'' = Some (11 :: u64)"
  by (simp add: parse_unsigned_def is_digit_def digits_val_def digit_val_def)

text \<open>
  A write that fails part-way is not undone.  On a fresh ledger, let the first append
  fail after one byte (the caller is told \<open>STORAGE_ERROR\<close>) and the next succeed: it reports
  \<open>ALLOWED\<close> and the ledger stays healthy in memory, but the journal on disk no longer loads,
  so the recorded revocation is lost at the next start.
\<close>

theorem torn_write_poisons_journal:
  assumes "path \<noteq> []" and "valid_receipt_id rid" and "t \<noteq> 0"
  shows "\<exists>r1 r2 L1 L2. revoke_receipt (Write_Fail 1) rid t (al_construct path None True) = (r1, L1) \<and>
    alr_status r1 = ALS_StorageError \<and>
    revoke_receipt Write_Ok rid t L1 = (r2, L2) \<and> alr_status r2 = ALS_Allowed \<and>
    j_healthy (al_journal L2) \<and> receipt_revoked (al_maps L2) rid \<and>
    \<not> fst (al_replay True L2) \<and> \<not> receipt_revoked (al_maps (snd (al_replay True L2))) rid"
proof -
  let ?ev = "Ev_RevokeReceipt rid t"
  let ?rest = "TAB # previous_hash [] @ TAB # encode_event ?ev @ TAB # sha256 (record_text 1 [] (encode_event ?ev))"
  have line: "revocation_line rid t = CHR ''1'' # ?rest"
    by (simp add: revocation_line_def record_line_def record_text_def show_u_1 del: encode_event.simps)
  have L0: "al_construct path None True = \<lparr>al_journal = fresh_journal path None, al_maps = empty_maps\<rparr>"
    by (simp add: construct_fresh replay_def Let_def)
  define L1 where "L1 = \<lparr>al_journal = fresh_journal path (Some ''1''), al_maps = empty_maps\<rparr>"
  define torn where "torn = CHR ''1'' # revocation_line rid t"
  obtain r1 where first: "revoke_receipt (Write_Fail 1) rid t (al_construct path None True) = (r1, L1)"
      "alr_status r1 = ALS_StorageError"
    using assms line
    by (simp add: L0 L1_def revoke_receipt_def empty_maps_def al_commit_def append_event_def Let_def
        file_append_def revocation_line_def del: encode_event.simps)
  obtain r2 L2 where second: "revoke_receipt Write_Ok rid t L1 = (r2, L2)" "alr_status r2 = ALS_Allowed"
      "j_healthy (al_journal L2)" "receipt_revoked (al_maps L2) rid" "j_path (al_journal L2) = path"
      "j_file (al_journal L2) = Some (file_of_lines [torn])"
    using assms
    by (simp add: L1_def revoke_receipt_def empty_maps_def al_commit_def append_event_def Let_def torn_def
        file_append_def revocation_line_def file_of_lines_def al_allowed_def al_result_def receipt_revoked_def
        del: encode_event.simps)
  have "NL \<notin> set torn"
    by (simp add: torn_def revocation_line_def record_line_no_NL record_text_no_NL auth.encode_no_NL
        del: encode_event.simps)
  then have lines: "getlines (file_of_lines [torn]) = [torn]" by (simp add: getlines_file_of_lines)
  have "split_tabs torn ! 0 = ''11''"
    unfolding torn_def line using split_tabs_Cons [of "''11''"] by simp
  then have "\<exists>e. check_record authority_cfg 1 0 [] torn = Inl e"
    by (auto simp: check_record_def Let_def parse_11)
  then have "\<exists>e. replay_lines authority_cfg authority_handler 0 [torn] (0, [], empty_maps) = (Some e, 0, [], empty_maps)"
    by (auto simp: torn_def)
  with second lines assms(1) have "\<not> fst (al_replay True L2)" "al_maps (snd (al_replay True L2)) = empty_maps"
    by (auto simp: al_replay_def replay_def Let_def)
  then have "\<not> receipt_revoked (al_maps (snd (al_replay True L2))) rid"
    by (simp add: receipt_revoked_def empty_maps_def)
  with first second \<open>\<not> fst (al_replay True L2)\<close> show ?thesis
    by (intro exI [of _ r1] exI [of _ r2] exI [of _ L1] exI [of _ L2] conjI)
qed


theorem torn_write_poisons_journal_witness:
  "\<exists>r1 r2 L1 L2. revoke_receipt (Write_Fail 1) (receipt_id used_receipt) 5 (al_construct ''journal'' None True) = (r1, L1) \<and>
    alr_status r1 = ALS_StorageError \<and>
    revoke_receipt Write_Ok (receipt_id used_receipt) 5 L1 = (r2, L2) \<and> alr_status r2 = ALS_Allowed \<and>
    \<not> fst (al_replay True L2)"
  using torn_write_poisons_journal [of "''journal''" "receipt_id used_receipt" 5] parent_receipt_id_valid
  by auto

end
