(* ===== verification/Authority_Delegation.thy ===== *)
theory Authority_Delegation
  imports Authority_Ledger_Safety
begin

text \<open>
  \<open>AuthorityDelegator\<close> (\<open>include/guff/authority_delegation.hpp\<close>,
  \<open>src/authority_delegation.cpp\<close>): minting a child receipt from a parent.

  \<open>delegate\<close> checks the request against the signed parent, builds and signs the child
  envelope and registers it in the ledger.  The delegator and the ledger each hold a verifier
  (\<open>dv\<close>, \<open>lv\<close>).  The theory shows that an issued child is registered, accepted by the ledger's
  own test and attenuated, and that every other answer leaves the ledger as it was.
\<close>

section \<open>Data\<close>

datatype delegation_status =
  DS_Issued | DS_InvalidParent | DS_ParentUnavailable | DS_ScopeAmplification
| DS_CapabilityAmplification | DS_LifetimeAmplification | DS_UseAmplification
| DS_PurposeAmplification | DS_SubjectAmplification | DS_DepthExceeded | DS_SignerMismatch
| DS_NoAttenuation | DS_SigningFailed | DS_LedgerRejected

record delegation_request =
  dq_parent :: authority_receipt
  dq_actor_reference :: string
  dq_issued_at_utc :: string
  dq_nonce :: string
  dq_scope_path :: string
  dq_capabilities :: "string list"
  dq_issued_at :: u64
  dq_expires_at :: u64
  dq_max_uses :: u32
  dq_max_delegation_depth :: u32

record delegation_result =
  dr_status :: delegation_status
  dr_child :: "authority_receipt option"
  dr_errors :: "string list"

definition dr_ok :: "delegation_result \<Rightarrow> bool" where
  "dr_ok r \<longleftrightarrow> dr_status r = DS_Issued \<and> dr_child r \<noteq> None"

definition dr_fail :: "delegation_status \<Rightarrow> string list \<Rightarrow> delegation_result" where
  "dr_fail st es = \<lparr>dr_status = st, dr_child = None, dr_errors = es\<rparr>"

section \<open>Minting a child\<close>

definition strictly_attenuated :: "authority_envelope \<Rightarrow> authority_envelope \<Rightarrow> bool" where
  "strictly_attenuated parent child \<longleftrightarrow>
     scope_path child \<noteq> scope_path parent \<or>
     length (capabilities child) < length (capabilities parent) \<or>
     expires_at_unix_ms child < expires_at_unix_ms parent \<or>
     max_uses child < max_uses parent \<or>
     max_delegation_depth child < max_delegation_depth parent"

text \<open>Zero means inherit the parent's ceiling.\<close>

definition child_max_depth :: "delegation_request \<Rightarrow> u32" where
  "child_max_depth q =
     (if dq_max_delegation_depth q = 0 then max_delegation_depth (envelope (dq_parent q))
      else dq_max_delegation_depth q)"

definition child_envelope_of :: "delegation_request \<Rightarrow> authority_envelope" where
  "child_envelope_of q =
     (let p = envelope (dq_parent q) in
      \<lparr>schema_version = 3, purpose = purpose p, subject_id = subject_id p,
       actor_reference = dq_actor_reference q, signer_id = signer_id p, signer_key_id = signer_key_id p,
       issued_at_utc = dq_issued_at_utc q, issued_at_unix_ms = dq_issued_at q,
       expires_at_unix_ms = dq_expires_at q, max_uses = dq_max_uses q, nonce = dq_nonce q,
       scope_sha256 = sha256 (dq_scope_path q), parent_receipt_id = receipt_id (dq_parent q),
       delegation_depth = delegation_depth p + 1, max_delegation_depth = child_max_depth q,
       scope_path = dq_scope_path q, capabilities = dq_capabilities q\<rparr>)"

definition delegate ::
    "authority_verifier \<Rightarrow> authority_verifier \<Rightarrow> u64 \<Rightarrow> io \<Rightarrow> delegation_request \<Rightarrow> authority_signer \<Rightarrow>
     authority_ledger \<Rightarrow> delegation_result \<times> authority_ledger" where
  "delegate dv lv now io q signer L =
     (let parent = dq_parent q; p = envelope parent;
          pv = verify_authority_receipt parent dv (purpose p) (subject_id p);
          child_depth = delegation_depth p + 1
      in
      if schema_version p \<noteq> 3 \<or> 96 < length (parent_receipt_id p)
      then (dr_fail DS_InvalidParent [''delegation requires a valid schema v3 parent receipt''], L)
      else if \<not> avr_ok pv then (dr_fail DS_InvalidParent (avr_errors pv), L)
      else if sig_signer_id signer \<noteq> signer_id p \<or> sig_algorithm signer \<noteq> algorithm parent
      then (dr_fail DS_SignerMismatch
             [''delegation child must be signed by the same trusted signer identity and algorithm as its parent''], L)
      else if max_delegation_depth p \<le> delegation_depth p
      then (dr_fail DS_DepthExceeded [''parent receipt has no remaining delegation depth''], L)
      else if \<not> authority_scope_contains (scope_path p) (dq_scope_path q)
      then (dr_fail DS_ScopeAmplification [''child scope_path escapes the signed parent scope''], L)
      else if \<not> authority_capabilities_contain (capabilities p) (dq_capabilities q)
      then (dr_fail DS_CapabilityAmplification
             [''child capability set is not a subset of the parent capability set''], L)
      else if dq_issued_at q < issued_at_unix_ms p \<or> expires_at_unix_ms p < dq_expires_at q \<or>
              dq_expires_at q \<le> dq_issued_at q
      then (dr_fail DS_LifetimeAmplification
             [''child lifetime must fit entirely inside the parent lifetime''], L)
      else if dq_max_uses q = 0 \<or> max_uses p < dq_max_uses q
      then (dr_fail DS_UseAmplification
             [''child max_uses must be non-zero and no greater than the parent budget''], L)
      else if child_max_depth q < child_depth \<or> max_delegation_depth p < child_max_depth q
      then (dr_fail DS_DepthExceeded
             [''child delegation ceiling must stay within the parent ceiling''], L)
      else if dq_actor_reference q = [] \<or> 256 < length (dq_actor_reference q) \<or>
              dq_issued_at_utc q = [] \<or> 128 < length (dq_issued_at_utc q) \<or>
              dq_nonce q = [] \<or> 128 < length (dq_nonce q)
      then (dr_fail DS_InvalidParent [''delegation actor/time/nonce metadata is invalid''], L)
      else if \<not> strictly_attenuated p (child_envelope_of q)
      then (dr_fail DS_NoAttenuation
             [''delegation must make at least one authority dimension strictly narrower''], L)
      else (case issue_authority_receipt (child_envelope_of q) signer of
        Inl signing_errors \<Rightarrow> (dr_fail DS_SigningFailed signing_errors, L)
      | Inr child \<Rightarrow>
          (case register_delegation lv now io parent child L of
             (registration, L') \<Rightarrow>
               if \<not> alr_ok registration
               then (dr_fail DS_LedgerRejected (alr_errors registration), L')
               else (\<lparr>dr_status = DS_Issued, dr_child = Some child, dr_errors = []\<rparr>, L'))))"

fun delegation_status_to_string :: "delegation_status \<Rightarrow> string" where
  "delegation_status_to_string DS_Issued = ''ISSUED''"
| "delegation_status_to_string DS_InvalidParent = ''INVALID_PARENT''"
| "delegation_status_to_string DS_ParentUnavailable = ''PARENT_UNAVAILABLE''"
| "delegation_status_to_string DS_ScopeAmplification = ''SCOPE_AMPLIFICATION''"
| "delegation_status_to_string DS_CapabilityAmplification = ''CAPABILITY_AMPLIFICATION''"
| "delegation_status_to_string DS_LifetimeAmplification = ''LIFETIME_AMPLIFICATION''"
| "delegation_status_to_string DS_UseAmplification = ''USE_AMPLIFICATION''"
| "delegation_status_to_string DS_PurposeAmplification = ''PURPOSE_AMPLIFICATION''"
| "delegation_status_to_string DS_SubjectAmplification = ''SUBJECT_AMPLIFICATION''"
| "delegation_status_to_string DS_DepthExceeded = ''DEPTH_EXCEEDED''"
| "delegation_status_to_string DS_SignerMismatch = ''SIGNER_MISMATCH''"
| "delegation_status_to_string DS_NoAttenuation = ''NO_ATTENUATION''"
| "delegation_status_to_string DS_SigningFailed = ''SIGNING_FAILED''"
| "delegation_status_to_string DS_LedgerRejected = ''LEDGER_REJECTED''"

section \<open>What an answer means\<close>

lemma dr_fail_not_ok [simp]: "\<not> dr_ok (dr_fail st es)" "dr_child (dr_fail st es) = None"
  "dr_fail st es \<noteq> \<lparr>dr_status = DS_Issued, dr_child = Some c, dr_errors = es'\<rparr>"
  by (simp_all add: dr_ok_def dr_fail_def)

text \<open>An answer other than \<open>Issued\<close> was given before the ledger or by the ledger.\<close>

definition delegate_answer ::
    "authority_verifier \<Rightarrow> u64 \<Rightarrow> io \<Rightarrow> delegation_request \<Rightarrow> authority_signer \<Rightarrow> authority_ledger \<Rightarrow>
     delegation_result \<times> authority_ledger \<Rightarrow> bool" where
  "delegate_answer lv now io q signer L x \<longleftrightarrow>
     \<not> dr_ok (fst x) \<and> snd x = L
     \<or> (\<exists>child reg L'. issue_authority_receipt (child_envelope_of q) signer = Inr child \<and>
          register_delegation lv now io (dq_parent q) child L = (reg, L') \<and> snd x = L' \<and>
          (if alr_ok reg then fst x = \<lparr>dr_status = DS_Issued, dr_child = Some child, dr_errors = []\<rparr>
           else fst x = dr_fail DS_LedgerRejected (alr_errors reg)))"

lemma delegate_answers: "delegate_answer lv now io q signer L (delegate dv lv now io q signer L)"
proof -
  have if_step: "delegate_answer lv now io q signer L (if c then (dr_fail st es, L) else X)"
    if "delegate_answer lv now io q signer L X" for c st es X
    using that by (simp add: delegate_answer_def)
  show ?thesis unfolding delegate_def Let_def
    by (intro if_step) (auto simp: delegate_answer_def split: sum.splits prod.splits)
qed

lemma issue_InrD:
  assumes "issue_authority_receipt e signer = Inr r"
  shows "envelope r = e" "algorithm r = sig_algorithm signer" "validate_envelope e = []"
  using assms by (auto simp: issue_authority_receipt_def Let_def split: if_splits)

text \<open>An issued child went through the ledger's reservation.\<close>

lemma delegate_okE:
  assumes "delegate dv lv now io q signer L = (res, L')" "dr_ok res"
  obtains child reg where "dr_child res = Some child" "envelope child = child_envelope_of q"
    "validate_envelope (envelope child) = []" "algorithm child = sig_algorithm signer"
    "register_ready lv now (dq_parent q) child L" "reserve now io (dq_parent q) child L = (reg, L')" "alr_ok reg"
proof -
  obtain child reg where child: "issue_authority_receipt (child_envelope_of q) signer = Inr child"
    "register_delegation lv now io (dq_parent q) child L = (reg, L')" "alr_ok reg" "dr_child res = Some child"
    using delegate_answers [of lv now io q signer L dv] assms
    by (auto simp: delegate_answer_def split: if_splits)
  have ready: "register_ready lv now (dq_parent q) child L"
    using register_refused [of lv now "dq_parent q" child L io] child(2,3) by (auto simp: refused_def alr_ok_def)
  have "reserve now io (dq_parent q) child L = (reg, L')"
    using register_ready_commits [OF ready] child(2) by metis
  with child ready issue_InrD [OF child(1)] that show thesis by simp
qed

lemma reserve_maps:
  assumes "reserve now io p c L = (reg, L')" "alr_ok reg"
  shows "map_of (am_parent (al_maps L')) (receipt_id c) = Some (receipt_id p)"
    "use_count (al_maps L') (receipt_id p) = use_count (al_maps L) (receipt_id p) + 1"
    "delegated_uses (al_maps L') (receipt_id p) = delegated_uses (al_maps L) (receipt_id p) + receipt_limit c"
  using assms by (auto simp: reserve_def Let_def use_count_def delegated_uses_def dest!: al_commit_ok)

lemma ready_no_more_than: "register_ready lv now p c L \<Longrightarrow> no_more_than (envelope c) (envelope p)"
  using register_attenuates by (auto simp: no_more_than_def attenuates_def)

text \<open>
  C32. An issued child is real authority, and no more than the parent's.  When \<open>delegate\<close>
  answers \<open>Issued\<close>, the child carries exactly the requested envelope, satisfies the ledger's
  own condition, is registered under the parent (its uses are reserved and one use is charged
  to the parent), and holds no more than the parent does.
\<close>

theorem issued_child_is_registered:
  assumes "delegate dv lv now io q signer L = (res, L')" and "dr_ok res"
  shows "\<exists>child. dr_child res = Some child \<and> envelope child = child_envelope_of q \<and>
    register_ready lv now (dq_parent q) child L \<and>
    map_of (am_parent (al_maps L')) (receipt_id child) = Some (receipt_id (dq_parent q)) \<and>
    use_count (al_maps L') (receipt_id (dq_parent q)) = use_count (al_maps L) (receipt_id (dq_parent q)) + 1 \<and>
    delegated_uses (al_maps L') (receipt_id (dq_parent q)) =
      delegated_uses (al_maps L) (receipt_id (dq_parent q)) + receipt_limit child \<and>
    no_more_than (child_envelope_of q) (envelope (dq_parent q))"
proof -
  obtain child reg where child: "dr_child res = Some child" "envelope child = child_envelope_of q"
    "register_ready lv now (dq_parent q) child L" "reserve now io (dq_parent q) child L = (reg, L')" "alr_ok reg"
    using delegate_okE [OF assms] by metis
  with reserve_maps [OF child(4,5)] ready_no_more_than [OF child(3)] show ?thesis by auto
qed

definition sample_request :: delegation_request where
  "sample_request = \<lparr>dq_parent = parent_receipt, dq_actor_reference = ''alice'',
     dq_issued_at_utc = ''2026-01-01T00:00:00Z'', dq_nonce = ''n4'', dq_scope_path = ''/repo/src'',
     dq_capabilities = [''read''], dq_issued_at = 1000, dq_expires_at = 2000, dq_max_uses = 2,
     dq_max_delegation_depth = 0\<rparr>"

lemma sample_request_child: "child_envelope_of sample_request = child_envelope"
  by (simp add: child_envelope_of_def sample_request_def child_max_depth_def)
    (simp add: child_envelope_def parent_envelope_def sample_envelope_def)

lemma sample_request_issued:
  "issue_authority_receipt (child_envelope_of sample_request) sample_signer = Inr child_receipt"
  using issue_sample [OF child_envelope_valid] by (simp add: sample_request_child child_receipt_def)

lemma sample_delegates:
  "\<exists>L L' res. delegate sample_verifier sample_verifier 1500 Write_Ok sample_request sample_signer L = (res, L') \<and>
     dr_ok res"
proof -
  obtain L L' where "al_call op_delegate L = (True, L')" using sample_delegated by blast
  then obtain reg where reg: "register_delegation sample_verifier 1500 Write_Ok parent_receipt child_receipt L = (reg, L')"
    "alr_ok reg" by (auto simp: map_prod_def split: prod.splits)
  have "delegate sample_verifier sample_verifier 1500 Write_Ok sample_request sample_signer L =
      (\<lparr>dr_status = DS_Issued, dr_child = Some child_receipt, dr_errors = []\<rparr>, L')"
    using reg unfolding delegate_def Let_def sample_request_issued
    by (simp add: sample_request_def verify_samples avr_ok_def sample_signer_def authority_scope_contains_def
        authority_capabilities_contain_def canonical_capabilities_def child_max_depth_def strictly_attenuated_def
        child_envelope_of_def)
  then show ?thesis by (intro exI) (auto simp: dr_ok_def)
qed

theorem issued_child_is_registered_witness:
  "\<exists>L L' res child. delegate sample_verifier sample_verifier 1500 Write_Ok sample_request sample_signer L = (res, L') \<and>
     dr_child res = Some child \<and> envelope child = child_envelope \<and>
     map_of (am_parent (al_maps L')) (receipt_id child) = Some (receipt_id parent_receipt)"
proof -
  obtain L L' res where d: "delegate sample_verifier sample_verifier 1500 Write_Ok sample_request sample_signer L = (res, L')"
    "dr_ok res" using sample_delegates by blast
  from issued_child_is_registered [OF this] d show ?thesis
    by (auto simp: sample_request_child) (auto simp: sample_request_def)
qed

text \<open>
  Refusals are free.  When \<open>delegate\<close> does not issue a child, no map of the ledger has
  changed: no use is charged, nothing is reserved, no nonce is bound; and unless the ledger
  itself rejected the child, the whole ledger is untouched.
\<close>

theorem refused_delegation_is_free:
  assumes "delegate dv lv now io q signer L = (res, L')" and "\<not> dr_ok res"
  shows "al_maps L' = al_maps L \<and> (dr_status res \<noteq> DS_LedgerRejected \<longrightarrow> L' = L)"
proof -
  consider "L' = L" | child reg where "register_delegation lv now io (dq_parent q) child L = (reg, L')"
      "\<not> alr_ok reg" "res = dr_fail DS_LedgerRejected (alr_errors reg)"
    using delegate_answers [of lv now io q signer L dv] assms
    by (auto simp: delegate_answer_def dr_ok_def split: if_splits)
  then show ?thesis
  proof cases
    case 2
    with answers_cases [of io "delegate_event now (dq_parent q) child (al_maps L)" L reg L']
      register_answers [of io now "dq_parent q" child L lv]
    have "al_maps L' = al_maps L" by auto
    with 2 show ?thesis by (simp add: dr_fail_def)
  qed simp
qed

theorem refused_delegation_is_free_witness:
  "\<exists>res L'. delegate sample_verifier sample_verifier 1500 Write_Ok (sample_request\<lparr>dq_parent := used_receipt\<rparr>)
      sample_signer (al_construct ''journal'' None True) = (res, L') \<and> \<not> dr_ok res \<and>
    al_maps L' = al_maps (al_construct ''journal'' None True)"
proof -
  obtain res L' where d: "delegate sample_verifier sample_verifier 1500 Write_Ok (sample_request\<lparr>dq_parent := used_receipt\<rparr>)
      sample_signer (al_construct ''journal'' None True) = (res, L')"
    by fastforce
  then have "\<not> dr_ok res" by (auto simp: delegate_def Let_def sample_request_def)
  with refused_delegation_is_free [OF d] d show ?thesis by blast
qed

section \<open>A child that takes its parent's nonce\<close>

lemma logged_child_nonce:
  assumes "sem_list sem_event es m0 = Some m" "Ev_Delegate p c s k pn cn i d t \<in> set es"
  shows "map_of (am_nonces m) (nonce_key s k cn) = Some c"
  by (rule logged_event [OF assms]) (auto simp: Let_def split: if_splits intro: map_le_Some)

text \<open>
  Neither \<open>delegate\<close> nor \<open>register_delegation\<close> compares the child's nonce with the
  parent's.  Once a delegation with equal nonces has been recorded, the nonce belongs to the
  child, and the parent receipt is refused at every later consumption and delegation, whatever
  uses it has left (unless the two receipts share an id).
\<close>

theorem shared_nonce_locks_parent:
  assumes "al_run path ops es L" and "Ev_Delegate (receipt_id r) c s k n n i d t \<in> set es"
    and "signer_id (envelope r) = s" and "signer_key_id (envelope r) = k" and "nonce (envelope r) = n"
  shows "refused L (authorize_and_consume v now io r p subj scope L) \<and>
      refused L (register_delegation v now io r q L) \<or> receipt_id r = c"
proof (cases "j_healthy (al_journal L)")
  case True
  have "map_of (am_nonces (al_maps L)) (receipt_nonce_key r) = Some c"
    using logged_child_nonce [OF ledger_inv_healthy [OF al_run_inv [OF assms(1)] True] assms(2)] assms(3-5)
    by (simp add: receipt_nonce_key_def)
  then have "receipt_id r \<noteq> c \<Longrightarrow> \<not> authorize_ready v now r p subj scope L \<and> \<not> register_ready v now r q L"
    by (auto simp: authorize_ready_def register_ready_def Let_def nonce_free_for_def)
  then show ?thesis using authorize_refused register_refused by blast
next
  case False
  then have "\<not> authorize_ready v now r p subj scope L \<and> \<not> register_ready v now r q L"
    by (simp add: authorize_ready_def register_ready_def Let_def)
  then show ?thesis using authorize_refused register_refused by blast
qed

theorem shared_nonce_locks_parent_witness:
  "\<exists>L. al_run ''journal'' [op_trust, op_delegate_with ''n3''] [ev_trust, ev_delegate_with ''n3''] L \<and>
    (refused L (authorize_and_consume sample_verifier 1500 Write_Ok parent_receipt DestructiveExecution ''subject''
       (sha256 ''/repo'') L) \<or> receipt_id parent_receipt = receipt_id (child_with ''n3''))"
proof -
  have "valid_token ''n3'' 128" by (simp add: valid_token_def token_char_def)
  from sample_delegated_with [OF this] obtain L m where
    "live [op_trust, op_delegate_with ''n3''] [ev_trust, ev_delegate_with ''n3''] m L" by blast
  then have run: "al_run ''journal'' [op_trust, op_delegate_with ''n3''] [ev_trust, ev_delegate_with ''n3''] L"
    by (rule live_run)
  from shared_nonce_locks_parent [OF run, of parent_receipt "receipt_id (child_with ''n3'')" "''root''" "''key1''"
      "''n3''" 1 2 1500] run
  show ?thesis by (auto simp: ev_delegate_with_def)
qed

end
