(* ===== verification/Authority_Gate.thy ===== *)
theory Authority_Gate
  imports Authority_Ledger_Safety
begin

text \<open>
  \<open>AuthorityGate\<close> (\<open>include/guff/authority_gate.hpp\<close>, \<open>src/authority_gate.cpp\<close>): the check in
  front of every privileged operation.  The gate compares the receipt's scope, demands a
  capability label from schema 3 receipts and then lets the ledger decide and consume.  The
  theory shows when it answers \<open>Allowed\<close> and that it fails closed.
\<close>

datatype authority_gate_status =
  AGS_Allowed | AGS_ReceiptMissing | AGS_ReceiptRejected | AGS_ScopeMismatch
| AGS_CapabilityMismatch | AGS_LedgerRejected

record authority_gate_result =
  ag_status :: authority_gate_status
  ag_ledger_status :: authority_ledger_status
  ag_receipt_id :: string
  ag_use_count :: u64
  ag_errors :: "string list"

definition ag_ok :: "authority_gate_result \<Rightarrow> bool" where
  "ag_ok r \<longleftrightarrow> ag_status r = AGS_Allowed"

definition ag_fail :: "string \<Rightarrow> authority_gate_status \<Rightarrow> string \<Rightarrow> authority_gate_result" where
  "ag_fail rid st msg = \<lparr>ag_status = st, ag_ledger_status = ALS_Invalid, ag_receipt_id = rid,
     ag_use_count = 0, ag_errors = [msg]\<rparr>"

definition gate_status_of :: "authority_ledger_result \<Rightarrow> authority_gate_status" where
  "gate_status_of r =
     (if alr_ok r then AGS_Allowed
      else if alr_status r = ALS_Invalid \<or> alr_status r = ALS_SignerUnknown then AGS_ReceiptRejected
      else AGS_LedgerRejected)"

definition gate_authorize ::
    "authority_verifier \<Rightarrow> u64 \<Rightarrow> io \<Rightarrow> authority_receipt option \<Rightarrow> authority_purpose \<Rightarrow> string \<Rightarrow> string \<Rightarrow>
     string \<Rightarrow> authority_ledger \<Rightarrow> authority_gate_result \<times> authority_ledger" where
  "gate_authorize v now io receipt p subj scope required_capability L =
     (case receipt of
        None \<Rightarrow> (ag_fail [] AGS_ReceiptMissing ''privileged operation requires an authority receipt'', L)
      | Some r \<Rightarrow>
          if scope_sha256 (envelope r) \<noteq> scope
          then (ag_fail (receipt_id r) AGS_ScopeMismatch
                 ''authority receipt scope does not match privileged operation'', L)
          else if schema_version (envelope r) = 3 \<and> required_capability = []
          then (ag_fail (receipt_id r) AGS_CapabilityMismatch
                 ''schema v3 authority requires an explicit capability label at the gate'', L)
          else if schema_version (envelope r) = 3 \<and> required_capability \<notin> set (capabilities (envelope r))
          then (ag_fail (receipt_id r) AGS_CapabilityMismatch
                 ''required capability is absent from the signed authority set'', L)
          else (case authorize_and_consume v now io r p subj scope L of
                  (lr, L') \<Rightarrow>
                    (\<lparr>ag_status = gate_status_of lr, ag_ledger_status = alr_status lr,
                      ag_receipt_id = receipt_id r, ag_use_count = alr_use_count lr,
                      ag_errors = alr_errors lr\<rparr>, L')))"

fun gate_status_to_string :: "authority_gate_status \<Rightarrow> string" where
  "gate_status_to_string AGS_Allowed = ''ALLOWED''"
| "gate_status_to_string AGS_ReceiptMissing = ''RECEIPT_MISSING''"
| "gate_status_to_string AGS_ReceiptRejected = ''RECEIPT_REJECTED''"
| "gate_status_to_string AGS_ScopeMismatch = ''SCOPE_MISMATCH''"
| "gate_status_to_string AGS_CapabilityMismatch = ''CAPABILITY_MISMATCH''"
| "gate_status_to_string AGS_LedgerRejected = ''LEDGER_REJECTED''"

lemma ag_fail_ok [simp]: "ag_ok (ag_fail rid st msg) \<longleftrightarrow> st = AGS_Allowed"
  by (simp add: ag_ok_def ag_fail_def)

lemma gate_status_of_ok [simp]: "gate_status_of r = AGS_Allowed \<longleftrightarrow> alr_ok r"
  by (simp add: gate_status_of_def)

lemma authorize_keeps_maps:
  "authorize_and_consume v now io r p subj scope L = (res, L') \<Longrightarrow> \<not> alr_ok res \<Longrightarrow> al_maps L' = al_maps L"
  using answers_cases [of io "use_event now r (al_maps L)" L res L'] authorize_answers [of io now r L v p subj scope]
  by auto

text \<open>
  The gate fails closed.  It answers \<open>Allowed\<close> exactly when a receipt was presented whose
  scope is the operation's, whose signed capabilities contain the demanded label if it is a
  schema 3 receipt, and which the ledger has just consumed; on any other answer no map of the
  ledger has changed, and without a receipt, or with the wrong scope or capability, the ledger
  has not been touched.
\<close>

theorem gate_fails_closed:
  assumes "gate_authorize v now io receipt p subj scope cap L = (res, L')"
  shows "(ag_ok res \<longleftrightarrow> (\<exists>r lr. receipt = Some r \<and> scope_sha256 (envelope r) = scope \<and>
      (schema_version (envelope r) = 3 \<longrightarrow> cap \<noteq> [] \<and> cap \<in> set (capabilities (envelope r))) \<and>
      authorize_and_consume v now io r p subj scope L = (lr, L') \<and> alr_ok lr)) \<and>
    (\<not> ag_ok res \<longrightarrow> al_maps L' = al_maps L) \<and>
    (ag_status res \<in> {AGS_ReceiptMissing, AGS_ScopeMismatch, AGS_CapabilityMismatch} \<longrightarrow> L' = L)"
proof (cases receipt)
  case None
  with assms show ?thesis by (auto simp: gate_authorize_def)
next
  case (Some r)
  show ?thesis
  proof (cases "scope_sha256 (envelope r) = scope \<and>
      (schema_version (envelope r) = 3 \<longrightarrow> cap \<noteq> [] \<and> cap \<in> set (capabilities (envelope r)))")
    case False
    with assms Some show ?thesis
      by (auto simp: gate_authorize_def split: if_splits prod.splits)
  next
    case True
    obtain lr L1 where a: "authorize_and_consume v now io r p subj scope L = (lr, L1)" by fastforce
    with assms Some True have "L' = L1" "ag_status res = gate_status_of lr"
      by (auto simp: gate_authorize_def)
    with a Some True authorize_keeps_maps [OF a] show ?thesis
      by (auto simp: ag_ok_def gate_status_of_def)
  qed
qed

theorem gate_fails_closed_witness:
  "\<exists>L L' res. gate_authorize sample_verifier 1500 Write_Ok (Some used_receipt) CapabilityGrant ''subject''
      (sha256 ''/repo'') [] L = (res, L') \<and> ag_ok res"
proof -
  obtain L L' where "al_call op_use L = (True, L')" using sample_used by blast
  then obtain lr where lr: "authorize_and_consume sample_verifier 1500 Write_Ok used_receipt CapabilityGrant
      ''subject'' (sha256 ''/repo'') L = (lr, L')" "alr_ok lr" by (auto simp: map_prod_def split: prod.splits)
  obtain res L1 where g: "gate_authorize sample_verifier 1500 Write_Ok (Some used_receipt) CapabilityGrant ''subject''
      (sha256 ''/repo'') [] L = (res, L1)" by fastforce
  then have "L1 = L'" using lr by (auto simp: gate_authorize_def)
  with gate_fails_closed [OF g] lr g show ?thesis by auto
qed

text \<open>
  Schema 3 receipts need a label.  A gate that is called without a capability label (the
  default argument, as the destructive execution and the persistent symbiosis wrappers call
  it) refuses every schema 3 receipt, delegated or not, and leaves the ledger untouched.
\<close>

theorem unlabelled_gate_refuses_v3:
  assumes "schema_version (envelope r) = 3"
  shows "\<not> ag_ok (fst (gate_authorize v now io (Some r) p subj scope [] L)) \<and>
    snd (gate_authorize v now io (Some r) p subj scope [] L) = L"
  using assms by (simp add: gate_authorize_def)

theorem unlabelled_gate_refuses_v3_witness:
  "\<not> ag_ok (fst (gate_authorize sample_verifier 1500 Write_Ok (Some parent_receipt) DestructiveExecution
      ''subject'' (sha256 ''/repo'') [] (al_construct ''journal'' None True)))"
  using unlabelled_gate_refuses_v3 [of parent_receipt] by simp

end
