(* ===== verification/Session_Key.thy ===== *)
theory Session_Key
  imports Authority_Delegation Authority_Gate
begin

text \<open>
  Delegated session keys (\<open>include/guff/session_key.hpp\<close>, \<open>src/session_key.cpp\<close>), the data:
  the certificate by which a parent key vouches for a session key, the receipt the session
  key signs, their canonical bytes and ids, and the two verification routines with the error
  lists they return.

  \<open>SessionKeySigner\<close> and \<open>SessionKeyVerifier\<close> are abstract classes and appear as records of
  functions.
\<close>

section \<open>Data\<close>

record session_key_signer =
  sks_signer_id :: string
  sks_key_id :: string
  sks_algorithm :: string
  sks_fingerprint :: string
  sks_sign :: "string \<Rightarrow> string option"

record session_key_verifier =
  skv_knows :: "string \<Rightarrow> string \<Rightarrow> string \<Rightarrow> bool"
  skv_fingerprint :: "string \<Rightarrow> string \<Rightarrow> string \<Rightarrow> string option"
  skv_verify :: "string \<Rightarrow> string \<Rightarrow> string \<Rightarrow> string \<Rightarrow> string \<Rightarrow> bool"

record session_key_certificate =
  sc_schema_version :: u32
  sc_voucher_receipt_id :: string
  sc_parent_signer_id :: string
  sc_parent_key_id :: string
  sc_parent_algorithm :: string
  sc_child_signer_id :: string
  sc_child_key_id :: string
  sc_child_algorithm :: string
  sc_child_fingerprint :: string
  sc_purpose :: authority_purpose
  sc_subject_id :: string
  sc_scope_path :: string
  sc_scope_sha256 :: string
  sc_capabilities :: "string list"
  sc_issued_at :: u64
  sc_expires_at :: u64
  sc_max_uses :: u32
  sc_nonce :: string
  sc_canonical_sha256 :: string
  sc_parent_signature :: string
  sc_certificate_id :: string

record session_key_receipt =
  sr_schema_version :: u32
  sr_certificate_id :: string
  sr_voucher_receipt_id :: string
  sr_signer_id :: string
  sr_key_id :: string
  sr_algorithm :: string
  sr_fingerprint :: string
  sr_purpose :: authority_purpose
  sr_subject_id :: string
  sr_scope_path :: string
  sr_scope_sha256 :: string
  sr_capabilities :: "string list"
  sr_issued_at :: u64
  sr_expires_at :: u64
  sr_max_uses :: u32
  sr_nonce :: string
  sr_canonical_sha256 :: string
  sr_signature :: string
  sr_receipt_id :: string

record session_key_bundle =
  sb_voucher :: authority_receipt
  sb_certificate :: session_key_certificate
  sb_receipt :: session_key_receipt

datatype session_key_status =
  SKS_Allowed | SKS_Invalid | SKS_VoucherRejected | SKS_KeyUnknown | SKS_FingerprintMismatch
| SKS_CertificateRejected | SKS_ReceiptRejected | SKS_NotRegistered | SKS_KeyRevoked
| SKS_ReceiptRevoked | SKS_ReceiptExpired | SKS_CapabilityMismatch | SKS_ScopeMismatch
| SKS_UseLimitReached | SKS_StorageError | SKS_Corrupt

record session_key_result =
  skr_status :: session_key_status
  skr_gate_status :: authority_gate_status
  skr_ledger_status :: authority_ledger_status
  skr_receipt_id :: string
  skr_use_count :: u64
  skr_errors :: "string list"

definition skr_ok :: "session_key_result \<Rightarrow> bool" where
  "skr_ok r \<longleftrightarrow> skr_status r = SKS_Allowed"

section \<open>Validation and canonical bytes\<close>

definition kCertificatePrefix :: string where
  "kCertificatePrefix = ''guff:key-handoff:sha256:''"

definition kSessionReceiptPrefix :: string where
  "kSessionReceiptPrefix = ''guff:session-key:sha256:''"

definition valid_capability :: "string \<Rightarrow> bool" where
  "valid_capability v \<longleftrightarrow> valid_token v 96"

definition valid_certificate_id :: "string \<Rightarrow> bool" where
  "valid_certificate_id v \<longleftrightarrow> prefixed_sha256 kCertificatePrefix v"

definition valid_session_receipt_id :: "string \<Rightarrow> bool" where
  "valid_session_receipt_id v \<longleftrightarrow> prefixed_sha256 kSessionReceiptPrefix v"

text \<open>Here the sorted copy also loses its duplicates (\<open>std::unique\<close>).\<close>

definition unique_capabilities :: "string list \<Rightarrow> string list" where
  "unique_capabilities caps = remdups_adj (sort caps)"

definition valid_capabilities :: "string list \<Rightarrow> bool" where
  "valid_capabilities caps \<longleftrightarrow> caps \<noteq> [] \<and> length caps \<le> 64 \<and> list_all valid_capability caps"

definition exact_capabilities :: "string list \<Rightarrow> string list \<Rightarrow> bool" where
  "exact_capabilities lhs rhs \<longleftrightarrow> unique_capabilities lhs = unique_capabilities rhs"

definition capabilities_digest :: "string list \<Rightarrow> string" where
  "capabilities_digest caps = sha256 (concat (map (\<lambda>c. c @ [NL]) (unique_capabilities caps)))"

definition canonical_session_key_certificate :: "session_key_certificate \<Rightarrow> string" where
  "canonical_session_key_certificate c =
     show_u (sc_schema_version c) @ [NL] @ sc_voucher_receipt_id c @ [NL] @
     sc_parent_signer_id c @ [NL] @ sc_parent_key_id c @ [NL] @ sc_parent_algorithm c @ [NL] @
     sc_child_signer_id c @ [NL] @ sc_child_key_id c @ [NL] @ sc_child_algorithm c @ [NL] @
     sc_child_fingerprint c @ [NL] @ show_u (purpose_code (sc_purpose c)) @ [NL] @
     sc_subject_id c @ [NL] @ sc_scope_path c @ [NL] @ sc_scope_sha256 c @ [NL] @
     capabilities_digest (sc_capabilities c) @ [NL] @ show_u (sc_issued_at c) @ [NL] @
     show_u (sc_expires_at c) @ [NL] @ show_u (sc_max_uses c) @ [NL] @ sc_nonce c"

definition canonical_session_key_receipt :: "session_key_receipt \<Rightarrow> string" where
  "canonical_session_key_receipt r =
     show_u (sr_schema_version r) @ [NL] @ sr_certificate_id r @ [NL] @ sr_voucher_receipt_id r @ [NL] @
     sr_signer_id r @ [NL] @ sr_key_id r @ [NL] @ sr_algorithm r @ [NL] @ sr_fingerprint r @ [NL] @
     show_u (purpose_code (sr_purpose r)) @ [NL] @ sr_subject_id r @ [NL] @ sr_scope_path r @ [NL] @
     sr_scope_sha256 r @ [NL] @ capabilities_digest (sr_capabilities r) @ [NL] @
     show_u (sr_issued_at r) @ [NL] @ show_u (sr_expires_at r) @ [NL] @ show_u (sr_max_uses r) @ [NL] @
     sr_nonce r"

definition session_key_certificate_id :: "session_key_certificate \<Rightarrow> string \<Rightarrow> string" where
  "session_key_certificate_id c parent_signature =
     kCertificatePrefix @ sha256 (sha256 (canonical_session_key_certificate c) @ [NL] @ parent_signature)"

definition session_key_receipt_id :: "session_key_receipt \<Rightarrow> string \<Rightarrow> string" where
  "session_key_receipt_id r sg =
     kSessionReceiptPrefix @ sha256 (sha256 (canonical_session_key_receipt r) @ [NL] @ sg)"

text \<open>The error list of \<open>verify_certificate\<close>; it returns true when the list is empty.\<close>

definition verify_certificate :: "session_key_bundle \<Rightarrow> authority_verifier \<Rightarrow> string list" where
  "verify_certificate b parent_verifier =
     (let v = sb_voucher b; ve = envelope v; c = sb_certificate b;
          canonical = canonical_session_key_certificate c in
      err (sc_schema_version c \<noteq> 1 \<or> sc_voucher_receipt_id c \<noteq> receipt_id v \<or>
           \<not> valid_certificate_id (sc_certificate_id c) \<or> \<not> is_sha256 (sc_canonical_sha256 c) \<or>
           \<not> is_sha256 (sc_child_fingerprint c) \<or> \<not> is_sha256 (sc_scope_sha256 c) \<or>
           sc_scope_sha256 c \<noteq> sha256 (sc_scope_path c) \<or> \<not> valid_capabilities (sc_capabilities c) \<or>
           sc_issued_at c = 0 \<or> sc_expires_at c \<le> sc_issued_at c \<or>
           sc_max_uses c = 0 \<or> 1024 < sc_max_uses c \<or> \<not> valid_token (sc_nonce c) 128)
        ''session-key certificate fields are invalid'' @
      err (sc_canonical_sha256 c \<noteq> sha256 canonical \<or>
           sc_certificate_id c \<noteq> session_key_certificate_id c (sc_parent_signature c))
        ''session-key certificate identity mismatch'' @
      err (sc_parent_signer_id c \<noteq> signer_id ve \<or> sc_parent_key_id c \<noteq> signer_key_id ve \<or>
           sc_parent_algorithm c \<noteq> algorithm v)
        ''session-key certificate parent signer does not match voucher signer'' @
      err (sc_purpose c \<noteq> purpose ve \<or> sc_subject_id c \<noteq> subject_id ve \<or>
           sc_scope_path c \<noteq> scope_path ve \<or> sc_scope_sha256 c \<noteq> scope_sha256 ve \<or>
           \<not> exact_capabilities (sc_capabilities c) (capabilities ve) \<or>
           sc_issued_at c \<noteq> issued_at_unix_ms ve \<or> sc_expires_at c \<noteq> expires_at_unix_ms ve \<or>
           sc_max_uses c \<noteq> max_uses ve)
        ''session-key certificate authority does not exactly match backing voucher'' @
      err (\<not> ver_knows parent_verifier (sc_parent_signer_id c) (sc_parent_algorithm c) \<or>
           \<not> ver_verify parent_verifier (sc_parent_signer_id c) (sc_parent_algorithm c) canonical
               (sc_parent_signature c))
        ''session-key certificate parent signature rejected'')"

definition fingerprint_matches :: "string option \<Rightarrow> string \<Rightarrow> bool" where
  "fingerprint_matches f expected = (case f of None \<Rightarrow> False | Some x \<Rightarrow> is_sha256 x \<and> x = expected)"

text \<open>The error list of \<open>verify_child_receipt\<close>.\<close>

definition verify_child_receipt :: "session_key_bundle \<Rightarrow> session_key_verifier \<Rightarrow> string list" where
  "verify_child_receipt b verifier =
     (let c = sb_certificate b; r = sb_receipt b; canonical = canonical_session_key_receipt r in
      err (sr_schema_version r \<noteq> 1 \<or> sr_certificate_id r \<noteq> sc_certificate_id c \<or>
           sr_voucher_receipt_id r \<noteq> sc_voucher_receipt_id c \<or>
           \<not> valid_session_receipt_id (sr_receipt_id r) \<or> \<not> is_sha256 (sr_canonical_sha256 r) \<or>
           \<not> is_sha256 (sr_fingerprint r) \<or> \<not> is_sha256 (sr_scope_sha256 r) \<or>
           sr_scope_sha256 r \<noteq> sha256 (sr_scope_path r) \<or> \<not> valid_capabilities (sr_capabilities r) \<or>
           \<not> valid_token (sr_signer_id r) 128 \<or> \<not> valid_token (sr_key_id r) 128 \<or>
           \<not> valid_token (sr_algorithm r) 64 \<or> \<not> valid_token (sr_nonce r) 128 \<or>
           sr_issued_at r = 0 \<or> sr_expires_at r \<le> sr_issued_at r \<or>
           sr_max_uses r = 0 \<or> 1024 < sr_max_uses r)
        ''session-key receipt fields are invalid'' @
      err (sr_signer_id r \<noteq> sc_child_signer_id c \<or> sr_key_id r \<noteq> sc_child_key_id c \<or>
           sr_algorithm r \<noteq> sc_child_algorithm c \<or> sr_fingerprint r \<noteq> sc_child_fingerprint c \<or>
           sr_purpose r \<noteq> sc_purpose c \<or> sr_subject_id r \<noteq> sc_subject_id c \<or>
           sr_scope_path r \<noteq> sc_scope_path c \<or> sr_scope_sha256 r \<noteq> sc_scope_sha256 c \<or>
           \<not> exact_capabilities (sr_capabilities r) (sc_capabilities c) \<or>
           sr_issued_at r \<noteq> sc_issued_at c \<or> sr_expires_at r \<noteq> sc_expires_at c \<or>
           sr_max_uses r \<noteq> sc_max_uses c)
        ''session-key receipt does not exactly match handoff certificate'' @
      err (sr_canonical_sha256 r \<noteq> sha256 canonical \<or>
           sr_receipt_id r \<noteq> session_key_receipt_id r (sr_signature r))
        ''session-key receipt content identity mismatch'' @
      (if \<not> skv_knows verifier (sr_signer_id r) (sr_key_id r) (sr_algorithm r)
       then [''session-key verifier does not know delegated key'']
       else
         err (\<not> fingerprint_matches
                (skv_fingerprint verifier (sr_signer_id r) (sr_key_id r) (sr_algorithm r)) (sr_fingerprint r))
           ''session-key fingerprint does not match verifier key material'' @
         err (\<not> skv_verify verifier (sr_signer_id r) (sr_key_id r) (sr_algorithm r) canonical (sr_signature r))
           ''session-key receipt signature rejected''))"

section \<open>Facts\<close>

text \<open>The exactness test compares capability sets: order and repetition do not matter.\<close>

lemma exact_capabilities_set: "exact_capabilities a b \<longleftrightarrow> set a = set b"
proof
  assume "exact_capabilities a b"
  then have "set (remdups_adj (sort a)) = set (remdups_adj (sort b))"
    by (simp add: exact_capabilities_def unique_capabilities_def)
  then show "set a = set b" by simp
next
  assume "set a = set b"
  then have "set (remdups_adj (sort a)) = set (remdups_adj (sort b))" by simp
  with strict_sorted_unique [of a] strict_sorted_unique [of b] show "exact_capabilities a b"
    unfolding exact_capabilities_def unique_capabilities_def
    by (metis strict_sorted_equal)
qed

lemma session_ids_valid [simp]:
  "valid_certificate_id (session_key_certificate_id c s)" "valid_session_receipt_id (session_key_receipt_id r s)"
  by (simp_all add: valid_certificate_id_def valid_session_receipt_id_def session_key_certificate_id_def
      session_key_receipt_id_def)

end
