(* ===== verification/Session_Key_Ledger.thy ===== *)
theory Session_Key_Ledger
  imports Session_Key
begin

text \<open>
  \<open>SessionKeyLedger\<close> (\<open>include/guff/session_key.hpp\<close>, \<open>src/session_key.cpp\<close>): which session
  keys have been handed off, how often their receipts were used, what has been revoked.

  The maps are \<open>session_maps\<close>, the journal is the shared \<open>journal\<close> with this ledger's wording.
  Operations take the clock reading and the outcome of their file system calls.  The
  interpretation \<open>sess\<close> of \<open>event_journal\<close> discharges the interface for the events that can be
  read back: a handoff event carries the fingerprint unencoded, so it is well-formed only
  when that text holds no separator.
\<close>

section \<open>State\<close>

record registration =
  rg_voucher_receipt_id :: string
  rg_certificate_id :: string
  rg_receipt_id :: string
  rg_signer_id :: string
  rg_key_id :: string
  rg_algorithm :: string
  rg_fingerprint :: string
  rg_expires_at :: u64
  rg_max_uses :: u32

record session_maps =
  sm_registrations :: "registration smap"
  sm_receipt_uses :: "u64 smap"
  sm_revoked_keys :: "u64 smap"
  sm_revoked_receipts :: "u64 smap"

record session_ledger =
  sl_journal :: journal
  sl_maps :: session_maps

record session_ledger_inspection =
  sli_healthy :: bool
  sli_records :: u64
  sli_registered_handoffs :: nat
  sli_consumed_receipts :: nat
  sli_revoked_keys :: nat
  sli_revoked_receipts :: nat
  sli_errors :: "string list"

definition empty_session_maps :: session_maps where
  "empty_session_maps = \<lparr>sm_registrations = [], sm_receipt_uses = [], sm_revoked_keys = [],
     sm_revoked_receipts = []\<rparr>"

definition session_cfg :: journal_cfg where
  "session_cfg = \<lparr>jc_ledger = ''session-key ledger'', jc_directory = ''session-key ledger'',
     jc_journal = ''session-key journal'', jc_line = ''session-key ledger'', jc_record = ''session-key ledger'', jc_extra = 0\<rparr>"

definition session_use_count :: "session_maps \<Rightarrow> string \<Rightarrow> u64" where
  "session_use_count m rid = (case map_of (sm_receipt_uses m) rid of None \<Rightarrow> 0 | Some n \<Rightarrow> n)"

definition bundle_registered :: "session_maps \<Rightarrow> string \<Rightarrow> bool" where
  "bundle_registered m rid \<longleftrightarrow> contains (sm_registrations m) rid"

text \<open>The loop over all registrations: does one of them name this signer and key?\<close>

definition key_registered :: "session_maps \<Rightarrow> string \<Rightarrow> string \<Rightarrow> bool" where
  "key_registered m signer key \<longleftrightarrow>
     list_ex (\<lambda>(_, r). rg_signer_id r = signer \<and> rg_key_id r = key) (sm_registrations m)"

section \<open>Events\<close>

datatype session_event =
  Se_Handoff string string string string string string string u64 u32
| Se_Use string u64 u64
| Se_Revoke_Key string string u64
| Se_Revoke_Receipt string u64

fun encode_session_event :: "session_event \<Rightarrow> string" where
  "encode_session_event (Se_Handoff voucher cert rid signer key alg fp expires limit) =
     ''H'' @ tab_join [hex_encode voucher, hex_encode cert, hex_encode rid, hex_encode signer,
       hex_encode key, hex_encode alg, fp, show_u expires, show_u limit]"
| "encode_session_event (Se_Use rid use_index at) =
     ''U'' @ tab_join [hex_encode rid, show_u use_index, show_u at]"
| "encode_session_event (Se_Revoke_Key signer key at) =
     ''R'' @ tab_join [hex_encode signer, hex_encode key, show_u at]"
| "encode_session_event (Se_Revoke_Receipt rid at) = ''X'' @ tab_join [hex_encode rid, show_u at]"

fun wf_session_event :: "session_event \<Rightarrow> bool" where
  "wf_session_event (Se_Handoff voucher cert rid signer key alg fp expires limit) \<longleftrightarrow>
     TAB \<notin> set fp \<and> NL \<notin> set fp"
| "wf_session_event _ \<longleftrightarrow> True"

definition decode_session_event :: "string list \<Rightarrow> session_event option" where
  "decode_session_event fs =
     (if fs ! 2 = ''H'' \<and> length fs = 13 then do {
        voucher \<leftarrow> hex_decode (fs ! 3); cert \<leftarrow> hex_decode (fs ! 4); rid \<leftarrow> hex_decode (fs ! 5);
        signer \<leftarrow> hex_decode (fs ! 6); key \<leftarrow> hex_decode (fs ! 7); alg \<leftarrow> hex_decode (fs ! 8);
        expires \<leftarrow> parse_unsigned (fs ! 10); limit \<leftarrow> parse_unsigned (fs ! 11);
        Some (Se_Handoff voucher cert rid signer key alg (fs ! 9) expires limit) }
      else if fs ! 2 = ''U'' \<and> length fs = 7 then do {
        rid \<leftarrow> hex_decode (fs ! 3); use_index \<leftarrow> parse_unsigned (fs ! 4); at \<leftarrow> parse_unsigned (fs ! 5);
        Some (Se_Use rid use_index at) }
      else if fs ! 2 = ''R'' \<and> length fs = 7 then do {
        signer \<leftarrow> hex_decode (fs ! 3); key \<leftarrow> hex_decode (fs ! 4); at \<leftarrow> parse_unsigned (fs ! 5);
        Some (Se_Revoke_Key signer key at) }
      else if fs ! 2 = ''X'' \<and> length fs = 6 then do {
        rid \<leftarrow> hex_decode (fs ! 3); at \<leftarrow> parse_unsigned (fs ! 4);
        Some (Se_Revoke_Receipt rid at) }
      else None)"

fun sem_session_event :: "session_event \<Rightarrow> session_maps \<Rightarrow> session_maps option" where
  "sem_session_event (Se_Handoff voucher cert rid signer key alg fp expires limit) m =
     (if valid_receipt_id voucher \<and> valid_certificate_id cert \<and> valid_session_receipt_id rid \<and>
         is_sha256 fp \<and> expires \<noteq> 0 \<and> limit \<noteq> 0 \<and> \<not> contains (sm_registrations m) rid \<and>
         \<not> key_registered m signer key
      then Some (m\<lparr>sm_registrations := AList.update rid
        \<lparr>rg_voucher_receipt_id = voucher, rg_certificate_id = cert, rg_receipt_id = rid,
         rg_signer_id = signer, rg_key_id = key, rg_algorithm = alg, rg_fingerprint = fp,
         rg_expires_at = expires, rg_max_uses = limit\<rparr> (sm_registrations m)\<rparr>)
      else None)"
| "sem_session_event (Se_Use rid use_index at) m =
     (case map_of (sm_registrations m) rid of
        None \<Rightarrow> None
      | Some r \<Rightarrow>
          if valid_session_receipt_id rid \<and> use_index \<noteq> 0 \<and> at \<noteq> 0 \<and>
             use_index = session_use_count m rid + 1 \<and> use_index \<le> ucast (rg_max_uses r)
          then Some (m\<lparr>sm_receipt_uses := AList.update rid use_index (sm_receipt_uses m)\<rparr>)
          else None)"
| "sem_session_event (Se_Revoke_Key signer key at) m =
     (let kid = key_map_id signer key in
      if at \<noteq> 0 \<and> \<not> contains (sm_revoked_keys m) kid
      then Some (m\<lparr>sm_revoked_keys := AList.update kid at (sm_revoked_keys m)\<rparr>) else None)"
| "sem_session_event (Se_Revoke_Receipt rid at) m =
     (if contains (sm_registrations m) rid \<and> at \<noteq> 0 \<and> \<not> contains (sm_revoked_receipts m) rid
      then Some (m\<lparr>sm_revoked_receipts := AList.update rid at (sm_revoked_receipts m)\<rparr>) else None)"

definition session_handler :: "string list \<Rightarrow> session_maps \<Rightarrow> session_maps option" where
  "session_handler fs m =
     (case decode_session_event fs of None \<Rightarrow> None | Some e \<Rightarrow> sem_session_event e m)"

section \<open>Operations\<close>

definition session_append :: "io \<Rightarrow> string \<Rightarrow> journal \<Rightarrow> string option \<times> journal" where
  "session_append io body j = append_event session_cfg io body j"

definition sk_result :: "string \<Rightarrow> session_key_result" where
  "sk_result rid = \<lparr>skr_status = SKS_Invalid, skr_gate_status = AGS_ReceiptRejected,
     skr_ledger_status = ALS_Invalid, skr_receipt_id = rid, skr_use_count = 0, skr_errors = []\<rparr>"

text \<open>\<open>fail(status, message)\<close> builds a fresh result, so it names no receipt.\<close>

definition sk_fail :: "session_key_status \<Rightarrow> string \<Rightarrow> session_key_result" where
  "sk_fail st msg = (sk_result [])\<lparr>skr_status := st, skr_errors := [msg]\<rparr>"

text \<open>An early return of \<open>preflight\<close> or \<open>consume\<close>, which keeps the receipt's name.\<close>

definition sk_reject :: "string \<Rightarrow> session_key_status \<Rightarrow> string list \<Rightarrow> session_key_result" where
  "sk_reject rid st es = (sk_result rid)\<lparr>skr_status := st, skr_errors := es\<rparr>"

definition sk_allowed :: "string \<Rightarrow> u64 \<Rightarrow> session_key_result" where
  "sk_allowed rid n = (sk_result rid)\<lparr>skr_status := SKS_Allowed, skr_use_count := n\<rparr>"

definition sl_commit ::
    "io \<Rightarrow> session_event \<Rightarrow> (session_maps \<Rightarrow> session_maps) \<Rightarrow> session_key_result \<Rightarrow> session_ledger \<Rightarrow>
     session_key_result \<times> session_ledger" where
  "sl_commit io ev upd ok S =
     (case session_append io (encode_session_event ev) (sl_journal S) of
        (Some error, j) \<Rightarrow> (sk_fail SKS_StorageError error, S\<lparr>sl_journal := j\<rparr>)
      | (None, j) \<Rightarrow> (ok, S\<lparr>sl_journal := j, sl_maps := upd (sl_maps S)\<rparr>))"

definition bundle_fields_agree :: "session_key_bundle \<Rightarrow> bool" where
  "bundle_fields_agree b \<longleftrightarrow>
     (let v = sb_voucher b; c = sb_certificate b; r = sb_receipt b in
      valid_receipt_id (receipt_id v) \<and> valid_certificate_id (sc_certificate_id c) \<and>
      valid_session_receipt_id (sr_receipt_id r) \<and> sc_voucher_receipt_id c = receipt_id v \<and>
      sr_voucher_receipt_id r = receipt_id v \<and> sr_certificate_id r = sc_certificate_id c \<and>
      sr_signer_id r = sc_child_signer_id c \<and> sr_key_id r = sc_child_key_id c \<and>
      sr_algorithm r = sc_child_algorithm c \<and> sr_fingerprint r = sc_child_fingerprint c \<and>
      sr_max_uses r = sc_max_uses c \<and> sr_expires_at r = sc_expires_at c)"

definition registration_of :: "session_key_bundle \<Rightarrow> registration" where
  "registration_of b =
     (let r = sb_receipt b in
      \<lparr>rg_voucher_receipt_id = receipt_id (sb_voucher b),
       rg_certificate_id = sc_certificate_id (sb_certificate b), rg_receipt_id = sr_receipt_id r,
       rg_signer_id = sr_signer_id r, rg_key_id = sr_key_id r, rg_algorithm = sr_algorithm r,
       rg_fingerprint = sr_fingerprint r, rg_expires_at = sr_expires_at r, rg_max_uses = sr_max_uses r\<rparr>)"

definition handoff_event :: "session_key_bundle \<Rightarrow> session_event" where
  "handoff_event b =
     (let r = sb_receipt b in
      Se_Handoff (receipt_id (sb_voucher b)) (sc_certificate_id (sb_certificate b)) (sr_receipt_id r)
        (sr_signer_id r) (sr_key_id r) (sr_algorithm r) (sr_fingerprint r) (sr_expires_at r)
        (sr_max_uses r))"

definition register_bundle ::
    "io \<Rightarrow> session_key_bundle \<Rightarrow> session_ledger \<Rightarrow> session_key_result \<times> session_ledger" where
  "register_bundle io b S =
     (let m = sl_maps S; r = sb_receipt b; rid = sr_receipt_id r in
      if \<not> j_healthy (sl_journal S) then (sk_reject rid SKS_Corrupt (j_errors (sl_journal S)), S)
      else if \<not> bundle_fields_agree b
      then (sk_fail SKS_Invalid ''session-key bundle registration fields disagree'', S)
      else if contains (sm_registrations m) rid
      then (sk_fail SKS_Invalid ''session-key receipt is already registered'', S)
      else if key_registered m (sr_signer_id r) (sr_key_id r)
      then (sk_fail SKS_Invalid ''an ephemeral delegated key may back only one registered branch'', S)
      else sl_commit io (handoff_event b)
        (\<lambda>m. m\<lparr>sm_registrations := AList.update rid (registration_of b) (sm_registrations m)\<rparr>)
        (sk_allowed rid 0) S)"

text \<open>\<open>error.find("fingerprint") != npos\<close>\<close>

fun contains_text :: "string \<Rightarrow> string \<Rightarrow> bool" where
  "contains_text needle [] \<longleftrightarrow> needle = []"
| "contains_text needle (c # cs) \<longleftrightarrow>
     take (length needle) (c # cs) = needle \<or> contains_text needle cs"

definition bundle_registration_matches :: "registration \<Rightarrow> session_key_bundle \<Rightarrow> bool" where
  "bundle_registration_matches rg b \<longleftrightarrow>
     (let r = sb_receipt b in
      rg_voucher_receipt_id rg = receipt_id (sb_voucher b) \<and>
      rg_certificate_id rg = sc_certificate_id (sb_certificate b) \<and>
      rg_signer_id rg = sr_signer_id r \<and> rg_key_id rg = sr_key_id r \<and>
      rg_algorithm rg = sr_algorithm r \<and> rg_fingerprint rg = sr_fingerprint r \<and>
      rg_max_uses rg = sr_max_uses r)"

definition entry_active :: "u64 smap \<Rightarrow> string \<Rightarrow> u64 \<Rightarrow> bool" where
  "entry_active m k now = (case map_of m k of None \<Rightarrow> False | Some t \<Rightarrow> t \<le> now)"

definition preflight ::
    "u64 \<Rightarrow> session_key_bundle \<Rightarrow> authority_verifier \<Rightarrow> session_key_verifier \<Rightarrow> authority_purpose \<Rightarrow>
     string \<Rightarrow> string \<Rightarrow> string \<Rightarrow> session_ledger \<Rightarrow> session_key_result" where
  "preflight now b parent_verifier key_verifier p subj scope cap S =
     (let m = sl_maps S; r = sb_receipt b; rid = sr_receipt_id r;
          voucher = verify_authority_receipt (sb_voucher b) parent_verifier p subj;
          certificate_errors = verify_certificate b parent_verifier;
          receipt_errors = verify_child_receipt b key_verifier;
          n = session_use_count m rid
      in
      if \<not> j_healthy (sl_journal S) then sk_reject rid SKS_Corrupt (j_errors (sl_journal S))
      else (case map_of (sm_registrations m) rid of
        None \<Rightarrow> sk_reject rid SKS_NotRegistered [''session-key receipt is not registered in handoff ledger'']
      | Some registered \<Rightarrow>
      if \<not> bundle_registration_matches registered b
      then sk_reject rid SKS_NotRegistered [''session-key bundle does not match durable handoff registration'']
      else if \<not> avr_ok voucher then sk_reject rid SKS_VoucherRejected (avr_errors voucher)
      else if certificate_errors \<noteq> [] then sk_reject rid SKS_CertificateRejected certificate_errors
      else if receipt_errors \<noteq> []
      then sk_reject rid (if list_ex (contains_text ''fingerprint'') receipt_errors
                          then SKS_FingerprintMismatch else SKS_ReceiptRejected) receipt_errors
      else if \<not> is_sha256 scope \<or> sr_scope_sha256 r \<noteq> scope \<or> scope_sha256 (envelope (sb_voucher b)) \<noteq> scope
      then sk_reject rid SKS_ScopeMismatch [''session key scope does not match requested operation'']
      else if sr_purpose r \<noteq> p \<or> sr_subject_id r \<noteq> subj
      then sk_reject rid SKS_ReceiptRejected [''session key purpose or subject does not match requested operation'']
      else if \<not> valid_capability cap \<or> cap \<notin> set (sr_capabilities r)
      then sk_reject rid SKS_CapabilityMismatch [''session key does not contain requested capability'']
      else if sr_expires_at r \<le> now then sk_reject rid SKS_ReceiptExpired [''session-key receipt has expired'']
      else if entry_active (sm_revoked_receipts m) rid now
      then sk_reject rid SKS_ReceiptRevoked [''session-key receipt has been revoked'']
      else if entry_active (sm_revoked_keys m) (key_map_id (sr_signer_id r) (sr_key_id r)) now
      then sk_reject rid SKS_KeyRevoked [''delegated session key has been revoked'']
      else if ucast (sr_max_uses r) \<le> n
      then (sk_reject rid SKS_UseLimitReached [''session-key receipt use limit reached''])\<lparr>skr_use_count := n\<rparr>
      else sk_allowed rid n))"

definition session_consume ::
    "u64 \<Rightarrow> io \<Rightarrow> session_key_receipt \<Rightarrow> session_ledger \<Rightarrow> session_key_result \<times> session_ledger" where
  "session_consume now io r S =
     (let m = sl_maps S; rid = sr_receipt_id r; current = session_use_count m rid in
      if \<not> j_healthy (sl_journal S) then (sk_reject rid SKS_Corrupt (j_errors (sl_journal S)), S)
      else (case map_of (sm_registrations m) rid of
        None \<Rightarrow> (sk_reject rid SKS_NotRegistered [''session-key receipt is not registered''], S)
      | Some registered \<Rightarrow>
      if ucast (rg_max_uses registered) \<le> current
      then ((sk_reject rid SKS_UseLimitReached [''session-key receipt use limit reached''])
              \<lparr>skr_use_count := current\<rparr>, S)
      else sl_commit io (Se_Use rid (current + 1) now)
        (\<lambda>m. m\<lparr>sm_receipt_uses := AList.update rid (current + 1) (sm_receipt_uses m)\<rparr>)
        (sk_allowed rid (current + 1)) S))"

definition session_revoke_key ::
    "io \<Rightarrow> string \<Rightarrow> string \<Rightarrow> u64 \<Rightarrow> session_ledger \<Rightarrow> session_key_result \<times> session_ledger" where
  "session_revoke_key io signer key at S =
     (let m = sl_maps S; kid = key_map_id signer key in
      if \<not> valid_token signer 128 \<or> \<not> valid_token key 128 \<or> at = 0
      then (sk_fail SKS_Invalid ''session-key revocation metadata is invalid'', S)
      else if contains (sm_revoked_keys m) kid
      then (sk_fail SKS_Invalid ''delegated session key is already revoked'', S)
      else if \<not> key_registered m signer key
      then (sk_fail SKS_NotRegistered ''delegated session key is not registered'', S)
      else sl_commit io (Se_Revoke_Key signer key at)
        (\<lambda>m. m\<lparr>sm_revoked_keys := AList.update kid at (sm_revoked_keys m)\<rparr>) (sk_allowed [] 0) S)"

definition session_revoke_receipt ::
    "io \<Rightarrow> string \<Rightarrow> u64 \<Rightarrow> session_ledger \<Rightarrow> session_key_result \<times> session_ledger" where
  "session_revoke_receipt io rid at S =
     (let m = sl_maps S in
      if \<not> valid_session_receipt_id rid \<or> at = 0
      then (sk_fail SKS_Invalid ''session-key receipt revocation metadata is invalid'', S)
      else if \<not> contains (sm_registrations m) rid
      then (sk_fail SKS_NotRegistered ''session-key receipt is not registered'', S)
      else if contains (sm_revoked_receipts m) rid
      then (sk_fail SKS_Invalid ''session-key receipt is already revoked'', S)
      else sl_commit io (Se_Revoke_Receipt rid at)
        (\<lambda>m. m\<lparr>sm_revoked_receipts := AList.update rid at (sm_revoked_receipts m)\<rparr>) (sk_allowed rid 0) S)"

definition session_replay :: "bool \<Rightarrow> session_ledger \<Rightarrow> bool \<times> session_ledger" where
  "session_replay open_ok S =
     (case replay session_cfg session_handler empty_session_maps open_ok (sl_journal S) of
        (j, m) \<Rightarrow> (j_healthy j, S\<lparr>sl_journal := j, sl_maps := m\<rparr>))"

definition session_construct :: "string \<Rightarrow> string option \<Rightarrow> bool \<Rightarrow> session_ledger" where
  "session_construct path file open_ok =
     snd (session_replay open_ok
       \<lparr>sl_journal = \<lparr>j_path = path, j_sequence = 0, j_last = [], j_healthy = True, j_errors = [],
          j_file = file\<rparr>, sl_maps = empty_session_maps\<rparr>)"

definition session_inspect :: "session_ledger \<Rightarrow> session_ledger_inspection" where
  "session_inspect S =
     \<lparr>sli_healthy = j_healthy (sl_journal S), sli_records = j_sequence (sl_journal S),
      sli_registered_handoffs = length (sm_registrations (sl_maps S)),
      sli_consumed_receipts = length (sm_receipt_uses (sl_maps S)),
      sli_revoked_keys = length (sm_revoked_keys (sl_maps S)),
      sli_revoked_receipts = length (sm_revoked_receipts (sl_maps S)),
      sli_errors = j_errors (sl_journal S)\<rparr>"

fun session_status_to_string :: "session_key_status \<Rightarrow> string" where
  "session_status_to_string SKS_Allowed = ''ALLOWED''"
| "session_status_to_string SKS_Invalid = ''INVALID''"
| "session_status_to_string SKS_VoucherRejected = ''VOUCHER_REJECTED''"
| "session_status_to_string SKS_KeyUnknown = ''KEY_UNKNOWN''"
| "session_status_to_string SKS_FingerprintMismatch = ''FINGERPRINT_MISMATCH''"
| "session_status_to_string SKS_CertificateRejected = ''CERTIFICATE_REJECTED''"
| "session_status_to_string SKS_ReceiptRejected = ''RECEIPT_REJECTED''"
| "session_status_to_string SKS_NotRegistered = ''NOT_REGISTERED''"
| "session_status_to_string SKS_KeyRevoked = ''KEY_REVOKED''"
| "session_status_to_string SKS_ReceiptRevoked = ''RECEIPT_REVOKED''"
| "session_status_to_string SKS_ReceiptExpired = ''RECEIPT_EXPIRED''"
| "session_status_to_string SKS_CapabilityMismatch = ''CAPABILITY_MISMATCH''"
| "session_status_to_string SKS_ScopeMismatch = ''SCOPE_MISMATCH''"
| "session_status_to_string SKS_UseLimitReached = ''USE_LIMIT_REACHED''"
| "session_status_to_string SKS_StorageError = ''STORAGE_ERROR''"
| "session_status_to_string SKS_Corrupt = ''CORRUPT''"

section \<open>The journal interface\<close>

lemma encode_session_fields:
  "wf_session_event e \<Longrightarrow> split_tabs (encode_session_event e) = (case e of
     Se_Handoff v c r s k a fp x n \<Rightarrow>
       [''H'', hex_encode v, hex_encode c, hex_encode r, hex_encode s, hex_encode k, hex_encode a, fp,
        show_u x, show_u n]
   | Se_Use r i t \<Rightarrow> [''U'', hex_encode r, show_u i, show_u t]
   | Se_Revoke_Key s k t \<Rightarrow> [''R'', hex_encode s, hex_encode k, show_u t]
   | Se_Revoke_Receipt r t \<Rightarrow> [''X'', hex_encode r, show_u t])"
  by (cases e) (simp_all add: split_tabs_join del: append.simps)

interpretation sess: event_journal session_cfg session_handler empty_session_maps wf_session_event
  encode_session_event sem_session_event
proof unfold_locales
  fix e assume "wf_session_event e"
  then show "NL \<notin> set (encode_session_event e)"
    by (cases e) (simp_all add: tab_join_no_NL)
next
  fix e assume "wf_session_event e"
  then show "2 + jc_extra session_cfg \<le> length (split_tabs (encode_session_event e))"
    by (cases e) (simp_all add: encode_session_fields session_cfg_def del: encode_session_event.simps)
next
  fix e q p h st assume "wf_session_event e"
  then show "session_handler (q # p # split_tabs (encode_session_event e) @ [h]) st = sem_session_event e st"
    by (cases e) (simp_all add: encode_session_fields session_handler_def decode_session_event_def
        del: sem_session_event.simps encode_session_event.simps)
qed

end
