(* ===== verification/Journal_Runs.thy ===== *)
theory Journal_Runs
  imports Journal
begin

text \<open>
  Histories of a journalled ledger, for every ledger at once.  A call on a ledger refuses and
  changes nothing, records one event, or loses its append; \<open>event_step\<close> is that contract and
  the locale \<open>journalled_ledger\<close> asks it of a ledger's calls.  From the contract follow the
  invariant of every history (the file holds the recorded events, the maps are what they mean)
  and the round trip through \<open>replay\<close>.

  The locale \<open>metered\<close> is about counters kept in two places: what one log counts for the
  branches of a parent never exceeds what another log has paid for the parent.
\<close>

section \<open>Runs\<close>

text \<open>
  A history: calls whose failed writes leave no torn line (\<open>permitted\<close>) one after the other,
  with the events recorded by those that report success.
\<close>

inductive ledger_run ::
    "('op \<Rightarrow> 'l \<Rightarrow> bool \<times> 'l) \<Rightarrow> ('op \<Rightarrow> 'l \<Rightarrow> bool) \<Rightarrow> ('op \<Rightarrow> 'l \<Rightarrow> 'e list) \<Rightarrow> 'l \<Rightarrow> 'e list \<Rightarrow> 'l \<Rightarrow> bool"
  for call :: "'op \<Rightarrow> 'l \<Rightarrow> bool \<times> 'l" and permitted recorded start where
  lrun_start: "ledger_run call permitted recorded start [] start"
| lrun_ok: "ledger_run call permitted recorded start es S \<Longrightarrow> permitted op S \<Longrightarrow> call op S = (True, S') \<Longrightarrow>
     ledger_run call permitted recorded start (es @ recorded op S) S'"
| lrun_failed: "ledger_run call permitted recorded start es S \<Longrightarrow> permitted op S \<Longrightarrow> call op S = (False, S') \<Longrightarrow>
     ledger_run call permitted recorded start es S'"

definition opt_list :: "'a option \<Rightarrow> 'a list" where
  "opt_list x = (case x of None \<Rightarrow> [] | Some e \<Rightarrow> [e])"

lemma opt_list_simps [simp]: "opt_list None = []" "opt_list (Some e) = [e]"
  by (simp_all add: opt_list_def)

lemma list_all_opt_list [simp]: "list_all P (opt_list x) \<longleftrightarrow> (\<forall>e. x = Some e \<longrightarrow> P e)"
  by (cases x) simp_all

lemma sem_list_snocE:
  assumes "sem_list sem (es @ [e]) st = Some m"
  obtains m1 where "sem_list sem es st = Some m1" "sem e m1 = Some m"
  using assms by (auto simp: sem_list_append split: option.splits)

text \<open>What a call with the event \<open>ev\<close> may do to the journal and the maps.\<close>

definition event_step ::
    "journal_cfg \<Rightarrow> ('e \<Rightarrow> string) \<Rightarrow> ('e \<Rightarrow> 's \<Rightarrow> 's option) \<Rightarrow> io \<Rightarrow> 'e \<Rightarrow>
     bool \<Rightarrow> journal \<Rightarrow> 's \<Rightarrow> journal \<Rightarrow> 's \<Rightarrow> bool" where
  "event_step cfg enc sem io ev ok j m j' m' \<longleftrightarrow>
     \<not> ok \<and> j' = j \<and> m' = m
   \<or> ok \<and> append_event cfg io (enc ev) j = (None, j') \<and> sem ev m = Some m'
   \<or> \<not> ok \<and> (\<exists>msg. append_event cfg io (enc ev) j = (Some msg, j')) \<and> m' = m"

lemma event_step_refused [simp]: "event_step cfg enc sem io ev False j m j m"
  by (simp add: event_step_def)

section \<open>The contract of a ledger's calls\<close>

locale journalled_ledger = replayable cfg reload st0 wf_event encode sem
  for cfg :: journal_cfg and reload :: "bool \<Rightarrow> journal \<Rightarrow> journal \<times> 's" and st0 :: 's
    and wf_event :: "'e \<Rightarrow> bool" and encode :: "'e \<Rightarrow> string" and sem :: "'e \<Rightarrow> 's \<Rightarrow> 's option" +
  fixes journal_of :: "'l \<Rightarrow> journal" and maps_of :: "'l \<Rightarrow> 's"
    and call :: "'op \<Rightarrow> 'l \<Rightarrow> bool \<times> 'l" and io_of :: "'op \<Rightarrow> io" and sane :: "'op \<Rightarrow> 's \<Rightarrow> bool"
    and event_of :: "'op \<Rightarrow> 's \<Rightarrow> 'e option"
  assumes event_wf: "event_of op m = Some ev \<Longrightarrow> sane op m \<Longrightarrow> wf_event ev"
    and event_call: "call op S = (ok, S') \<Longrightarrow> event_of op (maps_of S) = Some ev \<Longrightarrow> sane op (maps_of S) \<Longrightarrow>
      \<exists>es. sem_list sem es st0 = Some (maps_of S) \<Longrightarrow>
      event_step cfg encode sem (io_of op) ev ok (journal_of S) (maps_of S) (journal_of S') (maps_of S')"
    and replay_call: "call op S = (ok, S') \<Longrightarrow> event_of op (maps_of S) = None \<Longrightarrow>
      sane op (maps_of S) \<Longrightarrow> \<exists>open_ok. reload open_ok (journal_of S) = (journal_of S', maps_of S')"
begin

definition ledger_inv :: "'e list \<Rightarrow> 'l \<Rightarrow> bool" where
  "ledger_inv es S \<longleftrightarrow> list_all wf_event es \<and> journal_inv encode sem st0 es (journal_of S) (maps_of S)"

lemma ledger_invD:
  assumes "ledger_inv es S"
  shows "list_all wf_event es" "journal_inv encode sem st0 es (journal_of S) (maps_of S)"
  using assms by (simp_all add: ledger_inv_def)

lemma healthy_meaning:
  "ledger_inv es S \<Longrightarrow> j_healthy (journal_of S) \<Longrightarrow> sem_list sem es st0 = Some (maps_of S)"
  by (auto simp: ledger_inv_def intro: journal_inv_healthy)

lemma inv_reachable: "ledger_inv es S \<Longrightarrow> \<exists>es. sem_list sem es st0 = Some (maps_of S)"
proof (cases "j_healthy (journal_of S)")
  case False
  moreover assume "ledger_inv es S"
  ultimately have "sem_list sem [] st0 = Some (maps_of S)" by (simp add: ledger_inv_def journal_inv_def)
  then show ?thesis ..
qed (auto dest: healthy_meaning)

lemma inv_start:
  assumes "j_path j \<noteq> []" "j_file j = None" "reload open_ok j = (journal_of S, maps_of S)"
  shows "ledger_inv [] S" "j_healthy (journal_of S)"
  using inv_fresh [OF assms] by (simp_all add: ledger_inv_def)

lemma inv_reload:
  assumes "ledger_inv es S" "reload open_ok (journal_of S) = (journal_of S', maps_of S')"
  shows "ledger_inv es S'" "open_ok \<Longrightarrow> j_healthy (journal_of S')"
  using inv_replay [OF ledger_invD(2) [OF assms(1)] ledger_invD(1) [OF assms(1)] assms(2)] ledger_invD(1) [OF assms(1)]
  by (simp_all add: ledger_inv_def)

lemma inv_call:
  assumes "ledger_inv es S" "clean_io (io_of op)" "sane op (maps_of S)" "call op S = (ok, S')"
  shows "ledger_inv (if ok then es @ opt_list (event_of op (maps_of S)) else es) S'"
proof (cases "event_of op (maps_of S)")
  case None
  then show ?thesis using inv_reload(1) [OF assms(1)] replay_call [OF assms(4) _ assms(3)] by auto
next
  case (Some ev)
  note I = ledger_invD [OF assms(1)]
  have "event_step cfg encode sem (io_of op) ev ok (journal_of S) (maps_of S) (journal_of S') (maps_of S')"
    using event_call [OF assms(4) Some assms(3)] inv_reachable [OF assms(1)] by blast
  then consider (refused) "\<not> ok" "journal_of S' = journal_of S" "maps_of S' = maps_of S"
    | (recorded) "ok" "append_event cfg (io_of op) (encode ev) (journal_of S) = (None, journal_of S')"
        "sem ev (maps_of S) = Some (maps_of S')"
    | (lost) msg where "\<not> ok" "append_event cfg (io_of op) (encode ev) (journal_of S) = (Some msg, journal_of S')"
        "maps_of S' = maps_of S"
    by (auto simp: event_step_def)
  then show ?thesis
  proof cases
    case refused
    with assms(1) show ?thesis by (simp add: ledger_inv_def)
  next
    case recorded
    with inv_record [OF I(2) recorded(2,3)] I(1) Some event_wf [OF Some assms(3)] show ?thesis
      by (simp add: ledger_inv_def)
  next
    case lost
    with inv_storage [OF I(2) lost(2) assms(2)] I(1) show ?thesis by (simp add: ledger_inv_def)
  qed
qed

lemma run_inv:
  assumes "ledger_run call (\<lambda>op S. clean_io (io_of op) \<and> sane op (maps_of S)) (\<lambda>op S. opt_list (event_of op (maps_of S))) start es S"
    "ledger_inv [] start"
  shows "ledger_inv es S"
  using assms by (induction rule: ledger_run.induct) (auto dest: inv_call)

text \<open>Round trip: in every history reloading succeeds and gives what the events mean.\<close>

lemma reload:
  assumes "ledger_inv es S" "reload True (journal_of S) = (journal_of S', maps_of S')"
  shows "j_healthy (journal_of S')" "sem_list sem es st0 = Some (maps_of S')"
    "j_healthy (journal_of S) \<Longrightarrow> journal_of S' = journal_of S \<and> maps_of S' = maps_of S"
proof -
  note R = inv_reload [OF assms]
  show "j_healthy (journal_of S')" "sem_list sem es st0 = Some (maps_of S')"
    using R healthy_meaning by simp_all
  show "j_healthy (journal_of S) \<Longrightarrow> journal_of S' = journal_of S \<and> maps_of S' = maps_of S"
    using replay_healthy_id [OF ledger_invD(2) [OF assms(1)] ledger_invD(1) [OF assms(1)]] assms(2) by simp
qed

end

section \<open>Counters backed by another ledger\<close>

text \<open>
  \<open>parent_of m b\<close> names the parent under which the branch \<open>b\<close> was opened, \<open>count m b\<close> the uses
  of \<open>b\<close>; an event is a use of at most one branch.
\<close>

locale metered =
  fixes sem :: "'e \<Rightarrow> 's \<Rightarrow> 's option" and st0 :: 's
    and parent_of :: "'s \<Rightarrow> string \<Rightarrow> string option" and count :: "'s \<Rightarrow> string \<Rightarrow> nat"
    and use_of :: "'e \<Rightarrow> string option"
  assumes finite_branches: "finite (dom (parent_of m))"
    and start_empty: "parent_of st0 b = None" "count st0 b = 0"
    and branches_grow: "sem e m = Some m' \<Longrightarrow> parent_of m b = Some v \<Longrightarrow> parent_of m' b = Some v"
    and uses_registered: "sem e m = Some m' \<Longrightarrow> use_of e = Some b \<Longrightarrow> parent_of m b \<noteq> None"
    and count_step: "sem e m = Some m' \<Longrightarrow> count m' b = count m b + (if use_of e = Some b then 1 else 0)"
begin

definition total :: "'s \<Rightarrow> string \<Rightarrow> nat" where
  "total m v = (\<Sum>b\<in>{b. parent_of m b = Some v}. count m b)"

lemma finite_family [simp]: "finite {b. parent_of m b = Some v}"
  by (rule finite_subset [OF _ finite_branches [of m]]) auto

lemma unregistered_unused:
  "sem_list sem es st0 = Some m \<Longrightarrow> parent_of m b = None \<Longrightarrow> count m b = 0"
proof (induction es arbitrary: m rule: rev_induct)
  case Nil
  then show ?case using start_empty by auto
next
  case (snoc e es)
  from snoc.prems(1) obtain m1 where m1: "sem_list sem es st0 = Some m1" "sem e m1 = Some m"
    by (rule sem_list_snocE)
  have "parent_of m1 b = None" using branches_grow [OF m1(2), of b] snoc.prems(2) by (cases "parent_of m1 b") auto
  then show ?case using snoc.IH [OF m1(1)] count_step [OF m1(2), of b] uses_registered [OF m1(2), of b] by auto
qed

lemma total_snoc:
  assumes "sem_list sem (es @ [e]) st0 = Some m"
  obtains m1 where "sem_list sem es st0 = Some m1"
    "total m v = total m1 v + (case use_of e of Some b \<Rightarrow> if parent_of m1 b = Some v then 1 else 0 | None \<Rightarrow> 0)"
proof -
  obtain m1 where m1: "sem_list sem es st0 = Some m1" "sem e m1 = Some m"
    using assms by (rule sem_list_snocE)
  let ?new = "{b. parent_of m b = Some v}" and ?old = "{b. parent_of m1 b = Some v}"
  have sub: "?old \<subseteq> ?new" using branches_grow [OF m1(2)] by auto
  have "parent_of m1 b = None" if "b \<in> ?new - ?old" for b
    using branches_grow [OF m1(2), of b] that by (cases "parent_of m1 b") auto
  then have fresh: "count m b = 0" if "b \<in> ?new - ?old" for b
    using that unregistered_unused [OF m1(1), of b] count_step [OF m1(2), of b] uses_registered [OF m1(2), of b]
    by auto
  have "total m v = (\<Sum>b\<in>?old. count m b)"
    unfolding total_def by (rule sum.mono_neutral_right) (use sub fresh in auto)
  also have "\<dots> = total m1 v + (\<Sum>b\<in>?old. if use_of e = Some b then 1 else 0)"
    by (simp add: total_def count_step [OF m1(2)] sum.distrib)
  also have "(\<Sum>b\<in>?old. if use_of e = Some b then 1 else (0 :: nat)) =
      (case use_of e of Some b \<Rightarrow> if parent_of m1 b = Some v then 1 else 0 | None \<Rightarrow> (0 :: nat))"
    by (cases "use_of e") (simp_all add: sum.delta)
  finally show thesis using that [OF m1(1)] by simp
qed

text \<open>\<open>paid v\<close> uses of \<open>v\<close> have been paid for elsewhere; the log stays within that.\<close>

definition backed :: "(string \<Rightarrow> nat) \<Rightarrow> 'e list \<Rightarrow> bool" where
  "backed paid es \<longleftrightarrow> (\<forall>m v. sem_list sem es st0 = Some m \<longrightarrow> total m v \<le> paid v)"

lemma backed_start: "backed paid []"
  by (simp add: backed_def total_def start_empty)

lemma backed_mono: "backed paid es \<Longrightarrow> (\<And>v. paid v \<le> paid' v) \<Longrightarrow> backed paid' es"
  unfolding backed_def by (meson le_trans)

lemma backed_free: "backed paid es \<Longrightarrow> use_of e = None \<Longrightarrow> backed paid (es @ [e])"
  unfolding backed_def by (metis (no_types, lifting) add_0_right option.simps(4) total_snoc)

lemma backed_use:
  assumes "backed paid es" "sem_list sem es st0 = Some m0" "use_of e = Some b" "parent_of m0 b = Some v0"
    "\<And>v. paid v + (if v = v0 then 1 else 0) \<le> paid' v"
  shows "backed paid' (es @ [e])"
  unfolding backed_def
proof (intro allI impI)
  fix m v assume "sem_list sem (es @ [e]) st0 = Some m"
  then obtain m1 where "sem_list sem es st0 = Some m1"
    "total m v = total m1 v + (case use_of e of Some b \<Rightarrow> if parent_of m1 b = Some v then 1 else 0 | None \<Rightarrow> 0)"
    by (rule total_snoc)
  then have "total m v = total m0 v + (if v = v0 then 1 else 0)" using assms(2-4) by auto
  moreover have "total m0 v \<le> paid v" using assms(1,2) by (simp add: backed_def)
  ultimately show "total m v \<le> paid' v" using assms(5) [of v] by linarith
qed

end

end
