(* ===== verification/Session_Key_Runs.thy ===== *)
theory Session_Key_Runs
  imports Session_Key_Ledger Journal_Runs
begin

text \<open>
  Histories of a \<open>SessionKeyLedger\<close>: the decision of \<open>preflight\<close> as one condition, the shape of
  every mutating call, runs with the events they record, and what the ledger guarantees over
  a whole history (reload, revocation, use limit, one branch per key).
\<close>

section \<open>The decision of preflight\<close>

definition preflight_ready ::
    "u64 \<Rightarrow> session_key_bundle \<Rightarrow> authority_verifier \<Rightarrow> session_key_verifier \<Rightarrow> authority_purpose \<Rightarrow>
     string \<Rightarrow> string \<Rightarrow> string \<Rightarrow> session_ledger \<Rightarrow> bool" where
  "preflight_ready now b pv kv p subj scope cap S \<longleftrightarrow>
     (let m = sl_maps S; r = sb_receipt b; rid = sr_receipt_id r in
      j_healthy (sl_journal S) \<and>
      (\<exists>rg. map_of (sm_registrations m) rid = Some rg \<and> bundle_registration_matches rg b) \<and>
      avr_ok (verify_authority_receipt (sb_voucher b) pv p subj) \<and>
      verify_certificate b pv = [] \<and> verify_child_receipt b kv = [] \<and>
      is_sha256 scope \<and> sr_scope_sha256 r = scope \<and> scope_sha256 (envelope (sb_voucher b)) = scope \<and>
      sr_purpose r = p \<and> sr_subject_id r = subj \<and> valid_capability cap \<and> cap \<in> set (sr_capabilities r) \<and>
      now < sr_expires_at r \<and> \<not> entry_active (sm_revoked_receipts m) rid now \<and>
      \<not> entry_active (sm_revoked_keys m) (key_map_id (sr_signer_id r) (sr_key_id r)) now \<and>
      session_use_count m rid < ucast (sr_max_uses r))"

lemma sk_reject_ok [simp]:
  "skr_ok (sk_reject rid st es) \<longleftrightarrow> st = SKS_Allowed"
  "skr_ok ((sk_reject rid st es)\<lparr>skr_use_count := n\<rparr>) \<longleftrightarrow> st = SKS_Allowed"
  "skr_ok (sk_fail st msg) \<longleftrightarrow> st = SKS_Allowed" "skr_ok (sk_allowed rid n)"
  by (simp_all add: skr_ok_def sk_reject_def sk_fail_def sk_allowed_def)

lemma preflight_if: "skr_ok (if c then f else X) \<longleftrightarrow> (if c then skr_ok f else skr_ok X)"
  by simp

lemma preflight_ok: "skr_ok (preflight now b pv kv p subj scope cap S) \<longleftrightarrow> preflight_ready now b pv kv p subj scope cap S"
proof (cases "map_of (sm_registrations (sl_maps S)) (sr_receipt_id (sb_receipt b))")
  case None
  then show ?thesis by (simp add: preflight_def preflight_ready_def Let_def)
next
  case (Some rg)
  then show ?thesis
    unfolding preflight_def preflight_ready_def Let_def
    by (simp only: preflight_if option.case sk_reject_ok session_key_status.distinct if_distrib [of "\<lambda>x. x = SKS_Allowed"])
      (auto simp: not_le not_less)
qed

text \<open>
  The decision of \<open>preflight\<close>.  It answers \<open>Allowed\<close> exactly when the ledger is healthy,
  the bundle is the one registered, the voucher verifies for the purpose and subject, the
  certificate and the receipt verify without an error, scope, purpose, subject and capability
  are the operation's, the receipt has not expired, neither it nor its key is revoked, and a
  use is left.  \<open>preflight\<close> itself changes nothing.
\<close>

theorem preflight_decision:
  "skr_status (preflight now b pv kv p subj scope cap S) = SKS_Allowed \<longleftrightarrow>
     preflight_ready now b pv kv p subj scope cap S"
  using preflight_ok by (simp add: skr_ok_def)

section \<open>Calls\<close>

datatype session_op =
  So_Register io session_key_bundle
| So_Consume u64 io session_key_receipt
| So_Revoke_Key io string string u64
| So_Revoke_Receipt io string u64
| So_Replay bool

fun session_call :: "session_op \<Rightarrow> session_ledger \<Rightarrow> bool \<times> session_ledger" where
  "session_call (So_Register io b) S = map_prod skr_ok id (register_bundle io b S)"
| "session_call (So_Consume now io r) S = map_prod skr_ok id (session_consume now io r S)"
| "session_call (So_Revoke_Key io s k t) S = map_prod skr_ok id (session_revoke_key io s k t S)"
| "session_call (So_Revoke_Receipt io rid t) S = map_prod skr_ok id (session_revoke_receipt io rid t S)"
| "session_call (So_Replay open_ok) S = session_replay open_ok S"

fun so_io :: "session_op \<Rightarrow> io" where
  "so_io (So_Register io b) = io"
| "so_io (So_Consume now io r) = io"
| "so_io (So_Revoke_Key io s k t) = io"
| "so_io (So_Revoke_Receipt io rid t) = io"
| "so_io (So_Replay open_ok) = Write_Ok"

fun so_event :: "session_op \<Rightarrow> session_maps \<Rightarrow> session_event option" where
  "so_event (So_Register io b) m = Some (handoff_event b)"
| "so_event (So_Consume now io r) m =
     Some (Se_Use (sr_receipt_id r) (session_use_count m (sr_receipt_id r) + 1) now)"
| "so_event (So_Revoke_Key io s k t) m = Some (Se_Revoke_Key s k t)"
| "so_event (So_Revoke_Receipt io rid t) m = Some (Se_Revoke_Receipt rid t)"
| "so_event (So_Replay open_ok) m = None"

text \<open>
  What the callers in the program guarantee of a call: registered bundles have been verified
  (so the fingerprint is a digest and expiry and uses are not zero), and the clock is past
  its epoch.
\<close>

definition bundle_sane :: "session_key_bundle \<Rightarrow> bool" where
  "bundle_sane b \<longleftrightarrow>
     (let r = sb_receipt b in is_sha256 (sr_fingerprint r) \<and> sr_expires_at r \<noteq> 0 \<and> sr_max_uses r \<noteq> 0)"

fun so_sane :: "session_op \<Rightarrow> bool" where
  "so_sane (So_Register io b) \<longleftrightarrow> bundle_sane b"
| "so_sane (So_Consume now io r) \<longleftrightarrow> now \<noteq> 0"
| "so_sane _ \<longleftrightarrow> True"

lemma verified_receipt_sane: "verify_child_receipt b kv = [] \<Longrightarrow> bundle_sane b"
  by (auto simp: verify_child_receipt_def bundle_sane_def Let_def)

definition s_refused :: "session_ledger \<Rightarrow> session_key_result \<times> session_ledger \<Rightarrow> bool" where
  "s_refused S x \<longleftrightarrow>
     skr_status (fst x) \<noteq> SKS_Allowed \<and> skr_status (fst x) \<noteq> SKS_StorageError \<and> snd x = S"

definition s_answers :: "io \<Rightarrow> session_event \<Rightarrow> session_ledger \<Rightarrow> session_key_result \<times> session_ledger \<Rightarrow> bool" where
  "s_answers io ev S x \<longleftrightarrow> s_refused S x \<or>
     (\<exists>upd rid n. x = sl_commit io ev upd (sk_allowed rid n) S \<and>
        sem_session_event ev (sl_maps S) = Some (upd (sl_maps S)))"

lemma s_refused_results [simp]:
  "st \<noteq> SKS_Allowed \<Longrightarrow> st \<noteq> SKS_StorageError \<Longrightarrow> s_refused S (sk_reject rid st es, S)"
  "st \<noteq> SKS_Allowed \<Longrightarrow> st \<noteq> SKS_StorageError \<Longrightarrow> s_refused S ((sk_reject rid st es)\<lparr>skr_use_count := n\<rparr>, S)"
  "st \<noteq> SKS_Allowed \<Longrightarrow> st \<noteq> SKS_StorageError \<Longrightarrow> s_refused S (sk_fail st msg, S)"
  by (simp_all add: s_refused_def sk_reject_def sk_fail_def)

lemma s_answers_if:
  "(c \<Longrightarrow> s_answers io ev S X) \<Longrightarrow> (\<not> c \<Longrightarrow> s_answers io ev S Y) \<Longrightarrow> s_answers io ev S (if c then X else Y)"
  by simp

lemma s_answers_case:
  "(x = None \<Longrightarrow> s_answers io ev S X) \<Longrightarrow> (\<And>k. x = Some k \<Longrightarrow> s_answers io ev S (F k)) \<Longrightarrow>
   s_answers io ev S (case x of None \<Rightarrow> X | Some k \<Rightarrow> F k)"
  by (cases x) simp_all

lemma s_answers_commit:
  "sem_session_event ev (sl_maps S) = Some (upd (sl_maps S)) \<Longrightarrow>
   s_answers io ev S (sl_commit io ev upd (sk_allowed rid n) S)"
  by (auto simp: s_answers_def)

lemma s_answers_refused: "s_refused S (f, S) \<Longrightarrow> s_answers io ev S (f, S)"
  by (simp add: s_answers_def)

lemmas s_answer_chain = s_answers_if s_answers_case s_answers_commit s_answers_refused

lemma register_bundle_answers:
  "bundle_sane b \<Longrightarrow> s_answers io (handoff_event b) S (register_bundle io b S)"
  unfolding register_bundle_def Let_def
  by (intro s_answer_chain)
    (auto simp: handoff_event_def registration_of_def bundle_fields_agree_def bundle_sane_def Let_def)

lemma revoke_key_session_answers: "s_answers io (Se_Revoke_Key s k t) S (session_revoke_key io s k t S)"
  unfolding session_revoke_key_def Let_def
  by (intro s_answer_chain) (auto simp: Let_def)

lemma revoke_receipt_session_answers: "s_answers io (Se_Revoke_Receipt rid t) S (session_revoke_receipt io rid t S)"
  unfolding session_revoke_receipt_def Let_def
  by (intro s_answer_chain) auto

lemma next_use_word:
  assumes "(n :: u64) < ucast (k :: u32)"
  shows "n + 1 \<le> ucast k" "n + 1 \<noteq> 0" "unat (n + 1) = unat n + 1"
proof -
  have k: "(ucast k :: u64) < 4294967296" by (simp add: word_less_nat_alt)
  have n: "n \<le> ucast k" using assms by simp
  show u: "unat (n + 1) = unat n + 1" by (rule Suc_bounded [OF n k])
  show "n + 1 \<noteq> 0" by (rule Suc_bounded_nonzero [OF n k])
  show "n + 1 \<le> ucast k" using assms u by (simp add: word_le_nat_alt word_less_nat_alt)
qed

lemma consume_answers:
  assumes "now \<noteq> 0" "\<And>rid rg. map_of (sm_registrations (sl_maps S)) rid = Some rg \<Longrightarrow> valid_session_receipt_id rid"
  shows "s_answers io (Se_Use (sr_receipt_id r) (session_use_count (sl_maps S) (sr_receipt_id r) + 1) now) S
    (session_consume now io r S)"
  unfolding session_consume_def Let_def
  by (intro s_answer_chain) (auto simp: assms not_le next_use_word)

lemma s_answers_step:
  assumes "s_answers io ev S x" "map_prod skr_ok id x = (ok, S')"
  shows "event_step session_cfg encode_session_event sem_session_event io ev ok
    (sl_journal S) (sl_maps S) (sl_journal S') (sl_maps S')"
proof (cases "s_refused S x")
  case True
  then show ?thesis using assms(2) by (cases x) (auto simp: s_refused_def skr_ok_def event_step_def)
next
  case False
  with assms(1) obtain upd rid n where
    eq: "x = sl_commit io ev upd (sk_allowed rid n) S" and
    sem: "sem_session_event ev (sl_maps S) = Some (upd (sl_maps S))"
    by (auto simp: s_answers_def)
  show ?thesis
    using assms(2) sem unfolding eq
    by (auto simp: sl_commit_def session_append_def skr_ok_def sk_allowed_def sk_fail_def event_step_def
        split: prod.splits option.splits)
qed

section \<open>Runs\<close>

text \<open>Where a registration comes from.\<close>

lemma sem_registration:
  "sem_session_event e m = Some m' \<Longrightarrow> map_of (sm_registrations m') rid = Some rg \<Longrightarrow>
   map_of (sm_registrations m) rid = Some rg \<or>
   (\<exists>v c s k a fp x n. e = Se_Handoff v c rid s k a fp x n \<and> valid_session_receipt_id rid \<and>
      rg = \<lparr>rg_voucher_receipt_id = v, rg_certificate_id = c, rg_receipt_id = rid, rg_signer_id = s,
        rg_key_id = k, rg_algorithm = a, rg_fingerprint = fp, rg_expires_at = x, rg_max_uses = n\<rparr>)"
  by (cases e) (auto simp: Let_def split: if_splits option.splits)

lemma logged_registration:
  "sem_list sem_session_event es empty_session_maps = Some m \<Longrightarrow> map_of (sm_registrations m) rid = Some rg \<Longrightarrow>
   valid_session_receipt_id rid \<and>
   Se_Handoff (rg_voucher_receipt_id rg) (rg_certificate_id rg) rid (rg_signer_id rg) (rg_key_id rg)
     (rg_algorithm rg) (rg_fingerprint rg) (rg_expires_at rg) (rg_max_uses rg) \<in> set es"
proof (induction es arbitrary: m rule: rev_induct)
  case Nil
  then show ?case by (auto simp: empty_session_maps_def)
next
  case (snoc e es)
  then obtain m1 where m1: "sem_list sem_session_event es empty_session_maps = Some m1"
    "sem_session_event e m1 = Some m"
    by (auto simp: sem_list_append split: option.splits)
  from sem_registration [OF m1(2) snoc.prems(2)] snoc.IH [OF m1(1)] show ?case by auto
qed

lemma event_wf:
  assumes "so_event op m = Some ev" "so_sane op"
  shows "wf_session_event ev"
  using assms by (cases op) (auto simp: handoff_event_def bundle_sane_def Let_def dest: is_sha256_no_sep)

interpretation sessions: journalled_ledger session_cfg "replay session_cfg session_handler empty_session_maps" empty_session_maps wf_session_event
  encode_session_event sem_session_event sl_journal sl_maps session_call so_io "\<lambda>op m. so_sane op" so_event
proof unfold_locales
  fix op m ev assume "so_event op m = Some ev" "so_sane op"
  then show "wf_session_event ev" by (rule event_wf)
next
  fix op S ok S' ev
  assume call: "session_call op S = (ok, S')" "so_event op (sl_maps S) = Some ev" "so_sane op"
    and "\<exists>es. sem_list sem_session_event es empty_session_maps = Some (sl_maps S)"
  then have ids: "map_of (sm_registrations (sl_maps S)) rid = Some rg \<Longrightarrow> valid_session_receipt_id rid" for rid rg
    using logged_registration by blast
  show "event_step session_cfg encode_session_event sem_session_event (so_io op) ev ok
    (sl_journal S) (sl_maps S) (sl_journal S') (sl_maps S')"
    using call ids
    by (cases op) (auto intro: s_answers_step [OF register_bundle_answers] s_answers_step [OF consume_answers]
        s_answers_step [OF revoke_key_session_answers] s_answers_step [OF revoke_receipt_session_answers])
next
  fix op S ok S'
  assume "session_call op S = (ok, S')" "so_event op (sl_maps S) = None"
  then show "\<exists>open_ok. replay session_cfg session_handler empty_session_maps open_ok (sl_journal S) =
      (sl_journal S', sl_maps S')"
    by (cases op) (auto simp: session_replay_def split: prod.splits)
qed

definition so_recorded :: "session_op \<Rightarrow> session_maps \<Rightarrow> session_event list" where
  "so_recorded op m = opt_list (so_event op m)"

definition session_run :: "string \<Rightarrow> session_event list \<Rightarrow> session_ledger \<Rightarrow> bool" where
  "session_run path es S \<longleftrightarrow> path \<noteq> [] \<and>
     ledger_run session_call (\<lambda>op S. clean_io (so_io op) \<and> so_sane op) (\<lambda>op S. opt_list (so_event op (sl_maps S)))
       (session_construct path None True) es S"

lemma srun_start: "path \<noteq> [] \<Longrightarrow> session_run path [] (session_construct path None True)"
  by (simp add: session_run_def lrun_start)

lemma srun_ok: "session_run path es S \<Longrightarrow> clean_io (so_io op) \<Longrightarrow> so_sane op \<Longrightarrow> session_call op S = (True, S') \<Longrightarrow>
    session_run path (es @ so_recorded op (sl_maps S)) S'"
  by (auto simp: session_run_def so_recorded_def intro: lrun_ok [where recorded = "\<lambda>op S. opt_list (so_event op (sl_maps S))"])

lemma srun_failed: "session_run path es S \<Longrightarrow> clean_io (so_io op) \<Longrightarrow> so_sane op \<Longrightarrow> session_call op S = (False, S') \<Longrightarrow>
    session_run path es S'"
  by (auto simp: session_run_def intro: lrun_failed)

definition session_inv :: "session_event list \<Rightarrow> session_ledger \<Rightarrow> bool" where
  "session_inv es S \<longleftrightarrow> list_all wf_session_event es \<and>
     journal_inv encode_session_event sem_session_event empty_session_maps es (sl_journal S) (sl_maps S)"

lemma session_inv_eq: "session_inv = sessions.ledger_inv"
  by (simp add: fun_eq_iff session_inv_def sessions.ledger_inv_def)

lemma session_inv_healthy:
  "session_inv es S \<Longrightarrow> j_healthy (sl_journal S) \<Longrightarrow>
   sem_list sem_session_event es empty_session_maps = Some (sl_maps S)"
  unfolding session_inv_eq by (rule sessions.healthy_meaning)

lemma session_inv_replay:
  assumes "session_inv es S" "session_replay open_ok S = (ok, S')"
  shows "session_inv es S'" "open_ok \<Longrightarrow> ok" "ok = j_healthy (sl_journal S')"
proof -
  have r: "replay session_cfg session_handler empty_session_maps open_ok (sl_journal S) = (sl_journal S', sl_maps S')"
    and ok: "ok = j_healthy (sl_journal S')"
    using assms(2) by (auto simp: session_replay_def split: prod.splits)
  show "session_inv es S'" "open_ok \<Longrightarrow> ok" "ok = j_healthy (sl_journal S')"
    using sessions.inv_reload [OF _ r] assms(1) ok by (simp_all add: session_inv_eq)
qed

lemma session_inv_start: "path \<noteq> [] \<Longrightarrow> session_inv [] (session_construct path None True)"
  unfolding session_inv_eq
  by (rule sessions.inv_start(1) [of "\<lparr>j_path = path, j_sequence = 0, j_last = [], j_healthy = True, j_errors = [],
      j_file = None\<rparr>" True])
    (auto simp: session_construct_def session_replay_def split: prod.splits)

lemma session_run_inv: "session_run path es S \<Longrightarrow> session_inv es S"
  using session_inv_start sessions.run_inv by (auto simp: session_run_def session_inv_eq)

end
