(* ===== verification/Session_Key_Handoff.thy ===== *)
theory Session_Key_Handoff
  imports Session_Key_Runs Authority_Delegation
begin

text \<open>
  \<open>AuthoritySessionKeyHandoff\<close> and \<open>SessionKeyAuthorityGate\<close>
  (\<open>include/guff/session_key.hpp\<close>, \<open>src/session_key.cpp\<close>): the two classes that drive both
  ledgers.  \<open>handoff_issue\<close> mints a voucher through the delegator, has the parent key certify
  the session key, has the session key sign its receipt, checks both and registers the
  bundle.  \<open>session_gate_authorize\<close> checks a bundle, consumes a use of the voucher through
  the authority gate and then a use of the session receipt.
\<close>

section \<open>Data\<close>

record handoff_request =
  hq_parent :: authority_receipt
  hq_actor_reference :: string
  hq_issued_at_utc :: string
  hq_voucher_nonce :: string
  hq_certificate_nonce :: string
  hq_receipt_nonce :: string
  hq_scope_path :: string
  hq_capabilities :: "string list"
  hq_issued_at :: u64
  hq_expires_at :: u64
  hq_max_uses :: u32
  hq_max_delegation_depth :: u32

datatype handoff_status =
  HS_Issued | HS_Invalid | HS_SameKey | HS_VoucherRejected | HS_KeyUnknown | HS_FingerprintMismatch
| HS_CertificateSigningFailed | HS_ReceiptSigningFailed | HS_StoreRejected

record handoff_result =
  hr_status :: handoff_status
  hr_bundle :: "session_key_bundle option"
  hr_errors :: "string list"

definition hr_ok :: "handoff_result \<Rightarrow> bool" where
  "hr_ok r \<longleftrightarrow> hr_status r = HS_Issued \<and> hr_bundle r \<noteq> None"

definition hr_fail :: "handoff_status \<Rightarrow> string list \<Rightarrow> handoff_result" where
  "hr_fail st es = \<lparr>hr_status = st, hr_bundle = None, hr_errors = es\<rparr>"

section \<open>The handoff\<close>

definition voucher_request :: "handoff_request \<Rightarrow> delegation_request" where
  "voucher_request q =
     \<lparr>dq_parent = hq_parent q, dq_actor_reference = hq_actor_reference q,
      dq_issued_at_utc = hq_issued_at_utc q, dq_nonce = hq_voucher_nonce q,
      dq_scope_path = hq_scope_path q, dq_capabilities = hq_capabilities q,
      dq_issued_at = hq_issued_at q, dq_expires_at = hq_expires_at q, dq_max_uses = hq_max_uses q,
      dq_max_delegation_depth = hq_max_delegation_depth q\<rparr>"

text \<open>The certificate before it is signed; the digest is of the canonical bytes.\<close>

definition unsigned_certificate ::
    "handoff_request \<Rightarrow> authority_receipt \<Rightarrow> session_key_signer \<Rightarrow> session_key_certificate" where
  "unsigned_certificate q voucher child =
     (let e = envelope voucher;
          c = \<lparr>sc_schema_version = 1, sc_voucher_receipt_id = receipt_id voucher,
            sc_parent_signer_id = signer_id e, sc_parent_key_id = signer_key_id e,
            sc_parent_algorithm = algorithm voucher, sc_child_signer_id = sks_signer_id child,
            sc_child_key_id = sks_key_id child, sc_child_algorithm = sks_algorithm child,
            sc_child_fingerprint = sks_fingerprint child, sc_purpose = purpose e,
            sc_subject_id = subject_id e, sc_scope_path = scope_path e, sc_scope_sha256 = scope_sha256 e,
            sc_capabilities = capabilities e, sc_issued_at = issued_at_unix_ms e,
            sc_expires_at = expires_at_unix_ms e, sc_max_uses = max_uses e,
            sc_nonce = hq_certificate_nonce q, sc_canonical_sha256 = [], sc_parent_signature = [],
            sc_certificate_id = []\<rparr>
      in c\<lparr>sc_canonical_sha256 := sha256 (canonical_session_key_certificate c)\<rparr>)"

definition sign_certificate :: "session_key_certificate \<Rightarrow> string \<Rightarrow> session_key_certificate" where
  "sign_certificate c sg =
     (let c' = c\<lparr>sc_parent_signature := sg\<rparr>
      in c'\<lparr>sc_certificate_id := session_key_certificate_id c' sg\<rparr>)"

definition unsigned_receipt ::
    "handoff_request \<Rightarrow> session_key_certificate \<Rightarrow> session_key_signer \<Rightarrow> session_key_receipt" where
  "unsigned_receipt q c child =
     (let r = \<lparr>sr_schema_version = 1, sr_certificate_id = sc_certificate_id c,
            sr_voucher_receipt_id = sc_voucher_receipt_id c, sr_signer_id = sks_signer_id child,
            sr_key_id = sks_key_id child, sr_algorithm = sks_algorithm child,
            sr_fingerprint = sks_fingerprint child, sr_purpose = sc_purpose c,
            sr_subject_id = sc_subject_id c, sr_scope_path = sc_scope_path c,
            sr_scope_sha256 = sc_scope_sha256 c, sr_capabilities = sc_capabilities c,
            sr_issued_at = sc_issued_at c, sr_expires_at = sc_expires_at c, sr_max_uses = sc_max_uses c,
            sr_nonce = hq_receipt_nonce q, sr_canonical_sha256 = [], sr_signature = [], sr_receipt_id = []\<rparr>
      in r\<lparr>sr_canonical_sha256 := sha256 (canonical_session_key_receipt r)\<rparr>)"

definition sign_receipt :: "session_key_receipt \<Rightarrow> string \<Rightarrow> session_key_receipt" where
  "sign_receipt r sg =
     (let r' = r\<lparr>sr_signature := sg\<rparr> in r'\<lparr>sr_receipt_id := session_key_receipt_id r' sg\<rparr>)"

text \<open>A signature that is missing, empty or longer than 2048 bytes is a signing failure.\<close>

definition usable_signature :: "string option \<Rightarrow> string option" where
  "usable_signature sg = (case sg of None \<Rightarrow> None | Some s \<Rightarrow> if s = [] \<or> 2048 < length s then None else Some s)"

definition handoff_request_valid :: "handoff_request \<Rightarrow> bool" where
  "handoff_request_valid q \<longleftrightarrow>
     \<not> (schema_version (envelope (hq_parent q)) \<noteq> 3 \<or>
        hq_actor_reference q = [] \<or> 256 < length (hq_actor_reference q) \<or>
        hq_issued_at_utc q = [] \<or> 128 < length (hq_issued_at_utc q) \<or>
        \<not> valid_token (hq_voucher_nonce q) 128 \<or> \<not> valid_token (hq_certificate_nonce q) 128 \<or>
        \<not> valid_token (hq_receipt_nonce q) 128 \<or> \<not> valid_capabilities (hq_capabilities q) \<or>
        hq_issued_at q = 0 \<or> hq_expires_at q \<le> hq_issued_at q \<or> hq_max_uses q = 0)"

definition child_metadata_valid :: "session_key_signer \<Rightarrow> bool" where
  "child_metadata_valid c \<longleftrightarrow> valid_token (sks_signer_id c) 128 \<and> valid_token (sks_key_id c) 128 \<and>
     valid_token (sks_algorithm c) 64 \<and> is_sha256 (sks_fingerprint c)"

text \<open>
  What follows a successful delegation.  \<open>pv\<close> and \<open>kv\<close> are the verifiers of the handoff,
  \<open>sio\<close> the file system's answer to the session ledger.
\<close>

definition handoff_finish ::
    "authority_verifier \<Rightarrow> session_key_verifier \<Rightarrow> io \<Rightarrow> handoff_request \<Rightarrow> authority_signer \<Rightarrow>
     session_key_signer \<Rightarrow> authority_receipt \<Rightarrow> session_ledger \<Rightarrow> handoff_result \<times> session_ledger" where
  "handoff_finish pv kv sio q parent_signer child voucher S =
     (let c = unsigned_certificate q voucher child in
      case usable_signature (sig_sign parent_signer (canonical_session_key_certificate c)) of
        None \<Rightarrow> (hr_fail HS_CertificateSigningFailed
                  [''parent signer failed to sign session-key certificate''], S)
      | Some parent_signature \<Rightarrow>
     (let certificate = sign_certificate c parent_signature; r = unsigned_receipt q certificate child in
      case usable_signature (sks_sign child (canonical_session_key_receipt r)) of
        None \<Rightarrow> (hr_fail HS_ReceiptSigningFailed
                  [''child session key failed to sign delegated receipt''], S)
      | Some child_signature \<Rightarrow>
     (let bundle = \<lparr>sb_voucher = voucher, sb_certificate = certificate,
            sb_receipt = sign_receipt r child_signature\<rparr> in
      if verify_certificate bundle pv \<noteq> []
      then (hr_fail HS_CertificateSigningFailed (verify_certificate bundle pv), S)
      else if verify_child_receipt bundle kv \<noteq> []
      then (hr_fail HS_ReceiptSigningFailed (verify_child_receipt bundle kv), S)
      else (case register_bundle sio bundle S of
        (stored, S') \<Rightarrow>
          if \<not> skr_ok stored then (hr_fail HS_StoreRejected (skr_errors stored), S')
          else (\<lparr>hr_status = HS_Issued, hr_bundle = Some bundle, hr_errors = []\<rparr>, S')))))"

definition handoff_issue ::
    "authority_verifier \<Rightarrow> authority_verifier \<Rightarrow> authority_verifier \<Rightarrow> session_key_verifier \<Rightarrow> u64 \<Rightarrow> io \<Rightarrow> io \<Rightarrow>
     handoff_request \<Rightarrow> authority_signer \<Rightarrow> session_key_signer \<Rightarrow> authority_ledger \<times> session_ledger \<Rightarrow>
     handoff_result \<times> authority_ledger \<times> session_ledger" where
  "handoff_issue dv lv pv kv now aio sio q parent_signer child LS =
     (let (L, S) = LS; p = envelope (hq_parent q);
          fingerprint = skv_fingerprint kv (sks_signer_id child) (sks_key_id child) (sks_algorithm child)
      in
      if \<not> handoff_request_valid q
      then (hr_fail HS_Invalid [''session-key handoff request is invalid''], L, S)
      else if sig_signer_id parent_signer \<noteq> signer_id p \<or>
              sig_algorithm parent_signer \<noteq> algorithm (hq_parent q)
      then (hr_fail HS_Invalid [''parent signer does not match parent receipt''], L, S)
      else if \<not> child_metadata_valid child
      then (hr_fail HS_Invalid [''child session-key signer metadata is invalid''], L, S)
      else if sks_signer_id child = signer_id p \<and> sks_key_id child = signer_key_id p
      then (hr_fail HS_SameKey [''session-key handoff requires a different child key identity''], L, S)
      else if \<not> skv_knows kv (sks_signer_id child) (sks_key_id child) (sks_algorithm child)
      then (hr_fail HS_KeyUnknown [''child key is not resolvable by session-key verifier''], L, S)
      else if \<not> fingerprint_matches fingerprint (sks_fingerprint child)
      then (hr_fail HS_FingerprintMismatch
             [''child signer fingerprint does not match verifier key material''], L, S)
      else (case delegate dv lv now aio (voucher_request q) parent_signer L of
        (dr, L') \<Rightarrow>
          (case dr_child dr of
             Some voucher \<Rightarrow>
               if dr_status dr = DS_Issued
               then (case handoff_finish pv kv sio q parent_signer child voucher S of
                       (res, S') \<Rightarrow> (res, L', S'))
               else (hr_fail HS_VoucherRejected (dr_errors dr), L', S)
           | None \<Rightarrow> (hr_fail HS_VoucherRejected (dr_errors dr), L', S))))"

fun handoff_status_to_string :: "handoff_status \<Rightarrow> string" where
  "handoff_status_to_string HS_Issued = ''ISSUED''"
| "handoff_status_to_string HS_Invalid = ''INVALID''"
| "handoff_status_to_string HS_SameKey = ''SAME_KEY''"
| "handoff_status_to_string HS_VoucherRejected = ''VOUCHER_REJECTED''"
| "handoff_status_to_string HS_KeyUnknown = ''KEY_UNKNOWN''"
| "handoff_status_to_string HS_FingerprintMismatch = ''FINGERPRINT_MISMATCH''"
| "handoff_status_to_string HS_CertificateSigningFailed = ''CERTIFICATE_SIGNING_FAILED''"
| "handoff_status_to_string HS_ReceiptSigningFailed = ''RECEIPT_SIGNING_FAILED''"
| "handoff_status_to_string HS_StoreRejected = ''STORE_REJECTED''"

section \<open>The gate\<close>

definition session_gate_authorize ::
    "authority_verifier \<Rightarrow> session_key_verifier \<Rightarrow> authority_verifier \<Rightarrow> u64 \<Rightarrow> u64 \<Rightarrow> u64 \<Rightarrow> io \<Rightarrow> io \<Rightarrow>
     session_key_bundle \<Rightarrow> authority_purpose \<Rightarrow> string \<Rightarrow> string \<Rightarrow> string \<Rightarrow>
     authority_ledger \<times> session_ledger \<Rightarrow> session_key_result \<times> authority_ledger \<times> session_ledger" where
  "session_gate_authorize pv kv gv now1 now2 now3 aio sio b p subj scope cap LS =
     (let (L, S) = LS; pre = preflight now1 b pv kv p subj scope cap S in
      if \<not> skr_ok pre then (pre, L, S)
      else (case gate_authorize gv now2 aio (Some (sb_voucher b)) p subj scope cap L of
        (backing, L') \<Rightarrow>
          if \<not> ag_ok backing
          then (\<lparr>skr_status = SKS_VoucherRejected, skr_gate_status = ag_status backing,
                 skr_ledger_status = ag_ledger_status backing, skr_receipt_id = sr_receipt_id (sb_receipt b),
                 skr_use_count = session_use_count (sl_maps S) (sr_receipt_id (sb_receipt b)),
                 skr_errors = ag_errors backing\<rparr>, L', S)
          else (case session_consume now3 sio (sb_receipt b) S of
            (consumed, S') \<Rightarrow>
              (consumed\<lparr>skr_gate_status := ag_status backing, skr_ledger_status := ag_ledger_status backing\<rparr>,
               L', S'))))"

end
