(* ===== verification/Session_Key_Issue.thy ===== *)
theory Session_Key_Issue
  imports Session_Key_Handoff
begin

text \<open>
  What \<open>AuthoritySessionKeyHandoff::issue\<close> guarantees: an issued bundle verifies and is
  registered in both ledgers, honest signers get their bundle, and what a failure costs.
\<close>

section \<open>The bundle\<close>

definition handoff_bundle ::
    "handoff_request \<Rightarrow> authority_receipt \<Rightarrow> session_key_signer \<Rightarrow> string \<Rightarrow> string \<Rightarrow> session_key_bundle" where
  "handoff_bundle q voucher child psig csig =
     (let certificate = sign_certificate (unsigned_certificate q voucher child) psig in
      \<lparr>sb_voucher = voucher, sb_certificate = certificate,
       sb_receipt = sign_receipt (unsigned_receipt q certificate child) csig\<rparr>)"

lemma hr_fail_not_ok [simp]: "\<not> hr_ok (hr_fail st es)"
  by (simp add: hr_ok_def hr_fail_def)

lemma signed_fields:
  fixes voucher q child psig
  defines "e \<equiv> envelope voucher" and "c \<equiv> sign_certificate (unsigned_certificate q voucher child) psig"
  shows "sc_schema_version c = 1" "sc_voucher_receipt_id c = receipt_id voucher"
    "sc_parent_signer_id c = signer_id e" "sc_parent_key_id c = signer_key_id e"
    "sc_parent_algorithm c = algorithm voucher" "sc_child_signer_id c = sks_signer_id child"
    "sc_child_key_id c = sks_key_id child" "sc_child_algorithm c = sks_algorithm child"
    "sc_child_fingerprint c = sks_fingerprint child" "sc_purpose c = purpose e" "sc_subject_id c = subject_id e"
    "sc_scope_path c = scope_path e" "sc_scope_sha256 c = scope_sha256 e" "sc_capabilities c = capabilities e"
    "sc_issued_at c = issued_at_unix_ms e" "sc_expires_at c = expires_at_unix_ms e" "sc_max_uses c = max_uses e"
    "sc_nonce c = hq_certificate_nonce q" "sc_parent_signature c = psig"
    "sc_canonical_sha256 c = sha256 (canonical_session_key_certificate c)"
    "sc_certificate_id c = session_key_certificate_id c psig"
    "canonical_session_key_certificate c = canonical_session_key_certificate (unsigned_certificate q voucher child)"
  by (simp_all add: c_def e_def sign_certificate_def unsigned_certificate_def Let_def
      canonical_session_key_certificate_def session_key_certificate_id_def)

lemma signed_receipt_fields:
  fixes q c child csig
  defines "r \<equiv> sign_receipt (unsigned_receipt q c child) csig"
  shows "sr_schema_version r = 1" "sr_certificate_id r = sc_certificate_id c"
    "sr_voucher_receipt_id r = sc_voucher_receipt_id c" "sr_signer_id r = sks_signer_id child"
    "sr_key_id r = sks_key_id child" "sr_algorithm r = sks_algorithm child" "sr_fingerprint r = sks_fingerprint child"
    "sr_purpose r = sc_purpose c" "sr_subject_id r = sc_subject_id c" "sr_scope_path r = sc_scope_path c"
    "sr_scope_sha256 r = sc_scope_sha256 c" "sr_capabilities r = sc_capabilities c"
    "sr_issued_at r = sc_issued_at c" "sr_expires_at r = sc_expires_at c" "sr_max_uses r = sc_max_uses c"
    "sr_nonce r = hq_receipt_nonce q" "sr_signature r = csig"
    "sr_canonical_sha256 r = sha256 (canonical_session_key_receipt r)"
    "sr_receipt_id r = session_key_receipt_id r csig"
    "canonical_session_key_receipt r = canonical_session_key_receipt (unsigned_receipt q c child)"
  by (simp_all add: r_def sign_receipt_def unsigned_receipt_def Let_def
      canonical_session_key_receipt_def session_key_receipt_id_def)

text \<open>The bundle is one the session ledger will look at: its fields agree.\<close>

lemma handoff_bundle_agrees:
  "valid_receipt_id (receipt_id voucher) \<Longrightarrow> bundle_fields_agree (handoff_bundle q voucher child psig csig)"
  by (simp add: bundle_fields_agree_def handoff_bundle_def Let_def signed_fields(1-19) signed_receipt_fields(1-17)
      signed_fields(21) signed_receipt_fields(19))

section \<open>Answers\<close>

text \<open>The finishing step either leaves the session ledger alone or ends in its registration.\<close>

lemma handoff_finish_cases:
  assumes "handoff_finish pv kv sio q parent child voucher S = (res, S')"
  obtains (refused) "\<not> hr_ok res" "S' = S"
  | (stored) psig csig b stored where
      "usable_signature (sig_sign parent (canonical_session_key_certificate (unsigned_certificate q voucher child))) = Some psig"
      "b = handoff_bundle q voucher child psig csig" "verify_certificate b pv = []" "verify_child_receipt b kv = []"
      "register_bundle sio b S = (stored, S')"
      "res = (if skr_ok stored then \<lparr>hr_status = HS_Issued, hr_bundle = Some b, hr_errors = []\<rparr>
              else hr_fail HS_StoreRejected (skr_errors stored))"
proof -
  let ?c = "unsigned_certificate q voucher child"
  show thesis
  proof (cases "usable_signature (sig_sign parent (canonical_session_key_certificate ?c))")
    case None
    with assms refused show thesis by (auto simp: handoff_finish_def Let_def)
  next
    case (Some psig)
    let ?r = "unsigned_receipt q (sign_certificate ?c psig) child"
    show thesis
    proof (cases "usable_signature (sks_sign child (canonical_session_key_receipt ?r))")
      case None
      with Some assms refused show thesis by (auto simp: handoff_finish_def Let_def)
    next
      case (Some csig)
      obtain stored S1 where reg: "register_bundle sio (handoff_bundle q voucher child psig csig) S = (stored, S1)"
        by fastforce
      from assms \<open>usable_signature (sig_sign parent _) = _\<close> Some reg
      consider "\<not> hr_ok res \<and> S' = S" | "verify_certificate (handoff_bundle q voucher child psig csig) pv = []"
          "verify_child_receipt (handoff_bundle q voucher child psig csig) kv = []" "S' = S1"
          "res = (if skr_ok stored then \<lparr>hr_status = HS_Issued, hr_bundle = Some (handoff_bundle q voucher child psig csig), hr_errors = []\<rparr>
              else hr_fail HS_StoreRejected (skr_errors stored))"
        by (auto simp: handoff_finish_def Let_def handoff_bundle_def split: if_splits)
      then show thesis
      proof cases
        case 1
        then show thesis using refused by blast
      next
        case 2
        from stored [OF \<open>usable_signature (sig_sign parent _) = _\<close> refl 2(1,2)] reg 2(3,4) show thesis by simp
      qed
    qed
  qed
qed

text \<open>Refused before the ledgers, refused by the delegator, or finished after a delegation.\<close>

lemma handoff_issue_cases:
  assumes "handoff_issue dv lv pv kv now aio sio q parent child (L, S) = (res, L', S')"
  obtains (refused) "\<not> hr_ok res" "L' = L" "S' = S"
  | (voucher_refused) dr where "delegate dv lv now aio (voucher_request q) parent L = (dr, L')" "\<not> dr_ok dr"
      "\<not> hr_ok res" "S' = S"
  | (finished) dr voucher where "handoff_request_valid q" "child_metadata_valid child"
      "delegate dv lv now aio (voucher_request q) parent L = (dr, L')" "dr_ok dr" "dr_child dr = Some voucher"
      "handoff_finish pv kv sio q parent child voucher S = (res, S')"
proof -
  obtain dr L1 where d: "delegate dv lv now aio (voucher_request q) parent L = (dr, L1)" by fastforce
  obtain L2 S2 where issue: "handoff_issue dv lv pv kv now aio sio q parent child (L, S) = (res, L2, S2)"
    "L2 = L'" "S2 = S'" using assms by blast
  then consider "\<not> hr_ok res \<and> L' = L \<and> S' = S" | "L' = L1 \<and> \<not> dr_ok dr \<and> \<not> hr_ok res \<and> S' = S"
    | voucher where "handoff_request_valid q" "child_metadata_valid child" "L' = L1" "dr_ok dr"
        "dr_child dr = Some voucher" "handoff_finish pv kv sio q parent child voucher S = (res, S')"
    by (auto simp: handoff_issue_def Let_def d dr_ok_def split: if_splits option.splits prod.splits)
  then show thesis
    by cases (use d that in blast)+
qed

lemma sl_commit_ok:
  assumes "sl_commit io ev upd (sk_allowed rid n) S = (res, S')"
  shows "skr_ok res \<Longrightarrow> sl_maps S' = upd (sl_maps S)" "\<not> skr_ok res \<Longrightarrow> sl_maps S' = sl_maps S"
  using assms by (auto simp: sl_commit_def split: prod.splits option.splits)

lemma register_bundle_ok:
  assumes "register_bundle io b S = (res, S')" "skr_ok res"
  shows "map_of (sm_registrations (sl_maps S')) (sr_receipt_id (sb_receipt b)) = Some (registration_of b)"
    "\<not> contains (sm_registrations (sl_maps S)) (sr_receipt_id (sb_receipt b))"
    "\<not> key_registered (sl_maps S) (sr_signer_id (sb_receipt b)) (sr_key_id (sb_receipt b))"
  using assms by (auto simp: register_bundle_def Let_def dest!: sl_commit_ok(1) split: if_splits)

lemma registration_matches [simp]: "bundle_registration_matches (registration_of b) b"
  by (simp add: bundle_registration_matches_def registration_of_def Let_def)

section \<open>Honest signers\<close>

text \<open>The signer's signatures are usable and the verifier accepts them.\<close>

definition honest_parent :: "authority_signer \<Rightarrow> authority_verifier \<Rightarrow> bool" where
  "honest_parent signer v \<longleftrightarrow> ver_knows v (sig_signer_id signer) (sig_algorithm signer) \<and>
     (\<forall>m. \<exists>sg. usable_signature (sig_sign signer m) = Some sg \<and>
        ver_verify v (sig_signer_id signer) (sig_algorithm signer) m sg)"

definition honest_child :: "session_key_signer \<Rightarrow> session_key_verifier \<Rightarrow> bool" where
  "honest_child c v \<longleftrightarrow> skv_knows v (sks_signer_id c) (sks_key_id c) (sks_algorithm c) \<and>
     fingerprint_matches (skv_fingerprint v (sks_signer_id c) (sks_key_id c) (sks_algorithm c)) (sks_fingerprint c) \<and>
     (\<forall>m. \<exists>sg. usable_signature (sks_sign c m) = Some sg \<and>
        skv_verify v (sks_signer_id c) (sks_key_id c) (sks_algorithm c) m sg)"

lemma handoff_bundle_sel [simp]:
  "sb_voucher (handoff_bundle q voucher child psig csig) = voucher"
  "sb_certificate (handoff_bundle q voucher child psig csig) = sign_certificate (unsigned_certificate q voucher child) psig"
  "sb_receipt (handoff_bundle q voucher child psig csig) =
     sign_receipt (unsigned_receipt q (sign_certificate (unsigned_certificate q voucher child) psig) child) csig"
  by (simp_all add: handoff_bundle_def Let_def)

text \<open>A voucher the ledger accepted, for a valid request, certifies without an error.\<close>

lemma exact_capabilities_refl [simp]: "exact_capabilities a a"
  by (simp add: exact_capabilities_def)

lemma handoff_certificate_verifies:
  assumes "handoff_request_valid q" "child_metadata_valid child" "validate_envelope (envelope voucher) = []"
    "envelope voucher = child_envelope_of (voucher_request q)"
    "ver_knows pv (signer_id (envelope voucher)) (algorithm voucher)"
    "ver_verify pv (signer_id (envelope voucher)) (algorithm voucher)
      (canonical_session_key_certificate (unsigned_certificate q voucher child)) psig"
  shows "verify_certificate (handoff_bundle q voucher child psig csig) pv = []"
proof -
  let ?e = "envelope voucher"
  have e: "schema_version ?e = 3" "capabilities ?e = hq_capabilities q" "issued_at_unix_ms ?e = hq_issued_at q"
    "expires_at_unix_ms ?e = hq_expires_at q"
    using assms(4) by (simp_all add: child_envelope_of_def voucher_request_def Let_def)
  have v: "max_uses ?e \<noteq> 0" "max_uses ?e \<le> 1024" "scope_sha256 ?e = sha256 (scope_path ?e)"
    using assms(3) e(1) by (auto simp: validate_envelope_def not_less)
  show ?thesis
    using assms(1,2,5,6) e v
    by (simp add: verify_certificate_def Let_def signed_fields(1-21) signed_fields(22) handoff_request_valid_def
        child_metadata_valid_def not_le not_less)
qed

lemma handoff_receipt_verifies:
  assumes "handoff_request_valid q" "child_metadata_valid child" "validate_envelope (envelope voucher) = []"
    "envelope voucher = child_envelope_of (voucher_request q)"
    "skv_knows kv (sks_signer_id child) (sks_key_id child) (sks_algorithm child)"
    "fingerprint_matches (skv_fingerprint kv (sks_signer_id child) (sks_key_id child) (sks_algorithm child))
      (sks_fingerprint child)"
    "skv_verify kv (sks_signer_id child) (sks_key_id child) (sks_algorithm child)
      (canonical_session_key_receipt (unsigned_receipt q (sign_certificate (unsigned_certificate q voucher child) psig) child))
      csig"
  shows "verify_child_receipt (handoff_bundle q voucher child psig csig) kv = []"
proof -
  let ?e = "envelope voucher"
  have e: "schema_version ?e = 3" "capabilities ?e = hq_capabilities q" "issued_at_unix_ms ?e = hq_issued_at q"
    "expires_at_unix_ms ?e = hq_expires_at q"
    using assms(4) by (simp_all add: child_envelope_of_def voucher_request_def Let_def)
  have v: "max_uses ?e \<noteq> 0" "max_uses ?e \<le> 1024" "scope_sha256 ?e = sha256 (scope_path ?e)"
    using assms(3) e(1) by (auto simp: validate_envelope_def not_less)
  show ?thesis
    using assms(1,2,5,6,7) e v
    by (simp add: verify_child_receipt_def Let_def signed_fields(1-21) signed_receipt_fields handoff_request_valid_def
        child_metadata_valid_def not_le not_less)
qed

text \<open>With a writable journal a healthy ledger registers every new, agreeing bundle.\<close>

lemma session_append_writes:
  "j_healthy j \<Longrightarrow> j_path j \<noteq> [] \<Longrightarrow> \<exists>j'. session_append Write_Ok body j = (None, j')"
  by (simp add: session_append_def append_event_def Let_def)

lemma register_bundle_new:
  assumes "j_healthy (sl_journal S)" "j_path (sl_journal S) \<noteq> []" "bundle_fields_agree b"
    "\<not> contains (sm_registrations (sl_maps S)) (sr_receipt_id (sb_receipt b))"
    "\<not> key_registered (sl_maps S) (sr_signer_id (sb_receipt b)) (sr_key_id (sb_receipt b))"
  shows "skr_ok (fst (register_bundle Write_Ok b S))"
proof -
  obtain j' where "session_append Write_Ok (encode_session_event (handoff_event b)) (sl_journal S) = (None, j')"
    using session_append_writes assms(1,2) by blast
  with assms show ?thesis by (simp add: register_bundle_def Let_def sl_commit_def)
qed

text \<open>The step after the delegation, with honest signers and with a key that is already taken.\<close>

lemma honest_finish:
  assumes "handoff_request_valid q" "child_metadata_valid child" "validate_envelope (envelope voucher) = []"
    "envelope voucher = child_envelope_of (voucher_request q)" "valid_receipt_id (receipt_id voucher)"
    "honest_parent parent pv" "sig_signer_id parent = signer_id (envelope voucher)"
    "sig_algorithm parent = algorithm voucher" "honest_child child kv"
    "handoff_finish pv kv sio q parent child voucher S = (res, S')"
  obtains b stored where "sb_voucher b = voucher" "sr_signer_id (sb_receipt b) = sks_signer_id child"
    "sr_key_id (sb_receipt b) = sks_key_id child" "bundle_fields_agree b" "register_bundle sio b S = (stored, S')"
    "res = (if skr_ok stored then \<lparr>hr_status = HS_Issued, hr_bundle = Some b, hr_errors = []\<rparr>
            else hr_fail HS_StoreRejected (skr_errors stored))"
proof -
  let ?c = "unsigned_certificate q voucher child"
  obtain psig where p: "usable_signature (sig_sign parent (canonical_session_key_certificate ?c)) = Some psig"
    "ver_verify pv (signer_id (envelope voucher)) (algorithm voucher) (canonical_session_key_certificate ?c) psig"
    using assms(6-8) unfolding honest_parent_def by metis
  let ?r = "unsigned_receipt q (sign_certificate ?c psig) child"
  obtain csig where c: "usable_signature (sks_sign child (canonical_session_key_receipt ?r)) = Some csig"
    "skv_verify kv (sks_signer_id child) (sks_key_id child) (sks_algorithm child) (canonical_session_key_receipt ?r) csig"
    using assms(9) unfolding honest_child_def by metis
  let ?b = "handoff_bundle q voucher child psig csig"
  have "ver_knows pv (signer_id (envelope voucher)) (algorithm voucher)"
    using assms(6-8) by (simp add: honest_parent_def)
  then have cert: "verify_certificate ?b pv = []" using assms(1-4) p(2) by (intro handoff_certificate_verifies)
  have rec: "verify_child_receipt ?b kv = []"
    using assms(1-4,9) c(2) by (intro handoff_receipt_verifies) (simp_all add: honest_child_def)
  obtain stored S1 where reg: "register_bundle sio ?b S = (stored, S1)" by fastforce
  from assms(10) p(1) c(1) cert rec reg have "S' = S1"
    "res = (if skr_ok stored then \<lparr>hr_status = HS_Issued, hr_bundle = Some ?b, hr_errors = []\<rparr>
            else hr_fail HS_StoreRejected (skr_errors stored))"
    by (auto simp: handoff_finish_def Let_def handoff_bundle_def split: if_splits)
  with that [of ?b stored] reg handoff_bundle_agrees [OF assms(5)] show thesis
    by (simp add: signed_receipt_fields)
qed

lemma delegated_voucher:
  assumes "delegate dv lv now aio (voucher_request q) parent L = (dr, L')" "dr_ok dr" "dr_child dr = Some voucher"
  shows "envelope voucher = child_envelope_of (voucher_request q)" "validate_envelope (envelope voucher) = []"
    "algorithm voucher = sig_algorithm parent" "valid_receipt_id (receipt_id voucher)"
    "use_count (al_maps L') (receipt_id (hq_parent q)) = use_count (al_maps L) (receipt_id (hq_parent q)) + 1"
    "delegated_uses (al_maps L') (receipt_id (hq_parent q)) =
      delegated_uses (al_maps L) (receipt_id (hq_parent q)) + receipt_limit voucher"
proof -
  obtain reg where v: "envelope voucher = child_envelope_of (voucher_request q)" "validate_envelope (envelope voucher) = []"
    "algorithm voucher = sig_algorithm parent"
    "register_ready lv now (dq_parent (voucher_request q)) voucher L"
    "reserve now aio (dq_parent (voucher_request q)) voucher L = (reg, L')" "alr_ok reg"
    using delegate_okE [OF assms(1,2)] assms(3) by (metis option.inject)
  have parent: "dq_parent (voucher_request q) = hq_parent q" by (simp add: voucher_request_def)
  from v(4) have "valid_receipt_id (receipt_id voucher)"
    unfolding register_ready_def Let_def by (blast dest: verify_ok_receipt_id)
  with v reserve_maps [OF v(5,6)] show
    "envelope voucher = child_envelope_of (voucher_request q)" "validate_envelope (envelope voucher) = []"
    "algorithm voucher = sig_algorithm parent" "valid_receipt_id (receipt_id voucher)"
    "use_count (al_maps L') (receipt_id (hq_parent q)) = use_count (al_maps L) (receipt_id (hq_parent q)) + 1"
    "delegated_uses (al_maps L') (receipt_id (hq_parent q)) =
      delegated_uses (al_maps L) (receipt_id (hq_parent q)) + receipt_limit voucher"
    unfolding parent by simp_all
qed

text \<open>The checks \<open>issue\<close> makes itself, before the delegator.\<close>

definition handoff_precheck :: "handoff_request \<Rightarrow> authority_signer \<Rightarrow> session_key_signer \<Rightarrow> bool" where
  "handoff_precheck q parent child \<longleftrightarrow> handoff_request_valid q \<and>
     sig_signer_id parent = signer_id (envelope (hq_parent q)) \<and> sig_algorithm parent = algorithm (hq_parent q) \<and>
     child_metadata_valid child \<and>
     \<not> (sks_signer_id child = signer_id (envelope (hq_parent q)) \<and>
        sks_key_id child = signer_key_id (envelope (hq_parent q)))"

lemma handoff_after_delegation:
  assumes "handoff_precheck q parent child" "honest_parent parent pv" "honest_child child kv"
    "delegate dv lv now aio (voucher_request q) parent L = (dr, L1)" "dr_ok dr"
    "handoff_issue dv lv pv kv now aio sio q parent child (L, S) = (res, L', S')"
  obtains voucher b stored where "L' = L1" "dr_child dr = Some voucher" "sb_voucher b = voucher"
    "sr_signer_id (sb_receipt b) = sks_signer_id child" "sr_key_id (sb_receipt b) = sks_key_id child"
    "bundle_fields_agree b" "register_bundle sio b S = (stored, S')"
    "res = (if skr_ok stored then \<lparr>hr_status = HS_Issued, hr_bundle = Some b, hr_errors = []\<rparr>
            else hr_fail HS_StoreRejected (skr_errors stored))"
proof -
  obtain voucher where v: "dr_child dr = Some voucher" "dr_status dr = DS_Issued" using assms(5) by (auto simp: dr_ok_def)
  have same: "\<not> (sks_signer_id child = signer_id (envelope (hq_parent q)) \<and>
      sks_key_id child = signer_key_id (envelope (hq_parent q)))"
    and pre: "handoff_request_valid q" "sig_signer_id parent = signer_id (envelope (hq_parent q))"
      "sig_algorithm parent = algorithm (hq_parent q)" "child_metadata_valid child"
    using assms(1) by (simp_all only: handoff_precheck_def simp_thms)
  have "handoff_issue dv lv pv kv now aio sio q parent child (L, S) =
      (case handoff_finish pv kv sio q parent child voucher S of (res, S') \<Rightarrow> (res, L1, S'))"
    using assms(3) v pre by (simp add: handoff_issue_def honest_child_def Let_def same assms(4))
  with assms(6) have f: "L' = L1" "handoff_finish pv kv sio q parent child voucher S = (res, S')"
    by (simp_all split: prod.splits)
  note d = delegated_voucher [OF assms(4,5) v(1)]
  have "sig_signer_id parent = signer_id (envelope voucher)"
    using assms(1) d(1) by (simp add: handoff_precheck_def child_envelope_of_def voucher_request_def Let_def)
  from honest_finish [OF _ _ d(2,1,4) assms(2) this d(3) [symmetric] assms(3) f(2)] assms(1) that f(1) v(1)
  show thesis unfolding handoff_precheck_def by metis
qed

section \<open>A concrete handoff\<close>

definition session_signer :: session_key_signer where
  "session_signer = \<lparr>sks_signer_id = ''session'', sks_key_id = ''sk1'', sks_algorithm = ''test'',
     sks_fingerprint = sha256 ''key'', sks_sign = (\<lambda>m. Some (sha256 m))\<rparr>"

definition session_verifier :: session_key_verifier where
  "session_verifier = \<lparr>skv_knows = (\<lambda>s k a. s = ''session'' \<and> k = ''sk1'' \<and> a = ''test''),
     skv_fingerprint = (\<lambda>s k a. Some (sha256 ''key'')), skv_verify = (\<lambda>s k a m sg. sg = sha256 m)\<rparr>"

definition sample_handoff :: handoff_request where
  "sample_handoff = \<lparr>hq_parent = parent_receipt, hq_actor_reference = ''alice'',
     hq_issued_at_utc = ''2026-01-01T00:00:00Z'', hq_voucher_nonce = ''n4'', hq_certificate_nonce = ''c1'',
     hq_receipt_nonce = ''r1'', hq_scope_path = ''/repo/src'', hq_capabilities = [''read''],
     hq_issued_at = 1000, hq_expires_at = 2000, hq_max_uses = 2, hq_max_delegation_depth = 0\<rparr>"

abbreviation fresh_sessions :: session_ledger where
  "fresh_sessions \<equiv> session_construct ''keys'' None True"

lemma sample_voucher_request: "voucher_request sample_handoff = sample_request"
  by (simp add: voucher_request_def sample_handoff_def sample_request_def)

lemma sample_handoff_parent: "hq_parent sample_handoff = parent_receipt"
  by (simp add: sample_handoff_def)

lemma fresh_sessions_fields [simp]:
  "sl_maps fresh_sessions = empty_session_maps" "j_healthy (sl_journal fresh_sessions)"
  "j_path (sl_journal fresh_sessions) = ''keys''"
  by (simp_all add: session_construct_def session_replay_def replay_def Let_def)

lemma sample_handoff_valid: "handoff_request_valid sample_handoff"
  by (simp add: handoff_request_valid_def sample_handoff_def valid_token_def token_char_def
      valid_capabilities_def valid_capability_def)

lemma session_signer_valid: "child_metadata_valid session_signer"
  by (simp add: child_metadata_valid_def session_signer_def valid_token_def token_char_def)

lemma sample_precheck: "handoff_precheck sample_handoff sample_signer session_signer"
proof -
  have "sks_signer_id session_signer \<noteq> ''root''" by (simp add: session_signer_def)
  then show ?thesis
    using sample_handoff_valid session_signer_valid
    by (simp add: handoff_precheck_def) (simp add: sample_handoff_def sample_signer_def)
qed

lemma sample_honest: "honest_parent sample_signer sample_verifier" "honest_child session_signer session_verifier"
  by (simp_all add: honest_parent_def honest_child_def sample_signer_def sample_verifier_def session_signer_def
      session_verifier_def usable_signature_def fingerprint_matches_def)

text \<open>The sample bundle, signed by both keys.\<close>

definition sample_bundle :: session_key_bundle where
  "sample_bundle =
     (let c = unsigned_certificate sample_handoff child_receipt session_signer;
          psig = sha256 (canonical_session_key_certificate c);
          r = unsigned_receipt sample_handoff (sign_certificate c psig) session_signer
      in handoff_bundle sample_handoff child_receipt session_signer psig (sha256 (canonical_session_key_receipt r)))"

lemma sample_bundle_fields:
  "sb_voucher sample_bundle = child_receipt" "sr_signer_id (sb_receipt sample_bundle) = ''session''"
  "sr_key_id (sb_receipt sample_bundle) = ''sk1''" "sr_max_uses (sb_receipt sample_bundle) = 2"
  "sr_expires_at (sb_receipt sample_bundle) = 2000" "sr_fingerprint (sb_receipt sample_bundle) = sha256 ''key''"
  "valid_session_receipt_id (sr_receipt_id (sb_receipt sample_bundle))"
  by (simp_all add: sample_bundle_def Let_def signed_receipt_fields signed_fields(1-21) session_signer_def)

lemma sample_bundle_registers:
  "\<exists>res S. register_bundle Write_Ok sample_bundle fresh_sessions = (res, S) \<and> skr_ok res"
proof -
  have "valid_receipt_id (receipt_id child_receipt)" unfolding child_receipt_def by (rule parent_receipt_id_valid)
  then have "bundle_fields_agree sample_bundle"
    by (simp add: sample_bundle_def Let_def handoff_bundle_agrees)
  then have "skr_ok (fst (register_bundle Write_Ok sample_bundle fresh_sessions))"
    by (intro register_bundle_new) (simp_all add: empty_session_maps_def key_registered_def)
  then show ?thesis by (cases "register_bundle Write_Ok sample_bundle fresh_sessions") auto
qed

lemma sample_bundle_sane: "bundle_sane sample_bundle"
  by (simp add: bundle_sane_def Let_def sample_bundle_fields)

lemma sample_taken:
  assumes "register_bundle Write_Ok sample_bundle fresh_sessions = (res, S)" "skr_ok res"
  shows "key_registered (sl_maps S) ''session'' ''sk1''"
  using map_of_SomeD [OF register_bundle_ok(1) [OF assms]] sample_bundle_fields(2,3)
  by (force simp: key_registered_def list_ex_iff registration_of_def Let_def)

lemma sample_handoff_exists:
  "\<exists>L dr L1 res L' S'. delegate sample_verifier sample_verifier 1500 Write_Ok (voucher_request sample_handoff) sample_signer L = (dr, L1) \<and>
     dr_ok dr \<and> handoff_issue sample_verifier sample_verifier sample_verifier session_verifier 1500 Write_Ok Write_Ok
       sample_handoff sample_signer session_signer (L, S) = (res, L', S')"
  using sample_delegates unfolding sample_voucher_request by (metis prod_cases3)

section \<open>Properties\<close>

text \<open>
  A handed-off bundle is backed and registered.  When \<open>issue\<close> answers \<open>Issued\<close>, certificate and
  receipt verify, the voucher carries exactly the requested envelope and no more than the
  parent's authority, the authority ledger has it registered under the parent, and the
  session ledger has registered the bundle, whose receipt and key it did not know before.
\<close>

theorem issued_bundle_is_registered:
  assumes "handoff_issue dv lv pv kv now aio sio q parent child (L, S) = (res, L', S')" and "hr_ok res"
  shows "\<exists>b. hr_bundle res = Some b \<and> verify_certificate b pv = [] \<and> verify_child_receipt b kv = [] \<and>
    envelope (sb_voucher b) = child_envelope_of (voucher_request q) \<and>
    no_more_than (envelope (sb_voucher b)) (envelope (hq_parent q)) \<and>
    map_of (am_parent (al_maps L')) (receipt_id (sb_voucher b)) = Some (receipt_id (hq_parent q)) \<and>
    map_of (sm_registrations (sl_maps S')) (sr_receipt_id (sb_receipt b)) = Some (registration_of b) \<and>
    \<not> contains (sm_registrations (sl_maps S)) (sr_receipt_id (sb_receipt b)) \<and>
    \<not> key_registered (sl_maps S) (sks_signer_id child) (sks_key_id child)"
proof (cases rule: handoff_issue_cases [OF assms(1)])
  case (3 dr voucher)
  obtain reg where v: "envelope voucher = child_envelope_of (voucher_request q)"
    "register_ready lv now (dq_parent (voucher_request q)) voucher L"
    "reserve now aio (dq_parent (voucher_request q)) voucher L = (reg, L')" "alr_ok reg"
    using delegate_okE [OF 3(3,4)] 3(5) by (metis option.inject)
  have parent: "dq_parent (voucher_request q) = hq_parent q" by (simp add: voucher_request_def)
  show ?thesis
  proof (cases rule: handoff_finish_cases [OF 3(6)])
    case 1
    with assms(2) show ?thesis by simp
  next
    case (2 psig csig b stored)
    then have ok: "skr_ok stored" "hr_bundle res = Some b" using assms(2) by (auto split: if_splits)
    have "sb_voucher b = voucher" "sr_signer_id (sb_receipt b) = sks_signer_id child"
      "sr_key_id (sb_receipt b) = sks_key_id child"
      using 2(2) by (simp_all add: handoff_bundle_def Let_def signed_receipt_fields)
    with ok 2(3,4) register_bundle_ok [OF 2(5) ok(1)] v reserve_maps(1) [OF v(3,4)] ready_no_more_than [OF v(2)]
    show ?thesis unfolding parent by auto
  qed
qed (use assms(2) in simp_all)

theorem issued_bundle_is_registered_witness:
  "\<exists>b (S' :: session_ledger). map_of (sm_registrations (sl_maps S')) (sr_receipt_id (sb_receipt b)) = Some (registration_of b) \<and>
     verify_certificate b sample_verifier = [] \<and> verify_child_receipt b session_verifier = [] \<and>
     envelope (sb_voucher b) = child_envelope"
proof -
  obtain L dr L1 res L' S' where h:
    "delegate sample_verifier sample_verifier 1500 Write_Ok (voucher_request sample_handoff) sample_signer L = (dr, L1)" "dr_ok dr"
    "handoff_issue sample_verifier sample_verifier sample_verifier session_verifier 1500 Write_Ok Write_Ok
       sample_handoff sample_signer session_signer (L, fresh_sessions) = (res, L', S')"
    using sample_handoff_exists [of fresh_sessions] by blast
  obtain b :: session_key_bundle and stored where "register_bundle Write_Ok b fresh_sessions = (stored, S')" "bundle_fields_agree b"
    "sr_signer_id (sb_receipt b) = sks_signer_id session_signer" "sr_key_id (sb_receipt b) = sks_key_id session_signer"
    "res = (if skr_ok stored then \<lparr>hr_status = HS_Issued, hr_bundle = Some b, hr_errors = []\<rparr>
            else hr_fail HS_StoreRejected (skr_errors stored))"
    by (rule handoff_after_delegation [OF sample_precheck sample_honest h])
  moreover from this have "skr_ok (fst (register_bundle Write_Ok b fresh_sessions))"
    by (intro register_bundle_new) (simp_all add: empty_session_maps_def key_registered_def)
  ultimately have "hr_ok res" by (simp add: hr_ok_def)
  from issued_bundle_is_registered [OF h(3) this] show ?thesis
    unfolding sample_voucher_request sample_request_child by blast
qed

text \<open>
  Honest signers get their bundle.  When the request passes the handoff's own checks, the
  delegator issues the voucher, both signers produce signatures that the verifiers accept and
  the fingerprint is the verifier's, then \<open>issue\<close> answers \<open>Issued\<close>, provided the session ledger
  is healthy, its file can be written and it knows neither the key nor the new receipt's id.
\<close>

theorem honest_handoff_succeeds:
  assumes "handoff_precheck q parent child" and "honest_parent parent pv" and "honest_child child kv"
    and "delegate dv lv now aio (voucher_request q) parent L = (dr, L1)" and "dr_ok dr"
    and "j_healthy (sl_journal S)" and "j_path (sl_journal S) \<noteq> []"
    and "\<not> key_registered (sl_maps S) (sks_signer_id child) (sks_key_id child)"
    and "handoff_issue dv lv pv kv now aio Write_Ok q parent child (L, S) = (res, L', S')"
  shows "hr_ok res \<or> (\<exists>b :: session_key_bundle. sr_signer_id (sb_receipt b) = sks_signer_id child \<and>
    sr_key_id (sb_receipt b) = sks_key_id child \<and> contains (sm_registrations (sl_maps S)) (sr_receipt_id (sb_receipt b)))"
proof -
  obtain b stored where b: "sr_signer_id (sb_receipt b) = sks_signer_id child"
    "sr_key_id (sb_receipt b) = sks_key_id child" "bundle_fields_agree b" "register_bundle Write_Ok b S = (stored, S')"
    "res = (if skr_ok stored then \<lparr>hr_status = HS_Issued, hr_bundle = Some b, hr_errors = []\<rparr>
            else hr_fail HS_StoreRejected (skr_errors stored))"
    by (rule handoff_after_delegation [OF assms(1-5,9)])
  show ?thesis
  proof (cases "contains (sm_registrations (sl_maps S)) (sr_receipt_id (sb_receipt b))")
    case False
    with register_bundle_new [OF assms(6,7) b(3)] assms(8) b show ?thesis by (simp add: hr_ok_def)
  next
    case True
    with b(1,2) show ?thesis by blast
  qed
qed

theorem honest_handoff_succeeds_witness:
  "\<exists>L res L' S'. handoff_issue sample_verifier sample_verifier sample_verifier session_verifier 1500 Write_Ok Write_Ok
       sample_handoff sample_signer session_signer (L, fresh_sessions) = (res, L', S') \<and> hr_ok res"
proof -
  obtain L dr L1 res L' S' where h:
    "delegate sample_verifier sample_verifier 1500 Write_Ok (voucher_request sample_handoff) sample_signer L = (dr, L1)" "dr_ok dr"
    "handoff_issue sample_verifier sample_verifier sample_verifier session_verifier 1500 Write_Ok Write_Ok
       sample_handoff sample_signer session_signer (L, fresh_sessions) = (res, L', S')"
    using sample_handoff_exists [of fresh_sessions] by blast
  have "\<not> key_registered (sl_maps fresh_sessions) (sks_signer_id session_signer) (sks_key_id session_signer)"
    by (simp add: empty_session_maps_def key_registered_def)
  from honest_handoff_succeeds [OF sample_precheck sample_honest h(1,2) _ _ this h(3)] h(3) show ?thesis
    by (auto simp: empty_session_maps_def)
qed

text \<open>
  A taken key costs the parent.  \<open>issue\<close> asks the delegator for the voucher before the
  session ledger is asked about the key.  When the key already backs a registered branch, the
  handoff is refused, but the parent receipt has been charged one use and the voucher's uses
  stay reserved.
\<close>

theorem taken_key_charges_parent:
  assumes "handoff_precheck q parent child" and "honest_parent parent pv" and "honest_child child kv"
    and "delegate dv lv now aio (voucher_request q) parent L = (dr, L1)" and "dr_ok dr"
    and "key_registered (sl_maps S) (sks_signer_id child) (sks_key_id child)"
    and "handoff_issue dv lv pv kv now aio sio q parent child (L, S) = (res, L', S')"
  shows "hr_status res = HS_StoreRejected \<and> S' = S \<and>
    use_count (al_maps L') (receipt_id (hq_parent q)) = use_count (al_maps L) (receipt_id (hq_parent q)) + 1 \<and>
    delegated_uses (al_maps L') (receipt_id (hq_parent q)) =
      delegated_uses (al_maps L) (receipt_id (hq_parent q)) + ucast (hq_max_uses q)"
proof -
  obtain voucher b stored where b: "L' = L1" "dr_child dr = Some voucher" "sr_signer_id (sb_receipt b) = sks_signer_id child"
    "sr_key_id (sb_receipt b) = sks_key_id child" "register_bundle sio b S = (stored, S')"
    "res = (if skr_ok stored then \<lparr>hr_status = HS_Issued, hr_bundle = Some b, hr_errors = []\<rparr>
            else hr_fail HS_StoreRejected (skr_errors stored))"
    by (rule handoff_after_delegation [OF assms(1-5,7)])
  have "\<not> skr_ok stored \<and> S' = S"
    using b(3-5) assms(6) by (auto simp: register_bundle_def Let_def split: if_splits)
  moreover have "receipt_limit voucher = ucast (hq_max_uses q)"
    using delegated_voucher(1) [OF assms(4,5) b(2)]
    by (simp add: receipt_limit_def child_envelope_of_def voucher_request_def Let_def)
  ultimately show ?thesis using delegated_voucher(5,6) [OF assms(4,5) b(2)] b(1,6) by (simp add: hr_fail_def)
qed

theorem taken_key_charges_parent_witness:
  "\<exists>L S res L' S'. handoff_issue sample_verifier sample_verifier sample_verifier session_verifier 1500 Write_Ok Write_Ok
       sample_handoff sample_signer session_signer (L, S) = (res, L', S') \<and> hr_status res = HS_StoreRejected \<and>
     use_count (al_maps L') (receipt_id parent_receipt) = use_count (al_maps L) (receipt_id parent_receipt) + 1"
proof -
  obtain r S where S: "register_bundle Write_Ok sample_bundle fresh_sessions = (r, S)" "skr_ok r"
    using sample_bundle_registers by blast
  obtain L dr L1 res L' S' where h:
    "delegate sample_verifier sample_verifier 1500 Write_Ok (voucher_request sample_handoff) sample_signer L = (dr, L1)" "dr_ok dr"
    "handoff_issue sample_verifier sample_verifier sample_verifier session_verifier 1500 Write_Ok Write_Ok
       sample_handoff sample_signer session_signer (L, S) = (res, L', S')"
    using sample_handoff_exists [of S] by blast
  have "key_registered (sl_maps S) (sks_signer_id session_signer) (sks_key_id session_signer)"
    using sample_taken [OF S] by (simp add: session_signer_def)
  from taken_key_charges_parent [OF sample_precheck sample_honest h(1,2) this h(3)] h(3) show ?thesis
    unfolding sample_handoff_parent by blast
qed

end
