(* ===== verification/Session_Key_Safety.thy ===== *)
theory Session_Key_Safety
  imports Session_Key_Issue Authority_Ledger_Journal
begin

text \<open>
  What a \<open>SessionKeyLedger\<close> guarantees over its whole history, and the one way in which its
  public interface lets a caller break it.
\<close>

section \<open>Facts about logs\<close>

fun event_session_uses :: "string \<Rightarrow> session_event \<Rightarrow> nat" where
  "event_session_uses rid (Se_Use r i t) = (if r = rid then 1 else 0)"
| "event_session_uses rid _ = 0"

fun event_handoff :: "session_event \<Rightarrow> (string \<times> string \<times> string) list" where
  "event_handoff (Se_Handoff v c r s k a fp x n) = [(r, s, k)]"
| "event_handoff _ = []"

definition session_uses :: "session_event list \<Rightarrow> string \<Rightarrow> nat" where
  "session_uses es rid = sum_list (map (event_session_uses rid) es)"

text \<open>Receipt, signer and key of each recorded handoff.\<close>

definition handoffs :: "session_event list \<Rightarrow> (string \<times> string \<times> string) list" where
  "handoffs es = concat (map event_handoff es)"

lemma session_log_snoc [simp]:
  "session_uses (es @ [e]) rid = session_uses es rid + event_session_uses rid e" "session_uses [] rid = 0"
  "handoffs (es @ [e]) = handoffs es @ event_handoff e" "handoffs [] = []"
  by (simp_all add: session_uses_def handoffs_def)

lemma sem_session_uses:
  "sem_session_event e m = Some m' \<Longrightarrow>
   unat (session_use_count m' rid) = unat (session_use_count m rid) + event_session_uses rid e"
  by (cases e) (auto simp: session_use_count_def Let_def unat_Suc_nonzero split: if_splits option.splits)

lemma session_counts:
  "sem_list sem_session_event es empty_session_maps = Some m \<Longrightarrow> unat (session_use_count m rid) = session_uses es rid"
proof (induction es arbitrary: m rule: rev_induct)
  case Nil
  then show ?case by (auto simp: empty_session_maps_def session_use_count_def)
next
  case (snoc e es)
  then show ?case by (auto simp: sem_list_append sem_session_uses split: option.splits)
qed

lemma sem_session_grows:
  assumes "sem_session_event e m = Some m'"
  shows "map_of (sm_registrations m) \<subseteq>\<^sub>m map_of (sm_registrations m')"
    "map_of (sm_revoked_keys m) \<subseteq>\<^sub>m map_of (sm_revoked_keys m')"
    "map_of (sm_revoked_receipts m) \<subseteq>\<^sub>m map_of (sm_revoked_receipts m')"
  using assms by (cases e; auto simp: map_le_def Let_def split: if_splits option.splits)+

lemma session_list_grows:
  "sem_list sem_session_event es m = Some m' \<Longrightarrow>
   map_of (sm_registrations m) \<subseteq>\<^sub>m map_of (sm_registrations m') \<and>
   map_of (sm_revoked_keys m) \<subseteq>\<^sub>m map_of (sm_revoked_keys m') \<and>
   map_of (sm_revoked_receipts m) \<subseteq>\<^sub>m map_of (sm_revoked_receipts m')"
proof (induction es arbitrary: m)
  case Nil
  then show ?case by simp
next
  case (Cons e es)
  then show ?case by (auto split: option.splits dest: sem_session_grows map_le_trans)
qed

lemma logged_session_event:
  assumes "sem_list sem_session_event es m0 = Some m" "e \<in> set es"
  obtains m1 m2 where "sem_session_event e m1 = Some m2"
    "map_of (sm_registrations m2) \<subseteq>\<^sub>m map_of (sm_registrations m)"
    "map_of (sm_revoked_keys m2) \<subseteq>\<^sub>m map_of (sm_revoked_keys m)"
    "map_of (sm_revoked_receipts m2) \<subseteq>\<^sub>m map_of (sm_revoked_receipts m)"
proof -
  obtain pre post where "es = pre @ e # post" using assms(2) by (meson split_list)
  with assms(1) obtain m1 m2 where
    "sem_session_event e m1 = Some m2" "sem_list sem_session_event post m2 = Some m"
    by (auto simp: sem_list_append split: option.splits)
  with session_list_grows [of post m2 m] that show thesis by blast
qed

lemma logged_key_revocation:
  assumes "sem_list sem_session_event es m0 = Some m" "Se_Revoke_Key s k t \<in> set es"
  shows "map_of (sm_revoked_keys m) (key_map_id s k) = Some t"
  by (rule logged_session_event [OF assms]) (auto simp: Let_def split: if_splits intro: map_le_Some)

lemma logged_receipt_revocation:
  assumes "sem_list sem_session_event es m0 = Some m" "Se_Revoke_Receipt rid t \<in> set es"
  shows "map_of (sm_revoked_receipts m) rid = Some t"
  by (rule logged_session_event [OF assms]) (auto split: if_splits intro: map_le_Some)

text \<open>Uses only of registered receipts, and within the registered number.\<close>

lemma session_uses_within:
  "sem_list sem_session_event es empty_session_maps = Some m \<Longrightarrow>
   (case map_of (sm_registrations m) rid of None \<Rightarrow> session_uses es rid = 0
    | Some rg \<Rightarrow> session_uses es rid \<le> unat (rg_max_uses rg))"
proof (induction es arbitrary: m rule: rev_induct)
  case Nil
  then show ?case by (auto simp: empty_session_maps_def)
next
  case (snoc e es)
  then obtain m1 where m1: "sem_list sem_session_event es empty_session_maps = Some m1"
    "sem_session_event e m1 = Some m"
    by (auto simp: sem_list_append split: option.splits)
  note IH = snoc.IH [OF m1(1)]
  show ?case
  proof (cases e)
    case (Se_Use r i t)
    show ?thesis
    proof (cases "r = rid")
      case True
      with m1(2) Se_Use obtain rg where rg: "map_of (sm_registrations m1) rid = Some rg"
        "i = session_use_count m1 rid + 1" "i \<noteq> 0" "i \<le> ucast (rg_max_uses rg)"
        "sm_registrations m = sm_registrations m1"
        by (auto split: option.splits if_splits)
      have "unat i = session_uses es rid + 1"
        using rg(2,3) session_counts [OF m1(1)] by (simp add: unat_Suc_nonzero)
      with rg Se_Use True show ?thesis by (simp add: word_le_nat_alt)
    next
      case False
      with m1(2) Se_Use IH show ?thesis by (auto split: option.splits if_splits)
    qed
  next
    case (Se_Handoff v c r s k a fp x n)
    with m1(2) IH show ?thesis by (auto split: option.splits if_splits)
  qed (use m1(2) IH in \<open>auto simp: Let_def split: option.splits if_splits\<close>)
qed

lemma handoff_registered:
  "sem_list sem_session_event es empty_session_maps = Some m \<Longrightarrow> (r, s, k) \<in> set (handoffs es) \<Longrightarrow>
   \<exists>rg. map_of (sm_registrations m) r = Some rg \<and> rg_signer_id rg = s \<and> rg_key_id rg = k"
proof (induction es arbitrary: m rule: rev_induct)
  case Nil
  then show ?case by simp
next
  case (snoc e es)
  then obtain m1 where m1: "sem_list sem_session_event es empty_session_maps = Some m1"
    "sem_session_event e m1 = Some m"
    by (auto simp: sem_list_append split: option.splits)
  consider "(r, s, k) \<in> set (handoffs es)" | "(r, s, k) \<in> set (event_handoff e)"
    using snoc.prems(2) by auto
  then show ?case
  proof cases
    case 1
    with snoc.IH [OF m1(1)] obtain rg where rg: "map_of (sm_registrations m1) r = Some rg"
      "rg_signer_id rg = s" "rg_key_id rg = k" by blast
    have "map_of (sm_registrations m) r = Some rg" by (rule map_le_Some [OF sem_session_grows(1) [OF m1(2)] rg(1)])
    with rg show ?thesis by simp
  next
    case 2
    then show ?thesis using m1(2) by (cases e) (auto split: if_splits)
  qed
qed

lemma handoffs_distinct:
  "sem_list sem_session_event es empty_session_maps = Some m \<Longrightarrow>
   distinct (map fst (handoffs es)) \<and> distinct (map snd (handoffs es))"
proof (induction es arbitrary: m rule: rev_induct)
  case Nil
  then show ?case by simp
next
  case (snoc e es)
  then obtain m1 where m1: "sem_list sem_session_event es empty_session_maps = Some m1"
    "sem_session_event e m1 = Some m"
    by (auto simp: sem_list_append split: option.splits)
  have new: "map_of (sm_registrations m1) r = None \<and> \<not> key_registered m1 s k"
    if "e = Se_Handoff v c r s k a fp x n" for v c r s k a fp x n
    using m1(2) that by (auto split: if_splits)
  have old: "contains (sm_registrations m1) r \<and> key_registered m1 s k" if "(r, s, k) \<in> set (handoffs es)" for r s k
    using handoff_registered [OF m1(1) that] map_of_SomeD
    by (fastforce simp: key_registered_def list_ex_iff)
  show ?case
  proof (cases e)
    case (Se_Handoff v c r s k a fp x n)
    have "r \<notin> fst ` set (handoffs es)" using new [OF Se_Handoff] old by force
    moreover have "(s, k) \<notin> snd ` set (handoffs es)" using new [OF Se_Handoff] old by force
    ultimately show ?thesis using snoc.IH [OF m1(1)] Se_Handoff by simp
  qed (use snoc.IH [OF m1(1)] in simp_all)
qed

section \<open>Concrete histories\<close>

lemma sample_session_run: "\<exists>S. session_run ''keys'' [handoff_event sample_bundle] S"
proof -
  obtain res S where S: "register_bundle Write_Ok sample_bundle fresh_sessions = (res, S)" "skr_ok res"
    using sample_bundle_registers by blast
  have "session_call (So_Register Write_Ok sample_bundle) fresh_sessions = (True, S)" using S by simp
  from srun_ok [OF srun_start _ _ this] sample_bundle_sane show ?thesis
    by (auto simp: clean_io_def so_recorded_def)
qed

lemma sample_session_revoked:
  "\<exists>S. session_run ''keys'' [handoff_event sample_bundle, Se_Revoke_Receipt (sr_receipt_id (sb_receipt sample_bundle)) 1600] S"
proof -
  let ?rid = "sr_receipt_id (sb_receipt sample_bundle)"
  obtain res S where S: "register_bundle Write_Ok sample_bundle fresh_sessions = (res, S)" "skr_ok res"
    using sample_bundle_registers by blast
  have "session_call (So_Register Write_Ok sample_bundle) fresh_sessions = (True, S)" using S by simp
  from srun_ok [OF srun_start _ _ this] sample_bundle_sane
  have run: "session_run ''keys'' [handoff_event sample_bundle] S" by (auto simp: clean_io_def so_recorded_def)
  have fields: "contains (sm_registrations (sl_maps S)) ?rid" "\<not> contains (sm_revoked_receipts (sl_maps S)) ?rid"
    "j_healthy (sl_journal S)" "j_path (sl_journal S) = ''keys''"
    using S register_bundle_ok(1) [OF S]
    by (auto simp: register_bundle_def Let_def sl_commit_def session_append_def contains_def empty_session_maps_def
        split: if_splits prod.splits option.splits dest: append_None_journal)
  obtain j where "session_append Write_Ok (encode_session_event (Se_Revoke_Receipt ?rid 1600)) (sl_journal S) = (None, j)"
    using session_append_writes fields(3,4) by fastforce
  then obtain S' where "session_call (So_Revoke_Receipt Write_Ok ?rid 1600) S = (True, S')"
    using fields(1,2) by (simp add: session_revoke_receipt_def Let_def sl_commit_def sample_bundle_fields)
  from srun_ok [OF run _ _ this] show ?thesis by (auto simp: clean_io_def so_recorded_def)
qed

section \<open>Properties\<close>

text \<open>
  Round trip of the session ledger.  In any history of verified handoffs, reloading the
  journal succeeds and restores exactly what the recorded events mean; on a healthy ledger it
  is the identity.
\<close>

theorem session_replay_restores:
  assumes "session_run path es S"
  shows "fst (session_replay True S) \<and>
    sem_list sem_session_event es empty_session_maps = Some (sl_maps (snd (session_replay True S))) \<and>
    (j_healthy (sl_journal S) \<longrightarrow> snd (session_replay True S) = S)"
proof -
  have inv: "session_inv es S" using assms by (rule session_run_inv)
  obtain ok S' where r: "session_replay True S = (ok, S')" by (cases "session_replay True S")
  note R = session_inv_replay [OF inv r]
  have "sem_list sem_session_event es empty_session_maps = Some (sl_maps S')"
    using session_inv_healthy [OF R(1)] R(2,3) by simp
  moreover have "S' = S" if "j_healthy (sl_journal S)"
    using sess.replay_healthy_id [of es "sl_journal S" "sl_maps S"] inv that r
    by (auto simp: session_inv_def session_replay_def)
  ultimately show ?thesis using R(2) r by simp
qed

theorem session_replay_restores_witness:
  "\<exists>S. session_run ''keys'' [handoff_event sample_bundle] S \<and> fst (session_replay True S)"
  using sample_session_run session_replay_restores by blast

text \<open>
  Revocation of session keys is permanent.  In any history, once the revocation of a
  session receipt or of a session key has been recorded with time \<open>t\<close>, \<open>preflight\<close> never
  answers \<open>Allowed\<close> for that receipt, or for any receipt of that key, at \<open>t\<close> or later.
\<close>

theorem session_revocation_is_permanent:
  assumes "session_run path es S" and "t \<le> now"
    and "Se_Revoke_Receipt (sr_receipt_id (sb_receipt b)) t \<in> set es \<or>
      Se_Revoke_Key (sr_signer_id (sb_receipt b)) (sr_key_id (sb_receipt b)) t \<in> set es"
  shows "skr_status (preflight now b pv kv p subj scope cap S) \<noteq> SKS_Allowed"
proof -
  have "\<not> preflight_ready now b pv kv p subj scope cap S"
  proof
    assume ready: "preflight_ready now b pv kv p subj scope cap S"
    then have m: "sem_list sem_session_event es empty_session_maps = Some (sl_maps S)"
      using session_inv_healthy [OF session_run_inv [OF assms(1)]] by (simp add: preflight_ready_def Let_def)
    from assms(3) have "entry_active (sm_revoked_receipts (sl_maps S)) (sr_receipt_id (sb_receipt b)) now \<or>
        entry_active (sm_revoked_keys (sl_maps S))
          (key_map_id (sr_signer_id (sb_receipt b)) (sr_key_id (sb_receipt b))) now"
      using logged_receipt_revocation [OF m] logged_key_revocation [OF m] assms(2)
      by (auto simp: entry_active_def)
    with ready show False by (simp add: preflight_ready_def Let_def)
  qed
  then show ?thesis using preflight_ok by (simp add: skr_ok_def)
qed

theorem session_revocation_is_permanent_witness:
  "\<exists>S. session_run ''keys'' [handoff_event sample_bundle, Se_Revoke_Receipt (sr_receipt_id (sb_receipt sample_bundle)) 1600] S \<and>
     skr_status (preflight 1700 sample_bundle sample_verifier session_verifier DestructiveExecution ''subject''
       (sha256 ''/repo/src'') ''read'' S) \<noteq> SKS_Allowed"
proof -
  obtain S where S: "session_run ''keys'' [handoff_event sample_bundle,
      Se_Revoke_Receipt (sr_receipt_id (sb_receipt sample_bundle)) 1600] S" using sample_session_revoked by blast
  from session_revocation_is_permanent [OF S, of 1600 1700 sample_bundle sample_verifier session_verifier] S
  show ?thesis by auto
qed

text \<open>
  One branch per key, and no use beyond the receipt.  In any history the recorded handoffs
  name pairwise different receipts and pairwise different keys, and the recorded uses of a
  receipt stay within the number it was registered with.
\<close>

theorem session_keys_are_exclusive:
  assumes "session_run path es S"
  shows "distinct (map fst (handoffs es)) \<and> distinct (map snd (handoffs es)) \<and>
    (\<forall>v c r s k a fp x n. Se_Handoff v c r s k a fp x n \<in> set es \<longrightarrow> session_uses es r \<le> unat n)"
proof -
  obtain m where m: "sem_list sem_session_event es empty_session_maps = Some m"
    using session_run_inv [OF assms] by (auto simp: session_inv_def journal_inv_def)
  have "session_uses es r \<le> unat n" if "Se_Handoff v c r s k a fp x n \<in> set es" for v c r s k a fp x n
  proof -
    from m that obtain rg where "map_of (sm_registrations m) r = Some rg" "rg_max_uses rg = n"
      by (rule logged_session_event) (auto split: if_splits dest!: map_le_Some)
    with session_uses_within [OF m, of r] show ?thesis by simp
  qed
  with handoffs_distinct [OF m] show ?thesis by blast
qed

theorem session_keys_are_exclusive_witness:
  "\<exists>S. session_run ''keys'' [handoff_event sample_bundle] S \<and> distinct (map snd (handoffs [handoff_event sample_bundle]))"
  using sample_session_run session_keys_are_exclusive by blast

text \<open>
  Registration checks less than reload.  \<open>register_bundle\<close> does not look at the expiry, the
  number of uses or the fingerprint; reload refuses a handoff without them.  Registering such
  a bundle on a healthy ledger of any history succeeds, and from then on no reload of the
  journal succeeds: every session key is dead.  (\<open>issue\<close> verifies the receipt first, so the
  program's own handoff never gets there, see \<open>verified_receipt_sane\<close>.)
\<close>

theorem unchecked_registration_poisons_journal:
  assumes "session_run path es S" and "register_bundle io b S = (res, S')" and "skr_ok res"
    and "\<not> bundle_sane b" and "wf_session_event (handoff_event b)"
  shows "\<not> fst (session_replay True S')"
proof -
  have inv: "session_inv es S" using assms(1) by (rule session_run_inv)
  have healthy: "j_healthy (sl_journal S)"
    and commit: "sl_commit io (handoff_event b)
      (\<lambda>m. m\<lparr>sm_registrations := AList.update (sr_receipt_id (sb_receipt b)) (registration_of b) (sm_registrations m)\<rparr>)
      (sk_allowed (sr_receipt_id (sb_receipt b)) 0) S = (res, S')"
    using assms(2,3) by (auto simp: register_bundle_def Let_def split: if_splits)
  obtain j where j: "append_event session_cfg io (encode_session_event (handoff_event b)) (sl_journal S) = (None, j)"
    "sl_journal S' = j"
    using commit assms(3) by (auto simp: sl_commit_def session_append_def split: prod.splits option.splits)
  have "sem_session_event (handoff_event b) (sl_maps S) = None"
    using assms(4) by (auto simp: handoff_event_def bundle_sane_def Let_def)
  moreover obtain j2 st2 where "replay session_cfg session_handler empty_session_maps True j = (j2, st2)" by fastforce
  ultimately have "\<not> j_healthy j2"
    using sess.inv_poison inv healthy assms(5) j(1) by (auto simp: session_inv_def)
  with j(2) show ?thesis
    using \<open>replay session_cfg session_handler empty_session_maps True j = (j2, st2)\<close>
    by (simp add: session_replay_def)
qed

definition unusable_bundle :: session_key_bundle where
  "unusable_bundle = handoff_bundle sample_handoff (child_receipt\<lparr>envelope := child_envelope\<lparr>max_uses := 0\<rparr>\<rparr>)
     session_signer ''sig'' ''sig''"

theorem unchecked_registration_poisons_journal_witness:
  "\<exists>res S'. register_bundle Write_Ok unusable_bundle fresh_sessions = (res, S') \<and> skr_ok res \<and>
     \<not> fst (session_replay True S')"
proof -
  have "valid_receipt_id (receipt_id child_receipt)" unfolding child_receipt_def by (rule parent_receipt_id_valid)
  then have "bundle_fields_agree unusable_bundle"
    by (simp add: unusable_bundle_def handoff_bundle_agrees)
  then have "skr_ok (fst (register_bundle Write_Ok unusable_bundle fresh_sessions))"
    by (intro register_bundle_new) (simp_all add: empty_session_maps_def key_registered_def)
  then obtain res S' where reg: "register_bundle Write_Ok unusable_bundle fresh_sessions = (res, S')" "skr_ok res"
    by (cases "register_bundle Write_Ok unusable_bundle fresh_sessions") auto
  have "\<not> bundle_sane unusable_bundle" "wf_session_event (handoff_event unusable_bundle)"
    using is_sha256_no_sep [of "sha256 ''key''"]
    by (simp_all add: unusable_bundle_def bundle_sane_def handoff_event_def Let_def signed_receipt_fields
        signed_fields(1-21) session_signer_def)
  from unchecked_registration_poisons_journal [OF srun_start reg this] reg show ?thesis by auto
qed

end
