(* ===== verification/Session_Key_Gate.thy ===== *)
theory Session_Key_Gate
  imports Session_Key_Safety Authority_Gate
begin

text \<open>
  The two ledgers together.  \<open>SessionKeyAuthorityGate\<close> spends a use of the backing voucher in
  the authority ledger and then a use of the session receipt in the session ledger.  The
  theory shows when it allows, what is spent when it does not, and that over any joint history
  session keys never get more uses than their vouchers paid for.
\<close>

section \<open>The answer of the gate\<close>

lemma session_gate_cases:
  assumes "session_gate_authorize pv kv gv now1 now2 now3 aio sio b p subj scope cap (L, S) = (res, L', S')"
  obtains (refused) "\<not> preflight_ready now1 b pv kv p subj scope cap S"
      "res = preflight now1 b pv kv p subj scope cap S" "\<not> skr_ok res" "L' = L" "S' = S"
  | (unbacked) backing where "preflight_ready now1 b pv kv p subj scope cap S"
      "gate_authorize gv now2 aio (Some (sb_voucher b)) p subj scope cap L = (backing, L')"
      "\<not> ag_ok backing" "skr_status res = SKS_VoucherRejected" "S' = S"
  | (backed) backing consumed where "preflight_ready now1 b pv kv p subj scope cap S"
      "gate_authorize gv now2 aio (Some (sb_voucher b)) p subj scope cap L = (backing, L')" "ag_ok backing"
      "session_consume now3 sio (sb_receipt b) S = (consumed, S')" "skr_status res = skr_status consumed"
proof -
  obtain backing L1 where g: "gate_authorize gv now2 aio (Some (sb_voucher b)) p subj scope cap L = (backing, L1)"
    by fastforce
  obtain consumed S1 where c: "session_consume now3 sio (sb_receipt b) S = (consumed, S1)" by fastforce
  show thesis
  proof (cases "preflight_ready now1 b pv kv p subj scope cap S")
    case False
    then have "\<not> skr_ok (preflight now1 b pv kv p subj scope cap S)" by (simp add: preflight_ok)
    with assms False show thesis by (intro refused) (auto simp: session_gate_authorize_def Let_def)
  next
    case True
    then have pre: "skr_ok (preflight now1 b pv kv p subj scope cap S)" by (simp add: preflight_ok)
    show thesis
    proof (cases "ag_ok backing")
      case False
      with assms pre g have "L' = L1" "S' = S" "skr_status res = SKS_VoucherRejected"
        by (auto simp: session_gate_authorize_def Let_def)
      with True False g show thesis by (intro unbacked) auto
    next
      case ok: True
      with assms pre g c have "L' = L1" "S' = S1" "skr_status res = skr_status consumed"
        by (auto simp: session_gate_authorize_def Let_def)
      with True ok g c show thesis by (intro backed) auto
    qed
  qed
qed

lemma gate_ok_call:
  assumes "gate_authorize gv now aio (Some r) p subj scope cap L = (res, L')"
  shows "L' = L \<and> \<not> ag_ok res \<or> al_call (Op_Authorize gv now aio r p subj scope) L = (ag_ok res, L')"
  using assms by (auto simp: gate_authorize_def ag_ok_def ag_fail_def split: if_splits prod.splits)

text \<open>After preflight only the append can fail.\<close>

lemma ready_consume:
  assumes "preflight_ready now1 b pv kv p subj scope cap S" "session_consume now sio (sb_receipt b) S = (res, S')"
  shows "skr_status res = SKS_Allowed \<and> sl_maps S' = (sl_maps S)\<lparr>sm_receipt_uses :=
        AList.update (sr_receipt_id (sb_receipt b)) (session_use_count (sl_maps S) (sr_receipt_id (sb_receipt b)) + 1)
          (sm_receipt_uses (sl_maps S))\<rparr>
    \<or> skr_status res = SKS_StorageError \<and> sl_maps S' = sl_maps S"
proof -
  obtain rg where rg: "map_of (sm_registrations (sl_maps S)) (sr_receipt_id (sb_receipt b)) = Some rg"
    "bundle_registration_matches rg b" "j_healthy (sl_journal S)"
    "session_use_count (sl_maps S) (sr_receipt_id (sb_receipt b)) < ucast (sr_max_uses (sb_receipt b))"
    using assms(1) by (auto simp: preflight_ready_def Let_def)
  then have "rg_max_uses rg = sr_max_uses (sb_receipt b)" by (simp add: bundle_registration_matches_def Let_def)
  with rg have "\<not> ucast (rg_max_uses rg) \<le> session_use_count (sl_maps S) (sr_receipt_id (sb_receipt b))"
    by simp
  with rg(1,3) assms(2) show ?thesis
    by (auto simp: session_consume_def Let_def sl_commit_def sk_fail_def sk_allowed_def sk_result_def
        split: prod.splits option.splits)
qed

text \<open>
  The session gate.  It allows exactly when preflight is satisfied, the backing gate has
  consumed a use of the voucher and the session ledger has appended the use; then one use of
  the session receipt is counted.  On any other answer no map of the session ledger changes;
  and as long as the backing gate has not allowed, no map of the authority ledger changes
  either.  The one way to lose a voucher use is a failed append to the session journal.
\<close>

theorem session_gate_decision:
  assumes "session_gate_authorize pv kv gv now1 now2 now3 aio sio b p subj scope cap (L, S) = (res, L', S')"
    and "gate_authorize gv now2 aio (Some (sb_voucher b)) p subj scope cap L = (backing, L1)"
    and "session_append sio (encode_session_event (Se_Use (sr_receipt_id (sb_receipt b))
      (session_use_count (sl_maps S) (sr_receipt_id (sb_receipt b)) + 1) now3)) (sl_journal S) = (failure, j)"
  shows "(skr_status res = SKS_Allowed \<longleftrightarrow>
      preflight_ready now1 b pv kv p subj scope cap S \<and> ag_ok backing \<and> failure = None) \<and>
    (skr_status res = SKS_Allowed \<longrightarrow> al_maps L' = al_maps L1 \<and>
      session_use_count (sl_maps S') (sr_receipt_id (sb_receipt b)) =
        session_use_count (sl_maps S) (sr_receipt_id (sb_receipt b)) + 1) \<and>
    (skr_status res \<noteq> SKS_Allowed \<longrightarrow> sl_maps S' = sl_maps S) \<and>
    (skr_status res \<noteq> SKS_Allowed \<and> al_maps L' \<noteq> al_maps L \<longrightarrow>
      skr_status res = SKS_StorageError \<and> failure \<noteq> None)"
proof (cases rule: session_gate_cases [OF assms(1)])
  case 1
  then show ?thesis by (simp add: skr_ok_def)
next
  case (2 backing')
  then have "backing' = backing" "L' = L1" using assms(2) by simp_all
  moreover from 2(2,3) have "al_maps L' = al_maps L"
    by (auto simp: gate_authorize_def ag_ok_def split: if_splits prod.splits dest: authorize_keeps_maps)
  ultimately show ?thesis using 2 by simp
next
  case (3 backing' consumed)
  then have b: "backing' = backing" "L' = L1" using assms(2) by simp_all
  let ?rid = "sr_receipt_id (sb_receipt b)"
  obtain rg where rg: "map_of (sm_registrations (sl_maps S)) ?rid = Some rg"
    "bundle_registration_matches rg b" "j_healthy (sl_journal S)"
    "session_use_count (sl_maps S) ?rid < ucast (sr_max_uses (sb_receipt b))"
    using 3(1) by (auto simp: preflight_ready_def Let_def)
  then have "rg_max_uses rg = sr_max_uses (sb_receipt b)" by (simp add: bundle_registration_matches_def Let_def)
  with rg have "\<not> ucast (rg_max_uses rg) \<le> session_use_count (sl_maps S) ?rid" by simp
  with rg(1,3) 3(4) assms(3) have "skr_status consumed = SKS_Allowed \<longleftrightarrow> failure = None"
    by (auto simp: session_consume_def Let_def sl_commit_def sk_fail_def sk_allowed_def sk_result_def
        split: option.splits)
  with ready_consume [OF 3(1,4)] 3 b show ?thesis by (auto simp: session_use_count_def)
qed

theorem session_gate_decision_witness:
  "\<exists>res L' S'. session_gate_authorize sample_verifier session_verifier sample_verifier 1500 1500 1500 Write_Ok Write_Ok
      sample_bundle DestructiveExecution ''subject'' (sha256 ''/repo/src'') ''read''
      (al_construct ''journal'' None True, fresh_sessions) = (res, L', S') \<and>
    skr_status res \<noteq> SKS_Allowed \<and> sl_maps S' = empty_session_maps"
proof -
  let ?L = "al_construct ''journal'' None True"
  obtain res L' S' where g: "session_gate_authorize sample_verifier session_verifier sample_verifier 1500 1500 1500 Write_Ok Write_Ok
      sample_bundle DestructiveExecution ''subject'' (sha256 ''/repo/src'') ''read'' (?L, fresh_sessions) = (res, L', S')"
    by (metis prod_cases3)
  obtain backing L1 where b: "gate_authorize sample_verifier 1500 Write_Ok (Some (sb_voucher sample_bundle))
      DestructiveExecution ''subject'' (sha256 ''/repo/src'') ''read'' ?L = (backing, L1)" by fastforce
  obtain failure j where f: "session_append Write_Ok (encode_session_event (Se_Use (sr_receipt_id (sb_receipt sample_bundle))
      (session_use_count (sl_maps fresh_sessions) (sr_receipt_id (sb_receipt sample_bundle)) + 1) 1500))
      (sl_journal fresh_sessions) = (failure, j)" by fastforce
  have "\<not> preflight_ready 1500 sample_bundle sample_verifier session_verifier DestructiveExecution ''subject''
      (sha256 ''/repo/src'') ''read'' fresh_sessions"
    by (simp add: preflight_ready_def Let_def empty_session_maps_def)
  with session_gate_decision [OF g b f] g show ?thesis by auto
qed

section \<open>Joint histories\<close>

text \<open>
  The program's ways to move the two ledgers: any call on the authority ledger, any call on
  the session ledger except \<open>consume\<close>, handoffs, and the gate, the only caller of \<open>consume\<close>.
\<close>

inductive key_step ::
    "authority_ledger \<times> session_ledger \<Rightarrow> authority_ledger \<times> session_ledger \<Rightarrow> bool" where
  kstep_authority: "clean_io (op_io op) \<Longrightarrow> al_call op L = (ok, L') \<Longrightarrow> key_step (L, S) (L', S)"
| kstep_session: "clean_io (so_io op) \<Longrightarrow> so_sane op \<Longrightarrow> (\<forall>now io r. op \<noteq> So_Consume now io r) \<Longrightarrow>
     session_call op S = (ok, S') \<Longrightarrow> key_step (L, S) (L, S')"
| kstep_handoff: "clean_io aio \<Longrightarrow> clean_io sio \<Longrightarrow>
     handoff_issue dv lv pv kv now aio sio q parent child (L, S) = (res, L', S') \<Longrightarrow> key_step (L, S) (L', S')"
| kstep_gate: "clean_io aio \<Longrightarrow> clean_io sio \<Longrightarrow> now3 \<noteq> 0 \<Longrightarrow>
     session_gate_authorize pv kv gv now1 now2 now3 aio sio b p subj scope cap (L, S) = (res, L', S') \<Longrightarrow>
     key_step (L, S) (L', S')"

inductive_cases key_stepE: "key_step (L, S) (L', S')"

inductive key_run :: "string \<Rightarrow> string \<Rightarrow> authority_ledger \<Rightarrow> session_ledger \<Rightarrow> bool" for ap sp :: string where
  krun_start: "ap \<noteq> [] \<Longrightarrow> sp \<noteq> [] \<Longrightarrow> key_run ap sp (al_construct ap None True) (session_construct sp None True)"
| krun_step: "key_run ap sp L S \<Longrightarrow> key_step (L, S) (L', S') \<Longrightarrow> key_run ap sp L' S'"

text \<open>The receipts registered under a voucher, and the uses counted for all of them.\<close>

definition branches :: "session_maps \<Rightarrow> string \<Rightarrow> string set" where
  "branches m v = {r. \<exists>rg. map_of (sm_registrations m) r = Some rg \<and> rg_voucher_receipt_id rg = v}"

definition voucher_uses :: "session_maps \<Rightarrow> string \<Rightarrow> nat" where
  "voucher_uses m v = (\<Sum>r\<in>branches m v. unat (session_use_count m r))"

fun session_use_of :: "session_event \<Rightarrow> string option" where
  "session_use_of (Se_Use r i t) = Some r"
| "session_use_of _ = None"

definition session_parent :: "session_maps \<Rightarrow> string \<Rightarrow> string option" where
  "session_parent m r = map_option rg_voucher_receipt_id (map_of (sm_registrations m) r)"

interpretation vouchers: metered sem_session_event empty_session_maps session_parent
  "\<lambda>m r. unat (session_use_count m r)" session_use_of
proof unfold_locales
  fix m show "finite (dom (session_parent m))"
    by (rule finite_subset [OF _ finite_dom_map_of [of "sm_registrations m"]]) (auto simp: session_parent_def)
next
  fix e m m' b assume step: "sem_session_event e m = Some m'"
  then show "unat (session_use_count m' b) = unat (session_use_count m b) + (if session_use_of e = Some b then 1 else 0)"
    using sem_session_uses [OF step, of b] by (cases e) auto
  show "session_use_of e = Some b \<Longrightarrow> session_parent m b \<noteq> None"
    using step by (cases e) (auto simp: session_parent_def split: option.splits)
  show "session_parent m b = Some v \<Longrightarrow> session_parent m' b = Some v" for v
    using map_le_Some [OF sem_session_grows(1) [OF step]] by (auto simp: session_parent_def)
qed (simp_all add: session_parent_def session_use_count_def empty_session_maps_def)

lemma voucher_uses_total: "voucher_uses = vouchers.total"
  by (simp add: fun_eq_iff voucher_uses_def vouchers.total_def branches_def session_parent_def)

text \<open>The invariant: each ledger has its own history, and every use has been paid for.\<close>

definition paid_for :: "authority_event list \<Rightarrow> session_event list \<Rightarrow> bool" where
  "paid_for as es \<longleftrightarrow> vouchers.backed (uses_in as) es"

definition key_inv ::
    "string \<Rightarrow> string \<Rightarrow> authority_event list \<Rightarrow> session_event list \<Rightarrow> authority_ledger \<Rightarrow> session_ledger \<Rightarrow> bool" where
  "key_inv ap sp as es L S \<longleftrightarrow> (\<exists>ops. al_run ap ops as L) \<and> session_run sp es S \<and> paid_for as es"

lemma key_invI: "al_run ap ops as L \<Longrightarrow> session_run sp es S \<Longrightarrow> paid_for as es \<Longrightarrow> key_inv ap sp as es L S"
  by (auto simp: key_inv_def)

lemma key_invE:
  assumes "key_inv ap sp as es L S"
  obtains ops where "al_run ap ops as L" "session_run sp es S" "paid_for as es"
  using assms by (auto simp: key_inv_def)

text \<open>A step extends the two histories.\<close>

definition key_extends ::
    "string \<Rightarrow> string \<Rightarrow> authority_event list \<Rightarrow> session_event list \<Rightarrow> session_event list \<Rightarrow>
     authority_ledger \<Rightarrow> session_ledger \<Rightarrow> bool" where
  "key_extends ap sp as es es' L S \<longleftrightarrow> (\<exists>as'. key_inv ap sp (as @ as') (es @ es') L S)"

lemma key_extends_same: "key_inv ap sp as es L S \<Longrightarrow> key_extends ap sp as es [] L S"
  unfolding key_extends_def by (rule exI [of _ "[]"]) simp

lemma uses_in_append [simp]: "uses_in (as @ bs) v = uses_in as v + uses_in bs v"
  by (simp add: uses_in_def)

lemma uses_in_single [simp]: "uses_in [a] v = event_uses v a"
  by (simp add: uses_in_def)

lemma paid_for_authority: "paid_for as es \<Longrightarrow> paid_for (as @ bs) es"
  unfolding paid_for_def by (erule vouchers.backed_mono) simp

lemma paid_for_session:
  assumes "paid_for as es" "\<And>r i t. e \<noteq> Se_Use r i t"
  shows "paid_for as (es @ [e])"
  using assms vouchers.backed_free by (cases e) (auto simp: paid_for_def)

lemma paid_for_gate:
  assumes "paid_for as es" "sem_list sem_session_event es empty_session_maps = Some m0" "session_parent m0 r = Some v0"
    "event_uses v0 a = 1"
  shows "paid_for (as @ [a]) (es @ [Se_Use r i t])"
  unfolding paid_for_def
  by (rule vouchers.backed_use [OF assms(1) [unfolded paid_for_def] assms(2) _ assms(3)]) (use assms(4) in auto)

lemma key_inv_authority:
  assumes "key_inv ap sp as es L S" "clean_io (op_io op)" "al_call op L = (ok, L')"
  shows "key_extends ap sp as es [] L' S"
proof -
  obtain ops where i: "al_run ap ops as L" "session_run sp es S" "paid_for as es"
    using assms(1) by (rule key_invE)
  show ?thesis
  proof (cases ok)
    case True
    with key_invI [OF run_ok [OF i(1) assms(2)] i(2) paid_for_authority [OF i(3)]] assms(3) show ?thesis
      by (auto simp: key_extends_def)
  next
    case False
    with key_invI [OF run_failed [OF i(1) assms(2)] i(2,3)] assms(3) show ?thesis by (simp add: key_extends_same)
  qed
qed

lemma key_inv_session:
  assumes "key_inv ap sp as es L S" "clean_io (so_io op)" "so_sane op" "session_call op S = (ok, S')"
    "\<forall>now io r. op \<noteq> So_Consume now io r"
  shows "\<exists>es'. key_extends ap sp as es es' L S'"
proof -
  obtain ops where i: "al_run ap ops as L" "session_run sp es S" "paid_for as es"
    using assms(1) by (rule key_invE)
  show ?thesis
  proof (cases ok)
    case True
    have paid: "paid_for as (es @ so_recorded op (sl_maps S))"
    proof (cases "so_event op (sl_maps S)")
      case None
      with i(3) show ?thesis by (simp add: so_recorded_def)
    next
      case (Some e)
      then have "e \<noteq> Se_Use r i t" for r i t using assms(5) by (cases op) (auto simp: handoff_event_def Let_def)
      with Some paid_for_session [OF i(3)] show ?thesis by (simp add: so_recorded_def)
    qed
    have "session_run sp (es @ so_recorded op (sl_maps S)) S'"
      using srun_ok [OF i(2) assms(2,3)] True assms(4) by simp
    from key_extends_same [OF key_invI [OF i(1) this paid]] show ?thesis
      unfolding key_extends_def by (metis append_Nil2)
  next
    case False
    with key_invI [OF i(1) srun_failed [OF i(2) assms(2,3)] i(3)] assms(4) show ?thesis
      by (auto intro: key_extends_same)
  qed
qed

lemma key_inv_delegate:
  assumes "key_inv ap sp as es L S" "clean_io aio" "delegate dv lv now aio q signer L = (dr, L')"
  shows "key_extends ap sp as es [] L' S"
proof -
  consider "L' = L" | child reg where "register_delegation lv now aio (dq_parent q) child L = (reg, L')"
    using delegate_answers [of lv now aio q signer L dv] assms(3) by (auto simp: delegate_answer_def)
  then show ?thesis
  proof cases
    case 2
    then have "al_call (Op_Register lv now aio (dq_parent q) child) L = (alr_ok reg, L')" by simp
    from key_inv_authority [OF assms(1) _ this] assms(2) show ?thesis by simp
  qed (use assms(1) in \<open>simp add: key_extends_same\<close>)
qed

lemma key_inv_handoff:
  assumes "key_inv ap sp as es L S" "clean_io aio" "clean_io sio"
    "handoff_issue dv lv pv kv now aio sio q parent child (L, S) = (res, L', S')"
  shows "\<exists>es'. key_extends ap sp as es es' L' S'"
proof (cases rule: handoff_issue_cases [OF assms(4)])
  case 1
  with key_extends_same [OF assms(1)] show ?thesis by auto
next
  case (2 dr)
  with key_inv_delegate [OF assms(1,2)] show ?thesis by blast
next
  case (3 dr voucher)
  then have L: "key_extends ap sp as es [] L' S" using key_inv_delegate [OF assms(1,2)] by blast
  then obtain as' where inv: "key_inv ap sp (as @ as') es L' S" by (auto simp: key_extends_def)
  show ?thesis
  proof (cases rule: handoff_finish_cases [OF 3(6)])
    case 1
    with L show ?thesis by auto
  next
    case (2 psig csig b stored)
    then have "session_call (So_Register sio b) S = (skr_ok stored, S')" by simp
    then have "\<exists>es'. key_extends ap sp (as @ as') es es' L' S'"
      by (rule key_inv_session [OF inv, rotated 2]) (simp_all add: verified_receipt_sane [OF 2(4)] assms(3))
    then show ?thesis by (auto simp: key_extends_def)
  qed
qed

lemma key_inv_gate:
  assumes "key_inv ap sp as es L S" "clean_io aio" "clean_io sio" "now3 \<noteq> 0"
    "session_gate_authorize pv kv gv now1 now2 now3 aio sio b p subj scope cap (L, S) = (res, L', S')"
  shows "\<exists>es'. key_extends ap sp as es es' L' S' \<and>
    (skr_ok res \<longrightarrow> session_uses es' (sr_receipt_id (sb_receipt b)) = 1)"
proof (cases rule: session_gate_cases [OF assms(5)])
  case 1
  with key_extends_same [OF assms(1)] show ?thesis by auto
next
  case (2 backing)
  have "key_extends ap sp as es [] L' S"
    using gate_ok_call [OF 2(2)]
  proof
    assume call: "al_call (Op_Authorize gv now2 aio (sb_voucher b) p subj scope) L = (ag_ok backing, L')"
    from key_inv_authority [OF assms(1) _ call] assms(2) show ?thesis by simp
  qed (use assms(1) in \<open>simp add: key_extends_same\<close>)
  with 2(4,5) show ?thesis by (auto simp: skr_ok_def)
next
  case (3 backing consumed)
  obtain ops where i: "al_run ap ops as L" "session_run sp es S" "paid_for as es"
    using assms(1) by (rule key_invE)
  let ?op = "Op_Authorize gv now2 aio (sb_voucher b) p subj scope" and ?so = "So_Consume now3 sio (sb_receipt b)"
  let ?rid = "sr_receipt_id (sb_receipt b)"
  let ?use = "Se_Use ?rid (session_use_count (sl_maps S) ?rid + 1) now3"
  have call: "al_call ?op L = (True, L')" "session_call ?so S = (skr_ok consumed, S')"
    using gate_ok_call [OF 3(2)] 3(3,4) by auto
  have a: "al_run ap (ops @ [?op]) (as @ [use_event now2 (sb_voucher b) (al_maps L)]) L'"
    using run_ok [OF i(1) _ call(1)] assms(2) by (simp add: recorded_events_def)
  show ?thesis
  proof (cases "skr_ok consumed")
    case True
    obtain rg where m: "sem_list sem_session_event es empty_session_maps = Some (sl_maps S)"
      "map_of (sm_registrations (sl_maps S)) ?rid = Some rg"
      "rg_voucher_receipt_id rg = receipt_id (sb_voucher b)"
      using 3(1) session_inv_healthy [OF session_run_inv [OF i(2)]]
      by (auto simp: preflight_ready_def bundle_registration_matches_def Let_def)
    have s: "session_run sp (es @ [?use]) S'"
      using srun_ok [OF i(2) _ _ , of ?so] call(2) True assms(3,4) by (simp add: so_recorded_def)
    have "paid_for (as @ [use_event now2 (sb_voucher b) (al_maps L)]) (es @ [?use])"
      by (rule paid_for_gate [OF i(3) m(1)]) (use m in \<open>auto simp: session_parent_def use_event_def Let_def\<close>)
    with a s have "key_extends ap sp as es [?use] L' S'" by (auto simp: key_extends_def intro: key_invI)
    then show ?thesis by (intro exI [of _ "[?use]"]) (simp add: session_uses_def)
  next
    case False
    have "session_run sp es S'" using srun_failed [OF i(2) _ _, of ?so] call(2) False assms(3,4) by simp
    with a paid_for_authority [OF i(3)] have "key_extends ap sp as es [] L' S'"
      by (auto simp: key_extends_def intro: key_invI)
    then show ?thesis using False 3(5) by (auto simp: skr_ok_def)
  qed
qed

lemma key_inv_step:
  assumes "key_inv ap sp as es L S" "key_step (L, S) (L', S')"
  shows "\<exists>es'. key_extends ap sp as es es' L' S'"
  using assms(2)
proof (rule key_stepE)
qed (use assms(1) in \<open>blast intro: key_inv_authority key_inv_session key_inv_handoff dest: key_inv_gate\<close>)+

lemma key_inv_start:
  "ap \<noteq> [] \<Longrightarrow> sp \<noteq> [] \<Longrightarrow> key_inv ap sp [] [] (al_construct ap None True) (session_construct sp None True)"
  by (rule key_invI [OF run_start srun_start]) (simp_all add: paid_for_def vouchers.backed_start)

lemma key_run_inv: "key_run ap sp L S \<Longrightarrow> \<exists>as es. key_inv ap sp as es L S"
  by (induction rule: key_run.induct) (blast intro: key_inv_start, metis key_inv_step key_extends_def)

lemma key_inv_backed:
  assumes "key_inv ap sp as es L S" "j_healthy (al_journal L)" "j_healthy (sl_journal S)"
  shows "voucher_uses (sl_maps S) v \<le> unat (use_count (al_maps L) v)"
    "unat (session_use_count (sl_maps S) r) = session_uses es r"
proof -
  obtain ops where i: "al_run ap ops as L" "session_run sp es S" "paid_for as es"
    using assms(1) by (rule key_invE)
  have s: "sem_list sem_session_event es empty_session_maps = Some (sl_maps S)"
    using session_inv_healthy [OF session_run_inv [OF i(2)] assms(3)] .
  moreover have "sem_list sem_event as empty_maps = Some (al_maps L)"
    using ledger_inv_healthy [OF al_run_inv [OF i(1)] assms(2)] .
  ultimately show "voucher_uses (sl_maps S) v \<le> unat (use_count (al_maps L) v)"
    using i(3) sem_list_counts by (simp add: paid_for_def vouchers.backed_def voucher_uses_total)
  show "unat (session_use_count (sl_maps S) r) = session_uses es r" by (rule session_counts [OF s])
qed

text \<open>
  C7. Every use is backed.  In any joint history, whenever both ledgers are healthy, the uses
  counted for all session receipts of a voucher together are at most the uses counted for the
  voucher in the authority ledger: a handoff cannot multiply authority.
\<close>

theorem session_uses_are_backed:
  assumes "key_run ap sp L S" and "j_healthy (al_journal L)" and "j_healthy (sl_journal S)"
  shows "voucher_uses (sl_maps S) v \<le> unat (use_count (al_maps L) v)"
  using key_run_inv [OF assms(1)] key_inv_backed(1) [OF _ assms(2,3)] by blast

lemma sample_key_run:
  "\<exists>L S. key_run ''journal'' ''keys'' L S \<and> j_healthy (al_journal L) \<and> j_healthy (sl_journal S) \<and>
     bundle_registered (sl_maps S) (sr_receipt_id (sb_receipt sample_bundle))"
proof -
  obtain res S where S: "register_bundle Write_Ok sample_bundle fresh_sessions = (res, S)" "skr_ok res"
    using sample_bundle_registers by blast
  have call: "session_call (So_Register Write_Ok sample_bundle) fresh_sessions = (True, S)" using S by simp
  have start: "key_run ''journal'' ''keys'' (al_construct ''journal'' None True) fresh_sessions"
    by (rule krun_start) simp_all
  have "key_run ''journal'' ''keys'' (al_construct ''journal'' None True) S"
    by (rule krun_step [OF start kstep_session [OF _ _ _ call]]) (simp_all add: clean_io_def sample_bundle_sane)
  moreover have "j_healthy (al_journal (al_construct ''journal'' None True))" using live_start by (simp add: live_def)
  moreover have "j_healthy (sl_journal S)"
    using S by (auto simp: register_bundle_def Let_def sl_commit_def session_append_def
        split: if_splits prod.splits option.splits dest: append_None_journal)
  moreover have "bundle_registered (sl_maps S) (sr_receipt_id (sb_receipt sample_bundle))"
    using register_bundle_ok(1) [OF S] by (simp add: bundle_registered_def contains_def)
  ultimately show ?thesis by (intro exI conjI)
qed

theorem session_uses_are_backed_witness:
  "\<exists>L S. key_run ''journal'' ''keys'' L S \<and> voucher_uses (sl_maps S) (receipt_id child_receipt) \<le>
     unat (use_count (al_maps L) (receipt_id child_receipt))"
proof -
  obtain L S where r: "key_run ''journal'' ''keys'' L S" "j_healthy (al_journal L)" "j_healthy (sl_journal S)"
    using sample_key_run by (elim exE conjE)
  from session_uses_are_backed [OF r, of "receipt_id child_receipt"] r(1) show ?thesis by (intro exI conjI)
qed

text \<open>
  Upstream revocation reaches session keys.  Once the revocation of a receipt has been
  recorded in the authority ledger, the session gate refuses every bundle whose voucher is
  that receipt or was delegated from it, directly or through others, and no map of the session
  ledger changes.
\<close>

theorem upstream_revocation_stops_session_keys:
  assumes "al_run path ops as L" and "Ev_RevokeReceipt a t \<in> set as" and "t \<le> now2"
    and "(receipt_id (sb_voucher b), a) \<in> (lineage as)\<^sup>*"
    and "session_gate_authorize pv kv gv now1 now2 now3 aio sio b p subj scope cap (L, S) = (res, L', S')"
  shows "skr_status res \<noteq> SKS_Allowed \<and> sl_maps S' = sl_maps S"
proof (cases rule: session_gate_cases [OF assms(5)])
  case (3 backing consumed)
  have "refused L (authorize_and_consume gv now2 aio (sb_voucher b) p subj scope L)"
    using authorize_refused [OF revoked_not_ready(1) [OF assms(1-4)]] .
  with 3(2,3) have False by (auto simp: gate_authorize_def refused_def alr_ok_def ag_ok_def ag_fail_def split: if_splits prod.splits)
  then show ?thesis ..
qed (simp_all add: skr_ok_def)

theorem upstream_revocation_stops_session_keys_witness:
  "\<exists>L res L' S'. session_gate_authorize sample_verifier session_verifier sample_verifier 1700 1700 1700 Write_Ok Write_Ok
      sample_bundle DestructiveExecution ''subject'' (sha256 ''/repo/src'') ''read'' (L, fresh_sessions) = (res, L', S') \<and>
    al_run ''journal'' [op_trust, op_delegate, op_revoke] [ev_trust, ev_delegate, ev_revoke] L \<and>
    skr_status res \<noteq> SKS_Allowed"
proof -
  obtain L m where "live [op_trust, op_delegate, op_revoke] [ev_trust, ev_delegate, ev_revoke] m L"
    using sample_revoked by blast
  then have run: "al_run ''journal'' [op_trust, op_delegate, op_revoke] [ev_trust, ev_delegate, ev_revoke] L"
    by (rule live_run)
  obtain res L' S' where g: "session_gate_authorize sample_verifier session_verifier sample_verifier 1700 1700 1700 Write_Ok Write_Ok
      sample_bundle DestructiveExecution ''subject'' (sha256 ''/repo/src'') ''read'' (L, fresh_sessions) = (res, L', S')"
    by (metis prod_cases3)
  have "(receipt_id (sb_voucher sample_bundle), receipt_id parent_receipt) \<in> (lineage [ev_trust, ev_delegate, ev_revoke])\<^sup>*"
    unfolding sample_bundle_fields
    by (rule r_into_rtrancl) (simp add: lineage_def ev_delegate_def ev_trust_def ev_revoke_def)
  from upstream_revocation_stops_session_keys [OF run _ _ this g, of 1600] g run show ?thesis
    by (auto simp: ev_revoke_def)
qed

end
