(* ===== verification/Reality.thy ===== *)
theory Reality
  imports Prelude Complex_Main
begin

text \<open>
  \<open>RealityLayer\<close> and \<open>RealityStack\<close> (\<open>include/guff/reality.hpp\<close>, \<open>src/reality.cpp\<close>): the ten
  layers, and the list of coordinates observed in them with a confidence each.

  A \<open>double\<close> is a \<open>float64\<close>: the program only compares and stores confidences, so a finite
  value is its exact rational, and the two infinities and NaN are kept apart (the sign of zero
  is not: comparisons do not see it).  \<open>RealityStack::describe\<close>, which prints, is not modelled.
\<close>

section \<open>Floating point values\<close>

datatype float64 = Finite rat | Pos_Inf | Neg_Inf | NaN

text \<open>\<open>x < y\<close>: false as soon as one side is NaN.\<close>

fun f_less :: "float64 \<Rightarrow> float64 \<Rightarrow> bool" where
  "f_less (Finite x) (Finite y) \<longleftrightarrow> x < y"
| "f_less (Finite x) y \<longleftrightarrow> y = Pos_Inf"
| "f_less Neg_Inf y \<longleftrightarrow> y \<noteq> Neg_Inf \<and> y \<noteq> NaN"
| "f_less Pos_Inf y \<longleftrightarrow> False"
| "f_less NaN y \<longleftrightarrow> False"

text \<open>\<open>x >= y\<close>: false as soon as one side is NaN.\<close>

definition f_geq :: "float64 \<Rightarrow> float64 \<Rightarrow> bool" where
  "f_geq x y \<longleftrightarrow> x \<noteq> NaN \<and> y \<noteq> NaN \<and> \<not> f_less x y"

definition std_clamp :: "float64 \<Rightarrow> float64 \<Rightarrow> float64 \<Rightarrow> float64" where
  "std_clamp v lo hi = (if f_less v lo then lo else if f_less hi v then hi else v)"

section \<open>Layers and coordinates\<close>

datatype reality_layer =
  RL_Physical | RL_OperatingSystem | RL_Runtime | RL_Project | RL_Application | RL_Simulation
| RL_Semantic | RL_Memory | RL_Meta | RL_Representation

text \<open>\<open>static_cast<unsigned>(layer)\<close>\<close>

fun layer_code :: "reality_layer \<Rightarrow> u32" where
  "layer_code RL_Physical = 0"
| "layer_code RL_OperatingSystem = 1"
| "layer_code RL_Runtime = 2"
| "layer_code RL_Project = 3"
| "layer_code RL_Application = 4"
| "layer_code RL_Simulation = 5"
| "layer_code RL_Semantic = 6"
| "layer_code RL_Memory = 7"
| "layer_code RL_Meta = 8"
| "layer_code RL_Representation = 9"

fun layer_to_string :: "reality_layer \<Rightarrow> string" where
  "layer_to_string RL_Physical = ''PHYSICAL''"
| "layer_to_string RL_OperatingSystem = ''OS''"
| "layer_to_string RL_Runtime = ''RUNTIME''"
| "layer_to_string RL_Project = ''PROJECT''"
| "layer_to_string RL_Application = ''APPLICATION''"
| "layer_to_string RL_Simulation = ''SIMULATION''"
| "layer_to_string RL_Semantic = ''SEMANTIC''"
| "layer_to_string RL_Memory = ''MEMORY''"
| "layer_to_string RL_Meta = ''META''"
| "layer_to_string RL_Representation = ''REPRESENTATION''"

record reality_coordinate =
  rc_layer :: reality_layer
  rc_scope :: string
  rc_entity :: string
  rc_confidence :: float64

definition same_identity :: "reality_coordinate \<Rightarrow> reality_coordinate \<Rightarrow> bool" where
  "same_identity c existing \<longleftrightarrow>
     rc_layer existing = rc_layer c \<and> rc_scope existing = rc_scope c \<and> rc_entity existing = rc_entity c"

text \<open>\<open>find_if\<close> and assignment through the iterator, or \<open>push_back\<close>.\<close>

fun replace_or_append :: "reality_coordinate \<Rightarrow> reality_coordinate list \<Rightarrow> reality_coordinate list" where
  "replace_or_append c [] = [c]"
| "replace_or_append c (x # xs) = (if same_identity c x then c # xs else x # replace_or_append c xs)"

definition observe :: "reality_coordinate \<Rightarrow> reality_coordinate list \<Rightarrow> reality_coordinate list" where
  "observe c stack =
     replace_or_append (c\<lparr>rc_confidence := std_clamp (rc_confidence c) (Finite 0) (Finite 1)\<rparr>) stack"

definition clear_transient :: "reality_coordinate list \<Rightarrow> reality_coordinate list" where
  "clear_transient stack = filter (\<lambda>c. \<not> (rc_layer c = RL_Meta \<or> rc_layer c = RL_Representation)) stack"

definition best_step ::
    "reality_layer \<Rightarrow> reality_coordinate \<Rightarrow> reality_coordinate option \<Rightarrow> reality_coordinate option" where
  "best_step l c result =
     (if rc_layer c \<noteq> l then result
      else case result of
        None \<Rightarrow> Some c
      | Some r \<Rightarrow> if f_less (rc_confidence r) (rc_confidence c) then Some c else Some r)"

definition best :: "reality_layer \<Rightarrow> reality_coordinate list \<Rightarrow> reality_coordinate option" where
  "best l stack = fold (best_step l) stack None"

section \<open>Facts\<close>

lemma layer_code_inj: "layer_code a = layer_code b \<longleftrightarrow> a = b"
  by (cases a; cases b) simp_all

definition identity :: "reality_coordinate \<Rightarrow> reality_layer \<times> string \<times> string" where
  "identity c = (rc_layer c, rc_scope c, rc_entity c)"

lemma same_identity_iff: "same_identity a b \<longleftrightarrow> identity a = identity b"
  by (auto simp: same_identity_def identity_def)

lemma identities_replace:
  "map identity (replace_or_append c xs) =
     (if identity c \<in> set (map identity xs) then map identity xs else map identity xs @ [identity c])"
  by (induction xs) (auto simp: same_identity_iff)

lemma observed_in: "c \<in> set (replace_or_append c xs)"
  by (induction xs) auto

lemma replace_confidences:
  "x \<in> set (replace_or_append c xs) \<Longrightarrow> x = c \<or> x \<in> set xs"
  by (induction xs) (auto split: if_splits)

definition unit_confidence :: "float64 \<Rightarrow> bool" where
  "unit_confidence f \<longleftrightarrow> (case f of Finite q \<Rightarrow> 0 \<le> q \<and> q \<le> 1 | NaN \<Rightarrow> True | _ \<Rightarrow> False)"

lemma clamp_unit: "unit_confidence (std_clamp v (Finite 0) (Finite 1))"
  by (cases v) (auto simp: std_clamp_def unit_confidence_def)

lemma f_less_irrefl [simp]: "\<not> f_less x x"
  by (cases x) auto

lemma f_less_chain: "\<not> f_less b a \<Longrightarrow> \<not> f_less c b \<Longrightarrow> b \<noteq> NaN \<Longrightarrow> \<not> f_less c a \<or> a = NaN \<or> c = NaN"
  by (cases a; cases b; cases c) auto

end
