(* ===== verification/Runtime_Lease.thy ===== *)
theory Runtime_Lease
  imports Session_Key_Gate Reality
begin

text \<open>
  Runtime capability leases (\<open>include/guff/runtime_lease.hpp\<close>, \<open>src/runtime_lease.cpp\<close>), the
  data: the coordinate a lease is bound to, the lease a session key signs, its canonical bytes
  and id, its issuer and its validation against the session-key bundle it hangs from.
\<close>

section \<open>Data\<close>

record runtime_binding =
  rb_device_id :: string
  rb_executable_sha256 :: string
  rb_process_instance_sha256 :: string
  rb_slot_id :: string
  rb_session_id :: string
  rb_layer :: reality_layer

record runtime_capability_lease =
  le_schema_version :: u32
  le_session_key_receipt_id :: string
  le_certificate_id :: string
  le_signer_id :: string
  le_key_id :: string
  le_algorithm :: string
  le_fingerprint :: string
  le_purpose :: authority_purpose
  le_subject_id :: string
  le_scope_path :: string
  le_scope_sha256 :: string
  le_capability :: string
  le_binding :: runtime_binding
  le_issued_at :: u64
  le_expires_at :: u64
  le_max_uses :: u32
  le_nonce :: string
  le_canonical_sha256 :: string
  le_signature :: string
  le_lease_id :: string

datatype runtime_lease_status =
  RLS_Allowed | RLS_Invalid | RLS_NotRegistered | RLS_SignatureRejected | RLS_KeyMismatch
| RLS_SessionKeyMismatch | RLS_DeviceMismatch | RLS_ExecutableMismatch | RLS_ProcessMismatch
| RLS_SlotMismatch | RLS_SessionMismatch | RLS_LayerMismatch | RLS_CapabilityMismatch
| RLS_ScopeMismatch | RLS_LeaseExpired | RLS_UseLimitReached | RLS_LeaseRevoked
| RLS_SessionKeyRejected | RLS_StorageError | RLS_Corrupt

record runtime_lease_result =
  rlr_status :: runtime_lease_status
  rlr_session_key_status :: session_key_status
  rlr_backing_status :: authority_ledger_status
  rlr_lease_id :: string
  rlr_use_count :: u64
  rlr_errors :: "string list"

record runtime_lease_issue_request =
  lq_binding :: runtime_binding
  lq_capability :: string
  lq_issued_at :: u64
  lq_expires_at :: u64
  lq_max_uses :: u32
  lq_nonce :: string

definition rlr_ok :: "runtime_lease_result \<Rightarrow> bool" where
  "rlr_ok r \<longleftrightarrow> rlr_status r = RLS_Allowed"

section \<open>Canonical bytes and ids\<close>

definition kLeasePrefix :: string where "kLeasePrefix = ''guff:lease:sha256:''"

definition kHardwarePrefix :: string where "kHardwarePrefix = ''guff:hardware:sha256:''"

definition kSessionPrefix :: string where "kSessionPrefix = ''guff:session:sha256:''"

definition valid_binding :: "runtime_binding \<Rightarrow> bool" where
  "valid_binding b \<longleftrightarrow>
     prefixed_sha256 kHardwarePrefix (rb_device_id b) \<and> is_sha256 (rb_executable_sha256 b) \<and>
     is_sha256 (rb_process_instance_sha256 b) \<and> valid_token (rb_slot_id b) 192 \<and>
     prefixed_sha256 kSessionPrefix (rb_session_id b)"

definition same_binding :: "runtime_binding \<Rightarrow> runtime_binding \<Rightarrow> bool" where
  "same_binding l r \<longleftrightarrow>
     rb_device_id l = rb_device_id r \<and> rb_executable_sha256 l = rb_executable_sha256 r \<and>
     rb_process_instance_sha256 l = rb_process_instance_sha256 r \<and> rb_slot_id l = rb_slot_id r \<and>
     rb_session_id l = rb_session_id r \<and> rb_layer l = rb_layer r"

definition canonical_runtime_binding :: "runtime_binding \<Rightarrow> string" where
  "canonical_runtime_binding b =
     rb_device_id b @ [NL] @ rb_executable_sha256 b @ [NL] @ rb_process_instance_sha256 b @ [NL] @
     rb_slot_id b @ [NL] @ rb_session_id b @ [NL] @ show_u (layer_code (rb_layer b))"

definition runtime_binding_sha256 :: "runtime_binding \<Rightarrow> string" where
  "runtime_binding_sha256 b = sha256 (canonical_runtime_binding b)"

definition canonical_runtime_capability_lease :: "runtime_capability_lease \<Rightarrow> string" where
  "canonical_runtime_capability_lease l =
     show_u (le_schema_version l) @ [NL] @ le_session_key_receipt_id l @ [NL] @
     le_certificate_id l @ [NL] @ le_signer_id l @ [NL] @ le_key_id l @ [NL] @ le_algorithm l @ [NL] @
     le_fingerprint l @ [NL] @ show_u (purpose_code (le_purpose l)) @ [NL] @ le_subject_id l @ [NL] @
     le_scope_path l @ [NL] @ le_scope_sha256 l @ [NL] @ le_capability l @ [NL] @
     canonical_runtime_binding (le_binding l) @ [NL] @ show_u (le_issued_at l) @ [NL] @
     show_u (le_expires_at l) @ [NL] @ show_u (le_max_uses l) @ [NL] @ le_nonce l"

definition runtime_capability_lease_id :: "runtime_capability_lease \<Rightarrow> string \<Rightarrow> string" where
  "runtime_capability_lease_id l sg =
     kLeasePrefix @ sha256 (canonical_runtime_capability_lease l @ [NL] @ sg)"

definition runtime_process_instance_sha256 :: "string \<Rightarrow> string \<Rightarrow> u64 \<Rightarrow> u64 \<Rightarrow> string \<Rightarrow> string" where
  "runtime_process_instance_sha256 device_id executable_sha256 process_id started_ms runtime_nonce =
     sha256 (device_id @ [NL] @ executable_sha256 @ [NL] @ show_u process_id @ [NL] @
       show_u started_ms @ [NL] @ runtime_nonce)"

section \<open>Issue\<close>

text \<open>The errors of \<open>RuntimeLeaseIssuer::issue\<close> are collected, not returned at the first.\<close>

definition lease_issue_errors ::
    "session_key_bundle \<Rightarrow> runtime_lease_issue_request \<Rightarrow> session_key_signer \<Rightarrow> string list" where
  "lease_issue_errors b q s =
     (let r = sb_receipt b in
      err (sks_signer_id s \<noteq> sr_signer_id r \<or> sks_key_id s \<noteq> sr_key_id r \<or>
           sks_algorithm s \<noteq> sr_algorithm r \<or> sks_fingerprint s \<noteq> sr_fingerprint r)
        ''runtime lease must be signed by the exact delegated session key'' @
      err (\<not> valid_binding (lq_binding q)) ''runtime binding is incomplete or malformed'' @
      err (\<not> valid_token (lq_capability q) 192 \<or> lq_capability q \<notin> set (sr_capabilities r))
        ''runtime lease capability is not present in session-key authority'' @
      err (lq_issued_at q < sr_issued_at r \<or> sr_expires_at r < lq_expires_at q \<or>
           lq_expires_at q \<le> lq_issued_at q)
        ''runtime lease lifetime must fit inside session-key lifetime'' @
      err (lq_max_uses q = 0 \<or> sr_max_uses r < lq_max_uses q)
        ''runtime lease use budget must fit inside session-key budget'' @
      err (\<not> valid_token (lq_nonce q) 128) ''runtime lease nonce is invalid'')"

definition unsigned_lease :: "session_key_bundle \<Rightarrow> runtime_lease_issue_request \<Rightarrow> runtime_capability_lease" where
  "unsigned_lease b q =
     (let r = sb_receipt b in
      \<lparr>le_schema_version = 1, le_session_key_receipt_id = sr_receipt_id r,
       le_certificate_id = sc_certificate_id (sb_certificate b), le_signer_id = sr_signer_id r,
       le_key_id = sr_key_id r, le_algorithm = sr_algorithm r, le_fingerprint = sr_fingerprint r,
       le_purpose = sr_purpose r, le_subject_id = sr_subject_id r, le_scope_path = sr_scope_path r,
       le_scope_sha256 = sr_scope_sha256 r, le_capability = lq_capability q, le_binding = lq_binding q,
       le_issued_at = lq_issued_at q, le_expires_at = lq_expires_at q, le_max_uses = lq_max_uses q,
       le_nonce = lq_nonce q, le_canonical_sha256 = [], le_signature = [], le_lease_id = []\<rparr>)"

definition issue_runtime_lease ::
    "session_key_bundle \<Rightarrow> runtime_lease_issue_request \<Rightarrow> session_key_signer \<Rightarrow>
     string list + runtime_capability_lease" where
  "issue_runtime_lease b q s =
     (let es = lease_issue_errors b q s; l = unsigned_lease b q;
          canonical = canonical_runtime_capability_lease l in
      if es \<noteq> [] then Inl es
      else case sks_sign s canonical of
        None \<Rightarrow> Inl [''session key failed to sign runtime capability lease'']
      | Some sg \<Rightarrow>
          if sg = [] then Inl [''session key failed to sign runtime capability lease'']
          else Inr (l\<lparr>le_canonical_sha256 := sha256 canonical, le_signature := sg,
            le_lease_id := runtime_capability_lease_id l sg\<rparr>))"

section \<open>Validation\<close>

definition rl_result :: "string \<Rightarrow> runtime_lease_result" where
  "rl_result lid = \<lparr>rlr_status = RLS_Invalid, rlr_session_key_status = SKS_Invalid,
     rlr_backing_status = ALS_Invalid, rlr_lease_id = lid, rlr_use_count = 0, rlr_errors = []\<rparr>"

definition rl_reject :: "string \<Rightarrow> runtime_lease_status \<Rightarrow> string list \<Rightarrow> runtime_lease_result" where
  "rl_reject lid st es = (rl_result lid)\<lparr>rlr_status := st, rlr_errors := es\<rparr>"

definition rl_allowed :: "string \<Rightarrow> u64 \<Rightarrow> runtime_lease_result" where
  "rl_allowed lid n = (rl_result lid)\<lparr>rlr_status := RLS_Allowed, rlr_use_count := n\<rparr>"

definition lease_branch_matches :: "runtime_capability_lease \<Rightarrow> session_key_bundle \<Rightarrow> bool" where
  "lease_branch_matches l b \<longleftrightarrow>
     (let r = sb_receipt b in
      le_schema_version l = 1 \<and> le_session_key_receipt_id l = sr_receipt_id r \<and>
      le_certificate_id l = sc_certificate_id (sb_certificate b) \<and> le_signer_id l = sr_signer_id r \<and>
      le_key_id l = sr_key_id r \<and> le_algorithm l = sr_algorithm r \<and> le_fingerprint l = sr_fingerprint r \<and>
      le_purpose l = sr_purpose r \<and> le_subject_id l = sr_subject_id r \<and>
      le_scope_path l = sr_scope_path r \<and> le_scope_sha256 l = sr_scope_sha256 r)"

definition lease_policy_fits :: "runtime_capability_lease \<Rightarrow> session_key_bundle \<Rightarrow> bool" where
  "lease_policy_fits l b \<longleftrightarrow>
     (let r = sb_receipt b in
      valid_binding (le_binding l) \<and> valid_token (le_capability l) 192 \<and> valid_token (le_nonce l) 128 \<and>
      is_sha256 (le_scope_sha256 l) \<and> is_sha256 (le_fingerprint l) \<and>
      \<not> le_issued_at l < sr_issued_at r \<and> \<not> sr_expires_at r < le_expires_at l \<and>
      \<not> le_expires_at l \<le> le_issued_at l \<and> le_max_uses l \<noteq> 0 \<and> \<not> sr_max_uses r < le_max_uses l \<and>
      le_capability l \<in> set (sr_capabilities r))"

definition validate_lease ::
    "runtime_capability_lease \<Rightarrow> session_key_bundle \<Rightarrow> session_key_verifier \<Rightarrow> runtime_lease_result" where
  "validate_lease l b v =
     (let lid = le_lease_id l; canonical = canonical_runtime_capability_lease l in
      if \<not> lease_branch_matches l b
      then rl_reject lid RLS_SessionKeyMismatch [''runtime lease does not match its session-key branch'']
      else if \<not> lease_policy_fits l b
      then rl_reject lid RLS_Invalid [''runtime lease policy exceeds or violates its session-key branch'']
      else if le_canonical_sha256 l \<noteq> sha256 canonical \<or>
              lid \<noteq> runtime_capability_lease_id l (le_signature l)
      then rl_reject lid RLS_SignatureRejected [''runtime lease canonical identity is invalid'']
      else if \<not> skv_knows v (le_signer_id l) (le_key_id l) (le_algorithm l)
      then rl_reject lid RLS_KeyMismatch [''runtime lease signer key is unknown'']
      else if skv_fingerprint v (le_signer_id l) (le_key_id l) (le_algorithm l) \<noteq> Some (le_fingerprint l)
      then rl_reject lid RLS_KeyMismatch [''runtime lease signer fingerprint mismatch'']
      else if \<not> skv_verify v (le_signer_id l) (le_key_id l) (le_algorithm l) canonical (le_signature l)
      then rl_reject lid RLS_SignatureRejected [''runtime lease signature rejected'']
      else rl_allowed lid 0)"

definition lease_valid :: "runtime_capability_lease \<Rightarrow> session_key_bundle \<Rightarrow> session_key_verifier \<Rightarrow> bool" where
  "lease_valid l b v \<longleftrightarrow>
     lease_branch_matches l b \<and> lease_policy_fits l b \<and>
     le_canonical_sha256 l = sha256 (canonical_runtime_capability_lease l) \<and>
     le_lease_id l = runtime_capability_lease_id l (le_signature l) \<and>
     skv_knows v (le_signer_id l) (le_key_id l) (le_algorithm l) \<and>
     skv_fingerprint v (le_signer_id l) (le_key_id l) (le_algorithm l) = Some (le_fingerprint l) \<and>
     skv_verify v (le_signer_id l) (le_key_id l) (le_algorithm l) (canonical_runtime_capability_lease l)
       (le_signature l)"

section \<open>Facts\<close>

lemma rl_results [simp]:
  "rlr_ok (rl_reject lid st es) \<longleftrightarrow> st = RLS_Allowed" "rlr_ok (rl_allowed lid n)"
  "rlr_ok ((rl_reject lid st es)\<lparr>rlr_use_count := n\<rparr>) \<longleftrightarrow> st = RLS_Allowed"
  "rlr_status (rl_reject lid st es) = st" "rlr_status (rl_allowed lid n) = RLS_Allowed"
  "rlr_lease_id (rl_reject lid st es) = lid" "rlr_lease_id (rl_allowed lid n) = lid"
  "rlr_use_count (rl_allowed lid n) = n" "rlr_use_count (rl_reject lid st es) = 0"
  "rlr_errors (rl_reject lid st es) = es" "rlr_errors (rl_allowed lid n) = []"
  by (simp_all add: rlr_ok_def rl_reject_def rl_allowed_def rl_result_def)

lemma rlr_if: "rlr_ok (if c then x else y) \<longleftrightarrow> (if c then rlr_ok x else rlr_ok y)"
  by simp

lemma validate_ok: "rlr_ok (validate_lease l b v) \<longleftrightarrow> lease_valid l b v"
  by (auto simp: validate_lease_def lease_valid_def Let_def)

lemma same_binding_eq: "same_binding l r \<longleftrightarrow> l = r"
  by (auto simp: same_binding_def intro: runtime_binding.equality)

lemma lease_id_prefixed [simp]: "prefixed_sha256 kLeasePrefix (runtime_capability_lease_id l s)"
  by (simp add: runtime_capability_lease_id_def)

lemma lease_validD:
  assumes "lease_valid l b v"
  shows "prefixed_sha256 kLeasePrefix (le_lease_id l)" "is_sha256 (le_fingerprint l)"
    "le_expires_at l \<noteq> 0" "le_max_uses l \<noteq> 0" "valid_binding (le_binding l)"
    "le_max_uses l \<le> sr_max_uses (sb_receipt b)" "le_expires_at l \<le> sr_expires_at (sb_receipt b)"
    "le_capability l \<in> set (sr_capabilities (sb_receipt b))"
    "le_session_key_receipt_id l = sr_receipt_id (sb_receipt b)"
  using assms by (auto simp: lease_valid_def lease_policy_fits_def lease_branch_matches_def Let_def)

end
