(* ===== verification/Runtime_Lease_Ledger.thy ===== *)
theory Runtime_Lease_Ledger
  imports Runtime_Lease
begin

text \<open>
  \<open>RuntimeLeaseLedger\<close> and \<open>RuntimeLeaseAuthorityGate\<close> (\<open>src/runtime_lease.cpp\<close>): which leases
  are registered, how often each was used and which are revoked, over the shared journal; and
  the gate that spends a session-key use and then a lease use.

  The interpretations \<open>lease_journal\<close> and \<open>leases\<close> discharge the interfaces \<open>event_journal\<close> and
  \<open>journalled_ledger\<close> for this ledger.  Every lease that passes validation can be read back, so
  no assumption about registered leases is needed.
\<close>

section \<open>State\<close>

record lease_registration =
  lg_session_key_receipt_id :: string
  lg_certificate_id :: string
  lg_signer_id :: string
  lg_key_id :: string
  lg_fingerprint :: string
  lg_binding_sha256 :: string
  lg_expires_at :: u64
  lg_max_uses :: u32

record lease_maps =
  lm_registrations :: "lease_registration smap"
  lm_uses :: "u64 smap"
  lm_revoked :: "u64 smap"

record lease_ledger =
  ll_journal :: journal
  ll_maps :: lease_maps

record runtime_lease_inspection =
  rli_healthy :: bool
  rli_records :: u64
  rli_registered_leases :: nat
  rli_consumed_leases :: nat
  rli_revoked_leases :: nat
  rli_errors :: "string list"

definition empty_lease_maps :: lease_maps where
  "empty_lease_maps = \<lparr>lm_registrations = [], lm_uses = [], lm_revoked = []\<rparr>"

definition lease_cfg :: journal_cfg where
  "lease_cfg = \<lparr>jc_ledger = ''runtime lease ledger'', jc_directory = ''runtime lease journal'',
     jc_journal = ''runtime lease journal'', jc_line = ''runtime lease journal'',
     jc_record = ''runtime lease'', jc_extra = 1\<rparr>"

definition lease_use_count :: "lease_maps \<Rightarrow> string \<Rightarrow> u64" where
  "lease_use_count m lid = (case map_of (lm_uses m) lid of None \<Rightarrow> 0 | Some n \<Rightarrow> n)"

definition lease_registered :: "lease_maps \<Rightarrow> string \<Rightarrow> bool" where
  "lease_registered m lid \<longleftrightarrow> contains (lm_registrations m) lid"

definition lease_revoked :: "lease_maps \<Rightarrow> string \<Rightarrow> bool" where
  "lease_revoked m lid \<longleftrightarrow> contains (lm_revoked m) lid"

section \<open>Events\<close>

datatype lease_event =
  Le_Register string string string string string string string u64 u32
| Le_Use string u64 u64
| Le_Revoke string u64

fun encode_lease_event :: "lease_event \<Rightarrow> string" where
  "encode_lease_event (Le_Register lid rid cert signer key fp binding expires limit) =
     ''L'' @ tab_join [hex_encode lid, hex_encode rid, hex_encode cert, hex_encode signer,
       hex_encode key, hex_encode fp, binding, show_u expires, show_u limit]"
| "encode_lease_event (Le_Use lid use_index time) =
     ''U'' @ tab_join [hex_encode lid, show_u use_index, show_u time]"
| "encode_lease_event (Le_Revoke lid time) = ''X'' @ tab_join [hex_encode lid, show_u time]"

fun wf_lease_event :: "lease_event \<Rightarrow> bool" where
  "wf_lease_event (Le_Register lid rid cert signer key fp binding expires limit) \<longleftrightarrow>
     TAB \<notin> set binding \<and> NL \<notin> set binding"
| "wf_lease_event _ \<longleftrightarrow> True"

definition decode_lease_event :: "string list \<Rightarrow> lease_event option" where
  "decode_lease_event fs =
     (if fs ! 2 = ''L'' \<and> length fs = 13 then do {
        lid \<leftarrow> hex_decode (fs ! 3); rid \<leftarrow> hex_decode (fs ! 4); cert \<leftarrow> hex_decode (fs ! 5);
        signer \<leftarrow> hex_decode (fs ! 6); key \<leftarrow> hex_decode (fs ! 7); fp \<leftarrow> hex_decode (fs ! 8);
        expires \<leftarrow> parse_unsigned (fs ! 10); limit \<leftarrow> parse_unsigned (fs ! 11);
        Some (Le_Register lid rid cert signer key fp (fs ! 9) expires limit) }
      else if fs ! 2 = ''U'' \<and> length fs = 7 then do {
        lid \<leftarrow> hex_decode (fs ! 3); use_index \<leftarrow> parse_unsigned (fs ! 4); time \<leftarrow> parse_unsigned (fs ! 5);
        Some (Le_Use lid use_index time) }
      else if fs ! 2 = ''X'' \<and> length fs = 6 then do {
        lid \<leftarrow> hex_decode (fs ! 3); time \<leftarrow> parse_unsigned (fs ! 4);
        Some (Le_Revoke lid time) }
      else None)"

fun sem_lease_event :: "lease_event \<Rightarrow> lease_maps \<Rightarrow> lease_maps option" where
  "sem_lease_event (Le_Register lid rid cert signer key fp binding expires limit) m =
     (if prefixed_sha256 kLeasePrefix lid \<and> is_sha256 fp \<and> is_sha256 binding \<and> expires \<noteq> 0 \<and> limit \<noteq> 0 \<and>
         \<not> contains (lm_registrations m) lid
      then Some (m\<lparr>lm_registrations := AList.update lid
        \<lparr>lg_session_key_receipt_id = rid, lg_certificate_id = cert, lg_signer_id = signer,
         lg_key_id = key, lg_fingerprint = fp, lg_binding_sha256 = binding, lg_expires_at = expires,
         lg_max_uses = limit\<rparr> (lm_registrations m)\<rparr>)
      else None)"
| "sem_lease_event (Le_Use lid use_index time) m =
     (if contains (lm_registrations m) lid \<and> use_index \<noteq> 0 \<and> time \<noteq> 0 \<and>
         use_index = lease_use_count m lid + 1
      then Some (m\<lparr>lm_uses := AList.update lid use_index (lm_uses m)\<rparr>)
      else None)"
| "sem_lease_event (Le_Revoke lid time) m =
     (if contains (lm_registrations m) lid \<and> time \<noteq> 0 \<and> \<not> contains (lm_revoked m) lid
      then Some (m\<lparr>lm_revoked := AList.update lid time (lm_revoked m)\<rparr>)
      else None)"

definition lease_handler :: "string list \<Rightarrow> lease_maps \<Rightarrow> lease_maps option" where
  "lease_handler fs m = (case decode_lease_event fs of None \<Rightarrow> None | Some e \<Rightarrow> sem_lease_event e m)"

section \<open>Operations\<close>

definition lease_append :: "io \<Rightarrow> string \<Rightarrow> journal \<Rightarrow> string option \<times> journal" where
  "lease_append io body j = append_event lease_cfg io body j"

definition ll_commit ::
    "io \<Rightarrow> string \<Rightarrow> lease_event \<Rightarrow> (lease_maps \<Rightarrow> lease_maps) \<Rightarrow> u64 \<Rightarrow> lease_ledger \<Rightarrow>
     runtime_lease_result \<times> lease_ledger" where
  "ll_commit io lid ev upd n S =
     (case lease_append io (encode_lease_event ev) (ll_journal S) of
        (Some error, j) \<Rightarrow> (rl_reject lid RLS_StorageError [error], S\<lparr>ll_journal := j\<rparr>)
      | (None, j) \<Rightarrow> (rl_allowed lid n, S\<lparr>ll_journal := j, ll_maps := upd (ll_maps S)\<rparr>))"

definition lease_registration_of :: "runtime_capability_lease \<Rightarrow> lease_registration" where
  "lease_registration_of l =
     \<lparr>lg_session_key_receipt_id = le_session_key_receipt_id l, lg_certificate_id = le_certificate_id l,
      lg_signer_id = le_signer_id l, lg_key_id = le_key_id l, lg_fingerprint = le_fingerprint l,
      lg_binding_sha256 = runtime_binding_sha256 (le_binding l), lg_expires_at = le_expires_at l,
      lg_max_uses = le_max_uses l\<rparr>"

definition register_lease_event :: "runtime_capability_lease \<Rightarrow> lease_event" where
  "register_lease_event l =
     Le_Register (le_lease_id l) (le_session_key_receipt_id l) (le_certificate_id l) (le_signer_id l)
       (le_key_id l) (le_fingerprint l) (runtime_binding_sha256 (le_binding l)) (le_expires_at l)
       (le_max_uses l)"

definition register_lease ::
    "u64 \<Rightarrow> io \<Rightarrow> runtime_capability_lease \<Rightarrow> session_key_bundle \<Rightarrow> session_key_verifier \<Rightarrow> lease_ledger \<Rightarrow>
     runtime_lease_result \<times> lease_ledger" where
  "register_lease now io l b v S =
     (let m = ll_maps S; lid = le_lease_id l; validated = validate_lease l b v in
      if \<not> j_healthy (ll_journal S) then (rl_reject lid RLS_Corrupt (j_errors (ll_journal S)), S)
      else if \<not> rlr_ok validated then (validated, S)
      else if contains (lm_registrations m) lid
      then (rl_reject lid RLS_NotRegistered [''runtime lease is already registered''], S)
      else if le_expires_at l \<le> now
      then (rl_reject lid RLS_LeaseExpired [''runtime lease is already expired''], S)
      else ll_commit io lid (register_lease_event l)
        (\<lambda>m. m\<lparr>lm_registrations := AList.update lid (lease_registration_of l) (lm_registrations m)\<rparr>) 0 S)"

text \<open>The coordinates are compared one by one, each with its own status.\<close>

definition binding_mismatch :: "runtime_binding \<Rightarrow> runtime_binding \<Rightarrow> (runtime_lease_status \<times> string) option" where
  "binding_mismatch observed bound =
     (if rb_device_id observed \<noteq> rb_device_id bound
      then Some (RLS_DeviceMismatch, ''runtime lease device identity mismatch'')
      else if rb_executable_sha256 observed \<noteq> rb_executable_sha256 bound
      then Some (RLS_ExecutableMismatch, ''runtime lease executable identity mismatch'')
      else if rb_process_instance_sha256 observed \<noteq> rb_process_instance_sha256 bound
      then Some (RLS_ProcessMismatch, ''runtime lease process-instance identity mismatch'')
      else if rb_slot_id observed \<noteq> rb_slot_id bound
      then Some (RLS_SlotMismatch, ''runtime lease CLUBHOUSE slot mismatch'')
      else if rb_session_id observed \<noteq> rb_session_id bound
      then Some (RLS_SessionMismatch, ''runtime lease transaction/session mismatch'')
      else if rb_layer observed \<noteq> rb_layer bound
      then Some (RLS_LayerMismatch, ''runtime lease STRATA layer mismatch'')
      else if \<not> same_binding observed bound
      then Some (RLS_Invalid, ''runtime lease binding mismatch'')
      else None)"

definition lease_preflight ::
    "u64 \<Rightarrow> runtime_capability_lease \<Rightarrow> session_key_bundle \<Rightarrow> session_key_verifier \<Rightarrow> runtime_binding \<Rightarrow>
     lease_ledger \<Rightarrow> runtime_lease_result" where
  "lease_preflight now l b v observed S =
     (let m = ll_maps S; lid = le_lease_id l; validated = validate_lease l b v; used = lease_use_count m lid in
      if \<not> j_healthy (ll_journal S) then rl_reject lid RLS_Corrupt (j_errors (ll_journal S))
      else if \<not> rlr_ok validated then validated
      else (case map_of (lm_registrations m) lid of
        None \<Rightarrow> rl_reject lid RLS_NotRegistered [''runtime lease is not registered'']
      | Some stored \<Rightarrow>
      if stored \<noteq> lease_registration_of l
      then rl_reject lid RLS_NotRegistered [''runtime lease does not match durable registration'']
      else if \<not> valid_binding observed
      then rl_reject lid RLS_Invalid [''observed runtime binding is malformed'']
      else (case binding_mismatch observed (le_binding l) of
        Some (st, msg) \<Rightarrow> rl_reject lid st [msg]
      | None \<Rightarrow>
      if contains (lm_revoked m) lid
      then rl_reject lid RLS_LeaseRevoked [''runtime capability lease is revoked'']
      else if le_expires_at l \<le> now
      then rl_reject lid RLS_LeaseExpired [''runtime capability lease has expired'']
      else if ucast (le_max_uses l) \<le> used
      then (rl_reject lid RLS_UseLimitReached [''runtime capability lease use limit reached''])\<lparr>rlr_use_count := used\<rparr>
      else rl_allowed lid used)))"

definition consume_lease ::
    "u64 \<Rightarrow> io \<Rightarrow> runtime_capability_lease \<Rightarrow> lease_ledger \<Rightarrow> runtime_lease_result \<times> lease_ledger" where
  "consume_lease now io l S =
     (let m = ll_maps S; lid = le_lease_id l; used = lease_use_count m lid in
      if \<not> j_healthy (ll_journal S) then (rl_reject lid RLS_Corrupt (j_errors (ll_journal S)), S)
      else (case map_of (lm_registrations m) lid of
        None \<Rightarrow> (rl_reject lid RLS_NotRegistered [''runtime lease is not registered''], S)
      | Some reg \<Rightarrow>
      if contains (lm_revoked m) lid
      then (rl_reject lid RLS_LeaseRevoked [''runtime capability lease is revoked''], S)
      else if lg_expires_at reg \<le> now
      then (rl_reject lid RLS_LeaseExpired [''runtime capability lease has expired''], S)
      else if ucast (lg_max_uses reg) \<le> used
      then ((rl_reject lid RLS_UseLimitReached [''runtime capability lease use limit reached''])
              \<lparr>rlr_use_count := used\<rparr>, S)
      else ll_commit io lid (Le_Use lid (used + 1) now)
        (\<lambda>m. m\<lparr>lm_uses := AList.update lid (used + 1) (lm_uses m)\<rparr>) (used + 1) S))"

definition revoke_lease :: "io \<Rightarrow> string \<Rightarrow> u64 \<Rightarrow> lease_ledger \<Rightarrow> runtime_lease_result \<times> lease_ledger" where
  "revoke_lease io lid time S =
     (let m = ll_maps S in
      if \<not> prefixed_sha256 kLeasePrefix lid \<or> time = 0
      then (rl_reject lid RLS_Invalid [''runtime lease revocation request is invalid''], S)
      else if \<not> contains (lm_registrations m) lid
      then (rl_reject lid RLS_NotRegistered [''runtime lease is not registered''], S)
      else if contains (lm_revoked m) lid
      then (rl_reject lid RLS_LeaseRevoked [''runtime lease is already revoked''], S)
      else ll_commit io lid (Le_Revoke lid time)
        (\<lambda>m. m\<lparr>lm_revoked := AList.update lid time (lm_revoked m)\<rparr>) 0 S)"

definition lease_replay :: "bool \<Rightarrow> lease_ledger \<Rightarrow> bool \<times> lease_ledger" where
  "lease_replay open_ok S =
     (case replay lease_cfg lease_handler empty_lease_maps open_ok (ll_journal S) of
        (j, m) \<Rightarrow> (j_healthy j, S\<lparr>ll_journal := j, ll_maps := m\<rparr>))"

definition lease_construct :: "string \<Rightarrow> string option \<Rightarrow> bool \<Rightarrow> lease_ledger" where
  "lease_construct path file open_ok =
     snd (lease_replay open_ok
       \<lparr>ll_journal = \<lparr>j_path = path, j_sequence = 0, j_last = [], j_healthy = True, j_errors = [],
          j_file = file\<rparr>, ll_maps = empty_lease_maps\<rparr>)"

definition lease_inspect :: "lease_ledger \<Rightarrow> runtime_lease_inspection" where
  "lease_inspect S =
     \<lparr>rli_healthy = j_healthy (ll_journal S), rli_records = j_sequence (ll_journal S),
      rli_registered_leases = length (lm_registrations (ll_maps S)),
      rli_consumed_leases = length (lm_uses (ll_maps S)),
      rli_revoked_leases = length (lm_revoked (ll_maps S)), rli_errors = j_errors (ll_journal S)\<rparr>"

fun lease_status_to_string :: "runtime_lease_status \<Rightarrow> string" where
  "lease_status_to_string RLS_Allowed = ''ALLOWED''"
| "lease_status_to_string RLS_Invalid = ''INVALID''"
| "lease_status_to_string RLS_NotRegistered = ''NOT_REGISTERED''"
| "lease_status_to_string RLS_SignatureRejected = ''SIGNATURE_REJECTED''"
| "lease_status_to_string RLS_KeyMismatch = ''KEY_MISMATCH''"
| "lease_status_to_string RLS_SessionKeyMismatch = ''SESSION_KEY_MISMATCH''"
| "lease_status_to_string RLS_DeviceMismatch = ''DEVICE_MISMATCH''"
| "lease_status_to_string RLS_ExecutableMismatch = ''EXECUTABLE_MISMATCH''"
| "lease_status_to_string RLS_ProcessMismatch = ''PROCESS_MISMATCH''"
| "lease_status_to_string RLS_SlotMismatch = ''SLOT_MISMATCH''"
| "lease_status_to_string RLS_SessionMismatch = ''SESSION_MISMATCH''"
| "lease_status_to_string RLS_LayerMismatch = ''LAYER_MISMATCH''"
| "lease_status_to_string RLS_CapabilityMismatch = ''CAPABILITY_MISMATCH''"
| "lease_status_to_string RLS_ScopeMismatch = ''SCOPE_MISMATCH''"
| "lease_status_to_string RLS_LeaseExpired = ''LEASE_EXPIRED''"
| "lease_status_to_string RLS_UseLimitReached = ''USE_LIMIT_REACHED''"
| "lease_status_to_string RLS_LeaseRevoked = ''LEASE_REVOKED''"
| "lease_status_to_string RLS_SessionKeyRejected = ''SESSION_KEY_REJECTED''"
| "lease_status_to_string RLS_StorageError = ''STORAGE_ERROR''"
| "lease_status_to_string RLS_Corrupt = ''CORRUPT''"

section \<open>The gate\<close>

text \<open>
  \<open>RuntimeLeaseAuthorityGate::authorize\<close>.  The clock is read once by each preflight and once by
  each consume; \<open>lio\<close> is the outcome of the append to the lease journal.
\<close>

definition lease_gate_authorize ::
    "authority_verifier \<Rightarrow> session_key_verifier \<Rightarrow> authority_verifier \<Rightarrow> u64 \<Rightarrow> u64 \<Rightarrow> u64 \<Rightarrow> u64 \<Rightarrow> u64 \<Rightarrow>
     io \<Rightarrow> io \<Rightarrow> io \<Rightarrow> runtime_capability_lease \<Rightarrow> session_key_bundle \<Rightarrow> runtime_binding \<Rightarrow>
     authority_ledger \<times> session_ledger \<times> lease_ledger \<Rightarrow>
     runtime_lease_result \<times> authority_ledger \<times> session_ledger \<times> lease_ledger" where
  "lease_gate_authorize pv kv gv now0 now1 now2 now3 now4 aio sio lio l b observed st =
     (let (L, S, K) = st; pre = lease_preflight now0 l b kv observed K in
      if \<not> rlr_ok pre then (pre, L, S, K)
      else (case session_gate_authorize pv kv gv now1 now2 now3 aio sio b (le_purpose l) (le_subject_id l)
              (le_scope_sha256 l) (le_capability l) (L, S) of
        (session, L', S') \<Rightarrow>
          if \<not> skr_ok session
          then (\<lparr>rlr_status = RLS_SessionKeyRejected, rlr_session_key_status = skr_status session,
                 rlr_backing_status = skr_ledger_status session, rlr_lease_id = le_lease_id l,
                 rlr_use_count = 0, rlr_errors = skr_errors session\<rparr>, L', S', K)
          else (case consume_lease now4 lio l K of
            (consumed, K') \<Rightarrow>
              let consumed' = consumed\<lparr>rlr_session_key_status := skr_status session,
                                       rlr_backing_status := skr_ledger_status session\<rparr> in
              (if rlr_ok consumed' then consumed'
               else consumed'\<lparr>rlr_errors := rlr_errors consumed' @
                 [''session-key authority was consumed, but runtime lease durability failed; side effects must remain blocked'']\<rparr>,
               L', S', K'))))"

section \<open>The journal interface\<close>

lemma encode_lease_fields:
  "wf_lease_event e \<Longrightarrow> split_tabs (encode_lease_event e) = (case e of
     Le_Register l r c s k fp bd x n \<Rightarrow>
       [''L'', hex_encode l, hex_encode r, hex_encode c, hex_encode s, hex_encode k, hex_encode fp, bd,
        show_u x, show_u n]
   | Le_Use r i t \<Rightarrow> [''U'', hex_encode r, show_u i, show_u t]
   | Le_Revoke r t \<Rightarrow> [''X'', hex_encode r, show_u t])"
  by (cases e) (simp_all add: split_tabs_join del: append.simps)

interpretation lease_journal: event_journal lease_cfg lease_handler empty_lease_maps wf_lease_event
  encode_lease_event sem_lease_event
proof unfold_locales
  fix e assume "wf_lease_event e"
  then show "NL \<notin> set (encode_lease_event e)"
    by (cases e) (simp_all add: tab_join_no_NL)
next
  fix e assume "wf_lease_event e"
  then show "2 + jc_extra lease_cfg \<le> length (split_tabs (encode_lease_event e))"
    by (cases e) (simp_all add: encode_lease_fields lease_cfg_def del: encode_lease_event.simps)
next
  fix e q p h st assume "wf_lease_event e"
  then show "lease_handler (q # p # split_tabs (encode_lease_event e) @ [h]) st = sem_lease_event e st"
    by (cases e) (simp_all add: encode_lease_fields lease_handler_def decode_lease_event_def
        del: sem_lease_event.simps encode_lease_event.simps)
qed

end
