(* ===== verification/Runtime_Lease_Runs.thy ===== *)
theory Runtime_Lease_Runs
  imports Runtime_Lease_Ledger
begin

text \<open>
  Histories of a \<open>RuntimeLeaseLedger\<close>: every call is a step of the journal contract, a history
  can be reloaded, and every recorded use respects the terms of the lease it uses.
\<close>

section \<open>Calls\<close>

datatype lease_op =
  Lo_Register u64 io runtime_capability_lease session_key_bundle session_key_verifier
| Lo_Consume u64 io runtime_capability_lease
| Lo_Revoke io string u64
| Lo_Replay bool

fun lease_call :: "lease_op \<Rightarrow> lease_ledger \<Rightarrow> bool \<times> lease_ledger" where
  "lease_call (Lo_Register now io l b v) S = map_prod rlr_ok id (register_lease now io l b v S)"
| "lease_call (Lo_Consume now io l) S = map_prod rlr_ok id (consume_lease now io l S)"
| "lease_call (Lo_Revoke io lid t) S = map_prod rlr_ok id (revoke_lease io lid t S)"
| "lease_call (Lo_Replay open_ok) S = lease_replay open_ok S"

fun lo_io :: "lease_op \<Rightarrow> io" where
  "lo_io (Lo_Register now io l b v) = io"
| "lo_io (Lo_Consume now io l) = io"
| "lo_io (Lo_Revoke io lid t) = io"
| "lo_io (Lo_Replay open_ok) = Write_Ok"

fun lo_event :: "lease_op \<Rightarrow> lease_maps \<Rightarrow> lease_event option" where
  "lo_event (Lo_Register now io l b v) m = Some (register_lease_event l)"
| "lo_event (Lo_Consume now io l) m =
     Some (Le_Use (le_lease_id l) (lease_use_count m (le_lease_id l) + 1) now)"
| "lo_event (Lo_Revoke io lid t) m = Some (Le_Revoke lid t)"
| "lo_event (Lo_Replay open_ok) m = None"

text \<open>The clock is past its epoch; nothing is asked of the leases.\<close>

fun lo_sane :: "lease_op \<Rightarrow> bool" where
  "lo_sane (Lo_Consume now io l) \<longleftrightarrow> now \<noteq> 0"
| "lo_sane _ \<longleftrightarrow> True"

definition l_step :: "io \<Rightarrow> lease_event \<Rightarrow> lease_ledger \<Rightarrow> runtime_lease_result \<times> lease_ledger \<Rightarrow> bool" where
  "l_step io ev S x \<longleftrightarrow> event_step lease_cfg encode_lease_event sem_lease_event io ev (rlr_ok (fst x))
     (ll_journal S) (ll_maps S) (ll_journal (snd x)) (ll_maps (snd x))"

lemma l_step_if:
  "(c \<Longrightarrow> l_step io ev S X) \<Longrightarrow> (\<not> c \<Longrightarrow> l_step io ev S Y) \<Longrightarrow> l_step io ev S (if c then X else Y)"
  by simp

lemma l_step_case:
  "(x = None \<Longrightarrow> l_step io ev S X) \<Longrightarrow> (\<And>k. x = Some k \<Longrightarrow> l_step io ev S (F k)) \<Longrightarrow>
   l_step io ev S (case x of None \<Rightarrow> X | Some k \<Rightarrow> F k)"
  by (cases x) simp_all

lemma l_step_commit:
  "sem_lease_event ev (ll_maps S) = Some (upd (ll_maps S)) \<Longrightarrow> l_step io ev S (ll_commit io lid ev upd n S)"
  by (auto simp: l_step_def ll_commit_def lease_append_def event_step_def split: prod.splits option.splits)

lemma l_step_refused: "\<not> rlr_ok r \<Longrightarrow> l_step io ev S (r, S)"
  by (simp add: l_step_def event_step_def)

lemmas l_step_chain = l_step_if l_step_case l_step_commit l_step_refused

lemma is_sha256_binding [simp]: "is_sha256 (runtime_binding_sha256 b)"
  by (simp add: runtime_binding_sha256_def)

lemma register_lease_step: "l_step io (register_lease_event l) S (register_lease now io l b v S)"
  unfolding register_lease_def Let_def
  by (intro l_step_chain)
    (auto simp: validate_ok register_lease_event_def lease_registration_of_def dest: lease_validD)

lemma consume_lease_step:
  "now \<noteq> 0 \<Longrightarrow> l_step io (Le_Use (le_lease_id l) (lease_use_count (ll_maps S) (le_lease_id l) + 1) now) S
     (consume_lease now io l S)"
  unfolding consume_lease_def Let_def
  by (intro l_step_chain) (auto simp: not_le next_use_word)

lemma revoke_lease_step: "l_step io (Le_Revoke lid t) S (revoke_lease io lid t S)"
  unfolding revoke_lease_def Let_def
  by (intro l_step_chain) auto

lemma l_step_call:
  "l_step io ev S x \<Longrightarrow> map_prod rlr_ok id x = (ok, S') \<Longrightarrow>
   event_step lease_cfg encode_lease_event sem_lease_event io ev ok (ll_journal S) (ll_maps S)
     (ll_journal S') (ll_maps S')"
  by (cases x) (auto simp: l_step_def)

interpretation leases: journalled_ledger lease_cfg "replay lease_cfg lease_handler empty_lease_maps" empty_lease_maps wf_lease_event
  encode_lease_event sem_lease_event ll_journal ll_maps lease_call lo_io "\<lambda>op m. lo_sane op" lo_event
proof unfold_locales
  fix op m ev assume "lo_event op m = Some ev" "lo_sane op"
  then show "wf_lease_event ev"
    by (cases op) (auto simp: register_lease_event_def runtime_binding_sha256_def)
next
  fix op S ok S' ev
  assume "lease_call op S = (ok, S')" "lo_event op (ll_maps S) = Some ev" "lo_sane op"
  then show "event_step lease_cfg encode_lease_event sem_lease_event (lo_io op) ev ok
    (ll_journal S) (ll_maps S) (ll_journal S') (ll_maps S')"
    by (cases op) (auto intro: l_step_call [OF register_lease_step] l_step_call [OF consume_lease_step]
        l_step_call [OF revoke_lease_step])
next
  fix op S ok S'
  assume "lease_call op S = (ok, S')" "lo_event op (ll_maps S) = None"
  then show "\<exists>open_ok. replay lease_cfg lease_handler empty_lease_maps open_ok (ll_journal S) =
      (ll_journal S', ll_maps S')"
    by (cases op) (auto simp: lease_replay_def split: prod.splits)
qed

section \<open>Runs\<close>

definition lease_run :: "string \<Rightarrow> lease_event list \<Rightarrow> lease_ledger \<Rightarrow> bool" where
  "lease_run path es S \<longleftrightarrow> path \<noteq> [] \<and>
     ledger_run lease_call (\<lambda>op S. clean_io (lo_io op) \<and> lo_sane op) (\<lambda>op S. opt_list (lo_event op (ll_maps S)))
       (lease_construct path None True) es S"

lemma lease_run_start: "path \<noteq> [] \<Longrightarrow> lease_run path [] (lease_construct path None True)"
  by (simp add: lease_run_def lrun_start)

lemma lease_run_ok: "lease_run path es S \<Longrightarrow> clean_io (lo_io op) \<Longrightarrow> lo_sane op \<Longrightarrow> lease_call op S = (True, S') \<Longrightarrow>
    lease_run path (es @ opt_list (lo_event op (ll_maps S))) S'"
  by (auto simp: lease_run_def intro: lrun_ok [where recorded = "\<lambda>op S. opt_list (lo_event op (ll_maps S))"])

lemma lease_run_failed: "lease_run path es S \<Longrightarrow> clean_io (lo_io op) \<Longrightarrow> lo_sane op \<Longrightarrow> lease_call op S = (False, S') \<Longrightarrow>
    lease_run path es S'"
  by (auto simp: lease_run_def intro: lrun_failed)

lemma lease_run_inv: "lease_run path es S \<Longrightarrow> leases.ledger_inv es S"
proof -
  assume run: "lease_run path es S"
  have "leases.ledger_inv [] (lease_construct path None True)"
    by (rule leases.inv_start(1) [of "\<lparr>j_path = path, j_sequence = 0, j_last = [], j_healthy = True, j_errors = [],
        j_file = None\<rparr>" True])
      (use run in \<open>auto simp: lease_run_def lease_construct_def lease_replay_def split: prod.splits\<close>)
  then show ?thesis using run leases.run_inv by (auto simp: lease_run_def)
qed

section \<open>Logs of leases\<close>

fun event_lease_uses :: "string \<Rightarrow> lease_event \<Rightarrow> nat" where
  "event_lease_uses lid (Le_Use l i t) = (if l = lid then 1 else 0)"
| "event_lease_uses lid _ = 0"

definition lease_uses :: "lease_event list \<Rightarrow> string \<Rightarrow> nat" where
  "lease_uses es lid = sum_list (map (event_lease_uses lid) es)"

lemma lease_uses_simps [simp]:
  "lease_uses [] lid = 0" "lease_uses (es @ fs) lid = lease_uses es lid + lease_uses fs lid"
  "lease_uses [e] lid = event_lease_uses lid e"
  by (simp_all add: lease_uses_def)

lemma sem_lease_uses:
  "sem_lease_event e m = Some m' \<Longrightarrow>
   unat (lease_use_count m' lid) = unat (lease_use_count m lid) + event_lease_uses lid e"
  by (cases e) (auto simp: lease_use_count_def unat_Suc_nonzero split: if_splits option.splits)

lemma lease_counts:
  "sem_list sem_lease_event es empty_lease_maps = Some m \<Longrightarrow> unat (lease_use_count m lid) = lease_uses es lid"
proof (induction es arbitrary: m rule: rev_induct)
  case Nil
  then show ?case by (auto simp: empty_lease_maps_def lease_use_count_def)
next
  case (snoc e es)
  then show ?case by (auto simp: sem_list_append sem_lease_uses split: option.splits)
qed

lemma sem_lease_grows:
  assumes "sem_lease_event e m = Some m'"
  shows "map_of (lm_registrations m) \<subseteq>\<^sub>m map_of (lm_registrations m')"
    "map_of (lm_revoked m) \<subseteq>\<^sub>m map_of (lm_revoked m')"
  using assms by (cases e; auto simp: map_le_def split: if_splits)+

lemma lease_logged:
  "sem_list sem_lease_event es empty_lease_maps = Some m \<Longrightarrow>
   (\<forall>lid rg. map_of (lm_registrations m) lid = Some rg \<longrightarrow>
      Le_Register lid (lg_session_key_receipt_id rg) (lg_certificate_id rg) (lg_signer_id rg) (lg_key_id rg)
        (lg_fingerprint rg) (lg_binding_sha256 rg) (lg_expires_at rg) (lg_max_uses rg) \<in> set es) \<and>
   (\<forall>lid t. Le_Revoke lid t \<in> set es \<longrightarrow> map_of (lm_revoked m) lid = Some t)"
proof (induction es arbitrary: m rule: rev_induct)
  case Nil
  then show ?case by (auto simp: empty_lease_maps_def)
next
  case (snoc e es)
  from snoc.prems obtain m1 where m1: "sem_list sem_lease_event es empty_lease_maps = Some m1"
    "sem_lease_event e m1 = Some m" by (rule sem_list_snocE)
  note IH = snoc.IH [OF m1(1)]
  have "map_of (lm_revoked m) lid = Some t" if "Le_Revoke lid t \<in> set (es @ [e])" for lid t
  proof (cases "Le_Revoke lid t \<in> set es")
    case True
    with IH map_le_Some [OF sem_lease_grows(2) [OF m1(2)]] show ?thesis by blast
  next
    case False
    with that m1(2) show ?thesis by (auto split: if_splits)
  qed
  moreover have "Le_Register lid (lg_session_key_receipt_id rg) (lg_certificate_id rg) (lg_signer_id rg) (lg_key_id rg)
        (lg_fingerprint rg) (lg_binding_sha256 rg) (lg_expires_at rg) (lg_max_uses rg) \<in> set (es @ [e])"
    if "map_of (lm_registrations m) lid = Some rg" for lid rg
    using that m1(2) IH by (cases e) (auto split: if_splits)
  ultimately show ?case by blast
qed

lemma consume_lease_ok:
  assumes "consume_lease now io l S = (res, S')" "rlr_ok res"
  shows "j_healthy (ll_journal S)" "\<not> contains (lm_revoked (ll_maps S)) (le_lease_id l)"
    "\<exists>reg. map_of (lm_registrations (ll_maps S)) (le_lease_id l) = Some reg \<and> now < lg_expires_at reg \<and>
       lease_use_count (ll_maps S) (le_lease_id l) < ucast (lg_max_uses reg)"
    "ll_maps S' = (ll_maps S)\<lparr>lm_uses := AList.update (le_lease_id l)
       (lease_use_count (ll_maps S) (le_lease_id l) + 1) (lm_uses (ll_maps S))\<rparr>"
  using assms
  by (auto simp: consume_lease_def Let_def ll_commit_def not_le split: if_splits option.splits prod.splits)

text \<open>The terms a recorded use must meet, read off the log before it.\<close>

definition terms_met :: "lease_event list \<Rightarrow> string \<Rightarrow> u64 \<Rightarrow> u64 \<Rightarrow> bool" where
  "terms_met before lid i t \<longleftrightarrow>
     (\<exists>rid cert signer key fp bd expires limit.
        Le_Register lid rid cert signer key fp bd expires limit \<in> set before \<and> t < expires \<and>
        unat i = lease_uses before lid + 1 \<and> unat i \<le> unat limit) \<and>
     (\<forall>r. Le_Revoke lid r \<notin> set before)"

lemma lease_run_terms:
  "lease_run path es S \<Longrightarrow> es = pre @ Le_Use lid i t # post \<Longrightarrow> terms_met pre lid i t"
proof -
  assume run: "lease_run path es S" and split: "es = pre @ Le_Use lid i t # post"
  have "ledger_run lease_call (\<lambda>op S. clean_io (lo_io op) \<and> lo_sane op) (\<lambda>op S. opt_list (lo_event op (ll_maps S)))
      (lease_construct path None True) es S"
    and path: "path \<noteq> []" using run by (simp_all add: lease_run_def)
  then show ?thesis using split
  proof (induction arbitrary: post rule: ledger_run.induct)
    case lrun_start
    then show ?case by simp
  next
    case (lrun_ok es S op S')
    show ?case
    proof (cases "post = [] \<and> lo_event op (ll_maps S) \<noteq> None")
      case False
      then obtain post' where "es = pre @ Le_Use lid i t # post'"
        using lrun_ok.prems by (cases "lo_event op (ll_maps S)"; cases post rule: rev_cases) auto
      with lrun_ok.IH path show ?thesis by blast
    next
      case True
      with lrun_ok.prems have ev: "lo_event op (ll_maps S) = Some (Le_Use lid i t)" and pre: "pre = es" by auto
      then obtain io l where op: "op = Lo_Consume t io l" and l: "lid = le_lease_id l"
        "i = lease_use_count (ll_maps S) lid + 1"
        by (cases op) (auto simp: register_lease_event_def)
      then obtain res where c: "consume_lease t io l S = (res, S')" "rlr_ok res"
        using lrun_ok.hyps(3) by (cases "consume_lease t io l S") auto
      note C = consume_lease_ok [OF c]
      have "lease_run path es S" using lrun_ok.hyps(1) path by (simp add: lease_run_def)
      then have m: "sem_list sem_lease_event es empty_lease_maps = Some (ll_maps S)"
        using leases.healthy_meaning [OF lease_run_inv] C(1) by blast
      from C(3) obtain reg where reg: "map_of (lm_registrations (ll_maps S)) lid = Some reg"
        "t < lg_expires_at reg" "lease_use_count (ll_maps S) lid < ucast (lg_max_uses reg)" using l by blast
      have "unat i = lease_uses es lid + 1" "unat i \<le> unat (lg_max_uses reg)"
        using next_use_word(1,3) [OF reg(3)] lease_counts [OF m, of lid] l(2) by (simp_all add: word_le_nat_alt)
      moreover have "\<forall>r. Le_Revoke lid r \<notin> set es" using lease_logged [OF m] C(2) l(1) by fastforce
      ultimately show ?thesis
        unfolding pre terms_met_def using lease_logged [OF m] reg(1,2) by blast
    qed
  next
    case (lrun_failed es S op S')
    then show ?case using path by blast
  qed
qed

end
