(* ===== verification/Runtime_Lease_Issue.thy ===== *)
theory Runtime_Lease_Issue
  imports Runtime_Lease_Runs
begin

text \<open>
  What an issued lease is worth, the decision of \<open>preflight\<close> and the properties of single
  ledgers, with a concrete lease cut from the sample session-key bundle.
\<close>

section \<open>Issued leases\<close>

lemma lease_issue_errors_Nil:
  "lease_issue_errors b q s = [] \<longleftrightarrow>
     sks_signer_id s = sr_signer_id (sb_receipt b) \<and> sks_key_id s = sr_key_id (sb_receipt b) \<and>
     sks_algorithm s = sr_algorithm (sb_receipt b) \<and> sks_fingerprint s = sr_fingerprint (sb_receipt b) \<and>
     valid_binding (lq_binding q) \<and> valid_token (lq_capability q) 192 \<and>
     lq_capability q \<in> set (sr_capabilities (sb_receipt b)) \<and>
     \<not> lq_issued_at q < sr_issued_at (sb_receipt b) \<and> \<not> sr_expires_at (sb_receipt b) < lq_expires_at q \<and>
     \<not> lq_expires_at q \<le> lq_issued_at q \<and> lq_max_uses q \<noteq> 0 \<and>
     \<not> sr_max_uses (sb_receipt b) < lq_max_uses q \<and> valid_token (lq_nonce q) 128"
  by (auto simp: lease_issue_errors_def Let_def)

definition sign_lease :: "runtime_capability_lease \<Rightarrow> string \<Rightarrow> runtime_capability_lease" where
  "sign_lease l sg = l\<lparr>le_canonical_sha256 := sha256 (canonical_runtime_capability_lease l), le_signature := sg,
     le_lease_id := runtime_capability_lease_id l sg\<rparr>"

lemma issue_Inr:
  "issue_runtime_lease b q s = Inr l \<longleftrightarrow> lease_issue_errors b q s = [] \<and>
     (\<exists>sg. sks_sign s (canonical_runtime_capability_lease (unsigned_lease b q)) = Some sg \<and> sg \<noteq> [] \<and>
        l = sign_lease (unsigned_lease b q) sg)"
  by (auto simp: issue_runtime_lease_def sign_lease_def Let_def split: option.splits)

lemma canonical_sign_lease [simp]:
  "canonical_runtime_capability_lease (sign_lease l sg) = canonical_runtime_capability_lease l"
  "runtime_capability_lease_id (sign_lease l sg) sg' = runtime_capability_lease_id l sg'"
  by (simp_all add: canonical_runtime_capability_lease_def runtime_capability_lease_id_def sign_lease_def)

lemma issued_fields:
  fixes b q sg
  defines "r \<equiv> sb_receipt b" and "l \<equiv> sign_lease (unsigned_lease b q) sg"
  shows "le_schema_version l = 1" "le_session_key_receipt_id l = sr_receipt_id r"
    "le_certificate_id l = sc_certificate_id (sb_certificate b)" "le_signer_id l = sr_signer_id r"
    "le_key_id l = sr_key_id r" "le_algorithm l = sr_algorithm r" "le_fingerprint l = sr_fingerprint r"
    "le_purpose l = sr_purpose r" "le_subject_id l = sr_subject_id r" "le_scope_path l = sr_scope_path r"
    "le_scope_sha256 l = sr_scope_sha256 r" "le_capability l = lq_capability q" "le_binding l = lq_binding q"
    "le_issued_at l = lq_issued_at q" "le_expires_at l = lq_expires_at q" "le_max_uses l = lq_max_uses q"
    "le_nonce l = lq_nonce q" "le_signature l = sg"
    "le_canonical_sha256 l = sha256 (canonical_runtime_capability_lease (unsigned_lease b q))"
    "le_lease_id l = runtime_capability_lease_id (unsigned_lease b q) sg"
  by (simp_all add: l_def r_def sign_lease_def unsigned_lease_def Let_def)

lemma issued_lease_valid:
  assumes "honest_child s v" "is_sha256 (sr_scope_sha256 (sb_receipt b))"
    "is_sha256 (sr_fingerprint (sb_receipt b))" "issue_runtime_lease b q s = Inr l"
  shows "lease_valid l b v"
proof -
  obtain sg where sg: "lease_issue_errors b q s = []" "l = sign_lease (unsigned_lease b q) sg"
    "sks_sign s (canonical_runtime_capability_lease (unsigned_lease b q)) = Some sg"
    using assms(4) by (auto simp: issue_Inr)
  note ok = sg(1) [unfolded lease_issue_errors_Nil]
  have "skv_verify v (sks_signer_id s) (sks_key_id s) (sks_algorithm s)
      (canonical_runtime_capability_lease (unsigned_lease b q)) sg"
  proof -
    let ?m = "canonical_runtime_capability_lease (unsigned_lease b q)"
    obtain sg' where "usable_signature (sks_sign s ?m) = Some sg'"
      "skv_verify v (sks_signer_id s) (sks_key_id s) (sks_algorithm s) ?m sg'"
      using assms(1) unfolding honest_child_def by blast
    with sg(3) show ?thesis by (simp add: usable_signature_def split: if_splits)
  qed
  moreover have "skv_knows v (sks_signer_id s) (sks_key_id s) (sks_algorithm s)"
    "skv_fingerprint v (sks_signer_id s) (sks_key_id s) (sks_algorithm s) = Some (sks_fingerprint s)"
    using assms(1) by (auto simp: honest_child_def fingerprint_matches_def split: option.splits)
  ultimately show ?thesis
    using ok assms(2,3) unfolding sg(2)
    by (simp add: lease_valid_def lease_branch_matches_def lease_policy_fits_def issued_fields Let_def)
qed

section \<open>The decision of preflight\<close>

definition lease_ready ::
    "u64 \<Rightarrow> runtime_capability_lease \<Rightarrow> session_key_bundle \<Rightarrow> session_key_verifier \<Rightarrow> runtime_binding \<Rightarrow>
     lease_ledger \<Rightarrow> bool" where
  "lease_ready now l b v observed S \<longleftrightarrow>
     j_healthy (ll_journal S) \<and> lease_valid l b v \<and>
     map_of (lm_registrations (ll_maps S)) (le_lease_id l) = Some (lease_registration_of l) \<and>
     observed = le_binding l \<and> \<not> contains (lm_revoked (ll_maps S)) (le_lease_id l) \<and> now < le_expires_at l \<and>
     lease_use_count (ll_maps S) (le_lease_id l) < ucast (le_max_uses l)"

lemma binding_mismatch_None: "binding_mismatch o1 o2 = None \<longleftrightarrow> o1 = o2"
  by (auto simp: binding_mismatch_def same_binding_eq intro: runtime_binding.equality)

lemma binding_mismatch_same [simp]: "binding_mismatch b b = None"
  by (simp add: binding_mismatch_None)

lemma binding_mismatch_status: "binding_mismatch o1 o2 = Some (st, msg) \<Longrightarrow> st \<noteq> RLS_Allowed"
  by (auto simp: binding_mismatch_def split: if_splits)

lemma lease_preflight_ok: "rlr_ok (lease_preflight now l b v observed S) \<longleftrightarrow> lease_ready now l b v observed S"
proof (cases "map_of (lm_registrations (ll_maps S)) (le_lease_id l)")
  case None
  then show ?thesis by (simp add: lease_preflight_def lease_ready_def Let_def)
next
  case (Some rg)
  show ?thesis
  proof (cases "binding_mismatch observed (le_binding l)")
    case None
    with Some show ?thesis
      by (auto simp: lease_preflight_def lease_ready_def Let_def validate_ok binding_mismatch_None not_le
          dest: lease_validD)
  next
    case (Some x)
    moreover have "observed \<noteq> le_binding l" using Some binding_mismatch_None by (metis option.distinct(1))
    ultimately show ?thesis
      using \<open>map_of _ _ = Some rg\<close> binding_mismatch_status
      by (cases x) (auto simp: lease_preflight_def lease_ready_def Let_def)
  qed
qed

section \<open>A concrete lease\<close>

definition sample_binding :: runtime_binding where
  "sample_binding = \<lparr>rb_device_id = kHardwarePrefix @ sha256 ''device'', rb_executable_sha256 = sha256 ''exe'',
     rb_process_instance_sha256 = sha256 ''process'', rb_slot_id = ''slot'',
     rb_session_id = kSessionPrefix @ sha256 ''session'', rb_layer = RL_Runtime\<rparr>"

definition sample_lease_request :: runtime_lease_issue_request where
  "sample_lease_request = \<lparr>lq_binding = sample_binding, lq_capability = ''read'', lq_issued_at = 1000,
     lq_expires_at = 1800, lq_max_uses = 1, lq_nonce = ''l1''\<rparr>"

definition sample_lease :: runtime_capability_lease where
  "sample_lease = (let l = unsigned_lease sample_bundle sample_lease_request in
     sign_lease l (sha256 (canonical_runtime_capability_lease l)))"

abbreviation fresh_leases :: lease_ledger where
  "fresh_leases \<equiv> lease_construct ''leases'' None True"

lemma sample_binding_valid: "valid_binding sample_binding"
  by (simp add: valid_binding_def sample_binding_def valid_token_def token_char_def)

lemma sample_bundle_terms:
  "sr_algorithm (sb_receipt sample_bundle) = ''test''" "sr_capabilities (sb_receipt sample_bundle) = [''read'']"
  "sr_issued_at (sb_receipt sample_bundle) = 1000" "is_sha256 (sr_scope_sha256 (sb_receipt sample_bundle))"
  by (simp_all add: sample_bundle_def Let_def signed_receipt_fields signed_fields(1-21) session_signer_def
      child_receipt_def child_envelope_def parent_envelope_def)

lemma sample_lease_issued: "issue_runtime_lease sample_bundle sample_lease_request session_signer = Inr sample_lease"
proof -
  have "valid_token ''read'' 192" "valid_token ''l1'' 128" by (simp_all add: valid_token_def token_char_def)
  then have "lease_issue_errors sample_bundle sample_lease_request session_signer = []"
    using sample_binding_valid
    by (simp add: lease_issue_errors_Nil sample_bundle_fields sample_bundle_terms)
      (simp add: session_signer_def sample_lease_request_def)
  then show ?thesis by (simp add: issue_Inr sample_lease_def Let_def) (simp add: session_signer_def)
qed

lemma sample_lease_valid: "lease_valid sample_lease sample_bundle session_verifier"
  by (rule issued_lease_valid [OF sample_honest(2) _ _ sample_lease_issued])
    (simp_all add: sample_bundle_terms sample_bundle_fields)

lemma sample_lease_fields:
  "le_expires_at sample_lease = 1800" "le_max_uses sample_lease = 1" "le_binding sample_lease = sample_binding"
  by (simp_all add: sample_lease_def Let_def sign_lease_def unsigned_lease_def sample_lease_request_def)

lemma fresh_leases_simps [simp]:
  "ll_maps fresh_leases = empty_lease_maps" "j_healthy (ll_journal fresh_leases)"
  "j_path (ll_journal fresh_leases) = ''leases''"
  by (simp_all add: lease_construct_def lease_replay_def replay_def)

lemma lease_append_writes:
  "j_healthy j \<Longrightarrow> j_path j \<noteq> [] \<Longrightarrow> \<exists>j'. lease_append Write_Ok body j = (None, j')"
  by (simp add: lease_append_def append_event_def Let_def)

lemma register_lease_new:
  assumes "lease_valid l b v" "j_healthy (ll_journal S)" "\<not> contains (lm_registrations (ll_maps S)) (le_lease_id l)"
    "now < le_expires_at l" "lease_append io (encode_lease_event (register_lease_event l)) (ll_journal S) = (None, j)"
  shows "register_lease now io l b v S = (rl_allowed (le_lease_id l) 0, S\<lparr>ll_journal := j, ll_maps := (ll_maps S)
    \<lparr>lm_registrations := AList.update (le_lease_id l) (lease_registration_of l) (lm_registrations (ll_maps S))\<rparr>\<rparr>)"
  using assms by (simp add: register_lease_def Let_def validate_ok ll_commit_def)

lemma sample_lease_run:
  "\<exists>S. lease_run ''leases'' [register_lease_event sample_lease] S \<and> j_healthy (ll_journal S) \<and>
     j_path (ll_journal S) = ''leases'' \<and> ll_maps S = empty_lease_maps\<lparr>lm_registrations :=
       AList.update (le_lease_id sample_lease) (lease_registration_of sample_lease) []\<rparr>"
proof -
  obtain j where j: "lease_append Write_Ok (encode_lease_event (register_lease_event sample_lease)) (ll_journal fresh_leases) = (None, j)"
    using lease_append_writes by force
  let ?S = "fresh_leases\<lparr>ll_journal := j, ll_maps := empty_lease_maps\<lparr>lm_registrations :=
    AList.update (le_lease_id sample_lease) (lease_registration_of sample_lease) []\<rparr>\<rparr>"
  have "register_lease 1500 Write_Ok sample_lease sample_bundle session_verifier fresh_leases =
      (rl_allowed (le_lease_id sample_lease) 0, ?S)"
    using register_lease_new [OF sample_lease_valid _ _ _ j, of 1500]
    by (simp add: sample_lease_fields empty_lease_maps_def)
  then have "lease_call (Lo_Register 1500 Write_Ok sample_lease sample_bundle session_verifier) fresh_leases = (True, ?S)"
    by simp
  from lease_run_ok [OF lease_run_start _ _ this] j show ?thesis
    by (intro exI [of _ ?S]) (auto simp: clean_io_def lease_append_def dest: append_None_journal)
qed

lemma sample_lease_used:
  "\<exists>S. lease_run ''leases'' ([register_lease_event sample_lease] @ Le_Use (le_lease_id sample_lease) 1 1500 # []) S"
proof -
  obtain S where S: "lease_run ''leases'' [register_lease_event sample_lease] S" "j_healthy (ll_journal S)"
    "j_path (ll_journal S) = ''leases''" "ll_maps S = empty_lease_maps\<lparr>lm_registrations :=
       AList.update (le_lease_id sample_lease) (lease_registration_of sample_lease) []\<rparr>"
    using sample_lease_run by blast
  have zero: "lease_use_count (ll_maps S) (le_lease_id sample_lease) = 0"
    using S(4) by (simp add: lease_use_count_def empty_lease_maps_def)
  obtain j where "lease_append Write_Ok (encode_lease_event (Le_Use (le_lease_id sample_lease) 1 1500)) (ll_journal S) = (None, j)"
    using lease_append_writes S(2,3) by force
  then obtain S' where "lease_call (Lo_Consume 1500 Write_Ok sample_lease) S = (True, S')"
    using S(2,4) zero
    by (simp add: consume_lease_def Let_def ll_commit_def empty_lease_maps_def lease_registration_of_def
        sample_lease_fields)
  from lease_run_ok [OF S(1) _ _ this] zero show ?thesis by (auto simp: clean_io_def)
qed

section \<open>Properties\<close>

text \<open>
  Round trip of the lease ledger.  After any history of registrations, uses, revocations
  and reloads, whatever the leases, bundles and verifiers passed in, reloading the journal
  succeeds and restores what the recorded events mean; on a healthy ledger it is the identity.
\<close>

theorem lease_replay_restores:
  assumes "lease_run path es S"
  shows "fst (lease_replay True S) \<and>
    sem_list sem_lease_event es empty_lease_maps = Some (ll_maps (snd (lease_replay True S))) \<and>
    (j_healthy (ll_journal S) \<longrightarrow> snd (lease_replay True S) = S)"
proof -
  obtain ok S' where r: "lease_replay True S = (ok, S')" by (cases "lease_replay True S")
  then have rep: "replay lease_cfg lease_handler empty_lease_maps True (ll_journal S) = (ll_journal S', ll_maps S')"
    and ok: "ok = j_healthy (ll_journal S')" and same: "S' = S\<lparr>ll_journal := ll_journal S', ll_maps := ll_maps S'\<rparr>"
    by (auto simp: lease_replay_def split: prod.splits)
  note R = leases.reload [OF lease_run_inv [OF assms] rep]
  have "j_healthy (ll_journal S) \<Longrightarrow> S' = S" using R(3) same by simp
  with R(1,2) ok r show ?thesis by simp
qed

theorem lease_replay_restores_witness:
  "\<exists>S. lease_run ''leases'' [register_lease_event sample_lease] S \<and> fst (lease_replay True S)"
  using sample_lease_run lease_replay_restores by blast

text \<open>
  Every recorded use of a lease meets its terms, in any history of any calls, reloads
  included.  When the use was recorded the lease had been registered, the use came before its
  expiry, its number is the count of earlier uses plus one and within the registered limit,
  and the lease had not been revoked: after a recorded revocation there is no further use.
\<close>

theorem lease_uses_meet_terms:
  assumes "lease_run path (pre @ Le_Use lid i t # post) S"
  shows "terms_met pre lid i t"
  using lease_run_terms [OF assms refl] .

theorem lease_uses_meet_terms_witness:
  "terms_met [register_lease_event sample_lease] (le_lease_id sample_lease) 1 1500"
  using sample_lease_used lease_uses_meet_terms by blast

text \<open>
  Issued leases attenuate and register.  A lease issued by the honest holder of a session
  key validates against its bundle, is bound to the requested coordinate and grants one
  capability of the key, no longer and no more often than the key; a healthy ledger that does
  not know it registers it, before it expires, whenever the append succeeds.
\<close>

theorem issued_lease_registers:
  assumes "honest_child s v" and "is_sha256 (sr_scope_sha256 (sb_receipt b))"
    and "is_sha256 (sr_fingerprint (sb_receipt b))" and "issue_runtime_lease b q s = Inr l"
  shows "lease_valid l b v \<and> le_binding l = lq_binding q \<and>
    le_capability l \<in> set (sr_capabilities (sb_receipt b)) \<and> le_expires_at l \<le> sr_expires_at (sb_receipt b) \<and>
    sr_issued_at (sb_receipt b) \<le> le_issued_at l \<and> le_max_uses l \<le> sr_max_uses (sb_receipt b) \<and>
    (j_healthy (ll_journal S) \<and> \<not> lease_registered (ll_maps S) (le_lease_id l) \<and> now < le_expires_at l \<and>
     fst (lease_append io (encode_lease_event (register_lease_event l)) (ll_journal S)) = None \<longrightarrow>
       (\<exists>S'. register_lease now io l b v S = (rl_allowed (le_lease_id l) 0, S') \<and>
          lease_registered (ll_maps S') (le_lease_id l)))"
proof -
  have valid: "lease_valid l b v" by (rule issued_lease_valid [OF assms])
  have bound: "le_binding l = lq_binding q"
    using assms(4) by (auto simp: issue_Inr sign_lease_def unsigned_lease_def Let_def)
  have "sr_issued_at (sb_receipt b) \<le> le_issued_at l"
    using valid by (simp add: lease_valid_def lease_policy_fits_def Let_def not_less)
  moreover have "\<exists>S'. register_lease now io l b v S = (rl_allowed (le_lease_id l) 0, S') \<and>
      lease_registered (ll_maps S') (le_lease_id l)"
    if h: "j_healthy (ll_journal S)" "\<not> lease_registered (ll_maps S) (le_lease_id l)" "now < le_expires_at l"
      "fst (lease_append io (encode_lease_event (register_lease_event l)) (ll_journal S)) = None"
  proof -
    obtain j where "lease_append io (encode_lease_event (register_lease_event l)) (ll_journal S) = (None, j)"
      using h(4) by (cases "lease_append io (encode_lease_event (register_lease_event l)) (ll_journal S)") simp
    from register_lease_new [OF valid h(1) _ h(3) this] h(2) show ?thesis
      by (simp add: lease_registered_def)
  qed
  ultimately show ?thesis using valid bound lease_validD(6-8) [OF valid] by blast
qed

theorem issued_lease_registers_witness:
  "lease_valid sample_lease sample_bundle session_verifier \<and> le_binding sample_lease = sample_binding"
proof -
  have "is_sha256 (sr_fingerprint (sb_receipt sample_bundle))" by (simp add: sample_bundle_fields)
  from issued_lease_registers [OF sample_honest(2) sample_bundle_terms(4) this sample_lease_issued]
  show ?thesis by (simp add: sample_lease_request_def)
qed

end
