(* ===== verification/Runtime_Lease_Gate.thy ===== *)
theory Runtime_Lease_Gate
  imports Runtime_Lease_Issue
begin

text \<open>
  The three ledgers together.  \<open>RuntimeLeaseAuthorityGate\<close> spends a use of the session key
  (which spends a use of its voucher) and then a use of the lease.  The theory shows when it
  allows, that a lease presented at the wrong coordinate spends nothing anywhere, and that
  over any joint history lease uses are paid for by session uses and voucher uses.
\<close>

section \<open>The answer of the gate\<close>

lemma lease_gate_cases:
  assumes "lease_gate_authorize pv kv gv now0 now1 now2 now3 now4 aio sio lio l b observed (L, S, K) = (res, L', S', K')"
  obtains (refused) "\<not> lease_ready now0 l b kv observed K" "\<not> rlr_ok res" "L' = L" "S' = S" "K' = K"
  | (unbacked) session where "lease_ready now0 l b kv observed K" "\<not> skr_ok session" "\<not> rlr_ok res" "K' = K"
      "session_gate_authorize pv kv gv now1 now2 now3 aio sio b (le_purpose l) (le_subject_id l)
         (le_scope_sha256 l) (le_capability l) (L, S) = (session, L', S')"
  | (backed) session consumed where "lease_ready now0 l b kv observed K" "skr_ok session"
      "session_gate_authorize pv kv gv now1 now2 now3 aio sio b (le_purpose l) (le_subject_id l)
         (le_scope_sha256 l) (le_capability l) (L, S) = (session, L', S')"
      "consume_lease now4 lio l K = (consumed, K')" "rlr_status res = rlr_status consumed"
proof -
  obtain session L1 S1 where g: "session_gate_authorize pv kv gv now1 now2 now3 aio sio b (le_purpose l)
      (le_subject_id l) (le_scope_sha256 l) (le_capability l) (L, S) = (session, L1, S1)"
    by (metis prod_cases3)
  obtain consumed K1 where c: "consume_lease now4 lio l K = (consumed, K1)" by fastforce
  note defs = lease_gate_authorize_def Let_def rlr_ok_def
  show thesis
  proof (cases "lease_ready now0 l b kv observed K")
    case False
    then have "\<not> rlr_ok (lease_preflight now0 l b kv observed K)" by (simp add: lease_preflight_ok)
    with assms False show thesis by (intro refused) (auto simp: lease_gate_authorize_def Let_def)
  next
    case True
    then have pre: "rlr_ok (lease_preflight now0 l b kv observed K)" by (simp add: lease_preflight_ok)
    show thesis
    proof (cases "skr_ok session")
      case False
      with assms pre g have "L' = L1" "S' = S1" "K' = K" "\<not> rlr_ok res"
        by (auto simp: lease_gate_authorize_def Let_def rlr_ok_def)
      with True False g show thesis by (intro unbacked) auto
    next
      case ok: True
      with assms pre g c have "L' = L1" "S' = S1" "K' = K1" "rlr_status res = rlr_status consumed"
        by (auto simp: lease_gate_authorize_def Let_def)
      with True ok g c show thesis by (intro backed) auto
    qed
  qed
qed

lemma ready_lease_consume:
  assumes "lease_ready now0 l b kv observed K" "consume_lease now io l K = (res, K')"
    "lease_append io (encode_lease_event (Le_Use (le_lease_id l)
      (lease_use_count (ll_maps K) (le_lease_id l) + 1) now)) (ll_journal K) = (failure, j)"
  shows "rlr_ok res \<longleftrightarrow> now < le_expires_at l \<and> failure = None"
    "\<not> rlr_ok res \<Longrightarrow> ll_maps K' = ll_maps K"
proof -
  let ?m = "ll_maps K" and ?lid = "le_lease_id l"
  have r: "j_healthy (ll_journal K)" "map_of (lm_registrations ?m) ?lid = Some (lease_registration_of l)"
    "\<not> contains (lm_revoked ?m) ?lid" "\<not> ucast (le_max_uses l) \<le> lease_use_count ?m ?lid"
    using assms(1) by (auto simp: lease_ready_def)
  then have e: "consume_lease now io l K =
      (if le_expires_at l \<le> now then (rl_reject ?lid RLS_LeaseExpired [''runtime capability lease has expired''], K)
       else ll_commit io ?lid (Le_Use ?lid (lease_use_count ?m ?lid + 1) now)
         (\<lambda>m. m\<lparr>lm_uses := AList.update ?lid (lease_use_count ?m ?lid + 1) (lm_uses m)\<rparr>)
         (lease_use_count ?m ?lid + 1) K)"
    by (simp add: consume_lease_def Let_def lease_registration_of_def)
  have "rlr_ok res = (now < le_expires_at l \<and> failure = None) \<and> (\<not> rlr_ok res \<longrightarrow> ll_maps K' = ll_maps K)"
    using assms(2,3) unfolding e
    by (cases failure) (auto simp: ll_commit_def not_le split: if_splits)
  then show "rlr_ok res \<longleftrightarrow> now < le_expires_at l \<and> failure = None"
    "\<not> rlr_ok res \<Longrightarrow> ll_maps K' = ll_maps K" by blast+
qed

text \<open>
  C8. The lease gate.  It allows exactly when the lease is ready (registered as presented,
  valid for its bundle, observed at exactly the coordinate it is bound to, neither revoked nor
  expired nor used up), the session gate allows, the lease is still live when the use is
  recorded, and the append succeeds; then one use of the lease is counted.  A lease that is
  not ready, a wrong coordinate included, leaves all three ledgers exactly as they were, and
  no answer but \<open>Allowed\<close> changes a map of the lease ledger.
\<close>

theorem lease_gate_decision:
  assumes "lease_gate_authorize pv kv gv now0 now1 now2 now3 now4 aio sio lio l b observed (L, S, K) = (res, L', S', K')"
    and "session_gate_authorize pv kv gv now1 now2 now3 aio sio b (le_purpose l) (le_subject_id l)
         (le_scope_sha256 l) (le_capability l) (L, S) = (session, L1, S1)"
    and "lease_append lio (encode_lease_event (Le_Use (le_lease_id l)
      (lease_use_count (ll_maps K) (le_lease_id l) + 1) now4)) (ll_journal K) = (failure, j)"
  shows "(rlr_status res = RLS_Allowed \<longleftrightarrow> lease_ready now0 l b kv observed K \<and> skr_status session = SKS_Allowed \<and>
      now4 < le_expires_at l \<and> failure = None) \<and>
    (rlr_status res = RLS_Allowed \<longrightarrow> L' = L1 \<and> S' = S1 \<and>
      lease_use_count (ll_maps K') (le_lease_id l) = lease_use_count (ll_maps K) (le_lease_id l) + 1) \<and>
    (\<not> lease_ready now0 l b kv observed K \<longrightarrow> L' = L \<and> S' = S \<and> K' = K) \<and>
    (rlr_status res \<noteq> RLS_Allowed \<longrightarrow> ll_maps K' = ll_maps K)"
proof (cases rule: lease_gate_cases [OF assms(1)])
  case 1
  then show ?thesis by (simp add: rlr_ok_def)
next
  case (2 session')
  then show ?thesis using assms(2) by (simp add: rlr_ok_def skr_ok_def)
next
  case (3 session' consumed)
  note R = ready_lease_consume [OF 3(1,4) assms(3)]
  have "rlr_ok consumed \<Longrightarrow> lease_use_count (ll_maps K') (le_lease_id l) =
      lease_use_count (ll_maps K) (le_lease_id l) + 1"
    using consume_lease_ok(4) [OF 3(4)] by (simp add: lease_use_count_def)
  with R 3 assms(2) show ?thesis by (auto simp: rlr_ok_def skr_ok_def)
qed

theorem lease_gate_decision_witness:
  "\<exists>L' S' K' res. lease_gate_authorize sample_verifier session_verifier sample_verifier 1500 1500 1500 1500 1500
      Write_Ok Write_Ok Write_Ok sample_lease sample_bundle (sample_binding\<lparr>rb_layer := RL_Simulation\<rparr>)
      (al_construct ''journal'' None True, fresh_sessions, fresh_leases) = (res, L', S', K') \<and>
    rlr_status res \<noteq> RLS_Allowed \<and> K' = fresh_leases \<and> S' = fresh_sessions"
proof -
  let ?L = "al_construct ''journal'' None True" and ?o = "sample_binding\<lparr>rb_layer := RL_Simulation\<rparr>"
  obtain res L' S' K' where g: "lease_gate_authorize sample_verifier session_verifier sample_verifier 1500 1500 1500 1500 1500
      Write_Ok Write_Ok Write_Ok sample_lease sample_bundle ?o (?L, fresh_sessions, fresh_leases) = (res, L', S', K')"
    by (metis prod_cases4)
  obtain session L1 S1 where s: "session_gate_authorize sample_verifier session_verifier sample_verifier 1500 1500 1500
      Write_Ok Write_Ok sample_bundle (le_purpose sample_lease) (le_subject_id sample_lease)
      (le_scope_sha256 sample_lease) (le_capability sample_lease) (?L, fresh_sessions) = (session, L1, S1)"
    by (metis prod_cases3)
  obtain failure j where f: "lease_append Write_Ok (encode_lease_event (Le_Use (le_lease_id sample_lease)
      (lease_use_count (ll_maps fresh_leases) (le_lease_id sample_lease) + 1) 1500)) (ll_journal fresh_leases) = (failure, j)"
    by fastforce
  have "?o \<noteq> sample_binding"
  proof
    assume "?o = sample_binding"
    then have "rb_layer ?o = rb_layer sample_binding" by (rule arg_cong)
    then show False by (simp add: sample_binding_def)
  qed
  then have "\<not> lease_ready 1500 sample_lease sample_bundle session_verifier ?o fresh_leases"
    by (simp add: lease_ready_def sample_lease_fields)
  with lease_gate_decision [OF g s f] g show ?thesis by auto
qed

section \<open>Joint histories\<close>

inductive lease_joint_run ::
    "string \<Rightarrow> string \<Rightarrow> string \<Rightarrow> authority_ledger \<Rightarrow> session_ledger \<Rightarrow> lease_ledger \<Rightarrow> bool"
  for ap sp lp :: string where
  ljrun_start: "ap \<noteq> [] \<Longrightarrow> sp \<noteq> [] \<Longrightarrow> lp \<noteq> [] \<Longrightarrow> lease_joint_run ap sp lp
     (al_construct ap None True) (session_construct sp None True) (lease_construct lp None True)"
| ljrun_keys: "lease_joint_run ap sp lp L S K \<Longrightarrow> key_step (L, S) (L', S') \<Longrightarrow> lease_joint_run ap sp lp L' S' K"
| ljrun_lease: "lease_joint_run ap sp lp L S K \<Longrightarrow> clean_io (lo_io op) \<Longrightarrow> lo_sane op \<Longrightarrow>
     (\<forall>now io l. op \<noteq> Lo_Consume now io l) \<Longrightarrow> lease_call op K = (ok, K') \<Longrightarrow> lease_joint_run ap sp lp L S K'"
| ljrun_gate: "lease_joint_run ap sp lp L S K \<Longrightarrow> clean_io aio \<Longrightarrow> clean_io sio \<Longrightarrow> clean_io lio \<Longrightarrow>
     now3 \<noteq> 0 \<Longrightarrow> now4 \<noteq> 0 \<Longrightarrow>
     lease_gate_authorize pv kv gv now0 now1 now2 now3 now4 aio sio lio l b observed (L, S, K) = (res, L', S', K') \<Longrightarrow>
     lease_joint_run ap sp lp L' S' K'"

fun lease_use_of :: "lease_event \<Rightarrow> string option" where
  "lease_use_of (Le_Use l i t) = Some l"
| "lease_use_of _ = None"

definition lease_parent :: "lease_maps \<Rightarrow> string \<Rightarrow> string option" where
  "lease_parent m lid = map_option lg_session_key_receipt_id (map_of (lm_registrations m) lid)"

text \<open>The uses counted for all leases of a session receipt.\<close>

definition receipt_lease_uses :: "lease_maps \<Rightarrow> string \<Rightarrow> nat" where
  "receipt_lease_uses m rid = (\<Sum>lid\<in>{l. lease_parent m l = Some rid}. unat (lease_use_count m lid))"

interpretation lease_meter: metered sem_lease_event empty_lease_maps lease_parent
  "\<lambda>m l. unat (lease_use_count m l)" lease_use_of
proof unfold_locales
  fix m show "finite (dom (lease_parent m))"
    by (rule finite_subset [OF _ finite_dom_map_of [of "lm_registrations m"]]) (auto simp: lease_parent_def)
next
  fix e m m' b assume step: "sem_lease_event e m = Some m'"
  then show "unat (lease_use_count m' b) = unat (lease_use_count m b) + (if lease_use_of e = Some b then 1 else 0)"
    using sem_lease_uses [OF step, of b] by (cases e) auto
  show "lease_use_of e = Some b \<Longrightarrow> lease_parent m b \<noteq> None"
    using step by (cases e) (auto simp: lease_parent_def split: if_splits)
  show "lease_parent m b = Some v \<Longrightarrow> lease_parent m' b = Some v" for v
    using map_le_Some [OF sem_lease_grows(1) [OF step]] by (auto simp: lease_parent_def)
qed (simp_all add: lease_parent_def lease_use_count_def empty_lease_maps_def)

lemma receipt_lease_uses_total: "receipt_lease_uses = lease_meter.total"
  by (simp add: fun_eq_iff receipt_lease_uses_def lease_meter.total_def)

definition joint_inv ::
    "string \<Rightarrow> string \<Rightarrow> string \<Rightarrow> authority_ledger \<Rightarrow> session_ledger \<Rightarrow> lease_ledger \<Rightarrow> bool" where
  "joint_inv ap sp lp L S K \<longleftrightarrow> (\<exists>as es ks. key_inv ap sp as es L S \<and> lease_run lp ks K \<and>
     lease_meter.backed (session_uses es) ks)"

lemma session_uses_append [simp]: "session_uses (es @ fs) r = session_uses es r + session_uses fs r"
  by (simp add: session_uses_def)

lemma backed_extend: "lease_meter.backed (session_uses es) ks \<Longrightarrow> lease_meter.backed (session_uses (es @ es')) ks"
  by (erule lease_meter.backed_mono) simp

lemma joint_inv_keys:
  assumes "joint_inv ap sp lp L S K" "key_step (L, S) (L', S')"
  shows "joint_inv ap sp lp L' S' K"
proof -
  obtain as es ks where i: "key_inv ap sp as es L S" "lease_run lp ks K" "lease_meter.backed (session_uses es) ks"
    using assms(1) by (auto simp: joint_inv_def)
  obtain as' es' where "key_inv ap sp (as @ as') (es @ es') L' S'"
    using key_inv_step [OF i(1) assms(2)] by (auto simp: key_extends_def)
  with i(2) backed_extend [OF i(3)] show ?thesis unfolding joint_inv_def by blast
qed

lemma joint_inv_lease:
  assumes "joint_inv ap sp lp L S K" "clean_io (lo_io op)" "lo_sane op" "\<forall>now io l. op \<noteq> Lo_Consume now io l"
    "lease_call op K = (ok, K')"
  shows "joint_inv ap sp lp L S K'"
proof -
  obtain as es ks where i: "key_inv ap sp as es L S" "lease_run lp ks K" "lease_meter.backed (session_uses es) ks"
    using assms(1) by (auto simp: joint_inv_def)
  have backed: "lease_meter.backed (session_uses es) (ks @ opt_list (lo_event op (ll_maps K)))"
  proof (cases "lo_event op (ll_maps K)")
    case None
    with i(3) show ?thesis by simp
  next
    case (Some e)
    then have "lease_use_of e = None" using assms(4) by (cases op) (auto simp: register_lease_event_def)
    with Some lease_meter.backed_free [OF i(3)] show ?thesis by simp
  qed
  show ?thesis
  proof (cases ok)
    case True
    with lease_run_ok [OF i(2) assms(2,3)] assms(5) i(1) backed show ?thesis
      unfolding joint_inv_def by auto
  next
    case False
    with lease_run_failed [OF i(2) assms(2,3)] assms(5) i(1,3) show ?thesis
      unfolding joint_inv_def by auto
  qed
qed

lemma joint_inv_gate:
  assumes "joint_inv ap sp lp L S K" "clean_io aio" "clean_io sio" "clean_io lio" "now3 \<noteq> 0" "now4 \<noteq> 0"
    "lease_gate_authorize pv kv gv now0 now1 now2 now3 now4 aio sio lio l b observed (L, S, K) = (res, L', S', K')"
  shows "joint_inv ap sp lp L' S' K'"
proof (cases rule: lease_gate_cases [OF assms(7)])
  case 1
  with assms(1) show ?thesis by simp
next
  case (2 session)
  from joint_inv_keys [OF assms(1) kstep_gate [OF assms(2,3,5) 2(5)]] 2(4) show ?thesis by simp
next
  case (3 session consumed)
  obtain as es ks where i: "key_inv ap sp as es L S" "lease_run lp ks K" "lease_meter.backed (session_uses es) ks"
    using assms(1) by (auto simp: joint_inv_def)
  obtain as' es' where e: "key_inv ap sp (as @ as') (es @ es') L' S'"
    "session_uses es' (sr_receipt_id (sb_receipt b)) = 1"
    using key_inv_gate [OF i(1) assms(2,3,5) 3(3)] 3(2) by (auto simp: key_extends_def)
  let ?op = "Lo_Consume now4 lio l"
  let ?use = "Le_Use (le_lease_id l) (lease_use_count (ll_maps K) (le_lease_id l) + 1) now4"
  have call: "lease_call ?op K = (rlr_ok consumed, K')" using 3(4) by simp
  show ?thesis
  proof (cases "rlr_ok consumed")
    case True
    have m: "sem_list sem_lease_event ks empty_lease_maps = Some (ll_maps K)"
      using leases.healthy_meaning [OF lease_run_inv [OF i(2)]] 3(1) by (simp add: lease_ready_def)
    have "lease_valid l b kv" "map_of (lm_registrations (ll_maps K)) (le_lease_id l) = Some (lease_registration_of l)"
      using 3(1) by (simp_all add: lease_ready_def)
    then have p: "lease_parent (ll_maps K) (le_lease_id l) = Some (sr_receipt_id (sb_receipt b))"
      using lease_validD(9) by (simp add: lease_parent_def lease_registration_of_def)
    have "lease_meter.backed (session_uses (es @ es')) (ks @ [?use])"
      by (rule lease_meter.backed_use [OF i(3) m _ p]) (use e(2) in auto)
    moreover have "lease_run lp (ks @ [?use]) K'"
      using lease_run_ok [OF i(2) _ _, of ?op] call True assms(4,6) by simp
    ultimately show ?thesis using e(1) unfolding joint_inv_def by blast
  next
    case False
    have "lease_run lp ks K'" using lease_run_failed [OF i(2) _ _, of ?op] call False assms(4,6) by simp
    with e(1) backed_extend [OF i(3)] show ?thesis unfolding joint_inv_def by blast
  qed
qed

lemma lease_joint_run_inv: "lease_joint_run ap sp lp L S K \<Longrightarrow> joint_inv ap sp lp L S K"
proof (induction rule: lease_joint_run.induct)
  case ljrun_start
  from key_inv_start [OF ljrun_start(1,2)] lease_run_start [OF ljrun_start(3)] lease_meter.backed_start
  show ?case unfolding joint_inv_def by blast
qed (blast intro: joint_inv_keys joint_inv_lease joint_inv_gate)+

text \<open>
  C29. Lease uses are paid for twice.  In any joint history of the three ledgers, while all are
  healthy, the uses counted for all leases of a session receipt are at most the uses of that
  receipt, and the uses of all leases under all receipts of a voucher are at most the uses of
  the voucher in the authority ledger.
\<close>

theorem lease_uses_are_backed:
  assumes "lease_joint_run ap sp lp L S K"
    and "j_healthy (al_journal L)" and "j_healthy (sl_journal S)" and "j_healthy (ll_journal K)"
  shows "receipt_lease_uses (ll_maps K) r \<le> unat (session_use_count (sl_maps S) r) \<and>
    (\<Sum>q\<in>branches (sl_maps S) v. receipt_lease_uses (ll_maps K) q) \<le> unat (use_count (al_maps L) v)"
proof -
  obtain as es ks where i: "key_inv ap sp as es L S" "lease_run lp ks K" "lease_meter.backed (session_uses es) ks"
    using lease_joint_run_inv [OF assms(1)] by (auto simp: joint_inv_def)
  have "sem_list sem_lease_event ks empty_lease_maps = Some (ll_maps K)"
    by (rule leases.healthy_meaning [OF lease_run_inv [OF i(2)] assms(4)])
  with i(3) have paid: "receipt_lease_uses (ll_maps K) q \<le> unat (session_use_count (sl_maps S) q)" for q
    using key_inv_backed(2) [OF i(1) assms(2,3)] by (simp add: lease_meter.backed_def receipt_lease_uses_total)
  then have "(\<Sum>q\<in>branches (sl_maps S) v. receipt_lease_uses (ll_maps K) q) \<le> voucher_uses (sl_maps S) v"
    unfolding voucher_uses_def by (rule sum_mono)
  with paid key_inv_backed(1) [OF i(1) assms(2,3), of v] show ?thesis by (meson le_trans)
qed

lemma sample_joint_run:
  "\<exists>K. lease_joint_run ''journal'' ''keys'' ''leases'' (al_construct ''journal'' None True) fresh_sessions K \<and>
     j_healthy (ll_journal K) \<and> lease_registered (ll_maps K) (le_lease_id sample_lease)"
proof -
  obtain j where j: "lease_append Write_Ok (encode_lease_event (register_lease_event sample_lease)) (ll_journal fresh_leases) = (None, j)"
    using lease_append_writes by force
  let ?K = "fresh_leases\<lparr>ll_journal := j, ll_maps := empty_lease_maps\<lparr>lm_registrations :=
    AList.update (le_lease_id sample_lease) (lease_registration_of sample_lease) []\<rparr>\<rparr>"
  have "register_lease 1500 Write_Ok sample_lease sample_bundle session_verifier fresh_leases =
      (rl_allowed (le_lease_id sample_lease) 0, ?K)"
    using register_lease_new [OF sample_lease_valid _ _ _ j, of 1500]
    by (simp add: sample_lease_fields empty_lease_maps_def)
  then have call: "lease_call (Lo_Register 1500 Write_Ok sample_lease sample_bundle session_verifier) fresh_leases = (True, ?K)"
    by simp
  have "lease_joint_run ''journal'' ''keys'' ''leases'' (al_construct ''journal'' None True) fresh_sessions fresh_leases"
    by (rule ljrun_start) simp_all
  from ljrun_lease [OF this _ _ _ call] j show ?thesis
    by (intro exI [of _ ?K]) (auto simp: clean_io_def lease_append_def lease_registered_def dest: append_None_journal)
qed

theorem lease_uses_are_backed_witness:
  "\<exists>L S K. lease_joint_run ''journal'' ''keys'' ''leases'' L S K \<and>
     lease_registered (ll_maps K) (le_lease_id sample_lease) \<and>
     receipt_lease_uses (ll_maps K) (sr_receipt_id (sb_receipt sample_bundle)) \<le>
       unat (session_use_count (sl_maps S) (sr_receipt_id (sb_receipt sample_bundle)))"
proof -
  obtain K where K: "lease_joint_run ''journal'' ''keys'' ''leases'' (al_construct ''journal'' None True) fresh_sessions K"
    "j_healthy (ll_journal K)" "lease_registered (ll_maps K) (le_lease_id sample_lease)"
    using sample_joint_run by blast
  have h: "j_healthy (al_journal (al_construct ''journal'' None True))" using live_start by (simp add: live_def)
  have "j_healthy (sl_journal fresh_sessions)" by simp
  from lease_uses_are_backed [OF K(1) h this K(2)] K(1,3) show ?thesis by blast
qed

end
