(* ===== verification/Runtime_Attestation.thy ===== *)
theory Runtime_Attestation
  imports Runtime_Lease_Gate
begin

text \<open>
  Runtime attestation (\<open>include/guff/runtime_attestation.hpp\<close>, \<open>src/runtime_attestation.cpp\<close>): the
  evidence a provider gives of the device, executable, process, slot, session and layer of the
  running process, the Linux provider, the gate that accepts fresh evidence and hands its
  binding to the lease gate, and the issuer that binds a lease to evidence.

  What the Linux provider reads from the machine is a \<open>linux_host\<close>: the contents of the files
  under \<open>/proc\<close> and \<open>/etc\<close>, the host name and the results of \<open>sysconf\<close> and \<open>getpid\<close>.  Another
  provider is a function from requests to results, as the abstract class
  \<open>RuntimeAttestationProvider\<close> is.  The Windows branches are not modelled.
\<close>

section \<open>Data\<close>

datatype attestation_trust = RAT_NativeOsLocal | RAT_NativeOsLocalDegraded

datatype attestation_status =
  RAS_Attested | RAS_InvalidRequest | RAS_UnsupportedPlatform | RAS_DeviceMeasurementFailed
| RAS_ExecutableMeasurementFailed | RAS_ProcessMeasurementFailed | RAS_EvidenceInvalid
| RAS_ProviderMismatch | RAS_ChallengeMismatch | RAS_ContextMismatch | RAS_Stale

record attestation_request =
  aq_slot_id :: string
  aq_session_id :: string
  aq_layer :: reality_layer
  aq_challenge_nonce :: string
  aq_max_age_ms :: u64

record attestation_evidence =
  ev_schema_version :: u32
  ev_provider_id :: string
  ev_trust :: attestation_trust
  ev_binding :: runtime_binding
  ev_process_id :: u64
  ev_process_started :: u64
  ev_observed_at :: u64
  ev_valid_until :: u64
  ev_challenge_nonce :: string
  ev_executable_locator_sha256 :: string
  ev_canonical_sha256 :: string
  ev_attestation_id :: string

record attestation_result =
  ar_status :: attestation_status
  ar_evidence :: "attestation_evidence option"
  ar_errors :: "string list"

definition ar_ok :: "attestation_result \<Rightarrow> bool" where
  "ar_ok r \<longleftrightarrow> ar_status r = RAS_Attested \<and> ar_evidence r \<noteq> None"

record attestation_provider =
  ap_provider_id :: string
  ap_trust :: attestation_trust
  ap_attest :: "attestation_request \<Rightarrow> attestation_result"

record attestation_policy =
  pol_max_age_ms :: u64
  pol_max_future_skew_ms :: u64
  pol_allow_degraded :: bool

datatype attested_lease_status = ALS_AttAllowed | ALS_AttestationRejected | ALS_LeaseRejected

record attested_lease_result =
  atr_status :: attested_lease_status
  atr_attestation_status :: attestation_status
  atr_lease :: runtime_lease_result
  atr_attestation_id :: string
  atr_errors :: "string list"

record attested_issue_request =
  iq_capability :: string
  iq_expires_at :: u64
  iq_max_uses :: u32
  iq_nonce :: string

definition atr_ok :: "attested_lease_result \<Rightarrow> bool" where
  "atr_ok r \<longleftrightarrow> atr_status r = ALS_AttAllowed \<and> rlr_ok (atr_lease r)"

section \<open>Canonical bytes and identity\<close>

definition kAttestationPrefix :: string where "kAttestationPrefix = ''guff:attestation:sha256:''"

definition kProviderMaxAgeMs :: u64 where "kProviderMaxAgeMs = 10000"

fun trust_code :: "attestation_trust \<Rightarrow> u32" where
  "trust_code RAT_NativeOsLocal = 0"
| "trust_code RAT_NativeOsLocalDegraded = 1"

definition canonical_runtime_attestation :: "attestation_evidence \<Rightarrow> string" where
  "canonical_runtime_attestation e =
     show_u (ev_schema_version e) @ [NL] @ ev_provider_id e @ [NL] @ show_u (trust_code (ev_trust e)) @ [NL] @
     canonical_runtime_binding (ev_binding e) @ [NL] @ show_u (ev_process_id e) @ [NL] @
     show_u (ev_process_started e) @ [NL] @ show_u (ev_observed_at e) @ [NL] @ show_u (ev_valid_until e) @ [NL] @
     ev_challenge_nonce e @ [NL] @ ev_executable_locator_sha256 e"

definition runtime_attestation_id :: "attestation_evidence \<Rightarrow> string" where
  "runtime_attestation_id e = kAttestationPrefix @ sha256 (canonical_runtime_attestation e)"

definition validate_runtime_attestation_identity :: "attestation_evidence \<Rightarrow> bool" where
  "validate_runtime_attestation_identity e \<longleftrightarrow>
     (let b = ev_binding e in
      \<not> (ev_schema_version e \<noteq> 1 \<or> ev_provider_id e = [] \<or> \<not> prefixed_sha256 kHardwarePrefix (rb_device_id b) \<or>
         \<not> is_sha256 (rb_executable_sha256 b) \<or> \<not> is_sha256 (rb_process_instance_sha256 b) \<or>
         \<not> prefixed_sha256 kSessionPrefix (rb_session_id b) \<or> \<not> valid_token (rb_slot_id b) 192 \<or>
         ev_process_id e = 0 \<or> ev_process_started e = 0 \<or> ev_observed_at e = 0 \<or>
         ev_valid_until e \<le> ev_observed_at e \<or> \<not> valid_token (ev_challenge_nonce e) 128 \<or>
         \<not> is_sha256 (ev_executable_locator_sha256 e)) \<and>
      ev_canonical_sha256 e = sha256 (canonical_runtime_attestation e) \<and>
      ev_attestation_id e = runtime_attestation_id e)"

section \<open>The Linux provider\<close>

definition is_trimmed :: "char \<Rightarrow> bool" where
  "is_trimmed c \<longleftrightarrow> c = CHR '' '' \<or> c = TAB \<or> c = CHR 0x0D \<or> c = NL"

text \<open>\<open>trim_ascii\<close>: pop trailing, then erase leading blanks.\<close>

definition trim_ascii :: "string \<Rightarrow> string" where
  "trim_ascii v = dropWhile is_trimmed (rev (dropWhile is_trimmed (rev v)))"

text \<open>The first \<open>getline\<close> of a file; a file without a line leaves the string empty.\<close>

definition first_line :: "string \<Rightarrow> string" where
  "first_line content = takeWhile (\<lambda>c. c \<noteq> NL) content"

definition read_first_line :: "string option \<Rightarrow> string option" where
  "read_first_line file =
     (case file of None \<Rightarrow> None
      | Some content \<Rightarrow> (let line = trim_ascii (first_line content) in if line = [] then None else Some line))"

record linux_host =
  lh_exe_link :: "string option"        \<comment> \<open>\<open>/proc/self/exe\<close>, as a generic path\<close>
  lh_exe_digest :: "string option"      \<comment> \<open>\<open>sha256_file("/proc/self/exe")\<close>\<close>
  lh_machine_id :: "string option"      \<comment> \<open>\<open>/etc/machine-id\<close>\<close>
  lh_dbus_machine_id :: "string option" \<comment> \<open>\<open>/var/lib/dbus/machine-id\<close>\<close>
  lh_hostname :: "string option"        \<comment> \<open>\<open>gethostname\<close>\<close>
  lh_hardware_payload :: string         \<comment> \<open>\<open>detect_hardware_profile().canonical_payload()\<close>\<close>
  lh_proc_stat :: "string option"       \<comment> \<open>\<open>/proc/stat\<close>\<close>
  lh_self_stat :: "string option"       \<comment> \<open>\<open>/proc/self/stat\<close>\<close>
  lh_clk_tck :: int                     \<comment> \<open>\<open>sysconf(_SC_CLK_TCK)\<close>, a long\<close>
  lh_pid :: u64

definition native_executable_path :: "linux_host \<Rightarrow> string option" where
  "native_executable_path h = (case lh_exe_link h of None \<Rightarrow> None | Some p \<Rightarrow> if p = [] then None else Some p)"

definition linux_machine_id :: "linux_host \<Rightarrow> string option" where
  "linux_machine_id h =
     (case read_first_line (lh_machine_id h) of
        Some v \<Rightarrow> Some v
      | None \<Rightarrow> read_first_line (lh_dbus_machine_id h))"

definition linux_host_fallback :: "linux_host \<Rightarrow> string option" where
  "linux_host_fallback h =
     (case lh_hostname h of None \<Rightarrow> None
      | Some v \<Rightarrow> (let value = trim_ascii v in if value = [] then None else Some value))"

text \<open>The first line that starts with \<open>btime\<close> decides.\<close>

fun boot_time_in :: "string list \<Rightarrow> u64 option" where
  "boot_time_in [] = None"
| "boot_time_in (line # rest) =
     (if take 6 line \<noteq> ''btime '' then boot_time_in rest else parse_unsigned (drop 6 line))"

definition linux_boot_time_seconds :: "linux_host \<Rightarrow> u64 option" where
  "linux_boot_time_seconds h =
     (case lh_proc_stat h of None \<Rightarrow> None | Some content \<Rightarrow> boot_time_in (getlines content))"

definition is_space :: "char \<Rightarrow> bool" where
  "is_space c \<longleftrightarrow> c = CHR '' '' \<or> (9 \<le> (of_char c :: nat) \<and> (of_char c :: nat) \<le> 13)"

text \<open>\<open>while (fields >> token)\<close>: the maximal runs without white space.\<close>

function stream_tokens :: "string \<Rightarrow> string list" where
  "stream_tokens s =
     (case dropWhile is_space s of
        [] \<Rightarrow> []
      | t \<Rightarrow> takeWhile (\<lambda>c. \<not> is_space c) t # stream_tokens (dropWhile (\<lambda>c. \<not> is_space c) t))"
  by pat_completeness auto
termination
proof (relation "measure length")
  show "wf (measure length)" by simp
next
  fix s :: string and c rest
  assume a: "dropWhile is_space s = c # rest"
  then have "\<not> is_space c" by (simp add: dropWhile_eq_Cons_conv)
  then have "length (dropWhile (\<lambda>c. \<not> is_space c) (c # rest)) \<le> length rest"
    by (simp add: length_dropWhile_le)
  moreover have "length (c # rest) \<le> length s" using length_dropWhile_le [of is_space s] a by simp
  ultimately show "(dropWhile (\<lambda>c. \<not> is_space c) (c # rest), s) \<in> measure length" by simp
qed

declare stream_tokens.simps [simp del]

text \<open>\<open>line.rfind(')')\<close> and the text two bytes further on.\<close>

definition after_comm :: "string \<Rightarrow> string option" where
  "after_comm line =
     (let tail = rev (takeWhile (\<lambda>c. c \<noteq> CHR '')'') (rev line)) in
      if CHR '')'' \<notin> set line \<or> length tail < 2 then None else Some (drop 1 tail))"

definition native_process_start_ms :: "linux_host \<Rightarrow> u64 option" where
  "native_process_start_ms h =
     (case lh_self_stat h of None \<Rightarrow> None
      | Some content \<Rightarrow>
        (case after_comm (first_line content) of None \<Rightarrow> None
         | Some tail \<Rightarrow>
           (let values = stream_tokens tail in
            if length values \<le> 19 then None
            else (case parse_unsigned (values ! 19) of None \<Rightarrow> None
              | Some start_ticks \<Rightarrow>
                if lh_clk_tck h \<le> 0 then None
                else (case linux_boot_time_seconds h of None \<Rightarrow> None
                  | Some boot_seconds \<Rightarrow>
                    Some (boot_seconds * 1000 + (start_ticks * 1000) div of_int (lh_clk_tck h)))))))"

record native_measurements =
  nm_trust :: attestation_trust
  nm_device_id :: string
  nm_executable_path :: string
  nm_executable_sha256 :: string
  nm_process_id :: u64
  nm_process_started :: u64

definition collect_native_measurements :: "linux_host \<Rightarrow> (attestation_status \<times> string) + native_measurements" where
  "collect_native_measurements h =
     (case native_executable_path h of
        None \<Rightarrow> Inl (RAS_ExecutableMeasurementFailed, ''Linux failed to resolve /proc/self/exe'')
      | Some executable \<Rightarrow>
      (case lh_exe_digest h of
        None \<Rightarrow> Inl (RAS_ExecutableMeasurementFailed, ''Linux failed to hash /proc/self/exe'')
      | Some digest \<Rightarrow>
      (case (case linux_machine_id h of
               Some machine \<Rightarrow> Some (RAT_NativeOsLocal, ''machine-id'' @ [NL] @ machine)
             | None \<Rightarrow>
               (case linux_host_fallback h of
                  Some host \<Rightarrow> Some (RAT_NativeOsLocalDegraded,
                    ''host-fallback'' @ [NL] @ host @ [NL] @ lh_hardware_payload h)
                | None \<Rightarrow> None)) of
        None \<Rightarrow> Inl (RAS_DeviceMeasurementFailed, ''Linux failed to derive a local machine identity'')
      | Some (trust, material) \<Rightarrow>
      (case native_process_start_ms h of
        None \<Rightarrow> Inl (RAS_ProcessMeasurementFailed, ''Linux failed to read /proc/self process start identity'')
      | Some started \<Rightarrow>
          Inr \<lparr>nm_trust = trust,
               nm_device_id = kHardwarePrefix @ sha256 (''native-runtime-device-v1'' @ [NL] @ ''linux'' @ [NL] @ material),
               nm_executable_path = executable, nm_executable_sha256 = digest, nm_process_id = lh_pid h,
               nm_process_started = started\<rparr>))))"

definition valid_request :: "attestation_request \<Rightarrow> bool" where
  "valid_request q \<longleftrightarrow>
     valid_token (aq_slot_id q) 192 \<and> prefixed_sha256 kSessionPrefix (aq_session_id q) \<and>
     valid_token (aq_challenge_nonce q) 128 \<and> 0 < aq_max_age_ms q \<and> aq_max_age_ms q \<le> kProviderMaxAgeMs"

definition native_provider_id :: string where
  "native_provider_id = ''guff.native-runtime-attestor.linux.v1''"

definition ar_fail :: "attestation_status \<Rightarrow> string \<Rightarrow> attestation_result" where
  "ar_fail st msg = \<lparr>ar_status = st, ar_evidence = None, ar_errors = [msg]\<rparr>"

text \<open>The evidence before its digest and id are filled in.\<close>

definition native_evidence :: "native_measurements \<Rightarrow> attestation_request \<Rightarrow> u64 \<Rightarrow> attestation_evidence" where
  "native_evidence m q now =
     (let nonce = sha256 (native_provider_id @ [NL] @ nm_device_id m @ [NL] @ show_u (nm_process_id m) @ [NL] @
            show_u (nm_process_started m)) in
      \<lparr>ev_schema_version = 1, ev_provider_id = native_provider_id, ev_trust = nm_trust m,
       ev_binding = \<lparr>rb_device_id = nm_device_id m, rb_executable_sha256 = nm_executable_sha256 m,
         rb_process_instance_sha256 = runtime_process_instance_sha256 (nm_device_id m) (nm_executable_sha256 m)
           (nm_process_id m) (nm_process_started m) nonce,
         rb_slot_id = aq_slot_id q, rb_session_id = aq_session_id q, rb_layer = aq_layer q\<rparr>,
       ev_process_id = nm_process_id m, ev_process_started = nm_process_started m, ev_observed_at = now,
       ev_valid_until = now + aq_max_age_ms q, ev_challenge_nonce = aq_challenge_nonce q,
       ev_executable_locator_sha256 = sha256 (nm_executable_path m), ev_canonical_sha256 = [],
       ev_attestation_id = []\<rparr>)"

definition seal_evidence :: "attestation_evidence \<Rightarrow> attestation_evidence" where
  "seal_evidence e = e\<lparr>ev_canonical_sha256 := sha256 (canonical_runtime_attestation e),
     ev_attestation_id := runtime_attestation_id e\<rparr>"

definition native_attest :: "linux_host \<Rightarrow> u64 \<Rightarrow> attestation_request \<Rightarrow> attestation_result" where
  "native_attest h now q =
     (if \<not> valid_request q
      then ar_fail RAS_InvalidRequest
        ''runtime attestation request is malformed or exceeds the provider freshness ceiling''
      else case collect_native_measurements h of
        Inl (st, msg) \<Rightarrow> ar_fail st msg
      | Inr m \<Rightarrow>
          if - 1 - aq_max_age_ms q < now
          then ar_fail RAS_EvidenceInvalid ''runtime attestation validity window overflows''
          else
            let e = seal_evidence (native_evidence m q now) in
            if \<not> validate_runtime_attestation_identity e
            then ar_fail RAS_EvidenceInvalid ''native provider produced invalid attestation identity''
            else \<lparr>ar_status = RAS_Attested, ar_evidence = Some e, ar_errors = []\<rparr>)"

definition native_provider :: "linux_host \<Rightarrow> u64 \<Rightarrow> attestation_provider" where
  "native_provider h now = \<lparr>ap_provider_id = native_provider_id, ap_trust = RAT_NativeOsLocal,
     ap_attest = native_attest h now\<rparr>"

section \<open>The attested gate\<close>

definition same_context :: "attestation_evidence \<Rightarrow> attestation_request \<Rightarrow> bool" where
  "same_context e q \<longleftrightarrow>
     rb_slot_id (ev_binding e) = aq_slot_id q \<and> rb_session_id (ev_binding e) = aq_session_id q \<and>
     rb_layer (ev_binding e) = aq_layer q"

text \<open>The freshness test, on unsigned 64-bit differences.\<close>

definition outside_window :: "attestation_policy \<Rightarrow> attestation_request \<Rightarrow> attestation_evidence \<Rightarrow> u64 \<Rightarrow> bool" where
  "outside_window p q e now \<longleftrightarrow>
     (let allowed_age = min (pol_max_age_ms p) (aq_max_age_ms q);
          too_far_future = ev_observed_at e > now \<and> ev_observed_at e - now > pol_max_future_skew_ms p;
          too_old = now \<ge> ev_observed_at e \<and> now - ev_observed_at e > allowed_age;
          validity_too_long = ev_valid_until e - ev_observed_at e > aq_max_age_ms q
      in too_far_future \<or> too_old \<or> now > ev_valid_until e \<or> validity_too_long)"

text \<open>The checks on the evidence, in order; None when it is accepted.\<close>

definition evidence_rejected ::
    "attestation_policy \<Rightarrow> string \<Rightarrow> attestation_request \<Rightarrow> u64 \<Rightarrow> attestation_evidence \<Rightarrow>
     (attestation_status \<times> string) option" where
  "evidence_rejected p provider q now e =
     (if ev_provider_id e \<noteq> provider
      then Some (RAS_ProviderMismatch,
        ''runtime attestation provider identity changed across the trust boundary'')
      else if ev_trust e = RAT_NativeOsLocalDegraded \<and> \<not> pol_allow_degraded p
      then Some (RAS_DeviceMeasurementFailed,
        ''degraded OS device identity is not allowed by runtime attestation policy'')
      else if \<not> validate_runtime_attestation_identity e
      then Some (RAS_EvidenceInvalid, ''runtime attestation canonical digest is invalid'')
      else if ev_challenge_nonce e \<noteq> aq_challenge_nonce q
      then Some (RAS_ChallengeMismatch, ''runtime attestation challenge does not match the current request'')
      else if \<not> same_context e q
      then Some (RAS_ContextMismatch,
        ''runtime attestation context does not match slot/session/layer request'')
      else if outside_window p q e now
      then Some (RAS_Stale, ''runtime attestation evidence is outside the accepted freshness window'')
      else None)"

text \<open>
  \<open>AttestedRuntimeLeaseAuthorityGate::authorize\<close> over the lease gate it holds, given here as
  \<open>lease_gate\<close>: the call with the observed binding, on a state of any type.
\<close>

definition attested_authorize ::
    "attestation_provider \<Rightarrow> attestation_policy \<Rightarrow> u64 \<Rightarrow> attestation_request \<Rightarrow>
     (runtime_binding \<Rightarrow> 'st \<Rightarrow> runtime_lease_result \<times> 'st) \<Rightarrow> 'st \<Rightarrow> attested_lease_result \<times> 'st" where
  "attested_authorize prov p now q lease_gate st =
     (let att = ap_attest prov q;
          r = \<lparr>atr_status = ALS_AttestationRejected, atr_attestation_status = ar_status att, atr_lease = rl_result [],
               atr_attestation_id = [], atr_errors = []\<rparr>
      in
      if ar_status att \<noteq> RAS_Attested then (r\<lparr>atr_errors := ar_errors att\<rparr>, st)
      else case ar_evidence att of
        None \<Rightarrow> (r\<lparr>atr_errors := ar_errors att\<rparr>, st)
      | Some e \<Rightarrow>
          let r = r\<lparr>atr_attestation_id := ev_attestation_id e\<rparr> in
          (case evidence_rejected p (ap_provider_id prov) q now e of
             Some (status, msg) \<Rightarrow> (r\<lparr>atr_attestation_status := status, atr_errors := [msg]\<rparr>, st)
           | None \<Rightarrow>
             (case lease_gate (ev_binding e) st of
                (lease, st') \<Rightarrow>
                  if \<not> rlr_ok lease
                  then (r\<lparr>atr_status := ALS_LeaseRejected, atr_lease := lease,
                          atr_errors := rlr_errors lease\<rparr>, st')
                  else (r\<lparr>atr_status := ALS_AttAllowed, atr_lease := lease\<rparr>, st'))))"

definition attested_issue ::
    "session_key_bundle \<Rightarrow> attestation_evidence \<Rightarrow> attested_issue_request \<Rightarrow> session_key_signer \<Rightarrow>
     string list + runtime_capability_lease" where
  "attested_issue b e q s =
     (let es = err (\<not> validate_runtime_attestation_identity e)
                 ''cannot issue a runtime lease from invalid attestation evidence'' @
               err (iq_expires_at q \<le> ev_observed_at e)
                 ''attested runtime lease must expire after the observation time''
      in if es \<noteq> [] then Inl es
         else issue_runtime_lease b
           \<lparr>lq_binding = ev_binding e, lq_capability = iq_capability q,
            lq_issued_at = max (ev_observed_at e) (sr_issued_at (sb_receipt b)),
            lq_expires_at = iq_expires_at q, lq_max_uses = iq_max_uses q, lq_nonce = iq_nonce q\<rparr> s)"

fun trust_to_string :: "attestation_trust \<Rightarrow> string" where
  "trust_to_string RAT_NativeOsLocal = ''NATIVE_OS_LOCAL''"
| "trust_to_string RAT_NativeOsLocalDegraded = ''NATIVE_OS_LOCAL_DEGRADED''"

fun attestation_status_to_string :: "attestation_status \<Rightarrow> string" where
  "attestation_status_to_string RAS_Attested = ''ATTESTED''"
| "attestation_status_to_string RAS_InvalidRequest = ''INVALID_REQUEST''"
| "attestation_status_to_string RAS_UnsupportedPlatform = ''UNSUPPORTED_PLATFORM''"
| "attestation_status_to_string RAS_DeviceMeasurementFailed = ''DEVICE_MEASUREMENT_FAILED''"
| "attestation_status_to_string RAS_ExecutableMeasurementFailed = ''EXECUTABLE_MEASUREMENT_FAILED''"
| "attestation_status_to_string RAS_ProcessMeasurementFailed = ''PROCESS_MEASUREMENT_FAILED''"
| "attestation_status_to_string RAS_EvidenceInvalid = ''EVIDENCE_INVALID''"
| "attestation_status_to_string RAS_ProviderMismatch = ''PROVIDER_MISMATCH''"
| "attestation_status_to_string RAS_ChallengeMismatch = ''CHALLENGE_MISMATCH''"
| "attestation_status_to_string RAS_ContextMismatch = ''CONTEXT_MISMATCH''"
| "attestation_status_to_string RAS_Stale = ''STALE''"

fun attested_status_to_string :: "attested_lease_status \<Rightarrow> string" where
  "attested_status_to_string ALS_AttAllowed = ''ALLOWED''"
| "attested_status_to_string ALS_AttestationRejected = ''ATTESTATION_REJECTED''"
| "attested_status_to_string ALS_LeaseRejected = ''LEASE_REJECTED''"

end
