(* ===== verification/Runtime_Attestation_Safety.thy ===== *)
theory Runtime_Attestation_Safety
  imports Runtime_Attestation
begin

text \<open>
  What attestation guarantees: an attestation id stands for one evidence, evidence of the
  native provider is accepted while it is fresh, and the attested gate allows a lease only at
  the coordinate that was measured for the very request.
\<close>

section \<open>The id binds the evidence\<close>

lemma count_list_append [simp]: "count_list (xs @ ys) c = count_list xs c + count_list ys c"
  by (induction xs) auto

lemma split_before_last_fields:
  assumes "p @ c # r = p' @ c # r'" "count_list r c = count_list r' c"
  shows "p = p' \<and> r = r'"
proof -
  have aux: "us = [] \<and> r = r'" if h: "us @ c # r = c # r'" "count_list r c = count_list r' c" for us r r'
  proof (cases us)
    case Nil
    with h show ?thesis by simp
  next
    case (Cons x xs)
    with h(1) have "r' = xs @ c # r" by simp
    with h(2) show ?thesis by simp
  qed
  from assms(1) obtain us where "p = p' @ us \<and> us @ c # r = c # r' \<or> p @ us = p' \<and> c # r = us @ c # r'"
    by (auto simp: append_eq_append_conv2)
  then show ?thesis
  proof
    assume "p = p' @ us \<and> us @ c # r = c # r'"
    with aux [of us r r'] assms(2) show ?thesis by simp
  next
    assume "p @ us = p' \<and> c # r = us @ c # r'"
    with aux [of us r' r] assms(2) show ?thesis by simp
  qed
qed

definition evidence_lines :: "attestation_evidence \<Rightarrow> string list" where
  "evidence_lines e =
     (let b = ev_binding e in
      [show_u (trust_code (ev_trust e)), rb_device_id b, rb_executable_sha256 b, rb_process_instance_sha256 b,
       rb_slot_id b, rb_session_id b, show_u (layer_code (rb_layer b)), show_u (ev_process_id e),
       show_u (ev_process_started e), show_u (ev_observed_at e), show_u (ev_valid_until e),
       ev_challenge_nonce e, ev_executable_locator_sha256 e])"

lemma canonical_evidence_lines:
  "canonical_runtime_attestation e @ [NL] = show_u (ev_schema_version e) @ NL # ev_provider_id e @ NL #
     concat (map (\<lambda>l. l @ [NL]) (evidence_lines e))"
  by (simp add: canonical_runtime_attestation_def canonical_runtime_binding_def evidence_lines_def Let_def)

lemma prefixed_no_NL: "prefixed_sha256 pre v \<Longrightarrow> NL \<notin> set pre \<Longrightarrow> NL \<notin> set v"
proof -
  assume v: "prefixed_sha256 pre v" and pre: "NL \<notin> set pre"
  then have "NL \<notin> set (drop (length pre) v)" by (simp add: prefixed_sha256_def is_sha256_no_sep)
  moreover have "v = pre @ drop (length pre) v"
    using v by (metis append_take_drop_id prefixed_sha256_def)
  ultimately show ?thesis using pre by (metis Un_iff set_append)
qed

lemma prefixes_no_NL [simp]: "NL \<notin> set kHardwarePrefix" "NL \<notin> set kSessionPrefix"
  by (simp_all add: kHardwarePrefix_def kSessionPrefix_def)

lemma evidence_lines_no_NL:
  "validate_runtime_attestation_identity e \<Longrightarrow> \<forall>l \<in> set (evidence_lines e). NL \<notin> set l"
  by (auto simp: validate_runtime_attestation_identity_def evidence_lines_def Let_def
      dest: prefixed_no_NL is_sha256_no_sep valid_token_no_sep)

lemma count_joined: "\<forall>l \<in> set ls. NL \<notin> set l \<Longrightarrow> count_list (concat (map (\<lambda>l. l @ [NL]) ls)) NL = length ls"
  by (induction ls) (auto simp: count_list_0_iff)

lemma trust_code_inj: "trust_code a = trust_code b \<longleftrightarrow> a = b"
  by (cases a; cases b) simp_all

lemma canonical_evidence_inj:
  assumes "validate_runtime_attestation_identity e" "validate_runtime_attestation_identity e'"
    "canonical_runtime_attestation e = canonical_runtime_attestation e'"
  shows "e = e'"
proof -
  note v = evidence_lines_no_NL [OF assms(1)] evidence_lines_no_NL [OF assms(2)]
  let ?j = "\<lambda>e. concat (map (\<lambda>l. l @ [NL]) (evidence_lines e))"
  have len: "length (evidence_lines e) = length (evidence_lines e')" by (simp add: evidence_lines_def Let_def)
  have schema: "ev_schema_version e = 1" "ev_schema_version e' = 1"
    using assms(1,2) by (simp_all add: validate_runtime_attestation_identity_def Let_def)
  then have eq: "ev_provider_id e @ NL # ?j e = ev_provider_id e' @ NL # ?j e'"
    using assms(3) canonical_evidence_lines [of e] canonical_evidence_lines [of e'] by simp
  have "count_list (?j e) NL = count_list (?j e') NL"
    unfolding count_joined [OF v(1)] count_joined [OF v(2)] by (rule len)
  note same = split_before_last_fields [OF eq this]
  then have provider: "ev_provider_id e = ev_provider_id e'" by (rule conjunct1)
  from same have "?j e = ?j e'" by (rule conjunct2)
  then have lines: "evidence_lines e = evidence_lines e'"
    using getlines_concat [OF v(1)] getlines_concat [OF v(2)] by metis
  then have binding: "ev_binding e = ev_binding e'"
    by (intro runtime_binding.equality) (simp_all add: evidence_lines_def Let_def layer_code_inj)
  have "ev_canonical_sha256 e = ev_canonical_sha256 e'" "ev_attestation_id e = ev_attestation_id e'"
    using assms by (simp_all add: validate_runtime_attestation_identity_def Let_def runtime_attestation_id_def)
  with schema provider binding lines show ?thesis
    by (intro attestation_evidence.equality) (simp_all add: evidence_lines_def Let_def trust_code_inj)
qed

section \<open>The native provider\<close>

lemma canonical_seal [simp]: "canonical_runtime_attestation (seal_evidence e) = canonical_runtime_attestation e"
  by (simp add: seal_evidence_def canonical_runtime_attestation_def)

lemma native_attest_ok:
  assumes "native_attest h now q = r" "ar_ok r"
  obtains m where "collect_native_measurements h = Inr m" "valid_request q" "now \<le> - 1 - aq_max_age_ms q"
    "ar_evidence r = Some (seal_evidence (native_evidence m q now))"
    "validate_runtime_attestation_identity (seal_evidence (native_evidence m q now))"
proof -
  have q: "valid_request q" using assms by (auto simp: native_attest_def ar_fail_def ar_ok_def split: if_splits)
  obtain m where m: "collect_native_measurements h = Inr m"
    using assms q by (cases "collect_native_measurements h") (auto simp: native_attest_def ar_fail_def ar_ok_def)
  have now: "\<not> - 1 - aq_max_age_ms q < now"
    using assms q m by (auto simp: native_attest_def ar_fail_def ar_ok_def)
  have valid: "validate_runtime_attestation_identity (seal_evidence (native_evidence m q now))"
    using assms q m now by (auto simp: native_attest_def ar_fail_def ar_ok_def Let_def split: if_splits)
  then have "ar_evidence r = Some (seal_evidence (native_evidence m q now))"
    using assms q m now by (auto simp: native_attest_def Let_def)
  with that [OF m q _ _ valid] now show thesis by (simp add: not_less)
qed

lemma no_wrap_window:
  assumes "(now :: u64) \<le> - 1 - age"
  shows "now + age - now = age" "unat (now + age) = unat now + unat age"
proof -
  show "now + age - now = age" by simp
  have "unat now \<le> 18446744073709551615 - unat age"
    using assms by (simp add: word_le_nat_alt unat_max_minus)
  then have "unat now + unat age < 2 ^ 64" using unat_u64_less [of age] by simp
  then show "unat (now + age) = unat now + unat age" by (simp add: unat_word_ariths)
qed

lemma seal_sel:
  "ev_observed_at (seal_evidence (native_evidence m q now)) = now"
  "ev_valid_until (seal_evidence (native_evidence m q now)) = now + aq_max_age_ms q"
  "ev_provider_id (seal_evidence (native_evidence m q now)) = native_provider_id"
  "ev_trust (seal_evidence (native_evidence m q now)) = nm_trust m"
  "ev_challenge_nonce (seal_evidence (native_evidence m q now)) = aq_challenge_nonce q"
  "same_context (seal_evidence (native_evidence m q now)) q"
  "rb_device_id (ev_binding (seal_evidence (native_evidence m q now))) = nm_device_id m"
  by (simp_all add: seal_evidence_def native_evidence_def Let_def same_context_def)

section \<open>A concrete machine\<close>

definition sample_host :: linux_host where
  "sample_host = \<lparr>lh_exe_link = Some ''/opt/guff'', lh_exe_digest = Some (sha256 ''exe''),
     lh_machine_id = Some (''8f3c'' @ [NL]), lh_dbus_machine_id = None, lh_hostname = Some ''host'',
     lh_hardware_payload = ''cpu'', lh_proc_stat = Some (''cpu 1'' @ [NL] @ ''btime 1700000000'' @ [NL]),
     lh_self_stat = Some ''9 (g) f) S 1 1 1 0 1 4 1 0 0 0 0 0 0 0 20 0 1 0 77 0'', lh_clk_tck = 100, lh_pid = 9\<rparr>"

definition sample_attestation_request :: attestation_request where
  "sample_attestation_request = \<lparr>aq_slot_id = ''slot'', aq_session_id = kSessionPrefix @ sha256 ''session'',
     aq_layer = RL_Runtime, aq_challenge_nonce = ''c7'', aq_max_age_ms = 5000\<rparr>"

lemma sample_tokens:
  "stream_tokens ''S 1 1 1 0 1 4 1 0 0 0 0 0 0 0 20 0 1 0 77 0'' =
     [''S'', ''1'', ''1'', ''1'', ''0'', ''1'', ''4'', ''1'', ''0'', ''0'', ''0'', ''0'', ''0'', ''0'', ''0'', ''20'',
      ''0'', ''1'', ''0'', ''77'', ''0'']"
  by (simp add: stream_tokens.simps is_space_def)

lemma parse_digits: "list_all is_digit s \<Longrightarrow> s \<noteq> [] \<Longrightarrow> digits_val s < 2 ^ LENGTH('a::len) \<Longrightarrow>
    parse_unsigned s = Some (of_nat (digits_val s) :: 'a word)"
  by (simp add: parse_unsigned_def)

lemma sample_start: "native_process_start_ms sample_host = Some 1700000000770"
proof -
  have tail: "after_comm (first_line ''9 (g) f) S 1 1 1 0 1 4 1 0 0 0 0 0 0 0 20 0 1 0 77 0'') =
      Some ''S 1 1 1 0 1 4 1 0 0 0 0 0 0 0 20 0 1 0 77 0''"
    by (simp add: after_comm_def first_line_def)
  have ticks: "parse_unsigned ''77'' = Some (77 :: u64)"
    by (subst parse_digits) (simp_all add: is_digit_def digits_val_def digit_val_def)
  have lines: "getlines (''cpu 1'' @ NL # ''btime 1700000000'' @ NL # []) = [''cpu 1'', ''btime 1700000000'']"
    by (subst getlines_Cons, simp, subst getlines_Cons) simp_all
  have "parse_unsigned ''1700000000'' = Some (1700000000 :: u64)"
    by (subst parse_digits) (simp_all add: is_digit_def digits_val_def digit_val_def)
  with lines have boot: "linux_boot_time_seconds sample_host = Some 1700000000"
    by (simp add: linux_boot_time_seconds_def sample_host_def)
  then show ?thesis
    using tail ticks sample_tokens by (simp add: native_process_start_ms_def sample_host_def Let_def)
qed

definition sample_measurements :: native_measurements where
  "sample_measurements = \<lparr>nm_trust = RAT_NativeOsLocal,
     nm_device_id = kHardwarePrefix @ sha256 (''native-runtime-device-v1'' @ [NL] @ ''linux'' @ [NL] @
       ''machine-id'' @ [NL] @ ''8f3c''),
     nm_executable_path = ''/opt/guff'', nm_executable_sha256 = sha256 ''exe'', nm_process_id = 9,
     nm_process_started = 1700000000770\<rparr>"

lemma sample_collected: "collect_native_measurements sample_host = Inr sample_measurements"
proof -
  have "linux_machine_id sample_host = Some ''8f3c''"
    by (simp add: linux_machine_id_def sample_host_def read_first_line_def first_line_def trim_ascii_def
        is_trimmed_def Let_def)
  with sample_start show ?thesis
    by (simp add: collect_native_measurements_def native_executable_path_def)
      (simp add: sample_host_def sample_measurements_def)
qed

definition sample_evidence :: attestation_evidence where
  "sample_evidence = seal_evidence (native_evidence sample_measurements sample_attestation_request 1500)"

lemma seal_identity:
  "runtime_attestation_id (seal_evidence e) = runtime_attestation_id e"
  "ev_canonical_sha256 (seal_evidence e) = sha256 (canonical_runtime_attestation e)"
  "ev_attestation_id (seal_evidence e) = runtime_attestation_id e"
  by (simp_all add: runtime_attestation_id_def) (simp_all add: seal_evidence_def runtime_attestation_id_def)

lemma sample_evidence_valid: "validate_runtime_attestation_identity sample_evidence"
  unfolding validate_runtime_attestation_identity_def Let_def sample_evidence_def seal_identity canonical_seal
  by (simp add: seal_evidence_def native_evidence_def sample_measurements_def sample_attestation_request_def
      Let_def native_provider_id_def runtime_process_instance_sha256_def valid_token_def token_char_def)

lemma sample_attests: "native_attest sample_host 1500 sample_attestation_request =
    \<lparr>ar_status = RAS_Attested, ar_evidence = Some sample_evidence, ar_errors = []\<rparr>"
proof -
  have "valid_request sample_attestation_request"
    by (simp add: valid_request_def sample_attestation_request_def kProviderMaxAgeMs_def valid_token_def
        token_char_def)
  moreover have "aq_max_age_ms sample_attestation_request = 5000" by (simp add: sample_attestation_request_def)
  ultimately show ?thesis
    using sample_collected sample_evidence_valid
    by (simp add: native_attest_def sample_evidence_def Let_def)
qed

section \<open>Evidence ids\<close>

text \<open>
  An attestation id stands for one evidence.  Two pieces of evidence that pass the
  identity check under one id are equal in every field, the provider's name included although
  it may hold any bytes; otherwise their canonical texts are a SHA-256 collision.
\<close>

theorem attestation_id_binds_evidence:
  assumes "validate_runtime_attestation_identity e" and "validate_runtime_attestation_identity e'"
    and "ev_attestation_id e = ev_attestation_id e'"
  shows "e = e' \<or>
    (canonical_runtime_attestation e \<noteq> canonical_runtime_attestation e' \<and>
     sha256 (canonical_runtime_attestation e) = sha256 (canonical_runtime_attestation e'))"
proof -
  have "sha256 (canonical_runtime_attestation e) = sha256 (canonical_runtime_attestation e')"
    using assms by (simp add: validate_runtime_attestation_identity_def Let_def runtime_attestation_id_def)
  with canonical_evidence_inj [OF assms(1,2)] show ?thesis by blast
qed

theorem attestation_id_binds_evidence_witness:
  "seal_evidence sample_evidence = sample_evidence \<or>
    (canonical_runtime_attestation (seal_evidence sample_evidence) \<noteq> canonical_runtime_attestation sample_evidence \<and>
     sha256 (canonical_runtime_attestation (seal_evidence sample_evidence)) =
       sha256 (canonical_runtime_attestation sample_evidence))"
proof -
  have "seal_evidence sample_evidence = sample_evidence"
    by (simp add: sample_evidence_def seal_evidence_def native_evidence_def Let_def canonical_runtime_attestation_def
        runtime_attestation_id_def)
  then have "validate_runtime_attestation_identity (seal_evidence sample_evidence)"
    "ev_attestation_id (seal_evidence sample_evidence) = ev_attestation_id sample_evidence"
    using sample_evidence_valid by simp_all
  from attestation_id_binds_evidence [OF this(1) sample_evidence_valid this(2)] show ?thesis .
qed

section \<open>Freshness\<close>

text \<open>
  C37. Native evidence is accepted while it is fresh.  What the native provider attests at
  \<open>now\<close> for a request passes every check of the gate for that request at \<open>later\<close>, as long as no
  more than the age both the policy and the request allow has passed and a degraded device
  identity, if that is what the machine gave, is allowed.  The window \<open>[now, now + max_age]\<close>
  does not wrap around.
\<close>

theorem native_evidence_accepted:
  assumes "native_attest h now q = r" and "ar_ok r"
    and "unat now \<le> unat later" and "unat later \<le> unat now + unat (min (pol_max_age_ms p) (aq_max_age_ms q))"
  shows "\<exists>e. ar_evidence r = Some e \<and> unat (ev_valid_until e) = unat now + unat (aq_max_age_ms q) \<and>
    (ev_trust e = RAT_NativeOsLocal \<or> pol_allow_degraded p \<longrightarrow>
       evidence_rejected p native_provider_id q later e = None)"
proof -
  obtain m where m: "now \<le> - 1 - aq_max_age_ms q"
    "ar_evidence r = Some (seal_evidence (native_evidence m q now))"
    "validate_runtime_attestation_identity (seal_evidence (native_evidence m q now))"
    using native_attest_ok [OF assms(1,2)] by metis
  let ?e = "seal_evidence (native_evidence m q now)"
  note w = no_wrap_window [OF m(1)]
  have le: "now \<le> later" using assms(3) by (simp add: word_le_nat_alt)
  have "unat (later - now) = unat later - unat now" by (rule unat_sub) (rule le)
  then have "\<not> later - now > min (pol_max_age_ms p) (aq_max_age_ms q)"
    using assms(3,4) by (simp add: word_less_nat_alt)
  moreover have "unat (min (pol_max_age_ms p) (aq_max_age_ms q)) \<le> unat (aq_max_age_ms q)"
    by (simp add: min_def word_le_nat_alt)
  then have "\<not> later > now + aq_max_age_ms q"
    using assms(4) w(2) by (simp add: word_less_nat_alt)
  ultimately have "\<not> outside_window p q ?e later"
    using le by (simp add: outside_window_def Let_def seal_sel not_less)
  then have "ev_trust ?e = RAT_NativeOsLocal \<or> pol_allow_degraded p \<Longrightarrow>
      evidence_rejected p native_provider_id q later ?e = None"
    using m(3) by (auto simp: evidence_rejected_def seal_sel)
  with m(2) w(2) show ?thesis by (intro exI [of _ ?e]) (simp add: seal_sel)
qed

theorem native_evidence_accepted_witness:
  "\<exists>e. ar_evidence (native_attest sample_host 1500 sample_attestation_request) = Some e \<and>
     unat (ev_valid_until e) = 6500"
proof -
  have "ar_ok (native_attest sample_host 1500 sample_attestation_request)" by (simp add: sample_attests ar_ok_def)
  from native_evidence_accepted [OF refl this, of 1600 "\<lparr>pol_max_age_ms = 5000, pol_max_future_skew_ms = 1000,
    pol_allow_degraded = False\<rparr>"]
  show ?thesis by (auto simp: sample_attestation_request_def)
qed

section \<open>The attested gate\<close>

text \<open>
  C9. The attested gate.  It allows exactly when the provider attested, the evidence passed
  every check for this very request and time, and the lease gate allowed the lease at the
  binding of that evidence; if the attestation is rejected all three ledgers stay as they
  were, and if it allows, the lease is bound to exactly the attested coordinate.
\<close>

theorem attested_gate_decision:
  assumes "attested_authorize prov p now q
      (\<lambda>observed st. lease_gate_authorize pv kv gv now0 now1 now2 now3 now4 aio sio lio l b observed st) (L, S, K) =
      (res, L', S', K')"
  shows "(atr_status res = ALS_AttAllowed \<longleftrightarrow>
      (\<exists>e. ar_status (ap_attest prov q) = RAS_Attested \<and> ar_evidence (ap_attest prov q) = Some e \<and>
        evidence_rejected p (ap_provider_id prov) q now e = None \<and>
        (\<exists>lres. lease_gate_authorize pv kv gv now0 now1 now2 now3 now4 aio sio lio l b (ev_binding e) (L, S, K) =
           (lres, L', S', K') \<and> rlr_status lres = RLS_Allowed))) \<and>
    (atr_status res = ALS_AttestationRejected \<longrightarrow> L' = L \<and> S' = S \<and> K' = K) \<and>
    (atr_status res = ALS_AttAllowed \<longrightarrow>
      (\<exists>e. ar_evidence (ap_attest prov q) = Some e \<and> le_binding l = ev_binding e \<and> same_context e q \<and>
        ev_challenge_nonce e = aq_challenge_nonce q \<and> \<not> outside_window p q e now))"
proof (cases "ar_status (ap_attest prov q) = RAS_Attested \<and> ar_evidence (ap_attest prov q) \<noteq> None")
  case False
  with assms show ?thesis by (auto simp: attested_authorize_def Let_def split: if_splits)
next
  case True
  then obtain e where e: "ar_status (ap_attest prov q) = RAS_Attested" "ar_evidence (ap_attest prov q) = Some e" by auto
  show ?thesis
  proof (cases "evidence_rejected p (ap_provider_id prov) q now e")
    case (Some x)
    with assms e show ?thesis by (cases x) (auto simp: attested_authorize_def Let_def)
  next
    case None
    obtain lres L1 S1 K1 where g: "lease_gate_authorize pv kv gv now0 now1 now2 now3 now4 aio sio lio l b
        (ev_binding e) (L, S, K) = (lres, L1, S1, K1)" by (metis prod_cases4)
    have checks: "same_context e q" "ev_challenge_nonce e = aq_challenge_nonce q" "\<not> outside_window p q e now"
      using None by (auto simp: evidence_rejected_def split: if_splits)
    have bound: "le_binding l = ev_binding e" if "rlr_ok lres"
      using lease_gate_cases [OF g] that by (metis lease_ready_def)
    from assms e None g have "L' = L1" "S' = S1" "K' = K1"
      "atr_status res = (if rlr_ok lres then ALS_AttAllowed else ALS_LeaseRejected)"
      by (auto simp: attested_authorize_def Let_def split: if_splits)
    with e None g checks bound show ?thesis by (auto simp: rlr_ok_def)
  qed
qed

theorem attested_gate_decision_witness:
  "\<exists>res L' S' K'. attested_authorize (native_provider sample_host 1500)
      \<lparr>pol_max_age_ms = 100, pol_max_future_skew_ms = 1000, pol_allow_degraded = False\<rparr> 1700
      sample_attestation_request
      (\<lambda>observed st. lease_gate_authorize sample_verifier session_verifier sample_verifier 1500 1500 1500 1500 1500
        Write_Ok Write_Ok Write_Ok sample_lease sample_bundle observed st)
      (al_construct ''journal'' None True, fresh_sessions, fresh_leases) = (res, L', S', K') \<and>
    atr_status res \<noteq> ALS_AttAllowed"
proof -
  let ?p = "\<lparr>pol_max_age_ms = 100, pol_max_future_skew_ms = 1000, pol_allow_degraded = False\<rparr>"
  obtain res L' S' K' where g: "attested_authorize (native_provider sample_host 1500) ?p 1700 sample_attestation_request
      (\<lambda>observed st. lease_gate_authorize sample_verifier session_verifier sample_verifier 1500 1500 1500 1500 1500
        Write_Ok Write_Ok Write_Ok sample_lease sample_bundle observed st)
      (al_construct ''journal'' None True, fresh_sessions, fresh_leases) = (res, L', S', K')"
    by (metis prod_cases4)
  have "outside_window ?p sample_attestation_request sample_evidence 1700"
    by (simp add: outside_window_def Let_def sample_evidence_def seal_sel) (simp add: sample_attestation_request_def)
  then have "\<And>e. ar_evidence (ap_attest (native_provider sample_host 1500) sample_attestation_request) = Some e \<Longrightarrow>
      outside_window ?p sample_attestation_request e 1700"
    by (simp add: native_provider_def sample_attests)
  with attested_gate_decision [OF g] have "atr_status res \<noteq> ALS_AttAllowed" by blast
  with g show ?thesis by blast
qed

end
