(* ===== verification/Runtime_Identity_Store.thy ===== *)
theory Runtime_Identity_Store
  imports Runtime_Attestation_Safety
begin

text \<open>
  \<open>RuntimeIdentityStore\<close> (\<open>include/guff/runtime_identity_store.hpp\<close>, \<open>src/runtime_identity_store.cpp\<close>):
  which devices, executables and processes have been attested, which are revoked, and every
  attestation seen, within fixed capacities; and the attestation provider that records what
  another provider attests.

  The journal has the format of the other ledgers and the same \<open>append_event\<close>, but a \<open>replay\<close>
  of its own: the record hash is checked before the line is split, every failure has its own
  text, and a failing observation may leave its first updates in the maps.
\<close>

section \<open>State\<close>

datatype identity_status =
  RIS_Recorded | RIS_AlreadyRecorded | RIS_InvalidEvidence | RIS_DeviceRevoked | RIS_ExecutableRevoked
| RIS_ProcessRevoked | RIS_Collision | RIS_CapacityExceeded | RIS_NotFound | RIS_StorageError | RIS_Corrupt

record identity_budget =
  ib_max_devices :: u64
  ib_max_executables :: u64
  ib_max_processes :: u64
  ib_max_attestations :: u64

record device_identity =
  di_record_id :: string
  di_provider_id :: string
  di_device_id :: string
  di_strongest_trust :: attestation_trust
  di_first_seen :: u64
  di_last_seen :: u64
  di_observations :: u64
  di_revoked_at :: u64
  di_reason :: string

record executable_identity =
  xi_record_id :: string
  xi_executable_sha256 :: string
  xi_first_seen :: u64
  xi_last_seen :: u64
  xi_observations :: u64
  xi_revoked_at :: u64
  xi_reason :: string

record process_identity =
  pi_record_id :: string
  pi_provider_id :: string
  pi_process_instance_sha256 :: string
  pi_device_record_id :: string
  pi_executable_record_id :: string
  pi_device_id :: string
  pi_executable_sha256 :: string
  pi_process_id :: u64
  pi_process_started :: u64
  pi_first_seen :: u64
  pi_last_seen :: u64
  pi_observations :: u64
  pi_revoked_at :: u64
  pi_reason :: string

record identity_observation =
  io_attestation_id :: string
  io_canonical_sha256 :: string
  io_provider_id :: string
  io_trust :: attestation_trust
  io_device_record_id :: string
  io_executable_record_id :: string
  io_process_record_id :: string
  io_slot_id :: string
  io_session_id :: string
  io_layer :: reality_layer
  io_observed_at :: u64
  io_valid_until :: u64
  io_challenge_sha256 :: string
  io_executable_locator_sha256 :: string

record identity_maps =
  im_devices :: "device_identity smap"
  im_executables :: "executable_identity smap"
  im_processes :: "process_identity smap"
  im_attestations :: "identity_observation smap"

record identity_store =
  is_journal :: journal
  is_maps :: identity_maps

record identity_result =
  ir_status :: identity_status
  ir_device_record_id :: string
  ir_executable_record_id :: string
  ir_process_record_id :: string
  ir_attestation_id :: string
  ir_errors :: "string list"

record identity_inspection =
  ii_healthy :: bool
  ii_records :: u64
  ii_devices :: nat
  ii_executables :: nat
  ii_processes :: nat
  ii_attestations :: nat
  ii_revoked_devices :: nat
  ii_revoked_executables :: nat
  ii_revoked_processes :: nat
  ii_errors :: "string list"

definition ir_ok :: "identity_result \<Rightarrow> bool" where
  "ir_ok r \<longleftrightarrow> ir_status r = RIS_Recorded \<or> ir_status r = RIS_AlreadyRecorded"

definition default_identity_budget :: identity_budget where
  "default_identity_budget = \<lparr>ib_max_devices = 256, ib_max_executables = 2048, ib_max_processes = 4096,
     ib_max_attestations = 8192\<rparr>"

definition valid_identity_budget :: "identity_budget \<Rightarrow> bool" where
  "valid_identity_budget B \<longleftrightarrow>
     0 < ib_max_devices B \<and> 0 < ib_max_executables B \<and> 0 < ib_max_processes B \<and> 0 < ib_max_attestations B"

definition empty_identity_maps :: identity_maps where
  "empty_identity_maps = \<lparr>im_devices = [], im_executables = [], im_processes = [], im_attestations = []\<rparr>"

definition identity_cfg :: journal_cfg where
  "identity_cfg = \<lparr>jc_ledger = ''runtime identity store'', jc_directory = ''runtime identity journal'',
     jc_journal = ''runtime identity journal'', jc_line = [], jc_record = [], jc_extra = 0\<rparr>"

section \<open>Record ids\<close>

definition kDeviceRecordPrefix :: string where "kDeviceRecordPrefix = ''guff:identity-device:sha256:''"
definition kExecutableRecordPrefix :: string where "kExecutableRecordPrefix = ''guff:identity-image:sha256:''"
definition kProcessRecordPrefix :: string where "kProcessRecordPrefix = ''guff:identity-process:sha256:''"

definition runtime_device_identity_id :: "string \<Rightarrow> string \<Rightarrow> string" where
  "runtime_device_identity_id provider device = kDeviceRecordPrefix @ sha256 (provider @ [NL] @ device)"

definition runtime_executable_identity_id :: "string \<Rightarrow> string" where
  "runtime_executable_identity_id digest = kExecutableRecordPrefix @ sha256 digest"

definition runtime_process_identity_id :: "string \<Rightarrow> string \<Rightarrow> string" where
  "runtime_process_identity_id provider instance_sha = kProcessRecordPrefix @ sha256 (provider @ [NL] @ instance_sha)"

definition valid_reason :: "string \<Rightarrow> bool" where
  "valid_reason reason \<longleftrightarrow> valid_token reason 128"

fun stronger_trust :: "attestation_trust \<Rightarrow> attestation_trust \<Rightarrow> attestation_trust" where
  "stronger_trust RAT_NativeOsLocal rhs = RAT_NativeOsLocal"
| "stronger_trust lhs RAT_NativeOsLocal = RAT_NativeOsLocal"
| "stronger_trust lhs rhs = RAT_NativeOsLocalDegraded"

section \<open>One observation\<close>

text \<open>What an \<open>O\<close> record holds, and what \<open>record_attestation\<close> takes from the evidence.\<close>

record observed =
  ob_attestation_id :: string
  ob_canonical_sha256 :: string
  ob_provider_id :: string
  ob_trust :: attestation_trust
  ob_device_record_id :: string
  ob_device_id :: string
  ob_executable_record_id :: string
  ob_executable_sha256 :: string
  ob_process_record_id :: string
  ob_process_instance_sha256 :: string
  ob_process_id :: u64
  ob_process_started :: u64
  ob_slot_id :: string
  ob_session_id :: string
  ob_layer :: reality_layer
  ob_observed_at :: u64
  ob_valid_until :: u64
  ob_challenge_sha256 :: string
  ob_executable_locator_sha256 :: string

definition observed_of :: "attestation_evidence \<Rightarrow> observed" where
  "observed_of e =
     (let b = ev_binding e in
      \<lparr>ob_attestation_id = ev_attestation_id e, ob_canonical_sha256 = ev_canonical_sha256 e,
       ob_provider_id = ev_provider_id e, ob_trust = ev_trust e,
       ob_device_record_id = runtime_device_identity_id (ev_provider_id e) (rb_device_id b),
       ob_device_id = rb_device_id b,
       ob_executable_record_id = runtime_executable_identity_id (rb_executable_sha256 b),
       ob_executable_sha256 = rb_executable_sha256 b,
       ob_process_record_id = runtime_process_identity_id (ev_provider_id e) (rb_process_instance_sha256 b),
       ob_process_instance_sha256 = rb_process_instance_sha256 b, ob_process_id = ev_process_id e,
       ob_process_started = ev_process_started e, ob_slot_id = rb_slot_id b, ob_session_id = rb_session_id b,
       ob_layer = rb_layer b, ob_observed_at = ev_observed_at e, ob_valid_until = ev_valid_until e,
       ob_challenge_sha256 = sha256 (ev_challenge_nonce e),
       ob_executable_locator_sha256 = ev_executable_locator_sha256 e\<rparr>)"

text \<open>\<open>try_emplace\<close> and the updates of the record; None is a new entry.\<close>

definition touch_device :: "observed \<Rightarrow> device_identity option \<Rightarrow> device_identity" where
  "touch_device o1 old =
     (case old of
        None \<Rightarrow> \<lparr>di_record_id = ob_device_record_id o1, di_provider_id = ob_provider_id o1,
          di_device_id = ob_device_id o1, di_strongest_trust = ob_trust o1, di_first_seen = ob_observed_at o1,
          di_last_seen = max 0 (ob_observed_at o1), di_observations = 1, di_revoked_at = 0, di_reason = []\<rparr>
      | Some d \<Rightarrow> d\<lparr>di_strongest_trust := stronger_trust (di_strongest_trust d) (ob_trust o1),
          di_first_seen := min (di_first_seen d) (ob_observed_at o1),
          di_last_seen := max (di_last_seen d) (ob_observed_at o1), di_observations := di_observations d + 1\<rparr>)"

definition touch_executable :: "observed \<Rightarrow> executable_identity option \<Rightarrow> executable_identity" where
  "touch_executable o1 old =
     (case old of
        None \<Rightarrow> \<lparr>xi_record_id = ob_executable_record_id o1, xi_executable_sha256 = ob_executable_sha256 o1,
          xi_first_seen = ob_observed_at o1, xi_last_seen = max 0 (ob_observed_at o1), xi_observations = 1,
          xi_revoked_at = 0, xi_reason = []\<rparr>
      | Some d \<Rightarrow> d\<lparr>xi_first_seen := min (xi_first_seen d) (ob_observed_at o1),
          xi_last_seen := max (xi_last_seen d) (ob_observed_at o1), xi_observations := xi_observations d + 1\<rparr>)"

definition touch_process :: "observed \<Rightarrow> process_identity option \<Rightarrow> process_identity" where
  "touch_process o1 old =
     (case old of
        None \<Rightarrow> \<lparr>pi_record_id = ob_process_record_id o1, pi_provider_id = ob_provider_id o1,
          pi_process_instance_sha256 = ob_process_instance_sha256 o1,
          pi_device_record_id = ob_device_record_id o1, pi_executable_record_id = ob_executable_record_id o1,
          pi_device_id = ob_device_id o1, pi_executable_sha256 = ob_executable_sha256 o1,
          pi_process_id = ob_process_id o1, pi_process_started = ob_process_started o1,
          pi_first_seen = ob_observed_at o1, pi_last_seen = max 0 (ob_observed_at o1), pi_observations = 1,
          pi_revoked_at = 0, pi_reason = []\<rparr>
      | Some d \<Rightarrow> d\<lparr>pi_first_seen := min (pi_first_seen d) (ob_observed_at o1),
          pi_last_seen := max (pi_last_seen d) (ob_observed_at o1), pi_observations := pi_observations d + 1\<rparr>)"

definition observation_of :: "observed \<Rightarrow> identity_observation" where
  "observation_of o1 =
     \<lparr>io_attestation_id = ob_attestation_id o1, io_canonical_sha256 = ob_canonical_sha256 o1,
      io_provider_id = ob_provider_id o1, io_trust = ob_trust o1,
      io_device_record_id = ob_device_record_id o1, io_executable_record_id = ob_executable_record_id o1,
      io_process_record_id = ob_process_record_id o1, io_slot_id = ob_slot_id o1,
      io_session_id = ob_session_id o1, io_layer = ob_layer o1, io_observed_at = ob_observed_at o1,
      io_valid_until = ob_valid_until o1, io_challenge_sha256 = ob_challenge_sha256 o1,
      io_executable_locator_sha256 = ob_executable_locator_sha256 o1\<rparr>"

definition upsert :: "string \<Rightarrow> ('v option \<Rightarrow> 'v) \<Rightarrow> 'v smap \<Rightarrow> 'v smap" where
  "upsert k f m = AList.update k (f (map_of m k)) m"

definition put_device :: "observed \<Rightarrow> identity_maps \<Rightarrow> identity_maps" where
  "put_device o1 m = m\<lparr>im_devices := upsert (ob_device_record_id o1) (touch_device o1) (im_devices m)\<rparr>"

definition put_executable :: "observed \<Rightarrow> identity_maps \<Rightarrow> identity_maps" where
  "put_executable o1 m =
     m\<lparr>im_executables := upsert (ob_executable_record_id o1) (touch_executable o1) (im_executables m)\<rparr>"

definition put_process :: "observed \<Rightarrow> identity_maps \<Rightarrow> identity_maps" where
  "put_process o1 m = m\<lparr>im_processes := upsert (ob_process_record_id o1) (touch_process o1) (im_processes m)\<rparr>"

text \<open>\<open>attestations_.emplace\<close>: the key is not present.\<close>

definition put_attestation :: "observed \<Rightarrow> identity_maps \<Rightarrow> identity_maps" where
  "put_attestation o1 m =
     m\<lparr>im_attestations := AList.update (ob_attestation_id o1) (observation_of o1) (im_attestations m)\<rparr>"

definition observe_maps :: "observed \<Rightarrow> identity_maps \<Rightarrow> identity_maps" where
  "observe_maps o1 m = put_attestation o1 (put_process o1 (put_executable o1 (put_device o1 m)))"

text \<open>\<open>size() >= max\<close> for a map that would get a new entry.\<close>

definition full :: "'v smap \<Rightarrow> u64 \<Rightarrow> bool" where
  "full m limit \<longleftrightarrow> unat limit \<le> length m"

definition over_capacity :: "identity_budget \<Rightarrow> observed \<Rightarrow> identity_maps \<Rightarrow> bool" where
  "over_capacity B o1 m \<longleftrightarrow>
     (\<not> contains (im_devices m) (ob_device_record_id o1) \<and> full (im_devices m) (ib_max_devices B)) \<or>
     (\<not> contains (im_executables m) (ob_executable_record_id o1) \<and> full (im_executables m) (ib_max_executables B)) \<or>
     (\<not> contains (im_processes m) (ob_process_record_id o1) \<and> full (im_processes m) (ib_max_processes B)) \<or>
     full (im_attestations m) (ib_max_attestations B)"

definition device_clash :: "observed \<Rightarrow> device_identity option \<Rightarrow> bool" where
  "device_clash o1 old =
     (case old of None \<Rightarrow> False | Some d \<Rightarrow> di_provider_id d \<noteq> ob_provider_id o1 \<or> di_device_id d \<noteq> ob_device_id o1)"

definition executable_clash :: "observed \<Rightarrow> executable_identity option \<Rightarrow> bool" where
  "executable_clash o1 old =
     (case old of None \<Rightarrow> False | Some d \<Rightarrow> xi_executable_sha256 d \<noteq> ob_executable_sha256 o1)"

definition same_process_record :: "process_identity \<Rightarrow> observed \<Rightarrow> bool" where
  "same_process_record d o1 \<longleftrightarrow>
     pi_provider_id d = ob_provider_id o1 \<and> pi_process_instance_sha256 d = ob_process_instance_sha256 o1 \<and>
     pi_device_record_id d = ob_device_record_id o1 \<and> pi_executable_record_id d = ob_executable_record_id o1 \<and>
     pi_device_id d = ob_device_id o1 \<and> pi_executable_sha256 d = ob_executable_sha256 o1 \<and>
     pi_process_id d = ob_process_id o1 \<and> pi_process_started d = ob_process_started o1"

definition process_clash :: "observed \<Rightarrow> process_identity option \<Rightarrow> bool" where
  "process_clash o1 old = (case old of None \<Rightarrow> False | Some d \<Rightarrow> \<not> same_process_record d o1)"

section \<open>Events\<close>

datatype identity_kind = IK_Device | IK_Executable | IK_Process

fun kind_char :: "identity_kind \<Rightarrow> string" where
  "kind_char IK_Device = ''D''"
| "kind_char IK_Executable = ''E''"
| "kind_char IK_Process = ''P''"

datatype identity_event =
  Ie_Observe observed
| Ie_Revoke identity_kind string u64 string

fun encode_identity_event :: "identity_event \<Rightarrow> string" where
  "encode_identity_event (Ie_Observe o1) =
     ''O'' @ tab_join [hex_encode (ob_attestation_id o1), ob_canonical_sha256 o1, hex_encode (ob_provider_id o1),
       show_u (trust_code (ob_trust o1)), hex_encode (ob_device_record_id o1), hex_encode (ob_device_id o1),
       hex_encode (ob_executable_record_id o1), ob_executable_sha256 o1, hex_encode (ob_process_record_id o1),
       ob_process_instance_sha256 o1, show_u (ob_process_id o1), show_u (ob_process_started o1),
       hex_encode (ob_slot_id o1), hex_encode (ob_session_id o1), show_u (layer_code (ob_layer o1)),
       show_u (ob_observed_at o1), show_u (ob_valid_until o1), ob_challenge_sha256 o1,
       ob_executable_locator_sha256 o1]"
| "encode_identity_event (Ie_Revoke kind rid t reason) =
     kind_char kind @ tab_join [hex_encode rid, show_u t, hex_encode reason]"

definition trust_of_code :: "u32 \<Rightarrow> attestation_trust" where
  "trust_of_code n = (if n = 0 then RAT_NativeOsLocal else RAT_NativeOsLocalDegraded)"

definition layer_of_code :: "u32 \<Rightarrow> reality_layer" where
  "layer_of_code n = [RL_Physical, RL_OperatingSystem, RL_Runtime, RL_Project, RL_Application, RL_Simulation,
     RL_Semantic, RL_Memory, RL_Meta, RL_Representation] ! unat n"

definition well_formed_observed :: "observed \<Rightarrow> bool" where
  "well_formed_observed o1 \<longleftrightarrow>
     prefixed_sha256 kAttestationPrefix (ob_attestation_id o1) \<and> is_sha256 (ob_canonical_sha256 o1) \<and>
     is_sha256 (ob_executable_sha256 o1) \<and> is_sha256 (ob_process_instance_sha256 o1) \<and>
     is_sha256 (ob_challenge_sha256 o1) \<and> is_sha256 (ob_executable_locator_sha256 o1) \<and>
     ob_observed_at o1 \<noteq> 0 \<and> \<not> ob_valid_until o1 \<le> ob_observed_at o1 \<and> ob_process_id o1 \<noteq> 0 \<and>
     ob_process_started o1 \<noteq> 0"

text \<open>The decoded fields of an \<open>O\<close> record; None is \<open>\<dots> observation record is malformed\<close>.\<close>

definition decode_observed :: "string list \<Rightarrow> observed option" where
  "decode_observed fs = do {
     att \<leftarrow> hex_decode (fs ! 3); provider \<leftarrow> hex_decode (fs ! 5); drec \<leftarrow> hex_decode (fs ! 7);
     dev \<leftarrow> hex_decode (fs ! 8); xrec \<leftarrow> hex_decode (fs ! 9); prec \<leftarrow> hex_decode (fs ! 11);
     slot \<leftarrow> hex_decode (fs ! 15); session \<leftarrow> hex_decode (fs ! 16);
     trust \<leftarrow> parse_unsigned (fs ! 6); pid \<leftarrow> parse_unsigned (fs ! 13);
     started \<leftarrow> parse_unsigned (fs ! 14); layer \<leftarrow> parse_unsigned (fs ! 17);
     seen \<leftarrow> parse_unsigned (fs ! 18); valid \<leftarrow> parse_unsigned (fs ! 19);
     let o1 = \<lparr>ob_attestation_id = att, ob_canonical_sha256 = fs ! 4, ob_provider_id = provider,
       ob_trust = trust_of_code trust, ob_device_record_id = drec, ob_device_id = dev,
       ob_executable_record_id = xrec, ob_executable_sha256 = fs ! 10, ob_process_record_id = prec,
       ob_process_instance_sha256 = fs ! 12, ob_process_id = pid, ob_process_started = started,
       ob_slot_id = slot, ob_session_id = session, ob_layer = layer_of_code layer, ob_observed_at = seen,
       ob_valid_until = valid, ob_challenge_sha256 = fs ! 20, ob_executable_locator_sha256 = fs ! 21\<rparr>;
     if (1 :: u32) < trust \<or> (9 :: u32) < layer \<or> \<not> well_formed_observed o1 then None else Some o1 }"

definition record_ids_match :: "observed \<Rightarrow> bool" where
  "record_ids_match o1 \<longleftrightarrow>
     ob_device_record_id o1 = runtime_device_identity_id (ob_provider_id o1) (ob_device_id o1) \<and>
     ob_executable_record_id o1 = runtime_executable_identity_id (ob_executable_sha256 o1) \<and>
     ob_process_record_id o1 = runtime_process_identity_id (ob_provider_id o1) (ob_process_instance_sha256 o1)"

text \<open>
  The rest of the \<open>O\<close> branch of \<open>replay\<close>: the error (None: applied) and the maps as they then
  are, first updates of a failing record included.
\<close>

definition replay_observed :: "identity_budget \<Rightarrow> observed \<Rightarrow> identity_maps \<Rightarrow> string option \<times> identity_maps" where
  "replay_observed B o1 m =
     (let m1 = put_device o1 m; m2 = put_executable o1 m1 in
      if \<not> record_ids_match o1
      then (Some ''runtime identity record IDs do not match observation content'', m)
      else if contains (im_attestations m) (ob_attestation_id o1)
      then (Some ''duplicate attestation ID found during identity replay'', m)
      else if over_capacity B o1 m
      then (Some ''runtime identity journal exceeds configured bounded capacity'', m)
      else if device_clash o1 (map_of (im_devices m) (ob_device_record_id o1))
      then (Some ''runtime device record collision during replay'', m)
      else if executable_clash o1 (map_of (im_executables m) (ob_executable_record_id o1))
      then (Some ''runtime executable record collision during replay'', m1)
      else if process_clash o1 (map_of (im_processes m) (ob_process_record_id o1))
      then (Some ''runtime process record collision during replay'', m2)
      else (None, observe_maps o1 m))"

text \<open>The found, not yet revoked record is marked; None when there is no such record.\<close>

definition mark_revoked :: "identity_kind \<Rightarrow> string \<Rightarrow> u64 \<Rightarrow> string \<Rightarrow> identity_maps \<Rightarrow> identity_maps option" where
  "mark_revoked kind rid t reason m =
     (case kind of
        IK_Device \<Rightarrow> (case map_of (im_devices m) rid of
            None \<Rightarrow> None
          | Some d \<Rightarrow> if di_revoked_at d \<noteq> 0 then None
              else Some (m\<lparr>im_devices := AList.update rid (d\<lparr>di_revoked_at := t, di_reason := reason\<rparr>) (im_devices m)\<rparr>))
      | IK_Executable \<Rightarrow> (case map_of (im_executables m) rid of
            None \<Rightarrow> None
          | Some d \<Rightarrow> if xi_revoked_at d \<noteq> 0 then None
              else Some (m\<lparr>im_executables := AList.update rid (d\<lparr>xi_revoked_at := t, xi_reason := reason\<rparr>) (im_executables m)\<rparr>))
      | IK_Process \<Rightarrow> (case map_of (im_processes m) rid of
            None \<Rightarrow> None
          | Some d \<Rightarrow> if pi_revoked_at d \<noteq> 0 then None
              else Some (m\<lparr>im_processes := AList.update rid (d\<lparr>pi_revoked_at := t, pi_reason := reason\<rparr>) (im_processes m)\<rparr>)))"

text \<open>One line's event: \<open>fs\<close> are the fields before the record hash.\<close>

definition apply_identity_fields ::
    "identity_budget \<Rightarrow> string list \<Rightarrow> identity_maps \<Rightarrow> string option \<times> identity_maps" where
  "apply_identity_fields B fs m =
     (if fs ! 2 = ''O'' then
        (if length fs \<noteq> 22 then (Some ''runtime identity observation record has invalid field count'', m)
         else case decode_observed fs of
           None \<Rightarrow> (Some ''runtime identity observation record is malformed'', m)
         | Some o1 \<Rightarrow> replay_observed B o1 m)
      else if fs ! 2 = ''D'' \<or> fs ! 2 = ''E'' \<or> fs ! 2 = ''P'' then
        (if length fs \<noteq> 6 then (Some ''runtime identity revocation record has invalid field count'', m)
         else case (hex_decode (fs ! 3), hex_decode (fs ! 5), parse_unsigned (fs ! 4)) of
           (Some rid, Some reason, Some t) \<Rightarrow>
             if t = 0 \<or> \<not> valid_reason reason
             then (Some ''runtime identity revocation record is malformed'', m)
             else (case mark_revoked (if fs ! 2 = ''D'' then IK_Device else if fs ! 2 = ''E'' then IK_Executable
                       else IK_Process) rid t reason m of
                 None \<Rightarrow> (Some ''runtime identity revocation references missing/already-revoked record'', m)
               | Some m' \<Rightarrow> (None, m'))
         | _ \<Rightarrow> (Some ''runtime identity revocation record is malformed'', m))
      else (Some ''runtime identity journal contains unknown event type'', m))"

section \<open>Replay\<close>

definition check_identity_line ::
    "nat \<Rightarrow> u64 \<Rightarrow> string \<Rightarrow> string \<Rightarrow> string + u64 \<times> string \<times> string list" where
  "check_identity_line line_number sequence last_sha line =
     (case before_last_tab line of
        None \<Rightarrow> Inl (''runtime identity journal record missing hash at line '' @ nat_digits line_number)
      | Some canonical \<Rightarrow>
          let record_sha = drop (length canonical + 1) line; fs = split_tabs canonical in
          if \<not> is_sha256 record_sha \<or> sha256 canonical \<noteq> record_sha
          then Inl (''runtime identity journal hash mismatch at line '' @ nat_digits line_number)
          else if length fs < 3 then Inl ''runtime identity journal record is truncated''
          else if parse_unsigned (fs ! 0) \<noteq> Some (sequence + 1)
          then Inl ''runtime identity journal sequence mismatch''
          else if fs ! 1 \<noteq> previous_hash last_sha
          then Inl ''runtime identity journal previous-hash mismatch''
          else Inr (sequence + 1, record_sha, fs))"

fun replay_identity_lines ::
    "identity_budget \<Rightarrow> nat \<Rightarrow> string list \<Rightarrow> u64 \<times> string \<times> identity_maps \<Rightarrow>
     string option \<times> u64 \<times> string \<times> identity_maps" where
  "replay_identity_lines B n [] acc = (None, acc)"
| "replay_identity_lines B n (line # rest) (sequence, last_sha, m) =
     (if line = [] then replay_identity_lines B (Suc n) rest (sequence, last_sha, m)
      else case check_identity_line (Suc n) sequence last_sha line of
        Inl e \<Rightarrow> (Some e, sequence, last_sha, m)
      | Inr (seq, record_sha, fs) \<Rightarrow>
          (case apply_identity_fields B fs m of
             (Some e, m') \<Rightarrow> (Some e, sequence, last_sha, m')
           | (None, m') \<Rightarrow> replay_identity_lines B (Suc n) rest (seq, record_sha, m')))"

text \<open>
  \<open>replay\<close>.  \<open>inspected\<close> says whether \<open>exists(journal_path_, ec)\<close> could look at the path: on an
  error it returns false, so the test of \<open>ec\<close> that follows it is never reached.
\<close>

definition replay_identity ::
    "identity_budget \<Rightarrow> bool \<Rightarrow> bool \<Rightarrow> journal \<Rightarrow> journal \<times> identity_maps" where
  "replay_identity B inspected open_ok j =
     (let j0 = j\<lparr>j_sequence := 0, j_last := [], j_healthy := True, j_errors := []\<rparr> in
      if \<not> valid_identity_budget B
      then (j0\<lparr>j_healthy := False, j_errors := [''runtime identity store budget must be non-zero'']\<rparr>,
            empty_identity_maps)
      else if \<not> inspected \<or> j_path j = [] then (j0, empty_identity_maps)
      else case j_file j of
        None \<Rightarrow> (j0, empty_identity_maps)
      | Some content \<Rightarrow>
          if \<not> open_ok
          then (j0\<lparr>j_healthy := False, j_errors := [''unable to open runtime identity journal'']\<rparr>,
                empty_identity_maps)
          else (case replay_identity_lines B 0 (getlines content) (0, [], empty_identity_maps) of
                  (e, sequence, last_sha, m) \<Rightarrow>
                    (j0\<lparr>j_sequence := sequence, j_last := last_sha, j_healthy := (e = None),
                        j_errors := (case e of None \<Rightarrow> [] | Some msg \<Rightarrow> [msg])\<rparr>, m)))"

definition store_replay :: "identity_budget \<Rightarrow> bool \<Rightarrow> bool \<Rightarrow> identity_store \<Rightarrow> bool \<times> identity_store" where
  "store_replay B inspected open_ok S =
     (case replay_identity B inspected open_ok (is_journal S) of
        (j, m) \<Rightarrow> (j_healthy j, S\<lparr>is_journal := j, is_maps := m\<rparr>))"

text \<open>The constructor; with an invalid budget it returns before \<open>replay\<close>, to the same effect.\<close>

definition store_construct :: "identity_budget \<Rightarrow> string \<Rightarrow> string option \<Rightarrow> bool \<Rightarrow> bool \<Rightarrow> identity_store" where
  "store_construct B path file inspected open_ok =
     (let j = \<lparr>j_path = path, j_sequence = 0, j_last = [], j_healthy = True, j_errors = [], j_file = file\<rparr> in
      if \<not> valid_identity_budget B
      then \<lparr>is_journal = j\<lparr>j_healthy := False, j_errors := [''runtime identity store budget must be non-zero'']\<rparr>,
            is_maps = empty_identity_maps\<rparr>
      else snd (store_replay B inspected open_ok \<lparr>is_journal = j, is_maps = empty_identity_maps\<rparr>))"

section \<open>Operations\<close>

definition identity_append :: "io \<Rightarrow> string \<Rightarrow> journal \<Rightarrow> string option \<times> journal" where
  "identity_append io body j = append_event identity_cfg io body j"

definition ir_empty :: identity_result where
  "ir_empty = \<lparr>ir_status = RIS_InvalidEvidence, ir_device_record_id = [], ir_executable_record_id = [],
     ir_process_record_id = [], ir_attestation_id = [], ir_errors = []\<rparr>"

definition ir_of :: "observed \<Rightarrow> identity_status \<Rightarrow> string list \<Rightarrow> identity_result" where
  "ir_of o1 st es = \<lparr>ir_status = st, ir_device_record_id = ob_device_record_id o1,
     ir_executable_record_id = ob_executable_record_id o1, ir_process_record_id = ob_process_record_id o1,
     ir_attestation_id = ob_attestation_id o1, ir_errors = es\<rparr>"

text \<open>What a known attestation is compared with.\<close>

definition same_observation :: "identity_observation \<Rightarrow> observed \<Rightarrow> bool" where
  "same_observation found o1 \<longleftrightarrow>
     io_canonical_sha256 found = ob_canonical_sha256 o1 \<and> io_device_record_id found = ob_device_record_id o1 \<and>
     io_executable_record_id found = ob_executable_record_id o1 \<and>
     io_process_record_id found = ob_process_record_id o1"

text \<open>The refusals of \<open>record_attestation\<close> on a new attestation, in order.\<close>

definition observation_refused ::
    "identity_budget \<Rightarrow> observed \<Rightarrow> identity_maps \<Rightarrow> (identity_status \<times> string) option" where
  "observation_refused B o1 m =
     (if (case map_of (im_devices m) (ob_device_record_id o1) of None \<Rightarrow> False | Some d \<Rightarrow> di_revoked_at d \<noteq> 0)
      then Some (RIS_DeviceRevoked, ''attested device identity has been revoked'')
      else if (case map_of (im_executables m) (ob_executable_record_id o1) of
                 None \<Rightarrow> False | Some d \<Rightarrow> xi_revoked_at d \<noteq> 0)
      then Some (RIS_ExecutableRevoked, ''attested executable identity has been revoked'')
      else if process_clash o1 (map_of (im_processes m) (ob_process_record_id o1))
      then Some (RIS_Collision, ''process identity collides with different immutable measurements'')
      else if (case map_of (im_processes m) (ob_process_record_id o1) of
                 None \<Rightarrow> False | Some d \<Rightarrow> pi_revoked_at d \<noteq> 0)
      then Some (RIS_ProcessRevoked, ''attested process identity has been revoked'')
      else if over_capacity B o1 m
      then Some (RIS_CapacityExceeded, ''runtime identity store bounded capacity would be exceeded'')
      else None)"

definition record_attestation ::
    "identity_budget \<Rightarrow> io \<Rightarrow> attestation_evidence \<Rightarrow> identity_store \<Rightarrow> identity_result \<times> identity_store" where
  "record_attestation B io e S =
     (let m = is_maps S; o1 = observed_of e in
      if \<not> j_healthy (is_journal S)
      then (ir_empty\<lparr>ir_attestation_id := ev_attestation_id e, ir_status := RIS_Corrupt,
              ir_errors := j_errors (is_journal S)\<rparr>, S)
      else if \<not> validate_runtime_attestation_identity e
      then (ir_empty\<lparr>ir_attestation_id := ev_attestation_id e,
              ir_errors := [''runtime identity store requires canonical attestation evidence'']\<rparr>, S)
      else case map_of (im_attestations m) (ev_attestation_id e) of
        Some found \<Rightarrow>
          (if same_observation found o1 then ir_of o1 RIS_AlreadyRecorded []
           else ir_of o1 RIS_Collision [''attestation identity collides with a different stored observation''], S)
      | None \<Rightarrow>
          (case observation_refused B o1 m of
             Some (st, msg) \<Rightarrow> (ir_of o1 st [msg], S)
           | None \<Rightarrow>
             (case identity_append io (encode_identity_event (Ie_Observe o1)) (is_journal S) of
                (Some error, j) \<Rightarrow> (ir_of o1 RIS_StorageError [error], S\<lparr>is_journal := j\<rparr>)
              | (None, j) \<Rightarrow>
                  (ir_of o1 RIS_Recorded [], S\<lparr>is_journal := j, is_maps := observe_maps o1 m\<rparr>))))"

definition revoke_result :: "identity_kind \<Rightarrow> string \<Rightarrow> identity_result" where
  "revoke_result kind rid =
     (case kind of
        IK_Device \<Rightarrow> ir_empty\<lparr>ir_device_record_id := rid\<rparr>
      | IK_Executable \<Rightarrow> ir_empty\<lparr>ir_executable_record_id := rid\<rparr>
      | IK_Process \<Rightarrow> ir_empty\<lparr>ir_process_record_id := rid\<rparr>)"

definition identity_exists :: "identity_kind \<Rightarrow> string \<Rightarrow> identity_maps \<Rightarrow> bool" where
  "identity_exists kind rid m =
     (case kind of
        IK_Device \<Rightarrow> contains (im_devices m) rid
      | IK_Executable \<Rightarrow> contains (im_executables m) rid
      | IK_Process \<Rightarrow> contains (im_processes m) rid)"

text \<open>\<open>revoke_impl\<close>, with \<open>revoke_device\<close>, \<open>revoke_executable\<close> and \<open>revoke_process\<close> its three uses.\<close>

definition revoke_identity ::
    "io \<Rightarrow> identity_kind \<Rightarrow> string \<Rightarrow> u64 \<Rightarrow> string \<Rightarrow> identity_store \<Rightarrow> identity_result \<times> identity_store" where
  "revoke_identity io kind rid t reason S =
     (let m = is_maps S; r = revoke_result kind rid in
      if \<not> j_healthy (is_journal S)
      then (ir_empty\<lparr>ir_status := RIS_Corrupt, ir_errors := j_errors (is_journal S)\<rparr>, S)
      else if t = 0 \<or> \<not> valid_reason reason
      then (ir_empty\<lparr>ir_errors := [''identity revocation requires a timestamp and bounded reason code'']\<rparr>, S)
      else if \<not> identity_exists kind rid m
      then (r\<lparr>ir_status := RIS_NotFound, ir_errors := [''identity record was not found'']\<rparr>, S)
      else case mark_revoked kind rid t reason m of
        None \<Rightarrow> (r\<lparr>ir_status := RIS_AlreadyRecorded\<rparr>, S)
      | Some m' \<Rightarrow>
          (case identity_append io (encode_identity_event (Ie_Revoke kind rid t reason)) (is_journal S) of
             (Some error, j) \<Rightarrow> (r\<lparr>ir_status := RIS_StorageError, ir_errors := [error]\<rparr>, S\<lparr>is_journal := j\<rparr>)
           | (None, j) \<Rightarrow> (r\<lparr>ir_status := RIS_Recorded\<rparr>, S\<lparr>is_journal := j, is_maps := m'\<rparr>)))"

definition identity_active :: "attestation_evidence \<Rightarrow> identity_store \<Rightarrow> bool" where
  "identity_active e S \<longleftrightarrow>
     j_healthy (is_journal S) \<and> validate_runtime_attestation_identity e \<and>
     (let m = is_maps S; o1 = observed_of e in
      (case map_of (im_devices m) (ob_device_record_id o1) of None \<Rightarrow> False | Some d \<Rightarrow> di_revoked_at d = 0) \<and>
      (case map_of (im_executables m) (ob_executable_record_id o1) of None \<Rightarrow> False | Some d \<Rightarrow> xi_revoked_at d = 0) \<and>
      (case map_of (im_processes m) (ob_process_record_id o1) of None \<Rightarrow> False | Some d \<Rightarrow> pi_revoked_at d = 0))"

definition store_device :: "identity_store \<Rightarrow> string \<Rightarrow> device_identity option" where
  "store_device S rid = map_of (im_devices (is_maps S)) rid"

definition store_executable :: "identity_store \<Rightarrow> string \<Rightarrow> executable_identity option" where
  "store_executable S rid = map_of (im_executables (is_maps S)) rid"

definition store_process :: "identity_store \<Rightarrow> string \<Rightarrow> process_identity option" where
  "store_process S rid = map_of (im_processes (is_maps S)) rid"

definition store_attestation :: "identity_store \<Rightarrow> string \<Rightarrow> identity_observation option" where
  "store_attestation S aid = map_of (im_attestations (is_maps S)) aid"

definition store_inspect :: "identity_store \<Rightarrow> identity_inspection" where
  "store_inspect S =
     (let m = is_maps S in
      \<lparr>ii_healthy = j_healthy (is_journal S), ii_records = j_sequence (is_journal S),
       ii_devices = length (im_devices m), ii_executables = length (im_executables m),
       ii_processes = length (im_processes m), ii_attestations = length (im_attestations m),
       ii_revoked_devices = length (filter (\<lambda>(_, d). di_revoked_at d \<noteq> 0) (im_devices m)),
       ii_revoked_executables = length (filter (\<lambda>(_, d). xi_revoked_at d \<noteq> 0) (im_executables m)),
       ii_revoked_processes = length (filter (\<lambda>(_, d). pi_revoked_at d \<noteq> 0) (im_processes m)),
       ii_errors = j_errors (is_journal S)\<rparr>)"

text \<open>\<open>IdentityTrackingRuntimeAttestationProvider::attest\<close>\<close>

definition tracking_attest ::
    "attestation_provider \<Rightarrow> identity_budget \<Rightarrow> io \<Rightarrow> attestation_request \<Rightarrow> identity_store \<Rightarrow>
     attestation_result \<times> identity_store" where
  "tracking_attest inner B io q S =
     (let r = ap_attest inner q in
      if \<not> ar_ok r then (r, S)
      else case ar_evidence r of
        None \<Rightarrow> (r, S)
      | Some e \<Rightarrow>
          (case record_attestation B io e S of
             (stored, S') \<Rightarrow>
               if \<not> ir_ok stored
               then (r\<lparr>ar_status := RAS_EvidenceInvalid, ar_errors := ar_errors r @ ir_errors stored,
                       ar_evidence := None\<rparr>, S')
               else (r, S')))"

fun identity_status_to_string :: "identity_status \<Rightarrow> string" where
  "identity_status_to_string RIS_Recorded = ''RECORDED''"
| "identity_status_to_string RIS_AlreadyRecorded = ''ALREADY_RECORDED''"
| "identity_status_to_string RIS_InvalidEvidence = ''INVALID_EVIDENCE''"
| "identity_status_to_string RIS_DeviceRevoked = ''DEVICE_REVOKED''"
| "identity_status_to_string RIS_ExecutableRevoked = ''EXECUTABLE_REVOKED''"
| "identity_status_to_string RIS_ProcessRevoked = ''PROCESS_REVOKED''"
| "identity_status_to_string RIS_Collision = ''COLLISION''"
| "identity_status_to_string RIS_CapacityExceeded = ''CAPACITY_EXCEEDED''"
| "identity_status_to_string RIS_NotFound = ''NOT_FOUND''"
| "identity_status_to_string RIS_StorageError = ''STORAGE_ERROR''"
| "identity_status_to_string RIS_Corrupt = ''CORRUPT''"

end
