(* ===== verification/Runtime_Identity_Runs.thy ===== *)
theory Runtime_Identity_Runs
  imports Runtime_Identity_Store Journal_Runs
begin

text \<open>
  Histories of a \<open>RuntimeIdentityStore\<close>.  Its own \<open>replay\<close> loop meets the interface
  \<open>replayable\<close>, and its calls the interface \<open>journalled_ledger\<close>, for every valid budget; the
  interpretation \<open>default_store\<close> is the store with the default budget.

  \<open>record_attestation\<close> does not compare a known device or executable record with the evidence,
  \<open>replay\<close> does.  They can only differ when two record ids collide under SHA-256
  (\<open>clash_is_collision\<close>), and histories are restricted to calls without such a clash.
\<close>

section \<open>Meaning of the events\<close>

fun wf_identity_event :: "identity_event \<Rightarrow> bool" where
  "wf_identity_event (Ie_Observe o1) \<longleftrightarrow> well_formed_observed o1 \<and> NL \<notin> set (ob_device_id o1)"
| "wf_identity_event (Ie_Revoke kind rid t reason) \<longleftrightarrow> True"

fun sem_identity_event :: "identity_budget \<Rightarrow> identity_event \<Rightarrow> identity_maps \<Rightarrow> identity_maps option" where
  "sem_identity_event B (Ie_Observe o1) m =
     (case replay_observed B o1 m of (None, m') \<Rightarrow> Some m' | (Some e, m') \<Rightarrow> None)"
| "sem_identity_event B (Ie_Revoke kind rid t reason) m =
     (if t = 0 \<or> \<not> valid_reason reason then None else mark_revoked kind rid t reason m)"

lemma kind_char_simps [simp]:
  "TAB \<notin> set (kind_char k)" "NL \<notin> set (kind_char k)" "kind_char k \<noteq> []"
  "kind_char k \<noteq> ''O''" "kind_char k = ''D'' \<or> kind_char k = ''E'' \<or> kind_char k = ''P''"
  by (cases k; simp)+

lemma kind_of_char:
  "(if kind_char k = ''D'' then IK_Device else if kind_char k = ''E'' then IK_Executable else IK_Process) = k"
  by (cases k) simp_all

lemma layer_of_layer_code [simp]: "layer_of_code (layer_code l) = l"
  by (cases l) (simp_all add: layer_of_code_def)

lemma layer_code_le [simp]: "\<not> 9 < layer_code l"
  by (cases l) simp_all

lemma trust_of_trust_code [simp]: "trust_of_code (trust_code t) = t" "\<not> 1 < trust_code t"
  by (cases t; simp add: trust_of_code_def)+

lemma observed_no_sep:
  assumes "well_formed_observed o1"
  shows "TAB \<notin> set (ob_canonical_sha256 o1)" "NL \<notin> set (ob_canonical_sha256 o1)"
    "TAB \<notin> set (ob_executable_sha256 o1)" "NL \<notin> set (ob_executable_sha256 o1)"
    "TAB \<notin> set (ob_process_instance_sha256 o1)" "NL \<notin> set (ob_process_instance_sha256 o1)"
    "TAB \<notin> set (ob_challenge_sha256 o1)" "NL \<notin> set (ob_challenge_sha256 o1)"
    "TAB \<notin> set (ob_executable_locator_sha256 o1)" "NL \<notin> set (ob_executable_locator_sha256 o1)"
  using assms by (auto simp: well_formed_observed_def dest: is_sha256_no_sep)

lemma encode_identity_fields:
  "wf_identity_event e \<Longrightarrow> split_tabs (encode_identity_event e) = (case e of
     Ie_Observe o1 \<Rightarrow> [''O'', hex_encode (ob_attestation_id o1), ob_canonical_sha256 o1, hex_encode (ob_provider_id o1),
       show_u (trust_code (ob_trust o1)), hex_encode (ob_device_record_id o1), hex_encode (ob_device_id o1),
       hex_encode (ob_executable_record_id o1), ob_executable_sha256 o1, hex_encode (ob_process_record_id o1),
       ob_process_instance_sha256 o1, show_u (ob_process_id o1), show_u (ob_process_started o1),
       hex_encode (ob_slot_id o1), hex_encode (ob_session_id o1), show_u (layer_code (ob_layer o1)),
       show_u (ob_observed_at o1), show_u (ob_valid_until o1), ob_challenge_sha256 o1,
       ob_executable_locator_sha256 o1]
   | Ie_Revoke kind rid t reason \<Rightarrow> [kind_char kind, hex_encode rid, show_u t, hex_encode reason])"
  by (cases e) (simp_all add: split_tabs_join observed_no_sep del: append.simps)

lemma identity_no_NL: "wf_identity_event e \<Longrightarrow> NL \<notin> set (encode_identity_event e)"
  by (cases e) (simp_all add: tab_join_no_NL observed_no_sep)

lemma decode_encoded:
  assumes "well_formed_observed o1"
  shows "decode_observed (q # p # split_tabs (encode_identity_event (Ie_Observe o1))) = Some o1" (is "?d = _")
proof -
  have fields: "split_tabs (encode_identity_event (Ie_Observe o1)) =
      [''O'', hex_encode (ob_attestation_id o1), ob_canonical_sha256 o1, hex_encode (ob_provider_id o1),
       show_u (trust_code (ob_trust o1)), hex_encode (ob_device_record_id o1), hex_encode (ob_device_id o1),
       hex_encode (ob_executable_record_id o1), ob_executable_sha256 o1, hex_encode (ob_process_record_id o1),
       ob_process_instance_sha256 o1, show_u (ob_process_id o1), show_u (ob_process_started o1),
       hex_encode (ob_slot_id o1), hex_encode (ob_session_id o1), show_u (layer_code (ob_layer o1)),
       show_u (ob_observed_at o1), show_u (ob_valid_until o1), ob_challenge_sha256 o1,
       ob_executable_locator_sha256 o1]"
    using assms by (simp add: split_tabs_join observed_no_sep del: append.simps)
  show ?thesis unfolding fields decode_observed_def using assms by (cases o1) simp
qed

lemma apply_encoded:
  assumes "wf_identity_event e"
  shows "(case sem_identity_event B e m of
      Some m' \<Rightarrow> apply_identity_fields B (q # p # split_tabs (encode_identity_event e)) m = (None, m')
    | None \<Rightarrow> fst (apply_identity_fields B (q # p # split_tabs (encode_identity_event e)) m) \<noteq> None)"
proof (cases e)
  case (Ie_Observe o1)
  then have wf: "well_formed_observed o1" using assms by simp
  let ?fs = "q # p # split_tabs (encode_identity_event (Ie_Observe o1))"
  have "length ?fs = 22" "?fs ! 2 = ''O''"
    using encode_identity_fields [OF assms] Ie_Observe by (simp_all del: encode_identity_event.simps)
  then have "apply_identity_fields B ?fs m = replay_observed B o1 m"
    by (simp add: apply_identity_fields_def decode_encoded [OF wf] del: encode_identity_event.simps)
  then show ?thesis
    by (cases "replay_observed B o1 m"; cases "fst (replay_observed B o1 m)") (simp_all add: Ie_Observe)
next
  case (Ie_Revoke kind rid t reason)
  let ?fs = "q # p # split_tabs (encode_identity_event e)"
  have f: "?fs = [q, p, kind_char kind, hex_encode rid, show_u t, hex_encode reason]"
    using encode_identity_fields [OF assms] Ie_Revoke by (simp del: encode_identity_event.simps)
  show ?thesis
    unfolding f by (cases kind) (simp_all add: apply_identity_fields_def Ie_Revoke split: option.splits)
qed

section \<open>Replay of a written file\<close>

lemma check_written_identity:
  assumes "TAB \<notin> set l"
  shows "check_identity_line n q l (record_line (record_text (q + 1) l body)) =
    Inr (q + 1, sha256 (record_text (q + 1) l body), show_u (q + 1) # previous_hash l # split_tabs body)"
proof -
  have "drop (length (record_text (q + 1) l body) + 1) (record_line (record_text (q + 1) l body)) =
      sha256 (record_text (q + 1) l body)" by (simp add: record_line_def)
  moreover have "1 \<le> length (split_tabs body)" using split_tabs_not_Nil [of body] by (cases "split_tabs body") simp_all
  ultimately show ?thesis
    using assms by (simp add: check_identity_line_def Let_def split_record_text)
qed

lemma replay_identity_log:
  assumes "list_all wf_identity_event es" "TAB \<notin> set l" "sem_list (sem_identity_event B) es m = Some m'"
  shows "replay_identity_lines B n (log_lines encode_identity_event es q l) (q, l, m) =
    (None, fst (log_head encode_identity_event es q l), snd (log_head encode_identity_event es q l), m')"
  using assms
proof (induction es arbitrary: n q l m)
  case Nil
  then show ?case by simp
next
  case (Cons e es)
  let ?t = "record_text (q + 1) l (encode_identity_event e)"
  from Cons.prems obtain m1 where m1: "sem_identity_event B e m = Some m1"
    "sem_list (sem_identity_event B) es m1 = Some m'" by (auto split: option.splits)
  from Cons.prems have e: "wf_identity_event e" by simp
  have "apply_identity_fields B (show_u (q + 1) # previous_hash l # split_tabs (encode_identity_event e)) m = (None, m1)"
    using apply_encoded [OF e, where B = B and m = m] m1(1) by simp
  then show ?case
    using Cons.IH [of "sha256 ?t" m1 "Suc n" "q + 1"] Cons.prems m1(2) check_written_identity [OF Cons.prems(2)]
    by (simp add: Let_def)
qed

lemma identity_lines_no_NL:
  assumes "list_all wf_identity_event es" "NL \<notin> set l"
  shows "\<forall>x \<in> set (log_lines encode_identity_event es q l). NL \<notin> set x"
  using assms
proof (induction es arbitrary: q l)
  case Nil
  then show ?case by simp
next
  case (Cons e es)
  let ?t = "record_text (q + 1) l (encode_identity_event e)"
  have "\<forall>x \<in> set (log_lines encode_identity_event es (q + 1) (sha256 ?t)). NL \<notin> set x"
    using Cons.IH [of "sha256 ?t" "q + 1"] Cons.prems by simp
  moreover have "NL \<notin> set ?t" using Cons.prems by (simp add: record_text_no_NL identity_no_NL)
  ultimately show ?case by (simp add: Let_def record_line_no_NL)
qed

lemma identity_replayable:
  assumes "valid_identity_budget B"
  shows "replayable (replay_identity B True) empty_identity_maps wf_identity_event
    encode_identity_event (sem_identity_event B)"
proof
  fix es j st j' st'
  assume h: "file_holds encode_identity_event es j" "list_all wf_identity_event es"
    "sem_list (sem_identity_event B) es empty_identity_maps = Some st" "j_path j \<noteq> []"
    "replay_identity B True True j = (j', st')"
  show "in_sync encode_identity_event (sem_identity_event B) empty_identity_maps es j' st' \<and> st' = st \<and>
      j_path j' = j_path j \<and> j_file j' = j_file j"
  proof (cases "j_file j")
    case None
    with h assms show ?thesis by (auto simp: replay_identity_def file_holds_def in_sync_def Let_def)
  next
    case (Some c)
    with h(1) have c: "c = file_of_lines (log_lines encode_identity_event es 0 [])" by (simp add: file_holds_def)
    have "getlines c = log_lines encode_identity_event es 0 []"
      unfolding c using h(2) by (intro getlines_file_of_lines identity_lines_no_NL) simp_all
    with h Some c assms show ?thesis
      using replay_identity_log [OF h(2) _ h(3), of "[]" 0 0]
      by (auto simp: replay_identity_def in_sync_def file_holds_def Let_def)
  qed
qed (use assms in \<open>auto simp: replay_identity_def Let_def\<close>)

section \<open>Calls\<close>

datatype identity_op =
  Io_Record io attestation_evidence
| Io_Revoke io identity_kind string u64 string
| Io_Replay bool bool

definition ir_recorded :: "identity_result \<Rightarrow> bool" where
  "ir_recorded r \<longleftrightarrow> ir_status r = RIS_Recorded"

fun identity_call :: "identity_budget \<Rightarrow> identity_op \<Rightarrow> identity_store \<Rightarrow> bool \<times> identity_store" where
  "identity_call B (Io_Record io e) S = map_prod ir_recorded id (record_attestation B io e S)"
| "identity_call B (Io_Revoke io kind rid t reason) S = map_prod ir_recorded id (revoke_identity io kind rid t reason S)"
| "identity_call B (Io_Replay inspected open_ok) S = store_replay B inspected open_ok S"

fun idop_io :: "identity_op \<Rightarrow> io" where
  "idop_io (Io_Record io e) = io"
| "idop_io (Io_Revoke io kind rid t reason) = io"
| "idop_io (Io_Replay inspected open_ok) = Write_Ok"

fun idop_event :: "identity_op \<Rightarrow> identity_maps \<Rightarrow> identity_event option" where
  "idop_event (Io_Record io e) m =
     (if validate_runtime_attestation_identity e then Some (Ie_Observe (observed_of e)) else None)"
| "idop_event (Io_Revoke io kind rid t reason) m = Some (Ie_Revoke kind rid t reason)"
| "idop_event (Io_Replay inspected open_ok) m = None"

text \<open>A record id of the evidence is taken by another device or executable.\<close>

definition id_clash :: "attestation_evidence \<Rightarrow> identity_maps \<Rightarrow> bool" where
  "id_clash e m \<longleftrightarrow> (let o1 = observed_of e in
     device_clash o1 (map_of (im_devices m) (ob_device_record_id o1)) \<or>
     executable_clash o1 (map_of (im_executables m) (ob_executable_record_id o1)))"

text \<open>No such clash; the file system lets the store look at its journal.\<close>

fun idop_sane :: "identity_op \<Rightarrow> identity_maps \<Rightarrow> bool" where
  "idop_sane (Io_Record io e) m \<longleftrightarrow> validate_runtime_attestation_identity e \<and> \<not> id_clash e m"
| "idop_sane (Io_Revoke io kind rid t reason) m \<longleftrightarrow> True"
| "idop_sane (Io_Replay inspected open_ok) m \<longleftrightarrow> inspected"

lemma observed_well_formed:
  assumes "validate_runtime_attestation_identity e"
  shows "well_formed_observed (observed_of e)" "record_ids_match (observed_of e)" "NL \<notin> set (ob_device_id (observed_of e))"
    "ob_attestation_id (observed_of e) = ev_attestation_id e"
proof -
  have "prefixed_sha256 kAttestationPrefix (ev_attestation_id e)" "is_sha256 (ev_canonical_sha256 e)"
    "prefixed_sha256 kHardwarePrefix (rb_device_id (ev_binding e))"
    using assms by (simp_all add: validate_runtime_attestation_identity_def Let_def runtime_attestation_id_def)
  with assms show "well_formed_observed (observed_of e)" "NL \<notin> set (ob_device_id (observed_of e))"
    by (auto simp: well_formed_observed_def observed_of_def Let_def validate_runtime_attestation_identity_def
        dest: prefixed_no_NL)
qed (simp_all add: observed_of_def record_ids_match_def Let_def)

lemma record_step:
  assumes "validate_runtime_attestation_identity e" "\<not> id_clash e (is_maps S)" "record_attestation B io e S = (r, S')"
  shows "event_step identity_cfg encode_identity_event (sem_identity_event B) io (Ie_Observe (observed_of e))
    (ir_recorded r) (is_journal S) (is_maps S) (is_journal S') (is_maps S')"
proof (cases "j_healthy (is_journal S) \<and> map_of (im_attestations (is_maps S)) (ev_attestation_id e) = None \<and>
    observation_refused B (observed_of e) (is_maps S) = None")
  case False
  have status: "observation_refused B o1 m = Some (st, msg) \<Longrightarrow> st \<noteq> RIS_Recorded" for o1 m st msg
    by (auto simp: observation_refused_def split: if_splits)
  from False assms(1,3) have "S' = S \<and> \<not> ir_recorded r"
    by (auto simp: record_attestation_def Let_def ir_recorded_def ir_of_def ir_empty_def status
        split: option.splits if_splits)
  then show ?thesis by (simp add: event_step_def)
next
  case True
  let ?o = "observed_of e" and ?m = "is_maps S"
  note ok = observed_well_formed [OF assms(1)]
  have ref: "observation_refused B ?o ?m = None" using True by simp
  then have "\<not> over_capacity B ?o ?m" "\<not> process_clash ?o (map_of (im_processes ?m) (ob_process_record_id ?o))"
    by (auto simp: observation_refused_def split: if_splits)
  with True ok assms(2) have "replay_observed B ?o ?m = (None, observe_maps ?o ?m)"
    by (simp add: replay_observed_def Let_def id_clash_def)
  then have sem: "sem_identity_event B (Ie_Observe ?o) ?m = Some (observe_maps ?o ?m)" by simp
  show ?thesis
    using True assms(1,3) sem
    by (auto simp: record_attestation_def Let_def identity_append_def ir_recorded_def ir_of_def event_step_def
        simp del: encode_identity_event.simps sem_identity_event.simps split: prod.splits option.splits)
qed

lemma revoke_step:
  assumes "revoke_identity io kind rid t reason S = (r, S')"
  shows "event_step identity_cfg encode_identity_event (sem_identity_event B) io (Ie_Revoke kind rid t reason)
    (ir_recorded r) (is_journal S) (is_maps S) (is_journal S') (is_maps S')"
proof -
  have [simp]: "ir_status (revoke_result kind rid) = RIS_InvalidEvidence"
    by (cases kind) (simp_all add: revoke_result_def ir_empty_def)
  show ?thesis
    using assms
    by (auto simp: revoke_identity_def Let_def identity_append_def ir_recorded_def ir_empty_def event_step_def
        simp del: encode_identity_event.simps split: prod.splits option.splits if_splits)
qed

lemma identity_journalled:
  assumes "valid_identity_budget B"
  shows "journalled_ledger identity_cfg (replay_identity B True) empty_identity_maps wf_identity_event
    encode_identity_event (sem_identity_event B) is_journal is_maps (identity_call B) idop_io idop_sane idop_event"
proof (intro journalled_ledger.intro identity_replayable [OF assms] journalled_ledger_axioms.intro)
  fix op m ev assume "idop_event op m = Some ev" "idop_sane op m"
  then show "wf_identity_event ev" by (cases op) (auto simp: observed_well_formed split: if_splits)
next
  fix op S ok S' ev
  assume "identity_call B op S = (ok, S')" "idop_event op (is_maps S) = Some ev" "idop_sane op (is_maps S)"
  then show "event_step identity_cfg encode_identity_event (sem_identity_event B) (idop_io op) ev ok
    (is_journal S) (is_maps S) (is_journal S') (is_maps S')"
    by (cases op) (auto intro: record_step revoke_step simp: map_prod_def split: if_splits prod.splits)
next
  fix op S ok S'
  assume "identity_call B op S = (ok, S')" "idop_event op (is_maps S) = None" "idop_sane op (is_maps S)"
  then show "\<exists>open_ok. replay_identity B True open_ok (is_journal S) = (is_journal S', is_maps S')"
    by (cases op) (auto simp: store_replay_def split: prod.splits if_splits)
qed

lemma default_budget_valid: "valid_identity_budget default_identity_budget"
  by (simp add: valid_identity_budget_def default_identity_budget_def)

interpretation default_store: journalled_ledger identity_cfg "replay_identity default_identity_budget True"
  empty_identity_maps wf_identity_event encode_identity_event "sem_identity_event default_identity_budget"
  is_journal is_maps "identity_call default_identity_budget" idop_io idop_sane idop_event
  by (rule identity_journalled [OF default_budget_valid])

section \<open>Runs\<close>

definition identity_run :: "identity_budget \<Rightarrow> string \<Rightarrow> identity_event list \<Rightarrow> identity_store \<Rightarrow> bool" where
  "identity_run B path es S \<longleftrightarrow> valid_identity_budget B \<and> path \<noteq> [] \<and>
     ledger_run (identity_call B) (\<lambda>op S. clean_io (idop_io op) \<and> idop_sane op (is_maps S))
       (\<lambda>op S. opt_list (idop_event op (is_maps S))) (store_construct B path None True True) es S"

lemma identity_run_start: "valid_identity_budget B \<Longrightarrow> path \<noteq> [] \<Longrightarrow>
    identity_run B path [] (store_construct B path None True True)"
  unfolding identity_run_def by (intro conjI lrun_start)

lemma identity_run_ok:
  assumes "identity_run B path es S" "clean_io (idop_io op)" "idop_sane op (is_maps S)"
    "identity_call B op S = (True, S')"
  shows "identity_run B path (es @ opt_list (idop_event op (is_maps S))) S'"
proof -
  have run: "ledger_run (identity_call B) (\<lambda>op S. clean_io (idop_io op) \<and> idop_sane op (is_maps S))
      (\<lambda>op S. opt_list (idop_event op (is_maps S))) (store_construct B path None True True) es S"
    and B: "valid_identity_budget B" "path \<noteq> []"
    using assms(1) by (simp_all add: identity_run_def)
  from lrun_ok [OF run _ assms(4)] assms(2,3) B show ?thesis by (simp add: identity_run_def)
qed

lemma identity_run_inv:
  assumes "identity_run B path es S"
  shows "list_all wf_identity_event es"
    "journal_inv encode_identity_event (sem_identity_event B) empty_identity_maps es (is_journal S) (is_maps S)"
proof -
  have B: "valid_identity_budget B" and path: "path \<noteq> []"
    using assms by (simp_all add: identity_run_def)
  note J = identity_journalled [OF B]
  let ?j = "\<lparr>j_path = path, j_sequence = 0, j_last = [], j_healthy = True, j_errors = [], j_file = None\<rparr>"
  have start: "journalled_ledger.ledger_inv empty_identity_maps wf_identity_event encode_identity_event
      (sem_identity_event B) is_journal is_maps [] (store_construct B path None True True)"
    by (rule journalled_ledger.inv_start(1) [OF J, of ?j True])
      (use B path in \<open>auto simp: store_construct_def store_replay_def Let_def split: prod.splits\<close>)
  have "journalled_ledger.ledger_inv empty_identity_maps wf_identity_event encode_identity_event
      (sem_identity_event B) is_journal is_maps es S"
    by (rule journalled_ledger.run_inv [OF J _ start]) (use assms in \<open>simp add: identity_run_def\<close>)
  then show "list_all wf_identity_event es"
    "journal_inv encode_identity_event (sem_identity_event B) empty_identity_maps es (is_journal S) (is_maps S)"
    by (simp_all add: journalled_ledger.ledger_inv_def [OF J])
qed

lemma identity_meaning:
  "identity_run B path es S \<Longrightarrow> j_healthy (is_journal S) \<Longrightarrow>
   sem_list (sem_identity_event B) es empty_identity_maps = Some (is_maps S)"
  by (rule journal_inv_healthy [OF identity_run_inv(2)])

end
