(* ===== verification/Runtime_Identity_Safety.thy ===== *)
theory Runtime_Identity_Safety
  imports Runtime_Identity_Runs
begin

text \<open>
  What the identity store guarantees over any history: its maps are well formed and within the
  budget, records are never rebound, revocations stay, the journal restores the maps.  And two
  ways around a revocation that the code leaves open.
\<close>

section \<open>What an accepted event did\<close>

lemma sem_observe:
  assumes "sem_identity_event B (Ie_Observe o1) m = Some m'"
  shows "m' = observe_maps o1 m" "record_ids_match o1" "map_of (im_attestations m) (ob_attestation_id o1) = None"
    "\<not> over_capacity B o1 m" "\<not> device_clash o1 (map_of (im_devices m) (ob_device_record_id o1))"
    "\<not> executable_clash o1 (map_of (im_executables m) (ob_executable_record_id o1))"
    "\<not> process_clash o1 (map_of (im_processes m) (ob_process_record_id o1))"
  using assms by (auto simp: replay_observed_def Let_def split: if_splits)

lemma observe_maps_sel:
  "im_devices (observe_maps o1 m) = upsert (ob_device_record_id o1) (touch_device o1) (im_devices m)"
  "im_executables (observe_maps o1 m) = upsert (ob_executable_record_id o1) (touch_executable o1) (im_executables m)"
  "im_processes (observe_maps o1 m) = upsert (ob_process_record_id o1) (touch_process o1) (im_processes m)"
  "im_attestations (observe_maps o1 m) = AList.update (ob_attestation_id o1) (observation_of o1) (im_attestations m)"
  by (simp_all add: observe_maps_def put_attestation_def put_process_def put_executable_def put_device_def)

lemma map_of_upsert [simp]: "map_of (upsert k f m) = (map_of m)(k \<mapsto> f (map_of m k))"
  by (simp add: upsert_def)

text \<open>A revocation touches one record of one map.\<close>

lemma sem_revoke:
  assumes "sem_identity_event B (Ie_Revoke kind rid t reason) m = Some m'"
  obtains (device) d where "kind = IK_Device" "map_of (im_devices m) rid = Some d" "di_revoked_at d = 0" "t \<noteq> 0"
      "m' = m\<lparr>im_devices := AList.update rid (d\<lparr>di_revoked_at := t, di_reason := reason\<rparr>) (im_devices m)\<rparr>"
  | (executable) d where "kind = IK_Executable" "map_of (im_executables m) rid = Some d" "xi_revoked_at d = 0" "t \<noteq> 0"
      "m' = m\<lparr>im_executables := AList.update rid (d\<lparr>xi_revoked_at := t, xi_reason := reason\<rparr>) (im_executables m)\<rparr>"
  | (process) d where "kind = IK_Process" "map_of (im_processes m) rid = Some d" "pi_revoked_at d = 0" "t \<noteq> 0"
      "m' = m\<lparr>im_processes := AList.update rid (d\<lparr>pi_revoked_at := t, pi_reason := reason\<rparr>) (im_processes m)\<rparr>"
  using assms by (cases kind) (auto simp: mark_revoked_def split: if_splits option.splits)

section \<open>Well-formed maps\<close>

definition device_ok :: "string \<Rightarrow> device_identity \<Rightarrow> bool" where
  "device_ok k d \<longleftrightarrow> di_record_id d = k \<and> k = runtime_device_identity_id (di_provider_id d) (di_device_id d) \<and>
     NL \<notin> set (di_device_id d) \<and> di_first_seen d \<le> di_last_seen d"

definition executable_ok :: "string \<Rightarrow> executable_identity \<Rightarrow> bool" where
  "executable_ok k d \<longleftrightarrow> xi_record_id d = k \<and> k = runtime_executable_identity_id (xi_executable_sha256 d) \<and>
     xi_first_seen d \<le> xi_last_seen d"

text \<open>A process names its device and its executable by their records.\<close>

definition process_ok :: "identity_maps \<Rightarrow> string \<Rightarrow> process_identity \<Rightarrow> bool" where
  "process_ok m k p \<longleftrightarrow>
     pi_record_id p = k \<and> k = runtime_process_identity_id (pi_provider_id p) (pi_process_instance_sha256 p) \<and>
     pi_first_seen p \<le> pi_last_seen p \<and>
     (\<exists>d. map_of (im_devices m) (pi_device_record_id p) = Some d \<and> di_provider_id d = pi_provider_id p \<and>
        di_device_id d = pi_device_id p) \<and>
     (\<exists>x. map_of (im_executables m) (pi_executable_record_id p) = Some x \<and>
        xi_executable_sha256 x = pi_executable_sha256 p)"

definition observation_ok :: "identity_maps \<Rightarrow> string \<Rightarrow> identity_observation \<Rightarrow> bool" where
  "observation_ok m k w \<longleftrightarrow> io_attestation_id w = k \<and>
     (\<exists>p. map_of (im_processes m) (io_process_record_id w) = Some p \<and>
        pi_device_record_id p = io_device_record_id w \<and> pi_executable_record_id p = io_executable_record_id w)"

definition fits :: "'v smap \<Rightarrow> u64 \<Rightarrow> bool" where
  "fits m limit \<longleftrightarrow> distinct (map fst m) \<and> length m \<le> unat limit"

definition well_formed_identities :: "identity_budget \<Rightarrow> identity_maps \<Rightarrow> bool" where
  "well_formed_identities B m \<longleftrightarrow>
     fits (im_devices m) (ib_max_devices B) \<and> fits (im_executables m) (ib_max_executables B) \<and>
     fits (im_processes m) (ib_max_processes B) \<and> fits (im_attestations m) (ib_max_attestations B) \<and>
     (\<forall>k d. map_of (im_devices m) k = Some d \<longrightarrow> device_ok k d) \<and>
     (\<forall>k d. map_of (im_executables m) k = Some d \<longrightarrow> executable_ok k d) \<and>
     (\<forall>k p. map_of (im_processes m) k = Some p \<longrightarrow> process_ok m k p) \<and>
     (\<forall>k w. map_of (im_attestations m) k = Some w \<longrightarrow> observation_ok m k w)"

lemma min_le_max_same [simp]: "min a c \<le> max b (c :: 'a :: linorder)"
  by (rule order_trans [OF min.cobounded2 max.cobounded2])

lemma length_update: "length (AList.update k v al) = (if map_of al k = None then Suc (length al) else length al)"
  by (induction al) auto

lemma fits_update:
  assumes "fits m limit" "map_of m k = None \<Longrightarrow> \<not> full m limit"
  shows "fits (AList.update k v m) limit"
  using assms by (auto simp: fits_def full_def length_update distinct_update)

lemma fits_upsert:
  "fits m limit \<Longrightarrow> (map_of m k = None \<Longrightarrow> \<not> full m limit) \<Longrightarrow> fits (upsert k f m) limit"
  by (simp add: upsert_def fits_update)

text \<open>Later records keep what others refer to.\<close>

definition keeps_map :: "('v \<Rightarrow> 'v \<Rightarrow> bool) \<Rightarrow> 'v smap \<Rightarrow> 'v smap \<Rightarrow> bool" where
  "keeps_map R m m' \<longleftrightarrow> (\<forall>k v. map_of m k = Some v \<longrightarrow> (\<exists>v'. map_of m' k = Some v' \<and> R v v'))"

definition same_device :: "device_identity \<Rightarrow> device_identity \<Rightarrow> bool" where
  "same_device d d' \<longleftrightarrow> di_provider_id d' = di_provider_id d \<and> di_device_id d' = di_device_id d \<and>
     (di_revoked_at d \<noteq> 0 \<longrightarrow> di_revoked_at d' = di_revoked_at d)"

definition same_executable :: "executable_identity \<Rightarrow> executable_identity \<Rightarrow> bool" where
  "same_executable d d' \<longleftrightarrow> xi_executable_sha256 d' = xi_executable_sha256 d \<and>
     (xi_revoked_at d \<noteq> 0 \<longrightarrow> xi_revoked_at d' = xi_revoked_at d)"

definition same_process :: "process_identity \<Rightarrow> process_identity \<Rightarrow> bool" where
  "same_process p p' \<longleftrightarrow> same_process_record p' = same_process_record p \<and>
     pi_device_record_id p' = pi_device_record_id p \<and> pi_executable_record_id p' = pi_executable_record_id p \<and>
     (pi_revoked_at p \<noteq> 0 \<longrightarrow> pi_revoked_at p' = pi_revoked_at p)"

definition keeps_records :: "identity_maps \<Rightarrow> identity_maps \<Rightarrow> bool" where
  "keeps_records m m' \<longleftrightarrow>
     keeps_map same_device (im_devices m) (im_devices m') \<and>
     keeps_map same_executable (im_executables m) (im_executables m') \<and>
     keeps_map same_process (im_processes m) (im_processes m') \<and>
     keeps_map (=) (im_attestations m) (im_attestations m')"

lemmas same_defs = same_device_def same_executable_def same_process_def

lemma keeps_mapE:
  assumes "keeps_map R m m'" "map_of m k = Some v"
  obtains v' where "map_of m' k = Some v'" "R v v'"
  using assms by (auto simp: keeps_map_def)

lemma keeps_map_refl: "(\<And>v. R v v) \<Longrightarrow> keeps_map R m m"
  by (simp add: keeps_map_def)

lemma keeps_map_trans:
  "keeps_map R m m1 \<Longrightarrow> keeps_map R m1 m2 \<Longrightarrow> (\<And>a b c. R a b \<Longrightarrow> R b c \<Longrightarrow> R a c) \<Longrightarrow> keeps_map R m m2"
  unfolding keeps_map_def by metis

lemma keeps_map_update:
  "(\<And>v. R v v) \<Longrightarrow> (\<And>v. map_of m k = Some v \<Longrightarrow> R v w) \<Longrightarrow> keeps_map R m (AList.update k w m)"
  by (auto simp: keeps_map_def)

lemma same_refl [simp]: "same_device d d" "same_executable x x" "same_process p p"
  by (simp_all add: same_defs)

lemma same_trans:
  "same_device d d1 \<Longrightarrow> same_device d1 d2 \<Longrightarrow> same_device d d2"
  "same_executable x x1 \<Longrightarrow> same_executable x1 x2 \<Longrightarrow> same_executable x x2"
  "same_process p p1 \<Longrightarrow> same_process p1 p2 \<Longrightarrow> same_process p p2"
  by (auto simp: same_defs)

lemma keeps_records_refl: "keeps_records m m"
  by (simp add: keeps_records_def keeps_map_refl)

lemma keeps_records_trans: "keeps_records m m1 \<Longrightarrow> keeps_records m1 m2 \<Longrightarrow> keeps_records m m2"
  unfolding keeps_records_def by (auto elim: keeps_map_trans intro: same_trans)

lemma touch_same:
  "map_of m k = Some d \<Longrightarrow> same_device d (touch_device o1 (map_of m k))"
  "map_of mx k = Some x \<Longrightarrow> same_executable x (touch_executable o1 (map_of mx k))"
  "map_of mp k = Some p \<Longrightarrow> same_process p (touch_process o1 (map_of mp k))"
  by (auto simp: same_defs touch_device_def touch_executable_def touch_process_def same_process_record_def)

lemma keeps_records_step:
  assumes "sem_identity_event B e m = Some m'"
  shows "keeps_records m m'"
proof (cases e)
  case (Ie_Observe o1)
  note s = sem_observe [OF assms [unfolded Ie_Observe]]
  show ?thesis
    unfolding s(1) keeps_records_def observe_maps_sel upsert_def
    using s(3) by (intro conjI keeps_map_update touch_same) simp_all
next
  case (Ie_Revoke kind rid t reason)
  from assms [unfolded Ie_Revoke] show ?thesis
    by (cases rule: sem_revoke)
      (auto simp: keeps_records_def same_defs fun_eq_iff same_process_record_def
        intro!: keeps_map_refl keeps_map_update)
qed

lemma keeps_records_list:
  "sem_list (sem_identity_event B) es m = Some m' \<Longrightarrow> keeps_records m m'"
proof (induction es arbitrary: m)
  case Nil
  then show ?case by (simp add: keeps_records_refl)
next
  case (Cons e es)
  then obtain m1 where "sem_identity_event B e m = Some m1" "sem_list (sem_identity_event B) es m1 = Some m'"
    by (auto split: option.splits)
  with Cons.IH show ?case using keeps_records_step keeps_records_trans by blast
qed

lemma process_ok_keeps:
  assumes "process_ok m k p" "keeps_records m m'"
  shows "process_ok m' k p"
proof -
  from assms obtain d x where d: "map_of (im_devices m) (pi_device_record_id p) = Some d"
      "di_provider_id d = pi_provider_id p" "di_device_id d = pi_device_id p"
    and x: "map_of (im_executables m) (pi_executable_record_id p) = Some x"
      "xi_executable_sha256 x = pi_executable_sha256 p"
    by (auto simp: process_ok_def)
  have K: "keeps_map same_device (im_devices m) (im_devices m')"
    "keeps_map same_executable (im_executables m) (im_executables m')"
    using assms(2) by (simp_all add: keeps_records_def)
  obtain d' where "map_of (im_devices m') (pi_device_record_id p) = Some d'" "same_device d d'"
    by (rule keeps_mapE [OF K(1) d(1)])
  moreover obtain x' where "map_of (im_executables m') (pi_executable_record_id p) = Some x'" "same_executable x x'"
    by (rule keeps_mapE [OF K(2) x(1)])
  ultimately show ?thesis
    using assms(1) d(2,3) x(2) by (simp add: process_ok_def same_defs)
qed

lemma observation_ok_keeps:
  assumes "observation_ok m k w" "keeps_records m m'"
  shows "observation_ok m' k w"
proof -
  from assms(1) obtain p where p: "map_of (im_processes m) (io_process_record_id w) = Some p"
    "pi_device_record_id p = io_device_record_id w" "pi_executable_record_id p = io_executable_record_id w"
    by (auto simp: observation_ok_def)
  have K: "keeps_map same_process (im_processes m) (im_processes m')"
    using assms(2) by (simp add: keeps_records_def)
  obtain p' where "map_of (im_processes m') (io_process_record_id w) = Some p'" "same_process p p'"
    by (rule keeps_mapE [OF K p(1)])
  with assms(1) p(2,3) show ?thesis by (simp add: observation_ok_def same_defs)
qed

text \<open>Every accepted event keeps the maps well formed.\<close>

lemma observe_well_formed:
  assumes w: "well_formed_identities B m" and e: "sem_identity_event B (Ie_Observe o1) m = Some m'"
    and dev_NL: "NL \<notin> set (ob_device_id o1)"
  shows "well_formed_identities B m'"
proof -
  note s = sem_observe [OF e]
  note K = keeps_records_step [OF e]
  have cap: "map_of (im_devices m) (ob_device_record_id o1) = None \<Longrightarrow> \<not> full (im_devices m) (ib_max_devices B)"
    "map_of (im_executables m) (ob_executable_record_id o1) = None \<Longrightarrow> \<not> full (im_executables m) (ib_max_executables B)"
    "map_of (im_processes m) (ob_process_record_id o1) = None \<Longrightarrow> \<not> full (im_processes m) (ib_max_processes B)"
    "\<not> full (im_attestations m) (ib_max_attestations B)"
    using s(4) by (auto simp: over_capacity_def)
  note w' = w [unfolded well_formed_identities_def]
  have dev: "device_ok k d" if "map_of (im_devices m') k = Some d" for k d
    using that s(2,5) w' dev_NL unfolding s(1) observe_maps_sel
    by (auto simp: touch_device_def device_ok_def record_ids_match_def device_clash_def split: if_splits option.splits)
  have exe: "executable_ok k d" if "map_of (im_executables m') k = Some d" for k d
    using that s(2,6) w' unfolding s(1) observe_maps_sel
    by (auto simp: touch_executable_def executable_ok_def record_ids_match_def split: if_splits option.splits)
  have dnew: "\<exists>d. map_of (im_devices m') (ob_device_record_id o1) = Some d \<and> di_provider_id d = ob_provider_id o1 \<and>
      di_device_id d = ob_device_id o1"
    using s(5) unfolding s(1) observe_maps_sel by (auto simp: touch_device_def device_clash_def split: option.splits)
  have xnew: "\<exists>d. map_of (im_executables m') (ob_executable_record_id o1) = Some d \<and>
      xi_executable_sha256 d = ob_executable_sha256 o1"
    using s(6) unfolding s(1) observe_maps_sel
    by (auto simp: touch_executable_def executable_clash_def split: option.splits)
  let ?p = "touch_process o1 (map_of (im_processes m) (ob_process_record_id o1))"
  have pnew: "map_of (im_processes m') (ob_process_record_id o1) = Some ?p" "same_process_record ?p o1"
    using s(7) unfolding s(1) observe_maps_sel
    by (auto simp: touch_process_def same_process_record_def process_clash_def split: option.splits)
  have pok: "process_ok m' (ob_process_record_id o1) ?p"
  proof -
    have "pi_record_id ?p = ob_process_record_id o1 \<and> pi_first_seen ?p \<le> pi_last_seen ?p"
      using w' by (auto simp: touch_process_def process_ok_def split: option.splits)
    with dnew xnew pnew(2) s(2) show ?thesis by (simp add: process_ok_def same_process_record_def record_ids_match_def)
  qed
  have proc: "process_ok m' k p" if "map_of (im_processes m') k = Some p" for k p
  proof (cases "k = ob_process_record_id o1")
    case True
    with that pnew(1) pok show ?thesis by simp
  next
    case False
    with that have "map_of (im_processes m) k = Some p" unfolding s(1) observe_maps_sel by simp
    with w' have "process_ok m k p" by blast
    from this K show ?thesis by (rule process_ok_keeps)
  qed
  have att: "observation_ok m' k x" if "map_of (im_attestations m') k = Some x" for k x
  proof (cases "k = ob_attestation_id o1")
    case True
    with that have "x = observation_of o1" unfolding s(1) observe_maps_sel by simp
    with True pnew show ?thesis by (simp add: observation_ok_def observation_of_def same_process_record_def)
  next
    case False
    with that have "map_of (im_attestations m) k = Some x" unfolding s(1) observe_maps_sel by simp
    with w' have "observation_ok m k x" by blast
    from this K show ?thesis by (rule observation_ok_keeps)
  qed
  have "fits (im_devices m') (ib_max_devices B)" "fits (im_executables m') (ib_max_executables B)"
    "fits (im_processes m') (ib_max_processes B)" "fits (im_attestations m') (ib_max_attestations B)"
    unfolding s(1) observe_maps_sel using w' cap by (auto intro!: fits_upsert fits_update)
  with dev exe proc att show ?thesis by (simp add: well_formed_identities_def)
qed

lemma revoke_well_formed:
  assumes w: "well_formed_identities B m" and e: "sem_identity_event B (Ie_Revoke kind rid t reason) m = Some m'"
  shows "well_formed_identities B m'"
proof -
  note K = keeps_records_step [OF e]
  note w' = w [unfolded well_formed_identities_def]
  have refs: "process_ok m k p \<Longrightarrow> process_ok m' k p" "observation_ok m k x \<Longrightarrow> observation_ok m' k x" for k p x
    using process_ok_keeps [OF _ K] observation_ok_keeps [OF _ K] by blast+
  from e show ?thesis
  proof (cases rule: sem_revoke)
    case (device d)
    with w' refs show ?thesis
      by (auto simp: well_formed_identities_def device_ok_def intro!: fits_update)
  next
    case (executable d)
    with w' refs show ?thesis
      by (auto simp: well_formed_identities_def executable_ok_def intro!: fits_update)
  next
    case (process d)
    have "process_ok m' rid (d\<lparr>pi_revoked_at := t, pi_reason := reason\<rparr>)"
      using refs(1) [of rid d] w' process by (simp add: process_ok_def)
    with process w' refs show ?thesis
      by (auto simp: well_formed_identities_def intro!: fits_update)
  qed
qed

lemma empty_well_formed: "well_formed_identities B empty_identity_maps"
  by (simp add: well_formed_identities_def empty_identity_maps_def fits_def)

lemma sem_list_well_formed:
  "sem_list (sem_identity_event B) es m = Some m' \<Longrightarrow> list_all wf_identity_event es \<Longrightarrow>
   well_formed_identities B m \<Longrightarrow> well_formed_identities B m'"
proof (induction es arbitrary: m)
  case Nil
  then show ?case by simp
next
  case (Cons e es)
  then obtain m1 where m1: "sem_identity_event B e m = Some m1" "sem_list (sem_identity_event B) es m1 = Some m'"
    by (auto split: option.splits)
  have "well_formed_identities B m1"
  proof (cases e)
    case (Ie_Observe o1)
    show ?thesis
      by (rule observe_well_formed [OF Cons.prems(3) m1(1) [unfolded Ie_Observe]]) (use Cons.prems(2) Ie_Observe in simp)
  next
    case (Ie_Revoke kind rid t reason)
    show ?thesis by (rule revoke_well_formed [OF Cons.prems(3) m1(1) [unfolded Ie_Revoke]])
  qed
  with Cons.IH [OF m1(2)] Cons.prems show ?case by simp
qed

lemma run_well_formed:
  assumes "identity_run B path es S"
  shows "well_formed_identities B (is_maps S)"
proof (cases "j_healthy (is_journal S)")
  case True
  from identity_meaning [OF assms True] identity_run_inv(1) [OF assms] empty_well_formed show ?thesis
    by (rule sem_list_well_formed)
next
  case False
  with identity_run_inv(2) [OF assms] have "is_maps S = empty_identity_maps" by (simp add: journal_inv_def)
  then show ?thesis by (simp add: empty_well_formed)
qed

text \<open>The restriction of histories costs nothing short of a SHA-256 collision.\<close>

lemma clash_is_collision:
  assumes "identity_run B path es S" "validate_runtime_attestation_identity e" "id_clash e (is_maps S)"
  shows "\<exists>x y. sha256_collision x y"
proof -
  let ?o = "observed_of e" and ?m = "is_maps S"
  note w = run_well_formed [OF assms(1), unfolded well_formed_identities_def]
  note ok = observed_well_formed [OF assms(2)]
  from assms(3) consider (device) d where "map_of (im_devices ?m) (ob_device_record_id ?o) = Some d"
      "di_provider_id d \<noteq> ob_provider_id ?o \<or> di_device_id d \<noteq> ob_device_id ?o"
    | (executable) x where "map_of (im_executables ?m) (ob_executable_record_id ?o) = Some x"
      "xi_executable_sha256 x \<noteq> ob_executable_sha256 ?o"
    by (auto simp: id_clash_def Let_def device_clash_def executable_clash_def split: option.splits)
  then show ?thesis
  proof cases
    case device
    with w have d: "device_ok (ob_device_record_id ?o) d" by blast
    let ?x = "di_provider_id d @ NL # di_device_id d" and ?y = "ob_provider_id ?o @ NL # ob_device_id ?o"
    have "sha256 ?x = sha256 ?y"
      using d ok(2) by (simp add: device_ok_def record_ids_match_def runtime_device_identity_id_def)
    moreover have "?x \<noteq> ?y"
    proof
      assume "?x = ?y"
      moreover have "count_list (di_device_id d) NL = count_list (ob_device_id ?o) NL"
        using d ok(3) by (simp add: device_ok_def count_list_0_iff)
      ultimately have "di_provider_id d = ob_provider_id ?o \<and> di_device_id d = ob_device_id ?o"
        by (rule split_before_last_fields)
      with device(2) show False by blast
    qed
    ultimately show ?thesis unfolding sha256_collision_def by blast
  next
    case executable
    with w have "executable_ok (ob_executable_record_id ?o) x" by blast
    with ok(2) have "sha256 (xi_executable_sha256 x) = sha256 (ob_executable_sha256 ?o)"
      by (simp add: executable_ok_def record_ids_match_def runtime_executable_identity_id_def)
    with executable(2) show ?thesis unfolding sha256_collision_def by blast
  qed
qed

section \<open>What recorded events leave behind\<close>

definition revoked_identity :: "identity_kind \<Rightarrow> string \<Rightarrow> identity_maps \<Rightarrow> bool" where
  "revoked_identity kind rid m \<longleftrightarrow>
     (case kind of
        IK_Device \<Rightarrow> (\<exists>d. map_of (im_devices m) rid = Some d \<and> di_revoked_at d \<noteq> 0)
      | IK_Executable \<Rightarrow> (\<exists>d. map_of (im_executables m) rid = Some d \<and> xi_revoked_at d \<noteq> 0)
      | IK_Process \<Rightarrow> (\<exists>d. map_of (im_processes m) rid = Some d \<and> pi_revoked_at d \<noteq> 0))"

lemma keeps_map_some:
  assumes "keeps_map R m m'" "\<exists>d. map_of m k = Some d \<and> P d" "\<And>d d'. R d d' \<Longrightarrow> P d \<Longrightarrow> P d'"
  shows "\<exists>d. map_of m' k = Some d \<and> P d"
proof -
  from assms(2) obtain d where d: "map_of m k = Some d" "P d" by blast
  obtain d' where "map_of m' k = Some d'" "R d d'" by (rule keeps_mapE [OF assms(1) d(1)])
  with assms(3) d(2) show ?thesis by blast
qed

lemma revoked_keeps:
  assumes "revoked_identity kind rid m" "keeps_records m m'"
  shows "revoked_identity kind rid m'"
proof -
  have K: "keeps_map same_device (im_devices m) (im_devices m')"
    "keeps_map same_executable (im_executables m) (im_executables m')"
    "keeps_map same_process (im_processes m) (im_processes m')"
    using assms(2) by (simp_all add: keeps_records_def)
  have P: "same_device d d' \<Longrightarrow> di_revoked_at d \<noteq> 0 \<Longrightarrow> di_revoked_at d' \<noteq> 0"
    "same_executable x x' \<Longrightarrow> xi_revoked_at x \<noteq> 0 \<Longrightarrow> xi_revoked_at x' \<noteq> 0"
    "same_process p p' \<Longrightarrow> pi_revoked_at p \<noteq> 0 \<Longrightarrow> pi_revoked_at p' \<noteq> 0" for d d' x x' p p'
    by (simp_all add: same_defs)
  show ?thesis
    using assms(1) keeps_map_some [OF K(1) _ P(1)] keeps_map_some [OF K(2) _ P(2)] keeps_map_some [OF K(3) _ P(3)]
    by (cases kind) (simp_all add: revoked_identity_def)
qed

lemma recorded_event:
  assumes "sem_list (sem_identity_event B) es m0 = Some m" "e \<in> set es"
  obtains m1 m2 where "sem_identity_event B e m1 = Some m2" "keeps_records m2 m"
proof -
  obtain xs ys where es: "es = xs @ e # ys" using assms(2) by (meson split_list)
  with assms(1) obtain m1 m2 where "sem_identity_event B e m1 = Some m2" "sem_list (sem_identity_event B) ys m2 = Some m"
    by (auto simp: sem_list_append split: option.splits)
  with that keeps_records_list show thesis by blast
qed

lemma recorded_revocation:
  assumes "sem_list (sem_identity_event B) es m0 = Some m" "Ie_Revoke kind rid t reason \<in> set es"
  shows "revoked_identity kind rid m"
proof -
  obtain m1 m2 where e: "sem_identity_event B (Ie_Revoke kind rid t reason) m1 = Some m2" "keeps_records m2 m"
    by (rule recorded_event [OF assms])
  from e(1) have "revoked_identity kind rid m2" by (cases rule: sem_revoke) (simp_all add: revoked_identity_def)
  from this e(2) show ?thesis by (rule revoked_keeps)
qed

lemma recorded_observation:
  assumes "sem_list (sem_identity_event B) es m0 = Some m" "Ie_Observe o1 \<in> set es"
  shows "map_of (im_attestations m) (ob_attestation_id o1) = Some (observation_of o1)"
    "\<exists>p. map_of (im_processes m) (ob_process_record_id o1) = Some p \<and> same_process_record p o1"
proof -
  obtain m1 m2 where e: "sem_identity_event B (Ie_Observe o1) m1 = Some m2" and k: "keeps_records m2 m"
    by (rule recorded_event [OF assms])
  note s = sem_observe [OF e]
  have "map_of (im_attestations m2) (ob_attestation_id o1) = Some (observation_of o1)"
    unfolding s(1) observe_maps_sel by simp
  with k show "map_of (im_attestations m) (ob_attestation_id o1) = Some (observation_of o1)"
    by (auto simp: keeps_records_def keeps_map_def)
  have p: "same_process_record (touch_process o1 (map_of (im_processes m1) (ob_process_record_id o1))) o1"
    "map_of (im_processes m2) (ob_process_record_id o1) =
      Some (touch_process o1 (map_of (im_processes m1) (ob_process_record_id o1)))"
    using s(7) unfolding s(1) observe_maps_sel
    by (auto simp: touch_process_def same_process_record_def process_clash_def split: option.splits)
  have K: "keeps_map same_process (im_processes m2) (im_processes m)" using k by (simp add: keeps_records_def)
  obtain p' where "map_of (im_processes m) (ob_process_record_id o1) = Some p'"
    "same_process (touch_process o1 (map_of (im_processes m1) (ob_process_record_id o1))) p'"
    by (rule keeps_mapE [OF K p(2)])
  with p(1) show "\<exists>p. map_of (im_processes m) (ob_process_record_id o1) = Some p \<and> same_process_record p o1"
    by (auto simp: same_process_def)
qed

definition identity_record_of :: "identity_kind \<Rightarrow> attestation_evidence \<Rightarrow> string" where
  "identity_record_of kind e =
     (case kind of
        IK_Device \<Rightarrow> runtime_device_identity_id (ev_provider_id e) (rb_device_id (ev_binding e))
      | IK_Executable \<Rightarrow> runtime_executable_identity_id (rb_executable_sha256 (ev_binding e))
      | IK_Process \<Rightarrow> runtime_process_identity_id (ev_provider_id e) (rb_process_instance_sha256 (ev_binding e)))"

lemma observed_records:
  "ob_device_record_id (observed_of e) = identity_record_of IK_Device e"
  "ob_executable_record_id (observed_of e) = identity_record_of IK_Executable e"
  "ob_process_record_id (observed_of e) = identity_record_of IK_Process e"
  "ob_attestation_id (observed_of e) = ev_attestation_id e"
  by (simp_all add: observed_of_def Let_def identity_record_of_def)

lemma revoked_is_inactive:
  "revoked_identity kind (identity_record_of kind e) (is_maps S) \<Longrightarrow> \<not> identity_active e S"
  by (cases kind) (auto simp: revoked_identity_def identity_active_def Let_def observed_records)

lemma revoked_is_refused:
  "revoked_identity kind (identity_record_of kind e) m \<Longrightarrow> observation_refused B (observed_of e) m \<noteq> None"
  by (cases kind) (auto simp: revoked_identity_def observation_refused_def observed_records)

lemma observation_refused_status:
  "observation_refused B o1 m = Some (st, msg) \<Longrightarrow> st \<noteq> RIS_Recorded \<and> st \<noteq> RIS_AlreadyRecorded"
  by (auto simp: observation_refused_def split: if_splits)

section \<open>A concrete store\<close>

definition fresh_store :: identity_store where
  "fresh_store = store_construct default_identity_budget ''identities'' None True True"

lemma fresh_store_simps [simp]:
  "is_maps fresh_store = empty_identity_maps" "j_healthy (is_journal fresh_store)"
  "j_path (is_journal fresh_store) = ''identities''"
  by (simp_all add: fresh_store_def store_construct_def store_replay_def replay_identity_def Let_def
      valid_identity_budget_def default_identity_budget_def)

lemma record_new:
  assumes "j_healthy (is_journal S)" "j_path (is_journal S) \<noteq> []" "validate_runtime_attestation_identity e"
    "map_of (im_attestations (is_maps S)) (ev_attestation_id e) = None"
    "observation_refused B (observed_of e) (is_maps S) = None"
  obtains j where "record_attestation B Write_Ok e S = (ir_of (observed_of e) RIS_Recorded [],
      S\<lparr>is_journal := j, is_maps := observe_maps (observed_of e) (is_maps S)\<rparr>)"
    "j_healthy j" "j_path j = j_path (is_journal S)"
proof -
  obtain j where j: "identity_append Write_Ok (encode_identity_event (Ie_Observe (observed_of e))) (is_journal S) = (None, j)"
    "j_healthy j" "j_path j = j_path (is_journal S)"
    using assms(1,2) unfolding identity_append_def by (simp add: append_event_None del: encode_identity_event.simps)
  with assms that [of j] show thesis
    unfolding record_attestation_def Let_def by (simp del: encode_identity_event.simps)
qed

lemma revoke_new:
  assumes "j_healthy (is_journal S)" "j_path (is_journal S) \<noteq> []" "t \<noteq> 0" "valid_reason reason"
    "identity_exists kind rid (is_maps S)" "mark_revoked kind rid t reason (is_maps S) = Some m'"
  obtains j where "revoke_identity Write_Ok kind rid t reason S =
      ((revoke_result kind rid)\<lparr>ir_status := RIS_Recorded\<rparr>, S\<lparr>is_journal := j, is_maps := m'\<rparr>)"
    "j_healthy j" "j_path j = j_path (is_journal S)"
proof -
  obtain j where j: "identity_append Write_Ok (encode_identity_event (Ie_Revoke kind rid t reason)) (is_journal S) = (None, j)"
    "j_healthy j" "j_path j = j_path (is_journal S)"
    using assms(1,2) unfolding identity_append_def by (simp add: append_event_None del: encode_identity_event.simps)
  with assms that [of j] show thesis
    unfolding revoke_identity_def Let_def by (simp del: encode_identity_event.simps)
qed

lemma empty_maps_simps [simp]:
  "im_devices empty_identity_maps = []" "im_executables empty_identity_maps = []"
  "im_processes empty_identity_maps = []" "im_attestations empty_identity_maps = []"
  by (simp_all add: empty_identity_maps_def)

lemma nothing_refused_when_empty:
  assumes "valid_identity_budget B"
  shows "observation_refused B o1 empty_identity_maps = None" "\<not> id_clash e empty_identity_maps"
  using assms by (simp_all add: observation_refused_def over_capacity_def full_def process_clash_def
      valid_identity_budget_def id_clash_def device_clash_def executable_clash_def Let_def unat_gt_0 not_le word_neq_0_conv)

text \<open>The sample machine is attested, and its device then revoked.\<close>

definition sample_device :: string where
  "sample_device = identity_record_of IK_Device sample_evidence"

lemma sample_observed_run:
  obtains S where "identity_run default_identity_budget ''identities'' [Ie_Observe (observed_of sample_evidence)] S"
    "j_healthy (is_journal S)" "j_path (is_journal S) = ''identities''"
    "is_maps S = observe_maps (observed_of sample_evidence) empty_identity_maps"
proof -
  let ?B = default_identity_budget and ?m = "observe_maps (observed_of sample_evidence) empty_identity_maps"
  note B = default_budget_valid
  have run0: "identity_run ?B ''identities'' [] fresh_store"
    unfolding fresh_store_def by (rule identity_run_start [OF B]) simp
  obtain j1 where r1: "record_attestation ?B Write_Ok sample_evidence fresh_store =
      (ir_of (observed_of sample_evidence) RIS_Recorded [], fresh_store\<lparr>is_journal := j1, is_maps := ?m\<rparr>)"
    "j_healthy j1" "j_path j1 = ''identities''"
    using record_new [of fresh_store sample_evidence ?B] sample_evidence_valid nothing_refused_when_empty [OF B]
    by auto
  let ?S1 = "fresh_store\<lparr>is_journal := j1, is_maps := ?m\<rparr>"
  have "identity_call ?B (Io_Record Write_Ok sample_evidence) fresh_store = (True, ?S1)"
    using r1(1) by (simp add: ir_recorded_def ir_of_def)
  from identity_run_ok [OF run0 _ _ this]
  have "identity_run ?B ''identities'' [Ie_Observe (observed_of sample_evidence)] ?S1"
    using sample_evidence_valid nothing_refused_when_empty [OF B] by (simp add: clean_io_def)
  with that r1(2,3) show thesis by simp
qed

lemma sample_identity_run:
  obtains S where "identity_run default_identity_budget ''identities''
      [Ie_Observe (observed_of sample_evidence), Ie_Revoke IK_Device sample_device 2000 ''lost''] S"
    "j_healthy (is_journal S)"
proof -
  obtain S1 where run1: "identity_run default_identity_budget ''identities'' [Ie_Observe (observed_of sample_evidence)] S1"
    and h: "j_healthy (is_journal S1)" "j_path (is_journal S1) = ''identities''"
    and m1: "is_maps S1 = observe_maps (observed_of sample_evidence) empty_identity_maps"
    by (rule sample_observed_run)
  have dev: "map_of (im_devices (is_maps S1)) sample_device = Some (touch_device (observed_of sample_evidence) None)"
    by (simp add: m1 observe_maps_sel observed_records sample_device_def)
  then obtain m2 where m2: "mark_revoked IK_Device sample_device 2000 ''lost'' (is_maps S1) = Some m2"
    by (simp add: mark_revoked_def touch_device_def)
  have reason: "valid_reason ''lost''" by (simp add: valid_reason_def valid_token_def token_char_def)
  obtain j2 where r2: "revoke_identity Write_Ok IK_Device sample_device 2000 ''lost'' S1 =
      ((revoke_result IK_Device sample_device)\<lparr>ir_status := RIS_Recorded\<rparr>, S1\<lparr>is_journal := j2, is_maps := m2\<rparr>)"
    "j_healthy j2"
    using revoke_new [of S1 2000 "''lost''" IK_Device sample_device m2] h reason dev m2
    by (auto simp: identity_exists_def)
  have "identity_call default_identity_budget (Io_Revoke Write_Ok IK_Device sample_device 2000 ''lost'') S1 =
      (True, S1\<lparr>is_journal := j2, is_maps := m2\<rparr>)"
    using r2(1) by (simp add: ir_recorded_def)
  from identity_run_ok [OF run1 _ _ this]
  have "identity_run default_identity_budget ''identities''
      [Ie_Observe (observed_of sample_evidence), Ie_Revoke IK_Device sample_device 2000 ''lost'']
      (S1\<lparr>is_journal := j2, is_maps := m2\<rparr>)"
    by (simp add: clean_io_def)
  with that r2(2) show thesis by simp
qed

text \<open>Before the revocation the sample identity is active.\<close>

lemma sample_active:
  "j_healthy (is_journal S) \<Longrightarrow> is_maps S = observe_maps (observed_of sample_evidence) empty_identity_maps \<Longrightarrow>
   identity_active sample_evidence S"
  by (simp add: identity_active_def Let_def sample_evidence_valid observe_maps_sel touch_device_def
      touch_executable_def touch_process_def)

section \<open>Properties\<close>

text \<open>
  C28. Over any history the maps of the store are well formed.  Every map has distinct keys and
  no more entries than its budget; a record id is the digest of what the record holds; first
  sightings do not come after last ones; every process names a stored device and a stored
  executable with its own measurements, and every attestation a stored process.
\<close>

theorem identities_stay_well_formed:
  assumes "identity_run B path es S"
  shows "well_formed_identities B (is_maps S)"
  by (rule run_well_formed [OF assms])

theorem identities_stay_well_formed_witness:
  "\<exists>S. identity_run default_identity_budget ''identities''
      [Ie_Observe (observed_of sample_evidence), Ie_Revoke IK_Device sample_device 2000 ''lost''] S \<and>
    well_formed_identities default_identity_budget (is_maps S)"
proof -
  obtain S where S: "identity_run default_identity_budget ''identities''
      [Ie_Observe (observed_of sample_evidence), Ie_Revoke IK_Device sample_device 2000 ''lost''] S"
    by (rule sample_identity_run)
  from identities_stay_well_formed [OF S] S show ?thesis by blast
qed

text \<open>
  Round trip of the identity journal.  After any history, and with a file system that lets
  the store look at its journal, \<open>replay\<close> succeeds and restores exactly what the recorded
  events mean; a healthy store is left as it is.
\<close>

theorem identity_replay_restores:
  assumes "identity_run B path es S"
  shows "fst (store_replay B True True S) \<and>
    sem_list (sem_identity_event B) es empty_identity_maps = Some (is_maps (snd (store_replay B True True S))) \<and>
    (j_healthy (is_journal S) \<longrightarrow> snd (store_replay B True True S) = S)"
proof -
  have B: "valid_identity_budget B" using assms by (simp add: identity_run_def)
  note J = identity_journalled [OF B]
  obtain ok S' where r: "store_replay B True True S = (ok, S')" by (cases "store_replay B True True S")
  then have rep: "replay_identity B True True (is_journal S) = (is_journal S', is_maps S')"
    and ok: "ok = j_healthy (is_journal S')" and same: "S' = S\<lparr>is_journal := is_journal S', is_maps := is_maps S'\<rparr>"
    by (auto simp: store_replay_def split: prod.splits)
  have inv: "journalled_ledger.ledger_inv empty_identity_maps wf_identity_event encode_identity_event
      (sem_identity_event B) is_journal is_maps es S"
    using identity_run_inv [OF assms] by (simp add: journalled_ledger.ledger_inv_def [OF J])
  note R = journalled_ledger.reload [OF J inv rep]
  have "j_healthy (is_journal S) \<Longrightarrow> S' = S" using R(3) same by simp
  with R(1,2) ok r show ?thesis by simp
qed

theorem identity_replay_restores_witness:
  "\<exists>S m. identity_run default_identity_budget ''identities''
      [Ie_Observe (observed_of sample_evidence), Ie_Revoke IK_Device sample_device 2000 ''lost''] S \<and>
    snd (store_replay default_identity_budget True True S) = S \<and>
    sem_list (sem_identity_event default_identity_budget)
      [Ie_Observe (observed_of sample_evidence), Ie_Revoke IK_Device sample_device 2000 ''lost''] empty_identity_maps = Some m \<and>
    is_maps S = m"
proof -
  obtain S where S: "identity_run default_identity_budget ''identities''
      [Ie_Observe (observed_of sample_evidence), Ie_Revoke IK_Device sample_device 2000 ''lost''] S"
    and h: "j_healthy (is_journal S)"
    by (rule sample_identity_run)
  from identity_replay_restores [OF S] h have same: "snd (store_replay default_identity_budget True True S) = S" by blast
  from identity_replay_restores [OF S] have "sem_list (sem_identity_event default_identity_budget)
      [Ie_Observe (observed_of sample_evidence), Ie_Revoke IK_Device sample_device 2000 ''lost''] empty_identity_maps =
      Some (is_maps (snd (store_replay default_identity_budget True True S)))" by blast
  with same S show ?thesis by (metis (no_types))
qed

text \<open>
  A revoked identity stays revoked.  Once the revocation of a device, an executable or a
  process is in the journal, evidence of that identity is never active again, whatever is
  replayed or recorded afterwards; no evidence of it is recorded, and evidence the store has
  not seen before is refused.
\<close>

theorem identity_revocation_is_permanent:
  assumes "identity_run B path es S" and "Ie_Revoke kind (identity_record_of kind e) t reason \<in> set es"
  shows "\<not> identity_active e S \<and> ir_status (fst (record_attestation B io e S)) \<noteq> RIS_Recorded \<and>
    (map_of (im_attestations (is_maps S)) (ev_attestation_id e) = None \<longrightarrow>
       \<not> ir_ok (fst (record_attestation B io e S)))"
proof (cases "j_healthy (is_journal S)")
  case False
  then show ?thesis by (simp add: identity_active_def record_attestation_def Let_def ir_ok_def)
next
  case True
  have rev: "revoked_identity kind (identity_record_of kind e) (is_maps S)"
    by (rule recorded_revocation [OF identity_meaning [OF assms(1) True] assms(2)])
  obtain st msg where "observation_refused B (observed_of e) (is_maps S) = Some (st, msg)"
    using revoked_is_refused [OF rev, of B] by (cases "observation_refused B (observed_of e) (is_maps S)") auto
  with revoked_is_inactive [OF rev] observation_refused_status [OF this] show ?thesis
    by (auto simp: record_attestation_def Let_def ir_ok_def ir_of_def ir_empty_def split: option.splits)
qed

theorem identity_revocation_is_permanent_witness:
  "\<exists>S. j_healthy (is_journal S) \<and> \<not> identity_active sample_evidence S \<and>
    ir_status (fst (record_attestation default_identity_budget Write_Ok sample_evidence S)) \<noteq> RIS_Recorded"
proof -
  obtain S where S: "identity_run default_identity_budget ''identities''
      [Ie_Observe (observed_of sample_evidence), Ie_Revoke IK_Device sample_device 2000 ''lost''] S"
    and h: "j_healthy (is_journal S)"
    by (rule sample_identity_run)
  from identity_revocation_is_permanent [OF S, of IK_Device sample_evidence 2000 "''lost''"] h show ?thesis
    by (auto simp: sample_device_def)
qed

text \<open>
  C40. An attestation recorded once passes the tracking provider for ever.  \<open>record_attestation\<close>
  answers for a known attestation before it looks at the revocations, so the provider hands
  the evidence on unchanged although the identity it describes may have been revoked since and
  is no longer active.
\<close>

theorem known_attestation_skips_revocation:
  assumes "identity_run B path es S" and "j_healthy (is_journal S)" and "Ie_Observe (observed_of e) \<in> set es"
    and "validate_runtime_attestation_identity e" and "ap_attest inner q = r" and "ar_ok r" and "ar_evidence r = Some e"
  shows "tracking_attest inner B io q S = (r, S)"
proof -
  have "map_of (im_attestations (is_maps S)) (ev_attestation_id e) = Some (observation_of (observed_of e))"
    using recorded_observation(1) [OF identity_meaning [OF assms(1,2)] assms(3)] by (simp add: observed_records)
  moreover have "same_observation (observation_of (observed_of e)) (observed_of e)"
    by (simp add: same_observation_def observation_of_def)
  ultimately have "record_attestation B io e S = (ir_of (observed_of e) RIS_AlreadyRecorded [], S)"
    using assms(2,4) by (simp add: record_attestation_def Let_def)
  with assms(5-7) show ?thesis
    by (simp add: tracking_attest_def Let_def ir_ok_def ir_of_def)
qed

theorem known_attestation_skips_revocation_witness:
  "\<exists>S. revoked_identity IK_Device sample_device (is_maps S) \<and> \<not> identity_active sample_evidence S \<and>
    tracking_attest (native_provider sample_host 1500) default_identity_budget Write_Ok sample_attestation_request S =
      (\<lparr>ar_status = RAS_Attested, ar_evidence = Some sample_evidence, ar_errors = []\<rparr>, S)"
proof -
  obtain S where S: "identity_run default_identity_budget ''identities''
      [Ie_Observe (observed_of sample_evidence), Ie_Revoke IK_Device sample_device 2000 ''lost''] S"
    and h: "j_healthy (is_journal S)"
    by (rule sample_identity_run)
  have rev: "revoked_identity IK_Device sample_device (is_maps S)"
    by (rule recorded_revocation [OF identity_meaning [OF S h]]) simp
  have "tracking_attest (native_provider sample_host 1500) default_identity_budget Write_Ok sample_attestation_request S =
      (\<lparr>ar_status = RAS_Attested, ar_evidence = Some sample_evidence, ar_errors = []\<rparr>, S)"
    by (rule known_attestation_skips_revocation [OF S h])
      (simp_all add: sample_evidence_valid native_provider_def sample_attests ar_ok_def)
  with rev revoked_is_inactive [OF rev [unfolded sample_device_def]] show ?thesis by blast
qed

text \<open>
  Evidence of one process record agrees in device, executable, process id and start time:
  a process record is never rebound.
\<close>

lemma process_record_never_rebound:
  assumes "identity_run B path es S" "j_healthy (is_journal S)" "Ie_Observe a \<in> set es" "Ie_Observe b \<in> set es"
    "ob_process_record_id a = ob_process_record_id b"
  shows "ob_device_id a = ob_device_id b \<and> ob_executable_sha256 a = ob_executable_sha256 b \<and>
    ob_process_id a = ob_process_id b \<and> ob_process_started a = ob_process_started b"
  using recorded_observation(2) [OF identity_meaning [OF assms(1,2)] assms(3)]
    recorded_observation(2) [OF identity_meaning [OF assms(1,2)] assms(4)] assms(5)
  by (auto simp: same_process_record_def)

text \<open>
  A store whose journal cannot be looked at starts healthy and empty: the test of the error
  code after \<open>exists\<close> is never reached.  Revocations in the file are forgotten and the
  revoked identity is recorded anew.
\<close>

lemma uninspected_journal_is_forgotten:
  assumes "valid_identity_budget B" "path \<noteq> []" "validate_runtime_attestation_identity e"
    "store_construct B path (Some content) False open_ok = S"
  shows "j_healthy (is_journal S)" "is_maps S = empty_identity_maps"
    "ir_status (fst (record_attestation B Write_Ok e S)) = RIS_Recorded"
proof -
  have S: "j_healthy (is_journal S)" "is_maps S = empty_identity_maps" "j_path (is_journal S) = path"
    using assms(1,4) by (auto simp: store_construct_def store_replay_def replay_identity_def Let_def)
  then show "j_healthy (is_journal S)" "is_maps S = empty_identity_maps" by simp_all
  obtain j where "record_attestation B Write_Ok e S = (ir_of (observed_of e) RIS_Recorded [],
      S\<lparr>is_journal := j, is_maps := observe_maps (observed_of e) (is_maps S)\<rparr>)"
    using record_new [of S e B] S assms(2,3) nothing_refused_when_empty(1) [OF assms(1)] by auto
  then show "ir_status (fst (record_attestation B Write_Ok e S)) = RIS_Recorded" by (simp add: ir_of_def)
qed

end
