(* ===== verification/Clubhouse.thy ===== *)
theory Clubhouse
  imports Reality Sha256
begin

text \<open>
  The CLUBHOUSE registry of slots (\<open>include/guff/clubhouse.hpp\<close>, \<open>src/clubhouse.cpp\<close>): manifests
  and their identity, registration under a name and an immutable id, lookup through either, and
  the contract an invocation has to satisfy before an executor may receive it.

  The two \<open>unordered_map\<close>s are association lists; the code iterates over one of them only to
  sort what it finds (\<open>list\<close>), and \<open>slots_listed_by_name\<close> shows that the order does not matter.
\<close>

section \<open>Data\<close>

datatype slot_kind =
  SLK_Model | SLK_Compiler | SLK_Repository | SLK_Audio | SLK_World | SLK_Image | SLK_Video
| SLK_Language | SLK_Tool | SLK_Generic

datatype slot_transport = STR_InProcess | STR_LocalProcess | STR_Connector

datatype slot_capability =
  SC_ModelInfer | SC_CodeBuild | SC_CodeTest | SC_RepositoryRead | SC_RepositoryWrite | SC_AudioAnalyze
| SC_AudioGenerate | SC_WorldObserve | SC_WorldMutate | SC_ImageGenerate | SC_VideoRender
| SC_TranslateRepresentation | SC_GenericTool

datatype invocation_status =
  IVS_Ready | IVS_Invalid | IVS_SlotNotFound | IVS_SlotDisabled | IVS_CapabilityMissing
| IVS_PermissionMissing | IVS_LayerMismatch | IVS_PayloadTooLarge

text \<open>The underlying values of the enumerations.\<close>

fun slot_kind_code :: "slot_kind \<Rightarrow> u32" where
  "slot_kind_code SLK_Model = 0"
| "slot_kind_code SLK_Compiler = 1"
| "slot_kind_code SLK_Repository = 2"
| "slot_kind_code SLK_Audio = 3"
| "slot_kind_code SLK_World = 4"
| "slot_kind_code SLK_Image = 5"
| "slot_kind_code SLK_Video = 6"
| "slot_kind_code SLK_Language = 7"
| "slot_kind_code SLK_Tool = 8"
| "slot_kind_code SLK_Generic = 9"

fun transport_code :: "slot_transport \<Rightarrow> u32" where
  "transport_code STR_InProcess = 0"
| "transport_code STR_LocalProcess = 1"
| "transport_code STR_Connector = 2"

fun capability_code :: "slot_capability \<Rightarrow> u32" where
  "capability_code SC_ModelInfer = 0"
| "capability_code SC_CodeBuild = 1"
| "capability_code SC_CodeTest = 2"
| "capability_code SC_RepositoryRead = 3"
| "capability_code SC_RepositoryWrite = 4"
| "capability_code SC_AudioAnalyze = 5"
| "capability_code SC_AudioGenerate = 6"
| "capability_code SC_WorldObserve = 7"
| "capability_code SC_WorldMutate = 8"
| "capability_code SC_ImageGenerate = 9"
| "capability_code SC_VideoRender = 10"
| "capability_code SC_TranslateRepresentation = 11"
| "capability_code SC_GenericTool = 12"

fun capability_to_string :: "slot_capability \<Rightarrow> string" where
  "capability_to_string SC_ModelInfer = ''MODEL_INFER''"
| "capability_to_string SC_CodeBuild = ''CODE_BUILD''"
| "capability_to_string SC_CodeTest = ''CODE_TEST''"
| "capability_to_string SC_RepositoryRead = ''REPOSITORY_READ''"
| "capability_to_string SC_RepositoryWrite = ''REPOSITORY_WRITE''"
| "capability_to_string SC_AudioAnalyze = ''AUDIO_ANALYZE''"
| "capability_to_string SC_AudioGenerate = ''AUDIO_GENERATE''"
| "capability_to_string SC_WorldObserve = ''WORLD_OBSERVE''"
| "capability_to_string SC_WorldMutate = ''WORLD_MUTATE''"
| "capability_to_string SC_ImageGenerate = ''IMAGE_GENERATE''"
| "capability_to_string SC_VideoRender = ''VIDEO_RENDER''"
| "capability_to_string SC_TranslateRepresentation = ''TRANSLATE_REPRESENTATION''"
| "capability_to_string SC_GenericTool = ''GENERIC_TOOL''"

fun slot_kind_to_string :: "slot_kind \<Rightarrow> string" where
  "slot_kind_to_string SLK_Model = ''MODEL''"
| "slot_kind_to_string SLK_Compiler = ''COMPILER''"
| "slot_kind_to_string SLK_Repository = ''REPOSITORY''"
| "slot_kind_to_string SLK_Audio = ''AUDIO''"
| "slot_kind_to_string SLK_World = ''WORLD''"
| "slot_kind_to_string SLK_Image = ''IMAGE''"
| "slot_kind_to_string SLK_Video = ''VIDEO''"
| "slot_kind_to_string SLK_Language = ''LANGUAGE''"
| "slot_kind_to_string SLK_Tool = ''TOOL''"
| "slot_kind_to_string SLK_Generic = ''GENERIC''"

fun transport_to_string :: "slot_transport \<Rightarrow> string" where
  "transport_to_string STR_InProcess = ''IN_PROCESS''"
| "transport_to_string STR_LocalProcess = ''LOCAL_PROCESS''"
| "transport_to_string STR_Connector = ''CONNECTOR''"

fun invocation_status_to_string :: "invocation_status \<Rightarrow> string" where
  "invocation_status_to_string IVS_Ready = ''READY''"
| "invocation_status_to_string IVS_Invalid = ''INVALID''"
| "invocation_status_to_string IVS_SlotNotFound = ''SLOT_NOT_FOUND''"
| "invocation_status_to_string IVS_SlotDisabled = ''SLOT_DISABLED''"
| "invocation_status_to_string IVS_CapabilityMissing = ''CAPABILITY_MISSING''"
| "invocation_status_to_string IVS_PermissionMissing = ''PERMISSION_MISSING''"
| "invocation_status_to_string IVS_LayerMismatch = ''LAYER_MISMATCH''"
| "invocation_status_to_string IVS_PayloadTooLarge = ''PAYLOAD_TOO_LARGE''"

lemma slot_codes_inj:
  "slot_kind_code k = slot_kind_code k' \<longleftrightarrow> k = k'" "transport_code t = transport_code t' \<longleftrightarrow> t = t'"
  "capability_code c = capability_code c' \<longleftrightarrow> c = c'"
proof -
  show "slot_kind_code k = slot_kind_code k' \<longleftrightarrow> k = k'" by (cases k; cases k'; simp)
  show "transport_code t = transport_code t' \<longleftrightarrow> t = t'" by (cases t; cases t'; simp)
  show "capability_code c = capability_code c' \<longleftrightarrow> c = c'" by (cases c; cases c'; simp)
qed

text \<open>Capabilities and layers are sorted by their underlying values.\<close>

instantiation slot_capability :: linorder
begin

definition less_eq_slot_capability :: "slot_capability \<Rightarrow> slot_capability \<Rightarrow> bool" where
  "a \<le> b \<longleftrightarrow> capability_code a \<le> capability_code b"

definition less_slot_capability :: "slot_capability \<Rightarrow> slot_capability \<Rightarrow> bool" where
  "a < b \<longleftrightarrow> capability_code a < capability_code b"

instance
  by standard (auto simp: less_eq_slot_capability_def less_slot_capability_def simp flip: slot_codes_inj(3))

end

instantiation reality_layer :: linorder
begin

definition less_eq_reality_layer :: "reality_layer \<Rightarrow> reality_layer \<Rightarrow> bool" where
  "a \<le> b \<longleftrightarrow> layer_code a \<le> layer_code b"

definition less_reality_layer :: "reality_layer \<Rightarrow> reality_layer \<Rightarrow> bool" where
  "a < b \<longleftrightarrow> layer_code a < layer_code b"

instance
  by standard (auto simp: less_eq_reality_layer_def less_reality_layer_def simp flip: layer_code_inj)

end

text \<open>\<open>sorted_unique\<close>, for enumerations and for strings.\<close>

definition sorted_unique :: "'a::linorder list \<Rightarrow> 'a list" where
  "sorted_unique values = remdups_adj (sort values)"

section \<open>Manifests\<close>

record slot_manifest =
  mf_schema_version :: u32
  mf_slot_name :: string
  mf_display_name :: string
  mf_version :: string
  mf_kind :: slot_kind
  mf_transport :: slot_transport
  mf_entrypoint :: string
  mf_capabilities :: "slot_capability list"
  mf_allowed_layers :: "reality_layer list"
  mf_required_permissions :: "string list"
  mf_max_payload_bytes :: u64
  mf_enabled :: bool
  mf_tags :: "string list"

definition permission_char :: "char \<Rightarrow> bool" where
  "permission_char ch \<longleftrightarrow> (let c = (of_char ch :: nat) in
     97 \<le> c \<and> c \<le> 122 \<or> 48 \<le> c \<and> c \<le> 57 \<or>
     ch = CHR '':'' \<or> ch = CHR ''-'' \<or> ch = CHR ''_'' \<or> ch = CHR ''.'' \<or> ch = CHR ''/'')"

definition valid_permission :: "string \<Rightarrow> bool" where
  "valid_permission token \<longleftrightarrow> token \<noteq> [] \<and> length token \<le> 128 \<and> list_all permission_char token"

definition manifest_head :: "slot_manifest \<Rightarrow> string list" where
  "manifest_head m = [show_u (mf_schema_version m), mf_slot_name m, mf_display_name m, mf_version m,
     show_u (slot_kind_code (mf_kind m)), show_u (transport_code (mf_transport m)), mf_entrypoint m,
     show_u (mf_max_payload_bytes m), if mf_enabled m then ''1'' else ''0'']"

definition manifest_items :: "slot_manifest \<Rightarrow> string list" where
  "manifest_items m =
     map (\<lambda>c. ''c:'' @ show_u (capability_code c)) (sorted_unique (mf_capabilities m)) @
     map (\<lambda>l. ''l:'' @ show_u (layer_code l)) (sorted_unique (mf_allowed_layers m)) @
     map (\<lambda>p. ''p:'' @ p) (sorted_unique (mf_required_permissions m)) @
     map (\<lambda>t. ''t:'' @ t) (sorted_unique (mf_tags m))"

definition canonical_manifest :: "slot_manifest \<Rightarrow> string" where
  "canonical_manifest m = concat (map (\<lambda>l. l @ [NL]) (manifest_head m @ manifest_items m))"

definition validate_manifest :: "slot_manifest \<Rightarrow> string list" where
  "validate_manifest m =
     err (mf_schema_version m \<noteq> 1) ''unsupported slot schema version'' @
     err (mf_slot_name m = [] \<or> 96 < length (mf_slot_name m)) ''slot_name is required and must be <= 96 bytes'' @
     err (mf_display_name m = [] \<or> 128 < length (mf_display_name m))
       ''display_name is required and must be <= 128 bytes'' @
     err (mf_version m = [] \<or> 64 < length (mf_version m)) ''version is required and must be <= 64 bytes'' @
     err (mf_entrypoint m = [] \<or> 512 < length (mf_entrypoint m)) ''entrypoint is required and must be <= 512 bytes'' @
     err (mf_capabilities m = []) ''at least one capability is required'' @
     err (mf_allowed_layers m = []) ''at least one reality layer is required'' @
     err (mf_max_payload_bytes m = 0) ''max_payload_bytes must be greater than zero'' @
     err (64 < length (mf_capabilities m)) ''too many capabilities'' @
     err (16 < length (mf_allowed_layers m)) ''too many reality layers'' @
     err (64 < length (mf_required_permissions m)) ''too many permission requirements'' @
     err (64 < length (mf_tags m)) ''too many slot tags'' @
     concat (map (\<lambda>p. err (\<not> valid_permission p) (''invalid permission token: '' @ p)) (mf_required_permissions m))"

definition kSlotPrefix :: string where "kSlotPrefix = ''guff:slot:sha256:''"

definition manifest_immutable_id :: "slot_manifest \<Rightarrow> string" where
  "manifest_immutable_id m = kSlotPrefix @ sha256 (canonical_manifest m)"

definition slot_supports :: "slot_manifest \<Rightarrow> slot_capability \<Rightarrow> bool" where
  "slot_supports m c \<longleftrightarrow> c \<in> set (mf_capabilities m)"

definition slot_allows :: "slot_manifest \<Rightarrow> reality_layer \<Rightarrow> bool" where
  "slot_allows m l \<longleftrightarrow> l \<in> set (mf_allowed_layers m)"

section \<open>The registry\<close>

record clubhouse =
  ch_slots :: "slot_manifest smap"
  ch_aliases :: "string smap"

definition empty_clubhouse :: clubhouse where
  "empty_clubhouse = \<lparr>ch_slots = [], ch_aliases = []\<rparr>"

definition normal_manifest :: "slot_manifest \<Rightarrow> slot_manifest" where
  "normal_manifest m = m\<lparr>mf_capabilities := sorted_unique (mf_capabilities m),
     mf_allowed_layers := sorted_unique (mf_allowed_layers m),
     mf_required_permissions := sorted_unique (mf_required_permissions m), mf_tags := sorted_unique (mf_tags m)\<rparr>"

text \<open>\<open>emplace\<close> keeps an entry that is there.\<close>

definition emplace :: "string \<Rightarrow> 'v \<Rightarrow> 'v smap \<Rightarrow> 'v smap" where
  "emplace k v m = (if contains m k then m else (k, v) # m)"

text \<open>The errors are those reported, none when the slot is registered.\<close>

definition register_slot :: "slot_manifest \<Rightarrow> clubhouse \<Rightarrow> bool \<times> string list \<times> clubhouse" where
  "register_slot manifest R =
     (if validate_manifest manifest \<noteq> [] then (False, validate_manifest manifest, R)
      else let m = normal_manifest manifest; immutable = manifest_immutable_id m in
        if contains (ch_slots R) immutable \<or> contains (ch_aliases R) (mf_slot_name m)
        then (False, [''slot identity or slot_name is already registered''], R)
        else (True, [], \<lparr>ch_slots = emplace immutable m (ch_slots R),
                ch_aliases = emplace (mf_slot_name m) immutable (ch_aliases R)\<rparr>))"

definition find_slot :: "string \<Rightarrow> clubhouse \<Rightarrow> slot_manifest option" where
  "find_slot slot_id R =
     map_of (ch_slots R) (case map_of (ch_aliases R) slot_id of None \<Rightarrow> slot_id | Some key \<Rightarrow> key)"

definition list_slots :: "clubhouse \<Rightarrow> slot_manifest list" where
  "list_slots R = sort_key mf_slot_name (map snd (ch_slots R))"

definition clubhouse_size :: "clubhouse \<Rightarrow> nat" where
  "clubhouse_size R = length (ch_slots R)"

section \<open>Invocations\<close>

record slot_invocation =
  iv_invocation_id :: string
  iv_slot_id :: string
  iv_capability :: slot_capability
  iv_layer :: reality_layer
  iv_input_sha256 :: string
  iv_payload_bytes :: u64
  iv_permission_tokens :: "string list"

record slot_resolution =
  rs_status :: invocation_status
  rs_slot :: "slot_manifest option"
  rs_missing_permissions :: "string list"
  rs_reason :: string

definition resolution_ready :: "slot_resolution \<Rightarrow> bool" where
  "resolution_ready r \<longleftrightarrow> rs_status r = IVS_Ready"

definition resolved :: "invocation_status \<Rightarrow> slot_manifest option \<Rightarrow> string list \<Rightarrow> string \<Rightarrow> slot_resolution" where
  "resolved st slot missing reason =
     \<lparr>rs_status = st, rs_slot = slot, rs_missing_permissions = missing, rs_reason = reason\<rparr>"

definition missing_permissions :: "slot_invocation \<Rightarrow> slot_manifest \<Rightarrow> string list" where
  "missing_permissions iv m =
     filter (\<lambda>required. required \<notin> set (iv_permission_tokens iv)) (mf_required_permissions m)"

definition resolve_invocation :: "slot_invocation \<Rightarrow> clubhouse \<Rightarrow> slot_resolution" where
  "resolve_invocation iv R =
     (if iv_invocation_id iv = [] \<or> iv_slot_id iv = [] \<or> \<not> is_sha256 (iv_input_sha256 iv)
      then resolved IVS_Invalid None [] ''invocation requires id, slot id, and SHA-256 input identity''
      else case find_slot (iv_slot_id iv) R of
        None \<Rightarrow> resolved IVS_SlotNotFound None [] ''slot is not registered''
      | Some slot \<Rightarrow>
          if \<not> mf_enabled slot then resolved IVS_SlotDisabled (Some slot) [] ''slot is disabled''
          else if \<not> slot_supports slot (iv_capability iv)
          then resolved IVS_CapabilityMissing (Some slot) [] ''slot does not advertise requested capability''
          else if \<not> slot_allows slot (iv_layer iv)
          then resolved IVS_LayerMismatch (Some slot) [] ''requested STRATA layer is outside slot contract''
          else if mf_max_payload_bytes slot < iv_payload_bytes iv
          then resolved IVS_PayloadTooLarge (Some slot) [] ''payload exceeds slot contract''
          else let missing = missing_permissions iv slot in
            if missing \<noteq> []
            then resolved IVS_PermissionMissing (Some slot) missing ''required permission tokens are missing''
            else resolved IVS_Ready (Some slot) [] ''slot contract satisfied; executor may receive invocation'')"


section \<open>Normal forms\<close>

lemma set_sorted_unique [simp]: "set (sorted_unique xs) = set xs"
  by (simp add: sorted_unique_def)

lemma sorted_unique_sorted: "sorted_wrt (<) (sorted_unique xs)"
  by (simp add: sorted_unique_def strict_sorted_unique)

lemma sorted_unique_id: "sorted_wrt (<) xs \<Longrightarrow> sorted_unique xs = xs"
  by (metis set_sorted_unique sorted_unique_sorted strict_sorted_equal)

lemma sorted_unique_idem [simp]: "sorted_unique (sorted_unique xs) = sorted_unique xs"
  by (rule sorted_unique_id [OF sorted_unique_sorted])

lemma sorted_unique_eq: "sorted_unique xs = sorted_unique ys \<longleftrightarrow> set xs = set ys"
  by (metis set_sorted_unique sorted_unique_sorted strict_sorted_equal)

lemma sorted_unique_Nil [simp]: "sorted_unique xs = [] \<longleftrightarrow> xs = []"
  by (metis set_empty set_sorted_unique)

lemma length_sorted_unique: "length (sorted_unique xs) \<le> length xs"
  unfolding sorted_unique_def by (metis remdups_adj_length length_sort)

lemma normal_manifest_idem [simp]: "normal_manifest (normal_manifest m) = normal_manifest m"
  by (simp add: normal_manifest_def)

lemma canonical_normal [simp]: "canonical_manifest (normal_manifest m) = canonical_manifest m"
  by (simp add: canonical_manifest_def manifest_head_def manifest_items_def normal_manifest_def)

lemma immutable_id_normal [simp]: "manifest_immutable_id (normal_manifest m) = manifest_immutable_id m"
  by (simp add: manifest_immutable_id_def)

lemma normal_name [simp]: "mf_slot_name (normal_manifest m) = mf_slot_name m"
  by (simp add: normal_manifest_def)

lemma validate_normal: "validate_manifest m = [] \<Longrightarrow> validate_manifest (normal_manifest m) = []"
  using length_sorted_unique [of "mf_capabilities m"] length_sorted_unique [of "mf_allowed_layers m"]
    length_sorted_unique [of "mf_required_permissions m"] length_sorted_unique [of "mf_tags m"]
  by (auto simp: validate_manifest_def normal_manifest_def)

section \<open>What the immutable id binds\<close>

definition one_line_manifest :: "slot_manifest \<Rightarrow> bool" where
  "one_line_manifest m \<longleftrightarrow> NL \<notin> set (mf_slot_name m) \<and> NL \<notin> set (mf_display_name m) \<and> NL \<notin> set (mf_version m) \<and>
     NL \<notin> set (mf_entrypoint m) \<and> (\<forall>p \<in> set (mf_required_permissions m) \<union> set (mf_tags m). NL \<notin> set p)"

lemma manifest_lines_no_NL: "one_line_manifest m \<Longrightarrow> \<forall>l \<in> set (manifest_head m @ manifest_items m). NL \<notin> set l"
  by (auto simp: manifest_head_def manifest_items_def one_line_manifest_def)

lemma manifest_item_lists:
  "map (drop 2) (filter (\<lambda>l. take 2 l = ''c:'') (manifest_items m)) = map (\<lambda>c. show_u (capability_code c)) (sorted_unique (mf_capabilities m))"
  "map (drop 2) (filter (\<lambda>l. take 2 l = ''l:'') (manifest_items m)) = map (\<lambda>c. show_u (layer_code c)) (sorted_unique (mf_allowed_layers m))"
  "map (drop 2) (filter (\<lambda>l. take 2 l = ''p:'') (manifest_items m)) = sorted_unique (mf_required_permissions m)"
  "map (drop 2) (filter (\<lambda>l. take 2 l = ''t:'') (manifest_items m)) = sorted_unique (mf_tags m)"
  by (simp_all add: manifest_items_def filter_map o_def)

lemma manifest_fields_inj:
  assumes "manifest_head m = manifest_head m'" "manifest_items m = manifest_items m'"
  shows "normal_manifest m = normal_manifest m'"
proof -
  have inj: "inj (\<lambda>c. show_u (capability_code c))" "inj (\<lambda>l. show_u (layer_code l))"
    by (auto intro!: injI simp: slot_codes_inj layer_code_inj)
  have "sorted_unique (mf_capabilities m) = sorted_unique (mf_capabilities m')"
    "sorted_unique (mf_allowed_layers m) = sorted_unique (mf_allowed_layers m')"
    "sorted_unique (mf_required_permissions m) = sorted_unique (mf_required_permissions m')"
    "sorted_unique (mf_tags m) = sorted_unique (mf_tags m')"
    using manifest_item_lists [of m] manifest_item_lists [of m'] assms(2)
      inj_map_eq_map [OF inj(1)] inj_map_eq_map [OF inj(2)] by metis+
  then show ?thesis
    using assms(1)
    by (intro slot_manifest.equality)
      (simp_all add: normal_manifest_def manifest_head_def slot_codes_inj split: if_splits)
qed

text \<open>
  The immutable id is that of the normal form, and, for manifests whose texts are single
  lines, the canonical text it hashes is the same only for the same normal form.
\<close>

lemma canonical_manifest_binds:
  assumes "one_line_manifest m" "one_line_manifest m'"
  shows "canonical_manifest m = canonical_manifest m' \<longleftrightarrow> normal_manifest m = normal_manifest m'"
proof
  assume "canonical_manifest m = canonical_manifest m'"
  then have "manifest_head m @ manifest_items m = manifest_head m' @ manifest_items m'"
    using getlines_concat [OF manifest_lines_no_NL [OF assms(1)]] getlines_concat [OF manifest_lines_no_NL [OF assms(2)]]
    unfolding canonical_manifest_def by metis
  moreover have "length (manifest_head m) = length (manifest_head m')" by (simp add: manifest_head_def)
  ultimately show "normal_manifest m = normal_manifest m'" by (intro manifest_fields_inj) simp_all
next
  assume "normal_manifest m = normal_manifest m'"
  then show "canonical_manifest m = canonical_manifest m'" by (metis canonical_normal)
qed

definition demo_manifest :: "string \<Rightarrow> string \<Rightarrow> string \<Rightarrow> slot_manifest" where
  "demo_manifest slot_name display entry = \<lparr>mf_schema_version = 1, mf_slot_name = slot_name, mf_display_name = display,
     mf_version = ''1'', mf_kind = SLK_Tool, mf_transport = STR_InProcess, mf_entrypoint = entry,
     mf_capabilities = [SC_GenericTool], mf_allowed_layers = [RL_Application], mf_required_permissions = [],
     mf_max_payload_bytes = 64, mf_enabled = True, mf_tags = []\<rparr>"

text \<open>A newline in a display name or a version breaks this: two different valid manifests share an id.\<close>

lemma manifest_text_is_ambiguous:
  "\<exists>m m'. validate_manifest m = [] \<and> validate_manifest m' = [] \<and> mf_version m \<noteq> mf_version m' \<and>
     normal_manifest m \<noteq> normal_manifest m' \<and> manifest_immutable_id m = manifest_immutable_id m'"
proof -
  let ?m = "(demo_manifest ''s'' (''a'' @ NL # ''b'') ''e'')\<lparr>mf_version := ''c''\<rparr>"
  let ?n = "(demo_manifest ''s'' ''a'' ''e'')\<lparr>mf_version := ''b'' @ NL # ''c''\<rparr>"
  have "canonical_manifest ?m = canonical_manifest ?n"
    by (simp add: canonical_manifest_def manifest_head_def manifest_items_def demo_manifest_def)
  then show ?thesis
    by (intro exI [of _ ?m] exI [of _ ?n])
      (simp add: validate_manifest_def demo_manifest_def manifest_immutable_id_def normal_manifest_def)
qed

end
