(* ===== verification/Policy_Engine.thy ===== *)
theory Policy_Engine
  imports Runtime_Identity_Safety Clubhouse
begin

text \<open>
  \<open>DeclarativePolicyEngine\<close> (\<open>include/guff/policy_engine.hpp\<close>, \<open>src/policy_engine.cpp\<close>): rules,
  documents and their canonical text, the risk of an operation, and \<open>evaluate\<close>.

  The priority of a rule is an \<open>int\<close> that is only compared and printed.
\<close>

section \<open>Data\<close>

datatype policy_decision = PD_Allow | PD_Refuse | PD_HumanReview

datatype policy_risk = PR_Low | PR_Moderate | PR_High | PR_Critical

datatype policy_authority_level =
  PA_None | PA_SignedReceipt | PA_DurableReceipt | PA_DelegatedReceipt | PA_SessionKey | PA_RuntimeLease
| PA_AttestedRuntimeLease

datatype policy_status =
  PS_Decided | PS_InvalidPolicy | PS_InvalidRequest | PS_IdentityRejected | PS_AuthorityRejected
| PS_BudgetExceeded | PS_PolicyInactive

record policy_operation =
  po_subject_id :: string
  po_slot_id :: string
  po_capability :: slot_capability
  po_layer :: reality_layer
  po_destructive :: bool
  po_persistent :: bool
  po_external_side_effect :: bool
  po_requires_identity :: bool
  po_requires_authority :: bool
  po_uncertainty :: float64

record policy_authority_facts =
  pf_level :: policy_authority_level
  pf_validated :: bool
  pf_scope_matches :: bool
  pf_capability_matches :: bool
  pf_runtime_binding_matches :: bool
  pf_authority_id :: string

record policy_rule =
  pr_schema_version :: u32
  pr_rule_name :: string
  pr_priority :: int
  pr_effect :: policy_decision
  pr_subject_prefix :: string
  pr_slot_id :: string
  pr_capability :: "slot_capability option"
  pr_layer :: "reality_layer option"
  pr_destructive :: "bool option"
  pr_persistent :: "bool option"
  pr_external_side_effect :: "bool option"
  pr_min_risk :: policy_risk
  pr_max_risk :: policy_risk
  pr_min_authority :: policy_authority_level
  pr_require_validated_authority :: bool
  pr_require_runtime_binding :: bool
  pr_require_active_identity :: bool
  pr_enabled :: bool
  pr_tags :: "string list"

record policy_document =
  pd_schema_version :: u32
  pd_policy_name :: string
  pd_default_decision :: policy_decision
  pd_rules :: "policy_rule list"

record policy_budget =
  pb_max_rules :: u64
  pb_max_matched_rules :: u64
  pb_max_trace_entries :: u64
  pb_max_reason_bytes :: u64

record policy_trace_entry =
  pt_code :: string
  pt_detail :: string

record policy_request =
  pq_operation :: policy_operation
  pq_authority :: policy_authority_facts
  pq_identity_evidence :: "attestation_evidence option"

record policy_result =
  pe_status :: policy_status
  pe_decision :: policy_decision
  pe_risk :: policy_risk
  pe_policy_id :: string
  pe_matched_rule_ids :: "string list"
  pe_trace :: "policy_trace_entry list"
  pe_trace_truncated :: bool
  pe_matched_truncated :: bool
  pe_reason :: string

definition pe_allowed :: "policy_result \<Rightarrow> bool" where
  "pe_allowed r \<longleftrightarrow> pe_status r = PS_Decided \<and> pe_decision r = PD_Allow"

definition default_policy_budget :: policy_budget where
  "default_policy_budget = \<lparr>pb_max_rules = 256, pb_max_matched_rules = 64, pb_max_trace_entries = 64,
     pb_max_reason_bytes = 1024\<rparr>"

section \<open>Ranks\<close>

text \<open>The enumerations are ordered as they are declared, by \<open>static_cast<int>\<close>.\<close>

fun risk_rank :: "policy_risk \<Rightarrow> nat" where
  "risk_rank PR_Low = 0"
| "risk_rank PR_Moderate = 1"
| "risk_rank PR_High = 2"
| "risk_rank PR_Critical = 3"

fun authority_rank :: "policy_authority_level \<Rightarrow> nat" where
  "authority_rank PA_None = 0"
| "authority_rank PA_SignedReceipt = 1"
| "authority_rank PA_DurableReceipt = 2"
| "authority_rank PA_DelegatedReceipt = 3"
| "authority_rank PA_SessionKey = 4"
| "authority_rank PA_RuntimeLease = 5"
| "authority_rank PA_AttestedRuntimeLease = 6"

lemma risk_rank_inj: "risk_rank a = risk_rank b \<longleftrightarrow> a = b"
  by (cases a; cases b) simp_all

lemma authority_rank_inj: "authority_rank a = authority_rank b \<longleftrightarrow> a = b"
  by (cases a; cases b) simp_all

instantiation policy_risk :: linorder
begin

definition less_eq_policy_risk :: "policy_risk \<Rightarrow> policy_risk \<Rightarrow> bool" where
  "a \<le> b \<longleftrightarrow> risk_rank a \<le> risk_rank b"

definition less_policy_risk :: "policy_risk \<Rightarrow> policy_risk \<Rightarrow> bool" where
  "a < b \<longleftrightarrow> risk_rank a < risk_rank b"

instance
  by standard (auto simp: less_eq_policy_risk_def less_policy_risk_def risk_rank_inj)

end

instantiation policy_authority_level :: linorder
begin

definition less_eq_policy_authority_level :: "policy_authority_level \<Rightarrow> policy_authority_level \<Rightarrow> bool" where
  "a \<le> b \<longleftrightarrow> authority_rank a \<le> authority_rank b"

definition less_policy_authority_level :: "policy_authority_level \<Rightarrow> policy_authority_level \<Rightarrow> bool" where
  "a < b \<longleftrightarrow> authority_rank a < authority_rank b"

instance
  by standard (auto simp: less_eq_policy_authority_level_def less_policy_authority_level_def authority_rank_inj)

end

fun decision_precedence :: "policy_decision \<Rightarrow> nat" where
  "decision_precedence PD_Refuse = 3"
| "decision_precedence PD_HumanReview = 2"
| "decision_precedence PD_Allow = 1"

section \<open>Names\<close>

fun decision_to_string :: "policy_decision \<Rightarrow> string" where
  "decision_to_string PD_Allow = ''ALLOW''"
| "decision_to_string PD_Refuse = ''REFUSE''"
| "decision_to_string PD_HumanReview = ''HUMAN_REVIEW''"

fun risk_to_string :: "policy_risk \<Rightarrow> string" where
  "risk_to_string PR_Low = ''LOW''"
| "risk_to_string PR_Moderate = ''MODERATE''"
| "risk_to_string PR_High = ''HIGH''"
| "risk_to_string PR_Critical = ''CRITICAL''"

fun authority_level_to_string :: "policy_authority_level \<Rightarrow> string" where
  "authority_level_to_string PA_None = ''NONE''"
| "authority_level_to_string PA_SignedReceipt = ''SIGNED_RECEIPT''"
| "authority_level_to_string PA_DurableReceipt = ''DURABLE_RECEIPT''"
| "authority_level_to_string PA_DelegatedReceipt = ''DELEGATED_RECEIPT''"
| "authority_level_to_string PA_SessionKey = ''SESSION_KEY''"
| "authority_level_to_string PA_RuntimeLease = ''RUNTIME_LEASE''"
| "authority_level_to_string PA_AttestedRuntimeLease = ''ATTESTED_RUNTIME_LEASE''"

fun policy_status_to_string :: "policy_status \<Rightarrow> string" where
  "policy_status_to_string PS_Decided = ''DECIDED''"
| "policy_status_to_string PS_InvalidPolicy = ''INVALID_POLICY''"
| "policy_status_to_string PS_InvalidRequest = ''INVALID_REQUEST''"
| "policy_status_to_string PS_IdentityRejected = ''IDENTITY_REJECTED''"
| "policy_status_to_string PS_AuthorityRejected = ''AUTHORITY_REJECTED''"
| "policy_status_to_string PS_BudgetExceeded = ''BUDGET_EXCEEDED''"
| "policy_status_to_string PS_PolicyInactive = ''POLICY_INACTIVE''"

section \<open>Risk\<close>

text \<open>The literal 0.40 is the nearest double.\<close>

definition uncertainty_high :: float64 where
  "uncertainty_high = Finite (3 / 4)"

definition uncertainty_moderate :: float64 where
  "uncertainty_moderate = Finite (3602879701896397 / 9007199254740992)"

fun capability_risk :: "slot_capability \<Rightarrow> policy_risk" where
  "capability_risk SC_ModelInfer = PR_Low"
| "capability_risk SC_RepositoryRead = PR_Low"
| "capability_risk SC_AudioAnalyze = PR_Low"
| "capability_risk SC_WorldObserve = PR_Low"
| "capability_risk SC_TranslateRepresentation = PR_Low"
| "capability_risk SC_CodeBuild = PR_Moderate"
| "capability_risk SC_CodeTest = PR_Moderate"
| "capability_risk SC_AudioGenerate = PR_Moderate"
| "capability_risk SC_ImageGenerate = PR_Moderate"
| "capability_risk SC_VideoRender = PR_Moderate"
| "capability_risk SC_RepositoryWrite = PR_High"
| "capability_risk SC_WorldMutate = PR_High"
| "capability_risk SC_GenericTool = PR_High"

definition classify_policy_risk :: "policy_operation \<Rightarrow> policy_risk" where
  "classify_policy_risk op =
     (let risk = capability_risk (po_capability op);
          risk = if f_geq (po_uncertainty op) uncertainty_high then max risk PR_High
                 else if f_geq (po_uncertainty op) uncertainty_moderate then max risk PR_Moderate else risk;
          risk = if po_persistent op \<or> po_external_side_effect op then max risk PR_High else risk
      in if po_destructive op then PR_Critical else risk)"

section \<open>Validation\<close>

definition is_finite :: "float64 \<Rightarrow> bool" where
  "is_finite x = (case x of Finite q \<Rightarrow> True | _ \<Rightarrow> False)"

definition printable :: "char \<Rightarrow> bool" where
  "printable c \<longleftrightarrow> 32 \<le> (of_char c :: nat) \<and> (of_char c :: nat) \<noteq> 127"

definition valid_text :: "string \<Rightarrow> nat \<Rightarrow> bool" where
  "valid_text v limit \<longleftrightarrow> v \<noteq> [] \<and> length v \<le> limit \<and> list_all printable v"

definition valid_optional_text :: "string \<Rightarrow> nat \<Rightarrow> bool" where
  "valid_optional_text v limit \<longleftrightarrow> v = [] \<or> valid_text v limit"

definition allows_everything :: "policy_rule \<Rightarrow> bool" where
  "allows_everything r \<longleftrightarrow>
     pr_effect r = PD_Allow \<and> pr_subject_prefix r = [] \<and> pr_slot_id r = [] \<and> pr_capability r = None \<and>
     pr_layer r = None \<and> pr_destructive r = None \<and> pr_persistent r = None \<and> pr_external_side_effect r = None"

definition validate_rule :: "policy_rule \<Rightarrow> string list" where
  "validate_rule r =
     err (pr_schema_version r \<noteq> 1) ''policy rule schema_version must be 1'' @
     err (\<not> valid_text (pr_rule_name r) 128) ''policy rule_name must be printable and 1-128 bytes'' @
     err (\<not> valid_optional_text (pr_subject_prefix r) 256) ''policy subject_prefix is invalid'' @
     err (\<not> valid_optional_text (pr_slot_id r) 192) ''policy slot_id is invalid'' @
     err (pr_priority r < - 1000000 \<or> 1000000 < pr_priority r) ''policy priority exceeds bounded range'' @
     err (risk_rank (pr_min_risk r) > risk_rank (pr_max_risk r)) ''policy min_risk exceeds max_risk'' @
     err (allows_everything r) ''ALLOW rule must narrow at least one operation dimension'' @
     err (pr_require_runtime_binding r \<and> authority_rank (pr_min_authority r) < authority_rank PA_RuntimeLease)
       ''runtime-binding rule must require at least RUNTIME_LEASE authority'' @
     err (32 < length (pr_tags r)) ''policy rule tags exceed 32-entry ceiling'' @
     concat (map (\<lambda>tag. err (\<not> valid_text tag 64) ''policy rule tag is invalid'') (pr_tags r))"

text \<open>The loop over the rules; \<open>names\<close> are the names inserted so far.\<close>

fun validate_rules :: "string list \<Rightarrow> policy_rule list \<Rightarrow> string list" where
  "validate_rules names [] = []"
| "validate_rules names (r # rs) =
     validate_rule r @ err (pr_rule_name r \<in> set names) (''duplicate policy rule_name: '' @ pr_rule_name r) @
     validate_rules (pr_rule_name r # names) rs"

definition validate_document :: "policy_document \<Rightarrow> string list" where
  "validate_document d =
     err (pd_schema_version d \<noteq> 1) ''policy schema_version must be 1'' @
     err (\<not> valid_text (pd_policy_name d) 128) ''policy_name must be printable and 1-128 bytes'' @
     err (pd_default_decision d \<noteq> PD_Refuse) ''policy default_decision must be REFUSE'' @
     err (pd_rules d = []) ''policy must contain at least one rule'' @
     validate_rules [] (pd_rules d)"

section \<open>Canonical text\<close>

definition kPolicyPrefix :: string where "kPolicyPrefix = ''guff:policy:sha256:''"
definition kRulePrefix :: string where "kRulePrefix = ''guff:policy-rule:sha256:''"

definition bool_token :: "bool \<Rightarrow> string" where
  "bool_token b = (if b then ''1'' else ''0'')"

definition optional_token :: "('a \<Rightarrow> string) \<Rightarrow> 'a option \<Rightarrow> string" where
  "optional_token f v = (case v of None \<Rightarrow> ''*'' | Some x \<Rightarrow> f x)"

definition canonical_tags :: "string list \<Rightarrow> string list" where
  "canonical_tags tags = remdups_adj (sort tags)"

text \<open>\<open>size() << ':' << text << '\n'\<close>, for tags and for rules.\<close>

definition sized :: "string \<Rightarrow> string" where
  "sized s = nat_digits (length s) @ CHR '':'' # s @ [NL]"

definition canonical_policy_rule :: "policy_rule \<Rightarrow> string" where
  "canonical_policy_rule r =
     concat (map (\<lambda>l. l @ [NL])
       [show_u (pr_schema_version r), pr_rule_name r, show_int (pr_priority r), decision_to_string (pr_effect r),
        pr_subject_prefix r, pr_slot_id r, optional_token capability_to_string (pr_capability r),
        optional_token layer_to_string (pr_layer r), optional_token bool_token (pr_destructive r),
        optional_token bool_token (pr_persistent r), optional_token bool_token (pr_external_side_effect r),
        risk_to_string (pr_min_risk r), risk_to_string (pr_max_risk r),
        authority_level_to_string (pr_min_authority r), bool_token (pr_require_validated_authority r),
        bool_token (pr_require_runtime_binding r), bool_token (pr_require_active_identity r),
        bool_token (pr_enabled r)]) @
     nat_digits (length (canonical_tags (pr_tags r))) @ [NL] @ concat (map sized (canonical_tags (pr_tags r)))"

definition rule_id :: "policy_rule \<Rightarrow> string" where
  "rule_id r = kRulePrefix @ sha256 (canonical_policy_rule r)"

definition canonical_payload :: "policy_document \<Rightarrow> string" where
  "canonical_payload d =
     (let rules_canonical = sort (map canonical_policy_rule (pd_rules d)) in
      show_u (pd_schema_version d) @ [NL] @ pd_policy_name d @ [NL] @ decision_to_string (pd_default_decision d) @ [NL] @
      nat_digits (length rules_canonical) @ [NL] @ concat (map sized rules_canonical))"

definition document_id :: "policy_document \<Rightarrow> string" where
  "document_id d = kPolicyPrefix @ sha256 (canonical_payload d)"

section \<open>Evaluation\<close>

text \<open>\<open>if (rule.x && operation.x != *rule.x) return false\<close>\<close>

definition option_matches :: "'a option \<Rightarrow> 'a \<Rightarrow> bool" where
  "option_matches wanted v = (case wanted of None \<Rightarrow> True | Some x \<Rightarrow> v = x)"

definition rule_matches :: "policy_rule \<Rightarrow> policy_request \<Rightarrow> policy_risk \<Rightarrow> identity_store \<Rightarrow> bool" where
  "rule_matches r q risk S \<longleftrightarrow>
     (let op = pq_operation q; f = pq_authority q in
      pr_enabled r \<and>
      (pr_subject_prefix r = [] \<or> take (length (pr_subject_prefix r)) (po_subject_id op) = pr_subject_prefix r) \<and>
      (pr_slot_id r = [] \<or> po_slot_id op = pr_slot_id r) \<and>
      option_matches (pr_capability r) (po_capability op) \<and>
      option_matches (pr_layer r) (po_layer op) \<and>
      option_matches (pr_destructive r) (po_destructive op) \<and>
      option_matches (pr_persistent r) (po_persistent op) \<and>
      option_matches (pr_external_side_effect r) (po_external_side_effect op) \<and>
      \<not> (risk_rank risk < risk_rank (pr_min_risk r) \<or> risk_rank risk > risk_rank (pr_max_risk r)) \<and>
      \<not> authority_rank (pf_level f) < authority_rank (pr_min_authority r) \<and>
      (pr_require_validated_authority r \<longrightarrow> pf_validated f) \<and>
      (pr_require_runtime_binding r \<longrightarrow> pf_runtime_binding_matches f) \<and>
      (pr_require_active_identity r \<longrightarrow>
         (case pq_identity_evidence q of None \<Rightarrow> False | Some e \<Rightarrow> identity_active e S)))"

text \<open>\<open>resize\<close> of a longer string.\<close>

definition clip :: "policy_budget \<Rightarrow> string \<Rightarrow> string" where
  "clip B s = (if unat (pb_max_reason_bytes B) < length s then take (unat (pb_max_reason_bytes B)) s else s)"

definition append_trace :: "policy_budget \<Rightarrow> string \<Rightarrow> string \<Rightarrow> policy_result \<Rightarrow> policy_result" where
  "append_trace B code detail r =
     (if unat (pb_max_trace_entries B) \<le> length (pe_trace r) then r\<lparr>pe_trace_truncated := True\<rparr>
      else r\<lparr>pe_trace := pe_trace r @ [\<lparr>pt_code = code, pt_detail = clip B detail\<rparr>]\<rparr>)"

definition rejected :: "policy_status \<Rightarrow> policy_risk \<Rightarrow> string \<Rightarrow> string \<Rightarrow> policy_budget \<Rightarrow> policy_result" where
  "rejected status risk policy reason B =
     append_trace B ''REFUSE'' (clip B reason)
       \<lparr>pe_status = status, pe_decision = PD_Refuse, pe_risk = risk, pe_policy_id = policy,
        pe_matched_rule_ids = [], pe_trace = [], pe_trace_truncated = False, pe_matched_truncated = False,
        pe_reason = clip B reason\<rparr>"

text \<open>
  The winning rule so far; \<open>winning_precedence\<close> and \<open>winning_priority\<close> are always those of
  \<open>winning\<close>.
\<close>

definition beats :: "policy_rule \<Rightarrow> policy_rule option \<Rightarrow> bool" where
  "beats r winning =
     (case winning of None \<Rightarrow> True
      | Some w \<Rightarrow>
          let p = decision_precedence (pr_effect r); wp = decision_precedence (pr_effect w) in
          p > wp \<or> (p = wp \<and> pr_priority r > pr_priority w) \<or>
          (p = wp \<and> pr_priority r = pr_priority w \<and> rule_id r < rule_id w))"

definition note_match :: "policy_budget \<Rightarrow> policy_rule \<Rightarrow> policy_result \<Rightarrow> policy_result" where
  "note_match B r res =
     append_trace B ''MATCH'' (pr_rule_name r @ '' => '' @ decision_to_string (pr_effect r))
       (if length (pe_matched_rule_ids res) < unat (pb_max_matched_rules B)
        then res\<lparr>pe_matched_rule_ids := pe_matched_rule_ids res @ [rule_id r]\<rparr>
        else res\<lparr>pe_matched_truncated := True\<rparr>)"

definition consider_rule ::
    "policy_request \<Rightarrow> policy_risk \<Rightarrow> identity_store \<Rightarrow> policy_budget \<Rightarrow> policy_rule \<Rightarrow>
     policy_result \<times> policy_rule option \<Rightarrow> policy_result \<times> policy_rule option" where
  "consider_rule q risk S B r st =
     (case st of (res, winning) \<Rightarrow>
        if \<not> rule_matches r q risk S then (res, winning)
        else (note_match B r res, if beats r winning then Some r else winning))"

definition zero_ceiling :: "policy_budget \<Rightarrow> bool" where
  "zero_ceiling B \<longleftrightarrow> pb_max_rules B = 0 \<or> pb_max_matched_rules B = 0 \<or> pb_max_trace_entries B = 0 \<or>
     pb_max_reason_bytes B = 0"

definition operation_malformed :: "policy_operation \<Rightarrow> bool" where
  "operation_malformed op \<longleftrightarrow>
     \<not> valid_text (po_subject_id op) 256 \<or> \<not> valid_text (po_slot_id op) 192 \<or>
     \<not> is_finite (po_uncertainty op) \<or> f_less (po_uncertainty op) (Finite 0) \<or>
     f_less (Finite 1) (po_uncertainty op)"

definition identity_rejection :: "policy_request \<Rightarrow> identity_store \<Rightarrow> string option" where
  "identity_rejection q S =
     (let op = pq_operation q in
      case pq_identity_evidence q of
        None \<Rightarrow> Some ''required runtime identity evidence is missing or invalid''
      | Some e \<Rightarrow>
          if \<not> validate_runtime_attestation_identity e
          then Some ''required runtime identity evidence is missing or invalid''
          else if rb_slot_id (ev_binding e) \<noteq> po_slot_id op \<or> rb_layer (ev_binding e) \<noteq> po_layer op
          then Some ''runtime identity evidence does not match operation slot/STRATA''
          else if \<not> identity_active e S then Some ''runtime device/image/process identity is not active''
          else None)"

definition authority_rejection :: "policy_authority_facts \<Rightarrow> string option" where
  "authority_rejection f =
     (if \<not> pf_validated f \<or> pf_level f = PA_None \<or> \<not> pf_scope_matches f \<or> \<not> pf_capability_matches f \<or>
         pf_authority_id f = []
      then Some ''required authority facts are incomplete or rejected''
      else if authority_rank (pf_level f) \<ge> authority_rank PA_RuntimeLease \<and> \<not> pf_runtime_binding_matches f
      then Some ''runtime authority is not bound to the current runtime coordinates''
      else None)"

text \<open>The rejections before any rule is looked at, in order.\<close>

definition early_rejection ::
    "policy_document \<Rightarrow> policy_budget \<Rightarrow> policy_request \<Rightarrow> identity_store \<Rightarrow> (policy_status \<times> string) option" where
  "early_rejection d B q S =
     (if zero_ceiling B then Some (PS_BudgetExceeded, ''policy evaluation budget contains a zero ceiling'')
      else if validate_document d \<noteq> [] then Some (PS_InvalidPolicy, hd (validate_document d))
      else if unat (pb_max_rules B) < length (pd_rules d)
      then Some (PS_BudgetExceeded, ''policy rule count exceeds evaluation ceiling'')
      else if operation_malformed (pq_operation q) then Some (PS_InvalidRequest, ''policy operation is malformed'')
      else case (if po_requires_identity (pq_operation q) then identity_rejection q S else None) of
        Some reason \<Rightarrow> Some (PS_IdentityRejected, reason)
      | None \<Rightarrow>
          (case (if po_requires_authority (pq_operation q) then authority_rejection (pq_authority q) else None) of
             Some reason \<Rightarrow> Some (PS_AuthorityRejected, reason)
           | None \<Rightarrow> None))"

definition default_deny_reason :: string where
  "default_deny_reason = ''no policy rule matched; default deny''"

definition evaluate ::
    "policy_document \<Rightarrow> policy_budget \<Rightarrow> identity_store \<Rightarrow> policy_request \<Rightarrow> policy_result" where
  "evaluate d B S q =
     (let risk = classify_policy_risk (pq_operation q); policy_id = document_id d in
      case early_rejection d B q S of
        Some (status, reason) \<Rightarrow> rejected status risk policy_id reason B
      | None \<Rightarrow>
          let result = append_trace B ''RISK'' (risk_to_string risk)
                \<lparr>pe_status = PS_Decided, pe_decision = pd_default_decision d, pe_risk = risk,
                 pe_policy_id = policy_id, pe_matched_rule_ids = [], pe_trace = [], pe_trace_truncated = False,
                 pe_matched_truncated = False, pe_reason = []\<rparr>
          in case fold (consider_rule q risk S B) (pd_rules d) (result, None) of
               (res, None) \<Rightarrow>
                 append_trace B ''DEFAULT'' default_deny_reason
                   (res\<lparr>pe_decision := PD_Refuse, pe_reason := default_deny_reason\<rparr>)
             | (res, Some w) \<Rightarrow>
                 let reason = clip B (''policy rule '' @ pr_rule_name w @ '' selected '' @
                       decision_to_string (pr_effect w)) in
                 append_trace B ''DECISION'' reason (res\<lparr>pe_decision := pr_effect w, pe_reason := reason\<rparr>))"

end
