(* ===== verification/Policy_Safety.thy ===== *)
theory Policy_Safety
  imports Policy_Engine
begin

text \<open>
  What the policy engine decides: the combination of the matching rules by deny-overrides, after
  the checks on policy, operation, identity and authority; independent of the order of the
  rules; with an explanation of bounded size and an id that binds the whole document.
\<close>

section \<open>Validation\<close>

lemma validate_rules_Nil:
  "validate_rules names rs = [] \<longleftrightarrow>
   (\<forall>r \<in> set rs. validate_rule r = []) \<and> distinct (map pr_rule_name rs) \<and> set names \<inter> set (map pr_rule_name rs) = {}"
  by (induction rs arbitrary: names) auto

lemma validate_document_Nil:
  "validate_document d = [] \<longleftrightarrow>
   pd_schema_version d = 1 \<and> valid_text (pd_policy_name d) 128 \<and> pd_default_decision d = PD_Refuse \<and>
   pd_rules d \<noteq> [] \<and> (\<forall>r \<in> set (pd_rules d). validate_rule r = []) \<and> distinct (map pr_rule_name (pd_rules d))"
  by (auto simp: validate_document_def validate_rules_Nil)

lemma validate_rule_Nil:
  assumes "validate_rule r = []"
  shows "pr_schema_version r = 1" "valid_text (pr_rule_name r) 128" "valid_optional_text (pr_subject_prefix r) 256"
    "valid_optional_text (pr_slot_id r) 192" "\<not> allows_everything r" "\<forall>t \<in> set (pr_tags r). valid_text t 64"
  using assms by (auto simp: validate_rule_def concat_eq_Nil_conv)

section \<open>The loop over the rules\<close>

definition pick :: "policy_rule \<Rightarrow> policy_rule option \<Rightarrow> policy_rule option" where
  "pick r w = (if beats r w then Some r else w)"

lemma loop_split:
  "fold (consider_rule q risk S B) rs (res, w) =
   (fold (note_match B) (filter (\<lambda>r. rule_matches r q risk S) rs) res,
    fold pick (filter (\<lambda>r. rule_matches r q risk S) rs) w)"
  by (induction rs arbitrary: res w) (simp_all add: consider_rule_def pick_def)

text \<open>The order of the rules: \<open>better a b\<close> when \<open>a\<close> replaces the winner \<open>b\<close>.\<close>

definition better :: "policy_rule \<Rightarrow> policy_rule \<Rightarrow> bool" where
  "better a b \<longleftrightarrow> beats a (Some b)"

lemma better_iff:
  "better a b \<longleftrightarrow>
   decision_precedence (pr_effect b) < decision_precedence (pr_effect a) \<or>
   (decision_precedence (pr_effect a) = decision_precedence (pr_effect b) \<and>
     (pr_priority b < pr_priority a \<or> (pr_priority a = pr_priority b \<and> rule_id a < rule_id b)))"
  by (auto simp: better_def beats_def Let_def)

lemma not_better_trans: "\<not> better a b \<Longrightarrow> \<not> better b c \<Longrightarrow> \<not> better a c"
  unfolding better_iff by (metis less_asym less_trans linorder_cases)

lemma better_asym: "better a b \<Longrightarrow> \<not> better b a"
  unfolding better_iff by auto

lemma pick_Some: "pick r (Some w) = Some (if better r w then r else w)" "pick r None = Some r"
  by (simp_all add: pick_def better_def) (simp add: beats_def)

lemma fold_pick_Some:
  "\<exists>w'. fold pick rs (Some w) = Some w' \<and> w' \<in> insert w (set rs) \<and> (\<forall>r \<in> insert w (set rs). \<not> better r w')"
proof (induction rs arbitrary: w)
  case Nil
  then show ?case by (auto dest: better_asym)
next
  case (Cons r rs)
  let ?v = "if better r w then r else w"
  obtain w' where w': "fold pick rs (Some ?v) = Some w'" "w' \<in> insert ?v (set rs)"
    "\<forall>x \<in> insert ?v (set rs). \<not> better x w'"
    using Cons.IH [of ?v] by blast
  have "\<not> better w ?v" "\<not> better r ?v" by (auto dest: better_asym)
  moreover have "\<not> better ?v w'" using w'(3) by simp
  ultimately have "\<not> better w w'" "\<not> better r w'" using not_better_trans [of w ?v w'] not_better_trans [of r ?v w'] by simp_all
  with w' show ?case by (auto simp: pick_Some split: if_splits)
qed

text \<open>The winner is one of the rules and none of them is better.\<close>

lemma fold_pick:
  assumes "fold pick rs None = w"
  shows "w = None \<longleftrightarrow> rs = []" "w = Some r \<Longrightarrow> r \<in> set rs \<and> (\<forall>x \<in> set rs. \<not> better x r)"
proof -
  have "rs = [] \<or> (\<exists>x xs. rs = x # xs)" by (cases rs) simp_all
  then show "w = None \<longleftrightarrow> rs = []" "w = Some r \<Longrightarrow> r \<in> set rs \<and> (\<forall>x \<in> set rs. \<not> better x r)"
    using assms fold_pick_Some [of "tl rs" "hd rs"] by (auto simp: pick_Some)
qed

section \<open>The abstract specification\<close>

text \<open>Deny-overrides: what a set of matching effects amounts to.\<close>

definition deny_overrides :: "policy_decision set \<Rightarrow> policy_decision" where
  "deny_overrides D =
     (if D = {} \<or> PD_Refuse \<in> D then PD_Refuse else if PD_HumanReview \<in> D then PD_HumanReview else PD_Allow)"

definition matching_rules :: "policy_document \<Rightarrow> identity_store \<Rightarrow> policy_request \<Rightarrow> policy_rule list" where
  "matching_rules d S q = filter (\<lambda>r. rule_matches r q (classify_policy_risk (pq_operation q)) S) (pd_rules d)"

lemma precedence_le_iff:
  "decision_precedence a \<le> decision_precedence b \<longleftrightarrow>
   a = PD_Allow \<or> b = PD_Refuse \<or> (a = PD_HumanReview \<and> b = PD_HumanReview)"
  by (cases a; cases b) simp_all

lemma deny_overrides_max:
  "e \<in> D \<Longrightarrow> \<forall>y \<in> D. decision_precedence y \<le> decision_precedence e \<Longrightarrow> deny_overrides D = e"
  by (cases e) (auto simp: deny_overrides_def precedence_le_iff)

lemma winner_effect:
  assumes "fold pick rs None = w"
  shows "(case w of None \<Rightarrow> PD_Refuse | Some r \<Rightarrow> pr_effect r) = deny_overrides (pr_effect ` set rs)"
proof (cases w)
  case None
  with fold_pick(1) [OF assms] show ?thesis by (simp add: deny_overrides_def)
next
  case (Some r)
  with fold_pick(2) [OF assms] have r: "r \<in> set rs" "\<forall>x \<in> set rs. \<not> better x r" by simp_all
  then have "\<forall>x \<in> set rs. decision_precedence (pr_effect x) \<le> decision_precedence (pr_effect r)"
    by (auto simp: better_iff not_less)
  with deny_overrides_max [of "pr_effect r" "pr_effect ` set rs"] r(1) Some show ?thesis by simp
qed

lemma append_trace_sel [simp]:
  "pe_status (append_trace B c t r) = pe_status r" "pe_decision (append_trace B c t r) = pe_decision r"
  "pe_risk (append_trace B c t r) = pe_risk r" "pe_policy_id (append_trace B c t r) = pe_policy_id r"
  "pe_matched_rule_ids (append_trace B c t r) = pe_matched_rule_ids r"
  "pe_reason (append_trace B c t r) = pe_reason r"
  by (simp_all add: append_trace_def)

lemma note_match_sel [simp]:
  "pe_status (note_match B m r) = pe_status r" "pe_risk (note_match B m r) = pe_risk r"
  "pe_policy_id (note_match B m r) = pe_policy_id r"
  by (simp_all add: note_match_def)

lemma notes_sel [simp]:
  "pe_status (fold (note_match B) ms r) = pe_status r" "pe_risk (fold (note_match B) ms r) = pe_risk r"
  "pe_policy_id (fold (note_match B) ms r) = pe_policy_id r"
  by (induction ms arbitrary: r) simp_all

lemma rejected_sel [simp]:
  "pe_status (rejected st k i reason B) = st" "pe_decision (rejected st k i reason B) = PD_Refuse"
  "pe_risk (rejected st k i reason B) = k" "pe_policy_id (rejected st k i reason B) = i"
  "pe_reason (rejected st k i reason B) = clip B reason" "pe_matched_rule_ids (rejected st k i reason B) = []"
  by (simp_all add: rejected_def)

definition winning_rule :: "policy_document \<Rightarrow> identity_store \<Rightarrow> policy_request \<Rightarrow> policy_rule option" where
  "winning_rule d S q = fold pick (matching_rules d S q) None"

definition decided_reason :: "policy_budget \<Rightarrow> policy_rule option \<Rightarrow> string" where
  "decided_reason B w = (case w of None \<Rightarrow> default_deny_reason
     | Some r \<Rightarrow> clip B (''policy rule '' @ pr_rule_name r @ '' selected '' @ decision_to_string (pr_effect r)))"

lemma evaluate_sel:
  "pe_risk (evaluate d B S q) = classify_policy_risk (pq_operation q)"
  "pe_policy_id (evaluate d B S q) = document_id d"
  "early_rejection d B q S = Some (st, reason) \<Longrightarrow> pe_status (evaluate d B S q) = st \<and>
     pe_decision (evaluate d B S q) = PD_Refuse"
  "early_rejection d B q S = None \<Longrightarrow> pe_status (evaluate d B S q) = PS_Decided \<and>
     pe_decision (evaluate d B S q) = (case winning_rule d S q of None \<Rightarrow> PD_Refuse | Some r \<Rightarrow> pr_effect r) \<and>
     pe_reason (evaluate d B S q) = decided_reason B (winning_rule d S q)"
  by (auto simp: evaluate_def Let_def loop_split winning_rule_def matching_rules_def decided_reason_def
      split: option.splits)

lemma early_not_decided: "early_rejection d B q S = Some (st, reason) \<Longrightarrow> st \<noteq> PS_Decided"
  by (auto simp: early_rejection_def split: if_splits option.splits)

lemma allowed_early: "pe_allowed (evaluate d B S q) \<Longrightarrow> early_rejection d B q S = None"
  using evaluate_sel(3) early_not_decided unfolding pe_allowed_def by (metis not_None_eq prod.collapse)

section \<open>The explanation\<close>

definition explained_within :: "policy_budget \<Rightarrow> policy_result \<Rightarrow> bool" where
  "explained_within B r \<longleftrightarrow>
     length (pe_trace r) \<le> unat (pb_max_trace_entries B) \<and>
     (\<forall>t \<in> set (pe_trace r). length (pt_detail t) \<le> unat (pb_max_reason_bytes B)) \<and>
     length (pe_matched_rule_ids r) \<le> unat (pb_max_matched_rules B)"

lemma clip_length [simp]: "length (clip B s) \<le> unat (pb_max_reason_bytes B)"
  by (simp add: clip_def)

lemma append_explained: "explained_within B r \<Longrightarrow> explained_within B (append_trace B c t r)"
  by (auto simp: explained_within_def append_trace_def)

lemma note_explained: "explained_within B r \<Longrightarrow> explained_within B (note_match B m r)"
  unfolding note_match_def by (rule append_explained) (simp add: explained_within_def)

lemma notes_explained: "explained_within B r \<Longrightarrow> explained_within B (fold (note_match B) ms r)"
  by (induction ms arbitrary: r) (simp_all add: note_explained)

lemma explained_update [simp]:
  "explained_within B (r\<lparr>pe_decision := x, pe_reason := y\<rparr>) = explained_within B r"
  by (simp add: explained_within_def)

lemma explained_start:
  "pe_trace r = [] \<Longrightarrow> pe_matched_rule_ids r = [] \<Longrightarrow> explained_within B r"
  by (simp add: explained_within_def)

lemma explained_loop:
  "pe_trace r = [] \<Longrightarrow> pe_matched_rule_ids r = [] \<Longrightarrow>
   explained_within B (fold (note_match B) ms (append_trace B c t r))"
  by (intro notes_explained append_explained explained_start)

lemma evaluate_explained: "explained_within B (evaluate d B S q)"
  by (simp add: evaluate_def Let_def loop_split rejected_def append_explained explained_loop explained_start
      split: option.splits)

section \<open>Order of the rules\<close>

lemma early_rejection_order:
  assumes "mset rs = mset (pd_rules d)"
  shows "early_rejection (d\<lparr>pd_rules := rs\<rparr>) B q S = None \<longleftrightarrow> early_rejection d B q S = None"
    "map_option fst (early_rejection (d\<lparr>pd_rules := rs\<rparr>) B q S) = map_option fst (early_rejection d B q S)"
proof -
  have s: "set rs = set (pd_rules d)" using assms by (rule mset_eq_setD)
  have n: "rs = [] \<longleftrightarrow> pd_rules d = []" using assms by (metis mset_zero_iff)
  have l: "length rs = length (pd_rules d)" using assms by (rule mset_eq_length)
  have "distinct (map pr_rule_name rs) \<longleftrightarrow> distinct (map pr_rule_name (pd_rules d))"
    using assms by (metis mset_eq_imp_distinct_iff mset_map)
  then have "validate_document (d\<lparr>pd_rules := rs\<rparr>) = [] \<longleftrightarrow> validate_document d = []"
    by (simp add: validate_document_Nil s n)
  then show "map_option fst (early_rejection (d\<lparr>pd_rules := rs\<rparr>) B q S) = map_option fst (early_rejection d B q S)"
    by (simp add: early_rejection_def l)
  then show "early_rejection (d\<lparr>pd_rules := rs\<rparr>) B q S = None \<longleftrightarrow> early_rejection d B q S = None"
    by (metis map_option_is_None)
qed

lemma document_id_order:
  assumes "mset rs = mset (pd_rules d)"
  shows "document_id (d\<lparr>pd_rules := rs\<rparr>) = document_id d"
proof -
  have "sort (map canonical_policy_rule rs) = sort (map canonical_policy_rule (pd_rules d))"
    by (rule properties_for_sort) (simp_all add: assms)
  then show ?thesis by (simp add: document_id_def canonical_payload_def Let_def)
qed

lemma printable_no_NL: "list_all printable s \<Longrightarrow> NL \<notin> set s"
  by (auto simp: list_all_iff printable_def)

lemma valid_text_no_NL: "valid_text s n \<Longrightarrow> NL \<notin> set s" "valid_optional_text s n \<Longrightarrow> NL \<notin> set s"
  by (auto simp: valid_text_def valid_optional_text_def dest: printable_no_NL)

lemma canonical_rule_name:
  assumes "validate_rule r = []" "validate_rule r' = []" "canonical_policy_rule r = canonical_policy_rule r'"
  shows "pr_rule_name r = pr_rule_name r'"
proof -
  note v = validate_rule_Nil [OF assms(1)] and v' = validate_rule_Nil [OF assms(2)]
  have "\<exists>rest. canonical_policy_rule x = show_u (pr_schema_version x) @ [NL] @ pr_rule_name x @ NL # rest" for x
    by (simp add: canonical_policy_rule_def)
  then obtain a b where "pr_rule_name r @ NL # a = pr_rule_name r' @ NL # b"
    using assms(3) v(1) v'(1) by (metis append_assoc same_append_eq)
  with valid_text_no_NL(1) [OF v(2)] valid_text_no_NL(1) [OF v'(2)] show ?thesis
    by (metis takeWhile_neq_none)
qed

definition rule_collision :: "policy_rule list \<Rightarrow> bool" where
  "rule_collision rs \<longleftrightarrow> (\<exists>a \<in> set rs. \<exists>b \<in> set rs. sha256_collision (canonical_policy_rule a) (canonical_policy_rule b))"

lemma winner_order:
  assumes "mset rs = mset (pd_rules d)" "validate_document d = []"
  shows "winning_rule (d\<lparr>pd_rules := rs\<rparr>) S q = winning_rule d S q \<or> rule_collision (pd_rules d)"
proof -
  let ?ms = "matching_rules d S q" and ?ms' = "matching_rules (d\<lparr>pd_rules := rs\<rparr>) S q"
  have set: "set ?ms' = set ?ms" using mset_eq_setD [OF assms(1)] by (simp add: matching_rules_def)
  note W = fold_pick [OF winning_rule_def [of d S q, symmetric]]
  note W' = fold_pick [OF winning_rule_def [of "d\<lparr>pd_rules := rs\<rparr>" S q, symmetric]]
  show ?thesis
  proof (cases "winning_rule d S q")
    case None
    with W(1) set have "?ms' = []" by simp
    with W'(1) None show ?thesis by simp
  next
    case (Some w)
    with W(1) set obtain w' where w': "winning_rule (d\<lparr>pd_rules := rs\<rparr>) S q = Some w'"
      using W'(1) by (cases "winning_rule (d\<lparr>pd_rules := rs\<rparr>) S q") auto
    have w: "w \<in> set ?ms" "\<not> better w' w" "w' \<in> set ?ms" "\<not> better w w'"
      using W(2) [OF Some] W'(2) [OF w'] set by blast+
    then have id: "rule_id w = rule_id w'" unfolding better_iff by (metis linorder_cases)
    have m: "w \<in> set (pd_rules d)" "w' \<in> set (pd_rules d)" using w(1,3) by (simp_all add: matching_rules_def)
    show ?thesis
    proof (cases "w = w'")
      case True
      with Some w' show ?thesis by simp
    next
      case False
      note v = assms(2) [unfolded validate_document_Nil]
      from v m False have "pr_rule_name w \<noteq> pr_rule_name w'" by (auto simp: distinct_map dest: inj_onD)
      with canonical_rule_name [of w w'] v m have "canonical_policy_rule w \<noteq> canonical_policy_rule w'" by blast
      with id m show ?thesis by (auto simp: rule_collision_def sha256_collision_def rule_id_def)
    qed
  qed
qed

section \<open>The id binds the document\<close>

lemma sized_append_inj:
  assumes "sized s @ xs = sized t @ ys"
  shows "s = t \<and> xs = ys"
proof -
  have e: "nat_digits (length s) @ CHR '':'' # s @ NL # xs = nat_digits (length t) @ CHR '':'' # t @ NL # ys"
    using assms by (simp add: sized_def)
  have "nat_digits (length s) = nat_digits (length t)"
    using takeWhile_neq_none [OF nat_digits_no_colon(1)] e by metis
  then have "length s = length t" by (simp add: nat_digits_inj)
  with e show ?thesis by simp
qed

lemma concat_sized_inj: "concat (map sized xs) = concat (map sized ys) \<Longrightarrow> xs = ys"
proof (induction xs arbitrary: ys)
  case Nil
  then show ?case by (cases ys) (simp_all add: sized_def)
next
  case (Cons x xs)
  then obtain y ys' where "ys = y # ys'" by (cases ys) (simp_all add: sized_def)
  with Cons sized_append_inj [of x "concat (map sized xs)" y "concat (map sized ys')"] show ?case by simp
qed

definition rule_head :: "policy_rule \<Rightarrow> string list" where
  "rule_head r =
     [show_u (pr_schema_version r), pr_rule_name r, show_int (pr_priority r), decision_to_string (pr_effect r),
      pr_subject_prefix r, pr_slot_id r, optional_token capability_to_string (pr_capability r),
      optional_token layer_to_string (pr_layer r), optional_token bool_token (pr_destructive r),
      optional_token bool_token (pr_persistent r), optional_token bool_token (pr_external_side_effect r),
      risk_to_string (pr_min_risk r), risk_to_string (pr_max_risk r),
      authority_level_to_string (pr_min_authority r), bool_token (pr_require_validated_authority r),
      bool_token (pr_require_runtime_binding r), bool_token (pr_require_active_identity r),
      bool_token (pr_enabled r)]"

lemma names_inj:
  "capability_to_string c = capability_to_string c' \<longleftrightarrow> c = c'" "layer_to_string l = layer_to_string l' \<longleftrightarrow> l = l'"
  "decision_to_string e = decision_to_string e' \<longleftrightarrow> e = e'" "risk_to_string k = risk_to_string k' \<longleftrightarrow> k = k'"
  "authority_level_to_string a = authority_level_to_string a' \<longleftrightarrow> a = a'" "bool_token b = bool_token b' \<longleftrightarrow> b = b'"
proof -
  show "capability_to_string c = capability_to_string c' \<longleftrightarrow> c = c'" by (cases c; cases c') simp_all
  show "layer_to_string l = layer_to_string l' \<longleftrightarrow> l = l'" by (cases l; cases l') simp_all
  show "decision_to_string e = decision_to_string e' \<longleftrightarrow> e = e'" by (cases e; cases e') simp_all
  show "risk_to_string k = risk_to_string k' \<longleftrightarrow> k = k'" by (cases k; cases k') simp_all
  show "authority_level_to_string a = authority_level_to_string a' \<longleftrightarrow> a = a'" by (cases a; cases a') simp_all
  show "bool_token b = bool_token b' \<longleftrightarrow> b = b'" by (simp add: bool_token_def)
qed

text \<open>No name is the wild card, and none holds a separator.\<close>

lemma names_plain [simp]:
  "capability_to_string c \<noteq> ''*''" "layer_to_string l \<noteq> ''*''" "bool_token b \<noteq> ''*''"
  "NL \<notin> set (capability_to_string c)" "NL \<notin> set (layer_to_string l)" "NL \<notin> set (bool_token b)"
  "NL \<notin> set (decision_to_string e)" "NL \<notin> set (risk_to_string k)" "NL \<notin> set (authority_level_to_string a)"
  "NL \<notin> set (show_int n)"
proof -
  show "capability_to_string c \<noteq> ''*''" "NL \<notin> set (capability_to_string c)" by (cases c; simp)+
  show "layer_to_string l \<noteq> ''*''" "NL \<notin> set (layer_to_string l)" by (cases l; simp)+
  show "bool_token b \<noteq> ''*''" "NL \<notin> set (bool_token b)" by (simp_all add: bool_token_def)
  show "NL \<notin> set (decision_to_string e)" by (cases e) simp_all
  show "NL \<notin> set (risk_to_string k)" by (cases k) simp_all
  show "NL \<notin> set (authority_level_to_string a)" by (cases a) simp_all
  show "NL \<notin> set (show_int n)" by (simp add: show_int_def nat_digits_no_colon)
qed

lemma optional_token_inj:
  assumes "\<And>x y. f x = f y \<longleftrightarrow> x = y" "\<And>x. f x \<noteq> ''*''"
  shows "optional_token f v = optional_token f w \<longleftrightarrow> v = w"
  using assms(1) assms(2) assms(2) [symmetric] by (auto simp: optional_token_def split: option.splits)

lemma optional_token_no_NL [simp]: "(\<And>x. NL \<notin> set (f x)) \<Longrightarrow> NL \<notin> set (optional_token f v)"
  by (simp add: optional_token_def split: option.splits)

definition tag_line :: "string \<Rightarrow> string" where
  "tag_line t = nat_digits (length t) @ CHR '':'' # t"

definition rule_lines :: "policy_rule \<Rightarrow> string list" where
  "rule_lines r = rule_head r @ nat_digits (length (canonical_tags (pr_tags r))) # map tag_line (canonical_tags (pr_tags r))"

lemma canonical_rule_lines: "canonical_policy_rule r = concat (map (\<lambda>l. l @ [NL]) (rule_lines r))"
proof -
  have "sized = (\<lambda>t. tag_line t @ [NL])" by (rule ext) (simp add: sized_def tag_line_def)
  then show ?thesis by (simp add: canonical_policy_rule_def rule_lines_def rule_head_def comp_def)
qed

lemma canonical_tags_set [simp]: "set (canonical_tags ts) = set ts"
  by (simp add: canonical_tags_def)

lemma rule_lines_no_NL:
  assumes "validate_rule r = []"
  shows "\<forall>l \<in> set (rule_lines r). NL \<notin> set l"
proof -
  note v = validate_rule_Nil [OF assms]
  have "\<forall>t \<in> set (pr_tags r). NL \<notin> set (tag_line t)"
    using v(6) by (auto simp: tag_line_def nat_digits_no_colon dest: valid_text_no_NL)
  with valid_text_no_NL(1) [OF v(2)] valid_text_no_NL(2) [OF v(3)] valid_text_no_NL(2) [OF v(4)] show ?thesis
    by (auto simp: rule_lines_def rule_head_def nat_digits_no_colon)
qed

lemma tag_line_inj: "tag_line s = tag_line t \<Longrightarrow> s = t"
  using sized_append_inj [of s "[]" t "[]"] by (simp add: sized_def tag_line_def)

text \<open>What a rule means, tags up to order and repetition.\<close>

definition normal_rule :: "policy_rule \<Rightarrow> policy_rule" where
  "normal_rule r = r\<lparr>pr_tags := canonical_tags (pr_tags r)\<rparr>"

lemma canonical_rule_inj:
  assumes "validate_rule r = []" "validate_rule r' = []" "canonical_policy_rule r = canonical_policy_rule r'"
  shows "normal_rule r = normal_rule r'"
proof -
  have "getlines (canonical_policy_rule r) = rule_lines r" "getlines (canonical_policy_rule r') = rule_lines r'"
    unfolding canonical_rule_lines by (intro getlines_concat rule_lines_no_NL assms(1,2))+
  then have "rule_lines r = rule_lines r'" using assms(3) by metis
  moreover have "length (rule_head r) = length (rule_head r')" by (simp add: rule_head_def)
  ultimately have h: "rule_head r = rule_head r'"
    and t: "map tag_line (canonical_tags (pr_tags r)) = map tag_line (canonical_tags (pr_tags r'))"
    by (simp_all add: rule_lines_def)
  have "inj tag_line" by (rule injI) (rule tag_line_inj)
  with t have "canonical_tags (pr_tags r) = canonical_tags (pr_tags r')" by (simp add: inj_map_eq_map)
  with h show ?thesis
    by (intro policy_rule.equality)
      (simp_all add: rule_head_def normal_rule_def show_int_inj names_inj optional_token_inj)
qed

text \<open>A document is determined by its canonical text, up to the order of the rules.\<close>

lemma canonical_payload_inj:
  assumes "validate_document d = []" "validate_document d' = []" "canonical_payload d = canonical_payload d'"
  shows "pd_policy_name d = pd_policy_name d'"
    "mset (map normal_rule (pd_rules d)) = mset (map normal_rule (pd_rules d'))"
proof -
  note v = assms(1) [unfolded validate_document_Nil] and v' = assms(2) [unfolded validate_document_Nil]
  let ?c = "\<lambda>d. sort (map canonical_policy_rule (pd_rules d))"
  let ?t = "\<lambda>d. decision_to_string PD_Refuse @ NL # nat_digits (length (?c d)) @ NL # concat (map sized (?c d))"
  have e: "pd_policy_name d @ NL # ?t d = pd_policy_name d' @ NL # ?t d'"
    using assms(3) v v' by (simp add: canonical_payload_def Let_def)
  have n: "NL \<notin> set (pd_policy_name d)" "NL \<notin> set (pd_policy_name d')"
    using v v' valid_text_no_NL(1) by blast+
  from e n show name: "pd_policy_name d = pd_policy_name d'" by (metis takeWhile_neq_none)
  with e have t: "nat_digits (length (?c d)) @ NL # concat (map sized (?c d)) =
      nat_digits (length (?c d')) @ NL # concat (map sized (?c d'))" by simp
  then have "nat_digits (length (?c d)) = nat_digits (length (?c d'))"
    using takeWhile_neq_none [OF nat_digits_no_colon(3)] by metis
  with t have "?c d = ?c d'" by (intro concat_sized_inj) simp
  then have m: "image_mset canonical_policy_rule (mset (pd_rules d)) = image_mset canonical_policy_rule (mset (pd_rules d'))"
    by (metis mset_map mset_sort)
  have "\<exists>f. \<forall>r. validate_rule r = [] \<longrightarrow> f (canonical_policy_rule r) = normal_rule r"
    by (rule exI [of _ "\<lambda>t. normal_rule (SOME r. validate_rule r = [] \<and> canonical_policy_rule r = t)"])
      (metis (mono_tags, lifting) canonical_rule_inj someI_ex)
  then obtain f where f: "\<And>r. validate_rule r = [] \<Longrightarrow> f (canonical_policy_rule r) = normal_rule r" by blast
  have "map normal_rule (pd_rules x) = map f (map canonical_policy_rule (pd_rules x))"
    if "\<forall>r \<in> set (pd_rules x). validate_rule r = []" for x
    using that f by simp
  with v v' have "mset (map normal_rule (pd_rules d)) = image_mset f (image_mset canonical_policy_rule (mset (pd_rules d)))"
    "mset (map normal_rule (pd_rules d')) = image_mset f (image_mset canonical_policy_rule (mset (pd_rules d')))"
    by (metis mset_map)+
  with m show "mset (map normal_rule (pd_rules d)) = mset (map normal_rule (pd_rules d'))" by simp
qed

end
