(* ===== verification/Policy_Properties.thy ===== *)
theory Policy_Properties
  imports Policy_Safety
begin

text \<open>
  The properties of the policy engine: its decisions against deny-overrides, the exact condition
  for ALLOW, independence of the order of the rules, the id, the bounds of the explanation, and
  that a revoked identity is never allowed.
\<close>

section \<open>A concrete policy\<close>

definition sample_allow_rule :: policy_rule where
  "sample_allow_rule = \<lparr>pr_schema_version = 1, pr_rule_name = ''reads'', pr_priority = 5, pr_effect = PD_Allow,
     pr_subject_prefix = ''agent'', pr_slot_id = [], pr_capability = Some SC_RepositoryRead, pr_layer = None,
     pr_destructive = None, pr_persistent = None, pr_external_side_effect = None, pr_min_risk = PR_Low,
     pr_max_risk = PR_Moderate, pr_min_authority = PA_SessionKey, pr_require_validated_authority = True,
     pr_require_runtime_binding = False, pr_require_active_identity = True, pr_enabled = True, pr_tags = [''ro'']\<rparr>"

definition sample_deny_rule :: policy_rule where
  "sample_deny_rule = \<lparr>pr_schema_version = 1, pr_rule_name = ''no writes'', pr_priority = 0, pr_effect = PD_Refuse,
     pr_subject_prefix = [], pr_slot_id = [], pr_capability = Some SC_RepositoryWrite, pr_layer = None,
     pr_destructive = None, pr_persistent = None, pr_external_side_effect = None, pr_min_risk = PR_Low,
     pr_max_risk = PR_Critical, pr_min_authority = PA_None, pr_require_validated_authority = False,
     pr_require_runtime_binding = False, pr_require_active_identity = False, pr_enabled = True, pr_tags = []\<rparr>"

definition sample_policy :: policy_document where
  "sample_policy = \<lparr>pd_schema_version = 1, pd_policy_name = ''sample'', pd_default_decision = PD_Refuse,
     pd_rules = [sample_allow_rule, sample_deny_rule]\<rparr>"

definition sample_policy_request :: policy_request where
  "sample_policy_request =
     \<lparr>pq_operation = \<lparr>po_subject_id = ''agent 7'', po_slot_id = ''slot'', po_capability = SC_RepositoryRead,
        po_layer = RL_Runtime, po_destructive = False, po_persistent = False, po_external_side_effect = False,
        po_requires_identity = True, po_requires_authority = True, po_uncertainty = Finite (1 / 2)\<rparr>,
      pq_authority = \<lparr>pf_level = PA_SessionKey, pf_validated = True, pf_scope_matches = True,
        pf_capability_matches = True, pf_runtime_binding_matches = False, pf_authority_id = ''r''\<rparr>,
      pq_identity_evidence = Some sample_evidence\<rparr>"

lemma sample_rules_valid: "validate_rule sample_allow_rule = []" "validate_rule sample_deny_rule = []"
  by (simp_all add: validate_rule_def sample_allow_rule_def sample_deny_rule_def valid_text_def
      valid_optional_text_def printable_def allows_everything_def)

lemma sample_policy_valid: "validate_document sample_policy = []"
  using sample_rules_valid
  by (simp add: validate_document_Nil sample_policy_def valid_text_def printable_def)
    (simp add: sample_allow_rule_def sample_deny_rule_def)

lemma sample_request_fields [simp]:
  "po_requires_identity (pq_operation sample_policy_request)" "po_requires_authority (pq_operation sample_policy_request)"
  "pq_identity_evidence sample_policy_request = Some sample_evidence"
  "\<not> operation_malformed (pq_operation sample_policy_request)"
  "classify_policy_risk (pq_operation sample_policy_request) = PR_Moderate"
  "authority_rejection (pq_authority sample_policy_request) = None"
  by (simp_all add: sample_policy_request_def operation_malformed_def valid_text_def printable_def is_finite_def
      classify_policy_risk_def f_geq_def uncertainty_high_def uncertainty_moderate_def max_def less_eq_policy_risk_def
      authority_rejection_def)

lemma sample_identity_accepted:
  "identity_active sample_evidence S \<Longrightarrow> identity_rejection sample_policy_request S = None"
  by (simp add: identity_rejection_def Let_def sample_evidence_valid)
    (simp add: sample_policy_request_def sample_evidence_def seal_evidence_def native_evidence_def Let_def
      sample_attestation_request_def)

lemma sample_matching:
  "identity_active sample_evidence S \<Longrightarrow> matching_rules sample_policy S sample_policy_request = [sample_allow_rule]"
  by (simp add: matching_rules_def sample_policy_def rule_matches_def Let_def option_matches_def)
    (simp add: sample_allow_rule_def sample_deny_rule_def sample_policy_request_def)

lemma sample_early:
  "identity_active sample_evidence S \<Longrightarrow>
   early_rejection sample_policy default_policy_budget sample_policy_request S = None"
  by (simp add: early_rejection_def sample_identity_accepted sample_policy_valid zero_ceiling_def
      default_policy_budget_def) (simp add: sample_policy_def)

lemma sample_active_store:
  obtains S where "identity_active sample_evidence S"
proof -
  obtain S where "identity_run default_identity_budget ''identities'' [Ie_Observe (observed_of sample_evidence)] S"
    "j_healthy (is_journal S)" "j_path (is_journal S) = ''identities''"
    "is_maps S = observe_maps (observed_of sample_evidence) empty_identity_maps"
    by (rule sample_observed_run)
  with that sample_active show thesis by blast
qed

section \<open>Decisions\<close>

lemma deny_overrides_Allow: "deny_overrides D = PD_Allow \<longleftrightarrow> D \<noteq> {} \<and> (\<forall>e \<in> D. e = PD_Allow)"
proof -
  have "(\<forall>e \<in> D. e = PD_Allow) \<longleftrightarrow> PD_Refuse \<notin> D \<and> PD_HumanReview \<notin> D"
    by (metis policy_decision.distinct(1,3) policy_decision.exhaust)
  then show ?thesis by (simp add: deny_overrides_def)
qed

text \<open>
  C6. Refinement of deny-overrides.  After an early rejection the answer is that rejection and
  REFUSE.  Otherwise the scan over the rules, with its precedences, priorities and ties, decides
  what deny-overrides says of the set of effects of the matching rules: REFUSE when there is
  none or one of them refuses, else HUMAN_REVIEW when one asks for it, else ALLOW.
\<close>

theorem evaluate_refines_deny_overrides:
  "case early_rejection d B q S of
     Some (status, reason) \<Rightarrow> pe_status (evaluate d B S q) = status \<and> status \<noteq> PS_Decided \<and>
       pe_decision (evaluate d B S q) = PD_Refuse
   | None \<Rightarrow> pe_status (evaluate d B S q) = PS_Decided \<and>
       pe_decision (evaluate d B S q) = deny_overrides (pr_effect ` set (matching_rules d S q))"
proof (cases "early_rejection d B q S")
  case None
  with evaluate_sel(4) [OF None] winner_effect [OF winning_rule_def [of d S q, symmetric]] show ?thesis by simp
next
  case (Some p)
  obtain status reason where p: "p = (status, reason)" by (cases p)
  with Some evaluate_sel(3) [of d B q S status reason] early_not_decided [of d B q S status reason] show ?thesis
    by simp
qed

text \<open>
  C5. The exact condition for ALLOW.  The budget has no zero ceiling, the document validates and
  fits it, the operation is well formed; a required identity is evidence for this slot and layer
  whose device, image and process the store holds as active; required authority is validated,
  of some level, in scope, for the capability, named, and bound to the runtime from
  RUNTIME_LEASE on; some enabled rule matches, and every matching rule allows.
\<close>

theorem policy_allows_exactly:
  "pe_allowed (evaluate d B S q) \<longleftrightarrow>
   pb_max_rules B \<noteq> 0 \<and> pb_max_matched_rules B \<noteq> 0 \<and> pb_max_trace_entries B \<noteq> 0 \<and> pb_max_reason_bytes B \<noteq> 0 \<and>
   validate_document d = [] \<and> length (pd_rules d) \<le> unat (pb_max_rules B) \<and> \<not> operation_malformed (pq_operation q) \<and>
   (po_requires_identity (pq_operation q) \<longrightarrow>
      (\<exists>e. pq_identity_evidence q = Some e \<and> identity_active e S \<and>
         rb_slot_id (ev_binding e) = po_slot_id (pq_operation q) \<and> rb_layer (ev_binding e) = po_layer (pq_operation q))) \<and>
   (po_requires_authority (pq_operation q) \<longrightarrow>
      pf_validated (pq_authority q) \<and> pf_level (pq_authority q) \<noteq> PA_None \<and> pf_scope_matches (pq_authority q) \<and>
      pf_capability_matches (pq_authority q) \<and> pf_authority_id (pq_authority q) \<noteq> [] \<and>
      (PA_RuntimeLease \<le> pf_level (pq_authority q) \<longrightarrow> pf_runtime_binding_matches (pq_authority q))) \<and>
   (\<exists>r \<in> set (pd_rules d). rule_matches r q (classify_policy_risk (pq_operation q)) S) \<and>
   (\<forall>r \<in> set (pd_rules d). rule_matches r q (classify_policy_risk (pq_operation q)) S \<longrightarrow> pr_effect r = PD_Allow)"
proof -
  have active: "identity_active e S \<Longrightarrow> validate_runtime_attestation_identity e" for e
    by (simp add: identity_active_def)
  have ident: "identity_rejection q S = None \<longleftrightarrow>
      (\<exists>e. pq_identity_evidence q = Some e \<and> identity_active e S \<and>
         rb_slot_id (ev_binding e) = po_slot_id (pq_operation q) \<and> rb_layer (ev_binding e) = po_layer (pq_operation q))"
    using active by (auto simp: identity_rejection_def Let_def split: option.splits)
  have auth: "authority_rejection f = None \<longleftrightarrow> pf_validated f \<and> pf_level f \<noteq> PA_None \<and> pf_scope_matches f \<and>
      pf_capability_matches f \<and> pf_authority_id f \<noteq> [] \<and> (PA_RuntimeLease \<le> pf_level f \<longrightarrow> pf_runtime_binding_matches f)" for f
    by (auto simp: authority_rejection_def less_eq_policy_authority_level_def)
  have early: "early_rejection d B q S = None \<longleftrightarrow> \<not> zero_ceiling B \<and> validate_document d = [] \<and>
      length (pd_rules d) \<le> unat (pb_max_rules B) \<and> \<not> operation_malformed (pq_operation q) \<and>
      (po_requires_identity (pq_operation q) \<longrightarrow> identity_rejection q S = None) \<and>
      (po_requires_authority (pq_operation q) \<longrightarrow> authority_rejection (pq_authority q) = None)"
    by (cases "po_requires_identity (pq_operation q)"; cases "po_requires_authority (pq_operation q)")
      (simp_all add: early_rejection_def split: option.split)
  have "pe_allowed (evaluate d B S q) \<longleftrightarrow> early_rejection d B q S = None \<and>
      deny_overrides (pr_effect ` set (matching_rules d S q)) = PD_Allow"
  proof (cases "early_rejection d B q S")
    case None
    with evaluate_sel(4) [OF None] winner_effect [OF winning_rule_def [of d S q, symmetric]] show ?thesis
      by (simp add: pe_allowed_def)
  next
    case (Some p)
    then show ?thesis using allowed_early [of d B S q] by auto
  qed
  also have "deny_overrides (pr_effect ` set (matching_rules d S q)) = PD_Allow \<longleftrightarrow>
      (\<exists>r \<in> set (pd_rules d). rule_matches r q (classify_policy_risk (pq_operation q)) S) \<and>
      (\<forall>r \<in> set (pd_rules d). rule_matches r q (classify_policy_risk (pq_operation q)) S \<longrightarrow> pr_effect r = PD_Allow)"
    unfolding deny_overrides_Allow by (auto simp: matching_rules_def)
  finally show ?thesis unfolding early ident auth zero_ceiling_def by blast
qed

theorem policy_allows_exactly_witness:
  "\<exists>S. identity_active sample_evidence S \<and> pe_allowed (evaluate sample_policy default_policy_budget S sample_policy_request)"
proof -
  obtain S where a: "identity_active sample_evidence S" by (rule sample_active_store)
  have slot: "rb_slot_id (ev_binding sample_evidence) = po_slot_id (pq_operation sample_policy_request)"
    "rb_layer (ev_binding sample_evidence) = po_layer (pq_operation sample_policy_request)"
    by (simp_all add: sample_policy_request_def sample_evidence_def seal_evidence_def native_evidence_def Let_def
        sample_attestation_request_def)
  have m: "r \<in> set (pd_rules sample_policy) \<and> rule_matches r sample_policy_request PR_Moderate S \<longleftrightarrow> r = sample_allow_rule" for r
    using arg_cong [OF sample_matching [OF a], of "\<lambda>rs. r \<in> set rs"] by (simp add: matching_rules_def)
  have allow: "pr_effect sample_allow_rule = PD_Allow" by (simp add: sample_allow_rule_def)
  have auth: "pf_validated (pq_authority sample_policy_request) \<and> pf_level (pq_authority sample_policy_request) = PA_SessionKey \<and>
      pf_scope_matches (pq_authority sample_policy_request) \<and> pf_capability_matches (pq_authority sample_policy_request) \<and>
      pf_authority_id (pq_authority sample_policy_request) = ''r''"
    by (simp add: sample_policy_request_def)
  have only: "\<forall>r \<in> set (pd_rules sample_policy). rule_matches r sample_policy_request PR_Moderate S \<longrightarrow> pr_effect r = PD_Allow"
    by (metis m allow)
  have some: "\<exists>r \<in> set (pd_rules sample_policy). rule_matches r sample_policy_request PR_Moderate S"
    using m [of sample_allow_rule] by blast
  have B: "pb_max_rules default_policy_budget = 256" "pb_max_matched_rules default_policy_budget = 64"
    "pb_max_trace_entries default_policy_budget = 64" "pb_max_reason_bytes default_policy_budget = 1024"
    "length (pd_rules sample_policy) = 2"
    by (simp_all add: default_policy_budget_def sample_policy_def)
  have "pe_allowed (evaluate sample_policy default_policy_budget S sample_policy_request)"
    unfolding policy_allows_exactly using only some auth a slot
    by (simp add: B sample_policy_valid less_eq_policy_authority_level_def)
  with a show ?thesis by blast
qed

text \<open>
  The order of the rules does not matter.  A document with its rules permuted has the same
  id and gives every request the same status, risk and decision; a decided request also gets
  the same reason, unless two of its rules are a SHA-256 collision.
\<close>

theorem policy_order_is_irrelevant:
  assumes "mset rs = mset (pd_rules d)"
  shows "document_id (d\<lparr>pd_rules := rs\<rparr>) = document_id d \<and>
    pe_status (evaluate (d\<lparr>pd_rules := rs\<rparr>) B S q) = pe_status (evaluate d B S q) \<and>
    pe_risk (evaluate (d\<lparr>pd_rules := rs\<rparr>) B S q) = pe_risk (evaluate d B S q) \<and>
    pe_decision (evaluate (d\<lparr>pd_rules := rs\<rparr>) B S q) = pe_decision (evaluate d B S q) \<and>
    (pe_status (evaluate d B S q) = PS_Decided \<longrightarrow>
       pe_reason (evaluate (d\<lparr>pd_rules := rs\<rparr>) B S q) = pe_reason (evaluate d B S q) \<or> rule_collision (pd_rules d))"
proof -
  let ?d = "d\<lparr>pd_rules := rs\<rparr>"
  note E = early_rejection_order [OF assms, of B q S]
  have risk: "pe_risk (evaluate ?d B S q) = pe_risk (evaluate d B S q)" by (simp add: evaluate_sel)
  have id: "document_id ?d = document_id d" by (rule document_id_order [OF assms])
  show ?thesis
  proof (cases "early_rejection d B q S")
    case None
    have None': "early_rejection ?d B q S = None" using E(1) None by blast
    have set: "set (matching_rules ?d S q) = set (matching_rules d S q)"
      using mset_eq_setD [OF assms] by (simp add: matching_rules_def)
    have dec: "pe_decision (evaluate ?d B S q) = pe_decision (evaluate d B S q)"
      using evaluate_sel(4) [OF None] evaluate_sel(4) [OF None'] set
        winner_effect [OF winning_rule_def [of d S q, symmetric]]
        winner_effect [OF winning_rule_def [of ?d S q, symmetric]] by simp
    have "validate_document d = []" using None by (auto simp: early_rejection_def split: if_splits)
    from winner_order [OF assms this, of S q]
    have "pe_reason (evaluate ?d B S q) = pe_reason (evaluate d B S q) \<or> rule_collision (pd_rules d)"
      using evaluate_sel(4) [OF None] evaluate_sel(4) [OF None'] by auto
    with id risk dec evaluate_sel(4) [OF None] evaluate_sel(4) [OF None'] show ?thesis by simp
  next
    case (Some p)
    obtain st reason where p: "early_rejection d B q S = Some (st, reason)" using Some by (cases p) simp
    then obtain reason' where p': "early_rejection ?d B q S = Some (st, reason')" using E(2) by auto
    from evaluate_sel(3) [OF p] evaluate_sel(3) [OF p'] early_not_decided [OF p] id risk show ?thesis by simp
  qed
qed

theorem policy_order_is_irrelevant_witness:
  "\<exists>S. identity_active sample_evidence S \<and>
    pe_decision (evaluate (sample_policy\<lparr>pd_rules := [sample_deny_rule, sample_allow_rule]\<rparr>) default_policy_budget S
      sample_policy_request) = pe_decision (evaluate sample_policy default_policy_budget S sample_policy_request)"
proof -
  obtain S where a: "identity_active sample_evidence S" by (rule sample_active_store)
  have "mset [sample_deny_rule, sample_allow_rule] = mset (pd_rules sample_policy)"
    by (simp add: sample_policy_def add_mset_commute)
  from policy_order_is_irrelevant [OF this, of default_policy_budget S sample_policy_request] a show ?thesis by blast
qed

text \<open>
  The policy id binds the policy.  Two valid documents with one id have the same name and
  the same rules, field by field, up to the order of the rules and of their tags and repeated
  tags; otherwise their canonical texts are a SHA-256 collision.
\<close>

theorem policy_id_binds_document:
  assumes "validate_document d = []" and "validate_document d' = []" and "document_id d = document_id d'"
  shows "sha256_collision (canonical_payload d) (canonical_payload d') \<or>
    (pd_policy_name d = pd_policy_name d' \<and>
     mset (map normal_rule (pd_rules d)) = mset (map normal_rule (pd_rules d')))"
proof (cases "canonical_payload d = canonical_payload d'")
  case True
  with canonical_payload_inj [OF assms(1,2)] show ?thesis by blast
next
  case False
  with assms(3) show ?thesis by (simp add: sha256_collision_def document_id_def)
qed

theorem policy_id_binds_document_witness:
  "sha256_collision (canonical_payload sample_policy)
      (canonical_payload (sample_policy\<lparr>pd_rules := [sample_deny_rule, sample_allow_rule]\<rparr>)) \<or>
    mset (map normal_rule (pd_rules sample_policy)) = mset (map normal_rule [sample_deny_rule, sample_allow_rule])"
proof -
  let ?d = "sample_policy\<lparr>pd_rules := [sample_deny_rule, sample_allow_rule]\<rparr>"
  have m: "mset [sample_deny_rule, sample_allow_rule] = mset (pd_rules sample_policy)"
    by (simp add: sample_policy_def add_mset_commute)
  have "validate_document ?d = []"
    using sample_policy_valid by (auto simp: validate_document_Nil sample_policy_def)
  from policy_id_binds_document [OF sample_policy_valid this document_id_order [OF m, symmetric]] show ?thesis
    by auto
qed

text \<open>
  The explanation is bounded.  Whatever the policy, the request and the ceilings, the trace,
  each of its details and the list of matched rule ids stay within the budget.
\<close>

theorem explanation_is_bounded:
  "length (pe_trace (evaluate d B S q)) \<le> unat (pb_max_trace_entries B) \<and>
   list_all (\<lambda>t. length (pt_detail t) \<le> unat (pb_max_reason_bytes B)) (pe_trace (evaluate d B S q)) \<and>
   length (pe_matched_rule_ids (evaluate d B S q)) \<le> unat (pb_max_matched_rules B)"
  using evaluate_explained [of B d S q] by (simp add: explained_within_def list_all_iff)

text \<open>The reason of a default denial is not cut to the budget.\<close>

lemma default_deny_ignores_reason_budget:
  assumes "early_rejection d B q S = None" "matching_rules d S q = []"
  shows "pe_reason (evaluate d B S q) = default_deny_reason" "length default_deny_reason = 36"
proof -
  have "winning_rule d S q = None" by (simp add: winning_rule_def assms(2))
  with evaluate_sel(4) [OF assms(1)] show "pe_reason (evaluate d B S q) = default_deny_reason"
    by (simp add: decided_reason_def)
  show "length default_deny_reason = 36" by (simp add: default_deny_reason_def)
qed

text \<open>\<open>min_authority\<close> compares the claimed level; whether it was validated does not matter.\<close>

lemma min_authority_ignores_validation:
  "\<not> pr_require_validated_authority r \<Longrightarrow>
   rule_matches r (q\<lparr>pq_authority := (pq_authority q)\<lparr>pf_validated := v\<rparr>\<rparr>) risk S = rule_matches r q risk S"
  by (simp add: rule_matches_def Let_def)

text \<open>Risk: the capability's class is a lower bound, destructive work is critical.\<close>

lemma risk_only_rises: "capability_risk (po_capability op) \<le> classify_policy_risk op"
  "po_destructive op \<Longrightarrow> classify_policy_risk op = PR_Critical"
proof -
  have "k \<le> PR_Critical" for k by (cases k) (simp_all add: less_eq_policy_risk_def)
  then show "capability_risk (po_capability op) \<le> classify_policy_risk op"
    by (simp add: classify_policy_risk_def Let_def le_max_iff_disj)
  show "po_destructive op \<Longrightarrow> classify_policy_risk op = PR_Critical" by (simp add: classify_policy_risk_def)
qed

section \<open>Policy and identity\<close>

text \<open>
  C30. A revoked identity is never allowed.  Take any history of the identity store in which no
  append is torn, every restart can look at its journal (the call of \<open>exists\<close> reports no error;
  the journal may then fail to open or to be read) and the evidence recorded is valid and takes
  no record id of another device or executable.  Once the device, the executable or the process
  behind the evidence has been revoked in it, no policy allows an operation that requires an
  identity on that evidence.  A restart that cannot look at the journal is outside: it starts
  healthy and empty (\<open>uninspected_journal_is_forgotten\<close>), and the revocation is forgotten.
\<close>

theorem policy_never_allows_revoked:
  assumes "identity_run B path es S" and "Ie_Revoke kind (identity_record_of kind e) t reason \<in> set es"
    and "pq_identity_evidence q = Some e" and "po_requires_identity (pq_operation q)"
  shows "\<not> pe_allowed (evaluate d PB S q)"
proof
  assume "pe_allowed (evaluate d PB S q)"
  then have "early_rejection d PB q S = None" by (rule allowed_early)
  with assms(3,4) have active: "identity_active e S"
    by (auto simp: early_rejection_def identity_rejection_def Let_def split: if_splits)
  then have "j_healthy (is_journal S)" by (simp add: identity_active_def)
  from recorded_revocation [OF identity_meaning [OF assms(1) this] assms(2)] active revoked_is_inactive
  show False by blast
qed

theorem policy_never_allows_revoked_witness:
  "\<exists>S. j_healthy (is_journal S) \<and> \<not> pe_allowed (evaluate sample_policy default_policy_budget S sample_policy_request)"
proof -
  obtain S where S: "identity_run default_identity_budget ''identities''
      [Ie_Observe (observed_of sample_evidence), Ie_Revoke IK_Device sample_device 2000 ''lost''] S"
    and h: "j_healthy (is_journal S)"
    by (rule sample_identity_run)
  have "\<not> pe_allowed (evaluate sample_policy default_policy_budget S sample_policy_request)"
    by (rule policy_never_allows_revoked [OF S, where kind = IK_Device and e = sample_evidence and t = 2000
        and reason = "''lost''"]) (simp_all add: sample_device_def)
  with h show ?thesis by blast
qed

end
