(* ===== verification/Policy_Registry.thy ===== *)
theory Policy_Registry
  imports Policy_Properties Line_Journal
begin

text \<open>
  \<open>SignedPolicyRegistry\<close> and \<open>RegistryBackedPolicyEngine\<close> (\<open>include/guff/policy_registry.hpp\<close>,
  \<open>src/policy_registry.cpp\<close>): which signed policy may answer at the moment.

  The registry keeps nothing in memory: every call reads the whole journal again, so its state
  is the contents of the file.  Its record format is its own: eighteen fields, with a hash over
  the decoded values and the chain inside it.  A read error in the middle of the file is not
  modelled.
\<close>

section \<open>Data\<close>

datatype control_action = CA_Activate | CA_Rollback | CA_Revoke

datatype registry_status =
  RG_Ready | RG_Invalid | RG_SignatureRejected | RG_PackageNotFound | RG_AlreadyRegistered | RG_PolicyRevoked
| RG_ActiveMismatch | RG_ReplayRejected | RG_CapacityExceeded | RG_StorageFailure | RG_Corrupt

record signed_package =
  sp_schema_version :: u32
  sp_policy_id :: string
  sp_signer_id :: string
  sp_algorithm :: string
  sp_signed_at :: u64
  sp_signature :: string
  sp_package_id :: string

record control_envelope =
  ce_schema_version :: u32
  ce_action :: control_action
  ce_package_id :: string
  ce_policy_id :: string
  ce_expected_active :: string
  ce_actor_reference :: string
  ce_signer_id :: string
  ce_issued_at :: u64
  ce_nonce :: string
  ce_reason_sha256 :: string

record signed_control =
  pc_envelope :: control_envelope
  pc_algorithm :: string
  pc_envelope_sha256 :: string
  pc_signature :: string
  pc_control_id :: string

record registry_budget =
  gb_max_policies :: u64
  gb_max_records :: u64
  gb_max_actor_bytes :: u64
  gb_max_nonce_bytes :: u64

record registry_result =
  gr_status :: registry_status
  gr_policy_id :: string
  gr_package_id :: string
  gr_active_policy_id :: string
  gr_record_sha256 :: string
  gr_reason :: string

record registry_snapshot =
  gs_healthy :: bool
  gs_records :: u64
  gs_registered_policies :: nat
  gs_revoked_policies :: nat
  gs_activation_generation :: u64
  gs_active_policy_id :: string
  gs_active_package_id :: string
  gs_errors :: "string list"

definition gr_ok :: "registry_result \<Rightarrow> bool" where
  "gr_ok r \<longleftrightarrow> gr_status r = RG_Ready"

definition default_registry_budget :: registry_budget where
  "default_registry_budget = \<lparr>gb_max_policies = 256, gb_max_records = 4096, gb_max_actor_bytes = 256,
     gb_max_nonce_bytes = 128\<rparr>"

datatype record_kind = RK_Register | RK_Activate | RK_Rollback | RK_Revoke

fun kind_code :: "record_kind \<Rightarrow> u32" where
  "kind_code RK_Register = 0"
| "kind_code RK_Activate = 1"
| "kind_code RK_Rollback = 2"
| "kind_code RK_Revoke = 3"

definition kind_of_code :: "u32 \<Rightarrow> record_kind" where
  "kind_of_code n = [RK_Register, RK_Activate, RK_Rollback, RK_Revoke] ! unat n"

record registry_record =
  rr_schema_version :: u32
  rr_sequence :: u64
  rr_kind :: record_kind
  rr_policy_id :: string
  rr_package_id :: string
  rr_signer_id :: string
  rr_algorithm :: string
  rr_signed_at :: u64
  rr_signature :: string
  rr_control_id :: string
  rr_nonce :: string
  rr_actor_reference :: string
  rr_expected_active :: string
  rr_issued_at :: u64
  rr_reason_sha256 :: string
  rr_previous :: string
  rr_record_sha256 :: string

record stored_policy =
  st_package :: signed_package
  st_revoked :: bool
  st_ever_active :: bool

record scan_state =
  ss_healthy :: bool
  ss_next_sequence :: u64
  ss_head :: string
  ss_policies :: "stored_policy smap"
  ss_package_to_policy :: "string smap"
  ss_used_controls :: "string list"
  ss_nonce_to_control :: "string smap"
  ss_active_policy :: string
  ss_active_package :: string
  ss_generation :: u64
  ss_errors :: "string list"

definition scan_start :: scan_state where
  "scan_start = \<lparr>ss_healthy = True, ss_next_sequence = 0, ss_head = zero_hash, ss_policies = [],
     ss_package_to_policy = [], ss_used_controls = [], ss_nonce_to_control = [], ss_active_policy = [],
     ss_active_package = [], ss_generation = 0, ss_errors = []\<rparr>"

section \<open>Canonical texts and ids\<close>

definition kPackagePrefix :: string where "kPackagePrefix = ''guff:policy-package:sha256:''"
definition kControlPrefix :: string where "kControlPrefix = ''guff:policy-control:sha256:''"
definition kMaxLineBytes :: nat where "kMaxLineBytes = 64 * 1024"

fun action_to_string :: "control_action \<Rightarrow> string" where
  "action_to_string CA_Activate = ''ACTIVATE''"
| "action_to_string CA_Rollback = ''ROLLBACK''"
| "action_to_string CA_Revoke = ''REVOKE''"

definition package_id_for :: "signed_package \<Rightarrow> string" where
  "package_id_for p = kPackagePrefix @ sha256
     (show_u (sp_schema_version p) @ [NL] @ sp_policy_id p @ [NL] @ sp_signer_id p @ [NL] @ sp_algorithm p @ [NL] @
      show_u (sp_signed_at p) @ [NL] @ sp_signature p)"

definition canonical_policy_control :: "control_envelope \<Rightarrow> string" where
  "canonical_policy_control e =
     show_u (ce_schema_version e) @ [NL] @ action_to_string (ce_action e) @ [NL] @ ce_package_id e @ [NL] @
     ce_policy_id e @ [NL] @ ce_expected_active e @ [NL] @ ce_actor_reference e @ [NL] @ ce_signer_id e @ [NL] @
     show_u (ce_issued_at e) @ [NL] @ ce_nonce e @ [NL] @ ce_reason_sha256 e"

definition control_id_for :: "signed_control \<Rightarrow> string" where
  "control_id_for c = kControlPrefix @ sha256
     (canonical_policy_control (pc_envelope c) @ [NL] @ pc_algorithm c @ [NL] @ pc_signature c)"

definition canonical_registry_record :: "registry_record \<Rightarrow> string" where
  "canonical_registry_record r =
     show_u (rr_schema_version r) @ [NL] @ show_u (rr_sequence r) @ [NL] @ show_u (kind_code (rr_kind r)) @ [NL] @
     rr_policy_id r @ [NL] @ rr_package_id r @ [NL] @ rr_signer_id r @ [NL] @ rr_algorithm r @ [NL] @
     show_u (rr_signed_at r) @ [NL] @ rr_signature r @ [NL] @ rr_control_id r @ [NL] @ rr_nonce r @ [NL] @
     rr_actor_reference r @ [NL] @ rr_expected_active r @ [NL] @ show_u (rr_issued_at r) @ [NL] @
     rr_reason_sha256 r @ [NL] @ rr_previous r"

definition serialize :: "registry_record \<Rightarrow> string" where
  "serialize r = ''PREG'' @ tab_join
     [show_u (rr_schema_version r), show_u (rr_sequence r), show_u (kind_code (rr_kind r)), rr_policy_id r,
      rr_package_id r, hex_encode (rr_signer_id r), hex_encode (rr_algorithm r), show_u (rr_signed_at r),
      hex_encode (rr_signature r), dash (rr_control_id r), hex_encode (rr_nonce r),
      hex_encode (rr_actor_reference r), dash (rr_expected_active r), show_u (rr_issued_at r),
      dash (rr_reason_sha256 r), rr_previous r, rr_record_sha256 r]"

section \<open>Reading a record\<close>

definition package_of_record :: "registry_record \<Rightarrow> signed_package" where
  "package_of_record r = \<lparr>sp_schema_version = 1, sp_policy_id = rr_policy_id r, sp_signer_id = rr_signer_id r,
     sp_algorithm = rr_algorithm r, sp_signed_at = rr_signed_at r, sp_signature = rr_signature r,
     sp_package_id = rr_package_id r\<rparr>"

definition action_of_kind :: "record_kind \<Rightarrow> control_action" where
  "action_of_kind k = (if k = RK_Activate then CA_Activate else if k = RK_Rollback then CA_Rollback else CA_Revoke)"

definition control_of_record :: "registry_record \<Rightarrow> signed_control" where
  "control_of_record r =
     (let e = \<lparr>ce_schema_version = 1, ce_action = action_of_kind (rr_kind r), ce_package_id = rr_package_id r,
        ce_policy_id = rr_policy_id r, ce_expected_active = rr_expected_active r,
        ce_actor_reference = rr_actor_reference r, ce_signer_id = rr_signer_id r, ce_issued_at = rr_issued_at r,
        ce_nonce = rr_nonce r, ce_reason_sha256 = rr_reason_sha256 r\<rparr> in
      \<lparr>pc_envelope = e, pc_algorithm = rr_algorithm r, pc_envelope_sha256 = sha256 (canonical_policy_control e),
       pc_signature = rr_signature r, pc_control_id = rr_control_id r\<rparr>)"

text \<open>The checks on the decoded fields, in order; None when the record is accepted.\<close>

definition record_rejection :: "registry_record \<Rightarrow> string option" where
  "record_rejection r =
     (if \<not> prefixed_sha256 kPolicyPrefix (rr_policy_id r) \<or> \<not> prefixed_sha256 kPackagePrefix (rr_package_id r) \<or>
         \<not> valid_text (rr_signer_id r) 256 \<or> \<not> valid_text (rr_algorithm r) 128 \<or> rr_signature r = [] \<or>
         8192 < length (rr_signature r) \<or> \<not> is_sha256 (rr_previous r) \<or> \<not> is_sha256 (rr_record_sha256 r)
      then Some ''policy registry common field validation failed''
      else if rr_kind r = RK_Register \<and>
         (rr_control_id r \<noteq> [] \<or> rr_nonce r \<noteq> [] \<or> rr_actor_reference r \<noteq> [] \<or> rr_expected_active r \<noteq> [] \<or>
          rr_issued_at r \<noteq> 0 \<or> rr_reason_sha256 r \<noteq> [])
      then Some ''REGISTER contains control-only fields''
      else if rr_kind r = RK_Register \<and> package_id_for (package_of_record r) \<noteq> rr_package_id r
      then Some ''registered package identity mismatch''
      else if rr_kind r \<noteq> RK_Register \<and>
         (\<not> prefixed_sha256 kControlPrefix (rr_control_id r) \<or> \<not> valid_text (rr_nonce r) 128 \<or>
          \<not> valid_text (rr_actor_reference r) 256 \<or>
          (rr_expected_active r \<noteq> [] \<and> \<not> prefixed_sha256 kPolicyPrefix (rr_expected_active r)) \<or>
          \<not> is_sha256 (rr_reason_sha256 r))
      then Some ''control record validation failed''
      else if rr_kind r \<noteq> RK_Register \<and> control_id_for (control_of_record r) \<noteq> rr_control_id r
      then Some ''control identity mismatch''
      else if rr_record_sha256 r \<noteq> sha256 (canonical_registry_record r)
      then Some ''policy registry record hash mismatch''
      else None)"

definition deserialize :: "string \<Rightarrow> string + registry_record" where
  "deserialize line =
     (let fs = split_tabs line in
      if line = [] \<or> kMaxLineBytes < length line
      then Inl ''policy registry record is empty or exceeds line ceiling''
      else if length fs \<noteq> 18 \<or> fs ! 0 \<noteq> ''PREG''
      then Inl ''policy registry field count/marker is invalid''
      else case (parse_unsigned (fs ! 1) :: u32 option, parse_unsigned (fs ! 2) :: u64 option,
                 parse_unsigned (fs ! 3) :: u32 option, parse_unsigned (fs ! 8) :: u64 option,
                 parse_unsigned (fs ! 14) :: u64 option) of
        (Some schema, Some sequence, Some kind, Some signed_at, Some issued_at) \<Rightarrow>
          if schema \<noteq> 1 \<or> 3 < kind then Inl ''policy registry numeric/schema field is invalid''
          else (case (hex_decode (fs ! 6), hex_decode (fs ! 7), hex_decode (fs ! 9), hex_decode (fs ! 11),
                      hex_decode (fs ! 12)) of
            (Some signer, Some alg, Some sg, Some nc, Some actor) \<Rightarrow>
              (let r = \<lparr>rr_schema_version = schema, rr_sequence = sequence, rr_kind = kind_of_code kind,
                 rr_policy_id = fs ! 4, rr_package_id = fs ! 5, rr_signer_id = signer, rr_algorithm = alg,
                 rr_signed_at = signed_at, rr_signature = sg, rr_control_id = undash (fs ! 10),
                 rr_nonce = nc, rr_actor_reference = actor, rr_expected_active = undash (fs ! 13),
                 rr_issued_at = issued_at, rr_reason_sha256 = undash (fs ! 15), rr_previous = fs ! 16,
                 rr_record_sha256 = fs ! 17\<rparr> in
               case record_rejection r of Some error \<Rightarrow> Inl error | None \<Rightarrow> Inr r)
          | _ \<Rightarrow> Inl ''policy registry hex field is invalid'')
      | _ \<Rightarrow> Inl ''policy registry numeric/schema field is invalid'')"

section \<open>Scanning the journal\<close>

definition nonce_pair :: "string \<Rightarrow> string \<Rightarrow> string" where
  "nonce_pair signer nc = signer @ [NL] @ nc"

text \<open>What an accepted activation or rollback, and a revocation, do to the state.\<close>

definition activate_state :: "string \<Rightarrow> string \<Rightarrow> stored_policy \<Rightarrow> scan_state \<Rightarrow> scan_state" where
  "activate_state policy package st s =
     s\<lparr>ss_active_policy := policy, ss_active_package := package,
       ss_policies := AList.update policy (st\<lparr>st_ever_active := True\<rparr>) (ss_policies s),
       ss_generation := ss_generation s + 1\<rparr>"

definition revoke_state :: "string \<Rightarrow> stored_policy \<Rightarrow> scan_state \<Rightarrow> scan_state" where
  "revoke_state policy st s =
     (let s1 = s\<lparr>ss_policies := AList.update policy (st\<lparr>st_revoked := True\<rparr>) (ss_policies s)\<rparr> in
      if ss_active_policy s = policy
      then s1\<lparr>ss_active_policy := [], ss_active_package := [], ss_generation := ss_generation s + 1\<rparr> else s1)"

text \<open>
  The event part of the loop body: the error (None: applied) and the state as it then is; a
  failing control may have entered its id and nonce.
\<close>

definition apply_control_record :: "registry_record \<Rightarrow> scan_state \<Rightarrow> string option \<times> scan_state" where
  "apply_control_record r s =
     (let key = nonce_pair (rr_signer_id r) (rr_nonce r);
          s1 = s\<lparr>ss_used_controls := rr_control_id r # ss_used_controls s\<rparr>;
          s2 = (if contains (ss_nonce_to_control s) key then s1
                else s1\<lparr>ss_nonce_to_control := AList.update key (rr_control_id r) (ss_nonce_to_control s)\<rparr>)
      in
      if rr_expected_active r \<noteq> ss_active_policy s
      then (Some ''control record expected-active compare-and-swap mismatch'', s)
      else if rr_control_id r \<in> set (ss_used_controls s)
      then (Some ''duplicate policy control identity in journal'', s)
      else if contains (ss_nonce_to_control s) key \<and> map_of (ss_nonce_to_control s) key \<noteq> Some (rr_control_id r)
      then (Some ''policy control signer/nonce replay collision'', s1)
      else if map_of (ss_package_to_policy s) (rr_package_id r) \<noteq> Some (rr_policy_id r)
      then (Some ''control references unknown or mismatched package'', s2)
      else case map_of (ss_policies s) (rr_policy_id r) of
        None \<Rightarrow> (Some ''control references unknown policy'', s2)
      | Some st \<Rightarrow>
          if rr_kind r = RK_Revoke then
            (if st_revoked st then (Some ''policy revoked more than once'', s2)
             else (None, revoke_state (rr_policy_id r) st s2))
          else if st_revoked st then (Some ''revoked policy activated during replay'', s2)
          else if rr_kind r = RK_Rollback \<and> \<not> st_ever_active st
          then (Some ''rollback target was never previously active'', s2)
          else if ss_active_policy s = rr_policy_id r then (Some ''activation target is already active'', s2)
          else (None, activate_state (rr_policy_id r) (rr_package_id r) st s2))"

definition apply_register_record :: "registry_budget \<Rightarrow> registry_record \<Rightarrow> scan_state \<Rightarrow> string option \<times> scan_state" where
  "apply_register_record B r s =
     (if unat (gb_max_policies B) \<le> length (ss_policies s)
      then (Some ''registered policy ceiling exceeded during replay'', s)
      else if contains (ss_policies s) (rr_policy_id r) \<or> contains (ss_package_to_policy s) (rr_package_id r)
      then (Some ''duplicate immutable policy/package registration'', s)
      else (None, s\<lparr>ss_package_to_policy := AList.update (rr_package_id r) (rr_policy_id r) (ss_package_to_policy s),
             ss_policies := AList.update (rr_policy_id r)
               \<lparr>st_package = package_of_record r, st_revoked = False, st_ever_active = False\<rparr> (ss_policies s)\<rparr>))"

definition apply_record :: "registry_budget \<Rightarrow> registry_record \<Rightarrow> scan_state \<Rightarrow> string option \<times> scan_state" where
  "apply_record B r s = (if rr_kind r = RK_Register then apply_register_record B r s else apply_control_record r s)"

definition scan_failed :: "string \<Rightarrow> scan_state \<Rightarrow> scan_state" where
  "scan_failed error s = s\<lparr>ss_healthy := False, ss_errors := ss_errors s @ [error]\<rparr>"

fun scan_lines :: "registry_budget \<Rightarrow> string list \<Rightarrow> scan_state \<Rightarrow> scan_state" where
  "scan_lines B [] s = s"
| "scan_lines B (line # rest) s =
     (if gb_max_records B \<le> ss_next_sequence s then scan_failed ''policy registry record ceiling exceeded'' s
      else case deserialize (strip_cr line) of
        Inl error \<Rightarrow> scan_failed (''record '' @ show_u (ss_next_sequence s) @ '': '' @ error) s
      | Inr r \<Rightarrow>
          if rr_sequence r \<noteq> ss_next_sequence s then scan_failed ''policy registry sequence discontinuity'' s
          else if rr_previous r \<noteq> ss_head s then scan_failed ''policy registry hash-chain discontinuity'' s
          else (case apply_record B r s of
                  (Some error, s') \<Rightarrow> scan_failed error s'
                | (None, s') \<Rightarrow>
                    scan_lines B rest (s'\<lparr>ss_head := rr_record_sha256 r, ss_next_sequence := ss_next_sequence s + 1\<rparr>)))"

definition scan_registry :: "read_io \<Rightarrow> registry_budget \<Rightarrow> string option \<Rightarrow> scan_state" where
  "scan_registry rio B file =
     (if rio = Read_Inspect_Fail then scan_failed ''failed to inspect policy registry path'' scan_start
      else case file of
        None \<Rightarrow> scan_start
      | Some content \<Rightarrow>
          if rio = Read_Open_Fail then scan_failed ''failed to open policy registry journal'' scan_start
          else scan_lines B (getlines content) scan_start)"

section \<open>Appending a record\<close>

definition gr_empty :: registry_result where
  "gr_empty = \<lparr>gr_status = RG_Invalid, gr_policy_id = [], gr_package_id = [], gr_active_policy_id = [],
     gr_record_sha256 = [], gr_reason = []\<rparr>"

definition gr_fail :: "registry_status \<Rightarrow> string \<Rightarrow> registry_result" where
  "gr_fail status reason = gr_empty\<lparr>gr_status := status, gr_reason := reason\<rparr>"

definition seal_record :: "registry_record \<Rightarrow> registry_record" where
  "seal_record r = r\<lparr>rr_record_sha256 := sha256 (canonical_registry_record r)\<rparr>"

text \<open>A stream on the empty path does not open.\<close>

definition append_record ::
    "string \<Rightarrow> io \<Rightarrow> registry_record \<Rightarrow> string option \<Rightarrow> registry_result \<times> string option" where
  "append_record path io record file =
     (let r = seal_record record; line = serialize r in
      if has_parent path \<and> io = Dir_Fail
      then (gr_fail RG_StorageFailure ''failed to create policy registry parent directory'', file)
      else if kMaxLineBytes < length line
      then (gr_fail RG_Invalid ''serialized policy registry record exceeds line ceiling'', file)
      else if path = [] \<or> io = Open_Fail
      then (gr_fail RG_StorageFailure ''failed to open policy registry for append'', file)
      else case io of
        Write_Fail n \<Rightarrow> (gr_fail RG_StorageFailure ''policy registry append/flush failed'',
          file_append file (take n (line @ [NL])))
      | _ \<Rightarrow> (\<lparr>gr_status = RG_Ready, gr_policy_id = rr_policy_id r, gr_package_id = rr_package_id r,
           gr_active_policy_id = [], gr_record_sha256 = rr_record_sha256 r, gr_reason = []\<rparr>,
          file_append file (line @ [NL])))"

section \<open>Packages and controls\<close>

definition canonical_signed_policy_payload :: "policy_document \<Rightarrow> u64 \<Rightarrow> string \<Rightarrow> string" where
  "canonical_signed_policy_payload d signed_at signer =
     ''GOLF-POLICY-PACKAGE-V1'' @ [NL] @ document_id d @ [NL] @ show_u signed_at @ [NL] @
     nat_digits (length signer) @ CHR '':'' # signer @ [NL] @ canonical_payload d"

definition issue_signed_policy_package ::
    "policy_document \<Rightarrow> u64 \<Rightarrow> authority_signer \<Rightarrow> string list + signed_package" where
  "issue_signed_policy_package d signed_at signer =
     (let local = validate_document d @
            err (\<not> valid_text (sig_signer_id signer) 256) ''policy signer_id is invalid'' @
            err (\<not> valid_text (sig_algorithm signer) 128) ''policy signing algorithm is invalid'' @
            err (signed_at = 0) ''policy signed_at_unix_ms must be nonzero''
      in if local \<noteq> [] then Inl local
      else case sig_sign signer (canonical_signed_policy_payload d signed_at (sig_signer_id signer)) of
        None \<Rightarrow> Inl [''policy signer refused package'']
      | Some sg \<Rightarrow>
          if sg = [] then Inl [''policy signer refused package'']
          else (let p = \<lparr>sp_schema_version = 1, sp_policy_id = document_id d, sp_signer_id = sig_signer_id signer,
                  sp_algorithm = sig_algorithm signer, sp_signed_at = signed_at, sp_signature = sg,
                  sp_package_id = []\<rparr> in Inr (p\<lparr>sp_package_id := package_id_for p\<rparr>)))"

text \<open>The errors of \<open>verify_signed_policy_package\<close>; none means true.\<close>

definition verify_signed_policy_package ::
    "policy_document \<Rightarrow> signed_package \<Rightarrow> authority_verifier \<Rightarrow> string list" where
  "verify_signed_policy_package d p v =
     (let local = validate_document d @
            err (sp_schema_version p \<noteq> 1) ''policy package schema_version must be 1'' @
            err (sp_policy_id p \<noteq> document_id d) ''policy package identity does not match document'' @
            err (\<not> prefixed_sha256 kPackagePrefix (sp_package_id p) \<or> sp_package_id p \<noteq> package_id_for p)
              ''policy package immutable identity mismatch'' @
            err (\<not> valid_text (sp_signer_id p) 256 \<or> \<not> valid_text (sp_algorithm p) 128 \<or> sp_signed_at p = 0 \<or>
                 sp_signature p = []) ''policy package signing metadata is invalid''
      in if local \<noteq> [] then local
      else if \<not> ver_knows v (sp_signer_id p) (sp_algorithm p) then [''policy package signer is not trusted'']
      else if \<not> ver_verify v (sp_signer_id p) (sp_algorithm p)
             (canonical_signed_policy_payload d (sp_signed_at p) (sp_signer_id p)) (sp_signature p)
      then [''policy package signature rejected''] else [])"

definition issue_signed_policy_control ::
    "control_envelope \<Rightarrow> authority_signer \<Rightarrow> string list + signed_control" where
  "issue_signed_policy_control input signer =
     (let e = input\<lparr>ce_signer_id := sig_signer_id signer\<rparr>;
          local =
            err (ce_schema_version e \<noteq> 1) ''policy control schema_version must be 1'' @
            err (\<not> prefixed_sha256 kPackagePrefix (ce_package_id e)) ''policy control package_id is invalid'' @
            err (\<not> prefixed_sha256 kPolicyPrefix (ce_policy_id e)) ''policy control policy_id is invalid'' @
            err (ce_expected_active e \<noteq> [] \<and> \<not> prefixed_sha256 kPolicyPrefix (ce_expected_active e))
              ''policy control expected_active_policy_id is invalid'' @
            err (\<not> valid_text (ce_actor_reference e) 256) ''policy control actor_reference is invalid'' @
            err (\<not> valid_text (ce_signer_id e) 256) ''policy control signer_id is invalid'' @
            err (ce_issued_at e = 0) ''policy control issued_at_unix_ms must be nonzero'' @
            err (\<not> valid_text (ce_nonce e) 128) ''policy control nonce is invalid'' @
            err (\<not> is_sha256 (ce_reason_sha256 e)) ''policy control reason_sha256 must be SHA-256'' @
            err (\<not> valid_text (sig_algorithm signer) 128) ''policy control algorithm is invalid''
      in if local \<noteq> [] then Inl local
      else case sig_sign signer (canonical_policy_control e) of
        None \<Rightarrow> Inl [''policy control signer refused request'']
      | Some sg \<Rightarrow>
          if sg = [] then Inl [''policy control signer refused request'']
          else (let c = \<lparr>pc_envelope = e, pc_algorithm = sig_algorithm signer,
                  pc_envelope_sha256 = sha256 (canonical_policy_control e), pc_signature = sg,
                  pc_control_id = []\<rparr> in Inr (c\<lparr>pc_control_id := control_id_for c\<rparr>)))"

definition control_malformed :: "signed_control \<Rightarrow> bool" where
  "control_malformed c \<longleftrightarrow> (let e = pc_envelope c in
     ce_schema_version e \<noteq> 1 \<or> \<not> prefixed_sha256 kPackagePrefix (ce_package_id e) \<or>
     \<not> prefixed_sha256 kPolicyPrefix (ce_policy_id e) \<or>
     (ce_expected_active e \<noteq> [] \<and> \<not> prefixed_sha256 kPolicyPrefix (ce_expected_active e)) \<or>
     \<not> valid_text (ce_actor_reference e) 256 \<or> \<not> valid_text (ce_signer_id e) 256 \<or> ce_issued_at e = 0 \<or>
     \<not> valid_text (ce_nonce e) 128 \<or> \<not> is_sha256 (ce_reason_sha256 e) \<or> \<not> valid_text (pc_algorithm c) 128 \<or>
     pc_signature c = [])"

definition verify_signed_policy_control :: "signed_control \<Rightarrow> authority_verifier \<Rightarrow> string list" where
  "verify_signed_policy_control c v =
     (let e = pc_envelope c; canonical = canonical_policy_control e;
          local =
            err (control_malformed c) ''policy control is malformed'' @
            err (pc_envelope_sha256 c \<noteq> sha256 canonical) ''policy control envelope hash mismatch'' @
            err (\<not> prefixed_sha256 kControlPrefix (pc_control_id c) \<or> pc_control_id c \<noteq> control_id_for c)
              ''policy control immutable identity mismatch''
      in if local \<noteq> [] then local
      else if \<not> ver_knows v (ce_signer_id e) (pc_algorithm c) then [''policy control signer is not trusted'']
      else if \<not> ver_verify v (ce_signer_id e) (pc_algorithm c) canonical (pc_signature c)
      then [''policy control signature rejected''] else [])"

section \<open>Operations\<close>

record registry_cfg =
  gc_path :: string
  gc_package_verifier :: authority_verifier
  gc_control_verifier :: authority_verifier
  gc_budget :: registry_budget

definition record_of_package :: "signed_package \<Rightarrow> scan_state \<Rightarrow> registry_record" where
  "record_of_package p s =
     \<lparr>rr_schema_version = 1, rr_sequence = ss_next_sequence s, rr_kind = RK_Register, rr_policy_id = sp_policy_id p,
      rr_package_id = sp_package_id p, rr_signer_id = sp_signer_id p, rr_algorithm = sp_algorithm p,
      rr_signed_at = sp_signed_at p, rr_signature = sp_signature p, rr_control_id = [], rr_nonce = [],
      rr_actor_reference = [], rr_expected_active = [], rr_issued_at = 0, rr_reason_sha256 = [],
      rr_previous = ss_head s, rr_record_sha256 = []\<rparr>"

definition register_policy ::
    "registry_cfg \<Rightarrow> read_io \<Rightarrow> io \<Rightarrow> policy_document \<Rightarrow> signed_package \<Rightarrow> string option \<Rightarrow>
     registry_result \<times> string option" where
  "register_policy C rio io d p file =
     (let errors = verify_signed_policy_package d p (gc_package_verifier C); B = gc_budget C;
          s = scan_registry rio B file in
      if errors \<noteq> [] then (gr_fail RG_SignatureRejected (hd errors), file)
      else if gb_max_policies B = 0 \<or> gb_max_records B = 0 \<or> gb_max_actor_bytes B = 0 \<or> gb_max_nonce_bytes B = 0
      then (gr_fail RG_Invalid ''policy registry budget contains a zero ceiling'', file)
      else if \<not> ss_healthy s then (gr_fail RG_Corrupt (hd (ss_errors s)), file)
      else if gb_max_records B \<le> ss_next_sequence s
      then (gr_fail RG_CapacityExceeded ''policy registry record ceiling reached'', file)
      else if contains (ss_policies s) (sp_policy_id p) \<or> contains (ss_package_to_policy s) (sp_package_id p)
      then (gr_fail RG_AlreadyRegistered ''immutable policy/package is already registered'', file)
      else if unat (gb_max_policies B) \<le> length (ss_policies s)
      then (gr_fail RG_CapacityExceeded ''registered policy ceiling reached'', file)
      else (case append_record (gc_path C) io (record_of_package p s) file of
              (r, file') \<Rightarrow> (r\<lparr>gr_active_policy_id := ss_active_policy s\<rparr>, file')))"

definition kind_of_action :: "control_action \<Rightarrow> record_kind" where
  "kind_of_action a = (case a of CA_Activate \<Rightarrow> RK_Activate | CA_Rollback \<Rightarrow> RK_Rollback | CA_Revoke \<Rightarrow> RK_Revoke)"

definition record_of_control :: "signed_control \<Rightarrow> scan_state \<Rightarrow> registry_record" where
  "record_of_control c s =
     (let e = pc_envelope c in
      \<lparr>rr_schema_version = 1, rr_sequence = ss_next_sequence s, rr_kind = kind_of_action (ce_action e),
       rr_policy_id = ce_policy_id e, rr_package_id = ce_package_id e, rr_signer_id = ce_signer_id e,
       rr_algorithm = pc_algorithm c, rr_signed_at = ce_issued_at e, rr_signature = pc_signature c,
       rr_control_id = pc_control_id c, rr_nonce = ce_nonce e, rr_actor_reference = ce_actor_reference e,
       rr_expected_active = ce_expected_active e, rr_issued_at = ce_issued_at e,
       rr_reason_sha256 = ce_reason_sha256 e, rr_previous = ss_head s, rr_record_sha256 = []\<rparr>)"

text \<open>The refusals of \<open>apply_control\<close> after the scan, in order.\<close>

definition control_refused :: "signed_control \<Rightarrow> scan_state \<Rightarrow> (registry_status \<times> string) option" where
  "control_refused c s =
     (let e = pc_envelope c; key = nonce_pair (ce_signer_id e) (ce_nonce e) in
      if pc_control_id c \<in> set (ss_used_controls s)
      then Some (RG_ReplayRejected, ''policy control identity was already consumed'')
      else if contains (ss_nonce_to_control s) key \<and> map_of (ss_nonce_to_control s) key \<noteq> Some (pc_control_id c)
      then Some (RG_ReplayRejected, ''policy control signer/nonce collision'')
      else if ce_expected_active e \<noteq> ss_active_policy s
      then Some (RG_ActiveMismatch, ''policy control expected-active compare-and-swap failed'')
      else if map_of (ss_package_to_policy s) (ce_package_id e) \<noteq> Some (ce_policy_id e)
      then Some (RG_PackageNotFound, ''policy control references an unknown or mismatched package'')
      else case map_of (ss_policies s) (ce_policy_id e) of
        None \<Rightarrow> Some (RG_PackageNotFound, ''policy control references an unknown policy'')
      | Some st \<Rightarrow>
          (case ce_action e of
             CA_Activate \<Rightarrow>
               if st_revoked st then Some (RG_PolicyRevoked, ''revoked policy cannot be activated'')
               else if ss_active_policy s = ce_policy_id e then Some (RG_ActiveMismatch, ''policy is already active'')
               else None
           | CA_Rollback \<Rightarrow>
               if st_revoked st then Some (RG_PolicyRevoked, ''revoked policy cannot be rollback target'')
               else if \<not> st_ever_active st
               then Some (RG_Invalid, ''rollback target was never previously active'')
               else if ss_active_policy s = ce_policy_id e
               then Some (RG_ActiveMismatch, ''rollback target is already active'')
               else None
           | CA_Revoke \<Rightarrow>
               if st_revoked st then Some (RG_PolicyRevoked, ''policy is already revoked'') else None))"

definition apply_control ::
    "registry_cfg \<Rightarrow> read_io \<Rightarrow> io \<Rightarrow> signed_control \<Rightarrow> string option \<Rightarrow> registry_result \<times> string option" where
  "apply_control C rio io c file =
     (let errors = verify_signed_policy_control c (gc_control_verifier C); B = gc_budget C; e = pc_envelope c;
          s = scan_registry rio B file in
      if errors \<noteq> [] then (gr_fail RG_SignatureRejected (hd errors), file)
      else if unat (gb_max_actor_bytes B) < length (ce_actor_reference e) \<or>
         unat (gb_max_nonce_bytes B) < length (ce_nonce e)
      then (gr_fail RG_Invalid ''policy control exceeds registry actor/nonce budget'', file)
      else if \<not> ss_healthy s then (gr_fail RG_Corrupt (hd (ss_errors s)), file)
      else if gb_max_records B \<le> ss_next_sequence s
      then (gr_fail RG_CapacityExceeded ''policy registry record ceiling reached'', file)
      else case control_refused c s of
        Some (status, reason) \<Rightarrow> (gr_fail status reason, file)
      | None \<Rightarrow>
          (case append_record (gc_path C) io (record_of_control c s) file of
             (r, file') \<Rightarrow>
               if \<not> gr_ok r then (r, file')
               else if ce_action e = CA_Revoke \<and> ss_active_policy s = ce_policy_id e
               then (r\<lparr>gr_active_policy_id := []\<rparr>, file')
               else if ce_action e \<noteq> CA_Revoke then (r\<lparr>gr_active_policy_id := ce_policy_id e\<rparr>, file')
               else (r\<lparr>gr_active_policy_id := ss_active_policy s\<rparr>, file')))"

definition registry_inspect :: "registry_cfg \<Rightarrow> read_io \<Rightarrow> string option \<Rightarrow> registry_snapshot" where
  "registry_inspect C rio file =
     (let s = scan_registry rio (gc_budget C) file in
      \<lparr>gs_healthy = ss_healthy s, gs_records = ss_next_sequence s, gs_registered_policies = length (ss_policies s),
       gs_revoked_policies = length (filter (\<lambda>(_, st). st_revoked st) (ss_policies s)),
       gs_activation_generation = ss_generation s, gs_active_policy_id = ss_active_policy s,
       gs_active_package_id = ss_active_package s, gs_errors = ss_errors s\<rparr>)"

definition is_policy_active :: "registry_cfg \<Rightarrow> read_io \<Rightarrow> string \<Rightarrow> string option \<Rightarrow> bool" where
  "is_policy_active C rio policy file =
     (let s = scan_registry rio (gc_budget C) file in
      ss_healthy s \<and> ss_active_policy s = policy \<and>
      (case map_of (ss_policies s) policy of None \<Rightarrow> False | Some st \<Rightarrow> \<not> st_revoked st))"

definition registry_is_active :: "registry_cfg \<Rightarrow> read_io \<Rightarrow> policy_document \<Rightarrow> string option \<Rightarrow> bool" where
  "registry_is_active C rio d file = is_policy_active C rio (document_id d) file"

definition active_policy_id :: "registry_cfg \<Rightarrow> read_io \<Rightarrow> string option \<Rightarrow> string" where
  "active_policy_id C rio file =
     (let s = scan_registry rio (gc_budget C) file in if ss_healthy s then ss_active_policy s else [])"

definition active_package_id :: "registry_cfg \<Rightarrow> read_io \<Rightarrow> string option \<Rightarrow> string" where
  "active_package_id C rio file =
     (let s = scan_registry rio (gc_budget C) file in if ss_healthy s then ss_active_package s else [])"

section \<open>The registry-backed engine\<close>

definition inactive_policy_result :: "policy_document \<Rightarrow> policy_request \<Rightarrow> string \<Rightarrow> policy_result" where
  "inactive_policy_result d q reason =
     \<lparr>pe_status = PS_PolicyInactive, pe_decision = PD_Refuse, pe_risk = classify_policy_risk (pq_operation q),
      pe_policy_id = document_id d, pe_matched_rule_ids = [],
      pe_trace = [\<lparr>pt_code = ''REFUSE'', pt_detail = reason\<rparr>], pe_trace_truncated = False,
      pe_matched_truncated = False, pe_reason = reason\<rparr>"

text \<open>\<open>inspect\<close> and \<open>is_active\<close> read the file once each.\<close>

definition backed_evaluate ::
    "registry_cfg \<Rightarrow> read_io \<Rightarrow> read_io \<Rightarrow> string option \<Rightarrow> policy_document \<Rightarrow> policy_budget \<Rightarrow> identity_store \<Rightarrow>
     policy_request \<Rightarrow> policy_result" where
  "backed_evaluate C rio1 rio2 file d B S q =
     (if \<not> gs_healthy (registry_inspect C rio1 file)
      then inactive_policy_result d q ''policy registry is unhealthy; evaluation fails closed''
      else if \<not> registry_is_active C rio2 d file
      then inactive_policy_result d q ''policy document is not the currently active registered policy''
      else evaluate d B S q)"

fun registry_status_to_string :: "registry_status \<Rightarrow> string" where
  "registry_status_to_string RG_Ready = ''READY''"
| "registry_status_to_string RG_Invalid = ''INVALID''"
| "registry_status_to_string RG_SignatureRejected = ''SIGNATURE_REJECTED''"
| "registry_status_to_string RG_PackageNotFound = ''PACKAGE_NOT_FOUND''"
| "registry_status_to_string RG_AlreadyRegistered = ''ALREADY_REGISTERED''"
| "registry_status_to_string RG_PolicyRevoked = ''POLICY_REVOKED''"
| "registry_status_to_string RG_ActiveMismatch = ''ACTIVE_MISMATCH''"
| "registry_status_to_string RG_ReplayRejected = ''REPLAY_REJECTED''"
| "registry_status_to_string RG_CapacityExceeded = ''CAPACITY_EXCEEDED''"
| "registry_status_to_string RG_StorageFailure = ''STORAGE_FAILURE''"
| "registry_status_to_string RG_Corrupt = ''CORRUPT''"

section \<open>Package queries\<close>

text \<open>
  \<open>src/policy_registry_query.cpp\<close>: a second reader of the same file, without the checks of
  \<open>deserialize\<close>; it trusts that the registry has just been found healthy.
\<close>

fun find_package_lines :: "string list \<Rightarrow> string \<Rightarrow> signed_package option" where
  "find_package_lines [] policy = None"
| "find_package_lines (line # rest) policy =
     (let fs = split_tabs (strip_cr line) in
      if length fs \<noteq> 18 \<or> fs ! 0 \<noteq> ''PREG'' then None
      else case (parse_unsigned (fs ! 1) :: u32 option, parse_unsigned (fs ! 3) :: u32 option) of
        (Some schema, Some kind) \<Rightarrow>
          if schema \<noteq> 1 \<or> kind \<noteq> 0 \<or> fs ! 4 \<noteq> policy then find_package_lines rest policy
          else (case (parse_unsigned (fs ! 8) :: u64 option, hex_decode (fs ! 6), hex_decode (fs ! 7),
                      hex_decode (fs ! 9)) of
            (Some signed_at, Some signer, Some alg, Some sg) \<Rightarrow>
              Some \<lparr>sp_schema_version = 1, sp_policy_id = fs ! 4, sp_signer_id = signer, sp_algorithm = alg,
                sp_signed_at = signed_at, sp_signature = sg, sp_package_id = fs ! 5\<rparr>
          | _ \<Rightarrow> None)
      | _ \<Rightarrow> None)"

definition find_package :: "read_io \<Rightarrow> string option \<Rightarrow> string \<Rightarrow> signed_package option" where
  "find_package rio file policy =
     (case file of None \<Rightarrow> None
      | Some content \<Rightarrow> if rio \<noteq> Read_Ok then None else find_package_lines (getlines content) policy)"

definition registry_package ::
    "registry_cfg \<Rightarrow> read_io \<Rightarrow> read_io \<Rightarrow> string \<Rightarrow> string option \<Rightarrow> signed_package option" where
  "registry_package C rio1 rio2 policy file =
     (if \<not> gs_healthy (registry_inspect C rio1 file) \<or> policy = [] then None else find_package rio2 file policy)"

definition active_package :: "registry_cfg \<Rightarrow> read_io \<Rightarrow> read_io \<Rightarrow> string option \<Rightarrow> signed_package option" where
  "active_package C rio1 rio2 file =
     (let snap = registry_inspect C rio1 file in
      if \<not> gs_healthy snap \<or> gs_active_policy_id snap = [] then None
      else case find_package rio2 file (gs_active_policy_id snap) of
        None \<Rightarrow> None
      | Some p \<Rightarrow> if sp_package_id p \<noteq> gs_active_package_id snap then None else Some p)"

end
