(* ===== verification/Policy_Registry_Scan.thy ===== *)
theory Policy_Registry_Scan
  imports Policy_Registry
begin

text \<open>
  What a scan of the registry's journal establishes, for any contents of the file, and what is
  left of it when the file grows.
\<close>

section \<open>The scan as a chain of partial steps\<close>

definition advance :: "registry_record \<Rightarrow> scan_state \<Rightarrow> scan_state" where
  "advance r s = s\<lparr>ss_head := rr_record_sha256 r, ss_next_sequence := ss_next_sequence s + 1\<rparr>"

definition scan_step :: "registry_budget \<Rightarrow> string \<Rightarrow> scan_state \<Rightarrow> scan_state option" where
  "scan_step B line s =
     (if gb_max_records B \<le> ss_next_sequence s then None
      else case deserialize (strip_cr line) of
        Inl _ \<Rightarrow> None
      | Inr r \<Rightarrow>
          if rr_sequence r \<noteq> ss_next_sequence s \<or> rr_previous r \<noteq> ss_head s then None
          else (case apply_record B r s of (Some _, _) \<Rightarrow> None | (None, s') \<Rightarrow> Some (advance r s')))"

abbreviation scan_all :: "registry_budget \<Rightarrow> string list \<Rightarrow> scan_state \<Rightarrow> scan_state option" where
  "scan_all B \<equiv> run_lines (scan_step B)"

lemma scan_failed_unhealthy [simp]: "\<not> ss_healthy (scan_failed e s)"
  by (simp add: scan_failed_def)

lemma apply_record_frame:
  assumes "apply_record B r s = (e, t)"
  shows "ss_healthy t = ss_healthy s" "ss_next_sequence t = ss_next_sequence s" "ss_head t = ss_head s"
    "ss_errors t = ss_errors s"
  using assms by (auto simp: apply_record_def apply_register_record_def apply_control_record_def Let_def
      activate_state_def revoke_state_def split: if_splits option.splits)

lemma scan_lines_all:
  "ss_healthy s \<Longrightarrow>
   scan_all B ls s = (if ss_healthy (scan_lines B ls s) then Some (scan_lines B ls s) else None)"
proof (induction ls arbitrary: s)
  case Nil
  then show ?case by simp
next
  case (Cons l ls)
  show ?case
  proof (cases "gb_max_records B \<le> ss_next_sequence s")
    case True
    then show ?thesis by (simp add: scan_step_def)
  next
    case False
    show ?thesis
    proof (cases "deserialize (strip_cr l)")
      case (Inl e)
      with False show ?thesis by (simp add: scan_step_def)
    next
      case (Inr r)
      obtain e t where a: "apply_record B r s = (e, t)" by fastforce
      note f = apply_record_frame [OF a]
      have "ss_healthy (advance r t)" using f(1) Cons.prems by (simp add: advance_def)
      from Cons.IH [OF this] show ?thesis
        using False Inr a f by (cases e) (auto simp: scan_step_def advance_def)
    qed
  qed
qed

lemma scan_registry_healthy:
  "ss_healthy (scan_registry rio B file) \<Longrightarrow>
   scan_all B (file_lines file) scan_start = Some (scan_registry rio B file)"
  using scan_lines_all [of scan_start B "file_lines file"]
  by (auto simp: scan_registry_def file_lines_def scan_start_def split: if_splits option.splits)

lemma scan_registry_all:
  "scan_all B (file_lines file) scan_start = Some t \<Longrightarrow> scan_registry Read_Ok B file = t \<and> ss_healthy t"
  using scan_lines_all [of scan_start B "file_lines file"]
  by (auto simp: scan_registry_def file_lines_def scan_start_def split: if_splits option.splits)

lemma scan_stepE:
  assumes "scan_step B l s = Some t"
  obtains r u where "deserialize (strip_cr l) = Inr r" "rr_sequence r = ss_next_sequence s"
    "rr_previous r = ss_head s" "apply_record B r s = (None, u)" "t = advance r u"
    "ss_next_sequence s < gb_max_records B"
  using assms that by (auto simp: scan_step_def split: if_splits sum.splits prod.splits option.splits)

text \<open>The three ways a record is applied.\<close>

lemma apply_recordE:
  assumes "apply_record B r s = (None, t)"
  obtains
    (register) "rr_kind r = RK_Register" "length (ss_policies s) < unat (gb_max_policies B)"
      "map_of (ss_policies s) (rr_policy_id r) = None" "map_of (ss_package_to_policy s) (rr_package_id r) = None"
      "t = s\<lparr>ss_package_to_policy := AList.update (rr_package_id r) (rr_policy_id r) (ss_package_to_policy s),
         ss_policies := AList.update (rr_policy_id r)
           \<lparr>st_package = package_of_record r, st_revoked = False, st_ever_active = False\<rparr> (ss_policies s)\<rparr>"
  | (control) st u where "rr_kind r \<noteq> RK_Register" "rr_expected_active r = ss_active_policy s"
      "rr_control_id r \<notin> set (ss_used_controls s)"
      "map_of (ss_nonce_to_control s) (nonce_pair (rr_signer_id r) (rr_nonce r)) \<in> {None, Some (rr_control_id r)}"
      "map_of (ss_package_to_policy s) (rr_package_id r) = Some (rr_policy_id r)"
      "map_of (ss_policies s) (rr_policy_id r) = Some st" "\<not> st_revoked st"
      "u = (if contains (ss_nonce_to_control s) (nonce_pair (rr_signer_id r) (rr_nonce r))
         then s\<lparr>ss_used_controls := rr_control_id r # ss_used_controls s\<rparr>
         else s\<lparr>ss_used_controls := rr_control_id r # ss_used_controls s,
           ss_nonce_to_control := AList.update (nonce_pair (rr_signer_id r) (rr_nonce r)) (rr_control_id r)
             (ss_nonce_to_control s)\<rparr>)"
      "if rr_kind r = RK_Revoke then t = revoke_state (rr_policy_id r) st u
       else t = activate_state (rr_policy_id r) (rr_package_id r) st u \<and> ss_active_policy s \<noteq> rr_policy_id r \<and>
         (rr_kind r = RK_Rollback \<longrightarrow> st_ever_active st)"
proof (cases "rr_kind r = RK_Register")
  case True
  with assms show ?thesis
    by (intro register) (auto simp: apply_record_def apply_register_record_def split: if_splits)
next
  case False
  with assms have a: "apply_control_record r s = (None, t)" by (simp add: apply_record_def)
  from a obtain st where st: "map_of (ss_policies s) (rr_policy_id r) = Some st"
    by (auto simp: apply_control_record_def Let_def split: if_splits option.splits)
  show ?thesis
  proof (rule control [OF False _ _ _ _ st _ refl])
  qed (use a st False in \<open>auto simp: apply_control_record_def Let_def split: if_splits\<close>)
qed

section \<open>What an accepted line looks like\<close>

lemma deserializeE:
  assumes "deserialize l = Inr r"
  obtains kind where "length (split_tabs l) = 18" "split_tabs l ! 0 = ''PREG''" "rr_schema_version r = 1"
    "parse_unsigned (split_tabs l ! 1) = Some (1 :: u32)" "parse_unsigned (split_tabs l ! 2) = Some (rr_sequence r)"
    "parse_unsigned (split_tabs l ! 3) = Some kind" "kind \<le> 3" "rr_kind r = kind_of_code kind"
    "rr_policy_id r = split_tabs l ! 4" "rr_package_id r = split_tabs l ! 5"
    "hex_decode (split_tabs l ! 6) = Some (rr_signer_id r)" "hex_decode (split_tabs l ! 7) = Some (rr_algorithm r)"
    "parse_unsigned (split_tabs l ! 8) = Some (rr_signed_at r)"
    "hex_decode (split_tabs l ! 9) = Some (rr_signature r)" "rr_record_sha256 r = split_tabs l ! 17"
    "record_rejection r = None"
proof -
  let ?fs = "split_tabs l"
  from assms have shape: "length ?fs = 18" "?fs ! 0 = ''PREG''"
    by (auto simp: deserialize_def Let_def split: if_splits)
  from assms obtain schema sequence kind signed_at issued_at where
    num: "parse_unsigned (?fs ! 1) = Some (schema :: u32)" "parse_unsigned (?fs ! 2) = Some (sequence :: u64)"
      "parse_unsigned (?fs ! 3) = Some (kind :: u32)" "parse_unsigned (?fs ! 8) = Some (signed_at :: u64)"
      "parse_unsigned (?fs ! 14) = Some (issued_at :: u64)"
    by (auto simp: deserialize_def Let_def split: if_splits option.splits)
  with assms have k: "schema = 1" "kind \<le> 3"
    by (auto simp: deserialize_def Let_def split: if_splits)
  from assms num k obtain signer alg sg nc actor where
    hex: "hex_decode (?fs ! 6) = Some signer" "hex_decode (?fs ! 7) = Some alg" "hex_decode (?fs ! 9) = Some sg"
      "hex_decode (?fs ! 11) = Some nc" "hex_decode (?fs ! 12) = Some actor"
    by (auto simp: deserialize_def Let_def split: if_splits option.splits)
  have "record_rejection r = None"
    using assms num k hex by (auto simp: deserialize_def Let_def split: if_splits option.splits)
  moreover have "r = \<lparr>rr_schema_version = 1, rr_sequence = sequence, rr_kind = kind_of_code kind,
      rr_policy_id = ?fs ! 4, rr_package_id = ?fs ! 5, rr_signer_id = signer, rr_algorithm = alg,
      rr_signed_at = signed_at, rr_signature = sg, rr_control_id = undash (?fs ! 10), rr_nonce = nc,
      rr_actor_reference = actor, rr_expected_active = undash (?fs ! 13), rr_issued_at = issued_at,
      rr_reason_sha256 = undash (?fs ! 15), rr_previous = ?fs ! 16, rr_record_sha256 = ?fs ! 17\<rparr>"
    using assms num k hex by (auto simp: deserialize_def Let_def split: if_splits option.splits)
  ultimately show thesis using that shape num k hex by simp
qed

lemma not_rejected:
  assumes "record_rejection r = None"
  shows "prefixed_sha256 kPolicyPrefix (rr_policy_id r)" "prefixed_sha256 kPackagePrefix (rr_package_id r)"
    "valid_text (rr_signer_id r) 256" "valid_text (rr_algorithm r) 128" "rr_signature r \<noteq> []"
    "length (rr_signature r) \<le> 8192" "is_sha256 (rr_previous r)" "is_sha256 (rr_record_sha256 r)"
    "rr_kind r = RK_Register \<Longrightarrow> package_id_for (package_of_record r) = rr_package_id r"
    "rr_kind r \<noteq> RK_Register \<Longrightarrow> prefixed_sha256 kControlPrefix (rr_control_id r) \<and> valid_text (rr_nonce r) 128 \<and>
       control_id_for (control_of_record r) = rr_control_id r"
  using assms by (auto simp: record_rejection_def split: if_splits)

lemma deserialize_shaped:
  assumes "deserialize l = Inr r"
  shows "shaped 18 l"
proof -
  from assms obtain kind :: u32 where "length (split_tabs l) = 18" "rr_record_sha256 r = split_tabs l ! 17"
    "record_rejection r = None"
    by (rule deserializeE)
  with not_rejected(8) [of r] show ?thesis by (simp add: shaped_def last_conv_nth)
qed

interpretation reg: line_scan "scan_step B" scan_start 18 for B
proof
  show "shaped 18 (strip_cr l)" if "scan_step B l s = Some t" for l s t
    using that by (auto elim!: scan_stepE intro: deserialize_shaped)
  show "scan_step B l s = scan_step B k s" if "strip_cr l = strip_cr k" for l k s
    using that by (simp add: scan_step_def)
qed

section \<open>Writing and reading a record\<close>

definition writable :: "registry_record \<Rightarrow> bool" where
  "writable r \<longleftrightarrow> rr_schema_version r = 1 \<and> list_all plain_field
     [rr_policy_id r, rr_package_id r, rr_control_id r, rr_expected_active r, rr_reason_sha256 r, rr_previous r,
      rr_record_sha256 r]"

lemma id_prefixes [simp]:
  "TAB \<notin> set kPolicyPrefix" "NL \<notin> set kPolicyPrefix" "TAB \<notin> set kPackagePrefix" "NL \<notin> set kPackagePrefix"
  "TAB \<notin> set kControlPrefix" "NL \<notin> set kControlPrefix"
  by (simp_all add: kPolicyPrefix_def kPackagePrefix_def kControlPrefix_def)

lemma plain_ids:
  "prefixed_sha256 kPolicyPrefix v \<Longrightarrow> plain_field v" "prefixed_sha256 kPackagePrefix v \<Longrightarrow> plain_field v"
  "prefixed_sha256 kControlPrefix v \<Longrightarrow> plain_field v"
  by (erule plain_prefixed; simp)+

lemma kind_code_inverse [simp]: "kind_of_code (kind_code k) = k" "kind_code k \<le> 3"
  by (cases k; simp add: kind_of_code_def)+

definition record_fields :: "registry_record \<Rightarrow> string list" where
  "record_fields r =
     [show_u (rr_schema_version r), show_u (rr_sequence r), show_u (kind_code (rr_kind r)), rr_policy_id r,
      rr_package_id r, hex_encode (rr_signer_id r), hex_encode (rr_algorithm r), show_u (rr_signed_at r),
      hex_encode (rr_signature r), dash (rr_control_id r), hex_encode (rr_nonce r),
      hex_encode (rr_actor_reference r), dash (rr_expected_active r), show_u (rr_issued_at r),
      dash (rr_reason_sha256 r), rr_previous r, rr_record_sha256 r]"

lemma serialize_fields: "serialize r = ''PREG'' @ tab_join (record_fields r)"
  by (simp add: serialize_def record_fields_def)

lemma record_fields_clean: "writable r \<Longrightarrow> \<forall>f \<in> set (record_fields r). TAB \<notin> set f \<and> NL \<notin> set f"
  using plain_dash by (auto simp: writable_def record_fields_def plain_field_def)

lemma split_serialize: "writable r \<Longrightarrow> split_tabs (serialize r) = ''PREG'' # record_fields r"
  unfolding serialize_fields by (rule split_tabs_join) (simp add: record_fields_clean)

lemma serialize_no_NL: "writable r \<Longrightarrow> NL \<notin> set (serialize r)"
  using record_fields_clean [of r] by (auto simp: serialize_fields tab_join_def)

lemma deserialize_serialize:
  assumes "writable r" "length (serialize r) \<le> kMaxLineBytes"
  shows "deserialize (serialize r) = (case record_rejection r of Some e \<Rightarrow> Inl e | None \<Rightarrow> Inr r)"
proof -
  have w: "rr_schema_version r = 1" "undash (dash (rr_control_id r)) = rr_control_id r"
    "undash (dash (rr_expected_active r)) = rr_expected_active r"
    "undash (dash (rr_reason_sha256 r)) = rr_reason_sha256 r"
    using assms(1) plain_dash by (simp_all add: writable_def)
  have "serialize r \<noteq> []" by (simp add: serialize_fields)
  moreover have "\<not> 3 < kind_code (rr_kind r)" using kind_code_inverse(2) [of "rr_kind r"] by (simp add: not_less)
  moreover have rec: "\<lparr>rr_schema_version = 1, rr_sequence = rr_sequence r, rr_kind = rr_kind r,
      rr_policy_id = rr_policy_id r, rr_package_id = rr_package_id r, rr_signer_id = rr_signer_id r,
      rr_algorithm = rr_algorithm r, rr_signed_at = rr_signed_at r, rr_signature = rr_signature r,
      rr_control_id = rr_control_id r, rr_nonce = rr_nonce r, rr_actor_reference = rr_actor_reference r,
      rr_expected_active = rr_expected_active r, rr_issued_at = rr_issued_at r,
      rr_reason_sha256 = rr_reason_sha256 r, rr_previous = rr_previous r, rr_record_sha256 = rr_record_sha256 r\<rparr> = r"
    using w(1) by simp
  ultimately show ?thesis
    using assms(2) by (simp add: deserialize_def split_serialize [OF assms(1)] record_fields_def w rec)
qed

lemma writable_shaped: "writable r \<Longrightarrow> is_sha256 (rr_record_sha256 r) \<Longrightarrow> shaped 18 (serialize r)"
  by (simp add: shaped_def split_serialize record_fields_def)

lemma strip_serialize: "writable r \<Longrightarrow> is_sha256 (rr_record_sha256 r) \<Longrightarrow> strip_cr (serialize r) = serialize r"
  by (rule strip_shaped [OF writable_shaped])

lemma serialize_head [simp]: "serialize r \<noteq> []" "hd (serialize r) = CHR ''P''"
  by (simp_all add: serialize_fields)

text \<open>What a verified package or control is written as.\<close>

lemma sealed: "writable r \<Longrightarrow> writable (seal_record r)" "is_sha256 (rr_record_sha256 (seal_record r))"
  using plain_sha [OF is_sha256_sha256] by (auto simp: writable_def seal_record_def)

lemma verify_package_iff:
  "verify_signed_policy_package d p v = [] \<longleftrightarrow>
     validate_document d = [] \<and> sp_schema_version p = 1 \<and> sp_policy_id p = document_id d \<and>
     sp_package_id p = package_id_for p \<and> prefixed_sha256 kPackagePrefix (sp_package_id p) \<and>
     valid_text (sp_signer_id p) 256 \<and> valid_text (sp_algorithm p) 128 \<and> sp_signed_at p \<noteq> 0 \<and> sp_signature p \<noteq> [] \<and>
     ver_knows v (sp_signer_id p) (sp_algorithm p) \<and>
     ver_verify v (sp_signer_id p) (sp_algorithm p)
       (canonical_signed_policy_payload d (sp_signed_at p) (sp_signer_id p)) (sp_signature p)"
  by (auto simp: verify_signed_policy_package_def Let_def)

lemma verify_control_iff:
  "verify_signed_policy_control c v = [] \<longleftrightarrow>
     \<not> control_malformed c \<and> pc_envelope_sha256 c = sha256 (canonical_policy_control (pc_envelope c)) \<and>
     prefixed_sha256 kControlPrefix (pc_control_id c) \<and> pc_control_id c = control_id_for c \<and>
     ver_knows v (ce_signer_id (pc_envelope c)) (pc_algorithm c) \<and>
     ver_verify v (ce_signer_id (pc_envelope c)) (pc_algorithm c)
       (canonical_policy_control (pc_envelope c)) (pc_signature c)"
  by (auto simp: verify_signed_policy_control_def Let_def)

lemma writable_package:
  "verify_signed_policy_package d p v = [] \<Longrightarrow> is_sha256 (ss_head s) \<Longrightarrow> writable (record_of_package p s)"
  using plain_sha plain_ids by (auto simp: verify_package_iff writable_def record_of_package_def document_id_def)

lemma writable_control:
  "verify_signed_policy_control c v = [] \<Longrightarrow> is_sha256 (ss_head s) \<Longrightarrow> writable (record_of_control c s)"
  using plain_sha plain_ids
  by (auto simp: verify_control_iff control_malformed_def writable_def record_of_control_def Let_def)

lemma package_of_sealed: "sp_schema_version p = 1 \<Longrightarrow> package_of_record (seal_record (record_of_package p s)) = p"
  by (simp add: package_of_record_def seal_record_def record_of_package_def)

lemma kind_of_action_simps [simp]: "kind_of_action a \<noteq> RK_Register" "action_of_kind (kind_of_action a) = a"
  by (cases a; simp add: kind_of_action_def action_of_kind_def)+

lemma control_of_sealed:
  assumes "verify_signed_policy_control c v = []"
  shows "control_of_record (seal_record (record_of_control c s)) = c"
proof -
  have "ce_schema_version (pc_envelope c) = 1" "pc_envelope_sha256 c = sha256 (canonical_policy_control (pc_envelope c))"
    using assms by (auto simp: verify_control_iff control_malformed_def Let_def)
  then have "\<lparr>ce_schema_version = 1, ce_action = ce_action (pc_envelope c), ce_package_id = ce_package_id (pc_envelope c),
        ce_policy_id = ce_policy_id (pc_envelope c), ce_expected_active = ce_expected_active (pc_envelope c),
        ce_actor_reference = ce_actor_reference (pc_envelope c), ce_signer_id = ce_signer_id (pc_envelope c),
        ce_issued_at = ce_issued_at (pc_envelope c), ce_nonce = ce_nonce (pc_envelope c),
        ce_reason_sha256 = ce_reason_sha256 (pc_envelope c)\<rparr> = pc_envelope c"
    by simp
  with \<open>pc_envelope_sha256 c = _\<close> show ?thesis
    by (simp add: control_of_record_def seal_record_def record_of_control_def Let_def)
qed

text \<open>
  Of all the checks on reading, only the length of the signature is not implied by the
  verification of a package or control.
\<close>

lemma canonical_seal_record [simp]: "canonical_registry_record (seal_record r) = canonical_registry_record r"
  by (simp add: seal_record_def canonical_registry_record_def)

lemma package_rejection:
  assumes "verify_signed_policy_package d p v = []" "is_sha256 (ss_head s)"
  shows "record_rejection (seal_record (record_of_package p s)) = None \<longleftrightarrow> length (sp_signature p) \<le> 8192"
proof -
  let ?r = "seal_record (record_of_package p s)"
  have "sp_schema_version p = 1" using assms(1) by (simp add: verify_package_iff)
  note pk = package_of_sealed [OF this, of s]
  have "rr_record_sha256 ?r = sha256 (canonical_registry_record ?r)" by (simp add: seal_record_def canonical_registry_record_def)
  then show ?thesis
    using assms pk by (simp add: record_rejection_def verify_package_iff)
      (auto simp: seal_record_def record_of_package_def document_id_def)
qed

lemma control_rejection:
  assumes "verify_signed_policy_control c v = []" "is_sha256 (ss_head s)"
  shows "record_rejection (seal_record (record_of_control c s)) = None \<longleftrightarrow> length (pc_signature c) \<le> 8192"
proof -
  let ?r = "seal_record (record_of_control c s)"
  note pk = control_of_sealed [OF assms(1), of s]
  have "rr_record_sha256 ?r = sha256 (canonical_registry_record ?r)" by (simp add: seal_record_def canonical_registry_record_def)
  moreover have "rr_kind ?r \<noteq> RK_Register" by (simp add: seal_record_def record_of_control_def Let_def)
  ultimately show ?thesis
    using assms pk by (simp add: record_rejection_def verify_control_iff)
      (auto simp: seal_record_def record_of_control_def Let_def control_malformed_def)
qed

section \<open>Invariants of the scan\<close>

text \<open>Something that only grows: revocations, past activations, used controls, packages.\<close>

definition grown :: "scan_state \<Rightarrow> scan_state \<Rightarrow> bool" where
  "grown s t \<longleftrightarrow>
     (\<forall>p st. map_of (ss_policies s) p = Some st \<longrightarrow>
        (\<exists>st'. map_of (ss_policies t) p = Some st' \<and> st_package st' = st_package st \<and>
           (st_revoked st \<longrightarrow> st_revoked st') \<and> (st_ever_active st \<longrightarrow> st_ever_active st'))) \<and>
     map_of (ss_package_to_policy s) \<subseteq>\<^sub>m map_of (ss_package_to_policy t) \<and>
     set (ss_used_controls s) \<subseteq> set (ss_used_controls t)"

lemma grown_refl [simp]: "grown s s"
  by (simp add: grown_def)

lemma grown_trans: "grown s t \<Longrightarrow> grown t u \<Longrightarrow> grown s u"
  unfolding grown_def by (auto intro: map_le_trans) (metis (no_types))

lemma grown_apply:
  assumes "apply_record B r s = (None, t)"
  shows "grown s t"
  using assms
proof (cases rule: apply_recordE)
  case register
  then show ?thesis by (auto simp: grown_def map_le_def dom_def)
next
  case (control st u)
  then show ?thesis
    by (auto simp: grown_def activate_state_def revoke_state_def Let_def split: if_splits)
qed

lemma grown_step: "scan_step B l s = Some t \<Longrightarrow> grown s t"
  by (auto elim!: scan_stepE dest!: grown_apply simp: grown_def advance_def)

lemma grown_all: "scan_all B ls s = Some t \<Longrightarrow> grown s t"
  by (induction ls arbitrary: s) (auto split: option.splits dest: grown_step intro: grown_trans)

definition linked :: "(string \<Rightarrow> stored_policy option) \<Rightarrow> (string \<Rightarrow> string option) \<Rightarrow> bool" where
  "linked P K \<longleftrightarrow>
     (\<forall>p st. P p = Some st \<longrightarrow> p \<noteq> [] \<and> sp_policy_id (st_package st) = p \<and>
        sp_package_id (st_package st) = package_id_for (st_package st) \<and> K (sp_package_id (st_package st)) = Some p) \<and>
     (\<forall>k p. K k = Some p \<longrightarrow> k \<noteq> [] \<and> (\<exists>st. P p = Some st \<and> sp_package_id (st_package st) = k))"

definition admissible :: "(string \<Rightarrow> stored_policy option) \<Rightarrow> string \<Rightarrow> string \<Rightarrow> bool" where
  "admissible P active package \<longleftrightarrow>
     (if active = [] then package = []
      else \<exists>st. P active = Some st \<and> \<not> st_revoked st \<and> st_ever_active st \<and> sp_package_id (st_package st) = package)"

definition registry_wf :: "registry_budget \<Rightarrow> scan_state \<Rightarrow> bool" where
  "registry_wf B s \<longleftrightarrow>
     is_sha256 (ss_head s) \<and> unat (ss_next_sequence s) \<le> unat (gb_max_records B) \<and>
     unat (ss_generation s) \<le> unat (ss_next_sequence s) \<and> length (ss_policies s) \<le> unat (gb_max_policies B) \<and>
     distinct (map fst (ss_policies s)) \<and> distinct (ss_used_controls s) \<and>
     ran (map_of (ss_nonce_to_control s)) \<subseteq> set (ss_used_controls s) \<and>
     linked (map_of (ss_policies s)) (map_of (ss_package_to_policy s)) \<and>
     admissible (map_of (ss_policies s)) (ss_active_policy s) (ss_active_package s)"

lemma linkedD:
  "linked P K \<Longrightarrow> P p = Some st \<Longrightarrow> p \<noteq> [] \<and> sp_policy_id (st_package st) = p \<and>
     sp_package_id (st_package st) = package_id_for (st_package st) \<and> K (sp_package_id (st_package st)) = Some p"
  "linked P K \<Longrightarrow> K k = Some p \<Longrightarrow> k \<noteq> [] \<and> (\<exists>st. P p = Some st \<and> sp_package_id (st_package st) = k)"
  unfolding linked_def by blast+

lemma linked_register:
  assumes "linked P K" "P p = None" "K k = None" "p \<noteq> []" "k \<noteq> []" "sp_policy_id (st_package st) = p"
    "sp_package_id (st_package st) = k" "package_id_for (st_package st) = k"
  shows "linked (P(p \<mapsto> st)) (K(k \<mapsto> p))"
  unfolding linked_def
proof (intro conjI allI impI)
  fix q su assume q: "(P(p \<mapsto> st)) q = Some su"
  note old = linkedD(1) [OF assms(1), of q su]
  show "q \<noteq> []" "sp_policy_id (st_package su) = q" "sp_package_id (st_package su) = package_id_for (st_package su)"
    "(K(k \<mapsto> p)) (sp_package_id (st_package su)) = Some q"
    using q old assms(3-8) by (auto split: if_splits)
next
  fix j q assume j: "(K(k \<mapsto> p)) j = Some q"
  note old = linkedD(2) [OF assms(1), of j q]
  show "j \<noteq> []" "\<exists>su. (P(p \<mapsto> st)) q = Some su \<and> sp_package_id (st_package su) = j"
    using j old assms(2,5,7) by (auto split: if_splits)
qed

lemma linked_update:
  assumes "linked P K" "P p = Some st" "st_package st' = st_package st"
  shows "linked (P(p \<mapsto> st')) K"
  unfolding linked_def
proof (intro conjI allI impI)
  fix q su assume "(P(p \<mapsto> st')) q = Some su"
  then obtain su' where "P q = Some su'" "st_package su = st_package su'" using assms(2,3) by (auto split: if_splits)
  with linkedD(1) [OF assms(1)] show "q \<noteq> []" "sp_policy_id (st_package su) = q"
    "sp_package_id (st_package su) = package_id_for (st_package su)" "K (sp_package_id (st_package su)) = Some q"
    by metis+
next
  fix j q assume "K j = Some q"
  from linkedD(2) [OF assms(1) this] obtain su where "j \<noteq> []" "P q = Some su" "sp_package_id (st_package su) = j"
    by blast
  with assms(2,3) show "j \<noteq> []" "\<exists>su. (P(p \<mapsto> st')) q = Some su \<and> sp_package_id (st_package su) = j"
    by (auto simp: fun_upd_apply)
qed

lemma admissible_revoke:
  "admissible P a k \<Longrightarrow> a \<noteq> p \<Longrightarrow> admissible (P(p \<mapsto> st)) a k"
  by (auto simp: admissible_def)

text \<open>What an accepted control leaves of the maps.\<close>

lemma control_effect:
  assumes "if rr_kind r = RK_Revoke then t = revoke_state p st u
     else t = activate_state p k st u \<and> ss_active_policy s \<noteq> p \<and> (rr_kind r = RK_Rollback \<longrightarrow> st_ever_active st)"
    "map_of (ss_policies u) p = Some st"
  obtains st' where "st_package st' = st_package st" "map_of (ss_policies t) = (map_of (ss_policies u))(p \<mapsto> st')"
    "map fst (ss_policies t) = map fst (ss_policies u)"
    "ss_package_to_policy t = ss_package_to_policy u" "ss_used_controls t = ss_used_controls u"
    "ss_nonce_to_control t = ss_nonce_to_control u"
    "ss_generation t = ss_generation u \<or> ss_generation t = ss_generation u + 1"
    "if rr_kind r = RK_Revoke
     then st_revoked st' \<and> (if ss_active_policy u = p then ss_active_policy t = [] \<and> ss_active_package t = []
       else ss_active_policy t = ss_active_policy u \<and> ss_active_package t = ss_active_package u)
     else st_revoked st' = st_revoked st \<and> st_ever_active st' \<and> ss_active_policy t = p \<and> ss_active_package t = k"
proof -
  have p: "p \<in> fst ` set (ss_policies u)" using map_of_SomeD [OF assms(2)] by force
  show thesis
  proof (cases "rr_kind r = RK_Revoke")
    case True
    with assms(1) p show thesis
      by (intro that [of "st\<lparr>st_revoked := True\<rparr>"]) (auto simp: revoke_state_def Let_def update_keys)
  next
    case False
    with assms(1) p show thesis
      by (intro that [of "st\<lparr>st_ever_active := True\<rparr>"]) (auto simp: activate_state_def update_keys)
  qed
qed

lemma wf_apply:
  assumes I: "registry_wf B s" and ok: "record_rejection r = None" and a: "apply_record B r s = (None, t)"
    and room: "ss_next_sequence s < gb_max_records B"
  shows "registry_wf B (advance r t)"
proof -
  note f = apply_record_frame [OF a]
  note rej = not_rejected [OF ok]
  note J = I [unfolded registry_wf_def]
  have n: "unat (ss_next_sequence s + 1) = Suc (unat (ss_next_sequence s))"
    using room by (rule unat_word_Suc)
  have base: "is_sha256 (ss_head (advance r t)) \<and> unat (ss_next_sequence (advance r t)) \<le> unat (gb_max_records B)"
    using rej(8) f(2) n room by (simp add: advance_def word_less_nat_alt)
  from a show ?thesis
  proof (cases rule: apply_recordE)
    case register
    have "linked (map_of (ss_policies t)) (map_of (ss_package_to_policy t))"
      unfolding register(5) using J rej(9) [OF register(1)] register(3,4) rej(1,2) prefixed_not_Nil
      by (simp, intro linked_register) (auto simp: package_of_record_def)
    moreover have "admissible (map_of (ss_policies t)) (ss_active_policy t) (ss_active_package t)"
      using J register(3) by (auto simp: admissible_def register(5) split: if_splits)
    ultimately show ?thesis using J base register f n
      by (simp add: registry_wf_def advance_def length_update distinct_update)
  next
    case (control st u)
    have u: "ss_policies u = ss_policies s" "ss_package_to_policy u = ss_package_to_policy s"
      "ss_used_controls u = rr_control_id r # ss_used_controls s" "ss_active_policy u = ss_active_policy s"
      "ss_active_package u = ss_active_package s" "ss_generation u = ss_generation s"
      by (simp_all add: control(8))
    have ran: "ran (map_of (ss_nonce_to_control u)) \<subseteq> set (ss_used_controls u)"
      using J by (auto simp: control(8) ran_def split: if_splits)
    have g: "unat (ss_generation s + 1) \<le> Suc (unat (ss_next_sequence s))"
      using J unat_word_Suc_le [of "ss_generation s"] by linarith
    let ?p = "rr_policy_id r"
    have "map_of (ss_policies u) ?p = Some st" by (simp add: u control(6))
    from control_effect [OF control(9) this] obtain st' where st': "st_package st' = st_package st"
      "map_of (ss_policies t) = (map_of (ss_policies s))(?p \<mapsto> st')" "map fst (ss_policies t) = map fst (ss_policies s)"
      and frame: "ss_package_to_policy t = ss_package_to_policy s" "ss_used_controls t = ss_used_controls u"
      "ss_nonce_to_control t = ss_nonce_to_control u"
      and gen: "ss_generation t = ss_generation s \<or> ss_generation t = ss_generation s + 1"
      and eff: "if rr_kind r = RK_Revoke
       then st_revoked st' \<and> (if ss_active_policy s = ?p then ss_active_policy t = [] \<and> ss_active_package t = []
         else ss_active_policy t = ss_active_policy s \<and> ss_active_package t = ss_active_package s)
       else st_revoked st' = st_revoked st \<and> st_ever_active st' \<and> ss_active_policy t = ?p \<and>
         ss_active_package t = rr_package_id r"
      unfolding u by metis
    have len: "length (ss_policies t) = length (ss_policies s)" using arg_cong [OF st'(3), of length] by simp
    have pkg: "sp_package_id (st_package st) = rr_package_id r"
      using J linkedD(2) [of _ _ "rr_package_id r" ?p] control(5,6) by fastforce
    have "linked (map_of (ss_policies t)) (map_of (ss_package_to_policy t))"
      unfolding st'(2) frame(1) using J control(6) st'(1) by (intro linked_update) simp_all
    moreover have "admissible (map_of (ss_policies t)) (ss_active_policy t) (ss_active_package t)"
    proof (cases "rr_kind r = RK_Revoke")
      case True
      show ?thesis
      proof (cases "ss_active_policy s = ?p")
        case False
        with True eff have "ss_active_policy t = ss_active_policy s" "ss_active_package t = ss_active_package s" by auto
        with J False admissible_revoke show ?thesis by (simp add: st'(2))
      qed (use True eff in \<open>simp add: admissible_def\<close>)
    next
      case False
      with eff control(7) prefixed_not_Nil [OF rej(1)] pkg st'(1) show ?thesis by (simp add: admissible_def st'(2))
    qed
    moreover have "unat (ss_generation t) \<le> Suc (unat (ss_next_sequence s))"
      using gen g J by auto
    ultimately show ?thesis using J base f n ran control(3)
      by (simp add: registry_wf_def advance_def st'(3) len frame u)
  qed
qed

lemma registry_wf_start: "registry_wf B scan_start"
  by (simp add: registry_wf_def scan_start_def is_sha256_zero_hash linked_def admissible_def)

lemma registry_wf_step: "registry_wf B s \<Longrightarrow> scan_step B l s = Some t \<Longrightarrow> registry_wf B t"
  by (auto elim!: scan_stepE deserializeE intro: wf_apply)

interpretation rwf: line_invariant "scan_step B" scan_start "registry_wf B" for B
  by unfold_locales (rule registry_wf_start, rule registry_wf_step)

lemma registry_wf_scan: "ss_healthy (scan_registry rio B file) \<Longrightarrow> registry_wf B (scan_registry rio B file)"
  using rwf.everywhere scan_registry_healthy by blast

end
