(* ===== verification/Policy_Registry_Runs.thy ===== *)
theory Policy_Registry_Runs
  imports Policy_Registry_Scan
begin

text \<open>
  The registry over time: appending to its journal, histories of calls, and what a successful
  call leaves behind.
\<close>

section \<open>The length of a line\<close>

lemma id_lengths: "prefixed_sha256 kPolicyPrefix v \<Longrightarrow> length v \<le> 128" "prefixed_sha256 kPackagePrefix v \<Longrightarrow> length v \<le> 128"
  "prefixed_sha256 kControlPrefix v \<Longrightarrow> length v \<le> 128" "is_sha256 v \<Longrightarrow> length v \<le> 128"
  by (auto simp: kPolicyPrefix_def kPackagePrefix_def kControlPrefix_def is_sha256_def dest!: prefixed_length)

lemma short_line:
  assumes "record_rejection r = None"
  shows "length (serialize r) \<le> kMaxLineBytes"
proof -
  note rej = not_rejected [OF assms]
  have fields: "length (rr_policy_id r) \<le> 128" "length (rr_package_id r) \<le> 128" "length (rr_previous r) \<le> 128"
    "length (rr_record_sha256 r) \<le> 128" "length (rr_signer_id r) \<le> 256" "length (rr_algorithm r) \<le> 128"
    using rej id_lengths by (simp_all add: valid_text_def)
  have ctl: "length (rr_control_id r) \<le> 128 \<and> length (rr_nonce r) \<le> 128 \<and> length (rr_actor_reference r) \<le> 256 \<and>
      length (rr_expected_active r) \<le> 128 \<and> length (rr_reason_sha256 r) \<le> 128"
    using assms id_lengths by (auto simp: record_rejection_def valid_text_def split: if_splits)
  show ?thesis
    using fields ctl rej(6) length_dash [of "rr_control_id r"] length_dash [of "rr_expected_active r"]
      length_dash [of "rr_reason_sha256 r"] length_show_u32 [of "rr_schema_version r"] length_show_u64 [of "rr_sequence r"]
      length_show_u32 [of "kind_code (rr_kind r)"] length_show_u64 [of "rr_signed_at r"] length_show_u64 [of "rr_issued_at r"]
    by (simp add: serialize_def tab_join_def kMaxLineBytes_def)
qed

section \<open>Appending to the journal\<close>

lemma append_record_outcome:
  assumes "append_record path io r file = (res, file')"
  shows "gr_ok res \<longleftrightarrow> path \<noteq> [] \<and> \<not> (has_parent path \<and> io = Dir_Fail) \<and> io \<noteq> Open_Fail \<and> (\<forall>n. io \<noteq> Write_Fail n) \<and>
      length (serialize (seal_record r)) \<le> kMaxLineBytes"
    "gr_ok res \<Longrightarrow> file' = file_append file (serialize (seal_record r) @ [NL])"
    "file' = file \<or> (\<exists>n. file' = file_append file (take n (serialize (seal_record r) @ [NL])))"
  using assms by (auto simp: append_record_def Let_def gr_ok_def gr_fail_def gr_empty_def not_less
      split: if_splits io.splits intro: exI [of _ "Suc (length (serialize (seal_record r)))"])

lemma written_step:
  assumes "scan_step B (serialize r) s = Some t" "writable r" "is_sha256 (rr_record_sha256 r)"
    "length (serialize r) \<le> kMaxLineBytes"
  obtains u where "apply_record B r s = (None, u)" "t = advance r u" "record_rejection r = None"
proof -
  from assms(1) obtain r' u where r': "deserialize (strip_cr (serialize r)) = Inr r'" "apply_record B r' s = (None, u)"
    "t = advance r' u" by (rule scan_stepE)
  from r'(1) have "r' = r" "record_rejection r = None"
    by (simp_all add: strip_serialize [OF assms(2,3)] deserialize_serialize [OF assms(2,4)] split: option.splits)
  with that r' show thesis by simp
qed

text \<open>
  A written record that lies in a healthy file has been applied to the state before it.
\<close>

lemma written_record_applied:
  assumes before: "scan_all B (file_lines file) scan_start = Some s"
    and after: "scan_all B (file_lines (file_append (file_append file (serialize r @ [NL])) y)) scan_start = Some t"
    and r: "writable r" "is_sha256 (rr_record_sha256 r)" "length (serialize r) \<le> kMaxLineBytes"
  obtains u where "apply_record B r s = (None, u)" "scan_all B (getlines y) (advance r u) = Some t"
    "record_rejection r = None"
proof -
  from reg.written_line [OF before after serialize_no_NL [OF r(1)]] obtain s1 where
    s1: "scan_step B (serialize r) s = Some s1" "scan_all B (getlines y) s1 = Some t" by auto
  from written_step [OF s1(1) r] that s1(2) show thesis by blast
qed

lemma written_record_accepted:
  assumes before: "scan_all B (file_lines file) scan_start = Some s" and "terminated file"
    and r: "writable r" "is_sha256 (rr_record_sha256 r)" "record_rejection r = None"
    and fits: "ss_next_sequence s < gb_max_records B" "rr_sequence r = ss_next_sequence s" "rr_previous r = ss_head s"
    and "apply_record B r s = (None, u)"
  shows "scan_all B (file_lines (file_append file (serialize r @ [NL]))) scan_start = Some (advance r u)"
    "terminated (file_append file (serialize r @ [NL]))"
proof -
  have "scan_step B (serialize r) s = Some (advance r u)"
    using fits assms(9) by (simp add: scan_step_def strip_serialize [OF r(1,2)] not_le
        deserialize_serialize [OF r(1) short_line [OF r(3)]] r(3))
  from reg.accepted_line [OF before assms(2) serialize_no_NL [OF r(1)] this]
  show "scan_all B (file_lines (file_append file (serialize r @ [NL]))) scan_start = Some (advance r u)"
    "terminated (file_append file (serialize r @ [NL]))" .
qed

section \<open>What the operations have established\<close>

abbreviation registry_state :: "registry_cfg \<Rightarrow> string option \<Rightarrow> scan_state" where
  "registry_state C file \<equiv> scan_registry Read_Ok (gc_budget C) file"

lemma healthy_state:
  assumes "ss_healthy (scan_registry rio B file)"
  shows "scan_registry rio B file = scan_registry Read_Ok B file" "ss_healthy (scan_registry Read_Ok B file)"
    "scan_all B (file_lines file) scan_start = Some (scan_registry Read_Ok B file)"
  using scan_registry_healthy [OF assms] scan_registry_all by auto

lemma control_refused_None:
  "control_refused c s = None \<longleftrightarrow>
     pc_control_id c \<notin> set (ss_used_controls s) \<and>
     map_of (ss_nonce_to_control s) (nonce_pair (ce_signer_id (pc_envelope c)) (ce_nonce (pc_envelope c)))
       \<in> {None, Some (pc_control_id c)} \<and>
     ce_expected_active (pc_envelope c) = ss_active_policy s \<and>
     map_of (ss_package_to_policy s) (ce_package_id (pc_envelope c)) = Some (ce_policy_id (pc_envelope c)) \<and>
     (\<exists>st. map_of (ss_policies s) (ce_policy_id (pc_envelope c)) = Some st \<and> \<not> st_revoked st \<and>
        (ce_action (pc_envelope c) \<noteq> CA_Revoke \<longrightarrow> ss_active_policy s \<noteq> ce_policy_id (pc_envelope c)) \<and>
        (ce_action (pc_envelope c) = CA_Rollback \<longrightarrow> st_ever_active st))"
  by (auto simp: control_refused_def Let_def split: option.splits control_action.splits)

lemma refusal_not_ready [simp]: "control_refused c s \<noteq> Some (RG_Ready, reason)"
  by (auto simp: control_refused_def Let_def split: option.splits control_action.splits)

lemma apply_control_outcome:
  assumes "apply_control C rio io c file = (res, file')"
  shows "file' = file \<and> \<not> gr_ok res \<or>
    (verify_signed_policy_control c (gc_control_verifier C) = [] \<and>
     length (ce_actor_reference (pc_envelope c)) \<le> unat (gb_max_actor_bytes (gc_budget C)) \<and>
     length (ce_nonce (pc_envelope c)) \<le> unat (gb_max_nonce_bytes (gc_budget C)) \<and>
     ss_healthy (scan_registry rio (gc_budget C) file) \<and>
     ss_next_sequence (registry_state C file) < gb_max_records (gc_budget C) \<and>
     control_refused c (registry_state C file) = None \<and>
     (\<exists>res'. append_record (gc_path C) io (record_of_control c (registry_state C file)) file = (res', file') \<and>
        gr_ok res = gr_ok res'))"
proof (cases "ss_healthy (scan_registry rio (gc_budget C) file)")
  case True
  with assms healthy_state(1) [OF True] show ?thesis
    by (auto simp: apply_control_def Let_def gr_ok_def gr_fail_def gr_empty_def not_le not_less
        split: if_splits option.splits prod.splits)
next
  case False
  with assms show ?thesis
    by (auto simp: apply_control_def Let_def gr_ok_def gr_fail_def gr_empty_def split: if_splits)
qed

lemma register_outcome:
  assumes "register_policy C rio io d p file = (res, file')"
  shows "file' = file \<and> \<not> gr_ok res \<or>
    (verify_signed_policy_package d p (gc_package_verifier C) = [] \<and>
     ss_healthy (scan_registry rio (gc_budget C) file) \<and>
     ss_next_sequence (registry_state C file) < gb_max_records (gc_budget C) \<and>
     map_of (ss_policies (registry_state C file)) (sp_policy_id p) = None \<and>
     map_of (ss_package_to_policy (registry_state C file)) (sp_package_id p) = None \<and>
     length (ss_policies (registry_state C file)) < unat (gb_max_policies (gc_budget C)) \<and>
     (\<exists>res'. append_record (gc_path C) io (record_of_package p (registry_state C file)) file = (res', file') \<and>
        gr_ok res = gr_ok res'))"
proof (cases "ss_healthy (scan_registry rio (gc_budget C) file)")
  case True
  with assms healthy_state(1) [OF True] show ?thesis
    by (auto simp: register_policy_def Let_def gr_ok_def gr_fail_def gr_empty_def not_le not_less
        split: if_splits prod.splits)
next
  case False
  with assms show ?thesis
    by (auto simp: register_policy_def Let_def gr_ok_def gr_fail_def gr_empty_def split: if_splits)
qed

section \<open>Histories of a registry\<close>

datatype registry_call = Rc_Register policy_document signed_package | Rc_Control signed_control

fun do_registry_call :: "registry_cfg \<Rightarrow> read_io \<Rightarrow> io \<Rightarrow> registry_call \<Rightarrow> string option \<Rightarrow> registry_result \<times> string option" where
  "do_registry_call C rio io (Rc_Register d p) file = register_policy C rio io d p file"
| "do_registry_call C rio io (Rc_Control c) file = apply_control C rio io c file"

text \<open>Calls on a registry that starts without a file; torn writes and unreadable files included.\<close>

inductive registry_run :: "registry_cfg \<Rightarrow> registry_call list \<Rightarrow> string option \<Rightarrow> bool" for C where
  run_start: "registry_run C [] None"
| run_call: "registry_run C cs file \<Longrightarrow> do_registry_call C rio io c file = (res, file') \<Longrightarrow> registry_run C (cs @ [c]) file'"

definition call_record :: "registry_call \<Rightarrow> scan_state \<Rightarrow> registry_record" where
  "call_record c s = seal_record (case c of Rc_Register d p \<Rightarrow> record_of_package p s | Rc_Control c \<Rightarrow> record_of_control c s)"

definition call_signed :: "registry_cfg \<Rightarrow> registry_call \<Rightarrow> bool" where
  "call_signed C c \<longleftrightarrow> (case c of
     Rc_Register d p \<Rightarrow> verify_signed_policy_package d p (gc_package_verifier C) = []
   | Rc_Control c \<Rightarrow> verify_signed_policy_control c (gc_control_verifier C) = [])"

lemma call_record_writable:
  "call_signed C c \<Longrightarrow> is_sha256 (ss_head s) \<Longrightarrow> writable (call_record c s) \<and> is_sha256 (rr_record_sha256 (call_record c s))"
  using sealed writable_package writable_control
  by (auto simp: call_record_def call_signed_def split: registry_call.splits)

lemma call_outcome:
  assumes "do_registry_call C rio io c file = (res, file')"
  shows "file' = file \<or> (call_signed C c \<and> ss_healthy (registry_state C file) \<and>
    (\<exists>n. file' = file_append file (take n (serialize (call_record c (registry_state C file)) @ [NL]))))"
proof (cases c)
  case (Rc_Register d p)
  with assms register_outcome [of C rio io d p "file" res file'] show ?thesis
    by (auto simp: call_signed_def call_record_def simp del: take_append dest: append_record_outcome(3) healthy_state(2))
next
  case (Rc_Control k)
  with assms apply_control_outcome [of C rio io k "file" res file'] show ?thesis
    by (auto simp: call_signed_def call_record_def simp del: take_append dest: append_record_outcome(3) healthy_state(2))
qed

text \<open>A torn write leaves nothing that is accepted, or the whole record.\<close>

lemma torn_append:
  assumes "scan_all B (file_lines file) scan_start = Some s"
    and "scan_all B (file_lines (file_append file (take n (serialize r @ [NL])))) scan_start = Some t"
    and r: "writable r" "is_sha256 (rr_record_sha256 r)"
  shows "t = s \<or> (\<exists>u. apply_record B r s = (None, u) \<and> t = advance r u)"
proof -
  have "hd (serialize r) \<noteq> CHR 0x0D" by simp
  from reg.torn_line [OF assms(1,2) serialize_no_NL [OF r(1)] this writable_shaped [OF r]]
  consider "t = s" | "scan_step B (serialize r) s = Some t" by blast
  then show ?thesis
  proof cases
    case 2
    have "length (serialize r) \<le> kMaxLineBytes"
      using 2 strip_serialize [OF r] by (auto elim!: scan_stepE simp: deserialize_def Let_def split: if_splits)
    from written_step [OF 2 r this] show ?thesis by blast
  qed simp
qed

lemma call_effect:
  assumes "do_registry_call C rio io c file = (res, file')" "ss_healthy (registry_state C file')"
  shows "ss_healthy (registry_state C file) \<and> (registry_state C file' = registry_state C file \<or>
    (call_signed C c \<and> (\<exists>u. apply_record (gc_budget C) (call_record c (registry_state C file)) (registry_state C file) = (None, u) \<and>
       registry_state C file' = advance (call_record c (registry_state C file)) u)))"
  using call_outcome [OF assms(1)]
proof
  assume "call_signed C c \<and> ss_healthy (registry_state C file) \<and>
    (\<exists>n. file' = file_append file (take n (serialize (call_record c (registry_state C file)) @ [NL])))"
  then obtain n where h: "call_signed C c" "ss_healthy (registry_state C file)"
    and f: "file' = file_append file (take n (serialize (call_record c (registry_state C file)) @ [NL]))" by blast
  have "is_sha256 (ss_head (registry_state C file))" using registry_wf_scan [OF h(2)] by (simp add: registry_wf_def)
  note w = call_record_writable [OF h(1) this]
  from torn_append [OF healthy_state(3) [OF h(2)] healthy_state(3) [OF assms(2), unfolded f]] w h f
  show ?thesis by blast
qed (use assms(2) in simp)

text \<open>Every stored package and the active policy go back to signed calls.\<close>

definition traced :: "registry_cfg \<Rightarrow> registry_call list \<Rightarrow> scan_state \<Rightarrow> bool" where
  "traced C cs s \<longleftrightarrow>
     (\<forall>p st. map_of (ss_policies s) p = Some st \<longrightarrow>
        (\<exists>d. Rc_Register d (st_package st) \<in> set cs \<and> call_signed C (Rc_Register d (st_package st)))) \<and>
     (ss_active_policy s \<noteq> [] \<longrightarrow>
        (\<exists>c. Rc_Control c \<in> set cs \<and> call_signed C (Rc_Control c) \<and> ce_action (pc_envelope c) \<noteq> CA_Revoke \<and>
           ce_policy_id (pc_envelope c) = ss_active_policy s \<and> ce_package_id (pc_envelope c) = ss_active_package s))"

lemma traced_mono: "traced C cs s \<Longrightarrow> traced C (cs @ cs') s"
  unfolding traced_def by (metis Un_iff set_append)

lemma traced_apply:
  assumes "traced C cs s" "call_signed C c" "apply_record B (call_record c s) s = (None, u)"
  shows "traced C (cs @ [c]) (advance (call_record c s) u)"
  using assms(3)
proof (cases rule: apply_recordE)
  case register
  then obtain d p where c: "c = Rc_Register d p"
    by (cases c) (auto simp: call_record_def seal_record_def record_of_control_def Let_def)
  then have "sp_schema_version p = 1" using assms(2) by (simp add: call_signed_def verify_package_iff)
  then have "package_of_record (call_record c s) = p" using package_of_sealed by (simp add: call_record_def c)
  moreover have "ss_active_policy u = ss_active_policy s" "ss_active_package u = ss_active_package s"
    by (simp_all add: register(5))
  ultimately show ?thesis using traced_mono [OF assms(1), of "[c]"] assms(2) c
    by (auto simp: traced_def advance_def register(5) fun_upd_apply)
next
  case (control st v)
  let ?r = "call_record c s"
  from control(1) obtain k where c: "c = Rc_Control k"
    by (cases c) (auto simp: call_record_def seal_record_def record_of_package_def)
  have r: "rr_kind ?r = kind_of_action (ce_action (pc_envelope k))" "rr_policy_id ?r = ce_policy_id (pc_envelope k)"
    "rr_package_id ?r = ce_package_id (pc_envelope k)"
    by (simp_all add: c call_record_def seal_record_def record_of_control_def Let_def)
  have v: "ss_policies v = ss_policies s" "ss_active_policy v = ss_active_policy s" "ss_active_package v = ss_active_package s"
    by (simp_all add: control(8))
  have "map_of (ss_policies v) (rr_policy_id ?r) = Some st" by (simp add: v control(6))
  from control_effect [OF control(9) this] obtain st' where e: "st_package st' = st_package st"
    "map_of (ss_policies u) = (map_of (ss_policies s))(rr_policy_id ?r \<mapsto> st')"
    "if rr_kind ?r = RK_Revoke
     then st_revoked st' \<and> (if ss_active_policy s = rr_policy_id ?r then ss_active_policy u = [] \<and> ss_active_package u = []
       else ss_active_policy u = ss_active_policy s \<and> ss_active_package u = ss_active_package s)
     else st_revoked st' = st_revoked st \<and> st_ever_active st' \<and> ss_active_policy u = rr_policy_id ?r \<and>
       ss_active_package u = rr_package_id ?r"
    unfolding v by metis
  note T = traced_mono [OF assms(1), of "[c]", unfolded traced_def]
  have "\<forall>p su. map_of (ss_policies u) p = Some su \<longrightarrow>
      (\<exists>d. Rc_Register d (st_package su) \<in> set (cs @ [c]) \<and> call_signed C (Rc_Register d (st_package su)))"
    using T control(6) e(1,2) by (metis (no_types, lifting) fun_upd_apply option.inject)
  moreover have "ss_active_policy u \<noteq> [] \<longrightarrow>
      (\<exists>c'. Rc_Control c' \<in> set (cs @ [c]) \<and> call_signed C (Rc_Control c') \<and> ce_action (pc_envelope c') \<noteq> CA_Revoke \<and>
         ce_policy_id (pc_envelope c') = ss_active_policy u \<and> ce_package_id (pc_envelope c') = ss_active_package u)"
  proof (cases "rr_kind ?r = RK_Revoke")
    case True
    with e(3) T show ?thesis by (metis (no_types, lifting))
  next
    case False
    then have "ce_action (pc_envelope k) \<noteq> CA_Revoke" using r(1) by (auto simp: kind_of_action_def)
    with False e(3) assms(2) c r show ?thesis by auto
  qed
  ultimately show ?thesis by (simp add: traced_def advance_def)
qed

lemma run_traced:
  "registry_run C cs file \<Longrightarrow> ss_healthy (registry_state C file) \<Longrightarrow> traced C cs (registry_state C file)"
proof (induction rule: registry_run.induct)
  case run_start
  then show ?case by (simp add: traced_def scan_registry_def scan_start_def)
next
  case (run_call cs before rio io c res file')
  from call_effect [OF run_call.hyps(2) run_call.prems] run_call.IH show ?case
    using traced_apply [of C cs "registry_state C before" c] traced_mono [of C cs _ "[c]"] by auto
qed

section \<open>Calls that succeed\<close>

lemma control_record_sel [simp]:
  "rr_kind (call_record (Rc_Control c) s) = kind_of_action (ce_action (pc_envelope c))"
  "rr_policy_id (call_record (Rc_Control c) s) = ce_policy_id (pc_envelope c)"
  "rr_package_id (call_record (Rc_Control c) s) = ce_package_id (pc_envelope c)"
  "rr_control_id (call_record (Rc_Control c) s) = pc_control_id c"
  "rr_expected_active (call_record (Rc_Control c) s) = ce_expected_active (pc_envelope c)"
  "rr_signer_id (call_record (Rc_Control c) s) = ce_signer_id (pc_envelope c)"
  "rr_nonce (call_record (Rc_Control c) s) = ce_nonce (pc_envelope c)"
  "rr_sequence (call_record k s) = ss_next_sequence s" "rr_previous (call_record k s) = ss_head s"
  by (simp_all add: call_record_def seal_record_def record_of_control_def record_of_package_def Let_def
      split: registry_call.split)

lemma kind_of_action_code [simp]:
  "kind_of_action a = RK_Revoke \<longleftrightarrow> a = CA_Revoke" "kind_of_action a = RK_Rollback \<longleftrightarrow> a = CA_Rollback"
  by (cases a; simp add: kind_of_action_def)+

lemma accepted_control_applies:
  assumes "control_refused c s = None"
  shows "\<exists>u. apply_record B (call_record (Rc_Control c) s) s = (None, u)"
proof -
  obtain st where st: "map_of (ss_policies s) (ce_policy_id (pc_envelope c)) = Some st" "\<not> st_revoked st"
    "ce_action (pc_envelope c) \<noteq> CA_Revoke \<longrightarrow> ss_active_policy s \<noteq> ce_policy_id (pc_envelope c)"
    "ce_action (pc_envelope c) = CA_Rollback \<longrightarrow> st_ever_active st"
    using assms unfolding control_refused_None by blast
  with assms [unfolded control_refused_None] show ?thesis
    by (auto simp: apply_record_def apply_control_record_def Let_def)
qed

text \<open>After a revocation the policy is revoked, after an activation it is the active one.\<close>

lemma control_record_state:
  assumes "apply_record B (call_record (Rc_Control c) s) s = (None, u)"
  shows "ss_active_policy u = (if ce_action (pc_envelope c) = CA_Revoke
      then (if ss_active_policy s = ce_policy_id (pc_envelope c) then [] else ss_active_policy s)
      else ce_policy_id (pc_envelope c))"
    "ce_action (pc_envelope c) = CA_Revoke \<Longrightarrow>
       \<exists>st. map_of (ss_policies u) (ce_policy_id (pc_envelope c)) = Some st \<and> st_revoked st"
    "ss_active_package u = (if ce_action (pc_envelope c) = CA_Revoke
      then (if ss_active_policy s = ce_policy_id (pc_envelope c) then [] else ss_active_package s)
      else ce_package_id (pc_envelope c))"
proof -
  let ?p = "ce_policy_id (pc_envelope c)"
  obtain st v where a: "map_of (ss_policies v) ?p = Some st" "ss_active_policy v = ss_active_policy s"
    "ss_active_package v = ss_active_package s"
    "if ce_action (pc_envelope c) = CA_Revoke then u = revoke_state ?p st v
     else u = activate_state ?p (ce_package_id (pc_envelope c)) st v"
    using assms
  proof (cases rule: apply_recordE)
    case (control st v)
    have "map_of (ss_policies v) ?p = Some st" "ss_active_policy v = ss_active_policy s"
      "ss_active_package v = ss_active_package s"
      using control(6) by (simp_all add: control(8))
    then show thesis by (rule that) (use control(9) in \<open>simp split: if_splits\<close>)
  qed simp
  then show "ss_active_policy u = (if ce_action (pc_envelope c) = CA_Revoke
      then (if ss_active_policy s = ?p then [] else ss_active_policy s) else ?p)"
    "ss_active_package u = (if ce_action (pc_envelope c) = CA_Revoke
      then (if ss_active_policy s = ?p then [] else ss_active_package s) else ce_package_id (pc_envelope c))"
    by (auto simp: revoke_state_def activate_state_def Let_def split: if_splits)
  show "ce_action (pc_envelope c) = CA_Revoke \<Longrightarrow> \<exists>st. map_of (ss_policies u) ?p = Some st \<and> st_revoked st"
    using a by (auto simp: revoke_state_def Let_def)
qed

lemma head_is_sha: "ss_healthy (scan_registry rio B file) \<Longrightarrow> is_sha256 (ss_head (scan_registry rio B file))"
  using registry_wf_scan [of rio B "file"] by (simp add: registry_wf_def)

lemma call_success:
  assumes "do_registry_call C rio io c file = (res, file')" "gr_ok res"
  shows "call_signed C c" "ss_healthy (registry_state C file)"
    "ss_next_sequence (registry_state C file) < gb_max_records (gc_budget C)"
    "file' = file_append file (serialize (call_record c (registry_state C file)) @ [NL])"
    "length (serialize (call_record c (registry_state C file))) \<le> kMaxLineBytes"
    "\<exists>u. apply_record (gc_budget C) (call_record c (registry_state C file)) (registry_state C file) = (None, u)"
proof -
  let ?s = "registry_state C file"
  have "call_signed C c \<and> ss_healthy ?s \<and> ss_next_sequence ?s < gb_max_records (gc_budget C) \<and>
    file' = file_append file (serialize (call_record c ?s) @ [NL]) \<and>
    length (serialize (call_record c ?s)) \<le> kMaxLineBytes \<and>
    (\<exists>u. apply_record (gc_budget C) (call_record c ?s) ?s = (None, u))"
  proof (cases c)
    case (Rc_Register d p)
    then have "register_policy C rio io d p file = (res, file')" using assms(1) by simp
    from register_outcome [OF this] assms(2) obtain res' where
      r: "verify_signed_policy_package d p (gc_package_verifier C) = []" "ss_healthy ?s"
        "ss_next_sequence ?s < gb_max_records (gc_budget C)" "map_of (ss_policies ?s) (sp_policy_id p) = None"
        "map_of (ss_package_to_policy ?s) (sp_package_id p) = None"
        "length (ss_policies ?s) < unat (gb_max_policies (gc_budget C))"
        "append_record (gc_path C) io (record_of_package p ?s) file = (res', file')" "gr_ok res'"
      using healthy_state(2) by blast
    moreover have "\<exists>u. apply_record (gc_budget C) (call_record c ?s) ?s = (None, u)"
      using r(4-6) by (simp add: Rc_Register call_record_def seal_record_def record_of_package_def apply_record_def
          apply_register_record_def)
    ultimately show ?thesis using append_record_outcome(1,2) [OF r(7)]
      by (simp add: Rc_Register call_signed_def call_record_def)
  next
    case (Rc_Control k)
    then have "apply_control C rio io k file = (res, file')" using assms(1) by simp
    from apply_control_outcome [OF this] assms(2) obtain res' where
      r: "verify_signed_policy_control k (gc_control_verifier C) = []" "ss_healthy ?s"
        "ss_next_sequence ?s < gb_max_records (gc_budget C)" "control_refused k ?s = None"
        "append_record (gc_path C) io (record_of_control k ?s) file = (res', file')" "gr_ok res'"
      using healthy_state(2) by blast
    with accepted_control_applies [OF r(4), of "gc_budget C"] append_record_outcome(1,2) [OF r(5)] show ?thesis
      by (simp add: Rc_Control call_signed_def call_record_def)
  qed
  then show "call_signed C c" "ss_healthy ?s" "ss_next_sequence ?s < gb_max_records (gc_budget C)"
    "file' = file_append file (serialize (call_record c ?s) @ [NL])" "length (serialize (call_record c ?s)) \<le> kMaxLineBytes"
    "\<exists>u. apply_record (gc_budget C) (call_record c ?s) ?s = (None, u)"
    by blast+
qed

definition call_signature :: "registry_call \<Rightarrow> string" where
  "call_signature c = (case c of Rc_Register d p \<Rightarrow> sp_signature p | Rc_Control k \<Rightarrow> pc_signature k)"

lemma call_rejection:
  "call_signed C c \<Longrightarrow> is_sha256 (ss_head s) \<Longrightarrow>
   record_rejection (call_record c s) = None \<longleftrightarrow> length (call_signature c) \<le> 8192"
  using package_rejection control_rejection
  by (auto simp: call_signed_def call_record_def call_signature_def split: registry_call.splits)

text \<open>A successful call whose signature the reader accepts is in force at the next scan.\<close>

lemma call_in_force:
  assumes "do_registry_call C rio io c file = (res, file')" "gr_ok res" "terminated file"
    "length (call_signature c) \<le> 8192"
  obtains u where "apply_record (gc_budget C) (call_record c (registry_state C file)) (registry_state C file) = (None, u)"
    "registry_state C file' = advance (call_record c (registry_state C file)) u" "ss_healthy (registry_state C file')"
    "terminated file'"
proof -
  let ?s = "registry_state C file"
  note S = call_success [OF assms(1,2)]
  note h = head_is_sha [OF S(2)]
  note w = call_record_writable [OF S(1) h]
  obtain u where u: "apply_record (gc_budget C) (call_record c ?s) ?s = (None, u)" using S(6) by blast
  have rej: "record_rejection (call_record c ?s) = None" using call_rejection [OF S(1) h] assms(4) by blast
  note A = written_record_accepted [OF healthy_state(3) [OF S(2)] assms(3) conjunct1 [OF w] conjunct2 [OF w] rej S(3)
      control_record_sel(8,9) u]
  from A(2) that [OF u] scan_registry_all [OF A(1)] S(4) show thesis by simp
qed

lemma later_state:
  assumes "do_registry_call C rio io c file = (res, file')" "gr_ok res"
    "ss_healthy (registry_state C (file_append file' later))"
  obtains u where "apply_record (gc_budget C) (call_record c (registry_state C file)) (registry_state C file) = (None, u)"
    "grown (advance (call_record c (registry_state C file)) u) (registry_state C (file_append file' later))"
    "length (call_signature c) \<le> 8192"
proof -
  let ?s = "registry_state C file"
  note S = call_success [OF assms(1,2)]
  note h = head_is_sha [OF S(2)]
  note w = call_record_writable [OF S(1) h]
  from written_record_applied [OF healthy_state(3) [OF S(2)] healthy_state(3) [OF assms(3), unfolded S(4)]
      conjunct1 [OF w] conjunct2 [OF w] S(5)]
  obtain u where u: "apply_record (gc_budget C) (call_record c ?s) ?s = (None, u)"
    "scan_all (gc_budget C) (getlines later) (advance (call_record c ?s) u) = Some (registry_state C (file_append file' later))"
    "record_rejection (call_record c ?s) = None"
    unfolding S(4) by blast
  from that [OF u(1) grown_all [OF u(2)]] u(3) call_rejection [OF S(1) h] show thesis by blast
qed

end
