(* ===== verification/Policy_Registry_Safety.thy ===== *)
theory Policy_Registry_Safety
  imports Policy_Registry_Runs
begin

text \<open>
  The properties of the policy registry, with a concrete registry that holds one policy.
\<close>

section \<open>A concrete registry\<close>

definition open_verifier :: authority_verifier where
  "open_verifier = \<lparr>ver_knows = (\<lambda>_ _. True), ver_verify = (\<lambda>_ _ _ _. True)\<rparr>"

definition sample_registry :: registry_cfg where
  "sample_registry = \<lparr>gc_path = ''policy'', gc_package_verifier = open_verifier, gc_control_verifier = open_verifier,
     gc_budget = default_registry_budget\<rparr>"

definition sample_package :: "string \<Rightarrow> signed_package" where
  "sample_package sg =
     (let p = \<lparr>sp_schema_version = 1, sp_policy_id = document_id sample_policy, sp_signer_id = ''root'',
        sp_algorithm = ''alg'', sp_signed_at = 1, sp_signature = sg, sp_package_id = []\<rparr>
      in p\<lparr>sp_package_id := package_id_for p\<rparr>)"

definition sample_control :: "control_action \<Rightarrow> string \<Rightarrow> string \<Rightarrow> signed_control" where
  "sample_control a expected nc =
     (let e = \<lparr>ce_schema_version = 1, ce_action = a, ce_package_id = sp_package_id (sample_package ''sig''),
        ce_policy_id = document_id sample_policy, ce_expected_active = expected, ce_actor_reference = ''operator'',
        ce_signer_id = ''root'', ce_issued_at = 2, ce_nonce = nc, ce_reason_sha256 = sha256 []\<rparr>;
          c = \<lparr>pc_envelope = e, pc_algorithm = ''alg'', pc_envelope_sha256 = sha256 (canonical_policy_control e),
        pc_signature = ''sig'', pc_control_id = []\<rparr>
      in c\<lparr>pc_control_id := control_id_for c\<rparr>)"

lemma package_id_prefixed [simp]: "prefixed_sha256 kPackagePrefix (package_id_for p)"
  "prefixed_sha256 kControlPrefix (control_id_for c)" "prefixed_sha256 kPolicyPrefix (document_id d)"
  by (simp_all add: package_id_for_def control_id_for_def document_id_def)

lemma sample_package_sel [simp]:
  "sp_schema_version (sample_package sg) = 1" "sp_policy_id (sample_package sg) = document_id sample_policy"
  "sp_signer_id (sample_package sg) = ''root''" "sp_algorithm (sample_package sg) = ''alg''"
  "sp_signed_at (sample_package sg) = 1" "sp_signature (sample_package sg) = sg"
  by (simp_all add: sample_package_def Let_def)

lemma sample_package_own_id [simp]: "package_id_for (sample_package sg) = sp_package_id (sample_package sg)"
  by (simp add: sample_package_def Let_def package_id_for_def)

lemma sample_package_id [simp]: "prefixed_sha256 kPackagePrefix (sp_package_id (sample_package sg))"
  by (metis package_id_prefixed(1) sample_package_own_id)

lemma sample_package_verifies: "sg \<noteq> [] \<Longrightarrow> verify_signed_policy_package sample_policy (sample_package sg) open_verifier = []"
  by (simp add: verify_package_iff sample_policy_valid open_verifier_def valid_text_def printable_def)

lemma sample_control_sel [simp]:
  "ce_action (pc_envelope (sample_control a x nc)) = a" "ce_policy_id (pc_envelope (sample_control a x nc)) = document_id sample_policy"
  "ce_package_id (pc_envelope (sample_control a x nc)) = sp_package_id (sample_package ''sig'')"
  "ce_expected_active (pc_envelope (sample_control a x nc)) = x" "ce_nonce (pc_envelope (sample_control a x nc)) = nc"
  "ce_actor_reference (pc_envelope (sample_control a x nc)) = ''operator''"
  "ce_signer_id (pc_envelope (sample_control a x nc)) = ''root''" "pc_signature (sample_control a x nc) = ''sig''"
  by (simp_all add: sample_control_def Let_def)

lemma sample_control_own_id [simp]: "control_id_for (sample_control a x nc) = pc_control_id (sample_control a x nc)"
  by (simp add: sample_control_def Let_def control_id_for_def)

lemma sample_control_id [simp]: "prefixed_sha256 kControlPrefix (pc_control_id (sample_control a x nc))"
  by (metis package_id_prefixed(2) sample_control_own_id)

lemma sample_control_verifies:
  "valid_text nc 128 \<Longrightarrow> x = [] \<or> prefixed_sha256 kPolicyPrefix x \<Longrightarrow>
   verify_signed_policy_control (sample_control a x nc) open_verifier = []"
  by (simp add: verify_control_iff control_malformed_def Let_def)
    (auto simp: sample_control_def Let_def open_verifier_def valid_text_def printable_def)

lemma registry_budget_sel [simp]:
  "gc_budget sample_registry = default_registry_budget" "gc_path sample_registry = ''policy''"
  "gc_package_verifier sample_registry = open_verifier" "gc_control_verifier sample_registry = open_verifier"
  "gb_max_policies default_registry_budget = 256" "gb_max_records default_registry_budget = 4096"
  "gb_max_actor_bytes default_registry_budget = 256" "gb_max_nonce_bytes default_registry_budget = 128"
  by (simp_all add: sample_registry_def default_registry_budget_def)

lemma register_accepts:
  assumes "verify_signed_policy_package d p (gc_package_verifier C) = []" "ss_healthy (scan_registry rio (gc_budget C) file)"
    "gb_max_policies (gc_budget C) \<noteq> 0" "gb_max_actor_bytes (gc_budget C) \<noteq> 0" "gb_max_nonce_bytes (gc_budget C) \<noteq> 0"
    "ss_next_sequence (registry_state C file) < gb_max_records (gc_budget C)"
    "map_of (ss_policies (registry_state C file)) (sp_policy_id p) = None"
    "map_of (ss_package_to_policy (registry_state C file)) (sp_package_id p) = None"
    "length (ss_policies (registry_state C file)) < unat (gb_max_policies (gc_budget C))"
    "gc_path C \<noteq> []" "length (serialize (call_record (Rc_Register d p) (registry_state C file))) \<le> kMaxLineBytes"
  shows "gr_ok (fst (register_policy C rio Write_Ok d p file))"
proof -
  obtain r file' where a: "append_record (gc_path C) Write_Ok (record_of_package p (registry_state C file)) file = (r, file')"
    by fastforce
  have "gr_ok r" using append_record_outcome(1) [OF a] assms(10,11) by (simp add: call_record_def)
  moreover have "gb_max_records (gc_budget C) \<noteq> 0"
    "\<not> gb_max_records (gc_budget C) \<le> ss_next_sequence (registry_state C file)"
    using assms(6) by auto
  ultimately show ?thesis using assms a healthy_state(1) [OF assms(2)]
    by (simp add: register_policy_def Let_def gr_ok_def)
qed

lemma scan_None [simp]: "scan_registry Read_Ok B None = scan_start"
  by (simp add: scan_registry_def)

lemma sample_registered:
  obtains res f where "do_registry_call sample_registry Read_Ok Write_Ok (Rc_Register sample_policy (sample_package ''sig'')) None = (res, Some f)"
    "gr_ok res" "terminated (Some f)" "ss_healthy (registry_state sample_registry (Some f))"
    "ss_next_sequence (registry_state sample_registry (Some f)) = 1"
    "\<exists>st. map_of (ss_policies (registry_state sample_registry (Some f))) (document_id sample_policy) = Some st \<and>
       \<not> st_revoked st \<and> \<not> st_ever_active st"
    "map_of (ss_package_to_policy (registry_state sample_registry (Some f))) (sp_package_id (sample_package ''sig'')) =
       Some (document_id sample_policy)"
    "ss_used_controls (registry_state sample_registry (Some f)) = []"
    "ss_nonce_to_control (registry_state sample_registry (Some f)) = []"
    "ss_active_policy (registry_state sample_registry (Some f)) = []"
proof -
  let ?C = sample_registry and ?c = "Rc_Register sample_policy (sample_package ''sig'')"
  have s: "call_signed ?C ?c" by (simp add: call_signed_def sample_package_verifies)
  have rej: "record_rejection (call_record ?c scan_start) = None"
    using call_rejection [OF s, of scan_start] by (simp add: call_signature_def scan_start_def)
  have "gr_ok (fst (register_policy ?C Read_Ok Write_Ok sample_policy (sample_package ''sig'') None))"
    by (rule register_accepts) (simp_all add: sample_package_verifies short_line [OF rej], simp_all add: scan_start_def)
  then obtain res file' where call: "do_registry_call ?C Read_Ok Write_Ok ?c None = (res, file')" "gr_ok res"
    by (metis do_registry_call.simps(1) fst_eqD surj_pair)
  have "terminated None" by (simp add: terminated_def file_bytes_def)
  from call_in_force [OF call this] obtain u where
    u: "apply_record (gc_budget ?C) (call_record ?c scan_start) scan_start = (None, u)"
      "registry_state ?C file' = advance (call_record ?c scan_start) u" "ss_healthy (registry_state ?C file')" "terminated file'"
    by (auto simp: call_signature_def)
  obtain f where f: "file' = Some f" using call_success(4) [OF call] by (auto simp: file_append_def)
  have "u = scan_start\<lparr>ss_package_to_policy := [(sp_package_id (sample_package ''sig''), document_id sample_policy)],
      ss_policies := [(document_id sample_policy, \<lparr>st_package = sample_package ''sig'', st_revoked = False, st_ever_active = False\<rparr>)]\<rparr>"
    using u(1) package_of_sealed [of "sample_package ''sig''" scan_start]
    by (auto simp: apply_record_def apply_register_record_def call_record_def seal_record_def record_of_package_def scan_start_def
        split: if_splits)
  with that [of res f] call u(2-4) f show thesis by (simp add: advance_def scan_start_def)
qed

lemma control_accepts:
  assumes "verify_signed_policy_control c (gc_control_verifier C) = []" "ss_healthy (scan_registry rio (gc_budget C) file)"
    "length (ce_actor_reference (pc_envelope c)) \<le> unat (gb_max_actor_bytes (gc_budget C))"
    "length (ce_nonce (pc_envelope c)) \<le> unat (gb_max_nonce_bytes (gc_budget C))"
    "ss_next_sequence (registry_state C file) < gb_max_records (gc_budget C)"
    "control_refused c (registry_state C file) = None"
  shows "gr_ok (fst (apply_control C rio io c file)) \<longleftrightarrow>
    gr_ok (fst (append_record (gc_path C) io (record_of_control c (registry_state C file)) file))"
  using assms healthy_state(1) [OF assms(2)]
  by (auto simp: apply_control_def Let_def gr_ok_def not_le not_less split: prod.split)

lemma control_call:
  assumes "verify_signed_policy_control c (gc_control_verifier C) = []" "ss_healthy (registry_state C file)" "terminated file"
    "length (ce_actor_reference (pc_envelope c)) \<le> unat (gb_max_actor_bytes (gc_budget C))"
    "length (ce_nonce (pc_envelope c)) \<le> unat (gb_max_nonce_bytes (gc_budget C))"
    "ss_next_sequence (registry_state C file) < gb_max_records (gc_budget C)"
    "control_refused c (registry_state C file) = None" "gc_path C \<noteq> []" "length (pc_signature c) \<le> 8192"
  obtains res f where "do_registry_call C Read_Ok Write_Ok (Rc_Control c) file = (res, Some f)" "gr_ok res"
proof -
  let ?k = "Rc_Control c" and ?s = "registry_state C file"
  obtain res file' where call: "apply_control C Read_Ok Write_Ok c file = (res, file')" by fastforce
  obtain r g where a: "append_record (gc_path C) Write_Ok (record_of_control c ?s) file = (r, g)" by fastforce
  have s: "call_signed C ?k" using assms(1) by (simp add: call_signed_def)
  have "record_rejection (call_record ?k ?s) = None"
    using call_rejection [OF s head_is_sha [OF assms(2)]] assms(9) by (simp add: call_signature_def)
  from short_line [OF this] have "gr_ok r" using append_record_outcome(1) [OF a] assms(8) by (simp add: call_record_def)
  with control_accepts [OF assms(1,2,4-7), of Write_Ok] a call have ok: "gr_ok res" by simp
  from call_success(4) [of C Read_Ok Write_Ok ?k "file" res file'] call ok that show thesis
    by (auto simp: file_append_def)
qed

lemma sample_activated:
  obtains f1 f2 res where "registry_run sample_registry [Rc_Register sample_policy (sample_package ''sig'')] (Some f1)"
    "do_registry_call sample_registry Read_Ok Write_Ok (Rc_Control (sample_control CA_Activate [] ''n1'')) (Some f1) = (res, Some f2)"
    "gr_ok res" "terminated (Some f1)" "ss_healthy (registry_state sample_registry (Some f2))"
    "ss_active_policy (registry_state sample_registry (Some f2)) = document_id sample_policy"
proof -
  let ?C = sample_registry and ?k = "sample_control CA_Activate [] ''n1''"
  obtain res f1 where f1: "do_registry_call ?C Read_Ok Write_Ok (Rc_Register sample_policy (sample_package ''sig'')) None = (res, Some f1)"
    "gr_ok res" "terminated (Some f1)" "ss_healthy (registry_state ?C (Some f1))" "ss_next_sequence (registry_state ?C (Some f1)) = 1"
    "\<exists>st. map_of (ss_policies (registry_state ?C (Some f1))) (document_id sample_policy) = Some st \<and>
       \<not> st_revoked st \<and> \<not> st_ever_active st"
    "map_of (ss_package_to_policy (registry_state ?C (Some f1))) (sp_package_id (sample_package ''sig'')) = Some (document_id sample_policy)"
    "ss_used_controls (registry_state ?C (Some f1)) = []" "ss_nonce_to_control (registry_state ?C (Some f1)) = []"
    "ss_active_policy (registry_state ?C (Some f1)) = []"
    by (rule sample_registered)
  have ne: "document_id sample_policy \<noteq> []" using prefixed_not_Nil package_id_prefixed(3) by blast
  have "control_refused ?k (registry_state ?C (Some f1)) = None"
    using f1(6-10) ne by (auto simp: control_refused_None)
  moreover have v: "verify_signed_policy_control ?k (gc_control_verifier ?C) = []"
    using sample_control_verifies [of "''n1''" "[]" CA_Activate] by (simp add: valid_text_def printable_def)
  ultimately obtain res' f2 where f2: "do_registry_call ?C Read_Ok Write_Ok (Rc_Control ?k) (Some f1) = (res', Some f2)" "gr_ok res'"
    using control_call [of ?k ?C "Some f1"] f1(3-5) by auto
  obtain u where u: "apply_record (gc_budget ?C) (call_record (Rc_Control ?k) (registry_state ?C (Some f1))) (registry_state ?C (Some f1)) = (None, u)"
    "registry_state ?C (Some f2) = advance (call_record (Rc_Control ?k) (registry_state ?C (Some f1))) u"
    "ss_healthy (registry_state ?C (Some f2))"
    using call_in_force [OF f2 f1(3)] by (auto simp: call_signature_def)
  have "ss_active_policy (registry_state ?C (Some f2)) = document_id sample_policy"
    unfolding u(2) using control_record_state(1) [OF u(1)] by (simp add: advance_def)
  moreover have "registry_run ?C ([] @ [Rc_Register sample_policy (sample_package ''sig'')]) (Some f1)"
    by (rule run_call [OF run_start f1(1)])
  ultimately show thesis using that [of f1 res' f2] f2 f1(3) u(3) by simp
qed

section \<open>Revocation\<close>

lemma revoked_not_active:
  assumes "ss_healthy (scan_registry rio (gc_budget C) file)"
    "map_of (ss_policies (scan_registry rio (gc_budget C) file)) p = Some st" "st_revoked st"
  shows "ss_active_policy (scan_registry rio (gc_budget C) file) \<noteq> p"
proof
  let ?s = "scan_registry rio (gc_budget C) file"
  assume a: "ss_active_policy ?s = p"
  have wf: "linked (map_of (ss_policies ?s)) (map_of (ss_package_to_policy ?s))"
    "admissible (map_of (ss_policies ?s)) (ss_active_policy ?s) (ss_active_package ?s)"
    using registry_wf_scan [OF assms(1)] by (simp_all add: registry_wf_def)
  have "p \<noteq> []" using linkedD(1) [OF wf(1) assms(2)] by blast
  with wf(2) a assms(2,3) show False unfolding admissible_def by auto
qed

lemma grownD: "grown s t \<Longrightarrow> map_of (ss_policies s) p = Some st \<Longrightarrow>
    \<exists>st'. map_of (ss_policies t) p = Some st' \<and> st_package st' = st_package st \<and>
       (st_revoked st \<longrightarrow> st_revoked st') \<and> (st_ever_active st \<longrightarrow> st_ever_active st')"
  unfolding grown_def by blast

lemma advance_maps [simp]:
  "ss_policies (advance r s) = ss_policies s" "ss_package_to_policy (advance r s) = ss_package_to_policy s"
  "ss_used_controls (advance r s) = ss_used_controls s" "ss_nonce_to_control (advance r s) = ss_nonce_to_control s"
  "ss_active_policy (advance r s) = ss_active_policy s" "ss_active_package (advance r s) = ss_active_package s"
  by (simp_all add: advance_def)

text \<open>
  C31. A revoked policy never answers again.  Once a call has answered READY to a signed revocation,
  no bytes added to the journal afterwards, by the registry or by anyone else, make the policy
  active again: every later evaluation through the registry is refused as inactive, or the
  journal is no longer accepted and everything is refused.
\<close>

theorem revoked_policy_never_answers:
  assumes "apply_control C rio io c file = (res, file')" and "gr_ok res"
    and "ce_action (pc_envelope c) = CA_Revoke" and "document_id d = ce_policy_id (pc_envelope c)"
  shows "\<not> is_policy_active C rio2 (document_id d) (file_append file' later) \<and>
    pe_status (backed_evaluate C rio1 rio2 (file_append file' later) d B S q) = PS_PolicyInactive \<and>
    \<not> pe_allowed (backed_evaluate C rio1 rio2 (file_append file' later) d B S q)"
proof -
  have call: "do_registry_call C rio io (Rc_Control c) file = (res, file')" using assms(1) by simp
  have inactive: "\<not> is_policy_active C rio2 (document_id d) (file_append file' later)"
  proof
    let ?now = "scan_registry rio2 (gc_budget C) (file_append file' later)"
    assume "is_policy_active C rio2 (document_id d) (file_append file' later)"
    then have h: "ss_healthy ?now" and a: "ss_active_policy ?now = document_id d"
      by (auto simp: is_policy_active_def Let_def)
    note e = healthy_state(1) [OF h]
    obtain u where u: "apply_record (gc_budget C) (call_record (Rc_Control c) (registry_state C file)) (registry_state C file) = (None, u)"
      "grown (advance (call_record (Rc_Control c) (registry_state C file)) u) (registry_state C (file_append file' later))"
      by (rule later_state [OF call assms(2) healthy_state(2) [OF h]])
    obtain st where "map_of (ss_policies u) (document_id d) = Some st" "st_revoked st"
      using control_record_state(2) [OF u(1) assms(3)] assms(4) by auto
    with grownD [OF u(2)] obtain st' where "map_of (ss_policies ?now) (document_id d) = Some st'" "st_revoked st'"
      unfolding e by (metis advance_maps(1))
    with revoked_not_active [OF h] a show False by blast
  qed
  then have "pe_status (backed_evaluate C rio1 rio2 (file_append file' later) d B S q) = PS_PolicyInactive"
    "pe_decision (backed_evaluate C rio1 rio2 (file_append file' later) d B S q) = PD_Refuse"
    by (simp_all add: backed_evaluate_def registry_is_active_def inactive_policy_result_def)
  with inactive show ?thesis by (simp add: pe_allowed_def)
qed

theorem revoked_policy_never_answers_witness:
  "\<forall>S. \<exists>file res file'. apply_control sample_registry Read_Ok Write_Ok (sample_control CA_Revoke [] ''n1'') file = (res, file') \<and>
     gr_ok res \<and> pe_status (backed_evaluate sample_registry Read_Ok Read_Ok (file_append file' ''PREG'') sample_policy
       default_policy_budget S sample_policy_request) = PS_PolicyInactive"
proof
  fix S
  let ?C = sample_registry and ?k = "sample_control CA_Revoke [] ''n1''"
  obtain f res' where f: "terminated (Some f)" "ss_healthy (registry_state ?C (Some f))" "ss_next_sequence (registry_state ?C (Some f)) = 1"
    "\<exists>st. map_of (ss_policies (registry_state ?C (Some f))) (document_id sample_policy) = Some st \<and>
       \<not> st_revoked st \<and> \<not> st_ever_active st"
    "map_of (ss_package_to_policy (registry_state ?C (Some f))) (sp_package_id (sample_package ''sig'')) = Some (document_id sample_policy)"
    "ss_used_controls (registry_state ?C (Some f)) = []" "ss_nonce_to_control (registry_state ?C (Some f)) = []"
    "ss_active_policy (registry_state ?C (Some f)) = []"
    by (rule sample_registered)
  have "control_refused ?k (registry_state ?C (Some f)) = None"
    using f(4-8) by (auto simp: control_refused_None)
  moreover have "verify_signed_policy_control ?k (gc_control_verifier ?C) = []"
    using sample_control_verifies [of "''n1''" "[]" CA_Revoke] by (simp add: valid_text_def printable_def)
  ultimately obtain res g where g: "apply_control ?C Read_Ok Write_Ok ?k (Some f) = (res, Some g)" "gr_ok res"
    using control_call [of ?k ?C "Some f"] f(1-3) by auto
  from revoked_policy_never_answers [OF g, of sample_policy Read_Ok "''PREG''" Read_Ok default_policy_budget S sample_policy_request] g
  show "\<exists>file res file'. apply_control ?C Read_Ok Write_Ok ?k file = (res, file') \<and> gr_ok res \<and>
      pe_status (backed_evaluate ?C Read_Ok Read_Ok (file_append file' ''PREG'') sample_policy default_policy_budget S
        sample_policy_request) = PS_PolicyInactive"
    by (metis sample_control_sel(1,2))
qed

section \<open>What is active\<close>

lemma kind_of_code_Register: "kind \<le> 3 \<Longrightarrow> kind = 0 \<longleftrightarrow> kind_of_code kind = RK_Register"
proof -
  assume "kind \<le> 3"
  then have "unat kind \<le> 3" by (simp add: word_le_nat_alt)
  then consider "unat kind = 0" | "unat kind = 1" | "unat kind = 2" | "unat kind = 3" by linarith
  then show ?thesis by cases (auto simp: kind_of_code_def unat_eq_zero)
qed

lemma find_package_scan:
  assumes "scan_all B ls s = Some t" "map_of (ss_policies s) p = None"
  shows "find_package_lines ls p = map_option st_package (map_of (ss_policies t) p)"
  using assms
proof (induction ls arbitrary: s)
  case Nil
  then show ?case by simp
next
  case (Cons l ls)
  from Cons.prems(1) obtain s1 where s1: "scan_step B l s = Some s1" "scan_all B ls s1 = Some t"
    by (auto split: option.splits)
  from s1(1) obtain r u where r: "deserialize (strip_cr l) = Inr r" "apply_record B r s = (None, u)" "s1 = advance r u"
    by (rule scan_stepE)
  from r(1) obtain kind where d: "length (split_tabs (strip_cr l)) = 18" "split_tabs (strip_cr l) ! 0 = ''PREG''"
    "parse_unsigned (split_tabs (strip_cr l) ! 1) = Some (1 :: u32)"
    "parse_unsigned (split_tabs (strip_cr l) ! 3) = Some (kind :: u32)" "kind \<le> 3" "rr_kind r = kind_of_code kind"
    "rr_policy_id r = split_tabs (strip_cr l) ! 4" "rr_package_id r = split_tabs (strip_cr l) ! 5"
    "hex_decode (split_tabs (strip_cr l) ! 6) = Some (rr_signer_id r)"
    "hex_decode (split_tabs (strip_cr l) ! 7) = Some (rr_algorithm r)"
    "parse_unsigned (split_tabs (strip_cr l) ! 8) = Some (rr_signed_at r)"
    "hex_decode (split_tabs (strip_cr l) ! 9) = Some (rr_signature r)" "rr_schema_version r = 1"
    by (rule deserializeE)
  have k: "kind = 0 \<longleftrightarrow> rr_kind r = RK_Register"
    unfolding d(6) using d(5) kind_of_code_Register by blast
  have find: "find_package_lines (l # ls) p =
      (if rr_kind r \<noteq> RK_Register \<or> rr_policy_id r \<noteq> p then find_package_lines ls p else Some (package_of_record r))"
    using d k by (simp add: Let_def package_of_record_def)
  show ?case
  proof (cases "rr_kind r = RK_Register \<and> rr_policy_id r = p")
    case True
    then have "map_of (ss_policies s1) p = Some \<lparr>st_package = package_of_record r, st_revoked = False, st_ever_active = False\<rparr>"
      using r(2) by (auto elim!: apply_recordE simp: r(3) advance_def)
    with grown_all [OF s1(2)] obtain st where "map_of (ss_policies t) p = Some st" "st_package st = package_of_record r"
      by (fastforce simp: grown_def)
    with find True show ?thesis by simp
  next
    case False
    have "map_of (ss_policies s1) p = None"
      using r(2)
    proof (cases rule: apply_recordE)
      case register
      with False Cons.prems(2) show ?thesis by (auto simp: r(3))
    next
      case (control st v)
      have v: "ss_policies v = ss_policies s" by (simp add: control(8))
      from control(6) Cons.prems(2) have "rr_policy_id r \<noteq> p" by auto
      with control_effect [OF control(9)] control(6) Cons.prems(2) show ?thesis
        unfolding r(3) advance_maps v by (metis fun_upd_other)
    qed
    from Cons.IH [OF s1(2) this] find False show ?thesis by auto
  qed
qed

lemma package_query:
  assumes "ss_healthy (scan_registry rio B file)"
  shows "find_package Read_Ok file p = map_option st_package (map_of (ss_policies (scan_registry rio B file)) p)"
  using find_package_scan [OF scan_registry_healthy [OF assms], of p] scan_registry_healthy [OF assms]
  by (cases "file") (auto simp: find_package_def file_lines_def scan_start_def)

text \<open>
  The package query, a second reader with fewer checks, agrees with the registry: on a healthy
  journal it returns exactly the package the scan holds for the policy, on an unhealthy one
  nothing.
\<close>

theorem package_query_agrees:
  "registry_package C rio Read_Ok p file =
     (if gs_healthy (registry_inspect C rio file)
      then map_option st_package (map_of (ss_policies (scan_registry rio (gc_budget C) file)) p) else None)"
proof (cases "ss_healthy (scan_registry rio (gc_budget C) file)")
  case True
  have "linked (map_of (ss_policies (scan_registry rio (gc_budget C) file)))
      (map_of (ss_package_to_policy (scan_registry rio (gc_budget C) file)))"
    using registry_wf_scan [OF True] by (simp add: registry_wf_def)
  then have "map_of (ss_policies (scan_registry rio (gc_budget C) file)) [] = None"
    using linkedD(1) by (metis not_None_eq)
  with True package_query [OF True] show ?thesis by (auto simp: registry_package_def registry_inspect_def)
next
  case False
  then show ?thesis by (simp add: registry_package_def registry_inspect_def Let_def)
qed

text \<open>
  The active policy is a registered one.  Whatever is in the file: when the registry names an
  active policy, the journal is healthy, the policy is not revoked, it is the only active one,
  and both package queries return its package, with the active package id and an id that is the
  hash of its contents.
\<close>

theorem active_policy_is_registered:
  assumes "active_policy_id C rio file \<noteq> []"
  shows "(is_policy_active C rio p file \<longleftrightarrow> p = active_policy_id C rio file) \<and>
    (\<exists>k. active_package C rio Read_Ok file = Some k \<and>
       registry_package C rio Read_Ok (active_policy_id C rio file) file = Some k \<and>
       sp_policy_id k = active_policy_id C rio file \<and> sp_package_id k = active_package_id C rio file \<and>
       package_id_for k = sp_package_id k)"
proof -
  let ?s = "scan_registry rio (gc_budget C) file"
  have h: "ss_healthy ?s" and a: "active_policy_id C rio file = ss_active_policy ?s"
    "active_package_id C rio file = ss_active_package ?s" "ss_active_policy ?s \<noteq> []"
    using assms by (auto simp: active_policy_id_def active_package_id_def Let_def split: if_splits)
  have wf: "linked (map_of (ss_policies ?s)) (map_of (ss_package_to_policy ?s))"
    "admissible (map_of (ss_policies ?s)) (ss_active_policy ?s) (ss_active_package ?s)"
    using registry_wf_scan [OF h] by (simp_all add: registry_wf_def)
  obtain st where st: "map_of (ss_policies ?s) (ss_active_policy ?s) = Some st" "\<not> st_revoked st"
    "sp_package_id (st_package st) = ss_active_package ?s"
    using wf(2) a(3) unfolding admissible_def by auto
  note l = linkedD(1) [OF wf(1) st(1)]
  have "is_policy_active C rio p file \<longleftrightarrow> p = ss_active_policy ?s"
    using h st(1,2) by (auto simp: is_policy_active_def Let_def)
  moreover have "active_package C rio Read_Ok file = Some (st_package st)"
    using package_query [OF h] h st a(3) by (simp add: active_package_def registry_inspect_def Let_def)
  moreover have "registry_package C rio Read_Ok (ss_active_policy ?s) file = Some (st_package st)"
    using package_query [OF h] h st a(3) by (simp add: registry_package_def registry_inspect_def Let_def)
  ultimately show ?thesis using l st(3) by (simp add: a)
qed

theorem active_policy_is_registered_witness:
  "\<exists>file. active_policy_id sample_registry Read_Ok file = document_id sample_policy \<and>
     is_policy_active sample_registry Read_Ok (document_id sample_policy) file"
proof -
  let ?C = sample_registry
  obtain f where f: "ss_healthy (registry_state ?C (Some f))" "ss_active_policy (registry_state ?C (Some f)) = document_id sample_policy"
    by (rule sample_activated)
  then have a: "active_policy_id ?C Read_Ok (Some f) = document_id sample_policy" by (simp add: active_policy_id_def)
  have "document_id sample_policy \<noteq> []" using prefixed_not_Nil package_id_prefixed(3) by blast
  with active_policy_is_registered [of ?C Read_Ok "Some f" "document_id sample_policy"] a show ?thesis by metis
qed

section \<open>Controls\<close>

definition line_controls :: "string \<Rightarrow> registry_record list" where
  "line_controls l = (case deserialize (strip_cr l) of
     Inl _ \<Rightarrow> [] | Inr r \<Rightarrow> if rr_kind r = RK_Register then [] else [r])"

definition file_controls :: "string option \<Rightarrow> registry_record list" where
  "file_controls file = concat (map line_controls (file_lines file))"

lemma controls_step:
  assumes "scan_step B l s = Some t" "registry_wf B s"
  shows "ss_used_controls t = rev (map rr_control_id (line_controls l)) @ ss_used_controls s"
    "map fst (ss_nonce_to_control t) =
       map fst (ss_nonce_to_control s) @ map (\<lambda>r. nonce_pair (rr_signer_id r) (rr_nonce r)) (line_controls l)"
    "distinct (map fst (ss_nonce_to_control s)) \<Longrightarrow> distinct (map fst (ss_nonce_to_control t))"
proof -
  from assms(1) obtain r u where r: "deserialize (strip_cr l) = Inr r" "apply_record B r s = (None, u)" "t = advance r u"
    by (rule scan_stepE)
  have "ss_used_controls t = rev (map rr_control_id (line_controls l)) @ ss_used_controls s \<and>
      map fst (ss_nonce_to_control t) =
        map fst (ss_nonce_to_control s) @ map (\<lambda>r. nonce_pair (rr_signer_id r) (rr_nonce r)) (line_controls l) \<and>
      (distinct (map fst (ss_nonce_to_control s)) \<longrightarrow> distinct (map fst (ss_nonce_to_control t)))"
    using r(2)
  proof (cases rule: apply_recordE)
    case register
    then show ?thesis by (simp add: line_controls_def r(1,3))
  next
    case (control st v)
    let ?key = "nonce_pair (rr_signer_id r) (rr_nonce r)"
    have "map_of (ss_nonce_to_control s) ?key \<noteq> Some (rr_control_id r)"
    proof
      assume "map_of (ss_nonce_to_control s) ?key = Some (rr_control_id r)"
      then have "rr_control_id r \<in> ran (map_of (ss_nonce_to_control s))" by (auto simp: ran_def)
      with assms(2) control(3) show False by (auto simp: registry_wf_def)
    qed
    with control(4) have fresh: "map_of (ss_nonce_to_control s) ?key = None" by blast
    then have k: "?key \<notin> fst ` set (ss_nonce_to_control s)" by (simp add: map_of_eq_None_iff)
    have v: "ss_used_controls v = rr_control_id r # ss_used_controls s" "map_of (ss_policies v) (rr_policy_id r) = Some st"
      "ss_nonce_to_control v = AList.update ?key (rr_control_id r) (ss_nonce_to_control s)"
      using fresh control(6) by (simp_all add: control(8))
    obtain e: "ss_used_controls u = ss_used_controls v" "ss_nonce_to_control u = ss_nonce_to_control v"
      using control_effect [OF control(9) v(2)] by metis
    then show ?thesis using control(1) k by (simp add: r(3) v line_controls_def r(1) update_keys distinct_update)
  qed
  then show "ss_used_controls t = rev (map rr_control_id (line_controls l)) @ ss_used_controls s"
    "map fst (ss_nonce_to_control t) =
       map fst (ss_nonce_to_control s) @ map (\<lambda>r. nonce_pair (rr_signer_id r) (rr_nonce r)) (line_controls l)"
    "distinct (map fst (ss_nonce_to_control s)) \<Longrightarrow> distinct (map fst (ss_nonce_to_control t))"
    by blast+
qed

lemma controls_all:
  assumes "scan_all B ls s = Some t" "registry_wf B s" "distinct (map fst (ss_nonce_to_control s))"
  shows "ss_used_controls t = rev (map rr_control_id (concat (map line_controls ls))) @ ss_used_controls s \<and>
    map fst (ss_nonce_to_control t) = map fst (ss_nonce_to_control s) @
      map (\<lambda>r. nonce_pair (rr_signer_id r) (rr_nonce r)) (concat (map line_controls ls)) \<and>
    distinct (map fst (ss_nonce_to_control t))"
  using assms
proof (induction ls arbitrary: s)
  case Nil
  then show ?case by simp
next
  case (Cons l ls)
  from Cons.prems(1) obtain s1 where s1: "scan_step B l s = Some s1" "scan_all B ls s1 = Some t"
    by (auto split: option.splits)
  note st = controls_step [OF s1(1) Cons.prems(2)]
  note IH = Cons.IH [OF s1(2) registry_wf_step [OF Cons.prems(2) s1(1)] st(3) [OF Cons.prems(3)]]
  have "distinct (map fst (ss_nonce_to_control t))" using IH by blast
  with IH st(1,2) show ?case by (simp del: distinct_append)
qed

text \<open>
  Controls are used once.  Whatever is in the file: in a healthy journal no control id occurs
  twice, and no signer has used a nonce twice.
\<close>

theorem policy_controls_used_once:
  assumes "gs_healthy (registry_inspect C rio file)"
  shows "distinct (map rr_control_id (file_controls file)) \<and>
    distinct (map (\<lambda>r. (rr_signer_id r, rr_nonce r)) (file_controls file))"
proof -
  let ?key = "\<lambda>r. nonce_pair (rr_signer_id r) (rr_nonce r)"
  have h: "ss_healthy (scan_registry rio (gc_budget C) file)" using assms by (simp add: registry_inspect_def Let_def)
  have "distinct (map fst (ss_nonce_to_control scan_start))" by (simp add: scan_start_def)
  note c = controls_all [OF scan_registry_healthy [OF h] registry_wf_start this, folded file_controls_def]
  have "distinct (ss_used_controls (scan_registry rio (gc_budget C) file))"
    using registry_wf_scan [OF h] by (simp add: registry_wf_def)
  then have "distinct (map rr_control_id (file_controls file))" using c by simp
  moreover have "map fst (ss_nonce_to_control scan_start) = []" by (simp add: scan_start_def)
  with c have "distinct (map ?key (file_controls file))" by (metis append_Nil)
  then have "distinct (map (\<lambda>r. (rr_signer_id r, rr_nonce r)) (file_controls file))"
    by (auto simp: distinct_map inj_on_def)
  ultimately show ?thesis by blast
qed

theorem policy_controls_used_once_witness:
  "\<exists>file. active_policy_id sample_registry Read_Ok file = document_id sample_policy \<and>
     distinct (map rr_control_id (file_controls file))"
proof -
  obtain f where f: "ss_healthy (registry_state sample_registry (Some f))"
    "ss_active_policy (registry_state sample_registry (Some f)) = document_id sample_policy"
    by (rule sample_activated)
  then have "active_policy_id sample_registry Read_Ok (Some f) = document_id sample_policy"
    "gs_healthy (registry_inspect sample_registry Read_Ok (Some f))"
    by (simp_all add: active_policy_id_def registry_inspect_def Let_def)
  with policy_controls_used_once [of sample_registry Read_Ok "Some f"] show ?thesis by blast
qed

text \<open>
  The exact condition under which a control is accepted.  It is signed by a known signer and
  well formed, fits the budget, the journal is healthy and has room; the control is new and its
  signer and nonce are not bound to another one; the expected active policy is the active one;
  its package is registered for its policy, which is not revoked; it activates a policy that is
  not active already, and rolls back only to one that has been active; and the record can be
  written.  Otherwise the answer is not READY.
\<close>

theorem control_decision:
  "gr_ok (fst (apply_control C rio io c file)) \<longleftrightarrow>
     verify_signed_policy_control c (gc_control_verifier C) = [] \<and>
     length (ce_actor_reference (pc_envelope c)) \<le> unat (gb_max_actor_bytes (gc_budget C)) \<and>
     length (ce_nonce (pc_envelope c)) \<le> unat (gb_max_nonce_bytes (gc_budget C)) \<and>
     ss_healthy (scan_registry rio (gc_budget C) file) \<and>
     (let s = scan_registry rio (gc_budget C) file; e = pc_envelope c; p = ce_policy_id e in
        ss_next_sequence s < gb_max_records (gc_budget C) \<and>
        pc_control_id c \<notin> set (ss_used_controls s) \<and>
        map_of (ss_nonce_to_control s) (nonce_pair (ce_signer_id e) (ce_nonce e)) \<in> {None, Some (pc_control_id c)} \<and>
        ce_expected_active e = ss_active_policy s \<and> map_of (ss_package_to_policy s) (ce_package_id e) = Some p \<and>
        (\<exists>st. map_of (ss_policies s) p = Some st \<and> \<not> st_revoked st \<and>
           (ce_action e = CA_Revoke \<or> ss_active_policy s \<noteq> p) \<and> (ce_action e = CA_Rollback \<longrightarrow> st_ever_active st)) \<and>
        gr_ok (fst (append_record (gc_path C) io (record_of_control c s) file)))"
proof (cases "ss_healthy (scan_registry rio (gc_budget C) file)")
  case False
  then show ?thesis by (simp add: apply_control_def Let_def gr_ok_def gr_fail_def gr_empty_def)
next
  case True
  let ?s = "registry_state C file"
  note e = healthy_state(1) [OF True]
  obtain res file' where call: "apply_control C rio io c file = (res, file')" by fastforce
  have "gr_ok res \<longleftrightarrow> verify_signed_policy_control c (gc_control_verifier C) = [] \<and>
     length (ce_actor_reference (pc_envelope c)) \<le> unat (gb_max_actor_bytes (gc_budget C)) \<and>
     length (ce_nonce (pc_envelope c)) \<le> unat (gb_max_nonce_bytes (gc_budget C)) \<and>
     ss_next_sequence ?s < gb_max_records (gc_budget C) \<and> control_refused c ?s = None \<and>
     gr_ok (fst (append_record (gc_path C) io (record_of_control c ?s) file))" (is "_ \<longleftrightarrow> ?R")
  proof
    assume "gr_ok res"
    with apply_control_outcome [OF call] show ?R by auto
  next
    assume ?R
    with control_accepts [of c C rio "file" io] True call show "gr_ok res" by simp
  qed
  then show ?thesis using True unfolding e control_refused_None Let_def call by auto
qed

theorem control_decision_witness:
  "\<exists>file. gr_ok (fst (apply_control sample_registry Read_Ok Write_Ok (sample_control CA_Activate [] ''n1'') file)) \<and>
     map_of (ss_package_to_policy (registry_state sample_registry file)) (sp_package_id (sample_package ''sig'')) =
       Some (document_id sample_policy)"
proof -
  let ?C = sample_registry
  obtain f1 f2 res where f: "do_registry_call ?C Read_Ok Write_Ok (Rc_Control (sample_control CA_Activate [] ''n1'')) (Some f1)
      = (res, Some f2)" "gr_ok res"
    by (rule sample_activated)
  then have "gr_ok (fst (apply_control ?C Read_Ok Write_Ok (sample_control CA_Activate [] ''n1'') (Some f1)))" by simp
  from this this [unfolded control_decision Let_def] show ?thesis by auto
qed

text \<open>
  When the journal ends with a complete line and the signature is not longer than the reader
  accepts, an accepted control is in force at the next scan.
\<close>

lemma control_takes_effect:
  assumes "apply_control C rio io c file = (res, file')" "gr_ok res" "terminated file" "length (pc_signature c) \<le> 8192"
  shows "gs_healthy (registry_inspect C Read_Ok file')"
    "active_policy_id C Read_Ok file' = (if ce_action (pc_envelope c) = CA_Revoke
       then (if active_policy_id C Read_Ok file = ce_policy_id (pc_envelope c) then [] else active_policy_id C Read_Ok file)
       else ce_policy_id (pc_envelope c))"
proof -
  have call: "do_registry_call C rio io (Rc_Control c) file = (res, file')" using assms(1) by simp
  have sg: "length (call_signature (Rc_Control c)) \<le> 8192" using assms(4) by (simp add: call_signature_def)
  note S = call_success [OF call assms(2)]
  from call_in_force [OF call assms(2,3) sg] obtain u where
    u: "apply_record (gc_budget C) (call_record (Rc_Control c) (registry_state C file)) (registry_state C file) = (None, u)"
      "registry_state C file' = advance (call_record (Rc_Control c) (registry_state C file)) u" "ss_healthy (registry_state C file')"
    by blast
  show "gs_healthy (registry_inspect C Read_Ok file')" using u(3) by (simp add: registry_inspect_def Let_def)
  show "active_policy_id C Read_Ok file' = (if ce_action (pc_envelope c) = CA_Revoke
       then (if active_policy_id C Read_Ok file = ce_policy_id (pc_envelope c) then [] else active_policy_id C Read_Ok file)
       else ce_policy_id (pc_envelope c))"
    using control_record_state(1) [OF u(1)] u(2,3) S(2) by (simp add: active_policy_id_def Let_def)
qed

text \<open>
  Nothing limits the signature of a package or control when it is accepted, but the reader
  refuses signatures of more than 8192 bytes: such a call is answered with READY and the journal
  is never accepted again.
\<close>

lemma oversized_signature_poisons_registry:
  assumes "do_registry_call C rio io c file = (res, file')" "gr_ok res" "8192 < length (call_signature c)"
  shows "\<not> gs_healthy (registry_inspect C rio' (file_append file' later))"
proof
  assume "gs_healthy (registry_inspect C rio' (file_append file' later))"
  then have "ss_healthy (scan_registry rio' (gc_budget C) (file_append file' later))"
    by (simp add: registry_inspect_def Let_def)
  from later_state [OF assms(1,2) healthy_state(2) [OF this]] assms(3) show False by auto
qed

text \<open>
  C32. Signed twice over.  In every history of calls, torn writes and unreadable files included, the
  active policy was registered by a call whose package the package verifier accepted, and
  activated or rolled back to by a call whose control the control verifier accepted for that
  policy and that package.
\<close>

theorem active_policy_was_signed:
  assumes "registry_run C calls file" and "active_policy_id C rio file \<noteq> []"
  shows "(\<exists>d p. Rc_Register d p \<in> set calls \<and> verify_signed_policy_package d p (gc_package_verifier C) = [] \<and>
       document_id d = active_policy_id C rio file \<and> sp_package_id p = active_package_id C rio file) \<and>
    (\<exists>c. Rc_Control c \<in> set calls \<and> verify_signed_policy_control c (gc_control_verifier C) = [] \<and>
       ce_action (pc_envelope c) \<noteq> CA_Revoke \<and> ce_policy_id (pc_envelope c) = active_policy_id C rio file \<and>
       ce_package_id (pc_envelope c) = active_package_id C rio file)"
proof -
  let ?s = "scan_registry rio (gc_budget C) file"
  have h: "ss_healthy ?s" and a: "active_policy_id C rio file = ss_active_policy ?s"
    "active_package_id C rio file = ss_active_package ?s" "ss_active_policy ?s \<noteq> []"
    using assms(2) by (auto simp: active_policy_id_def active_package_id_def Let_def split: if_splits)
  note e = healthy_state(1) [OF h]
  have T: "traced C calls ?s" using run_traced [OF assms(1) healthy_state(2) [OF h]] unfolding e .
  have wf: "linked (map_of (ss_policies ?s)) (map_of (ss_package_to_policy ?s))"
    "admissible (map_of (ss_policies ?s)) (ss_active_policy ?s) (ss_active_package ?s)"
    using registry_wf_scan [OF h] by (simp_all add: registry_wf_def)
  obtain st where st: "map_of (ss_policies ?s) (ss_active_policy ?s) = Some st"
    "sp_package_id (st_package st) = ss_active_package ?s"
    using wf(2) a(3) unfolding admissible_def by auto
  from T st(1) obtain d where d: "Rc_Register d (st_package st) \<in> set calls"
    "verify_signed_policy_package d (st_package st) (gc_package_verifier C) = []"
    by (auto simp: traced_def call_signed_def)
  have "document_id d = ss_active_policy ?s"
    using d(2) linkedD(1) [OF wf(1) st(1)] by (simp add: verify_package_iff)
  moreover from T a(3) obtain c where "Rc_Control c \<in> set calls"
    "verify_signed_policy_control c (gc_control_verifier C) = []" "ce_action (pc_envelope c) \<noteq> CA_Revoke"
    "ce_policy_id (pc_envelope c) = ss_active_policy ?s" "ce_package_id (pc_envelope c) = ss_active_package ?s"
    by (auto simp: traced_def call_signed_def)
  ultimately show ?thesis unfolding a using d st(2) by blast
qed

theorem active_policy_was_signed_witness:
  "\<exists>calls file. registry_run sample_registry calls file \<and> active_policy_id sample_registry Read_Ok file = document_id sample_policy \<and>
     (\<exists>c. Rc_Control c \<in> set calls \<and> verify_signed_policy_control c open_verifier = [])"
proof -
  let ?C = sample_registry
  obtain f1 f2 res where f: "registry_run ?C [Rc_Register sample_policy (sample_package ''sig'')] (Some f1)"
    "do_registry_call ?C Read_Ok Write_Ok (Rc_Control (sample_control CA_Activate [] ''n1'')) (Some f1) = (res, Some f2)"
    "ss_healthy (registry_state ?C (Some f2))" "ss_active_policy (registry_state ?C (Some f2)) = document_id sample_policy"
    by (rule sample_activated)
  have a: "active_policy_id ?C Read_Ok (Some f2) = document_id sample_policy"
    using f(3,4) by (simp add: active_policy_id_def)
  have ne: "document_id sample_policy \<noteq> []" using prefixed_not_Nil package_id_prefixed(3) by blast
  note run = run_call [OF f(1,2)]
  from active_policy_was_signed [OF run, of Read_Ok] a ne run show ?thesis
    by (metis registry_budget_sel(4))
qed

end
