(* ===== verification/Authority_Gate_Samples.thy ===== *)
theory Authority_Gate_Samples
  imports Authority_Gate
begin

text \<open>
  A receipt for any purpose, subject and scope, and a ledger in which a gate consumes it: the
  gated operations are instantiated on them.
\<close>

definition receipt_for :: "authority_purpose \<Rightarrow> string \<Rightarrow> string \<Rightarrow> authority_receipt" where
  "receipt_for p subj scope = sample_receipt (sample_envelope\<lparr>purpose := p, subject_id := subj, scope_sha256 := scope\<rparr>)"

lemma receipt_for_verifies:
  assumes "valid_token subj 256" "is_sha256 scope"
  shows "verify_authority_receipt (receipt_for p subj scope) sample_verifier p subj =
    \<lparr>avr_status = ARS_Valid, avr_errors = []\<rparr>"
proof -
  let ?e = "sample_envelope\<lparr>purpose := p, subject_id := subj, scope_sha256 := scope\<rparr>"
  have "validate_envelope ?e = []"
    using sample_envelope_valid assms by (simp add: validate_envelope_def)
  from verify_sample [OF this] show ?thesis by (simp add: receipt_for_def)
qed

lemma receipt_for_consumed:
  assumes "valid_token subj 256" "is_sha256 scope"
  obtains A lr A' where "authorize_and_consume sample_verifier 1500 Write_Ok (receipt_for p subj scope) p subj scope A = (lr, A')"
    "alr_ok lr"
proof -
  obtain A where A: "live [op_trust] [Authority_Ledger_Samples.ev_trust] trusted_maps A" using sample_trusted by blast
  have "authorize_ready sample_verifier 1500 (receipt_for p subj scope) p subj scope A"
    using A assms(2) by (simp add: authorize_ready_def live_def Let_def receipt_for_verifies [OF assms] avr_ok_def)
      (simp add: receipt_for_def find_sample_key key_active_def
        revoked_at_def root_not_revoked nonce_free_for_def use_count_def delegated_uses_def receipt_limit_def)
  then have c: "authorize_and_consume sample_verifier 1500 Write_Ok (receipt_for p subj scope) p subj scope A =
      consume 1500 Write_Ok (receipt_for p subj scope) A"
    by (rule authorize_ready_commits)
  have "j_healthy (al_journal A)" "j_path (al_journal A) = ''journal''" using A by (simp_all add: live_def)
  then have "\<exists>L. al_commit Write_Ok ev upd r ok A = (ok, L)" for ev upd r ok
    using commit_writes [of A ev upd r ok] by auto
  then have "alr_ok (fst (consume 1500 Write_Ok (receipt_for p subj scope) A))"
    by (metis (mono_tags) alr_ok_results(3) consume_def fst_conv)
  with c that show thesis by (metis prod.collapse)
qed

lemma receipt_for_fields [simp]:
  "schema_version (envelope (receipt_for p subj scope)) = 2" "scope_sha256 (envelope (receipt_for p subj scope)) = scope"
  "issued_at_utc (envelope (receipt_for p subj scope)) = issued_at_utc sample_envelope"
  by (simp_all add: receipt_for_def)

end
