(* ===== verification/Data_Leech.thy ===== *)
theory Data_Leech
  imports Reality Sha256
begin

text \<open>
  \<open>DataLeech\<close> and \<open>ContextArena\<close> (\<open>include/guff/data_leech.hpp\<close>, \<open>src/data_leech.cpp\<close>, on
  POSIX): reading files and tool output under a grant, and the bounded collection of what was
  read.

  A path is its text; \<open>path_components\<close> is what iterating over a \<open>std::filesystem::path\<close>
  yields.  What the program asks the file system is a \<open>fs_view\<close>: every call has its own answer,
  so a file may change between two of them.
\<close>

section \<open>Data\<close>

datatype source_kind = SK_File | SK_RepoFile | SK_ToolOutput

datatype grant_scope = GS_Session | GS_Project | GS_DeviceLocal

datatype delta_state =
  DS_FirstSeen | DS_Unchanged | DS_Modified | DS_Missing | DS_PermissionDenied | DS_TooLarge | DS_ReadError

record source_grant =
  sg_grant_id :: string
  sg_kind :: source_kind
  sg_scope :: grant_scope
  sg_layer :: reality_layer
  sg_root :: string
  sg_locator_prefix :: string
  sg_recursive :: bool
  sg_max_source_bytes :: u64
  sg_max_slice_bytes :: u64

record source_observation =
  so_source_id :: string
  so_kind :: source_kind
  so_layer :: reality_layer
  so_locator :: string
  so_size_bytes :: u64
  so_content_sha256 :: string

record source_delta =
  sd_state :: delta_state
  sd_current :: "source_observation option"
  sd_previous_sha256 :: string
  sd_detail :: string

record context_slice =
  cs_source_id :: string
  cs_kind :: source_kind
  cs_layer :: reality_layer
  cs_locator :: string
  cs_content_sha256 :: string
  cs_offset :: u64
  cs_data :: string
  cs_truncated :: bool

record context_budget =
  cb_max_slices :: u64
  cb_max_total_bytes :: u64

record context_arena =
  ca_budget :: context_budget
  ca_slices :: "context_slice list"
  ca_used_bytes :: u64
  ca_rejected :: u64

text \<open>
  The answers of the file system: \<open>weakly_canonical\<close>, \<open>is_regular_file\<close>, \<open>file_size\<close>, the chunks
  that hashing reads, and the bytes that slicing sees once the file is open, with whether it
  could be positioned.
\<close>

record fs_view =
  fv_canonical :: "string \<Rightarrow> string option"
  fv_regular :: "string \<Rightarrow> bool"
  fv_size :: "string \<Rightarrow> u64 option"
  fv_hashed :: "string \<Rightarrow> (string list \<times> bool) option"
  fv_bytes :: "string \<Rightarrow> string option"
  fv_seek_ok :: "string \<Rightarrow> u64 \<Rightarrow> bool"

section \<open>Grants and paths\<close>

definition file_kind :: "source_kind \<Rightarrow> bool" where
  "file_kind k \<longleftrightarrow> k = SK_File \<or> k = SK_RepoFile"

definition validate_source_grant :: "source_grant \<Rightarrow> string list" where
  "validate_source_grant g =
     err (sg_grant_id g = []) ''grant_id is required'' @
     err (sg_max_source_bytes g = 0) ''max_source_bytes must be non-zero'' @
     err (sg_max_slice_bytes g = 0) ''max_slice_bytes must be non-zero'' @
     (if file_kind (sg_kind g) then err (sg_root g = []) ''file grants require root''
      else err (sg_locator_prefix g = []) ''tool-output grants require locator_prefix'')"

text \<open>Root directory first, then the names; a trailing separator yields an empty last name.\<close>

function path_names :: "string \<Rightarrow> string list" where
  "path_names p =
     (case dropWhile (\<lambda>c. c = CHR ''/'') p of
        [] \<Rightarrow> (if p = [] then [] else [[]])
      | c # rest \<Rightarrow>
          (c # takeWhile (\<lambda>c. c \<noteq> CHR ''/'') rest) # path_names (dropWhile (\<lambda>c. c \<noteq> CHR ''/'') rest))"
  by pat_completeness auto
termination
proof (relation "measure length")
  show "wf (measure length)" by simp
next
  fix p c and rest :: string
  assume e: "dropWhile (\<lambda>c. c = CHR ''/'') p = c # rest"
  have "length (dropWhile (\<lambda>c. c \<noteq> CHR ''/'') rest) \<le> length rest" by (rule length_dropWhile_le)
  also have "length rest < length p"
    using length_dropWhile_le [of "\<lambda>c. c = CHR ''/''" p] unfolding e by simp
  finally show "(dropWhile (\<lambda>c. c \<noteq> CHR ''/'') rest, p) \<in> measure length" by simp
qed

declare path_names.simps [simp del]

definition path_components :: "string \<Rightarrow> string list" where
  "path_components p =
     (if p = [] then []
      else if hd p \<noteq> CHR ''/'' then path_names p
      else ''/'' # (if list_all (\<lambda>c. c = CHR ''/'') p then [] else path_names p))"

fun components_equal :: "string list \<Rightarrow> string list \<Rightarrow> bool" where
  "components_equal (a # as) (b # bs) \<longleftrightarrow> a = b \<and> components_equal as bs"
| "components_equal as bs \<longleftrightarrow> as = [] \<and> bs = []"

fun components_prefix :: "string list \<Rightarrow> string list \<Rightarrow> bool" where
  "components_prefix [] bs \<longleftrightarrow> True"
| "components_prefix (a # as) [] \<longleftrightarrow> False"
| "components_prefix (a # as) (b # bs) \<longleftrightarrow> a = b \<and> components_prefix as bs"

definition path_equal :: "string \<Rightarrow> string \<Rightarrow> bool" where
  "path_equal p q \<longleftrightarrow> components_equal (path_components p) (path_components q)"

definition has_path_prefix :: "string \<Rightarrow> string \<Rightarrow> bool" where
  "has_path_prefix base target \<longleftrightarrow> components_prefix (path_components base) (path_components target)"

text \<open>Inl is the error, Inr the resolved path.\<close>

definition resolve_allowed_file :: "fs_view \<Rightarrow> source_grant \<Rightarrow> string \<Rightarrow> string + string" where
  "resolve_allowed_file F g path =
     (if \<not> file_kind (sg_kind g) then Inl ''grant kind does not permit file access''
      else if validate_source_grant g \<noteq> [] then Inl ''source grant is invalid''
      else case fv_canonical F (sg_root g) of
        None \<Rightarrow> Inl ''unable to resolve grant root''
      | Some base \<Rightarrow>
          (case fv_canonical F path of
             None \<Rightarrow> Inl ''unable to resolve requested path''
           | Some target \<Rightarrow>
               if (if sg_recursive g then has_path_prefix base target else path_equal base target) then Inr target
               else Inl ''requested path is outside the granted source scope''))"

definition starts_with :: "string \<Rightarrow> string \<Rightarrow> bool" where
  "starts_with s pre \<longleftrightarrow> take (length pre) s = pre"

text \<open>None when the locator is allowed.\<close>

definition allowed_text_locator :: "source_grant \<Rightarrow> string \<Rightarrow> string option" where
  "allowed_text_locator g locator =
     (if sg_kind g \<noteq> SK_ToolOutput then Some ''grant kind does not permit tool-output access''
      else if validate_source_grant g \<noteq> [] then Some ''source grant is invalid''
      else if \<not> starts_with locator (sg_locator_prefix g)
      then Some ''tool-output locator is outside the granted prefix''
      else None)"

definition kSourcePrefix :: string where "kSourcePrefix = ''guff:source:sha256:''"

definition source_id_of :: "source_grant \<Rightarrow> string \<Rightarrow> string" where
  "source_id_of g locator = kSourcePrefix @ sha256 (sg_grant_id g @ [NL] @ locator)"

definition compare_observation :: "source_observation \<Rightarrow> source_observation option \<Rightarrow> delta_state" where
  "compare_observation current previous =
     (case previous of
        None \<Rightarrow> DS_FirstSeen
      | Some p \<Rightarrow>
          if so_source_id p \<noteq> so_source_id current \<or> so_locator p \<noteq> so_locator current then DS_FirstSeen
          else if so_content_sha256 p = so_content_sha256 current \<and> so_size_bytes p = so_size_bytes current
          then DS_Unchanged else DS_Modified)"

definition bounded_request :: "source_grant \<Rightarrow> u64 \<Rightarrow> u64" where
  "bounded_request g requested = min requested (sg_max_slice_bytes g)"

definition readable :: "source_delta \<Rightarrow> bool" where
  "readable d \<longleftrightarrow> sd_state d = DS_FirstSeen \<or> sd_state d = DS_Unchanged \<or> sd_state d = DS_Modified"

definition changed :: "source_delta \<Rightarrow> bool" where
  "changed d \<longleftrightarrow> sd_state d = DS_FirstSeen \<or> sd_state d = DS_Modified"

section \<open>Observing and slicing\<close>

definition delta_failed :: "delta_state \<Rightarrow> source_observation option \<Rightarrow> string \<Rightarrow> source_delta" where
  "delta_failed st previous detail =
     \<lparr>sd_state = st, sd_current = None,
      sd_previous_sha256 = (case previous of None \<Rightarrow> [] | Some p \<Rightarrow> so_content_sha256 p), sd_detail = detail\<rparr>"

definition delta_observed :: "source_observation \<Rightarrow> source_observation option \<Rightarrow> source_delta" where
  "delta_observed ob previous =
     (let st = compare_observation ob previous in
      (delta_failed st previous (if st = DS_Unchanged then ''source content unchanged'' else ''source content observed''))
        \<lparr>sd_current := Some ob\<rparr>)"

definition observe_file :: "fs_view \<Rightarrow> source_grant \<Rightarrow> string \<Rightarrow> source_observation option \<Rightarrow> source_delta" where
  "observe_file F g path previous =
     (case resolve_allowed_file F g path of
        Inl error \<Rightarrow> delta_failed DS_PermissionDenied previous error
      | Inr resolved \<Rightarrow>
          if \<not> fv_regular F resolved
          then delta_failed DS_Missing previous ''requested source is missing or is not a regular file''
          else (case fv_size F resolved of
            None \<Rightarrow> delta_failed DS_ReadError previous ''unable to read source size''
          | Some n \<Rightarrow>
              if sg_max_source_bytes g < n
              then delta_failed DS_TooLarge previous ''source exceeds granted max_source_bytes''
              else (case sha256_file (fv_hashed F resolved) of
                None \<Rightarrow> delta_failed DS_ReadError previous ''unable to hash source''
              | Some digest \<Rightarrow>
                  delta_observed \<lparr>so_source_id = source_id_of g resolved, so_kind = sg_kind g, so_layer = sg_layer g,
                    so_locator = resolved, so_size_bytes = n, so_content_sha256 = digest\<rparr> previous)))"

definition observe_text :: "source_grant \<Rightarrow> string \<Rightarrow> string \<Rightarrow> source_observation option \<Rightarrow> source_delta" where
  "observe_text g locator content previous =
     (case allowed_text_locator g locator of
        Some error \<Rightarrow> delta_failed DS_PermissionDenied previous error
      | None \<Rightarrow>
          if unat (sg_max_source_bytes g) < length content
          then delta_failed DS_TooLarge previous ''tool output exceeds granted max_source_bytes''
          else delta_observed \<lparr>so_source_id = source_id_of g locator, so_kind = sg_kind g, so_layer = sg_layer g,
            so_locator = locator, so_size_bytes = of_nat (length content), so_content_sha256 = sha256 content\<rparr> previous)"

definition slice_of :: "source_observation \<Rightarrow> u64 \<Rightarrow> string \<Rightarrow> bool \<Rightarrow> context_slice" where
  "slice_of ob offset bytes truncated =
     \<lparr>cs_source_id = so_source_id ob, cs_kind = so_kind ob, cs_layer = so_layer ob, cs_locator = so_locator ob,
      cs_content_sha256 = so_content_sha256 ob, cs_offset = offset, cs_data = bytes, cs_truncated = truncated\<rparr>"

definition slice_file :: "fs_view \<Rightarrow> source_grant \<Rightarrow> string \<Rightarrow> u64 \<Rightarrow> u64 \<Rightarrow> string + context_slice" where
  "slice_file F g path offset requested =
     (if requested = 0 then Inl ''requested_bytes must be non-zero''
      else (let observed = observe_file F g path None in
        case sd_current observed of
          None \<Rightarrow> Inl (sd_detail observed)
        | Some ob \<Rightarrow>
            if \<not> readable observed then Inl (sd_detail observed)
            else if so_size_bytes ob < offset then Inl ''offset exceeds source size''
            else (let remaining = so_size_bytes ob - offset; amount = min (bounded_request g requested) remaining in
              case fv_bytes F (so_locator ob) of
                None \<Rightarrow> Inl ''unable to open source for slicing''
              | Some bytes \<Rightarrow>
                  if \<not> fv_seek_ok F (so_locator ob) offset then Inl ''unable to seek source''
                  else (let chunk = take (unat amount) (drop (unat offset) bytes) in
                    if length chunk \<noteq> unat amount then Inl ''unable to read requested source slice''
                    else Inr (slice_of ob offset chunk (amount < remaining))))))"

definition slice_text :: "source_grant \<Rightarrow> string \<Rightarrow> string \<Rightarrow> u64 \<Rightarrow> u64 \<Rightarrow> string + context_slice" where
  "slice_text g locator content offset requested =
     (if requested = 0 then Inl ''requested_bytes must be non-zero''
      else (let observed = observe_text g locator content None in
        case sd_current observed of
          None \<Rightarrow> Inl (sd_detail observed)
        | Some ob \<Rightarrow>
            if \<not> readable observed then Inl (sd_detail observed)
            else if length content < unat offset then Inl ''offset exceeds source size''
            else (let remaining = length content - unat offset; amount = min (unat (bounded_request g requested)) remaining in
              Inr (slice_of ob offset (take amount (drop (unat offset) content)) (amount < remaining)))))"

section \<open>The context arena\<close>

definition context_arena_new :: "context_budget \<Rightarrow> context_arena" where
  "context_arena_new B =
     \<lparr>ca_budget = \<lparr>cb_max_slices = max 1 (cb_max_slices B), cb_max_total_bytes = max 1 (cb_max_total_bytes B)\<rparr>,
      ca_slices = [], ca_used_bytes = 0, ca_rejected = 0\<rparr>"

definition same_slice :: "context_slice \<Rightarrow> context_slice \<Rightarrow> bool" where
  "same_slice a b \<longleftrightarrow> cs_source_id a = cs_source_id b \<and> cs_content_sha256 a = cs_content_sha256 b \<and>
     cs_offset a = cs_offset b \<and> length (cs_data a) = length (cs_data b)"

definition arena_add :: "context_slice \<Rightarrow> context_arena \<Rightarrow> bool \<times> context_arena" where
  "arena_add s A =
     (let B = ca_budget A in
      if list_ex (\<lambda>e. same_slice e s) (ca_slices A) \<or> unat (cb_max_slices B) \<le> length (ca_slices A) \<or>
         unat (cb_max_total_bytes B - min (ca_used_bytes A) (cb_max_total_bytes B)) < length (cs_data s)
      then (False, A\<lparr>ca_rejected := ca_rejected A + 1\<rparr>)
      else (True, A\<lparr>ca_used_bytes := ca_used_bytes A + of_nat (length (cs_data s)), ca_slices := ca_slices A @ [s]\<rparr>))"

definition arena_clear :: "context_arena \<Rightarrow> context_arena" where
  "arena_clear A = A\<lparr>ca_slices := [], ca_used_bytes := 0, ca_rejected := 0\<rparr>"

fun source_kind_to_string :: "source_kind \<Rightarrow> string" where
  "source_kind_to_string SK_File = ''file''"
| "source_kind_to_string SK_RepoFile = ''repo-file''"
| "source_kind_to_string SK_ToolOutput = ''tool-output''"

fun grant_scope_to_string :: "grant_scope \<Rightarrow> string" where
  "grant_scope_to_string GS_Session = ''session''"
| "grant_scope_to_string GS_Project = ''project''"
| "grant_scope_to_string GS_DeviceLocal = ''device-local''"

fun delta_state_to_string :: "delta_state \<Rightarrow> string" where
  "delta_state_to_string DS_FirstSeen = ''FIRST_SEEN''"
| "delta_state_to_string DS_Unchanged = ''UNCHANGED''"
| "delta_state_to_string DS_Modified = ''MODIFIED''"
| "delta_state_to_string DS_Missing = ''MISSING''"
| "delta_state_to_string DS_PermissionDenied = ''PERMISSION_DENIED''"
| "delta_state_to_string DS_TooLarge = ''TOO_LARGE''"
| "delta_state_to_string DS_ReadError = ''READ_ERROR''"

end
