(* ===== verification/Symbiosis_Ledger.thy ===== *)
theory Symbiosis_Ledger
  imports Data_Leech Line_Journal Runtime_Identity_Store
begin

text \<open>
  \<open>SymbiosisLedger\<close> (\<open>include/guff/symbiosis_ledger.hpp\<close>, \<open>src/symbiosis_ledger.cpp\<close>): grants to
  read sources, stamps of what was observed under them, and the memories promoted from it.

  Unlike the authority ledgers its journal has no hash chain: a line is an event, a line that
  cannot be read is reported and skipped.  Only grants that ask for it are written.
\<close>

section \<open>Data\<close>

datatype grant_state = GT_Active | GT_Pending | GT_Revoked | GT_Expired | GT_Missing

datatype ledger_status =
  LS_Ok | LS_Duplicate | LS_Invalid | LS_NotFound | LS_Inactive | LS_Denied | LS_StorageError

record retention_policy =
  rp_persist_grant :: bool
  rp_persist_stamps :: bool
  rp_allow_promotion :: bool
  rp_max_promotion_bytes :: u64
  rp_max_stamps :: u64

record symbiosis_grant =
  yg_source :: source_grant
  yg_retention :: retention_policy
  yg_issued_at :: u64
  yg_expires_at :: u64

record observation_stamp =
  os_grant_id :: string
  os_source_id :: string
  os_content_sha256 :: string
  os_size_bytes :: u64
  os_layer :: reality_layer
  os_observed_at :: u64

record memory_promotion =
  mp_promotion_id :: string
  mp_grant_id :: string
  mp_source_id :: string
  mp_content_sha256 :: string
  mp_layer :: reality_layer
  mp_summary :: string
  mp_promoted_at :: u64
  mp_forgotten :: bool

record ledger_result =
  yr_status :: ledger_status
  yr_id :: string
  yr_errors :: "string list"

record grant_record =
  yk_grant :: symbiosis_grant
  yk_revoked_at :: "u64 option"
  yk_reason :: string

text \<open>The three containers, and the ledger: they and its journal.\<close>

record sym_state =
  ys_grants :: "grant_record smap"
  ys_stamps :: "observation_stamp list"
  ys_promotions :: "memory_promotion list"

record sym_ledger =
  yl_path :: string
  yl_file :: "string option"
  yl_state :: sym_state

definition empty_sym :: sym_state where
  "empty_sym = \<lparr>ys_grants = [], ys_stamps = [], ys_promotions = []\<rparr>"

definition yr_ok :: "ledger_result \<Rightarrow> bool" where
  "yr_ok r \<longleftrightarrow> yr_status r = LS_Ok"

definition validate_symbiosis_grant :: "symbiosis_grant \<Rightarrow> string list" where
  "validate_symbiosis_grant g =
     validate_source_grant (yg_source g) @
     err (yg_issued_at g = 0) ''issued_at_unix_ms must be non-zero'' @
     err (yg_expires_at g \<noteq> 0 \<and> yg_expires_at g \<le> yg_issued_at g)
       ''expires_at_unix_ms must be zero or later than issued_at_unix_ms'' @
     err (rp_max_promotion_bytes (yg_retention g) = 0) ''max_promotion_bytes must be non-zero'' @
     err (rp_max_stamps (yg_retention g) = 0) ''max_observation_stamps must be non-zero'' @
     err (rp_persist_stamps (yg_retention g) \<and> \<not> rp_persist_grant (yg_retention g))
       ''persistent observation stamps require persist_grant''"

definition grant_expired :: "symbiosis_grant \<Rightarrow> u64 \<Rightarrow> bool" where
  "grant_expired g now \<longleftrightarrow> yg_expires_at g \<noteq> 0 \<and> yg_expires_at g \<le> now"

section \<open>Lines\<close>

fun source_kind_code :: "source_kind \<Rightarrow> u32" where
  "source_kind_code SK_File = 0"
| "source_kind_code SK_RepoFile = 1"
| "source_kind_code SK_ToolOutput = 2"

definition source_kind_of_code :: "u32 \<Rightarrow> source_kind" where
  "source_kind_of_code n = [SK_File, SK_RepoFile, SK_ToolOutput] ! unat n"

fun grant_scope_code :: "grant_scope \<Rightarrow> u32" where
  "grant_scope_code GS_Session = 0"
| "grant_scope_code GS_Project = 1"
| "grant_scope_code GS_DeviceLocal = 2"

definition grant_scope_of_code :: "u32 \<Rightarrow> grant_scope" where
  "grant_scope_of_code n = [GS_Session, GS_Project, GS_DeviceLocal] ! unat n"

definition show_bool :: "bool \<Rightarrow> string" where
  "show_bool b = (if b then ''1'' else ''0'')"

definition parse_bool :: "string \<Rightarrow> bool option" where
  "parse_bool s = (if s = ''0'' then Some False else if s = ''1'' then Some True else None)"

definition parse_enum :: "string \<Rightarrow> u32 \<Rightarrow> u32 option" where
  "parse_enum s limit = (case parse_unsigned s of None \<Rightarrow> None | Some raw \<Rightarrow> if limit < raw then None else Some raw)"

definition grant_line :: "symbiosis_grant \<Rightarrow> string" where
  "grant_line g = (let s = yg_source g; p = yg_retention g in ''G'' @ tab_join
     [hex_encode (sg_grant_id s), show_u (source_kind_code (sg_kind s)), show_u (grant_scope_code (sg_scope s)),
      show_u (layer_code (sg_layer s)), hex_encode (sg_root s), hex_encode (sg_locator_prefix s),
      show_bool (sg_recursive s), show_u (sg_max_source_bytes s), show_u (sg_max_slice_bytes s),
      show_bool (rp_persist_grant p), show_bool (rp_persist_stamps p), show_bool (rp_allow_promotion p),
      show_u (rp_max_promotion_bytes p), show_u (rp_max_stamps p), show_u (yg_issued_at g), show_u (yg_expires_at g)])"

definition revoke_line :: "string \<Rightarrow> u64 \<Rightarrow> string \<Rightarrow> string" where
  "revoke_line grant now reason = ''R'' @ tab_join [hex_encode grant, show_u now, hex_encode reason]"

definition stamp_line :: "observation_stamp \<Rightarrow> string" where
  "stamp_line s = ''S'' @ tab_join
     [hex_encode (os_grant_id s), hex_encode (os_source_id s), os_content_sha256 s, show_u (os_size_bytes s),
      show_u (layer_code (os_layer s)), show_u (os_observed_at s)]"

definition promotion_line :: "memory_promotion \<Rightarrow> string" where
  "promotion_line p = ''P'' @ tab_join
     [hex_encode (mp_promotion_id p), hex_encode (mp_grant_id p), hex_encode (mp_source_id p), mp_content_sha256 p,
      show_u (layer_code (mp_layer p)), hex_encode (mp_summary p), show_u (mp_promoted_at p)]"

definition forget_line :: "string \<Rightarrow> u64 \<Rightarrow> string" where
  "forget_line promotion now = ''F'' @ tab_join [hex_encode promotion, show_u now]"

text \<open>\<open>append_line\<close>: the error (None is the C++ \<open>true\<close>) and the ledger with its file as it then is.\<close>

definition append_line :: "io \<Rightarrow> string \<Rightarrow> sym_ledger \<Rightarrow> string option \<times> sym_ledger" where
  "append_line io line L =
     (if yl_path L = [] then (Some ''persistent event requested without a journal path'', L)
      else if has_parent (yl_path L) \<and> io = Dir_Fail
      then (Some ''unable to create ledger journal directory'', L)
      else case io of
        Open_Fail \<Rightarrow> (Some ''unable to open ledger journal'', L)
      | Write_Fail n \<Rightarrow> (Some ''unable to append ledger journal'',
          L\<lparr>yl_file := file_append (yl_file L) (take n (line @ [NL]))\<rparr>)
      | _ \<Rightarrow> (None, L\<lparr>yl_file := file_append (yl_file L) (line @ [NL])\<rparr>))"

section \<open>Operations\<close>

definition yr_fail :: "ledger_status \<Rightarrow> string \<Rightarrow> string \<Rightarrow> ledger_result" where
  "yr_fail st ident msg = \<lparr>yr_status = st, yr_id = ident, yr_errors = [msg]\<rparr>"

definition yr_done :: "string \<Rightarrow> ledger_result" where
  "yr_done ident = \<lparr>yr_status = LS_Ok, yr_id = ident, yr_errors = []\<rparr>"

text \<open>
  The last part of every operation: the line is written first when the event is persistent, and
  the containers change only if that succeeded.
\<close>

definition sym_commit ::
    "bool \<Rightarrow> io \<Rightarrow> string \<Rightarrow> string \<Rightarrow> sym_state \<Rightarrow> sym_ledger \<Rightarrow> ledger_result \<times> sym_ledger" where
  "sym_commit persist io line ident st L =
     (if \<not> persist then (yr_done ident, L\<lparr>yl_state := st\<rparr>)
      else case append_line io line L of
        (Some error, L') \<Rightarrow> (yr_fail LS_StorageError ident error, L')
      | (None, L') \<Rightarrow> (yr_done ident, L'\<lparr>yl_state := st\<rparr>))"

definition create_grant :: "io \<Rightarrow> symbiosis_grant \<Rightarrow> sym_ledger \<Rightarrow> ledger_result \<times> sym_ledger" where
  "create_grant io g L =
     (let ident = sg_grant_id (yg_source g); errors = validate_symbiosis_grant g; st = yl_state L in
      if errors \<noteq> [] then (\<lparr>yr_status = LS_Invalid, yr_id = ident, yr_errors = errors\<rparr>, L)
      else if contains (ys_grants st) ident then (yr_fail LS_Duplicate ident ''grant_id already exists'', L)
      else sym_commit (rp_persist_grant (yg_retention g)) io (grant_line g) ident
             (st\<lparr>ys_grants := AList.update ident \<lparr>yk_grant = g, yk_revoked_at = None, yk_reason = []\<rparr> (ys_grants st)\<rparr>) L)"

definition revoke_grant :: "io \<Rightarrow> string \<Rightarrow> u64 \<Rightarrow> string \<Rightarrow> sym_ledger \<Rightarrow> ledger_result \<times> sym_ledger" where
  "revoke_grant io ident now reason L =
     (let st = yl_state L in
      case map_of (ys_grants st) ident of
        None \<Rightarrow> (yr_fail LS_NotFound ident ''grant_id not found'', L)
      | Some k \<Rightarrow>
          if yk_revoked_at k \<noteq> None then (yr_fail LS_Duplicate ident ''grant already revoked'', L)
          else if now < yg_issued_at (yk_grant k)
          then (yr_fail LS_Invalid ident ''revocation time precedes grant issue time'', L)
          else sym_commit (rp_persist_grant (yg_retention (yk_grant k))) io (revoke_line ident now reason) ident
                 (st\<lparr>ys_grants := AList.update ident (k\<lparr>yk_revoked_at := Some now, yk_reason := reason\<rparr>) (ys_grants st)\<rparr>) L)"

definition grant_state_of :: "string \<Rightarrow> u64 \<Rightarrow> sym_state \<Rightarrow> grant_state" where
  "grant_state_of ident now st =
     (case map_of (ys_grants st) ident of
        None \<Rightarrow> GT_Missing
      | Some k \<Rightarrow>
          if now < yg_issued_at (yk_grant k) then GT_Pending
          else if (case yk_revoked_at k of None \<Rightarrow> False | Some t \<Rightarrow> t \<le> now) then GT_Revoked
          else if grant_expired (yk_grant k) now then GT_Expired else GT_Active)"

definition find_grant :: "string \<Rightarrow> sym_state \<Rightarrow> symbiosis_grant option" where
  "find_grant ident st = map_option yk_grant (map_of (ys_grants st) ident)"

definition valid_source_id :: "string \<Rightarrow> bool" where
  "valid_source_id v \<longleftrightarrow> prefixed_sha256 kSourcePrefix v"

text \<open>None is the C++ \<open>true\<close>.\<close>

definition observation_mismatch :: "symbiosis_grant \<Rightarrow> source_observation \<Rightarrow> string option" where
  "observation_mismatch g ob =
     (if \<not> valid_source_id (so_source_id ob) then Some ''observation source_id is not a GOLF source identity''
      else if \<not> is_sha256 (so_content_sha256 ob) then Some ''observation content_sha256 is invalid''
      else if so_kind ob \<noteq> sg_kind (yg_source g) then Some ''observation source kind does not match grant''
      else if so_layer ob \<noteq> sg_layer (yg_source g) then Some ''observation reality layer does not match grant''
      else if so_source_id ob \<noteq> source_id_of (yg_source g) (so_locator ob)
      then Some ''observation source_id does not bind to grant_id and locator''
      else None)"

fun remove_first :: "('a \<Rightarrow> bool) \<Rightarrow> 'a list \<Rightarrow> 'a list" where
  "remove_first P [] = []"
| "remove_first P (x # xs) = (if P x then xs else x # remove_first P xs)"

text \<open>The loop of \<open>retain_stamp\<close>: drop the oldest stamp of the grant, \<open>count\<close> minus \<open>max\<close> times.\<close>

definition retain_stamp :: "observation_stamp \<Rightarrow> u64 \<Rightarrow> observation_stamp list \<Rightarrow> observation_stamp list" where
  "retain_stamp s limit stamps =
     (let all = stamps @ [s]; mine = (\<lambda>e. os_grant_id e = os_grant_id s); count = length (filter mine all)
      in ((remove_first mine) ^^ (count - unat limit)) all)"

definition is_stamped :: "string \<Rightarrow> source_observation \<Rightarrow> observation_stamp list \<Rightarrow> bool" where
  "is_stamped grant ob stamps \<longleftrightarrow>
     list_ex (\<lambda>s. os_grant_id s = grant \<and> os_source_id s = so_source_id ob \<and>
       os_content_sha256 s = so_content_sha256 ob) stamps"

definition stamp_of :: "string \<Rightarrow> source_observation \<Rightarrow> u64 \<Rightarrow> observation_stamp" where
  "stamp_of grant ob now =
     \<lparr>os_grant_id = grant, os_source_id = so_source_id ob, os_content_sha256 = so_content_sha256 ob,
      os_size_bytes = so_size_bytes ob, os_layer = so_layer ob, os_observed_at = now\<rparr>"

definition stamp_observation ::
    "io \<Rightarrow> string \<Rightarrow> source_observation \<Rightarrow> u64 \<Rightarrow> sym_ledger \<Rightarrow> ledger_result \<times> sym_ledger" where
  "stamp_observation io ident ob now L =
     (let st = yl_state L; rid = so_source_id ob in
      case map_of (ys_grants st) ident of
        None \<Rightarrow> (yr_fail LS_NotFound rid ''grant_id not found'', L)
      | Some k \<Rightarrow>
          if grant_state_of ident now st \<noteq> GT_Active then (yr_fail LS_Inactive rid ''grant is not active'', L)
          else (case observation_mismatch (yk_grant k) ob of
            Some error \<Rightarrow> (yr_fail LS_Denied rid error, L)
          | None \<Rightarrow>
              if is_stamped ident ob (ys_stamps st)
              then (yr_fail LS_Duplicate rid ''observation stamp already exists'', L)
              else (let s = stamp_of ident ob now in
                sym_commit (rp_persist_stamps (yg_retention (yk_grant k))) io (stamp_line s) rid
                  (st\<lparr>ys_stamps := retain_stamp s (rp_max_stamps (yg_retention (yk_grant k))) (ys_stamps st)\<rparr>) L)))"

definition promotion_id_of :: "string \<Rightarrow> source_observation \<Rightarrow> string \<Rightarrow> string" where
  "promotion_id_of grant ob summary = ''guff:memory:sha256:'' @ sha256
     (grant @ [NL] @ so_source_id ob @ [NL] @ so_content_sha256 ob @ [NL] @ summary)"

definition promotion_of :: "string \<Rightarrow> source_observation \<Rightarrow> string \<Rightarrow> u64 \<Rightarrow> memory_promotion" where
  "promotion_of grant ob summary now =
     \<lparr>mp_promotion_id = promotion_id_of grant ob summary, mp_grant_id = grant, mp_source_id = so_source_id ob,
      mp_content_sha256 = so_content_sha256 ob, mp_layer = RL_Memory, mp_summary = summary, mp_promoted_at = now,
      mp_forgotten = False\<rparr>"

definition promote_memory ::
    "io \<Rightarrow> string \<Rightarrow> source_observation \<Rightarrow> string \<Rightarrow> u64 \<Rightarrow> sym_ledger \<Rightarrow> ledger_result \<times> sym_ledger" where
  "promote_memory io ident ob summary now L =
     (let st = yl_state L in
      case map_of (ys_grants st) ident of
        None \<Rightarrow> (yr_fail LS_NotFound [] ''grant_id not found'', L)
      | Some k \<Rightarrow>
          if grant_state_of ident now st \<noteq> GT_Active then (yr_fail LS_Inactive [] ''grant is not active'', L)
          else if \<not> rp_allow_promotion (yg_retention (yk_grant k))
          then (yr_fail LS_Denied [] ''grant retention policy does not allow memory promotion'', L)
          else if summary = [] then (yr_fail LS_Invalid [] ''promotion summary is required'', L)
          else if unat (rp_max_promotion_bytes (yg_retention (yk_grant k))) < length summary
          then (yr_fail LS_Invalid [] ''promotion summary exceeds max_promotion_bytes'', L)
          else (case observation_mismatch (yk_grant k) ob of
            Some error \<Rightarrow> (yr_fail LS_Denied [] error, L)
          | None \<Rightarrow>
              if \<not> is_stamped ident ob (ys_stamps st)
              then (yr_fail LS_Denied [] ''memory promotion requires a matching observation stamp'', L)
              else (let p = promotion_of ident ob summary now in
                if list_ex (\<lambda>e. mp_promotion_id e = mp_promotion_id p \<and> \<not> mp_forgotten e) (ys_promotions st)
                then (yr_fail LS_Duplicate (mp_promotion_id p) ''memory promotion already exists'', L)
                else sym_commit (rp_persist_grant (yg_retention (yk_grant k))) io (promotion_line p) (mp_promotion_id p)
                       (st\<lparr>ys_promotions := ys_promotions st @ [p]\<rparr>) L)))"

text \<open>\<open>find_if\<close> and the assignment through the iterator.\<close>

definition first_promotion :: "string \<Rightarrow> memory_promotion list \<Rightarrow> memory_promotion option" where
  "first_promotion ident ps = find (\<lambda>p. mp_promotion_id p = ident) ps"

fun set_forgotten :: "string \<Rightarrow> memory_promotion list \<Rightarrow> memory_promotion list" where
  "set_forgotten ident [] = []"
| "set_forgotten ident (p # ps) =
     (if mp_promotion_id p = ident then p\<lparr>mp_forgotten := True\<rparr> # ps else p # set_forgotten ident ps)"

definition forget_promotion :: "io \<Rightarrow> string \<Rightarrow> u64 \<Rightarrow> sym_ledger \<Rightarrow> ledger_result \<times> sym_ledger" where
  "forget_promotion io ident now L =
     (let st = yl_state L in
      case first_promotion ident (ys_promotions st) of
        None \<Rightarrow> (yr_fail LS_NotFound ident ''promotion_id not found'', L)
      | Some p \<Rightarrow>
          if mp_forgotten p then (yr_fail LS_Duplicate ident ''promotion already forgotten'', L)
          else sym_commit
            (case map_of (ys_grants st) (mp_grant_id p) of None \<Rightarrow> False | Some k \<Rightarrow> rp_persist_grant (yg_retention (yk_grant k)))
            io (forget_line ident now) ident (st\<lparr>ys_promotions := set_forgotten ident (ys_promotions st)\<rparr>) L)"

definition observation_stamps :: "string \<Rightarrow> sym_state \<Rightarrow> observation_stamp list" where
  "observation_stamps ident st = filter (\<lambda>s. os_grant_id s = ident) (ys_stamps st)"

definition list_promotions :: "bool \<Rightarrow> sym_state \<Rightarrow> memory_promotion list" where
  "list_promotions include_forgotten st = filter (\<lambda>p. include_forgotten \<or> \<not> mp_forgotten p) (ys_promotions st)"

definition grant_count :: "sym_state \<Rightarrow> nat" where
  "grant_count st = length (ys_grants st)"

definition stamp_count :: "sym_state \<Rightarrow> nat" where
  "stamp_count st = length (ys_stamps st)"

definition promotion_count :: "sym_state \<Rightarrow> nat" where
  "promotion_count st = length (ys_promotions st)"

section \<open>Replay\<close>

text \<open>One event: Inl is the detail of \<open>fail\<close>, which leaves the containers alone.\<close>

definition replay_grant :: "string list \<Rightarrow> sym_state \<Rightarrow> string + sym_state" where
  "replay_grant fs st =
     (if length fs \<noteq> 17 then Inl ''malformed grant event''
      else case (hex_decode (fs ! 1), hex_decode (fs ! 5), hex_decode (fs ! 6), parse_enum (fs ! 2) 2, parse_enum (fs ! 3) 2,
                 parse_enum (fs ! 4) 9) of
        (Some ident, Some base, Some pre, Some kind, Some scope, Some layer) \<Rightarrow>
          (case (parse_bool (fs ! 7), parse_unsigned (fs ! 8) :: u64 option, parse_unsigned (fs ! 9) :: u64 option,
                 parse_bool (fs ! 10), parse_bool (fs ! 11), parse_bool (fs ! 12)) of
             (Some recursive, Some max_source, Some max_slice, Some persist, Some stamps, Some promotion) \<Rightarrow>
               (case (parse_unsigned (fs ! 13) :: u64 option, parse_unsigned (fs ! 14) :: u64 option,
                      parse_unsigned (fs ! 15) :: u64 option, parse_unsigned (fs ! 16) :: u64 option) of
                  (Some max_promotion, Some max_stamps, Some issued, Some expires) \<Rightarrow>
                    (let g = \<lparr>yg_source = \<lparr>sg_grant_id = ident, sg_kind = source_kind_of_code kind,
                           sg_scope = grant_scope_of_code scope, sg_layer = layer_of_code layer, sg_root = base,
                           sg_locator_prefix = pre, sg_recursive = recursive, sg_max_source_bytes = max_source,
                           sg_max_slice_bytes = max_slice\<rparr>,
                         yg_retention = \<lparr>rp_persist_grant = persist, rp_persist_stamps = stamps,
                           rp_allow_promotion = promotion, rp_max_promotion_bytes = max_promotion,
                           rp_max_stamps = max_stamps\<rparr>,
                         yg_issued_at = issued, yg_expires_at = expires\<rparr>
                     in if validate_symbiosis_grant g \<noteq> [] \<or> \<not> persist \<or> contains (ys_grants st) ident
                     then Inl ''invalid or duplicate persisted grant''
                     else Inr (st\<lparr>ys_grants := AList.update ident \<lparr>yk_grant = g, yk_revoked_at = None, yk_reason = []\<rparr>
                            (ys_grants st)\<rparr>))
                | _ \<Rightarrow> Inl ''invalid grant event fields'')
           | _ \<Rightarrow> Inl ''invalid grant event fields'')
      | _ \<Rightarrow> Inl ''invalid grant event fields'')"

definition replay_revoke :: "string list \<Rightarrow> sym_state \<Rightarrow> string + sym_state" where
  "replay_revoke fs st =
     (if length fs \<noteq> 4 then Inl ''malformed revoke event''
      else case (hex_decode (fs ! 1), hex_decode (fs ! 3), parse_unsigned (fs ! 2) :: u64 option) of
        (Some ident, Some reason, Some at_ms) \<Rightarrow>
          (case map_of (ys_grants st) ident of
             None \<Rightarrow> Inl ''revoke references missing or already revoked grant''
           | Some k \<Rightarrow>
               if yk_revoked_at k \<noteq> None then Inl ''revoke references missing or already revoked grant''
               else Inr (st\<lparr>ys_grants := AList.update ident (k\<lparr>yk_revoked_at := Some at_ms, yk_reason := reason\<rparr>)
                      (ys_grants st)\<rparr>))
      | _ \<Rightarrow> Inl ''invalid revoke event fields'')"

definition replay_stamp :: "string list \<Rightarrow> sym_state \<Rightarrow> string + sym_state" where
  "replay_stamp fs st =
     (if length fs \<noteq> 7 then Inl ''malformed stamp event''
      else case (hex_decode (fs ! 1), hex_decode (fs ! 2), parse_unsigned (fs ! 4) :: u64 option, parse_enum (fs ! 5) 9,
                 parse_unsigned (fs ! 6) :: u64 option) of
        (Some ident, Some source, Some bytes, Some layer, Some observed) \<Rightarrow>
          if \<not> is_sha256 (fs ! 3) then Inl ''invalid stamp event fields''
          else (case map_of (ys_grants st) ident of
            None \<Rightarrow> Inl ''stamp references grant without persistent stamp authority''
          | Some k \<Rightarrow>
              if \<not> rp_persist_stamps (yg_retention (yk_grant k))
              then Inl ''stamp references grant without persistent stamp authority''
              else Inr (st\<lparr>ys_stamps := retain_stamp
                     \<lparr>os_grant_id = ident, os_source_id = source, os_content_sha256 = fs ! 3, os_size_bytes = bytes,
                      os_layer = layer_of_code layer, os_observed_at = observed\<rparr>
                     (rp_max_stamps (yg_retention (yk_grant k))) (ys_stamps st)\<rparr>))
      | _ \<Rightarrow> Inl ''invalid stamp event fields'')"

definition replay_promotion :: "string list \<Rightarrow> sym_state \<Rightarrow> string + sym_state" where
  "replay_promotion fs st =
     (if length fs \<noteq> 8 then Inl ''malformed promotion event''
      else case (hex_decode (fs ! 1), hex_decode (fs ! 2), hex_decode (fs ! 3), hex_decode (fs ! 6), parse_enum (fs ! 5) 9,
                 parse_unsigned (fs ! 7) :: u64 option) of
        (Some promotion, Some ident, Some source, Some summary, Some layer, Some promoted) \<Rightarrow>
          if \<not> is_sha256 (fs ! 4) then Inl ''invalid promotion event fields''
          else if \<not> contains (ys_grants st) ident then Inl ''promotion references missing grant''
          else Inr (st\<lparr>ys_promotions := ys_promotions st @
                 [\<lparr>mp_promotion_id = promotion, mp_grant_id = ident, mp_source_id = source, mp_content_sha256 = fs ! 4,
                   mp_layer = layer_of_code layer, mp_summary = summary, mp_promoted_at = promoted,
                   mp_forgotten = False\<rparr>]\<rparr>)
      | _ \<Rightarrow> Inl ''invalid promotion event fields'')"

definition replay_forget :: "string list \<Rightarrow> sym_state \<Rightarrow> string + sym_state" where
  "replay_forget fs st =
     (if length fs \<noteq> 3 then Inl ''malformed forget event''
      else case (hex_decode (fs ! 1), parse_unsigned (fs ! 2) :: u64 option) of
        (Some ident, Some _) \<Rightarrow>
          (case first_promotion ident (ys_promotions st) of
             None \<Rightarrow> Inl ''forget references missing or already forgotten promotion''
           | Some p \<Rightarrow>
               if mp_forgotten p then Inl ''forget references missing or already forgotten promotion''
               else Inr (st\<lparr>ys_promotions := set_forgotten ident (ys_promotions st)\<rparr>))
      | _ \<Rightarrow> Inl ''invalid forget event fields'')"

definition replay_event :: "string list \<Rightarrow> sym_state \<Rightarrow> string + sym_state" where
  "replay_event fs st =
     (if fs ! 0 = ''G'' then replay_grant fs st
      else if fs ! 0 = ''R'' then replay_revoke fs st
      else if fs ! 0 = ''S'' then replay_stamp fs st
      else if fs ! 0 = ''P'' then replay_promotion fs st
      else if fs ! 0 = ''F'' then replay_forget fs st
      else Inl ''unknown ledger event type'')"

fun replay_sym_lines :: "nat \<Rightarrow> string list \<Rightarrow> sym_state \<times> string list \<Rightarrow> sym_state \<times> string list" where
  "replay_sym_lines n [] acc = acc"
| "replay_sym_lines n (line # rest) (st, errors) =
     (let l = strip_cr line in
      if l = [] then replay_sym_lines (Suc n) rest (st, errors)
      else case replay_event (split_tabs l) st of
        Inl detail \<Rightarrow>
          replay_sym_lines (Suc n) rest (st, errors @ [''line '' @ nat_digits (Suc n) @ '': '' @ detail])
      | Inr st' \<Rightarrow> replay_sym_lines (Suc n) rest (st', errors))"

text \<open>The C++ result is whether the list of errors is empty, except for a path that cannot be examined.\<close>

definition sym_replay :: "read_io \<Rightarrow> sym_ledger \<Rightarrow> bool \<times> string list \<times> sym_ledger" where
  "sym_replay rio L =
     (if yl_path L = [] then (True, [], L\<lparr>yl_state := empty_sym\<rparr>)
      else if rio = Read_Inspect_Fail then (False, [], L\<lparr>yl_state := empty_sym\<rparr>)
      else case yl_file L of
        None \<Rightarrow> (True, [], L\<lparr>yl_state := empty_sym\<rparr>)
      | Some content \<Rightarrow>
          if rio = Read_Open_Fail then (False, [''unable to open ledger journal''], L\<lparr>yl_state := empty_sym\<rparr>)
          else (case replay_sym_lines 0 (getlines content) (empty_sym, []) of
                  (st, errors) \<Rightarrow> (errors = [], errors, L\<lparr>yl_state := st\<rparr>)))"

definition sym_ledger_new :: "string \<Rightarrow> string option \<Rightarrow> sym_ledger" where
  "sym_ledger_new path file = \<lparr>yl_path = path, yl_file = file, yl_state = empty_sym\<rparr>"

fun grant_state_to_string :: "grant_state \<Rightarrow> string" where
  "grant_state_to_string GT_Active = ''ACTIVE''"
| "grant_state_to_string GT_Pending = ''PENDING''"
| "grant_state_to_string GT_Revoked = ''REVOKED''"
| "grant_state_to_string GT_Expired = ''EXPIRED''"
| "grant_state_to_string GT_Missing = ''MISSING''"

fun sym_status_to_string :: "ledger_status \<Rightarrow> string" where
  "sym_status_to_string LS_Ok = ''OK''"
| "sym_status_to_string LS_Duplicate = ''DUPLICATE''"
| "sym_status_to_string LS_Invalid = ''INVALID''"
| "sym_status_to_string LS_NotFound = ''NOT_FOUND''"
| "sym_status_to_string LS_Inactive = ''INACTIVE''"
| "sym_status_to_string LS_Denied = ''DENIED''"
| "sym_status_to_string LS_StorageError = ''STORAGE_ERROR''"

end
