(* ===== verification/Symbiosis_Runs.thy ===== *)
theory Symbiosis_Runs
  imports Symbiosis_Ledger Runtime_Identity_Runs
begin

text \<open>
  The ledger over time.  Every operation either refuses and changes nothing or commits an event;
  the part of the state that belongs to persistent grants is what replaying the journal gives
  back, and an event of that part is what its line replays to.
\<close>

section \<open>Events\<close>

inductive sym_event :: "sym_state \<Rightarrow> bool \<Rightarrow> string \<Rightarrow> sym_state \<Rightarrow> bool" where
  created: "validate_symbiosis_grant g = [] \<Longrightarrow> \<not> contains (ys_grants st) (sg_grant_id (yg_source g)) \<Longrightarrow>
    sym_event st (rp_persist_grant (yg_retention g)) (grant_line g)
      (st\<lparr>ys_grants := AList.update (sg_grant_id (yg_source g)) \<lparr>yk_grant = g, yk_revoked_at = None, yk_reason = []\<rparr> (ys_grants st)\<rparr>)"
| revoked: "map_of (ys_grants st) ident = Some k \<Longrightarrow> yk_revoked_at k = None \<Longrightarrow>
    sym_event st (rp_persist_grant (yg_retention (yk_grant k))) (revoke_line ident now reason)
      (st\<lparr>ys_grants := AList.update ident (k\<lparr>yk_revoked_at := Some now, yk_reason := reason\<rparr>) (ys_grants st)\<rparr>)"
| stamped: "map_of (ys_grants st) (os_grant_id s) = Some k \<Longrightarrow> is_sha256 (os_content_sha256 s) \<Longrightarrow>
    grant_state_of (os_grant_id s) (os_observed_at s) st = GT_Active \<Longrightarrow>
    sym_event st (rp_persist_stamps (yg_retention (yk_grant k))) (stamp_line s)
      (st\<lparr>ys_stamps := retain_stamp s (rp_max_stamps (yg_retention (yk_grant k))) (ys_stamps st)\<rparr>)"
| promoted: "map_of (ys_grants st) (mp_grant_id p) = Some k \<Longrightarrow> is_sha256 (mp_content_sha256 p) \<Longrightarrow> \<not> mp_forgotten p \<Longrightarrow>
    grant_state_of (mp_grant_id p) (mp_promoted_at p) st = GT_Active \<Longrightarrow>
    sym_event st (rp_persist_grant (yg_retention (yk_grant k))) (promotion_line p)
      (st\<lparr>ys_promotions := ys_promotions st @ [p]\<rparr>)"
| forgot: "first_promotion ident (ys_promotions st) = Some p \<Longrightarrow> \<not> mp_forgotten p \<Longrightarrow>
    map_of (ys_grants st) (mp_grant_id p) = Some k \<Longrightarrow>
    sym_event st (rp_persist_grant (yg_retention (yk_grant k))) (forget_line ident now)
      (st\<lparr>ys_promotions := set_forgotten ident (ys_promotions st)\<rparr>)"

text \<open>The grants have distinct identities, are valid, and stand behind every stamp and memory.\<close>

definition distinct_keys :: "'v smap \<Rightarrow> bool" where
  "distinct_keys m \<longleftrightarrow> distinct (map fst m)"

lemma distinct_keys_update [simp]: "distinct_keys m \<Longrightarrow> distinct_keys (AList.update k v m)"
  by (simp add: distinct_keys_def distinct_update)

definition sym_inv :: "sym_state \<Rightarrow> bool" where
  "sym_inv st \<longleftrightarrow> distinct_keys (ys_grants st) \<and>
     (\<forall>ident k. map_of (ys_grants st) ident = Some k \<longrightarrow> validate_symbiosis_grant (yk_grant k) = []) \<and>
     (\<forall>s \<in> set (ys_stamps st). contains (ys_grants st) (os_grant_id s)) \<and>
     (\<forall>p \<in> set (ys_promotions st). contains (ys_grants st) (mp_grant_id p))"

lemma sym_inv_empty [simp]: "sym_inv empty_sym"
  by (simp add: sym_inv_def empty_sym_def distinct_keys_def)

lemma remove_first_subset: "set (remove_first P xs) \<subseteq> set xs"
  by (induction xs) auto

lemma remove_times_subset: "set (((remove_first P) ^^ n) xs) \<subseteq> set xs"
  using remove_first_subset by (induction n) fastforce+

lemma retained: "set (retain_stamp s n stamps) \<subseteq> insert s (set stamps)"
  using remove_times_subset by (fastforce simp: retain_stamp_def Let_def)

lemma set_forgotten_ids: "map mp_grant_id (set_forgotten ident ps) = map mp_grant_id ps"
  by (induction ps) simp_all

lemma forgotten_grant: "p \<in> set (set_forgotten ident ps) \<Longrightarrow> \<exists>q \<in> set ps. mp_grant_id q = mp_grant_id p"
  using set_forgotten_ids [of ident ps] by (metis (no_types, lifting) image_iff image_set)

lemma first_promotion_in: "first_promotion ident ps = Some p \<Longrightarrow> p \<in> set ps \<and> mp_promotion_id p = ident"
  by (auto simp: first_promotion_def find_Some_iff)

lemma sym_inv_grants:
  assumes "sym_inv st" "validate_symbiosis_grant (yk_grant k) = []"
  shows "sym_inv (st\<lparr>ys_grants := AList.update ident k (ys_grants st)\<rparr>)"
  using assms by (simp add: sym_inv_def)

lemma sym_inv_stamps:
  assumes "sym_inv st" "contains (ys_grants st) (os_grant_id s)"
  shows "sym_inv (st\<lparr>ys_stamps := retain_stamp s n (ys_stamps st)\<rparr>)"
  using assms retained [of s n "ys_stamps st"] by (auto simp: sym_inv_def)

lemma sym_inv_promotions:
  assumes "sym_inv st" "\<forall>p \<in> set ps. contains (ys_grants st) (mp_grant_id p)"
  shows "sym_inv (st\<lparr>ys_promotions := ps\<rparr>)"
  using assms by (simp add: sym_inv_def)

lemma sym_inv_forgotten: "sym_inv st \<Longrightarrow> sym_inv (st\<lparr>ys_promotions := set_forgotten ident (ys_promotions st)\<rparr>)"
  using forgotten_grant by (intro sym_inv_promotions) (auto simp: sym_inv_def, metis)

lemma sym_inv_event: "sym_event st p line st' \<Longrightarrow> sym_inv st \<Longrightarrow> sym_inv st'"
proof (induction rule: sym_event.induct)
  case (revoked st ident k now reason)
  then show ?case by (intro sym_inv_grants) (auto simp: sym_inv_def)
next
  case (promoted st p k)
  then show ?case by (intro sym_inv_promotions) (auto simp: sym_inv_def)
qed (simp_all add: sym_inv_grants sym_inv_stamps sym_inv_forgotten)

section \<open>Every call is a refusal or a committed event\<close>

datatype sym_call =
    SC_Create io symbiosis_grant
  | SC_Revoke io string u64 string
  | SC_Stamp io string source_observation u64
  | SC_Promote io string source_observation string u64
  | SC_Forget io string u64
  | SC_Replay read_io

fun sym_step :: "sym_call \<Rightarrow> sym_ledger \<Rightarrow> sym_ledger" where
  "sym_step (SC_Create io g) L = snd (create_grant io g L)"
| "sym_step (SC_Revoke io ident now reason) L = snd (revoke_grant io ident now reason L)"
| "sym_step (SC_Stamp io ident ob now) L = snd (stamp_observation io ident ob now L)"
| "sym_step (SC_Promote io ident ob summary now) L = snd (promote_memory io ident ob summary now L)"
| "sym_step (SC_Forget io ident now) L = snd (forget_promotion io ident now L)"
| "sym_step (SC_Replay rio) L = snd (snd (sym_replay rio L))"

definition sym_run :: "sym_call list \<Rightarrow> sym_ledger \<Rightarrow> sym_ledger" where
  "sym_run cs L = fold sym_step cs L"

fun call_io :: "sym_call \<Rightarrow> io" where
  "call_io (SC_Create io _) = io"
| "call_io (SC_Revoke io _ _ _) = io"
| "call_io (SC_Stamp io _ _ _) = io"
| "call_io (SC_Promote io _ _ _ _) = io"
| "call_io (SC_Forget io _ _) = io"
| "call_io (SC_Replay _) = Write_Ok"

fun is_replay :: "sym_call \<Rightarrow> bool" where
  "is_replay (SC_Replay _) = True"
| "is_replay _ = False"

definition attempted :: "io \<Rightarrow> sym_ledger \<Rightarrow> ledger_result \<times> sym_ledger \<Rightarrow> bool" where
  "attempted io L x \<longleftrightarrow> \<not> yr_ok (fst x) \<and> snd x = L \<or>
     (\<exists>p line ident st. sym_event (yl_state L) p line st \<and> x = sym_commit p io line ident st L)"

lemma yr_simps [simp]: "yr_ok (yr_fail s i m) \<longleftrightarrow> s = LS_Ok" "yr_ok (yr_done i)"
  by (simp_all add: yr_ok_def yr_fail_def yr_done_def)

lemma attempted_fail [simp]: "s \<noteq> LS_Ok \<Longrightarrow> attempted io L (yr_fail s i m, L)"
  by (simp add: attempted_def)

lemma attempted_commit: "sym_event (yl_state L) p line st \<Longrightarrow> attempted io L (sym_commit p io line ident st L)"
  unfolding attempted_def by blast

lemma create_attempted: "attempted io L (create_grant io g L)"
proof (cases "validate_symbiosis_grant g = []")
  case True
  then show ?thesis
    by (auto simp: create_grant_def Let_def intro!: attempted_commit sym_event.created)
next
  case False
  then show ?thesis by (simp add: create_grant_def Let_def attempted_def yr_ok_def)
qed

lemma revoke_attempted: "attempted io L (revoke_grant io ident now reason L)"
  by (auto simp: revoke_grant_def Let_def intro!: attempted_commit sym_event.revoked split: option.split)

lemma observation_match:
  "observation_mismatch g ob = None \<Longrightarrow> is_sha256 (so_content_sha256 ob) \<and> valid_source_id (so_source_id ob) \<and>
     so_source_id ob = source_id_of (yg_source g) (so_locator ob) \<and> so_kind ob = sg_kind (yg_source g) \<and>
     so_layer ob = sg_layer (yg_source g)"
  by (simp add: observation_mismatch_def split: if_splits)

lemma stamped_event:
  assumes "map_of (ys_grants st) ident = Some k" "grant_state_of ident now st = GT_Active"
    "observation_mismatch (yk_grant k) ob = None"
  shows "sym_event st (rp_persist_stamps (yg_retention (yk_grant k))) (stamp_line (stamp_of ident ob now))
     (st\<lparr>ys_stamps := retain_stamp (stamp_of ident ob now) (rp_max_stamps (yg_retention (yk_grant k))) (ys_stamps st)\<rparr>)"
  using assms by (intro sym_event.stamped) (simp_all add: stamp_of_def observation_match)

lemma stamp_attempted: "attempted io L (stamp_observation io ident ob now L)"
  by (auto simp: stamp_observation_def Let_def intro!: attempted_commit stamped_event split: option.split)

lemma promoted_event:
  assumes "map_of (ys_grants st) ident = Some k" "grant_state_of ident now st = GT_Active"
    "observation_mismatch (yk_grant k) ob = None"
  shows "sym_event st (rp_persist_grant (yg_retention (yk_grant k))) (promotion_line (promotion_of ident ob summary now))
     (st\<lparr>ys_promotions := ys_promotions st @ [promotion_of ident ob summary now]\<rparr>)"
  using assms by (intro sym_event.promoted) (simp_all add: promotion_of_def observation_match)

lemma promote_attempted: "attempted io L (promote_memory io ident ob summary now L)"
  by (auto simp: promote_memory_def Let_def intro!: attempted_commit promoted_event split: option.split)

lemma forget_attempted:
  assumes "sym_inv (yl_state L)"
  shows "attempted io L (forget_promotion io ident now L)"
proof (cases "first_promotion ident (ys_promotions (yl_state L))")
  case None
  then show ?thesis by (simp add: forget_promotion_def Let_def)
next
  case (Some p)
  with assms obtain k where "map_of (ys_grants (yl_state L)) (mp_grant_id p) = Some k"
    by (auto simp: sym_inv_def dest!: first_promotion_in)
  with Some show ?thesis
    by (auto simp: forget_promotion_def Let_def intro!: attempted_commit sym_event.forgot)
qed

lemma step_attempted:
  assumes "sym_inv (yl_state L)" "\<not> is_replay c"
  obtains r where "attempted (call_io c) L (r, sym_step c L)"
proof -
  have "\<exists>x. sym_step c L = snd x \<and> attempted (call_io c) L x"
  proof (cases c)
    case (SC_Create io g)
    then show ?thesis using create_attempted by (intro exI [of _ "create_grant io g L"]) simp
  next
    case (SC_Revoke io ident now reason)
    then show ?thesis using revoke_attempted by (intro exI [of _ "revoke_grant io ident now reason L"]) simp
  next
    case (SC_Stamp io ident ob now)
    then show ?thesis using stamp_attempted by (intro exI [of _ "stamp_observation io ident ob now L"]) simp
  next
    case (SC_Promote io ident ob summary now)
    then show ?thesis using promote_attempted by (intro exI [of _ "promote_memory io ident ob summary now L"]) simp
  next
    case (SC_Forget io ident now)
    then show ?thesis using forget_attempted [OF assms(1)] by (intro exI [of _ "forget_promotion io ident now L"]) simp
  qed (use assms(2) in simp)
  with that show thesis by (metis prod.collapse)
qed

lemma commit_state: "sym_commit p io line ident st L = (r, L') \<Longrightarrow>
    (if yr_ok r then yl_state L' = st else yl_state L' = yl_state L) \<and> yl_path L' = yl_path L"
  by (auto simp: sym_commit_def append_line_def split: if_splits io.splits)

lemma commit_file: "sym_commit p io line ident st L = (r, L') \<Longrightarrow> clean_io io \<Longrightarrow>
    yl_file L' = (if p \<and> yr_ok r then file_append (yl_file L) (line @ [NL]) else yl_file L)
    \<or> p \<and> \<not> yr_ok r \<and> yl_file L' = file_append (yl_file L) []"
  by (auto simp: sym_commit_def append_line_def clean_io_def split: if_splits io.splits)

end
