(* ===== verification/Symbiosis_Replay.thy ===== *)
theory Symbiosis_Replay
  imports Symbiosis_Runs
begin

text \<open>
  What the journal of the ledger holds: the line of an event replays to that event, on the part
  of the state that belongs to persistent grants.
\<close>

section \<open>The persistent part of a state\<close>

definition grant_kept :: "grant_record smap \<Rightarrow> string \<Rightarrow> bool" where
  "grant_kept m ident \<longleftrightarrow> (case map_of m ident of None \<Rightarrow> False | Some k \<Rightarrow> rp_persist_grant (yg_retention (yk_grant k)))"

definition stamps_kept :: "grant_record smap \<Rightarrow> string \<Rightarrow> bool" where
  "stamps_kept m ident \<longleftrightarrow> (case map_of m ident of None \<Rightarrow> False | Some k \<Rightarrow> rp_persist_stamps (yg_retention (yk_grant k)))"

definition kept_record :: "grant_record \<Rightarrow> bool" where
  "kept_record k \<longleftrightarrow> rp_persist_grant (yg_retention (yk_grant k))"

definition persistent :: "sym_state \<Rightarrow> sym_state" where
  "persistent st =
     \<lparr>ys_grants = filter (\<lambda>x. kept_record (snd x)) (ys_grants st),
      ys_stamps = filter (\<lambda>s. stamps_kept (ys_grants st) (os_grant_id s)) (ys_stamps st),
      ys_promotions = filter (\<lambda>p. grant_kept (ys_grants st) (mp_grant_id p)) (ys_promotions st)\<rparr>"

lemma persistent_empty [simp]: "persistent empty_sym = empty_sym"
  by (simp add: persistent_def empty_sym_def)

lemma map_of_filter_keys:
  assumes "distinct_keys m"
  shows "map_of (filter (\<lambda>x. P (snd x)) m) k = (case map_of m k of None \<Rightarrow> None | Some v \<Rightarrow> if P v then Some v else None)"
  using assms by (induction m) (auto simp: distinct_keys_def map_of_eq_None_iff split: option.split dest: map_of_SomeD)

lemma distinct_keys_filter: "distinct_keys m \<Longrightarrow> distinct_keys (filter Q m)"
  by (simp add: distinct_keys_def distinct_map_filter)

lemma filter_update:
  assumes "distinct_keys m" "\<And>w. map_of m k = Some w \<Longrightarrow> P w = P v"
  shows "filter (\<lambda>x. P (snd x)) (AList.update k v m) =
    (if P v then AList.update k v (filter (\<lambda>x. P (snd x)) m) else filter (\<lambda>x. P (snd x)) m)"
  using assms
proof (induction m)
  case (Cons a m)
  have d: "distinct_keys m" using Cons.prems(1) by (simp add: distinct_keys_def)
  show ?case
  proof (cases "fst a = k")
    case True
    then have "P (snd a) = P v" using Cons.prems(2) by (cases a) simp
    with True show ?thesis by (cases a) simp
  next
    case False
    then have "filter (\<lambda>x. P (snd x)) (AList.update k v m) =
        (if P v then AList.update k v (filter (\<lambda>x. P (snd x)) m) else filter (\<lambda>x. P (snd x)) m)"
      using Cons.prems(2) by (intro Cons.IH [OF d]) (cases a, simp)
    with False show ?thesis by (cases a) simp
  qed
qed simp

lemma sym_inv_distinct: "sym_inv st \<Longrightarrow> distinct_keys (ys_grants st)"
  by (simp add: sym_inv_def)

lemma persistent_lookup:
  "sym_inv st \<Longrightarrow> map_of (ys_grants (persistent st)) ident =
     (case map_of (ys_grants st) ident of None \<Rightarrow> None | Some k \<Rightarrow> if kept_record k then Some k else None)"
  by (simp add: persistent_def map_of_filter_keys sym_inv_distinct)

lemma stamps_kept_grant: "sym_inv st \<Longrightarrow> stamps_kept (ys_grants st) ident \<Longrightarrow> grant_kept (ys_grants st) ident"
  by (auto simp: stamps_kept_def grant_kept_def sym_inv_def validate_symbiosis_grant_def split: option.splits)

lemma persistent_idem:
  assumes "sym_inv st"
  shows "persistent (persistent st) = persistent st"
proof -
  have "map_of (ys_grants (persistent st)) = map_of (filter (\<lambda>x. kept_record (snd x)) (ys_grants st))"
    by (simp add: persistent_def)
  have g: "grant_kept (ys_grants (persistent st)) i = grant_kept (ys_grants st) i" for i
    using persistent_lookup [OF assms] by (simp add: grant_kept_def kept_record_def split: option.split)
  have s: "stamps_kept (ys_grants (persistent st)) i = stamps_kept (ys_grants st) i" for i
    using persistent_lookup [OF assms, of i] stamps_kept_grant [OF assms, of i]
    by (cases "map_of (ys_grants st) i") (auto simp: stamps_kept_def grant_kept_def kept_record_def)
  have e: "persistent t = \<lparr>ys_grants = filter (\<lambda>x. kept_record (snd x)) (ys_grants t),
      ys_stamps = filter (\<lambda>s. stamps_kept (ys_grants t) (os_grant_id s)) (ys_stamps t),
      ys_promotions = filter (\<lambda>p. grant_kept (ys_grants t) (mp_grant_id p)) (ys_promotions t)\<rparr>" for t
    by (simp add: persistent_def)
  show ?thesis
    unfolding e [of "persistent st"] g s by (simp add: persistent_def)
qed

lemma persistent_inv:
  assumes "sym_inv st"
  shows "sym_inv (persistent st)"
proof -
  note l = persistent_lookup [OF assms]
  have "grant_kept (ys_grants st) i \<Longrightarrow> contains (ys_grants (persistent st)) i" for i
    using l [of i] by (auto simp: grant_kept_def kept_record_def split: option.splits)
  moreover note stamps_kept_grant [OF assms]
  moreover have "distinct_keys (ys_grants (persistent st))"
    using sym_inv_distinct [OF assms] by (simp add: persistent_def distinct_keys_filter)
  moreover have "validate_symbiosis_grant (yk_grant k) = []" if "map_of (ys_grants (persistent st)) i = Some k" for i k
    using assms that l [of i] by (auto simp: sym_inv_def split: option.splits if_splits)
  moreover have "ys_stamps (persistent st) = filter (\<lambda>s. stamps_kept (ys_grants st) (os_grant_id s)) (ys_stamps st)"
    "ys_promotions (persistent st) = filter (\<lambda>p. grant_kept (ys_grants st) (mp_grant_id p)) (ys_promotions st)"
    by (simp_all add: persistent_def)
  ultimately show ?thesis unfolding sym_inv_def by simp
qed

section \<open>Events on the persistent part\<close>

lemma update_kept:
  assumes "sym_inv st" "\<And>w. map_of (ys_grants st) ident = Some w \<Longrightarrow> yk_grant w = yk_grant k"
    "\<not> contains (ys_grants st) ident \<Longrightarrow> ident \<notin> os_grant_id ` set (ys_stamps st) \<union> mp_grant_id ` set (ys_promotions st)"
  shows "persistent (st\<lparr>ys_grants := AList.update ident k (ys_grants st)\<rparr>) =
    (if kept_record k then (persistent st)\<lparr>ys_grants := AList.update ident k (ys_grants (persistent st))\<rparr> else persistent st)"
proof -
  let ?m = "AList.update ident k (ys_grants st)"
  have f: "filter (\<lambda>x. kept_record (snd x)) ?m =
      (if kept_record k then AList.update ident k (filter (\<lambda>x. kept_record (snd x)) (ys_grants st))
       else filter (\<lambda>x. kept_record (snd x)) (ys_grants st))"
    using assms(2) by (intro filter_update [OF sym_inv_distinct [OF assms(1)]]) (simp add: kept_record_def)
  have s: "stamps_kept ?m (os_grant_id x) = stamps_kept (ys_grants st) (os_grant_id x)" if "x \<in> set (ys_stamps st)" for x
    using that assms(2,3) by (cases "map_of (ys_grants st) ident") (auto simp: stamps_kept_def)
  have p: "grant_kept ?m (mp_grant_id x) = grant_kept (ys_grants st) (mp_grant_id x)" if "x \<in> set (ys_promotions st)" for x
    using that assms(2,3) by (cases "map_of (ys_grants st) ident") (auto simp: grant_kept_def)
  show ?thesis
    by (simp add: persistent_def f s p cong: filter_cong)
qed

lemma unknown_unused:
  assumes "sym_inv st" "\<not> contains (ys_grants st) ident"
  shows "ident \<notin> os_grant_id ` set (ys_stamps st) \<union> mp_grant_id ` set (ys_promotions st)"
  using assms unfolding sym_inv_def by auto

lemma remove_first_filter:
  "(\<And>x. P x \<Longrightarrow> Q x) \<Longrightarrow> filter Q (remove_first P xs) = remove_first P (filter Q xs)"
  "(\<And>x. P x \<Longrightarrow> \<not> Q x) \<Longrightarrow> filter Q (remove_first P xs) = filter Q xs"
  by (induction xs) auto

lemma remove_times_filter:
  "(\<And>x. P x \<Longrightarrow> Q x) \<Longrightarrow> filter Q (((remove_first P) ^^ n) xs) = ((remove_first P) ^^ n) (filter Q xs)"
  "(\<And>x. P x \<Longrightarrow> \<not> Q x) \<Longrightarrow> filter Q (((remove_first P) ^^ n) xs) = filter Q xs"
  by (induction n) (simp_all add: remove_first_filter)

lemma retain_kept:
  assumes "\<And>x. os_grant_id x = os_grant_id s \<Longrightarrow> Q x = Q s"
  shows "filter Q (retain_stamp s n stamps) = (if Q s then retain_stamp s n (filter Q stamps) else filter Q stamps)"
proof (cases "Q s")
  case True
  with assms have q: "\<And>x. os_grant_id x = os_grant_id s \<Longrightarrow> Q x" by blast
  have "filter (\<lambda>e. os_grant_id e = os_grant_id s) (filter Q xs) = filter (\<lambda>e. os_grant_id e = os_grant_id s) xs" for xs
    using q by (induction xs) auto
  with True q show ?thesis by (simp add: retain_stamp_def Let_def remove_times_filter(1))
next
  case False
  with assms have "\<And>x. os_grant_id x = os_grant_id s \<Longrightarrow> \<not> Q x" by blast
  with False show ?thesis by (simp add: retain_stamp_def Let_def remove_times_filter(2))
qed

lemma forget_kept:
  assumes "first_promotion ident ps = Some p" "\<And>a b. mp_grant_id a = mp_grant_id b \<Longrightarrow> Q a = Q b"
  shows "filter Q (set_forgotten ident ps) = (if Q p then set_forgotten ident (filter Q ps) else filter Q ps)"
    "Q p \<Longrightarrow> first_promotion ident (filter Q ps) = Some p"
proof -
  have q: "Q (a\<lparr>mp_forgotten := True\<rparr>) = Q a" for a using assms(2) [of "a\<lparr>mp_forgotten := True\<rparr>" a] by simp
  show "filter Q (set_forgotten ident ps) = (if Q p then set_forgotten ident (filter Q ps) else filter Q ps)"
    using assms(1) by (induction ps) (auto simp: first_promotion_def q split: if_splits)
  show "Q p \<Longrightarrow> first_promotion ident (filter Q ps) = Some p"
    using assms(1) by (induction ps) (auto simp: first_promotion_def split: if_splits)
qed

text \<open>What an event does to the persistent part: nothing, if the event is not persistent.\<close>

lemma transient_event:
  assumes "sym_event st p line st'" "sym_inv st" "\<not> p"
  shows "persistent st' = persistent st"
  using assms
proof (induction rule: sym_event.induct)
  case (created g st)
  let ?k = "\<lparr>yk_grant = g, yk_revoked_at = None, yk_reason = []\<rparr>"
  have "\<not> kept_record ?k" using created by (simp add: kept_record_def)
  moreover have "map_of (ys_grants st) (sg_grant_id (yg_source g)) = None" using created by auto
  ultimately show ?case
    using update_kept [OF created(3), of "sg_grant_id (yg_source g)" ?k] unknown_unused [OF created(3,2)] by simp
next
  case (revoked st ident k now reason)
  then show ?case
    using update_kept [OF revoked(3), of ident "k\<lparr>yk_revoked_at := Some now, yk_reason := reason\<rparr>"]
    by (simp add: kept_record_def)
next
  case (stamped st s k)
  have "filter (\<lambda>x. stamps_kept (ys_grants st) (os_grant_id x)) (retain_stamp s n (ys_stamps st)) =
      filter (\<lambda>x. stamps_kept (ys_grants st) (os_grant_id x)) (ys_stamps st)" for n
    using stamped by (subst retain_kept) (simp_all add: stamps_kept_def)
  then show ?case by (simp add: persistent_def)
next
  case (promoted st p k)
  then show ?case by (simp add: persistent_def grant_kept_def)
next
  case (forgot ident st p k now)
  have "\<not> grant_kept (ys_grants st) (mp_grant_id p)" using forgot by (simp add: grant_kept_def)
  with forget_kept(1) [OF forgot(1), of "\<lambda>p. grant_kept (ys_grants st) (mp_grant_id p)"]
  show ?case by (simp add: persistent_def)
qed

section \<open>Lines\<close>

lemma kind_codes [simp]: "source_kind_of_code (source_kind_code k) = k" "grant_scope_of_code (grant_scope_code s) = s"
  by (cases k; simp add: source_kind_of_code_def) (cases s; simp add: grant_scope_of_code_def)

lemma enum_bounds [simp]: "\<not> 2 < source_kind_code k" "\<not> 2 < grant_scope_code s" "\<not> 9 < layer_code l"
proof -
  show "\<not> 2 < source_kind_code k" by (cases k) simp_all
  show "\<not> 2 < grant_scope_code s" by (cases s) simp_all
  show "\<not> 9 < layer_code l" by (cases l) simp_all
qed

lemma parse_enum_show [simp]: "\<not> limit < n \<Longrightarrow> parse_enum (show_u n) limit = Some n"
  by (simp add: parse_enum_def)

lemma parse_show_bool [simp]: "parse_bool (show_bool b) = Some b"
  by (simp add: parse_bool_def show_bool_def)

lemma show_bool_no_sep [simp]: "TAB \<notin> set (show_bool b)" "NL \<notin> set (show_bool b)"
  by (simp_all add: show_bool_def)

lemmas sym_lines = grant_line_def revoke_line_def stamp_line_def promotion_line_def forget_line_def

lemma split_event:
  assumes "\<forall>f \<in> set (f # fs). TAB \<notin> set f"
  shows "split_tabs (f @ tab_join fs) = f # fs"
  by (rule split_tabs_join [OF assms])

lemma split_grant: "split_tabs (grant_line g) = (let s = yg_source g; p = yg_retention g in
     [''G'', hex_encode (sg_grant_id s), show_u (source_kind_code (sg_kind s)), show_u (grant_scope_code (sg_scope s)),
      show_u (layer_code (sg_layer s)), hex_encode (sg_root s), hex_encode (sg_locator_prefix s),
      show_bool (sg_recursive s), show_u (sg_max_source_bytes s), show_u (sg_max_slice_bytes s),
      show_bool (rp_persist_grant p), show_bool (rp_persist_stamps p), show_bool (rp_allow_promotion p),
      show_u (rp_max_promotion_bytes p), show_u (rp_max_stamps p), show_u (yg_issued_at g), show_u (yg_expires_at g)])"
  unfolding grant_line_def Let_def by (rule split_tabs_join) simp

lemma split_revoke: "split_tabs (revoke_line ident now reason) = [''R'', hex_encode ident, show_u now, hex_encode reason]"
  unfolding revoke_line_def by (rule split_tabs_join) simp

lemma split_stamp: "is_sha256 (os_content_sha256 s) \<Longrightarrow> split_tabs (stamp_line s) =
    [''S'', hex_encode (os_grant_id s), hex_encode (os_source_id s), os_content_sha256 s, show_u (os_size_bytes s),
     show_u (layer_code (os_layer s)), show_u (os_observed_at s)]"
  unfolding stamp_line_def by (rule split_tabs_join) (simp add: is_sha256_no_sep)

lemma split_promotion: "is_sha256 (mp_content_sha256 p) \<Longrightarrow> split_tabs (promotion_line p) =
    [''P'', hex_encode (mp_promotion_id p), hex_encode (mp_grant_id p), hex_encode (mp_source_id p), mp_content_sha256 p,
     show_u (layer_code (mp_layer p)), hex_encode (mp_summary p), show_u (mp_promoted_at p)]"
  unfolding promotion_line_def by (rule split_tabs_join) (simp add: is_sha256_no_sep)

lemma split_forget: "split_tabs (forget_line ident now) = [''F'', hex_encode ident, show_u now]"
  unfolding forget_line_def by (rule split_tabs_join) simp

lemmas split_lines = split_grant [unfolded Let_def] split_revoke split_stamp split_promotion split_forget

lemma replay_grant_line:
  "replay_event (split_tabs (grant_line g)) st =
     (if validate_symbiosis_grant g \<noteq> [] \<or> \<not> rp_persist_grant (yg_retention g) \<or> contains (ys_grants st) (sg_grant_id (yg_source g))
      then Inl ''invalid or duplicate persisted grant''
      else Inr (st\<lparr>ys_grants := AList.update (sg_grant_id (yg_source g))
        \<lparr>yk_grant = g, yk_revoked_at = None, yk_reason = []\<rparr> (ys_grants st)\<rparr>))"
proof (cases g)
  case g: (fields s p issued expires)
  show ?thesis
  proof (cases s)
    case s: (fields a b c d e f h i j)
    show ?thesis
    proof (cases p)
      case (fields k l m n q)
      then show ?thesis
        by (simp add: g s split_lines replay_event_def replay_grant_def Let_def split del: if_split cong: if_cong)
    qed
  qed
qed

lemma persistent_event:
  assumes "sym_event st p line st'" "sym_inv st" "p"
  shows "replay_event (split_tabs line) (persistent st) = Inr (persistent st')"
  using assms
proof (induction rule: sym_event.induct)
  case (created g st)
  let ?i = "sg_grant_id (yg_source g)" and ?k = "\<lparr>yk_grant = g, yk_revoked_at = None, yk_reason = []\<rparr>"
  have n: "map_of (ys_grants st) ?i = None" using created by auto
  have k: "kept_record ?k" using created by (simp add: kept_record_def)
  have "persistent (st\<lparr>ys_grants := AList.update ?i ?k (ys_grants st)\<rparr>) =
      (persistent st)\<lparr>ys_grants := AList.update ?i ?k (ys_grants (persistent st))\<rparr>"
    using update_kept [OF created(3), of ?i ?k] unknown_unused [OF created(3,2)] n k by simp
  moreover have "\<not> contains (ys_grants (persistent st)) ?i" using persistent_lookup [OF created(3)] n by simp
  ultimately show ?case
    using created(1,4) by (simp add: replay_grant_line)
next
  case (revoked st ident k now reason)
  let ?k = "k\<lparr>yk_revoked_at := Some now, yk_reason := reason\<rparr>"
  have "persistent (st\<lparr>ys_grants := AList.update ident ?k (ys_grants st)\<rparr>) =
      (persistent st)\<lparr>ys_grants := AList.update ident ?k (ys_grants (persistent st))\<rparr>"
    using update_kept [OF revoked(3), of ident ?k] revoked by (simp add: kept_record_def)
  moreover have "map_of (ys_grants (persistent st)) ident = Some k"
    using persistent_lookup [OF revoked(3)] revoked by (simp add: kept_record_def)
  ultimately show ?case using revoked(2) by (simp add: split_lines replay_event_def replay_revoke_def)
next
  case (stamped st s k)
  let ?Q = "\<lambda>x. stamps_kept (ys_grants st) (os_grant_id x)"
  have q: "?Q s" using stamped by (simp add: stamps_kept_def)
  have r: "filter ?Q (retain_stamp s n (ys_stamps st)) = retain_stamp s n (filter ?Q (ys_stamps st))" for n
    using q by (subst retain_kept) simp_all
  have l: "map_of (ys_grants (persistent st)) (os_grant_id s) = Some k"
    using persistent_lookup [OF stamped(4), of "os_grant_id s"] stamps_kept_grant [OF stamped(4) q] stamped(1)
    by (simp add: grant_kept_def kept_record_def)
  have "persistent (st\<lparr>ys_stamps := retain_stamp s n (ys_stamps st)\<rparr>) =
      (persistent st)\<lparr>ys_stamps := retain_stamp s n (ys_stamps (persistent st))\<rparr>" for n
    by (simp add: persistent_def r)
  with l stamped(2,5) show ?case
    by (cases s) (simp add: split_lines replay_event_def replay_stamp_def)
next
  case (promoted st p k)
  have l: "map_of (ys_grants (persistent st)) (mp_grant_id p) = Some k"
    using persistent_lookup [OF promoted(5), of "mp_grant_id p"] promoted by (simp add: kept_record_def)
  have "persistent (st\<lparr>ys_promotions := ys_promotions st @ [p]\<rparr>) =
      (persistent st)\<lparr>ys_promotions := ys_promotions (persistent st) @ [p]\<rparr>"
    using promoted(1,6) by (simp add: persistent_def grant_kept_def)
  with l promoted(2,3) show ?case
    by (cases p) (simp add: split_lines replay_event_def replay_promotion_def)
next
  case (forgot ident st p k now)
  let ?Q = "\<lambda>p. grant_kept (ys_grants st) (mp_grant_id p)"
  have q: "?Q p" using forgot by (simp add: grant_kept_def)
  have f: "filter ?Q (set_forgotten ident (ys_promotions st)) = set_forgotten ident (filter ?Q (ys_promotions st))"
    "first_promotion ident (filter ?Q (ys_promotions st)) = Some p"
    using forget_kept [OF forgot(1), of ?Q] q by simp_all
  then have "persistent (st\<lparr>ys_promotions := set_forgotten ident (ys_promotions st)\<rparr>) =
      (persistent st)\<lparr>ys_promotions := set_forgotten ident (ys_promotions (persistent st))\<rparr>"
    "first_promotion ident (ys_promotions (persistent st)) = Some p"
    by (simp_all add: persistent_def)
  with forgot(2) show ?case by (simp add: split_lines replay_event_def replay_forget_def)
qed

end
