(* ===== verification/Symbiosis_Safety.thy ===== *)
theory Symbiosis_Safety
  imports Symbiosis_Replay
begin

text \<open>
  The properties of the ledger of grants: what is true of every state it can reach, what its
  journal gives back, and what a revocation and a forgotten memory come to.
\<close>

section \<open>Invariants of every state\<close>

text \<open>How a state changes, in a call or in the replay of a line.\<close>

inductive sym_change :: "sym_state \<Rightarrow> sym_state \<Rightarrow> bool" where
  ch_grant: "validate_symbiosis_grant (yk_grant k) = [] \<Longrightarrow>
    (\<And>w. map_of (ys_grants st) ident = Some w \<Longrightarrow> yk_grant w = yk_grant k) \<Longrightarrow>
    sym_change st (st\<lparr>ys_grants := AList.update ident k (ys_grants st)\<rparr>)"
| ch_stamp: "map_of (ys_grants st) (os_grant_id s) = Some k \<Longrightarrow>
    sym_change st (st\<lparr>ys_stamps := retain_stamp s (rp_max_stamps (yg_retention (yk_grant k))) (ys_stamps st)\<rparr>)"
| ch_promotions: "(\<And>p. p \<in> set ps \<Longrightarrow> contains (ys_grants st) (mp_grant_id p)) \<Longrightarrow>
    sym_change st (st\<lparr>ys_promotions := ps\<rparr>)"

lemma sym_inv_change: "sym_change st st' \<Longrightarrow> sym_inv st \<Longrightarrow> sym_inv st'"
  by (induction rule: sym_change.induct) (auto intro!: sym_inv_grants sym_inv_stamps sym_inv_promotions)

lemma known_promotions:
  assumes "sym_inv st" "p \<in> set (ys_promotions st)"
  shows "contains (ys_grants st) (mp_grant_id p)"
  using assms by (simp add: sym_inv_def)

lemma forgotten_change: "sym_inv st \<Longrightarrow> sym_change st (st\<lparr>ys_promotions := set_forgotten ident (ys_promotions st)\<rparr>)"
  by (rule ch_promotions) (metis forgotten_grant known_promotions)

lemma promoted_change: "sym_inv st \<Longrightarrow> contains (ys_grants st) (mp_grant_id p) \<Longrightarrow>
    sym_change st (st\<lparr>ys_promotions := ys_promotions st @ [p]\<rparr>)"
  by (rule ch_promotions) (auto dest: known_promotions)

lemma valid_grant: "sym_inv st \<Longrightarrow> map_of (ys_grants st) ident = Some k \<Longrightarrow> validate_symbiosis_grant (yk_grant k) = []"
  by (simp add: sym_inv_def)

lemma revoked_change:
  assumes "sym_inv st" "map_of (ys_grants st) ident = Some k"
  shows "sym_change st (st\<lparr>ys_grants := AList.update ident (k\<lparr>yk_revoked_at := t, yk_reason := reason\<rparr>) (ys_grants st)\<rparr>)"
  by (rule ch_grant) (use assms in \<open>simp_all add: valid_grant\<close>)

lemma event_change: "sym_event st p line st' \<Longrightarrow> sym_inv st \<Longrightarrow> sym_change st st'"
proof (induction rule: sym_event.induct)
  case (created g st)
  then show ?case by (auto intro: ch_grant)
next
  case (revoked st ident k now reason)
  then show ?case by (auto intro: revoked_change)
next
  case (stamped st s k)
  then show ?case by (auto intro: ch_stamp)
next
  case (promoted st p k)
  then show ?case by (auto intro: promoted_change)
next
  case (forgot ident st p k now)
  then show ?case by (auto intro: forgotten_change)
qed

lemma replay_grant_change: "replay_grant fs st = Inr st' \<Longrightarrow> sym_change st st'"
  by (auto simp: replay_grant_def Let_def intro!: ch_grant split: if_splits option.splits)

lemma replay_change: "replay_event fs st = Inr st' \<Longrightarrow> sym_inv st \<Longrightarrow> sym_change st st'"
  by (auto simp: replay_event_def replay_revoke_def replay_stamp_def replay_promotion_def replay_forget_def
      intro: ch_stamp promoted_change forgotten_change revoked_change replay_grant_change
      split: if_splits option.splits)

locale sym_invariant =
  fixes I :: "sym_state \<Rightarrow> bool"
  assumes I_empty: "I empty_sym"
    and I_change: "sym_change st st' \<Longrightarrow> sym_inv st \<Longrightarrow> I st \<Longrightarrow> I st'"
begin

definition J :: "sym_state \<Rightarrow> bool" where
  "J st \<longleftrightarrow> sym_inv st \<and> I st"

lemma J_empty: "J empty_sym"
  by (simp add: J_def I_empty)

lemma J_change: "sym_change st st' \<Longrightarrow> J st \<Longrightarrow> J st'"
  using I_change sym_inv_change by (auto simp: J_def)

lemma replayed: "J st \<Longrightarrow> J (fst (replay_sym_lines n ls (st, errors)))"
proof (induction ls arbitrary: n st errors)
  case (Cons l ls)
  have "J st'" if "replay_event fs st = Inr st'" for fs st'
    using J_change replay_change [OF that] Cons.prems by (simp add: J_def)
  with Cons show ?case by (auto simp: Let_def split: sum.split)
qed simp

lemma stepped: "J (yl_state L) \<Longrightarrow> J (yl_state (sym_step c L))"
proof (cases "is_replay c")
  case True
  then obtain rio where c: "c = SC_Replay rio" by (cases c) auto
  show ?thesis
    using replayed [OF J_empty, of 0 _ "[]"]
    by (auto simp: c sym_replay_def J_empty case_prod_beta split: option.split)
next
  case False
  assume j: "J (yl_state L)"
  then have "sym_inv (yl_state L)" by (simp add: J_def)
  then obtain r where a: "attempted (call_io c) L (r, sym_step c L)" using step_attempted False by blast
  then show ?thesis
    unfolding attempted_def
  proof (elim disjE exE conjE)
    fix p line ident st
    assume e: "sym_event (yl_state L) p line st" "(r, sym_step c L) = sym_commit p (call_io c) line ident st L"
    have "J st" using J_change event_change [OF e(1)] j by (auto simp: J_def)
    then show ?thesis using commit_state [OF e(2) [symmetric]] j by (auto split: if_splits)
  qed (use j in simp)
qed

lemma always: "J (yl_state (sym_run cs (sym_ledger_new path file)))"
proof -
  have "J (yl_state L) \<Longrightarrow> J (yl_state (sym_run cs L))" for L
    by (induction cs arbitrary: L) (simp_all add: sym_run_def stepped)
  then show ?thesis by (simp add: sym_ledger_new_def J_empty)
qed

lemma holds: "I (yl_state (sym_run cs (sym_ledger_new path file)))"
  using always by (simp add: J_def)

end

text \<open>A grant has no more stamps than it allows.\<close>

definition stamps_bounded :: "sym_state \<Rightarrow> bool" where
  "stamps_bounded st \<longleftrightarrow> (\<forall>ident k. map_of (ys_grants st) ident = Some k \<longrightarrow>
     length (observation_stamps ident st) \<le> unat (rp_max_stamps (yg_retention (yk_grant k))))"

lemma length_remove_first: "length (filter P (remove_first P xs)) = length (filter P xs) - 1"
  by (induction xs) auto

lemma length_remove_times: "length (filter P (((remove_first P) ^^ n) xs)) = length (filter P xs) - n"
  by (induction n) (simp_all add: length_remove_first)

lemma retain_bound: "length (filter (\<lambda>e. os_grant_id e = os_grant_id s) (retain_stamp s n stamps)) \<le> unat n"
  by (simp add: retain_stamp_def Let_def length_remove_times)

lemma retain_other:
  assumes "ident \<noteq> os_grant_id s"
  shows "filter (\<lambda>e. os_grant_id e = ident) (retain_stamp s n stamps) = filter (\<lambda>e. os_grant_id e = ident) stamps"
  using assms by (subst retain_kept) auto

lemma bounded_grants:
  assumes "\<And>w. map_of (ys_grants st) ident = Some w \<Longrightarrow> yk_grant w = yk_grant k" "sym_inv st" "stamps_bounded st"
  shows "stamps_bounded (st\<lparr>ys_grants := AList.update ident k (ys_grants st)\<rparr>)"
proof (cases "contains (ys_grants st) ident")
  case True
  then obtain w where w: "map_of (ys_grants st) ident = Some w" by auto
  then have "length (observation_stamps ident st) \<le> unat (rp_max_stamps (yg_retention (yk_grant k)))"
    using assms(3) assms(1) [OF w] unfolding stamps_bounded_def by metis
  with assms(3) show ?thesis by (simp add: stamps_bounded_def observation_stamps_def)
next
  case False
  then have "filter (\<lambda>s. os_grant_id s = ident) (ys_stamps st) = []"
    using unknown_unused [OF assms(2), of ident] by (auto simp: filter_empty_conv)
  with assms(3) show ?thesis by (simp add: stamps_bounded_def observation_stamps_def)
qed

interpretation bounded: sym_invariant stamps_bounded
proof
  show "stamps_bounded empty_sym" by (simp add: stamps_bounded_def empty_sym_def)
next
  fix st st'
  assume "sym_change st st'" "sym_inv st" "stamps_bounded st"
  then show "stamps_bounded st'"
  proof (induction rule: sym_change.induct)
    case (ch_grant k st ident)
    show ?case by (rule bounded_grants) (fact ch_grant)+
  next
    case (ch_stamp st s k)
    let ?st = "st\<lparr>ys_stamps := retain_stamp s (rp_max_stamps (yg_retention (yk_grant k))) (ys_stamps st)\<rparr>"
    have "length (observation_stamps i ?st) \<le> unat (rp_max_stamps (yg_retention (yk_grant w)))"
      if w: "map_of (ys_grants st) i = Some w" for i w
    proof (cases "i = os_grant_id s")
      case True
      with w ch_stamp(1) have "w = k" by simp
      with True retain_bound show ?thesis by (simp add: observation_stamps_def)
    next
      case False
      with w ch_stamp(3) show ?thesis by (simp add: observation_stamps_def stamps_bounded_def retain_other)
    qed
    then show ?case by (simp add: stamps_bounded_def)
  next
    case (ch_promotions ps st)
    then show ?case by (simp add: stamps_bounded_def observation_stamps_def)
  qed
qed

text \<open>
  C.  However the ledger has been used, whatever its journal held and however its writes ended,
  no grant has more observation stamps than its retention policy allows.
\<close>

theorem stamps_stay_within_the_limit:
  assumes "find_grant ident (yl_state (sym_run cs (sym_ledger_new path file))) = Some g"
  shows "length (observation_stamps ident (yl_state (sym_run cs (sym_ledger_new path file)))) \<le> unat (rp_max_stamps (yg_retention g))"
  using assms bounded.holds [of cs path "file"] by (auto simp: stamps_bounded_def find_grant_def)

section \<open>What the journal gives back\<close>

abbreviation CR :: char where "CR \<equiv> CHR 0x0D"

lemma is_digit_no_cr: "CR \<notin> set (show_u w)" "CR \<notin> set (hex_encode s)"
  using nat_digits_are_digits [of "unat w"] hex_encode_lower [of s]
  by (auto simp: show_u_def list_all_iff is_digit_def is_lower_hex_def)

lemma is_sha256_no_cr: "is_sha256 s \<Longrightarrow> CR \<notin> set s"
  by (auto simp: is_sha256_def list_all_iff is_xdigit_def hex_value_def)

lemma event_line:
  assumes "sym_event st p line st'"
  shows "NL \<notin> set line" "CR \<notin> set line" "line \<noteq> []"
  using assms
  by (induction rule: sym_event.induct)
    (auto simp: sym_lines tab_join_def Let_def is_digit_no_cr is_sha256_no_cr is_sha256_no_sep show_bool_def split: if_splits)

lemma strip_no_cr: "CR \<notin> set l \<Longrightarrow> strip_cr l = l"
  using last_in_set by (fastforce simp: strip_cr_def)

lemma replay_append:
  "replay_sym_lines n (xs @ ys) acc = replay_sym_lines (n + length xs) ys (replay_sym_lines n xs acc)"
proof (induction xs arbitrary: n acc)
  case (Cons x xs)
  then show ?case by (cases acc) (simp add: Let_def split: sum.split)
qed simp

text \<open>The journal and the containers agree: replaying it gives the persistent part.\<close>

definition in_step :: "sym_ledger \<Rightarrow> bool" where
  "in_step L \<longleftrightarrow> yl_path L \<noteq> [] \<and> sym_inv (yl_state L) \<and> terminated (yl_file L) \<and>
     replay_sym_lines 0 (file_lines (yl_file L)) (empty_sym, []) = (persistent (yl_state L), [])"

fun clean_call :: "sym_call \<Rightarrow> bool" where
  "clean_call (SC_Replay rio) \<longleftrightarrow> rio = Read_Ok"
| "clean_call (SC_Create io g) \<longleftrightarrow> clean_io io"
| "clean_call (SC_Revoke io ident now reason) \<longleftrightarrow> clean_io io"
| "clean_call (SC_Stamp io ident ob now) \<longleftrightarrow> clean_io io"
| "clean_call (SC_Promote io ident ob summary now) \<longleftrightarrow> clean_io io"
| "clean_call (SC_Forget io ident now) \<longleftrightarrow> clean_io io"

lemma clean_call_io: "clean_call c \<Longrightarrow> clean_io (call_io c)"
  by (cases c) (simp_all add: clean_io_def)

lemma replay_file:
  assumes "yl_path L \<noteq> []" "replay_sym_lines 0 (file_lines (yl_file L)) (empty_sym, []) = (st, errors)"
  shows "sym_replay Read_Ok L = (errors = [], errors, L\<lparr>yl_state := st\<rparr>)"
  using assms by (auto simp: sym_replay_def file_lines_def split: option.splits)

lemma in_step_replay: "in_step L \<Longrightarrow> sym_replay Read_Ok L = (True, [], L\<lparr>yl_state := persistent (yl_state L)\<rparr>)"
  using replay_file [of L "persistent (yl_state L)" "[]"] by (simp add: in_step_def)

lemma file_lines_written:
  assumes "terminated f" "NL \<notin> set line"
  shows "file_lines (file_append f (line @ [NL])) = file_lines f @ [line]" "terminated (file_append f (line @ [NL]))"
  using assms getlines_append_terminated [of "file_bytes f" "line @ [NL]"] getlines_Cons [of line "[]"]
  by (simp_all add: file_lines_bytes terminated_def)

lemma file_append_Nil: "terminated (file_append f []) = terminated f" "file_lines (file_append f []) = file_lines f"
  by (simp_all add: terminated_def file_lines_bytes)

lemma in_step_commit:
  assumes "in_step L" "sym_event (yl_state L) p line st" "clean_io io" "sym_commit p io line ident st L = (r, L')"
  shows "in_step L'"
proof -
  let ?replay = "\<lambda>f. replay_sym_lines 0 (file_lines f) (empty_sym, [])"
  have L: "yl_path L \<noteq> []" "sym_inv (yl_state L)" "terminated (yl_file L)" "?replay (yl_file L) = (persistent (yl_state L), [])"
    using assms(1) by (simp_all add: in_step_def)
  note out = commit_state [OF assms(4)] commit_file [OF assms(4,3)]
  have i: "sym_inv st" using sym_inv_event [OF assms(2) L(2)] .
  show ?thesis
  proof (cases "yr_ok r")
    case False
    with out L show ?thesis by (auto simp: in_step_def file_append_Nil split: if_splits)
  next
    case ok: True
    show ?thesis
    proof (cases p)
      case False
      with ok out L i transient_event [OF assms(2) L(2) False] show ?thesis by (simp add: in_step_def)
    next
      case True
      note ln = event_line [OF assms(2)]
      have f: "yl_file L' = file_append (yl_file L) (line @ [NL])" using ok out(2) True by simp
      have "?replay (yl_file L') = (persistent st, [])"
        unfolding f file_lines_written(1) [OF L(3) ln(1)] replay_append L(4)
        using ln persistent_event [OF assms(2) L(2) True] by (simp add: strip_no_cr)
      moreover have "terminated (yl_file L')" unfolding f by (rule file_lines_written(2) [OF L(3) ln(1)])
      ultimately show ?thesis using ok out(1) L(1) i by (simp add: in_step_def)
    qed
  qed
qed

lemma in_step_step:
  assumes "in_step L" "clean_call c"
  shows "in_step (sym_step c L)"
proof (cases "is_replay c")
  case True
  with assms(2) have "sym_step c L = L\<lparr>yl_state := persistent (yl_state L)\<rparr>"
    using in_step_replay [OF assms(1)] by (cases c) simp_all
  with assms(1) show ?thesis by (simp add: in_step_def persistent_inv persistent_idem)
next
  case False
  have "sym_inv (yl_state L)" using assms(1) by (simp add: in_step_def)
  with False obtain r where a: "attempted (call_io c) L (r, sym_step c L)" using step_attempted by blast
  from assms(2) have "clean_io (call_io c)" by (rule clean_call_io)
  with a assms(1) show ?thesis
    unfolding attempted_def by (auto intro: in_step_commit [OF _ _ _ sym])
qed

lemma in_step_new: "path \<noteq> [] \<Longrightarrow> in_step (sym_ledger_new path None)"
  by (simp add: in_step_def sym_ledger_new_def terminated_def file_bytes_def file_lines_def)

lemma in_step_run: "in_step L \<Longrightarrow> list_all clean_call cs \<Longrightarrow> in_step (sym_run cs L)"
  by (induction cs arbitrary: L) (simp_all add: sym_run_def in_step_step)

text \<open>
  C.  Replaying the journal of a ledger gives back exactly the persistent part of its state, after
  any history of calls in which no write was torn.
\<close>

theorem replay_restores_the_persistent_part:
  assumes "path \<noteq> []" "list_all clean_call cs"
  shows "sym_replay Read_Ok (sym_run cs (sym_ledger_new path None)) =
    (True, [], (sym_run cs (sym_ledger_new path None))
       \<lparr>yl_state := persistent (yl_state (sym_run cs (sym_ledger_new path None)))\<rparr>)"
  using in_step_run [OF in_step_new [OF assms(1)] assms(2)] by (rule in_step_replay)

section \<open>Revocation\<close>

definition revoked_in :: "string \<Rightarrow> grant_record \<Rightarrow> sym_state \<Rightarrow> bool" where
  "revoked_in ident k st \<longleftrightarrow> map_of (ys_grants st) ident = Some k"

lemma revoked_event:
  assumes "sym_event st p line st'" "revoked_in ident k st" "yk_revoked_at k \<noteq> None"
  shows "revoked_in ident k st'"
  using assms by (induction rule: sym_event.induct) (auto simp: revoked_in_def)

lemma revoked_step:
  assumes "in_step L" "clean_call c" "revoked_in ident k (yl_state L)" "yk_revoked_at k \<noteq> None" "kept_record k"
  shows "revoked_in ident k (yl_state (sym_step c L))"
proof (cases "is_replay c")
  case True
  with assms(2) have "sym_step c L = L\<lparr>yl_state := persistent (yl_state L)\<rparr>"
    using in_step_replay [OF assms(1)] by (cases c) simp_all
  with assms show ?thesis
    using persistent_lookup [of "yl_state L" ident] by (simp add: revoked_in_def in_step_def)
next
  case False
  have "sym_inv (yl_state L)" using assms(1) by (simp add: in_step_def)
  with False obtain r where "attempted (call_io c) L (r, sym_step c L)" using step_attempted by blast
  then show ?thesis
    unfolding attempted_def
  proof (elim disjE exE conjE)
    fix p line i st
    assume e: "sym_event (yl_state L) p line st" "(r, sym_step c L) = sym_commit p (call_io c) line i st L"
    show ?thesis
      using commit_state [OF e(2) [symmetric]] revoked_event [OF e(1) assms(3,4)] assms(3) by (auto split: if_splits)
  qed (use assms(3) in simp)
qed

lemma revoked_run:
  assumes "in_step L" "list_all clean_call cs" "revoked_in ident k (yl_state L)" "yk_revoked_at k \<noteq> None" "kept_record k"
  shows "revoked_in ident k (yl_state (sym_run cs L))"
  using assms by (induction cs arbitrary: L) (simp_all add: sym_run_def in_step_step revoked_step)

text \<open>
  C38. Once a persistent grant has been revoked at some time, then whatever calls follow, restarts
  included, nothing is stamped or promoted under it at that time or later, provided that no
  write before or after the revocation is torn and every restart can read the journal.  Both
  conditions are needed: a torn write before the revocation makes a restart skip it
  (\<open>torn_append_loses_the_next_revocation\<close>).
\<close>

theorem revoked_grant_stays_revoked:
  assumes "path \<noteq> []" "list_all clean_call before" "list_all clean_call after" "clean_io io"
    and "find_grant ident (yl_state (sym_run before (sym_ledger_new path None))) = Some g" "rp_persist_grant (yg_retention g)"
    and "revoke_grant io ident t reason (sym_run before (sym_ledger_new path None)) = (r, L)" "yr_ok r" "t \<le> now"
  shows "grant_state_of ident now (yl_state (sym_run after L)) = GT_Revoked \<and>
    yr_status (fst (stamp_observation io' ident ob now (sym_run after L))) = LS_Inactive \<and>
    yr_status (fst (promote_memory io' ident ob summary now (sym_run after L))) = LS_Inactive"
proof -
  let ?L = "sym_run before (sym_ledger_new path None)"
  have s: "in_step ?L" using in_step_run [OF in_step_new] assms(1,2) by blast
  obtain k where k: "map_of (ys_grants (yl_state ?L)) ident = Some k" "yk_grant k = g"
    using assms(5) by (auto simp: find_grant_def)
  let ?k = "k\<lparr>yk_revoked_at := Some t, yk_reason := reason\<rparr>"
  from assms(7,8) k have c: "yk_revoked_at k = None" "yg_issued_at g \<le> t"
      "sym_commit (rp_persist_grant (yg_retention g)) io (revoke_line ident t reason) ident
        ((yl_state ?L)\<lparr>ys_grants := AList.update ident ?k (ys_grants (yl_state ?L))\<rparr>) ?L = (r, L)"
    by (auto simp: revoke_grant_def Let_def yr_ok_def yr_fail_def split: if_splits)
  have "in_step L" using in_step_commit [OF s sym_event.revoked [OF k(1) c(1)] assms(4)] c(3) k(2) by blast
  moreover have "revoked_in ident ?k (yl_state L)"
    using commit_state [OF c(3)] assms(8) by (simp add: revoked_in_def)
  ultimately have "revoked_in ident ?k (yl_state (sym_run after L))"
    using revoked_run [of L after ident ?k] assms(3,6) k(2) by (simp add: kept_record_def)
  then have l: "map_of (ys_grants (yl_state (sym_run after L))) ident = Some ?k" by (simp add: revoked_in_def)
  have "\<not> now < yg_issued_at g" using c(2) assms(9) by simp
  then have g: "grant_state_of ident now (yl_state (sym_run after L)) = GT_Revoked"
    using l k(2) assms(9) by (simp add: grant_state_of_def)
  with l show ?thesis by (simp add: stamp_observation_def promote_memory_def yr_fail_def)
qed

section \<open>From a stamp to a memory\<close>

lemma remove_first_snoc: "list_ex P xs \<Longrightarrow> remove_first P (xs @ ys) = remove_first P xs @ ys"
  by (induction xs) auto

lemma remove_times_snoc: "n \<le> length (filter P xs) \<Longrightarrow> ((remove_first P) ^^ n) (xs @ ys) = ((remove_first P) ^^ n) xs @ ys"
proof (induction n)
  case (Suc n)
  then have "0 < length (filter P (((remove_first P) ^^ n) xs))" by (simp add: length_remove_times)
  then have "list_ex P (((remove_first P) ^^ n) xs)" by (auto simp: list_ex_iff filter_empty_conv)
  with Suc show ?case by (simp add: remove_first_snoc)
qed simp

lemma newest_retained: "n \<noteq> 0 \<Longrightarrow> s \<in> set (retain_stamp s n stamps)"
proof -
  assume "n \<noteq> 0"
  then have "0 < unat n" by (metis unat_eq_zero neq0_conv)
  then show ?thesis by (simp add: retain_stamp_def Let_def remove_times_snoc)
qed

lemma stamp_ok:
  assumes "stamp_observation io ident ob now L = (r, L')" "yr_ok r" "sym_inv (yl_state L)"
  obtains k where "map_of (ys_grants (yl_state L)) ident = Some k" "observation_mismatch (yk_grant k) ob = None"
    "is_stamped ident ob (ys_stamps (yl_state L'))" "ys_grants (yl_state L') = ys_grants (yl_state L)"
    "ys_promotions (yl_state L') = ys_promotions (yl_state L)" "yl_path L' = yl_path L"
proof -
  obtain k where k: "map_of (ys_grants (yl_state L)) ident = Some k" "observation_mismatch (yk_grant k) ob = None"
    "sym_commit (rp_persist_stamps (yg_retention (yk_grant k))) io (stamp_line (stamp_of ident ob now)) (so_source_id ob)
       ((yl_state L)\<lparr>ys_stamps := retain_stamp (stamp_of ident ob now) (rp_max_stamps (yg_retention (yk_grant k)))
          (ys_stamps (yl_state L))\<rparr>) L = (r, L')"
    using assms(1,2) by (auto simp: stamp_observation_def Let_def yr_ok_def yr_fail_def split: option.splits if_splits)
  have "rp_max_stamps (yg_retention (yk_grant k)) \<noteq> 0"
    using valid_grant [OF assms(3) k(1)] by (simp add: validate_symbiosis_grant_def)
  from newest_retained [OF this, of "stamp_of ident ob now" "ys_stamps (yl_state L)"]
  have "is_stamped ident ob (retain_stamp (stamp_of ident ob now) (rp_max_stamps (yg_retention (yk_grant k))) (ys_stamps (yl_state L)))"
    by (auto simp: is_stamped_def list_ex_iff intro!: bexI) (simp_all add: stamp_of_def)
  with commit_state [OF k(3)] assms(2) k(1,2) that show thesis by simp
qed

lemma reached_inv: "sym_inv (yl_state (sym_run cs (sym_ledger_new path file)))"
  using bounded.always [of cs path "file"] by (simp add: bounded.J_def)

text \<open>
  C.  What has just been stamped can be promoted while the grant is active: however small the
  number of stamps a grant may keep, the newest one is kept.
\<close>

theorem stamped_source_can_be_promoted:
  assumes "stamp_observation io ident ob now (sym_run cs (sym_ledger_new path file)) = (r, L)" "yr_ok r" "path \<noteq> []"
    and "find_grant ident (yl_state L) = Some g" "rp_allow_promotion (yg_retention g)"
    and "summary \<noteq> []" "length summary \<le> unat (rp_max_promotion_bytes (yg_retention g))"
    and "grant_state_of ident later (yl_state L) = GT_Active"
    and "promotion_id_of ident ob summary \<notin> mp_promotion_id ` set (list_promotions False (yl_state L))"
  shows "yr_ok (fst (promote_memory Write_Ok ident ob summary later L))"
proof -
  have path: "yl_path (sym_run cs (sym_ledger_new path file)) = path"
  proof -
    have "yl_path (sym_step c L0) = yl_path L0" if "sym_inv (yl_state L0)" for c L0
    proof (cases "is_replay c")
      case True
      then show ?thesis by (cases c) (auto simp: sym_replay_def split: option.split prod.split)
    next
      case False
      with that obtain r where "attempted (call_io c) L0 (r, sym_step c L0)" using step_attempted by blast
      then show ?thesis unfolding attempted_def using commit_state by (metis snd_conv)
    qed
    note step = this
    have "bounded.J (yl_state L0) \<Longrightarrow> yl_path (sym_run cs L0) = yl_path L0" for L0
      by (induction cs arbitrary: L0) (simp_all add: sym_run_def step bounded.J_def bounded.stepped [unfolded bounded.J_def])
    then show ?thesis using bounded.J_empty by (simp add: sym_ledger_new_def)
  qed
  from stamp_ok [OF assms(1,2) reached_inv] obtain k where k:
    "map_of (ys_grants (yl_state (sym_run cs (sym_ledger_new path file)))) ident = Some k"
    "observation_mismatch (yk_grant k) ob = None" "is_stamped ident ob (ys_stamps (yl_state L))"
    "ys_grants (yl_state L) = ys_grants (yl_state (sym_run cs (sym_ledger_new path file)))" "yl_path L = path"
    using path by metis
  then have l: "map_of (ys_grants (yl_state L)) ident = Some k" "yk_grant k = g"
    using assms(4) by (simp_all add: find_grant_def)
  have "\<not> list_ex (\<lambda>e. mp_promotion_id e = promotion_id_of ident ob summary \<and> \<not> mp_forgotten e) (ys_promotions (yl_state L))"
    using assms(9) by (auto simp: list_ex_iff list_promotions_def image_iff)
  with k l assms(3,5-8) show ?thesis
    by (simp add: promote_memory_def Let_def sym_commit_def append_line_def promotion_of_def not_less)
qed

section \<open>Forgetting\<close>

definition stuck :: "string \<Rightarrow> string \<Rightarrow> sym_state \<Rightarrow> bool" where
  "stuck pid summary st \<longleftrightarrow>
     (\<exists>p. first_promotion pid (ys_promotions st) = Some p \<and> mp_forgotten p) \<and>
     (\<exists>p \<in> set (ys_promotions st). mp_promotion_id p = pid \<and> mp_summary p = summary \<and> \<not> mp_forgotten p)"

lemma first_promotion_append: "first_promotion pid ps = Some p \<Longrightarrow> first_promotion pid (ps @ qs) = Some p"
  by (induction ps) (auto simp: first_promotion_def)

lemma first_promotion_other:
  "first_promotion pid ps = Some p \<Longrightarrow> pid \<noteq> ident \<Longrightarrow> first_promotion pid (set_forgotten ident ps) = Some p"
  by (induction ps) (auto simp: first_promotion_def split: if_splits)

lemma first_promotion_forgotten: "first_promotion ident ps = Some p \<Longrightarrow>
    first_promotion ident (set_forgotten ident ps) = Some (p\<lparr>mp_forgotten := True\<rparr>)"
  by (induction ps) (auto simp: first_promotion_def split: if_splits)

lemma set_forgotten_other: "p \<in> set ps \<Longrightarrow> mp_promotion_id p \<noteq> ident \<Longrightarrow> p \<in> set (set_forgotten ident ps)"
  by (induction ps) auto

lemma stuck_event: "sym_event st p line st' \<Longrightarrow> stuck pid summary st \<Longrightarrow> stuck pid summary st'"
proof (induction rule: sym_event.induct)
  case (promoted st p k)
  then show ?case by (auto simp: stuck_def first_promotion_append)
next
  case (forgot ident st p k now)
  then have "ident \<noteq> pid" by (auto simp: stuck_def)
  with forgot.prems show ?case by (auto simp: stuck_def first_promotion_other intro: set_forgotten_other)
qed (simp_all add: stuck_def)

lemma stuck_run:
  assumes "sym_inv (yl_state L)" "list_all (\<lambda>c. \<not> is_replay c) cs" "stuck pid summary (yl_state L)"
  shows "stuck pid summary (yl_state (sym_run cs L))"
  using assms
proof (induction cs arbitrary: L)
  case (Cons c cs)
  have "\<not> is_replay c" using Cons.prems(2) by simp
  with Cons.prems(1) obtain r where "attempted (call_io c) L (r, sym_step c L)" using step_attempted by blast
  then have "sym_inv (yl_state (sym_step c L)) \<and> stuck pid summary (yl_state (sym_step c L))"
    unfolding attempted_def
  proof (elim disjE exE conjE)
    fix p line i st
    assume e: "sym_event (yl_state L) p line st" "(r, sym_step c L) = sym_commit p (call_io c) line i st L"
    show ?thesis
      using commit_state [OF e(2) [symmetric]] stuck_event [OF e(1) Cons.prems(3)] sym_inv_event [OF e(1) Cons.prems(1)]
        Cons.prems(1,3) by (auto split: if_splits)
  qed (use Cons.prems in simp)
  with Cons show ?case by (simp add: sym_run_def)
qed (simp add: sym_run_def)

lemma forget_ok:
  assumes "forget_promotion io pid t L = (r, L')" "yr_ok r"
  shows "\<exists>p. first_promotion pid (ys_promotions (yl_state L')) = Some p \<and> mp_forgotten p"
  using assms by (auto simp: forget_promotion_def Let_def first_promotion_forgotten yr_ok_def yr_fail_def
      dest!: commit_state split: option.splits if_splits)

lemma promote_ok:
  assumes "promote_memory io ident ob summary t L = (r, L')" "yr_ok r"
  shows "ys_promotions (yl_state L') = ys_promotions (yl_state L) @ [promotion_of ident ob summary t]"
    "yr_id r = promotion_id_of ident ob summary"
proof -
  obtain p line where c: "sym_commit p io line (promotion_id_of ident ob summary)
      ((yl_state L)\<lparr>ys_promotions := ys_promotions (yl_state L) @ [promotion_of ident ob summary t]\<rparr>) L = (r, L')"
    using assms by (auto simp: promote_memory_def Let_def yr_ok_def yr_fail_def promotion_of_def split: option.splits if_splits)
  then show "ys_promotions (yl_state L') = ys_promotions (yl_state L) @ [promotion_of ident ob summary t]"
    using commit_state [OF c] assms(2) by simp
  show "yr_id r = promotion_id_of ident ob summary"
    using c assms(2) by (auto simp: sym_commit_def yr_done_def yr_fail_def split: if_splits option.splits prod.splits)
qed

lemma call_inv: "sym_inv (yl_state L) \<Longrightarrow> \<not> is_replay c \<Longrightarrow> sym_inv (yl_state (sym_step c L))"
  using stuck_run by (metis (no_types) attempted_def commit_state snd_conv step_attempted sym_inv_event)

text \<open>
  C.  A memory that was forgotten and promoted again can never be forgotten: whatever is called
  afterwards, forgetting it is refused as a duplicate and it stays listed.
\<close>

theorem repromoted_memory_cannot_be_forgotten:
  assumes "forget_promotion io pid t (sym_run cs (sym_ledger_new path file)) = (r, L)" "yr_ok r"
    and "promote_memory io' ident ob summary t' L = (r', L')" "yr_ok r'" "yr_id r' = pid"
    and "list_all (\<lambda>c. \<not> is_replay c) after"
  shows "yr_status (fst (forget_promotion io'' pid now (sym_run after L'))) = LS_Duplicate \<and>
    (\<exists>p \<in> set (list_promotions False (yl_state (sym_run after L'))). mp_promotion_id p = pid \<and> mp_summary p = summary)"
proof -
  obtain p where p: "first_promotion pid (ys_promotions (yl_state L)) = Some p" "mp_forgotten p"
    using forget_ok [OF assms(1,2)] by blast
  note l = promote_ok [OF assms(3,4)]
  have "stuck pid summary (yl_state L')"
    using p l assms(5) first_promotion_append [OF p(1)] by (auto simp: stuck_def promotion_of_def)
  moreover have "sym_inv (yl_state L')"
    using call_inv [OF reached_inv, of "SC_Forget io pid t" cs path "file"] call_inv [of L "SC_Promote io' ident ob summary t'"]
      assms(1,3) by simp
  ultimately have "stuck pid summary (yl_state (sym_run after L'))" using stuck_run assms(6) by blast
  then show ?thesis
    by (auto simp: stuck_def forget_promotion_def yr_fail_def list_promotions_def)
qed

section \<open>A torn line\<close>

lemma glued_line:
  assumes "terminated f" "NL \<notin> set line"
  shows "file_lines (file_append (file_append f ''G'') (line @ [NL])) = file_lines f @ [CHR ''G'' # line]"
proof -
  have "file_append (file_append f ''G'') (line @ [NL]) = file_append f ((CHR ''G'' # line) @ [NL])"
    by (simp add: file_append_bytes file_bytes_def)
  moreover have "NL \<notin> set (CHR ''G'' # line)" using assms(2) by simp
  ultimately show ?thesis using file_lines_written(1) [OF assms(1)] by metis
qed

lemma glued_revoke: "replay_event (split_tabs (CHR ''G'' # revoke_line ident t reason)) st = Inl ''unknown ledger event type''"
proof -
  have "split_tabs (''GR'' @ tab_join [hex_encode ident, show_u t, hex_encode reason]) =
      [''GR'', hex_encode ident, show_u t, hex_encode reason]"
    by (rule split_tabs_join) simp
  then show ?thesis by (simp add: revoke_line_def replay_event_def)
qed

text \<open>
  C.  When creating a grant breaks off after one byte and a persistent grant is then revoked, the
  revocation is confirmed, but its line is glued to the torn one: the next replay reports an
  error and restores the state from before the revocation.
\<close>

theorem torn_append_loses_the_next_revocation:
  assumes "path \<noteq> []" "list_all clean_call cs"
    and "create_grant (Write_Fail 1) g (sym_run cs (sym_ledger_new path None)) = (r, L)" "yr_status r = LS_StorageError"
    and "find_grant ident (yl_state L) = Some h" "rp_persist_grant (yg_retention h)"
    and "revoke_grant io ident t reason L = (r', L')" "yr_ok r'"
  shows "\<exists>errors. errors \<noteq> [] \<and> sym_replay Read_Ok L' =
    (False, errors, L'\<lparr>yl_state := persistent (yl_state (sym_run cs (sym_ledger_new path None)))\<rparr>)"
proof -
  let ?L = "sym_run cs (sym_ledger_new path None)"
  have s: "in_step ?L" using in_step_run [OF in_step_new [OF assms(1)] assms(2)] .
  have L: "L = ?L\<lparr>yl_file := file_append (yl_file ?L) ''G''\<rparr>"
    using assms(3,4) s
    by (auto simp: create_grant_def Let_def sym_commit_def append_line_def yr_fail_def yr_done_def grant_line_def in_step_def
        split: if_splits)
  obtain k where k: "map_of (ys_grants (yl_state L)) ident = Some k" "yk_grant k = h"
    using assms(5) by (auto simp: find_grant_def)
  let ?k = "k\<lparr>yk_revoked_at := Some t, yk_reason := reason\<rparr>" and ?line = "revoke_line ident t reason"
  from assms(6-8) k have c: "yk_revoked_at k = None" "yl_path L' = yl_path L"
      "yl_file L' = file_append (yl_file L) (?line @ [NL])"
    by (auto simp: revoke_grant_def Let_def yr_ok_def yr_fail_def yr_done_def sym_commit_def append_line_def
        split: if_splits io.splits)
  have nl: "NL \<notin> set ?line" "CR \<notin> set ?line" using event_line [OF sym_event.revoked [OF k(1) c(1)]] by blast+
  have "file_lines (yl_file L') = file_lines (yl_file ?L) @ [CHR ''G'' # ?line]"
    using s glued_line [OF _ nl(1)] by (simp add: c(3) L in_step_def)
  then obtain message where
    "replay_sym_lines 0 (file_lines (yl_file L')) (empty_sym, []) = (persistent (yl_state ?L), [message])"
    using s nl(2) by (simp add: replay_append in_step_def strip_no_cr glued_revoke)
  moreover have "yl_path L' \<noteq> []" using c(2) s by (simp add: L in_step_def)
  ultimately have "sym_replay Read_Ok L' = (False, [message], L'\<lparr>yl_state := persistent (yl_state ?L)\<rparr>)"
    using replay_file by simp
  then show ?thesis by (intro exI [of _ "[message]"]) simp
qed

section \<open>Samples\<close>

definition demo_grant :: "string \<Rightarrow> bool \<Rightarrow> symbiosis_grant" where
  "demo_grant ident persist =
     \<lparr>yg_source = \<lparr>sg_grant_id = ident, sg_kind = SK_ToolOutput, sg_scope = GS_Session, sg_layer = RL_Runtime,
        sg_root = [], sg_locator_prefix = ''tool'', sg_recursive = False, sg_max_source_bytes = 100,
        sg_max_slice_bytes = 50\<rparr>,
      yg_retention = \<lparr>rp_persist_grant = persist, rp_persist_stamps = False, rp_allow_promotion = True,
        rp_max_promotion_bytes = 20, rp_max_stamps = 1\<rparr>,
      yg_issued_at = 1, yg_expires_at = 0\<rparr>"

definition demo_observation :: source_observation where
  "demo_observation = \<lparr>so_source_id = source_id_of (yg_source (demo_grant ''g'' False)) ''tool:1'', so_kind = SK_ToolOutput,
     so_layer = RL_Runtime, so_locator = ''tool:1'', so_size_bytes = 3, so_content_sha256 = zero_hash\<rparr>"

lemma demo_grant_valid: "validate_symbiosis_grant (demo_grant ident p) = [] \<longleftrightarrow> ident \<noteq> []"
  by (simp add: demo_grant_def validate_symbiosis_grant_def validate_source_grant_def file_kind_def)

lemma demo_grant_facts [simp]:
  "sg_grant_id (yg_source (demo_grant ident p)) = ident" "rp_persist_grant (yg_retention (demo_grant ident p)) = p"
  "yg_issued_at (demo_grant ident p) = 1" "rp_persist_stamps (yg_retention (demo_grant ident p)) = False"
  "rp_allow_promotion (yg_retention (demo_grant ident p))" "rp_max_promotion_bytes (yg_retention (demo_grant ident p)) = 20"
  "grant_expired (demo_grant ident p) now = False"
  by (simp_all add: demo_grant_def grant_expired_def)

lemma demo_match: "observation_mismatch (demo_grant ''g'' p) demo_observation = None"
proof -
  have "valid_source_id (kSourcePrefix @ sha256 x)" for x
    by (simp add: valid_source_id_def prefixed_sha256_def)
  then show ?thesis
    by (simp add: observation_mismatch_def demo_observation_def demo_grant_def source_id_of_def)
qed

lemma demo_created: "sym_run [SC_Create Write_Ok (demo_grant ''g'' p)] (sym_ledger_new ''j'' None) =
    \<lparr>yl_path = ''j'', yl_file = (if p then Some (grant_line (demo_grant ''g'' p) @ [NL]) else None),
     yl_state = empty_sym\<lparr>ys_grants := [(''g'', \<lparr>yk_grant = demo_grant ''g'' p, yk_revoked_at = None, yk_reason = []\<rparr>)]\<rparr>\<rparr>"
  by (simp add: sym_run_def create_grant_def Let_def demo_grant_valid sym_ledger_new_def empty_sym_def sym_commit_def
      append_line_def file_append_def)

lemma demo_stamped:
  assumes "map_of (ys_grants (yl_state L)) ''g'' = Some \<lparr>yk_grant = demo_grant ''g'' p, yk_revoked_at = None, yk_reason = []\<rparr>"
    "ys_stamps (yl_state L) = []"
  shows "\<exists>stamps. stamp_observation Write_Ok ''g'' demo_observation 2 L =
    (yr_done (so_source_id demo_observation), L\<lparr>yl_state := (yl_state L)\<lparr>ys_stamps := stamps\<rparr>\<rparr>)"
  using assms by (auto simp: stamp_observation_def Let_def grant_state_of_def demo_match is_stamped_def sym_commit_def)

lemma demo_run_stamps:
  obtains L where "sym_run [SC_Create Write_Ok (demo_grant ''g'' p), SC_Stamp Write_Ok ''g'' demo_observation 2]
      (sym_ledger_new ''j'' None) = L"
    "stamp_observation Write_Ok ''g'' demo_observation 2 (sym_run [SC_Create Write_Ok (demo_grant ''g'' p)] (sym_ledger_new ''j'' None))
      = (yr_done (so_source_id demo_observation), L)"
    "map_of (ys_grants (yl_state L)) ''g'' = Some \<lparr>yk_grant = demo_grant ''g'' p, yk_revoked_at = None, yk_reason = []\<rparr>"
    "ys_promotions (yl_state L) = []"
proof -
  let ?L = "sym_run [SC_Create Write_Ok (demo_grant ''g'' p)] (sym_ledger_new ''j'' None)"
  have g: "map_of (ys_grants (yl_state ?L)) ''g'' = Some \<lparr>yk_grant = demo_grant ''g'' p, yk_revoked_at = None, yk_reason = []\<rparr>"
    "ys_stamps (yl_state ?L) = []" "ys_promotions (yl_state ?L) = []"
    unfolding demo_created by (simp_all add: empty_sym_def)
  from demo_stamped [OF g(1,2)] obtain stamps where
    s: "stamp_observation Write_Ok ''g'' demo_observation 2 ?L =
      (yr_done (so_source_id demo_observation), ?L\<lparr>yl_state := (yl_state ?L)\<lparr>ys_stamps := stamps\<rparr>\<rparr>)" by blast
  have "sym_run [SC_Create Write_Ok (demo_grant ''g'' p), SC_Stamp Write_Ok ''g'' demo_observation 2] (sym_ledger_new ''j'' None) =
      ?L\<lparr>yl_state := (yl_state ?L)\<lparr>ys_stamps := stamps\<rparr>\<rparr>"
    using s by (simp add: sym_run_def)
  from that [OF this s] g show thesis by simp
qed

lemma stamps_stay_within_the_limit_witness:
  "length (observation_stamps ''g'' (yl_state (sym_run
     [SC_Create Write_Ok (demo_grant ''g'' False), SC_Stamp Write_Ok ''g'' demo_observation 2] (sym_ledger_new ''j'' None)))) \<le> 1"
proof -
  let ?cs = "[SC_Create Write_Ok (demo_grant ''g'' False), SC_Stamp Write_Ok ''g'' demo_observation 2]"
  obtain L where L: "sym_run ?cs (sym_ledger_new ''j'' None) = L"
    "map_of (ys_grants (yl_state L)) ''g'' = Some \<lparr>yk_grant = demo_grant ''g'' False, yk_revoked_at = None, yk_reason = []\<rparr>"
    using demo_run_stamps [of False] by metis
  then have "find_grant ''g'' (yl_state (sym_run ?cs (sym_ledger_new ''j'' None))) = Some (demo_grant ''g'' False)"
    by (simp add: find_grant_def)
  from stamps_stay_within_the_limit [OF this] show ?thesis by (simp add: demo_grant_def)
qed

lemma stamped_source_can_be_promoted_witness:
  "yr_ok (fst (promote_memory Write_Ok ''g'' demo_observation ''note'' 3 (sym_run
     [SC_Create Write_Ok (demo_grant ''g'' False), SC_Stamp Write_Ok ''g'' demo_observation 2] (sym_ledger_new ''j'' None))))"
proof -
  obtain L where L: "sym_run [SC_Create Write_Ok (demo_grant ''g'' False), SC_Stamp Write_Ok ''g'' demo_observation 2]
      (sym_ledger_new ''j'' None) = L"
    "stamp_observation Write_Ok ''g'' demo_observation 2 (sym_run [SC_Create Write_Ok (demo_grant ''g'' False)] (sym_ledger_new ''j'' None))
      = (yr_done (so_source_id demo_observation), L)"
    "map_of (ys_grants (yl_state L)) ''g'' = Some \<lparr>yk_grant = demo_grant ''g'' False, yk_revoked_at = None, yk_reason = []\<rparr>"
    "ys_promotions (yl_state L) = []"
    using demo_run_stamps [of False] by metis
  show ?thesis
    unfolding L(1)
    by (rule stamped_source_can_be_promoted [OF L(2), of "demo_grant ''g'' False"])
      (use L(3,4) in \<open>simp_all add: find_grant_def grant_state_of_def list_promotions_def\<close>)
qed

lemma replay_restores_the_persistent_part_witness:
  "sym_replay Read_Ok (sym_run [SC_Create Write_Ok (demo_grant ''g'' True)] (sym_ledger_new ''j'' None)) =
    (True, [], sym_run [SC_Create Write_Ok (demo_grant ''g'' True)] (sym_ledger_new ''j'' None))"
  using replay_restores_the_persistent_part [of "''j''" "[SC_Create Write_Ok (demo_grant ''g'' True)]"]
  by (simp add: clean_io_def demo_created persistent_def empty_sym_def kept_record_def)

lemma demo_revoked:
  "\<exists>r L. revoke_grant Write_Ok ''g'' 5 ''stop'' (sym_run [SC_Create Write_Ok (demo_grant ''g'' True)] (sym_ledger_new ''j'' None)) = (r, L) \<and>
     yr_ok r"
  by (simp add: demo_created revoke_grant_def Let_def empty_sym_def sym_commit_def append_line_def)

lemma revoked_grant_stays_revoked_witness:
  "\<exists>L. revoke_grant Write_Ok ''g'' 5 ''stop'' (sym_run [SC_Create Write_Ok (demo_grant ''g'' True)] (sym_ledger_new ''j'' None)) =
      (yr_done ''g'', L) \<and>
     grant_state_of ''g'' 7 (yl_state (sym_run [SC_Replay Read_Ok, SC_Create Write_Ok (demo_grant ''h'' True)] L)) = GT_Revoked"
proof -
  let ?L = "sym_run [SC_Create Write_Ok (demo_grant ''g'' True)] (sym_ledger_new ''j'' None)"
  obtain L where L: "revoke_grant Write_Ok ''g'' 5 ''stop'' ?L = (yr_done ''g'', L)"
    by (simp add: demo_created revoke_grant_def Let_def empty_sym_def sym_commit_def append_line_def)
  have g: "find_grant ''g'' (yl_state ?L) = Some (demo_grant ''g'' True)" by (simp add: demo_created find_grant_def empty_sym_def)
  have "grant_state_of ''g'' 7 (yl_state (sym_run [SC_Replay Read_Ok, SC_Create Write_Ok (demo_grant ''h'' True)] L)) = GT_Revoked"
    by (rule revoked_grant_stays_revoked [OF _ _ _ _ g _ L, THEN conjunct1]) (simp_all add: clean_io_def)
  with L show ?thesis by blast
qed

lemma repromoted_memory_cannot_be_forgotten_witness:
  "\<exists>L r. promote_memory Write_Ok ''g'' demo_observation ''note'' 5 L = (yr_done (promotion_id_of ''g'' demo_observation ''note''), r) \<and>
     yr_status (fst (forget_promotion Write_Ok (promotion_id_of ''g'' demo_observation ''note'') 6 r)) = LS_Duplicate"
proof -
  let ?pid = "promotion_id_of ''g'' demo_observation ''note''"
  let ?cs = "[SC_Create Write_Ok (demo_grant ''g'' False), SC_Stamp Write_Ok ''g'' demo_observation 2,
    SC_Promote Write_Ok ''g'' demo_observation ''note'' 3]"
  let ?start = "sym_ledger_new ''j'' None" and ?k = "\<lparr>yk_grant = demo_grant ''g'' False, yk_revoked_at = None, yk_reason = []\<rparr>"
  obtain L where L: "sym_run [SC_Create Write_Ok (demo_grant ''g'' False), SC_Stamp Write_Ok ''g'' demo_observation 2] ?start = L"
    "stamp_observation Write_Ok ''g'' demo_observation 2 (sym_run [SC_Create Write_Ok (demo_grant ''g'' False)] ?start)
      = (yr_done (so_source_id demo_observation), L)"
    "map_of (ys_grants (yl_state L)) ''g'' = Some ?k" "ys_promotions (yl_state L) = []"
    using demo_run_stamps [of False] by metis
  have st: "is_stamped ''g'' demo_observation (ys_stamps (yl_state L))"
    using stamp_ok [OF L(2) _ reached_inv] by (metis yr_simps(2))
  have run: "sym_run ?cs ?start = snd (promote_memory Write_Ok ''g'' demo_observation ''note'' 3 L)"
    using L(1) by (simp add: sym_run_def)
  have p: "promote_memory Write_Ok ''g'' demo_observation ''note'' t M =
      (yr_done ?pid, M\<lparr>yl_state := (yl_state M)\<lparr>ys_promotions := ys_promotions (yl_state M) @ [promotion_of ''g'' demo_observation ''note'' t]\<rparr>\<rparr>)"
    if "ys_grants (yl_state M) = ys_grants (yl_state L)" "ys_stamps (yl_state M) = ys_stamps (yl_state L)"
      "list_all mp_forgotten (ys_promotions (yl_state M))" "3 \<le> t" for M t
  proof -
    have "\<not> t < 1" using that(4) by (simp add: word_less_nat_alt word_le_nat_alt)
    moreover have "\<not> list_ex (\<lambda>e. mp_promotion_id e = ?pid \<and> \<not> mp_forgotten e) (ys_promotions (yl_state M))"
      using that(3) by (auto simp: list_ex_iff list_all_iff)
    ultimately show ?thesis
      using that(1,2) L(3) st
      by (simp add: promote_memory_def Let_def grant_state_of_def demo_match promotion_of_def sym_commit_def)
  qed
  let ?P = "promotion_of ''g'' demo_observation ''note'' 3"
  let ?M = "L\<lparr>yl_state := (yl_state L)\<lparr>ys_promotions := [?P]\<rparr>\<rparr>"
  let ?N = "L\<lparr>yl_state := (yl_state L)\<lparr>ys_promotions := [?P\<lparr>mp_forgotten := True\<rparr>]\<rparr>\<rparr>"
  have pid: "mp_promotion_id ?P = ?pid" "mp_grant_id ?P = ''g''" "\<not> mp_forgotten ?P" by (simp_all add: promotion_of_def)
  have M: "sym_run ?cs ?start = ?M" using run p [of L 3] L(4) by simp
  have N: "forget_promotion Write_Ok ?pid 4 ?M = (yr_done ?pid, ?N)"
    using L(3) by (simp add: forget_promotion_def Let_def first_promotion_def pid sym_commit_def)
  from p [of ?N 5] obtain R where R: "promote_memory Write_Ok ''g'' demo_observation ''note'' 5 ?N = (yr_done ?pid, R)" by simp
  have "yr_status (fst (forget_promotion Write_Ok ?pid 6 (sym_run [] R))) = LS_Duplicate"
    by (rule repromoted_memory_cannot_be_forgotten [OF N [folded M] _ R, THEN conjunct1]) (simp_all add: yr_done_def yr_ok_def)
  with R show ?thesis by (auto simp: sym_run_def)
qed

lemma torn_append_loses_the_next_revocation_witness:
  "\<exists>L L' errors M. revoke_grant Write_Ok ''g'' 5 ''stop'' L = (yr_done ''g'', L') \<and> errors \<noteq> [] \<and>
     sym_replay Read_Ok L' = (False, errors, M) \<and> grant_state_of ''g'' 7 (yl_state M) = GT_Active"
proof -
  let ?cs = "[SC_Create Write_Ok (demo_grant ''g'' True)]" and ?start = "sym_ledger_new ''j'' None"
  let ?k = "\<lparr>yk_grant = demo_grant ''g'' True, yk_revoked_at = None, yk_reason = []\<rparr>"
  obtain r L where L: "create_grant (Write_Fail 1) (demo_grant ''h'' True) (sym_run ?cs ?start) = (r, L)" "yr_status r = LS_StorageError"
    "yl_state L = yl_state (sym_run ?cs ?start)" "yl_path L = ''j''"
    by (simp add: demo_created create_grant_def Let_def demo_grant_valid sym_commit_def append_line_def yr_fail_def empty_sym_def)
  have g: "map_of (ys_grants (yl_state L)) ''g'' = Some ?k" unfolding L(3) by (simp add: demo_created empty_sym_def)
  then have f: "find_grant ''g'' (yl_state L) = Some (demo_grant ''g'' True)" by (simp add: find_grant_def)
  obtain L' where L': "revoke_grant Write_Ok ''g'' 5 ''stop'' L = (yr_done ''g'', L')"
    using g L(4) by (simp add: revoke_grant_def Let_def sym_commit_def append_line_def)
  obtain errors where e: "errors \<noteq> []"
    "sym_replay Read_Ok L' = (False, errors, L'\<lparr>yl_state := persistent (yl_state (sym_run ?cs ?start))\<rparr>)"
    using torn_append_loses_the_next_revocation [OF _ _ L(1,2) f _ L'] by (auto simp: clean_io_def)
  have "grant_state_of ''g'' 7 (persistent (yl_state (sym_run ?cs ?start))) = GT_Active"
    by (simp add: demo_created persistent_def empty_sym_def kept_record_def grant_state_of_def)
  then show ?thesis
    using L' e by (intro exI [of _ L] exI [of _ L'] exI [of _ errors]
      exI [of _ "L'\<lparr>yl_state := persistent (yl_state (sym_run ?cs ?start))\<rparr>"]) simp
qed

end
