(* ===== verification/Symbiosis_Gate.thy ===== *)
theory Symbiosis_Gate
  imports Authority_Gate_Samples Symbiosis_Safety
begin

text \<open>
  \<open>AuthorityGatedSymbiosis\<close> (\<open>src/authority_gate.cpp\<close>): a grant that would outlive the process
  needs an authority receipt for exactly that grant.  The theory ties the authority ledger to
  the symbiosis ledger: what the gate's scope digest binds, and that no persistent grant is
  ever created or written without a receipt consumed for it.
\<close>

section \<open>The scope digest\<close>

definition grant_scope_fields :: "symbiosis_grant \<Rightarrow> string list" where
  "grant_scope_fields g = (let s = yg_source g; p = yg_retention g in
     [sg_grant_id s, show_u (source_kind_code (sg_kind s)), show_u (grant_scope_code (sg_scope s)),
      show_u (layer_code (sg_layer s)), sg_root s, sg_locator_prefix s, show_bool (sg_recursive s),
      show_u (sg_max_source_bytes s), show_u (sg_max_slice_bytes s), show_bool (rp_persist_grant p),
      show_bool (rp_persist_stamps p), show_bool (rp_allow_promotion p), show_u (rp_max_promotion_bytes p),
      show_u (rp_max_stamps p), show_u (yg_issued_at g), show_u (yg_expires_at g)])"

text \<open>The fields, each on a line, the last without its newline.\<close>

definition persistent_symbiosis_scope :: "symbiosis_grant \<Rightarrow> string" where
  "persistent_symbiosis_scope g = butlast (concat (map (\<lambda>f. f @ [NL]) (grant_scope_fields g)))"

definition persistent_symbiosis_scope_sha256 :: "symbiosis_grant \<Rightarrow> string" where
  "persistent_symbiosis_scope_sha256 g = sha256 (persistent_symbiosis_scope g)"

section \<open>The wrapper\<close>

definition persistent_grant :: "symbiosis_grant \<Rightarrow> bool" where
  "persistent_grant g \<longleftrightarrow> rp_persist_grant (yg_retention g) \<or> rp_persist_stamps (yg_retention g) \<or>
     rp_allow_promotion (yg_retention g)"

definition gated_create_grant ::
    "authority_verifier \<Rightarrow> u64 \<Rightarrow> io \<Rightarrow> io \<Rightarrow> symbiosis_grant \<Rightarrow> authority_receipt option \<Rightarrow> authority_ledger \<Rightarrow>
     sym_ledger \<Rightarrow> ledger_result \<times> authority_ledger \<times> sym_ledger" where
  "gated_create_grant v now ioa ios g receipt A L =
     (if persistent_grant g then
        (case gate_authorize v now ioa receipt PersistentSymbiosis (sg_grant_id (yg_source g))
                (persistent_symbiosis_scope_sha256 g) [] A of
           (authorization, A') \<Rightarrow>
             if \<not> ag_ok authorization
             then (\<lparr>yr_status = LS_Denied, yr_id = sg_grant_id (yg_source g), yr_errors = ag_errors authorization\<rparr>, A', L)
             else (case create_grant ios g L of (r, L') \<Rightarrow> (r, A', L')))
      else (case create_grant ios g L of (r, L') \<Rightarrow> (r, A, L')))"

section \<open>What the digest binds\<close>

lemma grant_scope_split:
  "persistent_symbiosis_scope g = concat (map (\<lambda>f. f @ [NL]) (butlast (grant_scope_fields g))) @ last (grant_scope_fields g)"
  by (simp add: persistent_symbiosis_scope_def grant_scope_fields_def Let_def butlast_append)

lemma grant_scope_lines:
  "persistent_symbiosis_scope g @ [NL] = concat (map (\<lambda>f. f @ [NL]) (grant_scope_fields g))"
  by (simp add: grant_scope_split) (simp add: grant_scope_fields_def Let_def)

lemma show_bool_facts [simp]: "NL \<notin> set (show_bool b)" "show_bool b = show_bool c \<longleftrightarrow> b = c"
  by (simp_all add: show_bool_def)

lemma symbiosis_codes_inj:
  "source_kind_code k = source_kind_code k' \<longleftrightarrow> k = k'" "grant_scope_code s = grant_scope_code s' \<longleftrightarrow> s = s'"
  by (cases k; cases k'; simp) (cases s; cases s'; simp)

text \<open>The texts of a grant that a caller chooses hold no newline.\<close>

definition one_line_grant :: "symbiosis_grant \<Rightarrow> bool" where
  "one_line_grant g \<longleftrightarrow> NL \<notin> set (sg_grant_id (yg_source g)) \<and> NL \<notin> set (sg_root (yg_source g)) \<and>
     NL \<notin> set (sg_locator_prefix (yg_source g))"

lemma grant_scope_fields_no_NL: "one_line_grant g \<Longrightarrow> \<forall>l \<in> set (grant_scope_fields g). NL \<notin> set l"
  by (auto simp: grant_scope_fields_def Let_def one_line_grant_def)

lemma grant_scope_fields_inj:
  assumes "grant_scope_fields g = grant_scope_fields g'"
  shows "g = g'"
proof -
  have "yg_source g = yg_source g'"
    using assms by (intro source_grant.equality)
      (simp_all add: grant_scope_fields_def Let_def symbiosis_codes_inj layer_code_inj)
  moreover have "yg_retention g = yg_retention g'"
    using assms by (intro retention_policy.equality) (simp_all add: grant_scope_fields_def Let_def)
  ultimately show ?thesis
    using assms by (intro symbiosis_grant.equality) (simp_all add: grant_scope_fields_def Let_def)
qed

text \<open>
  One scope, one grant: two grants without a newline in their texts are authorized by the
  same canonical scope only when they are the same grant, in every field.
\<close>

lemma scope_binds_the_grant:
  assumes "one_line_grant g" "one_line_grant g'"
    "persistent_symbiosis_scope g = persistent_symbiosis_scope g'"
  shows "g = g'"
proof -
  have "grant_scope_fields g = grant_scope_fields g'"
    using getlines_concat [OF grant_scope_fields_no_NL [OF assms(1)]]
      getlines_concat [OF grant_scope_fields_no_NL [OF assms(2)]] assms(3) by (metis grant_scope_lines)
  then show ?thesis by (rule grant_scope_fields_inj)
qed

text \<open>
  Without that side condition the scope does not bind: a newline in a file grant's root moves
  the boundary between root and locator prefix, and one receipt serves two grants over
  different directories.
\<close>

lemma scope_is_ambiguous:
  "\<exists>g g'. validate_symbiosis_grant g = [] \<and> validate_symbiosis_grant g' = [] \<and> persistent_grant g \<and>
     sg_root (yg_source g) \<noteq> sg_root (yg_source g') \<and>
     sg_locator_prefix (yg_source g) \<noteq> sg_locator_prefix (yg_source g') \<and>
     persistent_symbiosis_scope_sha256 g = persistent_symbiosis_scope_sha256 g'"
proof -
  let ?g = "\<lambda>base prefix. \<lparr>yg_source = \<lparr>sg_grant_id = ''g'', sg_kind = SK_File, sg_scope = GS_Project, sg_layer = RL_Runtime,
      sg_root = base, sg_locator_prefix = prefix, sg_recursive = True, sg_max_source_bytes = 1, sg_max_slice_bytes = 1\<rparr>,
      yg_retention = \<lparr>rp_persist_grant = True, rp_persist_stamps = False, rp_allow_promotion = False,
        rp_max_promotion_bytes = 1, rp_max_stamps = 1\<rparr>, yg_issued_at = 1, yg_expires_at = 0\<rparr>"
  have "persistent_symbiosis_scope (?g ''/a'' (''b'' @ NL # ''c'')) = persistent_symbiosis_scope (?g (''/a'' @ NL # ''b'') ''c'')"
    by (simp add: persistent_symbiosis_scope_def grant_scope_fields_def)
  then show ?thesis
    by (intro exI [of _ "?g ''/a'' (''b'' @ NL # ''c'')"] exI [of _ "?g (''/a'' @ NL # ''b'') ''c''"])
      (simp add: validate_symbiosis_grant_def validate_source_grant_def file_kind_def persistent_grant_def
        persistent_symbiosis_scope_sha256_def)
qed

section \<open>The two ledgers together\<close>

text \<open>
  A process that owns both ledgers: grants are created through the wrapper, the other calls go
  to the ledger they belong to.
\<close>

datatype gated_call =
  GC_Create authority_verifier u64 io io symbiosis_grant "authority_receipt option"
| GC_Symbiosis sym_call
| GC_Authority authority_op

fun is_create :: "sym_call \<Rightarrow> bool" where
  "is_create (SC_Create _ _) = True"
| "is_create _ = False"

definition gated_calls :: "gated_call list \<Rightarrow> bool" where
  "gated_calls cs \<longleftrightarrow> (\<forall>c. GC_Symbiosis c \<in> set cs \<longrightarrow> \<not> is_create c \<and> \<not> is_replay c)"

fun gated_step :: "gated_call \<Rightarrow> authority_ledger \<times> sym_ledger \<Rightarrow> authority_ledger \<times> sym_ledger" where
  "gated_step (GC_Create v now ioa ios g receipt) (A, L) = snd (gated_create_grant v now ioa ios g receipt A L)"
| "gated_step (GC_Symbiosis c) (A, L) = (A, sym_step c L)"
| "gated_step (GC_Authority a) (A, L) = (snd (al_call a A), L)"

definition gated_run :: "gated_call list \<Rightarrow> authority_ledger \<times> sym_ledger \<Rightarrow> authority_ledger \<times> sym_ledger" where
  "gated_run cs s = fold gated_step cs s"

text \<open>A call that consumed authority for the grant.\<close>

definition receipted :: "gated_call list \<Rightarrow> authority_ledger \<times> sym_ledger \<Rightarrow> string \<Rightarrow> symbiosis_grant \<Rightarrow> bool" where
  "receipted cs s ident g \<longleftrightarrow> (\<exists>pre v now ioa ios r post lr A'. cs = pre @ GC_Create v now ioa ios g (Some r) # post \<and>
     ident = sg_grant_id (yg_source g) \<and> scope_sha256 (envelope r) = persistent_symbiosis_scope_sha256 g \<and>
     authorize_and_consume v now ioa r PersistentSymbiosis ident (persistent_symbiosis_scope_sha256 g)
       (fst (gated_run pre s)) = (lr, A') \<and> alr_ok lr)"

lemma create_grants:
  assumes "create_grant io g L = (r, L')" "map_of (ys_grants (yl_state L')) ident = Some k"
  shows "map_of (ys_grants (yl_state L)) ident = Some k \<or> yr_ok r \<and> yk_grant k = g \<and> ident = sg_grant_id (yg_source g)"
proof -
  have "attempted io L (r, L')" using create_attempted [of io L g] assms(1) by simp
  show ?thesis
  proof (cases "yr_ok r")
    case True
    then have "yl_state L' = (yl_state L)\<lparr>ys_grants := AList.update (sg_grant_id (yg_source g))
        \<lparr>yk_grant = g, yk_revoked_at = None, yk_reason = []\<rparr> (ys_grants (yl_state L))\<rparr>"
      using assms(1) commit_state
      by (fastforce simp: create_grant_def Let_def yr_ok_def yr_fail_def split: if_splits)
    with assms(2) True show ?thesis by (auto simp: update_conv split: if_splits)
  next
    case False
    then have "yl_state L' = yl_state L"
      using assms(1) commit_state
      by (fastforce simp: create_grant_def Let_def yr_ok_def yr_fail_def split: if_splits)
    with assms(2) show ?thesis by simp
  qed
qed

lemma commit_grants:
  assumes "sym_commit p io line ident st L = (r, L')" "map_of (ys_grants (yl_state L')) i = Some k"
  shows "map_of (ys_grants (yl_state L)) i = Some k \<or> map_of (ys_grants st) i = Some k"
  using commit_state [OF assms(1)] assms(2) by (auto split: if_splits)

lemma other_grants:
  assumes "\<not> is_create c" "\<not> is_replay c" "map_of (ys_grants (yl_state (sym_step c L))) ident = Some k"
  shows "\<exists>w. map_of (ys_grants (yl_state L)) ident = Some w \<and> yk_grant w = yk_grant k"
proof (cases "map_of (ys_grants (yl_state L)) ident = Some k")
  case False
  show ?thesis
  proof (cases c)
    case (SC_Revoke io i now reason)
    obtain r L' where r: "revoke_grant io i now reason L = (r, L')" by fastforce
    with SC_Revoke assms(3) have k: "map_of (ys_grants (yl_state L')) ident = Some k" by simp
    from r k False show ?thesis
      by (auto simp: revoke_grant_def Let_def update_conv split: option.splits if_splits dest!: commit_grants)
  next
    case (SC_Stamp io i ob now)
    obtain r L' where r: "stamp_observation io i ob now L = (r, L')" by fastforce
    with SC_Stamp assms(3) have k: "map_of (ys_grants (yl_state L')) ident = Some k" by simp
    from r k False show ?thesis
      by (auto simp: stamp_observation_def Let_def split: option.splits if_splits dest!: commit_grants)
  next
    case (SC_Promote io i ob summary now)
    obtain r L' where r: "promote_memory io i ob summary now L = (r, L')" by fastforce
    with SC_Promote assms(3) have k: "map_of (ys_grants (yl_state L')) ident = Some k" by simp
    from r k False show ?thesis
      by (auto simp: promote_memory_def Let_def split: option.splits if_splits dest!: commit_grants)
  next
    case (SC_Forget io i now)
    obtain r L' where r: "forget_promotion io i now L = (r, L')" by fastforce
    with SC_Forget assms(3) have k: "map_of (ys_grants (yl_state L')) ident = Some k" by simp
    from r k False show ?thesis
      by (auto simp: forget_promotion_def Let_def split: option.splits if_splits dest!: commit_grants)
  qed (use assms in simp_all)
qed blast

lemma receipted_more: "receipted cs s ident g \<Longrightarrow> receipted (cs @ [c]) s ident g"
  unfolding receipted_def by (metis append.assoc append_Cons)

lemma gated_run_snoc: "gated_run (cs @ [c]) s = gated_step c (gated_run cs s)"
  by (simp add: gated_run_def)

lemma gated_create_receipted:
  assumes "gated_create_grant v now ioa ios g receipt A L = (res, A', L')" "persistent_grant g" "L' \<noteq> L"
  obtains r lr where "receipt = Some r" "scope_sha256 (envelope r) = persistent_symbiosis_scope_sha256 g"
    "authorize_and_consume v now ioa r PersistentSymbiosis (sg_grant_id (yg_source g))
       (persistent_symbiosis_scope_sha256 g) A = (lr, A')" "alr_ok lr"
proof -
  obtain a A1 where g: "gate_authorize v now ioa receipt PersistentSymbiosis (sg_grant_id (yg_source g))
      (persistent_symbiosis_scope_sha256 g) [] A = (a, A1)" by fastforce
  with assms have a: "ag_status a = AGS_Allowed" "A' = A1"
    by (auto simp: gated_create_grant_def ag_ok_def split: prod.splits if_splits)
  with g that show thesis
    by (auto simp: gate_authorize_def ag_fail_def split: option.splits if_splits prod.splits)
qed

text \<open>
  C10. No persistent grant without authority.  In any history of a process that creates grants
  through the wrapper, every grant it holds that is persistent in any way (itself, its stamps
  or its promotions) was created by a call that consumed, in the authority ledger as it then
  was, a receipt issued for persistent symbiosis, for that grant's identity, and for the
  digest of that very grant.
\<close>

theorem persistent_grant_needs_receipt:
  assumes "gated_calls cs" "ys_grants (yl_state (snd s)) = []"
    and "map_of (ys_grants (yl_state (snd (gated_run cs s)))) ident = Some k" "persistent_grant (yk_grant k)"
  shows "receipted cs s ident (yk_grant k)"
  using assms(1,3,4)
proof (induction cs arbitrary: k rule: rev_induct)
  case Nil
  then show ?case using assms(2) by (simp add: gated_run_def)
next
  case (snoc c cs)
  obtain A L where s: "gated_run cs s = (A, L)" by fastforce
  have calls: "gated_calls cs" using snoc.prems(1) by (simp add: gated_calls_def)
  have keep: "receipted (cs @ [c]) s ident (yk_grant k)"
    if "map_of (ys_grants (yl_state L)) ident = Some w" "yk_grant w = yk_grant k" for w
    using snoc.IH [OF calls, of w] that s snoc.prems(3) by (auto intro: receipted_more)
  show ?case
  proof (cases c)
    case (GC_Create v now ioa ios g receipt)
    obtain res A' L' where g: "gated_create_grant v now ioa ios g receipt A L = (res, A', L')"
      by (metis prod_cases3)
    have k: "map_of (ys_grants (yl_state L')) ident = Some k"
      using snoc.prems(2) GC_Create g by (simp add: gated_run_snoc s)
    show ?thesis
    proof (cases "map_of (ys_grants (yl_state L)) ident = Some k")
      case False
      with k have "L' \<noteq> L" by auto
      with g False k have created: "yk_grant k = g" "ident = sg_grant_id (yg_source g)"
        by (auto simp: gated_create_grant_def split: if_splits prod.splits dest!: create_grants)
      from gated_create_receipted [OF g _ \<open>L' \<noteq> L\<close>] created snoc.prems(3) obtain r lr where
        "receipt = Some r" "scope_sha256 (envelope r) = persistent_symbiosis_scope_sha256 g"
        "authorize_and_consume v now ioa r PersistentSymbiosis ident (persistent_symbiosis_scope_sha256 g) A = (lr, A')"
        "alr_ok lr" by metis
      then show ?thesis unfolding receipted_def created(1) using GC_Create created(2) s by fastforce
    qed (use keep in blast)
  next
    case (GC_Symbiosis d)
    then have "\<not> is_create d" "\<not> is_replay d" using snoc.prems(1) by (auto simp: gated_calls_def)
    from other_grants [OF this] GC_Symbiosis snoc.prems(2) keep show ?thesis
      by (auto simp: gated_run_snoc s)
  next
    case (GC_Authority a)
    then show ?thesis using snoc.prems(2) keep by (simp add: gated_run_snoc s)
  qed
qed

section \<open>A sample\<close>

definition gate_receipt :: "symbiosis_grant \<Rightarrow> authority_receipt" where
  "gate_receipt g = receipt_for PersistentSymbiosis (sg_grant_id (yg_source g)) (persistent_symbiosis_scope_sha256 g)"

lemma scope_digest [simp]: "is_sha256 (persistent_symbiosis_scope_sha256 g)"
  by (simp add: persistent_symbiosis_scope_sha256_def)

lemma gate_receipt_accepted:
  assumes "valid_token (sg_grant_id (yg_source g)) 256"
  obtains A where "\<And>L r L'. persistent_grant g \<Longrightarrow> create_grant Write_Ok g L = (r, L') \<Longrightarrow>
    \<exists>A'. gated_create_grant sample_verifier 1500 Write_Ok Write_Ok g (Some (gate_receipt g)) A L = (r, A', L')"
proof -
  obtain A lr A' where "authorize_and_consume sample_verifier 1500 Write_Ok (gate_receipt g) PersistentSymbiosis
      (sg_grant_id (yg_source g)) (persistent_symbiosis_scope_sha256 g) A = (lr, A')" "alr_ok lr"
    using receipt_for_consumed [OF assms scope_digest] unfolding gate_receipt_def by blast
  then show thesis
    by (intro that [of A]) (simp add: gated_create_grant_def gate_authorize_def ag_ok_def gate_receipt_def)
qed

theorem persistent_grant_needs_receipt_witness:
  "\<exists>A. receipted [GC_Create sample_verifier 1500 Write_Ok Write_Ok (demo_grant ''g'' True) (Some (gate_receipt (demo_grant ''g'' True)))]
     (A, sym_ledger_new ''j'' None) ''g'' (demo_grant ''g'' True)"
proof -
  let ?g = "demo_grant ''g'' True"
  let ?c = "GC_Create sample_verifier 1500 Write_Ok Write_Ok ?g (Some (gate_receipt ?g))"
  have p: "persistent_grant ?g" by (simp add: persistent_grant_def)
  obtain r L where L: "create_grant Write_Ok ?g (sym_ledger_new ''j'' None) = (r, L)" by fastforce
  then have "L = sym_run [SC_Create Write_Ok ?g] (sym_ledger_new ''j'' None)" by (simp add: sym_run_def)
  then have k: "map_of (ys_grants (yl_state L)) ''g'' = Some \<lparr>yk_grant = ?g, yk_revoked_at = None, yk_reason = []\<rparr>"
    unfolding demo_created by simp
  have "valid_token (sg_grant_id (yg_source ?g)) 256" by (simp add: valid_token_def token_char_def)
  from gate_receipt_accepted [OF this] p L obtain A A' where
    "gated_create_grant sample_verifier 1500 Write_Ok Write_Ok ?g (Some (gate_receipt ?g)) A (sym_ledger_new ''j'' None) = (r, A', L)"
    by metis
  then have "snd (gated_run [?c] (A, sym_ledger_new ''j'' None)) = L" by (simp add: gated_run_def)
  with k p have "receipted [?c] (A, sym_ledger_new ''j'' None) ''g'' (yk_grant \<lparr>yk_grant = ?g, yk_revoked_at = None, yk_reason = []\<rparr>)"
    by (intro persistent_grant_needs_receipt) (simp_all add: gated_calls_def sym_ledger_new_def empty_sym_def)
  then show ?thesis by auto
qed

end
