(* ===== verification/Data_Leech_Safety.thy ===== *)
theory Data_Leech_Safety
  imports Data_Leech
begin

text \<open>
  What the reader of sources promises: a slice never leaves its grant, slices of a text put back
  together are the text, and the context arena stays within its budget.
\<close>

section \<open>Slices of files\<close>

lemma components_prefix_iff: "components_prefix as bs \<longleftrightarrow> (\<exists>rest. bs = as @ rest)"
  by (induction as bs rule: components_prefix.induct) auto

lemma components_equal_iff: "components_equal as bs \<longleftrightarrow> as = bs"
  by (induction as bs rule: components_equal.induct) auto

lemma resolved_in_scope:
  assumes "resolve_allowed_file F g path = Inr target"
  shows "file_kind (sg_kind g)" "validate_source_grant g = []" "fv_canonical F path = Some target"
    "\<exists>base rest. fv_canonical F (sg_root g) = Some base \<and> path_components target = path_components base @ rest \<and>
      (rest = [] \<or> sg_recursive g)"
  using assms
  by (auto simp: resolve_allowed_file_def has_path_prefix_def path_equal_def components_prefix_iff components_equal_iff
      split: if_splits option.splits)

lemma delta_simps [simp]:
  "sd_current (delta_failed st previous detail) = None" "sd_current (delta_observed ob previous) = Some ob"
  by (simp_all add: delta_failed_def delta_observed_def Let_def)

lemma observed_file:
  assumes "sd_current (observe_file F g path previous) = Some ob"
  shows "resolve_allowed_file F g path = Inr (so_locator ob)" "so_source_id ob = source_id_of g (so_locator ob)"
    "fv_size F (so_locator ob) = Some (so_size_bytes ob)" "so_size_bytes ob \<le> sg_max_source_bytes g"
    "sha256_file (fv_hashed F (so_locator ob)) = Some (so_content_sha256 ob)" "so_kind ob = sg_kind g" "so_layer ob = sg_layer g"
  using assms by (auto simp: observe_file_def not_less split: sum.splits if_splits option.splits)

text \<open>
  C39. A slice of a file comes from a path whose components extend those of the granted root, and
  only by nothing unless the grant is recursive.  It is no longer than was asked for and granted,
  it is exactly the bytes at its offset, it lies within the size that was observed and that the
  grant allows, and it is marked as truncated exactly when bytes remain after it.
\<close>

theorem file_slices_stay_in_the_grant:
  assumes "slice_file F g path offset requested = Inr s"
  shows "(\<exists>base rest. fv_canonical F (sg_root g) = Some base \<and> path_components (cs_locator s) = path_components base @ rest \<and>
        (rest = [] \<or> sg_recursive g)) \<and>
    length (cs_data s) \<le> unat requested \<and> length (cs_data s) \<le> unat (sg_max_slice_bytes g) \<and>
    (\<exists>bytes n. fv_bytes F (cs_locator s) = Some bytes \<and> fv_size F (cs_locator s) = Some n \<and> n \<le> sg_max_source_bytes g \<and>
      cs_data s = take (length (cs_data s)) (drop (unat offset) bytes) \<and> unat offset + length (cs_data s) \<le> unat n \<and>
      (cs_truncated s \<longleftrightarrow> unat offset + length (cs_data s) < unat n))"
proof -
  let ?d = "observe_file F g path None"
  obtain ob where ob: "sd_current ?d = Some ob"
    using assms by (auto simp: slice_file_def Let_def split: if_splits option.splits)
  note o1 = observed_file [OF ob]
  let ?remaining = "so_size_bytes ob - offset"
  let ?amount = "min (bounded_request g requested) ?remaining"
  have off: "offset \<le> so_size_bytes ob"
    using assms ob by (auto simp: slice_file_def Let_def not_less split: if_splits option.splits)
  obtain bytes where b: "fv_bytes F (so_locator ob) = Some bytes"
      "length (take (unat ?amount) (drop (unat offset) bytes)) = unat ?amount"
      "s = slice_of ob offset (take (unat ?amount) (drop (unat offset) bytes)) (?amount < ?remaining)"
    using assms ob by (auto simp: slice_file_def Let_def split: if_splits option.splits)
  have s: "cs_locator s = so_locator ob" "cs_data s = take (unat ?amount) (drop (unat offset) bytes)"
    "cs_truncated s = (?amount < ?remaining)" "length (cs_data s) = unat ?amount"
    using b(2,3) by (simp_all add: slice_of_def)
  have r: "unat ?remaining = unat (so_size_bytes ob) - unat offset" using off by (rule unat_sub)
  have a: "unat ?amount \<le> unat requested" "unat ?amount \<le> unat (sg_max_slice_bytes g)" "unat ?amount \<le> unat ?remaining"
    by (simp_all add: bounded_request_def word_le_nat_alt [symmetric] min.coboundedI1 min.coboundedI2)
  have t: "?amount < ?remaining \<longleftrightarrow> unat ?amount < unat ?remaining" by (simp add: word_less_nat_alt)
  have o2: "unat offset \<le> unat (so_size_bytes ob)" using off by (simp add: word_le_nat_alt)
  have "unat offset + length (cs_data s) \<le> unat (so_size_bytes ob)"
    "cs_truncated s \<longleftrightarrow> unat offset + length (cs_data s) < unat (so_size_bytes ob)"
    using a(3) r o2 t unfolding s(3,4) by linarith+
  moreover have "cs_data s = take (length (cs_data s)) (drop (unat offset) bytes)" using s(2,4) by simp
  ultimately have "fv_bytes F (cs_locator s) = Some bytes \<and> fv_size F (cs_locator s) = Some (so_size_bytes ob) \<and>
      so_size_bytes ob \<le> sg_max_source_bytes g \<and> cs_data s = take (length (cs_data s)) (drop (unat offset) bytes) \<and>
      unat offset + length (cs_data s) \<le> unat (so_size_bytes ob) \<and>
      (cs_truncated s \<longleftrightarrow> unat offset + length (cs_data s) < unat (so_size_bytes ob))"
    using b(1) o1(3,4) unfolding s(1) by blast
  moreover have "length (cs_data s) \<le> unat requested \<and> length (cs_data s) \<le> unat (sg_max_slice_bytes g)"
    using a(1,2) unfolding s(4) by simp
  ultimately show ?thesis using resolved_in_scope(4) [OF o1(1)] unfolding s(1) by blast
qed

definition demo_view :: fs_view where
  "demo_view = \<lparr>fv_canonical = (\<lambda>p. if p = ''src'' then Some ''/r/src'' else if p = ''a'' then Some ''/r/src/a'' else None),
     fv_regular = (\<lambda>p. p = ''/r/src/a''), fv_size = (\<lambda>p. Some 5), fv_hashed = (\<lambda>p. Some ([''hello''], True)),
     fv_bytes = (\<lambda>p. Some ''hello''), fv_seek_ok = (\<lambda>p n. True)\<rparr>"

definition demo_file_grant :: source_grant where
  "demo_file_grant = \<lparr>sg_grant_id = ''g'', sg_kind = SK_RepoFile, sg_scope = GS_Project, sg_layer = RL_Project,
     sg_root = ''src'', sg_locator_prefix = [], sg_recursive = True, sg_max_source_bytes = 100, sg_max_slice_bytes = 3\<rparr>"

lemma sha256_file_total: "\<exists>d. sha256_file (Some (chunks, True)) = Some d"
  by (simp add: Let_def)

lemma demo_slice:
  "\<exists>s. slice_file demo_view demo_file_grant ''a'' 1 10 = Inr s \<and> cs_data s = ''ell'' \<and> cs_truncated s"
proof -
  have c: "path_components ''/r/src'' = [''/'', ''r'', ''src'']" "path_components ''/r/src/a'' = [''/'', ''r'', ''src'', ''a'']"
    by (simp_all add: path_components_def path_names.simps)
  obtain d where d: "sha256_file (Some ([''hello''], True)) = Some d" using sha256_file_total by blast
  show ?thesis
    by (simp add: slice_file_def observe_file_def resolve_allowed_file_def demo_view_def demo_file_grant_def file_kind_def
        validate_source_grant_def has_path_prefix_def c d Let_def delta_observed_def delta_failed_def readable_def
        compare_observation_def bounded_request_def slice_of_def del: sha256_file.simps)
qed

lemma file_slices_stay_in_the_grant_witness:
  "\<exists>s. slice_file demo_view demo_file_grant ''a'' 1 10 = Inr s \<and> cs_data s = ''ell'' \<and> length (cs_data s) \<le> unat (3 :: u64)"
proof -
  obtain s where s: "slice_file demo_view demo_file_grant ''a'' 1 10 = Inr s" "cs_data s = ''ell''" using demo_slice by blast
  from file_slices_stay_in_the_grant [OF s(1)] s show ?thesis by (auto simp: demo_file_grant_def)
qed

section \<open>Slices of text\<close>

lemma observed_text:
  assumes "allowed_text_locator g locator = None" "length content \<le> unat (sg_max_source_bytes g)"
  shows "\<exists>ob. sd_current (observe_text g locator content None) = Some ob \<and> readable (observe_text g locator content None) \<and>
    so_locator ob = locator \<and> so_content_sha256 ob = sha256 content"
  using assms
  by (simp add: observe_text_def not_less delta_observed_def delta_failed_def compare_observation_def readable_def Let_def)

lemma slice_text_exact:
  assumes "allowed_text_locator g locator = None" "length content \<le> unat (sg_max_source_bytes g)" "requested \<noteq> 0"
    "unat offset \<le> length content"
  shows "\<exists>s. slice_text g locator content offset requested = Inr s \<and>
     cs_data s = take (unat (bounded_request g requested)) (drop (unat offset) content) \<and>
     (cs_truncated s \<longleftrightarrow> unat offset + length (cs_data s) < length content)"
  using observed_text [OF assms(1,2)] assms(3,4)
  by (auto simp: slice_text_def Let_def slice_of_def take_all_iff min_def)

text \<open>A reader that asks for slice after slice until one is not truncated.\<close>

fun read_slices :: "nat \<Rightarrow> source_grant \<Rightarrow> string \<Rightarrow> string \<Rightarrow> u64 \<Rightarrow> u64 \<Rightarrow> string option" where
  "read_slices 0 g locator content requested offset = None"
| "read_slices (Suc n) g locator content requested offset =
     (case slice_text g locator content offset requested of
        Inl error \<Rightarrow> None
      | Inr s \<Rightarrow>
          if cs_truncated s
          then map_option (\<lambda>rest. cs_data s @ rest)
                 (read_slices n g locator content requested (offset + of_nat (length (cs_data s))))
          else Some (cs_data s))"

lemma read_slices_from:
  assumes "allowed_text_locator g locator = None" "length content \<le> unat (sg_max_source_bytes g)" "requested \<noteq> 0"
    "unat offset \<le> length content" "length content - unat offset < n"
  shows "read_slices n g locator content requested offset = Some (drop (unat offset) content)"
  using assms(4,5)
proof (induction n arbitrary: offset)
  case (Suc n)
  obtain s where s: "slice_text g locator content offset requested = Inr s"
      "cs_data s = take (unat (bounded_request g requested)) (drop (unat offset) content)"
      "cs_truncated s \<longleftrightarrow> unat offset + length (cs_data s) < length content"
    using slice_text_exact [OF assms(1-3) Suc.prems(1)] by blast
  show ?case
  proof (cases "cs_truncated s")
    case False
    then have "length (drop (unat offset) content) \<le> length (cs_data s)" using s(3) by simp
    then have "cs_data s = drop (unat offset) content" unfolding s(2) by (simp add: take_all_iff)
    with s(1) False show ?thesis by simp
  next
    case True
    let ?o = "offset + of_nat (length (cs_data s))"
    have g: "sg_max_slice_bytes g \<noteq> 0"
      using assms(1) by (simp add: allowed_text_locator_def validate_source_grant_def split: if_splits)
    then have "bounded_request g requested \<noteq> 0" using assms(3) by (simp add: bounded_request_def min_def)
    then have "0 < unat (bounded_request g requested)" by (metis unat_eq_zero neq0_conv)
    with True s(3) have pos: "0 < length (cs_data s)" unfolding s(2) by simp
    have le: "unat offset + length (cs_data s) < length content" using True s(3) by simp
    have "unat ?o = unat offset + length (cs_data s)"
      using le assms(2) unat_u64_less [of "sg_max_source_bytes g"] by (subst unat_word_ariths) (simp add: unat_of_nat)
    then have o2: "unat ?o = unat offset + length (cs_data s)" .
    have "read_slices n g locator content requested ?o = Some (drop (unat ?o) content)"
    proof (rule Suc.IH)
      show "unat ?o \<le> length content" using le o2 by simp
      show "length content - unat ?o < n" using le pos Suc.prems(2) o2 by linarith
    qed
    moreover have "cs_data s @ drop (unat ?o) content = drop (unat offset) content"
    proof -
      have d: "cs_data s = take (length (cs_data s)) (drop (unat offset) content)"
        unfolding s(2) by (simp add: min_def take_all_iff)
      have "drop (unat ?o) content = drop (length (cs_data s)) (drop (unat offset) content)"
        by (simp add: o2 add.commute)
      then show ?thesis using d by (metis append_take_drop_id)
    qed
    ultimately show ?thesis using s(1) True by simp
  qed
qed simp

text \<open>
  C.  Reading a tool output slice by slice, however large the slices that are asked for, ends after
  at most one request per byte and one, and gives back the whole text.
\<close>

theorem text_slices_reassemble:
  assumes "allowed_text_locator g locator = None" "length content \<le> unat (sg_max_source_bytes g)" "requested \<noteq> 0"
  shows "read_slices (Suc (length content)) g locator content requested 0 = Some content"
  using read_slices_from [OF assms, of 0 "Suc (length content)"] by (simp del: read_slices.simps)

definition demo_tool_grant :: source_grant where
  "demo_tool_grant = \<lparr>sg_grant_id = ''g'', sg_kind = SK_ToolOutput, sg_scope = GS_Session, sg_layer = RL_Runtime,
     sg_root = [], sg_locator_prefix = ''tool'', sg_recursive = False, sg_max_source_bytes = 100, sg_max_slice_bytes = 2\<rparr>"

lemma demo_tool_facts:
  "allowed_text_locator demo_tool_grant ''tool:1'' = None" "length ''hello'' \<le> unat (sg_max_source_bytes demo_tool_grant)"
  by (simp_all add: demo_tool_grant_def allowed_text_locator_def validate_source_grant_def starts_with_def file_kind_def)

lemma text_slices_reassemble_witness:
  "read_slices (Suc (length ''hello'')) demo_tool_grant ''tool:1'' ''hello'' 10 0 = Some ''hello''"
  by (rule text_slices_reassemble [OF demo_tool_facts]) simp

section \<open>The arena\<close>

datatype arena_call = AC_Add context_slice | AC_Clear

fun arena_step :: "arena_call \<Rightarrow> context_arena \<Rightarrow> context_arena" where
  "arena_step (AC_Add s) A = snd (arena_add s A)"
| "arena_step AC_Clear A = arena_clear A"

definition slices_bytes :: "context_slice list \<Rightarrow> nat" where
  "slices_bytes ss = sum_list (map (\<lambda>s. length (cs_data s)) ss)"

definition arena_inv :: "context_arena \<Rightarrow> bool" where
  "arena_inv A \<longleftrightarrow>
     length (ca_slices A) \<le> unat (cb_max_slices (ca_budget A)) \<and>
     slices_bytes (ca_slices A) \<le> unat (cb_max_total_bytes (ca_budget A)) \<and>
     unat (ca_used_bytes A) = slices_bytes (ca_slices A) \<and>
     sorted_wrt (\<lambda>a b. \<not> same_slice a b) (ca_slices A)"

lemma arena_inv_add:
  assumes "arena_inv A"
  shows "arena_inv (snd (arena_add s A)) \<and> ca_budget (snd (arena_add s A)) = ca_budget A"
proof (cases "fst (arena_add s A)")
  case False
  then show ?thesis using assms by (auto simp: arena_add_def Let_def arena_inv_def split: if_splits)
next
  case True
  let ?T = "cb_max_total_bytes (ca_budget A)" and ?n = "length (cs_data s)"
  have used: "ca_used_bytes A \<le> ?T" using assms by (simp add: arena_inv_def word_le_nat_alt)
  from True have new: "\<not> list_ex (\<lambda>e. same_slice e s) (ca_slices A)" "length (ca_slices A) < unat (cb_max_slices (ca_budget A))"
    "?n \<le> unat (?T - ca_used_bytes A)"
    using used by (auto simp: arena_add_def Let_def min_absorb1 split: if_splits)
  have fit: "unat (ca_used_bytes A) + ?n \<le> unat ?T"
    using new(3) used unat_sub [OF used] by (simp add: word_le_nat_alt)
  have "unat (ca_used_bytes A + of_nat ?n) = unat (ca_used_bytes A) + ?n"
    using fit unat_u64_less [of ?T] by (subst unat_word_ariths) (simp add: unat_of_nat)
  with True new fit assms show ?thesis
    by (auto simp: arena_add_def Let_def arena_inv_def slices_bytes_def sorted_wrt_append list_ex_iff split: if_splits)
qed

lemma arena_inv_step: "arena_inv A \<Longrightarrow> arena_inv (arena_step c A) \<and> ca_budget (arena_step c A) = ca_budget A"
  by (cases c) (simp_all add: arena_inv_add, simp add: arena_inv_def arena_clear_def slices_bytes_def)

lemma arena_inv_run: "arena_inv A \<Longrightarrow> arena_inv (fold arena_step cs A) \<and> ca_budget (fold arena_step cs A) = ca_budget A"
  by (induction cs arbitrary: A) (simp_all add: arena_inv_step)

text \<open>
  C.  Whatever is added and however often the arena is cleared, it holds no more slices and no more
  bytes than its budget (one of each at least), its count of used bytes is exact and never wraps
  around, and it holds no slice twice.
\<close>

theorem context_arena_is_bounded:
  "length (ca_slices (fold arena_step cs (context_arena_new B))) \<le> unat (max 1 (cb_max_slices B)) \<and>
   slices_bytes (ca_slices (fold arena_step cs (context_arena_new B))) \<le> unat (max 1 (cb_max_total_bytes B)) \<and>
   unat (ca_used_bytes (fold arena_step cs (context_arena_new B))) =
     slices_bytes (ca_slices (fold arena_step cs (context_arena_new B))) \<and>
   sorted_wrt (\<lambda>a b. \<not> same_slice a b) (ca_slices (fold arena_step cs (context_arena_new B)))"
proof -
  let ?A = "fold arena_step cs (context_arena_new B)"
  have "arena_inv (context_arena_new B)" by (simp add: arena_inv_def context_arena_new_def slices_bytes_def)
  from arena_inv_run [OF this, of cs] have A: "arena_inv ?A" "ca_budget ?A = ca_budget (context_arena_new B)" by blast+
  then show ?thesis unfolding arena_inv_def A(2) by (simp add: context_arena_new_def)
qed

end
