(* ===== verification/Session_Journal.thy ===== *)
theory Session_Journal
  imports Line_Journal Runtime_Lease
begin

text \<open>
  \<open>SessionJournal\<close> (\<open>include/guff/session_journal.hpp\<close>, \<open>src/session_journal.cpp\<close>): which execution
  sessions began, how they ended, and what was decided about the interrupted ones.

  The object holds only its path.  Every operation scans the whole file again; a record that
  cannot be read or does not fit ends the scan and makes the journal unhealthy.  The text codec
  is a copy of the ledgers' and is shared with them here.
\<close>

section \<open>Data\<close>

datatype journal_kind = JK_Begin | JK_Commit | JK_Abort | JK_RecoveryDismiss | JK_RecoveryRetry

datatype journal_status =
  JS_Ok | JS_DuplicateSession | JS_SessionNotOpen | JS_RecoveryNotAuthorized | JS_Invalid | JS_IntegrityError | JS_StorageError

record journal_begin =
  jb_session_id :: string
  jb_correlation_id :: string
  jb_request_sha256 :: string
  jb_recorded_at :: string

record journal_terminal =
  jt_kind :: journal_kind
  jt_session_id :: string
  jt_correlation_id :: string
  jt_request_sha256 :: string
  jt_audit_sha256 :: string
  jt_dojo_episode_id :: string
  jt_terminal_status :: string
  jt_recorded_at :: string

record journal_recovery =
  jv_kind :: journal_kind
  jv_session_id :: string
  jv_correlation_id :: string
  jv_request_sha256 :: string
  jv_begin_record_sha256 :: string
  jv_authorization_sha256 :: string
  jv_child_correlation_id :: string
  jv_recorded_at :: string

record journal_record =
  jn_schema_version :: u32
  jn_sequence :: u64
  jn_kind :: journal_kind
  jn_session_id :: string
  jn_correlation_id :: string
  jn_request_sha256 :: string
  jn_audit_sha256 :: string
  jn_dojo_episode_id :: string
  jn_terminal_status :: string
  jn_recorded_at :: string
  jn_previous :: string
  jn_record_sha256 :: string

record journal_write_result =
  jw_status :: journal_status
  jw_record_sha256 :: string
  jw_errors :: "string list"

record interrupted_session =
  jx_session_id :: string
  jx_correlation_id :: string
  jx_request_sha256 :: string
  jx_begin_record_sha256 :: string
  jx_recorded_at :: string
  jx_replay_authorized :: bool
  jx_requires_human_decision :: bool

record recovery_lineage =
  jl_parent_session_id :: string
  jl_parent_correlation_id :: string
  jl_authorization_sha256 :: string
  jl_child_correlation_id :: string
  jl_child_session_id :: string
  jl_child_started :: bool

record recovery_inspection =
  jp_healthy :: bool
  jp_records :: u64
  jp_head_sha256 :: string
  jp_interrupted :: "interrupted_session list"
  jp_lineage :: "recovery_lineage list"
  jp_errors :: "string list"

text \<open>\<open>std::map\<close> iterates in the order of its keys; \<open>emplace\<close> leaves an existing entry.\<close>

record session_scan =
  sj_healthy :: bool
  sj_next_sequence :: u64
  sj_head_sha256 :: string
  sj_open :: "journal_record smap"
  sj_seen :: "string list"
  sj_used_correlations :: "string list"
  sj_lineages :: "recovery_lineage list"
  sj_errors :: "string list"

definition session_scan_start :: session_scan where
  "session_scan_start = \<lparr>sj_healthy = True, sj_next_sequence = 0, sj_head_sha256 = zero_hash, sj_open = [],
     sj_seen = [], sj_used_correlations = [], sj_lineages = [], sj_errors = []\<rparr>"

fun map_emplace :: "string \<Rightarrow> 'v \<Rightarrow> 'v smap \<Rightarrow> 'v smap" where
  "map_emplace k v [] = [(k, v)]"
| "map_emplace k v ((k', v') # m) =
     (if k = k' then (k', v') # m else if k < k' then (k, v) # (k', v') # m else (k', v') # map_emplace k v m)"

definition map_erase :: "string \<Rightarrow> 'v smap \<Rightarrow> 'v smap" where
  "map_erase k m = filter (\<lambda>x. fst x \<noteq> k) m"

definition set_emplace :: "string \<Rightarrow> string list \<Rightarrow> string list" where
  "set_emplace k s = (if k \<in> set s then s else k # s)"

definition kDojoPrefix :: string where "kDojoPrefix = ''guff:dojo:sha256:''"
definition kRecoveryDismissStatus :: string where "kRecoveryDismissStatus = ''RECOVERY_DISMISSED''"
definition kRecoveryRetryPrefix :: string where "kRecoveryRetryPrefix = ''RECOVERY_RETRY_AS_NEW_SESSION:''"
definition kMaxJournalLine :: nat where "kMaxJournalLine = 16384"

fun journal_kind_code :: "journal_kind \<Rightarrow> u32" where
  "journal_kind_code JK_Begin = 0"
| "journal_kind_code JK_Commit = 1"
| "journal_kind_code JK_Abort = 2"
| "journal_kind_code JK_RecoveryDismiss = 3"
| "journal_kind_code JK_RecoveryRetry = 4"

definition journal_kind_of_code :: "u32 \<Rightarrow> journal_kind" where
  "journal_kind_of_code n = [JK_Begin, JK_Commit, JK_Abort, JK_RecoveryDismiss, JK_RecoveryRetry] ! unat n"

section \<open>Validation\<close>

definition canonical_id :: "string \<Rightarrow> string \<Rightarrow> bool" where
  "canonical_id value pre \<longleftrightarrow> prefixed_sha256 pre value"

definition valid_correlation :: "string \<Rightarrow> bool" where
  "valid_correlation value \<longleftrightarrow> value \<noteq> [] \<and> length value \<le> 96 \<and>
     list_all (\<lambda>ch. token_char ch \<and> ch \<noteq> CHR ''/'') value"

definition recovery_child_from_status :: "string \<Rightarrow> string option" where
  "recovery_child_from_status status =
     (if take (length kRecoveryRetryPrefix) status \<noteq> kRecoveryRetryPrefix then None
      else let child = drop (length kRecoveryRetryPrefix) status in
        if valid_correlation child then Some child else None)"

definition valid_recorded_at :: "string \<Rightarrow> bool" where
  "valid_recorded_at s \<longleftrightarrow> s \<noteq> [] \<and> length s \<le> 128"

definition validate_begin :: "journal_begin \<Rightarrow> string list" where
  "validate_begin b =
     err (\<not> canonical_id (jb_session_id b) kSessionPrefix) ''session_id must be a canonical GOLF session identity'' @
     err (\<not> valid_correlation (jb_correlation_id b)) ''correlation_id must be a 1-96 byte token'' @
     err (\<not> is_sha256 (jb_request_sha256 b)) ''request_sha256 must be SHA-256'' @
     err (\<not> valid_recorded_at (jb_recorded_at b)) ''recorded_at_utc must be 1-128 bytes''"

definition validate_terminal :: "journal_terminal \<Rightarrow> string list" where
  "validate_terminal t =
     err (jt_kind t \<noteq> JK_Commit \<and> jt_kind t \<noteq> JK_Abort) ''terminal record kind must be COMMIT or ABORT'' @
     err (\<not> canonical_id (jt_session_id t) kSessionPrefix) ''session_id must be a canonical GOLF session identity'' @
     err (\<not> valid_correlation (jt_correlation_id t)) ''correlation_id must be a 1-96 byte token'' @
     err (\<not> is_sha256 (jt_request_sha256 t)) ''request_sha256 must be SHA-256'' @
     err (\<not> is_sha256 (jt_audit_sha256 t)) ''audit_sha256 must be SHA-256'' @
     err (jt_dojo_episode_id t \<noteq> [] \<and> \<not> canonical_id (jt_dojo_episode_id t) kDojoPrefix)
       ''dojo_episode_id must be empty or canonical DOJO identity'' @
     err (jt_terminal_status t = [] \<or> 128 < length (jt_terminal_status t)) ''terminal_status must be 1-128 bytes'' @
     err (\<not> valid_recorded_at (jt_recorded_at t)) ''recorded_at_utc must be 1-128 bytes''"

definition validate_recovery :: "journal_recovery \<Rightarrow> string list" where
  "validate_recovery v =
     err (jv_kind v \<noteq> JK_RecoveryDismiss \<and> jv_kind v \<noteq> JK_RecoveryRetry)
       ''recovery kind must be RECOVERY_DISMISS or RECOVERY_RETRY'' @
     err (\<not> canonical_id (jv_session_id v) kSessionPrefix) ''recovery session_id must be canonical'' @
     err (\<not> valid_correlation (jv_correlation_id v)) ''recovery correlation_id must be a 1-96 byte token'' @
     err (\<not> is_sha256 (jv_request_sha256 v)) ''recovery request_sha256 must be SHA-256'' @
     err (\<not> is_sha256 (jv_begin_record_sha256 v)) ''begin_record_sha256 must be SHA-256'' @
     err (\<not> is_sha256 (jv_authorization_sha256 v)) ''authorization_sha256 must be SHA-256'' @
     err (\<not> valid_recorded_at (jv_recorded_at v)) ''recorded_at_utc must be 1-128 bytes'' @
     (if jv_kind v = JK_RecoveryDismiss
      then err (jv_child_correlation_id v \<noteq> []) ''DISMISS cannot reserve a child correlation id''
      else err (\<not> valid_correlation (jv_child_correlation_id v))
             ''RETRY_AS_NEW_SESSION requires a valid child correlation id'' @
           err (jv_child_correlation_id v = jv_correlation_id v) ''recovery child correlation must be fresh'')"

section \<open>Records\<close>

definition canonical_journal_record :: "journal_record \<Rightarrow> string" where
  "canonical_journal_record r =
     show_u (jn_schema_version r) @ [NL] @ show_u (jn_sequence r) @ [NL] @ show_u (journal_kind_code (jn_kind r)) @ [NL] @
     jn_session_id r @ [NL] @ jn_correlation_id r @ [NL] @ jn_request_sha256 r @ [NL] @ jn_audit_sha256 r @ [NL] @
     jn_dojo_episode_id r @ [NL] @ jn_terminal_status r @ [NL] @ jn_recorded_at r @ [NL] @ jn_previous r"

definition journal_fields :: "journal_record \<Rightarrow> string list" where
  "journal_fields r =
     [show_u (jn_schema_version r), show_u (jn_sequence r), show_u (journal_kind_code (jn_kind r)),
      hex_encode (jn_session_id r), hex_encode (jn_correlation_id r), jn_request_sha256 r, dash (jn_audit_sha256 r),
      hex_encode (jn_dojo_episode_id r), hex_encode (jn_terminal_status r), hex_encode (jn_recorded_at r),
      jn_previous r, jn_record_sha256 r]"

definition serialize_journal_record :: "journal_record \<Rightarrow> string" where
  "serialize_journal_record r = ''J'' @ tab_join (journal_fields r)"

text \<open>The checks of \<open>deserialize\<close> once the fields are decoded; None means the record is returned.\<close>

definition journal_rejection :: "journal_record \<Rightarrow> string option" where
  "journal_rejection r =
     (if \<not> canonical_id (jn_session_id r) kSessionPrefix \<or> \<not> valid_correlation (jn_correlation_id r) \<or>
         \<not> is_sha256 (jn_request_sha256 r) \<or> \<not> is_sha256 (jn_previous r) \<or> \<not> is_sha256 (jn_record_sha256 r) \<or>
         \<not> valid_recorded_at (jn_recorded_at r)
      then Some ''journal record failed common validation''
      else case (case jn_kind r of
          JK_Begin \<Rightarrow>
            if jn_audit_sha256 r \<noteq> [] \<or> jn_dojo_episode_id r \<noteq> [] \<or> jn_terminal_status r \<noteq> []
            then Some ''BEGIN record contains terminal-only fields'' else None
        | JK_RecoveryDismiss \<Rightarrow>
            if \<not> is_sha256 (jn_audit_sha256 r) \<or> jn_dojo_episode_id r \<noteq> [] \<or>
               jn_terminal_status r \<noteq> kRecoveryDismissStatus
            then Some ''recovery DISMISS record failed validation'' else None
        | JK_RecoveryRetry \<Rightarrow>
            (let child = recovery_child_from_status (jn_terminal_status r) in
             if \<not> is_sha256 (jn_audit_sha256 r) \<or> jn_dojo_episode_id r \<noteq> [] \<or> child = None \<or>
                child = Some (jn_correlation_id r)
             then Some ''recovery RETRY record failed validation'' else None)
        | _ \<Rightarrow>
            if \<not> is_sha256 (jn_audit_sha256 r) \<or> jn_terminal_status r = [] \<or> 128 < length (jn_terminal_status r) \<or>
               (jn_dojo_episode_id r \<noteq> [] \<and> \<not> canonical_id (jn_dojo_episode_id r) kDojoPrefix)
            then Some ''terminal journal record failed validation'' else None) of
        Some error \<Rightarrow> Some error
      | None \<Rightarrow>
          if jn_record_sha256 r \<noteq> sha256 (canonical_journal_record r) then Some ''journal record identity mismatch''
          else None)"

definition deserialize_journal_record :: "string \<Rightarrow> string + journal_record" where
  "deserialize_journal_record line =
     (if line = [] \<or> kMaxJournalLine < length line then Inl ''journal record is empty or exceeds line budget''
      else let fs = split_tabs line in
        if length fs \<noteq> 13 \<or> fs ! 0 \<noteq> ''J'' then Inl ''invalid journal field count or record marker''
        else case (parse_unsigned (fs ! 1) :: u32 option, parse_unsigned (fs ! 2) :: u64 option,
                   parse_unsigned (fs ! 3) :: u32 option) of
          (Some schema, Some sequence, Some kind) \<Rightarrow>
            if (schema \<noteq> 1 \<and> schema \<noteq> 2) \<or> (schema = 1 \<and> 2 < kind) \<or> (schema = 2 \<and> 4 < kind)
            then Inl ''unsupported journal schema or record kind''
            else (case (hex_decode (fs ! 4), hex_decode (fs ! 5), hex_decode (fs ! 8), hex_decode (fs ! 9),
                        hex_decode (fs ! 10)) of
              (Some session, Some correlation, Some dojo, Some status, Some recorded) \<Rightarrow>
                (let r = \<lparr>jn_schema_version = schema, jn_sequence = sequence, jn_kind = journal_kind_of_code kind,
                       jn_session_id = session, jn_correlation_id = correlation, jn_request_sha256 = fs ! 6,
                       jn_audit_sha256 = undash (fs ! 7), jn_dojo_episode_id = dojo, jn_terminal_status = status,
                       jn_recorded_at = recorded, jn_previous = fs ! 11, jn_record_sha256 = fs ! 12\<rparr>
                 in case journal_rejection r of Some error \<Rightarrow> Inl error | None \<Rightarrow> Inr r)
            | _ \<Rightarrow> Inl ''invalid hex-encoded journal field'')
        | _ \<Rightarrow> Inl ''invalid numeric journal field'')"

section \<open>Scanning\<close>

text \<open>The first reservation of the correlation that has not started.\<close>

fun start_child :: "string \<Rightarrow> string \<Rightarrow> recovery_lineage list \<Rightarrow> recovery_lineage list" where
  "start_child correlation session [] = []"
| "start_child correlation session (l # ls) =
     (if \<not> jl_child_started l \<and> jl_child_correlation_id l = correlation
      then l\<lparr>jl_child_started := True, jl_child_session_id := session\<rparr> # ls
      else l # start_child correlation session ls)"

definition reserves :: "string \<Rightarrow> recovery_lineage \<Rightarrow> bool" where
  "reserves correlation l \<longleftrightarrow> \<not> jl_child_started l \<and> jl_child_correlation_id l = correlation"

definition apply_begin :: "journal_record \<Rightarrow> session_scan \<Rightarrow> string + session_scan" where
  "apply_begin r s =
     (if jn_session_id r \<in> set (sj_seen s) then Inl ''duplicate BEGIN for immutable session id''
      else Inr (s\<lparr>sj_seen := set_emplace (jn_session_id r) (sj_seen s),
             sj_used_correlations := set_emplace (jn_correlation_id r) (sj_used_correlations s),
             sj_open := map_emplace (jn_session_id r) r (sj_open s),
             sj_lineages := start_child (jn_correlation_id r) (jn_session_id r) (sj_lineages s)\<rparr>))"

definition apply_terminal :: "journal_record \<Rightarrow> session_scan \<Rightarrow> string + session_scan" where
  "apply_terminal r s =
     (case map_of (sj_open s) (jn_session_id r) of
        None \<Rightarrow> Inl ''terminal record has no matching open BEGIN''
      | Some b \<Rightarrow>
          if jn_correlation_id b \<noteq> jn_correlation_id r \<or> jn_request_sha256 b \<noteq> jn_request_sha256 r
          then Inl ''terminal record does not match BEGIN contract''
          else Inr (s\<lparr>sj_open := map_erase (jn_session_id r) (sj_open s)\<rparr>))"

definition lineage_of :: "journal_record \<Rightarrow> string \<Rightarrow> recovery_lineage" where
  "lineage_of r child =
     \<lparr>jl_parent_session_id = jn_session_id r, jl_parent_correlation_id = jn_correlation_id r,
      jl_authorization_sha256 = jn_audit_sha256 r, jl_child_correlation_id = child, jl_child_session_id = [],
      jl_child_started = False\<rparr>"

definition apply_recovery :: "journal_record \<Rightarrow> session_scan \<Rightarrow> string + session_scan" where
  "apply_recovery r s =
     (case map_of (sj_open s) (jn_session_id r) of
        None \<Rightarrow> Inl ''recovery record has no matching interrupted BEGIN''
      | Some b \<Rightarrow>
          if jn_correlation_id b \<noteq> jn_correlation_id r \<or> jn_request_sha256 b \<noteq> jn_request_sha256 r
          then Inl ''recovery record does not match BEGIN contract''
          else if jn_kind r \<noteq> JK_RecoveryRetry
          then Inr (s\<lparr>sj_open := map_erase (jn_session_id r) (sj_open s)\<rparr>)
          else (case recovery_child_from_status (jn_terminal_status r) of
            None \<Rightarrow> Inl ''recovery child correlation is invalid or already used''
          | Some child \<Rightarrow>
              if child \<in> set (sj_used_correlations s) then Inl ''recovery child correlation is invalid or already used''
              else if list_ex (\<lambda>l. jl_child_correlation_id l = child) (sj_lineages s)
              then Inl ''recovery child correlation reserved more than once''
              else Inr (s\<lparr>sj_lineages := sj_lineages s @ [lineage_of r child],
                     sj_open := map_erase (jn_session_id r) (sj_open s)\<rparr>)))"

definition apply_journal_record :: "journal_record \<Rightarrow> session_scan \<Rightarrow> string + session_scan" where
  "apply_journal_record r s =
     (case jn_kind r of
        JK_Begin \<Rightarrow> apply_begin r s
      | JK_Commit \<Rightarrow> apply_terminal r s
      | JK_Abort \<Rightarrow> apply_terminal r s
      | _ \<Rightarrow> apply_recovery r s)"

definition session_scan_failed :: "string \<Rightarrow> session_scan \<Rightarrow> session_scan" where
  "session_scan_failed error s = s\<lparr>sj_healthy := False, sj_errors := sj_errors s @ [error]\<rparr>"

fun scan_session_lines :: "string list \<Rightarrow> session_scan \<Rightarrow> session_scan" where
  "scan_session_lines [] s = s"
| "scan_session_lines (line # rest) s =
     (case deserialize_journal_record (strip_cr line) of
        Inl error \<Rightarrow> session_scan_failed (''record '' @ show_u (sj_next_sequence s) @ '': '' @ error) s
      | Inr r \<Rightarrow>
          if jn_sequence r \<noteq> sj_next_sequence s then session_scan_failed ''journal sequence discontinuity'' s
          else if jn_previous r \<noteq> sj_head_sha256 s then session_scan_failed ''journal hash-chain discontinuity'' s
          else (case apply_journal_record r s of
            Inl error \<Rightarrow> session_scan_failed error s
          | Inr s' \<Rightarrow>
              scan_session_lines rest
                (s'\<lparr>sj_head_sha256 := jn_record_sha256 r, sj_next_sequence := sj_next_sequence s + 1\<rparr>)))"

definition scan_journal :: "read_io \<Rightarrow> string option \<Rightarrow> session_scan" where
  "scan_journal rio file =
     (if rio = Read_Inspect_Fail then session_scan_failed ''failed to inspect journal path'' session_scan_start
      else case file of
        None \<Rightarrow> session_scan_start
      | Some content \<Rightarrow>
          if rio = Read_Open_Fail
          then session_scan_failed ''failed to open journal for recovery inspection'' session_scan_start
          else scan_session_lines (getlines content) session_scan_start)"

section \<open>Writing\<close>

definition jw_fail :: "journal_status \<Rightarrow> string list \<Rightarrow> journal_write_result" where
  "jw_fail status errors = \<lparr>jw_status = status, jw_record_sha256 = [], jw_errors = errors\<rparr>"

definition jw_ok :: "journal_write_result \<Rightarrow> bool" where
  "jw_ok r \<longleftrightarrow> jw_status r = JS_Ok"

definition seal_journal_record :: "journal_record \<Rightarrow> journal_record" where
  "seal_journal_record r = r\<lparr>jn_record_sha256 := sha256 (canonical_journal_record r)\<rparr>"

text \<open>A stream on the empty path does not open.\<close>

definition append_journal_record ::
    "string \<Rightarrow> io \<Rightarrow> journal_record \<Rightarrow> string option \<Rightarrow> journal_write_result \<times> string option" where
  "append_journal_record path io record file =
     (let r = seal_journal_record record; line = serialize_journal_record r in
      if has_parent path \<and> io = Dir_Fail then (jw_fail JS_StorageError [''failed to create journal parent directory''], file)
      else if kMaxJournalLine < length line
      then (jw_fail JS_Invalid [''serialized journal record exceeds line budget''], file)
      else if path = [] \<or> io = Open_Fail then (jw_fail JS_StorageError [''failed to open journal for append''], file)
      else case io of
        Write_Fail n \<Rightarrow> (jw_fail JS_StorageError [''journal append/flush failed''], file_append file (take n (line @ [NL])))
      | _ \<Rightarrow> (\<lparr>jw_status = JS_Ok, jw_record_sha256 = jn_record_sha256 r, jw_errors = []\<rparr>,
          file_append file (line @ [NL])))"

definition begin_record :: "journal_begin \<Rightarrow> session_scan \<Rightarrow> journal_record" where
  "begin_record b s =
     \<lparr>jn_schema_version = 2, jn_sequence = sj_next_sequence s, jn_kind = JK_Begin, jn_session_id = jb_session_id b,
      jn_correlation_id = jb_correlation_id b, jn_request_sha256 = jb_request_sha256 b, jn_audit_sha256 = [],
      jn_dojo_episode_id = [], jn_terminal_status = [], jn_recorded_at = jb_recorded_at b,
      jn_previous = sj_head_sha256 s, jn_record_sha256 = []\<rparr>"

definition session_begin ::
    "string \<Rightarrow> read_io \<Rightarrow> io \<Rightarrow> journal_begin \<Rightarrow> string option \<Rightarrow> journal_write_result \<times> string option" where
  "session_begin path rio io b file =
     (let errors = validate_begin b; s = scan_journal rio file in
      if errors \<noteq> [] then (jw_fail JS_Invalid errors, file)
      else if \<not> sj_healthy s then (jw_fail JS_IntegrityError (sj_errors s), file)
      else if jb_session_id b \<in> set (sj_seen s)
      then (jw_fail JS_DuplicateSession [''immutable session id already exists in journal''], file)
      else if list_ex (reserves (jb_correlation_id b)) (sj_lineages s)
      then (jw_fail JS_RecoveryNotAuthorized [''reserved recovery child correlation requires begin_recovery_child''], file)
      else append_journal_record path io (begin_record b s) file)"

definition begin_recovery_child ::
    "string \<Rightarrow> read_io \<Rightarrow> io \<Rightarrow> journal_begin \<Rightarrow> string \<Rightarrow> string \<Rightarrow> string option \<Rightarrow> journal_write_result \<times> string option" where
  "begin_recovery_child path rio io b parent authorization file =
     (let errors = validate_begin b @
            err (\<not> canonical_id parent kSessionPrefix) ''parent_session_id must be canonical'' @
            err (\<not> is_sha256 authorization) ''authorization_sha256 must be SHA-256'';
          s = scan_journal rio file in
      if errors \<noteq> [] then (jw_fail JS_Invalid errors, file)
      else if \<not> sj_healthy s then (jw_fail JS_IntegrityError (sj_errors s), file)
      else if jb_session_id b \<in> set (sj_seen s)
      then (jw_fail JS_DuplicateSession [''immutable session id already exists in journal''], file)
      else if \<not> list_ex (\<lambda>l. reserves (jb_correlation_id b) l \<and> jl_parent_session_id l = parent \<and>
               jl_authorization_sha256 l = authorization) (sj_lineages s)
      then (jw_fail JS_RecoveryNotAuthorized [''no matching fresh recovery authorization for child BEGIN''], file)
      else append_journal_record path io (begin_record b s) file)"

definition terminal_record :: "journal_terminal \<Rightarrow> session_scan \<Rightarrow> journal_record" where
  "terminal_record t s =
     \<lparr>jn_schema_version = 2, jn_sequence = sj_next_sequence s, jn_kind = jt_kind t, jn_session_id = jt_session_id t,
      jn_correlation_id = jt_correlation_id t, jn_request_sha256 = jt_request_sha256 t, jn_audit_sha256 = jt_audit_sha256 t,
      jn_dojo_episode_id = jt_dojo_episode_id t, jn_terminal_status = jt_terminal_status t,
      jn_recorded_at = jt_recorded_at t, jn_previous = sj_head_sha256 s, jn_record_sha256 = []\<rparr>"

definition session_finish ::
    "string \<Rightarrow> read_io \<Rightarrow> io \<Rightarrow> journal_terminal \<Rightarrow> string option \<Rightarrow> journal_write_result \<times> string option" where
  "session_finish path rio io t file =
     (let errors = validate_terminal t; s = scan_journal rio file in
      if errors \<noteq> [] then (jw_fail JS_Invalid errors, file)
      else if \<not> sj_healthy s then (jw_fail JS_IntegrityError (sj_errors s), file)
      else case map_of (sj_open s) (jt_session_id t) of
        None \<Rightarrow> (jw_fail JS_SessionNotOpen [''session is not open in journal''], file)
      | Some b \<Rightarrow>
          if jn_correlation_id b \<noteq> jt_correlation_id t \<or> jn_request_sha256 b \<noteq> jt_request_sha256 t
          then (jw_fail JS_Invalid [''terminal does not match the open BEGIN contract''], file)
          else append_journal_record path io (terminal_record t s) file)"

definition recovery_record :: "journal_recovery \<Rightarrow> session_scan \<Rightarrow> journal_record" where
  "recovery_record v s =
     \<lparr>jn_schema_version = 2, jn_sequence = sj_next_sequence s, jn_kind = jv_kind v, jn_session_id = jv_session_id v,
      jn_correlation_id = jv_correlation_id v, jn_request_sha256 = jv_request_sha256 v,
      jn_audit_sha256 = jv_authorization_sha256 v, jn_dojo_episode_id = [],
      jn_terminal_status = (if jv_kind v = JK_RecoveryDismiss then kRecoveryDismissStatus
        else kRecoveryRetryPrefix @ jv_child_correlation_id v),
      jn_recorded_at = jv_recorded_at v, jn_previous = sj_head_sha256 s, jn_record_sha256 = []\<rparr>"

definition session_recover ::
    "string \<Rightarrow> read_io \<Rightarrow> io \<Rightarrow> journal_recovery \<Rightarrow> string option \<Rightarrow> journal_write_result \<times> string option" where
  "session_recover path rio io v file =
     (let errors = validate_recovery v; s = scan_journal rio file in
      if errors \<noteq> [] then (jw_fail JS_Invalid errors, file)
      else if \<not> sj_healthy s then (jw_fail JS_IntegrityError (sj_errors s), file)
      else case map_of (sj_open s) (jv_session_id v) of
        None \<Rightarrow> (jw_fail JS_SessionNotOpen [''recovery parent is not interrupted/open''], file)
      | Some b \<Rightarrow>
          if jn_correlation_id b \<noteq> jv_correlation_id v \<or> jn_request_sha256 b \<noteq> jv_request_sha256 v \<or>
             jn_record_sha256 b \<noteq> jv_begin_record_sha256 v
          then (jw_fail JS_Invalid [''recovery authorization does not match interrupted BEGIN identity''], file)
          else if jv_kind v = JK_RecoveryRetry \<and> jv_child_correlation_id v \<in> set (sj_used_correlations s)
          then (jw_fail JS_Invalid [''recovery child correlation has already been used''], file)
          else if jv_kind v = JK_RecoveryRetry \<and>
             list_ex (\<lambda>l. jl_child_correlation_id l = jv_child_correlation_id v) (sj_lineages s)
          then (jw_fail JS_Invalid [''recovery child correlation is already reserved''], file)
          else append_journal_record path io (recovery_record v s) file)"

section \<open>Inspection\<close>

definition interrupted_of :: "string \<times> journal_record \<Rightarrow> interrupted_session" where
  "interrupted_of x =
     \<lparr>jx_session_id = fst x, jx_correlation_id = jn_correlation_id (snd x),
      jx_request_sha256 = jn_request_sha256 (snd x), jx_begin_record_sha256 = jn_record_sha256 (snd x),
      jx_recorded_at = jn_recorded_at (snd x), jx_replay_authorized = False, jx_requires_human_decision = True\<rparr>"

definition journal_inspect :: "read_io \<Rightarrow> string option \<Rightarrow> recovery_inspection" where
  "journal_inspect rio file =
     (let s = scan_journal rio file in
      \<lparr>jp_healthy = sj_healthy s, jp_records = sj_next_sequence s, jp_head_sha256 = sj_head_sha256 s,
       jp_interrupted = map interrupted_of (sj_open s), jp_lineage = sj_lineages s, jp_errors = sj_errors s\<rparr>)"

fun journal_kind_to_string :: "journal_kind \<Rightarrow> string" where
  "journal_kind_to_string JK_Begin = ''BEGIN''"
| "journal_kind_to_string JK_Commit = ''COMMIT''"
| "journal_kind_to_string JK_Abort = ''ABORT''"
| "journal_kind_to_string JK_RecoveryDismiss = ''RECOVERY_DISMISS''"
| "journal_kind_to_string JK_RecoveryRetry = ''RECOVERY_RETRY_AS_NEW_SESSION''"

fun journal_status_to_string :: "journal_status \<Rightarrow> string" where
  "journal_status_to_string JS_Ok = ''OK''"
| "journal_status_to_string JS_DuplicateSession = ''DUPLICATE_SESSION''"
| "journal_status_to_string JS_SessionNotOpen = ''SESSION_NOT_OPEN''"
| "journal_status_to_string JS_RecoveryNotAuthorized = ''RECOVERY_NOT_AUTHORIZED''"
| "journal_status_to_string JS_Invalid = ''INVALID''"
| "journal_status_to_string JS_IntegrityError = ''INTEGRITY_ERROR''"
| "journal_status_to_string JS_StorageError = ''STORAGE_ERROR''"

end
