(* ===== verification/Session_Journal_Scan.thy ===== *)
theory Session_Journal_Scan
  imports Session_Journal
begin

text \<open>
  What a scan of the session journal establishes: an accepted file is a log of records, each of
  which fits the state the earlier ones left (\<open>session_log\<close>), and the state is what the log says.
\<close>

section \<open>The scan as a chain of partial steps\<close>

definition advance_session :: "journal_record \<Rightarrow> session_scan \<Rightarrow> session_scan" where
  "advance_session r s = s\<lparr>sj_head_sha256 := jn_record_sha256 r, sj_next_sequence := sj_next_sequence s + 1\<rparr>"

definition session_step :: "string \<Rightarrow> session_scan \<Rightarrow> session_scan option" where
  "session_step line s =
     (case deserialize_journal_record (strip_cr line) of
        Inl _ \<Rightarrow> None
      | Inr r \<Rightarrow>
          if jn_sequence r \<noteq> sj_next_sequence s \<or> jn_previous r \<noteq> sj_head_sha256 s then None
          else (case apply_journal_record r s of Inl _ \<Rightarrow> None | Inr u \<Rightarrow> Some (advance_session r u)))"

lemma session_scan_failed_unhealthy [simp]: "\<not> sj_healthy (session_scan_failed e s)"
  by (simp add: session_scan_failed_def)

lemmas apply_defs = apply_journal_record_def apply_begin_def apply_terminal_def apply_recovery_def

lemma apply_frame:
  assumes "apply_journal_record r s = Inr u"
  shows "sj_healthy u = sj_healthy s" "sj_next_sequence u = sj_next_sequence s" "sj_head_sha256 u = sj_head_sha256 s"
    "sj_errors u = sj_errors s"
  using assms by (auto simp: apply_defs split: if_splits option.splits journal_kind.splits)

lemma scan_session_steps:
  "sj_healthy s \<Longrightarrow>
   run_lines session_step ls s = (if sj_healthy (scan_session_lines ls s) then Some (scan_session_lines ls s) else None)"
proof (induction ls arbitrary: s)
  case (Cons l ls)
  show ?case
  proof (cases "deserialize_journal_record (strip_cr l)")
    case (Inl e)
    then show ?thesis by (simp add: session_step_def)
  next
    case (Inr r)
    note r = this
    show ?thesis
    proof (cases "apply_journal_record r s")
      case (Inl e)
      with r show ?thesis by (simp add: session_step_def)
    next
      case (Inr u)
      note f = apply_frame [OF Inr]
      have "sj_healthy (advance_session r u)" using f(1) Cons.prems by (simp add: advance_session_def)
      from Cons.IH [OF this] show ?thesis
        using r Inr f by (auto simp: session_step_def advance_session_def)
    qed
  qed
qed simp

lemma scan_journal_healthy:
  "sj_healthy (scan_journal rio file) \<Longrightarrow>
   run_lines session_step (file_lines file) session_scan_start = Some (scan_journal rio file)"
  using scan_session_steps [of session_scan_start "file_lines file"]
  by (auto simp: scan_journal_def file_lines_def session_scan_start_def split: if_splits option.splits)

lemma scan_journal_accepted:
  "run_lines session_step (file_lines file) session_scan_start = Some t \<Longrightarrow> scan_journal Read_Ok file = t \<and> sj_healthy t"
  using scan_session_steps [of session_scan_start "file_lines file"]
  by (auto simp: scan_journal_def file_lines_def session_scan_start_def split: if_splits option.splits)

lemma session_stepE:
  assumes "session_step l s = Some t"
  obtains r u where "deserialize_journal_record (strip_cr l) = Inr r" "jn_sequence r = sj_next_sequence s"
    "jn_previous r = sj_head_sha256 s" "apply_journal_record r s = Inr u" "t = advance_session r u"
  using assms that by (auto simp: session_step_def split: if_splits sum.splits)

section \<open>Lines\<close>

lemma deserializedE:
  assumes "deserialize_journal_record l = Inr r"
  shows "length (split_tabs l) = 13" "jn_record_sha256 r = split_tabs l ! 12" "journal_rejection r = None"
proof -
  let ?fs = "split_tabs l"
  from assms show shape: "length ?fs = 13"
    by (auto simp: deserialize_journal_record_def Let_def split: if_splits)
  from assms obtain schema sequence kind where
    num: "parse_unsigned (?fs ! 1) = Some (schema :: u32)" "parse_unsigned (?fs ! 2) = Some (sequence :: u64)"
      "parse_unsigned (?fs ! 3) = Some (kind :: u32)"
    by (auto simp: deserialize_journal_record_def Let_def split: if_splits option.splits)
  from assms num obtain session correlation dojo status recorded where
    hex: "hex_decode (?fs ! 4) = Some session" "hex_decode (?fs ! 5) = Some correlation" "hex_decode (?fs ! 8) = Some dojo"
      "hex_decode (?fs ! 9) = Some status" "hex_decode (?fs ! 10) = Some recorded"
    by (auto simp: deserialize_journal_record_def Let_def split: if_splits option.splits)
  from assms num hex show "journal_rejection r = None" "jn_record_sha256 r = ?fs ! 12"
    by (auto simp: deserialize_journal_record_def Let_def split: if_splits option.splits)
qed

lemma accepted_fields:
  assumes "journal_rejection r = None"
  shows "canonical_id (jn_session_id r) kSessionPrefix" "valid_correlation (jn_correlation_id r)" "is_sha256 (jn_request_sha256 r)"
    "is_sha256 (jn_previous r)" "is_sha256 (jn_record_sha256 r)" "jn_record_sha256 r = sha256 (canonical_journal_record r)"
  using assms by (auto simp: journal_rejection_def split: if_splits option.splits)

lemma deserialized_shaped: "deserialize_journal_record l = Inr r \<Longrightarrow> shaped 13 l"
  using deserializedE [of l r] accepted_fields(5) [of r] by (simp add: shaped_def last_conv_nth)

interpretation ses: line_scan session_step session_scan_start 13
proof
  show "shaped 13 (strip_cr l)" if "session_step l s = Some t" for l s t
    using that by (auto elim!: session_stepE intro: deserialized_shaped)
  show "session_step l s = session_step k s" if "strip_cr l = strip_cr k" for l k s
    using that by (simp add: session_step_def)
qed

definition journal_writable :: "journal_record \<Rightarrow> bool" where
  "journal_writable r \<longleftrightarrow> jn_schema_version r = 2 \<and>
     list_all plain_field [jn_request_sha256 r, jn_audit_sha256 r, jn_previous r, jn_record_sha256 r]"

lemma journal_kind_codes [simp]: "journal_kind_of_code (journal_kind_code k) = k" "\<not> 4 < journal_kind_code k"
  by (cases k; simp add: journal_kind_of_code_def)+

lemma journal_fields_clean: "journal_writable r \<Longrightarrow> \<forall>f \<in> set (journal_fields r). TAB \<notin> set f \<and> NL \<notin> set f"
  using plain_dash by (auto simp: journal_writable_def journal_fields_def plain_field_def)

lemma split_journal_record: "journal_writable r \<Longrightarrow> split_tabs (serialize_journal_record r) = ''J'' # journal_fields r"
  unfolding serialize_journal_record_def by (rule split_tabs_join) (simp add: journal_fields_clean)

lemma journal_line_no_NL: "journal_writable r \<Longrightarrow> NL \<notin> set (serialize_journal_record r)"
  using journal_fields_clean [of r] by (auto simp: serialize_journal_record_def tab_join_def)

lemma journal_line_head [simp]: "serialize_journal_record r \<noteq> []" "hd (serialize_journal_record r) = CHR ''J''"
  by (simp_all add: serialize_journal_record_def)

lemma read_written_record:
  assumes "journal_writable r" "length (serialize_journal_record r) \<le> kMaxJournalLine"
  shows "deserialize_journal_record (serialize_journal_record r) = (case journal_rejection r of Some e \<Rightarrow> Inl e | None \<Rightarrow> Inr r)"
proof -
  have w: "jn_schema_version r = 2" "undash (dash (jn_audit_sha256 r)) = jn_audit_sha256 r"
    using assms(1) plain_dash by (simp_all add: journal_writable_def)
  have rec: "\<lparr>jn_schema_version = 2, jn_sequence = jn_sequence r, jn_kind = jn_kind r, jn_session_id = jn_session_id r,
      jn_correlation_id = jn_correlation_id r, jn_request_sha256 = jn_request_sha256 r, jn_audit_sha256 = jn_audit_sha256 r,
      jn_dojo_episode_id = jn_dojo_episode_id r, jn_terminal_status = jn_terminal_status r,
      jn_recorded_at = jn_recorded_at r, jn_previous = jn_previous r, jn_record_sha256 = jn_record_sha256 r\<rparr> = r"
    using w(1) by (cases r) simp
  show ?thesis
    using assms(2) by (simp add: deserialize_journal_record_def split_journal_record [OF assms(1)] journal_fields_def w rec)
qed

lemma journal_shaped: "journal_writable r \<Longrightarrow> is_sha256 (jn_record_sha256 r) \<Longrightarrow> shaped 13 (serialize_journal_record r)"
  by (simp add: shaped_def split_journal_record journal_fields_def)

lemma journal_sealed:
  "journal_writable r \<Longrightarrow> journal_writable (seal_journal_record r)" "is_sha256 (jn_record_sha256 (seal_journal_record r))"
  using plain_sha [OF is_sha256_sha256] by (auto simp: journal_writable_def seal_journal_record_def)

section \<open>Logs\<close>

inductive session_log :: "journal_record list \<Rightarrow> session_scan \<Rightarrow> bool" where
  log_Nil: "session_log [] session_scan_start"
| log_snoc: "session_log rs s \<Longrightarrow> jn_sequence r = sj_next_sequence s \<Longrightarrow> jn_previous r = sj_head_sha256 s \<Longrightarrow>
    journal_rejection r = None \<Longrightarrow> apply_journal_record r s = Inr u \<Longrightarrow> session_log (rs @ [r]) (advance_session r u)"

definition line_records :: "string list \<Rightarrow> journal_record list" where
  "line_records ls = concat (map (\<lambda>l. case deserialize_journal_record (strip_cr l) of Inl _ \<Rightarrow> [] | Inr r \<Rightarrow> [r]) ls)"

definition file_records :: "string option \<Rightarrow> journal_record list" where
  "file_records file = line_records (file_lines file)"

lemma scanned_log_from:
  "session_log rs s \<Longrightarrow> run_lines session_step ls s = Some t \<Longrightarrow> session_log (rs @ line_records ls) t"
proof (induction ls arbitrary: rs s)
  case (Cons l ls)
  from Cons.prems(2) obtain v where v: "session_step l s = Some v" "run_lines session_step ls v = Some t"
    by (auto split: option.splits)
  from v(1) obtain r u where r: "deserialize_journal_record (strip_cr l) = Inr r" "jn_sequence r = sj_next_sequence s"
    "jn_previous r = sj_head_sha256 s" "apply_journal_record r s = Inr u" "v = advance_session r u" by (rule session_stepE)
  have "session_log (rs @ [r]) v"
    using log_snoc [OF Cons.prems(1) r(2,3) deserializedE(3) [OF r(1)] r(4)] r(5) by simp
  from Cons.IH [OF this v(2)] r(1) show ?case by (simp add: line_records_def)
qed (simp add: line_records_def)

lemma scanned_log: "sj_healthy (scan_journal rio file) \<Longrightarrow> session_log (file_records file) (scan_journal rio file)"
  using scanned_log_from [OF log_Nil] scan_journal_healthy by (fastforce simp: file_records_def)

section \<open>The maps\<close>

definition map_sorted :: "'v smap \<Rightarrow> bool" where
  "map_sorted m \<longleftrightarrow> sorted_wrt (<) (map fst m)"

lemma map_emplace_keys: "fst ` set (map_emplace k v m) = insert k (fst ` set m)"
  by (induction m rule: map_emplace.induct) auto

lemma map_emplace_sorted: "map_sorted m \<Longrightarrow> map_sorted (map_emplace k v m)"
proof (induction k v m rule: map_emplace.induct)
  case (2 k v k' v' m)
  then show ?case
    using map_emplace_keys [of k v m] by (auto simp: map_sorted_def)
qed (simp add: map_sorted_def)

lemma map_emplace_lookup:
  "\<not> contains m k \<Longrightarrow> map_of (map_emplace k v m) = (map_of m)(k \<mapsto> v)"
  by (induction k v m rule: map_emplace.induct) (auto split: if_splits)

lemma map_erase_sorted: "map_sorted m \<Longrightarrow> map_sorted (map_erase k m)"
  unfolding map_sorted_def map_erase_def by (induction m) auto

lemma map_erase_lookup: "map_of (map_erase k m) = (map_of m)(k := None)"
  by (induction m) (auto simp: map_erase_def fun_eq_iff)

lemma set_emplace_set [simp]: "set (set_emplace k s) = insert k (set s)"
  by (auto simp: set_emplace_def)

section \<open>What a log says\<close>

definition is_begin :: "journal_record \<Rightarrow> bool" where
  "is_begin r \<longleftrightarrow> jn_kind r = JK_Begin"

lemma apply_cases:
  assumes "apply_journal_record r s = Inr u"
  obtains
    (opened) "is_begin r" "jn_session_id r \<notin> set (sj_seen s)"
      "u = s\<lparr>sj_seen := set_emplace (jn_session_id r) (sj_seen s),
         sj_used_correlations := set_emplace (jn_correlation_id r) (sj_used_correlations s),
         sj_open := map_emplace (jn_session_id r) r (sj_open s),
         sj_lineages := start_child (jn_correlation_id r) (jn_session_id r) (sj_lineages s)\<rparr>"
  | (close) b where "\<not> is_begin r" "jn_kind r \<noteq> JK_RecoveryRetry" "map_of (sj_open s) (jn_session_id r) = Some b"
      "jn_correlation_id b = jn_correlation_id r" "jn_request_sha256 b = jn_request_sha256 r"
      "u = s\<lparr>sj_open := map_erase (jn_session_id r) (sj_open s)\<rparr>"
  | (retry) b child where "\<not> is_begin r" "jn_kind r = JK_RecoveryRetry" "map_of (sj_open s) (jn_session_id r) = Some b"
      "jn_correlation_id b = jn_correlation_id r" "jn_request_sha256 b = jn_request_sha256 r"
      "recovery_child_from_status (jn_terminal_status r) = Some child" "child \<notin> set (sj_used_correlations s)"
      "\<forall>l \<in> set (sj_lineages s). jl_child_correlation_id l \<noteq> child"
      "u = s\<lparr>sj_lineages := sj_lineages s @ [lineage_of r child], sj_open := map_erase (jn_session_id r) (sj_open s)\<rparr>"
proof (cases "jn_kind r")
  case JK_Begin
  with assms opened show thesis by (auto simp: apply_defs is_begin_def split: if_splits)
next
  case JK_RecoveryRetry
  with assms retry show thesis by (auto simp: apply_defs is_begin_def list_ex_iff split: if_splits option.splits)
qed (use assms close in \<open>auto simp: apply_defs is_begin_def split: if_splits option.splits\<close>)

text \<open>The state a log leaves.\<close>

definition log_inv :: "journal_record list \<Rightarrow> session_scan \<Rightarrow> bool" where
  "log_inv rs s \<longleftrightarrow>
     set (sj_seen s) = jn_session_id ` {r \<in> set rs. is_begin r} \<and>
     set (sj_used_correlations s) = jn_correlation_id ` {r \<in> set rs. is_begin r} \<and>
     map_sorted (sj_open s) \<and>
     (\<forall>i b. map_of (sj_open s) i = Some b \<longleftrightarrow>
        b \<in> set rs \<and> is_begin b \<and> jn_session_id b = i \<and> (\<forall>c \<in> set rs. \<not> is_begin c \<longrightarrow> jn_session_id c \<noteq> i))"

lemma log_inv_begin:
  assumes "log_inv rs s" "is_begin r" "jn_session_id r \<notin> set (sj_seen s)"
    and closed: "\<And>c. c \<in> set rs \<Longrightarrow> \<not> is_begin c \<Longrightarrow> jn_session_id c \<in> set (sj_seen s)"
  shows "log_inv (rs @ [r]) (s\<lparr>sj_seen := set_emplace (jn_session_id r) (sj_seen s),
     sj_used_correlations := set_emplace (jn_correlation_id r) (sj_used_correlations s),
     sj_open := map_emplace (jn_session_id r) r (sj_open s), sj_lineages := ls\<rparr>)"
proof -
  have seen: "jn_session_id b \<in> set (sj_seen s)" if "b \<in> set rs" "is_begin b" for b
    using assms(1) that by (auto simp: log_inv_def)
  have lookup: "map_of (sj_open s) i = Some b \<longleftrightarrow>
      b \<in> set rs \<and> is_begin b \<and> jn_session_id b = i \<and> (\<forall>c \<in> set rs. \<not> is_begin c \<longrightarrow> jn_session_id c \<noteq> i)" for i b
    using assms(1) by (simp add: log_inv_def)
  have other: "jn_session_id c \<noteq> jn_session_id r" if "c \<in> set rs" for c
    using that seen [of c] closed [of c] assms(3) by (cases "is_begin c") auto
  have new: "map_of (sj_open s) (jn_session_id r) = None"
    using lookup [of "jn_session_id r"] other by (cases "map_of (sj_open s) (jn_session_id r)") auto
  have "map_of (map_emplace (jn_session_id r) r (sj_open s)) i = Some b \<longleftrightarrow>
      b \<in> set (rs @ [r]) \<and> is_begin b \<and> jn_session_id b = i \<and>
      (\<forall>c \<in> set (rs @ [r]). \<not> is_begin c \<longrightarrow> jn_session_id c \<noteq> i)" for i b
  proof (cases "i = jn_session_id r")
    case True
    with new other assms(2) show ?thesis by (auto simp: map_emplace_lookup)
  next
    case False
    with new lookup [of i b] assms(2) show ?thesis by (auto simp: map_emplace_lookup)
  qed
  with assms(1,2) show ?thesis
    unfolding log_inv_def by (auto simp: map_emplace_sorted)
qed

lemma log_inv_close:
  assumes "log_inv rs s" "\<not> is_begin r"
  shows "log_inv (rs @ [r]) (s\<lparr>sj_lineages := ls, sj_open := map_erase (jn_session_id r) (sj_open s)\<rparr>)"
  using assms by (auto simp: log_inv_def map_erase_sorted map_erase_lookup)

text \<open>Every record that is not a BEGIN follows a BEGIN with its contract.\<close>

definition log_closed :: "journal_record list \<Rightarrow> bool" where
  "log_closed rs \<longleftrightarrow> (\<forall>c \<in> set rs. \<not> is_begin c \<longrightarrow> (\<exists>b \<in> set rs. is_begin b \<and> jn_session_id b = jn_session_id c \<and>
     jn_correlation_id b = jn_correlation_id c \<and> jn_request_sha256 b = jn_request_sha256 c)) \<and>
   distinct (map jn_session_id (filter is_begin rs)) \<and> distinct (map jn_session_id (filter (\<lambda>r. \<not> is_begin r) rs))"

lemma log_invariants: "session_log rs s \<Longrightarrow> log_inv rs s \<and> log_closed rs"
proof (induction rule: session_log.induct)
  case log_Nil
  then show ?case by (simp add: log_inv_def log_closed_def session_scan_start_def map_sorted_def)
next
  case (log_snoc rs s r u)
  then have i: "log_inv rs s" and c: "log_closed rs" by simp_all
  have seen: "jn_session_id b \<in> set (sj_seen s) \<longleftrightarrow> (\<exists>a \<in> set rs. is_begin a \<and> jn_session_id a = jn_session_id b)" for b
    using i by (auto simp: log_inv_def image_iff)
  have adv: "log_inv xs (advance_session r u) = log_inv xs u" for xs
    by (simp add: log_inv_def advance_session_def)
  from log_snoc.hyps(5) show ?case
  proof (cases rule: apply_cases)
    case opened
    have "log_inv (rs @ [r]) u"
      unfolding opened(3) by (rule log_inv_begin [OF i opened(1,2)]) (use c in \<open>force simp: log_closed_def seen\<close>)
    moreover have "log_closed (rs @ [r])"
      using c opened(1,2) seen [of r] by (auto simp: log_closed_def)
    ultimately show ?thesis by (simp add: adv)
  next
    case (close b)
    have "log_inv (rs @ [r]) u"
      unfolding close(6) using log_inv_close [OF i close(1), of "sj_lineages s"] by simp
    moreover have "log_closed (rs @ [r])"
      using c close(1,3-5) i unfolding log_closed_def log_inv_def by auto
    ultimately show ?thesis by (simp add: adv)
  next
    case (retry b child)
    have "log_inv (rs @ [r]) u"
      unfolding retry(9) using log_inv_close [OF i retry(1)] by simp
    moreover have "log_closed (rs @ [r])"
      using c retry(1,3-5) i unfolding log_closed_def log_inv_def by auto
    ultimately show ?thesis by (simp add: adv)
  qed
qed

end
