(* ===== verification/Session_Journal_Safety.thy ===== *)
theory Session_Journal_Safety
  imports Session_Journal_Scan
begin

text \<open>
  The properties of the session journal: what an inspection reports, that sessions begin and end
  once, that an ended session stays ended and a RETRY record starts one child, whatever
  is appended to the file, and that a history of calls never makes the journal unusable.
\<close>

section \<open>Inspection\<close>

lemma map_of_in_sorted: "map_sorted m \<Longrightarrow> (k, v) \<in> set m \<longleftrightarrow> map_of m k = Some v"
  by (simp add: map_sorted_def strict_sorted_iff)

text \<open>
  C.  An inspection of a healthy journal lists as interrupted exactly the sessions that have a
  BEGIN record and no terminal or recovery record, each with the contract and the identity of its
  BEGIN, in the order of their ids and never twice.
\<close>

theorem inspection_lists_interrupted_sessions:
  assumes "jp_healthy (journal_inspect rio file)"
  shows "set (jp_interrupted (journal_inspect rio file)) =
      {interrupted_of (jn_session_id b, b) | b. b \<in> set (file_records file) \<and> is_begin b \<and>
        (\<forall>c \<in> set (file_records file). \<not> is_begin c \<longrightarrow> jn_session_id c \<noteq> jn_session_id b)} \<and>
    sorted_wrt (<) (map jx_session_id (jp_interrupted (journal_inspect rio file)))"
proof -
  let ?s = "scan_journal rio file" and ?rs = "file_records file"
  have "session_log ?rs ?s" using assms by (intro scanned_log) (simp add: journal_inspect_def Let_def)
  with log_invariants have i: "log_inv ?rs ?s" by blast
  then have m: "map_sorted (sj_open ?s)"
    "\<And>i b. (i, b) \<in> set (sj_open ?s) \<longleftrightarrow> b \<in> set ?rs \<and> is_begin b \<and> jn_session_id b = i \<and>
       (\<forall>c \<in> set ?rs. \<not> is_begin c \<longrightarrow> jn_session_id c \<noteq> i)"
    by (simp_all add: log_inv_def map_of_in_sorted)
  have "map jx_session_id (jp_interrupted (journal_inspect rio file)) = map fst (sj_open ?s)"
    by (simp add: journal_inspect_def Let_def interrupted_of_def)
  with m(1) have "sorted_wrt (<) (map jx_session_id (jp_interrupted (journal_inspect rio file)))"
    by (simp add: map_sorted_def)
  moreover have "set (jp_interrupted (journal_inspect rio file)) = interrupted_of ` set (sj_open ?s)"
    by (simp add: journal_inspect_def Let_def)
  ultimately show ?thesis using m(2) by (auto simp: image_iff)
qed

text \<open>
  C.  In a healthy journal no session begins twice and none ends twice, and whatever ends one has
  the correlation and the request of its BEGIN.
\<close>

theorem sessions_begin_and_end_once:
  assumes "jp_healthy (journal_inspect rio file)"
  shows "distinct (map jn_session_id (filter is_begin (file_records file))) \<and>
    distinct (map jn_session_id (filter (\<lambda>r. \<not> is_begin r) (file_records file))) \<and>
    (\<forall>c \<in> set (file_records file). \<not> is_begin c \<longrightarrow> (\<exists>b \<in> set (file_records file). is_begin b \<and>
       jn_session_id b = jn_session_id c \<and> jn_correlation_id b = jn_correlation_id c \<and>
       jn_request_sha256 b = jn_request_sha256 c))"
proof -
  have "session_log (file_records file) (scan_journal rio file)"
    using assms by (intro scanned_log) (simp add: journal_inspect_def Let_def)
  with log_invariants show ?thesis by (auto simp: log_closed_def)
qed

section \<open>Reservations\<close>

definition lineage_inv :: "journal_record list \<Rightarrow> session_scan \<Rightarrow> bool" where
  "lineage_inv rs s \<longleftrightarrow>
     distinct (map jl_child_correlation_id (sj_lineages s)) \<and>
     (\<forall>l \<in> set (sj_lineages s). jl_child_started l \<longleftrightarrow> jl_child_correlation_id l \<in> set (sj_used_correlations s)) \<and>
     (\<forall>l \<in> set (sj_lineages s). \<exists>r \<in> set rs. jn_kind r = JK_RecoveryRetry \<and> jn_session_id r = jl_parent_session_id l \<and>
        jn_audit_sha256 r = jl_authorization_sha256 l \<and>
        recovery_child_from_status (jn_terminal_status r) = Some (jl_child_correlation_id l)) \<and>
     (\<forall>r \<in> set rs. jn_kind r = JK_RecoveryRetry \<longrightarrow> (\<exists>l \<in> set (sj_lineages s).
        recovery_child_from_status (jn_terminal_status r) = Some (jl_child_correlation_id l)))"

lemma start_child_ids: "map jl_child_correlation_id (start_child c i ls) = map jl_child_correlation_id ls"
  by (induction ls) simp_all

lemma start_child_members:
  assumes "l \<in> set (start_child c i ls)"
  shows "\<exists>k \<in> set ls. jl_parent_session_id l = jl_parent_session_id k \<and> jl_authorization_sha256 l = jl_authorization_sha256 k \<and>
    jl_child_correlation_id l = jl_child_correlation_id k"
  using assms by (induction ls) (auto split: if_splits)

lemma start_child_started:
  assumes "distinct (map jl_child_correlation_id ls)" "l \<in> set (start_child c i ls)"
  shows "\<exists>k \<in> set ls. jl_child_correlation_id k = jl_child_correlation_id l \<and>
    (jl_child_started l \<longleftrightarrow> jl_child_started k \<or> jl_child_correlation_id k = c)"
  using assms
proof (induction ls)
  case (Cons k ls)
  show ?case
  proof (cases "\<not> jl_child_started k \<and> jl_child_correlation_id k = c")
    case True
    then have e: "start_child c i (k # ls) = k\<lparr>jl_child_started := True, jl_child_session_id := i\<rparr> # ls" by simp
    show ?thesis
    proof (cases "l \<in> set ls")
      case True
      then have "jl_child_correlation_id l \<in> jl_child_correlation_id ` set ls" by (rule imageI)
      then have "jl_child_correlation_id l \<noteq> c" using Cons.prems(1) \<open>\<not> jl_child_started k \<and> _\<close> by auto
      with True show ?thesis by (intro bexI [of _ l]) auto
    next
      case False
      with Cons.prems(2) have "l = k\<lparr>jl_child_started := True, jl_child_session_id := i\<rparr>" unfolding e by simp
      with True show ?thesis by (intro bexI [of _ k]) auto
    qed
  next
    case False
    then have e: "start_child c i (k # ls) = k # start_child c i ls" by auto
    show ?thesis
    proof (cases "l \<in> set (start_child c i ls)")
      case True
      with Cons show ?thesis by simp
    next
      case nl: False
      with Cons.prems(2) have "l = k" unfolding e by simp
      with False show ?thesis by (intro bexI [of _ k]) auto
    qed
  qed
qed simp

lemma lineage_invariant: "session_log rs s \<Longrightarrow> lineage_inv rs s"
proof (induction rule: session_log.induct)
  case log_Nil
  then show ?case by (simp add: lineage_inv_def session_scan_start_def)
next
  case (log_snoc rs s r u)
  note i = log_snoc.IH [unfolded lineage_inv_def]
  have adv: "lineage_inv xs (advance_session r u) = lineage_inv xs u" for xs
    by (simp add: lineage_inv_def advance_session_def)
  from log_snoc.hyps(5) show ?case
  proof (cases rule: apply_cases)
    case opened
    let ?ls = "start_child (jn_correlation_id r) (jn_session_id r) (sj_lineages s)"
    have d: "distinct (map jl_child_correlation_id ?ls)" using i by (simp add: start_child_ids)
    have st: "jl_child_started l \<longleftrightarrow> jl_child_correlation_id l \<in> insert (jn_correlation_id r) (set (sj_used_correlations s))"
      if m: "l \<in> set ?ls" for l
    proof -
      obtain k where k: "k \<in> set (sj_lineages s)" "jl_child_correlation_id k = jl_child_correlation_id l"
        "jl_child_started l \<longleftrightarrow> jl_child_started k \<or> jl_child_correlation_id k = jn_correlation_id r"
        using start_child_started [OF _ m] i by blast
      with i have "jl_child_started k \<longleftrightarrow> jl_child_correlation_id k \<in> set (sj_used_correlations s)" by blast
      with k show ?thesis by auto
    qed
    have retried: "\<exists>q \<in> set (rs @ [r]). jn_kind q = JK_RecoveryRetry \<and> jn_session_id q = jl_parent_session_id l \<and>
        jn_audit_sha256 q = jl_authorization_sha256 l \<and>
        recovery_child_from_status (jn_terminal_status q) = Some (jl_child_correlation_id l)" if "l \<in> set ?ls" for l
      using start_child_members [OF that] i by fastforce
    have ids: "jl_child_correlation_id ` set ?ls = jl_child_correlation_id ` set (sj_lineages s)"
      using start_child_ids by (metis image_set)
    have "\<exists>l \<in> set ?ls. recovery_child_from_status (jn_terminal_status q) = Some (jl_child_correlation_id l)"
      if "q \<in> set (rs @ [r])" "jn_kind q = JK_RecoveryRetry" for q
    proof -
      have "q \<in> set rs" using that opened(1) by (auto simp: is_begin_def)
      with i that(2) have "\<exists>l \<in> set (sj_lineages s). recovery_child_from_status (jn_terminal_status q) = Some (jl_child_correlation_id l)"
        by blast
      then obtain c where "recovery_child_from_status (jn_terminal_status q) = Some c" "c \<in> jl_child_correlation_id ` set ?ls"
        unfolding ids by blast
      then show ?thesis by auto
    qed
    with d st retried have "lineage_inv (rs @ [r]) u" unfolding opened(3) lineage_inv_def by simp
    then show ?thesis by (simp add: adv)
  next
    case (close b)
    then have "lineage_inv (rs @ [r]) u" using i unfolding lineage_inv_def by fastforce
    then show ?thesis by (simp add: adv)
  next
    case (retry b child)
    have "lineage_inv (rs @ [r]) u"
      using i retry(2,6-8) unfolding retry(9) lineage_inv_def by (fastforce simp: lineage_of_def)
    then show ?thesis by (simp add: adv)
  qed
qed

lemma lineage_started:
  assumes "session_log rs s" "l \<in> set (sj_lineages s)"
  shows "jl_child_started l \<longleftrightarrow> jl_child_correlation_id l \<in> set (sj_used_correlations s)"
  using lineage_invariant [OF assms(1)] assms(2) unfolding lineage_inv_def by blast

lemma lineage_retried:
  assumes "session_log rs s" "l \<in> set (sj_lineages s)"
  shows "\<exists>r \<in> set rs. jn_kind r = JK_RecoveryRetry \<and> jn_session_id r = jl_parent_session_id l \<and>
    jn_audit_sha256 r = jl_authorization_sha256 l \<and>
    recovery_child_from_status (jn_terminal_status r) = Some (jl_child_correlation_id l)"
  using lineage_invariant [OF assms(1)] assms(2) unfolding lineage_inv_def by blast

lemma retried_lineage:
  assumes "session_log rs s" "r \<in> set rs" "jn_kind r = JK_RecoveryRetry"
  shows "\<exists>l \<in> set (sj_lineages s). recovery_child_from_status (jn_terminal_status r) = Some (jl_child_correlation_id l)"
  using lineage_invariant [OF assms(1)] assms(2,3) unfolding lineage_inv_def by blast

lemma reserved_unused:
  assumes "session_log rs s" "l \<in> set (sj_lineages s)" "reserves c l"
  shows "c \<notin> set (sj_used_correlations s)"
  using lineage_started [OF assms(1,2)] assms(3) by (auto simp: reserves_def)

lemma log_used:
  assumes "session_log rs s"
  shows "c \<in> set (sj_used_correlations s) \<longleftrightarrow> (\<exists>b \<in> set rs. is_begin b \<and> jn_correlation_id b = c)"
  using log_invariants [OF assms] by (auto simp: log_inv_def)

section \<open>Growing journals\<close>

definition session_grown :: "session_scan \<Rightarrow> session_scan \<Rightarrow> bool" where
  "session_grown s t \<longleftrightarrow> set (sj_seen s) \<subseteq> set (sj_seen t) \<and> set (sj_used_correlations s) \<subseteq> set (sj_used_correlations t) \<and>
     (\<forall>i \<in> set (sj_seen s). map_of (sj_open s) i = None \<longrightarrow> map_of (sj_open t) i = None)"

lemma session_grown_step:
  assumes "session_step l s = Some t" "\<forall>i. contains (sj_open s) i \<longrightarrow> i \<in> set (sj_seen s)"
  shows "session_grown s t \<and> (\<forall>i. contains (sj_open t) i \<longrightarrow> i \<in> set (sj_seen t))"
proof -
  from assms(1) obtain r u where a: "apply_journal_record r s = Inr u" "t = advance_session r u" by (rule session_stepE)
  from a(1) show ?thesis
  proof (cases rule: apply_cases)
    case opened
    have "\<not> contains (sj_open s) (jn_session_id r)" using assms(2) opened(2) by blast
    from map_emplace_lookup [OF this, of r] show ?thesis
      using opened assms(2) unfolding a(2) by (auto simp: session_grown_def advance_session_def)
  qed (use assms(2) in \<open>auto simp: a(2) session_grown_def advance_session_def map_erase_lookup\<close>)
qed

lemma session_grown_run:
  "run_lines session_step ls s = Some t \<Longrightarrow> \<forall>i. contains (sj_open s) i \<longrightarrow> i \<in> set (sj_seen s) \<Longrightarrow> session_grown s t"
proof (induction ls arbitrary: s)
  case (Cons l ls)
  from Cons.prems(1) obtain u where u: "session_step l s = Some u" "run_lines session_step ls u = Some t"
    by (auto split: option.splits)
  note g = session_grown_step [OF u(1) Cons.prems(2)]
  with Cons.IH [OF u(2)] show ?case by (auto simp: session_grown_def)
qed (simp add: session_grown_def)

lemma log_open_seen: "session_log rs s \<Longrightarrow> contains (sj_open s) i \<Longrightarrow> i \<in> set (sj_seen s)"
  using log_invariants [of rs s] by (auto simp: log_inv_def)

section \<open>Written records\<close>

lemma append_outcome:
  assumes "append_journal_record path io r file = (res, file')"
  shows "jw_ok res \<longleftrightarrow> path \<noteq> [] \<and> \<not> (has_parent path \<and> io = Dir_Fail) \<and> io \<noteq> Open_Fail \<and> (\<forall>n. io \<noteq> Write_Fail n) \<and>
      length (serialize_journal_record (seal_journal_record r)) \<le> kMaxJournalLine"
    "jw_ok res \<Longrightarrow> file' = file_append file (serialize_journal_record (seal_journal_record r) @ [NL])"
    "\<not> jw_ok res \<Longrightarrow> clean_io io \<Longrightarrow> file' = file \<or> file' = file_append file []"
  using assms by (auto simp: append_journal_record_def Let_def jw_ok_def jw_fail_def not_less clean_io_def split: if_splits io.splits)

lemma written_session_step:
  assumes "session_step (serialize_journal_record r) s = Some t" "journal_writable r" "is_sha256 (jn_record_sha256 r)"
    "length (serialize_journal_record r) \<le> kMaxJournalLine"
  obtains u where "apply_journal_record r s = Inr u" "t = advance_session r u"
proof -
  note strip = strip_shaped [OF journal_shaped [OF assms(2,3)]]
  from assms(1) obtain q u where q: "deserialize_journal_record (strip_cr (serialize_journal_record r)) = Inr q"
    "apply_journal_record q s = Inr u" "t = advance_session q u" by (rule session_stepE)
  from q(1) have "q = r" by (simp add: strip read_written_record [OF assms(2,4)] split: option.splits)
  with that q show thesis by simp
qed

text \<open>A record whose append was confirmed and that lies in a healthy file has been applied.\<close>

lemma confirmed_record:
  assumes "sj_healthy (scan_journal rio file)" "append_journal_record path io r file = (res, file')" "jw_ok res"
    and "journal_writable r" "sj_healthy (scan_journal rio' (file_append file' y))"
  obtains u where "apply_journal_record (seal_journal_record r) (scan_journal rio file) = Inr u"
    "session_grown (advance_session (seal_journal_record r) u) (scan_journal rio' (file_append file' y))"
proof -
  let ?q = "seal_journal_record r" and ?s = "scan_journal rio file"
  note q = journal_sealed(1) [OF assms(4)] journal_sealed(2) [of r]
  have len: "length (serialize_journal_record ?q) \<le> kMaxJournalLine" using append_outcome(1) [OF assms(2)] assms(3) by simp
  have f: "file' = file_append file (serialize_journal_record ?q @ [NL])" by (rule append_outcome(2) [OF assms(2,3)])
  obtain v where v: "session_step (serialize_journal_record ?q) ?s = Some v"
    "run_lines session_step (getlines y) v = Some (scan_journal rio' (file_append file' y))"
  proof (rule ses.written_line [OF scan_journal_healthy [OF assms(1)]])
    show "run_lines session_step (file_lines (file_append (file_append file (serialize_journal_record ?q @ [NL])) y)) session_scan_start =
        Some (scan_journal rio' (file_append file' y))"
      using scan_journal_healthy [OF assms(5)] unfolding f .
  qed (use journal_line_no_NL [OF q(1)] in simp_all)
  from v(1) q len obtain u where u: "apply_journal_record ?q ?s = Inr u" "v = advance_session ?q u"
    by (rule written_session_step)
  have "\<forall>i. contains (sj_open v) i \<longrightarrow> i \<in> set (sj_seen v)"
    using session_grown_step [OF v(1)] log_open_seen [OF scanned_log [OF assms(1)]] by blast
  from session_grown_run [OF v(2) this] u that show thesis by blast
qed

lemma scanned_plain: "sj_healthy (scan_journal rio file) \<Longrightarrow> plain_field (sj_head_sha256 (scan_journal rio file))"
proof -
  have "session_log rs s \<Longrightarrow> is_sha256 (sj_head_sha256 s)" for rs s
    by (induction rule: session_log.induct) (simp_all add: session_scan_start_def advance_session_def accepted_fields(5))
  then show "sj_healthy (scan_journal rio file) \<Longrightarrow> plain_field (sj_head_sha256 (scan_journal rio file))"
    using scanned_log by blast
qed

section \<open>Calls\<close>

lemma begin_ok:
  assumes "session_begin path rio io b file = (res, file')" "jw_ok res"
  shows "validate_begin b = []" "sj_healthy (scan_journal rio file)" "jb_session_id b \<notin> set (sj_seen (scan_journal rio file))"
    "\<not> list_ex (reserves (jb_correlation_id b)) (sj_lineages (scan_journal rio file))"
    "append_journal_record path io (begin_record b (scan_journal rio file)) file = (res, file')"
  using assms by (auto simp: session_begin_def Let_def jw_ok_def jw_fail_def split: if_splits)

lemma child_ok:
  assumes "begin_recovery_child path rio io b parent authorization file = (res, file')" "jw_ok res"
  shows "validate_begin b = []" "sj_healthy (scan_journal rio file)" "jb_session_id b \<notin> set (sj_seen (scan_journal rio file))"
    "\<exists>l \<in> set (sj_lineages (scan_journal rio file)). reserves (jb_correlation_id b) l \<and> jl_parent_session_id l = parent \<and>
       jl_authorization_sha256 l = authorization"
    "append_journal_record path io (begin_record b (scan_journal rio file)) file = (res, file')"
  using assms by (auto simp: begin_recovery_child_def Let_def jw_ok_def jw_fail_def list_ex_iff split: if_splits)

lemma finish_ok:
  assumes "session_finish path rio io t file = (res, file')" "jw_ok res"
  shows "validate_terminal t = []" "sj_healthy (scan_journal rio file)"
    "append_journal_record path io (terminal_record t (scan_journal rio file)) file = (res, file')"
    "\<exists>b. map_of (sj_open (scan_journal rio file)) (jt_session_id t) = Some b \<and> jn_correlation_id b = jt_correlation_id t \<and>
       jn_request_sha256 b = jt_request_sha256 t"
  using assms by (auto simp: session_finish_def Let_def jw_ok_def jw_fail_def split: if_splits option.splits)

lemma recover_ok:
  assumes "session_recover path rio io v file = (res, file')" "jw_ok res"
  shows "validate_recovery v = []" "sj_healthy (scan_journal rio file)"
    "append_journal_record path io (recovery_record v (scan_journal rio file)) file = (res, file')"
    "\<exists>b. map_of (sj_open (scan_journal rio file)) (jv_session_id v) = Some b \<and> jn_correlation_id b = jv_correlation_id v \<and>
       jn_request_sha256 b = jv_request_sha256 v"
    "jv_kind v = JK_RecoveryRetry \<Longrightarrow> jv_child_correlation_id v \<notin> set (sj_used_correlations (scan_journal rio file)) \<and>
       (\<forall>l \<in> set (sj_lineages (scan_journal rio file)). jl_child_correlation_id l \<noteq> jv_child_correlation_id v)"
  using assms by (auto simp: session_recover_def Let_def jw_ok_def jw_fail_def list_ex_iff split: if_splits option.splits)

lemma written_fields:
  assumes "sj_healthy (scan_journal rio file)"
  shows "validate_begin b = [] \<Longrightarrow> journal_writable (begin_record b (scan_journal rio file))"
    "validate_terminal t = [] \<Longrightarrow> journal_writable (terminal_record t (scan_journal rio file))"
    "validate_recovery v = [] \<Longrightarrow> journal_writable (recovery_record v (scan_journal rio file))"
  using scanned_plain [OF assms]
  by (auto simp: journal_writable_def begin_record_def terminal_record_def recovery_record_def validate_begin_def
      validate_terminal_def validate_recovery_def)

lemma sealed_fields [simp]:
  "jn_session_id (seal_journal_record r) = jn_session_id r" "jn_correlation_id (seal_journal_record r) = jn_correlation_id r"
  "jn_kind (seal_journal_record r) = jn_kind r" "is_begin (seal_journal_record r) = is_begin r"
  by (simp_all add: seal_journal_record_def is_begin_def)

lemma closed_session:
  assumes "apply_journal_record r s = Inr u" "\<not> is_begin r" "session_log rs s"
  shows "jn_session_id r \<in> set (sj_seen (advance_session q u))" "map_of (sj_open (advance_session q u)) (jn_session_id r) = None"
proof -
  from assms(1) have "map_of (sj_open u) (jn_session_id r) = None \<and> contains (sj_open s) (jn_session_id r) \<and> sj_seen u = sj_seen s"
    by (cases rule: apply_cases) (use assms(2) in \<open>simp_all add: map_erase_lookup\<close>)
  with log_open_seen [OF assms(3)]
  show "jn_session_id r \<in> set (sj_seen (advance_session q u))" "map_of (sj_open (advance_session q u)) (jn_session_id r) = None"
    by (simp_all add: advance_session_def)
qed

text \<open>
  C37. Once a session has been finished or its recovery decided, then whatever bytes are appended to
  the journal, as long as it is still read as healthy the session is not interrupted, and no call
  begins, finishes or recovers it again.
\<close>

theorem ended_session_stays_ended:
  assumes "session_finish path rio io t file = (res, file') \<and> ident = jt_session_id t \<or>
      session_recover path rio io v file = (res, file') \<and> ident = jv_session_id v" "jw_ok res"
    and "jp_healthy (journal_inspect rio' (file_append file' y))"
  shows "ident \<notin> jx_session_id ` set (jp_interrupted (journal_inspect rio' (file_append file' y))) \<and>
    (jb_session_id b = ident \<longrightarrow> \<not> jw_ok (fst (session_begin path' rio' io' b (file_append file' y))) \<and>
       \<not> jw_ok (fst (begin_recovery_child path' rio' io' b parent authorization (file_append file' y)))) \<and>
    (jt_session_id t' = ident \<longrightarrow> \<not> jw_ok (fst (session_finish path' rio' io' t' (file_append file' y)))) \<and>
    (jv_session_id v' = ident \<longrightarrow> \<not> jw_ok (fst (session_recover path' rio' io' v' (file_append file' y))))"
proof -
  let ?f = "file_append file' y"
  have h: "sj_healthy (scan_journal rio' ?f)" using assms(3) by (simp add: journal_inspect_def Let_def)
  obtain r where r: "sj_healthy (scan_journal rio file)" "append_journal_record path io r file = (res, file')"
    "journal_writable r" "jn_session_id r = ident" "\<not> is_begin r"
    using assms(1)
  proof (elim disjE conjE)
    assume a: "session_finish path rio io t file = (res, file')" "ident = jt_session_id t"
    note o1 = finish_ok [OF a(1) assms(2)]
    show thesis
      by (rule that [OF o1(2,3) written_fields(2) [OF o1(2,1)]])
        (use o1(1) a(2) in \<open>auto simp: terminal_record_def is_begin_def validate_terminal_def\<close>)
  next
    assume a: "session_recover path rio io v file = (res, file')" "ident = jv_session_id v"
    note o1 = recover_ok [OF a(1) assms(2)]
    show thesis
      by (rule that [OF o1(2,3) written_fields(3) [OF o1(2,1)]])
        (use o1(1) a(2) in \<open>auto simp: recovery_record_def is_begin_def validate_recovery_def\<close>)
  qed
  from confirmed_record [OF r(1,2) assms(2) r(3) h] obtain u where
    u: "apply_journal_record (seal_journal_record r) (scan_journal rio file) = Inr u"
    "session_grown (advance_session (seal_journal_record r) u) (scan_journal rio' ?f)" by blast
  have "ident \<in> set (sj_seen (scan_journal rio' ?f))" "map_of (sj_open (scan_journal rio' ?f)) ident = None"
    using closed_session [OF u(1) _ scanned_log [OF r(1)], of "seal_journal_record r"] u(2) r(4,5)
    by (auto simp: session_grown_def)
  moreover from this(2) have "ident \<notin> fst ` set (sj_open (scan_journal rio' ?f))" by (simp add: map_of_eq_None_iff)
  moreover have "jx_session_id ` set (jp_interrupted (journal_inspect rio' ?f)) = fst ` set (sj_open (scan_journal rio' ?f))"
    by (force simp: journal_inspect_def Let_def interrupted_of_def image_iff)
  ultimately show ?thesis
    by (auto simp: session_begin_def begin_recovery_child_def session_finish_def session_recover_def Let_def jw_ok_def jw_fail_def)
qed

text \<open>The RETRY records of a journal and its reservations are the same list of children.\<close>

definition retry_child :: "journal_record \<Rightarrow> string option" where
  "retry_child r = (if jn_kind r = JK_RecoveryRetry then recovery_child_from_status (jn_terminal_status r) else None)"

lemma retry_children:
  "session_log rs s \<Longrightarrow>
   map retry_child (filter (\<lambda>r. jn_kind r = JK_RecoveryRetry) rs) = map (\<lambda>l. Some (jl_child_correlation_id l)) (sj_lineages s)"
proof (induction rule: session_log.induct)
  case log_Nil
  then show ?case by (simp add: session_scan_start_def)
next
  case (log_snoc rs s r u)
  from log_snoc.hyps(5) show ?case
  proof (cases rule: apply_cases)
    case opened
    have "map (Some \<circ> jl_child_correlation_id) (start_child c i ls) = map (Some \<circ> jl_child_correlation_id) ls" for c i ls
      using start_child_ids [of c i ls] by (metis map_map)
    with opened log_snoc.IH show ?thesis by (simp add: is_begin_def advance_session_def comp_def)
  next
    case (close b)
    with log_snoc.IH show ?thesis by (simp add: advance_session_def)
  next
    case (retry b child)
    with log_snoc.IH show ?thesis by (simp add: advance_session_def lineage_of_def retry_child_def)
  qed
qed

lemma retry_record_unique:
  assumes "session_log rs s" "r \<in> set rs" "retry_child r = Some c"
  shows "filter (\<lambda>q. retry_child q = Some c) rs = [r]"
proof -
  let ?retries = "filter (\<lambda>q. jn_kind q = JK_RecoveryRetry) rs"
  have "distinct (map jl_child_correlation_id (sj_lineages s))"
    using lineage_invariant [OF assms(1)] by (simp add: lineage_inv_def)
  then have "distinct (map retry_child ?retries)"
    unfolding retry_children [OF assms(1)] by (simp add: distinct_map inj_on_def)
  then have d: "distinct (map retry_child (filter (\<lambda>q. retry_child q = Some c) ?retries))" by (rule distinct_map_filter)
  have f: "filter (\<lambda>q. retry_child q = Some c) ?retries = filter (\<lambda>q. retry_child q = Some c) rs"
    by (auto simp: retry_child_def intro: filter_cong)
  have one: "distinct (map retry_child qs) \<Longrightarrow> \<forall>q \<in> set qs. retry_child q = Some c \<Longrightarrow> r \<in> set qs \<Longrightarrow> qs = [r]" for qs
    by (cases qs; cases "tl qs") auto
  show ?thesis using d assms(2,3) unfolding f by (intro one) simp_all
qed

text \<open>
  C36. A recovery child begins only under the RETRY record that names its correlation, of which the
  journal holds exactly one, with the parent and the authorisation of that record, and only if no
  session has begun under that correlation; and the record is used up: whatever is appended to
  the journal, no further child begins under its correlation, whatever parent or authorisation the
  call names.  (The journal does not keep two RETRY records from carrying one authorisation
  digest; that digests differ is the business of the recovery protocol, which hashes the child
  correlation into them.)
\<close>

theorem retry_record_starts_one_child:
  assumes "begin_recovery_child path rio io b parent authorization file = (res, file')" "jw_ok res"
  shows "(\<exists>r. filter (\<lambda>q. retry_child q = Some (jb_correlation_id b)) (file_records file) = [r] \<and>
      jn_session_id r = parent \<and> jn_audit_sha256 r = authorization) \<and>
    (\<forall>r \<in> set (file_records file). is_begin r \<longrightarrow> jn_correlation_id r \<noteq> jb_correlation_id b) \<and>
    (jb_correlation_id b' = jb_correlation_id b \<longrightarrow>
       \<not> jw_ok (fst (begin_recovery_child path' rio' io' b' parent' authorization' (file_append file' y))))"
proof -
  let ?s = "scan_journal rio file" and ?f = "file_append file' y" and ?c = "jb_correlation_id b"
  note o1 = child_ok [OF assms]
  note log = scanned_log [OF o1(2)]
  from o1(4) obtain l where l: "l \<in> set (sj_lineages ?s)" "reserves ?c l" "jl_parent_session_id l = parent"
    "jl_authorization_sha256 l = authorization" by blast
  obtain r where r: "r \<in> set (file_records file)" "jn_session_id r = parent" "jn_audit_sha256 r = authorization"
    "retry_child r = Some ?c"
    using lineage_retried [OF log l(1)] l(2-4) by (auto simp: reserves_def retry_child_def)
  have "\<exists>r. filter (\<lambda>q. retry_child q = Some ?c) (file_records file) = [r] \<and>
      jn_session_id r = parent \<and> jn_audit_sha256 r = authorization"
    using retry_record_unique [OF log r(1,4)] r(2,3) by blast
  moreover have "\<forall>r \<in> set (file_records file). is_begin r \<longrightarrow> jn_correlation_id r \<noteq> ?c"
    using reserved_unused [OF log l(1,2)] log_used [OF log] by blast
  moreover have "\<not> jw_ok (fst (begin_recovery_child path' rio' io' b' parent' authorization' ?f))"
    if c: "jb_correlation_id b' = ?c"
  proof
    assume "jw_ok (fst (begin_recovery_child path' rio' io' b' parent' authorization' ?f))"
    then obtain res' file'' where k: "begin_recovery_child path' rio' io' b' parent' authorization' ?f = (res', file'')" "jw_ok res'"
      by (metis prod.collapse)
    note o2 = child_ok [OF k]
    note w = written_fields(1) [OF o1(2,1)]
    from confirmed_record [OF o1(2,5) assms(2) w o2(2)] obtain u where
      u: "apply_journal_record (seal_journal_record (begin_record b ?s)) ?s = Inr u"
      "session_grown (advance_session (seal_journal_record (begin_record b ?s)) u) (scan_journal rio' ?f)" by blast
    have "?c \<in> set (sj_used_correlations u)"
      using u(1) by (cases rule: apply_cases) (simp_all add: begin_record_def is_begin_def)
    with u(2) have "?c \<in> set (sj_used_correlations (scan_journal rio' ?f))"
      by (auto simp: session_grown_def advance_session_def)
    moreover from o2(4) c obtain l' where "l' \<in> set (sj_lineages (scan_journal rio' ?f))" "reserves ?c l'" by auto
    ultimately show False using reserved_unused [OF scanned_log [OF o2(2)]] by blast
  qed
  ultimately show ?thesis by blast
qed

text \<open>
  C.  An ordinary BEGIN never takes a reserved correlation: whenever a RETRY record has reserved it
  for a child, the child has begun before.
\<close>

theorem begin_never_takes_a_reservation:
  assumes "session_begin path rio io b file = (res, file')" "jw_ok res"
    and "r \<in> set (file_records file)" "jn_kind r = JK_RecoveryRetry"
    and "recovery_child_from_status (jn_terminal_status r) = Some (jb_correlation_id b)"
  shows "\<exists>c \<in> set (file_records file). is_begin c \<and> jn_correlation_id c = jb_correlation_id b"
proof -
  note o1 = begin_ok [OF assms(1,2)]
  note log = scanned_log [OF o1(2)]
  obtain l where l: "l \<in> set (sj_lineages (scan_journal rio file))" "jl_child_correlation_id l = jb_correlation_id b"
    using retried_lineage [OF log assms(3,4)] assms(5) by auto
  with o1(4) have "jl_child_started l" by (auto simp: list_ex_iff reserves_def)
  with lineage_started [OF log l(1)] l(2) log_used [OF log] show ?thesis by simp
qed

end
