(* ===== verification/Session_Journal_History.thy ===== *)
theory Session_Journal_History
  imports Session_Journal_Safety
begin

text \<open>
  Histories of calls on one journal.  Every call leaves a healthy journal healthy, so a session
  that may begin can always begin.
\<close>

section \<open>Calls\<close>

datatype session_call =
    SJ_Begin io journal_begin
  | SJ_Child io journal_begin string string
  | SJ_Finish io journal_terminal
  | SJ_Recover io journal_recovery

fun session_do :: "string \<Rightarrow> session_call \<Rightarrow> string option \<Rightarrow> journal_write_result \<times> string option" where
  "session_do path (SJ_Begin io b) file = session_begin path Read_Ok io b file"
| "session_do path (SJ_Child io b parent authorization) file =
     begin_recovery_child path Read_Ok io b parent authorization file"
| "session_do path (SJ_Finish io t) file = session_finish path Read_Ok io t file"
| "session_do path (SJ_Recover io v) file = session_recover path Read_Ok io v file"

fun session_io :: "session_call \<Rightarrow> io" where
  "session_io (SJ_Begin io b) = io"
| "session_io (SJ_Child io b parent authorization) = io"
| "session_io (SJ_Finish io t) = io"
| "session_io (SJ_Recover io v) = io"

definition session_files :: "string \<Rightarrow> session_call list \<Rightarrow> string option \<Rightarrow> string option" where
  "session_files path cs file = fold (\<lambda>c f. snd (session_do path c f)) cs file"

section \<open>Every written record is accepted\<close>

definition sound_file :: "string option \<Rightarrow> bool" where
  "sound_file file \<longleftrightarrow> sj_healthy (scan_journal Read_Ok file) \<and> terminated file"

definition record_fits :: "journal_record \<Rightarrow> session_scan \<Rightarrow> bool" where
  "record_fits r s \<longleftrightarrow> journal_writable r \<and> jn_sequence r = sj_next_sequence s \<and> jn_previous r = sj_head_sha256 s \<and>
     journal_rejection (seal_journal_record r) = None \<and> (\<exists>u. apply_journal_record (seal_journal_record r) s = Inr u)"

lemma scan_after:
  assumes "sound_file file" "append_journal_record path io r file = (res, file')" "jw_ok res"
    and "record_fits r (scan_journal Read_Ok file)"
  shows "sound_file file' \<and> (\<exists>u. apply_journal_record (seal_journal_record r) (scan_journal Read_Ok file) = Inr u \<and>
    scan_journal Read_Ok file' = advance_session (seal_journal_record r) u)"
proof -
  let ?q = "seal_journal_record r" and ?s = "scan_journal Read_Ok file"
  let ?l = "serialize_journal_record ?q"
  have r: "journal_writable r" "jn_sequence r = sj_next_sequence ?s" "jn_previous r = sj_head_sha256 ?s"
    "journal_rejection ?q = None" "\<exists>u. apply_journal_record ?q ?s = Inr u"
    using assms(4) by (simp_all add: record_fits_def)
  note q = journal_sealed(1) [OF r(1)] journal_sealed(2) [of r]
  have len: "length ?l \<le> kMaxJournalLine" using append_outcome(1) [OF assms(2)] assms(3) by simp
  have f: "file' = file_append file (?l @ [NL])" by (rule append_outcome(2) [OF assms(2,3)])
  have "jn_sequence ?q = sj_next_sequence ?s" "jn_previous ?q = sj_head_sha256 ?s"
    using r(2,3) by (simp_all add: seal_journal_record_def)
  with r(4,5) obtain u where u: "apply_journal_record ?q ?s = Inr u" "session_step ?l ?s = Some (advance_session ?q u)"
    by (auto simp: session_step_def strip_shaped [OF journal_shaped [OF q]] read_written_record [OF q(1) len])
  note a = ses.accepted_line [OF scan_journal_healthy _ journal_line_no_NL [OF q(1)] u(2)]
  have "sj_healthy ?s" "terminated file" using assms(1) by (simp_all add: sound_file_def)
  note a = a [OF this]
  from scan_journal_accepted [OF a(1)] a(2) u(1) show ?thesis by (simp add: sound_file_def f)
qed

lemma sound_same_lines:
  assumes "sound_file file" "file_lines file' = file_lines file" "terminated file'"
  shows "sound_file file'"
proof -
  have "run_lines session_step (file_lines file') session_scan_start = Some (scan_journal Read_Ok file)"
    unfolding assms(2) using assms(1) by (intro scan_journal_healthy) (simp add: sound_file_def)
  from scan_journal_accepted [OF this] assms(3) show ?thesis by (simp add: sound_file_def)
qed

lemma sound_append_nothing: "sound_file file \<Longrightarrow> sound_file (file_append file [])"
  by (rule sound_same_lines) (simp_all add: file_lines_bytes sound_file_def terminated_def)

lemma sound_append:
  assumes "sound_file file" "append_journal_record path io r file = (res, file')" "clean_io io"
    and "record_fits r (scan_journal Read_Ok file)"
  shows "sound_file file'"
proof (cases "jw_ok res")
  case False
  then have "file' = file \<or> file' = file_append file []" using append_outcome(3) [OF assms(2)] assms(3) by blast
  with assms(1) sound_append_nothing show ?thesis by blast
next
  case True
  from scan_after [OF assms(1,2) this assms(4)] show ?thesis by blast
qed

lemma sealed_canonical [simp]: "canonical_journal_record (seal_journal_record r) = canonical_journal_record r"
  by (simp add: canonical_journal_record_def seal_journal_record_def)

lemma sealed_rejection:
  assumes "canonical_id (jn_session_id r) kSessionPrefix" "valid_correlation (jn_correlation_id r)" "is_sha256 (jn_request_sha256 r)"
    "is_sha256 (jn_previous r)" "valid_recorded_at (jn_recorded_at r)"
    and "jn_kind r = JK_Begin \<Longrightarrow> jn_audit_sha256 r = [] \<and> jn_dojo_episode_id r = [] \<and> jn_terminal_status r = []"
    and "jn_kind r = JK_Commit \<or> jn_kind r = JK_Abort \<Longrightarrow> is_sha256 (jn_audit_sha256 r) \<and> jn_terminal_status r \<noteq> [] \<and>
      length (jn_terminal_status r) \<le> 128 \<and> (jn_dojo_episode_id r = [] \<or> canonical_id (jn_dojo_episode_id r) kDojoPrefix)"
    and "jn_kind r = JK_RecoveryDismiss \<Longrightarrow> is_sha256 (jn_audit_sha256 r) \<and> jn_dojo_episode_id r = [] \<and>
      jn_terminal_status r = kRecoveryDismissStatus"
    and "jn_kind r = JK_RecoveryRetry \<Longrightarrow> is_sha256 (jn_audit_sha256 r) \<and> jn_dojo_episode_id r = [] \<and>
      (\<exists>c. recovery_child_from_status (jn_terminal_status r) = Some c \<and> c \<noteq> jn_correlation_id r)"
  shows "journal_rejection (seal_journal_record r) = None"
proof -
  have s: "jn_record_sha256 (seal_journal_record r) = sha256 (canonical_journal_record r)"
    "jn_request_sha256 (seal_journal_record r) = jn_request_sha256 r" "jn_previous (seal_journal_record r) = jn_previous r"
    "jn_recorded_at (seal_journal_record r) = jn_recorded_at r" "jn_audit_sha256 (seal_journal_record r) = jn_audit_sha256 r"
    "jn_dojo_episode_id (seal_journal_record r) = jn_dojo_episode_id r"
    "jn_terminal_status (seal_journal_record r) = jn_terminal_status r"
    by (simp_all add: seal_journal_record_def)
  show ?thesis
    using assms by (cases "jn_kind r") (auto simp: journal_rejection_def s not_less Let_def)
qed

lemma retry_status [simp]: "recovery_child_from_status (kRecoveryRetryPrefix @ c) = (if valid_correlation c then Some c else None)"
  by (simp add: recovery_child_from_status_def Let_def)

lemma scanned_head: "sj_healthy (scan_journal rio file) \<Longrightarrow> is_sha256 (sj_head_sha256 (scan_journal rio file))"
proof -
  have "session_log rs s \<Longrightarrow> is_sha256 (sj_head_sha256 s)" for rs s
    by (induction rule: session_log.induct) (simp_all add: session_scan_start_def advance_session_def accepted_fields(5))
  then show "sj_healthy (scan_journal rio file) \<Longrightarrow> is_sha256 (sj_head_sha256 (scan_journal rio file))"
    using scanned_log by blast
qed

lemma apply_begin_fits:
  assumes "sj_healthy (scan_journal rio file)" "validate_begin b = []" "jb_session_id b \<notin> set (sj_seen (scan_journal rio file))"
  shows "record_fits (begin_record b (scan_journal rio file)) (scan_journal rio file)"
proof -
  let ?r = "begin_record b (scan_journal rio file)"
  have "journal_rejection (seal_journal_record ?r) = None"
    using assms(2) scanned_head [OF assms(1)] by (intro sealed_rejection) (auto simp: begin_record_def validate_begin_def)
  moreover have "\<exists>u. apply_journal_record (seal_journal_record ?r) (scan_journal rio file) = Inr u"
    using assms(3) by (simp add: apply_journal_record_def apply_begin_def begin_record_def seal_journal_record_def)
  ultimately show ?thesis
    using written_fields(1) [OF assms(1,2)] by (simp add: record_fits_def begin_record_def)
qed

lemma apply_finish_fits:
  assumes "sj_healthy (scan_journal rio file)" "validate_terminal t = []"
    "map_of (sj_open (scan_journal rio file)) (jt_session_id t) = Some b" "jn_correlation_id b = jt_correlation_id t"
    "jn_request_sha256 b = jt_request_sha256 t"
  shows "record_fits (terminal_record t (scan_journal rio file)) (scan_journal rio file)"
proof -
  let ?r = "terminal_record t (scan_journal rio file)"
  have k: "jt_kind t = JK_Commit \<or> jt_kind t = JK_Abort" using assms(2) by (auto simp: validate_terminal_def)
  have "journal_rejection (seal_journal_record ?r) = None"
    using assms(2) k scanned_head [OF assms(1)] by (intro sealed_rejection) (auto simp: terminal_record_def validate_terminal_def)
  moreover have "\<exists>u. apply_journal_record (seal_journal_record ?r) (scan_journal rio file) = Inr u"
    using assms(3-5) k by (auto simp: apply_journal_record_def apply_terminal_def terminal_record_def seal_journal_record_def)
  ultimately show ?thesis
    using written_fields(2) [OF assms(1,2)] by (simp add: record_fits_def terminal_record_def)
qed

lemma apply_recover_fits:
  assumes "sj_healthy (scan_journal rio file)" "validate_recovery v = []"
    "map_of (sj_open (scan_journal rio file)) (jv_session_id v) = Some b" "jn_correlation_id b = jv_correlation_id v"
    "jn_request_sha256 b = jv_request_sha256 v"
    and retry: "jv_kind v = JK_RecoveryRetry \<Longrightarrow> jv_child_correlation_id v \<notin> set (sj_used_correlations (scan_journal rio file)) \<and>
       (\<forall>l \<in> set (sj_lineages (scan_journal rio file)). jl_child_correlation_id l \<noteq> jv_child_correlation_id v)"
  shows "record_fits (recovery_record v (scan_journal rio file)) (scan_journal rio file)"
proof -
  let ?r = "recovery_record v (scan_journal rio file)"
  have k: "jv_kind v = JK_RecoveryDismiss \<or> jv_kind v = JK_RecoveryRetry" using assms(2) by (auto simp: validate_recovery_def)
  have "journal_rejection (seal_journal_record ?r) = None"
    using assms(2) k scanned_head [OF assms(1)] by (intro sealed_rejection) (auto simp: recovery_record_def validate_recovery_def)
  moreover have "\<exists>u. apply_journal_record (seal_journal_record ?r) (scan_journal rio file) = Inr u"
    using k
  proof
    assume "jv_kind v = JK_RecoveryDismiss"
    with assms(3-5) show ?thesis
      by (auto simp: apply_journal_record_def apply_recovery_def recovery_record_def seal_journal_record_def)
  next
    assume r: "jv_kind v = JK_RecoveryRetry"
    then have "valid_correlation (jv_child_correlation_id v)" using assms(2) by (simp add: validate_recovery_def)
    with retry [OF r] assms(3-5) r show ?thesis
      by (auto simp: apply_journal_record_def apply_recovery_def recovery_record_def seal_journal_record_def list_ex_iff)
  qed
  ultimately show ?thesis
    using written_fields(3) [OF assms(1,2)] by (simp add: record_fits_def recovery_record_def)
qed

lemma unchanged_unless_ok:
  assumes "session_do path c file = (res, file')" "file' \<noteq> file" "sound_file file"
  shows "\<exists>r. append_journal_record path (session_io c) r file = (res, file') \<and> record_fits r (scan_journal Read_Ok file)"
proof -
  have h: "sj_healthy (scan_journal Read_Ok file)" using assms(3) by (simp add: sound_file_def)
  show ?thesis
  proof (cases c)
    case (SJ_Begin io b)
    with assms(1,2) show ?thesis
      by (auto simp: session_begin_def Let_def intro!: apply_begin_fits [OF h] split: if_splits)
  next
    case (SJ_Child io b parent authorization)
    with assms(1,2) show ?thesis
      by (auto simp: begin_recovery_child_def Let_def intro!: apply_begin_fits [OF h] split: if_splits)
  next
    case (SJ_Finish io t)
    with assms(1,2) show ?thesis
      by (auto simp: session_finish_def Let_def intro!: apply_finish_fits [OF h] split: if_splits option.splits)
  next
    case (SJ_Recover io v)
    with assms(1,2) show ?thesis
      by (auto simp: session_recover_def Let_def list_ex_iff intro!: apply_recover_fits [OF h] split: if_splits option.splits)
  qed
qed

lemma sound_call:
  assumes "sound_file file" "clean_io (session_io c)"
  shows "sound_file (snd (session_do path c file))"
proof -
  obtain res file' where d: "session_do path c file = (res, file')" by fastforce
  then show ?thesis
    using unchanged_unless_ok [OF d _ assms(1)] sound_append [OF assms(1) _ assms(2)] assms(1) by (cases "file' = file") auto
qed

lemma sound_run:
  "sound_file f \<Longrightarrow> list_all (\<lambda>c. clean_io (session_io c)) cs \<Longrightarrow> sound_file (session_files path cs f)"
  by (induction cs arbitrary: f) (simp_all add: session_files_def sound_call)

lemma sound_start: "sound_file None"
  by (simp add: sound_file_def scan_journal_def session_scan_start_def terminated_def file_bytes_def)

lemma short_journal_line:
  assumes "length (jn_session_id r) \<le> 84" "length (jn_correlation_id r) \<le> 96" "length (jn_request_sha256 r) = 64"
    "length (jn_audit_sha256 r) \<le> 64" "length (jn_dojo_episode_id r) \<le> 96" "length (jn_terminal_status r) \<le> 128"
    "length (jn_recorded_at r) \<le> 128" "length (jn_previous r) = 64"
  shows "length (serialize_journal_record (seal_journal_record r)) \<le> kMaxJournalLine"
  using assms length_show_u32 [of "jn_schema_version r"] length_show_u64 [of "jn_sequence r"]
    length_show_u32 [of "journal_kind_code (jn_kind r)"] length_dash [of "jn_audit_sha256 r"]
  by (simp add: serialize_journal_record_def journal_fields_def tab_join_def seal_journal_record_def kMaxJournalLine_def)

lemma session_id_length: "canonical_id i kSessionPrefix \<Longrightarrow> length i \<le> 84"
  using prefixed_length [of kSessionPrefix i] by (simp add: canonical_id_def kSessionPrefix_def)

lemma short_begin_line:
  assumes "validate_begin b = []" "sj_healthy (scan_journal rio file)"
  shows "length (serialize_journal_record (seal_journal_record (begin_record b (scan_journal rio file)))) \<le> kMaxJournalLine"
  using assms(1) scanned_head [OF assms(2)]
  by (intro short_journal_line)
    (auto simp: begin_record_def validate_begin_def valid_correlation_def valid_recorded_at_def is_sha256_def session_id_length)

text \<open>
  C.  After any history of calls on a new journal in which no write was torn, the journal is healthy
  and a valid BEGIN of a session that has not begun, under a correlation that is not reserved
  for a child yet to begin, succeeds as soon as the file can be written.
\<close>

theorem journal_accepts_fresh_sessions:
  assumes "path \<noteq> []" "list_all (\<lambda>c. clean_io (session_io c)) cs" "validate_begin b = []"
    and "\<forall>r \<in> set (file_records (session_files path cs None)). is_begin r \<longrightarrow> jn_session_id r \<noteq> jb_session_id b"
    and "\<forall>r \<in> set (file_records (session_files path cs None)). jn_kind r = JK_RecoveryRetry \<longrightarrow>
      recovery_child_from_status (jn_terminal_status r) \<noteq> Some (jb_correlation_id b)"
  shows "jp_healthy (journal_inspect Read_Ok (session_files path cs None)) \<and>
    jw_ok (fst (session_begin path Read_Ok Write_Ok b (session_files path cs None)))"
proof -
  let ?f = "session_files path cs None"
  have h: "sj_healthy (scan_journal Read_Ok ?f)" using sound_run [OF sound_start assms(2)] by (simp add: sound_file_def)
  note log = scanned_log [OF h]
  have "jb_session_id b \<notin> set (sj_seen (scan_journal Read_Ok ?f))"
    using log_invariants [OF log] assms(4) by (auto simp: log_inv_def)
  moreover have "\<not> list_ex (reserves (jb_correlation_id b)) (sj_lineages (scan_journal Read_Ok ?f))"
    using lineage_retried [OF log] assms(5) by (fastforce simp: list_ex_iff reserves_def)
  moreover have "jw_ok (fst (append_journal_record path Write_Ok (begin_record b (scan_journal Read_Ok ?f)) ?f))"
    using append_outcome(1) [OF surjective_pairing] short_begin_line [OF assms(3) h] assms(1) by simp
  ultimately show ?thesis
    using h assms(3) by (simp add: session_begin_def journal_inspect_def Let_def)
qed

end
