(* ===== verification/Session_Journal_Samples.thy ===== *)
theory Session_Journal_Samples
  imports Session_Journal_History
begin

text \<open>
  A concrete journal: a session begins, is found interrupted, is retried as a child, and the child
  begins.  The properties of the session journal are applied to it.
\<close>

definition demo_begin :: "string \<Rightarrow> string \<Rightarrow> journal_begin" where
  "demo_begin digest correlation = \<lparr>jb_session_id = kSessionPrefix @ digest, jb_correlation_id = correlation,
     jb_request_sha256 = zero_hash, jb_recorded_at = ''today''\<rparr>"

definition other_hash :: string where "other_hash = replicate 64 (CHR ''1'')"

lemma other_hash_facts [simp]: "is_sha256 other_hash" "other_hash \<noteq> zero_hash"
  by (simp_all add: other_hash_def zero_hash_def is_sha256_def is_xdigit_def hex_value_def list_all_iff)

definition third_hash :: string where "third_hash = replicate 64 (CHR ''2'')"

lemma third_hash_facts [simp]: "is_sha256 third_hash" "third_hash \<noteq> zero_hash" "third_hash \<noteq> other_hash"
  by (simp_all add: third_hash_def other_hash_def zero_hash_def is_sha256_def is_xdigit_def hex_value_def list_all_iff)

lemma demo_canonical [simp]: "is_sha256 d \<Longrightarrow> canonical_id (kSessionPrefix @ d) kSessionPrefix"
  by (simp add: canonical_id_def prefixed_sha256_def)

lemma demo_token [simp]: "valid_correlation ''a''" "valid_correlation ''b''" "valid_recorded_at ''today''"
  by (simp_all add: valid_correlation_def valid_recorded_at_def token_char_def)

lemma demo_begin_valid: "is_sha256 d \<Longrightarrow> valid_correlation c \<Longrightarrow> validate_begin (demo_begin d c) = []"
  by (simp add: validate_begin_def demo_begin_def)

lemma demo_begin_fields [simp]: "jb_session_id (demo_begin d c) = kSessionPrefix @ d" "jb_correlation_id (demo_begin d c) = c"
  "jb_request_sha256 (demo_begin d c) = zero_hash"
  by (simp_all add: demo_begin_def)

lemma append_ok:
  assumes "path \<noteq> []" "length (serialize_journal_record (seal_journal_record r)) \<le> kMaxJournalLine"
  obtains res file' where "append_journal_record path Write_Ok r file = (res, file')" "jw_ok res"
  using append_outcome(1) [OF surjective_pairing] assms by (metis io.distinct(3,5,11) prod.collapse io.distinct)

section \<open>The interrupted session\<close>

definition demo_record :: journal_record where
  "demo_record = seal_journal_record (begin_record (demo_begin zero_hash ''a'') session_scan_start)"

definition demo_scan :: session_scan where
  "demo_scan = \<lparr>sj_healthy = True, sj_next_sequence = 1, sj_head_sha256 = jn_record_sha256 demo_record,
     sj_open = [(kSessionPrefix @ zero_hash, demo_record)], sj_seen = [kSessionPrefix @ zero_hash],
     sj_used_correlations = [''a''], sj_lineages = [], sj_errors = []\<rparr>"

definition demo_file :: "string option" where
  "demo_file = session_files ''j'' [SJ_Begin Write_Ok (demo_begin zero_hash ''a'')] None"

lemma demo_record_fields: "jn_kind demo_record = JK_Begin" "jn_session_id demo_record = kSessionPrefix @ zero_hash"
  "jn_correlation_id demo_record = ''a''" "jn_request_sha256 demo_record = zero_hash"
  by (simp_all add: demo_record_def begin_record_def seal_journal_record_def)

lemma demo_scanned: "sound_file demo_file" "scan_journal Read_Ok demo_file = demo_scan"
proof -
  let ?b = "demo_begin zero_hash ''a''" and ?s = "scan_journal Read_Ok None"
  have s: "?s = session_scan_start" by (simp add: scan_journal_def)
  have h: "sj_healthy ?s" using sound_start by (simp add: sound_file_def)
  have v: "validate_begin ?b = []" by (rule demo_begin_valid) simp_all
  obtain res f where f: "append_journal_record ''j'' Write_Ok (begin_record ?b ?s) None = (res, f)" "jw_ok res"
    using append_ok [of "''j''" "begin_record ?b ?s" None] short_begin_line [OF v h] by blast
  have "session_begin ''j'' Read_Ok Write_Ok ?b None = (res, f)"
    using v f(1) by (simp add: session_begin_def Let_def s session_scan_start_def)
  then have d: "demo_file = f" by (simp add: demo_file_def session_files_def)
  have "record_fits (begin_record ?b ?s) ?s" by (rule apply_begin_fits [OF h v]) (simp add: s session_scan_start_def)
  from scan_after [OF sound_start f this] obtain u where u: "sound_file f"
    "apply_journal_record demo_record session_scan_start = Inr u" "scan_journal Read_Ok f = advance_session demo_record u"
    unfolding s demo_record_def by blast
  from u(1) show "sound_file demo_file" by (simp add: d)
  from u(2) have "u = session_scan_start\<lparr>sj_seen := [kSessionPrefix @ zero_hash], sj_used_correlations := [''a''],
      sj_open := [(kSessionPrefix @ zero_hash, demo_record)]\<rparr>"
    by (simp add: apply_journal_record_def apply_begin_def demo_record_fields session_scan_start_def set_emplace_def)
  then show "scan_journal Read_Ok demo_file = demo_scan"
    by (simp add: d u(3) advance_session_def demo_scan_def session_scan_start_def)
qed

lemma demo_healthy: "jp_healthy (journal_inspect Read_Ok demo_file)"
  by (simp add: journal_inspect_def Let_def demo_scanned demo_scan_def)

lemma inspection_lists_interrupted_sessions_witness:
  "map jx_session_id (jp_interrupted (journal_inspect Read_Ok demo_file)) = [kSessionPrefix @ zero_hash] \<and>
   interrupted_of (kSessionPrefix @ zero_hash, demo_record) \<in>
     {interrupted_of (jn_session_id b, b) | b. b \<in> set (file_records demo_file) \<and> is_begin b \<and>
        (\<forall>c \<in> set (file_records demo_file). \<not> is_begin c \<longrightarrow> jn_session_id c \<noteq> jn_session_id b)}"
proof -
  have i: "jp_interrupted (journal_inspect Read_Ok demo_file) = [interrupted_of (kSessionPrefix @ zero_hash, demo_record)]"
    by (simp add: journal_inspect_def Let_def demo_scanned demo_scan_def)
  have "interrupted_of (kSessionPrefix @ zero_hash, demo_record) \<in> set (jp_interrupted (journal_inspect Read_Ok demo_file))"
    by (simp add: i)
  moreover have "map jx_session_id (jp_interrupted (journal_inspect Read_Ok demo_file)) = [kSessionPrefix @ zero_hash]"
    by (simp add: i interrupted_of_def)
  moreover note conjunct1 [OF inspection_lists_interrupted_sessions [OF demo_healthy]]
  ultimately show ?thesis by blast
qed

lemma sessions_begin_and_end_once_witness: "distinct (map jn_session_id (filter is_begin (file_records demo_file)))"
  using sessions_begin_and_end_once [OF demo_healthy] by blast

section \<open>Its end\<close>

definition demo_terminal :: journal_terminal where
  "demo_terminal = \<lparr>jt_kind = JK_Commit, jt_session_id = kSessionPrefix @ zero_hash, jt_correlation_id = ''a'',
     jt_request_sha256 = zero_hash, jt_audit_sha256 = zero_hash, jt_dojo_episode_id = [], jt_terminal_status = ''DONE'',
     jt_recorded_at = ''today''\<rparr>"

lemma length_hash [simp]: "is_sha256 d \<Longrightarrow> length d = 64"
  by (simp add: is_sha256_def)

lemma demo_head: "length (sj_head_sha256 demo_scan) = 64"
  by (simp add: demo_scan_def demo_record_def seal_journal_record_def)

lemma demo_finish:
  obtains res f where "session_finish ''j'' Read_Ok Write_Ok demo_terminal demo_file = (res, f)" "jw_ok res" "sound_file f"
proof -
  let ?r = "terminal_record demo_terminal demo_scan"
  have v: "validate_terminal demo_terminal = []" by (simp add: validate_terminal_def demo_terminal_def)
  have short: "length (serialize_journal_record (seal_journal_record ?r)) \<le> kMaxJournalLine"
    by (rule short_journal_line) (simp_all add: terminal_record_def demo_terminal_def demo_head kSessionPrefix_def)
  obtain res f where f: "append_journal_record ''j'' Write_Ok ?r demo_file = (res, f)" "jw_ok res"
    using append_ok [of "''j''" ?r demo_file] short by blast
  have o1: "map_of (sj_open demo_scan) (jt_session_id demo_terminal) = Some demo_record"
    "jn_correlation_id demo_record = jt_correlation_id demo_terminal"
    "jn_request_sha256 demo_record = jt_request_sha256 demo_terminal"
    by (simp_all add: demo_scan_def demo_terminal_def demo_record_fields)
  have "session_finish ''j'' Read_Ok Write_Ok demo_terminal demo_file = (res, f)"
    using f(1) v o1 by (simp add: session_finish_def Let_def demo_scanned) (simp add: demo_scan_def)
  moreover have "record_fits ?r demo_scan"
    using apply_finish_fits [of Read_Ok demo_file demo_terminal demo_record] v o1 by (simp add: demo_scanned) (simp add: demo_scan_def)
  then have "sound_file f" using scan_after [OF demo_scanned(1), of "''j''" Write_Ok ?r res f] f by (simp add: demo_scanned)
  ultimately show thesis using that f(2) by blast
qed

lemma ended_session_stays_ended_witness:
  "\<exists>res f. session_finish ''j'' Read_Ok Write_Ok demo_terminal demo_file = (res, f) \<and> jw_ok res \<and>
     \<not> jw_ok (fst (session_finish ''j'' Read_Ok Write_Ok demo_terminal (file_append f []))) \<and>
     \<not> jw_ok (fst (session_begin ''j'' Read_Ok Write_Ok (demo_begin zero_hash ''b'') (file_append f [])))"
proof -
  obtain res f where f: "session_finish ''j'' Read_Ok Write_Ok demo_terminal demo_file = (res, f)" "jw_ok res" "sound_file f"
    by (rule demo_finish)
  have "jp_healthy (journal_inspect Read_Ok (file_append f []))"
    using sound_append_nothing [OF f(3)] by (simp add: journal_inspect_def Let_def sound_file_def)
  from ended_session_stays_ended [OF disjI1 [OF conjI [OF f(1) refl]] f(2) this]
  have "\<not> jw_ok (fst (session_finish ''j'' Read_Ok Write_Ok demo_terminal (file_append f [])))"
    "\<not> jw_ok (fst (session_begin ''j'' Read_Ok Write_Ok (demo_begin zero_hash ''b'') (file_append f [])))"
    by (simp_all add: demo_terminal_def)
  with f(1,2) show ?thesis by blast
qed

section \<open>Its retry\<close>

definition demo_retry :: journal_recovery where
  "demo_retry = \<lparr>jv_kind = JK_RecoveryRetry, jv_session_id = kSessionPrefix @ zero_hash, jv_correlation_id = ''a'',
     jv_request_sha256 = zero_hash, jv_begin_record_sha256 = jn_record_sha256 demo_record,
     jv_authorization_sha256 = other_hash, jv_child_correlation_id = ''b'', jv_recorded_at = ''today''\<rparr>"

definition demo_lineage :: recovery_lineage where
  "demo_lineage = \<lparr>jl_parent_session_id = kSessionPrefix @ zero_hash, jl_parent_correlation_id = ''a'',
     jl_authorization_sha256 = other_hash, jl_child_correlation_id = ''b'', jl_child_session_id = [],
     jl_child_started = False\<rparr>"

lemma demo_recovered:
  obtains f where "sound_file f" "sj_seen (scan_journal Read_Ok f) = [kSessionPrefix @ zero_hash]"
    "sj_lineages (scan_journal Read_Ok f) = [demo_lineage]" "sj_healthy (scan_journal Read_Ok f)"
    "sj_used_correlations (scan_journal Read_Ok f) = [''a'']"
proof -
  let ?r = "recovery_record demo_retry demo_scan"
  have v: "validate_recovery demo_retry = []"
    by (simp add: validate_recovery_def demo_retry_def demo_record_def seal_journal_record_def)
  have o1: "map_of (sj_open demo_scan) (jv_session_id demo_retry) = Some demo_record"
    "jn_correlation_id demo_record = jv_correlation_id demo_retry" "jn_request_sha256 demo_record = jv_request_sha256 demo_retry"
    by (simp_all add: demo_scan_def demo_retry_def demo_record_fields)
  have short: "length (serialize_journal_record (seal_journal_record ?r)) \<le> kMaxJournalLine"
    by (rule short_journal_line)
      (simp_all add: recovery_record_def demo_retry_def demo_head kSessionPrefix_def kRecoveryRetryPrefix_def)
  obtain res f where f: "append_journal_record ''j'' Write_Ok ?r demo_file = (res, f)" "jw_ok res"
    using append_ok [of "''j''" ?r demo_file] short by blast
  have "record_fits ?r demo_scan"
    using apply_recover_fits [of Read_Ok demo_file demo_retry demo_record] v o1
    by (simp add: demo_scanned) (simp add: demo_scan_def demo_retry_def)
  from scan_after [OF demo_scanned(1) f(1,2)] this obtain u where u: "sound_file f"
    "apply_journal_record (seal_journal_record ?r) demo_scan = Inr u"
    "scan_journal Read_Ok f = advance_session (seal_journal_record ?r) u" by (auto simp: demo_scanned)
  from u(2) have "u = demo_scan\<lparr>sj_open := [], sj_lineages := [demo_lineage]\<rparr>"
    using o1 by (simp add: apply_journal_record_def apply_recovery_def recovery_record_def demo_retry_def seal_journal_record_def
        lineage_of_def demo_lineage_def split: if_splits) (simp add: demo_scan_def map_erase_def)
  with u(1,3) that show thesis by (simp add: advance_session_def demo_scan_def)
qed

lemma retry_record_starts_one_child_witness:
  "\<exists>f res f'. begin_recovery_child ''j'' Read_Ok Write_Ok (demo_begin other_hash ''b'') (kSessionPrefix @ zero_hash) other_hash f = (res, f') \<and>
     jw_ok res \<and> \<not> jw_ok (fst (begin_recovery_child ''j'' Read_Ok Write_Ok (demo_begin other_hash ''b'')
       (kSessionPrefix @ zero_hash) other_hash (file_append f' [])))"
proof -
  obtain f where f: "sound_file f" "sj_seen (scan_journal Read_Ok f) = [kSessionPrefix @ zero_hash]"
    "sj_lineages (scan_journal Read_Ok f) = [demo_lineage]" "sj_healthy (scan_journal Read_Ok f)" by (rule demo_recovered)
  let ?b = "demo_begin other_hash ''b''"
  have v: "validate_begin ?b = []" by (rule demo_begin_valid) simp_all
  obtain res f' where a: "append_journal_record ''j'' Write_Ok (begin_record ?b (scan_journal Read_Ok f)) f = (res, f')" "jw_ok res"
    using append_ok [of "''j''" "begin_record ?b (scan_journal Read_Ok f)" f] short_begin_line [OF v f(4)] by blast
  have k: "begin_recovery_child ''j'' Read_Ok Write_Ok ?b (kSessionPrefix @ zero_hash) other_hash f = (res, f')"
    using v a(1) f(2-4) by (simp add: begin_recovery_child_def Let_def reserves_def demo_lineage_def)
  from retry_record_starts_one_child [OF this a(2), of ?b] have
    "\<not> jw_ok (fst (begin_recovery_child ''j'' Read_Ok Write_Ok ?b (kSessionPrefix @ zero_hash) other_hash (file_append f' [])))"
    by simp
  with k a(2) show ?thesis by blast
qed

lemma demo_child:
  obtains f r where "sj_healthy (scan_journal Read_Ok f)" "sj_lineages (scan_journal Read_Ok f) = [r]" "jl_child_started r"
    "jl_child_correlation_id r = ''b''" "set (sj_seen (scan_journal Read_Ok f)) = {kSessionPrefix @ other_hash, kSessionPrefix @ zero_hash}"
proof -
  obtain f where f: "sound_file f" "sj_seen (scan_journal Read_Ok f) = [kSessionPrefix @ zero_hash]"
    "sj_lineages (scan_journal Read_Ok f) = [demo_lineage]" "sj_healthy (scan_journal Read_Ok f)" by (rule demo_recovered)
  let ?b = "demo_begin other_hash ''b''" and ?s = "scan_journal Read_Ok f"
  let ?r = "begin_record ?b ?s"
  have v: "validate_begin ?b = []" by (rule demo_begin_valid) simp_all
  obtain res g where a: "append_journal_record ''j'' Write_Ok ?r f = (res, g)" "jw_ok res"
    using append_ok [of "''j''" ?r f] short_begin_line [OF v f(4)] by blast
  have "record_fits ?r ?s" by (rule apply_begin_fits [OF f(4) v]) (simp add: f(2))
  from scan_after [OF f(1) a this] obtain u where u: "sound_file g" "apply_journal_record (seal_journal_record ?r) ?s = Inr u"
    "scan_journal Read_Ok g = advance_session (seal_journal_record ?r) u" by blast
  have k: "jn_kind ?r = JK_Begin" "jn_session_id ?r = kSessionPrefix @ other_hash" "jn_correlation_id ?r = ''b''"
    by (simp_all add: begin_record_def)
  from u(2) have "sj_seen u = [kSessionPrefix @ other_hash, kSessionPrefix @ zero_hash] \<and>
      sj_lineages u = [demo_lineage\<lparr>jl_child_started := True, jl_child_session_id := kSessionPrefix @ other_hash\<rparr>]"
    by (auto simp: apply_journal_record_def apply_begin_def k f(2,3) set_emplace_def demo_lineage_def)
  then show thesis
    using that [of g "demo_lineage\<lparr>jl_child_started := True, jl_child_session_id := kSessionPrefix @ other_hash\<rparr>"] u(1)
    by (auto simp: u(3) advance_session_def sound_file_def demo_lineage_def)
qed

lemma begin_never_takes_a_reservation_witness:
  "\<exists>f. (\<exists>c \<in> set (file_records f). is_begin c \<and> jn_correlation_id c = ''b'') \<and>
     (\<exists>r \<in> set (file_records f). jn_kind r = JK_RecoveryRetry) \<and>
     jw_ok (fst (session_begin ''j'' Read_Ok Write_Ok (demo_begin third_hash ''b'') f))"
proof -
  obtain f l where f: "sj_healthy (scan_journal Read_Ok f)" "sj_lineages (scan_journal Read_Ok f) = [l]" "jl_child_started l"
    "jl_child_correlation_id l = ''b''" "set (sj_seen (scan_journal Read_Ok f)) = {kSessionPrefix @ other_hash, kSessionPrefix @ zero_hash}"
    by (rule demo_child)
  have log: "session_log (file_records f) (scan_journal Read_Ok f)" by (rule scanned_log [OF f(1)])
  obtain r where r: "r \<in> set (file_records f)" "jn_kind r = JK_RecoveryRetry"
    "recovery_child_from_status (jn_terminal_status r) = Some ''b''"
    using lineage_retried [OF log, of l] f(2,4) by auto
  let ?b = "demo_begin third_hash ''b''"
  have v: "validate_begin ?b = []" by (rule demo_begin_valid) simp_all
  obtain res g where a: "append_journal_record ''j'' Write_Ok (begin_record ?b (scan_journal Read_Ok f)) f = (res, g)" "jw_ok res"
    using append_ok [of "''j''" "begin_record ?b (scan_journal Read_Ok f)" f] short_begin_line [OF v f(1)] by blast
  have k: "session_begin ''j'' Read_Ok Write_Ok ?b f = (res, g)"
    using v a(1) f by (simp add: session_begin_def Let_def reserves_def)
  from begin_never_takes_a_reservation [OF this a(2) r(1,2)] r(3)
  have "\<exists>c \<in> set (file_records f). is_begin c \<and> jn_correlation_id c = ''b''" by simp
  with r(1,2) k a(2) show ?thesis by (metis fst_conv)
qed

lemma journal_accepts_fresh_sessions_witness:
  "jw_ok (fst (session_begin ''j'' Read_Ok Write_Ok (demo_begin other_hash ''b'') demo_file))"
proof -
  have log: "session_log (file_records demo_file) demo_scan"
    using scanned_log [of Read_Ok demo_file] demo_healthy by (simp add: journal_inspect_def Let_def demo_scanned)
  have b: "\<forall>r \<in> set (file_records demo_file). is_begin r \<longrightarrow> jn_session_id r \<noteq> kSessionPrefix @ other_hash"
  proof -
    have "jn_session_id ` {r \<in> set (file_records demo_file). is_begin r} = {kSessionPrefix @ zero_hash}"
      using log_invariants [OF log] by (simp add: log_inv_def demo_scan_def)
    then have "jn_session_id r = kSessionPrefix @ zero_hash" if "r \<in> set (file_records demo_file)" "is_begin r" for r
      using that by blast
    moreover have "kSessionPrefix @ zero_hash \<noteq> kSessionPrefix @ other_hash" using other_hash_facts(2) [THEN not_sym] by simp
    ultimately show ?thesis by metis
  qed
  have r: "\<forall>r \<in> set (file_records demo_file). jn_kind r = JK_RecoveryRetry \<longrightarrow>
      recovery_child_from_status (jn_terminal_status r) \<noteq> Some ''b''"
    using retried_lineage [OF log] by (auto simp: demo_scan_def)
  have "list_all (\<lambda>c. clean_io (session_io c)) [SJ_Begin Write_Ok (demo_begin zero_hash ''a'')]" by (simp add: clean_io_def)
  from journal_accepts_fresh_sessions [OF _ this demo_begin_valid, of "''j''" other_hash "''b''"] b r
  show ?thesis by (simp add: demo_file_def)
qed

end
