(* ===== verification/Models.thy ===== *)
theory Models
  imports Data_Leech
begin

text \<open>
  What a model is and when it counts as verified: \<open>ModelManifest\<close> (\<open>src/model_manifest.cpp\<close>),
  \<open>ModelRegistry\<close> (\<open>src/model_registry.cpp\<close>) and the identity of a \<open>HardwareProfile\<close>
  (\<open>src/hardware_profile.cpp\<close>; its detection, which reads the machine, is not modelled).

  Paths are those of POSIX, and what the file system answers is an argument, as in
  \<open>Data_Leech\<close>; an error code of \<open>is_regular_file\<close> is the answer no.
\<close>

section \<open>Hardware profiles\<close>

datatype platform = PF_Unknown | PF_Windows | PF_Linux | PF_MacOS

datatype cpu_architecture = CA_Unknown | CA_X86 | CA_X86_64 | CA_Arm64

record hardware_profile =
  hp_schema_version :: u32
  hp_platform :: platform
  hp_architecture :: cpu_architecture
  hp_logical_threads :: u32
  hp_ram_mb :: u64
  hp_vram_mb :: u64
  hp_gpu_present :: bool
  hp_cpu_name :: string
  hp_gpu_name :: string

fun platform_to_string :: "platform \<Rightarrow> string" where
  "platform_to_string PF_Windows = ''windows''"
| "platform_to_string PF_Linux = ''linux''"
| "platform_to_string PF_MacOS = ''macos''"
| "platform_to_string PF_Unknown = ''unknown''"

fun architecture_to_string :: "cpu_architecture \<Rightarrow> string" where
  "architecture_to_string CA_X86 = ''x86''"
| "architecture_to_string CA_X86_64 = ''x86_64''"
| "architecture_to_string CA_Arm64 = ''arm64''"
| "architecture_to_string CA_Unknown = ''unknown''"

definition bool_digit :: "bool \<Rightarrow> string" where
  "bool_digit b = (if b then ''1'' else ''0'')"

definition hardware_canonical_payload :: "hardware_profile \<Rightarrow> string" where
  "hardware_canonical_payload h = concat (map (\<lambda>l. l @ [NL])
     [''schema='' @ show_u (hp_schema_version h), ''platform='' @ platform_to_string (hp_platform h),
      ''architecture='' @ architecture_to_string (hp_architecture h),
      ''logical_threads='' @ show_u (max 1 (hp_logical_threads h)), ''ram_mb='' @ show_u (hp_ram_mb h),
      ''vram_mb='' @ show_u (hp_vram_mb h), ''gpu_present='' @ bool_digit (hp_gpu_present h),
      ''cpu_name='' @ hp_cpu_name h, ''gpu_name='' @ hp_gpu_name h])"

definition hardware_immutable_id :: "hardware_profile \<Rightarrow> string" where
  "hardware_immutable_id h = ''guff:hardware:sha256:'' @ sha256 (hardware_canonical_payload h)"

section \<open>Manifests\<close>

datatype model_format = MF_Unknown | MF_GGUF | MF_SafeTensors | MF_Other

datatype quantization = QZ_Unknown | QZ_F32 | QZ_F16 | QZ_BF16 | QZ_Q8_0 | QZ_Q6_K | QZ_Q5_K_M | QZ_Q4_K_M | QZ_Q4_0

record upstream_provenance =
  up_provider :: string
  up_repository :: string
  up_revision :: string
  up_source_filename :: string
  up_source_sha256 :: string

record license_metadata =
  lm_spdx_id :: string
  lm_name :: string
  lm_commercial :: bool
  lm_redistribution :: bool

record hardware_requirements =
  hr_min_ram_mb :: u64
  hr_min_vram_mb :: u64
  hr_recommended_threads :: u32
  hr_cpu_only_supported :: bool

record model_manifest =
  mm_schema_version :: u32
  mm_display_name :: string
  mm_family :: string
  mm_architecture :: string
  mm_variant :: string
  mm_parameter_count :: u64
  mm_format :: model_format
  mm_quantization :: quantization
  mm_file_name :: string
  mm_file_size_bytes :: u64
  mm_sha256 :: string
  mm_provenance :: upstream_provenance
  mm_license :: license_metadata
  mm_hardware :: hardware_requirements
  mm_capabilities :: "string list"
  mm_tags :: "string list"

fun model_format_to_string :: "model_format \<Rightarrow> string" where
  "model_format_to_string MF_Unknown = ''UNKNOWN''"
| "model_format_to_string MF_GGUF = ''GGUF''"
| "model_format_to_string MF_SafeTensors = ''SAFETENSORS''"
| "model_format_to_string MF_Other = ''OTHER''"

fun quantization_to_string :: "quantization \<Rightarrow> string" where
  "quantization_to_string QZ_Unknown = ''UNKNOWN''"
| "quantization_to_string QZ_F32 = ''F32''"
| "quantization_to_string QZ_F16 = ''F16''"
| "quantization_to_string QZ_BF16 = ''BF16''"
| "quantization_to_string QZ_Q8_0 = ''Q8_0''"
| "quantization_to_string QZ_Q6_K = ''Q6_K''"
| "quantization_to_string QZ_Q5_K_M = ''Q5_K_M''"
| "quantization_to_string QZ_Q4_K_M = ''Q4_K_M''"
| "quantization_to_string QZ_Q4_0 = ''Q4_0''"

text \<open>\<open>std::tolower\<close> in the C locale.\<close>

definition to_lower :: "char \<Rightarrow> char" where
  "to_lower ch = (let c = (of_char ch :: nat) in if 65 \<le> c \<and> c \<le> 90 then char_of (c + 32) else ch)"

definition lower_hex :: "string \<Rightarrow> string" where
  "lower_hex s = map to_lower s"

definition key_field :: "string \<Rightarrow> string \<Rightarrow> string" where
  "key_field key value = nat_digits (length key) @ '':'' @ key @ ''='' @ nat_digits (length value) @ '':'' @ value @ '';''"

definition normalized_list :: "string list \<Rightarrow> string list" where
  "normalized_list input = remdups_adj (sort (filter (\<lambda>v. v \<noteq> []) input))"

definition safe_relative_model_path :: "string \<Rightarrow> bool" where
  "safe_relative_model_path file_name \<longleftrightarrow> file_name \<noteq> [] \<and> hd file_name \<noteq> CHR ''/'' \<and> ''..'' \<notin> set (path_components file_name)"

definition validate_model_manifest :: "model_manifest \<Rightarrow> string list" where
  "validate_model_manifest m = (let p = mm_provenance m; l = mm_license m; h = mm_hardware m in
     err (mm_schema_version m \<noteq> 1) ''unsupported manifest schema version'' @
     err (mm_display_name m = []) ''display_name is required'' @
     err (mm_family m = []) ''family is required'' @
     err (mm_architecture m = []) ''architecture is required'' @
     err (mm_parameter_count m = 0) ''parameter_count must be non-zero'' @
     err (mm_format m = MF_Unknown) ''model format is required'' @
     err (mm_quantization m = QZ_Unknown) ''quantization is required'' @
     err (\<not> safe_relative_model_path (mm_file_name m)) ''file_name must be a safe relative path'' @
     err (mm_file_size_bytes m = 0) ''file_size_bytes must be non-zero'' @
     err (\<not> is_sha256 (mm_sha256 m)) ''sha256 must be exactly 64 hexadecimal characters'' @
     err (up_provider p = []) ''provenance.provider is required'' @
     err (up_repository p = []) ''provenance.repository is required'' @
     err (up_revision p = []) ''provenance.revision is required'' @
     err (up_source_filename p = []) ''provenance.source_filename is required'' @
     err (\<not> is_sha256 (up_source_sha256 p)) ''provenance.source_sha256 must be a SHA-256 digest'' @
     err (lm_spdx_id l = []) ''license.spdx_id is required'' @
     err (lm_name l = []) ''license.name is required'' @
     err (hr_min_ram_mb h = 0) ''hardware.min_ram_mb must be non-zero'' @
     err (hr_recommended_threads h = 0) ''hardware.recommended_threads must be non-zero'')"

text \<open>The fields of the canonical payload: keys with their values.\<close>

definition identity_head :: "model_manifest \<Rightarrow> (string \<times> string) list" where
  "identity_head m = (let p = mm_provenance m; l = mm_license m; h = mm_hardware m in
     [(''schema_version'', show_u (mm_schema_version m)), (''display_name'', mm_display_name m),
      (''family'', mm_family m), (''architecture'', mm_architecture m), (''variant'', mm_variant m),
      (''parameter_count'', show_u (mm_parameter_count m)), (''format'', model_format_to_string (mm_format m)),
      (''quantization'', quantization_to_string (mm_quantization m)), (''file_name'', mm_file_name m),
      (''file_size_bytes'', show_u (mm_file_size_bytes m)), (''sha256'', lower_hex (mm_sha256 m)),
      (''provenance.provider'', up_provider p), (''provenance.repository'', up_repository p),
      (''provenance.revision'', up_revision p), (''provenance.source_filename'', up_source_filename p),
      (''provenance.source_sha256'', lower_hex (up_source_sha256 p)), (''license.spdx_id'', lm_spdx_id l),
      (''license.name'', lm_name l), (''license.commercial_use_allowed'', bool_digit (lm_commercial l)),
      (''license.redistribution_allowed'', bool_digit (lm_redistribution l)),
      (''hardware.min_ram_mb'', show_u (hr_min_ram_mb h)), (''hardware.min_vram_mb'', show_u (hr_min_vram_mb h)),
      (''hardware.recommended_threads'', show_u (hr_recommended_threads h)),
      (''hardware.cpu_only_supported'', bool_digit (hr_cpu_only_supported h))])"

definition identity_list :: "string \<Rightarrow> string \<Rightarrow> string list \<Rightarrow> (string \<times> string) list" where
  "identity_list count_key key values = (count_key, nat_digits (length values)) # map (Pair key) values"

definition identity_fields :: "model_manifest \<Rightarrow> (string \<times> string) list" where
  "identity_fields m = identity_head m @
     identity_list ''capabilities.count'' ''capability'' (normalized_list (mm_capabilities m)) @
     identity_list ''tags.count'' ''tag'' (normalized_list (mm_tags m))"

definition canonical_identity_payload :: "model_manifest \<Rightarrow> string" where
  "canonical_identity_payload m = concat (map (\<lambda>(key, value). key_field key value) (identity_fields m))"

definition kModelPrefix :: string where "kModelPrefix = ''guff:model:sha256:''"

definition model_immutable_id :: "model_manifest \<Rightarrow> string" where
  "model_immutable_id m = kModelPrefix @ sha256 (canonical_identity_payload m)"

section \<open>Verification of a file\<close>

record verification_report =
  vr_manifest_valid :: bool
  vr_file_exists :: bool
  vr_size_matches :: bool
  vr_hash_matches :: bool
  vr_actual_size_bytes :: u64
  vr_expected_sha256 :: string
  vr_actual_sha256 :: string
  vr_errors :: "string list"

definition vr_ok :: "verification_report \<Rightarrow> bool" where
  "vr_ok r \<longleftrightarrow> vr_manifest_valid r \<and> vr_file_exists r \<and> vr_size_matches r \<and> vr_hash_matches r \<and> vr_errors r = []"

definition verify_model_file :: "fs_view \<Rightarrow> string \<Rightarrow> model_manifest \<Rightarrow> verification_report" where
  "verify_model_file F path m =
     (let r = \<lparr>vr_manifest_valid = (validate_model_manifest m = []), vr_file_exists = False, vr_size_matches = False,
            vr_hash_matches = False, vr_actual_size_bytes = 0, vr_expected_sha256 = lower_hex (mm_sha256 m),
            vr_actual_sha256 = [], vr_errors = validate_model_manifest m\<rparr>;
          add = (\<lambda>message r. r\<lparr>vr_errors := vr_errors r @ [message]\<rparr>)
      in if \<not> vr_manifest_valid r then r
         else if \<not> fv_regular F path then add ''model file does not exist or is not a regular file'' r
         else case fv_size F path of
           None \<Rightarrow> add ''unable to read model file size'' (r\<lparr>vr_file_exists := True\<rparr>)
         | Some n \<Rightarrow>
             let r1 = r\<lparr>vr_file_exists := True, vr_actual_size_bytes := n, vr_size_matches := (n = mm_file_size_bytes m)\<rparr>;
                 r2 = (if vr_size_matches r1 then r1 else add ''model file size does not match manifest'' r1)
             in case sha256_file (fv_hashed F path) of
                  None \<Rightarrow> add ''unable to hash model file'' r2
                | Some digest \<Rightarrow>
                    let r3 = r2\<lparr>vr_actual_sha256 := lower_hex digest,
                          vr_hash_matches := (lower_hex digest = vr_expected_sha256 r2)\<rparr>
                    in if vr_hash_matches r3 then r3 else add ''model SHA-256 does not match manifest'' r3)"

section \<open>The registry\<close>

datatype register_status = RG_Registered | RG_Duplicate | RG_Invalid | RG_VerificationFailed

record register_result =
  rg_status :: register_status
  rg_immutable_id :: string
  rg_errors :: "string list"

definition register_ok :: "register_result \<Rightarrow> bool" where
  "register_ok r \<longleftrightarrow> rg_status r = RG_Registered"

fun register_status_to_string :: "register_status \<Rightarrow> string" where
  "register_status_to_string RG_Registered = ''REGISTERED''"
| "register_status_to_string RG_Duplicate = ''DUPLICATE''"
| "register_status_to_string RG_Invalid = ''INVALID''"
| "register_status_to_string RG_VerificationFailed = ''VERIFICATION_FAILED''"

record registry_entry =
  re_manifest :: model_manifest
  re_verified :: bool

type_synonym model_registry = "registry_entry smap"

definition register_manifest :: "model_manifest \<Rightarrow> model_registry \<Rightarrow> register_result \<times> model_registry" where
  "register_manifest m R =
     (let errors = validate_model_manifest m; ident = model_immutable_id m in
      if errors \<noteq> [] then (\<lparr>rg_status = RG_Invalid, rg_immutable_id = [], rg_errors = errors\<rparr>, R)
      else if contains R ident then (\<lparr>rg_status = RG_Duplicate, rg_immutable_id = ident, rg_errors = []\<rparr>, R)
      else (\<lparr>rg_status = RG_Registered, rg_immutable_id = ident, rg_errors = []\<rparr>,
            (ident, \<lparr>re_manifest = m, re_verified = False\<rparr>) # R))"

definition register_verified ::
    "fs_view \<Rightarrow> string \<Rightarrow> model_manifest \<Rightarrow> model_registry \<Rightarrow> register_result \<times> model_registry" where
  "register_verified F path m R =
     (let v = verify_model_file F path m; ident = model_immutable_id m;
          registered = \<lparr>rg_status = RG_Registered, rg_immutable_id = ident, rg_errors = []\<rparr>;
          entry = \<lparr>re_manifest = m, re_verified = True\<rparr>
      in if \<not> vr_ok v
         then (\<lparr>rg_status = (if vr_manifest_valid v then RG_VerificationFailed else RG_Invalid),
                rg_immutable_id = (if vr_manifest_valid v then ident else []), rg_errors = vr_errors v\<rparr>, R)
         else case map_of R ident of
           Some e \<Rightarrow> (if re_verified e then (registered\<lparr>rg_status := RG_Duplicate\<rparr>, R)
                      else (registered, AList.update ident entry R))
         | None \<Rightarrow> (registered, (ident, entry) # R))"

definition find_model :: "string \<Rightarrow> model_registry \<Rightarrow> model_manifest option" where
  "find_model ident R = map_option re_manifest (map_of R ident)"

definition model_is_verified :: "string \<Rightarrow> model_registry \<Rightarrow> bool" where
  "model_is_verified ident R \<longleftrightarrow> (case map_of R ident of None \<Rightarrow> False | Some e \<Rightarrow> re_verified e)"

definition model_ids :: "model_registry \<Rightarrow> string list" where
  "model_ids R = sort (map fst R)"

definition verified_model_ids :: "model_registry \<Rightarrow> string list" where
  "verified_model_ids R = sort (map fst (filter (\<lambda>e. re_verified (snd e)) R))"

end
