(* ===== verification/Models_Safety.thy ===== *)
theory Models_Safety
  imports Models
begin

text \<open>
  The identity of a model is the identity of its normalized manifest, up to collisions of the
  digest, and a model that counts as verified was verified.
\<close>

section \<open>The payload is injective\<close>

lemma key_field_inj:
  assumes "key_field k v @ xs = key_field k' v' @ ys"
  shows "k = k' \<and> v = v' \<and> xs = ys"
proof -
  have parse: "s = t \<and> as = bs" if "nat_digits (length s) @ CHR '':'' # s @ as = nat_digits (length t) @ CHR '':'' # t @ bs"
    for s t as bs :: string
  proof -
    have "nat_digits (length s) = nat_digits (length t)"
      using takeWhile_neq_none [OF nat_digits_no_colon(1)] that by metis
    then have "length s = length t" by (simp add: nat_digits_inj)
    with that show ?thesis by simp
  qed
  from assms have "nat_digits (length k) @ CHR '':'' # k @ (CHR ''='' # nat_digits (length v) @ CHR '':'' # v @ CHR '';'' # xs) =
      nat_digits (length k') @ CHR '':'' # k' @ (CHR ''='' # nat_digits (length v') @ CHR '':'' # v' @ CHR '';'' # ys)"
    by (simp add: key_field_def)
  from parse [OF this] have k: "k = k'" and "nat_digits (length v) @ CHR '':'' # v @ (CHR '';'' # xs) =
      nat_digits (length v') @ CHR '':'' # v' @ (CHR '';'' # ys)" by simp_all
  from parse [OF this(2)] k show ?thesis by simp
qed

lemma key_fields_inj:
  "concat (map (\<lambda>(k, v). key_field k v) fs) = concat (map (\<lambda>(k, v). key_field k v) gs) \<Longrightarrow> fs = gs"
proof (induction fs arbitrary: gs)
  case Nil
  then show ?case by (cases gs) (auto simp: key_field_def)
next
  case (Cons f fs)
  show ?case
  proof (cases gs)
    case Nil
    with Cons.prems show ?thesis by (cases f) (simp add: key_field_def)
  next
    case (Cons g gs')
    obtain k v k' v' where "f = (k, v)" "g = (k', v')" by fastforce
    with Cons Cons.prems Cons.IH [of gs'] key_field_inj [of k v _ k' v'] show ?thesis by simp
  qed
qed

lemma identity_lists_inj:
  assumes "identity_list c k xs @ rest = identity_list c k ys @ rest'"
  shows "xs = ys \<and> rest = rest'"
proof -
  have "length xs = length ys" using assms by (simp add: identity_list_def nat_digits_inj)
  with assms have "map (Pair k) xs = map (Pair k) ys" "rest = rest'" by (simp_all add: identity_list_def)
  moreover have "inj (Pair k :: string \<Rightarrow> string \<times> string)" by (simp add: inj_def)
  ultimately show ?thesis by (simp add: inj_map_eq_map)
qed

text \<open>What the payload identifies: digests in lower case, lists sorted, without repetition and empty entries.\<close>

definition normal_model :: "model_manifest \<Rightarrow> model_manifest" where
  "normal_model m = m\<lparr>mm_sha256 := lower_hex (mm_sha256 m),
     mm_provenance := (mm_provenance m)\<lparr>up_source_sha256 := lower_hex (up_source_sha256 (mm_provenance m))\<rparr>,
     mm_capabilities := normalized_list (mm_capabilities m), mm_tags := normalized_list (mm_tags m)\<rparr>"

lemma model_names_inj:
  "model_format_to_string f = model_format_to_string g \<longleftrightarrow> f = g"
  "quantization_to_string q = quantization_to_string r \<longleftrightarrow> q = r" "bool_digit b = bool_digit c \<longleftrightarrow> b = c"
proof -
  show "model_format_to_string f = model_format_to_string g \<longleftrightarrow> f = g" by (cases f; cases g; simp)
  show "quantization_to_string q = quantization_to_string r \<longleftrightarrow> q = r" by (cases q; cases r; simp)
  show "bool_digit b = bool_digit c \<longleftrightarrow> b = c" by (simp add: bool_digit_def)
qed

lemma identity_head_inj:
  assumes "identity_head m = identity_head m'" "normalized_list (mm_capabilities m) = normalized_list (mm_capabilities m')"
    "normalized_list (mm_tags m) = normalized_list (mm_tags m')"
  shows "normal_model m = normal_model m'"
proof -
  have "mm_license m = mm_license m'"
    using assms(1) by (intro license_metadata.equality) (simp_all add: identity_head_def Let_def model_names_inj)
  moreover have "mm_hardware m = mm_hardware m'"
    using assms(1) by (intro hardware_requirements.equality) (simp_all add: identity_head_def Let_def model_names_inj)
  moreover have "mm_provenance (normal_model m) = mm_provenance (normal_model m')"
    using assms(1) by (intro upstream_provenance.equality) (simp_all add: identity_head_def Let_def normal_model_def)
  ultimately show ?thesis
    using assms by (intro model_manifest.equality) (simp_all add: identity_head_def Let_def normal_model_def model_names_inj)
qed

lemma identity_fields_normal: "normal_model m = normal_model m' \<Longrightarrow> identity_fields m = identity_fields m'"
proof -
  assume e: "normal_model m = normal_model m'"
  let ?n = "\<lambda>m. (identity_head (normal_model m), mm_capabilities (normal_model m), mm_tags (normal_model m))"
  have low: "lower_hex (lower_hex s) = lower_hex s" for s
    by (induction s) (auto simp: lower_hex_def to_lower_def Let_def)
  have h: "identity_head (normal_model m) = identity_head m" for m
    by (simp add: identity_head_def normal_model_def Let_def low)
  have "identity_head m = identity_head m'" using h e by metis
  moreover have "normalized_list (mm_capabilities m) = normalized_list (mm_capabilities m')"
    "normalized_list (mm_tags m) = normalized_list (mm_tags m')"
    using arg_cong [OF e, of mm_capabilities] arg_cong [OF e, of mm_tags] by (simp_all add: normal_model_def)
  ultimately show ?thesis by (simp add: identity_fields_def)
qed

text \<open>
  C26. A model id binds the model.  Every key and value of the canonical payload is written with
  its length, so two manifests have the same payload exactly when they agree in every field up
  to the case of digests and the order and repetition of capabilities and tags; two manifests
  that agree in their id but not in that sense exhibit a collision of SHA-256.
\<close>

theorem model_id_binds_manifest:
  "(canonical_identity_payload m = canonical_identity_payload m' \<longleftrightarrow> normal_model m = normal_model m') \<and>
   (model_immutable_id m = model_immutable_id m' \<longleftrightarrow> normal_model m = normal_model m' \<or>
     canonical_identity_payload m \<noteq> canonical_identity_payload m' \<and>
     sha256 (canonical_identity_payload m) = sha256 (canonical_identity_payload m'))"
proof -
  have "normal_model m = normal_model m'" if "canonical_identity_payload m = canonical_identity_payload m'"
  proof -
    have e: "identity_fields m = identity_fields m'"
      using that unfolding canonical_identity_payload_def by (rule key_fields_inj)
    moreover have "length (identity_head m) = length (identity_head m')" by (simp add: identity_head_def Let_def)
    ultimately have h: "identity_head m = identity_head m'"
      and "identity_list ''capabilities.count'' ''capability'' (normalized_list (mm_capabilities m)) @
        identity_list ''tags.count'' ''tag'' (normalized_list (mm_tags m)) =
      identity_list ''capabilities.count'' ''capability'' (normalized_list (mm_capabilities m')) @
        identity_list ''tags.count'' ''tag'' (normalized_list (mm_tags m'))"
      by (simp_all add: identity_fields_def)
    note l = identity_lists_inj [OF this(2)]
    then have "normalized_list (mm_tags m) = normalized_list (mm_tags m')"
      using identity_lists_inj [of _ _ _ "[]" _ "[]"] by (metis append_Nil2)
    with l h show ?thesis by (intro identity_head_inj) simp_all
  qed
  moreover have "canonical_identity_payload m = canonical_identity_payload m'" if "normal_model m = normal_model m'"
    using identity_fields_normal [OF that] by (simp add: canonical_identity_payload_def)
  ultimately have eq: "normal_model m = normal_model m' \<longleftrightarrow> canonical_identity_payload m = canonical_identity_payload m'"
    by blast
  show ?thesis unfolding eq by (simp add: model_immutable_id_def) metis
qed

section \<open>The registry over time\<close>

datatype model_call = MC_Register model_manifest | MC_Verify fs_view string model_manifest

fun model_step :: "model_call \<Rightarrow> model_registry \<Rightarrow> model_registry" where
  "model_step (MC_Register m) R = snd (register_manifest m R)"
| "model_step (MC_Verify F path m) R = snd (register_verified F path m R)"

definition model_run :: "model_call list \<Rightarrow> model_registry" where
  "model_run cs = fold model_step cs []"

lemma verify_ok:
  "vr_ok (verify_model_file F path m) \<longleftrightarrow> validate_model_manifest m = [] \<and> fv_regular F path \<and>
     fv_size F path = Some (mm_file_size_bytes m) \<and>
     (\<exists>digest. sha256_file (fv_hashed F path) = Some digest \<and> lower_hex digest = lower_hex (mm_sha256 m))"
  by (auto simp: verify_model_file_def vr_ok_def Let_def split: option.split)

definition model_entry_ok :: "model_call list \<Rightarrow> string \<Rightarrow> registry_entry \<Rightarrow> bool" where
  "model_entry_ok cs ident e \<longleftrightarrow> ident = model_immutable_id (re_manifest e) \<and> validate_model_manifest (re_manifest e) = [] \<and>
     (re_verified e \<longrightarrow> (\<exists>F path. MC_Verify F path (re_manifest e) \<in> set cs \<and> vr_ok (verify_model_file F path (re_manifest e))))"

lemma model_entry_more: "model_entry_ok cs ident e \<Longrightarrow> model_entry_ok (cs @ cs') ident e"
  by (auto simp: model_entry_ok_def)

lemma model_step_entry:
  assumes "map_of (model_step c R) ident = Some e"
  shows "map_of R ident = Some e \<or> model_entry_ok [c] ident e"
proof (cases c)
  case (MC_Register m)
  then show ?thesis using assms
    by (auto simp: register_manifest_def Let_def model_entry_ok_def split: if_splits)
next
  case (MC_Verify F path m)
  then show ?thesis using assms
    by (auto simp: register_verified_def Let_def model_entry_ok_def update_conv verify_ok split: if_splits option.splits)
qed

text \<open>
  C. Verified means verified.  In every history of a registry, an entry is stored under the id
  of its manifest and its manifest is valid; and when it is reported as verified, one of the
  calls presented that manifest with a regular file of the size it states whose contents have
  the digest it states.
\<close>

theorem verified_models_match_files:
  assumes "find_model ident (model_run cs) = Some m"
  shows "ident = model_immutable_id m \<and> validate_model_manifest m = [] \<and>
    (model_is_verified ident (model_run cs) \<longrightarrow> (\<exists>F path. MC_Verify F path m \<in> set cs \<and> fv_regular F path \<and>
      fv_size F path = Some (mm_file_size_bytes m) \<and>
      (\<exists>digest. sha256_file (fv_hashed F path) = Some digest \<and> lower_hex digest = lower_hex (mm_sha256 m))))"
proof -
  have ok: "map_of (model_run cs) ident = Some e \<Longrightarrow> model_entry_ok cs ident e" for e
  proof (induction cs rule: rev_induct)
    case Nil
    then show ?case by (simp add: model_run_def)
  next
    case (snoc c cs)
    then have "map_of (model_step c (model_run cs)) ident = Some e" by (simp add: model_run_def)
    from model_step_entry [OF this] snoc.IH show ?case
      by (auto intro: model_entry_more simp: model_entry_ok_def)
  qed
  obtain e where e: "map_of (model_run cs) ident = Some e" "re_manifest e = m"
    using assms by (auto simp: find_model_def)
  with ok [OF e(1)] show ?thesis
    by (auto simp: model_entry_ok_def model_is_verified_def verify_ok)
qed

definition demo_model :: "string \<Rightarrow> model_manifest" where
  "demo_model content = \<lparr>mm_schema_version = 1, mm_display_name = ''m'', mm_family = ''f'', mm_architecture = ''a'', mm_variant = [],
     mm_parameter_count = 1, mm_format = MF_GGUF, mm_quantization = QZ_Q4_0, mm_file_name = ''m.gguf'',
     mm_file_size_bytes = of_nat (length content), mm_sha256 = sha256 content,
     mm_provenance = \<lparr>up_provider = ''p'', up_repository = ''r'', up_revision = ''1'', up_source_filename = ''m'',
       up_source_sha256 = sha256 content\<rparr>,
     mm_license = \<lparr>lm_spdx_id = ''MIT'', lm_name = ''MIT'', lm_commercial = True, lm_redistribution = True\<rparr>,
     mm_hardware = \<lparr>hr_min_ram_mb = 1, hr_min_vram_mb = 0, hr_recommended_threads = 1, hr_cpu_only_supported = True\<rparr>,
     mm_capabilities = [''chat''], mm_tags = []\<rparr>"

definition demo_model_files :: "string \<Rightarrow> fs_view" where
  "demo_model_files content = \<lparr>fv_canonical = Some, fv_regular = (\<lambda>_. True), fv_size = (\<lambda>_. Some (of_nat (length content))),
     fv_hashed = (\<lambda>_. Some ([content], True)), fv_bytes = (\<lambda>_. Some content), fv_seek_ok = (\<lambda>_ _. True)\<rparr>"

lemma demo_model_verifies: "vr_ok (verify_model_file (demo_model_files ''x'') ''m.gguf'' (demo_model ''x''))"
proof -
  have "path_components ''m.gguf'' = [''m.gguf'']"
    by (simp add: path_components_def path_names.simps)
  then have "validate_model_manifest (demo_model ''x'') = []"
    by (simp add: validate_model_manifest_def demo_model_def safe_relative_model_path_def)
  then show ?thesis
    by (simp add: verify_ok sha256_file_chunks demo_model_files_def demo_model_def del: sha256_file.simps)
qed

theorem verified_models_match_files_witness:
  "\<exists>F path. MC_Verify F path (demo_model ''x'') \<in> {MC_Verify (demo_model_files ''x'') ''m.gguf'' (demo_model ''x'')} \<and>
     fv_size F path = Some (mm_file_size_bytes (demo_model ''x''))"
proof -
  let ?cs = "[MC_Verify (demo_model_files ''x'') ''m.gguf'' (demo_model ''x'')]"
  have "model_run ?cs = [(model_immutable_id (demo_model ''x''), \<lparr>re_manifest = demo_model ''x'', re_verified = True\<rparr>)]"
    using demo_model_verifies by (simp add: model_run_def register_verified_def Let_def)
  with verified_models_match_files [of "model_immutable_id (demo_model ''x'')" ?cs "demo_model ''x''"] show ?thesis
    by (auto simp: find_model_def model_is_verified_def)
qed

end
