(* ===== verification/Caddy.thy ===== *)
theory Caddy
  imports Reality
begin

text \<open>
  The first routing decision and the bounded loops around a model: \<open>Caddy::route\<close>
  (\<open>src/caddy.cpp\<close>), \<open>Recursor::run\<close> (\<open>src/recursor.cpp\<close>) and \<open>RouteTrace\<close>
  (\<open>src/route_trace.cpp\<close>).

  The thresholds are \<open>double\<close> literals: the definitions give the doubles nearest to them.
  A step function of a caller may have effects, so it maps a world and a frame to a world and
  the next frame.
\<close>

section \<open>Routing\<close>

datatype route_target = RT_LocalTiny | RT_LocalCore | RT_LocalDeep | RT_DeterministicTool | RT_HumanReview

record task_signal =
  ts_intent :: string
  ts_layer :: reality_layer
  ts_complexity :: float64
  ts_uncertainty :: float64
  ts_requires_execution :: bool
  ts_destructive :: bool

record route_decision =
  rd_target :: route_target
  rd_recursion_depth :: u64
  rd_require_verification :: bool
  rd_reason :: string

text \<open>The literals 0.20, 0.25, 0.35, 0.55 and 0.70.\<close>

definition lit_020 :: float64 where "lit_020 = Finite (3602879701896397 / 18014398509481984)"
definition lit_025 :: float64 where "lit_025 = Finite (1 / 4)"
definition lit_035 :: float64 where "lit_035 = Finite (3152519739159347 / 9007199254740992)"
definition lit_055 :: float64 where "lit_055 = Finite (2476979795053773 / 4503599627370496)"
definition lit_070 :: float64 where "lit_070 = Finite (3152519739159347 / 4503599627370496)"

lemmas route_literals = lit_020_def lit_025_def lit_035_def lit_055_def lit_070_def

definition caddy_route :: "task_signal \<Rightarrow> route_decision" where
  "caddy_route signal =
     (let complexity = std_clamp (ts_complexity signal) (Finite 0) (Finite 1);
          uncertainty = std_clamp (ts_uncertainty signal) (Finite 0) (Finite 1);
          verify = ts_requires_execution signal \<or> f_geq uncertainty lit_035;
          decide = (\<lambda>target depth reason. \<lparr>rd_target = target, rd_recursion_depth = depth,
             rd_require_verification = verify, rd_reason = reason\<rparr>)
      in if ts_destructive signal \<and> f_geq uncertainty lit_020
         then decide RT_HumanReview 1 ''destructive task with unresolved uncertainty''
         else if ts_requires_execution signal \<and> f_less complexity lit_035 \<and> f_less uncertainty lit_025
         then decide RT_DeterministicTool 1 ''low-ambiguity executable task; prefer deterministic tool''
         else if f_less complexity lit_025 \<and> f_less uncertainty lit_020
         then decide RT_LocalTiny 1 ''low complexity and low uncertainty''
         else if f_less complexity lit_070 \<and> f_less uncertainty lit_055
         then decide RT_LocalCore 2 ''moderate task; core model with bounded recursion''
         else decide RT_LocalDeep 4 ''high complexity or uncertainty; escalate reasoning budget'')"

fun route_target_to_string :: "route_target \<Rightarrow> string" where
  "route_target_to_string RT_LocalTiny = ''LOCAL_TINY''"
| "route_target_to_string RT_LocalCore = ''LOCAL_CORE''"
| "route_target_to_string RT_LocalDeep = ''LOCAL_DEEP''"
| "route_target_to_string RT_DeterministicTool = ''DETERMINISTIC_TOOL''"
| "route_target_to_string RT_HumanReview = ''HUMAN_REVIEW''"

text \<open>
  A destructive task whose uncertainty is a number of at least 0.20 goes to a human, and only
  such a task does.  An uncertainty that is not a number slips through: the comparison with
  NaN is false, so the task is neither held for review nor marked for verification.
\<close>

lemma clamp_ge_020: "f_geq (std_clamp u (Finite 0) (Finite 1)) lit_020 \<longleftrightarrow> f_geq u lit_020"
  by (cases u) (auto simp: std_clamp_def f_geq_def lit_020_def)

lemma human_review_exactly:
  "rd_target (caddy_route s) = RT_HumanReview \<longleftrightarrow> ts_destructive s \<and> f_geq (ts_uncertainty s) lit_020"
  by (simp add: caddy_route_def Let_def clamp_ge_020)

lemma nan_uncertainty_escapes_review:
  "ts_uncertainty s = NaN \<Longrightarrow> ts_destructive s \<Longrightarrow> \<not> ts_requires_execution s \<Longrightarrow>
   rd_target (caddy_route s) = RT_LocalDeep \<and> \<not> rd_require_verification (caddy_route s)"
  by (simp add: caddy_route_def Let_def std_clamp_def f_geq_def route_literals)

text \<open>A destructive task is never left to the tiny model with an uncertainty above its bound.\<close>

lemma route_depths: "rd_recursion_depth (caddy_route s) \<in> {1, 2, 4}"
  by (simp add: caddy_route_def Let_def)

section \<open>Route traces\<close>

datatype route_trace_outcome = RTO_Info | RTO_Pass | RTO_Reject | RTO_Select | RTO_Stop

record route_trace_entry =
  rte_stage :: string
  rte_outcome :: route_trace_outcome
  rte_detail :: string
  rte_model_id :: string

record route_trace =
  rt_entries :: "route_trace_entry list"
  rt_truncated :: bool

definition empty_trace :: route_trace where
  "empty_trace = \<lparr>rt_entries = [], rt_truncated = False\<rparr>"

definition kMaxTraceEntries :: nat where "kMaxTraceEntries = 64"

definition trace_add :: "string \<Rightarrow> route_trace_outcome \<Rightarrow> string \<Rightarrow> string \<Rightarrow> route_trace \<Rightarrow> route_trace" where
  "trace_add stage outcome detail model_id t =
     (if kMaxTraceEntries \<le> length (rt_entries t) then t\<lparr>rt_truncated := True\<rparr>
      else t\<lparr>rt_entries := rt_entries t @ [\<lparr>rte_stage = stage, rte_outcome = outcome, rte_detail = detail,
               rte_model_id = model_id\<rparr>]\<rparr>)"

fun trace_outcome_to_string :: "route_trace_outcome \<Rightarrow> string" where
  "trace_outcome_to_string RTO_Info = ''INFO''"
| "trace_outcome_to_string RTO_Pass = ''PASS''"
| "trace_outcome_to_string RTO_Reject = ''REJECT''"
| "trace_outcome_to_string RTO_Select = ''SELECT''"
| "trace_outcome_to_string RTO_Stop = ''STOP''"

definition describe_entry :: "route_trace_entry \<Rightarrow> string" where
  "describe_entry e = rte_stage e @ '':'' @ trace_outcome_to_string (rte_outcome e) @
     (if rte_model_id e = [] then [] else ''['' @ rte_model_id e @ '']'')"

fun describe_entries :: "route_trace_entry list \<Rightarrow> string" where
  "describe_entries [] = []"
| "describe_entries [e] = describe_entry e"
| "describe_entries (e # es) = describe_entry e @ '' -> '' @ describe_entries es"

definition trace_describe :: "route_trace \<Rightarrow> string" where
  "trace_describe t = describe_entries (rt_entries t) @ (if rt_truncated t then '' -> TRACE_TRUNCATED'' else [])"

definition trace_inv :: "route_trace \<Rightarrow> bool" where
  "trace_inv t \<longleftrightarrow> length (rt_entries t) \<le> kMaxTraceEntries \<and> (rt_truncated t \<longrightarrow> length (rt_entries t) = kMaxTraceEntries)"

lemma trace_inv_add [simp]: "trace_inv t \<Longrightarrow> trace_inv (trace_add stage out detail m t)"
  by (auto simp: trace_inv_def trace_add_def)

lemma trace_inv_empty [simp]: "trace_inv empty_trace"
  by (simp add: trace_inv_def empty_trace_def)

section \<open>The recursor\<close>

record recursion_budget =
  rb_max_depth :: u64
  rb_max_steps :: u64
  rb_max_working_items :: u64
  rb_confidence_stop :: float64

record recursion_frame =
  rf_depth :: u64
  rf_step :: u64
  rf_confidence :: float64
  rf_new_information :: bool
  rf_state :: string

record recursion_result =
  rr_state :: string
  rr_steps :: u64
  rr_confidence :: float64
  rr_stopped_by_budget :: bool
  rr_trace :: "string list"

definition recursor_new :: "recursion_budget \<Rightarrow> recursion_budget" where
  "recursor_new b = \<lparr>rb_max_depth = max 1 (rb_max_depth b), rb_max_steps = max 1 (rb_max_steps b),
     rb_max_working_items = max 1 (rb_max_working_items b),
     rb_confidence_stop = std_clamp (rb_confidence_stop b) (Finite 0) (Finite 1)\<rparr>"

text \<open>The \<open>for\<close> loop from \<open>step_index\<close> on.\<close>

function recursor_loop ::
    "('w \<Rightarrow> recursion_frame \<Rightarrow> 'w \<times> recursion_frame) \<Rightarrow> recursion_budget \<Rightarrow> u64 \<Rightarrow> 'w \<Rightarrow> recursion_frame \<Rightarrow>
     recursion_result \<Rightarrow> 'w \<times> recursion_result" where
  "recursor_loop f b i w frame r =
     (if \<not> i < rb_max_steps b then (w, r)
      else if rb_max_depth b \<le> rf_depth frame then (w, r\<lparr>rr_stopped_by_budget := True\<rparr>)
      else case f w (frame\<lparr>rf_step := i\<rparr>) of (w', raw) \<Rightarrow>
        (let next = raw\<lparr>rf_step := i + 1, rf_depth := min (rf_depth raw) (rb_max_depth b),
               rf_confidence := std_clamp (rf_confidence raw) (Finite 0) (Finite 1)\<rparr>;
             r' = r\<lparr>rr_trace := rr_trace r @ [rf_state next], rr_state := rf_state next, rr_steps := i + 1,
               rr_confidence := rf_confidence next\<rparr>
         in if f_geq (rf_confidence next) (rb_confidence_stop b) \<or> \<not> rf_new_information next then (w', r')
            else recursor_loop f b (i + 1) w' next r'))"
  by pat_completeness auto
termination
  by (relation "measure (\<lambda>(f, b, i, w, frame, r). unat (rb_max_steps b) - unat i)")
    (auto simp: word_loop_measure)

declare recursor_loop.simps [simp del]

definition recursor_start :: "string \<Rightarrow> recursion_result" where
  "recursor_start s = \<lparr>rr_state = s, rr_steps = 0, rr_confidence = Finite 0, rr_stopped_by_budget = False, rr_trace = []\<rparr>"

definition recursor_frame :: "string \<Rightarrow> recursion_frame" where
  "recursor_frame s = \<lparr>rf_depth = 0, rf_step = 0, rf_confidence = Finite 0, rf_new_information = True, rf_state = s\<rparr>"

definition recursor_run ::
    "recursion_budget \<Rightarrow> ('w \<Rightarrow> recursion_frame \<Rightarrow> 'w \<times> recursion_frame) \<Rightarrow> 'w \<Rightarrow> string \<Rightarrow> 'w \<times> recursion_result" where
  "recursor_run budget f w initial_state =
     (let b = recursor_new budget in
      case recursor_loop f b 0 w (recursor_frame initial_state) (recursor_start initial_state) of
        (w', r) \<Rightarrow> (w', if rr_steps r = rb_max_steps b \<and> f_less (rr_confidence r) (rb_confidence_stop b)
                        then r\<lparr>rr_stopped_by_budget := True\<rparr> else r))"

text \<open>
  The result of a run that has made \<open>i\<close> steps: their states are the trace, the last of them is
  the state; and why it ended, when it did not report the budget.
\<close>

definition recursor_result_ok :: "recursion_budget \<Rightarrow> string \<Rightarrow> recursion_result \<Rightarrow> bool" where
  "recursor_result_ok b s r \<longleftrightarrow> rr_steps r \<le> rb_max_steps b \<and> length (rr_trace r) = unat (rr_steps r) \<and>
     rr_state r = last (s # rr_trace r)"

definition uninformative_step :: "('w \<Rightarrow> recursion_frame \<Rightarrow> 'w \<times> recursion_frame) \<Rightarrow> string \<Rightarrow> bool" where
  "uninformative_step f state \<longleftrightarrow>
     (\<exists>u frame. \<not> rf_new_information (snd (f u frame)) \<and> rf_state (snd (f u frame)) = state)"

lemma recursor_loop_result:
  "recursor_loop f b i w frame r = (w', r') \<Longrightarrow> recursor_result_ok b s r \<Longrightarrow> rr_steps r = i \<Longrightarrow> i \<le> rb_max_steps b \<Longrightarrow>
   \<not> rr_stopped_by_budget r \<Longrightarrow>
   recursor_result_ok b s r' \<and>
   (rr_stopped_by_budget r' \<or> rr_steps r' = rb_max_steps b \<or> f_geq (rr_confidence r') (rb_confidence_stop b) \<or>
     uninformative_step f (rr_state r'))"
proof (induction f b i w frame r rule: recursor_loop.induct)
  case (1 f b i w frame r)
  show ?case
  proof (cases "i < rb_max_steps b \<and> rf_depth frame < rb_max_depth b")
    case False
    with 1(2-) show ?thesis by (auto simp: recursor_loop.simps [of f b i] recursor_result_ok_def split: if_splits)
  next
    case True
    obtain w1 raw where f: "f w (frame\<lparr>rf_step := i\<rparr>) = (w1, raw)" by fastforce
    let ?next = "raw\<lparr>rf_step := i + 1, rf_depth := min (rf_depth raw) (rb_max_depth b),
      rf_confidence := std_clamp (rf_confidence raw) (Finite 0) (Finite 1)\<rparr>"
    let ?r = "r\<lparr>rr_trace := rr_trace r @ [rf_state ?next], rr_state := rf_state ?next, rr_steps := i + 1,
      rr_confidence := rf_confidence ?next\<rparr>"
    have ok: "recursor_result_ok b s ?r"
      using 1(3,4) True unat_word_Suc [of i "rb_max_steps b"] by (simp add: recursor_result_ok_def word_add_1_le)
    have step: "recursor_loop f b i w frame r = (if f_geq (rf_confidence ?next) (rb_confidence_stop b) \<or> \<not> rf_new_information ?next
        then (w1, ?r) else recursor_loop f b (i + 1) w1 ?next ?r)"
      using True f by (auto simp: recursor_loop.simps [of f b i] Let_def)
    show ?thesis
    proof (cases "f_geq (rf_confidence ?next) (rb_confidence_stop b) \<or> \<not> rf_new_information ?next")
      case True
      then have "w' = w1" "r' = ?r" using step 1(2) by simp_all
      moreover have "f_geq (rr_confidence ?r) (rb_confidence_stop b) \<or>
          uninformative_step f (rr_state ?r)"
        using True f by (auto simp: uninformative_step_def intro!: exI [of _ w] exI [of _ "frame\<lparr>rf_step := i\<rparr>"])
      ultimately show ?thesis using ok by blast
    next
      case False
      then have "recursor_loop f b (i + 1) w1 ?next ?r = (w', r')" using step 1(2) by simp
      with 1(1) [OF _ _ f [symmetric] refl refl False this ok] True 1(6) show ?thesis
        by (simp add: word_add_1_le not_le)
    qed
  qed
qed

text \<open>
  C. The recursor is bounded.  Whatever a step function returns, a run ends within the step
  budget; its trace is one state for every step and ends in the resulting state; and unless it
  reports the budget, it stopped with the confidence asked for, or at a step that brought
  nothing new, or it used up all its steps with a confidence that is not below the threshold.
\<close>

theorem recursor_is_bounded:
  "case recursor_run budget f w s of (w', r) \<Rightarrow> recursor_result_ok (recursor_new budget) s r \<and>
     (rr_stopped_by_budget r \<or> f_geq (rr_confidence r) (rb_confidence_stop (recursor_new budget)) \<or>
      uninformative_step f (rr_state r) \<or>
      rr_steps r = rb_max_steps (recursor_new budget) \<and>
        \<not> f_less (rr_confidence r) (rb_confidence_stop (recursor_new budget)))"
proof -
  let ?b = "recursor_new budget"
  obtain w' r where r: "recursor_loop f ?b 0 w (recursor_frame s) (recursor_start s) = (w', r)" by fastforce
  have "recursor_result_ok ?b s (recursor_start s)" "rr_steps (recursor_start s) = 0"
    "\<not> rr_stopped_by_budget (recursor_start s)" by (simp_all add: recursor_result_ok_def recursor_start_def)
  with recursor_loop_result [OF r] have "recursor_result_ok ?b s r \<and>
     (rr_stopped_by_budget r \<or> rr_steps r = rb_max_steps ?b \<or> f_geq (rr_confidence r) (rb_confidence_stop ?b) \<or>
     uninformative_step f (rr_state r))" by simp
  then show ?thesis using r by (auto simp: recursor_run_def Let_def recursor_result_ok_def)
qed

text \<open>A confidence that is not a number is never below the threshold: such a run uses its budget up unreported.\<close>

lemma nan_confidence_hides_budget:
  "let b = \<lparr>rb_max_depth = 4, rb_max_steps = 1, rb_max_working_items = 1, rb_confidence_stop = Finite (1 / 2)\<rparr>;
       f = (\<lambda>w frame. (w, frame\<lparr>rf_confidence := NaN\<rparr>));
       r = snd (recursor_run b f () ''s'')
   in rr_steps r = 1 \<and> rr_confidence r = NaN \<and> \<not> rr_stopped_by_budget r"
  by (simp add: recursor_run_def recursor_new_def recursor_start_def recursor_frame_def recursor_loop.simps std_clamp_def
      f_geq_def Let_def)

end
