(* ===== verification/Router.thy ===== *)
theory Router
  imports Caddy Models Authority_Receipt
begin

text \<open>
  \<open>CaddyRouter::select\<close> (\<open>src/caddy_router.cpp\<close>): from a task signal and the benchmarks of this
  machine to the model that is to run.  The ranked benchmarks are what \<open>Scorecard::rank\<close>
  returns; its floating point arithmetic is not modelled, so they are an argument, and the
  properties hold for every list of them.  Records of benchmarks and their validation are
  those of \<open>scorecard.hpp\<close> and \<open>scorecard.cpp\<close>.
\<close>

section \<open>Benchmarks\<close>

datatype task_class =
  TC_General | TC_Chat | TC_Coding | TC_Reasoning | TC_ToolUse | TC_Audio | TC_Vision | TC_WorldSimulation

fun task_code :: "task_class \<Rightarrow> u32" where
  "task_code TC_General = 0"
| "task_code TC_Chat = 1"
| "task_code TC_Coding = 2"
| "task_code TC_Reasoning = 3"
| "task_code TC_ToolUse = 4"
| "task_code TC_Audio = 5"
| "task_code TC_Vision = 6"
| "task_code TC_WorldSimulation = 7"

fun task_to_string :: "task_class \<Rightarrow> string" where
  "task_to_string TC_General = ''general''"
| "task_to_string TC_Chat = ''chat''"
| "task_to_string TC_Coding = ''coding''"
| "task_to_string TC_Reasoning = ''reasoning''"
| "task_to_string TC_ToolUse = ''tool-use''"
| "task_to_string TC_Audio = ''audio''"
| "task_to_string TC_Vision = ''vision''"
| "task_to_string TC_WorldSimulation = ''world-simulation''"

record benchmark_metrics =
  bm_prompt_tokens_per_second :: float64
  bm_generation_tokens_per_second :: float64
  bm_time_to_first_token_ms :: float64
  bm_wall_time_ms :: float64
  bm_peak_ram_mb :: float64
  bm_peak_vram_mb :: float64
  bm_accuracy :: float64
  bm_tool_success_rate :: float64
  bm_verification_pass_rate :: float64
  bm_energy_wh :: float64
  bm_retries :: u32
  bm_completed :: bool

record benchmark_record =
  br_schema_version :: u32
  br_run_id :: string
  br_model_id :: string
  br_hardware_id :: string
  br_task :: task_class
  br_profile_name :: string
  br_context_tokens :: u64
  br_output_tokens :: u64
  br_recorded_at_utc :: string
  br_metrics :: benchmark_metrics
  br_tags :: "string list"

record scorecard_score =
  ss_total :: float64
  ss_quality :: float64
  ss_speed :: float64
  ss_memory :: float64
  ss_reliability :: float64
  ss_energy :: float64

record ranked_benchmark =
  kb_record :: benchmark_record
  kb_score :: scorecard_score

fun finite_float :: "float64 \<Rightarrow> bool" where
  "finite_float (Finite x) \<longleftrightarrow> True"
| "finite_float x \<longleftrightarrow> False"

definition finite_nonnegative :: "float64 \<Rightarrow> bool" where
  "finite_nonnegative x \<longleftrightarrow> finite_float x \<and> f_geq x (Finite 0)"

definition unit_interval :: "float64 \<Rightarrow> bool" where
  "unit_interval x \<longleftrightarrow> finite_float x \<and> f_geq x (Finite 0) \<and> f_geq (Finite 1) x"

definition validate_benchmark :: "benchmark_record \<Rightarrow> string list" where
  "validate_benchmark b = (let m = br_metrics b in
     err (br_schema_version b \<noteq> 1) ''unsupported benchmark schema_version'' @
     err (br_run_id b = []) ''run_id is required'' @
     err (\<not> prefixed_sha256 ''guff:model:sha256:'' (br_model_id b)) ''model_id must be a GOLF immutable model id'' @
     err (\<not> prefixed_sha256 ''guff:hardware:sha256:'' (br_hardware_id b)) ''hardware_id must be a GOLF immutable hardware id'' @
     err (br_profile_name b = []) ''profile_name is required'' @
     err (\<not> finite_nonnegative (bm_prompt_tokens_per_second m)) ''prompt_tokens_per_second must be finite and non-negative'' @
     err (\<not> finite_nonnegative (bm_generation_tokens_per_second m))
       ''generation_tokens_per_second must be finite and non-negative'' @
     err (\<not> finite_nonnegative (bm_time_to_first_token_ms m)) ''time_to_first_token_ms must be finite and non-negative'' @
     err (\<not> finite_nonnegative (bm_wall_time_ms m)) ''wall_time_ms must be finite and non-negative'' @
     err (\<not> finite_nonnegative (bm_peak_ram_mb m)) ''peak_ram_mb must be finite and non-negative'' @
     err (\<not> finite_nonnegative (bm_peak_vram_mb m)) ''peak_vram_mb must be finite and non-negative'' @
     err (\<not> unit_interval (bm_accuracy m)) ''accuracy must be between 0 and 1'' @
     err (\<not> unit_interval (bm_tool_success_rate m)) ''tool_success_rate must be between 0 and 1'' @
     err (\<not> unit_interval (bm_verification_pass_rate m)) ''verification_pass_rate must be between 0 and 1'' @
     err (\<not> finite_nonnegative (bm_energy_wh m)) ''energy_wh must be finite and non-negative'')"

text \<open>The answer of \<open>add\<close>, the errors it reports, and the records.\<close>

definition scorecard_add :: "benchmark_record \<Rightarrow> benchmark_record list \<Rightarrow> bool \<times> string list \<times> benchmark_record list" where
  "scorecard_add b records =
     (let errors = validate_benchmark b @ err (br_run_id b \<in> br_run_id ` set records) ''run_id already exists''
      in if errors \<noteq> [] then (False, errors, records) else (True, [], records @ [b]))"

section \<open>The gates\<close>

datatype model_route_status =
  MR_Selected | MR_DeterministicPreferred | MR_HumanReviewRequired | MR_NoBenchmarkEvidence | MR_NoEligibleModel

fun route_status_to_string :: "model_route_status \<Rightarrow> string" where
  "route_status_to_string MR_Selected = ''SELECTED''"
| "route_status_to_string MR_DeterministicPreferred = ''DETERMINISTIC_PREFERRED''"
| "route_status_to_string MR_HumanReviewRequired = ''HUMAN_REVIEW_REQUIRED''"
| "route_status_to_string MR_NoBenchmarkEvidence = ''NO_BENCHMARK_EVIDENCE''"
| "route_status_to_string MR_NoEligibleModel = ''NO_ELIGIBLE_MODEL''"

record model_route_request =
  mq_signal :: task_signal
  mq_task :: task_class
  mq_profile_name :: string
  mq_minimum_score :: float64
  mq_require_verified :: bool

record model_candidate =
  mc_model_id :: string
  mc_display_name :: string
  mc_benchmark_run_id :: string
  mc_score :: scorecard_score

record model_route_decision =
  md_status :: model_route_status
  md_task_route :: route_decision
  md_selected_model_id :: "string option"
  md_selected_score :: "scorecard_score option"
  md_recursion_depth :: u64
  md_require_verification :: bool
  md_candidates :: "model_candidate list"
  md_trace :: route_trace
  md_reason :: string

definition equal_ascii_ci :: "string \<Rightarrow> string \<Rightarrow> bool" where
  "equal_ascii_ci lhs rhs \<longleftrightarrow> lower_hex lhs = lower_hex rhs"

definition required_capability :: "task_class \<Rightarrow> string" where
  "required_capability task = (case task of TC_General \<Rightarrow> [] | _ \<Rightarrow> task_to_string task)"

definition supports_task :: "model_manifest \<Rightarrow> task_class \<Rightarrow> bool" where
  "supports_task m task \<longleftrightarrow> required_capability task = [] \<or>
     (\<exists>c \<in> set (mm_capabilities m). equal_ascii_ci c (required_capability task))"

definition hardware_compatible :: "model_manifest \<Rightarrow> hardware_profile \<Rightarrow> bool" where
  "hardware_compatible m h \<longleftrightarrow>
     \<not> (hp_ram_mb h = 0 \<or> hp_ram_mb h < hr_min_ram_mb (mm_hardware m)) \<and>
     \<not> (\<not> hr_cpu_only_supported (mm_hardware m) \<and> \<not> hp_gpu_present h) \<and>
     \<not> (0 < hr_min_vram_mb (mm_hardware m) \<and>
         (\<not> hp_gpu_present h \<or> hp_vram_mb h = 0 \<or> hp_vram_mb h < hr_min_vram_mb (mm_hardware m)))"

text \<open>A \<open>double\<close> with two decimals: the exact value, rounded to the nearest, ties to even.\<close>

definition round_half_even :: "rat \<Rightarrow> int" where
  "round_half_even q = (let f = \<lfloor>q\<rfloor>; d = q - of_int f in
     if d < 1 / 2 then f else if 1 / 2 < d then f + 1 else if even f then f else f + 1)"

fun show_fixed2 :: "float64 \<Rightarrow> string" where
  "show_fixed2 (Finite q) =
     (let n = nat (round_half_even (100 * \<bar>q\<bar>)); frac = nat_digits (n mod 100) in
      (if q < 0 then ''-'' else []) @ nat_digits (n div 100) @ ''.'' @ (if n mod 100 < 10 then ''0'' else []) @ frac)"
| "show_fixed2 Pos_Inf = ''inf''"
| "show_fixed2 Neg_Inf = ''-inf''"
| "show_fixed2 NaN = ''nan''"

definition score_detail :: "ranked_benchmark \<Rightarrow> string" where
  "score_detail b = ''score='' @ show_fixed2 (ss_total (kb_score b)) @ '' run='' @ br_run_id (kb_record b)"

section \<open>The loop over the benchmarks\<close>

text \<open>The models already seen, the trace and the candidates.\<close>

record router_state =
  ru_seen :: "string list"
  ru_trace :: route_trace
  ru_candidates :: "model_candidate list"

definition router_reject :: "string \<Rightarrow> string \<Rightarrow> ranked_benchmark \<Rightarrow> router_state \<Rightarrow> router_state" where
  "router_reject stage text b s =
     s\<lparr>ru_trace := trace_add stage RTO_Reject (text @ score_detail b) (br_model_id (kb_record b)) (ru_trace s)\<rparr>"

definition router_consider ::
    "model_route_request \<Rightarrow> hardware_profile \<Rightarrow> model_registry \<Rightarrow> float64 \<Rightarrow> ranked_benchmark \<Rightarrow> router_state \<Rightarrow> router_state" where
  "router_consider q h reg minimum b s =
     (let r = kb_record b; mid = br_model_id r in
      if mq_profile_name q \<noteq> [] \<and> br_profile_name r \<noteq> mq_profile_name q
      then router_reject ''profile-gate'' ''benchmark profile mismatch; '' b s
      else if f_less (ss_total (kb_score b)) minimum
      then router_reject ''score-gate'' ''below minimum score; '' b s
      else if mid \<in> set (ru_seen s)
      then router_reject ''dedupe-gate'' ''lower-ranked duplicate model observation; '' b s
      else let s = s\<lparr>ru_seen := mid # ru_seen s\<rparr> in
        case find_model mid reg of
          None \<Rightarrow> router_reject ''registry-gate'' ''benchmark model is absent from the current registry; '' b s
        | Some m \<Rightarrow>
            if mq_require_verified q \<and> \<not> model_is_verified mid reg
            then router_reject ''verification-gate'' ''model is registered but not cryptographically verified; '' b s
            else if \<not> hardware_compatible m h
            then router_reject ''hardware-gate'' ''manifest hardware contract does not fit current machine; '' b s
            else if \<not> supports_task m (mq_task q)
            then router_reject ''capability-gate'' ''manifest does not declare the required task capability; '' b s
            else s\<lparr>ru_trace := trace_add ''eligibility'' RTO_Pass (''candidate passed all routing gates; '' @ score_detail b) mid
                     (ru_trace s),
                   ru_candidates := ru_candidates s @ [\<lparr>mc_model_id = mid, mc_display_name = mm_display_name m,
                     mc_benchmark_run_id = br_run_id r, mc_score = kb_score b\<rparr>]\<rparr>)"

definition router_loop ::
    "model_route_request \<Rightarrow> hardware_profile \<Rightarrow> model_registry \<Rightarrow> float64 \<Rightarrow> ranked_benchmark list \<Rightarrow> router_state \<Rightarrow> router_state" where
  "router_loop q h reg minimum ranked s = fold (router_consider q h reg minimum) ranked s"

text \<open>The literals 55, 70, 85, 90 and 0.15.\<close>

definition lit_015 :: float64 where "lit_015 = Finite (5404319552844595 / 36028797018963968)"

definition routed_depth :: "u64 \<Rightarrow> float64 \<Rightarrow> float64 \<Rightarrow> u64" where
  "routed_depth depth score uncertainty =
     (let d = (if f_less score (Finite 55) then depth + 2
               else if f_less score (Finite 70) then depth + 1
               else if f_geq score (Finite 90) \<and> f_less uncertainty lit_015 \<and> 1 < depth then depth - 1
               else depth)
      in if d < 1 then 1 else if 6 < d then 6 else d)"

definition router_stop :: "model_route_status \<Rightarrow> string \<Rightarrow> string \<Rightarrow> model_route_decision \<Rightarrow> model_route_decision" where
  "router_stop status stage reason d =
     d\<lparr>md_status := status, md_reason := reason, md_trace := trace_add stage RTO_Stop reason [] (md_trace d)\<rparr>"

definition router_start :: "model_route_request \<Rightarrow> model_route_decision" where
  "router_start q = (let route = caddy_route (mq_signal q) in
     \<lparr>md_status = MR_NoBenchmarkEvidence, md_task_route = route, md_selected_model_id = None, md_selected_score = None,
      md_recursion_depth = rd_recursion_depth route, md_require_verification = rd_require_verification route,
      md_candidates = [],
      md_trace = trace_add ''risk-gate'' RTO_Info (route_target_to_string (rd_target route) @ '': '' @ rd_reason route) []
        empty_trace,
      md_reason = []\<rparr>)"

definition router_select ::
    "model_registry \<Rightarrow> hardware_profile \<Rightarrow> ranked_benchmark list \<Rightarrow> model_route_request \<Rightarrow> model_route_decision" where
  "router_select reg h ranked q =
     (let d = router_start q; route = md_task_route d in
      if rd_target route = RT_HumanReview
      then router_stop MR_HumanReviewRequired ''route-stop''
             ''base CADDY risk gate requires human review before model routing'' d
      else if rd_target route = RT_DeterministicTool
      then router_stop MR_DeterministicPreferred ''route-stop''
             ''base CADDY prefers a deterministic tool; model selection intentionally skipped'' d
      else if ranked = []
      then router_stop MR_NoBenchmarkEvidence ''scorecard''
             ''no SCORECARD evidence exists for this task on this exact hardware identity'' d
      else let t = trace_add ''scorecard'' RTO_Pass (''matched benchmark rows='' @ nat_digits (length ranked)) [] (md_trace d);
               minimum = std_clamp (mq_minimum_score q) (Finite 0) (Finite 100);
               s = router_loop q h reg minimum ranked \<lparr>ru_seen = [], ru_trace = t, ru_candidates = []\<rparr>;
               d = d\<lparr>md_trace := ru_trace s, md_candidates := ru_candidates s\<rparr>
        in case md_candidates d of
             [] \<Rightarrow> router_stop MR_NoEligibleModel ''route-stop''
               ''benchmarks exist, but no model passes registry, verification, capability, hardware, profile and score gates'' d
           | winner # _ \<Rightarrow>
               let score = ss_total (mc_score winner);
                   depth = routed_depth (rd_recursion_depth route) score (ts_uncertainty (mq_signal q));
                   verify = rd_require_verification route \<or> ts_requires_execution (mq_signal q) \<or> f_less score (Finite 85)
               in d\<lparr>md_status := MR_Selected, md_selected_model_id := Some (mc_model_id winner),
                    md_selected_score := Some (mc_score winner), md_recursion_depth := depth,
                    md_require_verification := verify,
                    md_trace := trace_add ''budget'' RTO_Info
                      (''recursion_depth='' @ show_u depth @ '' verify='' @ (if verify then ''yes'' else ''no''))
                      (mc_model_id winner)
                      (trace_add ''selection'' RTO_Select ''highest-scoring eligible candidate'' (mc_model_id winner) (md_trace d)),
                    md_reason := ''selected the highest-scoring eligible verified model measured on the current task and hardware course''\<rparr>)"

definition route_selected :: "model_route_decision \<Rightarrow> bool" where
  "route_selected d \<longleftrightarrow> md_status d = MR_Selected \<and> md_selected_model_id d \<noteq> None"


section \<open>What is selected\<close>

text \<open>The gates as one condition on a benchmark, whatever else is in the list.\<close>

definition model_admitted :: "model_route_request \<Rightarrow> hardware_profile \<Rightarrow> model_registry \<Rightarrow> string \<Rightarrow> bool" where
  "model_admitted q h reg mid \<longleftrightarrow> (case find_model mid reg of None \<Rightarrow> False | Some m \<Rightarrow>
     (mq_require_verified q \<longrightarrow> model_is_verified mid reg) \<and> hardware_compatible m h \<and> supports_task m (mq_task q))"

definition eligible :: "model_route_request \<Rightarrow> hardware_profile \<Rightarrow> model_registry \<Rightarrow> ranked_benchmark \<Rightarrow> bool" where
  "eligible q h reg b \<longleftrightarrow>
     (mq_profile_name q = [] \<or> br_profile_name (kb_record b) = mq_profile_name q) \<and>
     \<not> f_less (ss_total (kb_score b)) (std_clamp (mq_minimum_score q) (Finite 0) (Finite 100)) \<and>
     model_admitted q h reg (br_model_id (kb_record b))"

abbreviation kb_model :: "ranked_benchmark \<Rightarrow> string" where
  "kb_model b \<equiv> br_model_id (kb_record b)"

definition candidate_of :: "model_registry \<Rightarrow> ranked_benchmark \<Rightarrow> model_candidate" where
  "candidate_of reg b = \<lparr>mc_model_id = kb_model b,
     mc_display_name = (case find_model (kb_model b) reg of None \<Rightarrow> [] | Some m \<Rightarrow> mm_display_name m),
     mc_benchmark_run_id = br_run_id (kb_record b), mc_score = kb_score b\<rparr>"

text \<open>The first of each model.\<close>

fun first_per_model :: "ranked_benchmark list \<Rightarrow> ranked_benchmark list" where
  "first_per_model [] = []"
| "first_per_model (b # bs) = b # filter (\<lambda>x. kb_model x \<noteq> kb_model b) (first_per_model bs)"

lemma first_per_model_filter: "first_per_model (filter (\<lambda>b. P (kb_model b)) bs) = filter (\<lambda>b. P (kb_model b)) (first_per_model bs)"
  by (induction bs) (auto intro!: filter_cong simp: filter_filter conj_commute)

lemma consider_cases:
  assumes "minimum = std_clamp (mq_minimum_score q) (Finite 0) (Finite 100)"
  shows "ru_candidates (router_consider q h reg minimum b s) = (if eligible q h reg b \<and> kb_model b \<notin> set (ru_seen s)
      then ru_candidates s @ [candidate_of reg b] else ru_candidates s)"
    "(ru_seen (router_consider q h reg minimum b s) = ru_seen s \<and> \<not> (eligible q h reg b \<and> kb_model b \<notin> set (ru_seen s))) \<or>
      ru_seen (router_consider q h reg minimum b s) = kb_model b # ru_seen s"
    "trace_inv (ru_trace s) \<Longrightarrow> trace_inv (ru_trace (router_consider q h reg minimum b s))"
  using assms
  by (auto simp: router_consider_def Let_def router_reject_def eligible_def model_admitted_def candidate_of_def split: option.split)

lemma seen_admitted:
  assumes "minimum = std_clamp (mq_minimum_score q) (Finite 0) (Finite 100)"
    "ru_seen (router_consider q h reg minimum b s) = kb_model b # ru_seen s" "\<not> eligible q h reg b"
  shows "\<not> model_admitted q h reg (kb_model b)"
  using assms by (auto simp: router_consider_def Let_def router_reject_def eligible_def split: option.splits if_splits)

lemma loop_candidates:
  assumes "minimum = std_clamp (mq_minimum_score q) (Finite 0) (Finite 100)"
  shows "ru_candidates (router_loop q h reg minimum bs s) = ru_candidates s @
    map (candidate_of reg) (filter (\<lambda>b. kb_model b \<notin> set (ru_seen s)) (first_per_model (filter (eligible q h reg) bs)))"
proof (induction bs arbitrary: s)
  case (Cons b bs)
  let ?s = "router_consider q h reg minimum b s"
  let ?F = "first_per_model (filter (eligible q h reg) bs)"
  have IH: "ru_candidates (router_loop q h reg minimum (b # bs) s) = ru_candidates ?s @
      map (candidate_of reg) (filter (\<lambda>b. kb_model b \<notin> set (ru_seen ?s)) ?F)"
    using Cons.IH [of ?s] by (simp add: router_loop_def)
  note c = consider_cases [OF assms, where h = h and reg = reg and b = b and s = s]
  show ?case
  proof (cases "eligible q h reg b \<and> kb_model b \<notin> set (ru_seen s)")
    case True
    with c have "ru_seen ?s = kb_model b # ru_seen s" by auto
    with True c(1) IH show ?thesis by (simp add: filter_filter)
  next
    case no: False
    have same: "filter (\<lambda>b. kb_model b \<notin> set (ru_seen ?s)) ?F = filter (\<lambda>b. kb_model b \<notin> set (ru_seen s)) ?F"
    proof (cases "ru_seen ?s = ru_seen s")
      case False
      with c(2) no have seen: "ru_seen ?s = kb_model b # ru_seen s" by auto
      have "kb_model x \<noteq> kb_model b \<or> kb_model x \<in> set (ru_seen s)" if "x \<in> set ?F" for x
      proof -
        have sub: "set (first_per_model xs) \<subseteq> set xs" for xs by (induction xs) auto
        then have "model_admitted q h reg (kb_model x)" using that by (fastforce simp: eligible_def)
        with no seen_admitted [OF assms seen] show ?thesis by (cases "eligible q h reg b") auto
      qed
      with seen show ?thesis by (auto intro!: filter_cong)
    qed simp
    show ?thesis
    proof (cases "eligible q h reg b")
      case True
      with no have "kb_model b \<in> set (ru_seen s)" by simp
      then have "filter (\<lambda>x. kb_model x \<notin> set (ru_seen s)) (filter (\<lambda>x. kb_model x \<noteq> kb_model b) ?F) =
          filter (\<lambda>x. kb_model x \<notin> set (ru_seen s)) ?F"
        by (simp add: filter_filter) (auto intro!: filter_cong)
      with True no c(1) IH same \<open>kb_model b \<in> set (ru_seen s)\<close> show ?thesis by simp
    next
      case False
      with no c(1) IH same show ?thesis by simp
    qed
  qed
qed (simp add: router_loop_def)

lemma clamp_depth: "(if d < 1 then 1 else if 6 < d then 6 else d) \<in> {1..6 :: u64}"
  by (auto simp: not_less word_le_nat_alt word_less_nat_alt Suc_le_eq unat_gt_0)

lemma loop_trace:
  "trace_inv (ru_trace s) \<Longrightarrow> trace_inv (ru_trace (router_loop q h reg (std_clamp (mq_minimum_score q) (Finite 0) (Finite 100)) bs s))"
  by (induction bs arbitrary: s) (simp_all add: router_loop_def consider_cases(3) [OF refl])

lemma first_per_model_head:
  "find P bs = None \<Longrightarrow> first_per_model (filter P bs) = []"
  "find P bs = Some b \<Longrightarrow> \<exists>xs. first_per_model (filter P bs) = b # xs"
  by (induction bs) (simp_all split: if_splits)

text \<open>
  C25. The router takes the best eligible model.  Unless the risk gate keeps the task for a human
  or a deterministic tool, the selected model is that of the first benchmark in the ranking
  that passes every gate (profile, score, presence in the registry, verification when it is
  asked for, hardware, capability), and none is selected when no benchmark passes; the
  candidates are the first passing benchmark of each model, in rank order; the recursion depth
  is between 1 and 6, a task that executes is never routed without verification, and the trace
  stays within its bound.
\<close>

theorem router_selects_first_eligible:
  "let d = router_select reg h ranked q; target = rd_target (caddy_route (mq_signal q));
       routed = (target \<noteq> RT_HumanReview \<and> target \<noteq> RT_DeterministicTool)
   in md_selected_model_id d = (if routed then map_option kb_model (find (eligible q h reg) ranked) else None) \<and>
      (route_selected d \<longleftrightarrow> routed \<and> (\<exists>b \<in> set ranked. eligible q h reg b)) \<and>
      md_candidates d = (if routed then map (candidate_of reg) (first_per_model (filter (eligible q h reg) ranked)) else []) \<and>
      md_recursion_depth d \<in> {1..6} \<and>
      \<not> (route_selected d \<and> ts_requires_execution (mq_signal q) \<and> \<not> md_require_verification d) \<and>
      trace_inv (md_trace d)"
proof -
  let ?d = "router_select reg h ranked q" and ?t = "rd_target (caddy_route (mq_signal q))"
  let ?F = "first_per_model (filter (eligible q h reg) ranked)"
  have depth: "rd_recursion_depth (caddy_route (mq_signal q)) \<in> {1..6}" using route_depths [of "mq_signal q"] by auto
  have routed: "routed_depth n x u \<in> {1..6}" for n x u
    unfolding routed_depth_def Let_def by (rule clamp_depth)
  show ?thesis
  proof (cases "?t = RT_HumanReview \<or> ?t = RT_DeterministicTool \<or> ranked = []")
    case True
    then show ?thesis using depth
      by (auto simp: router_select_def router_stop_def router_start_def Let_def route_selected_def)
  next
    case False
    let ?m = "std_clamp (mq_minimum_score q) (Finite 0) (Finite 100)"
    let ?start = "\<lparr>ru_seen = [], ru_trace = trace_add ''scorecard'' RTO_Pass (''matched benchmark rows='' @ nat_digits (length ranked)) []
      (md_trace (router_start q)), ru_candidates = []\<rparr>"
    let ?s = "router_loop q h reg ?m ranked ?start"
    have c: "ru_candidates ?s = map (candidate_of reg) ?F"
      using loop_candidates [OF refl, where q = q and h = h and reg = reg and bs = ranked and s = ?start] by simp
    have inv: "trace_inv (ru_trace ?s)" by (intro loop_trace) (simp add: router_start_def Let_def)
    have target: "rd_target (md_task_route (router_start q)) = ?t" by (simp add: router_start_def Let_def)
    show ?thesis
    proof (cases "find (eligible q h reg) ranked")
      case None
      then have F: "?F = []" by (rule first_per_model_head)
      have "\<not> (\<exists>b \<in> set ranked. eligible q h reg b)" using None by (auto simp: find_None_iff)
      with None False F c inv depth target show ?thesis
        by (simp add: router_select_def Let_def router_stop_def route_selected_def) (simp add: router_start_def Let_def)
    next
      case (Some b)
      then obtain bs where F: "?F = b # bs" using first_per_model_head(2) by blast
      have "\<exists>b \<in> set ranked. eligible q h reg b" using Some by (auto simp: find_Some_iff)
      with Some False F c inv target routed show ?thesis
        by (simp add: router_select_def Let_def route_selected_def candidate_of_def)
    qed
  qed
qed

end
