(* ===== verification/Zenkai.thy ===== *)
theory Zenkai
  imports Reality
begin

text \<open>
  \<open>ZenkaiLoop\<close> (\<open>include/guff/zenkai.hpp\<close>, \<open>src/zenkai.cpp\<close>): attempt, collect evidence, verify,
  and retry while that is authorized, informative and within the budget.

  The attempt is the caller's function and may have effects: it maps a world, the index of the
  attempt and the previous state to a new world and what the attempt reports.
\<close>

section \<open>Data\<close>

datatype evidence_kind = EK_Build | EK_Test | EK_Tool | EK_Verifier

datatype retry_authority = RY_None | RY_Bounded

datatype zenkai_stop_reason =
  ZS_Verified | ZS_RetryNotAuthorized | ZS_NoNewInformation | ZS_FatalFailure | ZS_AttemptBudget
| ZS_ToolBudget | ZS_EvidenceBudget

record zenkai_evidence =
  ze_kind :: evidence_kind
  ze_source :: string
  ze_passed :: bool
  ze_detail :: string

record verification_outcome =
  vo_passed :: bool
  vo_confidence :: float64
  vo_summary :: string

record zenkai_attempt =
  za_candidate_state :: string
  za_evidence :: "zenkai_evidence list"
  za_verification :: verification_outcome
  za_new_information :: bool
  za_fatal :: bool

record zenkai_budget =
  zb_max_attempts :: u64
  zb_max_tool_events :: u64
  zb_max_evidence_items :: u64
  zb_max_evidence_bytes :: u64
  zb_max_trace_entries :: u64
  zb_acceptance_confidence :: float64
  zb_max_detail_bytes :: u64

record zenkai_trace_entry =
  zt_attempt :: u64
  zt_stage :: string
  zt_detail :: string

record zenkai_result =
  zr_final_state :: string
  zr_stop_reason :: zenkai_stop_reason
  zr_verified :: bool
  zr_attempts :: u64
  zr_evidence_items :: u64
  zr_evidence_bytes :: u64
  zr_tool_events :: u64
  zr_trace :: "zenkai_trace_entry list"
  zr_trace_truncated :: bool

type_synonym 'w attempt_function = "'w \<Rightarrow> u64 \<Rightarrow> string \<Rightarrow> 'w \<times> zenkai_attempt"

section \<open>Helpers\<close>

definition evidence_bytes :: "zenkai_evidence \<Rightarrow> u64" where
  "evidence_bytes e = of_nat (length (ze_source e)) + of_nat (length (ze_detail e))"

fun is_tool_event :: "evidence_kind \<Rightarrow> bool" where
  "is_tool_event EK_Build \<longleftrightarrow> True"
| "is_tool_event EK_Test \<longleftrightarrow> True"
| "is_tool_event EK_Tool \<longleftrightarrow> True"
| "is_tool_event EK_Verifier \<longleftrightarrow> False"

definition zenkai_append_trace :: "u64 \<Rightarrow> u64 \<Rightarrow> string \<Rightarrow> string \<Rightarrow> zenkai_result \<Rightarrow> zenkai_result" where
  "zenkai_append_trace max_entries attempt stage detail r =
     (if unat max_entries \<le> length (zr_trace r) then r\<lparr>zr_trace_truncated := True\<rparr>
      else r\<lparr>zr_trace := zr_trace r @ [\<lparr>zt_attempt = attempt, zt_stage = stage, zt_detail = detail\<rparr>]\<rparr>)"

fun evidence_kind_to_string :: "evidence_kind \<Rightarrow> string" where
  "evidence_kind_to_string EK_Build = ''BUILD''"
| "evidence_kind_to_string EK_Test = ''TEST''"
| "evidence_kind_to_string EK_Tool = ''TOOL''"
| "evidence_kind_to_string EK_Verifier = ''VERIFIER''"

fun retry_authority_to_string :: "retry_authority \<Rightarrow> string" where
  "retry_authority_to_string RY_None = ''NONE''"
| "retry_authority_to_string RY_Bounded = ''BOUNDED''"

fun zenkai_stop_to_string :: "zenkai_stop_reason \<Rightarrow> string" where
  "zenkai_stop_to_string ZS_Verified = ''VERIFIED''"
| "zenkai_stop_to_string ZS_RetryNotAuthorized = ''RETRY_NOT_AUTHORIZED''"
| "zenkai_stop_to_string ZS_NoNewInformation = ''NO_NEW_INFORMATION''"
| "zenkai_stop_to_string ZS_FatalFailure = ''FATAL_FAILURE''"
| "zenkai_stop_to_string ZS_AttemptBudget = ''ATTEMPT_BUDGET''"
| "zenkai_stop_to_string ZS_ToolBudget = ''TOOL_BUDGET''"
| "zenkai_stop_to_string ZS_EvidenceBudget = ''EVIDENCE_BUDGET''"

definition zenkai_new :: "zenkai_budget \<Rightarrow> zenkai_budget" where
  "zenkai_new b = \<lparr>zb_max_attempts = max 1 (zb_max_attempts b), zb_max_tool_events = max 1 (zb_max_tool_events b),
     zb_max_evidence_items = max 1 (zb_max_evidence_items b), zb_max_evidence_bytes = max 1 (zb_max_evidence_bytes b),
     zb_max_trace_entries = max 1 (zb_max_trace_entries b),
     zb_acceptance_confidence = std_clamp (zb_acceptance_confidence b) (Finite 0) (Finite 1),
     zb_max_detail_bytes = max 1 (zb_max_detail_bytes b)\<rparr>"

section \<open>The loop\<close>

definition zenkai_stop :: "zenkai_budget \<Rightarrow> u64 \<Rightarrow> zenkai_stop_reason \<Rightarrow> string \<Rightarrow> zenkai_result \<Rightarrow> zenkai_result" where
  "zenkai_stop b i reason detail r =
     zenkai_append_trace (zb_max_trace_entries b) i ''STOP'' detail (r\<lparr>zr_stop_reason := reason\<rparr>)"

text \<open>\<open>resize\<close>, when the text is longer.\<close>

definition cap_evidence :: "zenkai_budget \<Rightarrow> zenkai_evidence \<Rightarrow> zenkai_evidence" where
  "cap_evidence b e = e\<lparr>ze_detail := take (unat (zb_max_detail_bytes b)) (ze_detail e),
     ze_source := take (unat (zb_max_detail_bytes b)) (ze_source e)\<rparr>"

text \<open>The inner loop; True when a budget stops the run.\<close>

fun zenkai_evidence_loop :: "zenkai_budget \<Rightarrow> u64 \<Rightarrow> zenkai_evidence list \<Rightarrow> zenkai_result \<Rightarrow> bool \<times> zenkai_result" where
  "zenkai_evidence_loop b i [] r = (False, r)"
| "zenkai_evidence_loop b i (x # xs) r =
     (let e = cap_evidence b x; bytes = evidence_bytes e;
          next_tool_events = zr_tool_events r + (if is_tool_event (ze_kind e) then 1 else 0)
      in if zb_max_tool_events b < next_tool_events
         then (True, zenkai_stop b i ZS_ToolBudget ''tool-event budget exhausted'' r)
         else if zb_max_evidence_items b < zr_evidence_items r + 1 \<or>
                 zb_max_evidence_bytes b - min (zr_evidence_bytes r) (zb_max_evidence_bytes b) < bytes
         then (True, zenkai_stop b i ZS_EvidenceBudget ''evidence budget exhausted'' r)
         else zenkai_evidence_loop b i xs
           (zenkai_append_trace (zb_max_trace_entries b) i (if ze_passed e then ''EVIDENCE_PASS'' else ''EVIDENCE_FAIL'')
             (evidence_kind_to_string (ze_kind e) @ '': '' @ ze_source e)
             (r\<lparr>zr_evidence_items := zr_evidence_items r + 1, zr_evidence_bytes := zr_evidence_bytes r + bytes,
                zr_tool_events := next_tool_events\<rparr>)))"

text \<open>What follows the evidence; True when the run ends here.\<close>

definition zenkai_verdict :: "zenkai_budget \<Rightarrow> u64 \<Rightarrow> zenkai_attempt \<Rightarrow> zenkai_result \<Rightarrow> bool \<times> zenkai_result" where
  "zenkai_verdict b i a r0 =
     (let v = za_verification a; confidence = std_clamp (vo_confidence v) (Finite 0) (Finite 1);
          r = zenkai_append_trace (zb_max_trace_entries b) i (if vo_passed v then ''VERIFY_PASS'' else ''VERIFY_FAIL'') (vo_summary v) r0
      in if za_fatal a then (True, zenkai_stop b i ZS_FatalFailure ''attempt reported fatal failure'' r)
         else if vo_passed v \<and> f_geq confidence (zb_acceptance_confidence b)
         then (True, zenkai_stop b i ZS_Verified ''verification threshold satisfied'' (r\<lparr>zr_verified := True\<rparr>))
         else if \<not> za_new_information a
         then (True, zenkai_stop b i ZS_NoNewInformation ''attempt produced no new information'' r)
         else (False, r))"

text \<open>One attempt, from its call to its verdict.\<close>

definition zenkai_attempted :: "zenkai_budget \<Rightarrow> u64 \<Rightarrow> zenkai_attempt \<Rightarrow> zenkai_result \<Rightarrow> bool \<times> zenkai_result" where
  "zenkai_attempted b i current r =
     (let r1 = r\<lparr>zr_attempts := zr_attempts r + 1\<rparr>;
          r2 = (if za_candidate_state current = [] then r1 else r1\<lparr>zr_final_state := za_candidate_state current\<rparr>)
      in case zenkai_evidence_loop b i (za_evidence current) r2 of
           (stop, r3) \<Rightarrow> if stop then (True, r3) else zenkai_verdict b i current r3)"

function zenkai_loop ::
    "'w attempt_function \<Rightarrow> zenkai_budget \<Rightarrow> retry_authority \<Rightarrow> u64 \<Rightarrow> 'w \<Rightarrow> zenkai_result \<Rightarrow> 'w \<times> zenkai_result" where
  "zenkai_loop f b authority i w r =
     (if \<not> i < zb_max_attempts b
      then (w, zenkai_stop b (zr_attempts r) ZS_AttemptBudget ''attempt budget exhausted'' r)
      else if 0 < i \<and> authority \<noteq> RY_Bounded
      then (w, zenkai_stop b i ZS_RetryNotAuthorized ''retry authority is not granted'' r)
      else let r0 = zenkai_append_trace (zb_max_trace_entries b) i ''ATTEMPT'' ''attempt started'' r in
        case f w i (zr_final_state r0) of (w', current) \<Rightarrow>
          (case zenkai_attempted b i current r0 of
             (stop, r') \<Rightarrow> if stop then (w', r') else zenkai_loop f b authority (i + 1) w' r'))"
  by pat_completeness auto
termination
  by (relation "measure (\<lambda>(f, b, authority, i, w, r). unat (zb_max_attempts b) - unat i)")
    (auto simp: word_loop_measure)

declare zenkai_loop.simps [simp del]

definition zenkai_start :: "string \<Rightarrow> zenkai_result" where
  "zenkai_start initial_state = \<lparr>zr_final_state = initial_state, zr_stop_reason = ZS_AttemptBudget, zr_verified = False,
     zr_attempts = 0, zr_evidence_items = 0, zr_evidence_bytes = 0, zr_tool_events = 0, zr_trace = [],
     zr_trace_truncated = False\<rparr>"

text \<open>\<open>run\<close> on the budget that the constructor has clamped.\<close>

definition zenkai_run :: "zenkai_budget \<Rightarrow> retry_authority \<Rightarrow> 'w attempt_function \<Rightarrow> 'w \<Rightarrow> string \<Rightarrow> 'w \<times> zenkai_result" where
  "zenkai_run b authority f w initial_state = zenkai_loop f (zenkai_new b) authority 0 w (zenkai_start initial_state)"

end
