(* ===== verification/Comma_Lists.thy ===== *)
theory Comma_Lists
  imports Prelude
begin

text \<open>
  Lists written as one text with commas in between, as the tags of an episode and the rule
  identities of a review ticket are: pieces without a comma are read back.
\<close>

definition comma_join :: "string list \<Rightarrow> string" where
  "comma_join xs = (case xs of [] \<Rightarrow> [] | x # rest \<Rightarrow> x @ concat (map (\<lambda>y. CHR '','' # y) rest))"

fun split_commas :: "string \<Rightarrow> string list" where
  "split_commas [] = [[]]"
| "split_commas (c # s) =
     (if c = CHR '','' then [] # split_commas s
      else case split_commas s of [] \<Rightarrow> [[c]] | p # ps \<Rightarrow> (c # p) # ps)"

lemma split_commas_none: "CHR '','' \<notin> set p \<Longrightarrow> split_commas p = [p]"
  by (induction p) auto

lemma split_commas_Cons: "CHR '','' \<notin> set p \<Longrightarrow> split_commas (p @ CHR '','' # s) = p # split_commas s"
  by (induction p) auto

lemma split_commas_join: "\<forall>x \<in> set (x # xs). CHR '','' \<notin> set x \<Longrightarrow> split_commas (comma_join (x # xs)) = x # xs"
proof (induction xs arbitrary: x)
  case Nil
  then show ?case by (simp add: comma_join_def split_commas_none)
next
  case (Cons y ys)
  then show ?case by (simp add: comma_join_def split_commas_Cons)
qed

text \<open>Where no piece is empty, the whole list comes back, the empty one too.\<close>

lemma comma_join_inj:
  assumes "comma_join xs = comma_join ys" "\<forall>x \<in> set xs \<union> set ys. x \<noteq> [] \<and> CHR '','' \<notin> set x"
  shows "xs = ys"
proof (cases "xs = [] \<or> ys = []")
  case True
  then show ?thesis
  proof
    assume "xs = []"
    with assms show ?thesis by (cases ys) (simp_all add: comma_join_def)
  next
    assume "ys = []"
    with assms show ?thesis by (cases xs) (simp_all add: comma_join_def)
  qed
next
  case False
  then obtain x xs' y ys' where l: "xs = x # xs'" "ys = y # ys'" by (meson neq_Nil_conv)
  have "split_commas (comma_join xs) = xs" unfolding l(1) by (rule split_commas_join) (use assms(2) l in auto)
  moreover have "split_commas (comma_join ys) = ys" unfolding l(2) by (rule split_commas_join) (use assms(2) l in auto)
  ultimately show ?thesis by (metis assms(1))
qed

lemma comma_join_set: "set (comma_join xs) \<subseteq> insert (CHR '','') (\<Union>x \<in> set xs. set x)"
  by (auto simp: comma_join_def split: list.splits)

end
