(* ===== verification/Dojo.thy ===== *)
theory Dojo
  imports Router Zenkai Session_Journal Comma_Lists "HOL-Library.Sublist"
begin

text \<open>
  \<open>DojoEpisode\<close> and \<open>DojoStore\<close> (\<open>include/guff/dojo.hpp\<close>, \<open>src/dojo.cpp\<close>): what a Zenkai run
  achieved is kept as an episode, one line of a file that is only appended to.  The identity of
  an episode is the hash of its fields; an episode whose identity is in the file is not stored
  again, and a query reads back the last episodes that match.

  The program does not flush an appended line before it looks at its stream, so what an append
  reports and what reaches the file are independent answers of the environment.
\<close>

section \<open>Data\<close>

datatype dojo_outcome = DO_Success | DO_Failure | DO_Aborted

datatype dojo_store_status = DS_Ok | DS_Duplicate | DS_Invalid | DS_StorageError

record dojo_episode =
  de_schema_version :: u32
  de_episode_id :: string
  de_task :: task_class
  de_profile_name :: string
  de_hardware_id :: string
  de_model_id :: string
  de_route_status :: string
  de_outcome :: dojo_outcome
  de_stop_reason :: zenkai_stop_reason
  de_verified :: bool
  de_attempts :: u64
  de_evidence_items :: u64
  de_tool_events :: u64
  de_final_state_sha256 :: string
  de_route_trace_sha256 :: string
  de_outcome_sha256 :: string
  de_summary :: string
  de_recorded_at :: string
  de_tags :: "string list"

record dojo_query =
  dq_task :: "task_class option"
  dq_outcome :: "dojo_outcome option"
  dq_profile_name :: string
  dq_model_id :: string
  dq_verified_only :: bool
  dq_limit :: u64

record dojo_result =
  dj_status :: dojo_store_status
  dj_episode_id :: string
  dj_errors :: "string list"

definition dj_ok :: "dojo_result \<Rightarrow> bool" where
  "dj_ok r \<longleftrightarrow> dj_status r = DS_Ok"

definition kMaxSummaryBytes :: nat where "kMaxSummaryBytes = 2048"
definition kMaxTags :: nat where "kMaxTags = 32"
definition kMaxTagBytes :: nat where "kMaxTagBytes = 128"
definition kMaxReplay :: u64 where "kMaxReplay = 4096"

fun dojo_outcome_to_string :: "dojo_outcome \<Rightarrow> string" where
  "dojo_outcome_to_string DO_Success = ''SUCCESS''"
| "dojo_outcome_to_string DO_Failure = ''FAILURE''"
| "dojo_outcome_to_string DO_Aborted = ''ABORTED''"

fun dojo_status_to_string :: "dojo_store_status \<Rightarrow> string" where
  "dojo_status_to_string DS_Ok = ''OK''"
| "dojo_status_to_string DS_Duplicate = ''DUPLICATE''"
| "dojo_status_to_string DS_Invalid = ''INVALID''"
| "dojo_status_to_string DS_StorageError = ''STORAGE_ERROR''"

section \<open>Enumerations as numbers\<close>

fun outcome_code :: "dojo_outcome \<Rightarrow> u32" where
  "outcome_code DO_Success = 0"
| "outcome_code DO_Failure = 1"
| "outcome_code DO_Aborted = 2"

fun stop_code :: "zenkai_stop_reason \<Rightarrow> u32" where
  "stop_code ZS_Verified = 0"
| "stop_code ZS_RetryNotAuthorized = 1"
| "stop_code ZS_NoNewInformation = 2"
| "stop_code ZS_FatalFailure = 3"
| "stop_code ZS_AttemptBudget = 4"
| "stop_code ZS_ToolBudget = 5"
| "stop_code ZS_EvidenceBudget = 6"

definition task_of_code :: "u32 \<Rightarrow> task_class" where
  "task_of_code n = [TC_General, TC_Chat, TC_Coding, TC_Reasoning, TC_ToolUse, TC_Audio, TC_Vision,
     TC_WorldSimulation] ! unat n"

definition outcome_of_code :: "u32 \<Rightarrow> dojo_outcome" where
  "outcome_of_code n = [DO_Success, DO_Failure, DO_Aborted] ! unat n"

definition stop_of_code :: "u32 \<Rightarrow> zenkai_stop_reason" where
  "stop_of_code n = [ZS_Verified, ZS_RetryNotAuthorized, ZS_NoNewInformation, ZS_FatalFailure,
     ZS_AttemptBudget, ZS_ToolBudget, ZS_EvidenceBudget] ! unat n"

definition verified_digit :: "bool \<Rightarrow> string" where
  "verified_digit b = (if b then ''1'' else ''0'')"

section \<open>Identity\<close>

definition dojo_canonical_tags :: "string list \<Rightarrow> string" where
  "dojo_canonical_tags tags = concat (map (\<lambda>t. nat_digits (length t) @ '':'' @ t @ '';'') (sort tags))"

definition dojo_payload :: "dojo_episode \<Rightarrow> string" where
  "dojo_payload e =
     show_u (de_schema_version e) @ [NL] @
     show_u (task_code (de_task e)) @ [NL] @
     de_profile_name e @ [NL] @
     de_hardware_id e @ [NL] @
     de_model_id e @ [NL] @
     de_route_status e @ [NL] @
     show_u (outcome_code (de_outcome e)) @ [NL] @
     show_u (stop_code (de_stop_reason e)) @ [NL] @
     verified_digit (de_verified e) @ [NL] @
     show_u (de_attempts e) @ [NL] @
     show_u (de_evidence_items e) @ [NL] @
     show_u (de_tool_events e) @ [NL] @
     de_final_state_sha256 e @ [NL] @
     de_route_trace_sha256 e @ [NL] @
     de_outcome_sha256 e @ [NL] @
     de_summary e @ [NL] @
     de_recorded_at e @ [NL] @
     dojo_canonical_tags (de_tags e)"

definition dojo_immutable_id :: "dojo_episode \<Rightarrow> string" where
  "dojo_immutable_id e = kDojoPrefix @ sha256 (dojo_payload e)"

definition validate_episode :: "dojo_episode \<Rightarrow> string list" where
  "validate_episode e =
     err (de_schema_version e \<noteq> 1) ''unsupported schema_version'' @
     err (de_profile_name e = []) ''profile_name is required'' @
     err (256 < length (de_profile_name e)) ''profile_name exceeds 256 bytes'' @
     err (\<not> prefixed_sha256 kHardwarePrefix (de_hardware_id e)) ''hardware_id must be a canonical GOLF hardware identity'' @
     err (de_model_id e \<noteq> [] \<and> \<not> prefixed_sha256 kModelPrefix (de_model_id e))
       ''model_id must be empty or a canonical GOLF model identity'' @
     err (de_route_status e = []) ''route_status is required'' @
     err (128 < length (de_route_status e)) ''route_status exceeds 128 bytes'' @
     err (\<not> is_sha256 (de_final_state_sha256 e)) ''final_state_sha256 must be SHA-256'' @
     err (\<not> is_sha256 (de_route_trace_sha256 e)) ''route_trace_sha256 must be SHA-256'' @
     err (\<not> is_sha256 (de_outcome_sha256 e)) ''outcome_sha256 must be SHA-256'' @
     err (de_summary e = []) ''summary is required'' @
     err (kMaxSummaryBytes < length (de_summary e)) ''summary exceeds 2048 bytes'' @
     err (de_recorded_at e = []) ''recorded_at_utc is required'' @
     err (kMaxTags < length (de_tags e)) ''too many tags'' @
     concat (map (\<lambda>t. err (t = []) ''tags must not be empty'' @
       err (kMaxTagBytes < length t) ''tag exceeds 128 bytes'') (de_tags e)) @
     err (de_episode_id e \<noteq> [] \<and> de_episode_id e \<noteq> dojo_immutable_id e)
       ''episode_id does not match canonical identity''"

section \<open>Lines\<close>

definition encode_tags :: "string list \<Rightarrow> string" where
  "encode_tags tags = comma_join (map hex_encode tags)"

definition decode_tags :: "string \<Rightarrow> string list option" where
  "decode_tags text = (if text = [] then Some [] else those (map hex_decode (split_commas text)))"

definition dojo_fields :: "dojo_episode \<Rightarrow> string list" where
  "dojo_fields e =
     [show_u (de_schema_version e), hex_encode (de_episode_id e), show_u (task_code (de_task e)),
      hex_encode (de_profile_name e), hex_encode (de_hardware_id e), hex_encode (de_model_id e),
      hex_encode (de_route_status e), show_u (outcome_code (de_outcome e)), show_u (stop_code (de_stop_reason e)),
      verified_digit (de_verified e), show_u (de_attempts e), show_u (de_evidence_items e),
      show_u (de_tool_events e), de_final_state_sha256 e, de_route_trace_sha256 e, de_outcome_sha256 e,
      hex_encode (de_summary e), hex_encode (de_recorded_at e), encode_tags (de_tags e)]"

definition dojo_serialize :: "dojo_episode \<Rightarrow> string" where
  "dojo_serialize e = ''D'' @ tab_join (dojo_fields e)"

text \<open>The numbers of a line, then its enumerations, then its texts, then the checks.\<close>

definition dojo_numbers :: "string list \<Rightarrow> (u32 \<times> u32 \<times> u32 \<times> u32 \<times> u32 \<times> u64 \<times> u64 \<times> u64) option" where
  "dojo_numbers fs =
     do { schema \<leftarrow> parse_unsigned (fs ! 1); task \<leftarrow> parse_unsigned (fs ! 3); outcome \<leftarrow> parse_unsigned (fs ! 8);
          stop \<leftarrow> parse_unsigned (fs ! 9); verified \<leftarrow> parse_unsigned (fs ! 10);
          attempts \<leftarrow> parse_unsigned (fs ! 11); evidence \<leftarrow> parse_unsigned (fs ! 12);
          tools \<leftarrow> parse_unsigned (fs ! 13);
          Some (schema, task, outcome, stop, verified, attempts, evidence, tools) }"

definition dojo_texts :: "string list \<Rightarrow> (string \<times> string \<times> string \<times> string \<times> string \<times> string \<times> string \<times> string list) option" where
  "dojo_texts fs =
     do { episode_id \<leftarrow> hex_decode (fs ! 2); profile \<leftarrow> hex_decode (fs ! 4); hardware \<leftarrow> hex_decode (fs ! 5);
          model \<leftarrow> hex_decode (fs ! 6); route \<leftarrow> hex_decode (fs ! 7); summary \<leftarrow> hex_decode (fs ! 17);
          recorded \<leftarrow> hex_decode (fs ! 18); tags \<leftarrow> decode_tags (fs ! 19);
          Some (episode_id, profile, hardware, model, route, summary, recorded, tags) }"

definition check_episode :: "dojo_episode \<Rightarrow> string + dojo_episode" where
  "check_episode e =
     (case validate_episode e of
        msg # _ \<Rightarrow> Inl (''DOJO record failed validation: '' @ msg)
      | [] \<Rightarrow> if de_episode_id e \<noteq> dojo_immutable_id e then Inl ''DOJO episode identity mismatch'' else Inr e)"

definition dojo_deserialize :: "string \<Rightarrow> string + dojo_episode" where
  "dojo_deserialize line =
     (let fs = split_tabs line in
      if length fs \<noteq> 20 \<or> fs ! 0 \<noteq> ''D'' then Inl ''invalid DOJO record field count or type''
      else case dojo_numbers fs of
        None \<Rightarrow> Inl ''invalid numeric DOJO field''
      | Some (schema, task, outcome, stop, verified, attempts, evidence, tools) \<Rightarrow>
          if 7 < task \<or> 2 < outcome \<or> 6 < stop \<or> 1 < verified then Inl ''DOJO enum field out of range''
          else case dojo_texts fs of
            None \<Rightarrow> Inl ''invalid hex-encoded DOJO field''
          | Some (episode_id, profile, hardware, model, route, summary, recorded, tags) \<Rightarrow>
              check_episode
                \<lparr>de_schema_version = schema, de_episode_id = episode_id, de_task = task_of_code task,
                 de_profile_name = profile, de_hardware_id = hardware, de_model_id = model,
                 de_route_status = route, de_outcome = outcome_of_code outcome,
                 de_stop_reason = stop_of_code stop, de_verified = (verified \<noteq> 0), de_attempts = attempts,
                 de_evidence_items = evidence, de_tool_events = tools, de_final_state_sha256 = fs ! 14,
                 de_route_trace_sha256 = fs ! 15, de_outcome_sha256 = fs ! 16, de_summary = summary,
                 de_recorded_at = recorded, de_tags = tags\<rparr>)"

section \<open>The store\<close>

record dojo_store =
  ds_path :: string
  ds_file :: "string option"

definition dojo_store_new :: "string \<Rightarrow> string option \<Rightarrow> dojo_store" where
  "dojo_store_new path content = \<lparr>ds_path = path, ds_file = content\<rparr>"

text \<open>
  An output stream: it cannot be opened, or the first bytes of what is written reach the file
  and the stream does or does not report an error while the program still looks at it.
\<close>

datatype stream_io = Stream_Closed | Stream_Wrote nat bool

definition episode_stored :: "dojo_episode \<Rightarrow> string \<Rightarrow> bool" where
  "episode_stored e line \<longleftrightarrow> sublist (hex_encode (de_episode_id e)) line \<and>
     (case dojo_deserialize line of Inl _ \<Rightarrow> False | Inr d \<Rightarrow> de_episode_id d = de_episode_id e)"

definition dojo_append :: "bool \<Rightarrow> stream_io \<Rightarrow> dojo_episode \<Rightarrow> dojo_store \<Rightarrow> dojo_result \<times> dojo_store" where
  "dojo_append can_read io episode D =
     (let errors = validate_episode episode in
      if errors \<noteq> [] then (\<lparr>dj_status = DS_Invalid, dj_episode_id = [], dj_errors = errors\<rparr>, D)
      else let expected = dojo_immutable_id episode;
               e = (if de_episode_id episode = [] then episode\<lparr>de_episode_id := expected\<rparr> else episode) in
      if de_episode_id e \<noteq> expected
      then (\<lparr>dj_status = DS_Invalid, dj_episode_id = [],
             dj_errors = [''episode_id does not match canonical identity'']\<rparr>, D)
      else if ds_file D \<noteq> None \<and> \<not> can_read
      then (\<lparr>dj_status = DS_StorageError, dj_episode_id = de_episode_id e,
             dj_errors = [''unable to open DOJO store for duplicate scan'']\<rparr>, D)
      else if list_ex (episode_stored e) (file_lines (ds_file D))
      then (\<lparr>dj_status = DS_Duplicate, dj_episode_id = de_episode_id e, dj_errors = []\<rparr>, D)
      else case io of
        Stream_Closed \<Rightarrow>
          (\<lparr>dj_status = DS_StorageError, dj_episode_id = de_episode_id e,
            dj_errors = [''unable to open DOJO store for append'']\<rparr>, D)
      | Stream_Wrote n failed \<Rightarrow>
          (if failed
           then \<lparr>dj_status = DS_StorageError, dj_episode_id = de_episode_id e,
                 dj_errors = [''unable to append DOJO episode'']\<rparr>
           else \<lparr>dj_status = DS_Ok, dj_episode_id = de_episode_id e, dj_errors = []\<rparr>,
           D\<lparr>ds_file := file_append (ds_file D) (take n (dojo_serialize e @ [NL]))\<rparr>))"

definition dojo_matches :: "dojo_query \<Rightarrow> dojo_episode \<Rightarrow> bool" where
  "dojo_matches q e \<longleftrightarrow>
     (case dq_task q of None \<Rightarrow> True | Some t \<Rightarrow> de_task e = t) \<and>
     (case dq_outcome q of None \<Rightarrow> True | Some oc \<Rightarrow> de_outcome e = oc) \<and>
     (dq_profile_name q = [] \<or> de_profile_name e = dq_profile_name q) \<and>
     (dq_model_id q = [] \<or> de_model_id e = dq_model_id q) \<and>
     (dq_verified_only q \<longrightarrow> de_verified e)"

definition retain_episode :: "nat \<Rightarrow> dojo_episode \<Rightarrow> dojo_episode list \<Rightarrow> dojo_episode list" where
  "retain_episode limit e retained = (if length retained = limit then tl retained else retained) @ [e]"

fun dojo_scan :: "dojo_query \<Rightarrow> nat \<Rightarrow> nat \<Rightarrow> string list \<Rightarrow> dojo_episode list \<times> string list \<Rightarrow> dojo_episode list \<times> string list" where
  "dojo_scan q limit n [] acc = acc"
| "dojo_scan q limit n (line # rest) (retained, errors) =
     dojo_scan q limit (Suc n) rest
       (case dojo_deserialize line of
          Inl msg \<Rightarrow> (retained, errors @ [''line '' @ nat_digits (Suc n) @ '': '' @ msg])
        | Inr e \<Rightarrow> (if dojo_matches q e then retain_episode limit e retained else retained, errors))"

definition dojo_replay :: "bool \<Rightarrow> dojo_query \<Rightarrow> dojo_store \<Rightarrow> dojo_episode list \<times> string list" where
  "dojo_replay can_read q D =
     (if dq_limit q = 0 \<or> ds_file D = None then ([], [])
      else if \<not> can_read then ([], [''unable to open DOJO store''])
      else dojo_scan q (unat (min (dq_limit q) kMaxReplay)) 0 (file_lines (ds_file D)) ([], []))"

section \<open>Export\<close>

definition json_char :: "char \<Rightarrow> string" where
  "json_char ch =
     (if ch = CHR 0x5C then [CHR 0x5C, CHR 0x5C]
      else if ch = CHR 0x22 then [CHR 0x5C, CHR 0x22]
      else if ch = NL then CHR 0x5C # ''n''
      else if ch = CHR 0x0D then CHR 0x5C # ''r''
      else if ch = TAB then CHR 0x5C # ''t''
      else if (of_char ch :: nat) < 32
      then CHR 0x5C # ''u00'' @ [hex_digit (of_char ch div 16), hex_digit (of_char ch mod 16)]
      else [ch])"

definition json_escape :: "string \<Rightarrow> string" where
  "json_escape value = concat (map json_char value)"

definition json_text :: "string \<Rightarrow> string" where
  "json_text value = CHR 0x22 # value @ [CHR 0x22]"

definition json_member :: "string \<Rightarrow> string \<Rightarrow> string" where
  "json_member key value = json_text key @ '':'' @ value"

definition json_members :: "dojo_episode \<Rightarrow> string list" where
  "json_members e =
     [json_member ''episode_id'' (json_text (json_escape (de_episode_id e))),
      json_member ''task'' (show_u (task_code (de_task e))),
      json_member ''profile'' (json_text (json_escape (de_profile_name e))),
      json_member ''hardware_id'' (json_text (json_escape (de_hardware_id e))),
      json_member ''model_id'' (json_text (json_escape (de_model_id e))),
      json_member ''route_status'' (json_text (json_escape (de_route_status e))),
      json_member ''outcome'' (json_text (dojo_outcome_to_string (de_outcome e))),
      json_member ''zenkai_stop'' (show_u (stop_code (de_stop_reason e))),
      json_member ''verified'' (if de_verified e then ''true'' else ''false''),
      json_member ''attempts'' (show_u (de_attempts e)),
      json_member ''evidence_items'' (show_u (de_evidence_items e)),
      json_member ''tool_events'' (show_u (de_tool_events e)),
      json_member ''final_state_sha256'' (json_text (de_final_state_sha256 e)),
      json_member ''route_trace_sha256'' (json_text (de_route_trace_sha256 e)),
      json_member ''outcome_sha256'' (json_text (de_outcome_sha256 e)),
      json_member ''summary'' (json_text (json_escape (de_summary e))),
      json_member ''recorded_at_utc'' (json_text (json_escape (de_recorded_at e))),
      json_member ''tags'' (''['' @ comma_join (map (\<lambda>t. json_text (json_escape t)) (de_tags e)) @ '']'')]"

definition to_json :: "dojo_episode \<Rightarrow> string" where
  "to_json e = ''{'' @ comma_join (json_members e) @ ''}''"

text \<open>The result, the errors, and the destination if it could be opened.\<close>

definition export_jsonl :: "bool \<Rightarrow> stream_io \<Rightarrow> dojo_query \<Rightarrow> dojo_store \<Rightarrow> bool \<times> string list \<times> string option" where
  "export_jsonl can_read io q D =
     (let (episodes, errors) = dojo_replay can_read q D in
      case io of
        Stream_Closed \<Rightarrow> (False, errors @ [''unable to open DOJO export destination''], None)
      | Stream_Wrote n failed \<Rightarrow>
          (\<not> failed, errors, Some (take n (concat (map (\<lambda>e. to_json e @ [NL]) episodes)))))"

section \<open>From a Zenkai run\<close>

definition outcome_from :: "zenkai_result \<Rightarrow> dojo_outcome" where
  "outcome_from z =
     (if zr_verified z \<and> zr_stop_reason z = ZS_Verified then DO_Success
      else if zr_stop_reason z \<in> {ZS_RetryNotAuthorized, ZS_AttemptBudget, ZS_ToolBudget, ZS_EvidenceBudget}
      then DO_Aborted else DO_Failure)"

definition outcome_material :: "zenkai_result \<Rightarrow> string" where
  "outcome_material z =
     zr_final_state z @ [NL] @ show_u (stop_code (zr_stop_reason z)) @ [NL] @
     verified_digit (zr_verified z) @ [NL] @ show_u (zr_attempts z) @ [NL] @
     show_u (zr_evidence_items z) @ [NL] @ show_u (zr_tool_events z)"

text \<open>The episode before its identity is filled in.\<close>

definition unnamed_episode ::
  "task_class \<Rightarrow> string \<Rightarrow> string \<Rightarrow> string \<Rightarrow> string \<Rightarrow> zenkai_result \<Rightarrow> string \<Rightarrow> string \<Rightarrow> string \<Rightarrow> string list \<Rightarrow> dojo_episode" where
  "unnamed_episode task profile hardware model route z trace summary recorded tags =
     \<lparr>de_schema_version = 1, de_episode_id = [], de_task = task, de_profile_name = profile,
      de_hardware_id = hardware, de_model_id = model, de_route_status = route,
      de_outcome = outcome_from z, de_stop_reason = zr_stop_reason z, de_verified = zr_verified z,
      de_attempts = zr_attempts z, de_evidence_items = zr_evidence_items z,
      de_tool_events = zr_tool_events z, de_final_state_sha256 = sha256 (zr_final_state z),
      de_route_trace_sha256 = sha256 trace, de_outcome_sha256 = sha256 (outcome_material z),
      de_summary = take kMaxSummaryBytes summary, de_recorded_at = recorded,
      de_tags = map (take kMaxTagBytes) (take kMaxTags tags)\<rparr>"

definition make_dojo_episode ::
  "task_class \<Rightarrow> string \<Rightarrow> string \<Rightarrow> string \<Rightarrow> string \<Rightarrow> zenkai_result \<Rightarrow> string \<Rightarrow> string \<Rightarrow> string \<Rightarrow> string list \<Rightarrow> dojo_episode" where
  "make_dojo_episode task profile hardware model route z trace summary recorded tags =
     (let e = unnamed_episode task profile hardware model route z trace summary recorded tags
      in e\<lparr>de_episode_id := dojo_immutable_id e\<rparr>)"

end
