(* ===== verification/Dojo_Store.thy ===== *)
theory Dojo_Store
  imports Dojo
begin

text \<open>
  Properties of the episode store: lines are read back as what they were written from, what a
  history of appends leaves is exactly what a query sees, and which distinct episodes have the
  same identity.
\<close>

section \<open>Reading a line back\<close>

lemma task_of_task_code [simp]: "task_of_code (task_code t) = t" "task_code t \<le> 7"
  by (cases t; simp add: task_of_code_def)+

lemma outcome_of_outcome_code [simp]: "outcome_of_code (outcome_code t) = t" "outcome_code t \<le> 2"
  by (cases t; simp add: outcome_of_code_def)+

lemma stop_of_stop_code [simp]: "stop_of_code (stop_code t) = t" "stop_code t \<le> 6"
  by (cases t; simp add: stop_of_code_def)+

lemma verified_digit_show: "verified_digit b = show_u (if b then 1 else 0 :: u32)"
  proof -
  have "show_u (0 :: u32) = ''0''" "show_u (1 :: u32) = ''1''" by code_simp+
  then show ?thesis by (simp add: verified_digit_def)
qed

lemma parse_verified_digit [simp]: "parse_unsigned (verified_digit b) = Some (if b then 1 else 0 :: u32)"
  by (simp only: verified_digit_show parse_show_u)

lemma verified_digit_no_sep [simp]: "TAB \<notin> set (verified_digit b)" "NL \<notin> set (verified_digit b)"
  by (simp_all add: verified_digit_def)

lemma hex_encode_no_comma [simp]: "CHR '','' \<notin> set (hex_encode s)"
  using hex_encode_lower [of s] by (auto simp: list_all_iff is_lower_hex_def)

lemma hex_encode_Nil_iff [simp]: "hex_encode s = [] \<longleftrightarrow> s = []"
  by (cases s) simp_all

lemma those_map_Some: "(\<And>x. x \<in> set xs \<Longrightarrow> f x = Some (g x)) \<Longrightarrow> those (map f xs) = Some (map g xs)"
  by (induction xs) simp_all

lemma decode_encode_tags: "[] \<notin> set tags \<Longrightarrow> decode_tags (encode_tags tags) = Some tags"
proof (cases tags)
  case Nil
  then show ?thesis by (simp add: decode_tags_def encode_tags_def comma_join_def)
next
  case (Cons t ts)
  assume "[] \<notin> set tags"
  with Cons have ne: "encode_tags tags \<noteq> []" by (auto simp: encode_tags_def comma_join_def)
  have "split_commas (encode_tags tags) = map hex_encode tags"
    unfolding encode_tags_def Cons list.map by (rule split_commas_join) auto
  with ne show ?thesis by (simp add: decode_tags_def those_map_Some [of tags _ id, simplified] comp_def)
qed

lemma encode_tags_no_sep [simp]: "TAB \<notin> set (encode_tags tags)" "NL \<notin> set (encode_tags tags)"
  by (auto simp: encode_tags_def comma_join_def split: list.splits)

lemma valid_episode:
  assumes "validate_episode e = []"
  shows "de_schema_version e = 1" "is_sha256 (de_final_state_sha256 e)" "is_sha256 (de_route_trace_sha256 e)"
    "is_sha256 (de_outcome_sha256 e)" "[] \<notin> set (de_tags e)"
  using assms by (auto simp: validate_episode_def split: if_splits)

lemma dojo_fields_no_sep:
  assumes "validate_episode e = []"
  shows "\<forall>f \<in> set (''D'' # dojo_fields e). TAB \<notin> set f" "\<forall>f \<in> set (dojo_fields e). NL \<notin> set f"
  using valid_episode [OF assms] by (simp_all add: dojo_fields_def is_sha256_no_sep)

lemma dojo_serialize_no_NL: "validate_episode e = [] \<Longrightarrow> NL \<notin> set (dojo_serialize e)"
  using dojo_fields_no_sep(2) by (auto simp: dojo_serialize_def tab_join_def)

definition stored_form :: "dojo_episode \<Rightarrow> bool" where
  "stored_form e \<longleftrightarrow> validate_episode e = [] \<and> de_episode_id e = dojo_immutable_id e"

lemma check_episode_iff [simp]: "check_episode e = Inr d \<longleftrightarrow> d = e \<and> stored_form e"
  by (auto simp: check_episode_def stored_form_def split: list.splits)

lemma deserialize_stored_form: "dojo_deserialize line = Inr e \<Longrightarrow> stored_form e"
  by (auto simp: dojo_deserialize_def Let_def split: if_splits option.splits prod.splits)

lemma dojo_deserialize_serialize: "stored_form e \<Longrightarrow> dojo_deserialize (dojo_serialize e) = Inr e"
proof -
  assume s: "stored_form e"
  then have v: "validate_episode e = []" by (simp add: stored_form_def)
  have fs: "split_tabs (dojo_serialize e) = ''D'' # dojo_fields e"
    unfolding dojo_serialize_def by (rule split_tabs_join) (rule dojo_fields_no_sep(1) [OF v])
  obtain vb :: u32 where n: "dojo_numbers (''D'' # dojo_fields e) = Some (de_schema_version e, task_code (de_task e),
      outcome_code (de_outcome e), stop_code (de_stop_reason e), vb,
      de_attempts e, de_evidence_items e, de_tool_events e)" and vb: "vb \<le> 1" "(vb \<noteq> 0) = de_verified e"
    by (rule that [of "if de_verified e then 1 else 0"])
      (simp_all add: dojo_numbers_def dojo_fields_def del: task_code.simps)
  have t: "dojo_texts (''D'' # dojo_fields e) = Some (de_episode_id e, de_profile_name e, de_hardware_id e,
      de_model_id e, de_route_status e, de_summary e, de_recorded_at e, de_tags e)"
    by (simp add: dojo_texts_def dojo_fields_def decode_encode_tags valid_episode(5) [OF v])
  show ?thesis
    unfolding dojo_deserialize_def fs Let_def n
    using s by (simp add: t vb not_less) (cases e, simp add: dojo_fields_def)
qed

text \<open>C. An episode is read back from the line it is written to exactly when it validates and
  carries its own identity.\<close>

theorem dojo_round_trip:
  "dojo_deserialize (dojo_serialize e) = Inr e \<longleftrightarrow>
     validate_episode e = [] \<and> de_episode_id e = dojo_immutable_id e"
  using deserialize_stored_form dojo_deserialize_serialize by (auto simp: stored_form_def)

section \<open>Histories\<close>

text \<open>
  A store over an absent file and any sequence of appends, with the episodes the successful ones
  stored.  A write reaches the file whole or, when it fails, not at all.
\<close>

definition identified :: "dojo_episode \<Rightarrow> dojo_episode" where
  "identified e = e\<lparr>de_episode_id := dojo_immutable_id e\<rparr>"

definition clean_stream :: "stream_io \<Rightarrow> dojo_episode \<Rightarrow> bool" where
  "clean_stream io e \<longleftrightarrow> (case io of Stream_Closed \<Rightarrow> True
     | Stream_Wrote n failed \<Rightarrow> if failed then n = 0 else length (dojo_serialize (identified e)) < n)"

inductive dojo_run :: "string \<Rightarrow> dojo_episode list \<Rightarrow> dojo_store \<Rightarrow> bool" where
  run_new: "dojo_run path [] (dojo_store_new path None)"
| run_append: "dojo_run path es D \<Longrightarrow> clean_stream io e \<Longrightarrow> dojo_append can_read io e D = (r, D') \<Longrightarrow>
    dojo_run path (es @ (if dj_ok r then [identified e] else [])) D'"

definition dojo_inv :: "dojo_episode list \<Rightarrow> dojo_store \<Rightarrow> bool" where
  "dojo_inv es D \<longleftrightarrow> file_lines (ds_file D) = map dojo_serialize es \<and> terminated (ds_file D) \<and>
     list_all stored_form es \<and> distinct (map de_episode_id es)"

lemma dojo_id_update [simp]: "dojo_immutable_id (e\<lparr>de_episode_id := i\<rparr>) = dojo_immutable_id e"
  by (simp add: dojo_immutable_id_def dojo_payload_def)

lemma dojo_id_not_Nil [simp]: "dojo_immutable_id e \<noteq> []"
  by (simp add: dojo_immutable_id_def kDojoPrefix_def)

lemma stored_form_identified: "validate_episode e = [] \<Longrightarrow> stored_form (identified e)"
  unfolding stored_form_def identified_def validate_episode_def by (auto split: if_splits)

lemma valid_id: "validate_episode e = [] \<Longrightarrow> de_episode_id e = [] \<or> de_episode_id e = dojo_immutable_id e"
  by (auto simp: validate_episode_def split: if_splits)

lemma identified_given: "de_episode_id e = dojo_immutable_id e \<Longrightarrow> identified e = e"
  by (simp add: identified_def)

text \<open>What an append does, with the identity filled in.\<close>

lemma dojo_append_valid:
  assumes "validate_episode e = []"
  shows "dojo_append can_read io e D =
    (let i = identified e in
     if ds_file D \<noteq> None \<and> \<not> can_read
     then (\<lparr>dj_status = DS_StorageError, dj_episode_id = de_episode_id i,
            dj_errors = [''unable to open DOJO store for duplicate scan'']\<rparr>, D)
     else if list_ex (episode_stored i) (file_lines (ds_file D))
     then (\<lparr>dj_status = DS_Duplicate, dj_episode_id = de_episode_id i, dj_errors = []\<rparr>, D)
     else case io of
       Stream_Closed \<Rightarrow>
         (\<lparr>dj_status = DS_StorageError, dj_episode_id = de_episode_id i,
           dj_errors = [''unable to open DOJO store for append'']\<rparr>, D)
     | Stream_Wrote n failed \<Rightarrow>
         (if failed
          then \<lparr>dj_status = DS_StorageError, dj_episode_id = de_episode_id i,
                dj_errors = [''unable to append DOJO episode'']\<rparr>
          else \<lparr>dj_status = DS_Ok, dj_episode_id = de_episode_id i, dj_errors = []\<rparr>,
          D\<lparr>ds_file := file_append (ds_file D) (take n (dojo_serialize i @ [NL]))\<rparr>))"
proof -
  have e: "(if de_episode_id e = [] then e\<lparr>de_episode_id := dojo_immutable_id e\<rparr> else e) = identified e"
    using valid_id [OF assms] by (auto simp: identified_def)
  have i: "(de_episode_id (identified e) \<noteq> dojo_immutable_id e) = False" by (simp add: identified_def)
  show ?thesis unfolding dojo_append_def Let_def assms e i by simp
qed

lemma dojo_append_invalid: "validate_episode e \<noteq> [] \<Longrightarrow>
    dojo_append can_read io e D = (\<lparr>dj_status = DS_Invalid, dj_episode_id = [], dj_errors = validate_episode e\<rparr>, D)"
  by (simp add: dojo_append_def)

lemma serialize_has_id: "sublist (hex_encode (de_episode_id e)) (dojo_serialize e)"
  unfolding sublist_def dojo_serialize_def dojo_fields_def tab_join_def
  by (rule exI [of _ "''D'' @ TAB # show_u (de_schema_version e) @ [TAB]"]) simp

lemma episode_stored_serialize:
  "stored_form d \<Longrightarrow> episode_stored e (dojo_serialize d) \<longleftrightarrow> de_episode_id d = de_episode_id e"
  using serialize_has_id [of d] by (auto simp: episode_stored_def dojo_deserialize_serialize)

lemma dojo_run_inv: "dojo_run path es D \<Longrightarrow> dojo_inv es D"
proof (induction rule: dojo_run.induct)
  case (run_new path)
  then show ?case by (simp add: dojo_inv_def dojo_store_new_def file_lines_def terminated_def file_bytes_def)
next
  case (run_append path es D io e can_read r D')
  note inv = run_append.IH [unfolded dojo_inv_def]
  show ?case
  proof (cases "validate_episode e = []")
    case False
    with run_append show ?thesis by (auto simp: dojo_append_invalid dj_ok_def)
  next
    case True
    define i where "i = identified e"
    note app = run_append.hyps(3) [unfolded dojo_append_valid [OF True] i_def [symmetric] Let_def]
    have i: "stored_form i" "NL \<notin> set (dojo_serialize i)"
      using stored_form_identified [OF True] dojo_serialize_no_NL by (simp_all add: i_def stored_form_def)
    have dup: "list_ex (episode_stored i) (file_lines (ds_file D)) \<longleftrightarrow> de_episode_id i \<in> set (map de_episode_id es)"
      using inv by (auto simp: list_ex_iff list_all_iff episode_stored_serialize intro: rev_image_eqI)
    consider (same) "D' = D" "\<not> dj_ok r" | (empty) "D' = D\<lparr>ds_file := file_append (ds_file D) []\<rparr>" "\<not> dj_ok r"
      | (whole) "D' = D\<lparr>ds_file := file_append (ds_file D) (dojo_serialize i @ [NL])\<rparr>" "dj_ok r"
          "de_episode_id i \<notin> set (map de_episode_id es)"
      using app dup run_append.hyps(2)
      by (auto simp: clean_stream_def dj_ok_def i_def [symmetric] split: if_splits stream_io.splits)
    then show ?thesis
    proof cases
      case same
      with run_append.IH show ?thesis by simp
    next
      case empty
      with inv show ?thesis by (simp add: dojo_inv_def file_lines_bytes terminated_def)
    next
      case whole
      have "file_lines (ds_file D') = file_lines (ds_file D) @ [dojo_serialize i]"
        using inv i(2) getlines_append_terminated [of "file_bytes (ds_file D)" "dojo_serialize i @ [NL]"]
          getlines_Cons [of "dojo_serialize i" "[]"]
        by (simp add: whole(1) file_lines_bytes terminated_def)
      with whole inv i(1) show ?thesis by (simp add: dojo_inv_def i_def [symmetric] terminated_def)
    qed
  qed
qed

section \<open>Queries\<close>

definition last_n :: "nat \<Rightarrow> 'a list \<Rightarrow> 'a list" where
  "last_n k xs = drop (length xs - k) xs"

lemma retain_last_n: "0 < k \<Longrightarrow> retain_episode k e (last_n k xs) = last_n k (xs @ [e])"
  by (cases "length xs < k") (auto simp: retain_episode_def last_n_def Suc_diff_le drop_Suc tl_drop)

lemma dojo_scan_serialized:
  "0 < k \<Longrightarrow> list_all stored_form es \<Longrightarrow>
     dojo_scan q k n (map dojo_serialize es) (last_n k xs, errors) = (last_n k (xs @ filter (dojo_matches q) es), errors)"
proof (induction es arbitrary: n xs)
  case (Cons e es)
  then show ?case
    by (cases "dojo_matches q e") (simp_all add: dojo_deserialize_serialize retain_last_n)
qed simp

lemma dojo_replay_inv:
  assumes "dojo_inv es D"
  shows "dojo_replay True q D = (last_n (unat (min (dq_limit q) kMaxReplay)) (filter (dojo_matches q) es), [])"
proof (cases "dq_limit q = 0 \<or> ds_file D = None")
  case True
  then have "dq_limit q = 0 \<or> es = []" using assms by (auto simp: dojo_inv_def file_lines_def)
  with True show ?thesis by (auto simp: dojo_replay_def last_n_def)
next
  case False
  then have "0 < unat (min (dq_limit q) kMaxReplay)"
    by (simp add: kMaxReplay_def min_def unat_gt_0)
  from dojo_scan_serialized [OF this, of es q 0 "[]" "[]"] assms False show ?thesis
    by (auto simp: dojo_replay_def dojo_inv_def last_n_def)
qed

section \<open>What a store remembers\<close>

definition sample_episode :: dojo_episode where
  "sample_episode = \<lparr>de_schema_version = 1, de_episode_id = [], de_task = TC_Coding, de_profile_name = ''local'',
     de_hardware_id = kHardwarePrefix @ sha256 ''machine'', de_model_id = [], de_route_status = ''SELECTED'',
     de_outcome = DO_Success, de_stop_reason = ZS_Verified, de_verified = True, de_attempts = 1,
     de_evidence_items = 1, de_tool_events = 1, de_final_state_sha256 = sha256 ''state'',
     de_route_trace_sha256 = sha256 ''trace'', de_outcome_sha256 = sha256 ''outcome'',
     de_summary = ''built'', de_recorded_at = ''2026-01-01'', de_tags = [''tag'']\<rparr>"

lemma prefixed_own_hash [simp]: "prefixed_sha256 p (p @ sha256 x)"
  by (simp add: prefixed_sha256_def)

lemma sample_episode_valid: "validate_episode sample_episode = []"
  by (simp add: validate_episode_def sample_episode_def kMaxSummaryBytes_def kMaxTags_def kMaxTagBytes_def)

lemma append_to_empty:
  assumes "validate_episode e = []"
  shows "dojo_append True (Stream_Wrote (length (dojo_serialize (identified e) @ [NL])) False) e (dojo_store_new path None) =
    (\<lparr>dj_status = DS_Ok, dj_episode_id = dojo_immutable_id e, dj_errors = []\<rparr>,
     \<lparr>ds_path = path, ds_file = Some (dojo_serialize (identified e) @ [NL])\<rparr>)"
  by (simp add: dojo_append_valid [OF assms] dojo_store_new_def file_lines_def file_append_def Let_def identified_def)

lemma run_one:
  assumes "validate_episode e = []"
  shows "dojo_run path [identified e] \<lparr>ds_path = path, ds_file = Some (dojo_serialize (identified e) @ [NL])\<rparr>"
  using run_append [OF run_new _ append_to_empty [OF assms]] by (simp add: clean_stream_def dj_ok_def)

text \<open>
  C19. In every history the identities stored are distinct, and a query reports no unreadable line
  and returns, in the order of their appends, the last of the stored episodes that match it: as
  many as its limit allows, at most 4096.
\<close>

theorem dojo_replays_its_history:
  assumes "dojo_run path es D"
  shows "distinct (map de_episode_id es) \<and>
    dojo_replay True q D = (last_n (unat (min (dq_limit q) kMaxReplay)) (filter (dojo_matches q) es), [])"
  using dojo_run_inv [OF assms] dojo_replay_inv by (auto simp: dojo_inv_def)

theorem dojo_replays_its_history_witness:
  "\<exists>D. dojo_run ''dojo'' [identified sample_episode] D \<and>
     fst (dojo_replay True \<lparr>dq_task = Some TC_Coding, dq_outcome = None, dq_profile_name = [], dq_model_id = [],
       dq_verified_only = True, dq_limit = 5\<rparr> D) = [identified sample_episode]"
proof -
  let ?q = "\<lparr>dq_task = Some TC_Coding, dq_outcome = None, dq_profile_name = [], dq_model_id = [],
       dq_verified_only = True, dq_limit = 5\<rparr>"
  note run = run_one [OF sample_episode_valid, of "''dojo''"]
  have "filter (dojo_matches ?q) [identified sample_episode] = [identified sample_episode]"
    by (simp add: dojo_matches_def identified_def sample_episode_def)
  with dojo_replays_its_history [OF run, of ?q] run show ?thesis
    by (auto simp: last_n_def kMaxReplay_def min_def)
qed

text \<open>
  C. The identity of an episode does not separate its summary from its time: there are episodes
  that differ, both valid, with one identity, and when one of them is stored the other is
  refused as a duplicate.
\<close>

theorem distinct_episodes_share_an_identity:
  "\<exists>a b D. de_summary a \<noteq> de_summary b \<and> de_recorded_at a \<noteq> de_recorded_at b \<and>
     validate_episode a = [] \<and> validate_episode b = [] \<and> dojo_immutable_id a = dojo_immutable_id b \<and>
     dojo_run path [identified a] D \<and> dj_status (fst (dojo_append True io b D)) = DS_Duplicate"
proof -
  define a where "a = sample_episode\<lparr>de_summary := ''ab'' @ [NL] @ ''cd''\<rparr>"
  define b where "b = sample_episode\<lparr>de_summary := ''ab'', de_recorded_at := ''cd'' @ [NL] @ ''2026-01-01''\<rparr>"
  have v: "validate_episode a = []" "validate_episode b = []"
    by (simp_all add: a_def b_def validate_episode_def sample_episode_def kMaxSummaryBytes_def kMaxTags_def kMaxTagBytes_def)
  have i: "dojo_immutable_id a = dojo_immutable_id b"
    by (simp add: a_def b_def dojo_immutable_id_def dojo_payload_def sample_episode_def)
  let ?D = "\<lparr>ds_path = path, ds_file = Some (dojo_serialize (identified a) @ [NL])\<rparr>"
  have run: "dojo_run path [identified a] ?D" by (rule run_one [OF v(1)])
  have "list_ex (episode_stored (identified b)) (file_lines (ds_file ?D))"
    using dojo_run_inv [OF run] stored_form_identified [OF v(1)] i
    by (simp add: dojo_inv_def episode_stored_serialize) (simp add: identified_def)
  then have "dj_status (fst (dojo_append True io b ?D)) = DS_Duplicate"
    by (simp add: dojo_append_valid [OF v(2)] Let_def)
  moreover have "de_summary a \<noteq> de_summary b" "de_recorded_at a \<noteq> de_recorded_at b"
    by (simp_all add: a_def b_def sample_episode_def)
  ultimately show ?thesis using v i run by blast
qed

section \<open>Episodes of Zenkai runs\<close>

lemma identified_valid: "de_episode_id e = [] \<Longrightarrow> validate_episode (identified e) = validate_episode e"
  by (simp add: validate_episode_def identified_def)

lemma identified_id [simp]: "de_episode_id (identified e) = dojo_immutable_id (identified e)"
  by (simp add: identified_def)

lemma made_is_identified:
  "make_dojo_episode task profile hardware model route z trace summary recorded tags =
     identified (unnamed_episode task profile hardware model route z trace summary recorded tags)"
  by (simp add: make_dojo_episode_def identified_def Let_def)

lemma made_episode:
  "validate_episode (make_dojo_episode task profile hardware model route z trace summary recorded tags) = [] \<longleftrightarrow>
     profile \<noteq> [] \<and> length profile \<le> 256 \<and> prefixed_sha256 kHardwarePrefix hardware \<and>
     (model = [] \<or> prefixed_sha256 kModelPrefix model) \<and> route \<noteq> [] \<and> length route \<le> 128 \<and>
     summary \<noteq> [] \<and> recorded \<noteq> [] \<and> [] \<notin> set (take kMaxTags tags)"
proof -
  have u: "de_episode_id (unnamed_episode task profile hardware model route z trace summary recorded tags) = []"
    by (simp add: unnamed_episode_def)
  have t: "concat (map (\<lambda>t. err (t = []) m @ err (kMaxTagBytes < length t) n) (map (take kMaxTagBytes) xs)) = [] \<longleftrightarrow> [] \<notin> set xs"
    for m n xs
    by (induction xs) (auto simp: kMaxTagBytes_def)
  show ?thesis
    unfolding made_is_identified identified_valid [OF u]
    by (simp add: validate_episode_def unnamed_episode_def t kMaxSummaryBytes_def not_less kMaxTags_def
        del: concat_eq_Nil_conv map_map)
qed

lemma made_episode_id:
  "de_episode_id (make_dojo_episode task profile hardware model route z trace summary recorded tags) =
     dojo_immutable_id (make_dojo_episode task profile hardware model route z trace summary recorded tags)"
  by (simp add: made_is_identified)

end
