(* ===== verification/Clubhouse_Registry.thy ===== *)
theory Clubhouse_Registry
  imports Clubhouse
begin

text \<open>
  The registry over time: what every registry built by \<open>register_slot\<close> satisfies, that a slot
  is found under its name from its registration on, what a resolution answers exactly, and the
  one way in which the lookup by immutable id goes wrong.
\<close>

section \<open>Histories\<close>

definition clubhouse_run :: "slot_manifest list \<Rightarrow> clubhouse \<Rightarrow> clubhouse" where
  "clubhouse_run ms R = fold (\<lambda>m R. snd (snd (register_slot m R))) ms R"

lemma clubhouse_run_append: "clubhouse_run (ms @ ms') R = clubhouse_run ms' (clubhouse_run ms R)"
  by (simp add: clubhouse_run_def)

definition club_inv :: "clubhouse \<Rightarrow> bool" where
  "club_inv R \<longleftrightarrow> distinct (map fst (ch_slots R)) \<and>
     (\<forall>key m. map_of (ch_slots R) key = Some m \<longrightarrow> validate_manifest m = [] \<and> normal_manifest m = m \<and>
        key = manifest_immutable_id m \<and> map_of (ch_aliases R) (mf_slot_name m) = Some key) \<and>
     (\<forall>n key. map_of (ch_aliases R) n = Some key \<longrightarrow> (\<exists>m. map_of (ch_slots R) key = Some m \<and> mf_slot_name m = n))"

lemma club_inv_empty: "club_inv empty_clubhouse"
  by (simp add: club_inv_def empty_clubhouse_def)

lemma register_cases:
  obtains (refused) es where "register_slot m R = (False, es, R)"
  | (registered) "validate_manifest m = []" "map_of (ch_slots R) (manifest_immutable_id m) = None"
      "map_of (ch_aliases R) (mf_slot_name m) = None"
      "register_slot m R = (True, [], \<lparr>ch_slots = (manifest_immutable_id m, normal_manifest m) # ch_slots R,
         ch_aliases = (mf_slot_name m, manifest_immutable_id m) # ch_aliases R\<rparr>)"
  by (cases "validate_manifest m = []"; cases "contains (ch_slots R) (manifest_immutable_id m) \<or> contains (ch_aliases R) (mf_slot_name m)")
    (auto simp: register_slot_def Let_def emplace_def)

lemma register_inv: "club_inv R \<Longrightarrow> club_inv (snd (snd (register_slot m R)))"
proof (cases m R rule: register_cases)
  case registered
  assume inv: "club_inv R"
  let ?S = "(manifest_immutable_id m, normal_manifest m) # ch_slots R"
  let ?A = "(mf_slot_name m, manifest_immutable_id m) # ch_aliases R"
  have slots: "validate_manifest x = [] \<and> normal_manifest x = x \<and> key = manifest_immutable_id x \<and> map_of ?A (mf_slot_name x) = Some key"
    if "map_of ?S key = Some x" for key x
  proof (cases "key = manifest_immutable_id m")
    case True
    then show ?thesis using that registered(1) by (auto simp: validate_normal)
  next
    case False
    then have "map_of (ch_slots R) key = Some x" using that by simp
    then have x: "validate_manifest x = []" "normal_manifest x = x" "key = manifest_immutable_id x"
      "map_of (ch_aliases R) (mf_slot_name x) = Some key" using inv unfolding club_inv_def by blast+
    then have "mf_slot_name x \<noteq> mf_slot_name m" using registered(3) by auto
    with x show ?thesis by simp
  qed
  have aliases: "\<exists>x. map_of ?S key = Some x \<and> mf_slot_name x = n" if "map_of ?A n = Some key" for n key
  proof (cases "n = mf_slot_name m")
    case False
    then have "map_of (ch_aliases R) n = Some key" using that by simp
    then obtain x where "map_of (ch_slots R) key = Some x" "mf_slot_name x = n" using inv unfolding club_inv_def by blast
    then show ?thesis using registered(2) by (auto split: if_splits)
  qed (use that in auto)
  have "manifest_immutable_id m \<notin> fst ` set (ch_slots R)" using registered(2) by (simp add: map_of_eq_None_iff)
  moreover have "distinct (map fst (ch_slots R))" using inv by (simp add: club_inv_def)
  ultimately have "distinct (map fst ?S)" by simp
  with slots aliases have "club_inv \<lparr>ch_slots = ?S, ch_aliases = ?A\<rparr>"
    unfolding club_inv_def clubhouse.select_convs by blast
  then show ?thesis by (simp only: registered(4) snd_conv)
qed simp

lemma clubhouse_run_inv: "club_inv R \<Longrightarrow> club_inv (clubhouse_run ms R)"
  by (induction ms arbitrary: R) (simp_all add: clubhouse_run_def register_inv)

lemma register_keeps:
  "map_of (ch_aliases R) n = Some key \<Longrightarrow> map_of (ch_aliases (snd (snd (register_slot m R)))) n = Some key"
  "map_of (ch_slots R) k = Some x \<Longrightarrow> map_of (ch_slots (snd (snd (register_slot m R)))) k = Some x"
  by (cases m R rule: register_cases; auto)+

lemma run_keeps:
  "map_of (ch_aliases R) n = Some key \<Longrightarrow> map_of (ch_aliases (clubhouse_run ms R)) n = Some key"
  "map_of (ch_slots R) k = Some x \<Longrightarrow> map_of (ch_slots (clubhouse_run ms R)) k = Some x"
  by (induction ms arbitrary: R) (simp_all add: clubhouse_run_def register_keeps)

section \<open>Lookup\<close>

text \<open>
  C. A registered slot stays what it was.  From its registration on, whatever is registered
  later, looking a slot up by its name gives the manifest that was registered, in normal form;
  and so does looking it up by its immutable id, unless some slot has that id as its name.
\<close>

theorem registered_slot_is_found:
  assumes "fst (register_slot m (clubhouse_run ms empty_clubhouse))"
    and "R = clubhouse_run (ms @ m # ms') empty_clubhouse"
  shows "find_slot (mf_slot_name m) R = Some (normal_manifest m) \<and>
    (map_of (ch_aliases R) (manifest_immutable_id m) = None \<longrightarrow>
       find_slot (manifest_immutable_id m) R = Some (normal_manifest m))"
proof -
  let ?R = "snd (snd (register_slot m (clubhouse_run ms empty_clubhouse)))"
  have R: "R = clubhouse_run ms' ?R" using assms(2) by (simp add: clubhouse_run_def)
  have "map_of (ch_slots ?R) (manifest_immutable_id m) = Some (normal_manifest m)"
    "map_of (ch_aliases ?R) (mf_slot_name m) = Some (manifest_immutable_id m)"
    using assms(1) by (cases m "clubhouse_run ms empty_clubhouse" rule: register_cases; simp)+
  from run_keeps(2) [OF this(1)] run_keeps(1) [OF this(2)] show ?thesis
    unfolding R by (simp add: find_slot_def)
qed

lemma demo_registers:
  assumes "slot_name \<noteq> []" "length slot_name \<le> 96" "display \<noteq> []" "length display \<le> 128" "entry \<noteq> []" "length entry \<le> 512"
  shows "validate_manifest (demo_manifest slot_name display entry) = []"
  using assms by (simp add: validate_manifest_def demo_manifest_def)

lemma demo_first: "clubhouse_run [] empty_clubhouse = empty_clubhouse"
  by (simp add: clubhouse_run_def)

theorem registered_slot_is_found_witness:
  "find_slot ''tool'' (clubhouse_run [demo_manifest ''tool'' ''Tool'' ''run'', demo_manifest ''tool'' ''Other'' ''other'']
     empty_clubhouse) = Some (normal_manifest (demo_manifest ''tool'' ''Tool'' ''run''))"
proof -
  let ?m = "demo_manifest ''tool'' ''Tool'' ''run''"
  have "fst (register_slot ?m (clubhouse_run [] empty_clubhouse))"
    by (simp add: register_slot_def demo_registers Let_def demo_first) (simp add: empty_clubhouse_def)
  from registered_slot_is_found [OF this refl, of "[demo_manifest ''tool'' ''Other'' ''other'']"] show ?thesis
    by (simp add: demo_manifest_def)
qed

text \<open>
  An immutable id is not reserved: it is a valid slot name.  A slot whose name is the id of
  another answers for that id from then on, and an invocation addressed to the id is resolved,
  as ready, to a slot with another entry point.
\<close>

definition hijack_manifest :: "slot_manifest \<Rightarrow> slot_manifest" where
  "hijack_manifest m = demo_manifest (manifest_immutable_id m) ''impostor'' ''evil''"

definition demo_invocation :: "string \<Rightarrow> slot_invocation" where
  "demo_invocation slot_id = \<lparr>iv_invocation_id = ''call'', iv_slot_id = slot_id, iv_capability = SC_GenericTool,
     iv_layer = RL_Application, iv_input_sha256 = sha256 [], iv_payload_bytes = 0, iv_permission_tokens = []\<rparr>"

lemma impostor_answers:
  assumes "validate_manifest m = []" "mf_slot_name m \<noteq> manifest_immutable_id m"
    "manifest_immutable_id (hijack_manifest m) \<noteq> manifest_immutable_id m"
  defines "R \<equiv> clubhouse_run [m, hijack_manifest m] empty_clubhouse"
  shows "map_of (ch_slots R) (manifest_immutable_id m) = Some (normal_manifest m) \<and>
     find_slot (manifest_immutable_id m) R = Some (normal_manifest (hijack_manifest m)) \<and>
     resolve_invocation (demo_invocation (manifest_immutable_id m)) R =
       resolved IVS_Ready (Some (normal_manifest (hijack_manifest m))) []
         ''slot contract satisfied; executor may receive invocation''"
proof -
  have len: "manifest_immutable_id m \<noteq> []" "length (manifest_immutable_id m) \<le> 96"
    by (simp_all add: manifest_immutable_id_def kSlotPrefix_def)
  then have "validate_manifest (hijack_manifest m) = []" by (simp add: hijack_manifest_def demo_registers)
  moreover have name: "mf_slot_name (hijack_manifest m) = manifest_immutable_id m"
    by (simp add: hijack_manifest_def demo_manifest_def)
  ultimately have R: "R = \<lparr>ch_slots = [(manifest_immutable_id (hijack_manifest m), normal_manifest (hijack_manifest m)),
        (manifest_immutable_id m, normal_manifest m)],
      ch_aliases = [(manifest_immutable_id m, manifest_immutable_id (hijack_manifest m)), (mf_slot_name m, manifest_immutable_id m)]\<rparr>"
    using assms(1-3) by (simp add: R_def clubhouse_run_def register_slot_def Let_def emplace_def empty_clubhouse_def)
  then have f: "find_slot (manifest_immutable_id m) R = Some (normal_manifest (hijack_manifest m))"
    by (simp add: find_slot_def)
  have h: "mf_enabled (normal_manifest (hijack_manifest m))" "slot_supports (normal_manifest (hijack_manifest m)) SC_GenericTool"
    "slot_allows (normal_manifest (hijack_manifest m)) RL_Application"
    "mf_required_permissions (normal_manifest (hijack_manifest m)) = []"
    by (simp_all add: hijack_manifest_def normal_manifest_def demo_manifest_def slot_supports_def slot_allows_def sorted_unique_def)
  have "resolve_invocation (demo_invocation (manifest_immutable_id m)) R =
      resolved IVS_Ready (Some (normal_manifest (hijack_manifest m))) [] ''slot contract satisfied; executor may receive invocation''"
    using f h len by (simp add: resolve_invocation_def demo_invocation_def missing_permissions_def)
  with R f assms(3) show ?thesis by simp
qed

section \<open>Listing\<close>

lemma slots_listed_by_name:
  assumes "club_inv R" "mset (ch_slots R') = mset (ch_slots R)"
  shows "list_slots R' = list_slots R"
proof -
  have "inj_on mf_slot_name (snd ` set (ch_slots R))"
  proof (rule inj_onI, clarsimp)
    fix k x k' y
    assume "(k, x) \<in> set (ch_slots R)" "(k', y) \<in> set (ch_slots R)" and n: "mf_slot_name x = mf_slot_name y"
    then have e: "map_of (ch_slots R) k = Some x" "map_of (ch_slots R) k' = Some y"
      using assms(1) by (simp_all add: club_inv_def)
    then have "map_of (ch_aliases R) (mf_slot_name x) = Some k" "map_of (ch_aliases R) (mf_slot_name y) = Some k'"
      using assms(1) unfolding club_inv_def by blast+
    with n e show "x = y" by simp
  qed
  moreover have "set (ch_slots R') = set (ch_slots R)" using assms(2) by (rule mset_eq_setD)
  ultimately have "inj_on mf_slot_name (set (map snd (ch_slots R')))" by simp
  moreover have "mset (map snd (ch_slots R')) = mset (list_slots R)"
    using assms(2) by (simp add: list_slots_def)
  ultimately show ?thesis unfolding list_slots_def
    by (intro sort_key_inj_key_eq) simp_all
qed

section \<open>Resolution\<close>

text \<open>
  C24. The answer \<open>Ready\<close> is exact.  An invocation is resolved as ready precisely when it names
  an id, a slot and a well formed input digest, and the slot that is found for it is enabled,
  advertises the capability, admits the layer, accepts that many payload bytes and asks for no
  permission that the invocation does not bring; the slot handed on is that slot, it is one
  that was registered, and it satisfies every rule for manifests.
\<close>

theorem ready_exactly_on_contract:
  assumes "R = clubhouse_run ms empty_clubhouse"
  shows "resolution_ready (resolve_invocation iv R) \<longleftrightarrow> (\<exists>slot.
     iv_invocation_id iv \<noteq> [] \<and> iv_slot_id iv \<noteq> [] \<and> is_sha256 (iv_input_sha256 iv) \<and>
     find_slot (iv_slot_id iv) R = Some slot \<and> rs_slot (resolve_invocation iv R) = Some slot \<and>
     slot \<in> snd ` set (ch_slots R) \<and> validate_manifest slot = [] \<and>
     mf_enabled slot \<and> slot_supports slot (iv_capability iv) \<and> slot_allows slot (iv_layer iv) \<and>
     iv_payload_bytes iv \<le> mf_max_payload_bytes slot \<and>
     set (mf_required_permissions slot) \<subseteq> set (iv_permission_tokens iv))"
proof -
  have inv: "club_inv R" unfolding assms by (rule clubhouse_run_inv [OF club_inv_empty])
  have slot: "slot \<in> snd ` set (ch_slots R) \<and> validate_manifest slot = []" if "find_slot n R = Some slot" for n slot
    using that inv by (force simp: find_slot_def club_inv_def dest: map_of_SomeD)
  have m: "missing_permissions iv s = [] \<longleftrightarrow> set (mf_required_permissions s) \<subseteq> set (iv_permission_tokens iv)" for s
    by (auto simp: missing_permissions_def filter_empty_conv)
  show ?thesis
    using slot
    by (auto simp: resolve_invocation_def resolution_ready_def resolved_def Let_def m split: option.split)
qed

theorem ready_exactly_on_contract_witness:
  "resolution_ready (resolve_invocation (demo_invocation ''tool'') (clubhouse_run [demo_manifest ''tool'' ''Tool'' ''run''] empty_clubhouse))"
proof -
  let ?m = "demo_manifest ''tool'' ''Tool'' ''run''"
  let ?R = "clubhouse_run [?m] empty_clubhouse"
  have R: "?R = \<lparr>ch_slots = [(manifest_immutable_id ?m, normal_manifest ?m)], ch_aliases = [(''tool'', manifest_immutable_id ?m)]\<rparr>"
    by (simp add: clubhouse_run_def register_slot_def Let_def emplace_def empty_clubhouse_def demo_registers)
      (simp add: demo_manifest_def)
  have "resolve_invocation (demo_invocation ''tool'') ?R = resolved IVS_Ready (Some (normal_manifest ?m)) []
      ''slot contract satisfied; executor may receive invocation''"
    unfolding R by (simp add: resolve_invocation_def demo_invocation_def find_slot_def missing_permissions_def)
      (simp add: normal_manifest_def demo_manifest_def slot_supports_def slot_allows_def sorted_unique_def)
  then show ?thesis
    using ready_exactly_on_contract [OF refl, of "demo_invocation ''tool''" "[?m]"]
    by (simp add: resolution_ready_def resolved_def)
qed

end
