(* ===== verification/Forge.thy ===== *)
theory Forge
  imports Clubhouse_Registry Zenkai
begin

text \<open>
  \<open>ForgeAdapter\<close> and \<open>ForgeOutputSink\<close> (\<open>include/guff/forge.hpp\<close>, \<open>src/forge.cpp\<close>): one execution
  of a slot, with its input identity checked, its output bounded and its outcome classified.

  The executor is the caller's function.  It may have effects, it sees the sink only through
  \<open>write\<close>, and it may throw: it maps a world, the slot and the request to a new world, the chunks
  it wrote, its report (none when it throws) and the milliseconds the clock measured around it.
\<close>

section \<open>Data\<close>

datatype forge_status =
  FS_Completed | FS_InvalidRequest | FS_InvocationRejected | FS_InputMismatch | FS_ExecutorError | FS_Timeout
| FS_OutputBudget | FS_ExecutionFailed

record forge_budget =
  fb_max_wall_time_ms :: u64
  fb_max_output_bytes :: u64

record forge_request =
  fq_invocation :: slot_invocation
  fq_payload :: string
  fq_budget :: forge_budget

record forge_sink =
  fk_max_bytes :: u64
  fk_observed_bytes :: u64
  fk_truncated :: bool
  fk_captured :: string

record forge_report =
  fp_completed :: bool
  fp_exit_code :: int
  fp_reported_wall_time_ms :: u64
  fp_first_output_observed :: bool
  fp_time_to_first_output_ms :: u64
  fp_process_memory_observed :: bool
  fp_peak_resident_memory_bytes :: u64

record forge_run =
  fx_chunks :: "string list"
  fx_report :: "forge_report option"
  fx_measured_ms :: int

record forge_result =
  fr_status :: forge_status
  fr_invocation_status :: invocation_status
  fr_invocation_id :: string
  fr_slot_id :: string
  fr_slot_immutable_id :: string
  fr_exit_code :: int
  fr_wall_time_ms :: u64
  fr_first_output_observed :: bool
  fr_time_to_first_output_ms :: u64
  fr_process_memory_observed :: bool
  fr_peak_resident_memory_bytes :: u64
  fr_captured_output_bytes :: u64
  fr_observed_output_bytes :: u64
  fr_output_truncated :: bool
  fr_captured_output_sha256 :: string
  fr_evidence :: "zenkai_evidence list"
  fr_reason :: string

type_synonym 'w executor = "('w \<Rightarrow> slot_manifest \<Rightarrow> forge_request \<Rightarrow> 'w \<times> forge_run) option"

definition forge_succeeded :: "forge_result \<Rightarrow> bool" where
  "forge_succeeded r \<longleftrightarrow> fr_status r = FS_Completed"

fun forge_status_to_string :: "forge_status \<Rightarrow> string" where
  "forge_status_to_string FS_Completed = ''COMPLETED''"
| "forge_status_to_string FS_InvalidRequest = ''INVALID_REQUEST''"
| "forge_status_to_string FS_InvocationRejected = ''INVOCATION_REJECTED''"
| "forge_status_to_string FS_InputMismatch = ''INPUT_MISMATCH''"
| "forge_status_to_string FS_ExecutorError = ''EXECUTOR_ERROR''"
| "forge_status_to_string FS_Timeout = ''TIMEOUT''"
| "forge_status_to_string FS_OutputBudget = ''OUTPUT_BUDGET''"
| "forge_status_to_string FS_ExecutionFailed = ''EXECUTION_FAILED''"

fun forge_status_code :: "forge_status \<Rightarrow> u32" where
  "forge_status_code FS_Completed = 0"
| "forge_status_code FS_InvalidRequest = 1"
| "forge_status_code FS_InvocationRejected = 2"
| "forge_status_code FS_InputMismatch = 3"
| "forge_status_code FS_ExecutorError = 4"
| "forge_status_code FS_Timeout = 5"
| "forge_status_code FS_OutputBudget = 6"
| "forge_status_code FS_ExecutionFailed = 7"

definition forge_evidence_kind :: "slot_capability \<Rightarrow> evidence_kind" where
  "forge_evidence_kind c = (case c of SC_CodeBuild \<Rightarrow> EK_Build | SC_CodeTest \<Rightarrow> EK_Test | _ \<Rightarrow> EK_Tool)"

section \<open>The sink\<close>

definition saturating_add :: "u64 \<Rightarrow> u64 \<Rightarrow> u64" where
  "saturating_add lhs rhs = (if - 1 - lhs < rhs then - 1 else lhs + rhs)"

definition sink_new :: "u64 \<Rightarrow> forge_sink" where
  "sink_new max_bytes = \<lparr>fk_max_bytes = max_bytes, fk_observed_bytes = 0, fk_truncated = False, fk_captured = []\<rparr>"

text \<open>The room is a difference of sizes; \<open>take\<close> bytes of the chunk are appended.\<close>

definition sink_write :: "string \<Rightarrow> forge_sink \<Rightarrow> bool \<times> forge_sink" where
  "sink_write chunk s0 =
     (let s = s0\<lparr>fk_observed_bytes := saturating_add (fk_observed_bytes s0) (of_nat (length chunk))\<rparr>;
          room = unat (fk_max_bytes s) - length (fk_captured s); n = min room (length chunk)
      in if chunk = [] then (\<not> fk_truncated s, s)
         else let s' = s\<lparr>fk_captured := fk_captured s @ take n chunk\<rparr>
           in if n \<noteq> length chunk then (False, s'\<lparr>fk_truncated := True\<rparr>) else (True, s'))"

definition sink_writes :: "string list \<Rightarrow> forge_sink \<Rightarrow> forge_sink" where
  "sink_writes chunks s = fold (\<lambda>c s. snd (sink_write c s)) chunks s"

section \<open>An execution\<close>

definition forge_start :: "forge_request \<Rightarrow> forge_result" where
  "forge_start q = \<lparr>fr_status = FS_InvalidRequest, fr_invocation_status = IVS_Invalid,
     fr_invocation_id = iv_invocation_id (fq_invocation q), fr_slot_id = iv_slot_id (fq_invocation q),
     fr_slot_immutable_id = [], fr_exit_code = - 1, fr_wall_time_ms = 0, fr_first_output_observed = False,
     fr_time_to_first_output_ms = 0, fr_process_memory_observed = False, fr_peak_resident_memory_bytes = 0,
     fr_captured_output_bytes = 0, fr_observed_output_bytes = 0, fr_output_truncated = False,
     fr_captured_output_sha256 = [], fr_evidence = [], fr_reason = []\<rparr>"

definition evidence_detail :: "forge_result \<Rightarrow> string" where
  "evidence_detail r =
     ''status='' @ forge_status_to_string (fr_status r) @ '' exit='' @ show_int (fr_exit_code r) @
     '' wall_ms='' @ show_u (fr_wall_time_ms r) @ '' output_bytes='' @ show_u (fr_observed_output_bytes r) @
     (if fr_first_output_observed r then '' first_output_ms='' @ show_u (fr_time_to_first_output_ms r) else []) @
     (if fr_process_memory_observed r then '' peak_rss_bytes='' @ show_u (fr_peak_resident_memory_bytes r) else []) @
     (if fr_captured_output_sha256 r = [] then [] else '' captured_sha256='' @ fr_captured_output_sha256 r)"

definition append_execution_evidence :: "slot_capability \<Rightarrow> string \<Rightarrow> bool \<Rightarrow> forge_result \<Rightarrow> forge_result" where
  "append_execution_evidence c source passed r =
     r\<lparr>fr_evidence := fr_evidence r @ [\<lparr>ze_kind = forge_evidence_kind c, ze_source = source, ze_passed = passed,
        ze_detail = evidence_detail r\<rparr>]\<rparr>"

text \<open>What the executor left behind, before it is judged.\<close>

definition forge_measured :: "forge_run \<Rightarrow> forge_report \<Rightarrow> forge_sink \<Rightarrow> forge_result \<Rightarrow> forge_result" where
  "forge_measured x report out r =
     r\<lparr>fr_exit_code := fp_exit_code report,
       fr_wall_time_ms := max (if fx_measured_ms x < 0 then 0 else word_of_int (fx_measured_ms x)) (fp_reported_wall_time_ms report),
       fr_first_output_observed := fp_first_output_observed report,
       fr_time_to_first_output_ms := fp_time_to_first_output_ms report,
       fr_process_memory_observed := fp_process_memory_observed report,
       fr_peak_resident_memory_bytes := fp_peak_resident_memory_bytes report,
       fr_captured_output_bytes := of_nat (length (fk_captured out)), fr_observed_output_bytes := fk_observed_bytes out,
       fr_output_truncated := fk_truncated out,
       fr_captured_output_sha256 := (if fk_captured out = [] then fr_captured_output_sha256 r else sha256 (fk_captured out))\<rparr>"

definition forge_judge :: "forge_request \<Rightarrow> slot_manifest \<Rightarrow> forge_report \<Rightarrow> forge_sink \<Rightarrow> forge_result \<Rightarrow> forge_result" where
  "forge_judge q slot report out r =
     (let capability = iv_capability (fq_invocation q);
          source = mf_slot_name slot @ '':'' @ capability_to_string capability;
          conclude = (\<lambda>st reason passed. append_execution_evidence capability source passed
             (r\<lparr>fr_status := st, fr_reason := reason\<rparr>))
      in if fb_max_wall_time_ms (fq_budget q) < fr_wall_time_ms r
         then conclude FS_Timeout ''executor exceeded FORGE wall-time budget'' False
         else if fk_truncated out then conclude FS_OutputBudget ''executor exceeded FORGE output budget'' False
         else if \<not> fp_completed report
         then conclude FS_ExecutorError ''executor did not report a completed execution'' False
         else if fp_exit_code report \<noteq> 0
         then conclude FS_ExecutionFailed ''executor completed with a non-zero exit code'' False
         else conclude FS_Completed ''execution completed within FORGE budgets'' True)"

definition forge_fail :: "forge_status \<Rightarrow> string \<Rightarrow> forge_result \<Rightarrow> forge_result" where
  "forge_fail st reason r = r\<lparr>fr_status := st, fr_reason := reason\<rparr>"

definition forge_execute :: "clubhouse \<Rightarrow> 'w executor \<Rightarrow> forge_request \<Rightarrow> 'w \<Rightarrow> 'w \<times> forge_result" where
  "forge_execute club executor q w =
     (let r = forge_start q; iv = fq_invocation q in
      if fb_max_wall_time_ms (fq_budget q) = 0 \<or> fb_max_output_bytes (fq_budget q) = 0
      then (w, forge_fail FS_InvalidRequest ''FORGE budgets must be greater than zero'' r)
      else if of_nat (length (fq_payload q)) \<noteq> iv_payload_bytes iv \<or> sha256 (fq_payload q) \<noteq> iv_input_sha256 iv
      then (w, forge_fail FS_InputMismatch ''payload bytes/hash do not match CLUBHOUSE invocation identity'' r)
      else let resolution = resolve_invocation iv club; r = r\<lparr>fr_invocation_status := rs_status resolution\<rparr> in
        case rs_slot resolution of
          None \<Rightarrow> (w, forge_fail FS_InvocationRejected (rs_reason resolution) r)
        | Some slot \<Rightarrow>
            if \<not> resolution_ready resolution then (w, forge_fail FS_InvocationRejected (rs_reason resolution) r)
            else let r = r\<lparr>fr_slot_immutable_id := manifest_immutable_id slot\<rparr> in
              case executor of
                None \<Rightarrow> (w, forge_fail FS_ExecutorError ''no executor adapter supplied'' r)
              | Some f \<Rightarrow>
                  (case f w slot q of (w', x) \<Rightarrow>
                    (case fx_report x of
                       None \<Rightarrow> (w', forge_fail FS_ExecutorError ''executor adapter threw an exception'' r)
                     | Some report \<Rightarrow>
                         let out = sink_writes (fx_chunks x) (sink_new (fb_max_output_bytes (fq_budget q)))
                         in (w', forge_judge q slot report out (forge_measured x report out r)))))"

section \<open>The sink keeps a prefix\<close>

lemma saturating_add_min: "unat (saturating_add a b) = min (unat a + unat b) 18446744073709551615"
proof -
  have b: "unat a < 18446744073709551616" "unat b < 18446744073709551616" using unat_u64_less by blast+
  have m: "unat (- 1 - a) = 18446744073709551615 - unat a" 
    by (simp add: unat_sub [OF word_order.extremum] unsigned_minus_1_eq_mask mask_eq_exp_minus_1)
  show ?thesis
  proof (cases "- 1 - a < b")
    case True
    then have "18446744073709551615 - unat a < unat b" by (simp only: word_less_nat_alt m)
    with True b show ?thesis by (simp add: saturating_add_def unsigned_minus_1_eq_mask mask_eq_exp_minus_1)
  next
    case False
    then have "unat b \<le> 18446744073709551615 - unat a" by (simp only: word_less_nat_alt m not_less)
    with b have "unat a + unat b < 18446744073709551616" by linarith
    with False show ?thesis by (simp add: saturating_add_def unat_word_ariths)
  qed
qed

definition sink_view :: "string \<Rightarrow> forge_sink \<Rightarrow> bool" where
  "sink_view written s \<longleftrightarrow> fk_captured s = take (unat (fk_max_bytes s)) written \<and>
     (fk_truncated s \<longleftrightarrow> unat (fk_max_bytes s) < length written) \<and>
     unat (fk_observed_bytes s) = min (length written) 18446744073709551615"

lemma sink_view_new: "sink_view [] (sink_new n)"
  by (simp add: sink_view_def sink_new_def)

lemma sink_view_write:
  assumes "sink_view written s" "length chunk < 18446744073709551616"
  shows "sink_view (written @ chunk) (snd (sink_write chunk s))"
proof -
  have u: "unat (of_nat (length chunk) :: u64) = length chunk" using assms(2) by (simp add: unat_of_nat)
  show ?thesis
    using assms(1) by (auto simp: sink_view_def sink_write_def Let_def saturating_add_min u min_def)
qed

text \<open>
  C. The output sink.  However an executor cuts its output into chunks (each of a size the
  machine can hold), what is captured is the longest prefix of the whole output that fits the
  limit, truncation is reported exactly when the output is longer, and the observed size is
  the size of the whole output, saturating at the largest size.
\<close>

theorem sink_captures_prefix:
  assumes "\<forall>c \<in> set chunks. length c < 18446744073709551616"
  shows "sink_view (concat chunks) (sink_writes chunks (sink_new n))"
proof -
  have "sink_view (written @ concat chunks) (sink_writes chunks s)" if "sink_view written s" for written s
    using assms that
  proof (induction chunks arbitrary: written s)
    case (Cons c cs)
    have "sink_view ((written @ c) @ concat cs) (sink_writes cs (snd (sink_write c s)))"
      using Cons sink_view_write [of written s c] by (intro Cons.IH) auto
    then show ?case by (simp add: sink_writes_def)
  qed (simp add: sink_writes_def)
  from this [OF sink_view_new] show ?thesis by simp
qed

theorem sink_captures_prefix_witness:
  "sink_view ''abcdef'' (sink_writes [''abc'', [], ''def''] (sink_new 4))"
  using sink_captures_prefix [of "[''abc'', [], ''def'']" 4] by simp


section \<open>What an execution decides\<close>

lemma sink_overflow: "fk_truncated (sink_writes chunks (sink_new n)) \<longleftrightarrow> unat n < length (concat chunks)"
proof -
  have "(fk_truncated (sink_writes chunks s) \<longleftrightarrow> unat (fk_max_bytes s) < length (written @ concat chunks))"
    if "fk_captured s = take (unat (fk_max_bytes s)) written" "fk_truncated s \<longleftrightarrow> unat (fk_max_bytes s) < length written"
    for written s
    using that
  proof (induction chunks arbitrary: written s)
    case (Cons c cs)
    let ?s = "snd (sink_write c s)"
    have "fk_max_bytes ?s = fk_max_bytes s" "fk_captured ?s = take (unat (fk_max_bytes s)) (written @ c)"
      "fk_truncated ?s \<longleftrightarrow> unat (fk_max_bytes s) < length (written @ c)"
      using Cons.prems by (auto simp: sink_write_def Let_def min_def)
    with Cons.IH [of ?s "written @ c"] show ?case by (simp add: sink_writes_def)
  qed (simp add: sink_writes_def)
  from this [of "sink_new n" "[]"] show ?thesis by (simp add: sink_new_def)
qed

text \<open>Everything that has to hold before an executor is called, and the slot it is then called with.\<close>

definition forge_admits :: "clubhouse \<Rightarrow> forge_request \<Rightarrow> slot_manifest \<Rightarrow> bool" where
  "forge_admits club q slot \<longleftrightarrow> fb_max_wall_time_ms (fq_budget q) \<noteq> 0 \<and> fb_max_output_bytes (fq_budget q) \<noteq> 0 \<and>
     of_nat (length (fq_payload q)) = iv_payload_bytes (fq_invocation q) \<and>
     sha256 (fq_payload q) = iv_input_sha256 (fq_invocation q) \<and>
     resolution_ready (resolve_invocation (fq_invocation q) club) \<and>
     rs_slot (resolve_invocation (fq_invocation q) club) = Some slot"

text \<open>The milliseconds that count: those measured, and those reported when they are more.\<close>

definition forge_wall_time :: "forge_run \<Rightarrow> forge_report \<Rightarrow> u64" where
  "forge_wall_time x report =
     max (if fx_measured_ms x < 0 then 0 else word_of_int (fx_measured_ms x)) (fp_reported_wall_time_ms report)"

definition forge_within :: "forge_request \<Rightarrow> forge_run \<Rightarrow> bool" where
  "forge_within q x \<longleftrightarrow> (\<exists>report. fx_report x = Some report \<and> fp_completed report \<and> fp_exit_code report = 0 \<and>
     forge_wall_time x report \<le> fb_max_wall_time_ms (fq_budget q) \<and>
     length (concat (fx_chunks x)) \<le> unat (fb_max_output_bytes (fq_budget q)))"

lemma forge_execute_admitted:
  assumes "forge_admits club q slot" "f w slot q = (w', x)" "fx_report x = Some report"
  shows "\<exists>r0. forge_execute club (Some f) q w = (w', forge_judge q slot report
      (sink_writes (fx_chunks x) (sink_new (fb_max_output_bytes (fq_budget q)))) r0) \<and>
    fr_wall_time_ms r0 = forge_wall_time x report \<and> fr_evidence r0 = []"
proof -
  let ?r = "(forge_start q)\<lparr>fr_invocation_status := rs_status (resolve_invocation (fq_invocation q) club),
    fr_slot_immutable_id := manifest_immutable_id slot\<rparr>"
  let ?out = "sink_writes (fx_chunks x) (sink_new (fb_max_output_bytes (fq_budget q)))"
  let ?r0 = "forge_measured x report ?out ?r"
  have "forge_execute club (Some f) q w = (w', forge_judge q slot report ?out ?r0)"
    using assms by (simp add: forge_execute_def forge_admits_def Let_def)
  moreover have "fr_wall_time_ms ?r0 = forge_wall_time x report" "fr_evidence ?r0 = []"
    by (simp_all add: forge_measured_def forge_wall_time_def forge_start_def)
  ultimately show ?thesis by blast
qed

lemma judge_status:
  "fr_status (forge_judge q slot report out r) = FS_Completed \<longleftrightarrow>
     fr_wall_time_ms r \<le> fb_max_wall_time_ms (fq_budget q) \<and> \<not> fk_truncated out \<and> fp_completed report \<and> fp_exit_code report = 0"
  by (auto simp: forge_judge_def append_execution_evidence_def Let_def not_less)

lemma judge_evidence:
  "fr_evidence r = [] \<Longrightarrow> \<exists>e. fr_evidence (forge_judge q slot report out r) = [e] \<and>
     (ze_passed e \<longleftrightarrow> fr_status (forge_judge q slot report out r) = FS_Completed)"
  by (simp add: forge_judge_def append_execution_evidence_def Let_def)

lemma forge_refuses:
  assumes "\<not> (\<exists>slot f. forge_admits club q slot \<and> executor = Some f)"
  shows "\<exists>r. forge_execute club executor q w = (w, r) \<and> \<not> forge_succeeded r \<and> fr_evidence r = []"
  using assms
  by (auto simp: forge_execute_def forge_admits_def Let_def forge_fail_def forge_succeeded_def forge_start_def split: option.split)

text \<open>
  C22. What \<open>Completed\<close> means.  An execution succeeds exactly when the payload is the one the
  invocation identifies, the slot's contract is met, and the executor, called once with that
  slot, reports a completed run with exit code zero, within the wall time (by its own account
  and by the clock) and with all its output within the limit.  The executor is called in no
  other case: otherwise the world is as it was.  There is evidence of a success, and any
  evidence says whether the execution succeeded.
\<close>

theorem forge_succeeds_exactly:
  "case forge_execute club executor q w of (w', r) \<Rightarrow>
     (forge_succeeded r \<longleftrightarrow> (\<exists>slot f x. forge_admits club q slot \<and> executor = Some f \<and> f w slot q = (w', x) \<and> forge_within q x)) \<and>
     (w' = w \<or> (\<exists>slot f x. forge_admits club q slot \<and> executor = Some f \<and> f w slot q = (w', x))) \<and>
     ((\<exists>e. fr_evidence r = [e] \<and> ze_passed e) \<longleftrightarrow> forge_succeeded r) \<and> length (fr_evidence r) \<le> 1"
proof (cases "\<exists>slot f. forge_admits club q slot \<and> executor = Some f")
  case False
  from forge_refuses [OF this, of w] False show ?thesis by auto
next
  case True
  then obtain slot f where s: "forge_admits club q slot" "executor = Some f" by blast
  have unique: "forge_admits club q s' \<Longrightarrow> s' = slot" for s' using s(1) by (simp add: forge_admits_def)
  obtain w1 x where f: "f w slot q = (w1, x)" by fastforce
  have run: "(\<exists>slot' f' y. forge_admits club q slot' \<and> executor = Some f' \<and> f' w slot' q = (w1, y) \<and> P y) \<longleftrightarrow> P x" for P
    using s f unique by (metis option.inject snd_conv)
  have ran: "\<exists>slot' f' y. forge_admits club q slot' \<and> executor = Some f' \<and> f' w slot' q = (w1, y)"
    using run [of "\<lambda>_. True"] by blast
  show ?thesis
  proof (cases "fx_report x")
    case None
    with s f have "\<exists>r. forge_execute club executor q w = (w1, r) \<and> \<not> forge_succeeded r \<and> fr_evidence r = []"
      by (simp add: forge_execute_def forge_admits_def Let_def forge_fail_def forge_succeeded_def forge_start_def)
    then obtain r where r: "forge_execute club executor q w = (w1, r)" "\<not> forge_succeeded r" "fr_evidence r = []" by blast
    have "\<not> forge_within q x" using None by (simp add: forge_within_def)
    with r(2,3) show ?thesis unfolding r(1) prod.case run using ran by simp
  next
    case (Some report)
    from forge_execute_admitted [of club q slot f w w1 x report, OF s(1) f Some] obtain r0 where r0:
      "forge_execute club executor q w = (w1, forge_judge q slot report
        (sink_writes (fx_chunks x) (sink_new (fb_max_output_bytes (fq_budget q)))) r0)"
      "fr_wall_time_ms r0 = forge_wall_time x report" "fr_evidence r0 = []"
      unfolding s(2) by blast
    let ?r = "forge_judge q slot report (sink_writes (fx_chunks x) (sink_new (fb_max_output_bytes (fq_budget q)))) r0"
    have "forge_succeeded ?r \<longleftrightarrow> forge_within q x"
      by (simp add: forge_succeeded_def judge_status r0(2) sink_overflow forge_within_def Some not_less) blast
    moreover obtain e where "fr_evidence ?r = [e]" "ze_passed e \<longleftrightarrow> forge_succeeded ?r"
      using judge_evidence [OF r0(3)] unfolding forge_succeeded_def by blast
    ultimately show ?thesis unfolding r0(1) prod.case run using ran by simp
  qed
qed

end
