(* ===== verification/Execution_Session.thy ===== *)
theory Execution_Session
  imports Dojo_Store Forge
begin

text \<open>
  \<open>ExecutionSessionOrchestrator::run\<close> (\<open>include/guff/execution_session.hpp\<close>,
  \<open>src/execution_session.cpp\<close>): one execution from its request to its records.  The session is
  opened in the journal, a model is routed, the slot is resolved, the Zenkai loop drives the forge,
  artifacts are promoted, an episode goes to the dojo and a terminal record to the journal.

  The callbacks may have effects on a world; what is not theirs is the file of the journal and
  the store of the dojo.  The answers of the file system and the ranked benchmarks are arguments.
\<close>

section \<open>Data\<close>

datatype session_status =
  XS_Completed | XS_InvalidRequest | XS_RouteRejected | XS_InvocationRejected | XS_VerificationFailed
| XS_DojoStoreFailed | XS_JournalStoreFailed

datatype session_stage =
  SG_Created | SG_JournalBegin | SG_Routed | SG_SlotResolved | SG_Executing | SG_Verifying | SG_ArtifactPromotion
| SG_DojoRecord | SG_JournalTerminal | SG_Completed | SG_Aborted

record session_budget =
  nb_max_events :: u64
  nb_max_event_detail_bytes :: u64
  nb_max_artifacts :: u64
  nb_max_artifact_bytes :: u64

text \<open>A candidate and a promoted artifact have the same fields.\<close>

record session_artifact =
  na_name :: string
  na_locator :: string
  na_sha256 :: string
  na_bytes :: u64

record execution_event =
  ne_sequence :: nat
  ne_stage :: session_stage
  ne_status :: string
  ne_detail :: string

record execution_request =
  xq_correlation_id :: string
  xq_route :: model_route_request
  xq_forge :: forge_request
  xq_zenkai_budget :: zenkai_budget
  xq_retry_authority :: retry_authority
  xq_session_budget :: session_budget
  xq_summary :: string
  xq_recorded_at :: string
  xq_dojo_tags :: "string list"
  xq_parent_session_id :: string
  xq_recovery_authorization :: string

text \<open>The parts a run has not come to are absent; in the code they are default values.\<close>

record execution_result =
  xr_status :: session_status
  xr_correlation_id :: string
  xr_session_id :: string
  xr_route :: "model_route_decision option"
  xr_slot_resolution :: "slot_resolution option"
  xr_zenkai :: "zenkai_result option"
  xr_last_execution :: "forge_result option"
  xr_artifacts :: "session_artifact list"
  xr_rejected_artifacts :: u64
  xr_promoted_bytes :: u64
  xr_events :: "execution_event list"
  xr_events_truncated :: bool
  xr_dojo_episode_id :: "string option"
  xr_begin_record :: "string option"
  xr_terminal_record :: "string option"
  xr_audit_sha256 :: string
  xr_reason :: string

fun session_status_to_text :: "session_status \<Rightarrow> string" where
  "session_status_to_text XS_Completed = ''COMPLETED''"
| "session_status_to_text XS_InvalidRequest = ''INVALID_REQUEST''"
| "session_status_to_text XS_RouteRejected = ''ROUTE_REJECTED''"
| "session_status_to_text XS_InvocationRejected = ''INVOCATION_REJECTED''"
| "session_status_to_text XS_VerificationFailed = ''VERIFICATION_FAILED''"
| "session_status_to_text XS_DojoStoreFailed = ''DOJO_STORE_FAILED''"
| "session_status_to_text XS_JournalStoreFailed = ''JOURNAL_STORE_FAILED''"

fun session_status_code :: "session_status \<Rightarrow> u32" where
  "session_status_code XS_Completed = 0"
| "session_status_code XS_InvalidRequest = 1"
| "session_status_code XS_RouteRejected = 2"
| "session_status_code XS_InvocationRejected = 3"
| "session_status_code XS_VerificationFailed = 4"
| "session_status_code XS_DojoStoreFailed = 5"
| "session_status_code XS_JournalStoreFailed = 6"

fun session_stage_to_string :: "session_stage \<Rightarrow> string" where
  "session_stage_to_string SG_Created = ''CREATED''"
| "session_stage_to_string SG_JournalBegin = ''JOURNAL_BEGIN''"
| "session_stage_to_string SG_Routed = ''ROUTED''"
| "session_stage_to_string SG_SlotResolved = ''SLOT_RESOLVED''"
| "session_stage_to_string SG_Executing = ''EXECUTING''"
| "session_stage_to_string SG_Verifying = ''VERIFYING''"
| "session_stage_to_string SG_ArtifactPromotion = ''ARTIFACT_PROMOTION''"
| "session_stage_to_string SG_DojoRecord = ''DOJO_RECORD''"
| "session_stage_to_string SG_JournalTerminal = ''JOURNAL_TERMINAL''"
| "session_stage_to_string SG_Completed = ''COMPLETED''"
| "session_stage_to_string SG_Aborted = ''ABORTED''"

fun session_stage_code :: "session_stage \<Rightarrow> u32" where
  "session_stage_code SG_Created = 0"
| "session_stage_code SG_JournalBegin = 1"
| "session_stage_code SG_Routed = 2"
| "session_stage_code SG_SlotResolved = 3"
| "session_stage_code SG_Executing = 4"
| "session_stage_code SG_Verifying = 5"
| "session_stage_code SG_ArtifactPromotion = 6"
| "session_stage_code SG_DojoRecord = 7"
| "session_stage_code SG_JournalTerminal = 8"
| "session_stage_code SG_Completed = 9"
| "session_stage_code SG_Aborted = 10"

section \<open>Printing a double\<close>

text \<open>
  \<open>operator<<\<close> on a stream in its initial state: six significant digits, no trailing zeros, an
  exponent below \<open>-4\<close> and from 6 on.
\<close>

definition decimal_exponent :: "rat \<Rightarrow> int" where
  "decimal_exponent q =
     (if 1 \<le> q then int (length (nat_digits (nat \<lfloor>q\<rfloor>))) - 1
      else - int (length (nat_digits (nat \<lceil>1 / q\<rceil> - 1))))"

definition scale_by_ten :: "rat \<Rightarrow> int \<Rightarrow> rat" where
  "scale_by_ten q k = (if 0 \<le> k then q * 10 ^ nat k else q / 10 ^ nat (- k))"

definition six_digits :: "rat \<Rightarrow> int \<times> string" where
  "six_digits q =
     (let x = decimal_exponent q; n = nat (round_half_even (scale_by_ten q (5 - x))) in
      if n = 10 ^ 6 then (x + 1, nat_digits (10 ^ 5)) else (x, nat_digits n))"

definition strip_zeros :: "string \<Rightarrow> string" where
  "strip_zeros s = rev (dropWhile (\<lambda>c. c = CHR ''0'') (rev s))"

definition with_fraction :: "string \<Rightarrow> string \<Rightarrow> string" where
  "with_fraction whole fraction = (let f = strip_zeros fraction in if f = [] then whole else whole @ ''.'' @ f)"

definition show_positive :: "rat \<Rightarrow> string" where
  "show_positive q =
     (let (x, ds) = six_digits q in
      if 0 \<le> x \<and> x < 6 then with_fraction (take (nat x + 1) ds) (drop (nat x + 1) ds)
      else if -4 \<le> x \<and> x < 0 then with_fraction ''0'' (replicate (nat (- x) - 1) CHR ''0'' @ ds)
      else let e = nat_digits (nat \<bar>x\<bar>) in
        with_fraction (take 1 ds) (drop 1 ds) @ ''e'' @ (if x < 0 then ''-'' else ''+'') @
        (if length e < 2 then ''0'' else []) @ e)"

fun show_double :: "float64 \<Rightarrow> string" where
  "show_double (Finite q) =
     (if q = 0 then ''0'' else if q < 0 then ''-'' @ show_positive (- q) else show_positive q)"
| "show_double Pos_Inf = ''inf''"
| "show_double Neg_Inf = ''-inf''"
| "show_double NaN = ''nan''"

section \<open>Identities\<close>

fun retry_authority_code :: "retry_authority \<Rightarrow> u32" where
  "retry_authority_code RY_None = 0"
| "retry_authority_code RY_Bounded = 1"

definition lines_text :: "string list \<Rightarrow> string" where
  "lines_text ls = concat (map (\<lambda>l. l @ [NL]) ls)"

definition execution_session_id :: "execution_request \<Rightarrow> hardware_profile \<Rightarrow> string" where
  "execution_session_id q h =
     (let iv = fq_invocation (xq_forge q) in
      kSessionPrefix @ sha256 (lines_text
        [xq_correlation_id q, hardware_immutable_id h, show_u (task_code (mq_task (xq_route q))),
         mq_profile_name (xq_route q), iv_invocation_id iv, iv_slot_id iv, show_u (capability_code (iv_capability iv)),
         show_u (layer_code (iv_layer iv)), iv_input_sha256 iv, show_u (iv_payload_bytes iv),
         xq_parent_session_id q] @ xq_recovery_authorization q))"

definition execution_request_sha256 :: "execution_request \<Rightarrow> hardware_profile \<Rightarrow> string" where
  "execution_request_sha256 q h =
     (let iv = fq_invocation (xq_forge q); fb = fq_budget (xq_forge q); zb = xq_zenkai_budget q; nb = xq_session_budget q in
      sha256 (lines_text
        ([execution_session_id q h, hardware_immutable_id h, show_u (task_code (mq_task (xq_route q))),
          mq_profile_name (xq_route q), iv_slot_id iv, show_u (capability_code (iv_capability iv)),
          show_u (layer_code (iv_layer iv)), iv_input_sha256 iv, show_u (iv_payload_bytes iv),
          show_u (fb_max_wall_time_ms fb), show_u (fb_max_output_bytes fb),
          show_u (zb_max_attempts zb), show_u (zb_max_tool_events zb), show_u (zb_max_evidence_items zb),
          show_u (zb_max_evidence_bytes zb), show_u (zb_max_trace_entries zb), show_double (zb_acceptance_confidence zb),
          show_u (zb_max_detail_bytes zb), show_u (retry_authority_code (xq_retry_authority q)),
          show_u (nb_max_events nb), show_u (nb_max_event_detail_bytes nb), show_u (nb_max_artifacts nb),
          show_u (nb_max_artifact_bytes nb), xq_parent_session_id q, xq_recovery_authorization q] @
         sort (iv_permission_tokens iv))))"

definition kExecutionPrefix :: string where "kExecutionPrefix = ''guff:execution:sha256:''"

definition execution_state :: "string \<Rightarrow> forge_request \<Rightarrow> forge_result \<Rightarrow> string" where
  "execution_state correlation q x =
     kExecutionPrefix @ sha256 (lines_text
       [correlation, iv_invocation_id (fq_invocation q), iv_input_sha256 (fq_invocation q),
        show_u (forge_status_code (fr_status x)), show_int (fr_exit_code x), fr_captured_output_sha256 x] @
        show_u (fr_observed_output_bytes x))"

section \<open>Checks\<close>

definition valid_correlation_id :: "string \<Rightarrow> bool" where
  "valid_correlation_id value \<longleftrightarrow> value \<noteq> [] \<and> length value \<le> 96 \<and>
     list_all (\<lambda>ch. token_char ch \<and> ch \<noteq> CHR ''/'') value"

definition canonical_session_id :: "string \<Rightarrow> bool" where
  "canonical_session_id value \<longleftrightarrow> prefixed_sha256 kSessionPrefix value"

definition correlated_invocation :: "string \<Rightarrow> string \<Rightarrow> bool" where
  "correlated_invocation correlation invocation \<longleftrightarrow>
     length correlation < length invocation \<and> take (length correlation) invocation = correlation \<and>
     invocation ! length correlation = CHR '':''"

definition valid_artifact :: "session_artifact \<Rightarrow> bool" where
  "valid_artifact a \<longleftrightarrow> na_name a \<noteq> [] \<and> length (na_name a) \<le> 128 \<and> na_locator a \<noteq> [] \<and>
     length (na_locator a) \<le> 1024 \<and> is_sha256 (na_sha256 a)"

definition same_execution_contract :: "forge_request \<Rightarrow> forge_request \<Rightarrow> bool" where
  "same_execution_contract base retry \<longleftrightarrow>
     iv_slot_id (fq_invocation base) = iv_slot_id (fq_invocation retry) \<and>
     iv_capability (fq_invocation base) = iv_capability (fq_invocation retry) \<and>
     iv_layer (fq_invocation base) = iv_layer (fq_invocation retry)"

definition route_allows_execution :: "model_route_status \<Rightarrow> bool" where
  "route_allows_execution st \<longleftrightarrow> st = MR_Selected \<or> st = MR_DeterministicPreferred"

definition validate_execution_request :: "execution_request \<Rightarrow> string list" where
  "validate_execution_request q =
     (let has_parent = xq_parent_session_id q \<noteq> []; has_authorization = xq_recovery_authorization q \<noteq> [] in
      err (\<not> valid_correlation_id (xq_correlation_id q)) ''correlation_id must be 1-96 ASCII token characters'' @
      err (\<not> correlated_invocation (xq_correlation_id q) (iv_invocation_id (fq_invocation (xq_forge q))))
        (''FORGE invocation_id must begin with correlation_id plus '' @ [CHR 0x27, CHR '':'', CHR 0x27]) @
      err (mq_profile_name (xq_route q) = []) ''route_request.profile_name is required for DOJO correlation'' @
      err (xq_summary q = [] \<or> 2048 < length (xq_summary q)) ''summary must be 1-2048 bytes'' @
      err (xq_recorded_at q = [] \<or> 128 < length (xq_recorded_at q)) ''recorded_at_utc must be 1-128 bytes'' @
      err (28 < length (xq_dojo_tags q)) ''at most 28 caller DOJO tags are allowed'' @
      err (list_ex (\<lambda>t. t = [] \<or> 128 < length t) (xq_dojo_tags q)) ''caller DOJO tags must be 1-128 bytes'' @
      err (nb_max_event_detail_bytes (xq_session_budget q) = 0)
        ''session max_event_detail_bytes must be greater than zero'' @
      err (has_parent \<noteq> has_authorization)
        ''recovery lineage requires both parent_session_id and authorization SHA-256'' @
      err (has_parent \<and> \<not> canonical_session_id (xq_parent_session_id q)) ''parent_session_id must be canonical'' @
      err (has_authorization \<and> \<not> is_sha256 (xq_recovery_authorization q))
        ''recovery_authorization_sha256 must be SHA-256'')"

section \<open>Events and the audit\<close>

definition add_event :: "session_budget \<Rightarrow> session_stage \<Rightarrow> string \<Rightarrow> string \<Rightarrow> execution_result \<Rightarrow> execution_result" where
  "add_event b stage status detail r =
     (if unat (nb_max_events b) \<le> length (xr_events r) then r\<lparr>xr_events_truncated := True\<rparr>
      else r\<lparr>xr_events := xr_events r @ [\<lparr>ne_sequence = length (xr_events r), ne_stage = stage, ne_status = status,
               ne_detail = take (unat (nb_max_event_detail_bytes b)) detail\<rparr>]\<rparr>)"

text \<open>A run that ends early: its status, its reason and the event that says so.\<close>

definition session_aborted :: "session_budget \<Rightarrow> session_status \<Rightarrow> string \<Rightarrow> execution_result \<Rightarrow> execution_result" where
  "session_aborted b st reason r =
     add_event b SG_Aborted (session_status_to_text st) reason (r\<lparr>xr_status := st, xr_reason := reason\<rparr>)"

definition audit_payload :: "execution_result \<Rightarrow> string" where
  "audit_payload r =
     lines_text
       ([xr_session_id r, xr_correlation_id r, show_u (session_status_code (xr_status r)), xr_reason r] @
        map (\<lambda>e. nat_digits (ne_sequence e) @ ''|'' @ show_u (session_stage_code (ne_stage e)) @ ''|'' @
               ne_status e @ ''|'' @ ne_detail e) (xr_events r) @
        [''events_truncated='' @ (if xr_events_truncated r then ''1'' else ''0'')] @
        map (\<lambda>a. na_name a @ ''|'' @ na_locator a @ ''|'' @ na_sha256 a @ ''|'' @ show_u (na_bytes a)) (xr_artifacts r) @
        [''rejected_artifacts='' @ show_u (xr_rejected_artifacts r)] @
        (case xr_dojo_episode_id r of None \<Rightarrow> [] | Some i \<Rightarrow> [i]))"

definition audit_digest :: "execution_result \<Rightarrow> string" where
  "audit_digest r = sha256 (audit_payload r)"

definition audited :: "execution_result \<Rightarrow> execution_result" where
  "audited r = r\<lparr>xr_audit_sha256 := audit_digest r\<rparr>"

section \<open>The environment and the state\<close>

record 'w session_env =
  xe_hardware :: hardware_profile
  xe_registry :: model_registry
  xe_ranked :: "ranked_benchmark list"
  xe_clubhouse :: clubhouse
  xe_executor :: "'w executor"
  xe_retry :: "('w \<Rightarrow> u64 \<Rightarrow> string \<Rightarrow> 'w \<times> forge_request option) option"
  xe_verifier :: "('w \<Rightarrow> forge_result \<Rightarrow> 'w \<times> verification_outcome) option"
  xe_collector :: "('w \<Rightarrow> forge_result \<Rightarrow> 'w \<times> session_artifact list) option"
  xe_journal_path :: "string option"
  xe_begin_io :: "read_io \<times> io"
  xe_finish_io :: "read_io \<times> io"
  xe_dojo_read :: bool
  xe_dojo_io :: stream_io

record 'w session_state =
  xs_world :: 'w
  xs_journal :: "string option"
  xs_dojo :: dojo_store

section \<open>The end of a run\<close>

definition terminal_of :: "'w session_env \<Rightarrow> execution_request \<Rightarrow> execution_result \<Rightarrow> journal_terminal" where
  "terminal_of E q r =
     \<lparr>jt_kind = (if xr_status r = XS_Completed then JK_Commit else JK_Abort), jt_session_id = xr_session_id r,
      jt_correlation_id = xq_correlation_id q, jt_request_sha256 = execution_request_sha256 q (xe_hardware E),
      jt_audit_sha256 = xr_audit_sha256 r,
      jt_dojo_episode_id = (case xr_dojo_episode_id r of None \<Rightarrow> [] | Some i \<Rightarrow> i),
      jt_terminal_status = session_status_to_text (xr_status r), jt_recorded_at = xq_recorded_at q\<rparr>"

definition first_error :: "string list \<Rightarrow> string \<Rightarrow> string" where
  "first_error errors fallback = (case errors of [] \<Rightarrow> fallback | e # _ \<Rightarrow> e)"

text \<open>\<open>opened\<close> says whether this run has opened the session in the journal.\<close>

definition session_finalize ::
    "'w session_env \<Rightarrow> execution_request \<Rightarrow> bool \<Rightarrow> 'w session_state \<Rightarrow> execution_result \<Rightarrow> 'w session_state \<times> execution_result" where
  "session_finalize E q opened s r =
     (case xe_journal_path E of
        Some path \<Rightarrow>
          if opened then
            (let kind = (if xr_status r = XS_Completed then JK_Commit else JK_Abort);
                 r = audited (add_event (xq_session_budget q) SG_JournalTerminal (journal_kind_to_string kind)
                   ''terminal journal record requested after audit freeze'' r);
                 (res, file) = session_finish path (fst (xe_finish_io E)) (snd (xe_finish_io E)) (terminal_of E q r)
                   (xs_journal s);
                 s = s\<lparr>xs_journal := file\<rparr>
             in if jw_ok res then (s, r\<lparr>xr_terminal_record := Some (jw_record_sha256 res)\<rparr>)
                else (s, audited (session_aborted (xq_session_budget q) XS_JournalStoreFailed
                  (first_error (jw_errors res) ''transaction journal failed to append terminal record'') r)))
          else (s, audited r)
      | None \<Rightarrow> (s, audited r))"

section \<open>An attempt\<close>

definition refused_attempt :: "string \<Rightarrow> bool \<Rightarrow> string \<Rightarrow> zenkai_attempt" where
  "refused_attempt previous fatal summary =
     \<lparr>za_candidate_state = previous, za_evidence = [],
      za_verification = \<lparr>vo_passed = False, vo_confidence = Finite 0, vo_summary = summary\<rparr>,
      za_new_information = False, za_fatal = fatal\<rparr>"

text \<open>What the attempts of one run share: the world, the result so far, the last execution.\<close>

type_synonym 'w attempt_state = "'w \<times> execution_result \<times> forge_result option"

definition execute_attempt ::
    "'w session_env \<Rightarrow> execution_request \<Rightarrow> u64 \<Rightarrow> string \<Rightarrow> forge_request \<Rightarrow> 'w attempt_state \<Rightarrow> 'w attempt_state \<times> zenkai_attempt" where
  "execute_attempt E q i previous f st =
     (case st of (w, r, latest) \<Rightarrow>
      let b = xq_session_budget q; rejected = (\<lambda>text.
            ((w, add_event b SG_Executing ''RETRY_REJECTED'' text r, latest), refused_attempt previous True text)) in
      if \<not> correlated_invocation (xq_correlation_id q) (iv_invocation_id (fq_invocation f))
      then rejected ''retry invocation escaped the session correlation id''
      else if \<not> same_execution_contract (xq_forge q) f
      then rejected ''retry attempted to switch slot, capability, or STRATA layer''
      else
        let r = add_event b SG_Executing ''ATTEMPT''
              (''attempt='' @ show_u i @ '' invocation='' @ iv_invocation_id (fq_invocation f)) r;
            (w, x) = forge_execute (xe_clubhouse E) (xe_executor E) f w;
            candidate = execution_state (xq_correlation_id q) f x;
            (w, verdict) = (case xe_verifier E of
               Some verify \<Rightarrow> verify w x
             | None \<Rightarrow> (w, \<lparr>vo_passed = forge_succeeded x, vo_confidence = (if forge_succeeded x then Finite 1 else Finite 0),
                          vo_summary = fr_reason x\<rparr>))
        in ((w, r, Some x),
            \<lparr>za_candidate_state = candidate, za_evidence = fr_evidence x, za_verification = verdict,
             za_new_information = (candidate \<noteq> previous),
             za_fatal = (fr_status x = FS_InvalidRequest \<or> fr_status x = FS_InvocationRejected \<or>
                         fr_status x = FS_InputMismatch)\<rparr>))"

definition session_attempt :: "'w session_env \<Rightarrow> execution_request \<Rightarrow> 'w attempt_state attempt_function" where
  "session_attempt E q st i previous =
     (if i = 0 then execute_attempt E q i previous (xq_forge q) st
      else case xe_retry E of
        None \<Rightarrow> (st, refused_attempt previous False ''no retry request factory supplied'')
      | Some plan \<Rightarrow>
          (case st of (w, r, latest) \<Rightarrow> (case plan w i previous of
             (w', None) \<Rightarrow> ((w', r, latest), refused_attempt previous False ''retry planner produced no new request'')
           | (w', Some f) \<Rightarrow> execute_attempt E q i previous f (w', r, latest))))"

section \<open>Artifacts\<close>

definition promote_artifact :: "session_budget \<Rightarrow> session_artifact \<Rightarrow> execution_result \<Rightarrow> execution_result" where
  "promote_artifact b c r =
     (let next_bytes = saturating_add (xr_promoted_bytes r) (na_bytes c) in
      if \<not> valid_artifact c \<or> unat (nb_max_artifacts b) \<le> length (xr_artifacts r) \<or> nb_max_artifact_bytes b < next_bytes
      then add_event b SG_ArtifactPromotion ''ARTIFACT_REJECTED'' (if na_name c = [] then ''unnamed artifact'' else na_name c)
             (r\<lparr>xr_rejected_artifacts := xr_rejected_artifacts r + 1\<rparr>)
      else add_event b SG_ArtifactPromotion ''ARTIFACT_PROMOTED'' (na_name c @ '' sha256='' @ na_sha256 c)
             (r\<lparr>xr_artifacts := xr_artifacts r @ [c], xr_promoted_bytes := next_bytes\<rparr>))"

section \<open>The record in the dojo\<close>

definition session_tags :: "execution_request \<Rightarrow> execution_result \<Rightarrow> string list" where
  "session_tags q r =
     xq_dojo_tags q @
     [''correlation:'' @ xq_correlation_id q, ''session:'' @ xr_session_id r,
      ''artifacts:'' @ nat_digits (length (xr_artifacts r)),
      ''artifact-rejections:'' @ show_u (xr_rejected_artifacts r)] @
     (if xq_parent_session_id q = [] then []
      else [''recovery-parent:'' @ xq_parent_session_id q, ''recovery-authorization:'' @ xq_recovery_authorization q])"

definition session_episode ::
    "'w session_env \<Rightarrow> execution_request \<Rightarrow> model_route_decision \<Rightarrow> zenkai_result \<Rightarrow> execution_result \<Rightarrow> dojo_episode" where
  "session_episode E q route z r =
     make_dojo_episode (mq_task (xq_route q)) (mq_profile_name (xq_route q)) (hardware_immutable_id (xe_hardware E))
       (case md_selected_model_id route of None \<Rightarrow> [] | Some i \<Rightarrow> i) (route_status_to_string (md_status route)) z
       (trace_describe (md_trace route)) (xq_summary q) (xq_recorded_at q) (session_tags q r)"

definition record_episode ::
    "'w session_env \<Rightarrow> execution_request \<Rightarrow> model_route_decision \<Rightarrow> zenkai_result \<Rightarrow> 'w session_state \<Rightarrow> execution_result \<Rightarrow>
       'w session_state \<times> execution_result" where
  "record_episode E q route z s r =
     (let b = xq_session_budget q;
          (res, dojo) = dojo_append (xe_dojo_read E) (xe_dojo_io E) (session_episode E q route z r) (xs_dojo s);
          s = s\<lparr>xs_dojo := dojo\<rparr>;
          r = add_event b SG_DojoRecord (dojo_status_to_string (dj_status res))
                (if dj_ok res then ''DOJO episode committed'' else first_error (dj_errors res) ''DOJO store rejected episode'') r
      in if \<not> dj_ok res
         then (s, session_aborted b XS_DojoStoreFailed
                (first_error (dj_errors res) ''DOJO failed to commit the session episode'') r)
         else let r = r\<lparr>xr_dojo_episode_id := Some (dj_episode_id res)\<rparr> in
           if \<not> zr_verified z
           then (s, session_aborted b XS_VerificationFailed
                  (''ZENKAI did not produce a verified terminal state: '' @ zenkai_stop_to_string (zr_stop_reason z)) r)
           else (s, add_event b SG_Completed (session_status_to_text XS_Completed)
                  ''correlated execution session completed and committed to DOJO''
                  (r\<lparr>xr_status := XS_Completed,
                     xr_reason := ''correlated execution session completed and committed to DOJO''\<rparr>)))"

section \<open>The work of a session\<close>

definition session_zenkai ::
    "'w session_env \<Rightarrow> execution_request \<Rightarrow> 'w \<Rightarrow> execution_result \<Rightarrow> 'w attempt_state \<times> zenkai_result" where
  "session_zenkai E q w r =
     zenkai_run (xq_zenkai_budget q) (xq_retry_authority q) (session_attempt E q) (w, r, None)
       (kExecutionPrefix @ sha256 (xr_session_id r))"

definition collect_artifacts ::
    "'w session_env \<Rightarrow> execution_request \<Rightarrow> zenkai_result \<Rightarrow> 'w attempt_state \<Rightarrow> 'w \<times> execution_result" where
  "collect_artifacts E q z st =
     (case st of (w, r, latest) \<Rightarrow>
      case (zr_verified z, latest, xe_collector E) of
        (True, Some x, Some collect) \<Rightarrow>
          (case collect w x of (w', candidates) \<Rightarrow> (w', fold (promote_artifact (xq_session_budget q)) candidates r))
      | _ \<Rightarrow> (w, r))"

definition session_work ::
    "'w session_env \<Rightarrow> execution_request \<Rightarrow> model_route_decision \<Rightarrow> 'w session_state \<Rightarrow> execution_result \<Rightarrow>
       'w session_state \<times> execution_result" where
  "session_work E q route s r =
     (let ((w, r, latest), z) = session_zenkai E q (xs_world s) r;
          r = r\<lparr>xr_zenkai := Some z, xr_last_execution := latest\<rparr>;
          r = add_event (xq_session_budget q) SG_Verifying (zenkai_stop_to_string (zr_stop_reason z))
                (''attempts='' @ show_u (zr_attempts z) @ '' verified='' @ (if zr_verified z then ''yes'' else ''no'')) r;
          (w, r) = collect_artifacts E q z (w, r, latest)
      in record_episode E q route z (s\<lparr>xs_world := w\<rparr>) r)"

definition session_routed ::
    "'w session_env \<Rightarrow> execution_request \<Rightarrow> 'w session_state \<Rightarrow> execution_result \<Rightarrow> 'w session_state \<times> execution_result" where
  "session_routed E q s r =
     (let b = xq_session_budget q;
          route = router_select (xe_registry E) (xe_hardware E) (xe_ranked E) (xq_route q);
          r = add_event b SG_Routed (route_status_to_string (md_status route)) (md_reason route) (r\<lparr>xr_route := Some route\<rparr>)
      in if \<not> route_allows_execution (md_status route)
         then (s, session_aborted b XS_RouteRejected
                (''CADDY route does not authorize autonomous execution: '' @ route_status_to_string (md_status route)) r)
         else let slot = resolve_invocation (fq_invocation (xq_forge q)) (xe_clubhouse E);
                  r = add_event b SG_SlotResolved (invocation_status_to_string (rs_status slot)) (rs_reason slot)
                        (r\<lparr>xr_slot_resolution := Some slot\<rparr>)
           in if \<not> resolution_ready slot
              then (s, session_aborted b XS_InvocationRejected
                     (''CLUBHOUSE rejected the base invocation: '' @ rs_reason slot) r)
              else session_work E q route s r)"

section \<open>The run\<close>

definition session_result_new :: "execution_request \<Rightarrow> hardware_profile \<Rightarrow> execution_result" where
  "session_result_new q h =
     \<lparr>xr_status = XS_InvalidRequest, xr_correlation_id = xq_correlation_id q, xr_session_id = execution_session_id q h,
      xr_route = None, xr_slot_resolution = None, xr_zenkai = None, xr_last_execution = None, xr_artifacts = [],
      xr_rejected_artifacts = 0, xr_promoted_bytes = 0, xr_events = [], xr_events_truncated = False,
      xr_dojo_episode_id = None, xr_begin_record = None, xr_terminal_record = None, xr_audit_sha256 = [], xr_reason = []\<rparr>"

definition begin_of :: "'w session_env \<Rightarrow> execution_request \<Rightarrow> journal_begin" where
  "begin_of E q = \<lparr>jb_session_id = execution_session_id q (xe_hardware E), jb_correlation_id = xq_correlation_id q,
     jb_request_sha256 = execution_request_sha256 q (xe_hardware E), jb_recorded_at = xq_recorded_at q\<rparr>"

definition journal_open :: "'w session_env \<Rightarrow> execution_request \<Rightarrow> string \<Rightarrow> string option \<Rightarrow> journal_write_result \<times> string option" where
  "journal_open E q path file =
     (let (rio, io) = xe_begin_io E in
      if xq_parent_session_id q \<noteq> []
      then begin_recovery_child path rio io (begin_of E q) (xq_parent_session_id q) (xq_recovery_authorization q) file
      else session_begin path rio io (begin_of E q) file)"

definition session_opened ::
    "'w session_env \<Rightarrow> execution_request \<Rightarrow> string \<Rightarrow> 'w session_state \<Rightarrow> execution_result \<Rightarrow> 'w session_state \<times> execution_result" where
  "session_opened E q path s r =
     (let b = xq_session_budget q; (res, file) = journal_open E q path (xs_journal s); s = s\<lparr>xs_journal := file\<rparr> in
      if \<not> jw_ok res
      then let reason = first_error (jw_errors res) ''transaction journal rejected BEGIN'';
               r = add_event b SG_JournalBegin (journal_status_to_string (jw_status res)) reason
                     (r\<lparr>xr_status := XS_JournalStoreFailed, xr_reason := reason\<rparr>)
        in session_finalize E q False s (session_aborted b XS_JournalStoreFailed reason r)
      else let r = add_event b SG_JournalBegin (journal_status_to_string (jw_status res))
                     (if xq_parent_session_id q \<noteq> [] then ''authorized recovery-child BEGIN committed before routing/execution''
                      else ''durable BEGIN committed before routing/execution'')
                     (r\<lparr>xr_begin_record := Some (jw_record_sha256 res)\<rparr>);
               (s, r) = session_routed E q s r
        in session_finalize E q True s r)"

definition execution_run ::
    "'w session_env \<Rightarrow> execution_request \<Rightarrow> 'w session_state \<Rightarrow> 'w session_state \<times> execution_result" where
  "execution_run E q s =
     (let b = xq_session_budget q; r = session_result_new q (xe_hardware E); recovery_child = (xq_parent_session_id q \<noteq> []) in
      case validate_execution_request q of
        message # _ \<Rightarrow> session_finalize E q False s (session_aborted b XS_InvalidRequest message r)
      | [] \<Rightarrow>
          if recovery_child \<and> xe_journal_path E = None
          then session_finalize E q False s (session_aborted b XS_InvalidRequest
                 ''recovery child requires a transaction journal to prove fresh authority'' r)
          else let r = add_event b SG_Created ''SESSION_CREATED''
                     (if recovery_child then ''fresh recovery-child transaction accepted'' else ''correlated transaction accepted'') r
            in case xe_journal_path E of
                 Some path \<Rightarrow> session_opened E q path s r
               | None \<Rightarrow> (case session_routed E q s r of (s, r) \<Rightarrow> session_finalize E q False s r))"

definition session_succeeded :: "execution_result \<Rightarrow> bool" where
  "session_succeeded r \<longleftrightarrow> xr_status r = XS_Completed \<and>
     (case xr_zenkai r of None \<Rightarrow> False | Some z \<Rightarrow> zr_verified z)"

end
