(* ===== verification/Zenkai_Safety.thy ===== *)
theory Zenkai_Safety
  imports Zenkai
begin

text \<open>
  What a run of the loop guarantees whatever the attempts report: it ends, it stays within
  every budget, it does not retry without authority, and it says \<open>verified\<close> exactly when its last
  attempt was accepted and the evidence of all attempts fits the budget.
\<close>

section \<open>Budgets\<close>

definition within_budget :: "zenkai_budget \<Rightarrow> zenkai_result \<Rightarrow> bool" where
  "within_budget b r \<longleftrightarrow> zr_evidence_items r \<le> zb_max_evidence_items b \<and> zr_evidence_bytes r \<le> zb_max_evidence_bytes b \<and>
     zr_tool_events r \<le> zb_max_tool_events b \<and> length (zr_trace r) \<le> unat (zb_max_trace_entries b)"

lemma zenkai_append_trace_fields [simp]:
  "zr_final_state (zenkai_append_trace n i st d r) = zr_final_state r" "zr_stop_reason (zenkai_append_trace n i st d r) = zr_stop_reason r"
  "zr_verified (zenkai_append_trace n i st d r) = zr_verified r" "zr_attempts (zenkai_append_trace n i st d r) = zr_attempts r"
  "zr_evidence_items (zenkai_append_trace n i st d r) = zr_evidence_items r" "zr_evidence_bytes (zenkai_append_trace n i st d r) = zr_evidence_bytes r"
  "zr_tool_events (zenkai_append_trace n i st d r) = zr_tool_events r"
  "length (zr_trace r) \<le> unat n \<Longrightarrow> length (zr_trace (zenkai_append_trace n i st d r)) \<le> unat n"
  by (simp_all add: zenkai_append_trace_def)

lemma zenkai_stop_fields [simp]:
  "zr_final_state (zenkai_stop b i s d r) = zr_final_state r" "zr_stop_reason (zenkai_stop b i s d r) = s"
  "zr_verified (zenkai_stop b i s d r) = zr_verified r" "zr_attempts (zenkai_stop b i s d r) = zr_attempts r"
  "within_budget b r \<Longrightarrow> within_budget b (zenkai_stop b i s d r)"
  by (simp_all add: zenkai_stop_def within_budget_def)

lemma within_append [simp]: "within_budget b r \<Longrightarrow> within_budget b (zenkai_append_trace (zb_max_trace_entries b) i st d r)"
  by (simp add: within_budget_def)

lemma room_add: "\<not> (m - min n m < (k :: u64)) \<Longrightarrow> n \<le> m \<Longrightarrow> n + k \<le> m"
  by (simp add: min_def not_less) (metis add.commute word_le_minus_mono_left le_minus_one_simps word_plus_mono_right word_le_plus_either diff_add_cancel)

lemma evidence_keeps:
  "zenkai_evidence_loop b i es r = (stop, r') \<Longrightarrow> within_budget b r \<Longrightarrow>
   within_budget b r' \<and> zr_verified r' = zr_verified r \<and> zr_final_state r' = zr_final_state r \<and> zr_attempts r' = zr_attempts r \<and>
   (stop \<longrightarrow> zr_stop_reason r' \<in> {ZS_ToolBudget, ZS_EvidenceBudget})"
proof (induction b i es r rule: zenkai_evidence_loop.induct)
  case (2 b i x xs r)
  show ?case
  proof (cases "zb_max_tool_events b < zr_tool_events r + (if is_tool_event (ze_kind (cap_evidence b x)) then 1 else 0) \<or>
      zb_max_evidence_items b < zr_evidence_items r + 1 \<or>
      zb_max_evidence_bytes b - min (zr_evidence_bytes r) (zb_max_evidence_bytes b) < evidence_bytes (cap_evidence b x)")
    case True
    with 2 show ?thesis by (auto simp: Let_def split: if_splits)
  next
    case False
    let ?e = "cap_evidence b x"
    let ?t = "zr_tool_events r + (if is_tool_event (ze_kind ?e) then 1 else 0)"
    let ?r = "zenkai_append_trace (zb_max_trace_entries b) i (if ze_passed ?e then ''EVIDENCE_PASS'' else ''EVIDENCE_FAIL'')
      (evidence_kind_to_string (ze_kind ?e) @ '': '' @ ze_source ?e)
      (r\<lparr>zr_evidence_items := zr_evidence_items r + 1, zr_evidence_bytes := zr_evidence_bytes r + evidence_bytes ?e,
         zr_tool_events := ?t\<rparr>)"
    have "zenkai_evidence_loop b i xs ?r = (stop, r')"
      using "2.prems"(1) False by (simp only: zenkai_evidence_loop.simps Let_def de_Morgan_disj if_False simp_thms)
    moreover have "zr_evidence_bytes r + evidence_bytes ?e \<le> zb_max_evidence_bytes b"
      using False "2.prems"(2) by (intro room_add) (simp_all add: within_budget_def)
    then have "within_budget b ?r"
      using False "2.prems"(2) by (intro within_append) (simp add: within_budget_def not_less)
    ultimately show ?thesis using "2.IH" [OF refl refl refl] False by simp
  qed
qed simp

section \<open>Evidence against its budget\<close>

text \<open>
  What the inner loop decides, on the evidence itself: the pieces, the tool events among them and
  the bytes they have after they are capped.  A counter compared with the largest 64-bit number
  never exceeds it, so such a limit is none.
\<close>

definition exceeds :: "u64 \<Rightarrow> nat \<Rightarrow> bool" where
  "exceeds limit n \<longleftrightarrow> limit \<noteq> - 1 \<and> unat limit < n"

definition tool_count :: "zenkai_evidence list \<Rightarrow> nat" where
  "tool_count es = length (filter (\<lambda>e. is_tool_event (ze_kind e)) es)"

definition byte_count :: "zenkai_budget \<Rightarrow> zenkai_evidence list \<Rightarrow> nat" where
  "byte_count b es = sum_list (map (\<lambda>e. unat (evidence_bytes (cap_evidence b e))) es)"

definition evidence_overflows :: "zenkai_budget \<Rightarrow> zenkai_evidence list \<Rightarrow> bool" where
  "evidence_overflows b es \<longleftrightarrow> exceeds (zb_max_tool_events b) (tool_count es) \<or>
     exceeds (zb_max_evidence_items b) (length es) \<or> unat (zb_max_evidence_bytes b) < byte_count b es"

lemma overflow_mono: "evidence_overflows b es \<Longrightarrow> evidence_overflows b (es @ xs)"
  by (auto simp: evidence_overflows_def exceeds_def tool_count_def byte_count_def)

text \<open>The counters of a result, after the evidence \<open>es\<close>.\<close>

definition counts :: "u64 \<Rightarrow> u64 \<Rightarrow> nat \<Rightarrow> bool" where
  "counts limit c n \<longleftrightarrow> (limit \<noteq> - 1 \<longrightarrow> unat c = n \<and> n \<le> unat limit)"

definition counted :: "zenkai_budget \<Rightarrow> zenkai_evidence list \<Rightarrow> zenkai_result \<Rightarrow> bool" where
  "counted b es r \<longleftrightarrow> counts (zb_max_tool_events b) (zr_tool_events r) (tool_count es) \<and>
     counts (zb_max_evidence_items b) (zr_evidence_items r) (length es) \<and>
     unat (zr_evidence_bytes r) = byte_count b es \<and> byte_count b es \<le> unat (zb_max_evidence_bytes b)"

lemma unat_largest: "unat (- 1 :: u64) = 18446744073709551615"
  by (simp add: unsigned_minus_1_eq_mask mask_eq_exp_minus_1)

lemma counted_fields [simp]:
  "counted b es (zenkai_append_trace n i st d r) = counted b es r" "counted b es (zenkai_stop c i x d r) = counted b es r"
  "counted b es (r\<lparr>zr_verified := v\<rparr>) = counted b es r"
  by (simp_all add: counted_def zenkai_stop_def zenkai_append_trace_def)

lemma counts_next:
  assumes "counts limit c n"
  shows "limit < c + 1 \<longleftrightarrow> exceeds limit (Suc n)" "\<not> exceeds limit (Suc n) \<Longrightarrow> counts limit (c + 1) (Suc n)"
proof -
  have "(limit < c + 1 \<longleftrightarrow> exceeds limit (Suc n)) \<and> (\<not> exceeds limit (Suc n) \<longrightarrow> counts limit (c + 1) (Suc n))"
  proof (cases "limit = - 1")
    case True
    then show ?thesis using unat_u64_less [of "c + 1"]
      by (simp add: exceeds_def counts_def word_less_nat_alt unat_largest)
  next
    case False
    with assms have c: "unat c = n" "n \<le> unat limit" by (simp_all add: counts_def)
    have "unat limit \<noteq> 18446744073709551615"
      using False unat_largest by (metis word_unat_eq_iff)
    then have "Suc (unat c) < 2 ^ 64" using c unat_u64_less [of limit] by simp
    then have "unat (c + 1) = Suc n" using c by (simp add: unat_word_ariths)
    then show ?thesis using False c by (auto simp: exceeds_def counts_def word_less_nat_alt)
  qed
  then show "limit < c + 1 \<longleftrightarrow> exceeds limit (Suc n)" "\<not> exceeds limit (Suc n) \<Longrightarrow> counts limit (c + 1) (Suc n)" by blast+
qed

lemma counts_ok: "counts limit c n \<Longrightarrow> c \<le> limit"
  using unat_u64_less [of c] by (cases "limit = - 1") (auto simp: counts_def word_le_nat_alt unat_largest)

lemma bytes_next:
  assumes "unat n = t" "t \<le> unat (m :: u64)"
  shows "m - min n m < k \<longleftrightarrow> unat m < t + unat k" "\<not> unat m < t + unat k \<Longrightarrow> unat (n + k) = t + unat k"
proof -
  have nm: "n \<le> m" using assms by (simp add: word_le_nat_alt)
  then have "unat (m - n) = unat m - t" using assms(1) by (simp add: unat_sub)
  then show "m - min n m < k \<longleftrightarrow> unat m < t + unat k"
    using nm assms by (auto simp: min_def word_less_nat_alt)
  show "unat (n + k) = t + unat k" if "\<not> unat m < t + unat k"
    using that assms unat_u64_less [of m] by (simp add: unat_word_ariths)
qed

lemma evidence_exact:
  "zenkai_evidence_loop b i xs r = (stop, r') \<Longrightarrow> counted b es r \<Longrightarrow>
   (stop \<longleftrightarrow> evidence_overflows b (es @ xs)) \<and> (\<not> stop \<longrightarrow> counted b (es @ xs) r')"
proof (induction b i xs r arbitrary: es rule: zenkai_evidence_loop.induct)
  case (1 b i r)
  then show ?case by (auto simp: counted_def evidence_overflows_def exceeds_def counts_def)
next
  case (2 b i x xs r)
  let ?e = "cap_evidence b x"
  let ?t = "zr_tool_events r + (if is_tool_event (ze_kind ?e) then 1 else 0)"
  have kind: "ze_kind ?e = ze_kind x" by (simp add: cap_evidence_def)
  have c: "counts (zb_max_tool_events b) (zr_tool_events r) (tool_count es)"
    "counts (zb_max_evidence_items b) (zr_evidence_items r) (length es)"
    "unat (zr_evidence_bytes r) = byte_count b es" "byte_count b es \<le> unat (zb_max_evidence_bytes b)"
    using "2.prems"(2) by (simp_all add: counted_def)
  have tools: "zb_max_tool_events b < ?t \<longleftrightarrow> exceeds (zb_max_tool_events b) (tool_count (es @ [x]))"
    "\<not> zb_max_tool_events b < ?t \<Longrightarrow> counts (zb_max_tool_events b) ?t (tool_count (es @ [x]))"
    using counts_next [OF c(1)] counts_ok [OF c(1)] c(1) by (auto simp: tool_count_def kind counts_def exceeds_def)
  note items = counts_next [OF c(2)]
  note bytes = bytes_next [OF c(3,4), of "evidence_bytes ?e"]
  have sum: "byte_count b (es @ [x]) = byte_count b es + unat (evidence_bytes ?e)" by (simp add: byte_count_def)
  let ?over = "zb_max_tool_events b < ?t \<or> zb_max_evidence_items b < zr_evidence_items r + 1 \<or>
      zb_max_evidence_bytes b - min (zr_evidence_bytes r) (zb_max_evidence_bytes b) < evidence_bytes ?e"
  have over: "?over \<longleftrightarrow> evidence_overflows b (es @ [x])"
    unfolding evidence_overflows_def tools(1) items(1) bytes(1) sum by simp
  show ?case
  proof (cases ?over)
    case True
    then have "evidence_overflows b (es @ x # xs)" using over overflow_mono [of b "es @ [x]" xs] by simp
    moreover have stop using "2.prems"(1) True by (auto simp: Let_def split: if_splits)
    ultimately show ?thesis by simp
  next
    case False
    let ?r = "zenkai_append_trace (zb_max_trace_entries b) i (if ze_passed ?e then ''EVIDENCE_PASS'' else ''EVIDENCE_FAIL'')
      (evidence_kind_to_string (ze_kind ?e) @ '': '' @ ze_source ?e)
      (r\<lparr>zr_evidence_items := zr_evidence_items r + 1, zr_evidence_bytes := zr_evidence_bytes r + evidence_bytes ?e,
         zr_tool_events := ?t\<rparr>)"
    have loop: "zenkai_evidence_loop b i xs ?r = (stop, r')"
      using "2.prems"(1) False by (simp only: zenkai_evidence_loop.simps Let_def de_Morgan_disj if_False simp_thms)
    have "counted b (es @ [x]) ?r"
      using False tools items bytes c sum by (simp add: counted_def)
    from "2.IH" [OF refl refl refl _ _ loop this] False show ?thesis by simp
  qed
qed

section \<open>A run\<close>

text \<open>An attempt that ends the run with a verification.\<close>

definition accepted_by :: "zenkai_budget \<Rightarrow> zenkai_attempt \<Rightarrow> bool" where
  "accepted_by b a \<longleftrightarrow> vo_passed (za_verification a) \<and> \<not> za_fatal a \<and>
     f_geq (std_clamp (vo_confidence (za_verification a)) (Finite 0) (Finite 1)) (zb_acceptance_confidence b)"

lemma within_fields [simp]:
  "within_budget b (r\<lparr>zr_verified := v\<rparr>) = within_budget b r" "within_budget b (r\<lparr>zr_stop_reason := s\<rparr>) = within_budget b r"
  by (simp_all add: within_budget_def)

text \<open>An attempt after which the loop may go on.\<close>

definition goes_on :: "zenkai_budget \<Rightarrow> zenkai_attempt \<Rightarrow> bool" where
  "goes_on b a \<longleftrightarrow> \<not> accepted_by b a \<and> \<not> za_fatal a \<and> za_new_information a"

lemma verdict_cases:
  assumes "zenkai_verdict b i a r = (stop, r')" "within_budget b r" "\<not> zr_verified r"
  shows "within_budget b r' \<and> zr_attempts r' = zr_attempts r \<and> zr_final_state r' = zr_final_state r \<and>
    (zr_verified r' \<longleftrightarrow> accepted_by b a) \<and> (stop \<longleftrightarrow> \<not> goes_on b a) \<and>
    (stop \<longrightarrow> (zr_verified r' \<longleftrightarrow> zr_stop_reason r' = ZS_Verified)) \<and> (counted b es r \<longrightarrow> counted b es r')"
proof -
  let ?r = "zenkai_append_trace (zb_max_trace_entries b) i (if vo_passed (za_verification a) then ''VERIFY_PASS'' else ''VERIFY_FAIL'')
    (vo_summary (za_verification a)) r"
  have "within_budget b ?r" "\<not> zr_verified ?r" "counted b es r \<longrightarrow> counted b es ?r"
    using assms(2,3) by (simp_all add: counted_def)
  with assms(1) show ?thesis
    unfolding zenkai_verdict_def Let_def accepted_by_def goes_on_def by (simp split: if_splits) auto
qed

lemma attempted_cases:
  assumes "zenkai_attempted b i a r = (stop, r')" "within_budget b r" "\<not> zr_verified r" "counted b es r"
  shows "within_budget b r'" "zr_attempts r' = zr_attempts r + 1"
    "zr_final_state r' = (if za_candidate_state a = [] then zr_final_state r else za_candidate_state a)"
    "zr_verified r' \<longleftrightarrow> accepted_by b a \<and> \<not> evidence_overflows b (es @ za_evidence a)"
    "stop \<longleftrightarrow> \<not> goes_on b a \<or> evidence_overflows b (es @ za_evidence a)"
    "stop \<Longrightarrow> zr_verified r' \<longleftrightarrow> zr_stop_reason r' = ZS_Verified"
    "\<not> stop \<Longrightarrow> counted b (es @ za_evidence a) r'"
proof -
  define r2 where "r2 = (let r1 = r\<lparr>zr_attempts := zr_attempts r + 1\<rparr> in
    if za_candidate_state a = [] then r1 else r1\<lparr>zr_final_state := za_candidate_state a\<rparr>)"
  have r2: "within_budget b r2" "\<not> zr_verified r2" "zr_attempts r2 = zr_attempts r + 1"
    "zr_final_state r2 = (if za_candidate_state a = [] then zr_final_state r else za_candidate_state a)" "counted b es r2"
    using assms(2-4) by (simp_all add: r2_def Let_def within_budget_def counted_def)
  obtain s r3 where e: "zenkai_evidence_loop b i (za_evidence a) r2 = (s, r3)" by fastforce
  note k = evidence_keeps [OF e r2(1)] and x = evidence_exact [OF e r2(5)]
  have a: "(stop, r') = (if s then (True, r3) else zenkai_verdict b i a r3)"
    using assms(1) e unfolding zenkai_attempted_def Let_def r2_def by simp
  have "within_budget b r' \<and> zr_attempts r' = zr_attempts r + 1 \<and> zr_final_state r' = zr_final_state r2 \<and>
    (zr_verified r' \<longleftrightarrow> accepted_by b a \<and> \<not> s) \<and> (stop \<longleftrightarrow> \<not> goes_on b a \<or> s) \<and>
    (stop \<longrightarrow> (zr_verified r' \<longleftrightarrow> zr_stop_reason r' = ZS_Verified)) \<and> (\<not> stop \<longrightarrow> counted b (es @ za_evidence a) r')"
  proof (cases s)
    case True
    with a k r2 show ?thesis by auto
  next
    case False
    with a have "zenkai_verdict b i a r3 = (stop, r')" by simp
    from verdict_cases [OF this, of "es @ za_evidence a"] k r2 x False show ?thesis by auto
  qed
  with r2(4) x show "within_budget b r'" "zr_attempts r' = zr_attempts r + 1"
    "zr_final_state r' = (if za_candidate_state a = [] then zr_final_state r else za_candidate_state a)"
    "zr_verified r' \<longleftrightarrow> accepted_by b a \<and> \<not> evidence_overflows b (es @ za_evidence a)"
    "stop \<longleftrightarrow> \<not> goes_on b a \<or> evidence_overflows b (es @ za_evidence a)"
    "stop \<Longrightarrow> zr_verified r' \<longleftrightarrow> zr_stop_reason r' = ZS_Verified" "\<not> stop \<Longrightarrow> counted b (es @ za_evidence a) r'" by auto
qed

text \<open>The bound on attempts: one, unless retries are authorized.\<close>

definition attempt_bound :: "zenkai_budget \<Rightarrow> retry_authority \<Rightarrow> u64" where
  "attempt_bound b authority = (if authority = RY_Bounded then zb_max_attempts b else 1)"

text \<open>
  The calls of a run: from world \<open>w\<close>, index \<open>i\<close> and state \<open>st\<close> the attempt function has returned
  the attempts \<open>as\<close>, one call after the other, and left the world \<open>w'\<close> and the state \<open>st'\<close>.
\<close>

fun called :: "'w attempt_function \<Rightarrow> 'w \<Rightarrow> u64 \<Rightarrow> string \<Rightarrow> zenkai_attempt list \<Rightarrow> 'w \<Rightarrow> string \<Rightarrow> bool" where
  "called f w i st [] w' st' \<longleftrightarrow> w' = w \<and> st' = st"
| "called f w i st (a # as) w' st' \<longleftrightarrow> (\<exists>w1. f w i st = (w1, a) \<and>
     called f w1 (i + 1) (if za_candidate_state a = [] then st else za_candidate_state a) as w' st')"

definition evidence_of :: "zenkai_attempt list \<Rightarrow> zenkai_evidence list" where
  "evidence_of as = concat (map za_evidence as)"

text \<open>
  What a run has done when it returns: within the budgets; the calls it made, at least one and
  at most the bound; every call but the last left the loop going on; the run ended because of
  its last attempt, the evidence or the bound; and \<open>verified\<close> says that the last attempt was
  accepted with evidence that fits.
\<close>

definition run_outcome ::
    "'w attempt_function \<Rightarrow> zenkai_budget \<Rightarrow> retry_authority \<Rightarrow> 'w \<Rightarrow> string \<Rightarrow> 'w \<Rightarrow> zenkai_result \<Rightarrow> bool" where
  "run_outcome f b authority w st w' r \<longleftrightarrow> within_budget b r \<and>
     (zr_verified r \<longleftrightarrow> zr_stop_reason r = ZS_Verified) \<and>
     (\<exists>as. as \<noteq> [] \<and> called f w 0 st as w' (zr_final_state r) \<and> length as = unat (zr_attempts r) \<and>
        length as \<le> unat (attempt_bound b authority) \<and> list_all (goes_on b) (butlast as) \<and>
        \<not> evidence_overflows b (evidence_of (butlast as)) \<and>
        (length as = unat (attempt_bound b authority) \<or> \<not> goes_on b (last as) \<or> evidence_overflows b (evidence_of as)) \<and>
        (zr_verified r \<longleftrightarrow> accepted_by b (last as) \<and> \<not> evidence_overflows b (evidence_of as)))"

text \<open>The loop from its attempt \<open>i\<close> on, after evidence \<open>es\<close>.\<close>

definition loop_outcome ::
    "'w attempt_function \<Rightarrow> zenkai_budget \<Rightarrow> retry_authority \<Rightarrow> zenkai_evidence list \<Rightarrow> u64 \<Rightarrow> 'w \<Rightarrow> string \<Rightarrow> 'w \<Rightarrow>
     zenkai_result \<Rightarrow> zenkai_attempt list \<Rightarrow> bool" where
  "loop_outcome f b authority es i w st w' r as \<longleftrightarrow> within_budget b r \<and>
     (zr_verified r \<longleftrightarrow> zr_stop_reason r = ZS_Verified) \<and>
     called f w i st as w' (zr_final_state r) \<and> unat i + length as = unat (zr_attempts r) \<and>
     unat i + length as \<le> unat (attempt_bound b authority) \<and> (i < attempt_bound b authority \<longrightarrow> as \<noteq> []) \<and>
     list_all (goes_on b) (butlast as) \<and> \<not> evidence_overflows b (es @ evidence_of (butlast as)) \<and>
     (unat i + length as = unat (attempt_bound b authority) \<or> as \<noteq> [] \<and> \<not> goes_on b (last as) \<or>
      evidence_overflows b (es @ evidence_of as)) \<and>
     (zr_verified r \<longleftrightarrow> as \<noteq> [] \<and> accepted_by b (last as) \<and> \<not> evidence_overflows b (es @ evidence_of as))"

lemma counted_fits: "counted b es r \<Longrightarrow> \<not> evidence_overflows b es"
  by (auto simp: counted_def evidence_overflows_def exceeds_def counts_def)

lemma bound_reached:
  assumes "i \<le> attempt_bound b authority" "0 < zb_max_attempts b"
  shows "\<not> i < zb_max_attempts b \<or> 0 < i \<and> authority \<noteq> RY_Bounded \<longleftrightarrow> i = attempt_bound b authority"
proof (cases "authority = RY_Bounded")
  case True
  with assms show ?thesis by (auto simp: attempt_bound_def)
next
  case False
  with assms(1) have "unat i \<le> 1" by (simp add: attempt_bound_def word_le_nat_alt)
  then have "unat i = unat (0 :: u64) \<or> unat i = unat (1 :: u64)" by auto
  then have "i = 0 \<or> i = 1" by (simp only: word_unat_eq_iff)
  with False assms show ?thesis by (auto simp: attempt_bound_def)
qed

lemma outcome_step:
  assumes "loop_outcome f b authority (es @ za_evidence a) (i + 1) w1 (if za_candidate_state a = [] then st else za_candidate_state a)
      w' r as"
    and "f w i st = (w1, a)" "goes_on b a" "unat (i + 1) = unat i + 1" "\<not> evidence_overflows b (es @ za_evidence a)"
    "\<not> evidence_overflows b es"
  shows "loop_outcome f b authority es i w st w' r (a # as)"
proof (cases as)
  case Nil
  have "\<not> accepted_by b a" using assms(3) by (simp add: goes_on_def)
  with assms show ?thesis by (auto simp: loop_outcome_def evidence_of_def Nil)
next
  case (Cons c cs)
  have e: "es @ evidence_of (a # xs) = (es @ za_evidence a) @ evidence_of xs" for xs by (simp add: evidence_of_def)
  have bl: "butlast (a # as) = a # butlast as" "last (a # as) = last as" and ne: "as \<noteq> []" by (simp_all add: Cons)
  from assms(1-4) ne show ?thesis unfolding loop_outcome_def bl e by auto
qed

lemma loop_outcomes:
  "zenkai_loop f b authority i w r = (w', r') \<Longrightarrow> within_budget b r \<Longrightarrow> \<not> zr_verified r \<Longrightarrow> zr_attempts r = i \<Longrightarrow>
   0 < zb_max_attempts b \<Longrightarrow> i \<le> attempt_bound b authority \<Longrightarrow> counted b es r \<Longrightarrow>
   \<exists>as. loop_outcome f b authority es i w (zr_final_state r) w' r' as"
proof (induction f b authority i w r arbitrary: es rule: zenkai_loop.induct)
  case (1 f b authority i w r)
  note reached = bound_reached [OF 1(7,6)]
  show ?case
  proof (cases "i = attempt_bound b authority")
    case True
    then have "\<not> i < zb_max_attempts b \<or> 0 < i \<and> authority \<noteq> RY_Bounded" using reached by blast
    then have "\<exists>j x d. w' = w \<and> r' = zenkai_stop b j x d r \<and> x \<noteq> ZS_Verified"
      using 1(2) zenkai_loop.simps [of f b authority i w r] by (auto split: if_splits)
    then have "loop_outcome f b authority es i w (zr_final_state r) w' r' []"
      using 1(3-5) True counted_fits [OF 1(8)] by (auto simp: loop_outcome_def evidence_of_def)
    then show ?thesis ..
  next
    case go: False
    let ?r0 = "zenkai_append_trace (zb_max_trace_entries b) i ''ATTEMPT'' ''attempt started'' r"
    obtain w1 a where f: "f w i (zr_final_state ?r0) = (w1, a)" by fastforce
    obtain stop r1 where a: "zenkai_attempted b i a ?r0 = (stop, r1)" by fastforce
    have r0: "within_budget b ?r0" "\<not> zr_verified ?r0" "counted b es ?r0"
      using 1(3,4,8) by (simp_all add: counted_def)
    note c = attempted_cases [OF a r0]
    have less: "i < attempt_bound b authority" using go 1(7) by simp
    then have n: "i + 1 \<le> attempt_bound b authority" "unat (i + 1) = unat i + 1"
      by (simp_all add: word_add_1_le unat_word_Suc)
    have step: "zenkai_loop f b authority i w r = (if stop then (w1, r1) else zenkai_loop f b authority (i + 1) w1 r1)"
      using go reached f a by (auto simp: zenkai_loop.simps [of f b authority i])
    show ?thesis
    proof (cases stop)
      case True
      with step 1(2) have "w' = w1" "r' = r1" by simp_all
      then have "loop_outcome f b authority es i w (zr_final_state r) w' r' [a]"
        using True c n f 1(5) counted_fits [OF 1(8)]
        by (auto simp: loop_outcome_def evidence_of_def word_le_nat_alt)
      then show ?thesis ..
    next
      case False
      with step 1(2) have "zenkai_loop f b authority (i + 1) w1 r1 = (w', r')" by simp
      moreover have "\<not> zr_verified r1" using c(4,5) False by (simp add: goes_on_def)
      ultimately obtain as where "loop_outcome f b authority (es @ za_evidence a) (i + 1) w1 (zr_final_state r1) w' r' as"
        using 1(1) [OF _ _ refl f [symmetric] a [symmetric] False] go reached c(1-3,7) 1(5,6) n False by auto
      then have "loop_outcome f b authority es i w (zr_final_state r) w' r' (a # as)"
        unfolding c(3) zenkai_append_trace_fields
        by (rule outcome_step) (use f c(5) n False counted_fits [OF c(7) [OF False]] counted_fits [OF 1(8)] in simp_all)
      then show ?thesis ..
    qed
  qed
qed

lemma zenkai_new_bounds [simp]: "0 < zb_max_attempts (zenkai_new b)"
  by (auto simp: zenkai_new_def word_gt_0 max_def)

text \<open>
  C23. The loop is bounded and honest.  Whatever an attempt function does, a run returns a result
  within every budget of evidence, bytes, tool events and trace.  It has called the function at
  least once, no more often than the budget allows, and exactly once when retries are not
  authorized; each call got the state the one before left, and the state after the last is the
  final state.  It went on exactly while attempts were not accepted, not fatal and brought new
  information, the evidence of all attempts fitted its budget and the bound was not reached.  It
  reports \<open>verified\<close> exactly when the last attempt was accepted (it passed its verification with
  the confidence asked for and was not fatal) and the evidence of all attempts fits the budget.
\<close>

theorem zenkai_run_outcome:
  "case zenkai_run b authority f w s of (w', r) \<Rightarrow> run_outcome f (zenkai_new b) authority w s w' r"
proof -
  let ?b = "zenkai_new b" and ?r0 = "zenkai_start s"
  obtain w' r where r: "zenkai_loop f ?b authority 0 w ?r0 = (w', r)" by fastforce
  have "within_budget ?b ?r0" "\<not> zr_verified ?r0" "zr_attempts ?r0 = 0" "counted ?b [] ?r0"
    by (simp_all add: zenkai_start_def within_budget_def counted_def counts_def tool_count_def byte_count_def)
  moreover have "0 < attempt_bound ?b authority" by (simp add: attempt_bound_def)
  ultimately obtain as where "loop_outcome f ?b authority [] 0 w (zr_final_state ?r0) w' r as"
    using loop_outcomes [OF r, of "[]"] by auto
  then have "run_outcome f ?b authority w s w' r"
    using \<open>0 < attempt_bound ?b authority\<close> unfolding loop_outcome_def run_outcome_def
    by (auto simp: zenkai_start_def evidence_of_def intro!: exI [of _ as])
  with r show ?thesis by (simp add: zenkai_run_def)
qed

end
