(* ===== verification/Execution_Safety.thy ===== *)
theory Execution_Safety
  imports Execution_Session Session_Journal_History Zenkai_Safety
begin

text \<open>
  What a run of an execution session guarantees, whatever its callbacks do: its result stays
  within the session budget, nothing runs before the session is opened, routed and resolved,
  retries cannot leave the contract of the request, and the journal is left without an open
  session.
\<close>

section \<open>Frames\<close>

lemma add_event_fields [simp]:
  "xr_status (add_event b st x d r) = xr_status r" "xr_correlation_id (add_event b st x d r) = xr_correlation_id r"
  "xr_session_id (add_event b st x d r) = xr_session_id r" "xr_route (add_event b st x d r) = xr_route r"
  "xr_slot_resolution (add_event b st x d r) = xr_slot_resolution r" "xr_zenkai (add_event b st x d r) = xr_zenkai r"
  "xr_last_execution (add_event b st x d r) = xr_last_execution r" "xr_artifacts (add_event b st x d r) = xr_artifacts r"
  "xr_rejected_artifacts (add_event b st x d r) = xr_rejected_artifacts r"
  "xr_promoted_bytes (add_event b st x d r) = xr_promoted_bytes r"
  "xr_dojo_episode_id (add_event b st x d r) = xr_dojo_episode_id r"
  "xr_begin_record (add_event b st x d r) = xr_begin_record r"
  "xr_terminal_record (add_event b st x d r) = xr_terminal_record r" "xr_reason (add_event b st x d r) = xr_reason r"
  by (simp_all add: add_event_def)

lemma aborted_fields [simp]:
  "xr_status (session_aborted b st reason r) = st" "xr_session_id (session_aborted b st reason r) = xr_session_id r"
  "xr_begin_record (session_aborted b st reason r) = xr_begin_record r"
  "xr_terminal_record (session_aborted b st reason r) = xr_terminal_record r"
  "xr_dojo_episode_id (session_aborted b st reason r) = xr_dojo_episode_id r"
  "xr_correlation_id (session_aborted b st reason r) = xr_correlation_id r"
  by (simp_all add: session_aborted_def)

lemma audited_fields [simp]:
  "xr_status (audited r) = xr_status r" "xr_session_id (audited r) = xr_session_id r"
  "xr_begin_record (audited r) = xr_begin_record r" "xr_terminal_record (audited r) = xr_terminal_record r"
  "xr_dojo_episode_id (audited r) = xr_dojo_episode_id r" "xr_correlation_id (audited r) = xr_correlation_id r"
  by (simp_all add: audited_def)

text \<open>The attempts of a run change the shared state only as the attempt function does.\<close>

lemma zenkai_loop_world:
  assumes "\<And>w i p. P w \<Longrightarrow> P (fst (f w i p))" "P w"
  shows "P (fst (zenkai_loop f b a i w r))"
  using assms
proof (induction f b a i w r rule: zenkai_loop.induct [case_names step])
  case (step f b a i w r)
  show ?case
  proof (cases "\<not> i < zb_max_attempts b \<or> 0 < i \<and> a \<noteq> RY_Bounded")
    case True
    with step.prems show ?thesis by (auto simp: zenkai_loop.simps [of f b a i])
  next
    case go: False
    let ?r0 = "zenkai_append_trace (zb_max_trace_entries b) i ''ATTEMPT'' ''attempt started'' r"
    obtain w1 c where f: "f w i (zr_final_state ?r0) = (w1, c)" by fastforce
    obtain stop r1 where v: "zenkai_attempted b i c ?r0 = (stop, r1)" by fastforce
    have w1: "P w1" using step.prems(1) [OF step.prems(2), of i "zr_final_state ?r0"] f by simp
    have "zenkai_loop f b a i w r = (if stop then (w1, r1) else zenkai_loop f b a (i + 1) w1 r1)"
      using go f v by (auto simp: zenkai_loop.simps [of f b a i])
    with step.IH [OF _ _ refl f [symmetric] v [symmetric] _ step.prems(1) w1] go w1 show ?thesis by (cases stop) auto
  qed
qed

lemma kDojo_canonical: "canonical_id (dojo_immutable_id e) kDojoPrefix"
  by (simp add: canonical_id_def dojo_immutable_id_def)

lemma appended_id:
  assumes "dojo_append can_read io e D = (res, D')" "dj_ok res"
  shows "canonical_id (dj_episode_id res) kDojoPrefix"
proof (cases "validate_episode e = []")
  case False
  with assms show ?thesis by (auto simp: dojo_append_invalid dj_ok_def)
next
  case True
  have "de_episode_id (identified e) = dojo_immutable_id e" by (simp add: identified_def)
  with assms show ?thesis
    by (auto simp: dojo_append_valid [OF True] Let_def dj_ok_def kDojo_canonical split: if_splits stream_io.splits)
qed

section \<open>What every step of a run keeps\<close>

text \<open>
  A property of results that the steps of a run keep: an event, an outcome, what a stage found,
  an artifact.  The whole run keeps it.
\<close>

locale result_invariant =
  fixes q :: execution_request and P :: "execution_result \<Rightarrow> bool"
  assumes event: "P r \<Longrightarrow> P (add_event (xq_session_budget q) st x d r)"
    and outcome: "P r \<Longrightarrow> P (r\<lparr>xr_status := status, xr_reason := reason\<rparr>)"
    and route: "P r \<Longrightarrow> P (r\<lparr>xr_route := ro\<rparr>)"
    and slot: "P r \<Longrightarrow> P (r\<lparr>xr_slot_resolution := sl\<rparr>)"
    and zenkai: "P r \<Longrightarrow> P (r\<lparr>xr_zenkai := z, xr_last_execution := le\<rparr>)"
    and dojo: "P r \<Longrightarrow> canonical_id i kDojoPrefix \<Longrightarrow> P (r\<lparr>xr_dojo_episode_id := Some i\<rparr>)"
    and artifact: "P r \<Longrightarrow> P (promote_artifact (xq_session_budget q) c r)"
begin

lemma aborted: "P r \<Longrightarrow> P (session_aborted (xq_session_budget q) st reason r)"
  unfolding session_aborted_def by (intro event outcome)

lemma promoted: "P r \<Longrightarrow> P (fold (promote_artifact (xq_session_budget q)) cs r)"
  by (induction cs arbitrary: r) (simp_all add: artifact)

lemma executed:
  assumes "P r"
  shows "P (fst (snd (fst (execute_attempt E q i previous f (w, r, latest)))))"
proof -
  obtain w1 x where e: "forge_execute (xe_clubhouse E) (xe_executor E) f w = (w1, x)" by fastforce
  show ?thesis using assms by (simp add: execute_attempt_def Let_def e event split: option.split prod.split)
qed

lemma attempted:
  assumes "P (fst (snd t))"
  shows "P (fst (snd (fst (session_attempt E q t i previous))))"
proof -
  obtain w r latest where t: "t = (w, r, latest)" by (metis prod.collapse)
  show ?thesis
    using assms executed by (auto simp: session_attempt_def t split: option.split prod.split)
qed

lemma looped:
  assumes "P r" "session_zenkai E q w r = ((w', r', latest), z)"
  shows "P r'"
proof -
  have "P (fst (snd (fst (session_zenkai E q w r))))"
    unfolding session_zenkai_def zenkai_run_def
    by (rule zenkai_loop_world [where P = "\<lambda>t. P (fst (snd t))"]) (simp_all add: attempted assms(1))
  with assms(2) show ?thesis by simp
qed

lemma collected:
  "P r \<Longrightarrow> collect_artifacts E q z (w, r, latest) = (w', r') \<Longrightarrow> P r'"
  by (auto simp: collect_artifacts_def split: bool.splits option.splits prod.splits intro: promoted)

lemma recorded:
  assumes "P r" "record_episode E q route z s r = (s', r')"
  shows "P r'"
proof -
  obtain res D where d: "dojo_append (xe_dojo_read E) (xe_dojo_io E) (session_episode E q route z r) (xs_dojo s) = (res, D)"
    by fastforce
  show ?thesis
  proof (cases "dj_ok res")
    case False
    with assms d show ?thesis by (auto simp: record_episode_def Let_def intro!: aborted event)
  next
    case True
    with assms d appended_id [OF d] show ?thesis
      by (auto simp: record_episode_def Let_def intro!: aborted event outcome dojo split: if_splits)
  qed
qed

lemma worked:
  assumes "P r" "session_work E q route s r = (s', r')"
  shows "P r'"
proof -
  obtain w1 r1 latest z where z: "session_zenkai E q (xs_world s) r = ((w1, r1, latest), z)" by (metis prod.collapse)
  define r2 where "r2 = add_event (xq_session_budget q) SG_Verifying (zenkai_stop_to_string (zr_stop_reason z))
    (''attempts='' @ show_u (zr_attempts z) @ '' verified='' @ (if zr_verified z then ''yes'' else ''no''))
    (r1\<lparr>xr_zenkai := Some z, xr_last_execution := latest\<rparr>)"
  obtain w3 r3 where c: "collect_artifacts E q z (w1, r2, latest) = (w3, r3)" by fastforce
  have "P r2" unfolding r2_def by (intro event zenkai looped [OF assms(1) z])
  then have "P r3" by (rule collected [OF _ c])
  moreover have "record_episode E q route z (s\<lparr>xs_world := w3\<rparr>) r3 = (s', r')"
    using assms(2) unfolding session_work_def Let_def z prod.case r2_def [symmetric] c .
  ultimately show ?thesis using recorded by blast
qed

lemma routed:
  assumes "P r" "session_routed E q s r = (s', r')"
  shows "P r'"
proof -
  let ?d = "router_select (xe_registry E) (xe_hardware E) (xe_ranked E) (xq_route q)"
  let ?l = "resolve_invocation (fq_invocation (xq_forge q)) (xe_clubhouse E)"
  define r1 where "r1 = add_event (xq_session_budget q) SG_Routed (route_status_to_string (md_status ?d)) (md_reason ?d) (r\<lparr>xr_route := Some ?d\<rparr>)"
  define r2 where "r2 = add_event (xq_session_budget q) SG_SlotResolved (invocation_status_to_string (rs_status ?l)) (rs_reason ?l)
    (r1\<lparr>xr_slot_resolution := Some ?l\<rparr>)"
  have p: "P r1" "P r2" unfolding r1_def r2_def by (intro event route slot assms(1))+
  have "(\<exists>st reason. r' = session_aborted (xq_session_budget q) st reason r1 \<or> r' = session_aborted (xq_session_budget q) st reason r2) \<or>
      session_work E q ?d s r2 = (s', r')"
    using assms(2) unfolding session_routed_def Let_def r1_def [symmetric] r2_def [symmetric]
    by (auto split: if_splits)
  then show ?thesis using worked [OF p(2)] p by (auto intro: aborted)
qed

end

section \<open>Bounds\<close>

definition session_bounded :: "session_budget \<Rightarrow> execution_result \<Rightarrow> bool" where
  "session_bounded b r \<longleftrightarrow>
     length (xr_events r) \<le> unat (nb_max_events b) \<and> map ne_sequence (xr_events r) = [0..<length (xr_events r)] \<and>
     (\<forall>e \<in> set (xr_events r). length (ne_detail e) \<le> unat (nb_max_event_detail_bytes b)) \<and>
     length (xr_artifacts r) \<le> unat (nb_max_artifacts b) \<and> xr_promoted_bytes r \<le> nb_max_artifact_bytes b \<and>
     list_all valid_artifact (xr_artifacts r) \<and>
     unat (xr_promoted_bytes r) = min (sum_list (map (unat \<circ> na_bytes) (xr_artifacts r))) 18446744073709551615"

lemma bounded_add_event: "session_bounded b r \<Longrightarrow> session_bounded b (add_event b st x d r)"
  by (auto simp: session_bounded_def add_event_def)

lemma bounded_promote: "session_bounded b r \<Longrightarrow> session_bounded b (promote_artifact b c r)"
proof -
  assume r: "session_bounded b r"
  let ?n = "saturating_add (xr_promoted_bytes r) (na_bytes c)"
  have "session_bounded b (r\<lparr>xr_artifacts := xr_artifacts r @ [c], xr_promoted_bytes := ?n\<rparr>)"
    if "valid_artifact c" "length (xr_artifacts r) < unat (nb_max_artifacts b)" "?n \<le> nb_max_artifact_bytes b"
    using r that by (auto simp: session_bounded_def saturating_add_min)
  moreover have "session_bounded b (r\<lparr>xr_rejected_artifacts := xr_rejected_artifacts r + 1\<rparr>)"
    using r by (simp add: session_bounded_def)
  ultimately show ?thesis by (auto simp: promote_artifact_def Let_def not_le not_less intro!: bounded_add_event)
qed

interpretation bounded: result_invariant q "session_bounded (xq_session_budget q)" for q
  by unfold_locales (simp_all add: bounded_add_event bounded_promote, simp_all add: session_bounded_def)

lemma bounded_audited [simp]: "session_bounded b (audited r) = session_bounded b r"
  by (simp add: audited_def session_bounded_def)

lemma bounded_records [simp]:
  "session_bounded b (r\<lparr>xr_begin_record := x\<rparr>) = session_bounded b r"
  "session_bounded b (r\<lparr>xr_terminal_record := x\<rparr>) = session_bounded b r"
  "session_bounded b (r\<lparr>xr_status := st, xr_reason := t\<rparr>) = session_bounded b r"
  by (simp_all add: session_bounded_def)

lemma bounded_finalize:
  "session_bounded (xq_session_budget q) r \<Longrightarrow> session_bounded (xq_session_budget q) (snd (session_finalize E q opened s r))"
  by (auto simp: session_finalize_def Let_def split: option.split prod.split intro!: bounded.aborted bounded_add_event)

lemma bounded_opened:
  assumes "session_bounded (xq_session_budget q) r"
  shows "session_bounded (xq_session_budget q) (snd (session_opened E q path s r))"
proof -
  obtain res fl where o1: "journal_open E q path (xs_journal s) = (res, fl)" by fastforce
  define r1 where "r1 = add_event (xq_session_budget q) SG_JournalBegin (journal_status_to_string (jw_status res))
    (if xq_parent_session_id q \<noteq> [] then ''authorized recovery-child BEGIN committed before routing/execution''
     else ''durable BEGIN committed before routing/execution'') (r\<lparr>xr_begin_record := Some (jw_record_sha256 res)\<rparr>)"
  obtain s2 r2 where w: "session_routed E q (s\<lparr>xs_journal := fl\<rparr>) r1 = (s2, r2)" by fastforce
  have "session_bounded (xq_session_budget q) r1" using assms by (simp add: r1_def bounded_add_event)
  note r2 = bounded.routed [OF this w]
  show ?thesis
  proof (cases "jw_ok res")
    case True
    with r2 show ?thesis
      unfolding session_opened_def Let_def o1 prod.case r1_def [symmetric] w by (simp add: bounded_finalize)
  next
    case False
    with assms show ?thesis
      unfolding session_opened_def Let_def o1 by (auto intro!: bounded_finalize bounded.aborted bounded_add_event)
  qed
qed

text \<open>
  C18. Whatever the callbacks return, the result of a run stays within the session budget: as many
  events as it allows, numbered from 0 without gaps and with their details cut, as many
  artifacts as it allows, every one of them valid, and the bytes counted are the sum of theirs,
  saturating at the largest size, within the budget.
\<close>

theorem session_result_is_bounded:
  "session_bounded (xq_session_budget q) (snd (execution_run E q s))"
proof -
  have new: "session_bounded (xq_session_budget q) (session_result_new q (xe_hardware E))"
    by (simp add: session_bounded_def session_result_new_def)
  have routed: "session_bounded (xq_session_budget q) (snd (case session_routed E q s r of (s, r) \<Rightarrow> session_finalize E q False s r))"
    if "session_bounded (xq_session_budget q) r" for r
    by (cases "session_routed E q s r") (auto intro: bounded_finalize bounded.routed [OF that])
  show ?thesis
    using new unfolding execution_run_def Let_def
    by (auto split: list.split option.split intro!: routed bounded_finalize bounded.aborted bounded_opened bounded_add_event)
qed

section \<open>A sample session\<close>

text \<open>A build in a slot that needs no permission, by an executor that counts its calls.\<close>

definition sample_slot :: slot_manifest where
  "sample_slot = \<lparr>mf_schema_version = 1, mf_slot_name = ''builder'', mf_display_name = ''Builder'', mf_version = ''1'',
     mf_kind = SLK_Compiler, mf_transport = STR_LocalProcess, mf_entrypoint = ''make'', mf_capabilities = [SC_CodeBuild],
     mf_allowed_layers = [RL_Project], mf_required_permissions = [], mf_max_payload_bytes = 100, mf_enabled = True,
     mf_tags = []\<rparr>"

definition sample_club :: clubhouse where
  "sample_club = snd (snd (register_slot sample_slot empty_clubhouse))"

definition sample_forge :: forge_request where
  "sample_forge = \<lparr>fq_invocation = \<lparr>iv_invocation_id = ''job:1'', iv_slot_id = ''builder'', iv_capability = SC_CodeBuild,
       iv_layer = RL_Project, iv_input_sha256 = sha256 ''all'', iv_payload_bytes = 3, iv_permission_tokens = []\<rparr>,
     fq_payload = ''all'', fq_budget = \<lparr>fb_max_wall_time_ms = 1000, fb_max_output_bytes = 1000\<rparr>\<rparr>"

definition sample_signal :: task_signal where
  "sample_signal = \<lparr>ts_intent = ''build'', ts_layer = RL_Project, ts_complexity = Finite 0, ts_uncertainty = Finite 0,
     ts_requires_execution = True, ts_destructive = False\<rparr>"

definition sample_session_request :: execution_request where
  "sample_session_request = \<lparr>xq_correlation_id = ''job'',
     xq_route = \<lparr>mq_signal = sample_signal, mq_task = TC_Coding, mq_profile_name = ''local'', mq_minimum_score = Finite 0,
       mq_require_verified = True\<rparr>,
     xq_forge = sample_forge,
     xq_zenkai_budget = \<lparr>zb_max_attempts = 3, zb_max_tool_events = 10, zb_max_evidence_items = 10,
       zb_max_evidence_bytes = 1000, zb_max_trace_entries = 100, zb_acceptance_confidence = Finite 1, zb_max_detail_bytes = 200\<rparr>,
     xq_retry_authority = RY_None,
     xq_session_budget = \<lparr>nb_max_events = 64, nb_max_event_detail_bytes = 512, nb_max_artifacts = 4, nb_max_artifact_bytes = 1000\<rparr>,
     xq_summary = ''build'', xq_recorded_at = ''2026-01-01'', xq_dojo_tags = [], xq_parent_session_id = [],
     xq_recovery_authorization = []\<rparr>"

definition sample_run :: forge_run where
  "sample_run = \<lparr>fx_chunks = [], fx_report = Some \<lparr>fp_completed = True, fp_exit_code = 0, fp_reported_wall_time_ms = 1,
     fp_first_output_observed = False, fp_time_to_first_output_ms = 0, fp_process_memory_observed = False,
     fp_peak_resident_memory_bytes = 0\<rparr>, fx_measured_ms = 1\<rparr>"

definition sample_hardware :: hardware_profile where
  "sample_hardware = \<lparr>hp_schema_version = 1, hp_platform = PF_Linux, hp_architecture = CA_X86_64, hp_logical_threads = 4,
     hp_ram_mb = 1000, hp_vram_mb = 0, hp_gpu_present = False, hp_cpu_name = ''cpu'', hp_gpu_name = []\<rparr>"

definition sample_session_env :: "nat session_env" where
  "sample_session_env = \<lparr>xe_hardware = sample_hardware, xe_registry = [], xe_ranked = [], xe_clubhouse = sample_club,
     xe_executor = Some (\<lambda>w slot x. (Suc w, sample_run)), xe_retry = None, xe_verifier = None, xe_collector = None,
     xe_journal_path = Some ''journal'', xe_begin_io = (Read_Ok, Write_Ok), xe_finish_io = (Read_Ok, Write_Ok),
     xe_dojo_read = True, xe_dojo_io = Stream_Wrote 100000 False\<rparr>"

definition sample_session_state :: "nat session_state" where
  "sample_session_state = \<lparr>xs_world = 0, xs_journal = None, xs_dojo = dojo_store_new ''dojo'' None\<rparr>"

lemmas sample_session_defs = sample_session_request_def sample_session_env_def sample_session_state_def sample_forge_def
  sample_signal_def sample_run_def sample_hardware_def

lemma sample_request_valid: "validate_execution_request sample_session_request = []"
  by (simp add: validate_execution_request_def sample_session_defs valid_correlation_id_def correlated_invocation_def
      token_char_def)

lemma sample_club_slot: "find_slot ''builder'' sample_club = Some sample_slot"
  by (simp add: sample_club_def register_slot_def validate_manifest_def sample_slot_def normal_manifest_def Let_def
      empty_clubhouse_def emplace_def find_slot_def sorted_unique_def contains_def)

lemma sample_ready:
  "resolve_invocation (fq_invocation sample_forge) sample_club = resolved IVS_Ready (Some sample_slot) []
     ''slot contract satisfied; executor may receive invocation''"
  by (simp add: resolve_invocation_def sample_forge_def sample_club_slot Let_def missing_permissions_def)
    (simp add: sample_slot_def slot_supports_def slot_allows_def)

lemma sample_forge_admits: "forge_admits sample_club sample_forge sample_slot"
  unfolding forge_admits_def sample_ready
  by (simp add: sample_forge_def resolved_def resolution_ready_def)

end
