(* ===== verification/Execution_Contract.thy ===== *)
theory Execution_Contract
  imports Execution_Safety
begin

text \<open>
  When a session may execute at all, and what its executor can be asked to do.
\<close>

section \<open>The executor\<close>

text \<open>The requests that an executor may see in a session: of its correlation and contract, admitted by the forge.\<close>

definition in_contract :: "'w session_env \<Rightarrow> execution_request \<Rightarrow> slot_manifest \<Rightarrow> forge_request \<Rightarrow> bool" where
  "in_contract E q slot x \<longleftrightarrow>
     correlated_invocation (xq_correlation_id q) (iv_invocation_id (fq_invocation x)) \<and>
     same_execution_contract (xq_forge q) x \<and> forge_admits (xe_clubhouse E) x slot"

lemma forge_execute_cong:
  assumes "\<And>slot. forge_admits club x slot \<Longrightarrow> f w slot x = g w slot x"
  shows "forge_execute club (Some f) x w = forge_execute club (Some g) x w"
proof (cases "\<exists>slot. forge_admits club x slot")
  case True
  then obtain slot where a: "forge_admits club x slot" by blast
  with assms show ?thesis by (simp add: forge_execute_def forge_admits_def Let_def)
next
  case False
  then show ?thesis by (auto simp: forge_execute_def forge_admits_def Let_def split: option.split)
qed

lemma executor_frames [simp]:
  "collect_artifacts (E\<lparr>xe_executor := f\<rparr>) = collect_artifacts E"
  "session_episode (E\<lparr>xe_executor := f\<rparr>) = session_episode E"
  "terminal_of (E\<lparr>xe_executor := f\<rparr>) = terminal_of E"
  "begin_of (E\<lparr>xe_executor := f\<rparr>) = begin_of E"
  by (intro ext, simp add: collect_artifacts_def session_episode_def terminal_of_def begin_of_def
      cong: option.case_cong bool.case_cong)+

lemma executor_frames_2 [simp]:
  "record_episode (E\<lparr>xe_executor := f\<rparr>) = record_episode E"
  "session_finalize (E\<lparr>xe_executor := f\<rparr>) = session_finalize E"
  "journal_open (E\<lparr>xe_executor := f\<rparr>) = journal_open E"
  by (intro ext, simp add: record_episode_def session_finalize_def journal_open_def Let_def
      cong: option.case_cong if_cong)+

lemma attempts_agree:
  assumes "\<And>w slot x. in_contract E q slot x \<Longrightarrow> f w slot x = g w slot x"
  shows "session_attempt (E\<lparr>xe_executor := Some f\<rparr>) q = session_attempt (E\<lparr>xe_executor := Some g\<rparr>) q"
proof -
  have "execute_attempt (E\<lparr>xe_executor := Some f\<rparr>) q i p x t = execute_attempt (E\<lparr>xe_executor := Some g\<rparr>) q i p x t" for i p x t
  proof (cases "correlated_invocation (xq_correlation_id q) (iv_invocation_id (fq_invocation x)) \<and>
      same_execution_contract (xq_forge q) x")
    case True
    have "forge_execute (xe_clubhouse E) (Some f) x w = forge_execute (xe_clubhouse E) (Some g) x w" for w
      by (rule forge_execute_cong, rule assms) (simp add: in_contract_def True)
    then show ?thesis by (cases t) (simp add: execute_attempt_def Let_def cong: if_cong option.case_cong)
  next
    case False
    then show ?thesis by (auto simp: execute_attempt_def Let_def split: prod.split)
  qed
  then show ?thesis by (intro ext) (simp add: session_attempt_def cong: if_cong option.case_cong)
qed

lemma routed_agree:
  assumes "\<And>w slot x. in_contract E q slot x \<Longrightarrow> f w slot x = g w slot x"
  shows "session_routed (E\<lparr>xe_executor := Some f\<rparr>) q s r = session_routed (E\<lparr>xe_executor := Some g\<rparr>) q s r"
proof -
  have "session_work (E\<lparr>xe_executor := Some f\<rparr>) q = session_work (E\<lparr>xe_executor := Some g\<rparr>) q"
    by (intro ext) (simp add: session_work_def session_zenkai_def attempts_agree [OF assms])
  then show ?thesis by (simp add: session_routed_def Let_def cong: if_cong)
qed

section \<open>Permission to run\<close>

definition session_route :: "'w session_env \<Rightarrow> execution_request \<Rightarrow> model_route_decision" where
  "session_route E q = router_select (xe_registry E) (xe_hardware E) (xe_ranked E) (xq_route q)"

definition session_may_run :: "'w session_env \<Rightarrow> execution_request \<Rightarrow> string option \<Rightarrow> bool" where
  "session_may_run E q journal \<longleftrightarrow> validate_execution_request q = [] \<and>
     (case xe_journal_path E of
        None \<Rightarrow> xq_parent_session_id q = []
      | Some path \<Rightarrow> jw_ok (fst (journal_open E q path journal))) \<and>
     route_allows_execution (md_status (session_route E q)) \<and>
     resolution_ready (resolve_invocation (fq_invocation (xq_forge q)) (xe_clubhouse E))"

lemma finalize_frame:
  "xs_world (fst (session_finalize E q opened s r)) = xs_world s" "xs_dojo (fst (session_finalize E q opened s r)) = xs_dojo s"
  "xr_last_execution (snd (session_finalize E q opened s r)) = xr_last_execution r"
  "xr_status (snd (session_finalize E q opened s r)) = XS_Completed \<Longrightarrow> xr_status r = XS_Completed"
  by (auto simp: session_finalize_def Let_def audited_def session_aborted_def split: option.splits prod.splits if_splits)

text \<open>A session that has stopped before its work.\<close>

definition untouched :: "'w session_state \<Rightarrow> 'w session_state \<times> execution_result \<Rightarrow> bool" where
  "untouched s out \<longleftrightarrow> xs_world (fst out) = xs_world s \<and> xs_dojo (fst out) = xs_dojo s \<and>
     xr_last_execution (snd out) = None \<and> xr_status (snd out) \<noteq> XS_Completed"

lemma untouched_finalize:
  "xs_world t = xs_world s \<Longrightarrow> xs_dojo t = xs_dojo s \<Longrightarrow> xr_last_execution r = None \<Longrightarrow> xr_status r \<noteq> XS_Completed \<Longrightarrow>
   untouched s (session_finalize E q opened t r)"
  using finalize_frame [of E q opened t r] by (auto simp: untouched_def)

lemma stopped_route:
  assumes "\<not> (route_allows_execution (md_status (session_route E q)) \<and>
     resolution_ready (resolve_invocation (fq_invocation (xq_forge q)) (xe_clubhouse E)))" "xr_last_execution r = None"
  shows "untouched t (session_routed E q t r) \<and> fst (session_routed E q t r) = t"
  using assms by (auto simp: session_routed_def session_route_def Let_def untouched_def session_aborted_def)

lemma untouched_run:
  assumes "\<not> session_may_run E q (xs_journal s)"
  shows "untouched s (execution_run E q s)"
proof (cases "validate_execution_request q")
  case (Cons m ms)
  then show ?thesis
    by (simp add: execution_run_def Let_def) (rule untouched_finalize; simp add: session_result_new_def session_aborted_def)
next
  case Nil
  let ?ready = "route_allows_execution (md_status (session_route E q)) \<and>
     resolution_ready (resolve_invocation (fq_invocation (xq_forge q)) (xe_clubhouse E))"
  have final: "untouched s (case session_routed E q t r of (t', r') \<Rightarrow> session_finalize E q opened t' r')"
    if "\<not> ?ready" "xr_last_execution r = None" "xs_world t = xs_world s" "xs_dojo t = xs_dojo s" for t r opened
    using stopped_route [OF that(1,2), of t] that(3,4)
    by (cases "session_routed E q t r") (auto simp: untouched_def finalize_frame(1-3) dest: finalize_frame(4))
  show ?thesis
  proof (cases "xe_journal_path E")
    case None
    show ?thesis
    proof (cases "xq_parent_session_id q = []")
      case False
      with Nil None show ?thesis
        by (simp add: execution_run_def Let_def) (rule untouched_finalize; simp add: session_result_new_def session_aborted_def)
    next
      case True
      with assms Nil None have "\<not> ?ready" by (simp add: session_may_run_def)
      with Nil None True show ?thesis
        unfolding execution_run_def Let_def by (auto simp: session_result_new_def intro!: final)
    qed
  next
    case (Some path)
    obtain res fl where o1: "journal_open E q path (xs_journal s) = (res, fl)" by fastforce
    define r where "r = add_event (xq_session_budget q) SG_Created ''SESSION_CREATED''
      (if xq_parent_session_id q \<noteq> [] then ''fresh recovery-child transaction accepted'' else ''correlated transaction accepted'')
      (session_result_new q (xe_hardware E))"
    have run: "execution_run E q s = session_opened E q path s r"
      using Nil Some by (simp add: execution_run_def Let_def r_def)
    have r: "xr_last_execution r = None" by (simp add: r_def session_result_new_def)
    show ?thesis
    proof (cases "jw_ok res")
      case False
      then show ?thesis
        unfolding run session_opened_def Let_def o1 by (simp add: r session_aborted_def untouched_finalize)
    next
      case True
      with assms Nil Some o1 have "\<not> ?ready" by (simp add: session_may_run_def)
      with True show ?thesis
        unfolding run session_opened_def Let_def o1 by (auto simp: r intro!: final)
    qed
  qed
qed

text \<open>
  C11. No callback is called and nothing is stored in the dojo unless the request is valid, the
  journal (when there is one) has recorded the BEGIN of the session, the route allows the
  execution and the slot's contract is satisfied; and then the session is not completed.
\<close>

theorem session_runs_only_when_permitted:
  assumes "\<not> session_may_run E q (xs_journal s)"
  shows "untouched s (execution_run E q s)"
  by (rule untouched_run [OF assms])

theorem session_runs_only_when_permitted_witness:
  "untouched sample_session_state (execution_run sample_session_env
     (sample_session_request\<lparr>xq_route := (xq_route sample_session_request)\<lparr>mq_signal := sample_signal
        \<lparr>ts_destructive := True, ts_uncertainty := Finite (1 / 2)\<rparr>\<rparr>\<rparr>) sample_session_state)"
proof (rule session_runs_only_when_permitted)
  let ?q = "sample_session_request\<lparr>xq_route := (xq_route sample_session_request)\<lparr>mq_signal := sample_signal
        \<lparr>ts_destructive := True, ts_uncertainty := Finite (1 / 2)\<rparr>\<rparr>\<rparr>"
  have "md_status (session_route sample_session_env ?q) = MR_HumanReviewRequired"
    by (simp add: session_route_def router_select_def router_start_def caddy_route_def sample_session_defs router_stop_def Let_def
        std_clamp_def f_geq_def lit_020_def lit_025_def lit_035_def)
  then show "\<not> session_may_run sample_session_env ?q (xs_journal sample_session_state)"
    by (simp add: session_may_run_def route_allows_execution_def)
qed

text \<open>
  C17. An executor is only ever asked for what the session was opened for: two executors that
  agree on the requests that carry the session's correlation, name its slot, capability and
  layer, and pass the forge and the slot's contract, give the same run, whatever the retry
  planner proposes.
\<close>

theorem retries_stay_in_the_contract:
  assumes "\<And>w slot x. in_contract E q slot x \<Longrightarrow> f w slot x = g w slot x"
  shows "execution_run (E\<lparr>xe_executor := Some f\<rparr>) q s = execution_run (E\<lparr>xe_executor := Some g\<rparr>) q s"
proof -
  note agree = routed_agree [OF assms]
  show ?thesis
    by (simp add: execution_run_def session_opened_def Let_def agree cong: if_cong option.case_cong list.case_cong)
qed

theorem retries_stay_in_the_contract_witness:
  "execution_run (sample_session_env\<lparr>xe_executor := Some (\<lambda>w slot x. (Suc w, sample_run))\<rparr>) sample_session_request sample_session_state =
   execution_run (sample_session_env\<lparr>xe_executor := Some (\<lambda>w slot x.
       if iv_slot_id (fq_invocation x) = ''builder'' then (Suc w, sample_run) else (w + 100, sample_run))\<rparr>)
     sample_session_request sample_session_state"
  by (rule retries_stay_in_the_contract)
    (auto simp: in_contract_def same_execution_contract_def sample_session_request_def sample_forge_def)

section \<open>The sample session runs\<close>

lemma sample_routes: "md_status (session_route sample_session_env sample_session_request) = MR_DeterministicPreferred"
  by (simp add: session_route_def router_select_def router_start_def caddy_route_def sample_session_defs router_stop_def Let_def
      std_clamp_def f_geq_def lit_020_def lit_025_def lit_035_def)

definition sample_forge_result :: forge_result where
  "sample_forge_result = snd (forge_execute sample_club (xe_executor sample_session_env) sample_forge 0)"

lemma sample_execution:
  "forge_execute sample_club (xe_executor sample_session_env) sample_forge w = (Suc w, sample_forge_result)"
  "fr_status sample_forge_result = FS_Completed"
  "fr_evidence sample_forge_result = [\<lparr>ze_kind = EK_Build, ze_source = ''builder:CODE_BUILD'', ze_passed = True,
     ze_detail = ''status=COMPLETED exit=0 wall_ms=1 output_bytes=0''\<rparr>]"
proof -
  have a: "resolution_ready (resolve_invocation (fq_invocation sample_forge) sample_club)"
     "rs_slot (resolve_invocation (fq_invocation sample_forge) sample_club) = Some sample_slot"
    using sample_forge_admits by (simp_all add: forge_admits_def)
  have e: "show_int 0 = ''0''" "show_u (1 :: u64) = ''1''" "show_u (0 :: u64) = ''0''" by code_simp+
  show x: "forge_execute sample_club (xe_executor sample_session_env) sample_forge w = (Suc w, sample_forge_result)" for w
    using a sample_forge_admits by (simp add: sample_forge_result_def forge_execute_def forge_admits_def sample_session_env_def Let_def)
      (simp add: sample_run_def Let_def)
  show "fr_status sample_forge_result = FS_Completed"
   "fr_evidence sample_forge_result = [\<lparr>ze_kind = EK_Build, ze_source = ''builder:CODE_BUILD'', ze_passed = True,
     ze_detail = ''status=COMPLETED exit=0 wall_ms=1 output_bytes=0''\<rparr>]"
    using a sample_forge_admits
    by (simp_all add: sample_forge_result_def forge_execute_def forge_admits_def sample_session_env_def Let_def)
      (simp_all add: sample_run_def forge_judge_def forge_measured_def sink_writes_def sink_new_def forge_start_def
        append_execution_evidence_def evidence_detail_def sample_forge_def sample_slot_def forge_evidence_kind_def e Let_def)
qed


lemma sample_attempt:
  obtains r1 cand where "session_attempt sample_session_env sample_session_request (w, r, latest) 0 p =
    ((Suc w, r1, Some sample_forge_result), \<lparr>za_candidate_state = cand, za_evidence = fr_evidence sample_forge_result,
       za_verification = \<lparr>vo_passed = True, vo_confidence = Finite 1, vo_summary = fr_reason sample_forge_result\<rparr>,
       za_new_information = (cand \<noteq> p), za_fatal = False\<rparr>)"
proof -
  have c: "correlated_invocation (xq_correlation_id sample_session_request) (iv_invocation_id (fq_invocation sample_forge))"
    "same_execution_contract (xq_forge sample_session_request) sample_forge" "xq_forge sample_session_request = sample_forge"
    "xe_clubhouse sample_session_env = sample_club" "xe_verifier sample_session_env = None"
    by (simp_all add: sample_session_defs correlated_invocation_def same_execution_contract_def)
  show thesis
    using that c by (simp add: session_attempt_def execute_attempt_def sample_execution Let_def forge_succeeded_def)
qed

lemma sample_zenkai:
  obtains r1 z where "session_zenkai sample_session_env sample_session_request w r = ((Suc w, r1, Some sample_forge_result), z)"
    "zr_verified z"
proof -
  let ?p = "kExecutionPrefix @ sha256 (xr_session_id r)"
  let ?b = "zenkai_new (xq_zenkai_budget sample_session_request)"
  have b: "zb_max_attempts ?b = 3" "zb_max_tool_events ?b = 10" "zb_max_evidence_items ?b = 10" "zb_max_evidence_bytes ?b = 1000"
    "zb_max_trace_entries ?b = 100" "zb_acceptance_confidence ?b = Finite 1" "zb_max_detail_bytes ?b = 200"
    by (simp_all add: zenkai_new_def sample_session_request_def std_clamp_def)
  obtain r1 cand where a: "session_attempt sample_session_env sample_session_request (w, r, None) 0 ?p =
    ((Suc w, r1, Some sample_forge_result), \<lparr>za_candidate_state = cand, za_evidence = fr_evidence sample_forge_result,
       za_verification = \<lparr>vo_passed = True, vo_confidence = Finite 1, vo_summary = fr_reason sample_forge_result\<rparr>,
       za_new_information = (cand \<noteq> ?p), za_fatal = False\<rparr>)" using sample_attempt by blast
  define c where "c = \<lparr>za_candidate_state = cand, za_evidence = fr_evidence sample_forge_result,
       za_verification = \<lparr>vo_passed = True, vo_confidence = Finite 1, vo_summary = fr_reason sample_forge_result\<rparr>,
       za_new_information = (cand \<noteq> ?p), za_fatal = False\<rparr>"
  define r0 where "r0 = zenkai_append_trace 100 0 ''ATTEMPT'' ''attempt started'' (zenkai_start ?p)"
  have r0: "zr_attempts r0 = 0" "zr_tool_events r0 = 0" "zr_evidence_items r0 = 0" "zr_evidence_bytes r0 = 0" "zr_final_state r0 = ?p"
    by (simp_all add: r0_def zenkai_start_def)
  have "\<exists>z. zenkai_attempted ?b 0 c r0 = (True, z) \<and> zr_verified z"
    by (simp add: zenkai_attempted_def c_def sample_execution(3) cap_evidence_def evidence_bytes_def b r0 Let_def
        zenkai_verdict_def std_clamp_def f_geq_def)
  then obtain z where z: "zenkai_attempted ?b 0 c r0 = (True, z)" "zr_verified z" by blast
  have "session_zenkai sample_session_env sample_session_request w r = ((Suc w, r1, Some sample_forge_result), z)"
    unfolding session_zenkai_def zenkai_run_def
    by (subst zenkai_loop.simps) (simp add: b r0_def [symmetric] r0 a c_def [symmetric] z Let_def)
  with z(2) that show thesis by blast
qed


end
