(* ===== verification/Execution_Journal.thy ===== *)
theory Execution_Journal
  imports Execution_Contract
begin

text \<open>
  An execution session and its journal: what a run that begins writes, that it leaves no session
  open, and what a completed run has recorded.
\<close>

section \<open>One record\<close>

lemma records_after:
  assumes "sound_file file" "append_journal_record path io r file = (res, file')" "jw_ok res"
    and "record_fits r (scan_journal Read_Ok file)"
  shows "file_records file' = file_records file @ [seal_journal_record r]"
proof -
  let ?q = "seal_journal_record r"
  have r: "journal_writable r" "journal_rejection ?q = None" using assms(4) by (simp_all add: record_fits_def)
  note q = journal_sealed(1) [OF r(1)] journal_sealed(2) [of r]
  let ?l = "serialize_journal_record ?q"
  have len: "length ?l \<le> kMaxJournalLine" using append_outcome(1) [OF assms(2)] assms(3) by simp
  have "terminated file" using assms(1) by (simp add: sound_file_def)
  then have "file_lines file' = file_lines file @ [?l]"
    using getlines_append_terminated [of "file_bytes file" "?l @ [NL]"] getlines_Cons [OF journal_line_no_NL [OF q(1)], of "[]"]
    by (simp add: append_outcome(2) [OF assms(2,3)] file_lines_bytes terminated_def)
  then show ?thesis
    by (simp add: file_records_def line_records_def strip_shaped [OF journal_shaped [OF q]] read_written_record [OF q(1) len] r(2))
qed

lemma failed_append:
  assumes "sound_file file" "append_journal_record path io r file = (res, file')" "\<not> jw_ok res" "clean_io io"
  shows "sound_file file' \<and> scan_journal Read_Ok file' = scan_journal Read_Ok file"
proof -
  have "file' = file \<or> file' = file_append file []" using append_outcome(3) [OF assms(2,3,4)] .
  moreover have "scan_journal Read_Ok (file_append file []) = scan_journal Read_Ok file"
  proof -
    have "run_lines session_step (file_lines (file_append file [])) session_scan_start = Some (scan_journal Read_Ok file)"
      using assms(1) scan_journal_healthy [of Read_Ok "file"] by (simp add: sound_file_def file_lines_bytes)
    then show ?thesis using scan_journal_accepted by blast
  qed
  ultimately show ?thesis using assms(1) sound_append_nothing by auto
qed

text \<open>A BEGIN, of either kind, writes its record or leaves the journal as it was.\<close>

lemma open_call:
  assumes "sound_file file" "xe_begin_io E = (Read_Ok, io)" "journal_open E q path file = (res, file')"
  shows "(jw_ok res \<longrightarrow> validate_begin (begin_of E q) = [] \<and> jb_session_id (begin_of E q) \<notin> set (sj_seen (scan_journal Read_Ok file)) \<and>
      append_journal_record path io (begin_record (begin_of E q) (scan_journal Read_Ok file)) file = (res, file')) \<and>
    (\<not> jw_ok res \<longrightarrow> file' = file \<or> (\<exists>r. append_journal_record path io r file = (res, file')))"
  using assms(2,3)
  by (auto simp: journal_open_def session_begin_def begin_recovery_child_def Let_def jw_ok_def jw_fail_def split: if_splits)

lemma opened_journal:
  assumes "sound_file file" "xe_begin_io E = (Read_Ok, io)" "journal_open E q path file = (res, file')" "jw_ok res"
  defines "b \<equiv> seal_journal_record (begin_record (begin_of E q) (scan_journal Read_Ok file))"
  shows "sound_file file'" "file_records file' = file_records file @ [b]"
    "sj_open (scan_journal Read_Ok file') = map_emplace (execution_session_id q (xe_hardware E)) b (sj_open (scan_journal Read_Ok file))"
    "execution_session_id q (xe_hardware E) \<notin> set (sj_seen (scan_journal Read_Ok file))"
proof -
  let ?s = "scan_journal Read_Ok file"
  note o1 = open_call [OF assms(1-3), THEN conjunct1, rule_format, OF assms(4)]
  have h: "sj_healthy ?s" using assms(1) by (simp add: sound_file_def)
  have app: "append_journal_record path io (begin_record (begin_of E q) ?s) file = (res, file')" using o1 by blast
  have fits: "record_fits (begin_record (begin_of E q) ?s) ?s" using apply_begin_fits [OF h] o1 by blast
  from scan_after [OF assms(1) app assms(4) fits] obtain u where
    u: "sound_file file'" "apply_journal_record b ?s = Inr u" "scan_journal Read_Ok file' = advance_session b u"
    unfolding b_def by blast
  show "sound_file file'" by (rule u(1))
  show "file_records file' = file_records file @ [b]" unfolding b_def by (rule records_after [OF assms(1) app assms(4) fits])
  show "execution_session_id q (xe_hardware E) \<notin> set (sj_seen ?s)" using o1 by (simp add: begin_of_def)
  have "jn_kind b = JK_Begin" "jn_session_id b = execution_session_id q (xe_hardware E)"
    by (simp_all add: b_def begin_record_def begin_of_def)
  with u(2) show "sj_open (scan_journal Read_Ok file') = map_emplace (execution_session_id q (xe_hardware E)) b (sj_open ?s)"
    by (auto simp: u(3) advance_session_def apply_journal_record_def apply_begin_def split: if_splits)
qed

lemma short_terminal_line:
  assumes "validate_terminal t = []" "sj_healthy (scan_journal rio file)"
  shows "length (serialize_journal_record (seal_journal_record (terminal_record t (scan_journal rio file)))) \<le> kMaxJournalLine"
  using assms(1) scanned_head [OF assms(2)] prefixed_length [of kDojoPrefix "jt_dojo_episode_id t"]
  by (intro short_journal_line)
    (auto simp: terminal_record_def validate_terminal_def valid_correlation_def valid_recorded_at_def is_sha256_def
      session_id_length canonical_id_def kDojoPrefix_def)

lemma finished_journal:
  assumes "sound_file file" "validate_terminal t = []" "session_finish path Read_Ok io t file = (res, file')"
    "map_of (sj_open (scan_journal Read_Ok file)) (jt_session_id t) = Some b" "jn_correlation_id b = jt_correlation_id t"
    "jn_request_sha256 b = jt_request_sha256 t"
  shows "path \<noteq> [] \<Longrightarrow> io = Write_Ok \<Longrightarrow> jw_ok res"
    "jw_ok res \<Longrightarrow> sound_file file' \<and>
       file_records file' = file_records file @ [seal_journal_record (terminal_record t (scan_journal Read_Ok file))] \<and>
       sj_open (scan_journal Read_Ok file') = map_erase (jt_session_id t) (sj_open (scan_journal Read_Ok file))"
proof -
  let ?s = "scan_journal Read_Ok file" and ?r = "terminal_record t (scan_journal Read_Ok file)"
  have h: "sj_healthy ?s" using assms(1) by (simp add: sound_file_def)
  have app: "append_journal_record path io ?r file = (res, file')"
    using assms(2-6) h by (simp add: session_finish_def Let_def)
  have fits: "record_fits ?r ?s" by (rule apply_finish_fits [OF h assms(2,4-6)])
  show "path \<noteq> [] \<Longrightarrow> io = Write_Ok \<Longrightarrow> jw_ok res"
    using append_outcome(1) [OF app] short_terminal_line [OF assms(2) h] by simp
  assume ok: "jw_ok res"
  from scan_after [OF assms(1) app ok fits] obtain u where
    u: "sound_file file'" "apply_journal_record (seal_journal_record ?r) ?s = Inr u"
      "scan_journal Read_Ok file' = advance_session (seal_journal_record ?r) u" by blast
  have "jt_kind t = JK_Commit \<or> jt_kind t = JK_Abort" using assms(2) by (auto simp: validate_terminal_def)
  with u(2) assms(4) have "sj_open (scan_journal Read_Ok file') = map_erase (jt_session_id t) (sj_open ?s)"
    by (auto simp: u(3) advance_session_def apply_journal_record_def apply_terminal_def terminal_record_def split: if_splits)
  with u(1) records_after [OF assms(1) app ok fits] show "sound_file file' \<and>
       file_records file' = file_records file @ [seal_journal_record ?r] \<and>
       sj_open (scan_journal Read_Ok file') = map_erase (jt_session_id t) (sj_open ?s)" by blast
qed

section \<open>What a run does to its result\<close>

definition session_frame :: "execution_result \<Rightarrow> execution_result \<Rightarrow> bool" where
  "session_frame r0 r \<longleftrightarrow> xr_session_id r = xr_session_id r0 \<and> xr_begin_record r = xr_begin_record r0 \<and>
     xr_terminal_record r = xr_terminal_record r0 \<and>
     (case xr_dojo_episode_id r of None \<Rightarrow> True | Some i \<Rightarrow> xr_dojo_episode_id r0 = Some i \<or> canonical_id i kDojoPrefix)"

interpretation frame: result_invariant q "session_frame r0" for q r0
  by unfold_locales (auto simp: session_frame_def promote_artifact_def Let_def)

lemma session_frame_refl [simp]: "session_frame r r"
  by (simp add: session_frame_def split: option.split)

lemma record_journal: "record_episode E q route z s r = (s', r') \<Longrightarrow> xs_journal s' = xs_journal s"
  by (auto simp: record_episode_def Let_def split: prod.splits if_splits)

lemma work_journal: "session_work E q route s r = (s', r') \<Longrightarrow> xs_journal s' = xs_journal s"
  by (auto simp: session_work_def Let_def split: prod.splits dest: record_journal)

lemma routed_journal: "session_routed E q s r = (s', r') \<Longrightarrow> xs_journal s' = xs_journal s"
  by (auto simp: session_routed_def Let_def split: if_splits dest: work_journal)

lemma promote_zenkai: "xr_zenkai (fold (promote_artifact b) cs r) = xr_zenkai r"
  by (induction cs arbitrary: r) (simp_all add: promote_artifact_def Let_def)

lemma collect_zenkai: "xr_zenkai (snd (collect_artifacts E q z (w, r, latest))) = xr_zenkai r"
  by (auto simp: collect_artifacts_def promote_zenkai split: bool.split option.split prod.split)

text \<open>A routed run that completes has stored a verified episode.\<close>

definition stored_episode :: "'w session_env \<Rightarrow> 'w session_state \<Rightarrow> 'w session_state \<Rightarrow> execution_result \<Rightarrow> bool" where
  "stored_episode E s s' r \<longleftrightarrow> (\<exists>e res. dojo_append (xe_dojo_read E) (xe_dojo_io E) e (xs_dojo s) = (res, xs_dojo s') \<and>
     dj_ok res \<and> de_verified e \<and> xr_dojo_episode_id r = Some (dj_episode_id res))"

lemma record_completed:
  assumes "record_episode E q route z s r = (s', r')" "xr_status r' = XS_Completed"
  shows "stored_episode E s s' r'" "zr_verified z" "xr_zenkai r' = xr_zenkai r"
proof -
  obtain res D where d: "dojo_append (xe_dojo_read E) (xe_dojo_io E) (session_episode E q route z r) (xs_dojo s) = (res, D)"
    by fastforce
  have v: "dj_ok res" "zr_verified z" and rest: "xs_dojo s' = D" "xr_dojo_episode_id r' = Some (dj_episode_id res)"
    "xr_zenkai r' = xr_zenkai r"
    using assms d by (auto simp: record_episode_def Let_def split: if_splits)
  have "de_verified (session_episode E q route z r)"
    using v(2) by (simp add: session_episode_def make_dojo_episode_def unnamed_episode_def Let_def)
  with d v rest show "stored_episode E s s' r'" unfolding stored_episode_def by blast
  show "zr_verified z" "xr_zenkai r' = xr_zenkai r" by (fact v(2) rest(3))+
qed

lemma work_completed:
  assumes "session_work E q route s r = (s', r')" "xr_status r' = XS_Completed"
  shows "stored_episode E s s' r' \<and> session_succeeded r'"
proof -
  obtain w1 r1 latest z where z: "session_zenkai E q (xs_world s) r = ((w1, r1, latest), z)" by (metis prod.collapse)
  define r2 where "r2 = add_event (xq_session_budget q) SG_Verifying (zenkai_stop_to_string (zr_stop_reason z))
    (''attempts='' @ show_u (zr_attempts z) @ '' verified='' @ (if zr_verified z then ''yes'' else ''no''))
    (r1\<lparr>xr_zenkai := Some z, xr_last_execution := latest\<rparr>)"
  obtain w3 r3 where c: "collect_artifacts E q z (w1, r2, latest) = (w3, r3)" by fastforce
  have "record_episode E q route z (s\<lparr>xs_world := w3\<rparr>) r3 = (s', r')"
    using assms(1) unfolding session_work_def Let_def z prod.case r2_def [symmetric] c .
  note d = record_completed [OF this assms(2)]
  have "xr_zenkai r3 = Some z" using collect_zenkai [of E q z w1 r2 latest] c by (simp add: r2_def)
  with d assms(2) show ?thesis by (simp add: session_succeeded_def stored_episode_def)
qed

lemma routed_completed:
  assumes "session_routed E q s r = (s', r')" "xr_status r' = XS_Completed"
  shows "stored_episode E s s' r' \<and> session_succeeded r'"
  using assms by (auto simp: session_routed_def Let_def split: if_splits dest: work_completed)

text \<open>
  What an acknowledged append has done to the dojo file.  The stream is not flushed before the
  answer, so the file has gained the bytes that the stream has passed on; when these are the
  whole line and the file ended in complete lines, the episode is its new last line and is read
  back as it was given.
\<close>

definition acknowledged_episode :: "stream_io \<Rightarrow> dojo_episode \<Rightarrow> string option \<Rightarrow> string option \<Rightarrow> bool" where
  "acknowledged_episode io i file file' \<longleftrightarrow> (\<exists>n. io = Stream_Wrote n False \<and>
     file' = file_append file (take n (dojo_serialize i @ [NL])) \<and>
     (terminated file \<and> length (dojo_serialize i) < n \<longrightarrow>
        file_lines file' = file_lines file @ [dojo_serialize i] \<and> dojo_deserialize (dojo_serialize i) = Inr i))"

lemma append_acknowledged:
  assumes "dojo_append can_read io e D = (res, D')" "dj_ok res"
  shows "stored_form (identified e) \<and> dj_episode_id res = de_episode_id (identified e) \<and>
    acknowledged_episode io (identified e) (ds_file D) (ds_file D')"
proof -
  let ?i = "identified e"
  have v: "validate_episode e = []" using assms by (auto simp: dojo_append_def dj_ok_def Let_def split: if_splits)
  note form = stored_form_identified [OF v]
  obtain n where n: "io = Stream_Wrote n False" "dj_episode_id res = de_episode_id ?i"
    "ds_file D' = file_append (ds_file D) (take n (dojo_serialize ?i @ [NL]))"
    using assms unfolding dojo_append_valid [OF v] Let_def
    by (auto simp: dj_ok_def split: if_splits stream_io.splits)
  have "file_lines (ds_file D') = file_lines (ds_file D) @ [dojo_serialize ?i]"
    if "terminated (ds_file D)" "length (dojo_serialize ?i) < n"
    using that getlines_append_terminated [of "file_bytes (ds_file D)" "dojo_serialize ?i @ [NL]"]
      getlines_Cons [of "dojo_serialize ?i" "[]"] dojo_serialize_no_NL [of ?i] form
    by (simp add: n(3) file_lines_bytes terminated_def stored_form_def)
  with n form show ?thesis unfolding acknowledged_episode_def by (auto simp: dojo_deserialize_serialize)
qed

lemma identified_verified [simp]: "de_verified (identified e) = de_verified e"
  by (simp add: identified_def)

lemma stored_acknowledged:
  assumes "stored_episode E s s' r"
  obtains i where "stored_form i" "de_verified i" "xr_dojo_episode_id r = Some (de_episode_id i)"
    "acknowledged_episode (xe_dojo_io E) i (ds_file (xs_dojo s)) (ds_file (xs_dojo s'))"
proof -
  from assms obtain e res where e: "dojo_append (xe_dojo_read E) (xe_dojo_io E) e (xs_dojo s) = (res, xs_dojo s')" "dj_ok res"
    "de_verified e" "xr_dojo_episode_id r = Some (dj_episode_id res)"
    unfolding stored_episode_def by blast
  from append_acknowledged [OF e(1,2)] e(3,4) that [of "identified e"] show thesis by simp
qed

text \<open>The three ways a run with a journal can go.\<close>

lemma journal_run_cases:
  assumes "xe_journal_path E = Some path" "execution_run E q s = (s', r')"
  obtains
    (refused) "validate_execution_request q \<noteq> []" "xs_journal s' = xs_journal s" "xr_status r' \<noteq> XS_Completed"
  | (unopened) res where "journal_open E q path (xs_journal s) = (res, xs_journal s')" "\<not> jw_ok res" "xr_status r' \<noteq> XS_Completed"
  | (opened) res s2 r1 r2 where "journal_open E q path (xs_journal s) = (res, xs_journal s2)" "jw_ok res"
      "session_frame r1 r2" "xr_session_id r1 = execution_session_id q (xe_hardware E)" "xr_dojo_episode_id r1 = None"
      "xr_status r2 = XS_Completed \<Longrightarrow> stored_episode E s s2 r2 \<and> session_succeeded r2"
      "session_routed E q (s\<lparr>xs_journal := xs_journal s2\<rparr>) r1 = (s2, r2)" "session_finalize E q True s2 r2 = (s', r')"
proof (cases "validate_execution_request q")
  case (Cons m ms)
  with assms show ?thesis
    by (intro refused) (auto simp: execution_run_def Let_def session_finalize_def)
next
  case Nil
  obtain res fl where o1: "journal_open E q path (xs_journal s) = (res, fl)" by fastforce
  define r0 where "r0 = add_event (xq_session_budget q) SG_Created ''SESSION_CREATED''
    (if xq_parent_session_id q \<noteq> [] then ''fresh recovery-child transaction accepted'' else ''correlated transaction accepted'')
    (session_result_new q (xe_hardware E))"
  have run: "session_opened E q path s r0 = (s', r')"
    using Nil assms by (simp add: execution_run_def Let_def r0_def)
  show ?thesis
  proof (cases "jw_ok res")
    case False
    have j: "xs_journal s' = fl" "xr_status r' = XS_JournalStoreFailed"
      using run False assms(1) by (auto simp: session_opened_def Let_def o1 session_finalize_def)
    show ?thesis by (rule unopened [of res]) (use o1 False j in simp_all)
  next
    case True
    define r1 where "r1 = add_event (xq_session_budget q) SG_JournalBegin (journal_status_to_string (jw_status res))
      (if xq_parent_session_id q \<noteq> [] then ''authorized recovery-child BEGIN committed before routing/execution''
       else ''durable BEGIN committed before routing/execution'') (r0\<lparr>xr_begin_record := Some (jw_record_sha256 res)\<rparr>)"
    obtain s2 r2 where w: "session_routed E q (s\<lparr>xs_journal := fl\<rparr>) r1 = (s2, r2)" by fastforce
    have fin: "session_finalize E q True s2 r2 = (s', r')"
      using run True unfolding session_opened_def Let_def o1 prod.case r1_def [symmetric] w by simp
    have "xr_status r2 = XS_Completed \<Longrightarrow> stored_episode E s s2 r2 \<and> session_succeeded r2"
      using routed_completed [OF w] by (simp add: stored_episode_def)
    moreover have "xs_journal s2 = fl" using routed_journal [OF w] by simp
    ultimately show ?thesis
      using o1 True frame.routed [OF session_frame_refl w] w fin
      by (intro opened [of res s2 r1 r2]) (simp_all add: r1_def r0_def session_result_new_def)
  qed
qed

section \<open>The end of a run\<close>

lemma status_text_length [simp]: "session_status_to_text st \<noteq> []" "\<not> 128 < length (session_status_to_text st)"
  by (cases st; simp)+

lemma terminal_valid:
  assumes "validate_begin (begin_of E q) = []" "xr_session_id r = execution_session_id q (xe_hardware E)"
    "xr_dojo_episode_id r = None \<or> (\<exists>i. xr_dojo_episode_id r = Some i \<and> canonical_id i kDojoPrefix)"
    "is_sha256 (xr_audit_sha256 r)"
  shows "validate_terminal (terminal_of E q r) = []"
  using assms by (auto simp: validate_terminal_def terminal_of_def validate_begin_def begin_of_def)

lemma audit_ignores [simp]:
  "audit_digest (r\<lparr>xr_terminal_record := x\<rparr>) = audit_digest r" "audit_digest (r\<lparr>xr_audit_sha256 := a\<rparr>) = audit_digest r"
  by (simp_all add: audit_digest_def audit_payload_def)

lemma map_erase_emplace: "k \<notin> fst ` set m \<Longrightarrow> map_erase k (map_emplace k v m) = m"
  by (induction k v m rule: map_emplace.induct) (auto simp: map_erase_def filter_id_conv image_iff)

text \<open>The journal after a run that has opened its session.\<close>

lemma opened_run_ends:
  assumes "sound_file (xs_journal s)" "xe_journal_path E = Some path"
    "xe_begin_io E = (Read_Ok, io)" "fst (xe_finish_io E) = Read_Ok"
    "journal_open E q path (xs_journal s) = (res, xs_journal s2)" "jw_ok res" "session_frame r1 r2"
    "xr_session_id r1 = execution_session_id q (xe_hardware E)" "xr_dojo_episode_id r1 = None"
    "session_finalize E q True s2 r2 = (s', r')"
  obtains b c tres where
    "snd (xe_finish_io E) = Write_Ok \<Longrightarrow> path \<noteq> [] \<Longrightarrow> jw_ok tres"
    "\<not> jw_ok tres \<Longrightarrow> xr_status r' = XS_JournalStoreFailed"
    "jw_ok tres \<Longrightarrow> sound_file (xs_journal s') \<and>
       file_records (xs_journal s') = file_records (xs_journal s) @ [b, c] \<and>
       sj_open (scan_journal Read_Ok (xs_journal s')) = sj_open (scan_journal Read_Ok (xs_journal s)) \<and>
       is_begin b \<and> jn_session_id b = xr_session_id r' \<and> jn_request_sha256 b = execution_request_sha256 q (xe_hardware E) \<and>
       jn_kind c = (if xr_status r' = XS_Completed then JK_Commit else JK_Abort) \<and> jn_session_id c = xr_session_id r' \<and>
       jn_request_sha256 c = execution_request_sha256 q (xe_hardware E) \<and> jn_audit_sha256 c = audit_digest r' \<and>
       xr_status r' = xr_status r2 \<and> xr_dojo_episode_id r' = xr_dojo_episode_id r2 \<and> xr_zenkai r' = xr_zenkai r2 \<and>
       jn_dojo_episode_id c = (case xr_dojo_episode_id r' of None \<Rightarrow> [] | Some i \<Rightarrow> i)"
proof -
  let ?id = "execution_session_id q (xe_hardware E)" and ?s0 = "scan_journal Read_Ok (xs_journal s)"
  define b where "b = seal_journal_record (begin_record (begin_of E q) ?s0)"
  note j = opened_journal [OF assms(1,3,5,6), folded b_def]
  have vb: "validate_begin (begin_of E q) = []" using open_call [OF assms(1,3,5)] assms(6) by blast
  define kind where "kind = (if xr_status r2 = XS_Completed then JK_Commit else JK_Abort)"
  define r3 where "r3 = audited (add_event (xq_session_budget q) SG_JournalTerminal (journal_kind_to_string kind)
    ''terminal journal record requested after audit freeze'' r2)"
  define t where "t = terminal_of E q r3"
  obtain tres fl where f: "session_finish path Read_Ok (snd (xe_finish_io E)) t (xs_journal s2) = (tres, fl)" by fastforce
  have fin: "(s', r') = (if jw_ok tres then (s2\<lparr>xs_journal := fl\<rparr>, r3\<lparr>xr_terminal_record := Some (jw_record_sha256 tres)\<rparr>)
      else (s2\<lparr>xs_journal := fl\<rparr>, audited (session_aborted (xq_session_budget q) XS_JournalStoreFailed
        (first_error (jw_errors tres) ''transaction journal failed to append terminal record'') r3)))"
    using assms(10) unfolding session_finalize_def assms(2,4) option.case if_True Let_def kind_def [symmetric] r3_def [symmetric]
      t_def [symmetric] f prod.case by (simp split: if_splits)
  have r3: "xr_session_id r3 = ?id" "xr_status r3 = xr_status r2" "xr_dojo_episode_id r3 = xr_dojo_episode_id r2"
    "xr_zenkai r3 = xr_zenkai r2" "xr_audit_sha256 r3 = audit_digest r3" "is_sha256 (xr_audit_sha256 r3)"
    using assms(7,8) by (simp_all add: r3_def audited_def session_frame_def) (simp add: audit_digest_def)
  have "xr_dojo_episode_id r3 = None \<or> (\<exists>i. xr_dojo_episode_id r3 = Some i \<and> canonical_id i kDojoPrefix)"
    using assms(7,9) by (auto simp: r3(3) session_frame_def split: option.splits)
  note tv = terminal_valid [OF vb r3(1) this r3(6), folded t_def]
  have tf: "jt_session_id t = ?id" "jt_correlation_id t = xq_correlation_id q"
    "jt_request_sha256 t = execution_request_sha256 q (xe_hardware E)" "jt_audit_sha256 t = audit_digest r3"
    "jt_kind t = kind" "jt_dojo_episode_id t = (case xr_dojo_episode_id r2 of None \<Rightarrow> [] | Some i \<Rightarrow> i)"
    using r3 by (simp_all add: t_def terminal_of_def kind_def)
  have new: "?id \<notin> fst ` set (sj_open ?s0)"
    using log_open_seen [OF scanned_log] j(4) assms(1) by (metis domIff dom_map_of_conv_image_fst sound_file_def)
  have b: "jn_correlation_id b = xq_correlation_id q" "jn_request_sha256 b = execution_request_sha256 q (xe_hardware E)"
    "jn_session_id b = ?id" "is_begin b"
    by (simp_all add: b_def seal_journal_record_def begin_record_def begin_of_def is_begin_def)
  have "map_of (sj_open (scan_journal Read_Ok (xs_journal s2))) (jt_session_id t) = Some b"
    using map_emplace_lookup [of "sj_open ?s0" ?id b] new by (simp add: j(3) tf map_of_eq_None_iff)
  note fj = finished_journal [OF j(1) tv f this]
  show thesis
  proof (rule that [of tres b "seal_journal_record (terminal_record t (scan_journal Read_Ok (xs_journal s2)))"])
    show "jw_ok tres" if "snd (xe_finish_io E) = Write_Ok" "path \<noteq> []" using fj(1) that b tf by simp
    show "xr_status r' = XS_JournalStoreFailed" if "\<not> jw_ok tres" using fin that by simp
  qed (use fin fj(2) b tf r3 j(2,3) map_erase_emplace [OF new] in
      \<open>simp_all add: kind_def terminal_record_def seal_journal_record_def\<close>)
qed

section \<open>Runs end in the journal\<close>

text \<open>
  C12. A run never leaves its session open: whatever its callbacks do and however it ends, when the
  journal was sound, no write of its BEGIN is torn and its terminal record can be written, the
  journal is healthy afterwards and lists the same interrupted sessions as before.
\<close>

theorem session_run_leaves_no_open_session:
  assumes "jp_healthy (journal_inspect Read_Ok (xs_journal s)) \<and> terminated (xs_journal s)"
    and "xe_journal_path E = Some path" "path \<noteq> []"
    and "xe_begin_io E = (Read_Ok, io)" "clean_io io" "xe_finish_io E = (Read_Ok, Write_Ok)"
  shows "jp_healthy (journal_inspect Read_Ok (xs_journal (fst (execution_run E q s)))) \<and>
    jp_interrupted (journal_inspect Read_Ok (xs_journal (fst (execution_run E q s)))) =
      jp_interrupted (journal_inspect Read_Ok (xs_journal s))"
proof -
  have sound: "sound_file (xs_journal s)" using assms(1) by (simp add: sound_file_def journal_inspect_def Let_def)
  obtain s' r' where run: "execution_run E q s = (s', r')" by fastforce
  have "sound_file (xs_journal s') \<and>
      sj_open (scan_journal Read_Ok (xs_journal s')) = sj_open (scan_journal Read_Ok (xs_journal s))"
  proof (cases rule: journal_run_cases [OF assms(2) run, case_names refused unopened opened])
    case refused
    with sound show ?thesis by simp
  next
    case (unopened res)
    from open_call [OF sound assms(4) unopened(1)] unopened(2)
    consider "xs_journal s' = xs_journal s" | r where "append_journal_record path io r (xs_journal s) = (res, xs_journal s')" by blast
    then show ?thesis
    proof cases
      case 2
      from failed_append [OF sound 2 unopened(2) assms(5)] show ?thesis by simp
    qed (simp add: sound)
  next
    case (opened res s2 r1 r2)
    obtain b c tres where "snd (xe_finish_io E) = Write_Ok \<Longrightarrow> path \<noteq> [] \<Longrightarrow> jw_ok tres"
      "jw_ok tres \<Longrightarrow> sound_file (xs_journal s') \<and>
         sj_open (scan_journal Read_Ok (xs_journal s')) = sj_open (scan_journal Read_Ok (xs_journal s))"
      by (rule opened_run_ends [OF sound assms(2,4) _ opened(1-5) opened(8)]) (use assms(6) in auto)
    with assms(3,6) show ?thesis by simp
  qed
  then show ?thesis by (simp add: run sound_file_def journal_inspect_def Let_def)
qed

text \<open>
  C13. A run that reports completion has succeeded and is on record: the journal has grown by its
  BEGIN and by a COMMIT with the same session and request, and the COMMIT carries the audit digest
  of the very result that is returned and the identity of a valid, verified episode whose append
  the dojo acknowledged.  The dojo file has gained exactly what the stream passed on of that
  episode's line; if that was the whole line and the file ended in complete lines, the episode is
  the last line of the file and is read back as it was given.  (The code does not flush the
  stream before it answers, so an acknowledged line can still be lost.)
\<close>

theorem completed_session_is_recorded:
  assumes "jp_healthy (journal_inspect Read_Ok (xs_journal s)) \<and> terminated (xs_journal s)"
    and "xe_journal_path E = Some path" "xe_begin_io E = (Read_Ok, io)" "fst (xe_finish_io E) = Read_Ok"
    and "execution_run E q s = (s', r)" "xr_status r = XS_Completed"
  shows "\<exists>b c i. file_records (xs_journal s') = file_records (xs_journal s) @ [b, c] \<and>
    is_begin b \<and> jn_kind c = JK_Commit \<and> jn_session_id b = xr_session_id r \<and> jn_session_id c = xr_session_id r \<and>
    jn_request_sha256 b = execution_request_sha256 q (xe_hardware E) \<and> jn_request_sha256 c = jn_request_sha256 b \<and>
    jn_audit_sha256 c = audit_digest r \<and> xr_dojo_episode_id r = Some (jn_dojo_episode_id c) \<and>
    stored_form i \<and> de_verified i \<and> de_episode_id i = jn_dojo_episode_id c \<and>
    acknowledged_episode (xe_dojo_io E) i (ds_file (xs_dojo s)) (ds_file (xs_dojo s')) \<and>
    stored_episode E s s' r \<and> session_succeeded r"
proof -
  have sound: "sound_file (xs_journal s)" using assms(1) by (simp add: sound_file_def journal_inspect_def Let_def)
  show ?thesis
  proof (cases rule: journal_run_cases [OF assms(2,5), case_names refused unopened opened])
    case (opened res s2 r1 r2)
    obtain b c tres where n: "\<not> jw_ok tres \<Longrightarrow> xr_status r = XS_JournalStoreFailed"
      and t: "jw_ok tres \<Longrightarrow> file_records (xs_journal s') = file_records (xs_journal s) @ [b, c] \<and>
         is_begin b \<and> jn_session_id b = xr_session_id r \<and> jn_request_sha256 b = execution_request_sha256 q (xe_hardware E) \<and>
         jn_kind c = (if xr_status r = XS_Completed then JK_Commit else JK_Abort) \<and> jn_session_id c = xr_session_id r \<and>
         jn_request_sha256 c = execution_request_sha256 q (xe_hardware E) \<and> jn_audit_sha256 c = audit_digest r \<and>
         xr_status r = xr_status r2 \<and> xr_dojo_episode_id r = xr_dojo_episode_id r2 \<and> xr_zenkai r = xr_zenkai r2 \<and>
         jn_dojo_episode_id c = (case xr_dojo_episode_id r of None \<Rightarrow> [] | Some i \<Rightarrow> i)"
      by (rule opened_run_ends [OF sound assms(2,3,4) opened(1-5) opened(8)]) auto
    have ok: "jw_ok tres" using n assms(6) by auto
    from t [OF ok] assms(6) have t: "file_records (xs_journal s') = file_records (xs_journal s) @ [b, c]"
      "is_begin b" "jn_session_id b = xr_session_id r" "jn_request_sha256 b = execution_request_sha256 q (xe_hardware E)"
      "jn_kind c = JK_Commit" "jn_session_id c = xr_session_id r"
      "jn_request_sha256 c = execution_request_sha256 q (xe_hardware E)" "jn_audit_sha256 c = audit_digest r"
      "xr_status r2 = XS_Completed" "xr_dojo_episode_id r = xr_dojo_episode_id r2" "xr_zenkai r = xr_zenkai r2"
      "jn_dojo_episode_id c = (case xr_dojo_episode_id r of None \<Rightarrow> [] | Some i \<Rightarrow> i)"
      by simp_all
    from opened(6) [OF t(9)] have e: "stored_episode E s s2 r2" "session_succeeded r2" by blast+
    have "xs_dojo s' = xs_dojo s2" using finalize_frame(2) [of E q True s2 r2] opened(8) by simp
    then have "stored_episode E s s' r" using e(1) t(10) by (simp add: stored_episode_def)
    moreover have "session_succeeded r" using e(2) t(9,11) assms(6) by (simp add: session_succeeded_def)
    moreover obtain i where "stored_form i" "de_verified i" "xr_dojo_episode_id r = Some (de_episode_id i)"
      "acknowledged_episode (xe_dojo_io E) i (ds_file (xs_dojo s)) (ds_file (xs_dojo s'))"
      by (rule stored_acknowledged [OF \<open>stored_episode E s s' r\<close>])
    ultimately show ?thesis using t by (intro exI [of _ b] exI [of _ c] exI [of _ i]) simp
  qed (use assms(6) in auto)
qed

section \<open>The sample session is recorded\<close>

lemma sample_opens: "jw_ok (fst (journal_open sample_session_env sample_session_request ''journal'' None))"
proof -
  let ?b = "begin_of sample_session_env sample_session_request"
  have v: "validate_begin ?b = []"
    by (simp add: validate_begin_def begin_of_def canonical_id_def execution_session_id_def execution_request_sha256_def Let_def
        valid_correlation_def valid_recorded_at_def token_char_def) (simp add: sample_session_defs token_char_def)
  have s: "scan_journal Read_Ok None = session_scan_start" "sj_healthy session_scan_start"
    by (simp_all add: scan_journal_def session_scan_start_def)
  have "jw_ok (fst (append_journal_record ''journal'' Write_Ok (begin_record ?b session_scan_start) None))"
    using append_outcome(1) [OF surjective_pairing] short_begin_line [OF v, of Read_Ok None] s by simp
  with v s show ?thesis
    by (simp add: journal_open_def session_begin_def sample_session_env_def sample_session_request_def Let_def)
      (simp add: session_scan_start_def)
qed

lemma sample_episode_stored:
  assumes "validate_episode e = []"
  shows "dj_ok (fst (dojo_append True (Stream_Wrote n False) e (dojo_store_new path None)))"
  by (simp add: dojo_append_valid [OF assms] dojo_store_new_def file_lines_def Let_def dj_ok_def)

lemma hardware_id_canonical: "prefixed_sha256 kHardwarePrefix (hardware_immutable_id h)"
proof -
  have "hardware_immutable_id h = kHardwarePrefix @ sha256 (hardware_canonical_payload h)"
    by (simp add: hardware_immutable_id_def kHardwarePrefix_def)
  then show ?thesis by simp
qed

lemma sample_routed:
  assumes "xs_dojo s = dojo_store_new ''dojo'' None"
  shows "xr_status (snd (session_routed sample_session_env sample_session_request s r)) = XS_Completed"
proof -
  let ?E = sample_session_env and ?q = sample_session_request
  define d where "d = session_route ?E ?q"
  have d: "router_select (xe_registry ?E) (xe_hardware ?E) (xe_ranked ?E) (xq_route ?q) = d" "md_status d = MR_DeterministicPreferred"
    using sample_routes by (simp_all add: d_def session_route_def)
  have dm: "md_selected_model_id d = None"
    by (simp add: d_def session_route_def router_select_def router_start_def caddy_route_def sample_session_defs router_stop_def Let_def
      std_clamp_def f_geq_def lit_020_def lit_025_def lit_035_def)
  have e: "xq_forge ?q = sample_forge" "xe_clubhouse ?E = sample_club" "xe_collector ?E = None" "xe_dojo_read ?E = True"
    "xe_dojo_io ?E = Stream_Wrote 100000 False" by (simp_all add: sample_session_defs)
  have v: "validate_episode (session_episode ?E ?q d z r') = []" for z r'
    using d(2) dm
    by (simp add: session_episode_def made_episode hardware_id_canonical)
      (simp add: sample_session_defs session_tags_def kMaxTags_def)
  have rec: "xr_status (snd (record_episode ?E ?q d z t r')) = XS_Completed"
    if "zr_verified z" "xs_dojo t = dojo_store_new ''dojo'' None" for z t r'
    using that sample_episode_stored [OF v] by (auto simp: record_episode_def Let_def e split: prod.split) (metis fst_conv)
  have "xr_status (snd (session_work ?E ?q d s r')) = XS_Completed" for r'
  proof -
    obtain r1 z where z: "session_zenkai ?E ?q (xs_world s) r' = ((Suc (xs_world s), r1, Some sample_forge_result), z)" "zr_verified z"
      by (rule sample_zenkai)
    show ?thesis
      by (simp add: session_work_def z Let_def collect_artifacts_def e) (rule rec; simp add: z assms(1))
  qed
  then show ?thesis
    by (simp add: session_routed_def d Let_def route_allows_execution_def e sample_ready resolution_ready_def resolved_def)
qed

lemma sample_session_completes:
  obtains s' r where "execution_run sample_session_env sample_session_request sample_session_state = (s', r)" "xr_status r = XS_Completed"
proof -
  let ?E = sample_session_env and ?q = sample_session_request and ?s = sample_session_state
  obtain s' r where run: "execution_run ?E ?q ?s = (s', r)" by fastforce
  have e: "xe_journal_path ?E = Some ''journal''" "xe_begin_io ?E = (Read_Ok, Write_Ok)" "xe_finish_io ?E = (Read_Ok, Write_Ok)"
    "xs_journal ?s = None" "xs_dojo ?s = dojo_store_new ''dojo'' None"
    by (simp_all add: sample_session_defs)
  show thesis
  proof (cases rule: journal_run_cases [OF e(1) run, case_names refused unopened opened])
    case refused
    with sample_request_valid show ?thesis by simp
  next
    case (unopened res)
    with sample_opens show ?thesis by (simp add: e)
  next
    case (opened res s2 r1 r2)
    have fin: "xr_status r2 = XS_Completed"
      using sample_routed [of "?s\<lparr>xs_journal := xs_journal s2\<rparr>" r1] opened(7) by (simp add: e)
    obtain tres where "jw_ok tres" "jw_ok tres \<Longrightarrow> xr_status r = xr_status r2"
      by (rule opened_run_ends [OF _ e(1,2) _ opened(1-5) opened(8)]) (use sound_start in \<open>auto simp: e\<close>)
    with fin that run show ?thesis by simp
  qed
qed

theorem session_run_leaves_no_open_session_witness:
  "jp_interrupted (journal_inspect Read_Ok (xs_journal (fst (execution_run sample_session_env sample_session_request
     sample_session_state)))) = []"
proof -
  have "jp_healthy (journal_inspect Read_Ok None)" "jp_interrupted (journal_inspect Read_Ok None) = []" "terminated None"
    by (simp_all add: journal_inspect_def scan_journal_def session_scan_start_def terminated_def file_bytes_def Let_def)
  then show ?thesis
    using session_run_leaves_no_open_session [of sample_session_state sample_session_env "''journal''" Write_Ok sample_session_request]
    by (simp add: sample_session_env_def sample_session_state_def clean_io_def)
qed

theorem completed_session_is_recorded_witness:
  "\<exists>s' r b c i. execution_run sample_session_env sample_session_request sample_session_state = (s', r) \<and>
     file_records (xs_journal s') = [b, c] \<and> is_begin b \<and> jn_kind c = JK_Commit \<and> jn_audit_sha256 c = audit_digest r \<and>
     acknowledged_episode (Stream_Wrote 100000 False) i None (ds_file (xs_dojo s'))"
proof -
  obtain s' r where run: "execution_run sample_session_env sample_session_request sample_session_state = (s', r)"
    "xr_status r = XS_Completed" by (rule sample_session_completes)
  have j: "jp_healthy (journal_inspect Read_Ok None) \<and> terminated None" "file_records None = []"
    by (simp_all add: journal_inspect_def scan_journal_def session_scan_start_def terminated_def file_bytes_def Let_def
        file_records_def file_lines_def line_records_def)
  have "\<exists>b c i. file_records (xs_journal s') = file_records (xs_journal sample_session_state) @ [b, c] \<and>
      is_begin b \<and> jn_kind c = JK_Commit \<and> jn_session_id b = xr_session_id r \<and> jn_session_id c = xr_session_id r \<and>
      jn_request_sha256 b = execution_request_sha256 sample_session_request (xe_hardware sample_session_env) \<and>
      jn_request_sha256 c = jn_request_sha256 b \<and> jn_audit_sha256 c = audit_digest r \<and>
      xr_dojo_episode_id r = Some (jn_dojo_episode_id c) \<and>
      stored_form i \<and> de_verified i \<and> de_episode_id i = jn_dojo_episode_id c \<and>
      acknowledged_episode (xe_dojo_io sample_session_env) i (ds_file (xs_dojo sample_session_state)) (ds_file (xs_dojo s')) \<and>
      stored_episode sample_session_env sample_session_state s' r \<and> session_succeeded r"
    by (rule completed_session_is_recorded [OF _ _ _ _ run, of "''journal''" Write_Ok])
      (use j(1) in \<open>simp_all add: sample_session_env_def sample_session_state_def\<close>)
  moreover have "xe_dojo_io sample_session_env = Stream_Wrote 100000 False" "ds_file (xs_dojo sample_session_state) = None"
    by (simp_all add: sample_session_env_def sample_session_state_def dojo_store_new_def)
  ultimately show ?thesis using run j(2) by (auto simp: sample_session_state_def)
qed

end
