(* ===== verification/Execution_Dojo.thy ===== *)
theory Execution_Dojo
  imports Execution_Journal Dojo_Store
begin

text \<open>
  Where the bounds of a session request and those of the dojo do not meet: a request that a
  session accepts can lose the tags that tie it to its recovery, or be refused by the dojo only
  after it has been executed.
\<close>

text \<open>With 28 tags of the caller, as many as a request may have, the lineage of a recovery child is cut off.\<close>

lemma lineage_tags_are_dropped:
  assumes "length (xq_dojo_tags q) = 28"
  shows "de_tags (session_episode E q d z r) = map (take kMaxTagBytes)
    (xq_dojo_tags q @ [''correlation:'' @ xq_correlation_id q, ''session:'' @ xr_session_id r,
      ''artifacts:'' @ nat_digits (length (xr_artifacts r)), ''artifact-rejections:'' @ show_u (xr_rejected_artifacts r)])"
  using assms by (simp add: session_episode_def make_dojo_episode_def unnamed_episode_def session_tags_def kMaxTags_def Let_def)

text \<open>
  A request may name its profile in any number of bytes, an episode in 256: beyond that the
  attempts run, and then the dojo refuses the episode.
\<close>

lemma long_profile_fails_after_execution:
  assumes "256 < length (mq_profile_name (xq_route q))"
  shows "xr_status (snd (session_work E q d s r)) = XS_DojoStoreFailed"
proof -
  have "validate_episode (session_episode E q d z r') \<noteq> []" for z r'
    using assms by (simp add: session_episode_def make_dojo_episode_def unnamed_episode_def validate_episode_def Let_def)
  then show ?thesis
    by (auto simp: session_work_def record_episode_def dojo_append_def dj_ok_def session_aborted_def add_event_def Let_def split: prod.split)
qed

lemma profile_length_is_not_validated:
  assumes "validate_execution_request q = []" "name \<noteq> []"
  shows "validate_execution_request (q\<lparr>xq_route := (xq_route q)\<lparr>mq_profile_name := name\<rparr>\<rparr>) = []"
  using assms by (auto simp: validate_execution_request_def Let_def)

end
