(* ===== verification/Recovery_Protocol.thy ===== *)
theory Recovery_Protocol
  imports Execution_Journal Authority_Gate_Samples
begin

text \<open>
  The two places where the authority gate stands in front of execution sessions:
  \<open>AuthorityGatedExecutionSession::run\<close> (\<open>src/authority_gate.cpp\<close>), before a destructive session,
  and \<open>RecoveryDecisionProtocol::decide\<close> (\<open>include/guff/recovery_protocol.hpp\<close>,
  \<open>src/recovery_protocol.cpp\<close>), before an interrupted session is dismissed or retried.
\<close>

section \<open>Destructive sessions\<close>

definition lines_joined :: "string list \<Rightarrow> string" where
  "lines_joined ls = lines_text (butlast ls) @ last ls"

definition destructive_execution_scope_sha256 :: "execution_request \<Rightarrow> hardware_profile \<Rightarrow> string" where
  "destructive_execution_scope_sha256 q h =
     (let iv = fq_invocation (xq_forge q) in
      sha256 (lines_joined
        [execution_session_id q h, execution_request_sha256 q h, iv_slot_id iv, show_u (capability_code (iv_capability iv)),
         show_u (layer_code (iv_layer iv)), iv_input_sha256 iv, show_u (iv_payload_bytes iv)]))"

text \<open>The wrapper passes the executor on and no other callback.\<close>

definition executor_only :: "'w session_env \<Rightarrow> 'w session_env" where
  "executor_only E = E\<lparr>xe_retry := None, xe_verifier := None, xe_collector := None\<rparr>"

definition gate_open :: authority_gate_result where
  "gate_open = \<lparr>ag_status = AGS_Allowed, ag_ledger_status = ALS_Allowed, ag_receipt_id = [], ag_use_count = 0, ag_errors = []\<rparr>"

definition gated_session_run ::
    "authority_verifier \<Rightarrow> u64 \<Rightarrow> io \<Rightarrow> 'w session_env \<Rightarrow> execution_request \<Rightarrow> authority_receipt option \<Rightarrow> authority_ledger \<Rightarrow>
     'w session_state \<Rightarrow> (authority_gate_result \<times> execution_result option) \<times> authority_ledger \<times> 'w session_state" where
  "gated_session_run v now io E q receipt A s =
     (if ts_destructive (mq_signal (xq_route q)) then
        (case gate_authorize v now io receipt DestructiveExecution (execution_session_id q (xe_hardware E))
                (destructive_execution_scope_sha256 q (xe_hardware E)) [] A of
           (authority, A') \<Rightarrow>
             if \<not> ag_ok authority then ((authority, None), A', s)
             else (case execution_run (executor_only E) q s of (s', r) \<Rightarrow> ((authority, Some r), A', s')))
      else (case execution_run (executor_only E) q s of (s', r) \<Rightarrow> ((gate_open, Some r), A, s')))"

definition gated_executed :: "authority_gate_result \<times> execution_result option \<Rightarrow> bool" where
  "gated_executed g \<longleftrightarrow> snd g \<noteq> None"

section \<open>Recovery: data\<close>

datatype recovery_decision = RD_Dismiss | RD_RetryAsNewSession

datatype recovery_status =
  RX_Dismissed | RX_RetryPrepared | RX_AuthorizationRequired | RX_ParentNotInterrupted | RX_IdentityReuse
| RX_Invalid | RX_JournalError

record recovery_authorization =
  ra_decision :: recovery_decision
  ra_parent_session_id :: string
  ra_parent_begin_record :: string
  ra_child_correlation_id :: string
  ra_child_retry_authority :: retry_authority
  ra_receipt :: "authority_receipt option"

record recovery_result =
  rz_status :: recovery_status
  rz_authorization_id :: string
  rz_authorization_sha256 :: string
  rz_child_request :: "execution_request option"
  rz_errors :: "string list"

definition rz_ok :: "recovery_result \<Rightarrow> bool" where
  "rz_ok r \<longleftrightarrow> rz_status r = RX_Dismissed \<or> rz_status r = RX_RetryPrepared"

fun recovery_decision_code :: "recovery_decision \<Rightarrow> u32" where
  "recovery_decision_code RD_Dismiss = 0"
| "recovery_decision_code RD_RetryAsNewSession = 1"

fun recovery_decision_to_string :: "recovery_decision \<Rightarrow> string" where
  "recovery_decision_to_string RD_Dismiss = ''DISMISS''"
| "recovery_decision_to_string RD_RetryAsNewSession = ''RETRY_AS_NEW_SESSION''"

fun recovery_status_to_string :: "recovery_status \<Rightarrow> string" where
  "recovery_status_to_string RX_Dismissed = ''DISMISSED''"
| "recovery_status_to_string RX_RetryPrepared = ''RETRY_PREPARED''"
| "recovery_status_to_string RX_AuthorizationRequired = ''AUTHORIZATION_REQUIRED''"
| "recovery_status_to_string RX_ParentNotInterrupted = ''PARENT_NOT_INTERRUPTED''"
| "recovery_status_to_string RX_IdentityReuse = ''IDENTITY_REUSE''"
| "recovery_status_to_string RX_Invalid = ''INVALID''"
| "recovery_status_to_string RX_JournalError = ''JOURNAL_ERROR''"

section \<open>Recovery: the decision\<close>

definition validate_authorization :: "recovery_authorization \<Rightarrow> string list" where
  "validate_authorization a =
     err (\<not> canonical_session_id (ra_parent_session_id a)) ''parent_session_id must be canonical'' @
     err (\<not> is_sha256 (ra_parent_begin_record a)) ''parent_begin_record_sha256 must be SHA-256'' @
     (if ra_decision a = RD_Dismiss
      then err (ra_child_correlation_id a \<noteq> []) ''DISMISS cannot contain a child correlation id'' @
           err (ra_child_retry_authority a \<noteq> RY_None) ''DISMISS cannot grant child retry authority''
      else err (\<not> valid_correlation_id (ra_child_correlation_id a))
             ''RETRY_AS_NEW_SESSION requires a fresh child correlation id'')"

definition recovery_authority_scope_sha256 :: "recovery_authorization \<Rightarrow> string" where
  "recovery_authority_scope_sha256 a =
     sha256 (lines_joined
       [show_u (recovery_decision_code (ra_decision a)), ra_parent_session_id a, ra_parent_begin_record a,
        ra_child_correlation_id a, show_u (retry_authority_code (ra_child_retry_authority a))])"

definition recovery_authorization_sha256 :: "recovery_authorization \<Rightarrow> string" where
  "recovery_authorization_sha256 a =
     sha256 (recovery_authority_scope_sha256 a @ [NL] @ (case ra_receipt a of None \<Rightarrow> [] | Some r \<Rightarrow> receipt_id r))"

definition kAuthorizationPrefix :: string where "kAuthorizationPrefix = ''guff:recovery-auth:sha256:''"

definition recovery_authorization_id :: "recovery_authorization \<Rightarrow> string" where
  "recovery_authorization_id a = kAuthorizationPrefix @ recovery_authorization_sha256 a"

definition recovery_fail :: "recovery_status \<Rightarrow> string list \<Rightarrow> recovery_result" where
  "recovery_fail st errors = \<lparr>rz_status = st, rz_authorization_id = [], rz_authorization_sha256 = [],
     rz_child_request = None, rz_errors = errors\<rparr>"

definition interrupted_parent :: "recovery_authorization \<Rightarrow> interrupted_session \<Rightarrow> bool" where
  "interrupted_parent a x \<longleftrightarrow> jx_session_id x = ra_parent_session_id a \<and> jx_begin_record_sha256 x = ra_parent_begin_record a"

definition recovery_of :: "recovery_authorization \<Rightarrow> interrupted_session \<Rightarrow> string \<Rightarrow> journal_recovery" where
  "recovery_of a x recorded_at =
     \<lparr>jv_kind = (if ra_decision a = RD_Dismiss then JK_RecoveryDismiss else JK_RecoveryRetry),
      jv_session_id = jx_session_id x, jv_correlation_id = jx_correlation_id x, jv_request_sha256 = jx_request_sha256 x,
      jv_begin_record_sha256 = jx_begin_record_sha256 x, jv_authorization_sha256 = recovery_authorization_sha256 a,
      jv_child_correlation_id = ra_child_correlation_id a, jv_recorded_at = recorded_at\<rparr>"

definition recovery_child :: "recovery_authorization \<Rightarrow> string \<Rightarrow> execution_request \<Rightarrow> execution_request" where
  "recovery_child a receipt child =
     child\<lparr>xq_correlation_id := ra_child_correlation_id a,
           xq_forge := (xq_forge child)\<lparr>fq_invocation := (fq_invocation (xq_forge child))
             \<lparr>iv_invocation_id := ra_child_correlation_id a @ '':attempt:0''\<rparr>\<rparr>,
           xq_retry_authority := ra_child_retry_authority a,
           xq_parent_session_id := ra_parent_session_id a,
           xq_recovery_authorization := recovery_authorization_sha256 a,
           xq_dojo_tags := xq_dojo_tags child @ [''recovery-decision:retry-as-new-session'', ''authority-receipt:'' @ receipt]\<rparr>"

text \<open>After the gate has let the decision pass.\<close>

definition recovery_apply ::
    "string \<Rightarrow> read_io \<Rightarrow> io \<Rightarrow> recovery_authorization \<Rightarrow> execution_request option \<Rightarrow> interrupted_session \<Rightarrow> string \<Rightarrow> string \<Rightarrow>
     string option \<Rightarrow> recovery_result \<times> string option" where
  "recovery_apply path rio io a template x recorded_at receipt file =
     (let result = \<lparr>rz_status = RX_Invalid, rz_authorization_id = recovery_authorization_id a,
            rz_authorization_sha256 = recovery_authorization_sha256 a, rz_child_request = None, rz_errors = []\<rparr> in
      case session_recover path rio io (recovery_of a x recorded_at) file of
        (res, file') \<Rightarrow>
          (if \<not> jw_ok res
           then result\<lparr>rz_status := (if jw_status res = JS_RecoveryNotAuthorized then RX_AuthorizationRequired else RX_JournalError),
                       rz_errors := jw_errors res\<rparr>
           else if ra_decision a = RD_Dismiss then result\<lparr>rz_status := RX_Dismissed\<rparr>
           else result\<lparr>rz_status := RX_RetryPrepared, rz_child_request := map_option (recovery_child a receipt) template\<rparr>,
           file'))"

definition recovery_decide ::
    "authority_verifier \<Rightarrow> u64 \<Rightarrow> io \<Rightarrow> string \<Rightarrow> read_io \<Rightarrow> read_io \<Rightarrow> io \<Rightarrow> recovery_authorization \<Rightarrow> execution_request option \<Rightarrow>
     authority_ledger \<Rightarrow> string option \<Rightarrow> recovery_result \<times> authority_ledger \<times> string option" where
  "recovery_decide v now ioa path rio1 rio2 ioj a template A file =
     (if validate_authorization a \<noteq> [] then (recovery_fail RX_Invalid (validate_authorization a), A, file)
      else let inspection = journal_inspect rio1 file in
        if \<not> jp_healthy inspection then (recovery_fail RX_JournalError (jp_errors inspection), A, file)
        else case find (interrupted_parent a) (jp_interrupted inspection) of
          None \<Rightarrow> (recovery_fail RX_ParentNotInterrupted
                    [''parent session is not currently interrupted with the authorized BEGIN identity''], A, file)
        | Some x \<Rightarrow>
            if ra_decision a = RD_RetryAsNewSession \<and> ra_child_correlation_id a = jx_correlation_id x
            then (recovery_fail RX_IdentityReuse [''recovery child must use a fresh correlation identity''], A, file)
            else if ra_decision a = RD_RetryAsNewSession \<and> template = None
            then (recovery_fail RX_Invalid [''RETRY_AS_NEW_SESSION requires a fresh child request template''], A, file)
            else (case gate_authorize v now ioa (ra_receipt a) Recovery (ra_parent_session_id a)
                         (recovery_authority_scope_sha256 a) [] A of
                    (gate, A') \<Rightarrow>
                      if \<not> ag_ok gate then (recovery_fail RX_AuthorizationRequired (ag_errors gate), A', file)
                      else let recorded_at = (case ra_receipt a of None \<Rightarrow> [] | Some r \<Rightarrow> issued_at_utc (envelope r)) in
                        (case recovery_apply path rio2 ioj a template x recorded_at (ag_receipt_id gate) file of
                           (res, file') \<Rightarrow> (res, A', file'))))"

end
