(* ===== verification/Recovery_Safety.thy ===== *)
theory Recovery_Safety
  imports Recovery_Protocol Session_Journal_Samples
begin

text \<open>
  The gates in front of sessions: a destructive session and a recovery decision pass only with
  a receipt consumed for exactly them; a decision settles the interrupted session; a prepared
  child can begin; and where an authority is spent in vain.
\<close>

section \<open>Destructive sessions\<close>

text \<open>What a gate of sessions accepts: it names no capability, so no schema 3 receipt passes.\<close>

definition consumed_for ::
    "authority_verifier \<Rightarrow> u64 \<Rightarrow> io \<Rightarrow> authority_receipt option \<Rightarrow> authority_purpose \<Rightarrow> string \<Rightarrow> string \<Rightarrow>
     authority_ledger \<Rightarrow> authority_ledger \<Rightarrow> bool" where
  "consumed_for v now io receipt p subj scope A A' \<longleftrightarrow> (\<exists>r lr. receipt = Some r \<and> schema_version (envelope r) \<noteq> 3 \<and>
     scope_sha256 (envelope r) = scope \<and> authorize_and_consume v now io r p subj scope A = (lr, A') \<and> alr_ok lr)"

lemma gate_consumes:
  "gate_authorize v now io receipt p subj scope [] A = (g, A') \<Longrightarrow> ag_ok g \<longleftrightarrow> consumed_for v now io receipt p subj scope A A'"
  using gate_fails_closed [of v now io receipt p subj scope "[]" A g A'] by (auto simp: consumed_for_def)

text \<open>
  C14. A destructive request reaches the session only through a receipt that the ledger has just
  consumed for the session's identity and for the digest of its whole contract; otherwise no
  session runs and neither its journal nor its dojo is touched.  Schema 3 receipts never pass.
\<close>

theorem destructive_session_needs_a_receipt:
  assumes "ts_destructive (mq_signal (xq_route q))"
    and "gated_session_run v now io E q receipt A s = ((g, out), A', s')"
  shows "(gated_executed (g, out) \<longleftrightarrow> consumed_for v now io receipt DestructiveExecution (execution_session_id q (xe_hardware E))
      (destructive_execution_scope_sha256 q (xe_hardware E)) A A') \<and>
    (out = None \<and> s' = s \<or> (\<exists>r. out = Some r \<and> execution_run (executor_only E) q s = (s', r)))"
proof -
  obtain g1 A1 where g1: "gate_authorize v now io receipt DestructiveExecution (execution_session_id q (xe_hardware E))
      (destructive_execution_scope_sha256 q (xe_hardware E)) [] A = (g1, A1)" by fastforce
  from assms g1 gate_consumes [OF g1] show ?thesis
    by (auto simp: gated_session_run_def gated_executed_def split: if_splits prod.splits)
qed

lemma uncertain_destruction_is_reviewed:
  assumes "ts_destructive (mq_signal (xq_route q))" "f_geq (ts_uncertainty (mq_signal (xq_route q))) lit_020"
  shows "md_status (session_route E q) = MR_HumanReviewRequired"
  using assms by (simp add: session_route_def router_select_def router_start_def caddy_route_def Let_def router_stop_def clamp_ge_020)

text \<open>A consumed receipt has one use more on record.\<close>

lemma consumed_counts:
  assumes "consumed_for v now io receipt p subj scope A A'"
  obtains rcpt where "receipt = Some rcpt"
    "use_count (al_maps A') (receipt_id rcpt) = use_count (al_maps A) (receipt_id rcpt) + 1"
proof -
  obtain r lr where r: "receipt = Some r" "authorize_and_consume v now io r p subj scope A = (lr, A')" "alr_ok lr"
    using assms by (auto simp: consumed_for_def)
  have ready: "authorize_ready v now r p subj scope A"
    using authorize_refused [of v now r p subj scope A io] r(2,3) by (auto simp: refused_def alr_ok_def)
  have "consume now io r A = (lr, A')" using authorize_ready_commits [OF ready] r(2) by metis
  with r(3) have "use_count (al_maps A') (receipt_id r) = use_count (al_maps A) (receipt_id r) + 1"
    by (auto simp: consume_def Let_def use_count_def update_conv' dest!: al_commit_ok)
  with that r(1) show thesis by blast
qed

text \<open>A session that gets as far as routing: its request is valid and its BEGIN, if any, is written.\<close>

definition session_begun :: "'w session_env \<Rightarrow> execution_request \<Rightarrow> string option \<Rightarrow> bool" where
  "session_begun E q journal \<longleftrightarrow> validate_execution_request q = [] \<and>
     (case xe_journal_path E of
        None \<Rightarrow> xq_parent_session_id q = []
      | Some path \<Rightarrow> jw_ok (fst (journal_open E q path journal)))"

text \<open>
  How a session whose route is held for human review ends: with that route on record and the
  status ROUTE_REJECTED, which only a terminal record that cannot be written replaces; or before
  routing, as invalid or without a BEGIN.
\<close>

definition held_for_review :: "'w session_env \<Rightarrow> execution_request \<Rightarrow> string option \<Rightarrow> execution_result \<Rightarrow> bool" where
  "held_for_review E q journal r \<longleftrightarrow>
     (if session_begun E q journal
      then (\<exists>route. xr_route r = Some route \<and> md_status route = MR_HumanReviewRequired) \<and>
        (xr_status r = XS_RouteRejected \<or>
         xr_status r = XS_JournalStoreFailed \<and> xe_journal_path E \<noteq> None \<and> xr_terminal_record r = None)
      else xr_route r = None \<and> xr_status r \<in> {XS_InvalidRequest, XS_JournalStoreFailed})"

lemma route_fields [simp]:
  "xr_route (session_aborted b x reason r) = xr_route r" "xr_route (audited r) = xr_route r"
  by (simp_all add: session_aborted_def audited_def)

lemma finalize_status:
  assumes "session_finalize E q opened s r = (s', r')" "xr_terminal_record r = None"
  shows "xr_route r' = xr_route r"
    "xr_status r' = xr_status r \<or>
       xr_status r' = XS_JournalStoreFailed \<and> xe_journal_path E \<noteq> None \<and> opened \<and> xr_terminal_record r' = None"
  using assms by (auto simp: session_finalize_def Let_def split: option.splits if_splits prod.splits)

lemma review_stops_routing:
  assumes "md_status (session_route E q) = MR_HumanReviewRequired"
  obtains r' where "session_routed E q s r = (s, r')" "xr_route r' = Some (session_route E q)"
    "xr_status r' = XS_RouteRejected" "xr_terminal_record r' = xr_terminal_record r"
  using assms by (simp add: session_routed_def session_route_def Let_def route_allows_execution_def)

lemma reviewed_run:
  assumes "md_status (session_route E q) = MR_HumanReviewRequired" "execution_run E q s = (s', r)"
  shows "held_for_review E q (xs_journal s) r"
proof (cases "validate_execution_request q")
  case (Cons m ms)
  with assms(2) finalize_status [of E q False s _ s' r] show ?thesis
    by (auto simp: execution_run_def Let_def held_for_review_def session_begun_def session_result_new_def)
next
  case Nil
  define r0 where "r0 = add_event (xq_session_budget q) SG_Created ''SESSION_CREATED''
    (if xq_parent_session_id q \<noteq> [] then ''fresh recovery-child transaction accepted'' else ''correlated transaction accepted'')
    (session_result_new q (xe_hardware E))"
  have r0: "xr_route r0 = None" "xr_terminal_record r0 = None" by (simp_all add: r0_def session_result_new_def)
  show ?thesis
  proof (cases "xe_journal_path E")
    case None
    show ?thesis
    proof (cases "xq_parent_session_id q = []")
      case False
      with assms(2) Nil None finalize_status [of E q False s _ s' r] show ?thesis
        by (auto simp: execution_run_def Let_def held_for_review_def session_begun_def session_result_new_def)
    next
      case True
      obtain r1 where r1: "session_routed E q s r0 = (s, r1)" "xr_route r1 = Some (session_route E q)"
        "xr_status r1 = XS_RouteRejected" "xr_terminal_record r1 = xr_terminal_record r0"
        by (rule review_stops_routing [OF assms(1), of s r0])
      have "session_finalize E q False s r1 = (s', r)"
        using assms(2) Nil None True r1(1) by (simp add: execution_run_def Let_def r0_def)
      from finalize_status [OF this] r1 r0 assms(1) Nil None True show ?thesis
        by (auto simp: held_for_review_def session_begun_def)
    qed
  next
    case (Some path)
    obtain res fl where o1: "journal_open E q path (xs_journal s) = (res, fl)" by fastforce
    have run: "session_opened E q path s r0 = (s', r)"
      using assms(2) Nil Some by (simp add: execution_run_def Let_def r0_def)
    show ?thesis
    proof (cases "jw_ok res")
      case False
      with run o1 r0 finalize_status [of E q False "s\<lparr>xs_journal := fl\<rparr>" _ s' r] Some Nil show ?thesis
        by (auto simp: session_opened_def Let_def held_for_review_def session_begun_def)
    next
      case True
      define t where "t = s\<lparr>xs_journal := fl\<rparr>"
      define rb where "rb = add_event (xq_session_budget q) SG_JournalBegin (journal_status_to_string (jw_status res))
        (if xq_parent_session_id q \<noteq> [] then ''authorized recovery-child BEGIN committed before routing/execution''
         else ''durable BEGIN committed before routing/execution'') (r0\<lparr>xr_begin_record := Some (jw_record_sha256 res)\<rparr>)"
      have rb: "xr_terminal_record rb = None" using r0 by (simp add: rb_def)
      obtain r1 where r1: "session_routed E q t rb = (t, r1)" "xr_route r1 = Some (session_route E q)"
        "xr_status r1 = XS_RouteRejected" "xr_terminal_record r1 = xr_terminal_record rb"
        by (rule review_stops_routing [OF assms(1), of t rb])
      have "session_finalize E q True t r1 = (s', r)"
        using run o1 True r1(1) by (simp add: session_opened_def Let_def t_def rb_def)
      from finalize_status [OF this] r1 rb assms(1) Nil Some o1 True show ?thesis
        by (auto simp: held_for_review_def session_begun_def)
    qed
  qed
qed

text \<open>
  C20. The receipt is consumed before the session is validated or routed.  When a destructive
  request whose uncertainty is at least 0.20 passes the gate, its receipt has one use more on
  record and nothing is executed: if the request is valid and its BEGIN could be written, the
  session records a HUMAN_REVIEW route and ends as ROUTE_REJECTED (or, when even its terminal
  record cannot be written, as JOURNAL_STORE_FAILED); if not, it ends before routing as
  INVALID_REQUEST or JOURNAL_STORE_FAILED.
\<close>

theorem reviewed_session_spends_its_receipt:
  assumes "ts_destructive (mq_signal (xq_route q))" "f_geq (ts_uncertainty (mq_signal (xq_route q))) lit_020"
    and "consumed_for v now io receipt DestructiveExecution (execution_session_id q (xe_hardware E))
      (destructive_execution_scope_sha256 q (xe_hardware E)) A A'"
  shows "\<exists>g r s' rcpt. gated_session_run v now io E q receipt A s = ((g, Some r), A', s') \<and>
    receipt = Some rcpt \<and>
    use_count (al_maps A') (receipt_id rcpt) = use_count (al_maps A) (receipt_id rcpt) + 1 \<and>
    untouched s (s', r) \<and> held_for_review (executor_only E) q (xs_journal s) r"
proof -
  obtain g1 A1 where g1: "gate_authorize v now io receipt DestructiveExecution (execution_session_id q (xe_hardware E))
      (destructive_execution_scope_sha256 q (xe_hardware E)) [] A = (g1, A1)" by fastforce
  have a: "A1 = A'" "ag_ok g1"
    using assms(3) g1 gate_consumes [OF g1] by (auto simp: consumed_for_def gate_authorize_def split: if_splits)
  note route = uncertain_destruction_is_reviewed [OF assms(1,2), of "executor_only E"]
  obtain s' r where run: "execution_run (executor_only E) q s = (s', r)" by fastforce
  have "\<not> session_may_run (executor_only E) q (xs_journal s)"
    using route by (simp add: session_may_run_def route_allows_execution_def)
  from untouched_run [OF this] reviewed_run [OF route run] consumed_counts [OF assms(3)] assms(1) g1 a run
  show ?thesis by (auto simp: gated_session_run_def)
qed

section \<open>Recovery decisions\<close>

lemma find_parent:
  assumes "find (interrupted_parent a) (jp_interrupted (journal_inspect Read_Ok file)) = Some x"
    "sj_healthy (scan_journal Read_Ok file)"
  obtains b where "map_of (sj_open (scan_journal Read_Ok file)) (ra_parent_session_id a) = Some b"
    "x = interrupted_of (ra_parent_session_id a, b)" "jn_record_sha256 b = ra_parent_begin_record a"
proof -
  let ?s = "scan_journal Read_Ok file"
  have "x \<in> set (jp_interrupted (journal_inspect Read_Ok file)) \<and> interrupted_parent a x"
    using assms(1) by (auto simp: find_Some_iff)
  then obtain p where p: "p \<in> set (sj_open ?s)" "x = interrupted_of p" "interrupted_parent a x"
    by (auto simp: journal_inspect_def Let_def)
  have "map_sorted (sj_open ?s)"
    using log_invariants [OF scanned_log [OF assms(2)]] by (auto simp: log_inv_def)
  with p(1) have "map_of (sj_open ?s) (fst p) = Some (snd p)" using map_of_in_sorted by fastforce
  with p(2,3) that [of "snd p"] show thesis by (simp add: interrupted_parent_def interrupted_of_def)
qed

text \<open>A decision that succeeds: what it found, what the gate consumed, and what it wrote.\<close>

lemma decided:
  assumes "recovery_decide v now ioa path Read_Ok Read_Ok ioj a template A file = (res, A', file')" "rz_ok res"
    "sj_healthy (scan_journal Read_Ok file)"
  obtains r b where "validate_authorization a = []" "ra_receipt a = Some r"
    "map_of (sj_open (scan_journal Read_Ok file)) (ra_parent_session_id a) = Some b" "jn_record_sha256 b = ra_parent_begin_record a"
    "ra_decision a = RD_RetryAsNewSession \<longrightarrow> template \<noteq> None"
    "consumed_for v now ioa (ra_receipt a) Recovery (ra_parent_session_id a) (recovery_authority_scope_sha256 a) A A'"
    "recovery_apply path Read_Ok ioj a template (interrupted_of (ra_parent_session_id a, b)) (issued_at_utc (envelope r))
       (receipt_id r) file = (res, file')"
proof -
  let ?i = "journal_inspect Read_Ok file"
  have v: "validate_authorization a = []" and h: "jp_healthy ?i"
    using assms by (auto simp: recovery_decide_def Let_def recovery_fail_def rz_ok_def split: if_splits)
  obtain x where x: "find (interrupted_parent a) (jp_interrupted ?i) = Some x"
    using assms(1,2) v h by (auto simp: recovery_decide_def Let_def recovery_fail_def rz_ok_def split: option.splits)
  obtain b where b: "map_of (sj_open (scan_journal Read_Ok file)) (ra_parent_session_id a) = Some b"
    "x = interrupted_of (ra_parent_session_id a, b)" "jn_record_sha256 b = ra_parent_begin_record a"
    using find_parent [OF x assms(3)] .
  obtain g A1 where g: "gate_authorize v now ioa (ra_receipt a) Recovery (ra_parent_session_id a)
      (recovery_authority_scope_sha256 a) [] A = (g, A1)" by fastforce
  have d: "ag_ok g" "A' = A1" "ra_decision a = RD_RetryAsNewSession \<longrightarrow> template \<noteq> None"
    "recovery_apply path Read_Ok ioj a template x (case ra_receipt a of None \<Rightarrow> [] | Some r \<Rightarrow> issued_at_utc (envelope r))
       (ag_receipt_id g) file = (res, file')"
    using assms(1,2) v h x g
    by (auto simp: recovery_decide_def Let_def recovery_fail_def rz_ok_def split: if_splits prod.splits)
  from d(1) gate_consumes [OF g] have c: "consumed_for v now ioa (ra_receipt a) Recovery (ra_parent_session_id a)
      (recovery_authority_scope_sha256 a) A A'" by (simp add: d(2))
  then obtain r where r: "ra_receipt a = Some r" by (auto simp: consumed_for_def)
  have "ag_receipt_id g = receipt_id r"
    using g d(1) r by (auto simp: gate_authorize_def ag_fail_def ag_ok_def split: if_splits prod.splits)
  with d(4) r b(2) have "recovery_apply path Read_Ok ioj a template (interrupted_of (ra_parent_session_id a, b))
      (issued_at_utc (envelope r)) (receipt_id r) file = (res, file')" by simp
  with that v r b(1,3) d(3) c show thesis by blast
qed

lemma recovered_journal:
  assumes "sound_file file" "session_recover path Read_Ok io w file = (res, file')" "jw_ok res"
  defines "c \<equiv> seal_journal_record (recovery_record w (scan_journal Read_Ok file))"
  shows "sound_file file'" "file_records file' = file_records file @ [c]"
    "sj_open (scan_journal Read_Ok file') = map_erase (jv_session_id w) (sj_open (scan_journal Read_Ok file))"
    "sj_seen (scan_journal Read_Ok file') = sj_seen (scan_journal Read_Ok file)"
    "jv_kind w = JK_RecoveryRetry \<Longrightarrow> lineage_of c (jv_child_correlation_id w) \<in> set (sj_lineages (scan_journal Read_Ok file'))"
proof -
  let ?s = "scan_journal Read_Ok file" and ?r = "recovery_record w (scan_journal Read_Ok file)"
  have h: "sj_healthy ?s" using assms(1) by (simp add: sound_file_def)
  have app: "append_journal_record path io ?r file = (res, file')" and valid: "validate_recovery w = []"
    using recover_ok [OF assms(2,3)] by blast+
  have fits: "record_fits ?r ?s"
    using assms(2,3) h valid
    by (auto simp: session_recover_def Let_def list_ex_iff jw_ok_def jw_fail_def intro!: apply_recover_fits
        split: if_splits option.splits)
  from scan_after [OF assms(1) app assms(3) fits] obtain u where
    u: "sound_file file'" "apply_journal_record c ?s = Inr u" "scan_journal Read_Ok file' = advance_session c u"
    unfolding c_def by blast
  show "sound_file file'" by (rule u(1))
  show "file_records file' = file_records file @ [c]" unfolding c_def by (rule records_after [OF assms(1) app assms(3) fits])
  have k: "jv_kind w = JK_RecoveryDismiss \<or> jv_kind w = JK_RecoveryRetry" using valid by (auto simp: validate_recovery_def)
  have c: "jn_kind c = jv_kind w" "jn_session_id c = jv_session_id w"
    "jn_terminal_status c = (if jv_kind w = JK_RecoveryDismiss then kRecoveryDismissStatus
        else kRecoveryRetryPrefix @ jv_child_correlation_id w)"
    by (simp_all add: c_def recovery_record_def seal_journal_record_def)
  show "sj_open (scan_journal Read_Ok file') = map_erase (jv_session_id w) (sj_open ?s)"
    "sj_seen (scan_journal Read_Ok file') = sj_seen ?s"
    "jv_kind w = JK_RecoveryRetry \<Longrightarrow> lineage_of c (jv_child_correlation_id w) \<in> set (sj_lineages (scan_journal Read_Ok file'))"
    using u(2) k by (auto simp: u(3) c advance_session_def apply_journal_record_def apply_recovery_def split: if_splits option.splits)
qed

text \<open>
  A record written behind a last record that lacks its newline is glued to it, and from then on
  the journal cannot be read.
\<close>

lemma glued_record_spoils:
  assumes "sj_healthy (scan_journal Read_Ok file)" "\<not> terminated file"
    and "append_journal_record path io r file = (res, file')" "jw_ok res" "journal_writable r"
  shows "\<not> sj_healthy (scan_journal Read_Ok file')"
proof
  assume h: "sj_healthy (scan_journal Read_Ok file')"
  let ?l = "serialize_journal_record (seal_journal_record r)"
  have "run_lines session_step (file_lines (file_append (file_append file (?l @ [NL])) [])) session_scan_start = None"
    using journal_line_no_NL [OF journal_sealed(1) [OF assms(5)]]
    by (intro ses.spoiled_line [OF scan_journal_healthy [OF assms(1)] assms(2)]) simp_all
  with scan_journal_healthy [OF h] show False
    by (simp add: append_outcome(2) [OF assms(3,4)] file_lines_bytes)
qed

lemma recovery_spoils:
  assumes "sj_healthy (scan_journal Read_Ok file)" "\<not> terminated file"
    and "session_recover path Read_Ok io w file = (res, file')" "jw_ok res"
  shows "\<not> sj_healthy (scan_journal Read_Ok file')"
proof -
  let ?r = "recovery_record w (scan_journal Read_Ok file)"
  have app: "append_journal_record path io ?r file = (res, file')" and valid: "validate_recovery w = []"
    using recover_ok [OF assms(3,4)] by blast+
  have "record_fits ?r (scan_journal Read_Ok file)"
    using assms(1,3,4) valid
    by (auto simp: session_recover_def Let_def list_ex_iff jw_ok_def jw_fail_def intro!: apply_recover_fits
        split: if_splits option.splits)
  then show ?thesis using glued_record_spoils [OF assms(1,2) app assms(4)] by (simp add: record_fits_def)
qed

text \<open>
  C15. A decision that succeeds has consumed, in the authority ledger, a receipt for recovery issued
  to the parent session and to the digest of the very decision.  If the journal ended in a
  complete line, it is healthy afterwards, its one new record names the parent, the decision and
  the authorization, and the interrupted sessions are those of before without the parent.  If its
  last record lacked the newline, which the code accepts as well, the record is glued to it and
  the journal, although the decision is reported as carried out, can no longer be read.
\<close>

theorem recovery_settles_the_parent:
  assumes "jp_healthy (journal_inspect Read_Ok file)"
    and "recovery_decide v now ioa path Read_Ok Read_Ok ioj a template A file = (res, A', file')" "rz_ok res"
  shows "consumed_for v now ioa (ra_receipt a) Recovery (ra_parent_session_id a) (recovery_authority_scope_sha256 a) A A' \<and>
    (if terminated file
     then jp_healthy (journal_inspect Read_Ok file') \<and>
       jp_interrupted (journal_inspect Read_Ok file') =
         filter (\<lambda>x. jx_session_id x \<noteq> ra_parent_session_id a) (jp_interrupted (journal_inspect Read_Ok file)) \<and>
       (\<exists>c. file_records file' = file_records file @ [c] \<and> jn_session_id c = ra_parent_session_id a \<and>
          jn_kind c = (if ra_decision a = RD_Dismiss then JK_RecoveryDismiss else JK_RecoveryRetry) \<and>
          jn_audit_sha256 c = recovery_authorization_sha256 a)
     else \<not> jp_healthy (journal_inspect Read_Ok file'))"
proof -
  have h: "sj_healthy (scan_journal Read_Ok file)" using assms(1) by (simp add: journal_inspect_def Let_def)
  obtain r b where d: "validate_authorization a = []" "ra_receipt a = Some r"
    "map_of (sj_open (scan_journal Read_Ok file)) (ra_parent_session_id a) = Some b" "jn_record_sha256 b = ra_parent_begin_record a"
    "ra_decision a = RD_RetryAsNewSession \<longrightarrow> template \<noteq> None"
    "consumed_for v now ioa (ra_receipt a) Recovery (ra_parent_session_id a) (recovery_authority_scope_sha256 a) A A'"
    "recovery_apply path Read_Ok ioj a template (interrupted_of (ra_parent_session_id a, b)) (issued_at_utc (envelope r))
       (receipt_id r) file = (res, file')"
    by (rule decided [OF assms(2,3) h])
  note d = d(6,7)
  let ?w = "recovery_of a (interrupted_of (ra_parent_session_id a, b)) (issued_at_utc (envelope r))"
  obtain w where w: "session_recover path Read_Ok ioj ?w file = (w, file')" "jw_ok w"
    using d(2) assms(3) by (auto simp: recovery_apply_def Let_def rz_ok_def split: prod.splits if_splits)
  show ?thesis
  proof (cases "terminated file")
    case False
    with recovery_spoils [OF h False w] d(1) show ?thesis by (simp add: journal_inspect_def Let_def)
  next
    case True
    with h have sound: "sound_file file" by (simp add: sound_file_def)
    note j = recovered_journal [OF sound w]
    have k: "jv_session_id ?w = ra_parent_session_id a" "jv_authorization_sha256 ?w = recovery_authorization_sha256 a"
      "jv_kind ?w = (if ra_decision a = RD_Dismiss then JK_RecoveryDismiss else JK_RecoveryRetry)"
      by (simp_all add: recovery_of_def interrupted_of_def)
    have "jp_interrupted (journal_inspect Read_Ok file') =
        filter (\<lambda>x. jx_session_id x \<noteq> ra_parent_session_id a) (jp_interrupted (journal_inspect Read_Ok file))"
      by (simp add: journal_inspect_def Let_def j(3) map_erase_def filter_map comp_def interrupted_of_def recovery_of_def)
    moreover have "jp_healthy (journal_inspect Read_Ok file')" using j(1) by (simp add: sound_file_def journal_inspect_def Let_def)
    moreover have "\<exists>c. file_records file' = file_records file @ [c] \<and> jn_session_id c = ra_parent_session_id a \<and>
         jn_kind c = (if ra_decision a = RD_Dismiss then JK_RecoveryDismiss else JK_RecoveryRetry) \<and>
         jn_audit_sha256 c = recovery_authorization_sha256 a"
      by (rule exI, rule conjI, rule j(2)) (simp add: recovery_record_def seal_journal_record_def k)
    ultimately show ?thesis using d(1) True by simp
  qed
qed

section \<open>Decisions that go ahead\<close>

lemma short_recovery_line:
  assumes "validate_recovery w = []" "sj_healthy (scan_journal rio file)"
  shows "length (serialize_journal_record (seal_journal_record (recovery_record w (scan_journal rio file)))) \<le> kMaxJournalLine"
  using assms(1) scanned_head [OF assms(2)]
  by (intro short_journal_line)
    (auto simp: recovery_record_def validate_recovery_def valid_correlation_def valid_recorded_at_def is_sha256_def
      session_id_length kRecoveryRetryPrefix_def kRecoveryDismissStatus_def)

lemma parent_found:
  assumes "sound_file file" "map_of (sj_open (scan_journal Read_Ok file)) (ra_parent_session_id a) = Some b"
    "jn_record_sha256 b = ra_parent_begin_record a"
  shows "find (interrupted_parent a) (jp_interrupted (journal_inspect Read_Ok file)) = Some (interrupted_of (ra_parent_session_id a, b))"
proof -
  let ?is = "jp_interrupted (journal_inspect Read_Ok file)"
  have "interrupted_of (ra_parent_session_id a, b) \<in> set ?is"
    using map_of_SomeD [OF assms(2)] by (force simp: journal_inspect_def Let_def)
  moreover have "interrupted_parent a (interrupted_of (ra_parent_session_id a, b))"
    using assms(3) by (simp add: interrupted_parent_def interrupted_of_def)
  ultimately obtain x where x: "find (interrupted_parent a) ?is = Some x"
    by (cases "find (interrupted_parent a) ?is") (auto simp: find_None_iff)
  with find_parent [OF x] assms(1,2) show ?thesis by (auto simp: sound_file_def)
qed

text \<open>A sufficient condition for a decision to be carried out.\<close>

lemma decision_goes_ahead:
  assumes "sound_file file" "map_of (sj_open (scan_journal Read_Ok file)) (ra_parent_session_id a) = Some b"
    "jn_record_sha256 b = ra_parent_begin_record a" "validate_authorization a = []" "ra_receipt a = Some r"
    and gate: "consumed_for v now ioa (ra_receipt a) Recovery (ra_parent_session_id a) (recovery_authority_scope_sha256 a) A A'"
    and w: "validate_recovery (recovery_of a (interrupted_of (ra_parent_session_id a, b)) (issued_at_utc (envelope r))) = []"
    and fresh: "ra_decision a = RD_RetryAsNewSession \<longrightarrow> template \<noteq> None \<and>
      ra_child_correlation_id a \<notin> set (sj_used_correlations (scan_journal Read_Ok file)) \<and>
      (\<forall>l \<in> set (sj_lineages (scan_journal Read_Ok file)). jl_child_correlation_id l \<noteq> ra_child_correlation_id a)"
    and "path \<noteq> []"
  obtains res file' where "recovery_decide v now ioa path Read_Ok Read_Ok Write_Ok a template A file = (res, A', file')"
    "rz_status res = (if ra_decision a = RD_Dismiss then RX_Dismissed else RX_RetryPrepared)"
    "rz_child_request res = (if ra_decision a = RD_Dismiss then None else map_option (recovery_child a (receipt_id r)) template)"
proof -
  let ?x = "interrupted_of (ra_parent_session_id a, b)" and ?s = "scan_journal Read_Ok file"
  let ?w = "recovery_of a ?x (issued_at_utc (envelope r))"
  have h: "sj_healthy ?s" using assms(1) by (simp add: sound_file_def)
  then have hi: "jp_healthy (journal_inspect Read_Ok file)" by (simp add: journal_inspect_def Let_def)
  obtain g A1 where g: "gate_authorize v now ioa (ra_receipt a) Recovery (ra_parent_session_id a)
      (recovery_authority_scope_sha256 a) [] A = (g, A1)" by fastforce
  have ga: "ag_ok g" "A1 = A'" "ag_receipt_id g = receipt_id r"
    using gate g gate_consumes [OF g] assms(5)
    by (auto simp: consumed_for_def gate_authorize_def ag_fail_def ag_ok_def split: if_splits)
  have corr: "jv_kind ?w = JK_RecoveryRetry \<Longrightarrow> jx_correlation_id ?x \<noteq> ra_child_correlation_id a"
    using w by (auto simp: validate_recovery_def recovery_of_def split: if_splits)
  obtain jr file' where app: "append_journal_record path Write_Ok (recovery_record ?w ?s) file = (jr, file')" by fastforce
  note j = this append_outcome(1) [OF app, simplified, THEN iffD2, OF conjI, OF assms(9) short_recovery_line [OF w h]]
  have "session_recover path Read_Ok Write_Ok ?w file = (jr, file')"
    using w h j(1) assms(2,3) fresh
    by (cases "ra_decision a") (auto simp: session_recover_def Let_def list_ex_iff recovery_of_def interrupted_of_def)
  then have ap: "\<exists>res. recovery_apply path Read_Ok Write_Ok a template ?x (issued_at_utc (envelope r)) (receipt_id r) file = (res, file') \<and>
      rz_status res = (if ra_decision a = RD_Dismiss then RX_Dismissed else RX_RetryPrepared) \<and>
      rz_child_request res = (if ra_decision a = RD_Dismiss then None else map_option (recovery_child a (receipt_id r)) template)"
    using j(2) by (simp add: recovery_apply_def Let_def)
  have "ra_decision a = RD_RetryAsNewSession \<Longrightarrow> ra_child_correlation_id a \<noteq> jx_correlation_id ?x"
    using corr by (auto simp: recovery_of_def)
  then have "recovery_decide v now ioa path Read_Ok Read_Ok Write_Ok a template A file =
      (case recovery_apply path Read_Ok Write_Ok a template ?x (issued_at_utc (envelope r)) (receipt_id r) file of
         (res, file') \<Rightarrow> (res, A', file'))"
    using assms(4,5) hi g ga fresh
    by (cases "ra_decision a") (auto simp: recovery_decide_def Let_def parent_found [OF assms(1-3)] split: prod.split)
  with ap that show thesis by auto
qed

section \<open>Samples\<close>

lemma digit_token: "is_xdigit ch \<Longrightarrow> token_char ch"
  by (auto simp: is_xdigit_def hex_value_def token_char_def Let_def split: if_splits)

lemma session_id_token: "is_sha256 h \<Longrightarrow> valid_token (kSessionPrefix @ h) 256"
  by (auto simp: valid_token_def is_sha256_def list_all_iff digit_token) (auto simp: kSessionPrefix_def token_char_def)

lemma session_id_is_token: "valid_token (execution_session_id q h) 256"
  by (simp add: execution_session_id_def Let_def session_id_token)

lemma sample_receipt_consumed:
  assumes "valid_token subj 256" "is_sha256 scope"
  obtains A A' where "consumed_for sample_verifier 1500 Write_Ok (Some (receipt_for p subj scope)) p subj scope A A'"
proof -
  obtain A lr A' where "authorize_and_consume sample_verifier 1500 Write_Ok (receipt_for p subj scope) p subj scope A = (lr, A')" "alr_ok lr"
    by (rule receipt_for_consumed [OF assms])
  with that [of A A'] show thesis by (simp add: consumed_for_def)
qed

definition destructive_request :: "rat \<Rightarrow> execution_request" where
  "destructive_request u = sample_session_request\<lparr>xq_route := (xq_route sample_session_request)
     \<lparr>mq_signal := sample_signal\<lparr>ts_destructive := True, ts_uncertainty := Finite u\<rparr>\<rparr>\<rparr>"

definition session_receipt :: "execution_request \<Rightarrow> authority_receipt" where
  "session_receipt q = receipt_for DestructiveExecution (execution_session_id q sample_hardware)
     (destructive_execution_scope_sha256 q sample_hardware)"

lemma destructive_scope_digest [simp]: "is_sha256 (destructive_execution_scope_sha256 q h)"
  by (simp add: destructive_execution_scope_sha256_def Let_def)

lemma session_receipt_consumed:
  obtains A A' where "consumed_for sample_verifier 1500 Write_Ok (Some (session_receipt q)) DestructiveExecution
    (execution_session_id q (xe_hardware sample_session_env)) (destructive_execution_scope_sha256 q (xe_hardware sample_session_env)) A A'"
proof -
  have "xe_hardware sample_session_env = sample_hardware" by (simp add: sample_session_env_def)
  note e = this
  obtain A A' where "consumed_for sample_verifier 1500 Write_Ok (Some (session_receipt q)) DestructiveExecution
      (execution_session_id q sample_hardware) (destructive_execution_scope_sha256 q sample_hardware) A A'"
    unfolding session_receipt_def by (rule sample_receipt_consumed [OF session_id_is_token destructive_scope_digest])
  with that show thesis by (simp add: e)
qed

theorem destructive_session_needs_a_receipt_witness:
  "\<exists>A A' g out s'. gated_session_run sample_verifier 1500 Write_Ok sample_session_env (destructive_request 0)
     (Some (session_receipt (destructive_request 0))) A sample_session_state = ((g, out), A', s') \<and> gated_executed (g, out)"
proof -
  let ?q = "destructive_request 0"
  obtain A A' where c: "consumed_for sample_verifier 1500 Write_Ok (Some (session_receipt ?q)) DestructiveExecution
      (execution_session_id ?q (xe_hardware sample_session_env))
      (destructive_execution_scope_sha256 ?q (xe_hardware sample_session_env)) A A'"
    by (rule session_receipt_consumed)
  have d: "ts_destructive (mq_signal (xq_route ?q))" by (simp add: destructive_request_def)
  obtain g out A1 s' where r: "gated_session_run sample_verifier 1500 Write_Ok sample_session_env ?q
      (Some (session_receipt ?q)) A sample_session_state = ((g, out), A1, s')" by (metis prod.collapse)
  have "A1 = A'"
    using r c d by (auto simp: gated_session_run_def consumed_for_def gate_authorize_def split: if_splits prod.splits)
  with destructive_session_needs_a_receipt [OF d r] c r show ?thesis by blast
qed

theorem reviewed_session_spends_its_receipt_witness:
  "\<exists>A A' g r s'. gated_session_run sample_verifier 1500 Write_Ok sample_session_env (destructive_request (1 / 2))
     (Some (session_receipt (destructive_request (1 / 2)))) A sample_session_state = ((g, Some r), A', s') \<and>
     untouched sample_session_state (s', r)"
proof -
  let ?q = "destructive_request (1 / 2)"
  obtain A A' where c: "consumed_for sample_verifier 1500 Write_Ok (Some (session_receipt ?q)) DestructiveExecution
      (execution_session_id ?q (xe_hardware sample_session_env))
      (destructive_execution_scope_sha256 ?q (xe_hardware sample_session_env)) A A'"
    by (rule session_receipt_consumed)
  have "ts_destructive (mq_signal (xq_route ?q))" "f_geq (ts_uncertainty (mq_signal (xq_route ?q))) lit_020"
    by (simp_all add: destructive_request_def f_geq_def lit_020_def)
  from reviewed_session_spends_its_receipt [OF this c] show ?thesis by blast
qed

section \<open>The child of a retry\<close>

lemma prepared:
  assumes "sound_file file" "recovery_decide v now ioa path Read_Ok Read_Ok ioj a template A file = (res, A', file')"
    "rz_status res = RX_RetryPrepared"
  obtains r t l where "ra_receipt a = Some r" "template = Some t" "rz_child_request res = Some (recovery_child a (receipt_id r) t)"
    "sound_file file'" "validate_authorization a = []"
    "l \<in> set (sj_lineages (scan_journal Read_Ok file'))" "jl_parent_session_id l = ra_parent_session_id a"
    "jl_authorization_sha256 l = recovery_authorization_sha256 a" "jl_child_correlation_id l = ra_child_correlation_id a"
    "\<not> jl_child_started l"
    "consumed_for v now ioa (ra_receipt a) Recovery (ra_parent_session_id a) (recovery_authority_scope_sha256 a) A A'"
proof -
  have ok: "rz_ok res" using assms(3) by (simp add: rz_ok_def)
  obtain r b where d: "validate_authorization a = []" "ra_receipt a = Some r"
    "map_of (sj_open (scan_journal Read_Ok file)) (ra_parent_session_id a) = Some b" "jn_record_sha256 b = ra_parent_begin_record a"
    "ra_decision a = RD_RetryAsNewSession \<longrightarrow> template \<noteq> None"
    "consumed_for v now ioa (ra_receipt a) Recovery (ra_parent_session_id a) (recovery_authority_scope_sha256 a) A A'"
    "recovery_apply path Read_Ok ioj a template (interrupted_of (ra_parent_session_id a, b)) (issued_at_utc (envelope r))
       (receipt_id r) file = (res, file')"
    by (rule decided [OF assms(2) ok]) (use assms(1) in \<open>simp_all add: sound_file_def\<close>)
  note d = d(1,2,5,6,7)
  let ?w = "recovery_of a (interrupted_of (ra_parent_session_id a, b)) (issued_at_utc (envelope r))"
  obtain w where w: "session_recover path Read_Ok ioj ?w file = (w, file')" "jw_ok w"
    using d(5) ok by (auto simp: recovery_apply_def Let_def rz_ok_def split: prod.splits if_splits)
  have retry: "ra_decision a = RD_RetryAsNewSession" "rz_child_request res = map_option (recovery_child a (receipt_id r)) template"
    using d(5) w assms(3) by (cases "ra_decision a"; auto simp: recovery_apply_def Let_def)+
  obtain t where t: "template = Some t" using d(3) retry(1) by auto
  note j = recovered_journal [OF assms(1) w]
  let ?c = "seal_journal_record (recovery_record ?w (scan_journal Read_Ok file))"
  have k: "jv_kind ?w = JK_RecoveryRetry" "jv_child_correlation_id ?w = ra_child_correlation_id a"
    using retry(1) by (simp_all add: recovery_of_def)
  have "lineage_of ?c (ra_child_correlation_id a) \<in> set (sj_lineages (scan_journal Read_Ok file'))" using j(5) k by simp
  moreover have "jl_parent_session_id (lineage_of ?c x) = ra_parent_session_id a"
    "jl_authorization_sha256 (lineage_of ?c x) = recovery_authorization_sha256 a" "jl_child_correlation_id (lineage_of ?c x) = x"
    "\<not> jl_child_started (lineage_of ?c x)" for x
    by (simp_all add: lineage_of_def recovery_record_def recovery_of_def interrupted_of_def seal_journal_record_def)
  ultimately show thesis
    by (intro that [of r t "lineage_of ?c (ra_child_correlation_id a)"]) (use d j(1) t retry in simp_all)
qed

lemma valid_request_begin:
  assumes "validate_execution_request q = []"
  shows "validate_begin (begin_of E q) = []"
proof -
  have "canonical_id (execution_session_id q h) kSessionPrefix" "is_sha256 (execution_request_sha256 q h)" for h
    by (simp_all add: canonical_id_def execution_session_id_def execution_request_sha256_def Let_def)
  with assms show ?thesis
    by (simp add: validate_begin_def begin_of_def validate_execution_request_def Let_def valid_correlation_def
        valid_correlation_id_def valid_recorded_at_def not_less)
qed

text \<open>The children of the reservations of a healthy journal are distinct.\<close>

lemma reservation_unique:
  assumes "sj_healthy (scan_journal Read_Ok file)" "l \<in> set (sj_lineages (scan_journal Read_Ok file))"
    "k \<in> set (sj_lineages (scan_journal Read_Ok file))" "jl_child_correlation_id l = jl_child_correlation_id k"
  shows "l = k"
proof -
  have "distinct (map jl_child_correlation_id (sj_lineages (scan_journal Read_Ok file)))"
    using lineage_invariant [OF scanned_log [OF assms(1)]] by (simp add: lineage_inv_def)
  with assms(2-4) show ?thesis by (metis distinct_map inj_on_eq_iff)
qed

text \<open>A reserved child begins only as the reservation says.\<close>

lemma reserved_child_opens:
  assumes "sj_healthy (scan_journal Read_Ok file)" "l \<in> set (sj_lineages (scan_journal Read_Ok file))"
    "\<not> jl_child_started l" "jl_child_correlation_id l = xq_correlation_id d" "xe_begin_io E = (Read_Ok, io)"
    and "jw_ok (fst (journal_open E d path file))"
  shows "xq_parent_session_id d = jl_parent_session_id l \<and> xq_recovery_authorization d = jl_authorization_sha256 l"
proof -
  let ?ls = "sj_lineages (scan_journal Read_Ok file)"
  have "list_ex (reserves (xq_correlation_id d)) ?ls" using assms(2-4) by (auto simp: list_ex_iff reserves_def)
  with assms(1,5,6) have "list_ex (\<lambda>k. reserves (xq_correlation_id d) k \<and> jl_parent_session_id k = xq_parent_session_id d \<and>
      jl_authorization_sha256 k = xq_recovery_authorization d) ?ls"
    by (auto simp: journal_open_def session_begin_def begin_recovery_child_def begin_of_def Let_def jw_ok_def jw_fail_def
        split: if_splits)
  then obtain k where k: "k \<in> set ?ls" "jl_child_correlation_id k = xq_correlation_id d"
    "jl_parent_session_id k = xq_parent_session_id d" "jl_authorization_sha256 k = xq_recovery_authorization d"
    by (auto simp: list_ex_iff reserves_def)
  with reservation_unique [OF assms(1,2) k(1)] assms(4) show ?thesis by simp
qed

text \<open>
  C16. What a retry decision on a journal of complete lines prepares can be run, and only as it was
  prepared.  The child request it returns names the parent and the authorization of the decision,
  and so does the RETRY record in the journal.  If that request is valid and the file can be
  written, the BEGIN of the child succeeds unless the journal already holds that very session, and
  it is the one record added.  A request under the same correlation id that names another parent
  or another authorization, or none, does not begin.
\<close>

theorem prepared_child_can_begin:
  assumes "jp_healthy (journal_inspect Read_Ok file) \<and> terminated file"
    and "recovery_decide v now ioa path Read_Ok Read_Ok ioj a template A file = (res, A', file')"
    and "rz_status res = RX_RetryPrepared" "rz_child_request res = Some c" "validate_execution_request c = []"
    and "xe_begin_io E = (Read_Ok, Write_Ok)" "path \<noteq> []"
  shows "xq_correlation_id c = ra_child_correlation_id a \<and> xq_parent_session_id c = ra_parent_session_id a \<and>
    xq_recovery_authorization c = recovery_authorization_sha256 a \<and>
    (\<exists>w \<in> set (file_records file'). jn_kind w = JK_RecoveryRetry \<and> jn_session_id w = ra_parent_session_id a \<and>
       jn_audit_sha256 w = recovery_authorization_sha256 a \<and>
       recovery_child_from_status (jn_terminal_status w) = Some (ra_child_correlation_id a)) \<and>
    (jw_ok (fst (journal_open E c path file')) \<longleftrightarrow>
       execution_session_id c (xe_hardware E) \<notin> jn_session_id ` {b \<in> set (file_records file'). is_begin b}) \<and>
    (jw_ok (fst (journal_open E c path file')) \<longrightarrow>
       (\<exists>b. file_records (snd (journal_open E c path file')) = file_records file' @ [b] \<and> is_begin b \<and>
         jn_session_id b = execution_session_id c (xe_hardware E) \<and> jn_correlation_id b = ra_child_correlation_id a)) \<and>
    (\<forall>d. xq_correlation_id d = ra_child_correlation_id a \<and> jw_ok (fst (journal_open E d path file')) \<longrightarrow>
       xq_parent_session_id d = ra_parent_session_id a \<and> xq_recovery_authorization d = recovery_authorization_sha256 a)"
proof -
  have sound: "sound_file file" using assms(1) by (simp add: sound_file_def journal_inspect_def Let_def)
  obtain r t l where p: "ra_receipt a = Some r" "template = Some t" "rz_child_request res = Some (recovery_child a (receipt_id r) t)"
    "sound_file file'" "validate_authorization a = []"
    "l \<in> set (sj_lineages (scan_journal Read_Ok file'))" "jl_parent_session_id l = ra_parent_session_id a"
    "jl_authorization_sha256 l = recovery_authorization_sha256 a" "jl_child_correlation_id l = ra_child_correlation_id a"
    "\<not> jl_child_started l"
    "consumed_for v now ioa (ra_receipt a) Recovery (ra_parent_session_id a) (recovery_authority_scope_sha256 a) A A'"
    by (rule prepared [OF sound assms(2,3)])
  note p = p(3-10)
  have c: "xq_correlation_id c = ra_child_correlation_id a" "xq_parent_session_id c = ra_parent_session_id a"
    "xq_recovery_authorization c = recovery_authorization_sha256 a"
    using p(1) assms(4) by (simp_all add: recovery_child_def)
  let ?s = "scan_journal Read_Ok file'"
  have h: "sj_healthy ?s" using p(2) by (simp add: sound_file_def)
  note vb = valid_request_begin [OF assms(5), of E]
  have ids: "canonical_id (ra_parent_session_id a) kSessionPrefix" "is_sha256 (recovery_authorization_sha256 a)"
    "ra_parent_session_id a \<noteq> []"
    using p(3) by (auto simp: validate_authorization_def canonical_session_id_def canonical_id_def recovery_authorization_sha256_def
        dest: prefixed_not_Nil)
  have "set (sj_seen ?s) = jn_session_id ` {b \<in> set (file_records file'). is_begin b}"
    using log_invariants [OF scanned_log [OF h]] by (simp add: log_inv_def)
  moreover have "list_ex (\<lambda>l. reserves (ra_child_correlation_id a) l \<and> jl_parent_session_id l = ra_parent_session_id a \<and>
      jl_authorization_sha256 l = recovery_authorization_sha256 a) (sj_lineages ?s)"
    using p(4-8) by (auto simp: list_ex_iff reserves_def)
  moreover have "jw_ok (fst (append_journal_record path Write_Ok (begin_record (begin_of E c) ?s) file'))"
    using append_outcome(1) [OF surjective_pairing] short_begin_line [OF vb h] assms(7) by simp
  ultimately have ok: "jw_ok (fst (journal_open E c path file')) \<longleftrightarrow>
      execution_session_id c (xe_hardware E) \<notin> jn_session_id ` {b \<in> set (file_records file'). is_begin b}"
    using vb ids h by (simp add: journal_open_def assms(6) c begin_recovery_child_def Let_def jw_ok_def jw_fail_def)
      (simp add: begin_of_def c)
  let ?b = "seal_journal_record (begin_record (begin_of E c) ?s)"
  have "file_records (snd (journal_open E c path file')) = file_records file' @ [?b]"
    if "jw_ok (fst (journal_open E c path file'))"
    by (rule opened_journal(2) [OF p(2) assms(6) surjective_pairing that])
  moreover have "is_begin ?b" "jn_session_id ?b = execution_session_id c (xe_hardware E)"
    "jn_correlation_id ?b = ra_child_correlation_id a"
    by (simp_all add: seal_journal_record_def begin_record_def begin_of_def is_begin_def c)
  moreover have "xq_parent_session_id d = ra_parent_session_id a \<and> xq_recovery_authorization d = recovery_authorization_sha256 a"
    if "xq_correlation_id d = ra_child_correlation_id a" "jw_ok (fst (journal_open E d path file'))" for d
    using reserved_child_opens [OF h p(4,8) _ _ that(2)] p(5-7) that(1) assms(6) by simp
  moreover have "\<exists>w \<in> set (file_records file'). jn_kind w = JK_RecoveryRetry \<and> jn_session_id w = ra_parent_session_id a \<and>
      jn_audit_sha256 w = recovery_authorization_sha256 a \<and>
      recovery_child_from_status (jn_terminal_status w) = Some (ra_child_correlation_id a)"
    using lineage_retried [OF scanned_log [OF h] p(4)] p(5-7) by simp
  ultimately show ?thesis using ok c by (auto intro!: exI [of _ ?b])
qed

text \<open>
  C21. A decision spends its authority although the child it prepares is refused: a template with
  27 tags or more passes, but the two tags that the decision adds take the child beyond the 28
  that a session accepts, so that no session ever runs it.
\<close>

theorem overtagged_child_is_refused:
  assumes "jp_healthy (journal_inspect Read_Ok file) \<and> terminated file"
    and "recovery_decide v now ioa path Read_Ok Read_Ok ioj a (Some t) A file = (res, A', file')"
    and "rz_status res = RX_RetryPrepared" "27 \<le> length (xq_dojo_tags t)"
  shows "consumed_for v now ioa (ra_receipt a) Recovery (ra_parent_session_id a) (recovery_authority_scope_sha256 a) A A' \<and>
    (\<exists>c. rz_child_request res = Some c \<and> validate_execution_request c \<noteq> [] \<and> untouched s (execution_run E c s))"
proof -
  have sound: "sound_file file" using assms(1) by (simp add: sound_file_def journal_inspect_def Let_def)
  obtain r u l where p: "ra_receipt a = Some r" "Some t = Some u" "rz_child_request res = Some (recovery_child a (receipt_id r) u)"
    "sound_file file'" "validate_authorization a = []"
    "l \<in> set (sj_lineages (scan_journal Read_Ok file'))" "jl_parent_session_id l = ra_parent_session_id a"
    "jl_authorization_sha256 l = recovery_authorization_sha256 a" "jl_child_correlation_id l = ra_child_correlation_id a"
    "\<not> jl_child_started l"
    "consumed_for v now ioa (ra_receipt a) Recovery (ra_parent_session_id a) (recovery_authority_scope_sha256 a) A A'"
    by (rule prepared [OF sound assms(2,3)])
  then have p: "rz_child_request res = Some (recovery_child a (receipt_id r) t)"
    "consumed_for v now ioa (ra_receipt a) Recovery (ra_parent_session_id a) (recovery_authority_scope_sha256 a) A A'"
    by simp_all
  have v: "validate_execution_request (recovery_child a (receipt_id r) t) \<noteq> []"
    using assms(4) by (simp add: validate_execution_request_def recovery_child_def Let_def)
  then have "untouched s (execution_run E (recovery_child a (receipt_id r) t) s)"
    by (intro untouched_run) (simp add: session_may_run_def)
  with p v show ?thesis by blast
qed

section \<open>A sample retry\<close>

definition demo_decision :: recovery_authorization where
  "demo_decision = \<lparr>ra_decision = RD_RetryAsNewSession, ra_parent_session_id = kSessionPrefix @ zero_hash,
     ra_parent_begin_record = jn_record_sha256 demo_record, ra_child_correlation_id = ''b'',
     ra_child_retry_authority = RY_None, ra_receipt = None\<rparr>"

definition demo_authorized :: recovery_authorization where
  "demo_authorized = demo_decision\<lparr>ra_receipt :=
     Some (receipt_for Recovery (kSessionPrefix @ zero_hash) (recovery_authority_scope_sha256 demo_decision))\<rparr>"

lemma demo_start: "jp_healthy (journal_inspect Read_Ok demo_file) \<and> terminated demo_file"
  using demo_scanned(1) by (simp add: sound_file_def journal_inspect_def Let_def)

lemma demo_authorized_fields:
  "ra_decision demo_authorized = RD_RetryAsNewSession" "ra_parent_session_id demo_authorized = kSessionPrefix @ zero_hash"
  "ra_parent_begin_record demo_authorized = jn_record_sha256 demo_record" "ra_child_correlation_id demo_authorized = ''b''"
  "ra_receipt demo_authorized = Some (receipt_for Recovery (kSessionPrefix @ zero_hash) (recovery_authority_scope_sha256 demo_authorized))"
  "ra_child_retry_authority demo_authorized = RY_None"
  by (simp_all add: demo_authorized_def demo_decision_def recovery_authority_scope_sha256_def)

lemma demo_retried:
  obtains A A' res file' receipt where
    "recovery_decide sample_verifier 1500 Write_Ok ''j'' Read_Ok Read_Ok Write_Ok demo_authorized (Some t) A demo_file = (res, A', file')"
    "rz_status res = RX_RetryPrepared" "rz_child_request res = Some (recovery_child demo_authorized receipt t)"
    "\<exists>r. ra_receipt demo_authorized = Some r \<and> receipt = receipt_id r"
proof -
  let ?a = demo_authorized
  let ?r = "receipt_for Recovery (kSessionPrefix @ zero_hash) (recovery_authority_scope_sha256 ?a)"
  note f = demo_authorized_fields
  have scope: "is_sha256 (recovery_authority_scope_sha256 ?a)" by (simp add: recovery_authority_scope_sha256_def)
  obtain A A' where c: "consumed_for sample_verifier 1500 Write_Ok (ra_receipt ?a) Recovery (ra_parent_session_id ?a)
      (recovery_authority_scope_sha256 ?a) A A'"
    unfolding f by (rule sample_receipt_consumed [OF session_id_token [OF is_sha256_zero_hash] scope])
  have sealed: "is_sha256 (jn_record_sha256 demo_record)" by (simp add: demo_record_def seal_journal_record_def)
  have v: "validate_authorization ?a = []"
    using sealed by (simp add: validate_authorization_def f canonical_session_id_def canonical_id_def prefixed_sha256_def valid_correlation_id_def token_char_def)
  have w: "validate_recovery (recovery_of ?a (interrupted_of (ra_parent_session_id ?a, demo_record)) (issued_at_utc (envelope ?r))) = []"
    using sealed
    by (simp add: validate_recovery_def recovery_of_def interrupted_of_def f demo_record_fields canonical_id_def prefixed_sha256_def valid_correlation_def
        recovery_authorization_sha256_def valid_recorded_at_def token_char_def) (simp add: sample_envelope_def)
  have o1: "map_of (sj_open (scan_journal Read_Ok demo_file)) (ra_parent_session_id ?a) = Some demo_record"
    "''b'' \<notin> set (sj_used_correlations (scan_journal Read_Ok demo_file))" "sj_lineages (scan_journal Read_Ok demo_file) = []"
    by (simp_all add: demo_scanned demo_scan_def f)
  show thesis
    by (rule decision_goes_ahead [OF demo_scanned(1) o1(1) f(3) [symmetric] v f(5) c w, of "Some t" "''j''"])
      (use o1 f that in \<open>simp_all\<close>)
qed

theorem recovery_settles_the_parent_witness:
  "\<exists>A res A' file'. recovery_decide sample_verifier 1500 Write_Ok ''j'' Read_Ok Read_Ok Write_Ok demo_authorized
     (Some sample_session_request) A demo_file = (res, A', file') \<and> rz_ok res \<and> jp_interrupted (journal_inspect Read_Ok file') = []"
proof -
  obtain A A' res file' where d: "recovery_decide sample_verifier 1500 Write_Ok ''j'' Read_Ok Read_Ok Write_Ok demo_authorized
      (Some sample_session_request) A demo_file = (res, A', file')" "rz_status res = RX_RetryPrepared" by (rule demo_retried)
  have ok: "rz_ok res" using d(2) by (simp add: rz_ok_def)
  have "jp_interrupted (journal_inspect Read_Ok demo_file) = [interrupted_of (kSessionPrefix @ zero_hash, demo_record)]"
    by (simp add: journal_inspect_def Let_def demo_scanned demo_scan_def)
  with recovery_settles_the_parent [OF demo_start [THEN conjunct1] d(1) ok] d(1) ok demo_start show ?thesis
    by (auto simp: demo_authorized_fields interrupted_of_def)
qed

theorem prepared_child_can_begin_witness:
  "\<exists>A res A' file' c. recovery_decide sample_verifier 1500 Write_Ok ''j'' Read_Ok Read_Ok Write_Ok demo_authorized
     (Some sample_session_request) A demo_file = (res, A', file') \<and> rz_child_request res = Some c \<and>
     (jw_ok (fst (journal_open sample_session_env c ''j'' file')) \<longleftrightarrow>
      execution_session_id c sample_hardware \<notin> jn_session_id ` {b \<in> set (file_records file'). is_begin b})"
proof -
  obtain A A' res file' receipt where d: "recovery_decide sample_verifier 1500 Write_Ok ''j'' Read_Ok Read_Ok Write_Ok demo_authorized
      (Some sample_session_request) A demo_file = (res, A', file')" "rz_status res = RX_RetryPrepared"
    "rz_child_request res = Some (recovery_child demo_authorized receipt sample_session_request)"
    "\<exists>r. ra_receipt demo_authorized = Some r \<and> receipt = receipt_id r" by (rule demo_retried)
  have "length receipt \<le> 110"
    using d(4) by (auto simp: demo_authorized_fields receipt_for_def sample_receipt_def authority_receipt_id_def kReceiptPrefix_def)
  then have "validate_execution_request (recovery_child demo_authorized receipt sample_session_request) = []"
    by (simp add: validate_execution_request_def recovery_child_def demo_authorized_fields sample_session_defs Let_def
      valid_correlation_id_def token_char_def correlated_invocation_def canonical_session_id_def canonical_id_def prefixed_sha256_def
      recovery_authorization_sha256_def)
  note v = this
  have e: "xe_begin_io sample_session_env = (Read_Ok, Write_Ok)" "xe_hardware sample_session_env = sample_hardware" "''j'' \<noteq> []"
    by (simp_all add: sample_session_env_def)
  from prepared_child_can_begin [OF demo_start d(1-3) v e(1,3)] d(1,3) show ?thesis unfolding e(2) by blast
qed

theorem overtagged_child_is_refused_witness:
  "\<exists>A res A' file' c. recovery_decide sample_verifier 1500 Write_Ok ''j'' Read_Ok Read_Ok Write_Ok demo_authorized
     (Some (sample_session_request\<lparr>xq_dojo_tags := replicate 27 ''tag''\<rparr>)) A demo_file = (res, A', file') \<and>
     rz_child_request res = Some c \<and> untouched sample_session_state (execution_run sample_session_env c sample_session_state)"
proof -
  let ?t = "sample_session_request\<lparr>xq_dojo_tags := replicate 27 ''tag''\<rparr>"
  obtain A A' res file' receipt where d: "recovery_decide sample_verifier 1500 Write_Ok ''j'' Read_Ok Read_Ok Write_Ok demo_authorized
      (Some ?t) A demo_file = (res, A', file')" "rz_status res = RX_RetryPrepared"
    "rz_child_request res = Some (recovery_child demo_authorized receipt ?t)" by (rule demo_retried)
  have "27 \<le> length (xq_dojo_tags ?t)" by simp
  from overtagged_child_is_refused [OF demo_start d(1,2) this] d(1,3) show ?thesis by blast
qed

end
