(* ===== verification/Operator_Queue.thy ===== *)
theory Operator_Queue
  imports Policy_Registry Session_Journal_Scan Comma_Lists
begin

text \<open>
  \<open>OperatorReviewQueue\<close> (\<open>include/guff/operator_console.hpp\<close>, \<open>src/operator_console.cpp\<close>): the
  decisions of the policy engine that a human has to review.  The queue keeps nothing in memory:
  its state is a journal of tickets that are entered and closed, read again by every call.

  Capability, layer and risk of a ticket are bytes: a line may carry any number there, which is
  cut to the byte of the enumeration.  A read error in the middle of the file is not modelled.
\<close>

section \<open>Data\<close>

datatype review_state = OR_Pending | OR_Deferred | OR_Refused | OR_Superseded

datatype console_status =
  OS_Ready | OS_Invalid | OS_NotHumanReview | OS_QueueFull | OS_NotFound | OS_AlreadyClosed | OS_StorageFailure
| OS_Corrupt | OS_SigningFailed

record review_ticket =
  ot_schema_version :: u32
  ot_ticket_id :: string
  ot_policy_id :: string
  ot_subject_id :: string
  ot_slot_id :: string
  ot_capability :: u8
  ot_layer :: u8
  ot_risk :: u8
  ot_reason :: string
  ot_matched_rule_ids :: "string list"
  ot_created_at :: u64
  ot_state :: review_state
  ot_resolved_at :: u64
  ot_resolution_note :: string

record queue_budget =
  qb_max_tickets :: u64
  qb_max_records :: u64
  qb_max_matched_rules :: u64
  qb_max_reason_bytes :: u64

record queue_result =
  qr_status :: console_status
  qr_ticket_id :: string
  qr_state :: review_state
  qr_record_sha256 :: string
  qr_reason :: string

record queue_inspection =
  qi_healthy :: bool
  qi_records :: u64
  qi_tickets :: nat
  qi_pending :: nat
  qi_deferred :: nat
  qi_refused :: nat
  qi_superseded :: nat
  qi_pending_tickets :: "review_ticket list"
  qi_errors :: "string list"

definition qr_ok :: "queue_result \<Rightarrow> bool" where
  "qr_ok r \<longleftrightarrow> qr_status r = OS_Ready"

definition default_queue_budget :: queue_budget where
  "default_queue_budget = \<lparr>qb_max_tickets = 512, qb_max_records = 2048, qb_max_matched_rules = 32,
     qb_max_reason_bytes = 1024\<rparr>"

fun review_state_code :: "review_state \<Rightarrow> u32" where
  "review_state_code OR_Pending = 0"
| "review_state_code OR_Deferred = 1"
| "review_state_code OR_Refused = 2"
| "review_state_code OR_Superseded = 3"

definition review_state_of_code :: "u32 \<Rightarrow> review_state" where
  "review_state_of_code n = [OR_Pending, OR_Deferred, OR_Refused, OR_Superseded] ! unat n"

fun review_state_to_string :: "review_state \<Rightarrow> string" where
  "review_state_to_string OR_Pending = ''PENDING''"
| "review_state_to_string OR_Deferred = ''DEFERRED''"
| "review_state_to_string OR_Refused = ''REFUSED''"
| "review_state_to_string OR_Superseded = ''SUPERSEDED''"

fun console_status_to_string :: "console_status \<Rightarrow> string" where
  "console_status_to_string OS_Ready = ''READY''"
| "console_status_to_string OS_Invalid = ''INVALID''"
| "console_status_to_string OS_NotHumanReview = ''NOT_HUMAN_REVIEW''"
| "console_status_to_string OS_QueueFull = ''QUEUE_FULL''"
| "console_status_to_string OS_NotFound = ''NOT_FOUND''"
| "console_status_to_string OS_AlreadyClosed = ''ALREADY_CLOSED''"
| "console_status_to_string OS_StorageFailure = ''STORAGE_FAILURE''"
| "console_status_to_string OS_Corrupt = ''CORRUPT''"
| "console_status_to_string OS_SigningFailed = ''SIGNING_FAILED''"

datatype review_kind = OK_Enqueue | OK_Close

fun review_kind_code :: "review_kind \<Rightarrow> u32" where
  "review_kind_code OK_Enqueue = 0"
| "review_kind_code OK_Close = 1"

definition review_kind_of_code :: "u32 \<Rightarrow> review_kind" where
  "review_kind_of_code n = [OK_Enqueue, OK_Close] ! unat n"

record review_record =
  ow_schema_version :: u32
  ow_sequence :: u64
  ow_kind :: review_kind
  ow_ticket :: review_ticket
  ow_previous :: string
  ow_record_sha256 :: string

record review_scan =
  qs_healthy :: bool
  qs_next_sequence :: u64
  qs_head_sha256 :: string
  qs_tickets :: "review_ticket smap"
  qs_errors :: "string list"

definition review_scan_start :: review_scan where
  "review_scan_start = \<lparr>qs_healthy = True, qs_next_sequence = 0, qs_head_sha256 = zero_hash, qs_tickets = [],
     qs_errors = []\<rparr>"

definition kReviewPrefix :: string where "kReviewPrefix = ''guff:operator-review:sha256:''"

text \<open>The bytes of the enumerations.\<close>

definition capability_byte :: "slot_capability \<Rightarrow> u8" where
  "capability_byte c = ucast (capability_code c)"

definition layer_byte :: "reality_layer \<Rightarrow> u8" where
  "layer_byte l = ucast (layer_code l)"

definition risk_byte :: "policy_risk \<Rightarrow> u8" where
  "risk_byte r = of_nat (risk_rank r)"

definition empty_ticket :: review_ticket where
  "empty_ticket = \<lparr>ot_schema_version = 1, ot_ticket_id = [], ot_policy_id = [], ot_subject_id = [], ot_slot_id = [],
     ot_capability = capability_byte SC_GenericTool, ot_layer = layer_byte RL_Application,
     ot_risk = risk_byte PR_Critical, ot_reason = [], ot_matched_rule_ids = [], ot_created_at = 0,
     ot_state = OR_Pending, ot_resolved_at = 0, ot_resolution_note = []\<rparr>"

section \<open>Rule identities\<close>

definition parse_rule_ids :: "string \<Rightarrow> string list option" where
  "parse_rule_ids joined =
     (if joined = [] then Some []
      else if list_all (\<lambda>item. canonical_id item kRulePrefix) (split_commas joined) then Some (split_commas joined)
      else None)"

section \<open>Canonical texts\<close>

definition canonical_ticket :: "review_ticket \<Rightarrow> string" where
  "canonical_ticket t =
     show_u (ot_schema_version t) @ [NL] @ ot_policy_id t @ [NL] @ ot_subject_id t @ [NL] @ ot_slot_id t @ [NL] @
     show_u (ot_capability t) @ [NL] @ show_u (ot_layer t) @ [NL] @ show_u (ot_risk t) @ [NL] @ ot_reason t @ [NL] @
     comma_join (ot_matched_rule_ids t) @ [NL] @ show_u (ot_created_at t)"

definition ticket_id_for :: "review_ticket \<Rightarrow> string" where
  "ticket_id_for t = kReviewPrefix @ sha256 (canonical_ticket t)"

definition canonical_review_record :: "review_record \<Rightarrow> string" where
  "canonical_review_record r =
     (let t = ow_ticket r in
      show_u (ow_schema_version r) @ [NL] @ show_u (ow_sequence r) @ [NL] @ show_u (review_kind_code (ow_kind r)) @ [NL] @
      ot_ticket_id t @ [NL] @ ot_policy_id t @ [NL] @ ot_subject_id t @ [NL] @ ot_slot_id t @ [NL] @
      show_u (ot_capability t) @ [NL] @ show_u (ot_layer t) @ [NL] @ show_u (ot_risk t) @ [NL] @ ot_reason t @ [NL] @
      comma_join (ot_matched_rule_ids t) @ [NL] @ show_u (ot_created_at t) @ [NL] @
      show_u (review_state_code (ot_state t)) @ [NL] @ show_u (ot_resolved_at t) @ [NL] @ ot_resolution_note t @ [NL] @
      ow_previous r)"

section \<open>Lines\<close>

definition review_fields :: "review_record \<Rightarrow> string list" where
  "review_fields r =
     (let t = ow_ticket r in
      [show_u (ow_schema_version r), show_u (ow_sequence r), show_u (review_kind_code (ow_kind r)), ot_ticket_id t,
       dash (ot_policy_id t), hex_encode (ot_subject_id t), hex_encode (ot_slot_id t), show_u (ot_capability t),
       show_u (ot_layer t), show_u (ot_risk t), hex_encode (ot_reason t),
       hex_encode (comma_join (ot_matched_rule_ids t)), show_u (ot_created_at t),
       show_u (review_state_code (ot_state t)), show_u (ot_resolved_at t), dash (ot_resolution_note t),
       ow_previous r, ow_record_sha256 r])"

definition serialize_review :: "review_record \<Rightarrow> string" where
  "serialize_review r = ''OREV'' @ tab_join (review_fields r)"

text \<open>The numbers of a line, its texts, and the checks on the decoded record.\<close>

definition review_numbers :: "string list \<Rightarrow> (u32 \<times> u64 \<times> u32 \<times> u32 \<times> u32 \<times> u32 \<times> u64 \<times> u32 \<times> u64) option" where
  "review_numbers fs =
     do { schema \<leftarrow> parse_unsigned (fs ! 1); sequence \<leftarrow> parse_unsigned (fs ! 2); kind \<leftarrow> parse_unsigned (fs ! 3);
          capability \<leftarrow> parse_unsigned (fs ! 8); layer \<leftarrow> parse_unsigned (fs ! 9); risk \<leftarrow> parse_unsigned (fs ! 10);
          created \<leftarrow> parse_unsigned (fs ! 13); state \<leftarrow> parse_unsigned (fs ! 14); closed_at \<leftarrow> parse_unsigned (fs ! 15);
          if schema \<noteq> 1 \<or> 1 < kind \<or> 3 < state then None
          else Some (schema, sequence, kind, capability, layer, risk, created, state, closed_at) }"

definition review_texts :: "string list \<Rightarrow> (string \<times> string \<times> string \<times> string) option" where
  "review_texts fs =
     do { subject \<leftarrow> hex_decode (fs ! 6); slot \<leftarrow> hex_decode (fs ! 7); reason \<leftarrow> hex_decode (fs ! 11);
          joined \<leftarrow> hex_decode (fs ! 12); Some (subject, slot, reason, joined) }"

definition enqueue_shape :: "queue_budget \<Rightarrow> review_ticket \<Rightarrow> bool" where
  "enqueue_shape B t \<longleftrightarrow>
     canonical_id (ot_policy_id t) kPolicyPrefix \<and> valid_text (ot_subject_id t) 256 \<and> valid_text (ot_slot_id t) 192 \<and>
     ot_reason t \<noteq> [] \<and> length (ot_reason t) \<le> unat (qb_max_reason_bytes B) \<and>
     length (ot_matched_rule_ids t) \<le> unat (qb_max_matched_rules B) \<and> ot_created_at t \<noteq> 0 \<and> ot_state t = OR_Pending \<and>
     ot_resolved_at t = 0 \<and> ot_resolution_note t = [] \<and> ot_ticket_id t = ticket_id_for t"

definition close_shape :: "review_ticket \<Rightarrow> bool" where
  "close_shape t \<longleftrightarrow>
     ot_policy_id t = [] \<and> ot_subject_id t = [] \<and> ot_slot_id t = [] \<and> ot_reason t = [] \<and> ot_matched_rule_ids t = [] \<and>
     ot_created_at t = 0 \<and> ot_state t \<noteq> OR_Pending \<and> ot_resolved_at t \<noteq> 0 \<and> is_sha256 (ot_resolution_note t)"

definition review_rejection :: "queue_budget \<Rightarrow> review_record \<Rightarrow> string option" where
  "review_rejection B r =
     (let t = ow_ticket r in
      if \<not> canonical_id (ot_ticket_id t) kReviewPrefix \<or> \<not> is_sha256 (ow_previous r) \<or> \<not> is_sha256 (ow_record_sha256 r)
      then Some ''operator review identity/hash field is invalid''
      else if ow_kind r = OK_Enqueue \<and> \<not> enqueue_shape B t then Some ''operator review ENQUEUE validation failed''
      else if ow_kind r = OK_Close \<and> \<not> close_shape t then Some ''operator review CLOSE validation failed''
      else if ow_record_sha256 r \<noteq> sha256 (canonical_review_record r) then Some ''operator review record hash mismatch''
      else None)"

definition deserialize_review :: "queue_budget \<Rightarrow> string \<Rightarrow> string + review_record" where
  "deserialize_review B line =
     (let fs = split_tabs line in
      if line = [] \<or> kMaxLineBytes < length line then Inl ''operator review record is empty or exceeds line ceiling''
      else if length fs \<noteq> 19 \<or> fs ! 0 \<noteq> ''OREV'' then Inl ''operator review marker/field count is invalid''
      else case review_numbers fs of
        None \<Rightarrow> Inl ''operator review numeric/schema field is invalid''
      | Some (schema, sequence, kind, capability, layer, risk, created, state, closed_at) \<Rightarrow>
          (case review_texts fs of
             None \<Rightarrow> Inl ''operator review hex field is invalid''
           | Some (subject, slot, reason, joined) \<Rightarrow>
               (case parse_rule_ids joined of
                  None \<Rightarrow> Inl ''operator review matched-rule identity is invalid''
                | Some rules \<Rightarrow>
                    (let r = \<lparr>ow_schema_version = schema, ow_sequence = sequence, ow_kind = review_kind_of_code kind,
                       ow_ticket = \<lparr>ot_schema_version = 1, ot_ticket_id = fs ! 4, ot_policy_id = undash (fs ! 5),
                         ot_subject_id = subject, ot_slot_id = slot, ot_capability = ucast capability,
                         ot_layer = ucast layer, ot_risk = ucast risk, ot_reason = reason, ot_matched_rule_ids = rules,
                         ot_created_at = created, ot_state = review_state_of_code state, ot_resolved_at = closed_at,
                         ot_resolution_note = undash (fs ! 16)\<rparr>,
                       ow_previous = fs ! 17, ow_record_sha256 = fs ! 18\<rparr>
                     in case review_rejection B r of Some error \<Rightarrow> Inl error | None \<Rightarrow> Inr r))))"

section \<open>Scanning\<close>

definition closed_ticket :: "review_ticket \<Rightarrow> review_ticket \<Rightarrow> review_ticket" where
  "closed_ticket c t = t\<lparr>ot_state := ot_state c, ot_resolved_at := ot_resolved_at c,
     ot_resolution_note := ot_resolution_note c\<rparr>"

definition apply_review :: "queue_budget \<Rightarrow> review_record \<Rightarrow> review_scan \<Rightarrow> string + review_scan" where
  "apply_review B r s =
     (let t = ow_ticket r; i = ot_ticket_id t in
      if ow_kind r = OK_Enqueue then
        (if unat (qb_max_tickets B) \<le> length (qs_tickets s) \<or> contains (qs_tickets s) i
         then Inl ''operator review ticket capacity/duplicate violation''
         else Inr (s\<lparr>qs_tickets := map_emplace i t (qs_tickets s)\<rparr>))
      else case map_of (qs_tickets s) i of
        None \<Rightarrow> Inl ''operator review CLOSE references unknown ticket''
      | Some old \<Rightarrow>
          if ot_state old \<noteq> OR_Pending then Inl ''operator review ticket closed more than once''
          else Inr (s\<lparr>qs_tickets := AList.update i (closed_ticket t old) (qs_tickets s)\<rparr>))"

definition review_scan_failed :: "string \<Rightarrow> review_scan \<Rightarrow> review_scan" where
  "review_scan_failed error s = s\<lparr>qs_healthy := False, qs_errors := qs_errors s @ [error]\<rparr>"

fun scan_review_lines :: "queue_budget \<Rightarrow> string list \<Rightarrow> review_scan \<Rightarrow> review_scan" where
  "scan_review_lines B [] s = s"
| "scan_review_lines B (line # rest) s =
     (if qb_max_records B \<le> qs_next_sequence s then review_scan_failed ''operator review record ceiling exceeded'' s
      else case deserialize_review B (strip_cr line) of
        Inl error \<Rightarrow> review_scan_failed (''record '' @ show_u (qs_next_sequence s) @ '': '' @ error) s
      | Inr r \<Rightarrow>
          if ow_sequence r \<noteq> qs_next_sequence s \<or> ow_previous r \<noteq> qs_head_sha256 s
          then review_scan_failed ''operator review sequence/hash-chain discontinuity'' s
          else (case apply_review B r s of
            Inl error \<Rightarrow> review_scan_failed error s
          | Inr s' \<Rightarrow>
              scan_review_lines B rest
                (s'\<lparr>qs_head_sha256 := ow_record_sha256 r, qs_next_sequence := qs_next_sequence s + 1\<rparr>)))"

definition scan_queue :: "read_io \<Rightarrow> queue_budget \<Rightarrow> string option \<Rightarrow> review_scan" where
  "scan_queue rio B file =
     (if rio = Read_Inspect_Fail then review_scan_failed ''failed to inspect operator review journal path'' review_scan_start
      else case file of
        None \<Rightarrow> review_scan_start
      | Some content \<Rightarrow>
          if rio = Read_Open_Fail then review_scan_failed ''failed to open operator review journal'' review_scan_start
          else scan_review_lines B (getlines content) review_scan_start)"

section \<open>Writing\<close>

definition queue_answer :: "console_status \<Rightarrow> string \<Rightarrow> queue_result" where
  "queue_answer status reason = \<lparr>qr_status = status, qr_ticket_id = [], qr_state = OR_Pending, qr_record_sha256 = [],
     qr_reason = reason\<rparr>"

definition seal_review :: "review_record \<Rightarrow> review_record" where
  "seal_review r = r\<lparr>ow_record_sha256 := sha256 (canonical_review_record r)\<rparr>"

definition append_review :: "string \<Rightarrow> io \<Rightarrow> review_record \<Rightarrow> string option \<Rightarrow> queue_result \<times> string option" where
  "append_review path io record file =
     (let r = seal_review record; line = serialize_review r in
      if has_parent path \<and> io = Dir_Fail
      then (queue_answer OS_StorageFailure ''failed to create operator review journal parent directory'', file)
      else if kMaxLineBytes < length line
      then (queue_answer OS_Invalid ''serialized operator review record exceeds line ceiling'', file)
      else if path = [] \<or> io = Open_Fail
      then (queue_answer OS_StorageFailure ''failed to open operator review journal for append'', file)
      else case io of
        Write_Fail n \<Rightarrow>
          (queue_answer OS_StorageFailure ''operator review append/flush failed'', file_append file (take n (line @ [NL])))
      | _ \<Rightarrow> (\<lparr>qr_status = OS_Ready, qr_ticket_id = ot_ticket_id (ow_ticket r), qr_state = ot_state (ow_ticket r),
              qr_record_sha256 = ow_record_sha256 r, qr_reason = []\<rparr>, file_append file (line @ [NL])))"

section \<open>Operations\<close>

definition first_review_error :: "review_scan \<Rightarrow> string" where
  "first_review_error s = (case qs_errors s of [] \<Rightarrow> ''operator review queue is unhealthy'' | e # _ \<Rightarrow> e)"

definition review_facts_ok :: "queue_budget \<Rightarrow> policy_result \<Rightarrow> policy_request \<Rightarrow> u64 \<Rightarrow> bool" where
  "review_facts_ok B result q created \<longleftrightarrow>
     canonical_id (pe_policy_id result) kPolicyPrefix \<and> classify_policy_risk (pq_operation q) = pe_risk result \<and>
     valid_text (po_subject_id (pq_operation q)) 256 \<and> valid_text (po_slot_id (pq_operation q)) 192 \<and> created \<noteq> 0 \<and>
     pe_reason result \<noteq> [] \<and> length (pe_reason result) \<le> unat (qb_max_reason_bytes B) \<and>
     length (pe_matched_rule_ids result) \<le> unat (qb_max_matched_rules B)"

definition review_ticket_of :: "policy_result \<Rightarrow> policy_request \<Rightarrow> u64 \<Rightarrow> review_ticket" where
  "review_ticket_of result q created =
     (let op = pq_operation q;
          t = empty_ticket\<lparr>ot_policy_id := pe_policy_id result, ot_subject_id := po_subject_id op,
            ot_slot_id := po_slot_id op, ot_capability := capability_byte (po_capability op),
            ot_layer := layer_byte (po_layer op), ot_risk := risk_byte (pe_risk result), ot_reason := pe_reason result,
            ot_matched_rule_ids := pe_matched_rule_ids result, ot_created_at := created\<rparr>
      in t\<lparr>ot_ticket_id := ticket_id_for t\<rparr>)"

definition review_record_of :: "review_kind \<Rightarrow> review_ticket \<Rightarrow> review_scan \<Rightarrow> review_record" where
  "review_record_of kind t s = \<lparr>ow_schema_version = 1, ow_sequence = qs_next_sequence s, ow_kind = kind, ow_ticket = t,
     ow_previous = qs_head_sha256 s, ow_record_sha256 = []\<rparr>"

definition queue_enqueue ::
    "string \<Rightarrow> queue_budget \<Rightarrow> read_io \<Rightarrow> io \<Rightarrow> policy_result \<Rightarrow> policy_request \<Rightarrow> u64 \<Rightarrow> string option \<Rightarrow>
     queue_result \<times> string option" where
  "queue_enqueue path B rio io result q created file =
     (if pe_status result \<noteq> PS_Decided \<or> pe_decision result \<noteq> PD_HumanReview
      then (queue_answer OS_NotHumanReview ''only HUMAN_REVIEW policy decisions can enter the operator queue'', file)
      else if \<not> review_facts_ok B result q created
      then (queue_answer OS_Invalid ''human-review ticket facts are malformed or exceed queue budget'', file)
      else if \<not> list_all (\<lambda>i. canonical_id i kRulePrefix) (pe_matched_rule_ids result)
      then (queue_answer OS_Invalid ''human-review ticket contains invalid matched-rule identity'', file)
      else let s = scan_queue rio B file; t = review_ticket_of result q created in
      if \<not> qs_healthy s then (queue_answer OS_Corrupt (first_review_error s), file)
      else if qb_max_records B \<le> qs_next_sequence s \<or> unat (qb_max_tickets B) \<le> length (qs_tickets s)
      then (queue_answer OS_QueueFull ''operator review queue capacity reached'', file)
      else if contains (qs_tickets s) (ot_ticket_id t)
      then ((queue_answer OS_AlreadyClosed ''identical human-review ticket already exists'')\<lparr>qr_ticket_id := ot_ticket_id t\<rparr>, file)
      else append_review path io (review_record_of OK_Enqueue t s) file)"

definition close_ticket_of :: "string \<Rightarrow> review_state \<Rightarrow> u64 \<Rightarrow> string \<Rightarrow> review_ticket" where
  "close_ticket_of i state closed_at note = empty_ticket\<lparr>ot_ticket_id := i, ot_state := state, ot_resolved_at := closed_at,
     ot_resolution_note := note\<rparr>"

definition queue_close ::
    "string \<Rightarrow> queue_budget \<Rightarrow> read_io \<Rightarrow> io \<Rightarrow> string \<Rightarrow> review_state \<Rightarrow> u64 \<Rightarrow> string \<Rightarrow> string option \<Rightarrow>
     queue_result \<times> string option" where
  "queue_close path B rio io i state closed_at note file =
     (if \<not> canonical_id i kReviewPrefix \<or> state = OR_Pending \<or> closed_at = 0 \<or> \<not> is_sha256 note
      then (queue_answer OS_Invalid ''review close request is malformed; closure cannot grant ALLOW'', file)
      else let s = scan_queue rio B file in
      if \<not> qs_healthy s then (queue_answer OS_Corrupt (first_review_error s), file)
      else if qb_max_records B \<le> qs_next_sequence s
      then (queue_answer OS_QueueFull ''operator review record ceiling reached'', file)
      else case map_of (qs_tickets s) i of
        None \<Rightarrow> (queue_answer OS_NotFound ''review ticket not found'', file)
      | Some t \<Rightarrow>
          if ot_state t \<noteq> OR_Pending
          then ((queue_answer OS_AlreadyClosed ''review ticket is already closed'')\<lparr>qr_ticket_id := i, qr_state := ot_state t\<rparr>, file)
          else append_review path io (review_record_of OK_Close (close_ticket_of i state closed_at note) s) file)"

definition tickets_in :: "review_state \<Rightarrow> review_scan \<Rightarrow> review_ticket list" where
  "tickets_in state s = filter (\<lambda>t. ot_state t = state) (map snd (qs_tickets s))"

definition queue_inspect :: "read_io \<Rightarrow> queue_budget \<Rightarrow> string option \<Rightarrow> queue_inspection" where
  "queue_inspect rio B file =
     (let s = scan_queue rio B file in
      \<lparr>qi_healthy = qs_healthy s, qi_records = qs_next_sequence s, qi_tickets = length (qs_tickets s),
       qi_pending = length (tickets_in OR_Pending s), qi_deferred = length (tickets_in OR_Deferred s),
       qi_refused = length (tickets_in OR_Refused s), qi_superseded = length (tickets_in OR_Superseded s),
       qi_pending_tickets = sort_key ot_created_at (sort_key ot_ticket_id (tickets_in OR_Pending s)),
       qi_errors = qs_errors s\<rparr>)"

definition queue_ticket :: "read_io \<Rightarrow> queue_budget \<Rightarrow> string \<Rightarrow> string option \<Rightarrow> review_ticket option" where
  "queue_ticket rio B i file =
     (let s = scan_queue rio B file in if \<not> qs_healthy s then None else map_of (qs_tickets s) i)"

end
