(* ===== verification/Operator_Queue_Scan.thy ===== *)
theory Operator_Queue_Scan
  imports Operator_Queue
begin

text \<open>
  What a scan of the review journal establishes, and that every record the queue writes is read
  back as it was written and accepted.
\<close>

section \<open>The scan as a chain of partial steps\<close>

definition advance_review :: "review_record \<Rightarrow> review_scan \<Rightarrow> review_scan" where
  "advance_review r s = s\<lparr>qs_head_sha256 := ow_record_sha256 r, qs_next_sequence := qs_next_sequence s + 1\<rparr>"

definition review_step :: "queue_budget \<Rightarrow> string \<Rightarrow> review_scan \<Rightarrow> review_scan option" where
  "review_step B line s =
     (if qb_max_records B \<le> qs_next_sequence s then None
      else case deserialize_review B (strip_cr line) of
        Inl _ \<Rightarrow> None
      | Inr r \<Rightarrow>
          if ow_sequence r \<noteq> qs_next_sequence s \<or> ow_previous r \<noteq> qs_head_sha256 s then None
          else (case apply_review B r s of Inl _ \<Rightarrow> None | Inr u \<Rightarrow> Some (advance_review r u)))"

lemma review_scan_failed_unhealthy [simp]: "\<not> qs_healthy (review_scan_failed e s)"
  by (simp add: review_scan_failed_def)

lemma apply_review_cases:
  assumes "apply_review B r s = Inr u"
  obtains
    (entered) "ow_kind r = OK_Enqueue" "length (qs_tickets s) < unat (qb_max_tickets B)"
      "map_of (qs_tickets s) (ot_ticket_id (ow_ticket r)) = None"
      "u = s\<lparr>qs_tickets := map_emplace (ot_ticket_id (ow_ticket r)) (ow_ticket r) (qs_tickets s)\<rparr>"
  | (closed) t where "ow_kind r = OK_Close" "map_of (qs_tickets s) (ot_ticket_id (ow_ticket r)) = Some t" "ot_state t = OR_Pending"
      "u = s\<lparr>qs_tickets := AList.update (ot_ticket_id (ow_ticket r)) (closed_ticket (ow_ticket r) t) (qs_tickets s)\<rparr>"
  using assms by (cases "ow_kind r") (auto simp: apply_review_def Let_def not_le split: if_splits option.splits)

lemma apply_review_frame:
  assumes "apply_review B r s = Inr u"
  shows "qs_healthy u = qs_healthy s" "qs_next_sequence u = qs_next_sequence s" "qs_head_sha256 u = qs_head_sha256 s"
  using assms by (cases rule: apply_review_cases; simp)+

lemma scan_review_steps:
  "qs_healthy s \<Longrightarrow>
   run_lines (review_step B) ls s = (if qs_healthy (scan_review_lines B ls s) then Some (scan_review_lines B ls s) else None)"
proof (induction ls arbitrary: s)
  case (Cons l ls)
  show ?case
  proof (cases "qb_max_records B \<le> qs_next_sequence s")
    case True
    then show ?thesis by (simp add: review_step_def)
  next
    case room: False
    show ?thesis
    proof (cases "deserialize_review B (strip_cr l)")
      case (Inl e)
      with room show ?thesis by (simp add: review_step_def)
    next
      case r: (Inr r)
      show ?thesis
      proof (cases "apply_review B r s")
        case (Inl e)
        with r room show ?thesis by (simp add: review_step_def)
      next
        case (Inr u)
        note f = apply_review_frame [OF Inr]
        have "qs_healthy (advance_review r u)" using f(1) Cons.prems by (simp add: advance_review_def)
        from Cons.IH [OF this] show ?thesis
          using r room Inr f by (auto simp: review_step_def advance_review_def)
      qed
    qed
  qed
qed simp

lemma scan_queue_healthy:
  "qs_healthy (scan_queue rio B file) \<Longrightarrow>
   run_lines (review_step B) (file_lines file) review_scan_start = Some (scan_queue rio B file)"
  using scan_review_steps [of review_scan_start B "file_lines file"]
  by (auto simp: scan_queue_def file_lines_def review_scan_start_def split: if_splits option.splits)

lemma scan_queue_accepted:
  "run_lines (review_step B) (file_lines file) review_scan_start = Some t \<Longrightarrow> scan_queue Read_Ok B file = t \<and> qs_healthy t"
  using scan_review_steps [of review_scan_start B "file_lines file"]
  by (auto simp: scan_queue_def file_lines_def review_scan_start_def split: if_splits option.splits)

lemma review_stepE:
  assumes "review_step B l s = Some t"
  obtains r u where "deserialize_review B (strip_cr l) = Inr r" "ow_sequence r = qs_next_sequence s"
    "ow_previous r = qs_head_sha256 s" "apply_review B r s = Inr u" "t = advance_review r u"
    "qs_next_sequence s < qb_max_records B"
  using assms that by (auto simp: review_step_def split: if_splits sum.splits)

section \<open>Lines\<close>

lemma deserialized_review:
  assumes "deserialize_review B l = Inr r"
  shows "length (split_tabs l) = 19" "ow_record_sha256 r = split_tabs l ! 18" "review_rejection B r = None"
    "ot_schema_version (ow_ticket r) = 1"
  using assms by (auto simp: deserialize_review_def Let_def split: if_splits option.splits)

lemma accepted_review:
  assumes "review_rejection B r = None"
  shows "canonical_id (ot_ticket_id (ow_ticket r)) kReviewPrefix" "is_sha256 (ow_previous r)" "is_sha256 (ow_record_sha256 r)"
    "ow_kind r = OK_Enqueue \<Longrightarrow> enqueue_shape B (ow_ticket r)" "ow_kind r = OK_Close \<Longrightarrow> close_shape (ow_ticket r)"
    "ow_record_sha256 r = sha256 (canonical_review_record r)"
  using assms by (auto simp: review_rejection_def Let_def split: if_splits)

lemma deserialized_review_shaped: "deserialize_review B l = Inr r \<Longrightarrow> shaped 19 l"
  using deserialized_review [of B l r] accepted_review(3) [of B r] by (simp add: shaped_def last_conv_nth)

interpretation rev: line_scan "review_step B" review_scan_start 19 for B
proof
  show "shaped 19 (strip_cr l)" if "review_step B l s = Some t" for l s t
    using that by (auto elim!: review_stepE intro: deserialized_review_shaped)
  show "review_step B l s = review_step B k s" if "strip_cr l = strip_cr k" for l k s
    using that by (simp add: review_step_def)
qed

definition review_writable :: "review_record \<Rightarrow> bool" where
  "review_writable r \<longleftrightarrow> ow_schema_version r = 1 \<and> ot_schema_version (ow_ticket r) = 1 \<and>
     list_all plain_field [ot_ticket_id (ow_ticket r), ot_policy_id (ow_ticket r), ot_resolution_note (ow_ticket r),
       ow_previous r, ow_record_sha256 r] \<and>
     list_all (\<lambda>i. canonical_id i kRulePrefix) (ot_matched_rule_ids (ow_ticket r))"

lemma show_u_byte: "show_u (b :: u8) = show_u (ucast b :: u32)"
proof -
  have "unat b < 2 ^ LENGTH(8)" by (rule unsigned_less)
  then have "unat (ucast b :: u32) = unat b" by (simp add: unsigned_ucast_eq take_bit_nat_eq_self)
  then show ?thesis by (simp add: show_u_def)
qed

lemma parse_byte [simp]: "(parse_unsigned (show_u (b :: u8)) :: u32 option) = Some (ucast b)"
  unfolding show_u_byte by simp

lemma byte_back [simp]: "ucast (ucast (b :: u8) :: u32) = b"
  by (rule bit_word_eqI) (simp add: bit_ucast_iff)

lemma review_kind_codes [simp]: "review_kind_of_code (review_kind_code k) = k" "\<not> 1 < review_kind_code k"
  by (cases k; simp add: review_kind_of_code_def)+

lemma review_state_codes [simp]: "review_state_of_code (review_state_code k) = k" "\<not> 3 < review_state_code k"
  by (cases k; simp add: review_state_of_code_def)+

lemma rule_id_pieces:
  assumes "canonical_id i kRulePrefix"
  shows "i \<noteq> [] \<and> CHR '','' \<notin> set i"
proof -
  have i: "i = kRulePrefix @ drop (length kRulePrefix) i" "is_sha256 (drop (length kRulePrefix) i)"
    using assms by (simp_all add: canonical_id_def prefixed_sha256_def) (metis append_take_drop_id)
  have "CHR '','' \<notin> set (drop (length kRulePrefix) i)"
    using i(2) by (auto simp: is_sha256_def list_all_iff is_xdigit_def hex_value_def)
  moreover have "CHR '','' \<notin> set kRulePrefix" "kRulePrefix \<noteq> []" by (simp_all add: kRulePrefix_def)
  ultimately show ?thesis using i(1) by (metis Nil_is_append_conv Un_iff set_append)
qed

lemma parse_joined_rules [simp]:
  assumes "list_all (\<lambda>i. canonical_id i kRulePrefix) ids"
  shows "parse_rule_ids (comma_join ids) = Some ids"
proof (cases ids)
  case Nil
  then show ?thesis by (simp add: parse_rule_ids_def comma_join_def)
next
  case (Cons x xs)
  have c: "\<forall>y \<in> set (x # xs). CHR '','' \<notin> set y" "x \<noteq> []"
    using assms rule_id_pieces by (auto simp: Cons list_all_iff)
  then have "comma_join ids \<noteq> []" by (simp add: Cons comma_join_def)
  with assms split_commas_join [OF c(1)] show ?thesis by (simp add: parse_rule_ids_def Cons)
qed

lemma review_fields_clean: "review_writable r \<Longrightarrow> \<forall>f \<in> set (review_fields r). TAB \<notin> set f \<and> NL \<notin> set f"
  using plain_dash by (auto simp: review_writable_def review_fields_def plain_field_def Let_def)

lemma split_review_record: "review_writable r \<Longrightarrow> split_tabs (serialize_review r) = ''OREV'' # review_fields r"
  unfolding serialize_review_def by (rule split_tabs_join) (simp add: review_fields_clean)

lemma review_line_no_NL: "review_writable r \<Longrightarrow> NL \<notin> set (serialize_review r)"
  using review_fields_clean [of r] by (auto simp: serialize_review_def tab_join_def)

lemma review_line_head [simp]: "serialize_review r \<noteq> []" "hd (serialize_review r) = CHR ''O''"
  by (simp_all add: serialize_review_def)

lemma read_written_review:
  assumes "review_writable r" "length (serialize_review r) \<le> kMaxLineBytes"
  shows "deserialize_review B (serialize_review r) = (case review_rejection B r of Some e \<Rightarrow> Inl e | None \<Rightarrow> Inr r)"
proof -
  have w: "ow_schema_version r = 1" "ot_schema_version (ow_ticket r) = 1"
    "undash (dash (ot_policy_id (ow_ticket r))) = ot_policy_id (ow_ticket r)"
    "undash (dash (ot_resolution_note (ow_ticket r))) = ot_resolution_note (ow_ticket r)"
    "list_all (\<lambda>i. canonical_id i kRulePrefix) (ot_matched_rule_ids (ow_ticket r))"
    using assms(1) plain_dash by (simp_all add: review_writable_def)
  have rec: "\<lparr>ow_schema_version = 1, ow_sequence = ow_sequence r, ow_kind = ow_kind r,
      ow_ticket = \<lparr>ot_schema_version = 1, ot_ticket_id = ot_ticket_id (ow_ticket r), ot_policy_id = ot_policy_id (ow_ticket r),
        ot_subject_id = ot_subject_id (ow_ticket r), ot_slot_id = ot_slot_id (ow_ticket r),
        ot_capability = ot_capability (ow_ticket r), ot_layer = ot_layer (ow_ticket r), ot_risk = ot_risk (ow_ticket r),
        ot_reason = ot_reason (ow_ticket r), ot_matched_rule_ids = ot_matched_rule_ids (ow_ticket r),
        ot_created_at = ot_created_at (ow_ticket r), ot_state = ot_state (ow_ticket r),
        ot_resolved_at = ot_resolved_at (ow_ticket r), ot_resolution_note = ot_resolution_note (ow_ticket r)\<rparr>,
      ow_previous = ow_previous r, ow_record_sha256 = ow_record_sha256 r\<rparr> = r"
    using w(1,2) by (cases r; cases "ow_ticket r") simp
  have n: "review_numbers (''OREV'' # review_fields r) = Some (1, ow_sequence r, review_kind_code (ow_kind r),
      ucast (ot_capability (ow_ticket r)), ucast (ot_layer (ow_ticket r)), ucast (ot_risk (ow_ticket r)),
      ot_created_at (ow_ticket r), review_state_code (ot_state (ow_ticket r)), ot_resolved_at (ow_ticket r))"
    by (simp add: review_numbers_def review_fields_def Let_def w(1))
  have t: "review_texts (''OREV'' # review_fields r) = Some (ot_subject_id (ow_ticket r), ot_slot_id (ow_ticket r),
      ot_reason (ow_ticket r), comma_join (ot_matched_rule_ids (ow_ticket r)))"
    by (simp add: review_texts_def review_fields_def Let_def)
  have f: "length (review_fields r) = 18" "(''OREV'' # review_fields r) ! 4 = ot_ticket_id (ow_ticket r)"
    "(''OREV'' # review_fields r) ! 5 = dash (ot_policy_id (ow_ticket r))"
    "(''OREV'' # review_fields r) ! 16 = dash (ot_resolution_note (ow_ticket r))"
    "(''OREV'' # review_fields r) ! 17 = ow_previous r" "(''OREV'' # review_fields r) ! 18 = ow_record_sha256 r"
    by (simp_all add: review_fields_def Let_def)
  show ?thesis
    using assms(2)
    by (simp only: deserialize_review_def split_review_record [OF assms(1)] Let_def n t f w parse_joined_rules option.case prod.case
        review_kind_codes review_state_codes byte_back rec list.size) simp
qed

end
