(* ===== verification/Operator_Queue_Safety.thy ===== *)
theory Operator_Queue_Safety
  imports Operator_Queue_Scan
begin

text \<open>
  The properties of the review queue: exactly when a decision is entered, that every ticket stems
  from a decision for human review and is closed once, whatever is appended to the journal.
\<close>

section \<open>What every accepted journal satisfies\<close>

definition genuine_ticket :: "string \<Rightarrow> review_ticket \<Rightarrow> bool" where
  "genuine_ticket i t \<longleftrightarrow> ot_ticket_id t = i \<and> i = ticket_id_for t \<and> canonical_id (ot_policy_id t) kPolicyPrefix \<and>
     valid_text (ot_subject_id t) 256 \<and> valid_text (ot_slot_id t) 192 \<and> ot_schema_version t = 1 \<and>
     (ot_state t = OR_Pending \<longleftrightarrow> ot_resolved_at t = 0)"

definition queue_inv :: "review_scan \<Rightarrow> bool" where
  "queue_inv s \<longleftrightarrow> is_sha256 (qs_head_sha256 s) \<and> (\<forall>i t. map_of (qs_tickets s) i = Some t \<longrightarrow> genuine_ticket i t)"

lemma closed_ticket_fields [simp]:
  "ot_ticket_id (closed_ticket c t) = ot_ticket_id t" "ticket_id_for (closed_ticket c t) = ticket_id_for t"
  "ot_policy_id (closed_ticket c t) = ot_policy_id t" "ot_subject_id (closed_ticket c t) = ot_subject_id t"
  "ot_slot_id (closed_ticket c t) = ot_slot_id t" "ot_schema_version (closed_ticket c t) = ot_schema_version t"
  "ot_state (closed_ticket c t) = ot_state c" "ot_resolved_at (closed_ticket c t) = ot_resolved_at c"
  "ot_resolution_note (closed_ticket c t) = ot_resolution_note c"
  by (simp_all add: closed_ticket_def ticket_id_for_def canonical_ticket_def)

lemma closed_ticket_idem [simp]:
  "closed_ticket c (closed_ticket d t) = closed_ticket c t" "closed_ticket t t = t" "closed_ticket (closed_ticket c t) t = closed_ticket c t"
  by (simp_all add: closed_ticket_def)

lemma queue_inv_step:
  assumes "queue_inv s" "review_step B l s = Some t"
  shows "queue_inv t"
proof -
  from assms(2) obtain r u where r: "deserialize_review B (strip_cr l) = Inr r" "apply_review B r s = Inr u" "t = advance_review r u"
    by (rule review_stepE)
  note d = deserialized_review [OF r(1)]
  note a = accepted_review [OF d(3)]
  from r(2) have "\<forall>i t. map_of (qs_tickets u) i = Some t \<longrightarrow> genuine_ticket i t"
  proof (cases rule: apply_review_cases)
    case entered
    have "genuine_ticket (ot_ticket_id (ow_ticket r)) (ow_ticket r)"
      using a(4) [OF entered(1)] d(4) by (simp add: genuine_ticket_def enqueue_shape_def)
    with assms(1) entered show ?thesis by (auto simp: queue_inv_def map_emplace_lookup)
  next
    case (closed q)
    have "genuine_ticket (ot_ticket_id (ow_ticket r)) q" using assms(1) closed(2) by (simp add: queue_inv_def)
    then have "genuine_ticket (ot_ticket_id (ow_ticket r)) (closed_ticket (ow_ticket r) q)"
      using a(5) [OF closed(1)] by (simp add: genuine_ticket_def close_shape_def)
    with assms(1) closed show ?thesis by (auto simp: queue_inv_def)
  qed
  with a(3) show ?thesis by (simp add: r(3) queue_inv_def advance_review_def)
qed

interpretation queue_kept: line_invariant "review_step B" review_scan_start queue_inv for B
  by unfold_locales (simp add: queue_inv_def review_scan_start_def, rule queue_inv_step)

lemma scanned_queue: "qs_healthy (scan_queue rio B file) \<Longrightarrow> queue_inv (scan_queue rio B file)"
  by (rule queue_kept.everywhere [OF scan_queue_healthy])

section \<open>Growing journals\<close>

text \<open>A ticket is never lost, only its closing is added, and a closed one never changes.\<close>

definition review_grown :: "review_scan \<Rightarrow> review_scan \<Rightarrow> bool" where
  "review_grown s t \<longleftrightarrow> (\<forall>i a. map_of (qs_tickets s) i = Some a \<longrightarrow>
     (\<exists>b. map_of (qs_tickets t) i = Some b \<and> b = closed_ticket b a \<and> (ot_state a \<noteq> OR_Pending \<longrightarrow> b = a)))"

lemma review_grown_refl: "review_grown s s"
  by (simp add: review_grown_def)

lemma review_grown_trans:
  assumes "review_grown s t" "review_grown t u"
  shows "review_grown s u"
  unfolding review_grown_def
proof (intro allI impI)
  fix i a assume "map_of (qs_tickets s) i = Some a"
  with assms(1) obtain b where b: "map_of (qs_tickets t) i = Some b" "b = closed_ticket b a" "ot_state a \<noteq> OR_Pending \<longrightarrow> b = a"
    by (auto simp: review_grown_def)
  with assms(2) obtain c where c: "map_of (qs_tickets u) i = Some c" "c = closed_ticket c b" "ot_state b \<noteq> OR_Pending \<longrightarrow> c = b"
    unfolding review_grown_def by blast
  have "c = closed_ticket c a" using b(2) c(2) by (metis closed_ticket_idem(1))
  with b c show "\<exists>c. map_of (qs_tickets u) i = Some c \<and> c = closed_ticket c a \<and> (ot_state a \<noteq> OR_Pending \<longrightarrow> c = a)"
    by auto
qed

lemma review_grown_step:
  assumes "review_step B l s = Some t"
  shows "review_grown s t"
proof -
  from assms obtain r u where r: "apply_review B r s = Inr u" "t = advance_review r u" by (rule review_stepE)
  from r(1) show ?thesis
  proof (cases rule: apply_review_cases)
    case entered
    then show ?thesis by (auto simp: r(2) review_grown_def advance_review_def map_emplace_lookup)
  next
    case (closed q)
    then show ?thesis by (auto simp: r(2) review_grown_def advance_review_def)
  qed
qed

lemma review_grown_run: "run_lines (review_step B) ls s = Some t \<Longrightarrow> review_grown s t"
  by (induction ls arbitrary: s)
    (auto simp: review_grown_refl split: option.splits intro: review_grown_trans [OF review_grown_step])

lemma review_grown_closed:
  "review_grown s t \<Longrightarrow> map_of (qs_tickets s) i = Some a \<Longrightarrow> ot_state a \<noteq> OR_Pending \<Longrightarrow> map_of (qs_tickets t) i = Some a"
  by (auto simp: review_grown_def)

section \<open>Written records\<close>

lemma append_review_outcome:
  assumes "append_review path io r file = (res, file')"
  shows "qr_ok res \<longleftrightarrow> path \<noteq> [] \<and> \<not> (has_parent path \<and> io = Dir_Fail) \<and> io \<noteq> Open_Fail \<and> (\<forall>n. io \<noteq> Write_Fail n) \<and>
      length (serialize_review (seal_review r)) \<le> kMaxLineBytes"
    "qr_ok res \<Longrightarrow> file' = file_append file (serialize_review (seal_review r) @ [NL])"
    "\<not> qr_ok res \<Longrightarrow> clean_io io \<Longrightarrow> file' = file \<or> file' = file_append file []"
  using assms by (auto simp: append_review_def Let_def qr_ok_def queue_answer_def not_less clean_io_def split: if_splits io.splits)

lemma sealed_review [simp]:
  "ow_ticket (seal_review r) = ow_ticket r" "ow_kind (seal_review r) = ow_kind r" "ow_sequence (seal_review r) = ow_sequence r"
  "ow_previous (seal_review r) = ow_previous r" "ow_schema_version (seal_review r) = ow_schema_version r"
  "ow_record_sha256 (seal_review r) = sha256 (canonical_review_record r)"
  "canonical_review_record (seal_review r) = canonical_review_record r"
  by (simp_all add: seal_review_def canonical_review_record_def Let_def)

definition queue_fits :: "queue_budget \<Rightarrow> review_record \<Rightarrow> review_scan \<Rightarrow> bool" where
  "queue_fits B r s \<longleftrightarrow> review_writable r \<and> ow_sequence r = qs_next_sequence s \<and> ow_previous r = qs_head_sha256 s \<and>
     qs_next_sequence s < qb_max_records B \<and> review_rejection B (seal_review r) = None \<and>
     (\<exists>u. apply_review B (seal_review r) s = Inr u)"

definition sound_queue :: "queue_budget \<Rightarrow> string option \<Rightarrow> bool" where
  "sound_queue B file \<longleftrightarrow> qs_healthy (scan_queue Read_Ok B file) \<and> terminated file"

lemma review_writable_sealed: "review_writable r \<Longrightarrow> review_writable (seal_review r)"
  using plain_sha [OF is_sha256_sha256] by (auto simp: review_writable_def)

lemma review_shaped: "review_writable r \<Longrightarrow> is_sha256 (ow_record_sha256 r) \<Longrightarrow> shaped 19 (serialize_review r)"
  by (simp add: shaped_def split_review_record review_fields_def Let_def)

lemma written_review_step:
  assumes "review_writable r" "length (serialize_review (seal_review r)) \<le> kMaxLineBytes"
  shows "review_step B (serialize_review (seal_review r)) s =
    (if qb_max_records B \<le> qs_next_sequence s \<or> review_rejection B (seal_review r) \<noteq> None \<or>
        ow_sequence r \<noteq> qs_next_sequence s \<or> ow_previous r \<noteq> qs_head_sha256 s then None
     else case apply_review B (seal_review r) s of Inl _ \<Rightarrow> None | Inr u \<Rightarrow> Some (advance_review (seal_review r) u))"
proof -
  note w = review_writable_sealed [OF assms(1)]
  have "is_sha256 (ow_record_sha256 (seal_review r))" by simp
  note strip = strip_shaped [OF review_shaped [OF w this]]
  show ?thesis
    by (auto simp: review_step_def strip read_written_review [OF w assms(2)] split: option.splits)
qed

lemma queue_after:
  assumes "sound_queue B file" "append_review path io r file = (res, file')" "qr_ok res" "queue_fits B r (scan_queue Read_Ok B file)"
  shows "sound_queue B file' \<and> (\<exists>u. apply_review B (seal_review r) (scan_queue Read_Ok B file) = Inr u \<and>
    scan_queue Read_Ok B file' = advance_review (seal_review r) u)"
proof -
  let ?s = "scan_queue Read_Ok B file" and ?l = "serialize_review (seal_review r)"
  have f: "review_writable r" using assms(4) by (simp add: queue_fits_def)
  have len: "length ?l \<le> kMaxLineBytes" using append_review_outcome(1) [OF assms(2)] assms(3) by simp
  obtain u where u: "apply_review B (seal_review r) ?s = Inr u" "review_step B ?l ?s = Some (advance_review (seal_review r) u)"
    using assms(4) by (auto simp: queue_fits_def written_review_step [OF f len])
  have h: "qs_healthy ?s" "terminated file" using assms(1) by (simp_all add: sound_queue_def)
  note a = rev.accepted_line [OF scan_queue_healthy [OF h(1)] h(2) review_line_no_NL [OF review_writable_sealed [OF f]] u(2)]
  from scan_queue_accepted [OF a(1)] a(2) u(1) show ?thesis
    by (simp add: sound_queue_def append_review_outcome(2) [OF assms(2,3)])
qed

lemma queue_untouched:
  assumes "sound_queue B file" "file' = file \<or> file' = file_append file []"
  shows "sound_queue B file' \<and> scan_queue Read_Ok B file' = scan_queue Read_Ok B file"
proof -
  have l: "file_lines file' = file_lines file" "terminated file'"
    using assms by (auto simp: file_lines_bytes sound_queue_def terminated_def)
  have "run_lines (review_step B) (file_lines file') review_scan_start = Some (scan_queue Read_Ok B file)"
    unfolding l(1) using assms(1) by (intro scan_queue_healthy) (simp add: sound_queue_def)
  from scan_queue_accepted [OF this] l(2) show ?thesis by (simp add: sound_queue_def)
qed

text \<open>A record whose append was confirmed and that lies in a healthy file has been applied.\<close>

lemma confirmed_review:
  assumes "qs_healthy (scan_queue rio B file)" "append_review path io r file = (res, file')" "qr_ok res" "review_writable r"
    and "qs_healthy (scan_queue rio' B (file_append file' y))"
  obtains u where "apply_review B (seal_review r) (scan_queue rio B file) = Inr u"
    "review_grown (advance_review (seal_review r) u) (scan_queue rio' B (file_append file' y))"
proof -
  let ?s = "scan_queue rio B file" and ?l = "serialize_review (seal_review r)"
  have len: "length ?l \<le> kMaxLineBytes" using append_review_outcome(1) [OF assms(2)] assms(3) by simp
  have f: "file' = file_append file (?l @ [NL])" by (rule append_review_outcome(2) [OF assms(2,3)])
  obtain v where v: "review_step B ?l ?s = Some v"
    "run_lines (review_step B) (getlines y) v = Some (scan_queue rio' B (file_append file' y))"
  proof (rule rev.written_line [OF scan_queue_healthy [OF assms(1)]])
    show "run_lines (review_step B) (file_lines (file_append (file_append file (?l @ [NL])) y)) review_scan_start =
        Some (scan_queue rio' B (file_append file' y))"
      using scan_queue_healthy [OF assms(5)] unfolding f .
  qed (use review_line_no_NL [OF review_writable_sealed [OF assms(4)]] in simp_all)
  from v(1) obtain u where "apply_review B (seal_review r) ?s = Inr u" "v = advance_review (seal_review r) u"
    by (auto simp: written_review_step [OF assms(4) len] split: if_splits sum.splits)
  with that review_grown_run [OF v(2)] show thesis by blast
qed

lemma glued_review:
  assumes "qs_healthy (scan_queue rio B file)" "\<not> terminated file" "append_review path io r file = (res, file')" "qr_ok res"
    and "review_writable r"
  shows "\<not> qs_healthy (scan_queue rio' B (file_append file' y))"
proof
  assume h: "qs_healthy (scan_queue rio' B (file_append file' y))"
  let ?l = "serialize_review (seal_review r)"
  have f: "file' = file_append file (?l @ [NL])" by (rule append_review_outcome(2) [OF assms(3,4)])
  have "run_lines (review_step B) (file_lines (file_append (file_append file (?l @ [NL])) y)) review_scan_start = None"
    by (rule rev.spoiled_line [OF scan_queue_healthy [OF assms(1)] assms(2)])
      (use review_line_no_NL [OF review_writable_sealed [OF assms(5)]] in simp_all)
  with scan_queue_healthy [OF h] show False by (simp add: f)
qed

end
