(* ===== verification/Operator_Queue_History.thy ===== *)
theory Operator_Queue_History
  imports Operator_Queue_Safety
begin

text \<open>
  The calls of the review queue: exactly when they succeed and what they do, alone and in
  histories.
\<close>

section \<open>Records that are written\<close>

lemma kReviewPrefix_clean [simp]: "TAB \<notin> set kReviewPrefix" "NL \<notin> set kReviewPrefix"
  "TAB \<notin> set kPolicyPrefix" "NL \<notin> set kPolicyPrefix"
  by (simp_all add: kReviewPrefix_def kPolicyPrefix_def)

lemma ticket_of_fields [simp]:
  "ot_state (review_ticket_of result q created) = OR_Pending" "ot_resolved_at (review_ticket_of result q created) = 0"
  "ot_resolution_note (review_ticket_of result q created) = []" "ot_schema_version (review_ticket_of result q created) = 1"
  "ot_policy_id (review_ticket_of result q created) = pe_policy_id result"
  "ot_subject_id (review_ticket_of result q created) = po_subject_id (pq_operation q)"
  "ot_slot_id (review_ticket_of result q created) = po_slot_id (pq_operation q)"
  "ot_reason (review_ticket_of result q created) = pe_reason result"
  "ot_matched_rule_ids (review_ticket_of result q created) = pe_matched_rule_ids result"
  "ot_created_at (review_ticket_of result q created) = created"
  "ot_ticket_id (review_ticket_of result q created) = ticket_id_for (review_ticket_of result q created)"
  by (simp_all add: review_ticket_of_def empty_ticket_def Let_def ticket_id_for_def canonical_ticket_def)

lemma ticket_id_canonical [simp]: "canonical_id (ticket_id_for t) kReviewPrefix"
  by (simp add: canonical_id_def ticket_id_for_def prefixed_sha256_def)

definition may_enqueue :: "queue_budget \<Rightarrow> policy_result \<Rightarrow> policy_request \<Rightarrow> u64 \<Rightarrow> review_scan \<Rightarrow> bool" where
  "may_enqueue B result q created s \<longleftrightarrow>
     pe_status result = PS_Decided \<and> pe_decision result = PD_HumanReview \<and> review_facts_ok B result q created \<and>
     list_all (\<lambda>i. canonical_id i kRulePrefix) (pe_matched_rule_ids result) \<and> qs_healthy s \<and>
     qs_next_sequence s < qb_max_records B \<and> length (qs_tickets s) < unat (qb_max_tickets B) \<and>
     \<not> contains (qs_tickets s) (ticket_id_for (review_ticket_of result q created))"

definition may_close :: "queue_budget \<Rightarrow> string \<Rightarrow> review_state \<Rightarrow> u64 \<Rightarrow> string \<Rightarrow> review_scan \<Rightarrow> bool" where
  "may_close B i state at_ms note s \<longleftrightarrow>
     canonical_id i kReviewPrefix \<and> state \<noteq> OR_Pending \<and> at_ms \<noteq> 0 \<and> is_sha256 note \<and> qs_healthy s \<and>
     qs_next_sequence s < qb_max_records B \<and> (\<exists>t. map_of (qs_tickets s) i = Some t \<and> ot_state t = OR_Pending)"

lemma enqueue_call:
  "queue_enqueue path B rio io result q created file =
     (if may_enqueue B result q created (scan_queue rio B file)
      then append_review path io (review_record_of OK_Enqueue (review_ticket_of result q created) (scan_queue rio B file)) file
      else (fst (queue_enqueue path B rio io result q created file), file))"
  "\<not> may_enqueue B result q created (scan_queue rio B file) \<Longrightarrow>
     \<not> qr_ok (fst (queue_enqueue path B rio io result q created file))"
  by (auto simp: queue_enqueue_def may_enqueue_def Let_def qr_ok_def queue_answer_def not_le)

lemma close_call:
  "queue_close path B rio io i state at_ms note file =
     (if may_close B i state at_ms note (scan_queue rio B file)
      then append_review path io (review_record_of OK_Close (close_ticket_of i state at_ms note) (scan_queue rio B file)) file
      else (fst (queue_close path B rio io i state at_ms note file), file))"
  "\<not> may_close B i state at_ms note (scan_queue rio B file) \<Longrightarrow>
     \<not> qr_ok (fst (queue_close path B rio io i state at_ms note file))"
  by (auto simp: queue_close_def may_close_def Let_def qr_ok_def queue_answer_def not_le split: option.splits)

lemma enqueue_fits:
  assumes "may_enqueue B result q created (scan_queue rio B file)"
  defines "s \<equiv> scan_queue rio B file" and "t \<equiv> review_ticket_of result q created"
  shows "queue_fits B (review_record_of OK_Enqueue t s) s"
    "apply_review B (seal_review (review_record_of OK_Enqueue t s)) s =
       Inr (s\<lparr>qs_tickets := map_emplace (ticket_id_for t) t (qs_tickets s)\<rparr>)"
proof -
  let ?r = "review_record_of OK_Enqueue t s"
  have m: "may_enqueue B result q created s" using assms(1) by (simp add: s_def)
  have head: "is_sha256 (qs_head_sha256 s)" using m scanned_queue by (simp add: may_enqueue_def s_def queue_inv_def)
  have r: "ow_kind ?r = OK_Enqueue" "ow_ticket ?r = t" "ow_previous ?r = qs_head_sha256 s" "ow_sequence ?r = qs_next_sequence s"
    "ow_schema_version ?r = 1" "ow_record_sha256 ?r = []"
    by (simp_all add: review_record_of_def)
  have shape: "enqueue_shape B t"
    using m by (simp add: enqueue_shape_def t_def may_enqueue_def review_facts_ok_def)
  have t: "ot_ticket_id t = ticket_id_for t" "ot_schema_version t = 1" "ot_resolution_note t = []"
    "ot_policy_id t = pe_policy_id result" "ot_matched_rule_ids t = pe_matched_rule_ids result"
    by (simp_all add: t_def)
  have writable: "review_writable ?r"
    using m head
    by (auto simp: review_writable_def r t may_enqueue_def review_facts_ok_def canonical_id_def
        intro: plain_prefixed plain_prefixed [OF ticket_id_canonical [unfolded canonical_id_def]])
  have rej: "review_rejection B (seal_review ?r) = None"
    using shape head by (simp add: review_rejection_def r t Let_def)
  have "length (qs_tickets s) < unat (qb_max_tickets B)" "\<not> contains (qs_tickets s) (ticket_id_for t)"
    using m by (simp_all add: may_enqueue_def t_def)
  then show ap: "apply_review B (seal_review ?r) s = Inr (s\<lparr>qs_tickets := map_emplace (ticket_id_for t) t (qs_tickets s)\<rparr>)"
    by (auto simp: apply_review_def r t Let_def)
  show "queue_fits B ?r s"
    using writable rej ap m by (simp add: queue_fits_def r may_enqueue_def)
qed

lemma close_fits:
  assumes "may_close B i state at_ms note (scan_queue rio B file)"
  defines "s \<equiv> scan_queue rio B file" and "c \<equiv> close_ticket_of i state at_ms note"
  shows "queue_fits B (review_record_of OK_Close c s) s"
    "\<exists>t. map_of (qs_tickets s) i = Some t \<and> ot_state t = OR_Pending \<and>
       apply_review B (seal_review (review_record_of OK_Close c s)) s =
         Inr (s\<lparr>qs_tickets := AList.update i (closed_ticket c t) (qs_tickets s)\<rparr>)"
proof -
  let ?r = "review_record_of OK_Close c s"
  have m: "may_close B i state at_ms note s" using assms(1) by (simp add: s_def)
  have head: "is_sha256 (qs_head_sha256 s)" using m scanned_queue by (simp add: may_close_def s_def queue_inv_def)
  have r: "ow_kind ?r = OK_Close" "ow_ticket ?r = c" "ow_previous ?r = qs_head_sha256 s" "ow_sequence ?r = qs_next_sequence s"
    "ow_schema_version ?r = 1" "ow_record_sha256 ?r = []"
    by (simp_all add: review_record_of_def)
  have c: "ot_ticket_id c = i" "ot_state c = state" "ot_resolution_note c = note" "ot_resolved_at c = at_ms" "ot_policy_id c = []"
    "ot_subject_id c = []" "ot_slot_id c = []" "ot_reason c = []" "ot_matched_rule_ids c = []" "ot_created_at c = 0"
    "ot_schema_version c = 1"
    by (simp_all add: c_def close_ticket_of_def empty_ticket_def)
  have writable: "review_writable ?r"
    using m head by (auto simp: review_writable_def r c may_close_def canonical_id_def intro: plain_prefixed)
  have rej: "review_rejection B (seal_review ?r) = None"
    using m head by (simp add: review_rejection_def r Let_def close_shape_def c may_close_def)
  show ap: "\<exists>t. map_of (qs_tickets s) i = Some t \<and> ot_state t = OR_Pending \<and>
       apply_review B (seal_review ?r) s = Inr (s\<lparr>qs_tickets := AList.update i (closed_ticket c t) (qs_tickets s)\<rparr>)"
    using m by (auto simp: apply_review_def r c Let_def may_close_def)
  then show "queue_fits B ?r s"
    using writable rej m by (auto simp: queue_fits_def r may_close_def)
qed

text \<open>
  Only the newline of a record need be missing for the next call to spoil the journal for good,
  with the answer READY.
\<close>

lemma unterminated_queue_is_spoiled:
  assumes "qs_healthy (scan_queue rio B file)" "\<not> terminated file"
  shows "queue_enqueue path B rio io result q created file = (res, file') \<Longrightarrow> qr_ok res \<Longrightarrow>
      \<not> qs_healthy (scan_queue rio' B (file_append file' y))"
    "queue_close path B rio io i state at_ms note file = (res, file') \<Longrightarrow> qr_ok res \<Longrightarrow>
      \<not> qs_healthy (scan_queue rio' B (file_append file' y))"
proof -
  assume e: "queue_enqueue path B rio io result q created file = (res, file')" "qr_ok res"
  have m: "may_enqueue B result q created (scan_queue rio B file)" using enqueue_call(2) e by (metis fst_conv)
  with e(1) enqueue_call(1) [of path B rio io result q created "file"]
  have "append_review path io (review_record_of OK_Enqueue (review_ticket_of result q created) (scan_queue rio B file)) file = (res, file')"
    by simp
  from glued_review [OF assms this e(2)] enqueue_fits(1) [OF m] show "\<not> qs_healthy (scan_queue rio' B (file_append file' y))"
    by (simp add: queue_fits_def)
next
  assume c: "queue_close path B rio io i state at_ms note file = (res, file')" "qr_ok res"
  have m: "may_close B i state at_ms note (scan_queue rio B file)" using close_call(2) c by (metis fst_conv)
  with c(1) close_call(1) [of path B rio io i state at_ms "note" "file"]
  have "append_review path io (review_record_of OK_Close (close_ticket_of i state at_ms note) (scan_queue rio B file)) file = (res, file')"
    by simp
  from glued_review [OF assms this c(2)] close_fits(1) [OF m] show "\<not> qs_healthy (scan_queue rio' B (file_append file' y))"
    by (simp add: queue_fits_def)
qed

section \<open>A concrete queue\<close>

definition sample_review :: policy_result where
  "sample_review = \<lparr>pe_status = PS_Decided, pe_decision = PD_HumanReview, pe_risk = PR_Moderate,
     pe_policy_id = kPolicyPrefix @ zero_hash, pe_matched_rule_ids = [], pe_trace = [], pe_trace_truncated = False,
     pe_matched_truncated = False, pe_reason = ''uncertain''\<rparr>"

definition sample_ticket :: review_ticket where
  "sample_ticket = review_ticket_of sample_review sample_policy_request 5"

lemma queue_budget_sel [simp]:
  "qb_max_tickets default_queue_budget = 512" "qb_max_records default_queue_budget = 2048"
  "qb_max_matched_rules default_queue_budget = 32" "qb_max_reason_bytes default_queue_budget = 1024"
  by (simp_all add: default_queue_budget_def)

lemma scan_queue_new [simp]: "scan_queue Read_Ok B None = review_scan_start"
  by (simp add: scan_queue_def)

lemma review_start_sel [simp]:
  "qs_healthy review_scan_start" "qs_next_sequence review_scan_start = 0" "qs_tickets review_scan_start = []"
  "qs_head_sha256 review_scan_start = zero_hash"
  by (simp_all add: review_scan_start_def)

lemma sample_review_may_enter: "may_enqueue default_queue_budget sample_review sample_policy_request 5 review_scan_start"
  by (simp add: may_enqueue_def review_facts_ok_def sample_review_def canonical_id_def prefixed_sha256_def)
    (simp add: sample_policy_request_def valid_text_def printable_def)

lemma ticket_id_length: "length (ticket_id_for t) \<le> 128"
proof -
  have "length (sha256 (canonical_ticket t)) = 64" using is_sha256_sha256 by (simp add: is_sha256_def)
  then show ?thesis by (simp add: ticket_id_for_def kReviewPrefix_def)
qed

lemma review_line_fits:
  assumes "length (ot_ticket_id (ow_ticket r)) \<le> 128" "length (ot_policy_id (ow_ticket r)) \<le> 128"
    "length (ot_subject_id (ow_ticket r)) \<le> 256" "length (ot_slot_id (ow_ticket r)) \<le> 192"
    "length (ot_reason (ow_ticket r)) \<le> 1024" "length (comma_join (ot_matched_rule_ids (ow_ticket r))) \<le> 4096"
    "length (ot_resolution_note (ow_ticket r)) \<le> 64" "is_sha256 (ow_previous r)"
  shows "length (serialize_review (seal_review r)) \<le> kMaxLineBytes"
proof -
  have sha: "length (ow_previous r) = 64" "length (ow_record_sha256 (seal_review r)) = 64"
    using assms(8) is_sha256_sha256 by (simp_all add: is_sha256_def)
  show ?thesis
    using assms(1-7) sha length_dash [of "ot_policy_id (ow_ticket r)"] length_dash [of "ot_resolution_note (ow_ticket r)"]
      length_show_u32 [of "ow_schema_version r"] length_show_u64 [of "ow_sequence r"]
      length_show_u32 [of "review_kind_code (ow_kind r)"] length_show_u32 [of "ucast (ot_capability (ow_ticket r))"]
      length_show_u32 [of "ucast (ot_layer (ow_ticket r))"] length_show_u32 [of "ucast (ot_risk (ow_ticket r))"]
      length_show_u64 [of "ot_created_at (ow_ticket r)"] length_show_u32 [of "review_state_code (ot_state (ow_ticket r))"]
      length_show_u64 [of "ot_resolved_at (ow_ticket r)"]
    by (simp add: serialize_review_def review_fields_def Let_def tab_join_def kMaxLineBytes_def show_u_byte [of "ot_risk (ow_ticket r)"]
        show_u_byte [of "ot_capability (ow_ticket r)"] show_u_byte [of "ot_layer (ow_ticket r)"])
qed

lemma sample_entered:
  obtains res f where "queue_enqueue ''reviews'' default_queue_budget Read_Ok Write_Ok sample_review sample_policy_request 5 None = (res, Some f)"
    "qr_ok res" "sound_queue default_queue_budget (Some f)"
    "map_of (qs_tickets (scan_queue Read_Ok default_queue_budget (Some f))) (ticket_id_for sample_ticket) = Some sample_ticket"
    "qs_next_sequence (scan_queue Read_Ok default_queue_budget (Some f)) = 1"
proof -
  let ?B = default_queue_budget and ?r = "review_record_of OK_Enqueue sample_ticket review_scan_start"
  note m = sample_review_may_enter
  obtain res g where a: "append_review ''reviews'' Write_Ok ?r None = (res, g)" by fastforce
  have "length (serialize_review (seal_review ?r)) \<le> kMaxLineBytes"
    by (rule review_line_fits)
      (simp_all add: review_record_of_def sample_ticket_def ticket_id_length, simp_all add: sample_review_def sample_policy_request_def
        kPolicyPrefix_def zero_hash_def comma_join_def)
  then have ok: "qr_ok res" using append_review_outcome(1) [OF a] by (simp add: has_parent_def)
  have fits: "queue_fits ?B ?r (scan_queue Read_Ok ?B None)"
    using enqueue_fits(1) [of ?B sample_review sample_policy_request 5 Read_Ok None] m by (simp add: sample_ticket_def)
  have "sound_queue ?B None" by (simp add: sound_queue_def terminated_def file_bytes_def)
  from queue_after [OF this a ok fits] obtain u where u: "sound_queue ?B g"
    "apply_review ?B (seal_review ?r) review_scan_start = Inr u" "scan_queue Read_Ok ?B g = advance_review (seal_review ?r) u"
    by auto
  have "u = review_scan_start\<lparr>qs_tickets := [(ticket_id_for sample_ticket, sample_ticket)]\<rparr>"
    using enqueue_fits(2) [of ?B sample_review sample_policy_request 5 Read_Ok None] m u(2) by (simp add: sample_ticket_def)
  moreover obtain f where "g = Some f" using append_review_outcome(2) [OF a ok] by (auto simp: file_append_def)
  moreover have "queue_enqueue ''reviews'' ?B Read_Ok Write_Ok sample_review sample_policy_request 5 None = (res, g)"
    using enqueue_call(1) [of "''reviews''" ?B Read_Ok Write_Ok sample_review sample_policy_request 5 None] m a by (simp add: sample_ticket_def)
  ultimately show thesis using that [of res f] ok u by (simp add: advance_review_def)
qed

lemma sample_closed:
  obtains res f g where "queue_close ''reviews'' default_queue_budget Read_Ok Write_Ok (ticket_id_for sample_ticket) OR_Refused 9 zero_hash (Some f) = (res, Some g)"
    "qr_ok res" "sound_queue default_queue_budget (Some g)"
proof -
  let ?B = default_queue_budget and ?i = "ticket_id_for sample_ticket"
  obtain f where f: "sound_queue ?B (Some f)" "map_of (qs_tickets (scan_queue Read_Ok ?B (Some f))) ?i = Some sample_ticket"
    "qs_next_sequence (scan_queue Read_Ok ?B (Some f)) = 1"
    by (rule sample_entered)
  let ?s = "scan_queue Read_Ok ?B (Some f)"
  let ?r = "review_record_of OK_Close (close_ticket_of ?i OR_Refused 9 zero_hash) ?s"
  have m: "may_close ?B ?i OR_Refused 9 zero_hash ?s"
    using f by (simp add: may_close_def sound_queue_def sample_ticket_def)
  have head: "is_sha256 (qs_head_sha256 ?s)" using f(1) scanned_queue by (simp add: sound_queue_def queue_inv_def)
  obtain res g where a: "append_review ''reviews'' Write_Ok ?r (Some f) = (res, g)" by fastforce
  have "length (serialize_review (seal_review ?r)) \<le> kMaxLineBytes"
    by (rule review_line_fits)
      (simp_all add: review_record_of_def close_ticket_of_def empty_ticket_def ticket_id_length head comma_join_def zero_hash_def)
  then have ok: "qr_ok res" using append_review_outcome(1) [OF a] by (simp add: has_parent_def)
  have "sound_queue ?B g" using queue_after [OF f(1) a ok close_fits(1) [OF m]] by simp
  moreover obtain g' where "g = Some g'" using append_review_outcome(2) [OF a ok] by (auto simp: file_append_def)
  moreover have "queue_close ''reviews'' ?B Read_Ok Write_Ok ?i OR_Refused 9 zero_hash (Some f) = (res, g)"
    using close_call(1) [of "''reviews''" ?B Read_Ok Write_Ok ?i OR_Refused 9 zero_hash "Some f"] m a by simp
  ultimately show thesis using that ok by simp
qed

section \<open>Closed for good\<close>

lemma closed_not_closable:
  assumes "map_of (qs_tickets (scan_queue rio B file)) i = Some t" "ot_state t \<noteq> OR_Pending"
  shows "\<not> qr_ok (fst (queue_close path B rio io i state at_ms note file))"
  by (rule close_call(2)) (use assms in \<open>simp add: may_close_def\<close>)

lemma readable_queue: "qs_healthy (scan_queue rio B file) \<Longrightarrow> scan_queue Read_Ok B file = scan_queue rio B file"
  using scan_queue_accepted [OF scan_queue_healthy] by blast

text \<open>
  C35. Once a closing was confirmed, the ticket is closed for good: whatever bytes are appended to
  the journal and however it is read, the ticket is not closed again, its decision is not entered
  again, and a query answers either that very ticket with the state, the time and the note of the
  closing or, when the journal can no longer be read, nothing.  The journal can be read right after
  the closing if the closing found it ending in a complete line; if it did not, the closing was
  confirmed but glued to the last record, and the journal is unreadable from then on.
\<close>

theorem closed_review_stays_closed:
  assumes "queue_close path B rio io i state at_ms note file = (res, file')" "qr_ok res"
  shows "(if qs_healthy (scan_queue rio' B (file_append file' y))
      then \<exists>t. queue_ticket rio' B i (file_append file' y) = Some t \<and> ot_state t = state \<and> ot_state t \<noteq> OR_Pending \<and>
        ot_resolved_at t = at_ms \<and> ot_resolution_note t = note
      else queue_ticket rio' B i (file_append file' y) = None) \<and>
    \<not> qr_ok (fst (queue_close path' B rio' io' i state' at' note' (file_append file' y))) \<and>
    (ot_ticket_id (review_ticket_of result q created) = i \<longrightarrow>
      \<not> qr_ok (fst (queue_enqueue path' B rio' io' result q created (file_append file' y)))) \<and>
    (terminated file \<longrightarrow> qs_healthy (scan_queue Read_Ok B file')) \<and>
    (\<not> terminated file \<longrightarrow> \<not> qs_healthy (scan_queue rio' B (file_append file' y)))"
proof -
  let ?s = "scan_queue rio B file" and ?c = "close_ticket_of i state at_ms note" and ?t = "scan_queue rio' B (file_append file' y)"
  have m: "may_close B i state at_ms note ?s" using close_call(2) assms by (metis fst_conv)
  then have app: "append_review path io (review_record_of OK_Close ?c ?s) file = (res, file')"
    using close_call(1) [of path B rio io i state at_ms "note" "file"] assms(1) by simp
  note fits = close_fits [OF m]
  have h: "qs_healthy ?s" and pending: "state \<noteq> OR_Pending" using m by (simp_all add: may_close_def)
  have w: "review_writable (review_record_of OK_Close ?c ?s)" using fits(1) by (simp add: queue_fits_def)
  have readable: "qs_healthy (scan_queue Read_Ok B file')" if "terminated file"
  proof -
    have "sound_queue B file" using that h readable_queue [OF h] by (simp add: sound_queue_def)
    from queue_after [OF this app assms(2)] fits(1) readable_queue [OF h] show ?thesis by (auto simp: sound_queue_def)
  qed
  have spoiled: "\<not> qs_healthy ?t" if "\<not> terminated file" by (rule glued_review [OF h that app assms(2) w])
  show ?thesis
  proof (cases "qs_healthy ?t")
    case False
    then have "\<not> qr_ok (fst (queue_close path' B rio' io' i state' at' note' (file_append file' y)))"
      "\<not> qr_ok (fst (queue_enqueue path' B rio' io' result q created (file_append file' y)))"
      by (auto intro!: close_call(2) enqueue_call(2) simp: may_close_def may_enqueue_def)
    with False readable show ?thesis by (simp add: queue_ticket_def)
  next
    case True
    obtain u where u: "apply_review B (seal_review (review_record_of OK_Close ?c ?s)) ?s = Inr u"
      "review_grown (advance_review (seal_review (review_record_of OK_Close ?c ?s)) u) ?t"
      by (rule confirmed_review [OF h app assms(2) w True])
    obtain t where "u = ?s\<lparr>qs_tickets := AList.update i (closed_ticket ?c t) (qs_tickets ?s)\<rparr>"
      using fits(2) u(1) by auto
    then have "map_of (qs_tickets (advance_review (seal_review (review_record_of OK_Close ?c ?s)) u)) i = Some (closed_ticket ?c t)"
      by (simp add: advance_review_def)
    note now = review_grown_closed [OF u(2) this]
    have st: "ot_state (closed_ticket ?c t) = state" "ot_resolved_at (closed_ticket ?c t) = at_ms"
      "ot_resolution_note (closed_ticket ?c t) = note"
      by (simp_all add: close_ticket_of_def)
    note now = now [unfolded st(1), OF pending]
    have "\<not> qr_ok (fst (queue_close path' B rio' io' i state' at' note' (file_append file' y)))"
      by (rule closed_not_closable [OF now]) (use st pending in simp)
    moreover have "\<not> qr_ok (fst (queue_enqueue path' B rio' io' result q created (file_append file' y)))"
      if "ot_ticket_id (review_ticket_of result q created) = i"
      by (rule enqueue_call(2)) (use that now in \<open>simp add: may_enqueue_def\<close>)
    ultimately show ?thesis using now st True pending readable spoiled by (auto simp: queue_ticket_def)
  qed
qed

theorem closed_review_stays_closed_witness:
  "\<exists>i file res file' t. queue_close ''reviews'' default_queue_budget Read_Ok Write_Ok i OR_Refused 9 zero_hash file = (res, file') \<and>
     qr_ok res \<and> queue_ticket Read_Ok default_queue_budget i (file_append file' []) = Some t \<and> ot_state t = OR_Refused"
proof -
  obtain res f g where c: "queue_close ''reviews'' default_queue_budget Read_Ok Write_Ok (ticket_id_for sample_ticket) OR_Refused 9 zero_hash (Some f) = (res, Some g)"
    "qr_ok res" "sound_queue default_queue_budget (Some g)" by (rule sample_closed)
  have "qs_healthy (scan_queue Read_Ok default_queue_budget (file_append (Some g) []))"
    using c(3) by (simp add: sound_queue_def file_append_def)
  then obtain t where "queue_ticket Read_Ok default_queue_budget (ticket_id_for sample_ticket) (file_append (Some g) []) = Some t"
    "ot_state t = OR_Refused"
    using closed_review_stays_closed [OF c(1,2), of Read_Ok "[]", THEN conjunct1] by auto
  with c(1,2) show ?thesis by blast
qed

section \<open>Histories\<close>

datatype queue_call =
    QC_Enqueue io policy_result policy_request u64
  | QC_Close io string review_state u64 string

fun queue_do :: "string \<Rightarrow> queue_budget \<Rightarrow> queue_call \<Rightarrow> string option \<Rightarrow> queue_result \<times> string option" where
  "queue_do path B (QC_Enqueue io result q created) file = queue_enqueue path B Read_Ok io result q created file"
| "queue_do path B (QC_Close io i state at_ms note) file = queue_close path B Read_Ok io i state at_ms note file"

fun queue_io :: "queue_call \<Rightarrow> io" where
  "queue_io (QC_Enqueue io result q created) = io"
| "queue_io (QC_Close io i state at_ms note) = io"

definition queue_files :: "string \<Rightarrow> queue_budget \<Rightarrow> queue_call list \<Rightarrow> string option \<Rightarrow> string option" where
  "queue_files path B cs file = fold (\<lambda>c f. snd (queue_do path B c f)) cs file"

text \<open>Where a ticket comes from and what closed it.\<close>

definition entered_by :: "queue_call list \<Rightarrow> review_ticket \<Rightarrow> bool" where
  "entered_by cs t \<longleftrightarrow> (\<exists>io result q created. QC_Enqueue io result q created \<in> set cs \<and> pe_status result = PS_Decided \<and>
     pe_decision result = PD_HumanReview \<and> t = closed_ticket t (review_ticket_of result q created))"

definition closed_by :: "queue_call list \<Rightarrow> review_ticket \<Rightarrow> bool" where
  "closed_by cs t \<longleftrightarrow> ot_state t = OR_Pending \<or>
     (\<exists>io. QC_Close io (ot_ticket_id t) (ot_state t) (ot_resolved_at t) (ot_resolution_note t) \<in> set cs)"

definition review_traced :: "queue_call list \<Rightarrow> review_scan \<Rightarrow> bool" where
  "review_traced cs s \<longleftrightarrow> (\<forall>i t. map_of (qs_tickets s) i = Some t \<longrightarrow> ot_ticket_id t = i \<and> entered_by cs t \<and> closed_by cs t)"

lemma entered_by_more: "entered_by cs t \<Longrightarrow> entered_by (cs @ ds) t"
  by (fastforce simp: entered_by_def)

lemma closed_by_more: "closed_by cs t \<Longrightarrow> closed_by (cs @ ds) t"
  by (auto simp: closed_by_def)

lemma review_traced_more: "review_traced cs s \<Longrightarrow> review_traced (cs @ ds) s"
  unfolding review_traced_def by (meson entered_by_more closed_by_more)

lemma queue_call_kept:
  assumes "sound_queue B file" "review_traced cs (scan_queue Read_Ok B file)" "clean_io (queue_io c)"
  shows "sound_queue B (snd (queue_do path B c file)) \<and> review_traced (cs @ [c]) (scan_queue Read_Ok B (snd (queue_do path B c file)))"
proof -
  let ?s = "scan_queue Read_Ok B file"
  have appended: "sound_queue B file' \<and> review_traced (cs @ [c]) (scan_queue Read_Ok B file')"
    if a: "append_review path (queue_io c) r file = (res, file')" and f: "queue_fits B r ?s"
      and t: "\<And>u. apply_review B (seal_review r) ?s = Inr u \<Longrightarrow> review_traced (cs @ [c]) u" for r res file'
  proof (cases "qr_ok res")
    case True
    from queue_after [OF assms(1) a True f] t show ?thesis by (auto simp: review_traced_def advance_review_def)
  next
    case False
    from queue_untouched [OF assms(1) append_review_outcome(3) [OF a False assms(3)]] review_traced_more [OF assms(2)]
    show ?thesis by simp
  qed
  show ?thesis
  proof (cases c)
    case (QC_Enqueue io result q created)
    let ?t = "review_ticket_of result q created"
    show ?thesis
    proof (cases "may_enqueue B result q created ?s")
      case True
      obtain res file' where a: "append_review path io (review_record_of OK_Enqueue ?t ?s) file = (res, file')" by fastforce
      have "entered_by (cs @ [c]) ?t"
        unfolding entered_by_def
        by (intro exI [of _ io] exI [of _ result] exI [of _ q] exI [of _ created])
          (use True in \<open>simp add: QC_Enqueue may_enqueue_def\<close>)
      moreover have "closed_by (cs @ [c]) ?t" by (simp add: closed_by_def)
      ultimately have "review_traced (cs @ [c]) (?s\<lparr>qs_tickets := map_emplace (ticket_id_for ?t) ?t (qs_tickets ?s)\<rparr>)"
        using review_traced_more [OF assms(2), of "[c]"] True by (auto simp: review_traced_def map_emplace_lookup may_enqueue_def)
      with appended [of "review_record_of OK_Enqueue ?t ?s" res file'] a enqueue_fits [OF True] True
      show ?thesis by (simp add: QC_Enqueue enqueue_call(1) [of path B Read_Ok io result q created "file"])
    next
      case False
      then have "snd (queue_do path B c file) = file"
        using enqueue_call(1) [of path B Read_Ok io result q created "file"] by (simp add: QC_Enqueue) (metis snd_conv)
      with assms(1) review_traced_more [OF assms(2)] show ?thesis by simp
    qed
  next
    case (QC_Close io i state at_ms memo)
    let ?c = "close_ticket_of i state at_ms memo"
    show ?thesis
    proof (cases "may_close B i state at_ms memo ?s")
      case True
      obtain res file' where a: "append_review path io (review_record_of OK_Close ?c ?s) file = (res, file')" by fastforce
      obtain t where t: "map_of (qs_tickets ?s) i = Some t" "ot_state t = OR_Pending"
        "apply_review B (seal_review (review_record_of OK_Close ?c ?s)) ?s =
           Inr (?s\<lparr>qs_tickets := AList.update i (closed_ticket ?c t) (qs_tickets ?s)\<rparr>)"
        using close_fits(2) [OF True] by blast
      have tt: "ot_ticket_id t = i" "entered_by (cs @ [c]) t"
        using review_traced_more [OF assms(2), of "[c]"] t(1) by (auto simp: review_traced_def)
      have "entered_by (cs @ [c]) (closed_ticket ?c t)"
        using tt(2) unfolding entered_by_def by (metis closed_ticket_idem)
      moreover have "closed_by (cs @ [c]) (closed_ticket ?c t)"
        by (auto simp: closed_by_def QC_Close tt(1) close_ticket_of_def)
      ultimately have "review_traced (cs @ [c]) (?s\<lparr>qs_tickets := AList.update i (closed_ticket ?c t) (qs_tickets ?s)\<rparr>)"
        using review_traced_more [OF assms(2), of "[c]"] tt(1) by (auto simp: review_traced_def)
      with appended [of "review_record_of OK_Close ?c ?s" res file'] a close_fits(1) [OF True] t(3) True
      show ?thesis by (simp add: QC_Close close_call(1) [of path B Read_Ok io i state at_ms memo "file"])
    next
      case False
      then have "snd (queue_do path B c file) = file"
        using close_call(1) [of path B Read_Ok io i state at_ms memo "file"] by (simp add: QC_Close) (metis snd_conv)
      with assms(1) review_traced_more [OF assms(2)] show ?thesis by simp
    qed
  qed
qed

lemma queue_start: "sound_queue B None" "review_traced [] (scan_queue Read_Ok B None)"
  by (simp_all add: sound_queue_def scan_queue_def review_scan_start_def terminated_def file_bytes_def review_traced_def)

lemma queue_history:
  "list_all (\<lambda>c. clean_io (queue_io c)) cs \<Longrightarrow>
   sound_queue B (queue_files path B cs None) \<and> review_traced cs (scan_queue Read_Ok B (queue_files path B cs None))"
proof (induction cs rule: rev_induct)
  case Nil
  then show ?case using queue_start by (simp add: queue_files_def)
next
  case (snoc c cs)
  then show ?case
    using queue_call_kept [of B "queue_files path B cs None" cs c path] by (simp add: queue_files_def)
qed

text \<open>
  C34. In every history of calls on a new journal in which no write is torn, the queue stays
  readable, every ticket in it is exactly what a call entered for a decision that was HUMAN_REVIEW,
  and a ticket that is no longer pending carries the state, the time and the note of a call that
  closed it.
\<close>

theorem reviews_stem_from_human_review:
  assumes "list_all (\<lambda>c. clean_io (queue_io c)) cs"
  shows "qi_healthy (queue_inspect Read_Ok B (queue_files path B cs None)) \<and>
    (\<forall>i t. queue_ticket Read_Ok B i (queue_files path B cs None) = Some t \<longrightarrow>
       ot_ticket_id t = i \<and> entered_by cs t \<and> closed_by cs t)"
  using queue_history [OF assms, of B path]
  by (auto simp: queue_inspect_def queue_ticket_def Let_def sound_queue_def review_traced_def)

theorem reviews_stem_from_human_review_witness:
  "let cs = [QC_Enqueue Write_Ok sample_review sample_policy_request 5];
       file = queue_files ''reviews'' default_queue_budget cs None in
   (\<exists>t. queue_ticket Read_Ok default_queue_budget (ticket_id_for sample_ticket) file = Some t \<and> entered_by cs t) \<and>
   qi_healthy (queue_inspect Read_Ok default_queue_budget file)"
proof -
  let ?B = default_queue_budget and ?cs = "[QC_Enqueue Write_Ok sample_review sample_policy_request 5]"
  obtain res f where e: "queue_enqueue ''reviews'' ?B Read_Ok Write_Ok sample_review sample_policy_request 5 None = (res, Some f)"
    "sound_queue ?B (Some f)" "map_of (qs_tickets (scan_queue Read_Ok ?B (Some f))) (ticket_id_for sample_ticket) = Some sample_ticket"
    by (rule sample_entered)
  have f: "queue_files ''reviews'' ?B ?cs None = Some f" by (simp add: queue_files_def e(1))
  have "queue_ticket Read_Ok ?B (ticket_id_for sample_ticket) (Some f) = Some sample_ticket"
    using e(2,3) by (simp add: queue_ticket_def sound_queue_def)
  with reviews_stem_from_human_review [of ?cs ?B "''reviews''"] show ?thesis
    unfolding Let_def f by (auto simp: clean_io_def)
qed

end
