(* ===== verification/Operator_Console.thy ===== *)
theory Operator_Console
  imports Operator_Queue_History Policy_Registry_Safety Authority_Ledger
begin

text \<open>
  \<open>OperatorConsole\<close> (\<open>src/operator_console.cpp\<close>): one view of the stores, reviews for the active
  policy only, and controls that are issued against the policy that is active at that moment.

  The registry, the session journal and the review queue are the contents of their files; every
  read of one has an outcome of its own.
\<close>

section \<open>Data\<close>

record policy_provenance =
  ap_policy_id :: string
  ap_package_id :: string
  ap_signer_id :: string
  ap_algorithm :: string
  ap_signed_at :: u64

record console_snapshot =
  cn_healthy :: bool
  cn_policy :: registry_snapshot
  cn_active_policy :: "policy_provenance option"
  cn_recovery :: recovery_inspection
  cn_authority :: authority_ledger_inspection
  cn_identities :: identity_inspection
  cn_reviews :: queue_inspection
  cn_errors :: "string list"

record control_request =
  cq_action :: control_action
  cq_policy_id :: string
  cq_actor_reference :: string
  cq_issued_at :: u64
  cq_nonce :: string
  cq_reason :: string

record operator_console =
  oc_registry :: registry_cfg
  oc_registry_file :: "string option"
  oc_journal_file :: "string option"
  oc_authority :: authority_ledger
  oc_identities :: identity_store
  oc_queue_path :: string
  oc_queue_budget :: queue_budget
  oc_queue_file :: "string option"

section \<open>The view\<close>

definition prefixed_errors :: "string \<Rightarrow> string list \<Rightarrow> string list" where
  "prefixed_errors prefix errors = map (\<lambda>e. prefix @ e) errors"

definition provenance_of :: "signed_package \<Rightarrow> policy_provenance" where
  "provenance_of p = \<lparr>ap_policy_id = sp_policy_id p, ap_package_id = sp_package_id p, ap_signer_id = sp_signer_id p,
     ap_algorithm = sp_algorithm p, ap_signed_at = sp_signed_at p\<rparr>"

definition console_snapshot_of ::
    "read_io \<Rightarrow> read_io \<Rightarrow> read_io \<Rightarrow> read_io \<Rightarrow> read_io \<Rightarrow> operator_console \<Rightarrow> console_snapshot" where
  "console_snapshot_of rpolicy rsession rqueue rpackage1 rpackage2 N =
     (let policy = registry_inspect (oc_registry N) rpolicy (oc_registry_file N);
          recovery = journal_inspect rsession (oc_journal_file N);
          authority = al_inspect (oc_authority N);
          identities = store_inspect (oc_identities N);
          reviews = queue_inspect rqueue (oc_queue_budget N) (oc_queue_file N);
          out = \<lparr>cn_healthy = gs_healthy policy \<and> jp_healthy recovery \<and> ali_healthy authority \<and> ii_healthy identities \<and>
              qi_healthy reviews,
            cn_policy = policy, cn_active_policy = None, cn_recovery = recovery, cn_authority = authority,
            cn_identities = identities, cn_reviews = reviews,
            cn_errors = prefixed_errors ''policy: '' (gs_errors policy) @ prefixed_errors ''recovery: '' (jp_errors recovery) @
              prefixed_errors ''authority: '' (ali_errors authority) @ prefixed_errors ''identity: '' (ii_errors identities) @
              prefixed_errors ''review: '' (qi_errors reviews)\<rparr>
      in if gs_healthy policy \<and> gs_active_policy_id policy \<noteq> [] then
           (case registry_package (oc_registry N) rpackage1 rpackage2 (gs_active_policy_id policy) (oc_registry_file N) of
              None \<Rightarrow> out\<lparr>cn_healthy := False,
                cn_errors := cn_errors out @ [''policy: active package provenance could not be reconstructed'']\<rparr>
            | Some p \<Rightarrow> out\<lparr>cn_active_policy := Some (provenance_of p)\<rparr>)
         else out)"

section \<open>Reviews and controls\<close>

definition console_enqueue_review ::
    "read_io \<Rightarrow> read_io \<Rightarrow> io \<Rightarrow> policy_result \<Rightarrow> policy_request \<Rightarrow> u64 \<Rightarrow> operator_console \<Rightarrow> queue_result \<times> operator_console" where
  "console_enqueue_review rpolicy rqueue io result q created N =
     (let policy = registry_inspect (oc_registry N) rpolicy (oc_registry_file N) in
      if \<not> gs_healthy policy then (queue_answer OS_Corrupt ''active policy registry is unhealthy'', N)
      else if gs_active_policy_id policy = [] \<or> gs_active_policy_id policy \<noteq> pe_policy_id result
      then (queue_answer OS_Invalid ''review decision does not belong to the currently active policy'', N)
      else (case queue_enqueue (oc_queue_path N) (oc_queue_budget N) rqueue io result q created (oc_queue_file N) of
              (r, file') \<Rightarrow> (r, N\<lparr>oc_queue_file := file'\<rparr>)))"

definition request_errors :: "bool \<Rightarrow> control_request \<Rightarrow> string list" where
  "request_errors healthy request =
     err (\<not> healthy) ''policy registry is unhealthy'' @
     err (\<not> canonical_id (cq_policy_id request) kPolicyPrefix) ''operator policy_id is invalid'' @
     err (\<not> valid_text (cq_actor_reference request) 256) ''operator actor_reference is invalid'' @
     err (cq_issued_at request = 0) ''operator issued_at_unix_ms must be nonzero'' @
     err (\<not> valid_text (cq_nonce request) 128) ''operator nonce is invalid'' @
     err (\<not> valid_text (cq_reason request) 1024) ''operator reason is invalid''"

definition envelope_of_request :: "control_request \<Rightarrow> signed_package \<Rightarrow> string \<Rightarrow> control_envelope" where
  "envelope_of_request request p active =
     \<lparr>ce_schema_version = 1, ce_action = cq_action request, ce_package_id = sp_package_id p, ce_policy_id = sp_policy_id p,
      ce_expected_active = active, ce_actor_reference = cq_actor_reference request, ce_signer_id = [],
      ce_issued_at = cq_issued_at request, ce_nonce = cq_nonce request, ce_reason_sha256 = sha256 (cq_reason request)\<rparr>"

definition console_issue_control ::
    "read_io \<Rightarrow> read_io \<Rightarrow> read_io \<Rightarrow> control_request \<Rightarrow> authority_signer \<Rightarrow> operator_console \<Rightarrow> string list + signed_control" where
  "console_issue_control rpolicy rpackage1 rpackage2 request signer N =
     (let snapshot = registry_inspect (oc_registry N) rpolicy (oc_registry_file N);
          local = request_errors (gs_healthy snapshot) request
      in if local \<noteq> [] then Inl local
      else case registry_package (oc_registry N) rpackage1 rpackage2 (cq_policy_id request) (oc_registry_file N) of
        None \<Rightarrow> Inl [''operator target policy/package is not registered'']
      | Some p \<Rightarrow> issue_signed_policy_control (envelope_of_request request p (gs_active_policy_id snapshot)) signer)"

definition console_apply_control ::
    "read_io \<Rightarrow> io \<Rightarrow> signed_control \<Rightarrow> operator_console \<Rightarrow> registry_result \<times> operator_console" where
  "console_apply_control rio io c N =
     (case apply_control (oc_registry N) rio io c (oc_registry_file N) of
        (r, file') \<Rightarrow> (r, N\<lparr>oc_registry_file := file'\<rparr>))"

section \<open>What the view and the queue agree on\<close>

text \<open>The view of a readable registry always knows where the active policy comes from.\<close>

lemma snapshot_provenance:
  assumes "active_policy_id (oc_registry N) Read_Ok (oc_registry_file N) \<noteq> []"
  obtains k where "cn_active_policy (console_snapshot_of Read_Ok rsession rqueue Read_Ok Read_Ok N) = Some k"
    "ap_policy_id k = active_policy_id (oc_registry N) Read_Ok (oc_registry_file N)"
    "ap_package_id k = active_package_id (oc_registry N) Read_Ok (oc_registry_file N)"
proof -
  let ?C = "oc_registry N" and ?f = "oc_registry_file N"
  obtain p where p: "registry_package ?C Read_Ok Read_Ok (active_policy_id ?C Read_Ok ?f) ?f = Some p"
    "sp_policy_id p = active_policy_id ?C Read_Ok ?f" "sp_package_id p = active_package_id ?C Read_Ok ?f"
    using active_policy_is_registered [OF assms] by blast
  have a: "gs_healthy (registry_inspect ?C Read_Ok ?f)" "gs_active_policy_id (registry_inspect ?C Read_Ok ?f) = active_policy_id ?C Read_Ok ?f"
    using assms by (simp_all add: registry_inspect_def active_policy_id_def Let_def split: if_splits)
  show thesis
    by (rule that [of "provenance_of p"]) (use p a assms in \<open>simp_all add: console_snapshot_of_def Let_def provenance_of_def\<close>)
qed

text \<open>Only decisions for human review of the policy that is active enter the queue, as pending tickets.\<close>

lemma entered_review_is_pending:
  assumes "console_enqueue_review rpolicy Read_Ok io result q created N = (res, M)" "qr_ok res"
    and "sound_queue (oc_queue_budget N) (oc_queue_file N)"
  shows "pe_decision result = PD_HumanReview" "active_policy_id (oc_registry N) rpolicy (oc_registry_file N) = pe_policy_id result"
    "queue_ticket Read_Ok (oc_queue_budget M) (ot_ticket_id (review_ticket_of result q created)) (oc_queue_file M) =
       Some (review_ticket_of result q created)"
proof -
  let ?B = "oc_queue_budget N" and ?f = "oc_queue_file N" and ?t = "review_ticket_of result q created"
  let ?r = "review_record_of OK_Enqueue ?t (scan_queue Read_Ok ?B ?f)"
  obtain h g where h: "queue_enqueue (oc_queue_path N) ?B Read_Ok io result q created ?f = (h, g)" by fastforce
  have "gs_healthy (registry_inspect (oc_registry N) rpolicy (oc_registry_file N)) \<and>
      gs_active_policy_id (registry_inspect (oc_registry N) rpolicy (oc_registry_file N)) = pe_policy_id result \<and>
      res = h \<and> M = N\<lparr>oc_queue_file := g\<rparr>"
    using assms(1,2) unfolding console_enqueue_review_def Let_def h
    by (auto simp: qr_ok_def queue_answer_def split: if_splits)
  then have g: "queue_enqueue (oc_queue_path N) ?B Read_Ok io result q created ?f = (res, g)" "M = N\<lparr>oc_queue_file := g\<rparr>"
    and a: "active_policy_id (oc_registry N) rpolicy (oc_registry_file N) = pe_policy_id result"
    using h by (simp_all add: registry_inspect_def active_policy_id_def Let_def)
  have m: "may_enqueue ?B result q created (scan_queue Read_Ok ?B ?f)" using enqueue_call(2) g(1) assms(2) by (metis fst_conv)
  have "append_review (oc_queue_path N) io ?r ?f = (res, g)"
    using enqueue_call(1) [of "oc_queue_path N" ?B Read_Ok io result q created ?f] m g(1) by simp
  from queue_after [OF assms(3) this assms(2) enqueue_fits(1) [OF m]] enqueue_fits(2) [OF m] m
  show "queue_ticket Read_Ok (oc_queue_budget M) (ot_ticket_id ?t) (oc_queue_file M) = Some ?t"
    by (auto simp: g(2) queue_ticket_def Let_def sound_queue_def advance_review_def map_emplace_lookup may_enqueue_def)
  show "pe_decision result = PD_HumanReview" using m by (simp add: may_enqueue_def)
  show "active_policy_id (oc_registry N) rpolicy (oc_registry_file N) = pe_policy_id result" by (rule a)
qed

section \<open>Controls\<close>

lemma issued_control:
  assumes "console_issue_control rpolicy rpackage1 rpackage2 request signer N = Inr c"
  shows "gs_healthy (registry_inspect (oc_registry N) rpolicy (oc_registry_file N))"
    "ce_expected_active (pc_envelope c) = gs_active_policy_id (registry_inspect (oc_registry N) rpolicy (oc_registry_file N))"
    "ce_action (pc_envelope c) = cq_action request"
    "\<exists>p. registry_package (oc_registry N) rpackage1 rpackage2 (cq_policy_id request) (oc_registry_file N) = Some p \<and>
       ce_policy_id (pc_envelope c) = sp_policy_id p \<and> ce_package_id (pc_envelope c) = sp_package_id p"
  using assms
  by (auto simp: console_issue_control_def Let_def request_errors_def issue_signed_policy_control_def envelope_of_request_def err_def
      split: if_splits option.splits)

lemma active_of_inspection:
  "gs_healthy (registry_inspect C rio file) \<Longrightarrow>
   gs_active_policy_id (registry_inspect C rio file) = ss_active_policy (registry_state C file)"
  using healthy_state(1) by (simp add: registry_inspect_def Let_def)

lemma found_policy: "find_package_lines ls p = Some k \<Longrightarrow> sp_policy_id k = p"
  by (induction ls) (auto simp: Let_def split: if_splits option.splits)

lemma package_of_policy: "registry_package C rio1 rio2 p file = Some k \<Longrightarrow> sp_policy_id k = p"
  by (auto simp: registry_package_def find_package_def found_policy split: if_splits option.splits)

lemma stale_control_refused:
  assumes "ce_expected_active (pc_envelope c) \<noteq> ss_active_policy (registry_state C file)"
  shows "snd (apply_control C rio io c file) = file" "\<not> gr_ok (fst (apply_control C rio io c file))"
  using apply_control_outcome [of C rio io c "file"] assms by (auto simp: control_refused_None split: prod.splits) (metis fst_conv snd_conv surj_pair)+

lemma accepted_control_moves_active:
  assumes "apply_control C rio io c file = (res, file')" "gr_ok res" "terminated file" "length (pc_signature c) \<le> 8192"
    and "ce_action (pc_envelope c) \<noteq> CA_Revoke \<or> ce_policy_id (pc_envelope c) = ce_expected_active (pc_envelope c)"
  shows "ss_active_policy (registry_state C file') \<noteq> ce_expected_active (pc_envelope c)"
proof -
  let ?e = "pc_envelope c"
  have d: "gr_ok (fst (apply_control C rio io c file))" using assms(1,2) by simp
  have h: "ss_healthy (scan_registry rio (gc_budget C) file)"
    and f: "ce_expected_active ?e = ss_active_policy (registry_state C file)" "control_refused c (registry_state C file) = None"
    using apply_control_outcome [OF assms(1)] assms(2) by (auto simp: control_refused_None)
  note hs = healthy_state [OF h]
  have ne: "ce_policy_id ?e \<noteq> []"
    using apply_control_outcome [OF assms(1)] assms(2) prefixed_not_Nil
    by (auto simp: verify_control_iff control_malformed_def Let_def)
  have a: "active_policy_id C Read_Ok file = ss_active_policy (registry_state C file)"
    using hs(2) by (simp add: active_policy_id_def)
  have "active_policy_id C Read_Ok file' = ss_active_policy (registry_state C file')"
    using control_takes_effect(1) [OF assms(1-4)] by (simp add: active_policy_id_def registry_inspect_def Let_def)
  with control_takes_effect(2) [OF assms(1-4)] a f(1) assms(5) ne f(2) show ?thesis
    by (auto simp: control_refused_None split: if_splits)
qed

text \<open>A control under another policy than the active one is refused, however the file is read.\<close>

lemma stale_console_control:
  assumes "ce_expected_active (pc_envelope c) \<noteq> active_policy_id (oc_registry K) Read_Ok (oc_registry_file K)"
  shows "\<not> gr_ok (fst (console_apply_control rio io c K)) \<and> snd (console_apply_control rio io c K) = K"
proof -
  let ?C = "oc_registry K" and ?f = "oc_registry_file K"
  obtain r g where call: "apply_control ?C rio io c ?f = (r, g)" by fastforce
  have "\<not> gr_ok r \<and> g = ?f"
  proof (cases "ss_healthy (scan_registry rio (gc_budget ?C) ?f)")
    case True
    then have "ss_healthy (registry_state ?C ?f)" by (rule healthy_state(2))
    then have "ce_expected_active (pc_envelope c) \<noteq> ss_active_policy (registry_state ?C ?f)"
      using assms by (simp add: active_policy_id_def Let_def)
    from stale_control_refused [OF this, of rio io] show ?thesis by (simp add: call)
  next
    case False
    then show ?thesis using apply_control_outcome [OF call] by blast
  qed
  then show ?thesis by (simp add: console_apply_control_def call)
qed

text \<open>
  C33. Controls compete for the policy they were issued under.  A control that activates, rolls back
  or revokes the active policy and was accepted (by a registry whose journal ends in a complete
  line) was issued under the policy active until then, and that policy is active no more.  From
  then on every control issued while that policy was active, by whatever operator, on whatever
  view of whatever console, is refused and changes nothing, in every state in which that policy
  is not active again.  (When a later control brings the policy back, an older control issued
  under it can be applied once more: the journal compares the policies, not the generations.)
\<close>

theorem only_one_control_wins:
  assumes "console_issue_control rp1 rp2 rp3 request signer N = Inr c"
    and "console_issue_control rq1 rq2 rq3 other signer' N' = Inr c'"
    and "A = gs_active_policy_id (registry_inspect (oc_registry N) rp1 (oc_registry_file N))"
    and "A = gs_active_policy_id (registry_inspect (oc_registry N') rq1 (oc_registry_file N'))"
    and "cq_action request \<noteq> CA_Revoke \<or> cq_policy_id request = A"
    and "console_apply_control rio io c M = (res, M')" "gr_ok res"
    and "terminated (oc_registry_file M)" "length (pc_signature c) \<le> 8192"
  shows "active_policy_id (oc_registry M) Read_Ok (oc_registry_file M) = A \<and>
    active_policy_id (oc_registry M') Read_Ok (oc_registry_file M') \<noteq> A \<and>
    \<not> gr_ok (fst (console_apply_control rio' io' c' M')) \<and> snd (console_apply_control rio' io' c' M') = M' \<and>
    (active_policy_id (oc_registry K) Read_Ok (oc_registry_file K) \<noteq> A \<longrightarrow>
       \<not> gr_ok (fst (console_apply_control rio' io' c' K)) \<and> snd (console_apply_control rio' io' c' K) = K)"
proof -
  note i = issued_control [OF assms(1)]
  note j = issued_control [OF assms(2)]
  obtain file' where a: "apply_control (oc_registry M) rio io c (oc_registry_file M) = (res, file')" "M' = M\<lparr>oc_registry_file := file'\<rparr>"
    using assms(6) by (auto simp: console_apply_control_def split: prod.splits)
  have e: "ce_expected_active (pc_envelope c) = A" "ce_expected_active (pc_envelope c') = A"
    using i(2) j(2) assms(3,4) by simp_all
  obtain p where p: "registry_package (oc_registry N) rp2 rp3 (cq_policy_id request) (oc_registry_file N) = Some p"
    "ce_policy_id (pc_envelope c) = sp_policy_id p" using i(4) by blast
  have "sp_policy_id p = cq_policy_id request" by (rule package_of_policy [OF p(1)])
  with accepted_control_moves_active [OF a(1) assms(7-9)] assms(5) i(3) p(2) e
  have "ss_active_policy (registry_state (oc_registry M) file') \<noteq> A" by auto
  moreover have "ss_healthy (registry_state (oc_registry M) file')"
    using control_takes_effect(1) [OF a(1) assms(7-9)] by (simp add: registry_inspect_def Let_def)
  ultimately have after: "active_policy_id (oc_registry M') Read_Ok (oc_registry_file M') \<noteq> A"
    by (simp add: a(2) active_policy_id_def Let_def)
  have before: "active_policy_id (oc_registry M) Read_Ok (oc_registry_file M) = A"
    using stale_console_control [of c M rio io] assms(6,7) e(1) by force
  show ?thesis using stale_console_control [of c' M' rio' io'] stale_console_control [of c' K rio' io'] e(2) after before by metis
qed

text \<open>Two operators with one view of a registry that holds one policy.\<close>

definition sample_operator :: authority_signer where
  "sample_operator = \<lparr>sig_signer_id = ''root'', sig_algorithm = ''alg'', sig_sign = (\<lambda>_. Some ''sig'')\<rparr>"

definition sample_control_request :: "string \<Rightarrow> control_request" where
  "sample_control_request nc = \<lparr>cq_action = CA_Activate, cq_policy_id = document_id sample_policy, cq_actor_reference = ''operator'',
     cq_issued_at = 2, cq_nonce = nc, cq_reason = ''rollout''\<rparr>"

definition sample_console :: "string option \<Rightarrow> operator_console" where
  "sample_console file = \<lparr>oc_registry = sample_registry, oc_registry_file = file, oc_journal_file = None,
     oc_authority = al_construct ''ledger'' None True, oc_identities = store_construct default_identity_budget ''ids'' None True True,
     oc_queue_path = ''reviews'', oc_queue_budget = default_queue_budget, oc_queue_file = None\<rparr>"

lemma sample_console_sel [simp]:
  "oc_registry (sample_console file) = sample_registry" "oc_registry_file (sample_console file) = file"
  by (simp_all add: sample_console_def)

lemma sample_issued:
  assumes "ss_healthy (registry_state sample_registry file)" "ss_active_policy (registry_state sample_registry file) = []"
    "map_of (ss_policies (registry_state sample_registry file)) (document_id sample_policy) = Some st" "valid_text nc 128"
  obtains c where "console_issue_control Read_Ok Read_Ok Read_Ok (sample_control_request nc) sample_operator (sample_console file) = Inr c"
    "verify_signed_policy_control c open_verifier = []" "ce_actor_reference (pc_envelope c) = ''operator''"
    "ce_nonce (pc_envelope c) = nc" "pc_signature c = ''sig''"
proof -
  let ?s = "registry_state sample_registry file" and ?p = "st_package st"
  have wf: "linked (map_of (ss_policies ?s)) (map_of (ss_package_to_policy ?s))"
    using registry_wf_scan [OF assms(1)] by (simp add: registry_wf_def)
  have p: "sp_policy_id ?p = document_id sample_policy" "prefixed_sha256 kPackagePrefix (sp_package_id ?p)"
    using linkedD(1) [OF wf assms(3)] by auto
  have h: "gs_healthy (registry_inspect sample_registry Read_Ok file)" "gs_active_policy_id (registry_inspect sample_registry Read_Ok file) = []"
    using assms(1,2) by (simp_all add: registry_inspect_def Let_def)
  have pk: "registry_package sample_registry Read_Ok Read_Ok (document_id sample_policy) file = Some ?p"
    using package_query [OF assms(1)] assms(3) h(1) p(1) linkedD(1) [OF wf assms(3)]
    by (simp add: registry_package_def)
  let ?e = "(envelope_of_request (sample_control_request nc) ?p [])\<lparr>ce_signer_id := ''root''\<rparr>"
  define c0 where "c0 = \<lparr>pc_envelope = ?e, pc_algorithm = ''alg'', pc_envelope_sha256 = sha256 (canonical_policy_control ?e),
    pc_signature = ''sig'', pc_control_id = []\<rparr>"
  define c where "c = c0\<lparr>pc_control_id := control_id_for c0\<rparr>"
  have "request_errors True (sample_control_request nc) = []"
    using assms(4) by (simp add: request_errors_def sample_control_request_def err_def canonical_id_def valid_text_def printable_def)
  then have issue: "console_issue_control Read_Ok Read_Ok Read_Ok (sample_control_request nc) sample_operator (sample_console file) = Inr c"
    using assms(4) p
    by (simp add: console_issue_control_def h pk Let_def issue_signed_policy_control_def sample_operator_def c_def c0_def
        envelope_of_request_def sample_control_request_def err_def valid_text_def printable_def)
  have "control_id_for c = pc_control_id c" by (simp add: c_def control_id_for_def)
  then have "verify_signed_policy_control c open_verifier = []"
    using assms(4) p by (simp add: verify_control_iff control_malformed_def Let_def)
      (simp add: c_def c0_def open_verifier_def envelope_of_request_def sample_control_request_def valid_text_def printable_def)
  with that issue show thesis by (simp add: c_def c0_def envelope_of_request_def sample_control_request_def)
qed

theorem only_one_control_wins_witness:
  "\<exists>N c c' res M'.
     console_issue_control Read_Ok Read_Ok Read_Ok (sample_control_request ''n1'') sample_operator N = Inr c \<and>
     console_issue_control Read_Ok Read_Ok Read_Ok (sample_control_request ''n2'') sample_operator N = Inr c' \<and>
     console_apply_control Read_Ok Write_Ok c N = (res, M') \<and> gr_ok res \<and>
     \<not> gr_ok (fst (console_apply_control Read_Ok Write_Ok c' M'))"
proof -
  let ?C = sample_registry
  obtain f where f: "terminated (Some f)" "ss_healthy (registry_state ?C (Some f))" "ss_next_sequence (registry_state ?C (Some f)) = 1"
    "\<exists>st. map_of (ss_policies (registry_state ?C (Some f))) (document_id sample_policy) = Some st \<and>
       \<not> st_revoked st \<and> \<not> st_ever_active st"
    "map_of (ss_package_to_policy (registry_state ?C (Some f))) (sp_package_id (sample_package ''sig'')) = Some (document_id sample_policy)"
    "ss_used_controls (registry_state ?C (Some f)) = []" "ss_nonce_to_control (registry_state ?C (Some f)) = []"
    "ss_active_policy (registry_state ?C (Some f)) = []"
    by (rule sample_registered)
  obtain st where st: "map_of (ss_policies (registry_state ?C (Some f))) (document_id sample_policy) = Some st" "\<not> st_revoked st"
    using f(4) by blast
  note issue = sample_issued [OF f(2,8) st(1)]
  obtain c where c: "console_issue_control Read_Ok Read_Ok Read_Ok (sample_control_request ''n1'') sample_operator (sample_console (Some f)) = Inr c"
    "verify_signed_policy_control c open_verifier = []" "ce_actor_reference (pc_envelope c) = ''operator''"
    "ce_nonce (pc_envelope c) = ''n1''" "pc_signature c = ''sig''"
    by (rule issue [of "''n1''"]) (simp_all add: valid_text_def printable_def)
  obtain c' where c': "console_issue_control Read_Ok Read_Ok Read_Ok (sample_control_request ''n2'') sample_operator (sample_console (Some f)) = Inr c'"
    by (rule issue [of "''n2''"]) (simp_all add: valid_text_def printable_def)
  note i = issued_control [OF c(1), simplified]
  have wf: "linked (map_of (ss_policies (registry_state ?C (Some f)))) (map_of (ss_package_to_policy (registry_state ?C (Some f))))"
    using registry_wf_scan [OF f(2)] by (simp add: registry_wf_def)
  have pk: "ce_policy_id (pc_envelope c) = document_id sample_policy" "ce_package_id (pc_envelope c) = sp_package_id (st_package st)"
    using i(4) package_query [OF f(2), of "document_id sample_policy"] st(1) linkedD(1) [OF wf st(1)]
    by (auto simp: sample_control_request_def registry_package_def split: if_splits)
  have "control_refused c (registry_state ?C (Some f)) = None"
    using f(6-8) st i(2,3) linkedD(1) [OF wf st(1)] pk active_of_inspection [OF i(1)]
    by (auto simp: control_refused_None sample_control_request_def)
  then obtain res g where a: "apply_control ?C Read_Ok Write_Ok c (Some f) = (res, Some g)" "gr_ok res"
    using control_call [of c ?C "Some f"] c(2-5) f(1-3) by auto
  then have call: "console_apply_control Read_Ok Write_Ok c (sample_console (Some f)) =
      (res, (sample_console (Some f))\<lparr>oc_registry_file := Some g\<rparr>)"
    by (simp add: console_apply_control_def)
  have first: "cq_action (sample_control_request ''n1'') \<noteq> CA_Revoke" by (simp add: sample_control_request_def)
  from only_one_control_wins [OF c(1) c' refl refl disjI1 [OF first] call a(2), of Read_Ok Write_Ok] f(1) c(5)
  have "\<not> gr_ok (fst (console_apply_control Read_Ok Write_Ok c' ((sample_console (Some f))\<lparr>oc_registry_file := Some g\<rparr>)))"
    by simp
  with c(1) c' call a(2) show ?thesis by blast
qed

end
