(* ===== verification/Spec2Isabelle.thy ===== *)
theory Spec2Isabelle
  imports Authority_Ledger_Safety Authority_Ledger_Journal Policy_Registry_Safety
    Symbiosis_Gate Data_Leech_Safety Session_Journal_Samples
    Models_Safety Execution_Dojo Recovery_Safety Operator_Console
begin

text \<open>
  A model of GOLF GUFF, the C++20 sources under \<open>src/\<close> and \<open>include/guff/\<close>: its authority
  core, and the execution core that it guards.

  The core decides whether an operation that can do damage may run.  Signed \<^emph>\<open>receipts\<close> carry
  authority; an \<open>AuthorityLedger\<close> knows the trusted keys, counts uses, records revocations and
  delegations and keeps everything in an append-only, hash-chained journal; an \<open>AuthorityGate\<close>
  stands in front of operations and consumes one use per passage; an \<open>AuthorityDelegator\<close> mints
  narrower child receipts; a \<open>SessionKeyLedger\<close> with its handoff and its own gate lets a
  temporary key act within one delegated receipt; a \<open>RuntimeLeaseLedger\<close> and its gate bind one
  capability of such a key to the device, process, slot and layer it may be used in; runtime
  attestation measures where the process runs, a \<open>RuntimeIdentityStore\<close> remembers and revokes
  what was measured, and a \<open>DeclarativePolicyEngine\<close> decides over all these facts.

  Behind the gates, a router selects a verified local model, the clubhouse resolves an invocation
  to the slot whose contract it meets, the forge calls an executor on that slot within limits, and
  the Zenkai loop tries, observes and verifies within a budget.  An execution session puts these
  together: it opens itself in the session journal, routes, resolves, executes, keeps the outcome
  as an episode in the dojo and closes itself in the journal.  A session that was interrupted is
  dismissed or retried by a recovery decision, which needs a receipt of its own.  Decisions that
  the policy leaves to a human wait in a review queue, and an operator console moves the active
  policy by signed controls.

  \<^bold>\<open>Theories and code.\<close>
  \<^item> \<open>Prelude\<close>: machine integers (\<open>u64\<close>, \<open>u32\<close>), strings, decimal and tab-separated text,
    association lists for \<open>std::unordered_map\<close>.
  \<^item> \<open>Sha256\<close>: \<open>sha256.cpp\<close>, the incremental hash object, shown equal to the padded
    block-by-block function.  SHA-256 itself stays opaque in all later theories: wherever the
    program relies on the absence of collisions, a property names the collision.
  \<^item> \<open>Journal\<close>: the journal code that \<open>authority_ledger.cpp\<close>, \<open>session_key.cpp\<close> and the other
    ledgers each carry a copy of (append, replay, the hash chain), with the locales
    \<open>replayable\<close> (what a reload must do) and \<open>event_journal\<close> (what a ledger must supply for the
    shared replay loop: an encoder, a handler, the meaning of an event), and what they give:
    replay restores the meaning of the recorded events.
  \<^item> \<open>Journal_Runs\<close>: histories of any journalled ledger (locale \<open>journalled_ledger\<close>: every call
    refuses, records one event or loses its append) and counters of one ledger that are paid
    for in another (locale \<open>metered\<close>).
  \<^item> \<open>Authority_Receipt\<close>: \<open>authority_receipt.cpp\<close>, envelopes, their canonical text, issue and
    verification, and the attenuation tests.
  \<^item> \<open>Authority_Receipt_Text\<close>: what the canonical text of a receipt still binds although its free
    text may hold line breaks.  Fields can be shifted into one another, but the text, read from
    its end, fixes the signed budget \<open>max_uses\<close>.
  \<^item> \<open>Authority_Ledger\<close>: \<open>authority_ledger.cpp\<close>, state, events and every operation.
    \<open>Authority_Ledger_Calls\<close> reduces each operation to refusal, recorded event or failed append;
    \<open>Authority_Ledger_Runs\<close> defines histories and their invariant; \<open>Authority_Ledger_Samples\<close>
    holds concrete histories; \<open>Authority_Ledger_Safety\<close> and \<open>Authority_Ledger_Journal\<close> hold the
    properties.
  \<^item> \<open>Authority_Delegation\<close> and \<open>Authority_Gate\<close>: \<open>authority_delegation.cpp\<close> and the \<open>authorize\<close>
    function of \<open>authority_gate.cpp\<close>.
  \<^item> \<open>Session_Key\<close> (data and verification), \<open>Session_Key_Ledger\<close> (the ledger), \<open>Session_Key_Runs\<close>
    (histories), \<open>Session_Key_Handoff\<close> (\<open>AuthoritySessionKeyHandoff\<close> and
    \<open>SessionKeyAuthorityGate\<close>), \<open>Session_Key_Issue\<close>, \<open>Session_Key_Safety\<close> and \<open>Session_Key_Gate\<close>
    (properties, the last of the two ledgers together): \<open>session_key.cpp\<close>.
  \<^item> \<open>Reality\<close>: \<open>reality.cpp\<close>, the layers and coordinates, with \<open>double\<close> values.
  \<^item> \<open>Runtime_Lease\<close> (data, validation, issue), \<open>Runtime_Lease_Ledger\<close>, \<open>Runtime_Lease_Runs\<close>
    (histories), \<open>Runtime_Lease_Issue\<close> and \<open>Runtime_Lease_Gate\<close> (properties, the last of the three
    ledgers together): \<open>runtime_lease.cpp\<close>.
  \<^item> \<open>Runtime_Attestation\<close>, \<open>Runtime_Attestation_Safety\<close>: \<open>runtime_attestation.cpp\<close>, on Linux.
  \<^item> \<open>Runtime_Identity_Store\<close>, \<open>Runtime_Identity_Runs\<close> (histories), \<open>Runtime_Identity_Safety\<close>
    (properties): \<open>runtime_identity_store.cpp\<close>.
  \<^item> \<open>Policy_Engine\<close>, \<open>Policy_Safety\<close> (lemmas), \<open>Policy_Properties\<close>: \<open>policy_engine.cpp\<close>.
  \<^item> \<open>Line_Journal\<close>: files that are read line by line into a state and grow by lines (locales
    \<open>line_scan\<close>, \<open>line_invariant\<close>): a file accepted before and after bytes were added continues
    the earlier scan, and a record written behind a last line without newline spoils the file.
  \<^item> \<open>Policy_Registry\<close>, \<open>Policy_Registry_Scan\<close> (what any accepted journal
    satisfies), \<open>Policy_Registry_Runs\<close> (histories), \<open>Policy_Registry_Safety\<close>
    (properties): \<open>policy_registry.cpp\<close> and \<open>policy_registry_query.cpp\<close>, which signed policy
    is active.
  \<^item> \<open>Data_Leech\<close>, \<open>Data_Leech_Safety\<close>: \<open>data_leech.cpp\<close>, what may be read under a source grant,
    slicing, and the bounded context arena.
  \<^item> \<open>Symbiosis_Ledger\<close>, \<open>Symbiosis_Runs\<close> (calls as events), \<open>Symbiosis_Replay\<close> (a line replays
    to its event), \<open>Symbiosis_Safety\<close> (properties; locale \<open>sym_invariant\<close>):
    \<open>symbiosis_ledger.cpp\<close>, grants to sources, observation stamps and memories.
  \<^item> \<open>Session_Journal\<close>, \<open>Session_Journal_Scan\<close> (an accepted file is a log of records,
    \<open>session_log\<close>), \<open>Session_Journal_Safety\<close> and \<open>Session_Journal_History\<close> (properties),
    \<open>Session_Journal_Samples\<close>: \<open>session_journal.cpp\<close>, begun, ended and interrupted sessions.
  \<^item> \<open>Symbiosis_Gate\<close>: the wrapper of \<open>authority_gate.cpp\<close> that lets a persistent source grant
    be created only with a receipt for its scope.
  \<^item> \<open>Clubhouse\<close>, \<open>Clubhouse_Registry\<close>: \<open>clubhouse.cpp\<close>, slot manifests, the registry that holds
    them under their names, and what a capability resolves to.
  \<^item> \<open>Zenkai\<close>, \<open>Zenkai_Safety\<close>: \<open>zenkai.cpp\<close>, the attempt loop with its budgets; the attempt
    function is the callback of the code, with a world of its own.
  \<^item> \<open>Forge\<close>: \<open>forge.cpp\<close>, the output sink with its limit and how the report of an executor is
    judged; the executor is a parameter.
  \<^item> \<open>Caddy\<close>: \<open>caddy.cpp\<close>, \<open>recursor.cpp\<close>, \<open>route_trace.cpp\<close>: the route of a task and the bounded
    recursion, on \<open>double\<close> values that may be NaN.
  \<^item> \<open>Models\<close>, \<open>Models_Safety\<close>: \<open>model_manifest.cpp\<close> and \<open>model_registry.cpp\<close>, the identity of a
    model and the check of its files.
  \<^item> \<open>Router\<close>: \<open>caddy_router.cpp\<close>, the gates a candidate model has to pass and the selection of
    the first, over the ranked list of the scorecard.
  \<^item> \<open>Dojo\<close> (episodes, their identity, their lines, the store and its queries, the JSON export),
    \<open>Dojo_Store\<close> (histories and properties): \<open>dojo.cpp\<close>.
  \<^item> \<open>Execution_Session\<close>: \<open>execution_session.cpp\<close>, the whole of \<open>run\<close>; the executor, the planner
    of retries, the verifier and the collector of artifacts are callbacks and act on one world.
    \<open>Execution_Safety\<close> holds the bounds of a result and the locale \<open>result_invariant\<close>: what every
    step of a run keeps, the run keeps.  \<open>Execution_Contract\<close> says when a run may execute and that
    retries stay in the contract, \<open>Execution_Journal\<close> what a run leaves in the journal and in the
    dojo, \<open>Execution_Dojo\<close> where the bounds of requests and episodes do not meet.
  \<^item> \<open>Recovery_Protocol\<close>, \<open>Recovery_Safety\<close>: \<open>recovery_protocol.cpp\<close> and the gated execution
    session of \<open>authority_gate.cpp\<close>.  \<open>Authority_Gate_Samples\<close>: receipts for the concrete cases.
  \<^item> \<open>Comma_Lists\<close>: lists written with commas, for tags and rule identities.  \<open>Operator_Queue\<close>,
    \<open>Operator_Queue_Scan\<close> (a written record is read back), \<open>Operator_Queue_Safety\<close> (what any
    accepted journal satisfies), \<open>Operator_Queue_History\<close> (calls and histories) and
    \<open>Operator_Console\<close>: \<open>operator_console.cpp\<close>, the queue of decisions that wait for a human and
    the console that issues policy controls against the policy active at that moment.

  \<^bold>\<open>How the code is represented.\<close>  Structs are records, enumerations datatypes, 64 and 32 bit
  integers are words (\<open>std::size_t\<close> is \<open>u64\<close>), strings are character lists.  A method that
  changes its object takes the state and returns it with the result.  What the program reads
  from outside is an argument: the clock (\<open>now\<close>), the answer of the file system to an append
  (\<open>io\<close>: success, a failure before writing, or a write that stops after some bytes), whether a
  file opens.  Signers and verifiers are abstract classes in the code and records of functions
  here; nothing is assumed about them unless a property says so.

  \<^bold>\<open>Histories.\<close>  \<open>al_run\<close>, \<open>session_run\<close>, \<open>lease_run\<close>, \<open>identity_run\<close> and, for ledgers
  together, \<open>key_run\<close> and \<open>lease_joint_run\<close> are all sequences of calls on ledgers that start over absent files, each call with its own clock reading and file system answer, torn
  writes excepted (\<open>clean_io\<close>).  Where the program is weaker without such a condition, a lemma
  shows it: after a torn write the next revocation of a grant is lost
  (\<open>torn_append_loses_the_next_revocation\<close>), and an identity store that cannot determine at a
  restart whether its journal exists starts empty (\<open>uninspected_journal_is_forgotten\<close>).  The
  properties of the journals that are scanned line by line quantify over any bytes appended
  instead of over histories, and distinguish whether the file ended in a complete line.

  \<^bold>\<open>Bounds.\<close>  The climb over ancestors is the code's nine steps; \<open>ancestor_revoked_exact\<close> shows
  that nine are enough for every chain the ledger can register.  \<open>stream_tokens\<close>
  (reading \<open>/proc/self/stat\<close>), \<open>split_tabs\<close> and \<open>getlines\<close> end because the text gets shorter.  All
  other recursion is structural.

  \<^bold>\<open>Not modelled.\<close>  Threads (the ledgers are not synchronised in the code either), the
  permission bits and directory entries of files, callbacks other than the executor that throw,
  \<open>std::filesystem::exists\<close> throwing in the dojo, and the parts of the program listed as such
  in the manifest: child processes, pipes and inference through them, the gates and receipts of
  releases, the stored scorecards, the benchmark probe, the replay proof, the artifact vault, and the programs that parse
  arguments and print.
\<close>

end
